(* ===== verification/Prelude.thy ===== *)
theory Prelude
  imports Main
begin

text \<open>
  The shared vocabulary of the development.

  Go's values are rendered as follows: a pointer that may be nil is an \<open>option\<close>, a
  \<open>(value, error)\<close> return is a sum \<open>string + 'a\<close> whose left side is the error text, a
  \<open>map[string]T\<close> is a map \<open>string \<rightharpoonup> T\<close>, an \<open>int\<close>, \<open>int32\<close>, \<open>int64\<close> or
  \<open>time.Duration\<close> that the code only compares, increments within a small bound or prints
  is an \<open>int\<close>, and a time is the number of nanoseconds since the epoch.  Formatting with
  \<open>%d\<close> is \<open>itoa\<close>, formatting with \<open>%q\<close> is \<open>quoted\<close> (for printable text
  without quotes or backslashes, the only text the code formats that way).

  The collections below gather the facts that the component theories hand to the simplifier:
  \<open>plan_simps\<close> for the shape of plans, \<open>frame_simps\<close> for the fields an operation
  leaves alone.
\<close>

named_theorems plan_simps
named_theorems frame_simps

type_synonym error = string
type_synonym 'a result = "error + 'a"
type_synonym go_time = int
type_synonym duration = int

abbreviation Err :: "error \<Rightarrow> 'a result" where
  "Err e \<equiv> Inl e"

abbreviation Ok :: "'a \<Rightarrow> 'a result" where
  "Ok x \<equiv> Inr x"

definition bind_result :: "'a result \<Rightarrow> ('a \<Rightarrow> 'b result) \<Rightarrow> 'b result" where
  "bind_result r f = (case r of Inl e \<Rightarrow> Inl e | Inr x \<Rightarrow> f x)"

lemma bind_result_simps [simp]:
  "bind_result (Inl e) f = Inl e"
  "bind_result (Inr x) f = f x"
  by (simp_all add: bind_result_def)

lemma bind_result_eq_Inr:
  "bind_result r f = Inr y \<longleftrightarrow> (\<exists>x. r = Inr x \<and> f x = Inr y)"
  by (cases r) simp_all

subsection \<open>Printing numbers\<close>

fun show_nat :: "nat \<Rightarrow> string" where
  "show_nat n = (if n < 10 then [char_of (48 + n)] else show_nat (n div 10) @ [char_of (48 + n mod 10)])"

declare show_nat.simps [simp del]

definition itoa :: "int \<Rightarrow> string" where
  "itoa i = (if i < 0 then ''-'' @ show_nat (nat (- i)) else show_nat (nat i))"

definition quoted :: "string \<Rightarrow> string" where
  "quoted s = CHR 0x22 # s @ [CHR 0x22]"

lemma show_nat_nonempty [simp]: "show_nat n \<noteq> []"
  by (subst show_nat.simps) simp

subsection \<open>Strings\<close>

text \<open>\<open>strings.Contains\<close> and \<open>strings.Join\<close>.\<close>

fun has_prefix :: "string \<Rightarrow> string \<Rightarrow> bool" where
  "has_prefix s [] = True"
| "has_prefix [] (c # p) = False"
| "has_prefix (d # s) (c # p) = (d = c \<and> has_prefix s p)"

fun contains_str :: "string \<Rightarrow> string \<Rightarrow> bool" where
  "contains_str [] p = (p = [])"
| "contains_str (c # s) p = (has_prefix (c # s) p \<or> contains_str s p)"

fun join :: "string list \<Rightarrow> string \<Rightarrow> string" where
  "join [] sep = []"
| "join [x] sep = x"
| "join (x # y # xs) sep = x @ sep @ join (y # xs) sep"

lemma has_prefix_append [simp]: "has_prefix (p @ s) p"
  by (induction p) auto

lemma contains_str_prefix: "has_prefix s p \<Longrightarrow> contains_str s p"
  by (cases s; cases p) auto

lemma contains_str_append: "contains_str (p @ s) p"
  by (rule contains_str_prefix) simp

subsection \<open>Lists\<close>

text \<open>\<open>find_index p xs\<close> is the index of the first element that satisfies \<open>p\<close>, the
  shape of every Go loop that scans a slice and stops at the first hit.\<close>

fun find_index :: "('a \<Rightarrow> bool) \<Rightarrow> 'a list \<Rightarrow> nat option" where
  "find_index p [] = None"
| "find_index p (x # xs) = (if p x then Some 0 else map_option Suc (find_index p xs))"

lemma find_index_Some:
  "find_index p xs = Some i \<longleftrightarrow> i < length xs \<and> p (xs ! i) \<and> (\<forall>j < i. \<not> p (xs ! j))"
proof (induction xs arbitrary: i)
  case Nil
  then show ?case by simp
next
  case (Cons x xs)
  show ?case
  proof (cases i)
    case 0
    then show ?thesis by auto
  next
    case (Suc k)
    have all: "(\<forall>j < Suc k. \<not> p ((x # xs) ! j)) \<longleftrightarrow> \<not> p x \<and> (\<forall>j < k. \<not> p (xs ! j))"
      by (simp add: All_less_Suc2)
    show ?thesis unfolding Suc all using Cons.IH[of k] by auto
  qed
qed

lemma find_index_None: "find_index p xs = None \<longleftrightarrow> (\<forall>x \<in> set xs. \<not> p x)"
  by (induction xs) auto

lemma find_index_lt: "find_index p xs = Some i \<Longrightarrow> i < length xs"
  by (simp add: find_index_Some)

text \<open>\<open>before x y xs\<close>: \<open>x\<close> and \<open>y\<close> occur in \<open>xs\<close>, and every
  occurrence of \<open>y\<close> has an \<open>x\<close> somewhere before it.\<close>

fun before :: "'a \<Rightarrow> 'a \<Rightarrow> 'a list \<Rightarrow> bool" where
  "before x y [] = False"
| "before x y (z # zs) = (if z = y then False else if z = x then y \<in> set zs else before x y zs)"

lemma before_in_set: "before x y xs \<Longrightarrow> x \<in> set xs \<and> y \<in> set xs"
  by (induction xs) (auto split: if_splits)

lemma before_split:
  "before x y xs \<Longrightarrow> \<exists>us vs ws. xs = us @ x # vs @ y # ws \<and> y \<notin> set us \<and> x \<noteq> y"
proof (induction xs)
  case Nil
  then show ?case by simp
next
  case (Cons z zs)
  show ?case
  proof (cases "z = x")
    case True
    with Cons.prems have "y \<in> set zs" and "x \<noteq> y" by (auto split: if_splits)
    then obtain vs ws where "zs = vs @ y # ws" by (auto dest: split_list)
    with True \<open>x \<noteq> y\<close> have "z # zs = [] @ x # vs @ y # ws \<and> y \<notin> set [] \<and> x \<noteq> y" by simp
    then show ?thesis by blast
  next
    case False
    with Cons.prems have "z \<noteq> y" and b: "before x y zs" by (auto split: if_splits)
    from Cons.IH[OF b] obtain us vs ws
      where "zs = us @ x # vs @ y # ws" "y \<notin> set us" "x \<noteq> y" by blast
    with \<open>z \<noteq> y\<close> have "z # zs = (z # us) @ x # vs @ y # ws \<and> y \<notin> set (z # us) \<and> x \<noteq> y"
      by simp
    then show ?thesis by blast
  qed
qed

subsection \<open>Loops that may fail\<close>

text \<open>\<open>map_result f xs\<close> runs \<open>f\<close> on every element and stops at the first error:
  the Go loop \<open>for i, x := range xs { y, err := f(x); if err != nil { return err }; ... }\<close>.\<close>

fun map_result :: "('a \<Rightarrow> 'b result) \<Rightarrow> 'a list \<Rightarrow> 'b list result" where
  "map_result f [] = Ok []"
| "map_result f (x # xs) =
     (case f x of Inl e \<Rightarrow> Err e
      | Inr y \<Rightarrow> (case map_result f xs of Inl e \<Rightarrow> Err e | Inr ys \<Rightarrow> Ok (y # ys)))"

lemma map_result_map:
  "map_result f xs = Inr ys \<Longrightarrow> (\<And>x y. x \<in> set xs \<Longrightarrow> f x = Inr y \<Longrightarrow> g y = h x) \<Longrightarrow> map g ys = map h xs"
  by (induction xs arbitrary: ys) (auto split: sum.splits)

lemma map_result_length: "map_result f xs = Inr ys \<Longrightarrow> length ys = length xs"
  by (induction xs arbitrary: ys) (auto split: sum.splits)

lemma map_result_set:
  "map_result f xs = Inr ys \<Longrightarrow> y \<in> set ys \<Longrightarrow> \<exists>x \<in> set xs. f x = Inr y"
  by (induction xs arbitrary: ys) (auto split: sum.splits)

lemma map_result_total:
  "(\<And>x. x \<in> set xs \<Longrightarrow> \<exists>y. f x = Inr y) \<Longrightarrow> \<exists>ys. map_result f xs = Inr ys"
proof (induction xs)
  case Nil
  then show ?case by simp
next
  case (Cons x xs)
  then obtain y where "f x = Inr y" by auto
  moreover from Cons obtain ys where "map_result f xs = Inr ys" by auto
  ultimately show ?case by simp
qed

end
