(* ===== verification/Conditions.thy ===== *)
theory Conditions
  imports Prelude
begin

text \<open>
  Status conditions.  \<open>metav1.Condition\<close> and the helpers
  \<open>meta.FindStatusCondition\<close> and \<open>meta.SetStatusCondition\<close> belong to the Kubernetes
  apimachinery library, which is not part of the repository: the record below is the data the
  repository stores in its statuses, and the two helpers are parameters of every definition that
  calls them.  The locale \<open>status_conditions\<close> names what their documentation promises; the
  interpretation at the end shows that the promise can be kept by the documented list algorithm.
\<close>

datatype condition_status = ConditionTrue | ConditionFalse | ConditionUnknown

record condition =
  cond_Type :: string
  cond_Status :: condition_status
  cond_Reason :: string
  cond_Message :: string
  cond_ObservedGeneration :: int
  cond_LastTransitionTime :: go_time

abbreviation mk_condition ::
  "string \<Rightarrow> condition_status \<Rightarrow> string \<Rightarrow> string \<Rightarrow> int \<Rightarrow> condition" where
  "mk_condition ty st re ms gen \<equiv>
     \<lparr>cond_Type = ty, cond_Status = st, cond_Reason = re, cond_Message = ms,
      cond_ObservedGeneration = gen, cond_LastTransitionTime = 0\<rparr>"

type_synonym find_cond = "condition list \<Rightarrow> string \<Rightarrow> condition option"
type_synonym set_cond = "condition list \<Rightarrow> condition \<Rightarrow> condition list"

locale status_conditions =
  fixes find_cond :: find_cond
    and set_cond :: set_cond
  assumes find_set_same:
      "\<exists>t. find_cond (set_cond cs c) (cond_Type c) = Some (c\<lparr>cond_LastTransitionTime := t\<rparr>)"
    and find_set_other: "ty \<noteq> cond_Type c \<Longrightarrow> find_cond (set_cond cs c) ty = find_cond cs ty"
begin

text \<open>What a client reads back: the status, reason, message and generation it stored.\<close>

definition has_cond :: "condition list \<Rightarrow> string \<Rightarrow> condition_status \<Rightarrow> string \<Rightarrow> bool" where
  "has_cond cs ty st re \<longleftrightarrow>
     (\<exists>c. find_cond cs ty = Some c \<and> cond_Status c = st \<and> cond_Reason c = re)"

lemma find_after_set:
  "\<exists>c'. find_cond (set_cond cs c) (cond_Type c) = Some c' \<and> cond_Status c' = cond_Status c \<and>
        cond_Reason c' = cond_Reason c \<and> cond_Message c' = cond_Message c \<and>
        cond_ObservedGeneration c' = cond_ObservedGeneration c"
  using find_set_same[of cs c] by fastforce

lemma find_after_setE:
  assumes "find_cond (set_cond cs c) ty = Some c'" and "cond_Type c = ty"
  obtains "cond_Status c' = cond_Status c" "cond_Reason c' = cond_Reason c"
    "cond_Message c' = cond_Message c"
  using find_after_set[of cs c] assms by auto

end

subsection \<open>The documented algorithm\<close>

text \<open>
  The apimachinery documentation: \<open>FindStatusCondition\<close> returns the first condition of the
  type; \<open>SetStatusCondition\<close> appends the condition when its type is absent and otherwise
  changes the existing one, moving its transition time only when the status changes.  Witnesses
  evaluate the model with these two functions.
\<close>

definition ref_find_cond :: find_cond where
  "ref_find_cond cs ty = find (\<lambda>c. cond_Type c = ty) cs"

fun ref_set_cond :: "go_time \<Rightarrow> set_cond" where
  "ref_set_cond now [] c = [c\<lparr>cond_LastTransitionTime := now\<rparr>]"
| "ref_set_cond now (d # ds) c =
     (if cond_Type d = cond_Type c
      then c\<lparr>cond_LastTransitionTime :=
               (if cond_Status d = cond_Status c then cond_LastTransitionTime d else now)\<rparr> # ds
      else d # ref_set_cond now ds c)"

lemma ref_find_set_same:
  "\<exists>t. ref_find_cond (ref_set_cond now cs c) (cond_Type c) = Some (c\<lparr>cond_LastTransitionTime := t\<rparr>)"
  unfolding ref_find_cond_def by (induction cs) auto

lemma ref_find_set_other:
  "ty \<noteq> cond_Type c \<Longrightarrow> ref_find_cond (ref_set_cond now cs c) ty = ref_find_cond cs ty"
  unfolding ref_find_cond_def by (induction cs) auto

interpretation ref_conditions: status_conditions ref_find_cond "ref_set_cond now"
  by unfold_locales (simp_all add: ref_find_set_same ref_find_set_other)

end
