(* ===== verification/Json.thy ===== *)
theory Json
  imports Prelude
begin

text \<open>
  JSON and TOML trees: what \<open>encoding/json\<close> decodes into \<open>any\<close> with \<open>UseNumber\<close>
  (a number keeps its token), and what the config-patch task carries.  A Go map has no iteration
  order; here an object is an association list, and a theorem that holds for every list holds for
  every order in which Go may visit the map.  A decoded object has distinct keys
  (\<open>json_wf\<close>).
\<close>

datatype json =
    JNull
  | JBool bool
  | JNumber string
  | JString string
  | JArray "json list"
  | JObject "(string \<times> json) list"

type_synonym table = "(string \<times> json) list"
type_synonym files = "(string \<times> table) list"

fun json_wf :: "json \<Rightarrow> bool" where
  "json_wf (JObject kvs) = (distinct (map fst kvs) \<and> (\<forall>kv \<in> set kvs. json_wf (snd kv)))"
| "json_wf (JArray js) = (\<forall>j \<in> set js. json_wf j)"
| "json_wf _ = True"

definition table_wf :: "table \<Rightarrow> bool" where
  "table_wf t \<longleftrightarrow> json_wf (JObject t)"

text \<open>Go's \<open>m[k] = v\<close> on a map, as an association list.\<close>

fun put :: "'k \<Rightarrow> 'v \<Rightarrow> ('k \<times> 'v) list \<Rightarrow> ('k \<times> 'v) list" where
  "put k v [] = [(k, v)]"
| "put k v ((k', v') # kvs) = (if k' = k then (k, v) # kvs else (k', v') # put k v kvs)"

lemma map_of_put [simp]: "map_of (put k v kvs) = (map_of kvs)(k \<mapsto> v)"
  by (induction kvs) auto

lemma map_fst_put:
  "map fst (put k v kvs) = (if k \<in> set (map fst kvs) then map fst kvs else map fst kvs @ [k])"
  by (induction kvs) (auto, force)

lemma distinct_put: "distinct (map fst kvs) \<Longrightarrow> distinct (map fst (put k v kvs))"
  unfolding map_fst_put by simp

text \<open>Following a path of keys through nested objects, as a reader of the merged file would.\<close>

fun json_at :: "json \<Rightarrow> string list \<Rightarrow> json option" where
  "json_at j [] = Some j"
| "json_at (JObject kvs) (k # ks) =
     (case map_of kvs k of None \<Rightarrow> None | Some j \<Rightarrow> json_at j ks)"
| "json_at _ (k # ks) = None"

lemma json_at_append:
  "json_at j (p @ q) = (case json_at j p of None \<Rightarrow> None | Some j' \<Rightarrow> json_at j' q)"
  by (induction j p rule: json_at.induct) (auto split: option.splits)

end
