(* ===== verification/RequestTypes.thy ===== *)
theory RequestTypes
  imports Json
begin

text \<open>
  The typed requests for transaction and genesis-assembly tasks (\<open>sidecarapi/client/tasks.go\<close>,
  \<open>sidecarapi/wire/wire.go\<close>) with their \<open>Validate\<close> methods.  \<open>bech32.Decode\<close> (btcutil) and the
  value of \<open>time.ParseDuration\<close> are arguments.  A raw JSON message is the document it holds, or
  \<open>None\<close> when it is empty.
\<close>

type_synonym bech32_decode = "string \<Rightarrow> string result"
type_synonym parse_duration = "string \<Rightarrow> duration result"

subsection \<open>Requests\<close>

record GenesisAccountVesting =
  gav_Amount :: string
  gav_EndTime :: int
  gav_Delayed :: bool

record GenesisAccountEntry =
  gae_Address :: string
  gae_Balance :: string
  gae_Vesting :: "GenesisAccountVesting option"

record AutobahnConfigParams =
  abc_BlockInterval :: string
  abc_AllowEmptyBlocks :: "bool option"
  abc_MaxTxsPerBlock :: "int option"
  abc_EnableEvmProxy :: "bool option"

record AssembleAndUploadGenesisTask =
  agt_AccountBalance :: string
  agt_Namespace :: string
  agt_Nodes :: "string list"
  agt_Accounts :: "GenesisAccountEntry list"
  agt_Overrides :: table
  agt_ConsensusParams :: "json option"
  agt_Autobahn :: bool
  agt_AutobahnConfig :: "AutobahnConfigParams option"

record GovVoteTask =
  gv_ChainID :: string
  gv_KeyName :: string
  gv_ProposalID :: nat
  gv_Option :: string
  gv_Memo :: string
  gv_Fees :: string
  gv_Gas :: nat

record UnjailTask =
  uj_ChainID :: string
  uj_KeyName :: string
  uj_Memo :: string
  uj_Fees :: string
  uj_Gas :: nat

record GovSoftwareUpgradeTask =
  gsu_ChainID :: string
  gsu_KeyName :: string
  gsu_Title :: string
  gsu_Description :: string
  gsu_UpgradeName :: string
  gsu_UpgradeHeight :: int
  gsu_UpgradeInfo :: string
  gsu_InitialDeposit :: string
  gsu_Memo :: string
  gsu_Fees :: string
  gsu_Gas :: nat

record ParamChangeInput =
  pci_Subspace :: string
  pci_Key :: string
  pci_Value :: "json option"

record GovParamChangeTask =
  gpc_ChainID :: string
  gpc_KeyName :: string
  gpc_Title :: string
  gpc_Description :: string
  gpc_Changes :: "ParamChangeInput list"
  gpc_InitialDeposit :: string
  gpc_Memo :: string
  gpc_Fees :: string
  gpc_Gas :: nat

record InstantiateConfigUpdateInput =
  icu_CodeID :: nat
  icu_Permission :: string

record GovUpdateInstantiateConfigTask =
  guc_ChainID :: string
  guc_KeyName :: string
  guc_Title :: string
  guc_Description :: string
  guc_Updates :: "InstantiateConfigUpdateInput list"
  guc_InitialDeposit :: string
  guc_Memo :: string
  guc_Fees :: string
  guc_Gas :: nat

subsection \<open>Validation\<close>

text \<open>The first check that fails.\<close>

fun first_error :: "(bool \<times> error) list \<Rightarrow> error option" where
  "first_error [] = None"
| "first_error ((bad, e) # cs) = (if bad then Some e else first_error cs)"

lemma first_error_None: "first_error cs = None \<longleftrightarrow> (\<forall>(bad, e) \<in> set cs. \<not> bad)"
  by (induction cs rule: first_error.induct) auto

definition or_else :: "error option \<Rightarrow> error option \<Rightarrow> error option" where
  "or_else a b = (case a of Some e \<Rightarrow> Some e | None \<Rightarrow> b)"

lemma or_else_None [simp]: "or_else a b = None \<longleftrightarrow> a = None \<and> b = None"
  by (cases a) (simp_all add: or_else_def)

definition seiBech32HRP :: string where "seiBech32HRP = ''sei''"

definition validateSeiAccountAddress :: "bech32_decode \<Rightarrow> string \<Rightarrow> error option" where
  "validateSeiAccountAddress dec addr =
     (case dec addr of
        Inl e \<Rightarrow> Some (''address '' @ quoted addr @ '': '' @ e)
      | Inr hrp \<Rightarrow>
          if hrp \<noteq> seiBech32HRP then
            Some (''address '' @ quoted addr @ '': hrp '' @ quoted hrp @ '', expected '' @ quoted seiBech32HRP)
          else None)"

text \<open>\<open>strings.ToLower\<close>, as far as a comparison with an ASCII word can tell: besides the letters, the
  capital I with a dot (C4 B0) and the Kelvin sign (E2 84 AA) have an ASCII lower case.\<close>

fun to_lower :: "string \<Rightarrow> string" where
  "to_lower (c # d # cs) =
     (if c = CHR 0xC4 \<and> d = CHR 0xB0 then CHR ''i'' # to_lower cs
      else if c = CHR 0xE2 \<and> take 2 (d # cs) = [CHR 0x84, CHR 0xAA] then CHR ''k'' # to_lower (drop 1 cs)
      else (if of_char c \<ge> (65::nat) \<and> of_char c \<le> (90::nat) then char_of (of_char c + (32::nat)) else c)
           # to_lower (d # cs))"
| "to_lower [c] = [if of_char c \<ge> (65::nat) \<and> of_char c \<le> (90::nat) then char_of (of_char c + (32::nat)) else c]"
| "to_lower [] = []"

datatype VoteOption = OptionYes | OptionAbstain | OptionNo | OptionNoWithVeto

definition ParseVoteOption :: "string \<Rightarrow> VoteOption result" where
  "ParseVoteOption s =
     (if to_lower s = ''yes'' then Ok OptionYes
      else if to_lower s = ''no'' then Ok OptionNo
      else if to_lower s = ''abstain'' then Ok OptionAbstain
      else if to_lower s = ''no_with_veto'' \<or> to_lower s = ''no-with-veto'' then Ok OptionNoWithVeto
      else Err (''invalid vote option '' @ quoted s @ '' (allowed: yes | no | abstain | no_with_veto)''))"

definition GovVoteTask_Validate :: "GovVoteTask \<Rightarrow> error option" where
  "GovVoteTask_Validate t =
     or_else (first_error [(gv_ChainID t = [], ''gov-vote: chainId required''),
                           (gv_KeyName t = [], ''gov-vote: keyName required''),
                           (gv_ProposalID t = 0, ''gov-vote: proposalId required (must be > 0)'')])
     (or_else (case ParseVoteOption (gv_Option t) of Inl e \<Rightarrow> Some (''gov-vote: '' @ e) | Inr _ \<Rightarrow> None)
     (first_error [(gv_Fees t = [], ''gov-vote: fees required''),
                   (gv_Gas t = 0, ''gov-vote: gas required (must be > 0)'')]))"

definition UnjailTask_Validate :: "UnjailTask \<Rightarrow> error option" where
  "UnjailTask_Validate t =
     first_error [(uj_ChainID t = [], ''unjail: chainId required''),
                  (uj_KeyName t = [], ''unjail: keyName required''),
                  (uj_Fees t = [], ''unjail: fees required''),
                  (uj_Gas t = 0, ''unjail: gas required (must be > 0)'')]"

definition GovSoftwareUpgradeTask_Validate :: "GovSoftwareUpgradeTask \<Rightarrow> error option" where
  "GovSoftwareUpgradeTask_Validate t =
     first_error [(gsu_ChainID t = [], ''gov-software-upgrade: chainId required''),
                  (gsu_KeyName t = [], ''gov-software-upgrade: keyName required''),
                  (gsu_Title t = [], ''gov-software-upgrade: title required''),
                  (gsu_Description t = [], ''gov-software-upgrade: description required''),
                  (gsu_UpgradeName t = [], ''gov-software-upgrade: upgradeName required''),
                  (gsu_UpgradeHeight t \<le> 0, ''gov-software-upgrade: upgradeHeight required (must be > 0)''),
                  (gsu_InitialDeposit t = [], ''gov-software-upgrade: initialDeposit required''),
                  (gsu_Fees t = [], ''gov-software-upgrade: fees required''),
                  (gsu_Gas t = 0, ''gov-software-upgrade: gas required (must be > 0)'')]"

fun check_changes :: "nat \<Rightarrow> ParamChangeInput list \<Rightarrow> error option" where
  "check_changes i [] = None"
| "check_changes i (c # cs) =
     or_else (first_error
        [(pci_Subspace c = [], ''gov-param-change: changes['' @ show_nat i @ ''].subspace required''),
         (pci_Key c = [], ''gov-param-change: changes['' @ show_nat i @ ''].key required''),
         (pci_Value c = None, ''gov-param-change: changes['' @ show_nat i @ ''].value required'')])
     (check_changes (i + 1) cs)"

definition GovParamChangeTask_Validate :: "GovParamChangeTask \<Rightarrow> error option" where
  "GovParamChangeTask_Validate t =
     or_else (first_error [(gpc_ChainID t = [], ''gov-param-change: chainId required''),
                           (gpc_KeyName t = [], ''gov-param-change: keyName required''),
                           (gpc_Title t = [], ''gov-param-change: title required''),
                           (gpc_Description t = [], ''gov-param-change: description required''),
                           (gpc_Changes t = [], ''gov-param-change: at least one change required'')])
     (or_else (check_changes 0 (gpc_Changes t))
     (first_error [(gpc_InitialDeposit t = [], ''gov-param-change: initialDeposit required''),
                   (gpc_Fees t = [], ''gov-param-change: fees required''),
                   (gpc_Gas t = 0, ''gov-param-change: gas required (must be > 0)'')]))"

definition check_permission :: "bech32_decode \<Rightarrow> nat \<Rightarrow> string \<Rightarrow> error option" where
  "check_permission dec i p =
     (if p = ''nobody'' \<or> p = ''everybody'' then None
      else if p = [] then Some (''gov-update-instantiate-config: updates['' @ show_nat i @ ''].permission required'')
      else map_option (\<lambda>e. ''gov-update-instantiate-config: updates['' @ show_nat i @ ''].permission: '' @ e)
             (validateSeiAccountAddress dec p))"

fun check_updates :: "bech32_decode \<Rightarrow> nat \<Rightarrow> nat list \<Rightarrow> InstantiateConfigUpdateInput list \<Rightarrow> error option" where
  "check_updates dec i seen [] = None"
| "check_updates dec i seen (u # us) =
     or_else (first_error
        [(icu_CodeID u = 0,
          ''gov-update-instantiate-config: updates['' @ show_nat i @ ''].codeId required (must be > 0)''),
         (icu_CodeID u \<in> set seen,
          ''gov-update-instantiate-config: duplicate codeId '' @ show_nat (icu_CodeID u))])
     (or_else (check_permission dec i (icu_Permission u))
     (check_updates dec (i + 1) (icu_CodeID u # seen) us))"

definition GovUpdateInstantiateConfigTask_Validate ::
    "bech32_decode \<Rightarrow> GovUpdateInstantiateConfigTask \<Rightarrow> error option" where
  "GovUpdateInstantiateConfigTask_Validate dec t =
     or_else (first_error [(guc_ChainID t = [], ''gov-update-instantiate-config: chainId required''),
                           (guc_KeyName t = [], ''gov-update-instantiate-config: keyName required''),
                           (guc_Title t = [], ''gov-update-instantiate-config: title required''),
                           (guc_Description t = [], ''gov-update-instantiate-config: description required''),
                           (guc_Updates t = [], ''gov-update-instantiate-config: at least one update required'')])
     (or_else (check_updates dec 0 [] (guc_Updates t))
     (first_error [(guc_InitialDeposit t = [], ''gov-update-instantiate-config: initialDeposit required''),
                   (guc_Fees t = [], ''gov-update-instantiate-config: fees required''),
                   (guc_Gas t = 0, ''gov-update-instantiate-config: gas required (must be > 0)'')]))"

definition AutobahnMaxTxsPerBlockCeiling :: int where "AutobahnMaxTxsPerBlockCeiling = 2000"

definition check_block_interval :: "parse_duration \<Rightarrow> string \<Rightarrow> error option" where
  "check_block_interval pd s =
     (if s = [] then None
      else case pd s of
        Inl e \<Rightarrow> Some (''AutobahnConfig.BlockInterval '' @ quoted s @ '': '' @ e)
      | Inr d \<Rightarrow> if d \<le> 0 then Some (''AutobahnConfig.BlockInterval '' @ quoted s @ '' must be positive'') else None)"

definition AutobahnConfigParams_validate :: "parse_duration \<Rightarrow> AutobahnConfigParams option \<Rightarrow> error option" where
  "AutobahnConfigParams_validate pd cfg =
     (case cfg of
        None \<Rightarrow> None
      | Some a \<Rightarrow>
          or_else (check_block_interval pd (abc_BlockInterval a))
            (case abc_MaxTxsPerBlock a of
               None \<Rightarrow> None
             | Some n \<Rightarrow>
                 if n < 1 \<or> n > AutobahnMaxTxsPerBlockCeiling
                 then Some (''AutobahnConfig.MaxTxsPerBlock '' @ itoa n @ '' must be in [1, '' @
                        itoa AutobahnMaxTxsPerBlockCeiling @ '']'')
                 else None))"

definition check_vesting :: "string \<Rightarrow> nat \<Rightarrow> GenesisAccountVesting \<Rightarrow> error option" where
  "check_vesting pre i v =
     first_error
       [(gav_Amount v = [], pre @ '': accounts['' @ show_nat i @ ''].vesting missing required field Amount''),
        (gav_EndTime v \<le> 0,
         pre @ '': accounts['' @ show_nat i @ ''].vesting: EndTime must be a positive unix timestamp'')]"

fun validateGenesisAccounts :: "bech32_decode \<Rightarrow> string \<Rightarrow> nat \<Rightarrow> GenesisAccountEntry list \<Rightarrow> error option" where
  "validateGenesisAccounts dec pre i [] = None"
| "validateGenesisAccounts dec pre i (a # as) =
     or_else (first_error
        [(gae_Address a = [], pre @ '': accounts['' @ show_nat i @ ''] missing required field Address''),
         (gae_Balance a = [], pre @ '': accounts['' @ show_nat i @ ''] missing required field Balance'')])
     (or_else (map_option (\<lambda>e. pre @ '': accounts['' @ show_nat i @ '']: '' @ e)
                 (validateSeiAccountAddress dec (gae_Address a)))
     (or_else (case gae_Vesting a of None \<Rightarrow> None | Some v \<Rightarrow> check_vesting pre i v)
     (validateGenesisAccounts dec pre (i + 1) as)))"

text \<open>Decoding into \<open>map[string]json.RawMessage\<close> accepts an object and \<open>null\<close>.\<close>

fun object_error :: "json \<Rightarrow> error option" where
  "object_error (JObject _) = None"
| "object_error JNull = None"
| "object_error (JBool _) = Some ''json: cannot unmarshal bool into Go value of type map[string]json.RawMessage''"
| "object_error (JNumber _) = Some ''json: cannot unmarshal number into Go value of type map[string]json.RawMessage''"
| "object_error (JString _) = Some ''json: cannot unmarshal string into Go value of type map[string]json.RawMessage''"
| "object_error (JArray _) = Some ''json: cannot unmarshal array into Go value of type map[string]json.RawMessage''"

definition AssembleGenesis_Validate ::
    "bech32_decode \<Rightarrow> parse_duration \<Rightarrow> AssembleAndUploadGenesisTask \<Rightarrow> error option" where
  "AssembleGenesis_Validate dec pd t =
     (let pre = ''assemble-and-upload-genesis''
      in or_else (first_error [(agt_AccountBalance t = [], pre @ '': missing required field AccountBalance''),
                               (agt_Namespace t = [], pre @ '': missing required field Namespace''),
                               (agt_Nodes t = [], pre @ '': at least one node is required'')])
         (or_else (case agt_ConsensusParams t of None \<Rightarrow> None
                   | Some j \<Rightarrow> map_option (\<lambda>e. pre @ '': ConsensusParams must be a JSON object: '' @ e) (object_error j))
         (or_else (first_error [(agt_AutobahnConfig t \<noteq> None \<and> \<not> agt_Autobahn t,
                                 pre @ '': AutobahnConfig requires Autobahn'')])
         (or_else (map_option (\<lambda>e. pre @ '': '' @ e) (AutobahnConfigParams_validate pd (agt_AutobahnConfig t)))
         (validateGenesisAccounts dec pre 0 (agt_Accounts t))))))"

end
