(* ===== verification/ApiTypes.thy ===== *)
theory ApiTypes
  imports Conditions RequestTypes "HOL-Library.AList_Mapping"
begin

text \<open>
  The custom-resource types of \<open>api/v1alpha1\<close>: the SeiNode spec and status and the task
  plan.  A struct is a record with the source's field names behind a short prefix; a
  string enum is a datatype whose first constructor is Go's empty string where the code
  distinguishes it.
\<close>

text \<open>Configuration overrides: a finite table, compared by its entries.\<close>

type_synonym overrides = "(string, string) mapping"

text \<open>Labels and annotations, compared by \<open>maps.Equal\<close>.\<close>

type_synonym labels = "(string, string) mapping"

subsection \<open>Enumerations\<close>

datatype SeiNodePhase =
  PhaseUnset | PhasePending | PhaseInitializing | PhaseRunning | PhaseFailed | PhaseTerminating

datatype TaskPlanPhase = TaskPlanActive | TaskPlanComplete | TaskPlanFailed

datatype TaskStatus = TaskPending | TaskRunning | TaskComplete | TaskFailed

datatype MaintenanceHold = HoldNone | HoldImmediate | HoldAfterExit

datatype NodeIsolation = NodeIsolationUnset | NodeIsolationShared | NodeIsolationDedicated

datatype ConsensusEngine = ConsensusEngineUnset | ConsensusEngineTendermint | ConsensusEngineAutobahn

datatype ExecutionEngineMode = ExecutionEngineUnset | ExecutionEngineDefault | ExecutionEngineEvmOnly

datatype UpCheckScheme = UpCheckTCP | UpCheckHTTP

text \<open>The config modes of sei-config that the planners name.\<close>

datatype ConfigMode = ModeFull | ModeArchive | ModeValidator | ModeSeed

text \<open>
  Task types are strings on the wire; the constructors are the constants of
  \<open>sidecarapi/wire\<close> and \<open>internal/task\<close>, and \<open>OtherTask\<close> is any other string a
  stored plan may carry.  \<open>task_type_string\<close> gives the stored string.
\<close>

datatype TaskType =
    SnapshotRestore | ConfigureGenesis | ConfigureStateSync | ConfigApply | ConfigPatch
  | ConfigValidate | MarkReady | AwaitCondition | RestartSeid
  | MarkNotReady | StopSeid | ResetData | AwaitSeidStart | ResetDataKeepSignState
  | GenerateIdentity | GenerateGentx | UploadGenesisArtifacts | AssembleGenesis | SetGenesisPeers
  | GovVote | Unjail | GovSoftwareUpgrade | GovParamChange | GovUpdateInstantiateConfig
  | AwaitNodesRunning | CollectAndSetPeers
  | EnsureDataPVC | ApplyStatefulSet | ApplyService | ApplyRBACProxyConfig | ReplacePod
  | ObserveImage | RecordDataReset | RecordMaintenanceHold | StartSeidOnce | UpdateNodeImage
  | ValidateSigningKey | ValidateNodeKey | ValidateOperatorKeyring
  | OtherTask string

fun task_type_string :: "TaskType \<Rightarrow> string" where
  "task_type_string SnapshotRestore = ''snapshot-restore''"
| "task_type_string ConfigureGenesis = ''configure-genesis''"
| "task_type_string ConfigureStateSync = ''configure-state-sync''"
| "task_type_string ConfigApply = ''config-apply''"
| "task_type_string ConfigPatch = ''config-patch''"
| "task_type_string ConfigValidate = ''config-validate''"
| "task_type_string MarkReady = ''mark-ready''"
| "task_type_string AwaitCondition = ''await-condition''"
| "task_type_string RestartSeid = ''restart-seid''"
| "task_type_string MarkNotReady = ''mark-not-ready''"
| "task_type_string StopSeid = ''stop-seid''"
| "task_type_string ResetData = ''reset-data''"
| "task_type_string AwaitSeidStart = ''await-seid-start''"
| "task_type_string ResetDataKeepSignState = ''reset-data-keep-sign-state''"
| "task_type_string GenerateIdentity = ''generate-identity''"
| "task_type_string GenerateGentx = ''generate-gentx''"
| "task_type_string UploadGenesisArtifacts = ''upload-genesis-artifacts''"
| "task_type_string AssembleGenesis = ''assemble-and-upload-genesis''"
| "task_type_string SetGenesisPeers = ''set-genesis-peers''"
| "task_type_string GovVote = ''gov-vote''"
| "task_type_string Unjail = ''unjail''"
| "task_type_string GovSoftwareUpgrade = ''gov-software-upgrade''"
| "task_type_string GovParamChange = ''gov-param-change''"
| "task_type_string GovUpdateInstantiateConfig = ''gov-update-instantiate-config''"
| "task_type_string AwaitNodesRunning = ''await-nodes-running''"
| "task_type_string CollectAndSetPeers = ''collect-and-set-peers''"
| "task_type_string EnsureDataPVC = ''ensure-data-pvc''"
| "task_type_string ApplyStatefulSet = ''apply-statefulset''"
| "task_type_string ApplyService = ''apply-service''"
| "task_type_string ApplyRBACProxyConfig = ''apply-rbac-proxy-config''"
| "task_type_string ReplacePod = ''replace-pod''"
| "task_type_string ObserveImage = ''observe-image''"
| "task_type_string RecordDataReset = ''record-data-reset''"
| "task_type_string RecordMaintenanceHold = ''record-maintenance-hold''"
| "task_type_string StartSeidOnce = ''start-seid-once''"
| "task_type_string UpdateNodeImage = ''update-node-image''"
| "task_type_string ValidateSigningKey = ''validate-signing-key''"
| "task_type_string ValidateNodeKey = ''validate-node-key''"
| "task_type_string ValidateOperatorKeyring = ''validate-operator-keyring''"
| "task_type_string (OtherTask s) = s"

subsection \<open>Sub-structures of the node spec\<close>

record EC2TagsPeerSource =
  ec2_Region :: string
  ec2_Tags :: "string \<rightharpoonup> string"

record LabelPeerSource =
  lbl_Selector :: "string \<rightharpoonup> string"
  lbl_Namespace :: string

record PeerSource =
  peer_EC2Tags :: "EC2TagsPeerSource option"
  peer_Static :: "string list option"
  peer_Label :: "LabelPeerSource option"

record SnapshotSource =
  snap_S3 :: "int option"  \<comment> \<open>\<open>S3.TargetHeight\<close>\<close>
  snap_StateSync :: bool
  snap_TrustPeriod :: string
  snap_RpcServers :: "string list"
  snap_BackfillBlocks :: int

record TendermintSnapshotGenerationConfig =
  tm_KeepRecent :: int
  tm_Publish :: bool

type_synonym SnapshotGenerationConfig = "TendermintSnapshotGenerationConfig option"

record FullNodeSpec =
  fn_Snapshot :: "SnapshotSource option"
  fn_SnapshotGeneration :: "SnapshotGenerationConfig option"
  fn_Freeze :: "int option"  \<comment> \<open>\<open>Freeze.Height\<close>\<close>

record ArchiveSpec =
  ar_SnapshotGeneration :: "SnapshotGenerationConfig option"
  ar_Freeze :: "int option"

record ReplayerSpec =
  rp_Snapshot :: SnapshotSource

record GenesisCeremonyNodeConfig =
  gc_ChainID :: string
  gc_StakingAmount :: string
  gc_AccountBalance :: string
  gc_Index :: int

record SecretOperatorKeyringSource =
  opk_SecretName :: string
  opk_KeyName :: string
  opk_PassphraseSecretName :: string
  opk_PassphraseKey :: string
  opk_SeidMount :: bool

text \<open>A key source is a struct with an optional Secret variant; the inner option is that
  variant, holding the Secret's name.\<close>

type_synonym SecretKeySource = "string option"

record ValidatorSpec =
  val_Snapshot :: "SnapshotSource option"
  val_GenesisCeremony :: "GenesisCeremonyNodeConfig option"
  val_SigningKey :: "SecretKeySource option"
  val_NodeKey :: "SecretKeySource option"
  val_OperatorKeyring :: "SecretOperatorKeyringSource option option"

record SeedSpec =
  seed_NodeKey :: SecretKeySource

record ConsensusSpec =
  cons_Engine :: ConsensusEngine
  cons_EvmOnly :: bool

record ExecutionEngineSpec =
  ee_Mode :: ExecutionEngineMode
  ee_EvmOnly :: "bool option option"  \<comment> \<open>\<open>EvmOnly\<close> present, then \<open>HttpEnabled\<close>\<close>

record ConfigValue =
  cv_FileName :: string
  cv_Key :: string
  cv_Value :: "json option"  \<comment> \<open>the decoded \<open>Value.Raw\<close>; None when the bytes are not JSON\<close>

record SchedulingConfig =
  sch_NodeIsolation :: NodeIsolation
  sch_NodePool :: string

text \<open>Resource lists are kept as the quantity strings the spec carries.\<close>

record Resources =
  res_Requests :: "string \<rightharpoonup> string"
  res_Limits :: "string \<rightharpoonup> string"

record SidecarConfig =
  sc_Image :: string
  sc_Port :: int
  sc_Resources :: "Resources option"

record DataVolumeStorage =
  dvs_Requests :: "(string \<rightharpoonup> string) option"
  dvs_VolumeAttributesClassName :: "string option"

record DataVolumeSpec =
  dv_Import :: "string option"  \<comment> \<open>\<open>Import.PVCName\<close>\<close>
  dv_Storage :: "DataVolumeStorage option"

record NodeConfig =
  nc_ConfigRef :: string
  nc_AppRef :: string

subsection \<open>SeiNode\<close>

record SeiNodeSpec =
  spec_ChainID :: string
  spec_Image :: string
  spec_Peers :: "PeerSource list"
  spec_Overrides :: overrides
  spec_Consensus :: "ConsensusSpec option"
  spec_ExecutionEngine :: "ExecutionEngineSpec option"
  spec_ConfigValues :: "ConfigValue list"
  spec_NodeConfig :: "NodeConfig option"
  spec_Scheduling :: "SchedulingConfig option"
  spec_Sidecar :: "SidecarConfig option"
  spec_PodLabels :: labels
  spec_DataVolume :: "DataVolumeSpec option"
  spec_Resources :: "Resources option"
  spec_FullNode :: "FullNodeSpec option"
  spec_Archive :: "ArchiveSpec option"
  spec_Replayer :: "ReplayerSpec option"
  spec_Validator :: "ValidatorSpec option"
  spec_Seed :: "SeedSpec option"
  spec_ExternalAddress :: string
  spec_Paused :: bool
  spec_DataResetGeneration :: int
  spec_Maintenance :: "MaintenanceHold option"

record UpCheck =
  uc_Scheme :: UpCheckScheme
  uc_Port :: int
  uc_Path :: string

record ConfigIntent =
  ci_Mode :: ConfigMode
  ci_Overrides :: overrides

record ConfigureStateSyncTask =
  css_UseLocalSnapshot :: bool
  css_TrustPeriod :: string
  css_BackfillBlocks :: int
  css_RpcServers :: "string list"

text \<open>
  The serialized params of a planned task, kept as the typed value whose JSON the plan stores.
\<close>

datatype TaskParams =
    NilParams
  | NodeParams string string  \<comment> \<open>node name and namespace: the infrastructure tasks\<close>
  | SecretParams string string  \<comment> \<open>Secret name and namespace: the key validations\<close>
  | KeyringParams string string string string string
  | SnapshotRestoreParams int
  | ConfigureGenesisParams bool
  | ConfigApplyParams ConfigIntent
  | ConfigPatchParams files
  | StateSyncParams ConfigureStateSyncTask
  | UpCheckParams UpCheck  \<comment> \<open>stop-seid and restart-seid\<close>
  | EmptyParams  \<comment> \<open>a sidecar task struct without fields\<close>
  | GenerateIdentityParams string string
  | GenerateGentxParams string string string
  | UploadGenesisParams string string bool
  | RecordDataResetParams int
  | RecordHoldParams MaintenanceHold
  | GroupParams string string "string list"  \<comment> \<open>collect-and-set-peers: group, namespace, nodes\<close>
  | AwaitNodesParams string string int "string list"  \<comment> \<open>group, namespace, expected, nodes\<close>
  | AwaitConditionParams string int string  \<comment> \<open>condition, target height, action\<close>
  | UpdateImageParams string string string  \<comment> \<open>node, namespace, image\<close>
  | AssembleGenesisParams AssembleAndUploadGenesisTask
  | GovVoteParams GovVoteTask
  | UnjailParams UnjailTask
  | GovSoftwareUpgradeParams GovSoftwareUpgradeTask
  | GovParamChangeParams GovParamChangeTask
  | GovUpdateInstantiateConfigParams GovUpdateInstantiateConfigTask

record PlannedTask =
  pt_Type :: TaskType
  pt_ID :: string
  pt_Status :: TaskStatus
  pt_Params :: TaskParams
  pt_SubmittedAt :: "go_time option"
  pt_Error :: string
  pt_MaxRetries :: int
  pt_RetryCount :: int

record FailedTaskInfo =
  fti_Type :: TaskType
  fti_ID :: string
  fti_Error :: string
  fti_RetryCount :: int
  fti_MaxRetries :: int

record TaskPlan =
  plan_ID :: string
  plan_Phase :: TaskPlanPhase
  plan_Tasks :: "PlannedTask list"
  plan_TargetPhase :: SeiNodePhase
  plan_ConfigValuesHash :: string
  plan_FailedPhase :: SeiNodePhase
  plan_FailedTaskIndex :: "nat option"
  plan_FailedTaskDetail :: "FailedTaskInfo option"

record AdoptedWorkflowRef =
  aw_Name :: string
  aw_UID :: string
  aw_AdoptedAt :: go_time

record StatefulSetRef =
  stsref_Name :: string
  stsref_UID :: string

record NodeEndpointStatus =
  ep_EvmJsonRpc :: string
  ep_EvmWs :: string
  ep_TendermintRpc :: string
  ep_TendermintRest :: string

record SeiNodeStatus =
  st_Phase :: SeiNodePhase
  st_CurrentImage :: string
  st_CurrentConfigValuesHash :: string
  st_CurrentSidecarImage :: string
  st_CurrentNodeIsolation :: NodeIsolation
  st_CurrentNodePool :: string
  st_Conditions :: "condition list"
  st_PhaseTransitionTime :: "go_time option"
  st_CommittedHeight :: "int option"
  st_CommittedHeightTime :: "go_time option"
  st_Plan :: "TaskPlan option"
  st_AdoptedWorkflow :: "AdoptedWorkflowRef option"
  st_ResolvedPeers :: "string list"
  st_ResolvedRPCWitnesses :: "string list"
  st_ResolvedStateSyncers :: "string list"
  st_StatefulSet :: "StatefulSetRef option"
  st_Endpoint :: "NodeEndpointStatus option"
  st_DataResetGeneration :: int
  st_MaintenanceHold :: MaintenanceHold

record SeiNode =
  node_Name :: string
  node_Namespace :: string
  node_Annotations :: labels
  node_Generation :: int
  node_CreationTimestamp :: go_time
  node_Spec :: SeiNodeSpec
  node_Status :: SeiNodeStatus

text \<open>Writes to one field of a node's status.\<close>

abbreviation upd_status :: "(SeiNodeStatus \<Rightarrow> SeiNodeStatus) \<Rightarrow> SeiNode \<Rightarrow> SeiNode" where
  "upd_status f n \<equiv> n\<lparr>node_Status := f (node_Status n)\<rparr>"

abbreviation node_Phase :: "SeiNode \<Rightarrow> SeiNodePhase" where
  "node_Phase n \<equiv> st_Phase (node_Status n)"

abbreviation node_Plan :: "SeiNode \<Rightarrow> TaskPlan option" where
  "node_Plan n \<equiv> st_Plan (node_Status n)"

abbreviation node_Conditions :: "SeiNode \<Rightarrow> condition list" where
  "node_Conditions n \<equiv> st_Conditions (node_Status n)"

end
