(* ===== verification/ApiMethods.thy ===== *)
theory ApiMethods
  imports ApiTypes
begin

text \<open>
  The accessor methods of the API types, the node-resource helpers the planner calls, and the
  record \<open>ext\<close> of third-party code: the apimachinery condition helpers, the google/uuid
  version-5 hash under the fixed namespace of \<open>internal/task\<close>, the SHA-256 digest of the
  configValues hash, and the constants and override builder of sei-config.
\<close>

record ext =
  FindStatusCondition :: find_cond
  SetStatusCondition :: set_cond
  NewSHA1 :: "string \<Rightarrow> string"
  Sum256 :: "string \<Rightarrow> string"
  PortEVMHTTP :: int
  PortP2P :: int
  PortRPC :: int
  PortEVMWS :: int
  PortREST :: int
  KeyP2PExternalAddress :: string
  KeySnapshotInterval :: string
  KeySnapshotKeepRecent :: string
  DefaultSnapshotInterval :: int
  SnapshotGenerationOverrides :: "int \<Rightarrow> overrides"

abbreviation cond_laws :: "ext \<Rightarrow> bool" where
  "cond_laws E \<equiv> status_conditions (FindStatusCondition E) (SetStatusCondition E)"

subsection \<open>Methods of the spec types\<close>

definition HoldRequested :: "SeiNodeSpec \<Rightarrow> MaintenanceHold" where
  "HoldRequested s = (case spec_Maintenance s of None \<Rightarrow> HoldNone | Some h \<Rightarrow> h)"

definition Freeze :: "SeiNodeSpec \<Rightarrow> int option" where
  "Freeze s = (case spec_FullNode s of Some fn \<Rightarrow> fn_Freeze fn
     | None \<Rightarrow> (case spec_Archive s of Some a \<Rightarrow> ar_Freeze a | None \<Rightarrow> None))"

definition SnapshotSource_of :: "SeiNodeSpec \<Rightarrow> SnapshotSource option" where
  "SnapshotSource_of s = (case spec_FullNode s of Some fn \<Rightarrow> fn_Snapshot fn
     | None \<Rightarrow> (case spec_Validator s of Some v \<Rightarrow> val_Snapshot v
     | None \<Rightarrow> (case spec_Replayer s of Some r \<Rightarrow> Some (rp_Snapshot r)
     | None \<Rightarrow> None)))"

text \<open>The Secret that holds the node key; the result is the Secret's name.\<close>

definition NodeKeySecret :: "SeiNodeSpec \<Rightarrow> string option" where
  "NodeKeySecret s =
     (case spec_Validator s of
        Some v \<Rightarrow> (case val_NodeKey v of
            Some k \<Rightarrow> k
          | None \<Rightarrow> (case spec_Seed s of Some sd \<Rightarrow> seed_NodeKey sd | None \<Rightarrow> None))
      | None \<Rightarrow> (case spec_Seed s of Some sd \<Rightarrow> seed_NodeKey sd | None \<Rightarrow> None))"

definition EffectiveEngine :: "ConsensusSpec option \<Rightarrow> ConsensusEngine" where
  "EffectiveEngine c =
     (case c of None \<Rightarrow> ConsensusEngineTendermint
      | Some c' \<Rightarrow> if cons_Engine c' = ConsensusEngineUnset then ConsensusEngineTendermint
                  else cons_Engine c')"

definition IsAutobahn :: "ConsensusSpec option \<Rightarrow> bool" where
  "IsAutobahn c \<longleftrightarrow> EffectiveEngine c = ConsensusEngineAutobahn"

definition cons_IsEvmOnly :: "ConsensusSpec option \<Rightarrow> bool" where
  "cons_IsEvmOnly c \<longleftrightarrow> (case c of None \<Rightarrow> False | Some c' \<Rightarrow> cons_EvmOnly c')"

definition EffectiveMode :: "ExecutionEngineSpec \<Rightarrow> ExecutionEngineMode" where
  "EffectiveMode e =
     (if ee_Mode e = ExecutionEngineUnset then ExecutionEngineDefault else ee_Mode e)"

definition IsEvmOnly :: "ExecutionEngineSpec \<Rightarrow> bool" where
  "IsEvmOnly e \<longleftrightarrow> EffectiveMode e = ExecutionEngineEvmOnly"

definition EvmHTTPEnabled :: "ExecutionEngineSpec \<Rightarrow> bool" where
  "EvmHTTPEnabled e \<longleftrightarrow> (case ee_EvmOnly e of Some (Some b) \<Rightarrow> b | _ \<Rightarrow> True)"

definition ResolveExecutionEngine ::
  "ExecutionEngineSpec option \<Rightarrow> ConsensusSpec option \<Rightarrow> ExecutionEngineSpec" where
  "ResolveExecutionEngine engine consensus =
     (let normalize = (\<lambda>e. if EffectiveMode e = ExecutionEngineEvmOnly
             then \<lparr>ee_Mode = EffectiveMode e, ee_EvmOnly = Some (Some (EvmHTTPEnabled e))\<rparr>
             else \<lparr>ee_Mode = EffectiveMode e, ee_EvmOnly = None\<rparr>)
      in case engine of
           Some e \<Rightarrow> normalize e
         | None \<Rightarrow> if \<not> cons_IsEvmOnly consensus
                   then \<lparr>ee_Mode = ExecutionEngineDefault, ee_EvmOnly = None\<rparr>
                   else normalize \<lparr>ee_Mode = ExecutionEngineEvmOnly, ee_EvmOnly = None\<rparr>)"

definition EffectiveExecutionEngine :: "SeiNodeSpec \<Rightarrow> ExecutionEngineSpec" where
  "EffectiveExecutionEngine s = ResolveExecutionEngine (spec_ExecutionEngine s) (spec_Consensus s)"

subsection \<open>Node-resource helpers\<close>

definition DedicatedNodeKey :: string where
  "DedicatedNodeKey = ''sei.io/dedicated-node''"

definition EffectiveNodeIsolation :: "SeiNode \<Rightarrow> NodeIsolation" where
  "EffectiveNodeIsolation n =
     (let legacy = (if Mapping.lookup (node_Annotations n) DedicatedNodeKey = Some ''true''
                    then NodeIsolationDedicated else NodeIsolationShared)
      in case spec_Scheduling (node_Spec n) of
           Some s \<Rightarrow> if sch_NodeIsolation s \<noteq> NodeIsolationUnset then sch_NodeIsolation s else legacy
         | None \<Rightarrow> legacy)"

definition RequestedNodePool :: "SeiNode \<Rightarrow> string" where
  "RequestedNodePool n =
     (case spec_Scheduling (node_Spec n) of Some s \<Rightarrow> sch_NodePool s | None \<Rightarrow> [])"

definition servesSeidRPC :: "SeiNode \<Rightarrow> bool" where
  "servesSeidRPC n \<longleftrightarrow>
     spec_Seed (node_Spec n) = None \<and> \<not> IsEvmOnly (EffectiveExecutionEngine (node_Spec n))"

definition UpCheckForNode :: "ext \<Rightarrow> SeiNode \<Rightarrow> UpCheck" where
  "UpCheckForNode E n =
     (let engine = EffectiveExecutionEngine (node_Spec n)
      in if IsEvmOnly engine \<and> EvmHTTPEnabled engine
         then \<lparr>uc_Scheme = UpCheckHTTP, uc_Port = PortEVMHTTP E, uc_Path = ''/''\<rparr>
         else if \<not> servesSeidRPC n
         then \<lparr>uc_Scheme = UpCheckTCP, uc_Port = PortP2P E, uc_Path = []\<rparr>
         else \<lparr>uc_Scheme = UpCheckHTTP, uc_Port = PortRPC E, uc_Path = ''/status''\<rparr>)"

text \<open>The containers of a StatefulSet's pod template: name and image, regular then init.\<close>

record StatefulSet =
  sts_Containers :: "(string \<times> string) list"
  sts_InitContainers :: "(string \<times> string) list"
  sts_Generation :: int
  sts_ObservedGeneration :: int
  sts_Replicas :: "int option"
  sts_UpdatedReplicas :: int
  sts_UID :: string
  sts_MatchLabels :: "(string \<times> string) list"  \<comment> \<open>\<open>[]\<close> also when there is no selector\<close>
  sts_UpdateRevision :: string

fun scan_images :: "(string \<times> string) list \<Rightarrow> string \<times> string \<Rightarrow> string \<times> string" where
  "scan_images [] acc = acc"
| "scan_images ((name, img) # cs) (seid, sidecar) =
     scan_images cs
       (if name = ''seid'' then (img, sidecar)
        else if name = ''sei-sidecar'' then (seid, img) else (seid, sidecar))"

definition TemplateImages :: "StatefulSet \<Rightarrow> string \<times> string" where
  "TemplateImages sts = scan_images (sts_Containers sts @ sts_InitContainers sts) ([], [])"

subsection \<open>Platform configuration\<close>

record PlatformConfig =
  SidecarImage :: string
  DriftUpdateBudgetPercent :: int

definition EffectiveSidecarImage :: "SeiNode \<Rightarrow> PlatformConfig \<Rightarrow> string" where
  "EffectiveSidecarImage n p =
     (case spec_Sidecar (node_Spec n) of
        Some sc \<Rightarrow> if sc_Image sc \<noteq> [] then sc_Image sc else SidecarImage p
      | None \<Rightarrow> SidecarImage p)"

subsection \<open>Facts about the resolved engine\<close>

lemma EffectiveMode_set [simp]: "EffectiveMode e \<noteq> ExecutionEngineUnset"
  by (simp add: EffectiveMode_def)

text \<open>The resolved engine is a fixed point: resolving it again changes nothing.\<close>

lemma ResolveExecutionEngine_idem:
  "ResolveExecutionEngine (Some (ResolveExecutionEngine e c)) c' = ResolveExecutionEngine e c"
  by (auto simp: ResolveExecutionEngine_def EffectiveMode_def EvmHTTPEnabled_def Let_def
      split: option.splits)

lemma IsEvmOnly_resolved:
  "IsEvmOnly (ResolveExecutionEngine e c) \<longleftrightarrow>
     (case e of Some e' \<Rightarrow> IsEvmOnly e' | None \<Rightarrow> cons_IsEvmOnly c)"
  by (auto simp: ResolveExecutionEngine_def IsEvmOnly_def EffectiveMode_def Let_def
      split: option.splits)

end
