(* ===== verification/CanonicalNumber.thy ===== *)
theory CanonicalNumber
  imports Prelude Complex_Main
begin

text \<open>
  Number tokens of configValues (\<open>internal/planner/config_overlay.go\<close>).  A JSON number keeps
  its token; \<open>canonicalJSONNumber\<close> normalizes the spelling to an integer significand and a
  decimal exponent, and \<open>number_fits\<close> is the check of \<open>validateOverlayNumbers\<close> that
  the token is an int64 or a finite float64.
\<close>

subsection \<open>String helpers of the standard library\<close>

text \<open>\<open>strings.Cut\<close> at a one-character separator: the text before and after its first
  occurrence; without one, the whole string and the empty string.\<close>

fun cut :: "char \<Rightarrow> string \<Rightarrow> string \<times> string" where
  "cut c [] = ([], [])"
| "cut c (x # xs) = (if x = c then ([], xs) else (let (a, b) = cut c xs in (x # a, b)))"

definition lower :: "char \<Rightarrow> char" where
  "lower c = (let n = (of_char c :: nat) in if 65 \<le> n \<and> n \<le> 90 then char_of (n + 32) else c)"

definition trim_left :: "char \<Rightarrow> string \<Rightarrow> string" where
  "trim_left c s = dropWhile (\<lambda>x. x = c) s"

definition trim_right :: "char \<Rightarrow> string \<Rightarrow> string" where
  "trim_right c s = rev (dropWhile (\<lambda>x. x = c) (rev s))"

definition digit :: "char \<Rightarrow> nat" where
  "digit c = of_char c - 48"

definition is_digit :: "char \<Rightarrow> bool" where
  "is_digit c \<longleftrightarrow> 48 \<le> (of_char c :: nat) \<and> (of_char c :: nat) \<le> 57"

fun digits_val :: "nat \<Rightarrow> string \<Rightarrow> nat" where
  "digits_val acc [] = acc"
| "digits_val acc (c # cs) = digits_val (10 * acc + digit c) cs"

text \<open>\<open>big.Int.SetString(s, 10)\<close>: an optional sign and decimal digits.\<close>

definition big_int :: "string \<Rightarrow> int" where
  "big_int s = (case s of
       [] \<Rightarrow> 0
     | c # cs \<Rightarrow> if c = CHR ''-'' then - int (digits_val 0 cs)
                 else if c = CHR ''+'' then int (digits_val 0 cs)
                 else int (digits_val 0 s))"

text \<open>The JSON grammar of a number token.\<close>

definition valid_number :: "string \<Rightarrow> bool" where
  "valid_number s \<longleftrightarrow>
     (let s1 = (if has_prefix s ''-'' then tl s else s);
          whole = takeWhile is_digit s1;
          r1 = dropWhile is_digit s1;
          has_fraction = has_prefix r1 ''.'';
          fraction = (if has_fraction then takeWhile is_digit (tl r1) else []);
          r2 = (if has_fraction then dropWhile is_digit (tl r1) else r1);
          r3 = (if has_prefix (tl r2) ''+'' \<or> has_prefix (tl r2) ''-'' then tl (tl r2) else tl r2)
      in whole \<noteq> [] \<and> (hd whole = CHR ''0'' \<longrightarrow> tl whole = []) \<and>
         (has_fraction \<longrightarrow> fraction \<noteq> []) \<and>
         (r2 = [] \<or> (lower (hd r2) = CHR ''e'' \<and> r3 \<noteq> [] \<and> list_all is_digit r3)))"

subsection \<open>The canonical spelling\<close>

record number_parts =
  np_negative :: bool
  np_whole :: string
  np_fraction :: string
  np_exponent :: string

definition parse_number :: "string \<Rightarrow> number_parts" where
  "parse_number s =
     (let (mantissa, exponent) = cut (CHR ''e'') (map lower s);
          negative = has_prefix mantissa ''-'';
          unsigned = (if negative then tl mantissa else mantissa);
          (whole, fraction) = cut (CHR ''.'') unsigned
      in \<lparr>np_negative = negative, np_whole = whole, np_fraction = fraction,
          np_exponent = exponent\<rparr>)"

definition canonicalJSONNumber :: "string \<Rightarrow> string" where
  "canonicalJSONNumber s =
     (let n = parse_number s;
          digits = trim_left (CHR ''0'') (np_whole n @ np_fraction n);
          trimmed = trim_right (CHR ''0'') digits;
          power = (if np_exponent n \<noteq> [] then big_int (np_exponent n) else 0)
                  + (int (length digits) - int (length trimmed) - int (length (np_fraction n)));
          signed = (if np_negative n then ''-'' @ trimmed else trimmed)
      in if digits = [] then ''0''
         else if power \<noteq> 0 then signed @ ''e'' @ itoa power else signed)"

text \<open>A finite float64 exists for every magnitude below the midpoint between the largest
  float64 and its successor, and every int64 is below it: the token's digits, scaled by its
  exponent, stay under that bound.\<close>

definition number_exponent :: "number_parts \<Rightarrow> int" where
  "number_exponent n =
     (if np_exponent n \<noteq> [] then big_int (np_exponent n) else 0) - int (length (np_fraction n))"

definition number_fits :: "string \<Rightarrow> bool" where
  "number_fits s \<longleftrightarrow>
     (let n = parse_number s;
          d = digits_val 0 (np_whole n @ np_fraction n);
          e = number_exponent n;
          bound = 2 ^ 1024 - 2 ^ 970
      in if 0 \<le> e then d * 10 ^ nat e < bound else d < bound * 10 ^ nat (- e))"

text \<open>The value a token denotes.\<close>

definition number_value :: "string \<Rightarrow> real" where
  "number_value s =
     (let n = parse_number s
      in (if np_negative n then -1 else 1)
         * real (digits_val 0 (np_whole n @ np_fraction n)) * 10 powi number_exponent n)"

end
