(* ===== verification/ConfigOverlay.thy ===== *)
theory ConfigOverlay
  imports ApiMethods CanonicalNumber "HOL-Library.List_Lexorder" "HOL-Library.Char_ord"
begin

text \<open>
  The configValues overlay and its hash (\<open>internal/planner/config_overlay.go\<close>) and the
  engine overlay merged over it (\<open>internal/planner/consensus_overlay.go\<close>).
\<close>

subsection \<open>Checks on a decoded value\<close>

fun containsNull :: "json \<Rightarrow> bool" where
  "containsNull JNull = True"
| "containsNull (JObject kvs) = list_ex (\<lambda>kv. containsNull (snd kv)) kvs"
| "containsNull (JArray js) = list_ex containsNull js"
| "containsNull _ = False"

fun first_unfit_number :: "json \<Rightarrow> string option"
  and first_unfit_in :: "json list \<Rightarrow> string option"
  and first_unfit_kv :: "table \<Rightarrow> string option" where
  "first_unfit_number (JNumber s) = (if number_fits s then None else Some s)"
| "first_unfit_number (JObject kvs) = first_unfit_kv kvs"
| "first_unfit_number (JArray js) = first_unfit_in js"
| "first_unfit_number _ = None"
| "first_unfit_in [] = None"
| "first_unfit_in (j # js) =
     (case first_unfit_number j of Some s \<Rightarrow> Some s | None \<Rightarrow> first_unfit_in js)"
| "first_unfit_kv [] = None"
| "first_unfit_kv (kv # kvs) =
     (case first_unfit_number (snd kv) of Some s \<Rightarrow> Some s | None \<Rightarrow> first_unfit_kv kvs)"

definition validateOverlayNumbers :: "json \<Rightarrow> error option" where
  "validateOverlayNumbers v =
     map_option (\<lambda>s. ''number '' @ quoted s @ '' cannot be represented as int64 or float64'')
       (first_unfit_number v)"

text \<open>The file-name pattern \<open>^[A-Za-z0-9_-]+\.toml$\<close>.\<close>

definition name_char :: "char \<Rightarrow> bool" where
  "name_char c \<longleftrightarrow> (let n = (of_char c :: nat) in
     (48 \<le> n \<and> n \<le> 57) \<or> (65 \<le> n \<and> n \<le> 90) \<or> (97 \<le> n \<and> n \<le> 122) \<or> c = CHR ''_'' \<or> c = CHR ''-'')"

definition configValueFileNamePattern :: "string \<Rightarrow> bool" where
  "configValueFileNamePattern s \<longleftrightarrow>
     (let n = length s - 5 in length s > 5 \<and> drop n s = ''.toml'' \<and> list_all name_char (take n s))"

subsection \<open>Inserting one entry\<close>

datatype overlayOrigin = Origin (origin_key: string) (origin_children: "(string \<times> overlayOrigin) list")

definition child :: "overlayOrigin \<Rightarrow> string \<Rightarrow> overlayOrigin" where
  "child org name =
     (case map_of (origin_children org) name of Some c \<Rightarrow> c | None \<Rightarrow> Origin [] [])"

definition set_child :: "overlayOrigin \<Rightarrow> string \<Rightarrow> overlayOrigin \<Rightarrow> overlayOrigin" where
  "set_child org name c = Origin (origin_key org) (put name c (origin_children org))"

text \<open>
  \<open>insertOverlay\<close> returns the key of the entry it collides with, or the empty string, beside
  the destination table and the origins as the Go code leaves them.
\<close>

fun insertOverlay ::
  "table \<Rightarrow> table \<Rightarrow> overlayOrigin \<Rightarrow> string \<Rightarrow> string \<times> table \<times> overlayOrigin" where
  "insertOverlay dst [] org key = ([], dst, org)"
| "insertOverlay dst ((name, value) # rest) org key =
     (case map_of dst name of
        Some previous \<Rightarrow>
          (case (value, previous) of
             (JObject incoming, JObject current) \<Rightarrow>
               (case insertOverlay current incoming (child org name) key of
                  (conflict, current', o') \<Rightarrow>
                    if conflict \<noteq> [] then (conflict, dst, org)
                    else insertOverlay (put name (JObject current') dst) rest
                           (set_child org name o') key)
           | _ \<Rightarrow> (origin_key (child org name), dst, org))
      | None \<Rightarrow>
          (case value of
             JObject incoming \<Rightarrow>
               (case insertOverlay [] incoming (Origin key []) key of
                  (conflict, current', o') \<Rightarrow>
                    if conflict \<noteq> [] then (conflict, dst, org)
                    else insertOverlay (put name (JObject current') dst) rest
                           (set_child org name o') key)
           | _ \<Rightarrow> insertOverlay (put name value dst) rest (set_child org name (Origin key [])) key))"

fun split_on :: "char \<Rightarrow> string \<Rightarrow> string list" where
  "split_on c [] = [[]]"
| "split_on c (x # xs) =
     (if x = c then [] # split_on c xs
      else (case split_on c xs of [] \<Rightarrow> [[x]] | y # ys \<Rightarrow> (x # y) # ys))"

text \<open>Wrapping a value in one object per path segment, innermost first.\<close>

fun nest :: "string list \<Rightarrow> json \<Rightarrow> json" where
  "nest [] v = v"
| "nest (k # ks) v = JObject [(k, nest ks v)]"

type_synonym overlay_state = "(string \<times> table) list \<times> (string \<times> overlayOrigin) list"

definition overlay_entry :: "overlay_state \<Rightarrow> ConfigValue \<Rightarrow> overlay_state result" where
  "overlay_entry st entry =
     (let (fs, origins) = st; file = cv_FileName entry; key = cv_Key entry;
          loc = ''configValues '' @ file @ '':'' @ key @ '': ''
      in if \<not> configValueFileNamePattern file
         then Err (loc @ ''fileName must match ^[A-Za-z0-9_-]+'' @ [CHR 0x5C] @ ''.toml$'')
         else case cv_Value entry of
           None \<Rightarrow> Err (loc @ ''invalid JSON'')
         | Some value \<Rightarrow>
             if containsNull value then Err (loc @
                 ''null values are not supported, including inside objects or arrays; supply a TOML value'')
             else case validateOverlayNumbers value of
               Some e \<Rightarrow> Err (loc @ e)
             | None \<Rightarrow>
                 (let table = (case map_of fs file of Some t \<Rightarrow> t | None \<Rightarrow> []);
                      origin = (case map_of origins file of Some r \<Rightarrow> r | None \<Rightarrow> Origin [] [])
                  in case nest (split_on (CHR ''.'') key) value of
                       JObject src \<Rightarrow>
                         (case insertOverlay table src origin key of (previous, table', origin') \<Rightarrow>
                            if previous \<noteq> []
                            then Err (''configValues '' @ file @ '': overlapping keys '' @ quoted previous @ '' and '' @
                                      quoted key @ ''; use non-overlapping dotted paths'')
                            else Ok (put file table' fs, put file origin' origins))
                     | _ \<Rightarrow> Err loc))"

fun overlay_entries :: "overlay_state \<Rightarrow> ConfigValue list \<Rightarrow> overlay_state result" where
  "overlay_entries st [] = Ok st"
| "overlay_entries st (e # es) =
     (case overlay_entry st e of Inl err \<Rightarrow> Err err | Inr st' \<Rightarrow> overlay_entries st' es)"

definition configValuesOverlay :: "ConfigValue list \<Rightarrow> files result" where
  "configValuesOverlay values =
     (case overlay_entries ([], []) values of Inl e \<Rightarrow> Err e | Inr (fs, _) \<Rightarrow> Ok fs)"

definition ValidateConfigValues :: "ConfigValue list \<Rightarrow> error option" where
  "ValidateConfigValues values =
     (case configValuesOverlay values of Inl e \<Rightarrow> Some e | Inr _ \<Rightarrow> None)"

subsection \<open>The hash of configValues\<close>

fun canonicalJSONValue :: "json \<Rightarrow> json" where
  "canonicalJSONValue (JNumber s) = JNumber (canonicalJSONNumber s)"
| "canonicalJSONValue (JObject kvs) = JObject (map (\<lambda>kv. (fst kv, canonicalJSONValue (snd kv))) kvs)"
| "canonicalJSONValue (JArray js) = JArray (map canonicalJSONValue js)"
| "canonicalJSONValue v = v"

text \<open>\<open>json.Marshal\<close>: compact, object keys sorted, strings escaped as the package does for
  one-byte characters (control characters, quotes, backslashes and the HTML characters).\<close>

definition hex_digit :: "nat \<Rightarrow> char" where
  "hex_digit n = (if n < 10 then char_of (48 + n) else char_of (87 + n))"

definition json_escape :: "char \<Rightarrow> string" where
  "json_escape c = (let n = (of_char c :: nat) in
     if n = 34 then [CHR 0x5C, CHR 0x22] else if n = 92 then [CHR 0x5C, CHR 0x5C]
     else if n = 8 then [CHR 0x5C, CHR ''b''] else if n = 12 then [CHR 0x5C, CHR ''f'']
     else if n = 10 then [CHR 0x5C, CHR ''n''] else if n = 13 then [CHR 0x5C, CHR ''r'']
     else if n = 9 then [CHR 0x5C, CHR ''t'']
     else if n < 32 \<or> n = 60 \<or> n = 62 \<or> n = 38
     then [CHR 0x5C, CHR ''u'', CHR ''0'', CHR ''0'', hex_digit (n div 16), hex_digit (n mod 16)]
     else [c])"

definition json_string :: "string \<Rightarrow> string" where
  "json_string s = quoted (concat (map json_escape s))"

fun json_encode :: "json \<Rightarrow> string" where
  "json_encode JNull = ''null''"
| "json_encode (JBool b) = (if b then ''true'' else ''false'')"
| "json_encode (JNumber s) = s"
| "json_encode (JString s) = json_string s"
| "json_encode (JArray js) = ''['' @ join (map json_encode js) '','' @ '']''"
| "json_encode (JObject kvs) =
     ''{'' @ join (map (\<lambda>kv. json_string (fst kv) @ '':'' @ snd kv)
       (sort_key fst (map (\<lambda>kv. (fst kv, json_encode (snd kv))) kvs))) '','' @ ''}''"

definition config_tuple :: "ConfigValue \<Rightarrow> string result" where
  "config_tuple entry =
     (case cv_Value entry of
        None \<Rightarrow> Err (''configValues '' @ cv_FileName entry @ '':'' @ cv_Key entry @ '': invalid JSON'')
      | Some v \<Rightarrow> Ok (json_encode
          (JArray [JString (cv_FileName entry), JString (cv_Key entry), canonicalJSONValue v])))"

definition configValuesHash :: "ext \<Rightarrow> ConfigValue list \<Rightarrow> string result" where
  "configValuesHash E values =
     (case map_result config_tuple values of
        Inl e \<Rightarrow> Err e
      | Inr tuples \<Rightarrow> Ok (Sum256 E (json_encode (JArray (map JString (sort tuples))))))"

subsection \<open>The engine overlay\<close>

definition AutobahnConfigPath :: string where
  "AutobahnConfigPath = ''/home/nonroot/.sei/config/autobahn.json''"

definition consensusOverlay :: "SeiNode \<Rightarrow> files option" where
  "consensusOverlay n =
     (let c = spec_Consensus (node_Spec n);
          engine = EffectiveExecutionEngine (node_Spec n);
          base = [(''autobahn-config-file'', JString AutobahnConfigPath)]
      in if \<not> IsAutobahn c then None
         else if \<not> IsEvmOnly engine
         then Some [(''config.toml'', base),
                    (''app.toml'', [(''evm'', JObject [(''ws_enabled'', JBool True)])])]
         else Some [(''config.toml'', base @ [(''evm-only'', JBool True),
                                            (''rpc'', JObject [(''laddr'', JString [])])]),
                    (''app.toml'', [(''evm'', JObject [(''ws_enabled'', JBool True),
                                                  (''http_enabled'', JBool (EvmHTTPEnabled engine))]),
                                  (''api'', JObject [(''enable'', JBool False)]),
                                  (''grpc'', JObject [(''enable'', JBool False)]),
                                  (''grpc-web'', JObject [(''enable'', JBool False)])])])"

fun mergeTables :: "table \<Rightarrow> table \<Rightarrow> string \<Rightarrow> string \<Rightarrow> table result" where
  "mergeTables dst [] file prefix = Ok dst"
| "mergeTables dst ((key, value) # rest) file prefix =
     (case map_of dst key of
        None \<Rightarrow> mergeTables (put key value dst) rest file prefix
      | Some taken \<Rightarrow>
          (case (value, taken) of
             (JObject incoming, JObject current) \<Rightarrow>
               (case mergeTables current incoming file (prefix @ key @ ''.'') of
                  Inl e \<Rightarrow> Err e
                | Inr current' \<Rightarrow> mergeTables (put key (JObject current') dst) rest file prefix)
           | _ \<Rightarrow> Err (''configValues '' @ file @ '':'' @ prefix @ key @
                 '': this key is set by spec.consensus or spec.executionEngine and cannot be overridden'')))"

fun merge_files :: "files \<Rightarrow> files \<Rightarrow> files result" where
  "merge_files user [] = Ok user"
| "merge_files user ((file, table) # rest) =
     (let current = (case map_of user file of Some t \<Rightarrow> t | None \<Rightarrow> [])
      in case mergeTables current table file [] of
           Inl e \<Rightarrow> Err e
         | Inr merged \<Rightarrow> merge_files (put file merged user) rest)"

definition mergeOverlayPatches :: "files option \<Rightarrow> files option \<Rightarrow> files option result" where
  "mergeOverlayPatches user controller =
     (case controller of
        None \<Rightarrow> Ok user
      | Some c \<Rightarrow> (case user of
          None \<Rightarrow> Ok (Some c)
        | Some u \<Rightarrow> (case merge_files u c of Inl e \<Rightarrow> Err e | Inr m \<Rightarrow> Ok (Some m))))"

end
