(* ===== verification/PlanBuilder.thy ===== *)
theory PlanBuilder
  imports ConfigOverlay
begin

text \<open>
  The plan-construction helpers of \<open>internal/planner/planner.go\<close>: progressions, task
  params, planned tasks and the assembly of init and update plans.  A fresh plan identifier
  (\<open>uuid.New()\<close>) is the argument \<open>pid\<close>.  Every builder that writes the node's
  conditions returns the node beside its result, errors included.
\<close>

subsection \<open>Conditions of a node\<close>

abbreviation ConditionNodeUpdateInProgress :: string where
  "ConditionNodeUpdateInProgress \<equiv> ''NodeUpdateInProgress''"
abbreviation ConditionSidecarReady :: string where
  "ConditionSidecarReady \<equiv> ''SidecarReady''"
abbreviation ConditionStateSyncReady :: string where
  "ConditionStateSyncReady \<equiv> ''StateSyncReady''"
abbreviation ConditionDataResetInProgress :: string where
  "ConditionDataResetInProgress \<equiv> ''DataResetInProgress''"
abbreviation ConditionMaintenanceInProgress :: string where
  "ConditionMaintenanceInProgress \<equiv> ''MaintenanceInProgress''"

definition set_node_cond ::
  "ext \<Rightarrow> SeiNode \<Rightarrow> string \<Rightarrow> condition_status \<Rightarrow> string \<Rightarrow> string \<Rightarrow> SeiNode" where
  "set_node_cond E n ty st reason msg =
     upd_status (\<lambda>s. s\<lparr>st_Conditions :=
       SetStatusCondition E (st_Conditions s) (mk_condition ty st reason msg (node_Generation n))\<rparr>) n"

abbreviation node_cond :: "ext \<Rightarrow> SeiNode \<Rightarrow> string \<Rightarrow> condition option" where
  "node_cond E n ty \<equiv> FindStatusCondition E (node_Conditions n) ty"

definition setNodeUpdateCondition ::
  "ext \<Rightarrow> SeiNode \<Rightarrow> condition_status \<Rightarrow> string \<Rightarrow> string \<Rightarrow> SeiNode" where
  "setNodeUpdateCondition E n st reason msg =
     set_node_cond E n ConditionNodeUpdateInProgress st reason msg"

definition hasNodeUpdateCondition :: "ext \<Rightarrow> SeiNode \<Rightarrow> bool" where
  "hasNodeUpdateCondition E n \<longleftrightarrow>
     (case node_cond E n ConditionNodeUpdateInProgress of
        None \<Rightarrow> False | Some c \<Rightarrow> cond_Status c = ConditionTrue)"

lemma set_node_cond_frame [simp]:
  "node_Name (set_node_cond E n ty st re ms) = node_Name n"
  "node_Namespace (set_node_cond E n ty st re ms) = node_Namespace n"
  "node_Annotations (set_node_cond E n ty st re ms) = node_Annotations n"
  "node_Generation (set_node_cond E n ty st re ms) = node_Generation n"
  "node_CreationTimestamp (set_node_cond E n ty st re ms) = node_CreationTimestamp n"
  "node_Spec (set_node_cond E n ty st re ms) = node_Spec n"
  "node_Phase (set_node_cond E n ty st re ms) = node_Phase n"
  "node_Plan (set_node_cond E n ty st re ms) = node_Plan n"
  "st_CurrentImage (node_Status (set_node_cond E n ty st re ms)) = st_CurrentImage (node_Status n)"
  "st_CurrentSidecarImage (node_Status (set_node_cond E n ty st re ms)) = st_CurrentSidecarImage (node_Status n)"
  "st_CurrentConfigValuesHash (node_Status (set_node_cond E n ty st re ms)) = st_CurrentConfigValuesHash (node_Status n)"
  "st_CurrentNodeIsolation (node_Status (set_node_cond E n ty st re ms)) = st_CurrentNodeIsolation (node_Status n)"
  "st_CurrentNodePool (node_Status (set_node_cond E n ty st re ms)) = st_CurrentNodePool (node_Status n)"
  "st_AdoptedWorkflow (node_Status (set_node_cond E n ty st re ms)) = st_AdoptedWorkflow (node_Status n)"
  "st_ResolvedPeers (node_Status (set_node_cond E n ty st re ms)) = st_ResolvedPeers (node_Status n)"
  "st_ResolvedStateSyncers (node_Status (set_node_cond E n ty st re ms)) = st_ResolvedStateSyncers (node_Status n)"
  "st_DataResetGeneration (node_Status (set_node_cond E n ty st re ms)) = st_DataResetGeneration (node_Status n)"
  "st_MaintenanceHold (node_Status (set_node_cond E n ty st re ms)) = st_MaintenanceHold (node_Status n)"
  by (simp_all add: set_node_cond_def)

lemma node_cond_set_same:
  assumes "cond_laws E"
  shows "\<exists>c. node_cond E (set_node_cond E n ty st re ms) ty = Some c \<and> cond_Status c = st \<and>
             cond_Reason c = re \<and> cond_Message c = ms"
  using status_conditions.find_after_set
      [OF assms, of "node_Conditions n" "mk_condition ty st re ms (node_Generation n)"]
  by (auto simp: set_node_cond_def)

lemma node_cond_set_other:
  assumes "cond_laws E" and "ty' \<noteq> ty"
  shows "node_cond E (set_node_cond E n ty st re ms) ty' = node_cond E n ty'"
  using status_conditions.find_set_other
      [OF assms(1), of ty' "mk_condition ty st re ms (node_Generation n)" "node_Conditions n"] assms(2)
  by (simp add: set_node_cond_def)

subsection \<open>Planned tasks\<close>

definition DeterministicTaskID :: "ext \<Rightarrow> string \<Rightarrow> TaskType \<Rightarrow> nat \<Rightarrow> string" where
  "DeterministicTaskID E planID taskType planIndex =
     NewSHA1 E (planID @ ''/'' @ task_type_string taskType @ ''/'' @ itoa (int planIndex))"

abbreviation genesisConfigureMaxRetries :: int where
  "genesisConfigureMaxRetries \<equiv> 180"
abbreviation groupAssemblyMaxRetries :: int where
  "groupAssemblyMaxRetries \<equiv> 180"

fun taskMaxRetries :: "TaskType \<Rightarrow> int" where
  "taskMaxRetries ConfigureGenesis = genesisConfigureMaxRetries"
| "taskMaxRetries AssembleGenesis = groupAssemblyMaxRetries"
| "taskMaxRetries ReplacePod = 3"
| "taskMaxRetries _ = 0"

text \<open>\<open>json.Marshal\<close> rejects a number token that is not a JSON number; the other params
  always encode.\<close>

fun json_marshalable :: "json \<Rightarrow> bool" where
  "json_marshalable (JNumber s) = valid_number s"
| "json_marshalable (JObject kvs) = list_all (\<lambda>kv. json_marshalable (snd kv)) kvs"
| "json_marshalable (JArray js) = list_all json_marshalable js"
| "json_marshalable _ = True"

fun params_marshalable :: "TaskParams \<Rightarrow> bool" where
  "params_marshalable (ConfigPatchParams fs) = list_all (\<lambda>f. json_marshalable (JObject (snd f))) fs"
| "params_marshalable _ = True"

definition marshalParams :: "TaskParams \<Rightarrow> TaskParams result" where
  "marshalParams v = (if params_marshalable v then Ok v else Err ''marshaling: invalid number literal'')"

definition buildPlannedTask :: "ext \<Rightarrow> string \<Rightarrow> TaskType \<Rightarrow> nat \<Rightarrow> TaskParams \<Rightarrow> PlannedTask result" where
  "buildPlannedTask E planID taskType planIndex params =
     (case marshalParams params of
        Inl e \<Rightarrow> Err (''task '' @ task_type_string taskType @ '': '' @ e)
      | Inr p \<Rightarrow> Ok \<lparr>pt_Type = taskType, pt_ID = DeterministicTaskID E planID taskType planIndex,
                     pt_Status = TaskPending, pt_Params = p, pt_SubmittedAt = None, pt_Error = [],
                     pt_MaxRetries = taskMaxRetries taskType, pt_RetryCount = 0\<rparr>)"

definition build_tasks ::
  "ext \<Rightarrow> string \<Rightarrow> (TaskType \<times> TaskParams) list \<Rightarrow> PlannedTask list result" where
  "build_tasks E planID steps =
     map_result (\<lambda>(i, ty, params). buildPlannedTask E planID ty i params) (List.enumerate 0 steps)"

definition new_plan ::
  "string \<Rightarrow> PlannedTask list \<Rightarrow> SeiNodePhase \<Rightarrow> SeiNodePhase \<Rightarrow> TaskPlan" where
  "new_plan planID tasks target failed =
     \<lparr>plan_ID = planID, plan_Phase = TaskPlanActive, plan_Tasks = tasks, plan_TargetPhase = target,
      plan_ConfigValuesHash = [], plan_FailedPhase = failed, plan_FailedTaskIndex = None,
      plan_FailedTaskDetail = None\<rparr>"

subsection \<open>Progressions\<close>

definition insertBefore :: "TaskType list \<Rightarrow> TaskType \<Rightarrow> TaskType \<Rightarrow> TaskType list result" where
  "insertBefore prog target taskType =
     (if taskType \<in> set prog then Ok prog
      else case find_index (\<lambda>t. t = target) prog of
             Some i \<Rightarrow> Ok (take i prog @ taskType # drop i prog)
           | None \<Rightarrow> Err (''insertBefore: target '' @ quoted (task_type_string target) @
                         '' not found in progression''))"

definition hasS3Snapshot :: "SnapshotSource option \<Rightarrow> bool" where
  "hasS3Snapshot snap \<longleftrightarrow> (case snap of None \<Rightarrow> False | Some s \<Rightarrow> snap_S3 s \<noteq> None)"

definition hasStateSync :: "SnapshotSource option \<Rightarrow> bool" where
  "hasStateSync snap \<longleftrightarrow> (case snap of None \<Rightarrow> False | Some s \<Rightarrow> snap_StateSync s)"

definition needsStateSyncWitnesses :: "SnapshotSource option \<Rightarrow> bool" where
  "needsStateSyncWitnesses snap \<longleftrightarrow> snap \<noteq> None"

datatype bootstrap_mode = BootSnapshot | BootStateSync | BootGenesis

definition bootstrapMode :: "SnapshotSource option \<Rightarrow> bootstrap_mode" where
  "bootstrapMode snap =
     (if hasS3Snapshot snap then BootSnapshot
      else if hasStateSync snap then BootStateSync else BootGenesis)"

fun baseProgression :: "bootstrap_mode \<Rightarrow> TaskType list" where
  "baseProgression BootSnapshot = [SnapshotRestore, ConfigApply, ConfigValidate, MarkReady]"
| "baseProgression BootStateSync = [ConfigApply, ConfigValidate, MarkReady]"
| "baseProgression BootGenesis = [ConfigApply, ConfigValidate, MarkReady]"

definition buildSidecarProgression :: "SnapshotSource option \<Rightarrow> TaskType list result" where
  "buildSidecarProgression snap =
     bind_result (insertBefore (baseProgression (bootstrapMode snap)) ConfigApply ConfigureGenesis)
       (\<lambda>prog. if needsStateSyncWitnesses snap
               then insertBefore prog ConfigValidate ConfigureStateSync else Ok prog)"

subsection \<open>Key material\<close>

definition nonempty_secret :: "SecretKeySource option \<Rightarrow> bool" where
  "nonempty_secret k \<longleftrightarrow> (case k of Some (Some s) \<Rightarrow> s \<noteq> [] | _ \<Rightarrow> False)"

definition needsValidateSigningKey :: "SeiNode \<Rightarrow> bool" where
  "needsValidateSigningKey n \<longleftrightarrow>
     (case spec_Validator (node_Spec n) of None \<Rightarrow> False | Some v \<Rightarrow> nonempty_secret (val_SigningKey v))"

definition needsValidateNodeKey :: "SeiNode \<Rightarrow> bool" where
  "needsValidateNodeKey n \<longleftrightarrow>
     (case NodeKeySecret (node_Spec n) of None \<Rightarrow> False | Some s \<Rightarrow> s \<noteq> [])"

definition needsValidateOperatorKeyring :: "SeiNode \<Rightarrow> bool" where
  "needsValidateOperatorKeyring n \<longleftrightarrow>
     (case spec_Validator (node_Spec n) of
        None \<Rightarrow> False
      | Some v \<Rightarrow> (case val_OperatorKeyring v of Some (Some s) \<Rightarrow> opk_SecretName s \<noteq> [] | _ \<Rightarrow> False))"

definition validateSigningKeyParams :: "SeiNode \<Rightarrow> TaskParams" where
  "validateSigningKeyParams n =
     (case spec_Validator (node_Spec n) of
        Some v \<Rightarrow> (case val_SigningKey v of
            Some (Some s) \<Rightarrow> if s \<noteq> [] then SecretParams s (node_Namespace n) else NilParams
          | _ \<Rightarrow> NilParams)
      | None \<Rightarrow> NilParams)"

definition validateNodeKeyParams :: "SeiNode \<Rightarrow> TaskParams" where
  "validateNodeKeyParams n =
     (case NodeKeySecret (node_Spec n) of
        Some s \<Rightarrow> if s \<noteq> [] then SecretParams s (node_Namespace n) else NilParams
      | None \<Rightarrow> NilParams)"

definition DefaultOperatorKeyName :: string where
  "DefaultOperatorKeyName = ''node_admin''"

definition validateOperatorKeyringParams :: "SeiNode \<Rightarrow> TaskParams" where
  "validateOperatorKeyringParams n =
     (case spec_Validator (node_Spec n) of
        Some v \<Rightarrow> (case val_OperatorKeyring v of
            Some (Some s) \<Rightarrow>
              if opk_SecretName s \<noteq> []
              then KeyringParams (opk_SecretName s)
                     (if opk_KeyName s = [] then DefaultOperatorKeyName else opk_KeyName s)
                     (opk_PassphraseSecretName s) (opk_PassphraseKey s) (node_Namespace n)
              else NilParams
          | _ \<Rightarrow> NilParams)
      | None \<Rightarrow> NilParams)"

definition isGenesisCeremonyNode :: "SeiNode \<Rightarrow> bool" where
  "isGenesisCeremonyNode n \<longleftrightarrow>
     (case spec_Validator (node_Spec n) of None \<Rightarrow> False | Some v \<Rightarrow> val_GenesisCeremony v \<noteq> None)"

text \<open>The key-validation gates, in the order every builder appends them.\<close>

definition key_gates :: "SeiNode \<Rightarrow> TaskType list" where
  "key_gates n =
     (if needsValidateSigningKey n then [ValidateSigningKey] else []) @
     (if needsValidateNodeKey n then [ValidateNodeKey] else []) @
     (if needsValidateOperatorKeyring n then [ValidateOperatorKeyring] else [])"

definition validateSnapshotGeneration :: "SnapshotGenerationConfig option \<Rightarrow> error option" where
  "validateSnapshotGeneration sg =
     (case sg of
        None \<Rightarrow> None
      | Some None \<Rightarrow> Some ''snapshotGeneration is set but has no sub-struct (e.g., tendermint); omit it to disable snapshot generation''
      | Some (Some tm) \<Rightarrow>
          if tm_Publish tm \<and> tm_KeepRecent tm < 2
          then Some ''snapshotGeneration.tendermint.keepRecent must be >= 2 when publish is set (upload algorithm requires the second-to-latest snapshot)''
          else None)"

subsection \<open>Overrides\<close>

abbreviation overrideKeyLoggingLevel :: string where
  "overrideKeyLoggingLevel \<equiv> ''logging.level''"
abbreviation defaultLoggingLevel :: string where
  "defaultLoggingLevel \<equiv> ''error''"
abbreviation keyP2PPersistentPeers :: string where
  "keyP2PPersistentPeers \<equiv> ''network.p2p.persistent_peers''"
abbreviation keyFreezeHeight :: string where
  "keyFreezeHeight \<equiv> ''chain.freeze_height''"

definition mergeOverrides :: "overrides \<Rightarrow> overrides \<Rightarrow> overrides" where
  "mergeOverrides controllerOverrides userOverrides = Mapping.combine (\<lambda>_ user. user) controllerOverrides userOverrides"

definition freezeOverrides :: "int option \<Rightarrow> overrides" where
  "freezeOverrides fz = (case fz of None \<Rightarrow> Mapping.empty | Some h \<Rightarrow> Mapping.update keyFreezeHeight (itoa h) Mapping.empty)"

definition commonOverrides :: "ext \<Rightarrow> SeiNode \<Rightarrow> overrides" where
  "commonOverrides E n =
     (let out = Mapping.update keyP2PPersistentPeers (join (st_ResolvedPeers (node_Status n)) '','')
                  (Mapping.update overrideKeyLoggingLevel defaultLoggingLevel Mapping.empty)
      in if spec_ExternalAddress (node_Spec n) \<noteq> []
         then Mapping.update (KeyP2PExternalAddress E) (spec_ExternalAddress (node_Spec n)) out else out)"

text \<open>The config.toml patch of a running-node update.\<close>

definition p2pConfigPatch :: "SeiNode \<Rightarrow> files" where
  "p2pConfigPatch n =
     [(''config.toml'',
       [(''p2p'', JObject [(''external-address'', JString (spec_ExternalAddress (node_Spec n))),
                       (''persistent-peers'', JString (join (st_ResolvedPeers (node_Status n)) '',''))])])]"

subsection \<open>Params of a task\<close>

definition snapshotRestoreTask :: "SnapshotSource option \<Rightarrow> TaskParams" where
  "snapshotRestoreTask snap =
     (case snap of
        Some s \<Rightarrow> (case snap_S3 s of Some h \<Rightarrow> SnapshotRestoreParams h | None \<Rightarrow> SnapshotRestoreParams 0)
      | None \<Rightarrow> SnapshotRestoreParams 0)"

definition configureStateSyncTask :: "SeiNode \<Rightarrow> ConfigureStateSyncTask" where
  "configureStateSyncTask n =
     (let snap = SnapshotSource_of (node_Spec n);
          t = \<lparr>css_UseLocalSnapshot = hasS3Snapshot snap, css_TrustPeriod = [], css_BackfillBlocks = 0,
               css_RpcServers = st_ResolvedStateSyncers (node_Status n)\<rparr>
      in case snap of
           None \<Rightarrow> t
         | Some s \<Rightarrow> t\<lparr>css_TrustPeriod := snap_TrustPeriod s, css_BackfillBlocks := snap_BackfillBlocks s\<rparr>)"

definition genesisCeremonyTaskParams :: "SeiNode \<Rightarrow> TaskType \<Rightarrow> TaskParams" where
  "genesisCeremonyTaskParams n ty =
     (case spec_Validator (node_Spec n) of
        None \<Rightarrow> NilParams
      | Some v \<Rightarrow> (case val_GenesisCeremony v of
          None \<Rightarrow> NilParams
        | Some gc \<Rightarrow> (case ty of
            GenerateIdentity \<Rightarrow> GenerateIdentityParams (gc_ChainID gc) (node_Name n)
          | GenerateGentx \<Rightarrow> GenerateGentxParams (gc_ChainID gc) (gc_StakingAmount gc) (gc_AccountBalance gc)
          | UploadGenesisArtifacts \<Rightarrow>
              UploadGenesisParams (node_Name n) (node_Namespace n) (IsAutobahn (spec_Consensus (node_Spec n)))
          | SetGenesisPeers \<Rightarrow> EmptyParams
          | _ \<Rightarrow> NilParams)))"

definition paramsForTaskType ::
  "ext \<Rightarrow> SeiNode \<Rightarrow> TaskType \<Rightarrow> SnapshotSource option \<Rightarrow> ConfigIntent option \<Rightarrow> TaskParams" where
  "paramsForTaskType E n ty snap configIntent =
     (let infra = NodeParams (node_Name n) (node_Namespace n) in
      case ty of
        EnsureDataPVC \<Rightarrow> infra
      | ApplyStatefulSet \<Rightarrow> infra
      | ApplyService \<Rightarrow> infra
      | ApplyRBACProxyConfig \<Rightarrow> infra
      | ReplacePod \<Rightarrow> infra
      | ObserveImage \<Rightarrow> infra
      | ValidateSigningKey \<Rightarrow> validateSigningKeyParams n
      | ValidateNodeKey \<Rightarrow> validateNodeKeyParams n
      | ValidateOperatorKeyring \<Rightarrow> validateOperatorKeyringParams n
      | SnapshotRestore \<Rightarrow> snapshotRestoreTask snap
      | ConfigureGenesis \<Rightarrow> ConfigureGenesisParams (IsAutobahn (spec_Consensus (node_Spec n)))
      | ConfigApply \<Rightarrow> (case configIntent of Some i \<Rightarrow> ConfigApplyParams i | None \<Rightarrow> EmptyParams)
      | ConfigureStateSync \<Rightarrow> StateSyncParams (configureStateSyncTask n)
      | ConfigValidate \<Rightarrow> EmptyParams
      | MarkReady \<Rightarrow> EmptyParams
      | RestartSeid \<Rightarrow> UpCheckParams (UpCheckForNode E n)
      | GenerateIdentity \<Rightarrow> genesisCeremonyTaskParams n ty
      | GenerateGentx \<Rightarrow> genesisCeremonyTaskParams n ty
      | UploadGenesisArtifacts \<Rightarrow> genesisCeremonyTaskParams n ty
      | SetGenesisPeers \<Rightarrow> genesisCeremonyTaskParams n ty
      | _ \<Rightarrow> NilParams)"

subsection \<open>The configValues overlay in a plan\<close>

fun splice_overlay ::
  "ext \<Rightarrow> string \<Rightarrow> files \<Rightarrow> nat \<Rightarrow> PlannedTask list \<Rightarrow> PlannedTask list result" where
  "splice_overlay E planID patch k [] = Ok []"
| "splice_overlay E planID patch k (planned # rest) =
     (if pt_Type planned = ConfigValidate
      then case buildPlannedTask E planID ConfigPatch k (ConfigPatchParams patch) of
             Inl e \<Rightarrow> Err e
           | Inr overlay \<Rightarrow>
               (case splice_overlay E planID patch (Suc (Suc k)) rest of
                  Inl e \<Rightarrow> Err e
                | Inr tasks \<Rightarrow> Ok (overlay #
                    planned\<lparr>pt_ID := DeterministicTaskID E planID ConfigValidate (Suc k)\<rparr> # tasks))
      else case splice_overlay E planID patch (Suc k) rest of
             Inl e \<Rightarrow> Err e
           | Inr tasks \<Rightarrow> Ok (planned\<lparr>pt_ID := DeterministicTaskID E planID (pt_Type planned) k\<rparr> # tasks))"

definition withConfigValues :: "ext \<Rightarrow> TaskPlan \<Rightarrow> SeiNode \<Rightarrow> TaskPlan result" where
  "withConfigValues E plan n =
     (case configValuesHash E (spec_ConfigValues (node_Spec n)) of
        Inl e \<Rightarrow> Err e
      | Inr hash \<Rightarrow>
          (let plan' = plan\<lparr>plan_ConfigValuesHash := hash\<rparr>;
               engine = consensusOverlay n
           in if spec_ConfigValues (node_Spec n) = [] \<and> engine = None then Ok plan'
              else case configValuesOverlay (spec_ConfigValues (node_Spec n)) of
                Inl e \<Rightarrow> Err e
              | Inr user \<Rightarrow> (case mergeOverlayPatches (Some user) engine of
                  Inl e \<Rightarrow> Err e
                | Inr merged \<Rightarrow>
                    (case splice_overlay E (plan_ID plan) (case merged of Some p \<Rightarrow> p | None \<Rightarrow> []) 0
                            (plan_Tasks plan) of
                       Inl e \<Rightarrow> Err e
                     | Inr tasks \<Rightarrow>
                         if length tasks = length (plan_Tasks plan)
                         then Err ''configValues: cannot splice overlay: plan has no config-validate task''
                         else Ok (plan'\<lparr>plan_Tasks := tasks\<rparr>)))))"

subsection \<open>Init plans\<close>

definition MountsNodeConfig :: "SeiNode \<Rightarrow> bool" where
  "MountsNodeConfig n \<longleftrightarrow> spec_NodeConfig (node_Spec n) \<noteq> None"

definition mountedConfigWriters :: "TaskType list" where
  "mountedConfigWriters =
     [ConfigApply, ConfigPatch, ConfigureStateSync, SetGenesisPeers, GenerateIdentity]"

definition withoutManagedConfigTasks :: "SeiNode \<Rightarrow> TaskType list \<Rightarrow> TaskType list" where
  "withoutManagedConfigTasks n prog =
     (if \<not> MountsNodeConfig n then prog
      else filter (\<lambda>t. \<not> (t = ConfigValidate \<or> t \<in> set mountedConfigWriters)) prog)"

definition mountedConfigWriterInPlan :: "SeiNode \<Rightarrow> TaskPlan option \<Rightarrow> TaskType option" where
  "mountedConfigWriterInPlan n plan =
     (case plan of
        None \<Rightarrow> None
      | Some p \<Rightarrow> if \<not> MountsNodeConfig n then None
                  else map_option pt_Type
                         (List.find (\<lambda>t. pt_Type t \<in> set mountedConfigWriters) (plan_Tasks p)))"

definition buildBasePlan ::
  "ext \<Rightarrow> string \<Rightarrow> SeiNode \<Rightarrow> SnapshotSource option \<Rightarrow> ConfigIntent \<Rightarrow> TaskPlan result" where
  "buildBasePlan E pid n snap configIntent =
     bind_result (buildSidecarProgression snap) (\<lambda>sidecarProg.
       let prog = [EnsureDataPVC] @ key_gates n @ [ApplyRBACProxyConfig] @
                  [ApplyStatefulSet, ApplyService] @ withoutManagedConfigTasks n sidecarProg
       in bind_result
            (build_tasks E pid (map (\<lambda>ty. (ty, paramsForTaskType E n ty snap (Some configIntent))) prog))
            (\<lambda>tasks. withConfigValues E (new_plan pid tasks PhaseRunning PhaseFailed) n))"

definition genesisProgression :: "TaskType list" where
  "genesisProgression =
     [EnsureDataPVC, ApplyRBACProxyConfig, ApplyStatefulSet, ApplyService, GenerateIdentity,
      GenerateGentx, UploadGenesisArtifacts, ConfigureGenesis, ConfigApply, SetGenesisPeers,
      ConfigValidate, MarkReady]"

definition buildGenesisPlan :: "ext \<Rightarrow> string \<Rightarrow> SeiNode \<Rightarrow> TaskPlan result" where
  "buildGenesisPlan E pid n =
     (let configIntent = \<lparr>ci_Mode = ModeValidator,
            ci_Overrides = mergeOverrides (commonOverrides E n) (spec_Overrides (node_Spec n))\<rparr>
      in bind_result
           (build_tasks E pid
              (map (\<lambda>ty. (ty, paramsForTaskType E n ty None (Some configIntent))) genesisProgression))
           (\<lambda>tasks. withConfigValues E (new_plan pid tasks PhaseRunning PhaseFailed) n))"

subsection \<open>Drift\<close>

definition imageDrifted :: "SeiNode \<Rightarrow> bool" where
  "imageDrifted n \<longleftrightarrow> spec_Image (node_Spec n) \<noteq> st_CurrentImage (node_Status n)"

definition configValuesDrifted :: "ext \<Rightarrow> SeiNode \<Rightarrow> bool" where
  "configValuesDrifted E n \<longleftrightarrow>
     (if st_CurrentConfigValuesHash (node_Status n) = [] then False
      else case configValuesHash E (spec_ConfigValues (node_Spec n)) of
             Inl _ \<Rightarrow> True
           | Inr hash \<Rightarrow> hash \<noteq> st_CurrentConfigValuesHash (node_Status n))"

definition sidecarImageDrifted :: "SeiNode \<Rightarrow> PlatformConfig \<Rightarrow> bool" where
  "sidecarImageDrifted n p \<longleftrightarrow>
     st_CurrentSidecarImage (node_Status n) \<noteq> [] \<and>
     EffectiveSidecarImage n p \<noteq> st_CurrentSidecarImage (node_Status n)"

definition nodeIsolationDrifted :: "SeiNode \<Rightarrow> bool" where
  "nodeIsolationDrifted n \<longleftrightarrow>
     st_CurrentNodeIsolation (node_Status n) \<noteq> NodeIsolationUnset \<and>
     EffectiveNodeIsolation n \<noteq> st_CurrentNodeIsolation (node_Status n)"

definition nodePoolDrifted :: "SeiNode \<Rightarrow> bool" where
  "nodePoolDrifted n \<longleftrightarrow>
     st_CurrentImage (node_Status n) \<noteq> [] \<and>
     RequestedNodePool n \<noteq> st_CurrentNodePool (node_Status n)"

definition podTemplateDrifted :: "SeiNode \<Rightarrow> PlatformConfig \<Rightarrow> bool" where
  "podTemplateDrifted n p \<longleftrightarrow>
     imageDrifted n \<or> sidecarImageDrifted n p \<or> nodeIsolationDrifted n \<or> nodePoolDrifted n"

fun isolation_string :: "NodeIsolation \<Rightarrow> string" where
  "isolation_string NodeIsolationUnset = []"
| "isolation_string NodeIsolationShared = ''Shared''"
| "isolation_string NodeIsolationDedicated = ''Dedicated''"

definition podTemplateDriftMessage :: "SeiNode \<Rightarrow> PlatformConfig \<Rightarrow> string" where
  "podTemplateDriftMessage n p =
     (let st = node_Status n;
          seid = imageDrifted n; sc = sidecarImageDrifted n p;
          isod = nodeIsolationDrifted n; pool = nodePoolDrifted n; iso = (isod \<or> pool);
          parts =
            (if seid then [''seid spec='' @ spec_Image (node_Spec n) @ '' current='' @ st_CurrentImage st] else []) @
            (if sc then [''sidecar spec='' @ EffectiveSidecarImage n p @ '' current='' @ st_CurrentSidecarImage st] else []) @
            (if isod then [''nodeIsolation spec='' @ isolation_string (EffectiveNodeIsolation n) @
                           '' current='' @ isolation_string (st_CurrentNodeIsolation st)] else []) @
            (if pool then [''nodePool spec='' @ quoted (RequestedNodePool n) @
                           '' current='' @ quoted (st_CurrentNodePool st)] else []);
          detail = join parts ''; '';
          placement = (if isod \<and> pool then ''node isolation and node pool''
                       else if pool then ''node pool'' else ''node isolation'')
      in if iso \<and> \<not> seid \<and> \<not> sc then placement @ '' drift detected: '' @ detail
         else if iso then ''image and '' @ placement @ '' drift detected: '' @ detail
         else if sc \<and> \<not> seid then ''sidecar image drift detected: '' @ detail
         else ''image drift detected: '' @ detail)"

definition sidecarNeedsReapproval :: "ext \<Rightarrow> SeiNode \<Rightarrow> bool" where
  "sidecarNeedsReapproval E n \<longleftrightarrow>
     (case node_cond E n ConditionSidecarReady of
        None \<Rightarrow> False
      | Some c \<Rightarrow> cond_Status c = ConditionFalse \<and> cond_Reason c = ''NotReady'')"

definition buildMarkReadyPlan :: "ext \<Rightarrow> string \<Rightarrow> SeiNode \<Rightarrow> TaskPlan result" where
  "buildMarkReadyPlan E pid n =
     bind_result (build_tasks E pid [(MarkReady, paramsForTaskType E n MarkReady None None)])
       (\<lambda>tasks. Ok (new_plan pid tasks PhaseRunning PhaseUnset))"

end
