(* ===== verification/StartGuard.thy ===== *)
theory StartGuard
  imports ApiMethods
begin

text \<open>
  The start guard (\<open>internal/task/start_guard.go\<close>): the rule every path that can start seid
  obeys.  A blocked start is a reason; the empty string lets mark-ready reach the sidecar.
\<close>

fun hold_string :: "MaintenanceHold \<Rightarrow> string" where
  "hold_string HoldNone = []"
| "hold_string HoldImmediate = ''Immediate''"
| "hold_string HoldAfterExit = ''AfterExit''"

definition DataResetPending :: "SeiNode \<Rightarrow> bool" where
  "DataResetPending n \<longleftrightarrow>
     spec_NodeConfig (node_Spec n) \<noteq> None \<and>
     spec_DataResetGeneration (node_Spec n) > st_DataResetGeneration (node_Status n)"

definition resetBlocks :: "SeiNode \<Rightarrow> string" where
  "resetBlocks n =
     (if DataResetPending n
      then ''data reset pending: spec.dataResetGeneration='' @ itoa (spec_DataResetGeneration (node_Spec n)) @
           '', status.dataResetGeneration='' @ itoa (st_DataResetGeneration (node_Status n))
      else [])"

definition StartBlocked :: "SeiNode \<Rightarrow> string" where
  "StartBlocked n =
     (if resetBlocks n \<noteq> [] then resetBlocks n
      else let hold = HoldRequested (node_Spec n)
           in if hold \<noteq> HoldNone \<and> node_Phase n = PhaseRunning
              then ''maintenance hold '' @ hold_string hold @ '' is set'' else [])"

definition startOnceBlocked :: "SeiNode \<Rightarrow> string" where
  "startOnceBlocked n =
     (if resetBlocks n \<noteq> [] then resetBlocks n
      else let hold = HoldRequested (node_Spec n)
           in if hold \<noteq> HoldAfterExit
              then ''start once needs maintenance hold AfterExit, requested now: '' @ quoted (hold_string hold)
              else [])"

definition StartGuardRefusal :: string where
  "StartGuardRefusal = ''mark-ready refused by the start guard''"

lemma resetBlocks_iff [simp]: "resetBlocks n = [] \<longleftrightarrow> \<not> DataResetPending n"
  by (simp add: resetBlocks_def)

lemma StartBlocked_iff:
  "StartBlocked n = [] \<longleftrightarrow>
     \<not> DataResetPending n \<and> (HoldRequested (node_Spec n) = HoldNone \<or> node_Phase n \<noteq> PhaseRunning)"
  by (simp add: StartBlocked_def Let_def)

lemma startOnceBlocked_iff:
  "startOnceBlocked n = [] \<longleftrightarrow> \<not> DataResetPending n \<and> HoldRequested (node_Spec n) = HoldAfterExit"
  by (simp add: startOnceBlocked_def Let_def quoted_def)

end
