(* ===== verification/TaskExec.thy ===== *)
theory TaskExec
  imports PlanBuilder StartGuard
begin

text \<open>
  Task executions (\<open>internal/task\<close>): the \<open>TaskExecution\<close> interface, sidecar-backed tasks
  (\<open>sidecar.go\<close>) with the request validation of \<open>sidecarapi/client/tasks.go\<close>, the
  start-guarded mark-ready (\<open>start_guard.go\<close>), and the two recording tasks and
  observe-image.  Kubernetes and the sidecar are a \<open>world\<close> that answers each call.  An answer
  may depend on every call made before it, so the world may change its state in any way.
\<close>

subsection \<open>Statuses and errors\<close>

datatype ExecutionStatus = ExecutionRunning | ExecutionComplete | ExecutionFailed

text \<open>An error of \<open>Execute\<close>: \<open>Terminal\<close> wraps a permanent one, any other is retried.\<close>

datatype exec_error = Transient error | Terminal error

fun error_text :: "exec_error \<Rightarrow> error" where
  "error_text (Transient e) = e"
| "error_text (Terminal e) = e"

fun isTerminal :: "exec_error \<Rightarrow> bool" where
  "isTerminal (Terminal _) = True"
| "isTerminal (Transient _) = False"

text \<open>The part of an execution object that \<open>Execute\<close> and \<open>Status\<close> update.  It lives for
  one reconcile: every reconcile deserializes a fresh object.\<close>

record taskBase =
  tb_status :: ExecutionStatus
  tb_err :: "error option"
  tb_result :: "json option"  \<comment> \<open>the structured output of a sidecar task\<close>

definition fresh_task :: taskBase where
  "fresh_task = \<lparr>tb_status = ExecutionRunning, tb_err = None, tb_result = None\<rparr>"

definition complete :: "taskBase \<Rightarrow> taskBase" where
  "complete b = b\<lparr>tb_status := ExecutionComplete\<rparr>"

definition setFailed :: "error \<Rightarrow> taskBase \<Rightarrow> taskBase" where
  "setFailed e b = b\<lparr>tb_status := ExecutionFailed, tb_err := Some e\<rparr>"

subsection \<open>The world\<close>

text \<open>The API server's errors, as far as the code tells them apart.\<close>

datatype api_error = NotFound error | Conflict error | AlreadyExists error | ApiError error

fun api_text :: "api_error \<Rightarrow> error" where
  "api_text (NotFound e) = e"
| "api_text (Conflict e) = e"
| "api_text (AlreadyExists e) = e"
| "api_text (ApiError e) = e"

fun IsNotFound :: "api_error \<Rightarrow> bool" where
  "IsNotFound (NotFound _) = True"
| "IsNotFound _ = False"

type_synonym 'a api = "api_error + 'a"

text \<open>Calls that change something outside the controller, newest first in a trace.\<close>

datatype call =
    SubmitTask string TaskType TaskParams
  | CreatePVC string
  | ApplyObject string
  | DeleteStatefulSet string
  | DeletePod string string
  | PatchPeers string "string list"
  | PatchImage string string

datatype sidecar_status = ScPending | ScRunning | ScCompleted | ScFailed

datatype get_task = GetNotFound | GetError error | GetResult sidecar_status "error option" "json option"

record Pod =
  pod_Name :: string
  pod_UID :: string
  pod_Hash :: "string option"
  pod_Deleting :: bool
  pod_Owners :: "(string \<times> string) list"  \<comment> \<open>kind and UID of the owner references\<close>

datatype claim_phase = ClaimPending | ClaimBound | ClaimLost

record PVC =
  pvc_Controlled :: bool  \<comment> \<open>\<open>metav1.IsControlledBy\<close> the node\<close>
  pvc_Deleting :: "string option"
  pvc_Phase :: claim_phase
  pvc_AccessModes :: "string list"
  pvc_Capacity :: "int option"
  pvc_VolumeName :: string
  pvc_Request :: "int option"  \<comment> \<open>\<open>spec.resources.requests.storage\<close>\<close>
  pvc_Conditions :: "(string \<times> bool \<times> string) list"  \<comment> \<open>type, whether True, message\<close>
  pvc_AllocatedStatus :: "string option"

record PV =
  pv_Failed :: bool
  pv_Capacity :: "int option"

text \<open>A Secret's data in the order Go's map iteration visits it; a value is the number of bytes
  and the JSON document they hold, if they hold one.\<close>

record Secret =
  sec_Name :: string
  sec_Deleting :: "string option"
  sec_Data :: "(string \<times> nat \<times> json option) list"

record world =
  w_BuildSidecarClient :: "call list \<Rightarrow> error option"  \<comment> \<open>validates and formats the URL; never dials\<close>
  w_SubmitTask :: "call list \<Rightarrow> string \<Rightarrow> error option"
  w_GetTask :: "call list \<Rightarrow> string \<Rightarrow> get_task"
  w_ParseUUID :: "string \<Rightarrow> error option"
  w_Bech32Decode :: bech32_decode
  w_ParseDuration :: parse_duration
  w_ValidateIntent :: "ConfigIntent option \<Rightarrow> error option"
  w_SetControllerReference :: "string \<Rightarrow> error option"
  w_GenerateStatefulSet :: "SeiNode \<Rightarrow> error option"
  w_StatefulSet :: "call list \<Rightarrow> StatefulSet api"  \<comment> \<open>read past the cache\<close>
  w_CachedStatefulSet :: "call list \<Rightarrow> StatefulSet api"
  w_Apply :: "call list \<Rightarrow> string \<Rightarrow> api_error option"
  w_Delete :: "call list \<Rightarrow> string \<Rightarrow> api_error option"
  w_Create :: "call list \<Rightarrow> string \<Rightarrow> api_error option"
  w_PVC :: "call list \<Rightarrow> string \<Rightarrow> PVC api"
  w_PV :: "call list \<Rightarrow> string \<Rightarrow> PV api"
  w_Secret :: "call list \<Rightarrow> string \<Rightarrow> Secret api"
  w_Pods :: "call list \<Rightarrow> (string \<times> string) list \<Rightarrow> Pod list api"
  w_Node :: "call list \<Rightarrow> string \<Rightarrow> SeiNode api"
  w_NodesOfGroup :: "call list \<Rightarrow> string \<Rightarrow> SeiNode list api"
  w_SidecarFor :: "call list \<Rightarrow> string \<Rightarrow> error option"
  w_NodeID :: "call list \<Rightarrow> string \<Rightarrow> string result"
  w_RequiredStorage :: "SeiNode \<Rightarrow> int result"
  w_QuantityString :: "int \<Rightarrow> string"

text \<open>
  The owning object beside the calls made so far.  \<open>None\<close> is an owner that is not a SeiNode
  (a SeiNetwork running its group plan).
\<close>

record xstate =
  xs_Node :: "SeiNode option"
  xs_Calls :: "call list"

definition upd_node :: "(SeiNode \<Rightarrow> SeiNode) \<Rightarrow> xstate \<Rightarrow> xstate" where
  "upd_node f s = s\<lparr>xs_Node := map_option f (xs_Node s)\<rparr>"

definition log_call :: "call \<Rightarrow> xstate \<Rightarrow> xstate" where
  "log_call c s = s\<lparr>xs_Calls := c # xs_Calls s\<rparr>"

type_synonym execute_outcome = "xstate \<times> taskBase \<times> exec_error option"

definition done_with :: "xstate \<Rightarrow> execute_outcome" where
  "done_with s = (s, complete fresh_task, None)"

definition still_running :: "xstate \<Rightarrow> execute_outcome" where
  "still_running s = (s, fresh_task, None)"

definition give_up :: "xstate \<Rightarrow> exec_error \<Rightarrow> execute_outcome" where
  "give_up s e = (s, fresh_task, Some e)"

definition wrong_resource :: error where
  "wrong_resource = ''expected resource type *v1alpha1.SeiNode, got *v1alpha1.SeiNetwork''"

subsection \<open>Sidecar tasks\<close>

text \<open>The registry's sidecar entries: whether the type is fire-and-forget.\<close>

fun sidecar_entry :: "TaskType \<Rightarrow> bool option" where
  "sidecar_entry ConfigValidate = Some True"
| "sidecar_entry SnapshotRestore = Some False"
| "sidecar_entry ConfigureStateSync = Some False"
| "sidecar_entry AwaitCondition = Some False"
| "sidecar_entry ConfigApply = Some False"
| "sidecar_entry ConfigPatch = Some False"
| "sidecar_entry ConfigureGenesis = Some False"
| "sidecar_entry RestartSeid = Some False"
| "sidecar_entry MarkNotReady = Some False"
| "sidecar_entry StopSeid = Some False"
| "sidecar_entry ResetData = Some False"
| "sidecar_entry AwaitSeidStart = Some False"
| "sidecar_entry ResetDataKeepSignState = Some False"
| "sidecar_entry GenerateIdentity = Some False"
| "sidecar_entry GenerateGentx = Some False"
| "sidecar_entry UploadGenesisArtifacts = Some False"
| "sidecar_entry AssembleGenesis = Some False"
| "sidecar_entry SetGenesisPeers = Some False"
| "sidecar_entry GovVote = Some False"
| "sidecar_entry Unjail = Some False"
| "sidecar_entry GovSoftwareUpgrade = Some False"
| "sidecar_entry GovParamChange = Some False"
| "sidecar_entry GovUpdateInstantiateConfig = Some False"
| "sidecar_entry _ = None"

definition UpCheck_Validate :: "UpCheck \<Rightarrow> error option" where
  "UpCheck_Validate u =
     (if uc_Port u < 1 \<or> uc_Port u > 65535
      then Some (''upCheck: port '' @ itoa (uc_Port u) @ '' is outside 1-65535'')
      else case uc_Scheme u of
        UpCheckTCP \<Rightarrow>
          if uc_Path u \<noteq> []
          then Some (''upCheck: path '' @ quoted (uc_Path u) @ '' is meaningless for scheme tcp'') else None
      | UpCheckHTTP \<Rightarrow>
          if \<not> has_prefix (uc_Path u) ''/''
          then Some (''upCheck: http path '' @ quoted (uc_Path u) @ '' must start with /'') else None)"

definition AwaitCondition_Validate :: "string \<Rightarrow> int \<Rightarrow> string \<Rightarrow> error option" where
  "AwaitCondition_Validate c h a =
     (if c = ''height'' \<and> h \<le> 0
      then Some ''await-condition: height condition requires TargetHeight > 0''
      else if c \<noteq> ''height'' \<and> c \<noteq> ''catchingUp''
      then Some (''await-condition: unknown condition '' @ quoted c)
      else if a \<noteq> [] \<and> a \<noteq> ''SIGTERM_SEID''
      then Some (''await-condition: unknown action '' @ quoted a) else None)"

definition GenerateIdentity_Validate :: "TaskParams \<Rightarrow> error option" where
  "GenerateIdentity_Validate p =
     (case p of GenerateIdentityParams chain moniker \<Rightarrow>
        if chain = [] then Some ''generate-identity: missing required field ChainID''
        else if moniker = [] then Some ''generate-identity: missing required field Moniker'' else None
      | _ \<Rightarrow> Some ''generate-identity: missing required field ChainID'')"

definition GenerateGentx_Validate :: "TaskParams \<Rightarrow> error option" where
  "GenerateGentx_Validate p =
     (case p of GenerateGentxParams chain staking balance \<Rightarrow>
        if chain = [] then Some ''generate-gentx: missing required field ChainID''
        else if staking = [] then Some ''generate-gentx: missing required field StakingAmount''
        else if balance = [] then Some ''generate-gentx: missing required field AccountBalance'' else None
      | _ \<Rightarrow> Some ''generate-gentx: missing required field ChainID'')"

definition UploadGenesisArtifacts_Validate :: "TaskParams \<Rightarrow> error option" where
  "UploadGenesisArtifacts_Validate p =
     (case p of UploadGenesisParams name namespace autobahn \<Rightarrow>
        if name = [] then Some ''upload-genesis-artifacts: missing required field NodeName''
        else if autobahn \<and> namespace = []
        then Some ''upload-genesis-artifacts: Namespace is required when Autobahn is set'' else None
      | _ \<Rightarrow> Some ''upload-genesis-artifacts: missing required field NodeName'')"

text \<open>
  \<open>Validate\<close> of the typed request.  Params of another type decode to Go's zero value, so they fail on
  the first required field.
\<close>

fun request_Validate :: "world \<Rightarrow> TaskType \<Rightarrow> TaskParams \<Rightarrow> error option" where
  "request_Validate W ConfigPatch p =
     (case p of ConfigPatchParams (f # fs) \<Rightarrow> None
      | _ \<Rightarrow> Some ''config-patch: at least one file is required'')"
| "request_Validate W ConfigApply p =
     w_ValidateIntent W (case p of ConfigApplyParams i \<Rightarrow> Some i | _ \<Rightarrow> None)"
| "request_Validate W RestartSeid p =
     (case p of UpCheckParams u \<Rightarrow> map_option (\<lambda>e. ''restart-seid: '' @ e) (UpCheck_Validate u) | _ \<Rightarrow> None)"
| "request_Validate W StopSeid p =
     (case p of UpCheckParams u \<Rightarrow> map_option (\<lambda>e. ''stop-seid: '' @ e) (UpCheck_Validate u) | _ \<Rightarrow> None)"
| "request_Validate W AwaitCondition p =
     (case p of AwaitConditionParams c h a \<Rightarrow> AwaitCondition_Validate c h a
      | _ \<Rightarrow> AwaitCondition_Validate [] 0 [])"
| "request_Validate W GenerateIdentity p = GenerateIdentity_Validate p"
| "request_Validate W GenerateGentx p = GenerateGentx_Validate p"
| "request_Validate W UploadGenesisArtifacts p = UploadGenesisArtifacts_Validate p"
| "request_Validate W AssembleGenesis p =
     (case p of AssembleGenesisParams t \<Rightarrow> AssembleGenesis_Validate (w_Bech32Decode W) (w_ParseDuration W) t
      | _ \<Rightarrow> Some ''assemble-and-upload-genesis: missing required field AccountBalance'')"
| "request_Validate W GovVote p =
     (case p of GovVoteParams t \<Rightarrow> GovVoteTask_Validate t | _ \<Rightarrow> Some ''gov-vote: chainId required'')"
| "request_Validate W Unjail p =
     (case p of UnjailParams t \<Rightarrow> UnjailTask_Validate t | _ \<Rightarrow> Some ''unjail: chainId required'')"
| "request_Validate W GovSoftwareUpgrade p =
     (case p of GovSoftwareUpgradeParams t \<Rightarrow> GovSoftwareUpgradeTask_Validate t
      | _ \<Rightarrow> Some ''gov-software-upgrade: chainId required'')"
| "request_Validate W GovParamChange p =
     (case p of GovParamChangeParams t \<Rightarrow> GovParamChangeTask_Validate t
      | _ \<Rightarrow> Some ''gov-param-change: chainId required'')"
| "request_Validate W GovUpdateInstantiateConfig p =
     (case p of GovUpdateInstantiateConfigParams t \<Rightarrow> GovUpdateInstantiateConfigTask_Validate (w_Bech32Decode W) t
      | _ \<Rightarrow> Some ''gov-update-instantiate-config: chainId required'')"
| "request_Validate W _ p = None"

definition sidecar_Execute ::
  "world \<Rightarrow> bool \<Rightarrow> TaskType \<Rightarrow> string \<Rightarrow> TaskParams \<Rightarrow> xstate \<Rightarrow> execute_outcome" where
  "sidecar_Execute W fireAndForget ty tid p s =
     (case w_BuildSidecarClient W (xs_Calls s) of
        Some e \<Rightarrow> give_up s (Transient (''building sidecar client: '' @ e))
      | None \<Rightarrow> (case w_ParseUUID W tid of
          Some e \<Rightarrow> give_up s (Transient (''invalid task UUID '' @ quoted tid @ '': '' @ e))
        | None \<Rightarrow> (case request_Validate W ty p of
            Some e \<Rightarrow>
              (let err = ''validating '' @ task_type_string ty @ '': '' @ e
               in (s, setFailed err fresh_task, Some (Transient err)))
          | None \<Rightarrow> (case w_SubmitTask W (xs_Calls s) tid of
              Some e \<Rightarrow>
                (let err = ''submitting '' @ task_type_string ty @ '': '' @ e
                 in (s, setFailed err fresh_task, Some (Transient err)))
            | None \<Rightarrow>
                (log_call (SubmitTask tid ty p) s,
                 if fireAndForget then complete fresh_task else fresh_task, None)))))"

definition sidecar_Status :: "world \<Rightarrow> string \<Rightarrow> xstate \<Rightarrow> taskBase \<Rightarrow> taskBase" where
  "sidecar_Status W tid s b =
     (if tb_status b = ExecutionComplete \<or> tb_status b = ExecutionFailed then b
      else case w_BuildSidecarClient W (xs_Calls s) of
        Some e \<Rightarrow> b\<lparr>tb_status := ExecutionRunning\<rparr>
      | None \<Rightarrow> (case w_ParseUUID W tid of
          Some e \<Rightarrow> setFailed (''invalid task UUID '' @ quoted tid @ '': '' @ e) b
        | None \<Rightarrow> (case w_GetTask W (xs_Calls s) tid of
            GetNotFound \<Rightarrow> b\<lparr>tb_status := ExecutionRunning\<rparr>
          | GetError e \<Rightarrow> b
          | GetResult st e res \<Rightarrow>
              (let b1 = (case res of None \<Rightarrow> b | Some r \<Rightarrow> b\<lparr>tb_result := Some r\<rparr>)
               in case st of
                    ScCompleted \<Rightarrow> complete b1
                  | ScFailed \<Rightarrow>
                      setFailed (case e of
                          Some msg \<Rightarrow> if msg \<noteq> [] then msg else ''task '' @ tid @ '' failed with unknown error''
                        | None \<Rightarrow> ''task '' @ tid @ '' failed with unknown error'') b1
                  | _ \<Rightarrow> b1))))"

subsection \<open>The guarded start\<close>

text \<open>\<open>deserializeGuardedMarkReady\<close> and \<open>startGuardedExecution\<close>: both mark-ready and
  start-seid-once submit a mark-ready, behind their own guard.\<close>

definition guarded_Execute ::
  "world \<Rightarrow> (SeiNode \<Rightarrow> string) \<Rightarrow> string \<Rightarrow> TaskParams \<Rightarrow> xstate \<Rightarrow> execute_outcome" where
  "guarded_Execute W blocked tid p s =
     (case xs_Node s of
        None \<Rightarrow> sidecar_Execute W True MarkReady tid p s
      | Some n \<Rightarrow>
          if blocked n \<noteq> []
          then (let err = StartGuardRefusal @ '': '' @ blocked n
                in (s, setFailed err fresh_task, Some (Terminal err)))
          else sidecar_Execute W True MarkReady tid p s)"

subsection \<open>Recording tasks\<close>

definition recordDataReset_Execute :: "TaskParams \<Rightarrow> xstate \<Rightarrow> execute_outcome" where
  "recordDataReset_Execute p s =
     (case xs_Node s of
        None \<Rightarrow> give_up s (Terminal wrong_resource)
      | Some n \<Rightarrow>
          (let gen = (case p of RecordDataResetParams g \<Rightarrow> g | _ \<Rightarrow> 0)
           in done_with (if gen > st_DataResetGeneration (node_Status n)
                then upd_node (upd_status (\<lambda>st. st\<lparr>st_DataResetGeneration := gen\<rparr>)) s else s)))"

definition recordMaintenanceHold_Execute :: "TaskParams \<Rightarrow> xstate \<Rightarrow> execute_outcome" where
  "recordMaintenanceHold_Execute p s =
     (case xs_Node s of
        None \<Rightarrow> give_up s (Terminal wrong_resource)
      | Some n \<Rightarrow>
          (let hold = (case p of RecordHoldParams h \<Rightarrow> h | _ \<Rightarrow> HoldNone)
           in done_with (upd_node (upd_status (\<lambda>st. st\<lparr>st_MaintenanceHold := hold\<rparr>)) s)))"

subsection \<open>Observing a rollout\<close>

definition rolled_out :: "StatefulSet \<Rightarrow> bool" where
  "rolled_out sts \<longleftrightarrow>
     \<not> sts_ObservedGeneration sts < sts_Generation sts \<and>
     (case sts_Replicas sts of None \<Rightarrow> False | Some r \<Rightarrow> \<not> sts_UpdatedReplicas sts < r)"

definition stamp_running :: "PlatformConfig \<Rightarrow> SeiNode \<Rightarrow> SeiNode" where
  "stamp_running P n =
     upd_status (\<lambda>st. st\<lparr>st_CurrentImage := spec_Image (node_Spec n),
                        st_CurrentSidecarImage := EffectiveSidecarImage n P,
                        st_CurrentNodeIsolation := EffectiveNodeIsolation n,
                        st_CurrentNodePool := RequestedNodePool n\<rparr>) n"

definition observeImage_Execute :: "PlatformConfig \<Rightarrow> world \<Rightarrow> xstate \<Rightarrow> execute_outcome" where
  "observeImage_Execute P W s =
     (case xs_Node s of
        None \<Rightarrow> give_up s (Terminal wrong_resource)
      | Some n \<Rightarrow> (case w_StatefulSet W (xs_Calls s) of
          Inl e \<Rightarrow> if IsNotFound e then still_running s
                   else give_up s (Transient (''getting statefulset: '' @ api_text e))
        | Inr sts \<Rightarrow>
            if rolled_out sts then done_with (upd_node (stamp_running P) s) else still_running s))"

end
