(* ===== verification/InfraTasks.thy ===== *)
theory InfraTasks
  imports TaskExec
begin

text \<open>
  The controller-side tasks of \<open>internal/task\<close>: the apply tasks with the StatefulSet sync of
  \<open>internal/noderesource/sync.go\<close>, ensure-data-pvc, replace-pod, the key validations, the
  group tasks and update-node-image; then the registry that dispatches a task type to its
  execution.
\<close>

subsection \<open>Applying rendered objects\<close>

definition apply_object :: "world \<Rightarrow> string \<Rightarrow> string \<Rightarrow> xstate \<Rightarrow> execute_outcome" where
  "apply_object W kind what s =
     (case xs_Node s of
        None \<Rightarrow> give_up s (Transient wrong_resource)
      | Some n \<Rightarrow> (case w_SetControllerReference W kind of
          Some e \<Rightarrow> give_up s (Transient (''setting owner reference on '' @ what @ '': '' @ e))
        | None \<Rightarrow> (case w_Apply W (xs_Calls s) kind of
            Some e \<Rightarrow> give_up s (Transient (''applying '' @ what @ '': '' @ api_text e))
          | None \<Rightarrow> done_with (log_call (ApplyObject kind) s))))"

definition applyRBACProxyConfig_Execute :: "world \<Rightarrow> xstate \<Rightarrow> execute_outcome" where
  "applyRBACProxyConfig_Execute W s = apply_object W ''ConfigMap'' ''rbac-proxy ConfigMap'' s"

definition applyService_Execute :: "world \<Rightarrow> xstate \<Rightarrow> execute_outcome" where
  "applyService_Execute W s = apply_object W ''Service'' ''service'' s"

text \<open>\<open>SyncStatefulSet\<close>: the result is an error, or whether a StatefulSet was applied (False:
  an impostor was deleted instead).\<close>

definition apply_sts :: "world \<Rightarrow> xstate \<Rightarrow> xstate \<times> bool result" where
  "apply_sts W s =
     (case w_Apply W (xs_Calls s) ''StatefulSet'' of
        Some e \<Rightarrow> (s, Err (''applying statefulset: '' @ api_text e))
      | None \<Rightarrow> (log_call (ApplyObject ''StatefulSet'') s, Ok True))"

definition SyncStatefulSet :: "world \<Rightarrow> SeiNode \<Rightarrow> xstate \<Rightarrow> xstate \<times> bool result" where
  "SyncStatefulSet W n s =
     (case w_GenerateStatefulSet W n of
        Some e \<Rightarrow> (s, Err (''generating statefulset: '' @ e))
      | None \<Rightarrow> (case w_SetControllerReference W ''StatefulSet'' of
          Some e \<Rightarrow> (s, Err (''setting owner reference: '' @ e))
        | None \<Rightarrow> (case st_StatefulSet (node_Status n) of
            None \<Rightarrow> apply_sts W s
          | Some tracked \<Rightarrow> (case w_CachedStatefulSet W (xs_Calls s) of
              Inr existing \<Rightarrow>
                if sts_UID existing \<noteq> stsref_UID tracked
                then (case w_Delete W (xs_Calls s) (node_Name n) of
                    Some e \<Rightarrow>
                      if IsNotFound e
                      then (upd_node (upd_status (\<lambda>st. st\<lparr>st_StatefulSet := None\<rparr>)) s, Ok False)
                      else (s, Err (''deleting impostor statefulset: '' @ api_text e))
                  | None \<Rightarrow>
                      (upd_node (upd_status (\<lambda>st. st\<lparr>st_StatefulSet := None\<rparr>))
                         (log_call (DeleteStatefulSet (node_Name n)) s), Ok False))
                else apply_sts W s
            | Inl e \<Rightarrow> if IsNotFound e then apply_sts W s
                       else (s, Err (''fetching tracked statefulset: '' @ api_text e))))))"

definition applyStatefulSet_Execute :: "world \<Rightarrow> xstate \<Rightarrow> execute_outcome" where
  "applyStatefulSet_Execute W s =
     (case xs_Node s of
        None \<Rightarrow> give_up s (Transient wrong_resource)
      | Some n \<Rightarrow> (case SyncStatefulSet W n s of
          (s', Inl e) \<Rightarrow> give_up s' (Transient (''applying statefulset: '' @ e))
        | (s', Inr True) \<Rightarrow> done_with s'
        | (s', Inr False) \<Rightarrow> still_running s'))"

subsection \<open>The data volume\<close>

abbreviation ConditionVolumeAttributesClassReady :: string where
  "ConditionVolumeAttributesClassReady \<equiv> ''VolumeAttributesClassReady''"
abbreviation ConditionImportPVCReady :: string where
  "ConditionImportPVCReady \<equiv> ''ImportPVCReady''"

definition DataPVCName :: "SeiNode \<Rightarrow> string" where
  "DataPVCName n =
     (case spec_DataVolume (node_Spec n) of
        Some dv \<Rightarrow> (case dv_Import dv of
            Some pvc \<Rightarrow> if pvc \<noteq> [] then pvc else ''data-'' @ node_Name n
          | None \<Rightarrow> ''data-'' @ node_Name n)
      | None \<Rightarrow> ''data-'' @ node_Name n)"

definition VolumeAttributesClassForNode :: "SeiNode \<Rightarrow> string option" where
  "VolumeAttributesClassForNode n =
     (case spec_DataVolume (node_Spec n) of
        None \<Rightarrow> None
      | Some dv \<Rightarrow> (case dv_Storage dv of None \<Rightarrow> None | Some st \<Rightarrow> dvs_VolumeAttributesClassName st))"

definition holdForVolumeAttributesClass :: "ext \<Rightarrow> SeiNode \<Rightarrow> error option" where
  "holdForVolumeAttributesClass E n =
     (case VolumeAttributesClassForNode n of
        None \<Rightarrow> None
      | Some name \<Rightarrow> (case node_cond E n ConditionVolumeAttributesClassReady of
          None \<Rightarrow> Some (''VolumeAttributesClass '' @ quoted name @ '' pre-flight has not resolved yet'')
        | Some c \<Rightarrow>
            if cond_Status c \<noteq> ConditionTrue
            then Some (''VolumeAttributesClass '' @ quoted name @ '' is not ready ('' @ cond_Reason c @
                       ''): '' @ cond_Message c)
            else None))"

definition executeCreate :: "ext \<Rightarrow> world \<Rightarrow> SeiNode \<Rightarrow> xstate \<Rightarrow> execute_outcome" where
  "executeCreate E W n s =
     (let name = DataPVCName n in
      case w_SetControllerReference W ''PersistentVolumeClaim'' of
        Some e \<Rightarrow> give_up s (Terminal (''setting owner reference on data PVC: '' @ e))
      | None \<Rightarrow> (case w_PVC W (xs_Calls s) name of
          Inr existing \<Rightarrow>
            if pvc_Controlled existing then done_with s
            else give_up s (Terminal (''data PVC '' @ quoted name @ '' already exists and is not owned by SeiNode '' @
                   quoted (node_Name n) @
                   ''; set spec.dataVolume.import.pvcName to adopt, or delete the PVC''))
        | Inl err \<Rightarrow>
            if \<not> IsNotFound err
            then give_up s (Transient (''checking for existing data PVC: '' @ api_text err))
            else case holdForVolumeAttributesClass E n of
              Some e \<Rightarrow> give_up s (Transient e)
            | None \<Rightarrow> (case w_Create W (xs_Calls s) name of
                Some (AlreadyExists e) \<Rightarrow> give_up s (Transient (''data PVC created concurrently: '' @ e))
              | Some e \<Rightarrow> give_up s (Transient (''creating data PVC: '' @ api_text e))
              | None \<Rightarrow> done_with (log_call (CreatePVC name) s))))"

fun claim_phase_string :: "claim_phase \<Rightarrow> string" where
  "claim_phase_string ClaimPending = ''Pending''"
| "claim_phase_string ClaimBound = ''Bound''"
| "claim_phase_string ClaimLost = ''Lost''"

definition importable_pv :: "world \<Rightarrow> string \<Rightarrow> int \<Rightarrow> PVC \<Rightarrow> xstate \<Rightarrow> exec_error option" where
  "importable_pv W name actual pvc s =
     (let pvName = pvc_VolumeName pvc in
      if pvName = [] then Some (Transient (''PVC '' @ quoted name @ '' is Bound but has no spec.volumeName''))
      else case w_PV W (xs_Calls s) pvName of
        Inl e \<Rightarrow> Some (Transient (if IsNotFound e
                   then ''underlying PV '' @ quoted pvName @ '' for PVC '' @ quoted name @ '' not found''
                   else ''getting PV '' @ quoted pvName @ '': '' @ api_text e))
      | Inr pv \<Rightarrow>
          if pv_Failed pv
          then Some (Terminal (''underlying PV '' @ quoted pvName @ '' for PVC '' @ quoted name @ '' is in phase Failed''))
          else if pv_Capacity pv \<noteq> Some actual
          then Some (Terminal (''underlying PV '' @ quoted pvName @ '' capacity '' @
                 w_QuantityString W (case pv_Capacity pv of Some c \<Rightarrow> c | None \<Rightarrow> 0) @
                 '' does not match PVC '' @ quoted name @ '' capacity '' @ w_QuantityString W actual))
          else None)"

definition validateImport :: "world \<Rightarrow> SeiNode \<Rightarrow> string \<Rightarrow> xstate \<Rightarrow> exec_error option" where
  "validateImport W n name s =
     (case w_PVC W (xs_Calls s) name of
        Inl e \<Rightarrow> Some (Transient (if IsNotFound e
                   then ''PVC '' @ quoted name @ '' not found in namespace '' @ quoted (node_Namespace n)
                   else ''getting PVC '' @ quoted name @ '': '' @ api_text e))
      | Inr pvc \<Rightarrow>
          if pvc_Deleting pvc \<noteq> None
          then Some (Transient (''PVC '' @ quoted name @ '' is being deleted (deletionTimestamp='' @
                 the (pvc_Deleting pvc) @ '')''))
          else if pvc_Phase pvc = ClaimLost
          then Some (Terminal (''PVC '' @ quoted name @ '' phase is Lost; underlying PV is gone''))
          else if pvc_Phase pvc \<noteq> ClaimBound
          then Some (Transient (''PVC '' @ quoted name @ '' phase is '' @
                 quoted (claim_phase_string (pvc_Phase pvc)) @ '', waiting for Bound''))
          else if ''ReadWriteOnce'' \<notin> set (pvc_AccessModes pvc) \<and> ''ReadWriteOncePod'' \<notin> set (pvc_AccessModes pvc)
          then Some (Terminal (''PVC '' @ quoted name @ '' accessModes ['' @ join (pvc_AccessModes pvc) '' '' @
                 ''] must include ReadWriteOnce or ReadWriteOncePod''))
          else case w_RequiredStorage W n of
            Inl e \<Rightarrow> Some (Terminal e)
          | Inr required \<Rightarrow> (case pvc_Capacity pvc of
              None \<Rightarrow> Some (Transient (''PVC '' @ quoted name @ '' has no status.capacity.storage reported yet''))
            | Some actual \<Rightarrow>
                if actual < required
                then Some (Terminal (''PVC '' @ quoted name @ '' capacity '' @ w_QuantityString W actual @
                       '' is less than required '' @ w_QuantityString W required))
                else importable_pv W name actual pvc s))"

text \<open>The three-way outcome of a pre-flight check, shared by the import and the key
  validations: a pass completes, a terminal error fails the plan, any other error is
  reported on the condition and polled again without an error.\<close>

definition preflight ::
  "ext \<Rightarrow> string \<Rightarrow> string \<times> string \<times> string \<Rightarrow> string \<Rightarrow> exec_error option \<Rightarrow> xstate \<Rightarrow> execute_outcome" where
  "preflight E cond reasons ok_msg err s =
     (case reasons of (ok, invalid, not_ready) \<Rightarrow>
      (case err of
        None \<Rightarrow> done_with (upd_node (\<lambda>n. set_node_cond E n cond ConditionTrue ok ok_msg) s)
      | Some e \<Rightarrow>
          if isTerminal e
          then give_up (upd_node (\<lambda>n. set_node_cond E n cond ConditionFalse invalid (error_text e)) s) e
          else still_running (upd_node (\<lambda>n. set_node_cond E n cond ConditionFalse not_ready (error_text e)) s)))"

definition executeImport :: "ext \<Rightarrow> world \<Rightarrow> SeiNode \<Rightarrow> string \<Rightarrow> xstate \<Rightarrow> execute_outcome" where
  "executeImport E W n name s =
     preflight E ConditionImportPVCReady (''PVCValidated'', ''PVCInvalid'', ''PVCNotReady'')
       (''PVC '' @ quoted name @ '' passes all import requirements'') (validateImport W n name s) s"

definition ensureDataPVC_Execute :: "ext \<Rightarrow> world \<Rightarrow> xstate \<Rightarrow> execute_outcome" where
  "ensureDataPVC_Execute E W s =
     (case xs_Node s of
        None \<Rightarrow> give_up s (Terminal wrong_resource)
      | Some n \<Rightarrow> (case spec_DataVolume (node_Spec n) of
          Some dv \<Rightarrow> (case dv_Import dv of
              Some pvc \<Rightarrow> if pvc \<noteq> [] then executeImport E W n pvc s else executeCreate E W n s
            | None \<Rightarrow> executeCreate E W n s)
        | None \<Rightarrow> executeCreate E W n s))"

subsection \<open>Replacing pods\<close>

definition guardSelectorAndReplicas :: "SeiNode \<Rightarrow> StatefulSet \<Rightarrow> exec_error option" where
  "guardSelectorAndReplicas n sts =
     (if sts_MatchLabels sts = []
      then Some (Terminal (''statefulset '' @ quoted (node_Name n) @ '' has no selector; cannot identify owned pods''))
      else case sts_Replicas sts of
        Some r \<Rightarrow>
          if r > 1
          then Some (Terminal (''replace-pod does not support multi-replica StatefulSets (got replicas='' @ itoa r @
                 ''); add ordinal-aware deletion before scaling up''))
          else None
      | None \<Rightarrow> None)"

definition ownedByStatefulSet :: "Pod \<Rightarrow> StatefulSet \<Rightarrow> bool" where
  "ownedByStatefulSet pod sts \<longleftrightarrow>
     list_ex (\<lambda>(kind, uid). kind = ''StatefulSet'' \<and> uid = sts_UID sts) (pod_Owners pod)"

definition stale_pod :: "StatefulSet \<Rightarrow> Pod \<Rightarrow> bool" where
  "stale_pod sts pod \<longleftrightarrow>
     (case pod_Hash pod of None \<Rightarrow> False
      | Some h \<Rightarrow> h \<noteq> sts_UpdateRevision sts \<and> \<not> pod_Deleting pod)"

fun delete_tolerated :: "api_error \<Rightarrow> bool" where
  "delete_tolerated (NotFound _) = True"
| "delete_tolerated (Conflict _) = True"
| "delete_tolerated _ = False"

fun delete_stale :: "world \<Rightarrow> StatefulSet \<Rightarrow> Pod list \<Rightarrow> xstate \<Rightarrow> xstate \<times> exec_error option" where
  "delete_stale W sts [] s = (s, None)"
| "delete_stale W sts (pod # pods) s =
     (if \<not> stale_pod sts pod then delete_stale W sts pods s
      else case w_Delete W (xs_Calls s) (pod_Name pod) of
        None \<Rightarrow> delete_stale W sts pods (log_call (DeletePod (pod_Name pod) (pod_UID pod)) s)
      | Some e \<Rightarrow>
          if delete_tolerated e then delete_stale W sts pods s
          else (s, Some (Transient (''deleting pod '' @ quoted (pod_Name pod) @ '': '' @ api_text e))))"

definition replacePod_Execute :: "world \<Rightarrow> xstate \<Rightarrow> execute_outcome" where
  "replacePod_Execute W s =
     (case xs_Node s of
        None \<Rightarrow> give_up s (Terminal wrong_resource)
      | Some n \<Rightarrow> (case w_StatefulSet W (xs_Calls s) of
          Inl e \<Rightarrow> if IsNotFound e then still_running s
                   else give_up s (Transient (''getting statefulset: '' @ api_text e))
        | Inr sts \<Rightarrow>
            if sts_ObservedGeneration sts < sts_Generation sts then still_running s
            else if sts_UpdateRevision sts = [] then still_running s
            else case guardSelectorAndReplicas n sts of
              Some e \<Rightarrow> give_up s e
            | None \<Rightarrow> (case w_Pods W (xs_Calls s) (sts_MatchLabels sts) of
                Inl e \<Rightarrow> give_up s (Transient (''listing pods for statefulset '' @ quoted (node_Name n) @
                           '': '' @ api_text e))
              | Inr pods \<Rightarrow>
                  (case delete_stale W sts (filter (\<lambda>p. ownedByStatefulSet p sts) pods) s of
                     (s', Some e) \<Rightarrow> give_up s' e
                   | (s', None) \<Rightarrow> done_with s'))))"

subsection \<open>Key material\<close>

abbreviation ConditionSigningKeyReady :: string where
  "ConditionSigningKeyReady \<equiv> ''SigningKeyReady''"
abbreviation ConditionNodeKeyReady :: string where
  "ConditionNodeKeyReady \<equiv> ''NodeKeyReady''"
abbreviation ConditionOperatorKeyringReady :: string where
  "ConditionOperatorKeyringReady \<equiv> ''OperatorKeyringReady''"

text \<open>
  \<open>encoding/json\<close> decodes an object into a struct one key at a time: a key names the field it
  equals up to case, a later key overwrites an earlier one, null leaves the field alone, and a
  value of the wrong kind is an error.  A key pair is the struct with the fields \<open>type\<close> and
  \<open>value\<close>.
\<close>

record key_pair =
  kp_type :: string
  kp_value :: string

definition field_is :: "string \<Rightarrow> string \<Rightarrow> bool" where
  "field_is key name \<longleftrightarrow> map lower key = name"

definition decode_string :: "json \<Rightarrow> string \<Rightarrow> string option" where
  "decode_string j old = (case j of JString s \<Rightarrow> Some s | JNull \<Rightarrow> Some old | _ \<Rightarrow> None)"

fun decode_pair_fields :: "(string \<times> json) list \<Rightarrow> key_pair \<Rightarrow> key_pair option" where
  "decode_pair_fields [] k = Some k"
| "decode_pair_fields ((key, j) # kvs) k =
     (if field_is key ''type''
      then (case decode_string j (kp_type k) of None \<Rightarrow> None
            | Some s \<Rightarrow> decode_pair_fields kvs (k\<lparr>kp_type := s\<rparr>))
      else if field_is key ''value''
      then (case decode_string j (kp_value k) of None \<Rightarrow> None
            | Some s \<Rightarrow> decode_pair_fields kvs (k\<lparr>kp_value := s\<rparr>))
      else decode_pair_fields kvs k)"

definition decode_pair :: "json \<Rightarrow> key_pair \<Rightarrow> key_pair option" where
  "decode_pair j k =
     (case j of JObject kvs \<Rightarrow> decode_pair_fields kvs k | JNull \<Rightarrow> Some k | _ \<Rightarrow> None)"

record validator_key =
  vk_address :: string
  vk_pub_key :: key_pair
  vk_priv_key :: key_pair

definition empty_pair :: key_pair where
  "empty_pair = \<lparr>kp_type = [], kp_value = []\<rparr>"

definition pair_missing :: "key_pair \<Rightarrow> bool" where
  "pair_missing k \<longleftrightarrow> kp_type k = [] \<or> kp_value k = []"

fun decode_validator_fields :: "(string \<times> json) list \<Rightarrow> validator_key \<Rightarrow> validator_key option" where
  "decode_validator_fields [] k = Some k"
| "decode_validator_fields ((key, j) # kvs) k =
     (if field_is key ''address''
      then (case decode_string j (vk_address k) of None \<Rightarrow> None
            | Some s \<Rightarrow> decode_validator_fields kvs (k\<lparr>vk_address := s\<rparr>))
      else if field_is key ''pub_key''
      then (case decode_pair j (vk_pub_key k) of None \<Rightarrow> None
            | Some p \<Rightarrow> decode_validator_fields kvs (k\<lparr>vk_pub_key := p\<rparr>))
      else if field_is key ''priv_key''
      then (case decode_pair j (vk_priv_key k) of None \<Rightarrow> None
            | Some p \<Rightarrow> decode_validator_fields kvs (k\<lparr>vk_priv_key := p\<rparr>))
      else decode_validator_fields kvs k)"

definition decode_validator_key :: "json option \<Rightarrow> validator_key option" where
  "decode_validator_key j =
     (let zero = \<lparr>vk_address = [], vk_pub_key = empty_pair, vk_priv_key = empty_pair\<rparr>
      in case j of Some (JObject kvs) \<Rightarrow> decode_validator_fields kvs zero
         | Some JNull \<Rightarrow> Some zero
         | _ \<Rightarrow> None)"

definition validateTendermintValidatorKey :: "json option \<Rightarrow> error option" where
  "validateTendermintValidatorKey raw =
     (case decode_validator_key raw of
        None \<Rightarrow> Some ''not valid JSON''
      | Some k \<Rightarrow>
          if vk_address k = [] then Some ''missing address''
          else if pair_missing (vk_pub_key k) then Some ''missing pub_key.type or pub_key.value''
          else if pair_missing (vk_priv_key k) then Some ''missing priv_key.type or priv_key.value''
          else None)"

fun decode_node_fields :: "(string \<times> json) list \<Rightarrow> key_pair \<Rightarrow> key_pair option" where
  "decode_node_fields [] k = Some k"
| "decode_node_fields ((key, j) # kvs) k =
     (if field_is key ''priv_key''
      then (case decode_pair j k of None \<Rightarrow> None | Some p \<Rightarrow> decode_node_fields kvs p)
      else decode_node_fields kvs k)"

definition validateTendermintNodeKey :: "json option \<Rightarrow> error option" where
  "validateTendermintNodeKey raw =
     (case (case raw of Some (JObject kvs) \<Rightarrow> decode_node_fields kvs empty_pair
                      | Some JNull \<Rightarrow> Some empty_pair | _ \<Rightarrow> None) of
        None \<Rightarrow> Some ''not valid JSON''
      | Some k \<Rightarrow> if pair_missing k then Some ''missing priv_key.type or priv_key.value'' else None)"

definition secret_param :: "TaskParams \<Rightarrow> string" where
  "secret_param p = (case p of SecretParams s _ \<Rightarrow> s | KeyringParams s _ _ _ _ \<Rightarrow> s | _ \<Rightarrow> [])"

text \<open>The Secret read both file validations share, then the shape check of one data key.\<close>

definition getSecret :: "world \<Rightarrow> string \<Rightarrow> string \<Rightarrow> xstate \<Rightarrow> exec_error + Secret" where
  "getSecret W name namespace s =
     (case w_Secret W (xs_Calls s) name of
        Inl e \<Rightarrow> Inl (Transient (if IsNotFound e
                   then ''secret '' @ quoted name @ '' not found in namespace '' @ quoted namespace
                   else ''getting Secret '' @ quoted name @ '': '' @ api_text e))
      | Inr sec \<Rightarrow> (case sec_Deleting sec of
          Some t \<Rightarrow> Inl (Transient (''secret '' @ quoted name @ '' is being deleted (deletionTimestamp='' @ t @ '')''))
        | None \<Rightarrow> Inr sec))"

definition validate_key_file ::
  "world \<Rightarrow> string \<Rightarrow> string \<Rightarrow> string \<Rightarrow> (json option \<Rightarrow> error option) \<Rightarrow> SeiNode \<Rightarrow> string \<Rightarrow> xstate \<Rightarrow>
   exec_error option" where
  "validate_key_file W task data_key what shape n name s =
     (if name = [] then Some (Terminal (task @ '': secretName is empty''))
      else case getSecret W name (node_Namespace n) s of
        Inl e \<Rightarrow> Some e
      | Inr sec \<Rightarrow> (case map_of (sec_Data sec) data_key of
          None \<Rightarrow> Some (Terminal (''secret '' @ quoted name @ '' missing required data key '' @ quoted data_key))
        | Some (len, raw) \<Rightarrow>
            if len = 0
            then Some (Terminal (''secret '' @ quoted name @ '' missing required data key '' @ quoted data_key))
            else case shape raw of
              None \<Rightarrow> None
            | Some e \<Rightarrow> Some (Terminal (''secret '' @ quoted name @ '' data key '' @ quoted data_key @
                         '' is not a valid Tendermint '' @ what @ '' key: '' @ e))))"

definition validateSigningKey_Execute :: "ext \<Rightarrow> world \<Rightarrow> TaskParams \<Rightarrow> xstate \<Rightarrow> execute_outcome" where
  "validateSigningKey_Execute E W p s =
     (case xs_Node s of
        None \<Rightarrow> give_up s (Terminal wrong_resource)
      | Some n \<Rightarrow>
          preflight E ConditionSigningKeyReady
            (''SigningKeyValidated'', ''SigningKeyInvalid'', ''SigningKeyNotReady'')
            (''Secret '' @ quoted (secret_param p) @ '' passes all signing-key validation rules'')
            (validate_key_file W ''validate-signing-key'' ''priv_validator_key.json'' ''validator''
               validateTendermintValidatorKey n (secret_param p) s) s)"

definition validateNodeKey_Execute :: "ext \<Rightarrow> world \<Rightarrow> TaskParams \<Rightarrow> xstate \<Rightarrow> execute_outcome" where
  "validateNodeKey_Execute E W p s =
     (case xs_Node s of
        None \<Rightarrow> give_up s (Terminal wrong_resource)
      | Some n \<Rightarrow>
          preflight E ConditionNodeKeyReady
            (''NodeKeyValidated'', ''NodeKeyInvalid'', ''NodeKeyNotReady'')
            (''Secret '' @ quoted (secret_param p) @ '' passes all node-key validation rules'')
            (validate_key_file W ''validate-node-key'' ''node_key.json'' ''node''
               validateTendermintNodeKey n (secret_param p) s) s)"

subsubsection \<open>The operator keyring\<close>

definition has_suffix :: "string \<Rightarrow> string \<Rightarrow> bool" where
  "has_suffix s x \<longleftrightarrow> has_prefix (rev s) (rev x)"

text \<open>The loop over the data keys: the info and address keys in visiting order, or the first empty
  info key.\<close>

fun scan_keyring ::
  "(string \<times> nat \<times> json option) list \<Rightarrow> string list \<Rightarrow> string list \<Rightarrow> string + (string list \<times> string list)" where
  "scan_keyring [] infoKeys addressKeys = Inr (infoKeys, addressKeys)"
| "scan_keyring ((k, len, _) # rest) infoKeys addressKeys =
     (if has_suffix k ''.info''
      then if len = 0 then Inl k else scan_keyring rest (infoKeys @ [k]) addressKeys
      else if has_suffix k ''.address'' then scan_keyring rest infoKeys (addressKeys @ [k])
      else scan_keyring rest infoKeys addressKeys)"

definition validateKeyringShape :: "Secret \<Rightarrow> string \<Rightarrow> exec_error option" where
  "validateKeyringShape sec keyName =
     (let secret = ''secret '' @ quoted (sec_Name sec) in
      case scan_keyring (sec_Data sec) [] [] of
        Inl k \<Rightarrow> Some (Terminal (secret @ '' data key '' @ quoted k @
                   '' is empty (expected non-empty keyring entry payload)''))
      | Inr (infoKeys, addressKeys) \<Rightarrow>
          if infoKeys = []
          then Some (Terminal (secret @ '' has no '' @ quoted ''*.info'' @
                 '' data keys (expected at least one keyring entry)''))
          else if addressKeys = []
          then Some (Terminal (secret @ '' has no '' @ quoted ''*.address'' @
                 '' data keys (expected name->address index for at least one keyring entry)''))
          else if keyName \<noteq> [] \<and> map_of (sec_Data sec) (keyName @ ''.info'') = None
          then Some (Terminal (secret @ '' is missing data key '' @ quoted (keyName @ ''.info'') @
                 '' for keyName '' @ quoted keyName))
          else None)"

definition validatePassphraseShape :: "Secret \<Rightarrow> string \<Rightarrow> exec_error option" where
  "validatePassphraseShape sec dataKey =
     (case map_of (sec_Data sec) dataKey of
        None \<Rightarrow> Some (Terminal (''passphrase Secret '' @ quoted (sec_Name sec) @ '' missing data key '' @ quoted dataKey))
      | Some (len, _) \<Rightarrow>
          if len = 0
          then Some (Terminal (''passphrase Secret '' @ quoted (sec_Name sec) @ '' data key '' @ quoted dataKey @ '' is empty''))
          else None)"

definition validate_operator_keyring ::
  "world \<Rightarrow> SeiNode \<Rightarrow> string \<Rightarrow> string \<Rightarrow> string \<Rightarrow> string \<Rightarrow> xstate \<Rightarrow> exec_error option" where
  "validate_operator_keyring W n secretName keyName passSecret passKey s =
     (if secretName = [] then Some (Terminal ''validate-operator-keyring: secretName is empty'')
      else if passSecret = [] then Some (Terminal ''validate-operator-keyring: passphraseSecretName is empty'')
      else if passKey = [] then Some (Terminal ''validate-operator-keyring: passphraseSecretKey is empty'')
      else case getSecret W secretName (node_Namespace n) s of
        Inl e \<Rightarrow> Some e
      | Inr keyring \<Rightarrow> (case validateKeyringShape keyring keyName of
          Some e \<Rightarrow> Some e
        | None \<Rightarrow> (case getSecret W passSecret (node_Namespace n) s of
            Inl e \<Rightarrow> Some e
          | Inr passphrase \<Rightarrow> validatePassphraseShape passphrase passKey)))"

definition validateOperatorKeyring_Execute :: "ext \<Rightarrow> world \<Rightarrow> TaskParams \<Rightarrow> xstate \<Rightarrow> execute_outcome" where
  "validateOperatorKeyring_Execute E W p s =
     (case xs_Node s of
        None \<Rightarrow> give_up s (Terminal wrong_resource)
      | Some n \<Rightarrow>
          (case (case p of KeyringParams a b c d _ \<Rightarrow> (a, b, c, d) | _ \<Rightarrow> (secret_param p, [], [], [])) of
             (name, key, pass, passKey) \<Rightarrow>
               preflight E ConditionOperatorKeyringReady
                 (''OperatorKeyringValidated'', ''OperatorKeyringInvalid'', ''OperatorKeyringNotReady'')
                 (''Secret pair ('' @ quoted name @ '', '' @ quoted pass @ '') passes operator-keyring validation'')
                 (validate_operator_keyring W n name key pass passKey s) s))"

subsection \<open>Group tasks\<close>

definition defaultP2PPort :: int where
  "defaultP2PPort = 26656"

definition peer_address :: "string \<Rightarrow> string \<Rightarrow> string \<Rightarrow> string" where
  "peer_address nodeID name namespace =
     nodeID @ ''@'' @ name @ ''-0.'' @ name @ ''.'' @ namespace @ ''.svc.cluster.local:'' @ itoa defaultP2PPort"

definition collect_peer :: "world \<Rightarrow> call list \<Rightarrow> string \<Rightarrow> string \<Rightarrow> string result" where
  "collect_peer W calls namespace name =
     (case w_Node W calls name of
        Inl e \<Rightarrow> Err (''getting node '' @ name @ '': '' @ api_text e)
      | Inr n \<Rightarrow> (case w_SidecarFor W calls name of
          Some e \<Rightarrow> Err (''building sidecar client for '' @ name @ '': '' @ e)
        | None \<Rightarrow> (case w_NodeID W calls name of
            Inl e \<Rightarrow> Err (''getting node ID for '' @ name @ '': '' @ e)
          | Inr nodeID \<Rightarrow> Ok (peer_address nodeID name namespace))))"

fun setPeersOnNodes :: "world \<Rightarrow> string list \<Rightarrow> string list \<Rightarrow> xstate \<Rightarrow> xstate \<times> error option" where
  "setPeersOnNodes W peers [] s = (s, None)"
| "setPeersOnNodes W peers (name # names) s =
     (case w_Node W (xs_Calls s) name of
        Inl e \<Rightarrow> (s, Some (''getting node '' @ name @ '': '' @ api_text e))
      | Inr n \<Rightarrow> (case w_Apply W (xs_Calls s) name of
          Some e \<Rightarrow> (s, Some (''setting peers on '' @ name @ '': '' @ api_text e))
        | None \<Rightarrow> setPeersOnNodes W peers names (log_call (PatchPeers name peers) s)))"

definition collectAndSetPeers_Execute :: "world \<Rightarrow> TaskParams \<Rightarrow> xstate \<Rightarrow> execute_outcome" where
  "collectAndSetPeers_Execute W p s =
     (case (case p of GroupParams g ns names \<Rightarrow> (ns, names) | AwaitNodesParams g ns _ names \<Rightarrow> (ns, names)
            | _ \<Rightarrow> ([], [])) of
        (namespace, names) \<Rightarrow>
          (case map_result (collect_peer W (xs_Calls s) namespace) names of
             Inl e \<Rightarrow> give_up s (Transient (''collecting peers: '' @ e))
           | Inr peers \<Rightarrow> (case setPeersOnNodes W peers names s of
               (s', Some e) \<Rightarrow> give_up s' (Transient (''setting peers: '' @ e))
             | (s', None) \<Rightarrow> done_with s')))"

fun count_running :: "SeiNode list \<Rightarrow> int \<Rightarrow> int result" where
  "count_running [] k = Ok k"
| "count_running (n # ns) k =
     (if node_Phase n = PhaseRunning then count_running ns (k + 1)
      else if node_Phase n = PhaseFailed then Err (''node '' @ node_Name n @ '' is in Failed phase'')
      else count_running ns k)"

definition listTargetNodes :: "world \<Rightarrow> string \<Rightarrow> string list \<Rightarrow> xstate \<Rightarrow> SeiNode list result" where
  "listTargetNodes W grp names s =
     (if names \<noteq> []
      then map_result (\<lambda>name. map_sum api_text id (w_Node W (xs_Calls s) name)) names
      else map_sum api_text id (w_NodesOfGroup W (xs_Calls s) grp))"

definition awaitNodesRunning_Status :: "world \<Rightarrow> TaskParams \<Rightarrow> xstate \<Rightarrow> taskBase \<Rightarrow> taskBase" where
  "awaitNodesRunning_Status W p s b =
     (if tb_status b = ExecutionComplete \<or> tb_status b = ExecutionFailed then b
      else case (case p of AwaitNodesParams g _ expected names \<Rightarrow> (g, expected, names)
                 | GroupParams g _ names \<Rightarrow> (g, 0, names) | _ \<Rightarrow> ([], 0, [])) of
        (grp, expected, names) \<Rightarrow>
          (case listTargetNodes W grp names s of
             Inl e \<Rightarrow> b\<lparr>tb_status := ExecutionRunning\<rparr>
           | Inr nodes \<Rightarrow> (case count_running nodes 0 of
               Inl e \<Rightarrow> setFailed e b
             | Inr running \<Rightarrow> if running \<ge> expected then complete b else b\<lparr>tb_status := ExecutionRunning\<rparr>)))"

subsection \<open>Updating another node's image\<close>

definition updateNodeImage_params :: "TaskParams \<Rightarrow> (string \<times> string \<times> string) result" where
  "updateNodeImage_params p =
     (case (case p of UpdateImageParams name ns img \<Rightarrow> (name, ns, img) | NodeParams name ns \<Rightarrow> (name, ns, [])
            | _ \<Rightarrow> ([], [], [])) of
        (name, ns, img) \<Rightarrow>
          if name = [] \<or> ns = [] \<or> img = []
          then Err ''update-node-image: nodeName, namespace, and image are required''
          else Ok (name, ns, img))"

definition updateNodeImage_Execute :: "world \<Rightarrow> string \<Rightarrow> string \<Rightarrow> xstate \<Rightarrow> execute_outcome" where
  "updateNodeImage_Execute W name img s =
     (case w_Node W (xs_Calls s) name of
        Inl e \<Rightarrow> give_up s (if IsNotFound e then Terminal (''target SeiNode '' @ quoted name @ '' not found'')
                            else Transient (''getting target SeiNode: '' @ api_text e))
      | Inr target \<Rightarrow>
          if spec_Image (node_Spec target) = img then still_running s
          else case w_Apply W (xs_Calls s) name of
            Some e \<Rightarrow> give_up s (Transient (''patching target spec.image: '' @ api_text e))
          | None \<Rightarrow> still_running (log_call (PatchImage name img) s))"

definition updateNodeImage_Status :: "world \<Rightarrow> string \<Rightarrow> string \<Rightarrow> xstate \<Rightarrow> taskBase \<Rightarrow> taskBase" where
  "updateNodeImage_Status W name img s b =
     (if tb_status b = ExecutionComplete \<or> tb_status b = ExecutionFailed then b
      else case w_Node W (xs_Calls s) name of
        Inl e \<Rightarrow> b\<lparr>tb_status := ExecutionRunning\<rparr>
      | Inr target \<Rightarrow>
          if st_CurrentImage (node_Status target) = img then complete b
          else b\<lparr>tb_status := ExecutionRunning\<rparr>)"

subsection \<open>The registry\<close>

fun Deserialize :: "TaskType \<Rightarrow> string \<Rightarrow> TaskParams \<Rightarrow> error option" where
  "Deserialize (OtherTask ty) tid p = Some (''unknown task type '' @ quoted ty)"
| "Deserialize UpdateNodeImage tid p =
     (case updateNodeImage_params p of Inl e \<Rightarrow> Some e | Inr _ \<Rightarrow> None)"
| "Deserialize _ tid p = None"

fun task_Execute ::
  "ext \<Rightarrow> PlatformConfig \<Rightarrow> world \<Rightarrow> TaskType \<Rightarrow> string \<Rightarrow> TaskParams \<Rightarrow> xstate \<Rightarrow> execute_outcome" where
  "task_Execute E P W MarkReady tid p s = guarded_Execute W StartBlocked tid p s"
| "task_Execute E P W StartSeidOnce tid p s = guarded_Execute W startOnceBlocked tid p s"
| "task_Execute E P W RecordDataReset tid p s = recordDataReset_Execute p s"
| "task_Execute E P W RecordMaintenanceHold tid p s = recordMaintenanceHold_Execute p s"
| "task_Execute E P W ObserveImage tid p s = observeImage_Execute P W s"
| "task_Execute E P W EnsureDataPVC tid p s = ensureDataPVC_Execute E W s"
| "task_Execute E P W ApplyStatefulSet tid p s = applyStatefulSet_Execute W s"
| "task_Execute E P W ApplyService tid p s = applyService_Execute W s"
| "task_Execute E P W ApplyRBACProxyConfig tid p s = applyRBACProxyConfig_Execute W s"
| "task_Execute E P W ReplacePod tid p s = replacePod_Execute W s"
| "task_Execute E P W ValidateSigningKey tid p s = validateSigningKey_Execute E W p s"
| "task_Execute E P W ValidateNodeKey tid p s = validateNodeKey_Execute E W p s"
| "task_Execute E P W ValidateOperatorKeyring tid p s = validateOperatorKeyring_Execute E W p s"
| "task_Execute E P W AwaitNodesRunning tid p s = still_running s"
| "task_Execute E P W CollectAndSetPeers tid p s = collectAndSetPeers_Execute W p s"
| "task_Execute E P W UpdateNodeImage tid p s =
     (case updateNodeImage_params p of
        Inl e \<Rightarrow> give_up s (Terminal e) | Inr (name, ns, img) \<Rightarrow> updateNodeImage_Execute W name img s)"
| "task_Execute E P W ty tid p s = sidecar_Execute W (sidecar_entry ty = Some True) ty tid p s"

text \<open>\<open>Status\<close>: the sidecar-backed tasks poll, the two that read other nodes poll, and the rest
  return the cached status.\<close>

fun task_Status :: "world \<Rightarrow> TaskType \<Rightarrow> string \<Rightarrow> TaskParams \<Rightarrow> xstate \<Rightarrow> taskBase \<Rightarrow> taskBase" where
  "task_Status W MarkReady tid p s b = sidecar_Status W tid s b"
| "task_Status W StartSeidOnce tid p s b = sidecar_Status W tid s b"
| "task_Status W AwaitNodesRunning tid p s b = awaitNodesRunning_Status W p s b"
| "task_Status W UpdateNodeImage tid p s b =
     (case updateNodeImage_params p of Inl e \<Rightarrow> b | Inr (name, ns, img) \<Rightarrow> updateNodeImage_Status W name img s b)"
| "task_Status W ty tid p s b = (if sidecar_entry ty = None then b else sidecar_Status W tid s b)"

end
