(* ===== verification/Executor.thy ===== *)
theory Executor
  imports InfraTasks
begin

text \<open>
  The plan executor (\<open>internal/planner/executor.go\<close>).  The executor is generic in the task
  executions it drives, as the Go code is generic in the \<open>TaskExecution\<close> interface: the record
  \<open>executions\<close> holds the three operations, and \<open>registry\<close> is the repository's own.  A
  \<open>run\<close> is what one \<open>ExecutePlan\<close> call mutates: the owning object with the calls made, the
  plan, and the active-plan gauge.
\<close>

record executions =
  ex_Deserialize :: "TaskType \<Rightarrow> string \<Rightarrow> TaskParams \<Rightarrow> error option"
  ex_Execute :: "TaskType \<Rightarrow> string \<Rightarrow> TaskParams \<Rightarrow> xstate \<Rightarrow> execute_outcome"
  ex_Status :: "TaskType \<Rightarrow> string \<Rightarrow> TaskParams \<Rightarrow> xstate \<Rightarrow> taskBase \<Rightarrow> taskBase"

definition registry :: "ext \<Rightarrow> PlatformConfig \<Rightarrow> world \<Rightarrow> executions" where
  "registry E P W =
     \<lparr>ex_Deserialize = Deserialize, ex_Execute = task_Execute E P W, ex_Status = task_Status W\<rparr>"

record run =
  run_state :: xstate
  run_plan :: TaskPlan
  run_active :: int  \<comment> \<open>\<open>planActiveCount\<close>\<close>

text \<open>\<open>ctrl.Result\<close>: the requeue delay in nanoseconds, 0 for none.\<close>

definition TaskPollInterval :: duration where
  "TaskPollInterval = 5 * 1000000000"

definition maxRetryBackoff :: duration where
  "maxRetryBackoff = 30 * 1000000000"

definition ResultRequeueImmediate :: duration where
  "ResultRequeueImmediate = 1000000"

definition retryBackoff :: "int \<Rightarrow> duration" where
  "retryBackoff attempt =
     (let d = TaskPollInterval * 2 ^ nat (min attempt 5)
      in if d > maxRetryBackoff then maxRetryBackoff else d)"

definition needsSubmission :: "PlannedTask \<Rightarrow> bool" where
  "needsSubmission t \<longleftrightarrow> pt_Status t = TaskPending"

text \<open>\<open>CurrentTask\<close>: the index of the first task that is not Complete.\<close>

definition CurrentTask :: "TaskPlan \<Rightarrow> nat option" where
  "CurrentTask plan = find_index (\<lambda>t. pt_Status t \<noteq> TaskComplete) (plan_Tasks plan)"

definition setTargetPhase :: "go_time \<Rightarrow> SeiNodePhase \<Rightarrow> xstate \<Rightarrow> xstate" where
  "setTargetPhase now phase s =
     (if phase = PhaseUnset then s
      else upd_node (upd_status (\<lambda>st. st\<lparr>st_Phase := phase, st_PhaseTransitionTime := Some now\<rparr>)) s)"

definition put_task :: "nat \<Rightarrow> PlannedTask \<Rightarrow> TaskPlan \<Rightarrow> TaskPlan" where
  "put_task i t plan = plan\<lparr>plan_Tasks := (plan_Tasks plan)[i := t]\<rparr>"

definition failTask :: "go_time \<Rightarrow> nat \<Rightarrow> error \<Rightarrow> run \<Rightarrow> run" where
  "failTask now i errMsg r =
     (let t = plan_Tasks (run_plan r) ! i;
          t' = t\<lparr>pt_Status := TaskFailed, pt_Error := errMsg\<rparr>;
          plan = (put_task i t' (run_plan r))\<lparr>plan_Phase := TaskPlanFailed\<rparr>;
          idx = find_index (\<lambda>u. pt_ID u = pt_ID t) (plan_Tasks plan)
      in r\<lparr>run_state := setTargetPhase now (plan_FailedPhase plan) (run_state r),
           run_plan := plan\<lparr>plan_FailedTaskIndex := (case idx of Some k \<Rightarrow> Some k
                                                     | None \<Rightarrow> plan_FailedTaskIndex plan),
                            plan_FailedTaskDetail := Some \<lparr>fti_Type = pt_Type t, fti_ID = pt_ID t,
                              fti_Error = errMsg, fti_RetryCount = pt_RetryCount t,
                              fti_MaxRetries = pt_MaxRetries t\<rparr>\<rparr>,
           run_active := run_active r - 1\<rparr>)"

text \<open>The second half of \<open>advanceTask\<close>, from the \<open>Status\<close> call on; \<open>t\<close> is the task as
  the submission left it.\<close>

definition settleTask :: "go_time \<Rightarrow> nat \<Rightarrow> taskBase \<Rightarrow> run \<Rightarrow> run \<times> duration" where
  "settleTask now i b r =
     (let t = plan_Tasks (run_plan r) ! i in
      case tb_status b of
        ExecutionRunning \<Rightarrow> (r, TaskPollInterval)
      | ExecutionComplete \<Rightarrow>
          (r\<lparr>run_plan := put_task i (t\<lparr>pt_Status := TaskComplete\<rparr>) (run_plan r)\<rparr>, ResultRequeueImmediate)
      | ExecutionFailed \<Rightarrow>
          if pt_MaxRetries t > 0 \<and> pt_RetryCount t < pt_MaxRetries t
          then (r\<lparr>run_plan := put_task i (t\<lparr>pt_RetryCount := pt_RetryCount t + 1, pt_Status := TaskPending,
                                           pt_Error := [], pt_SubmittedAt := None\<rparr>) (run_plan r)\<rparr>,
                retryBackoff (pt_RetryCount t + 1))
          else (failTask now i (case tb_err b of Some e \<Rightarrow> e | None \<Rightarrow> ''unknown error'') r, 0))"

definition stamp_submitted :: "go_time \<Rightarrow> PlannedTask \<Rightarrow> PlannedTask" where
  "stamp_submitted now t = (if pt_SubmittedAt t = None then t\<lparr>pt_SubmittedAt := Some now\<rparr> else t)"

definition advanceTask :: "executions \<Rightarrow> go_time \<Rightarrow> nat \<Rightarrow> run \<Rightarrow> run \<times> duration" where
  "advanceTask X now i r =
     (let t = plan_Tasks (run_plan r) ! i in
      case ex_Deserialize X (pt_Type t) (pt_ID t) (pt_Params t) of
        Some e \<Rightarrow> (failTask now i e r, 0)
      | None \<Rightarrow>
          if needsSubmission t
          then (case ex_Execute X (pt_Type t) (pt_ID t) (pt_Params t) (run_state r) of
                  (s, b, Some (Terminal e)) \<Rightarrow> (failTask now i e (r\<lparr>run_state := s\<rparr>), 0)
                | (s, b, Some (Transient e)) \<Rightarrow> (r\<lparr>run_state := s\<rparr>, TaskPollInterval)
                | (s, b, None) \<Rightarrow>
                    settleTask now i (ex_Status X (pt_Type t) (pt_ID t) (pt_Params t) s b)
                      (r\<lparr>run_state := s, run_plan := put_task i (stamp_submitted now t) (run_plan r)\<rparr>))
          else settleTask now i (ex_Status X (pt_Type t) (pt_ID t) (pt_Params t) (run_state r) fresh_task) r)"

definition complete_plan :: "go_time \<Rightarrow> run \<Rightarrow> run" where
  "complete_plan now r =
     (let plan = run_plan r;
          s = (if plan_ConfigValuesHash plan \<noteq> []
               then upd_node (upd_status (\<lambda>st. st\<lparr>st_CurrentConfigValuesHash := plan_ConfigValuesHash plan\<rparr>))
                      (run_state r)
               else run_state r)
      in r\<lparr>run_plan := plan\<lparr>plan_Phase := TaskPlanComplete\<rparr>,
           run_state := setTargetPhase now (plan_TargetPhase plan) s,
           run_active := run_active r - 1\<rparr>)"

subsection \<open>One step\<close>

text \<open>The identity of a task: what no step of the executor may change.\<close>

definition task_key :: "PlannedTask \<Rightarrow> TaskType \<times> string \<times> TaskParams \<times> int" where
  "task_key t = (pt_Type t, pt_ID t, pt_Params t, pt_MaxRetries t)"

lemma put_task_simps [simp]:
  "plan_Tasks (put_task i t plan) = (plan_Tasks plan)[i := t]"
  "plan_ID (put_task i t plan) = plan_ID plan"
  "plan_Phase (put_task i t plan) = plan_Phase plan"
  "plan_TargetPhase (put_task i t plan) = plan_TargetPhase plan"
  "plan_FailedPhase (put_task i t plan) = plan_FailedPhase plan"
  "plan_ConfigValuesHash (put_task i t plan) = plan_ConfigValuesHash plan"
  "plan_FailedTaskIndex (put_task i t plan) = plan_FailedTaskIndex plan"
  "plan_FailedTaskDetail (put_task i t plan) = plan_FailedTaskDetail plan"
  by (simp_all add: put_task_def)

lemma put_task_id [simp]: "put_task i (plan_Tasks plan ! i) plan = plan"
  by (simp add: put_task_def)

lemma put_task_twice [simp]: "put_task i t (put_task i u plan) = put_task i t plan"
  by (simp add: put_task_def)

lemma stamp_submitted_simps [simp]:
  "pt_Type (stamp_submitted now t) = pt_Type t"
  "pt_ID (stamp_submitted now t) = pt_ID t"
  "pt_Params (stamp_submitted now t) = pt_Params t"
  "pt_Status (stamp_submitted now t) = pt_Status t"
  "pt_MaxRetries (stamp_submitted now t) = pt_MaxRetries t"
  "pt_RetryCount (stamp_submitted now t) = pt_RetryCount t"
  by (simp_all add: stamp_submitted_def)

text \<open>A run in which task \<open>i\<close> and the owner's state have been replaced.\<close>

abbreviation at_task :: "nat \<Rightarrow> PlannedTask \<Rightarrow> xstate \<Rightarrow> run \<Rightarrow> run" where
  "at_task i t s r \<equiv> r\<lparr>run_state := s, run_plan := put_task i t (run_plan r)\<rparr>"

text \<open>The owner's state after a step is the state before it, or what \<open>Execute\<close> made of it.\<close>

definition exec_state :: "executions \<Rightarrow> PlannedTask \<Rightarrow> xstate \<Rightarrow> xstate \<Rightarrow> bool" where
  "exec_state X t s s' \<longleftrightarrow>
     s' = s \<or> needsSubmission t \<and> s' = fst (ex_Execute X (pt_Type t) (pt_ID t) (pt_Params t) s)"

definition retried :: "PlannedTask \<Rightarrow> PlannedTask" where
  "retried t = t\<lparr>pt_RetryCount := pt_RetryCount t + 1, pt_Status := TaskPending, pt_Error := [],
                 pt_SubmittedAt := None\<rparr>"

lemma settleTask_cases:
  fixes now i b and r :: run
  defines "t \<equiv> plan_Tasks (run_plan r) ! i"
  obtains (running) "settleTask now i b r = (r, TaskPollInterval)"
    | (completed) "settleTask now i b r =
        (r\<lparr>run_plan := put_task i (t\<lparr>pt_Status := TaskComplete\<rparr>) (run_plan r)\<rparr>, ResultRequeueImmediate)"
    | (retry) "pt_RetryCount t < pt_MaxRetries t"
        "settleTask now i b r =
           (r\<lparr>run_plan := put_task i (retried t) (run_plan r)\<rparr>, retryBackoff (pt_RetryCount t + 1))"
    | (failed) e where "settleTask now i b r = (failTask now i e r, 0)"
proof (cases "tb_status b")
  case ExecutionRunning
  then show thesis using running by (simp add: settleTask_def Let_def)
next
  case ExecutionComplete
  then show thesis using completed by (simp add: settleTask_def Let_def t_def)
next
  case st: ExecutionFailed
  show thesis
  proof (cases "pt_MaxRetries t > 0 \<and> pt_RetryCount t < pt_MaxRetries t")
    case True
    then show thesis using st retry by (simp add: settleTask_def Let_def t_def retried_def)
  next
    case False
    then have "settleTask now i b r =
        (failTask now i (case tb_err b of Some e \<Rightarrow> e | None \<Rightarrow> ''unknown error'') r, 0)"
      using st by (auto simp: settleTask_def Let_def t_def)
    then show thesis using failed by blast
  qed
qed

text \<open>Every step of the executor is one of four.\<close>

lemma advanceTask_cases:
  fixes X now i and r :: run
  defines "t \<equiv> plan_Tasks (run_plan r) ! i"
  assumes i: "i < length (plan_Tasks (run_plan r))"
  obtains (waiting) u s where "exec_state X t (run_state r) s" "u = t \<or> u = stamp_submitted now t"
      "advanceTask X now i r = (at_task i u s r, TaskPollInterval)"
    | (completed) u s where "exec_state X t (run_state r) s" "u = t \<or> u = stamp_submitted now t"
      "advanceTask X now i r = (at_task i (u\<lparr>pt_Status := TaskComplete\<rparr>) s r, ResultRequeueImmediate)"
    | (retry) u s where "exec_state X t (run_state r) s" "u = t \<or> u = stamp_submitted now t"
      "pt_RetryCount t < pt_MaxRetries t"
      "advanceTask X now i r = (at_task i (retried u) s r, retryBackoff (pt_RetryCount t + 1))"
    | (failed) e u s where "exec_state X t (run_state r) s" "u = t \<or> u = stamp_submitted now t"
      "advanceTask X now i r = (failTask now i e (at_task i u s r), 0)"
proof -
  obtain s b e where ex: "ex_Execute X (pt_Type t) (pt_ID t) (pt_Params t) (run_state r) = (s, b, e)"
    by (metis prod_cases3)
  consider (bad) m where "ex_Deserialize X (pt_Type t) (pt_ID t) (pt_Params t) = Some m"
    | (poll) "ex_Deserialize X (pt_Type t) (pt_ID t) (pt_Params t) = None" "\<not> needsSubmission t"
    | (permanent) m where "ex_Deserialize X (pt_Type t) (pt_ID t) (pt_Params t) = None" "needsSubmission t"
        "e = Some (Terminal m)"
    | (transient) m where "ex_Deserialize X (pt_Type t) (pt_ID t) (pt_Params t) = None" "needsSubmission t"
        "e = Some (Transient m)"
    | (submitted) "ex_Deserialize X (pt_Type t) (pt_ID t) (pt_Params t) = None" "needsSubmission t" "e = None"
    by (metis exec_error.exhaust not_None_eq)
  then show thesis
  proof cases
    case bad
    then have "advanceTask X now i r = (failTask now i m (at_task i t (run_state r) r), 0)"
      by (simp add: advanceTask_def Let_def t_def)
    then show thesis using failed[of "run_state r" t m] by (simp add: exec_state_def)
  next
    case poll
    let ?b = "ex_Status X (pt_Type t) (pt_ID t) (pt_Params t) (run_state r) fresh_task"
    have adv: "advanceTask X now i r = settleTask now i ?b r"
      using poll by (simp add: advanceTask_def Let_def t_def)
    have same: "exec_state X t (run_state r) (run_state r)" by (simp add: exec_state_def)
    show thesis
      by (rule settleTask_cases[of now i ?b r])
         (use adv same waiting[of "run_state r" t] completed[of "run_state r" t] retry[of "run_state r" t]
            failed[of "run_state r" t] in \<open>simp_all add: t_def\<close>)
  next
    case permanent
    then have "advanceTask X now i r = (failTask now i m (at_task i t s r), 0)"
      using ex by (simp add: advanceTask_def Let_def t_def)
    then show thesis using failed[of s t m] permanent ex by (simp add: exec_state_def)
  next
    case transient
    then have "advanceTask X now i r = (at_task i t s r, TaskPollInterval)"
      using ex by (simp add: advanceTask_def Let_def t_def)
    then show thesis using waiting[of s t] transient ex by (simp add: exec_state_def)
  next
    case submitted
    let ?b = "ex_Status X (pt_Type t) (pt_ID t) (pt_Params t) s b"
    let ?u = "stamp_submitted now t" let ?r = "at_task i (stamp_submitted now t) s r"
    have adv: "advanceTask X now i r = settleTask now i ?b ?r"
      using submitted ex by (simp add: advanceTask_def Let_def t_def)
    have es: "exec_state X t (run_state r) s" using submitted ex by (simp add: exec_state_def)
    show thesis
      by (rule settleTask_cases[of now i ?b ?r])
         (use adv es i waiting[of s ?u] completed[of s ?u] retry[of s ?u] failed[of s ?u] in \<open>simp_all\<close>)
  qed
qed

subsection \<open>The loop\<close>

text \<open>The tasks a plan still has to finish; each turn of the loop finishes one or stops.\<close>

definition open_tasks :: "TaskPlan \<Rightarrow> nat" where
  "open_tasks plan = length (filter (\<lambda>t. pt_Status t \<noteq> TaskComplete) (plan_Tasks plan))"

lemma CurrentTask_Some:
  "CurrentTask plan = Some i \<longleftrightarrow>
     i < length (plan_Tasks plan) \<and> pt_Status (plan_Tasks plan ! i) \<noteq> TaskComplete \<and>
     (\<forall>j < i. pt_Status (plan_Tasks plan ! j) = TaskComplete)"
  by (auto simp: CurrentTask_def find_index_Some)

lemma CurrentTask_None:
  "CurrentTask plan = None \<longleftrightarrow> (\<forall>t \<in> set (plan_Tasks plan). pt_Status t = TaskComplete)"
  by (auto simp: CurrentTask_def find_index_None)

lemma filter_update_less:
  assumes "i < length xs" and "Q (xs ! i)" and "\<not> Q x"
  shows "length (filter Q (xs[i := x])) < length (filter Q xs)"
proof -
  have "filter Q xs = filter Q (take i xs @ xs ! i # drop (Suc i) xs)"
    using id_take_nth_drop[OF assms(1)] by simp
  with assms show ?thesis by (simp add: upd_conv_take_nth_drop)
qed

lemma failed_not_complete:
  "i < length (plan_Tasks (run_plan r)) \<Longrightarrow>
     pt_Status (plan_Tasks (run_plan (failTask now i e r)) ! i) = TaskFailed"
  by (simp add: failTask_def Let_def)

text \<open>The only step that completes the current task.\<close>

lemma advance_completes:
  assumes cur: "CurrentTask (run_plan r) = Some i" and adv: "advanceTask X now i r = (r', d)"
    and comp: "pt_Status (plan_Tasks (run_plan r') ! i) = TaskComplete"
  obtains u s where "exec_state X (plan_Tasks (run_plan r) ! i) (run_state r) s"
    "u = plan_Tasks (run_plan r) ! i \<or> u = stamp_submitted now (plan_Tasks (run_plan r) ! i)"
    "r' = at_task i (u\<lparr>pt_Status := TaskComplete\<rparr>) s r"
proof -
  from cur have i: "i < length (plan_Tasks (run_plan r))"
    and open_i: "pt_Status (plan_Tasks (run_plan r) ! i) \<noteq> TaskComplete"
    by (simp_all add: CurrentTask_Some)
  show thesis
    by (rule advanceTask_cases[OF i, of X now])
       (use adv comp i open_i that in \<open>auto simp: retried_def failed_not_complete\<close>)
qed

lemma advance_decreases:
  assumes cur: "CurrentTask (run_plan r) = Some i" and adv: "advanceTask X now i r = (r', d)"
    and comp: "pt_Status (plan_Tasks (run_plan r') ! i) = TaskComplete"
  shows "open_tasks (run_plan r') < open_tasks (run_plan r)"
  by (rule advance_completes[OF assms])
     (use cur in \<open>simp add: open_tasks_def CurrentTask_Some filter_update_less\<close>)

function run_loop :: "executions \<Rightarrow> go_time \<Rightarrow> run \<Rightarrow> run \<times> duration" where
  "run_loop X now r =
     (case CurrentTask (run_plan r) of
        None \<Rightarrow> (complete_plan now r, ResultRequeueImmediate)
      | Some i \<Rightarrow>
          (case advanceTask X now i r of
             (r', result) \<Rightarrow>
               if pt_Status (plan_Tasks (run_plan r') ! i) \<noteq> TaskComplete then (r', result)
               else run_loop X now r'))"
  by pat_completeness auto

termination
  by (relation "measure (\<lambda>(X, now, r). open_tasks (run_plan r))")
     (auto dest: advance_decreases[OF _ sym])

declare run_loop.simps [simp del]

definition executePlan :: "executions \<Rightarrow> go_time \<Rightarrow> run \<Rightarrow> run \<times> duration" where
  "executePlan X now r =
     (case plan_Phase (run_plan r) of
        TaskPlanComplete \<Rightarrow> (r, 0)
      | TaskPlanFailed \<Rightarrow> (r, 0)
      | TaskPlanActive \<Rightarrow> run_loop X now (r\<lparr>run_active := run_active r + 1\<rparr>))"

text \<open>\<open>ExecutePlan\<close> on the owning object: a nil plan is an error.\<close>

definition ExecutePlan ::
  "executions \<Rightarrow> go_time \<Rightarrow> xstate \<Rightarrow> TaskPlan option \<Rightarrow> int \<Rightarrow> (run \<times> duration) result" where
  "ExecutePlan X now s plan active =
     (case plan of
        None \<Rightarrow> Err ''ExecutePlan called with nil plan''
      | Some p \<Rightarrow> Ok (executePlan X now \<lparr>run_state = s, run_plan = p, run_active = active\<rparr>))"

text \<open>
  How the loop ends: it went through runs that satisfy an invariant kept by completing steps, and
  then either found no open task or stopped at the current one.
\<close>

lemma run_loop_outcome:
  assumes "I r"
    and step: "\<And>q i u s. I q \<Longrightarrow> CurrentTask (run_plan q) = Some i \<Longrightarrow>
        exec_state X (plan_Tasks (run_plan q) ! i) (run_state q) s \<Longrightarrow>
        u = plan_Tasks (run_plan q) ! i \<or> u = stamp_submitted now (plan_Tasks (run_plan q) ! i) \<Longrightarrow>
        I (at_task i (u\<lparr>pt_Status := TaskComplete\<rparr>) s q)"
  shows "(\<exists>q. I q \<and> CurrentTask (run_plan q) = None \<and>
              run_loop X now r = (complete_plan now q, ResultRequeueImmediate)) \<or>
         (\<exists>q i r' d. I q \<and> CurrentTask (run_plan q) = Some i \<and> advanceTask X now i q = (r', d) \<and>
              pt_Status (plan_Tasks (run_plan r') ! i) \<noteq> TaskComplete \<and> run_loop X now r = (r', d))"
  using assms(1)
proof (induction "open_tasks (run_plan r)" arbitrary: r rule: less_induct)
  case less
  show ?case
  proof (cases "CurrentTask (run_plan r)")
    case None
    then show ?thesis using less.prems by (auto simp: run_loop.simps)
  next
    case (Some i)
    obtain r' d where adv: "advanceTask X now i r = (r', d)" by (metis surj_pair)
    show ?thesis
    proof (cases "pt_Status (plan_Tasks (run_plan r') ! i) = TaskComplete")
      case True
      obtain u s where "exec_state X (plan_Tasks (run_plan r) ! i) (run_state r) s"
        "u = plan_Tasks (run_plan r) ! i \<or> u = stamp_submitted now (plan_Tasks (run_plan r) ! i)"
        "r' = at_task i (u\<lparr>pt_Status := TaskComplete\<rparr>) s r"
        by (rule advance_completes[OF Some adv True])
      then have "I r'" using step[OF less.prems Some] by blast
      moreover have "run_loop X now r = run_loop X now r'"
        using Some adv True by (subst run_loop.simps) simp
      ultimately show ?thesis using less.hyps[OF advance_decreases[OF Some adv True]] by simp
    next
      case False
      then have "run_loop X now r = (r', d)" using Some adv by (subst run_loop.simps) simp
      with False Some adv less.prems show ?thesis by blast
    qed
  qed
qed

end
