(* ===== verification/Fixtures.thy ===== *)
theory Fixtures
  imports ApiMethods
begin

text \<open>
  Concrete values on which the witnesses of the development evaluate the model: the documented
  condition helpers as third-party code, a full node, a ConfigMap-configured full node and a
  platform configuration.
\<close>

definition demo_ext :: ext where
  "demo_ext =
     \<lparr>FindStatusCondition = ref_find_cond, SetStatusCondition = ref_set_cond 0,
      NewSHA1 = (\<lambda>seed. seed), Sum256 = (\<lambda>bytes. bytes), PortEVMHTTP = 8545, PortP2P = 26656, PortRPC = 26657, PortEVMWS = 8546, PortREST = 1317,
      KeyP2PExternalAddress = ''network.p2p.external_address'',
      KeySnapshotInterval = ''storage.snapshot_interval'',
      KeySnapshotKeepRecent = ''storage.snapshot_keep_recent'', DefaultSnapshotInterval = 2000,
      SnapshotGenerationOverrides = (\<lambda>_. Mapping.empty)\<rparr>"

lemma demo_cond_laws: "cond_laws demo_ext"
  using ref_conditions.status_conditions_axioms[of 0] by (simp add: demo_ext_def)

definition demo_platform :: PlatformConfig where
  "demo_platform = \<lparr>SidecarImage = ''sidecar:1'', DriftUpdateBudgetPercent = 50\<rparr>"

definition demo_spec :: SeiNodeSpec where
  "demo_spec =
     \<lparr>spec_ChainID = ''pacific-1'', spec_Image = ''seid:1'', spec_Peers = [], spec_Overrides = Mapping.empty,
      spec_Consensus = None, spec_ExecutionEngine = None, spec_ConfigValues = [], spec_NodeConfig = None,
      spec_Scheduling = None, spec_Sidecar = None, spec_PodLabels = Mapping.empty, spec_DataVolume = None,
      spec_Resources = None,
      spec_FullNode = Some \<lparr>fn_Snapshot = None, fn_SnapshotGeneration = None, fn_Freeze = None\<rparr>,
      spec_Archive = None, spec_Replayer = None, spec_Validator = None, spec_Seed = None,
      spec_ExternalAddress = [], spec_Paused = False, spec_DataResetGeneration = 0, spec_Maintenance = None\<rparr>"

definition demo_status :: SeiNodeStatus where
  "demo_status =
     \<lparr>st_Phase = PhaseRunning, st_CurrentImage = ''seid:1'', st_CurrentConfigValuesHash = [],
      st_CurrentSidecarImage = ''sidecar:1'', st_CurrentNodeIsolation = NodeIsolationShared,
      st_CurrentNodePool = [], st_Conditions = [], st_PhaseTransitionTime = None,
      st_CommittedHeight = None, st_CommittedHeightTime = None, st_Plan = None,
      st_AdoptedWorkflow = None, st_ResolvedPeers = [], st_ResolvedRPCWitnesses = [],
      st_ResolvedStateSyncers = [], st_StatefulSet = None, st_Endpoint = None,
      st_DataResetGeneration = 0, st_MaintenanceHold = HoldNone\<rparr>"

text \<open>A Running full node, and the same node configured by ConfigMaps.\<close>

definition demo_node :: SeiNode where
  "demo_node =
     \<lparr>node_Name = ''rpc-0'', node_Namespace = ''sei'', node_Annotations = Mapping.empty, node_Generation = 1,
      node_CreationTimestamp = 0, node_Spec = demo_spec, node_Status = demo_status\<rparr>"

definition static_node :: SeiNode where
  "static_node =
     demo_node\<lparr>node_Spec := demo_spec\<lparr>spec_NodeConfig := Some \<lparr>nc_ConfigRef = ''cfg'', nc_AppRef = ''app''\<rparr>\<rparr>\<rparr>"

lemmas demo_defs = demo_ext_def demo_platform_def demo_spec_def demo_status_def demo_node_def static_node_def

end
