(* ===== verification/ExecFixtures.thy ===== *)
theory ExecFixtures
  imports Executor Fixtures
begin

text \<open>
  A world in which every call succeeds and the sidecar reports every task it is asked for as
  completed (or, in \<open>failing_world\<close>, failed), and runs of small plans in it.
\<close>

definition demo_sts :: StatefulSet where
  "demo_sts =
     \<lparr>sts_Containers = [(''seid'', ''seid:1'')], sts_InitContainers = [(''sei-sidecar'', ''sidecar:1'')],
      sts_Generation = 1, sts_ObservedGeneration = 1, sts_Replicas = Some 1, sts_UpdatedReplicas = 1,
      sts_UID = ''u1'', sts_MatchLabels = [(''sei.io/node'', ''rpc-0'')], sts_UpdateRevision = ''rev1''\<rparr>"

definition demo_world :: world where
  "demo_world =
     \<lparr>w_BuildSidecarClient = (\<lambda>_. None), w_SubmitTask = (\<lambda>_ _. None),
      w_GetTask = (\<lambda>_ _. GetResult ScCompleted None None), w_ParseUUID = (\<lambda>_. None),
      w_Bech32Decode = (\<lambda>_. Ok ''sei''), w_ParseDuration = (\<lambda>_. Ok 1),
      w_ValidateIntent = (\<lambda>_. None), w_SetControllerReference = (\<lambda>_. None),
      w_GenerateStatefulSet = (\<lambda>_. None), w_StatefulSet = (\<lambda>_. Inr demo_sts),
      w_CachedStatefulSet = (\<lambda>_. Inr demo_sts), w_Apply = (\<lambda>_ _. None), w_Delete = (\<lambda>_ _. None),
      w_Create = (\<lambda>_ _. None), w_PVC = (\<lambda>_ _. Inl (NotFound ''pvc'')), w_PV = (\<lambda>_ _. Inl (NotFound ''pv'')),
      w_Secret = (\<lambda>_ _. Inl (NotFound ''secret'')), w_Pods = (\<lambda>_ _. Inr []),
      w_Node = (\<lambda>_ _. Inr demo_node), w_NodesOfGroup = (\<lambda>_ _. Inr []), w_SidecarFor = (\<lambda>_ _. None),
      w_NodeID = (\<lambda>_ _. Inr ''id''), w_RequiredStorage = (\<lambda>_. Inr 1), w_QuantityString = (\<lambda>_. [])\<rparr>"

definition failing_world :: world where
  "failing_world = demo_world\<lparr>w_GetTask := (\<lambda>_ _. GetResult ScFailed (Some ''boom'') None)\<rparr>"

definition demo_task :: "int \<Rightarrow> TaskType \<Rightarrow> PlannedTask" where
  "demo_task retries ty =
     \<lparr>pt_Type = ty, pt_ID = task_type_string ty, pt_Status = TaskPending, pt_Params = NilParams,
      pt_SubmittedAt = None, pt_Error = [], pt_MaxRetries = retries, pt_RetryCount = 0\<rparr>"

definition demo_run :: "SeiNode \<Rightarrow> PlannedTask list \<Rightarrow> run" where
  "demo_run n ts =
     \<lparr>run_state = \<lparr>xs_Node = Some n, xs_Calls = []\<rparr>,
      run_plan = new_plan ''p'' ts PhaseRunning PhaseFailed, run_active = 0\<rparr>"

definition demo_registry :: executions where
  "demo_registry = registry demo_ext demo_platform demo_world"

definition failing_registry :: executions where
  "failing_registry = registry demo_ext demo_platform failing_world"

lemmas exec_demo_defs = demo_sts_def demo_world_def failing_world_def demo_task_def demo_run_def
  demo_registry_def failing_registry_def

end
