(* ===== verification/ExecutorProps.thy ===== *)
theory ExecutorProps
  imports ExecFixtures
begin

text \<open>
  What the executor guarantees for every implementation of the task interface: a plan stays well
  formed, runs in order, ends Complete or Failed with the phases the plan names, and retries a
  bounded number of times with bounded waits.
\<close>

subsection \<open>Well-formed plans\<close>

definition in_order :: "TaskPlan \<Rightarrow> bool" where
  "in_order plan \<longleftrightarrow>
     (case CurrentTask plan of
        None \<Rightarrow> True
      | Some i \<Rightarrow> \<forall>t \<in> set (drop (Suc i) (plan_Tasks plan)). pt_Status t \<noteq> TaskComplete)"

definition retries_bounded :: "PlannedTask \<Rightarrow> bool" where
  "retries_bounded t \<longleftrightarrow> 0 \<le> pt_RetryCount t \<and> pt_RetryCount t \<le> max 0 (pt_MaxRetries t)"

definition failure_recorded :: "TaskPlan \<Rightarrow> bool" where
  "failure_recorded plan \<longleftrightarrow>
     (case CurrentTask plan of
        None \<Rightarrow> False
      | Some i \<Rightarrow>
          (let t = plan_Tasks plan ! i in
           pt_Status t = TaskFailed \<and>
           plan_FailedTaskDetail plan =
             Some \<lparr>fti_Type = pt_Type t, fti_ID = pt_ID t, fti_Error = pt_Error t,
                   fti_RetryCount = pt_RetryCount t, fti_MaxRetries = pt_MaxRetries t\<rparr>))"

definition plan_wf :: "TaskPlan \<Rightarrow> bool" where
  "plan_wf plan \<longleftrightarrow>
     in_order plan \<and> list_all retries_bounded (plan_Tasks plan) \<and>
     (case plan_Phase plan of
        TaskPlanActive \<Rightarrow> list_all (\<lambda>t. pt_Status t \<noteq> TaskFailed) (plan_Tasks plan)
      | TaskPlanComplete \<Rightarrow> CurrentTask plan = None
      | TaskPlanFailed \<Rightarrow> failure_recorded plan)"

lemma CurrentTask_put:
  assumes "CurrentTask plan = Some i" and "pt_Status t \<noteq> TaskComplete"
  shows "CurrentTask (put_task i t plan) = Some i"
  using assms by (auto simp: CurrentTask_Some)

lemma CurrentTask_phase [simp]:
  "CurrentTask (plan\<lparr>plan_Phase := ph\<rparr>) = CurrentTask plan"
  "CurrentTask (plan\<lparr>plan_FailedTaskIndex := k\<rparr>) = CurrentTask plan"
  "CurrentTask (plan\<lparr>plan_FailedTaskDetail := dt\<rparr>) = CurrentTask plan"
  by (simp_all add: CurrentTask_def)

lemma in_order_cong: "plan_Tasks p = plan_Tasks q \<Longrightarrow> in_order p = in_order q"
  by (simp add: in_order_def CurrentTask_def split: option.split)

text \<open>The tasks behind the current one, and how a completing step moves past it.\<close>

lemma in_order_complete:
  assumes cur: "CurrentTask plan = Some i" and ord: "in_order plan" and st: "pt_Status t = TaskComplete"
  shows "in_order (put_task i t plan)"
proof (cases "CurrentTask (put_task i t plan)")
  case (Some k)
  from cur have i: "i < length (plan_Tasks plan)" by (simp add: CurrentTask_Some)
  from Some have k: "k < length (plan_Tasks plan)" by (simp add: CurrentTask_Some)
  have "i < k"
  proof (rule ccontr)
    assume "\<not> i < k"
    then consider "k = i" | "k < i" by linarith
    then show False
    proof cases
      case 1
      then show False using Some i st by (simp add: CurrentTask_Some)
    next
      case 2
      then show False using Some cur by (auto simp: CurrentTask_Some)
    qed
  qed
  then have "drop (Suc k) (plan_Tasks (put_task i t plan)) = drop (Suc k) (plan_Tasks plan)" by simp
  moreover have "set (drop (Suc k) (plan_Tasks plan)) \<subseteq> set (drop (Suc i) (plan_Tasks plan))"
    using \<open>i < k\<close> by (intro set_drop_subset_set_drop) simp
  ultimately show ?thesis using ord cur Some by (auto simp: in_order_def)
qed (simp add: in_order_def)

lemma in_order_put:
  assumes "CurrentTask plan = Some i" and "in_order plan" and "pt_Status t \<noteq> TaskComplete"
  shows "in_order (put_task i t plan)"
  using assms CurrentTask_put[OF assms(1,3)] by (simp add: in_order_def)

lemma list_all_update: "list_all Q xs \<Longrightarrow> Q x \<Longrightarrow> list_all Q (xs[i := x])"
  by (auto simp: list_all_iff dest: set_update_subset_insert[THEN subsetD])

lemma list_all_current: "list_all Q (plan_Tasks plan) \<Longrightarrow> CurrentTask plan = Some i \<Longrightarrow> Q (plan_Tasks plan ! i)"
  by (simp add: list_all_length CurrentTask_Some)

subsection \<open>The failing step\<close>

lemma failTask_records:
  assumes "CurrentTask (run_plan r) = Some i"
  shows "failure_recorded (run_plan (failTask now i e r))"
proof -
  from assms have i: "i < length (plan_Tasks (run_plan r))" by (simp add: CurrentTask_Some)
  have "CurrentTask (run_plan (failTask now i e r)) = Some i"
    using CurrentTask_put[OF assms, of "(plan_Tasks (run_plan r) ! i)\<lparr>pt_Status := TaskFailed, pt_Error := e\<rparr>"]
    by (simp add: failTask_def Let_def)
  then show ?thesis using i by (simp add: failure_recorded_def Let_def failTask_def)
qed

lemma failTask_tasks:
  "plan_Tasks (run_plan (failTask now i e r)) =
     (plan_Tasks (run_plan r))[i := (plan_Tasks (run_plan r) ! i)\<lparr>pt_Status := TaskFailed, pt_Error := e\<rparr>]"
  "plan_Phase (run_plan (failTask now i e r)) = TaskPlanFailed"
  "run_state (failTask now i e r) = setTargetPhase now (plan_FailedPhase (run_plan r)) (run_state r)"
  by (simp_all add: failTask_def Let_def)

lemma failTask_in_order:
  assumes "CurrentTask (run_plan r) = Some i" and "in_order (run_plan r)"
  shows "in_order (run_plan (failTask now i e r))"
proof -
  let ?t = "(plan_Tasks (run_plan r) ! i)\<lparr>pt_Status := TaskFailed, pt_Error := e\<rparr>"
  have "in_order (put_task i ?t (run_plan r))" using assms by (intro in_order_put) simp_all
  then show ?thesis by (rule in_order_cong[THEN iffD1, rotated]) (simp add: failTask_tasks)
qed

subsection \<open>The invariant of the loop\<close>

text \<open>
  \<open>progress r0 r\<close>: run \<open>r\<close> comes from \<open>r0\<close> by completing tasks in order.  Everything from the
  current task on is as it was, and the plan's other fields have not changed.
\<close>

definition progress :: "run \<Rightarrow> run \<Rightarrow> bool" where
  "progress r0 r \<longleftrightarrow>
     run_plan r = (run_plan r0)\<lparr>plan_Tasks := plan_Tasks (run_plan r)\<rparr> \<and>
     run_active r = run_active r0 \<and>
     map task_key (plan_Tasks (run_plan r)) = map task_key (plan_Tasks (run_plan r0)) \<and>
     (case CurrentTask (run_plan r) of
        None \<Rightarrow> True
      | Some i \<Rightarrow> drop i (plan_Tasks (run_plan r)) = drop i (plan_Tasks (run_plan r0)))"

lemma progress_refl: "progress r r"
  by (simp add: progress_def split: option.splits)

lemma complete_key:
  assumes "u = t \<or> u = stamp_submitted now t"
  shows "task_key (u\<lparr>pt_Status := TaskComplete\<rparr>) = task_key t"
  using assms by (auto simp: task_key_def)

lemma map_key_update:
  assumes "i < length ts" and "task_key t' = task_key (ts ! i)"
  shows "map task_key (ts[i := t']) = map task_key ts"
  using assms by (simp add: map_update list_update_same_conv)

lemma progress_step:
  assumes pr: "progress r0 r" and cur: "CurrentTask (run_plan r) = Some i"
    and u: "u = plan_Tasks (run_plan r) ! i \<or> u = stamp_submitted now (plan_Tasks (run_plan r) ! i)"
  shows "progress r0 (at_task i (u\<lparr>pt_Status := TaskComplete\<rparr>) s r)"
proof -
  let ?t = "u\<lparr>pt_Status := TaskComplete\<rparr>" let ?ts = "plan_Tasks (run_plan r)"
  from cur have i: "i < length ?ts" by (simp add: CurrentTask_Some)
  have keys: "map task_key (?ts[i := ?t]) = map task_key ?ts"
    using i complete_key[OF u] by (rule map_key_update)
  have rest: "drop k (?ts[i := ?t]) = drop k (plan_Tasks (run_plan r0))"
    if k: "CurrentTask (put_task i ?t (run_plan r)) = Some k" for k
  proof -
    have "i < k"
    proof (rule ccontr)
      assume "\<not> i < k"
      with k i cur show False by (cases "k = i") (auto simp: CurrentTask_Some)
    qed
    with pr cur have "drop (k - i) (drop i ?ts) = drop (k - i) (drop i (plan_Tasks (run_plan r0)))"
      by (simp add: progress_def)
    with \<open>i < k\<close> show ?thesis by simp
  qed
  from pr have "run_plan r = (run_plan r0)\<lparr>plan_Tasks := ?ts\<rparr>" by (simp add: progress_def)
  then have "put_task i ?t (run_plan r) = (run_plan r0)\<lparr>plan_Tasks := ?ts[i := ?t]\<rparr>"
    by (simp add: put_task_def) (metis TaskPlan.surjective TaskPlan.update_convs(3))
  with pr keys rest show ?thesis by (simp add: progress_def split: option.splits)
qed

definition loop_inv :: "run \<Rightarrow> run \<Rightarrow> bool" where
  "loop_inv r0 r \<longleftrightarrow> progress r0 r \<and> plan_wf (run_plan r) \<and> plan_Phase (run_plan r) = TaskPlanActive"

lemma loop_inv_step:
  assumes inv: "loop_inv r0 r" and cur: "CurrentTask (run_plan r) = Some i"
    and u: "u = plan_Tasks (run_plan r) ! i \<or> u = stamp_submitted now (plan_Tasks (run_plan r) ! i)"
  shows "loop_inv r0 (at_task i (u\<lparr>pt_Status := TaskComplete\<rparr>) s r)"
proof -
  let ?t = "u\<lparr>pt_Status := TaskComplete\<rparr>"
  from inv have wf: "plan_wf (run_plan r)" and act: "plan_Phase (run_plan r) = TaskPlanActive"
    by (simp_all add: loop_inv_def)
  from wf have b: "list_all retries_bounded (plan_Tasks (run_plan r))" by (simp add: plan_wf_def)
  have "retries_bounded ?t"
    using list_all_current[OF b cur] u by (auto simp: retries_bounded_def)
  with wf act b cur have "plan_wf (put_task i ?t (run_plan r))"
    by (simp add: plan_wf_def in_order_complete list_all_update)
  with inv act progress_step[OF _ cur u] show ?thesis by (simp add: loop_inv_def)
qed

text \<open>The two ways the loop ends, with the invariant at its last turn.\<close>

lemma executePlan_ends:
  assumes wf: "plan_wf (run_plan r)" and act: "plan_Phase (run_plan r) = TaskPlanActive"
  defines "r0 \<equiv> r\<lparr>run_active := run_active r + 1\<rparr>"
  obtains (finished) q where "loop_inv r0 q" "CurrentTask (run_plan q) = None"
      "executePlan X now r = (complete_plan now q, ResultRequeueImmediate)"
    | (stopped) q i r' d where "loop_inv r0 q" "CurrentTask (run_plan q) = Some i"
      "advanceTask X now i q = (r', d)" "pt_Status (plan_Tasks (run_plan r') ! i) \<noteq> TaskComplete"
      "executePlan X now r = (r', d)"
proof -
  have "loop_inv r0 r0" using wf act by (simp add: loop_inv_def r0_def progress_refl)
  then have "(\<exists>q. loop_inv r0 q \<and> CurrentTask (run_plan q) = None \<and>
              run_loop X now r0 = (complete_plan now q, ResultRequeueImmediate)) \<or>
         (\<exists>q i r' d. loop_inv r0 q \<and> CurrentTask (run_plan q) = Some i \<and> advanceTask X now i q = (r', d) \<and>
              pt_Status (plan_Tasks (run_plan r') ! i) \<noteq> TaskComplete \<and> run_loop X now r0 = (r', d))"
    by (rule run_loop_outcome) (rule loop_inv_step)
  moreover have "executePlan X now r = run_loop X now r0"
    using act by (simp add: executePlan_def r0_def)
  ultimately show thesis using that by auto
qed

subsection \<open>Outcomes\<close>

lemma setTargetPhase_node:
  "xs_Node (setTargetPhase now ph s) = Some n \<Longrightarrow> ph \<noteq> PhaseUnset \<Longrightarrow> node_Phase n = ph"
  by (auto simp: setTargetPhase_def upd_node_def)

lemma retryBackoff_bounds:
  assumes "1 \<le> attempt"
  shows "2 * TaskPollInterval \<le> retryBackoff attempt" and "retryBackoff attempt \<le> maxRetryBackoff"
proof -
  have "(2::int) ^ 1 \<le> 2 ^ nat (min attempt 5)"
    by (rule power_increasing) (use assms in auto)
  then show "2 * TaskPollInterval \<le> retryBackoff attempt"
    by (simp add: retryBackoff_def Let_def TaskPollInterval_def maxRetryBackoff_def)
  show "retryBackoff attempt \<le> maxRetryBackoff" by (simp add: retryBackoff_def Let_def)
qed

text \<open>What a stopping step makes of the plan.\<close>

lemma put_bounded:
  assumes "list_all retries_bounded (plan_Tasks plan)" and "CurrentTask plan = Some i"
    and "pt_RetryCount u = pt_RetryCount (plan_Tasks plan ! i)"
    and "pt_MaxRetries u = pt_MaxRetries (plan_Tasks plan ! i)"
  shows "list_all retries_bounded ((plan_Tasks plan)[i := u])"
  using assms list_all_current[OF assms(1,2)] by (simp add: list_all_update retries_bounded_def)

lemma put_not_failed:
  assumes "list_all (\<lambda>t. pt_Status t \<noteq> TaskFailed) (plan_Tasks plan)" and "pt_Status u \<noteq> TaskFailed"
  shows "list_all (\<lambda>t. pt_Status t \<noteq> TaskFailed) ((plan_Tasks plan)[i := u])"
  using assms by (simp add: list_all_update)

lemma stop_wf:
  assumes wf: "plan_wf (run_plan q)" and act: "plan_Phase (run_plan q) = TaskPlanActive"
    and cur: "CurrentTask (run_plan q) = Some i" and adv: "advanceTask X now i q = (r', d)"
    and stop: "pt_Status (plan_Tasks (run_plan r') ! i) \<noteq> TaskComplete"
  shows "plan_wf (run_plan r')"
proof -
  let ?t = "plan_Tasks (run_plan q) ! i"
  from cur have i: "i < length (plan_Tasks (run_plan q))" and st: "pt_Status ?t \<noteq> TaskComplete"
    by (simp_all add: CurrentTask_Some)
  from wf act have ord: "in_order (run_plan q)"
    and b: "list_all retries_bounded (plan_Tasks (run_plan q))"
    and nf: "list_all (\<lambda>t. pt_Status t \<noteq> TaskFailed) (plan_Tasks (run_plan q))"
    by (simp_all add: plan_wf_def)
  have tb: "retries_bounded ?t" by (rule list_all_current[OF b cur])
  have tnf: "pt_Status ?t \<noteq> TaskFailed" by (rule list_all_current[OF nf cur])
  from i show ?thesis
  proof (cases rule: advanceTask_cases[where X = X and now = now, consumes 1])
    case (waiting u s)
    then have u: "pt_Status u = pt_Status ?t" "pt_RetryCount u = pt_RetryCount ?t" "pt_MaxRetries u = pt_MaxRetries ?t"
      by auto
    show ?thesis using waiting(3) adv act u st tnf
      by (simp add: plan_wf_def in_order_put[OF cur ord] put_bounded[OF b cur] put_not_failed[OF nf])
  next
    case (completed u s)
    then show ?thesis using adv stop i by simp
  next
    case (retry u s)
    then have "retries_bounded (retried u)" using tb by (auto simp: retries_bounded_def retried_def)
    moreover have "pt_Status (retried u) = TaskPending" by (simp add: retried_def)
    ultimately show ?thesis using retry(4) adv act
      by (simp add: plan_wf_def in_order_put[OF cur ord] list_all_update[OF b] put_not_failed[OF nf])
  next
    case (failed e u s)
    then have u: "pt_Status u = pt_Status ?t" "pt_RetryCount u = pt_RetryCount ?t" "pt_MaxRetries u = pt_MaxRetries ?t"
      by auto
    let ?q = "at_task i u s q"
    have cur': "CurrentTask (run_plan ?q) = Some i" using CurrentTask_put[OF cur] u st by simp
    have ord': "in_order (run_plan ?q)" using in_order_put[OF cur ord] u st by simp
    have "list_all retries_bounded (plan_Tasks (run_plan (failTask now i e ?q)))"
      using put_bounded[OF b cur, of "u\<lparr>pt_Status := TaskFailed, pt_Error := e\<rparr>"] u i
      by (simp add: failTask_tasks)
    with failTask_records[OF cur'] failTask_in_order[OF cur' ord'] show ?thesis
      using failed(3) adv by (simp add: plan_wf_def failTask_tasks)
  qed
qed

lemma complete_plan_wf:
  assumes "plan_wf (run_plan q)" and "CurrentTask (run_plan q) = None"
  shows "plan_wf (run_plan (complete_plan now q))"
proof -
  have tasks: "plan_Tasks (run_plan (complete_plan now q)) = plan_Tasks (run_plan q)"
    and phase: "plan_Phase (run_plan (complete_plan now q)) = TaskPlanComplete"
    by (simp_all add: complete_plan_def Let_def)
  have "CurrentTask (run_plan (complete_plan now q)) = None"
    using assms(2) tasks by (simp add: CurrentTask_None)
  then show ?thesis using assms(1) tasks phase by (simp add: plan_wf_def in_order_def)
qed

lemma executePlan_keeps_wf:
  assumes wf: "plan_wf (run_plan r)"
  shows "plan_wf (run_plan (fst (executePlan X now r)))"
proof (cases "plan_Phase (run_plan r)")
  case TaskPlanActive
  then show ?thesis
    by (cases rule: executePlan_ends[OF wf, of X now])
       (auto simp: loop_inv_def complete_plan_wf intro: stop_wf)
qed (use wf in \<open>simp_all add: executePlan_def\<close>)

lemma progress_keys:
  "progress r0 r \<Longrightarrow> map task_key (plan_Tasks (run_plan r)) = map task_key (plan_Tasks (run_plan r0))"
  by (simp add: progress_def)

lemma progress_fields:
  assumes "progress r0 r"
  shows "plan_TargetPhase (run_plan r) = plan_TargetPhase (run_plan r0)"
    and "plan_FailedPhase (run_plan r) = plan_FailedPhase (run_plan r0)"
    and "plan_ConfigValuesHash (run_plan r) = plan_ConfigValuesHash (run_plan r0)"
  using assms by (auto simp: progress_def) (metis TaskPlan.select_convs TaskPlan.surjective TaskPlan.update_convs(3))+

lemma progress_rest:
  assumes "progress r0 r" and "CurrentTask (run_plan r) = Some i"
  shows "drop (Suc i) (plan_Tasks (run_plan r)) = drop (Suc i) (plan_Tasks (run_plan r0))"
proof -
  have "drop 1 (drop i (plan_Tasks (run_plan r))) = drop 1 (drop i (plan_Tasks (run_plan r0)))"
    using assms by (simp add: progress_def)
  then show ?thesis by simp
qed

text \<open>What a stopping step says: it requeues and leaves the plan Active, or it fails the plan.\<close>

definition stopped_at :: "go_time \<Rightarrow> run \<Rightarrow> nat \<Rightarrow> run \<Rightarrow> duration \<Rightarrow> bool" where
  "stopped_at now q i r' d \<longleftrightarrow>
     CurrentTask (run_plan r') = Some i \<and>
     map task_key (plan_Tasks (run_plan r')) = map task_key (plan_Tasks (run_plan q)) \<and>
     drop (Suc i) (plan_Tasks (run_plan r')) = drop (Suc i) (plan_Tasks (run_plan q)) \<and>
     (plan_Phase (run_plan r') = TaskPlanActive \<and> TaskPollInterval \<le> d \<and> d \<le> maxRetryBackoff \<or>
      plan_Phase (run_plan r') = TaskPlanFailed \<and> d = 0 \<and>
        (\<exists>s. run_state r' = setTargetPhase now (plan_FailedPhase (run_plan q)) s))"

lemma stop_shape:
  assumes wf: "plan_wf (run_plan q)" and act: "plan_Phase (run_plan q) = TaskPlanActive"
    and cur: "CurrentTask (run_plan q) = Some i" and adv: "advanceTask X now i q = (r', d)"
    and stop: "pt_Status (plan_Tasks (run_plan r') ! i) \<noteq> TaskComplete"
  shows "stopped_at now q i r' d"
proof -
  let ?t = "plan_Tasks (run_plan q) ! i"
  from cur have i: "i < length (plan_Tasks (run_plan q))" and st: "pt_Status ?t \<noteq> TaskComplete"
    by (simp_all add: CurrentTask_Some)
  have rc: "0 \<le> pt_RetryCount ?t"
    using wf list_all_current[OF _ cur, of retries_bounded] by (simp add: plan_wf_def retries_bounded_def)
  have poll: "TaskPollInterval \<le> maxRetryBackoff" "0 < TaskPollInterval"
    by (simp_all add: TaskPollInterval_def maxRetryBackoff_def)
  note put = CurrentTask_put[OF cur] and key = map_key_update[OF i]
  from i show ?thesis
  proof (cases rule: advanceTask_cases[where X = X and now = now, consumes 1])
    case (waiting u s)
    then have "pt_Status u = pt_Status ?t" "task_key u = task_key ?t" by (auto simp: task_key_def)
    then show ?thesis using waiting(3) adv act st poll put key by (simp add: stopped_at_def)
  next
    case (completed u s)
    then show ?thesis using adv stop i by simp
  next
    case (retry u s)
    then have "pt_Status (retried u) = TaskPending" "task_key (retried u) = task_key ?t"
      by (auto simp: task_key_def retried_def)
    moreover have "TaskPollInterval \<le> retryBackoff (pt_RetryCount ?t + 1)"
      "retryBackoff (pt_RetryCount ?t + 1) \<le> maxRetryBackoff"
      using retryBackoff_bounds[of "pt_RetryCount ?t + 1"] rc poll by simp_all
    ultimately show ?thesis using retry(4) adv act put key by (simp add: stopped_at_def)
  next
    case (failed e u s)
    let ?u = "u\<lparr>pt_Status := TaskFailed, pt_Error := e\<rparr>"
    from failed have "task_key ?u = task_key ?t" by (auto simp: task_key_def)
    moreover have "CurrentTask (run_plan r') = Some i"
      using failed(3) adv put[of ?u] i by (auto simp: CurrentTask_def failTask_tasks)
    ultimately show ?thesis using failed(3) adv key[of ?u] i
      by (auto simp: stopped_at_def failTask_tasks)
  qed
qed

text \<open>
  C2. One \<open>ExecutePlan\<close> call on a well-formed Active plan, whatever the task implementations do:
  the tasks keep their identity and order.  The plan ends Complete, and then every task is
  complete, the node is in the plan's target phase and the requeue is immediate; or it ends
  Failed, with everything before the failed task complete, everything behind it untouched and the
  node in the plan's failed phase; or it stays Active at its current task, the tasks behind it
  untouched, and is requeued between 5 and 30 seconds later.
\<close>

theorem executePlan_outcome:
  assumes "plan_wf (run_plan r)" and "plan_Phase (run_plan r) = TaskPlanActive"
    and "executePlan X now r = (r', d)"
  shows "map task_key (plan_Tasks (run_plan r')) = map task_key (plan_Tasks (run_plan r)) \<and>
    (case plan_Phase (run_plan r') of
       TaskPlanComplete \<Rightarrow>
         d = ResultRequeueImmediate \<and> list_all (\<lambda>t. pt_Status t = TaskComplete) (plan_Tasks (run_plan r')) \<and>
         (\<forall>n. xs_Node (run_state r') = Some n \<longrightarrow> plan_TargetPhase (run_plan r) \<noteq> PhaseUnset \<longrightarrow>
              node_Phase n = plan_TargetPhase (run_plan r))
     | TaskPlanFailed \<Rightarrow>
         d = 0 \<and> (\<exists>i. CurrentTask (run_plan r') = Some i \<and>
            drop (Suc i) (plan_Tasks (run_plan r')) = drop (Suc i) (plan_Tasks (run_plan r))) \<and>
         (\<forall>n. xs_Node (run_state r') = Some n \<longrightarrow> plan_FailedPhase (run_plan r) \<noteq> PhaseUnset \<longrightarrow>
              node_Phase n = plan_FailedPhase (run_plan r))
     | TaskPlanActive \<Rightarrow>
         TaskPollInterval \<le> d \<and> d \<le> maxRetryBackoff \<and> (\<exists>i. CurrentTask (run_plan r') = Some i \<and>
            drop (Suc i) (plan_Tasks (run_plan r')) = drop (Suc i) (plan_Tasks (run_plan r))))"
  using assms(1,2)
proof (cases rule: executePlan_ends[where X = X and now = now, consumes 2])
  case (finished q)
  then show ?thesis using assms(3) progress_keys progress_fields
    by (auto simp: loop_inv_def complete_plan_def Let_def list_all_iff CurrentTask_None
        dest!: setTargetPhase_node)
next
  case (stopped q i r1 d1)
  then have "stopped_at now q i r' d" using assms(3) by (intro stop_shape) (auto simp: loop_inv_def)
  moreover have "progress (r\<lparr>run_active := run_active r + 1\<rparr>) q" using stopped by (simp add: loop_inv_def)
  ultimately show ?thesis using progress_keys progress_fields progress_rest[OF _ stopped(2)]
    by (fastforce simp: stopped_at_def dest: setTargetPhase_node split: TaskPlanPhase.splits)
qed

theorem executePlan_outcome_witness:
  "plan_Phase (run_plan (fst (executePlan demo_registry 7
      (demo_run demo_node [demo_task 0 MarkNotReady, demo_task 0 MarkReady])))) = TaskPlanComplete \<and>
   snd (executePlan demo_registry 7
      (demo_run demo_node [demo_task 0 MarkNotReady, demo_task 0 MarkReady])) = ResultRequeueImmediate"
proof -
  let ?r = "demo_run demo_node [demo_task 0 MarkNotReady, demo_task 0 MarkReady]"
  have "plan_wf (run_plan ?r)" and "plan_Phase (run_plan ?r) = TaskPlanActive" by code_simp+
  note result = executePlan_outcome[OF this prod.collapse[symmetric], of demo_registry 7]
  moreover have "plan_Phase (run_plan (fst (executePlan demo_registry 7 ?r))) = TaskPlanComplete" by code_simp
  ultimately show ?thesis by simp
qed

text \<open>
  A well-formed plan stays well formed through any number of reconciles: no task is ever
  complete behind one that is not, no task is retried more often than its bound allows, an Active
  plan has no failed task, a Complete plan has only complete ones, and a Failed plan records the
  failed task's type, id, error and retry counts.
\<close>

theorem executePlan_wf_forever:
  assumes "plan_wf (run_plan r)"
  shows "plan_wf (run_plan (((\<lambda>q. fst (executePlan X now q)) ^^ k) r))"
  using assms by (induction k) (simp_all add: executePlan_keeps_wf)

theorem executePlan_wf_forever_witness:
  "plan_wf (run_plan (((\<lambda>q. fst (executePlan failing_registry 7 q)) ^^ 3)
     (demo_run demo_node [demo_task 1 ConfigApply, demo_task 0 MarkReady]))) \<and>
   plan_Phase (run_plan (((\<lambda>q. fst (executePlan failing_registry 7 q)) ^^ 3)
     (demo_run demo_node [demo_task 1 ConfigApply, demo_task 0 MarkReady]))) = TaskPlanFailed"
proof -
  let ?r = "demo_run demo_node [demo_task 1 ConfigApply, demo_task 0 MarkReady]"
  have "plan_wf (run_plan ?r)" by code_simp
  from executePlan_wf_forever[OF this] show ?thesis
    by (simp add: numeral_3_eq_3) code_simp
qed

subsection \<open>Retries\<close>

lemma executePlan_active:
  "plan_Phase (run_plan r) = TaskPlanActive \<Longrightarrow>
     executePlan X now r = run_loop X now (r\<lparr>run_active := run_active r + 1\<rparr>)"
  by (simp add: executePlan_def)

text \<open>The run after \<open>m\<close> failed attempts at task \<open>i\<close>: everything else is as it was.\<close>

definition attempted :: "nat \<Rightarrow> PlannedTask \<Rightarrow> run \<Rightarrow> int \<Rightarrow> run \<Rightarrow> bool" where
  "attempted i t r m q \<longleftrightarrow>
     plan_Phase (run_plan q) = TaskPlanActive \<and>
     (\<exists>u. task_key u = task_key t \<and> pt_Status u = TaskPending \<and> pt_RetryCount u = m \<and>
          run_plan q = put_task i u (run_plan r))"

lemma failing_attempt:
  assumes cur: "CurrentTask (run_plan r) = Some i" and att: "attempted i t r m q"
    and des: "ex_Deserialize X (pt_Type t) (pt_ID t) (pt_Params t) = None"
    and ex: "\<And>s. \<exists>s' b. ex_Execute X (pt_Type t) (pt_ID t) (pt_Params t) s = (s', b, None) \<and>
                     tb_status (ex_Status X (pt_Type t) (pt_ID t) (pt_Params t) s' b) = ExecutionFailed"
    and m: "0 \<le> m"
  shows "m < pt_MaxRetries t \<Longrightarrow> attempted i t r (m + 1) (fst (executePlan X now q)) \<and>
           snd (executePlan X now q) = retryBackoff (m + 1)"
    and "pt_MaxRetries t \<le> m \<Longrightarrow> plan_Phase (run_plan (fst (executePlan X now q))) = TaskPlanFailed \<and>
           snd (executePlan X now q) = 0"
proof -
  from att obtain u where u: "task_key u = task_key t" "pt_Status u = TaskPending" "pt_RetryCount u = m"
      "run_plan q = put_task i u (run_plan r)" and act: "plan_Phase (run_plan q) = TaskPlanActive"
    by (auto simp: attempted_def)
  from cur have i: "i < length (plan_Tasks (run_plan r))" by (simp add: CurrentTask_Some)
  let ?q = "q\<lparr>run_active := run_active q + 1\<rparr>"
  have cq: "CurrentTask (run_plan ?q) = Some i" using CurrentTask_put[OF cur] u by simp
  have t: "plan_Tasks (run_plan ?q) ! i = u" using u i by simp
  have key: "pt_Type u = pt_Type t" "pt_ID u = pt_ID t" "pt_Params u = pt_Params t" "pt_MaxRetries u = pt_MaxRetries t"
    using u(1) by (simp_all add: task_key_def)
  obtain s' b where e: "ex_Execute X (pt_Type t) (pt_ID t) (pt_Params t) (run_state q) = (s', b, None)"
    "tb_status (ex_Status X (pt_Type t) (pt_ID t) (pt_Params t) s' b) = ExecutionFailed"
    using ex by blast
  let ?c = "ex_Status X (pt_Type t) (pt_ID t) (pt_Params t) s' b"
  let ?p = "at_task i (stamp_submitted now u) s' ?q"
  have adv: "advanceTask X now i ?q = settleTask now i ?c ?p"
    using t key des e(1) u(2) by (simp add: advanceTask_def Let_def needsSubmission_def)
  have loop: "executePlan X now q = settleTask now i ?c ?p"
    if "pt_Status (plan_Tasks (run_plan (fst (settleTask now i ?c ?p))) ! i) \<noteq> TaskComplete"
    using that cq adv by (simp add: executePlan_active[OF act] run_loop.simps split_beta)
  { assume "m < pt_MaxRetries t"
    then have st: "settleTask now i ?c ?p =
        (at_task i (retried (stamp_submitted now u)) s' ?q, retryBackoff (m + 1))"
      using e(2) i u m key by (simp add: settleTask_def Let_def retried_def)
    moreover have "task_key (retried (stamp_submitted now u)) = task_key t"
      using u(1) by (simp add: task_key_def retried_def)
    moreover have "pt_RetryCount (retried (stamp_submitted now u)) = m + 1" "pt_Status (retried (stamp_submitted now u)) = TaskPending"
      using u(3) by (simp_all add: retried_def)
    moreover have "executePlan X now q = settleTask now i ?c ?p"
      by (rule loop) (use st i u in \<open>simp add: retried_def\<close>)
    ultimately show "attempted i t r (m + 1) (fst (executePlan X now q)) \<and>
        snd (executePlan X now q) = retryBackoff (m + 1)"
      using act u(4) by (auto simp: attempted_def) }
  { assume "pt_MaxRetries t \<le> m"
    then obtain x where st: "settleTask now i ?c ?p = (failTask now i x ?p, 0)"
      using e(2) i u m key by (simp add: settleTask_def Let_def)
    moreover have "executePlan X now q = settleTask now i ?c ?p"
      by (rule loop) (use st i u in \<open>simp add: failTask_tasks\<close>)
    ultimately show "plan_Phase (run_plan (fst (executePlan X now q))) = TaskPlanFailed \<and>
        snd (executePlan X now q) = 0"
      by (simp add: failTask_tasks) }
qed

text \<open>
  A task that fails every time is retried exactly its bound: with bound \<open>k\<close> the plan is
  still Active after \<open>k\<close> reconciles, with the task pending again and its retry count at \<open>k\<close>,
  and reconcile \<open>k + 1\<close> fails the plan.
\<close>

theorem retries_exhausted:
  fixes r :: run
  assumes "plan_Phase (run_plan r) = TaskPlanActive" and "CurrentTask (run_plan r) = Some i"
    and "t = plan_Tasks (run_plan r) ! i" and "pt_Status t = TaskPending" and "pt_RetryCount t = 0"
    and "pt_MaxRetries t = int k"
    and "ex_Deserialize X (pt_Type t) (pt_ID t) (pt_Params t) = None"
    and "\<forall>s. \<exists>s' b. ex_Execute X (pt_Type t) (pt_ID t) (pt_Params t) s = (s', b, None) \<and>
                tb_status (ex_Status X (pt_Type t) (pt_ID t) (pt_Params t) s' b) = ExecutionFailed"
  shows "plan_Phase (run_plan (((\<lambda>q. fst (executePlan X now q)) ^^ k) r)) = TaskPlanActive \<and>
         pt_RetryCount (plan_Tasks (run_plan (((\<lambda>q. fst (executePlan X now q)) ^^ k) r)) ! i) = int k \<and>
         plan_Phase (run_plan (((\<lambda>q. fst (executePlan X now q)) ^^ Suc k) r)) = TaskPlanFailed"
proof -
  let ?step = "\<lambda>q. fst (executePlan X now q)"
  have "attempted i t r (int m) ((?step ^^ m) r)" if "m \<le> k" for m
    using that
  proof (induction m)
    case 0
    then show ?case using assms by (auto simp: attempted_def intro!: exI[of _ t])
  next
    case (Suc m)
    then show ?case
      using failing_attempt(1)[OF assms(2), of t "int m" "(?step ^^ m) r" X now] assms(6,7,8)
      by (simp add: add.commute)
  qed
  then have att: "attempted i t r (int k) ((?step ^^ k) r)" by simp
  moreover have "i < length (plan_Tasks (run_plan r))" using assms(2) by (simp add: CurrentTask_Some)
  moreover have "plan_Phase (run_plan (?step ((?step ^^ k) r))) = TaskPlanFailed"
    using failing_attempt(2)[OF assms(2) att assms(7)] assms(6,8) by simp
  ultimately show ?thesis by (auto simp: attempted_def)
qed

theorem retries_exhausted_witness:
  "plan_Phase (run_plan (((\<lambda>q. fst (executePlan failing_registry 7 q)) ^^ Suc 180)
     (demo_run demo_node [demo_task 180 ConfigureGenesis]))) = TaskPlanFailed"
proof -
  let ?r = "demo_run demo_node [demo_task 180 ConfigureGenesis]"
  let ?t = "demo_task 180 ConfigureGenesis"
  have "plan_Phase (run_plan ?r) = TaskPlanActive" "CurrentTask (run_plan ?r) = Some 0"
    "?t = plan_Tasks (run_plan ?r) ! 0"
    "pt_Status ?t = TaskPending" "pt_RetryCount ?t = 0" "pt_MaxRetries ?t = int 180"
    "ex_Deserialize failing_registry (pt_Type ?t) (pt_ID ?t) (pt_Params ?t) = None"
    by (simp_all add: exec_demo_defs new_plan_def CurrentTask_def registry_def)
  moreover have "\<forall>s. \<exists>s' b. ex_Execute failing_registry (pt_Type ?t) (pt_ID ?t) (pt_Params ?t) s = (s', b, None) \<and>
      tb_status (ex_Status failing_registry (pt_Type ?t) (pt_ID ?t) (pt_Params ?t) s' b) = ExecutionFailed"
    by (simp add: exec_demo_defs registry_def sidecar_Execute_def sidecar_Status_def fresh_task_def setFailed_def)
  ultimately show ?thesis using retries_exhausted[of ?r 0 ?t 180 failing_registry 7] by blast
qed

lemma retryBackoff_capped: "3 \<le> k \<Longrightarrow> retryBackoff k = maxRetryBackoff"
proof -
  assume "3 \<le> k"
  then have "(2::int) ^ 3 \<le> 2 ^ nat (min k 5)" by (intro power_increasing) auto
  then show ?thesis by (simp add: retryBackoff_def Let_def TaskPollInterval_def maxRetryBackoff_def)
qed

text \<open>
  Reconciles that come exactly when the one before asked for them: the time of the next call, the
  run, and the delays returned so far.  The cluster and the sidecar may answer every call
  differently, so each call has task executions of its own.
\<close>

primrec drive :: "(nat \<Rightarrow> executions) \<Rightarrow> nat \<Rightarrow> go_time \<Rightarrow> run \<Rightarrow> go_time \<times> run \<times> duration list" where
  "drive X 0 now r = (now, r, [])"
| "drive X (Suc m) now r =
     (let (t, q, ds) = drive X m now r; (q', d) = executePlan (X m) t q in (t + d, q', ds @ [d]))"

text \<open>The total of the first \<open>k\<close> waits.\<close>

definition backoff_total :: "nat \<Rightarrow> duration" where
  "backoff_total k = (if k = 0 then 0 else if k = 1 then 10 else 30 * int k - 30) * 1000000000"

lemma backoff_total_Suc: "backoff_total (Suc m) = backoff_total m + retryBackoff (int m + 1)"
proof -
  consider "m = 0" | "m = 1" | "2 \<le> m" by linarith
  then show ?thesis
  proof cases
    case 3
    then show ?thesis by (simp add: backoff_total_def retryBackoff_capped maxRetryBackoff_def)
  qed (simp_all add: backoff_total_def retryBackoff_def Let_def TaskPollInterval_def maxRetryBackoff_def)
qed

text \<open>What a task that fails on every attempt is, for one set of executions.\<close>

definition always_fails :: "executions \<Rightarrow> PlannedTask \<Rightarrow> bool" where
  "always_fails X t \<longleftrightarrow>
     ex_Deserialize X (pt_Type t) (pt_ID t) (pt_Params t) = None \<and>
     (\<forall>s. \<exists>s' b. ex_Execute X (pt_Type t) (pt_ID t) (pt_Params t) s = (s', b, None) \<and>
        tb_status (ex_Status X (pt_Type t) (pt_ID t) (pt_Params t) s' b) = ExecutionFailed)"

lemma drive_attempts:
  assumes "CurrentTask (run_plan r) = Some i" and "attempted i t r 0 r" and "\<And>j. always_fails (X j) t"
    and "m \<le> k" and "pt_MaxRetries t = int k"
  shows "\<exists>q. drive X m now r = (now + backoff_total m, q, map (\<lambda>j. retryBackoff (int j)) [1..<Suc m]) \<and>
           attempted i t r (int m) q"
  using assms(4)
proof (induction m)
  case 0
  then show ?case using assms(2) by (simp add: backoff_total_def)
next
  case (Suc m)
  then obtain q where q: "drive X m now r = (now + backoff_total m, q, map (\<lambda>j. retryBackoff (int j)) [1..<Suc m])"
    "attempted i t r (int m) q" by auto
  have "attempted i t r (int m + 1) (fst (executePlan (X m) (now + backoff_total m) q)) \<and>
      snd (executePlan (X m) (now + backoff_total m) q) = retryBackoff (int m + 1)"
    using failing_attempt(1)[OF assms(1) q(2), of "X m"] assms(3)[of m] assms(5) Suc.prems
    by (simp add: always_fails_def)
  then show ?case using q(1) by (simp add: split_beta backoff_total_Suc add.commute)
qed

text \<open>
  C40. The retries of a task that fails on every attempt, when each reconcile comes exactly at the
  requeue the one before asked for: with retry bound \<open>k\<close> the first \<open>k\<close> executions leave the plan
  Active with the task pending again and its count one higher, asking for waits of 10, 20, 30, 30,
  ... seconds, and execution \<open>k + 1\<close>, which fails the plan and asks for no requeue, happens 0
  seconds (\<open>k = 0\<close>), 10 seconds (\<open>k = 1\<close>) or \<open>30 k - 30\<close> seconds (\<open>k \<ge> 2\<close>) after the first.
  For the 180 retries of the genesis tasks that is 5370 seconds.
\<close>

theorem retry_schedule:
  fixes r :: run
  assumes "plan_Phase (run_plan r) = TaskPlanActive" and "CurrentTask (run_plan r) = Some i"
    and "t = plan_Tasks (run_plan r) ! i" and "pt_Status t = TaskPending" and "pt_RetryCount t = 0"
    and "pt_MaxRetries t = int k" and "\<forall>j. always_fails (X j) t"
  shows "(\<forall>m \<le> k. \<exists>q. drive X m now r =
              (now + backoff_total m, q, map (\<lambda>j. retryBackoff (int j)) [1..<Suc m]) \<and>
            plan_Phase (run_plan q) = TaskPlanActive \<and>
            pt_Status (plan_Tasks (run_plan q) ! i) = TaskPending \<and>
            pt_RetryCount (plan_Tasks (run_plan q) ! i) = int m) \<and>
         (\<exists>q. drive X (Suc k) now r =
              (now + (if k = 0 then 0 else if k = 1 then 10 else 30 * int k - 30) * 1000000000, q,
               map (\<lambda>j. retryBackoff (int j)) [1..<Suc k] @ [0]) \<and>
            plan_Phase (run_plan q) = TaskPlanFailed)"
proof (intro conjI allI impI)
  have i: "i < length (plan_Tasks (run_plan r))" using assms(2) by (simp add: CurrentTask_Some)
  have "attempted i t r 0 r" using assms by (auto simp: attempted_def intro!: exI[of _ t])
  note attempts = drive_attempts[where X = X and now = now, OF assms(2) this _ _ assms(6)]
  show "\<exists>q. drive X m now r = (now + backoff_total m, q, map (\<lambda>j. retryBackoff (int j)) [1..<Suc m]) \<and>
      plan_Phase (run_plan q) = TaskPlanActive \<and>
      pt_Status (plan_Tasks (run_plan q) ! i) = TaskPending \<and>
      pt_RetryCount (plan_Tasks (run_plan q) ! i) = int m" if "m \<le> k" for m
    using attempts[OF _ that] assms(7) i by (fastforce simp: attempted_def)
  obtain q where q: "drive X k now r = (now + backoff_total k, q, map (\<lambda>j. retryBackoff (int j)) [1..<Suc k])"
    "attempted i t r (int k) q" using attempts[of k] assms(7) by auto
  have "plan_Phase (run_plan (fst (executePlan (X k) (now + backoff_total k) q))) = TaskPlanFailed \<and>
      snd (executePlan (X k) (now + backoff_total k) q) = 0"
    using failing_attempt(2)[OF assms(2) q(2), of "X k"] assms(6,7) by (simp add: always_fails_def)
  then show "\<exists>q. drive X (Suc k) now r =
      (now + (if k = 0 then 0 else if k = 1 then 10 else 30 * int k - 30) * 1000000000, q,
       map (\<lambda>j. retryBackoff (int j)) [1..<Suc k] @ [0]) \<and> plan_Phase (run_plan q) = TaskPlanFailed"
    using q(1) by (simp add: split_beta backoff_total_def)
qed

theorem retry_schedule_witness:
  "\<exists>q. drive (\<lambda>_. failing_registry) 181 7 (demo_run demo_node [demo_task 180 ConfigureGenesis]) =
         (7 + 5370 * 1000000000, q, map (\<lambda>j. retryBackoff (int j)) [1..<181] @ [0]) \<and>
       plan_Phase (run_plan q) = TaskPlanFailed"
proof -
  let ?r = "demo_run demo_node [demo_task 180 ConfigureGenesis]"
  let ?t = "demo_task 180 ConfigureGenesis"
  have "plan_Phase (run_plan ?r) = TaskPlanActive" "CurrentTask (run_plan ?r) = Some 0"
    "?t = plan_Tasks (run_plan ?r) ! 0"
    "pt_Status ?t = TaskPending" "pt_RetryCount ?t = 0" "pt_MaxRetries ?t = int 180"
    by (simp_all add: exec_demo_defs new_plan_def CurrentTask_def)
  moreover have "\<forall>j. always_fails ((\<lambda>_. failing_registry) (j::nat)) ?t"
    by (simp add: always_fails_def exec_demo_defs registry_def sidecar_Execute_def sidecar_Status_def
        fresh_task_def setFailed_def)
  ultimately show ?thesis
    using retry_schedule[of ?r 0 ?t 180 "\<lambda>_. failing_registry" 7] by auto
qed

subsection \<open>Completion\<close>

definition completes :: "executions \<Rightarrow> PlannedTask \<Rightarrow> bool" where
  "completes X t \<longleftrightarrow>
     ex_Deserialize X (pt_Type t) (pt_ID t) (pt_Params t) = None \<and>
     (\<forall>s. \<exists>s' b. ex_Execute X (pt_Type t) (pt_ID t) (pt_Params t) s = (s', b, None) \<and>
        tb_status (ex_Status X (pt_Type t) (pt_ID t) (pt_Params t) s' b) = ExecutionComplete)"

text \<open>
  C39. When every task is pending or already complete and every execution succeeds, one
  \<open>ExecutePlan\<close> call runs the whole plan: it returns with the plan Complete, however long it is.
\<close>

theorem executePlan_completes:
  assumes "plan_Phase (run_plan r) = TaskPlanActive"
    and "\<forall>t \<in> set (plan_Tasks (run_plan r)). completes X t \<and> pt_Status t \<in> {TaskPending, TaskComplete}"
  shows "plan_Phase (run_plan (fst (executePlan X now r))) = TaskPlanComplete"
proof -
  let ?I = "\<lambda>q. \<forall>t \<in> set (plan_Tasks (run_plan q)). completes X t \<and> pt_Status t \<in> {TaskPending, TaskComplete}"
  let ?r = "r\<lparr>run_active := run_active r + 1\<rparr>"
  have step: "?I (at_task i (u\<lparr>pt_Status := TaskComplete\<rparr>) s q)"
    if "?I q" "CurrentTask (run_plan q) = Some i"
      "u = plan_Tasks (run_plan q) ! i \<or> u = stamp_submitted now (plan_Tasks (run_plan q) ! i)" for q i u s
  proof -
    have "completes X (plan_Tasks (run_plan q) ! i)" using that by (simp add: CurrentTask_Some)
    then have "completes X (u\<lparr>pt_Status := TaskComplete\<rparr>)" using that(3) by (auto simp: completes_def)
    then show ?thesis using that(1) by (auto dest!: set_update_subset_insert[THEN subsetD])
  qed
  have never_stops: "pt_Status (plan_Tasks (run_plan q') ! i) = TaskComplete"
    if I: "?I q" and cur: "CurrentTask (run_plan q) = Some i" and adv: "advanceTask X now i q = (q', d)" for q i q' d
  proof -
    let ?t = "plan_Tasks (run_plan q) ! i"
    from cur have i: "i < length (plan_Tasks (run_plan q))" "pt_Status ?t \<noteq> TaskComplete"
      by (simp_all add: CurrentTask_Some)
    with I have "completes X ?t" "pt_Status ?t = TaskPending" by auto
    then obtain s' b where "ex_Execute X (pt_Type ?t) (pt_ID ?t) (pt_Params ?t) (run_state q) = (s', b, None)"
      "tb_status (ex_Status X (pt_Type ?t) (pt_ID ?t) (pt_Params ?t) s' b) = ExecutionComplete"
      "ex_Deserialize X (pt_Type ?t) (pt_ID ?t) (pt_Params ?t) = None"
      unfolding completes_def by blast
    then show ?thesis using adv i \<open>pt_Status ?t = TaskPending\<close>
      by (auto simp: advanceTask_def Let_def needsSubmission_def settleTask_def)
  qed
  have "?I ?r" using assms(2) by simp
  from run_loop_outcome[of ?I ?r X now, OF this step] never_stops
  have "\<exists>q. run_loop X now ?r = (complete_plan now q, ResultRequeueImmediate)" by blast
  then show ?thesis by (auto simp: executePlan_active[OF assms(1)] complete_plan_def Let_def)
qed

theorem executePlan_completes_witness:
  "plan_Phase (run_plan (fst (executePlan demo_registry 7
     (demo_run demo_node (map (demo_task 0) [MarkNotReady, StopSeid, ConfigValidate]))))) = TaskPlanComplete"
proof -
  let ?r = "demo_run demo_node (map (demo_task 0) [MarkNotReady, StopSeid, ConfigValidate])"
  have "completes demo_registry (demo_task 0 ty)" if "ty \<in> {MarkNotReady, StopSeid, ConfigValidate}" for ty
    using that by (auto simp: completes_def exec_demo_defs registry_def sidecar_Execute_def sidecar_Status_def
        complete_def fresh_task_def)
  moreover have "pt_Status (demo_task 0 ty) = TaskPending" for ty by (simp add: demo_task_def)
  moreover have "plan_Phase (run_plan ?r) = TaskPlanActive" by (simp add: demo_run_def new_plan_def)
  ultimately show ?thesis
    by (intro executePlan_completes) (auto simp: demo_run_def new_plan_def)
qed

end
