(* ===== verification/StartSafety.thy ===== *)
theory StartSafety
  imports ExecFixtures
begin

text \<open>
  The start guard end to end: seid is started only by a mark-ready that reaches the sidecar, and
  the locale \<open>guarded_executions\<close> states what task executions must promise for the executor to
  submit one only when the guard allows it.  The repository's registry keeps that promise.
\<close>

text \<open>What no run of a plan changes on its owning node.\<close>

abbreviation owner_frame :: "SeiNode \<Rightarrow> SeiNode \<Rightarrow> bool" where
  "owner_frame n m \<equiv>
     node_Spec m = node_Spec n \<and> node_Plan m = node_Plan n \<and>
     st_AdoptedWorkflow (node_Status m) = st_AdoptedWorkflow (node_Status n)"

text \<open>What no execution changes on a node, beside a counter none lowers.\<close>

definition start_frame :: "SeiNode \<Rightarrow> SeiNode \<Rightarrow> bool" where
  "start_frame n m \<longleftrightarrow>
     owner_frame n m \<and> node_Phase m = node_Phase n \<and>
     st_DataResetGeneration (node_Status n) \<le> st_DataResetGeneration (node_Status m)"

fun is_start :: "call \<Rightarrow> bool" where
  "is_start (SubmitTask _ ty _) = (ty = MarkReady)"
| "is_start _ = False"

text \<open>A change of the owner's state that starts nothing.\<close>

definition quiet :: "xstate \<Rightarrow> xstate \<Rightarrow> bool" where
  "quiet s s' \<longleftrightarrow>
     rel_option start_frame (xs_Node s) (xs_Node s') \<and>
     (\<exists>new. xs_Calls s' = new @ xs_Calls s \<and> list_all (\<lambda>c. \<not> is_start c) new)"

lemma start_frame_refl [simp]: "start_frame n n"
  by (simp add: start_frame_def)

lemma start_frame_trans: "start_frame a b \<Longrightarrow> start_frame b c \<Longrightarrow> start_frame a c"
  by (auto simp: start_frame_def)

lemma quiet_refl [simp]: "quiet s s"
  by (auto simp: quiet_def intro: option.rel_refl)

lemma quiet_trans:
  assumes "quiet a b" and "quiet b c"
  shows "quiet a c"
proof -
  from assms obtain u v where "xs_Calls b = u @ xs_Calls a" "xs_Calls c = v @ xs_Calls b"
    "list_all (\<lambda>c. \<not> is_start c) u" "list_all (\<lambda>c. \<not> is_start c) v" by (auto simp: quiet_def)
  then have "xs_Calls c = (v @ u) @ xs_Calls a" "list_all (\<lambda>c. \<not> is_start c) (v @ u)" by simp_all
  moreover have "rel_option start_frame (xs_Node a) (xs_Node c)"
    using assms start_frame_trans by (cases "xs_Node a"; cases "xs_Node b"; cases "xs_Node c") (auto simp: quiet_def)
  ultimately show ?thesis unfolding quiet_def by blast
qed

lemma quiet_log: "\<not> is_start c \<Longrightarrow> quiet s (log_call c s)"
  by (auto simp: quiet_def log_call_def option.rel_refl intro!: exI[of _ "[c]"])

lemma quiet_upd: "(\<And>n. start_frame n (f n)) \<Longrightarrow> quiet s (upd_node f s)"
  by (cases "xs_Node s") (auto simp: quiet_def upd_node_def)

lemma quiet_then_log: "quiet s s' \<Longrightarrow> \<not> is_start c \<Longrightarrow> quiet s (log_call c s')"
  using quiet_trans quiet_log by blast

lemma quiet_then_upd: "quiet s s' \<Longrightarrow> (\<And>n. start_frame n (f n)) \<Longrightarrow> quiet s (upd_node f s')"
  using quiet_trans quiet_upd by blast

lemma outcome_state [simp]:
  "fst (done_with s) = s" "fst (still_running s) = s" "fst (give_up s e) = s"
  by (simp_all add: done_with_def still_running_def give_up_def)

lemma cond_frame [simp]: "start_frame n (set_node_cond E n ty st re ms)"
  by (simp add: start_frame_def)

lemma stamp_frame [simp]: "start_frame n (stamp_running P n)"
  by (simp add: start_frame_def stamp_running_def)

lemma status_frame [simp]:
  "start_frame n (upd_status (\<lambda>st. st\<lparr>st_MaintenanceHold := h\<rparr>) n)"
  "start_frame n (upd_status (\<lambda>st. st\<lparr>st_StatefulSet := r\<rparr>) n)"
  by (simp_all add: start_frame_def)

lemmas quiet_intros = quiet_refl quiet_log quiet_upd quiet_then_log quiet_then_upd

subsection \<open>Executions of the repository\<close>

lemma sidecar_quiet: "ty \<noteq> MarkReady \<Longrightarrow> quiet s (fst (sidecar_Execute W f ty tid p s))"
  by (auto simp: sidecar_Execute_def Let_def intro: quiet_intros split: option.splits)

lemma preflight_quiet: "quiet s (fst (preflight E c reasons m err s))"
  by (auto simp: preflight_def intro!: quiet_upd split: option.splits prod.splits)

lemma recordDataReset_quiet: "quiet s (fst (recordDataReset_Execute p s))"
proof (cases "xs_Node s")
  case (Some n)
  have "quiet s (upd_node (upd_status (\<lambda>st. st\<lparr>st_DataResetGeneration := g\<rparr>)) s)"
    if "st_DataResetGeneration (node_Status n) < g" for g
    using that Some by (simp add: quiet_def upd_node_def start_frame_def)
  then show ?thesis using Some by (simp add: recordDataReset_Execute_def Let_def)
qed (simp add: recordDataReset_Execute_def)

lemma recordMaintenanceHold_quiet: "quiet s (fst (recordMaintenanceHold_Execute p s))"
  by (auto simp: recordMaintenanceHold_Execute_def Let_def intro!: quiet_upd split: option.splits)

lemma observeImage_quiet: "quiet s (fst (observeImage_Execute P W s))"
  by (auto simp: observeImage_Execute_def intro!: quiet_upd split: option.splits sum.splits)

lemma apply_object_quiet: "quiet s (fst (apply_object W k w s))"
  by (auto simp: apply_object_def intro!: quiet_log split: option.splits)

lemma SyncStatefulSet_quiet: "quiet s (fst (SyncStatefulSet W n s))"
  by (auto simp: SyncStatefulSet_def apply_sts_def intro!: quiet_intros split: option.splits sum.splits)

lemma applyStatefulSet_quiet: "quiet s (fst (applyStatefulSet_Execute W s))"
  using SyncStatefulSet_quiet[of s W]
  by (auto simp: applyStatefulSet_Execute_def split: option.splits prod.splits sum.splits bool.splits)
     (metis fst_conv)+

lemma ensureDataPVC_quiet: "quiet s (fst (ensureDataPVC_Execute E W s))"
  by (auto simp: ensureDataPVC_Execute_def executeCreate_def executeImport_def Let_def preflight_quiet
      intro!: quiet_log split: option.splits sum.splits api_error.splits)

lemma delete_stale_quiet: "quiet s (fst (delete_stale W sts pods s))"
proof (induction pods arbitrary: s)
  case (Cons pod pods)
  have "quiet s (fst (delete_stale W sts pods (log_call (DeletePod a b) s)))" for a b
    using quiet_trans[OF quiet_log Cons.IH, of "DeletePod a b"] by simp
  with Cons.IH show ?case by (auto split: option.splits)
qed simp

lemma replacePod_quiet: "quiet s (fst (replacePod_Execute W s))"
  using delete_stale_quiet[of s W]
  by (auto simp: replacePod_Execute_def split: option.splits sum.splits prod.splits) (metis fst_conv)+

lemma setPeers_quiet: "quiet s (fst (setPeersOnNodes W peers names s))"
proof (induction names arbitrary: s)
  case (Cons name names)
  have "quiet s (fst (setPeersOnNodes W peers names (log_call (PatchPeers name peers) s)))"
    using quiet_trans[OF quiet_log Cons.IH, of "PatchPeers name peers"] by simp
  then show ?case by (auto split: option.splits sum.splits)
qed simp

lemma collectAndSetPeers_quiet: "quiet s (fst (collectAndSetPeers_Execute W p s))"
  using setPeers_quiet[of s W]
  by (auto simp: collectAndSetPeers_Execute_def split: sum.splits prod.splits option.splits) (metis fst_conv)+

lemma updateNodeImage_quiet: "quiet s (fst (updateNodeImage_Execute W name img s))"
  by (auto simp: updateNodeImage_Execute_def intro!: quiet_log split: option.splits sum.splits)

lemmas task_quiet = preflight_quiet recordDataReset_quiet recordMaintenanceHold_quiet observeImage_quiet
  apply_object_quiet applyStatefulSet_quiet ensureDataPVC_quiet replacePod_quiet collectAndSetPeers_quiet
  updateNodeImage_quiet

subsection \<open>The interface the executor relies on\<close>

text \<open>When a task of type \<open>ty\<close> may start seid on node \<open>n\<close>.\<close>

definition may_start :: "TaskType \<Rightarrow> SeiNode \<Rightarrow> bool" where
  "may_start ty n \<longleftrightarrow>
     ty = MarkReady \<and> StartBlocked n = [] \<or> ty = StartSeidOnce \<and> startOnceBlocked n = []"

locale guarded_executions =
  fixes X :: executions
  assumes keeps_node:
      "rel_option start_frame (xs_Node s) (xs_Node (fst (ex_Execute X ty tid p s)))"
    and calls_grow: "\<exists>new. xs_Calls (fst (ex_Execute X ty tid p s)) = new @ xs_Calls s"
    and starts_guarded:
      "xs_Node s = Some n \<Longrightarrow> xs_Calls (fst (ex_Execute X ty tid p s)) = new @ xs_Calls s \<Longrightarrow>
       list_ex is_start new \<Longrightarrow> may_start ty n"
begin

text \<open>The guard in force on the node a run started with, read at a later node of the run.\<close>

definition started_ok :: "run \<Rightarrow> SeiNode \<Rightarrow> SeiNode \<Rightarrow> bool" where
  "started_ok r0 n m \<longleftrightarrow>
     \<not> DataResetPending m \<and>
     (HoldRequested (node_Spec n) = HoldNone \<or> node_Phase n \<noteq> PhaseRunning \<or>
      HoldRequested (node_Spec n) = HoldAfterExit \<and> StartSeidOnce \<in> pt_Type ` set (plan_Tasks (run_plan r0)))"

definition guard_inv :: "run \<Rightarrow> SeiNode \<Rightarrow> run \<Rightarrow> bool" where
  "guard_inv r0 n r \<longleftrightarrow>
     map pt_Type (plan_Tasks (run_plan r)) = map pt_Type (plan_Tasks (run_plan r0)) \<and>
     (\<exists>m new. xs_Node (run_state r) = Some m \<and> start_frame n m \<and>
        xs_Calls (run_state r) = new @ xs_Calls (run_state r0) \<and>
        (list_ex is_start new \<longrightarrow> started_ok r0 n m))"

lemma started_ok_mono: "started_ok r0 n m \<Longrightarrow> start_frame m m' \<Longrightarrow> started_ok r0 n m'"
  by (auto simp: started_ok_def start_frame_def DataResetPending_def)

lemma may_start_ok:
  assumes "may_start ty m" and "start_frame n m" and "ty \<in> pt_Type ` set (plan_Tasks (run_plan r0))"
  shows "started_ok r0 n m"
  using assms unfolding may_start_def
  by (elim disjE conjE) (simp_all add: started_ok_def StartBlocked_iff startOnceBlocked_iff start_frame_def, blast)

text \<open>An execution of one of the plan's tasks keeps the invariant, whatever becomes of the task.\<close>

lemma guard_exec:
  assumes inv: "guard_inv r0 n r" and i: "i < length (plan_Tasks (run_plan r))"
    and es: "exec_state X (plan_Tasks (run_plan r) ! i) (run_state r) s"
    and ty: "pt_Type u = pt_Type (plan_Tasks (run_plan r) ! i)"
  shows "guard_inv r0 n (at_task i u s r)"
proof -
  let ?t = "plan_Tasks (run_plan r) ! i"
  from inv obtain m new where m: "xs_Node (run_state r) = Some m" "start_frame n m"
      "xs_Calls (run_state r) = new @ xs_Calls (run_state r0)" "list_ex is_start new \<Longrightarrow> started_ok r0 n m"
    and types: "map pt_Type (plan_Tasks (run_plan r)) = map pt_Type (plan_Tasks (run_plan r0))"
    by (auto simp: guard_inv_def)
  have types': "map pt_Type (plan_Tasks (run_plan (at_task i u s r))) = map pt_Type (plan_Tasks (run_plan r0))"
  proof -
    have "map pt_Type ((plan_Tasks (run_plan r))[i := u]) = map pt_Type (plan_Tasks (run_plan r))"
      using ty i by (simp add: map_update list_update_same_conv)
    with types show ?thesis by simp
  qed
  have in_plan: "pt_Type ?t \<in> pt_Type ` set (plan_Tasks (run_plan r0))"
    using types i by (metis image_eqI image_set nth_mem)
  show ?thesis
  proof (cases "s = run_state r")
    case True
    then show ?thesis using types' m unfolding guard_inv_def by auto
  next
    case False
    then have s: "s = fst (ex_Execute X (pt_Type ?t) (pt_ID ?t) (pt_Params ?t) (run_state r))"
      using es by (simp add: exec_state_def)
    obtain new' where new': "xs_Calls s = new' @ xs_Calls (run_state r)" using calls_grow s by blast
    have "rel_option start_frame (Some m) (xs_Node s)"
      using keeps_node[of "run_state r" "pt_Type ?t" "pt_ID ?t" "pt_Params ?t"] m(1) s by simp
    then obtain m' where m': "xs_Node s = Some m'" "start_frame m m'" by (cases "xs_Node s") auto
    have "started_ok r0 n m'" if "list_ex is_start (new' @ new)"
    proof (cases "list_ex is_start new'")
      case True
      then have "may_start (pt_Type ?t) m" using starts_guarded[OF m(1)] s new' by blast
      then show ?thesis using may_start_ok[OF _ m(2) in_plan] started_ok_mono m'(2) by blast
    next
      case False
      then show ?thesis using that m(4) started_ok_mono m'(2) by simp
    qed
    then show ?thesis using types' m' start_frame_trans[OF m(2) m'(2)] new' m(3)
      unfolding guard_inv_def by (intro conjI exI[of _ m'] exI[of _ "new' @ new"]) simp_all
  qed
qed

lemma setTargetPhase_guard:
  "xs_Node (setTargetPhase now ph s) = map_option
     (\<lambda>n. if ph = PhaseUnset then n
          else upd_status (\<lambda>st. st\<lparr>st_Phase := ph, st_PhaseTransitionTime := Some now\<rparr>) n) (xs_Node s)"
  "xs_Calls (setTargetPhase now ph s) = xs_Calls s"
  by (cases "xs_Node s"; simp add: setTargetPhase_def upd_node_def)+

text \<open>After the loop the target phase may have been written, so the claim is about the node the run
  ended with and the spec and phase it began with.\<close>

definition guard_end :: "run \<Rightarrow> SeiNode \<Rightarrow> run \<Rightarrow> bool" where
  "guard_end r0 n r \<longleftrightarrow>
     (\<exists>m new. xs_Node (run_state r) = Some m \<and> owner_frame n m \<and>
        xs_Calls (run_state r) = new @ xs_Calls (run_state r0) \<and>
        (list_ex is_start new \<longrightarrow> started_ok r0 n m))"

lemma guard_inv_end: "guard_inv r0 n r \<Longrightarrow> guard_end r0 n r"
  by (auto simp: guard_inv_def guard_end_def start_frame_def)

lemma guard_end_phase:
  assumes "guard_end r0 n r" and "run_state r' = setTargetPhase now ph (run_state r)"
  shows "guard_end r0 n r'"
proof -
  from assms(1) obtain m new where "xs_Node (run_state r) = Some m" "owner_frame n m"
    "xs_Calls (run_state r) = new @ xs_Calls (run_state r0)" "list_ex is_start new \<longrightarrow> started_ok r0 n m"
    by (auto simp: guard_end_def)
  then show ?thesis
    using assms(2) by (auto simp: guard_end_def setTargetPhase_guard started_ok_def DataResetPending_def)
qed

lemma guard_end_hash:
  assumes "guard_end r0 n r"
    and "run_state r' = upd_node (upd_status (\<lambda>st. st\<lparr>st_CurrentConfigValuesHash := h\<rparr>)) (run_state r)"
  shows "guard_end r0 n r'"
proof -
  from assms(1) obtain m new where "xs_Node (run_state r) = Some m" "owner_frame n m"
    "xs_Calls (run_state r) = new @ xs_Calls (run_state r0)" "list_ex is_start new \<longrightarrow> started_ok r0 n m"
    by (auto simp: guard_end_def)
  then show ?thesis
    using assms(2) by (auto simp: guard_end_def upd_node_def started_ok_def DataResetPending_def)
qed

lemma guard_complete: "guard_inv r0 n r \<Longrightarrow> guard_end r0 n (complete_plan now r)"
proof -
  assume inv: "guard_inv r0 n r"
  let ?h = "plan_ConfigValuesHash (run_plan r)"
  let ?s = "if ?h \<noteq> [] then upd_node (upd_status (\<lambda>st. st\<lparr>st_CurrentConfigValuesHash := ?h\<rparr>)) (run_state r)
            else run_state r"
  have "guard_end r0 n (r\<lparr>run_state := ?s\<rparr>)"
    using guard_inv_end[OF inv] guard_end_hash[OF guard_inv_end[OF inv], of "r\<lparr>run_state := ?s\<rparr>" ?h] by simp
  then show ?thesis by (rule guard_end_phase) (simp add: complete_plan_def Let_def)
qed

lemma guard_stop:
  assumes inv: "guard_inv r0 n r" and cur: "CurrentTask (run_plan r) = Some i"
    and adv: "advanceTask X now i r = (r', d)"
  shows "guard_end r0 n r'"
proof -
  from cur have i: "i < length (plan_Tasks (run_plan r))" by (simp add: CurrentTask_Some)
  note kept = guard_inv_end[OF guard_exec[OF inv i]]
  from i show ?thesis
  proof (cases rule: advanceTask_cases[where X = X and now = now, consumes 1])
    case (waiting u s)
    then show ?thesis using adv kept[of s u] by auto
  next
    case (completed u s)
    then show ?thesis using adv kept[of s "u\<lparr>pt_Status := TaskComplete\<rparr>"] by auto
  next
    case (retry u s)
    then show ?thesis using adv kept[of s "retried u"] by (auto simp: retried_def)
  next
    case (failed e u s)
    then have "guard_end r0 n (at_task i u s r)" using kept[of s u] by auto
    moreover have "run_state r' = setTargetPhase now (plan_FailedPhase (run_plan r)) (run_state (at_task i u s r))"
      using failed(3) adv by (auto simp: failTask_def Let_def)
    ultimately show ?thesis by (rule guard_end_phase)
  qed
qed

lemma executePlan_guarded:
  assumes "xs_Node (run_state r) = Some n"
  shows "guard_end r n (fst (executePlan X now r))"
proof (cases "plan_Phase (run_plan r)")
  case TaskPlanActive
  let ?r = "r\<lparr>run_active := run_active r + 1\<rparr>"
  have "guard_inv r n ?r" using assms by (simp add: guard_inv_def)
  then have "(\<exists>q. guard_inv r n q \<and> CurrentTask (run_plan q) = None \<and>
              run_loop X now ?r = (complete_plan now q, ResultRequeueImmediate)) \<or>
         (\<exists>q i r' d. guard_inv r n q \<and> CurrentTask (run_plan q) = Some i \<and> advanceTask X now i q = (r', d) \<and>
              pt_Status (plan_Tasks (run_plan r') ! i) \<noteq> TaskComplete \<and> run_loop X now ?r = (r', d))"
    by (rule run_loop_outcome) (auto intro!: guard_exec simp: CurrentTask_Some)
  then show ?thesis using TaskPlanActive guard_complete guard_stop by (auto simp: executePlan_def)
qed (use assms in \<open>simp_all add: executePlan_def guard_end_def\<close>)

end

subsection \<open>The registry keeps the promise\<close>

lemma guarded_start:
  assumes "xs_Node s = Some n" and "xs_Calls (fst (guarded_Execute W blocked tid p s)) = new @ xs_Calls s"
    and "list_ex is_start new"
  shows "blocked n = []"
  using assms by (auto simp: guarded_Execute_def Let_def split: if_splits)

lemma guarded_frame:
  "rel_option start_frame (xs_Node s) (xs_Node (fst (guarded_Execute W blocked tid p s)))"
  "\<exists>new. xs_Calls (fst (guarded_Execute W blocked tid p s)) = new @ xs_Calls s"
  by (auto simp: guarded_Execute_def sidecar_Execute_def Let_def give_up_def log_call_def option.rel_refl
      split: option.splits)

lemma task_Execute_quiet:
  "ty \<noteq> MarkReady \<Longrightarrow> ty \<noteq> StartSeidOnce \<Longrightarrow> quiet s (fst (task_Execute E P W ty tid p s))"
  by (cases ty)
     (simp_all add: task_quiet sidecar_quiet applyRBACProxyConfig_Execute_def applyService_Execute_def
        validateSigningKey_Execute_def validateNodeKey_Execute_def validateOperatorKeyring_Execute_def
        split: option.splits sum.splits prod.splits)

lemma quiet_no_start:
  "quiet s s' \<Longrightarrow> xs_Calls s' = new @ xs_Calls s \<Longrightarrow> \<not> list_ex is_start new"
  by (auto simp: quiet_def list_all_iff list_ex_iff)

interpretation registry: guarded_executions "registry E P W"
proof unfold_locales
  fix s ty tid p
  show "rel_option start_frame (xs_Node s) (xs_Node (fst (ex_Execute (registry E P W) ty tid p s)))"
    using task_Execute_quiet[of ty s E P W tid p] guarded_frame(1)
    by (cases "ty = MarkReady \<or> ty = StartSeidOnce") (auto simp: registry_def quiet_def)
  show "\<exists>new. xs_Calls (fst (ex_Execute (registry E P W) ty tid p s)) = new @ xs_Calls s"
    using task_Execute_quiet[of ty s E P W tid p] guarded_frame(2)
    by (cases "ty = MarkReady \<or> ty = StartSeidOnce") (auto simp: registry_def quiet_def)
next
  fix s n ty tid p new
  assume "xs_Node s = Some n"
    "xs_Calls (fst (ex_Execute (registry E P W) ty tid p s)) = new @ xs_Calls s" "list_ex is_start new"
  then show "may_start ty n"
    using task_Execute_quiet[of ty s E P W tid p] quiet_no_start
    by (cases "ty = MarkReady \<or> ty = StartSeidOnce")
       (auto simp: registry_def may_start_def dest: guarded_start)
qed

text \<open>
  C1. Whenever a reconcile's \<open>ExecutePlan\<close> submits a mark-ready to the sidecar of a node, no data
  reset is pending on the node it leaves behind, and the node was not Running under a maintenance
  hold; the one exception is a plan that carries a start-seid-once task while the requested hold
  is AfterExit.  So seid is never started on data a reset has not cleared, nor under an Immediate
  hold, whatever plan the node carries and whatever the sidecar and the API server answer.
\<close>

theorem executePlan_start_guard:
  assumes "xs_Node (run_state r) = Some n"
    and "executePlan (registry E P W) now r = (r', d)"
    and "xs_Calls (run_state r') = new @ xs_Calls (run_state r)"
    and "SubmitTask tid MarkReady p \<in> set new"
  shows "\<exists>n'. xs_Node (run_state r') = Some n' \<and> \<not> DataResetPending n' \<and>
     (HoldRequested (node_Spec n) = HoldNone \<or> node_Phase n \<noteq> PhaseRunning \<or>
      HoldRequested (node_Spec n) = HoldAfterExit \<and> StartSeidOnce \<in> pt_Type ` set (plan_Tasks (run_plan r)))"
proof -
  have "list_ex is_start new" using assms(4) by (force simp: list_ex_iff)
  then show ?thesis
    using registry.executePlan_guarded[OF assms(1), of E P W now] assms(2,3)
    by (auto simp: registry.guard_end_def registry.started_ok_def)
qed

theorem executePlan_start_guard_witness:
  "\<exists>n'. xs_Node (run_state (fst (executePlan demo_registry 7 (demo_run static_node [demo_task 0 MarkReady])))) =
         Some n' \<and> \<not> DataResetPending n'"
proof -
  let ?r = "demo_run static_node [demo_task 0 MarkReady]"
  let ?calls = "xs_Calls (run_state (fst (executePlan demo_registry 7 ?r)))"
  have "case ?calls of [SubmitTask tid ty p] \<Rightarrow> ty = MarkReady | _ \<Rightarrow> False" by code_simp
  then obtain tid p where start: "SubmitTask tid MarkReady p \<in> set ?calls"
    by (auto split: list.splits call.splits)
  have "xs_Node (run_state ?r) = Some static_node" "?calls = ?calls @ xs_Calls (run_state ?r)"
    by (simp_all add: demo_run_def)
  from executePlan_start_guard[OF this(1) _ this(2) start, of demo_ext demo_platform demo_world 7]
  show ?thesis by (auto simp: demo_registry_def[symmetric] prod_eq_iff)
qed

end
