(* ===== verification/ModePlanners.thy ===== *)
theory ModePlanners
  imports PlanBuilder
begin

text \<open>
  The mode planners (\<open>full.go\<close>, \<open>archive.go\<close>, \<open>replay.go\<close>,
  \<open>validator.go\<close>, \<open>seed.go\<close>), the assembly of update plans
  (\<open>assembleUpdatePlan\<close> in \<open>planner.go\<close>) and the configuration update
  (\<open>config_update.go\<close>).  A builder that runs on a Running node may stamp the
  NodeUpdateInProgress condition, so it returns the node beside its result.
\<close>

type_synonym plan_build = "SeiNode \<times> TaskPlan option result"

subsection \<open>Controller overrides per mode\<close>

definition full_controllerOverrides :: "ext \<Rightarrow> FullNodeSpec \<Rightarrow> overrides" where
  "full_controllerOverrides E fn =
     (case fn_Freeze fn of
        Some h \<Rightarrow> freezeOverrides (Some h)
      | None \<Rightarrow> (case fn_SnapshotGeneration fn of
          Some (Some tm) \<Rightarrow> SnapshotGenerationOverrides E (tm_KeepRecent tm)
        | _ \<Rightarrow> Mapping.empty))"

definition archive_controllerOverrides :: "ext \<Rightarrow> ArchiveSpec \<Rightarrow> overrides" where
  "archive_controllerOverrides E a =
     (case ar_Freeze a of
        Some h \<Rightarrow> freezeOverrides (Some h)
      | None \<Rightarrow> (case ar_SnapshotGeneration a of
          Some (Some tm) \<Rightarrow> Mapping.update (KeySnapshotKeepRecent E) (itoa (tm_KeepRecent tm))
              (Mapping.update (KeySnapshotInterval E) (itoa (DefaultSnapshotInterval E)) Mapping.empty)
        | _ \<Rightarrow> Mapping.empty))"

definition replayer_controllerOverrides :: overrides where
  "replayer_controllerOverrides =
     Mapping.update ''storage.state_commit.memiavl.snapshot_min_time_interval'' ''3600''
       (Mapping.update ''storage.state_commit.memiavl.snapshot_keep_recent'' ''2''
         (Mapping.update ''storage.state_commit.async_commit_buffer'' ''100'' Mapping.empty))"

definition intent_with :: "ext \<Rightarrow> SeiNode \<Rightarrow> ConfigMode \<Rightarrow> overrides \<Rightarrow> ConfigIntent" where
  "intent_with E n mode controller =
     \<lparr>ci_Mode = mode,
      ci_Overrides = mergeOverrides (mergeOverrides (commonOverrides E n) controller)
                       (spec_Overrides (node_Spec n))\<rparr>"

definition runningConfigIntent :: "ext \<Rightarrow> SeiNode \<Rightarrow> ConfigIntent" where
  "runningConfigIntent E n =
     (let s = node_Spec n in
      case spec_FullNode s of
        Some fn \<Rightarrow> intent_with E n ModeFull (full_controllerOverrides E fn)
      | None \<Rightarrow> (case spec_Archive s of
          Some a \<Rightarrow> intent_with E n ModeArchive (archive_controllerOverrides E a)
        | None \<Rightarrow> if spec_Validator s \<noteq> None then intent_with E n ModeValidator Mapping.empty
                  else if spec_Seed s \<noteq> None then intent_with E n ModeSeed Mapping.empty
                  else if spec_Replayer s \<noteq> None then intent_with E n ModeFull replayer_controllerOverrides
                  else intent_with E n ModeFull Mapping.empty))"

subsection \<open>Update plans\<close>

definition paramsForUpdateTask :: "ext \<Rightarrow> SeiNode \<Rightarrow> TaskType \<Rightarrow> files \<Rightarrow> TaskParams" where
  "paramsForUpdateTask E n ty patch =
     (if ty = ConfigApply then ConfigApplyParams (runningConfigIntent E n)
      else if ty = ConfigPatch then ConfigPatchParams patch
      else paramsForTaskType E n ty None None)"

definition reasonUpdatePlanBuildFailed :: string where
  "reasonUpdatePlanBuildFailed = ''UpdatePlanBuildFailed''"

text \<open>The deferred write of the Go code: an assembly error lands on the condition.\<close>

definition record_build_error :: "ext \<Rightarrow> SeiNode \<Rightarrow> 'a result \<Rightarrow> SeiNode \<times> 'a result" where
  "record_build_error E n r =
     (case r of
        Inl e \<Rightarrow> (setNodeUpdateCondition E n ConditionFalse reasonUpdatePlanBuildFailed e, Err e)
      | Inr x \<Rightarrow> (n, Ok x))"

definition update_progression ::
  "ext \<Rightarrow> SeiNode \<Rightarrow> TaskType list \<Rightarrow> TaskType list result" where
  "update_progression E n prog =
     (if st_CurrentConfigValuesHash (node_Status n) = [] \<or> configValuesDrifted E n
      then insertBefore prog ConfigPatch ConfigApply else Ok prog)"

definition assembleUpdatePlan ::
  "ext \<Rightarrow> string \<Rightarrow> SeiNode \<Rightarrow> TaskType list \<Rightarrow> files \<Rightarrow> SeiNode \<times> TaskPlan result" where
  "assembleUpdatePlan E pid n prog patch =
     record_build_error E n
       (bind_result (update_progression E n prog) (\<lambda>prog'.
          bind_result (build_tasks E pid (map (\<lambda>ty. (ty, paramsForUpdateTask E n ty patch)) prog'))
            (\<lambda>tasks. withConfigValues E (new_plan pid tasks PhaseRunning PhaseUnset) n)))"

definition stamp_update ::
  "ext \<Rightarrow> SeiNode \<times> TaskPlan result \<Rightarrow> string \<Rightarrow> string \<Rightarrow> plan_build" where
  "stamp_update E r reason msg =
     (case r of
        (n, Inl e) \<Rightarrow> (n, Err e)
      | (n, Inr plan) \<Rightarrow> (setNodeUpdateCondition E n ConditionTrue reason msg, Ok (Some plan)))"

definition configUpdateProgression :: "TaskType list" where
  "configUpdateProgression = [ConfigPatch, ConfigValidate, MarkReady, RestartSeid]"

definition buildConfigUpdatePlan :: "ext \<Rightarrow> string \<Rightarrow> SeiNode \<Rightarrow> plan_build" where
  "buildConfigUpdatePlan E pid n =
     stamp_update E (assembleUpdatePlan E pid n configUpdateProgression (p2pConfigPatch n))
       ''ConfigUpdateStarted''
       ''configValues drift detected: regenerating configuration and restarting seid''"

definition updateProgression :: "TaskType list" where
  "updateProgression =
     [ApplyStatefulSet, ApplyService, ConfigPatch, ConfigValidate, ReplacePod, ObserveImage, MarkReady]"

text \<open>The Running arm every mode planner shares; \<open>gates\<close> are the key validations the mode
  puts first.\<close>

definition running_plan ::
  "ext \<Rightarrow> PlatformConfig \<Rightarrow> string \<Rightarrow> SeiNode \<Rightarrow> TaskType list \<Rightarrow> plan_build" where
  "running_plan E P pid n gates =
     (if podTemplateDrifted n P
      then stamp_update E (assembleUpdatePlan E pid n (gates @ updateProgression) (p2pConfigPatch n))
             ''UpdateStarted'' (podTemplateDriftMessage n P)
      else if configValuesDrifted E n then buildConfigUpdatePlan E pid n
      else if sidecarNeedsReapproval E n
      then (n, map_sum id Some (buildMarkReadyPlan E pid n))
      else (n, Ok None))"

definition init_build :: "SeiNode \<Rightarrow> TaskPlan result \<Rightarrow> plan_build" where
  "init_build n r = (n, map_sum id Some r)"

subsection \<open>Full nodes\<close>

definition full_Validate :: "SeiNode \<Rightarrow> error option" where
  "full_Validate n =
     (case spec_FullNode (node_Spec n) of
        None \<Rightarrow> Some ''fullNode sub-spec is nil''
      | Some fn \<Rightarrow> map_option (\<lambda>e. ''fullNode: '' @ e) (validateSnapshotGeneration (fn_SnapshotGeneration fn)))"

definition full_buildRunningPlan :: "ext \<Rightarrow> PlatformConfig \<Rightarrow> string \<Rightarrow> SeiNode \<Rightarrow> plan_build" where
  "full_buildRunningPlan E P pid n = running_plan E P pid n []"

definition full_BuildPlan :: "ext \<Rightarrow> PlatformConfig \<Rightarrow> string \<Rightarrow> FullNodeSpec \<Rightarrow> SeiNode \<Rightarrow> plan_build" where
  "full_BuildPlan E P pid fn n =
     (if node_Phase n = PhaseRunning then full_buildRunningPlan E P pid n
      else init_build n (buildBasePlan E pid n (fn_Snapshot fn)
             (intent_with E n ModeFull (full_controllerOverrides E fn))))"

subsection \<open>Archive nodes\<close>

definition archive_Validate :: "SeiNode \<Rightarrow> error option" where
  "archive_Validate n =
     (case spec_Archive (node_Spec n) of
        None \<Rightarrow> Some ''archive sub-spec is nil''
      | Some a \<Rightarrow> map_option (\<lambda>e. ''archive: '' @ e) (validateSnapshotGeneration (ar_SnapshotGeneration a)))"

definition archive_buildRunningPlan :: "ext \<Rightarrow> PlatformConfig \<Rightarrow> string \<Rightarrow> SeiNode \<Rightarrow> plan_build" where
  "archive_buildRunningPlan E P pid n = running_plan E P pid n []"

definition archive_BuildPlan :: "ext \<Rightarrow> PlatformConfig \<Rightarrow> string \<Rightarrow> ArchiveSpec \<Rightarrow> SeiNode \<Rightarrow> plan_build" where
  "archive_BuildPlan E P pid a n =
     (if node_Phase n = PhaseRunning then archive_buildRunningPlan E P pid n
      else init_build n (buildBasePlan E pid n None
             (intent_with E n ModeArchive (archive_controllerOverrides E a))))"

subsection \<open>Replayers\<close>

definition replayer_Validate :: "SeiNode \<Rightarrow> error option" where
  "replayer_Validate n =
     (case spec_Replayer (node_Spec n) of
        None \<Rightarrow> Some ''replayer sub-spec is nil''
      | Some r \<Rightarrow> (case snap_S3 (rp_Snapshot r) of
          None \<Rightarrow> Some ''replayer requires an S3 snapshot source''
        | Some h \<Rightarrow> if h \<le> 0 then Some ''replayer: s3.targetHeight must be > 0''
                    else if spec_Peers (node_Spec n) = []
                    then Some ''replayer requires at least one peer source for block sync''
                    else None))"

definition replayer_buildRunningPlan :: "ext \<Rightarrow> PlatformConfig \<Rightarrow> string \<Rightarrow> SeiNode \<Rightarrow> plan_build" where
  "replayer_buildRunningPlan E P pid n = running_plan E P pid n []"

definition replayer_BuildPlan :: "ext \<Rightarrow> PlatformConfig \<Rightarrow> string \<Rightarrow> ReplayerSpec \<Rightarrow> SeiNode \<Rightarrow> plan_build" where
  "replayer_BuildPlan E P pid r n =
     (if node_Phase n = PhaseRunning then replayer_buildRunningPlan E P pid n
      else init_build n (buildBasePlan E pid n (Some (rp_Snapshot r))
             (intent_with E n ModeFull replayer_controllerOverrides)))"

subsection \<open>Validators\<close>

definition same_secret :: "string \<Rightarrow> SecretKeySource option \<Rightarrow> bool" where
  "same_secret name k \<longleftrightarrow> (case k of Some (Some s) \<Rightarrow> s \<noteq> [] \<and> name = s | _ \<Rightarrow> False)"

definition validateOperatorKeyringDistinctness :: "ValidatorSpec \<Rightarrow> error option" where
  "validateOperatorKeyringDistinctness v =
     (case val_OperatorKeyring v of
        Some (Some opk) \<Rightarrow>
          (let pass = opk_PassphraseSecretName opk; name = opk_SecretName opk in
           if name \<noteq> [] \<and> name = pass
           then Some (''validator: operatorKeyring data Secret '' @ quoted name @ '' must differ from its passphrase Secret'')
           else if same_secret name (val_SigningKey v)
           then Some (''validator: operatorKeyring Secret '' @ quoted name @ '' must differ from signingKey Secret'')
           else if pass \<noteq> [] \<and> same_secret pass (val_SigningKey v)
           then Some (''validator: operatorKeyring passphrase Secret '' @ quoted pass @ '' must differ from signingKey Secret'')
           else if same_secret name (val_NodeKey v)
           then Some (''validator: operatorKeyring Secret '' @ quoted name @ '' must differ from nodeKey Secret'')
           else if pass \<noteq> [] \<and> same_secret pass (val_NodeKey v)
           then Some (''validator: operatorKeyring passphrase Secret '' @ quoted pass @ '' must differ from nodeKey Secret'')
           else None)
      | _ \<Rightarrow> None)"

definition signingKey_error :: "ValidatorSpec \<Rightarrow> error option" where
  "signingKey_error v =
     (case val_SigningKey v of
        None \<Rightarrow> None
      | Some sk \<Rightarrow>
          if val_GenesisCeremony v \<noteq> None
          then Some ''validator: signingKey is mutually exclusive with genesisCeremony''
          else if \<not> nonempty_secret (Some sk) then Some ''validator: signingKey.secret.secretName is required''
          else (case val_NodeKey v of
              None \<Rightarrow> Some ''validator: nodeKey is required when signingKey is set''
            | Some nk \<Rightarrow>
                if \<not> nonempty_secret (Some nk) then Some ''validator: nodeKey.secret.secretName is required''
                else if nk = sk then Some ''validator: signingKey and nodeKey must reference distinct Secrets''
                else None))"

definition validator_Validate :: "SeiNode \<Rightarrow> error option" where
  "validator_Validate n =
     (case spec_Validator (node_Spec n) of
        None \<Rightarrow> Some ''validator sub-spec is nil''
      | Some v \<Rightarrow> (case signingKey_error v of
          Some e \<Rightarrow> Some e
        | None \<Rightarrow>
            if val_NodeKey v \<noteq> None \<and> val_SigningKey v = None
            then Some ''validator: nodeKey requires signingKey to be set''
            else (case validateOperatorKeyringDistinctness v of
                Some e \<Rightarrow> Some e
              | None \<Rightarrow> (case val_GenesisCeremony v of
                  Some gc \<Rightarrow>
                    if gc_ChainID gc = [] then Some ''validator: genesisCeremony.chainId is required''
                    else if gc_StakingAmount gc = []
                    then Some ''validator: genesisCeremony.stakingAmount is required''
                    else None
                | None \<Rightarrow> None))))"

definition validator_buildRunningPlan :: "ext \<Rightarrow> PlatformConfig \<Rightarrow> string \<Rightarrow> SeiNode \<Rightarrow> plan_build" where
  "validator_buildRunningPlan E P pid n = running_plan E P pid n (key_gates n)"

definition validator_BuildPlan :: "ext \<Rightarrow> PlatformConfig \<Rightarrow> string \<Rightarrow> ValidatorSpec \<Rightarrow> SeiNode \<Rightarrow> plan_build" where
  "validator_BuildPlan E P pid v n =
     (if node_Phase n = PhaseRunning then validator_buildRunningPlan E P pid n
      else if isGenesisCeremonyNode n then init_build n (buildGenesisPlan E pid n)
      else init_build n (buildBasePlan E pid n (val_Snapshot v)
             \<lparr>ci_Mode = ModeValidator,
              ci_Overrides = mergeOverrides (commonOverrides E n) (spec_Overrides (node_Spec n))\<rparr>))"

subsection \<open>Seeds\<close>

definition seed_Validate :: "SeiNode \<Rightarrow> error option" where
  "seed_Validate n =
     (if spec_Seed (node_Spec n) = None then Some ''seed sub-spec is nil''
      else if \<not> needsValidateNodeKey n
      then Some ''seed: nodeKey.secret.secretName is required''
      else None)"

definition seed_buildRunningPlan :: "ext \<Rightarrow> PlatformConfig \<Rightarrow> string \<Rightarrow> SeiNode \<Rightarrow> plan_build" where
  "seed_buildRunningPlan E P pid n =
     running_plan E P pid n (if needsValidateNodeKey n then [ValidateNodeKey] else [])"

definition seed_BuildPlan :: "ext \<Rightarrow> PlatformConfig \<Rightarrow> string \<Rightarrow> SeiNode \<Rightarrow> plan_build" where
  "seed_BuildPlan E P pid n =
     (if node_Phase n = PhaseRunning then seed_buildRunningPlan E P pid n
      else init_build n (buildBasePlan E pid n None
             \<lparr>ci_Mode = ModeSeed,
              ci_Overrides = mergeOverrides (commonOverrides E n) (spec_Overrides (node_Spec n))\<rparr>))"

end
