(* ===== verification/Maintenance.thy ===== *)
theory Maintenance
  imports PlanBuilder StartGuard
begin

text \<open>
  The maintenance hold (\<open>internal/planner/maintenance.go\<close>) and the declarative data reset
  (\<open>internal/planner/data_reset.go\<close>): the plans that move a node between held and running,
  the plan that wipes its data, and the two always-present conditions that report them.
\<close>

type_synonym planStep = "TaskType \<times> TaskParams"

definition assembleSteps :: "ext \<Rightarrow> string \<Rightarrow> planStep list \<Rightarrow> TaskPlan result" where
  "assembleSteps E pid steps =
     bind_result (build_tasks E pid steps) (\<lambda>tasks. Ok (new_plan pid tasks PhaseRunning PhaseUnset))"

definition recordHoldStep :: "MaintenanceHold \<Rightarrow> planStep" where
  "recordHoldStep hold = (RecordMaintenanceHold, RecordHoldParams hold)"

definition observe_step :: "SeiNode \<Rightarrow> planStep" where
  "observe_step n = (ObserveImage, NodeParams (node_Name n) (node_Namespace n))"

definition sidecarGateOpen :: "ext \<Rightarrow> SeiNode \<Rightarrow> bool" where
  "sidecarGateOpen E n \<longleftrightarrow>
     (case node_cond E n ConditionSidecarReady of None \<Rightarrow> False | Some c \<Rightarrow> cond_Status c = ConditionTrue)"

text \<open>The steps that move the hold in effect from \<open>in_effect\<close> to \<open>want\<close>.\<close>

definition hold_steps :: "ext \<Rightarrow> SeiNode \<Rightarrow> MaintenanceHold \<Rightarrow> MaintenanceHold \<Rightarrow> planStep list" where
  "hold_steps E n want in_effect =
     (if want = HoldImmediate
      then [(MarkNotReady, EmptyParams), (StopSeid, UpCheckParams (UpCheckForNode E n))]
      else if want = HoldAfterExit \<and> in_effect = HoldImmediate
      then [observe_step n, (StartSeidOnce, EmptyParams), (AwaitSeidStart, EmptyParams),
            (MarkNotReady, EmptyParams)]
      else if want = HoldAfterExit then [(MarkNotReady, EmptyParams)]
      else [observe_step n, (MarkReady, EmptyParams)])
     @ [recordHoldStep want]"

definition buildHoldPlan ::
  "ext \<Rightarrow> string \<Rightarrow> SeiNode \<Rightarrow> MaintenanceHold \<Rightarrow> MaintenanceHold \<Rightarrow> TaskPlan option result" where
  "buildHoldPlan E pid n want in_effect =
     (if want \<noteq> HoldNone \<and> in_effect \<noteq> HoldNone \<and> sidecarGateOpen E n
      then map_sum id Some (assembleSteps E pid (hold_steps E n in_effect HoldNone))
      else if want = in_effect then Ok None
      else map_sum id Some (assembleSteps E pid (hold_steps E n want in_effect)))"

definition ends_in_mark_ready :: "TaskPlan \<Rightarrow> bool" where
  "ends_in_mark_ready plan \<longleftrightarrow> plan_Tasks plan \<noteq> [] \<and> pt_Type (last (plan_Tasks plan)) = MarkReady"

definition parkInsteadOfRelease :: "ext \<Rightarrow> TaskPlan \<Rightarrow> TaskPlan result" where
  "parkInsteadOfRelease E plan =
     (if \<not> ends_in_mark_ready plan
      then Err (''plan '' @ plan_ID plan @ '' does not end in mark-ready; cannot park it'')
      else bind_result
        (buildPlannedTask E (plan_ID plan) RecordMaintenanceHold (length (plan_Tasks plan) - 1)
           (RecordHoldParams HoldImmediate))
        (\<lambda>t. Ok (plan\<lparr>plan_Tasks := butlast (plan_Tasks plan) @ [t]\<rparr>)))"

definition clearHoldAfterRelease :: "ext \<Rightarrow> TaskPlan \<Rightarrow> TaskPlan result" where
  "clearHoldAfterRelease E plan =
     (if \<not> ends_in_mark_ready plan
      then Err (''plan '' @ plan_ID plan @ '' does not end in mark-ready; cannot release from it'')
      else bind_result
        (buildPlannedTask E (plan_ID plan) RecordMaintenanceHold (length (plan_Tasks plan))
           (RecordHoldParams HoldNone))
        (\<lambda>t. Ok (plan\<lparr>plan_Tasks := plan_Tasks plan @ [t]\<rparr>)))"

definition withoutMarkReady :: "TaskPlan \<Rightarrow> TaskPlan" where
  "withoutMarkReady plan = plan\<lparr>plan_Tasks := filter (\<lambda>t. pt_Type t \<noteq> MarkReady) (plan_Tasks plan)\<rparr>"

definition isMaintenancePlan :: "TaskPlan option \<Rightarrow> bool" where
  "isMaintenancePlan plan \<longleftrightarrow>
     (case plan of None \<Rightarrow> False
      | Some p \<Rightarrow> list_ex (\<lambda>t. pt_Type t = RecordMaintenanceHold) (plan_Tasks p))"

subsection \<open>The maintenance condition\<close>

definition setMaintenanceCondition ::
  "ext \<Rightarrow> SeiNode \<Rightarrow> condition_status \<Rightarrow> string \<Rightarrow> string \<Rightarrow> SeiNode" where
  "setMaintenanceCondition E n st reason msg =
     set_node_cond E n ConditionMaintenanceInProgress st reason msg"

definition holdOrNone :: "MaintenanceHold \<Rightarrow> string" where
  "holdOrNone h = (if h = HoldNone then ''none'' else hold_string h)"

definition ResolveMaintenance :: "ext \<Rightarrow> SeiNode \<Rightarrow> SeiNode" where
  "ResolveMaintenance E n =
     (if spec_NodeConfig (node_Spec n) = None
      then setMaintenanceCondition E n ConditionFalse ''NotApplicable''
             ''spec.nodeConfig is not set; the maintenance hold applies only to ConfigMap-configured nodes''
      else let want = HoldRequested (node_Spec n); in_effect = st_MaintenanceHold (node_Status n);
               plan = node_Plan n
           in if isMaintenancePlan plan \<and> map_option plan_Phase plan = Some TaskPlanActive
              then setMaintenanceCondition E n ConditionTrue ''HoldPending''
                     (''hold plan running; requested: '' @ holdOrNone want @ '', in effect: '' @ holdOrNone in_effect)
              else if want = HoldNone \<and> in_effect = HoldNone
              then setMaintenanceCondition E n ConditionFalse ''NotHeld'' ''no maintenance hold''
              else if want \<noteq> in_effect
              then setMaintenanceCondition E n ConditionTrue ''HoldPending''
                     (if want = HoldNone
                      then ''hold '' @ hold_string in_effect @ '' in effect; release pending''
                      else ''hold '' @ holdOrNone want @ '' requested; in effect: '' @ holdOrNone in_effect)
              else if sidecarGateOpen E n
              then setMaintenanceCondition E n ConditionTrue ''HoldPending''
                     (''hold '' @ hold_string want @ '' in effect but the start gate is open; closing it'')
              else setMaintenanceCondition E n ConditionTrue
                     (if in_effect = HoldAfterExit then ''Armed'' else ''Held'')
                     (''hold '' @ hold_string in_effect @ '' in effect''))"

subsection \<open>The data-reset plan\<close>

abbreviation dataResetMaxRetries :: int where
  "dataResetMaxRetries \<equiv> 5"

definition data_reset_steps :: "ext \<Rightarrow> SeiNode \<Rightarrow> planStep list" where
  "data_reset_steps E n =
     [observe_step n,
      (MarkNotReady, EmptyParams),
      (StopSeid, UpCheckParams (UpCheckForNode E n)),
      (ResetDataKeepSignState, EmptyParams),
      (RecordDataReset, RecordDataResetParams (spec_DataResetGeneration (node_Spec n))),
      (MarkReady, EmptyParams)]"

definition buildDataResetPlan :: "ext \<Rightarrow> string \<Rightarrow> SeiNode \<Rightarrow> TaskPlan result" where
  "buildDataResetPlan E pid n =
     bind_result (build_tasks E pid (data_reset_steps E n)) (\<lambda>tasks.
       Ok (new_plan pid
             (map (\<lambda>t. if pt_Type t = ResetDataKeepSignState then t\<lparr>pt_MaxRetries := dataResetMaxRetries\<rparr> else t)
                tasks)
             PhaseRunning PhaseUnset))"

definition isDataResetPlan :: "TaskPlan option \<Rightarrow> bool" where
  "isDataResetPlan plan \<longleftrightarrow>
     (case plan of None \<Rightarrow> False
      | Some p \<Rightarrow> list_ex (\<lambda>t. pt_Type t = RecordDataReset) (plan_Tasks p))"

subsection \<open>The data-reset condition\<close>

abbreviation ReasonResetFailed :: string where "ReasonResetFailed \<equiv> ''ResetFailed''"
abbreviation ReasonResetComplete :: string where "ReasonResetComplete \<equiv> ''ResetComplete''"
abbreviation ReasonResetPending :: string where "ReasonResetPending \<equiv> ''ResetPending''"
abbreviation ReasonResetRunning :: string where "ReasonResetRunning \<equiv> ''ResetRunning''"
abbreviation ReasonNoResetRequested :: string where "ReasonNoResetRequested \<equiv> ''NoResetRequested''"

definition setDataResetCondition ::
  "ext \<Rightarrow> SeiNode \<Rightarrow> condition_status \<Rightarrow> string \<Rightarrow> string \<Rightarrow> SeiNode" where
  "setDataResetCondition E n st reason msg =
     set_node_cond E n ConditionDataResetInProgress st reason msg"

definition dataResetReason :: "ext \<Rightarrow> SeiNode \<Rightarrow> string" where
  "dataResetReason E n =
     (case node_cond E n ConditionDataResetInProgress of None \<Rightarrow> [] | Some c \<Rightarrow> cond_Reason c)"

definition raise_handled :: "SeiNode \<Rightarrow> SeiNode" where
  "raise_handled n =
     (if node_Phase n \<noteq> PhaseRunning \<and>
         st_DataResetGeneration (node_Status n) < spec_DataResetGeneration (node_Spec n)
      then upd_status (\<lambda>s. s\<lparr>st_DataResetGeneration := spec_DataResetGeneration (node_Spec n)\<rparr>) n
      else n)"

definition ResolveDataReset :: "ext \<Rightarrow> SeiNode \<Rightarrow> SeiNode" where
  "ResolveDataReset E n0 =
     (if spec_NodeConfig (node_Spec n0) = None
      then setDataResetCondition E n0 ConditionFalse ''NotApplicable''
             ''spec.nodeConfig is not set; the declarative data reset applies only to ConfigMap-configured nodes''
      else let n = raise_handled n0; reason = dataResetReason E n
           in if isDataResetPlan (node_Plan n) then n
              else if \<not> DataResetPending n
              then if reason \<noteq> ReasonResetComplete
                   then setDataResetCondition E n ConditionFalse ReasonNoResetRequested
                          (''no data reset requested (dataResetGeneration='' @
                           itoa (st_DataResetGeneration (node_Status n)) @ '')'')
                   else n
              else if reason = ReasonResetFailed then n
              else setDataResetCondition E n ConditionTrue ReasonResetPending
                     (''data reset pending for dataResetGeneration='' @
                      itoa (spec_DataResetGeneration (node_Spec n)) @ '' (handled '' @
                      itoa (st_DataResetGeneration (node_Status n)) @ '')''))"

definition markDataResetStarted :: "ext \<Rightarrow> SeiNode \<Rightarrow> SeiNode" where
  "markDataResetStarted E n =
     (if dataResetReason E n = ReasonResetFailed then n
      else setDataResetCondition E n ConditionTrue ReasonResetRunning
             (''resetting data for dataResetGeneration='' @ itoa (spec_DataResetGeneration (node_Spec n))))"

definition planFailureMessage :: "TaskPlan \<Rightarrow> string" where
  "planFailureMessage plan =
     (case plan_FailedTaskDetail plan of
        Some d \<Rightarrow> ''task '' @ task_type_string (fti_Type d) @ '': '' @ fti_Error d
      | None \<Rightarrow> ''unknown'')"

fun prefix_complete_until_mark_ready :: "PlannedTask list \<Rightarrow> bool" where
  "prefix_complete_until_mark_ready [] = False"
| "prefix_complete_until_mark_ready (t # ts) =
     (if pt_Type t = MarkReady then True
      else if pt_Status t \<noteq> TaskComplete then False
      else prefix_complete_until_mark_ready ts)"

definition startDeferred :: "TaskPlan \<Rightarrow> bool" where
  "startDeferred plan \<longleftrightarrow>
     (case plan_FailedTaskDetail plan of
        None \<Rightarrow> False
      | Some d \<Rightarrow> fti_Type d = MarkReady \<and> contains_str (fti_Error d) StartGuardRefusal \<and>
                  prefix_complete_until_mark_ready (plan_Tasks plan))"

definition failed_error :: "TaskPlan \<Rightarrow> string" where
  "failed_error plan = (case plan_FailedTaskDetail plan of Some d \<Rightarrow> fti_Error d | None \<Rightarrow> [])"

definition observeTerminalDataResetPlan :: "ext \<Rightarrow> SeiNode \<Rightarrow> TaskPlan \<Rightarrow> SeiNode" where
  "observeTerminalDataResetPlan E n plan =
     (if \<not> isDataResetPlan (Some plan) then n
      else let handled = itoa (st_DataResetGeneration (node_Status n));
               wanted = itoa (spec_DataResetGeneration (node_Spec n))
           in case plan_Phase plan of
             TaskPlanComplete \<Rightarrow>
               setDataResetCondition E n ConditionFalse ReasonResetComplete
                 (''data reset complete for dataResetGeneration='' @ handled)
           | TaskPlanFailed \<Rightarrow>
               if startDeferred plan
               then if DataResetPending n
                    then setDataResetCondition E n ConditionTrue ReasonResetPending
                           (''data reset recorded for dataResetGeneration='' @ handled @
                            ''; reset for '' @ wanted @ '' pending'')
                    else setDataResetCondition E n ConditionFalse ReasonResetComplete
                           (''data reset complete for dataResetGeneration='' @ handled @
                            ''; start deferred: '' @ failed_error plan)
               else setDataResetCondition E n ConditionTrue ReasonResetFailed
                      (''data reset for dataResetGeneration='' @ wanted @
                       '' failed, seid stays held and the controller retries: '' @ planFailureMessage plan)
           | TaskPlanActive \<Rightarrow> n)"

end
