(* ===== verification/StaticPlanner.thy ===== *)
theory StaticPlanner
  imports ModePlanners Maintenance
begin

text \<open>
  The planner of a node whose config.toml and app.toml come from operator ConfigMaps
  (\<open>internal/planner/static_config.go\<close>), the choice of a planner
  (\<open>plannerFor\<close>, \<open>plannerForMode\<close>) and the dispatch to its Validate and BuildPlan.
\<close>

datatype NodePlanner =
    FullNodePlanner FullNodeSpec
  | ArchiveNodePlanner ArchiveSpec
  | ReplayerPlanner ReplayerSpec
  | ValidatorPlanner ValidatorSpec
  | SeedPlanner SeedSpec
  | StaticConfigPlanner NodePlanner

definition plannerForMode :: "SeiNode \<Rightarrow> NodePlanner result" where
  "plannerForMode n =
     (let s = node_Spec n in
      case spec_FullNode s of Some fn \<Rightarrow> Ok (FullNodePlanner fn)
      | None \<Rightarrow> (case spec_Archive s of Some a \<Rightarrow> Ok (ArchiveNodePlanner a)
      | None \<Rightarrow> (case spec_Replayer s of Some r \<Rightarrow> Ok (ReplayerPlanner r)
      | None \<Rightarrow> (case spec_Validator s of Some v \<Rightarrow> Ok (ValidatorPlanner v)
      | None \<Rightarrow> (case spec_Seed s of Some sd \<Rightarrow> Ok (SeedPlanner sd)
      | None \<Rightarrow> Err (''no mode sub-spec set on SeiNode '' @ node_Namespace n @ ''/'' @ node_Name n))))))"

definition plannerFor :: "SeiNode \<Rightarrow> NodePlanner result" where
  "plannerFor n =
     bind_result (plannerForMode n)
       (\<lambda>mode. if \<not> MountsNodeConfig n then Ok mode else Ok (StaticConfigPlanner mode))"

fun Validate :: "NodePlanner \<Rightarrow> SeiNode \<Rightarrow> error option" where
  "Validate (FullNodePlanner _) n = full_Validate n"
| "Validate (ArchiveNodePlanner _) n = archive_Validate n"
| "Validate (ReplayerPlanner _) n = replayer_Validate n"
| "Validate (ValidatorPlanner _) n = validator_Validate n"
| "Validate (SeedPlanner _) n = seed_Validate n"
| "Validate (StaticConfigPlanner base) n = Validate base n"

subsection \<open>The Running arm of a static-config node\<close>

definition assembleStaticUpdatePlan ::
  "ext \<Rightarrow> string \<Rightarrow> SeiNode \<Rightarrow> TaskType list \<Rightarrow> SeiNode \<times> TaskPlan result" where
  "assembleStaticUpdatePlan E pid n prog =
     record_build_error E n
       (bind_result (build_tasks E pid (map (\<lambda>ty. (ty, paramsForUpdateTask E n ty [])) prog))
          (\<lambda>tasks. Ok (new_plan pid tasks PhaseRunning PhaseUnset)))"

definition static_buildUpdatePlan :: "ext \<Rightarrow> string \<Rightarrow> SeiNode \<Rightarrow> SeiNode \<times> TaskPlan result" where
  "static_buildUpdatePlan E pid n =
     assembleStaticUpdatePlan E pid n
       (key_gates n @ [ApplyStatefulSet, ApplyService, ObserveImage, MarkReady])"

definition static_reset_plan :: "ext \<Rightarrow> string \<Rightarrow> SeiNode \<Rightarrow> TaskPlan result" where
  "static_reset_plan E pid n =
     bind_result (buildDataResetPlan E pid n) (\<lambda>plan.
       if HoldRequested (node_Spec n) \<noteq> HoldNone then parkInsteadOfRelease E plan
       else if st_MaintenanceHold (node_Status n) \<noteq> HoldNone then clearHoldAfterRelease E plan
       else Ok plan)"

definition static_buildRunningPlan :: "ext \<Rightarrow> PlatformConfig \<Rightarrow> string \<Rightarrow> SeiNode \<Rightarrow> plan_build" where
  "static_buildRunningPlan E P pid n =
     (let held = (HoldRequested (node_Spec n) \<noteq> HoldNone) in
      if DataResetPending n
      then (case static_reset_plan E pid n of
              Inl e \<Rightarrow> (n, Err e)
            | Inr plan \<Rightarrow> (markDataResetStarted E n, Ok (Some plan)))
      else case buildHoldPlan E pid n (HoldRequested (node_Spec n)) (st_MaintenanceHold (node_Status n)) of
        Inl e \<Rightarrow> (n, Err e)
      | Inr (Some plan) \<Rightarrow> (n, Ok (Some plan))
      | Inr None \<Rightarrow>
          if podTemplateDrifted n P
          then (case static_buildUpdatePlan E pid n of
                  (n', Inl e) \<Rightarrow> (n', Err e)
                | (n', Inr plan) \<Rightarrow>
                    (setNodeUpdateCondition E n' ConditionTrue ''UpdateStarted'' (podTemplateDriftMessage n P),
                     Ok (Some (if held then withoutMarkReady plan else plan))))
          else if sidecarNeedsReapproval E n \<and> \<not> held
          then (n, map_sum id Some (buildMarkReadyPlan E pid n))
          else (n, Ok None))"

fun BuildPlan :: "ext \<Rightarrow> PlatformConfig \<Rightarrow> string \<Rightarrow> NodePlanner \<Rightarrow> SeiNode \<Rightarrow> plan_build" where
  "BuildPlan E P pid (FullNodePlanner fn) n = full_BuildPlan E P pid fn n"
| "BuildPlan E P pid (ArchiveNodePlanner a) n = archive_BuildPlan E P pid a n"
| "BuildPlan E P pid (ReplayerPlanner r) n = replayer_BuildPlan E P pid r n"
| "BuildPlan E P pid (ValidatorPlanner v) n = validator_BuildPlan E P pid v n"
| "BuildPlan E P pid (SeedPlanner sd) n = seed_BuildPlan E P pid n"
| "BuildPlan E P pid (StaticConfigPlanner base) n =
     (if node_Phase n = PhaseRunning then static_buildRunningPlan E P pid n
      else case BuildPlan E P pid base n of
        (n', Inl e) \<Rightarrow> (n', Err e)
      | (n', Inr None) \<Rightarrow> (n', Ok None)
      | (n', Inr (Some plan)) \<Rightarrow>
          if HoldRequested (node_Spec n') = HoldNone then (n', Ok (Some plan))
          else (n', map_sum id Some (parkInsteadOfRelease E plan)))"

end
