(* ===== verification/DriftBudget.thy ===== *)
theory DriftBudget
  imports StaticPlanner
begin

text \<open>
  The drift-roll budget (\<open>internal/planner/drift_budget.go\<close>): how many nodes of a namespace
  may roll their pod at once, and the node a StatefulSet is rendered from while its roll waits.
  \<open>classifyPlan\<close> of \<open>planner.go\<close> is here because the budget reads it.
\<close>

subsection \<open>Plan classes\<close>

datatype plan_class =
  ClassDataReset | ClassMaintenanceHold | ClassNodeUpdate | ClassInit | ClassConfigUpdate
  | ClassMarkReadyReapply | ClassUnknown

fun class_of_tasks :: "PlannedTask list \<Rightarrow> plan_class option" where
  "class_of_tasks [] = None"
| "class_of_tasks (t # ts) =
     (if pt_Type t = ObserveImage then Some ClassNodeUpdate
      else if pt_Type t = EnsureDataPVC then Some ClassInit
      else if pt_Type t = RestartSeid then Some ClassConfigUpdate
      else class_of_tasks ts)"

definition classifyPlan :: "TaskPlan \<Rightarrow> plan_class" where
  "classifyPlan plan =
     (if isDataResetPlan (Some plan) then ClassDataReset
      else if isMaintenancePlan (Some plan) \<and> \<not> list_ex (\<lambda>t. pt_Type t = EnsureDataPVC) (plan_Tasks plan)
      then ClassMaintenanceHold
      else case class_of_tasks (plan_Tasks plan) of
        Some c \<Rightarrow> c
      | None \<Rightarrow> (case plan_Tasks plan of
          [t] \<Rightarrow> if pt_Type t = MarkReady then ClassMarkReadyReapply else ClassUnknown
        | _ \<Rightarrow> ClassUnknown))"

subsection \<open>Roll slots\<close>

text \<open>What the resolver reads from the API server: the namespace's SeiNodes, and the node's live
  StatefulSet (None when it does not exist).\<close>

record NodeReader =
  rd_List :: "SeiNode list result"
  rd_Get :: "StatefulSet option result"

definition ReasonUpdateDeferred :: string where
  "ReasonUpdateDeferred = ''UpdateDeferred''"

definition updateInProgress :: "ext \<Rightarrow> SeiNode \<Rightarrow> bool" where
  "updateInProgress E n \<longleftrightarrow> hasNodeUpdateCondition E n"

definition budgeted :: "SeiNode \<Rightarrow> bool" where
  "budgeted n \<longleftrightarrow> node_Phase n = PhaseRunning \<and> \<not> spec_Paused (node_Spec n)"

definition updating_names :: "ext \<Rightarrow> SeiNode list \<Rightarrow> string list" where
  "updating_names E ns = sort (map node_Name (filter (\<lambda>n. budgeted n \<and> updateInProgress E n) ns))"

definition waiting_names :: "ext \<Rightarrow> PlatformConfig \<Rightarrow> SeiNode list \<Rightarrow> string list" where
  "waiting_names E P ns =
     sort (map node_Name
       (filter (\<lambda>n. budgeted n \<and> \<not> updateInProgress E n \<and> podTemplateDrifted n P) ns))"

definition roll_slots :: "PlatformConfig \<Rightarrow> SeiNode list \<Rightarrow> nat" where
  "roll_slots P ns =
     nat (max 1 (int (length (filter budgeted ns)) * DriftUpdateBudgetPercent P div 100))"

definition DriftSlot ::
  "ext \<Rightarrow> PlatformConfig \<Rightarrow> NodeReader option \<Rightarrow> SeiNode \<Rightarrow> (bool \<times> string) result" where
  "DriftSlot E P nodes n =
     (case nodes of
        None \<Rightarrow> Ok (True, [])
      | Some rd \<Rightarrow>
          if DriftUpdateBudgetPercent P \<le> 0 then Ok (True, [])
          else case rd_List rd of
            Inl e \<Rightarrow> Err (''listing SeiNodes for the drift-roll budget: '' @ e)
          | Inr ns \<Rightarrow>
              (let slots = roll_slots P ns;
                   order = updating_names E ns @ waiting_names E P ns;
                   busy = (False, ''drift update waits for a roll slot in namespace '' @ node_Namespace n @
                             '': '' @ itoa (int slots) @ '' slot(s), held by '' @
                             join (take (min slots (length order)) order) '', '')
               in case find_index (\<lambda>m. m = node_Name n) order of
                    Some i \<Rightarrow> if i < slots then Ok (True, []) else Ok busy
                  | None \<Rightarrow> if length order < slots then Ok (True, []) else Ok busy))"

definition isDriftUpdatePlan :: "PlatformConfig \<Rightarrow> SeiNode \<Rightarrow> TaskPlan \<Rightarrow> bool" where
  "isDriftUpdatePlan P n plan \<longleftrightarrow> podTemplateDrifted n P \<and> classifyPlan plan = ClassNodeUpdate"

subsection \<open>The rendered node\<close>

definition live_images :: "NodeReader \<Rightarrow> SeiNode \<Rightarrow> (string \<times> string) result" where
  "live_images rd n =
     (let seid = st_CurrentImage (node_Status n); sidecar = st_CurrentSidecarImage (node_Status n)
      in if seid = [] \<or> sidecar = []
         then case rd_Get rd of
                Inl e \<Rightarrow> Err (''reading the live StatefulSet to pin a waiting drift: '' @ e)
              | Inr None \<Rightarrow> Ok (seid, sidecar)
              | Inr (Some sts) \<Rightarrow>
                  (case TemplateImages sts of (liveSeid, liveSidecar) \<Rightarrow>
                     Ok (if seid = [] then liveSeid else seid, if sidecar = [] then liveSidecar else sidecar))
         else Ok (seid, sidecar))"

definition scheduling_or_empty :: "SeiNodeSpec \<Rightarrow> SchedulingConfig" where
  "scheduling_or_empty s =
     (case spec_Scheduling s of
        Some c \<Rightarrow> c | None \<Rightarrow> \<lparr>sch_NodeIsolation = NodeIsolationUnset, sch_NodePool = []\<rparr>)"

definition pin_sidecar :: "string \<Rightarrow> SeiNodeSpec \<Rightarrow> SeiNodeSpec" where
  "pin_sidecar img s =
     (if img = [] then s
      else s\<lparr>spec_Sidecar := Some (case spec_Sidecar s of
               Some sc \<Rightarrow> sc\<lparr>sc_Image := img\<rparr>
             | None \<Rightarrow> \<lparr>sc_Image = img, sc_Port = 0, sc_Resources = None\<rparr>)\<rparr>)"

definition pin_isolation :: "NodeIsolation \<Rightarrow> SeiNodeSpec \<Rightarrow> SeiNodeSpec" where
  "pin_isolation isol s =
     (if isol = NodeIsolationUnset then s
      else s\<lparr>spec_Scheduling := Some ((scheduling_or_empty s)\<lparr>sch_NodeIsolation := isol\<rparr>)\<rparr>)"

definition pin_nodepool :: "SeiNode \<Rightarrow> SeiNodeSpec \<Rightarrow> SeiNodeSpec" where
  "pin_nodepool n s =
     (if st_CurrentImage (node_Status n) \<noteq> [] \<and> RequestedNodePool n \<noteq> st_CurrentNodePool (node_Status n)
      then s\<lparr>spec_Scheduling := Some ((scheduling_or_empty s)\<lparr>sch_NodePool := st_CurrentNodePool (node_Status n)\<rparr>)\<rparr>
      else s)"

definition pinnedToRunning :: "NodeReader \<Rightarrow> SeiNode \<Rightarrow> SeiNode option result" where
  "pinnedToRunning rd n =
     (case live_images rd n of
        Inl e \<Rightarrow> Err e
      | Inr (seidImage, sidecarImage) \<Rightarrow>
          if seidImage = [] then Ok None
          else Ok (Some (n\<lparr>node_Spec :=
                 pin_nodepool n (pin_isolation (st_CurrentNodeIsolation (node_Status n))
                   (pin_sidecar sidecarImage ((node_Spec n)\<lparr>spec_Image := seidImage\<rparr>)))\<rparr>)))"

definition plan_active :: "SeiNode \<Rightarrow> bool" where
  "plan_active n \<longleftrightarrow> map_option plan_Phase (node_Plan n) = Some TaskPlanActive"

text \<open>The reconciled node (whose condition may change) beside the node to render from.\<close>

definition DriftRenderNode ::
  "ext \<Rightarrow> PlatformConfig \<Rightarrow> NodeReader option \<Rightarrow> SeiNode \<Rightarrow> SeiNode \<times> SeiNode result" where
  "DriftRenderNode E P nodes n =
     (if spec_NodeConfig (node_Spec n) = None \<or> spec_Paused (node_Spec n) \<or> node_Phase n \<noteq> PhaseRunning
      then (n, Ok n)
      else if plan_active n then (n, Ok n)
      else if updateInProgress E n \<or> \<not> podTemplateDrifted n P \<or> DataResetPending n \<or>
              HoldRequested (node_Spec n) \<noteq> st_MaintenanceHold (node_Status n)
      then (n, Ok n)
      else case DriftSlot E P nodes n of
        Inl e \<Rightarrow> (n, Err e)
      | Inr (free, msg) \<Rightarrow>
          if free then (n, Ok n)
          else let n' = setNodeUpdateCondition E n ConditionFalse ReasonUpdateDeferred msg
               in case nodes of
                    None \<Rightarrow> (n', Ok n')
                  | Some rd \<Rightarrow> (case pinnedToRunning rd n' of
                      Inl e \<Rightarrow> (n', Err e)
                    | Inr None \<Rightarrow> (n', Ok n')
                    | Inr (Some pinned) \<Rightarrow> (n', Ok pinned)))"

end
