(* ===== verification/ResolvePlan.thy ===== *)
theory ResolvePlan
  imports DriftBudget
begin

text \<open>
  \<open>NodeResolver.ResolvePlan\<close> (\<open>internal/planner/planner.go\<close>): the sidecar probe, the
  clean-up of a terminal plan, the two gates on the init plan, the choice and construction of the
  next plan, the refusal of a plan that would overwrite mounted configuration, and the roll slot.
\<close>

subsection \<open>The sidecar probe\<close>

definition setSidecarReadyCondition ::
  "ext \<Rightarrow> SeiNode \<Rightarrow> condition_status \<Rightarrow> string \<Rightarrow> string \<Rightarrow> SeiNode" where
  "setSidecarReadyCondition E n st reason msg = set_node_cond E n ConditionSidecarReady st reason msg"

definition probeSidecarHealth :: "ext \<Rightarrow> SeiNode \<Rightarrow> bool result \<Rightarrow> SeiNode" where
  "probeSidecarHealth E n healthz =
     (case healthz of
        Inl e \<Rightarrow> setSidecarReadyCondition E n ConditionUnknown ''Unreachable'' (''sidecar Healthz error: '' @ e)
      | Inr True \<Rightarrow> setSidecarReadyCondition E n ConditionTrue ''Ready'' ''sidecar returned 200''
      | Inr False \<Rightarrow> setSidecarReadyCondition E n ConditionFalse ''NotReady''
                       ''sidecar returned 503, re-issuing mark-ready'')"

subsection \<open>Terminal plans\<close>

definition reasonUpdateFailed :: string where
  "reasonUpdateFailed = ''UpdateFailed''"

definition isUpdateFailureReason :: "string \<Rightarrow> bool" where
  "isUpdateFailureReason reason \<longleftrightarrow> reason = reasonUpdateFailed \<or> reason = reasonUpdatePlanBuildFailed"

definition clear_plan :: "SeiNode \<Rightarrow> SeiNode" where
  "clear_plan n = upd_status (\<lambda>s. s\<lparr>st_Plan := None\<rparr>) n"

definition handleTerminalPlan :: "ext \<Rightarrow> SeiNode \<Rightarrow> SeiNode" where
  "handleTerminalPlan E n0 =
     (case node_Plan n0 of
        None \<Rightarrow> n0
      | Some plan \<Rightarrow>
          (let n = observeTerminalDataResetPlan E n0 plan in
           case plan_Phase plan of
             TaskPlanComplete \<Rightarrow>
               clear_plan (if hasNodeUpdateCondition E n
                 then setNodeUpdateCondition E n ConditionFalse ''UpdateComplete''
                        (''plan '' @ plan_ID plan @ '' completed'')
                 else n)
           | TaskPlanFailed \<Rightarrow>
               clear_plan (if \<not> hasNodeUpdateCondition E n then n
                 else if startDeferred plan
                 then setNodeUpdateCondition E n ConditionFalse ''UpdateComplete''
                        (''plan '' @ plan_ID plan @ '' completed; start deferred: '' @ failed_error plan)
                 else setNodeUpdateCondition E n ConditionFalse reasonUpdateFailed
                        (''plan '' @ plan_ID plan @ '' failed: '' @ planFailureMessage plan))
           | TaskPlanActive \<Rightarrow> n))"

subsection \<open>Gates\<close>

definition StateSyncBlocksPlan :: "ext \<Rightarrow> SeiNode \<Rightarrow> bool" where
  "StateSyncBlocksPlan E n \<longleftrightarrow>
     node_Phase n \<noteq> PhaseRunning \<and>
     needsStateSyncWitnesses (SnapshotSource_of (node_Spec n)) \<and>
     (case node_cond E n ConditionStateSyncReady of
        None \<Rightarrow> False | Some c \<Rightarrow> cond_Status c \<noteq> ConditionTrue)"

definition PeerResolutionWait :: duration where
  "PeerResolutionWait = 10 * 60 * 1000000000"

definition PeersBlockPlan :: "SeiNode \<Rightarrow> go_time \<Rightarrow> bool" where
  "PeersBlockPlan n now \<longleftrightarrow>
     \<not> (node_Phase n = PhaseRunning \<or> st_ResolvedPeers (node_Status n) \<noteq> []) \<and>
     list_ex (\<lambda>p. peer_Label p \<noteq> None) (spec_Peers (node_Spec n)) \<and>
     now < node_CreationTimestamp n + PeerResolutionWait"

definition shouldExplainUnobservedConfig :: "ext \<Rightarrow> SeiNode \<Rightarrow> bool" where
  "shouldExplainUnobservedConfig E n \<longleftrightarrow>
     (let failureReason = (case node_cond E n ConditionNodeUpdateInProgress of
             None \<Rightarrow> False | Some c \<Rightarrow> isUpdateFailureReason (cond_Reason c))
      in node_Phase n = PhaseRunning \<and> st_CurrentConfigValuesHash (node_Status n) = [] \<and>
         spec_ConfigValues (node_Spec n) \<noteq> [] \<and> \<not> failureReason)"

subsection \<open>Installing the next plan\<close>

definition install_plan :: "go_time \<Rightarrow> SeiNode \<Rightarrow> TaskPlan \<Rightarrow> SeiNode" where
  "install_plan now n plan =
     (let n' = upd_status (\<lambda>s. s\<lparr>st_Plan := Some plan\<rparr>) n
      in if node_Phase n' = PhaseUnset \<or> node_Phase n' = PhasePending
         then upd_status (\<lambda>s. s\<lparr>st_Phase := PhaseInitializing, st_PhaseTransitionTime := Some now\<rparr>) n'
         else n')"

definition mounted_writer_error :: "TaskType \<Rightarrow> error" where
  "mounted_writer_error w =
     ''plan carries '' @ task_type_string w @
     '' on a node that mounts config.toml and app.toml from ConfigMaps: the task renames over the mount, which detaches it and leaves seid reading the task's file''"

text \<open>The tail of \<open>ResolvePlan\<close>, from the built plan on.\<close>

definition admit_plan ::
  "ext \<Rightarrow> PlatformConfig \<Rightarrow> NodeReader option \<Rightarrow> go_time \<Rightarrow> SeiNode \<Rightarrow> TaskPlan option \<Rightarrow>
   SeiNode \<times> error option" where
  "admit_plan E P nodes now n plan =
     (case mountedConfigWriterInPlan n plan of
        Some w \<Rightarrow>
          (setNodeUpdateCondition E n ConditionFalse reasonUpdatePlanBuildFailed (mounted_writer_error w),
           Some (mounted_writer_error w))
      | None \<Rightarrow> (case plan of
          None \<Rightarrow>
            (if shouldExplainUnobservedConfig E n
             then setNodeUpdateCondition E n ConditionFalse ''ConfigBaselineUnobserved''
                    ''configValues changes are deferred until an image update regenerates configuration and establishes an observed baseline''
             else n, None)
        | Some p \<Rightarrow>
            if isDriftUpdatePlan P n p
            then (case DriftSlot E P nodes n of
                    Inl e \<Rightarrow> (setNodeUpdateCondition E n ConditionFalse ReasonUpdateDeferred e, Some e)
                  | Inr (free, msg) \<Rightarrow>
                      if free then (install_plan now n p, None)
                      else (setNodeUpdateCondition E n ConditionFalse ReasonUpdateDeferred msg, None))
            else (install_plan now n p, None)))"

definition build_next ::
  "ext \<Rightarrow> PlatformConfig \<Rightarrow> NodeReader option \<Rightarrow> go_time \<Rightarrow> string \<Rightarrow> SeiNode \<Rightarrow> SeiNode \<times> error option" where
  "build_next E P nodes now pid n =
     (case plannerFor n of
        Inl e \<Rightarrow> (n, Some e)
      | Inr mode \<Rightarrow> (case Validate mode n of
          Some e \<Rightarrow> (n, Some e)
        | None \<Rightarrow> (case BuildPlan E P pid mode n of
            (n', Inl e) \<Rightarrow> (n', Some e)
          | (n', Inr plan) \<Rightarrow> admit_plan E P nodes now n' plan)))"

text \<open>\<open>probe\<close> is the result of \<open>Healthz\<close>, or None when no sidecar client could be built.\<close>

definition ResolvePlan ::
  "ext \<Rightarrow> PlatformConfig \<Rightarrow> NodeReader option \<Rightarrow> bool result option \<Rightarrow> go_time \<Rightarrow> string \<Rightarrow> SeiNode \<Rightarrow>
   SeiNode \<times> error option" where
  "ResolvePlan E P nodes probe now pid n0 =
     (let n1 = (case probe of
            Some healthz \<Rightarrow> if node_Phase n0 = PhaseRunning then probeSidecarHealth E n0 healthz else n0
          | None \<Rightarrow> n0)
      in if plan_active n1 then (n1, None)
         else let n2 = handleTerminalPlan E n1
              in if StateSyncBlocksPlan E n2 then (n2, None)
                 else if PeersBlockPlan n2 now then (n2, None)
                 else build_next E P nodes now pid n2)"

end
