(* ===== verification/PlanShape.thy ===== *)
theory PlanShape
  imports StaticPlanner Fixtures
begin

text \<open>
  The shape of the plans the builders make: which task types a plan holds, in which order, that
  every task starts fresh and that task ids never collide.
\<close>

subsection \<open>Built tasks\<close>

definition fresh :: "PlannedTask \<Rightarrow> bool" where
  "fresh t \<longleftrightarrow> pt_Status t = TaskPending \<and> pt_RetryCount t = 0 \<and> 0 \<le> pt_MaxRetries t \<and>
              pt_SubmittedAt t = None \<and> pt_Error t = []"

abbreviation plan_types :: "TaskPlan \<Rightarrow> TaskType list" where
  "plan_types plan \<equiv> map pt_Type (plan_Tasks plan)"

lemma taskMaxRetries_nonneg [simp]: "0 \<le> taskMaxRetries ty"
  by (cases ty) simp_all

lemma buildPlannedTask_Inr:
  "buildPlannedTask E pid ty k p = Inr t \<Longrightarrow>
     pt_Type t = ty \<and> pt_ID t = DeterministicTaskID E pid ty k \<and> pt_Params t = p \<and> fresh t"
  by (auto simp: buildPlannedTask_def marshalParams_def fresh_def split: if_splits)

lemma map_result_nth:
  "map_result f xs = Inr ys \<Longrightarrow> i < length xs \<Longrightarrow> f (xs ! i) = Inr (ys ! i)"
proof (induction xs arbitrary: ys i)
  case (Cons x xs)
  then show ?case by (cases i) (auto split: sum.splits)
qed simp

lemma build_tasks_nth:
  assumes "build_tasks E pid steps = Inr ts" and "i < length steps"
  shows "buildPlannedTask E pid (fst (steps ! i)) i (snd (steps ! i)) = Inr (ts ! i)"
  using map_result_nth[of _ "List.enumerate 0 steps" ts i] assms
  by (simp add: build_tasks_def nth_enumerate_eq split_beta)

lemma build_tasks_length: "build_tasks E pid steps = Inr ts \<Longrightarrow> length ts = length steps"
  using map_result_length by (fastforce simp: build_tasks_def)

lemma build_tasks_types [plan_simps]: "build_tasks E pid steps = Inr ts \<Longrightarrow> map pt_Type ts = map fst steps"
  by (rule nth_equalityI)
     (auto simp: build_tasks_length dest!: build_tasks_nth buildPlannedTask_Inr)

lemma build_tasks_params: "build_tasks E pid steps = Inr ts \<Longrightarrow> map pt_Params ts = map snd steps"
  by (rule nth_equalityI)
     (auto simp: build_tasks_length dest!: build_tasks_nth buildPlannedTask_Inr)

lemma build_tasks_fresh: "build_tasks E pid steps = Inr ts \<Longrightarrow> list_all fresh ts"
  by (auto simp: list_all_length build_tasks_length dest!: build_tasks_nth buildPlannedTask_Inr)

lemma build_tasks_total:
  assumes "list_all (\<lambda>st. params_marshalable (snd st)) steps"
  shows "\<exists>ts. build_tasks E pid steps = Inr ts"
  unfolding build_tasks_def
proof (rule map_result_total)
  fix x assume "x \<in> set (List.enumerate 0 steps)"
  then have "snd x \<in> set steps" by (metis imageI list.set_map map_snd_enumerate)
  then have "params_marshalable (snd (snd x))" using assms by (simp add: list_all_iff)
  then show "\<exists>y. (case x of (i, ty, p) \<Rightarrow> buildPlannedTask E pid ty i p) = Inr y"
    by (cases x) (simp add: buildPlannedTask_def marshalParams_def)
qed

lemma new_plan_simps [simp]:
  "plan_Tasks (new_plan pid ts tp fp) = ts" "plan_ID (new_plan pid ts tp fp) = pid"
  "plan_Phase (new_plan pid ts tp fp) = TaskPlanActive" "plan_TargetPhase (new_plan pid ts tp fp) = tp"
  "plan_FailedPhase (new_plan pid ts tp fp) = fp"
  by (simp_all add: new_plan_def)

subsection \<open>Task ids\<close>

lemma show_nat_digits: "set (show_nat n) \<subseteq> char_of ` {48 .. 57 :: nat}"
proof (induction n rule: show_nat.induct)
  case (1 n)
  then show ?case by (subst show_nat.simps) auto
qed

lemma show_nat_no_slash: "CHR ''/'' \<notin> set (show_nat n)"
proof
  assume "CHR ''/'' \<in> set (show_nat n)"
  then obtain d :: nat where "48 \<le> d" "d \<le> 57" "CHR ''/'' = char_of d" using show_nat_digits by force
  then have "of_char (CHR ''/'') = (of_char (char_of d :: char) :: nat)" by simp
  also have "\<dots> = d" using \<open>d \<le> 57\<close> by (simp add: of_char_of)
  finally show False using \<open>48 \<le> d\<close> by simp
qed

lemma show_nat_inj: "show_nat m = show_nat n \<Longrightarrow> m = n"
proof (induction m arbitrary: n rule: show_nat.induct)
  case (1 m)
  have digit: "(char_of (48 + a) :: char) = char_of (48 + b) \<Longrightarrow> a < 10 \<Longrightarrow> b < 10 \<Longrightarrow> a = b" for a b :: nat
    by (drule arg_cong[where f = "of_char :: char \<Rightarrow> nat"]) (simp add: of_char_of)
  show ?case
  proof (cases "m < 10"; cases "n < 10")
    assume "m < 10" "n < 10"
    then show ?thesis using "1.prems" digit by (simp add: show_nat.simps[of m] show_nat.simps[of n])
  next
    assume "m < 10" "\<not> n < 10"
    then show ?thesis using "1.prems" by (simp add: show_nat.simps[of m] show_nat.simps[of n] Cons_eq_append_conv)
  next
    assume "\<not> m < 10" "n < 10"
    then show ?thesis using "1.prems" by (simp add: show_nat.simps[of m] show_nat.simps[of n] append_eq_Cons_conv)
  next
    assume big: "\<not> m < 10" "\<not> n < 10"
    then have eq: "show_nat (m div 10) = show_nat (n div 10)"
      "(char_of (48 + m mod 10) :: char) = char_of (48 + n mod 10)"
      using "1.prems" by (simp_all add: show_nat.simps[of m] show_nat.simps[of n])
    have "m div 10 = n div 10" using "1.IH"[OF big(1) eq(1)] .
    moreover have "m mod 10 = n mod 10" using digit[OF eq(2)] by simp
    ultimately show ?thesis by (metis div_mult_mod_eq)
  qed
qed

lemma last_segment:
  assumes "a @ c # u = b @ c # v" and "c \<notin> set u" and "c \<notin> set v"
  shows "u = v"
proof -
  have "takeWhile (\<lambda>x. x \<noteq> c) (rev (a @ c # u)) = rev u"
    using assms(2) by (simp, subst takeWhile_append2) auto
  moreover have "takeWhile (\<lambda>x. x \<noteq> c) (rev (b @ c # v)) = rev v"
    using assms(3) by (simp, subst takeWhile_append2) auto
  ultimately show ?thesis using assms(1) by (metis rev_rev_ident)
qed

lemma task_seed_inj:
  assumes "a @ CHR ''/'' # itoa (int i) = b @ CHR ''/'' # itoa (int j)"
  shows "i = j"
proof -
  have "a @ CHR ''/'' # show_nat i = b @ CHR ''/'' # show_nat j"
    using assms by (simp add: itoa_def)
  from last_segment[OF this show_nat_no_slash show_nat_no_slash] show ?thesis by (rule show_nat_inj)
qed

text \<open>The ids of a built plan: the seed of each task is its own.\<close>

definition ids_seeded :: "ext \<Rightarrow> string \<Rightarrow> PlannedTask list \<Rightarrow> bool" where
  "ids_seeded E pid ts \<longleftrightarrow>
     (\<forall>i < length ts. pt_ID (ts ! i) = DeterministicTaskID E pid (pt_Type (ts ! i)) i)"

text \<open>The strings the ids of a plan's tasks are hashed from.\<close>

definition task_seeds :: "string \<Rightarrow> PlannedTask list \<Rightarrow> string set" where
  "task_seeds pid ts =
     (\<lambda>i. pid @ ''/'' @ task_type_string (pt_Type (ts ! i)) @ ''/'' @ itoa (int i)) ` {..<length ts}"

lemma ids_seeded_distinct:
  assumes "inj_on (NewSHA1 E) (task_seeds pid ts)" and "ids_seeded E pid ts"
  shows "distinct (map pt_ID ts)"
  unfolding distinct_conv_nth
proof (intro allI impI)
  fix i j
  assume ij: "i < length (map pt_ID ts)" "j < length (map pt_ID ts)" "i \<noteq> j"
  let ?seed = "\<lambda>i. pid @ ''/'' @ task_type_string (pt_Type (ts ! i)) @ ''/'' @ itoa (int i)"
  have "?seed i \<noteq> ?seed j" using ij(3) by (auto dest: task_seed_inj)
  moreover have "?seed i \<in> task_seeds pid ts" "?seed j \<in> task_seeds pid ts"
    using ij by (simp_all add: task_seeds_def)
  ultimately have "NewSHA1 E (?seed i) \<noteq> NewSHA1 E (?seed j)" using assms(1) by (meson inj_onD)
  then show "map pt_ID ts ! i \<noteq> map pt_ID ts ! j"
    using assms(2) ij by (simp add: ids_seeded_def DeterministicTaskID_def)
qed

lemma build_tasks_seeded: "build_tasks E pid steps = Inr ts \<Longrightarrow> ids_seeded E pid ts"
  by (auto simp: ids_seeded_def build_tasks_length dest!: build_tasks_nth buildPlannedTask_Inr)

subsection \<open>The overlay step\<close>

text \<open>Where the operator's overlay goes: a config-patch right before each config-validate.\<close>

fun with_patch :: "TaskType list \<Rightarrow> TaskType list" where
  "with_patch [] = []"
| "with_patch (ty # tys) =
     (if ty = ConfigValidate then [ConfigPatch, ConfigValidate] else [ty]) @ with_patch tys"

lemma with_patch_none: "ConfigValidate \<notin> set tys \<Longrightarrow> with_patch tys = tys"
  by (induction tys) auto

lemma with_patch_length: "length (with_patch tys) = length tys \<longleftrightarrow> ConfigValidate \<notin> set tys"
proof (induction tys)
  case (Cons ty tys)
  have "length tys \<le> length (with_patch tys)" by (induction tys) auto
  then show ?case using Cons.IH by auto
qed simp

lemma splice_types: "splice_overlay E pid patch k ts = Inr us \<Longrightarrow> map pt_Type us = with_patch (map pt_Type ts)"
  by (induction ts arbitrary: k us) (auto dest: buildPlannedTask_Inr split: if_splits sum.splits)

lemma splice_fresh: "splice_overlay E pid patch k ts = Inr us \<Longrightarrow> list_all fresh ts \<Longrightarrow> list_all fresh us"
  by (induction ts arbitrary: k us)
     (auto simp: fresh_def dest!: buildPlannedTask_Inr split: if_splits sum.splits)

lemma splice_seeded:
  "splice_overlay E pid patch k ts = Inr us \<Longrightarrow> i < length us \<Longrightarrow>
     pt_ID (us ! i) = DeterministicTaskID E pid (pt_Type (us ! i)) (k + i)"
proof (induction ts arbitrary: k us i)
  case (Cons t ts)
  show ?case
  proof (cases "pt_Type t = ConfigValidate")
    case True
    then obtain o' vs where "buildPlannedTask E pid ConfigPatch k (ConfigPatchParams patch) = Inr o'"
      "splice_overlay E pid patch (Suc (Suc k)) ts = Inr vs"
      "us = o' # t\<lparr>pt_ID := DeterministicTaskID E pid ConfigValidate (Suc k)\<rparr> # vs"
      using Cons.prems by (auto split: sum.splits)
    then show ?thesis using Cons.IH[of "Suc (Suc k)" vs] Cons.prems(2) True
      by (auto simp: nth_Cons split: nat.splits dest!: buildPlannedTask_Inr)
  next
    case False
    then obtain vs where "splice_overlay E pid patch (Suc k) ts = Inr vs"
      "us = t\<lparr>pt_ID := DeterministicTaskID E pid (pt_Type t) k\<rparr> # vs"
      using Cons.prems by (auto split: sum.splits)
    then show ?thesis using Cons.IH[of "Suc k" vs] Cons.prems(2)
      by (auto simp: nth_Cons split: nat.splits)
  qed
qed simp

text \<open>Whether a plan of this node carries an overlay: operator values or a consensus engine.\<close>

definition has_overlay :: "SeiNode \<Rightarrow> bool" where
  "has_overlay n \<longleftrightarrow> spec_ConfigValues (node_Spec n) \<noteq> [] \<or> consensusOverlay n \<noteq> None"

definition built_plan :: "ext \<Rightarrow> TaskPlan \<Rightarrow> bool" where
  "built_plan E plan \<longleftrightarrow>
     plan_Phase plan = TaskPlanActive \<and> list_all fresh (plan_Tasks plan) \<and>
     ids_seeded E (plan_ID plan) (plan_Tasks plan)"

lemma withConfigValues_shape:
  assumes "withConfigValues E plan n = Inr plan'" and "built_plan E plan"
  shows "plan_types plan' = (if has_overlay n then with_patch (plan_types plan) else plan_types plan) \<and>
     (has_overlay n \<longrightarrow> ConfigValidate \<in> set (plan_types plan)) \<and>
     built_plan E plan' \<and> plan_ID plan' = plan_ID plan \<and>
     plan_TargetPhase plan' = plan_TargetPhase plan \<and> plan_FailedPhase plan' = plan_FailedPhase plan"
proof -
  obtain hash where hash: "configValuesHash E (spec_ConfigValues (node_Spec n)) = Inr hash"
    using assms(1) by (auto simp: withConfigValues_def split: sum.splits)
  show ?thesis
  proof (cases "has_overlay n")
    case False
    then have "plan' = plan\<lparr>plan_ConfigValuesHash := hash\<rparr>"
      using assms(1) hash by (simp add: withConfigValues_def has_overlay_def Let_def)
    then show ?thesis using assms(2) False by (simp add: built_plan_def)
  next
    case True
    then obtain patch ts where ts: "splice_overlay E (plan_ID plan) patch 0 (plan_Tasks plan) = Inr ts"
      "length ts \<noteq> length (plan_Tasks plan)"
      "plan' = plan\<lparr>plan_ConfigValuesHash := hash, plan_Tasks := ts\<rparr>"
      using assms(1) hash
      by (auto simp: withConfigValues_def has_overlay_def Let_def split: sum.splits if_splits)
    have "length (with_patch (plan_types plan)) \<noteq> length (plan_types plan)"
      using ts splice_types[OF ts(1)] by (metis length_map)
    then have "ConfigValidate \<in> set (plan_types plan)" by (simp only: with_patch_length) simp
    then show ?thesis
      using True ts assms(2) splice_types[OF ts(1)] splice_fresh[OF ts(1)] splice_seeded[OF ts(1)]
      by (simp add: built_plan_def ids_seeded_def)
  qed
qed

subsection \<open>Every builder builds\<close>

lemma built_new_plan: "build_tasks E pid steps = Inr ts \<Longrightarrow> built_plan E (new_plan pid ts tp fp)"
  by (simp add: built_plan_def build_tasks_fresh build_tasks_seeded)

lemma assembleSteps_shape:
  assumes "assembleSteps E pid steps = Inr plan"
  shows "built_plan E plan \<and> plan_ID plan = pid \<and> plan_types plan = map fst steps \<and>
         map pt_Params (plan_Tasks plan) = map snd steps"
  using assms
  by (auto simp: assembleSteps_def bind_result_eq_Inr built_new_plan build_tasks_types build_tasks_params)

lemma map_sum_id_Inr: "map_sum id Some r = Inr (Some x) \<longleftrightarrow> r = Inr x" "map_sum id Some r \<noteq> Inr None"
  by (cases r; simp)+

lemma buildHoldPlan_Some:
  assumes "buildHoldPlan E pid n want cur = Inr (Some plan)"
  shows "built_plan E plan \<and> plan_ID plan = pid \<and>
     (if want \<noteq> HoldNone \<and> cur \<noteq> HoldNone \<and> sidecarGateOpen E n
      then plan_types plan = map fst (hold_steps E n cur HoldNone)
      else want \<noteq> cur \<and> plan_types plan = map fst (hold_steps E n want cur))"
proof (cases "want \<noteq> HoldNone \<and> cur \<noteq> HoldNone \<and> sidecarGateOpen E n")
  case True
  then have "assembleSteps E pid (hold_steps E n cur HoldNone) = Inr plan"
    using assms by (simp add: buildHoldPlan_def map_sum_id_Inr)
  from assembleSteps_shape[OF this] show ?thesis using True by simp
next
  case False
  then have ne: "want \<noteq> cur" and "assembleSteps E pid (hold_steps E n want cur) = Inr plan"
    using assms by (simp_all add: buildHoldPlan_def map_sum_id_Inr split: if_splits)
  from assembleSteps_shape[OF this(2)] ne show ?thesis using False by (simp only: if_False) simp
qed

lemma buildHoldPlan_None:
  "buildHoldPlan E pid n want cur = Inr None \<longleftrightarrow>
     want = cur \<and> \<not> (want \<noteq> HoldNone \<and> cur \<noteq> HoldNone \<and> sidecarGateOpen E n)"
  by (simp add: buildHoldPlan_def map_sum_id_Inr)

lemma buildDataResetPlan_shape:
  assumes "buildDataResetPlan E pid n = Inr plan"
  shows "built_plan E plan \<and> plan_ID plan = pid \<and> plan_types plan = map fst (data_reset_steps E n)"
proof -
  obtain ts where ts: "build_tasks E pid (data_reset_steps E n) = Inr ts" and
    plan: "plan = new_plan pid (map (\<lambda>t. if pt_Type t = ResetDataKeepSignState
        then t\<lparr>pt_MaxRetries := dataResetMaxRetries\<rparr> else t) ts) PhaseRunning PhaseUnset"
    using assms by (auto simp: buildDataResetPlan_def bind_result_eq_Inr)
  let ?g = "\<lambda>t. if pt_Type t = ResetDataKeepSignState then t\<lparr>pt_MaxRetries := dataResetMaxRetries\<rparr> else t"
  have g: "pt_Type (?g t) = pt_Type t" "pt_ID (?g t) = pt_ID t" "fresh t \<Longrightarrow> fresh (?g t)" for t
    by (simp_all add: fresh_def)
  have "map pt_Type (map ?g ts) = map pt_Type ts" by (simp add: g)
  moreover have "list_all fresh (map ?g ts)"
    using build_tasks_fresh[OF ts] by (simp add: list_all_length fresh_def)
  moreover have "ids_seeded E pid (map ?g ts)" using build_tasks_seeded[OF ts] by (simp add: ids_seeded_def)
  ultimately show ?thesis using plan build_tasks_types[OF ts] by (simp add: built_plan_def)
qed

lemma park_shape:
  assumes "parkInsteadOfRelease E plan = Inr plan'" and "built_plan E plan"
  shows "built_plan E plan' \<and> plan_ID plan' = plan_ID plan \<and>
         plan_types plan' = butlast (plan_types plan) @ [RecordMaintenanceHold] \<and>
         last (plan_types plan) = MarkReady"
proof -
  let ?k = "length (plan_Tasks plan) - 1"
  obtain t where t: "buildPlannedTask E (plan_ID plan) RecordMaintenanceHold ?k (RecordHoldParams HoldImmediate) = Inr t"
    and plan': "plan' = plan\<lparr>plan_Tasks := butlast (plan_Tasks plan) @ [t]\<rparr>" and e: "ends_in_mark_ready plan"
    using assms(1) by (auto simp: parkInsteadOfRelease_def bind_result_eq_Inr split: if_splits)
  note td = buildPlannedTask_Inr[OF t]
  have seeded: "ids_seeded E (plan_ID plan) (butlast (plan_Tasks plan) @ [t])"
    using assms(2) td by (auto simp: built_plan_def ids_seeded_def nth_append nth_butlast less_Suc_eq)
  have "list_all fresh (butlast (plan_Tasks plan))"
    using assms(2) by (auto simp: built_plan_def list_all_iff dest: in_set_butlastD)
  then show ?thesis using seeded td plan' e assms(2)
    by (auto simp: built_plan_def ends_in_mark_ready_def map_butlast last_map)
qed

lemma clearHold_shape:
  assumes "clearHoldAfterRelease E plan = Inr plan'" and "built_plan E plan"
  shows "built_plan E plan' \<and> plan_ID plan' = plan_ID plan \<and>
         plan_types plan' = plan_types plan @ [RecordMaintenanceHold]"
proof -
  let ?k = "length (plan_Tasks plan)"
  obtain t where t: "buildPlannedTask E (plan_ID plan) RecordMaintenanceHold ?k (RecordHoldParams HoldNone) = Inr t"
    and plan': "plan' = plan\<lparr>plan_Tasks := plan_Tasks plan @ [t]\<rparr>"
    using assms(1) by (auto simp: clearHoldAfterRelease_def bind_result_eq_Inr split: if_splits)
  note td = buildPlannedTask_Inr[OF t]
  have "ids_seeded E (plan_ID plan) (plan_Tasks plan @ [t])"
    using assms(2) td by (auto simp: built_plan_def ids_seeded_def nth_append less_Suc_eq)
  then show ?thesis using td plan' assms(2) by (auto simp: built_plan_def)
qed

lemma withoutMarkReady_shape:
  assumes "built_plan E plan" and "plan_types plan = tys @ [MarkReady]" and "MarkReady \<notin> set tys"
  shows "built_plan E (withoutMarkReady plan) \<and> plan_ID (withoutMarkReady plan) = plan_ID plan \<and>
         plan_types (withoutMarkReady plan) = tys"
proof -
  from assms(2) obtain ts t where ts: "plan_Tasks plan = ts @ [t]" "map pt_Type ts = tys" "pt_Type t = MarkReady"
    by (auto simp: map_eq_append_conv)
  have "filter (\<lambda>t. pt_Type t \<noteq> MarkReady) ts = ts"
    using assms(3) ts(2) by (force simp: filter_id_conv)
  then have "plan_Tasks (withoutMarkReady plan) = ts" using ts by (simp add: withoutMarkReady_def)
  moreover have "list_all fresh ts" "ids_seeded E (plan_ID plan) ts"
    using assms(1) ts(1) by (auto simp: built_plan_def ids_seeded_def nth_append split: if_splits)
  ultimately show ?thesis using assms(1) ts(2) by (simp add: built_plan_def withoutMarkReady_def)
qed

lemma key_gates_no_start [simp]:
  "MarkReady \<notin> set (key_gates n)" "StartSeidOnce \<notin> set (key_gates n)" "ConfigValidate \<notin> set (key_gates n)"
  by (auto simp: key_gates_def)

subsection \<open>Init plans\<close>

text \<open>
  The sidecar half of an init plan, for each bootstrap source: the snapshot is restored first
  when it comes from S3, genesis is configured before the configuration is written, state sync is
  configured exactly when there is a snapshot source and right before validation, and mark-ready
  comes last.  The construction never fails.
\<close>

theorem buildSidecarProgression_exact:
  "buildSidecarProgression snap = Inr
     ((if hasS3Snapshot snap then [SnapshotRestore] else []) @ [ConfigureGenesis, ConfigApply] @
      (if snap = None then [] else [ConfigureStateSync]) @ [ConfigValidate, MarkReady])"
  by (cases snap)
     (simp_all add: buildSidecarProgression_def bootstrapMode_def hasS3Snapshot_def hasStateSync_def
        insertBefore_def needsStateSyncWitnesses_def)

definition init_types :: "SeiNode \<Rightarrow> SnapshotSource option \<Rightarrow> TaskType list" where
  "init_types n snap =
     [EnsureDataPVC] @ key_gates n @ [ApplyRBACProxyConfig, ApplyStatefulSet, ApplyService] @
     (if hasS3Snapshot snap then [SnapshotRestore] else []) @ [ConfigureGenesis] @
     (if MountsNodeConfig n then []
      else [ConfigApply] @ (if snap = None then [] else [ConfigureStateSync]) @
           (if has_overlay n then [ConfigPatch] else []) @ [ConfigValidate]) @
     [MarkReady]"

lemma with_patch_append [simp]: "with_patch (xs @ ys) = with_patch xs @ with_patch ys"
  by (induction xs) auto

lemma managed_filter:
  "withoutManagedConfigTasks n ((if hasS3Snapshot snap then [SnapshotRestore] else []) @ [ConfigureGenesis, ConfigApply] @
      (if snap = None then [] else [ConfigureStateSync]) @ [ConfigValidate, MarkReady]) =
   (if MountsNodeConfig n then (if hasS3Snapshot snap then [SnapshotRestore] else []) @ [ConfigureGenesis, MarkReady]
    else (if hasS3Snapshot snap then [SnapshotRestore] else []) @ [ConfigureGenesis, ConfigApply] @
      (if snap = None then [] else [ConfigureStateSync]) @ [ConfigValidate, MarkReady])"
  by (simp add: withoutManagedConfigTasks_def mountedConfigWriters_def)

lemma buildBasePlan_shape:
  assumes "buildBasePlan E pid n snap intent = Inr plan"
  shows "built_plan E plan \<and> plan_ID plan = pid \<and> plan_types plan = init_types n snap \<and>
         plan_TargetPhase plan = PhaseRunning \<and> plan_FailedPhase plan = PhaseFailed \<and>
         (MountsNodeConfig n \<longrightarrow> \<not> has_overlay n)"
proof -
  let ?side = "withoutManagedConfigTasks n ((if hasS3Snapshot snap then [SnapshotRestore] else []) @
      [ConfigureGenesis, ConfigApply] @ (if snap = None then [] else [ConfigureStateSync]) @ [ConfigValidate, MarkReady])"
  let ?prog = "[EnsureDataPVC] @ key_gates n @ [ApplyRBACProxyConfig] @ [ApplyStatefulSet, ApplyService] @ ?side"
  obtain ts where ts: "build_tasks E pid (map (\<lambda>ty. (ty, paramsForTaskType E n ty snap (Some intent))) ?prog) = Inr ts"
    "withConfigValues E (new_plan pid ts PhaseRunning PhaseFailed) n = Inr plan"
    using assms unfolding buildBasePlan_def buildSidecarProgression_exact
    by (auto simp: bind_result_eq_Inr Let_def simp del: append.simps)
  have types: "map pt_Type ts = ?prog" using build_tasks_types[OF ts(1)] by (simp add: comp_def)
  note shape = withConfigValues_shape[OF ts(2) built_new_plan[OF ts(1)]]
  have no_cv: "MountsNodeConfig n \<Longrightarrow> ConfigValidate \<notin> set ?prog"
    by (simp only: managed_filter) (simp add: key_gates_def)
  have "plan_types plan = init_types n snap"
    using shape types no_cv unfolding managed_filter
    by (auto simp: init_types_def with_patch_none key_gates_no_start)
  with shape types no_cv show ?thesis by auto
qed

lemma buildGenesisPlan_shape:
  assumes "buildGenesisPlan E pid n = Inr plan"
  shows "built_plan E plan \<and> plan_ID plan = pid \<and>
         plan_types plan = (if has_overlay n then with_patch genesisProgression else genesisProgression) \<and>
         plan_TargetPhase plan = PhaseRunning \<and> plan_FailedPhase plan = PhaseFailed"
proof -
  obtain steps ts where ts: "build_tasks E pid steps = Inr ts" "map fst steps = genesisProgression"
    "withConfigValues E (new_plan pid ts PhaseRunning PhaseFailed) n = Inr plan"
    using assms by (auto simp: buildGenesisPlan_def bind_result_eq_Inr Let_def comp_def)
  show ?thesis
    using withConfigValues_shape[OF ts(3) built_new_plan[OF ts(1)]] build_tasks_types[OF ts(1)] ts(2) by simp
qed

subsection \<open>Plans of a Running node\<close>

lemma record_build_error_Inr: "record_build_error E n r = (n', Inr x) \<longleftrightarrow> n' = n \<and> r = Inr x"
  by (auto simp: record_build_error_def split: sum.splits)

text \<open>The update progression with the configuration regenerated when the applied hash is unknown or
  stale.\<close>

definition regenerates :: "ext \<Rightarrow> SeiNode \<Rightarrow> bool" where
  "regenerates E n \<longleftrightarrow> st_CurrentConfigValuesHash (node_Status n) = [] \<or> configValuesDrifted E n"

lemma assembleUpdatePlan_shape:
  assumes "assembleUpdatePlan E pid n prog patch = (n', Inr plan)"
  shows "\<exists>prog'. update_progression E n prog = Inr prog' \<and> n' = n \<and> built_plan E plan \<and> plan_ID plan = pid \<and>
     plan_types plan = (if has_overlay n then with_patch prog' else prog') \<and>
     plan_TargetPhase plan = PhaseRunning \<and> plan_FailedPhase plan = PhaseUnset"
proof -
  obtain prog' ts where ts: "update_progression E n prog = Inr prog'"
    "build_tasks E pid (map (\<lambda>ty. (ty, paramsForUpdateTask E n ty patch)) prog') = Inr ts"
    "withConfigValues E (new_plan pid ts PhaseRunning PhaseUnset) n = Inr plan" "n' = n"
    using assms by (auto simp: assembleUpdatePlan_def record_build_error_Inr bind_result_eq_Inr)
  have "map pt_Type ts = prog'" using build_tasks_types[OF ts(2)] by (simp add: comp_def)
  then show ?thesis using withConfigValues_shape[OF ts(3) built_new_plan[OF ts(2)]] ts by auto
qed

definition config_step :: "ext \<Rightarrow> SeiNode \<Rightarrow> TaskType list" where
  "config_step E n =
     (if regenerates E n then [ConfigApply] else []) @ [ConfigPatch] @
     (if has_overlay n then [ConfigPatch] else []) @ [ConfigValidate]"

definition update_types :: "ext \<Rightarrow> SeiNode \<Rightarrow> TaskType list \<Rightarrow> TaskType list" where
  "update_types E n gates =
     gates @ [ApplyStatefulSet, ApplyService] @ config_step E n @ [ReplacePod, ObserveImage, MarkReady]"

lemma find_index_append:
  "(\<forall>x \<in> set xs. \<not> p x) \<Longrightarrow> find_index p (xs @ ys) = map_option ((+) (length xs)) (find_index p ys)"
  by (induction xs) (cases "find_index p ys"; auto)+

lemma update_progression_exact:
  assumes "set gates \<subseteq> {ValidateSigningKey, ValidateNodeKey, ValidateOperatorKeyring}"
  shows "update_progression E n (gates @ updateProgression) =
     Inr (gates @ [ApplyStatefulSet, ApplyService] @ (if regenerates E n then [ConfigApply] else []) @
          [ConfigPatch, ConfigValidate, ReplacePod, ObserveImage, MarkReady])"
proof -
  have notin: "ConfigApply \<notin> set gates" "\<forall>x \<in> set gates. x \<noteq> ConfigPatch" using assms by auto
  then have "find_index (\<lambda>t. t = ConfigPatch) (gates @ updateProgression) = Some (length gates + 2)"
    by (simp add: find_index_append updateProgression_def)
  then show ?thesis using notin(1)
    by (simp add: update_progression_def regenerates_def insertBefore_def updateProgression_def)
qed

lemma config_update_progression_exact:
  "update_progression E n configUpdateProgression =
     Inr ((if regenerates E n then [ConfigApply] else []) @ [ConfigPatch, ConfigValidate, MarkReady, RestartSeid])"
  by (simp add: update_progression_def regenerates_def insertBefore_def configUpdateProgression_def)

lemma gates_no_cv:
  assumes "set gates \<subseteq> {ValidateSigningKey, ValidateNodeKey, ValidateOperatorKeyring}"
  shows "with_patch gates = gates"
  using assms by (intro with_patch_none) auto

text \<open>What the Running arm of a mode planner may build.\<close>

lemma running_plan_shape:
  assumes gates: "set gates \<subseteq> {ValidateSigningKey, ValidateNodeKey, ValidateOperatorKeyring}"
    and "running_plan E P pid n gates = (n', Inr (Some plan))"
  shows "built_plan E plan \<and> plan_ID plan = pid \<and> plan_FailedPhase plan = PhaseUnset \<and>
     plan_types plan =
       (if podTemplateDrifted n P then update_types E n gates
        else if configValuesDrifted E n then config_step E n @ [MarkReady, RestartSeid]
        else [MarkReady])"
proof -
  consider (drift) "podTemplateDrifted n P" | (config) "\<not> podTemplateDrifted n P" "configValuesDrifted E n"
    | (rest) "\<not> podTemplateDrifted n P" "\<not> configValuesDrifted E n" by blast
  then show ?thesis
  proof cases
    case drift
    then obtain m where "assembleUpdatePlan E pid n (gates @ updateProgression) (p2pConfigPatch n) = (m, Inr plan)"
      using assms(2) by (auto simp: running_plan_def stamp_update_def split: prod.splits sum.splits)
    from assembleUpdatePlan_shape[OF this] show ?thesis
      using drift unfolding update_progression_exact[OF gates]
      by (auto simp: update_types_def config_step_def gates_no_cv[OF gates])
  next
    case config
    then obtain m where "assembleUpdatePlan E pid n configUpdateProgression (p2pConfigPatch n) = (m, Inr plan)"
      using assms(2)
      by (auto simp: running_plan_def buildConfigUpdatePlan_def stamp_update_def split: prod.splits sum.splits)
    from assembleUpdatePlan_shape[OF this] show ?thesis
      using config unfolding config_update_progression_exact by (auto simp: config_step_def)
  next
    case rest
    then obtain ts where ts: "build_tasks E pid [(MarkReady, paramsForTaskType E n MarkReady None None)] = Inr ts"
      and plan: "plan = new_plan pid ts PhaseRunning PhaseUnset"
      using assms(2)
      by (auto simp: running_plan_def buildMarkReadyPlan_def map_sum_def bind_result_eq_Inr
          split: if_splits sum.splits)
    show ?thesis using rest plan built_new_plan[OF ts] build_tasks_types[OF ts] by simp
  qed
qed

lemma static_update_shape:
  assumes "static_buildUpdatePlan E pid n = (n', Inr plan)"
  shows "n' = n \<and> built_plan E plan \<and> plan_ID plan = pid \<and> plan_FailedPhase plan = PhaseUnset \<and>
     plan_types plan = (key_gates n @ [ApplyStatefulSet, ApplyService, ObserveImage]) @ [MarkReady]"
proof -
  obtain steps ts where ts: "build_tasks E pid steps = Inr ts"
    "map fst steps = key_gates n @ [ApplyStatefulSet, ApplyService, ObserveImage, MarkReady]"
    "plan = new_plan pid ts PhaseRunning PhaseUnset" "n' = n"
    using assms
    by (auto simp: static_buildUpdatePlan_def assembleStaticUpdatePlan_def record_build_error_Inr
        bind_result_eq_Inr comp_def)
  then show ?thesis using built_new_plan[OF ts(1)] build_tasks_types[OF ts(1)] by simp
qed

text \<open>What the Running arm of a ConfigMap-configured node builds: the reset first, then a change of
  the hold, then the roll, then the re-issued mark-ready.\<close>

definition static_types :: "ext \<Rightarrow> PlatformConfig \<Rightarrow> SeiNode \<Rightarrow> TaskType list \<Rightarrow> bool" where
  "static_types E P n tys \<longleftrightarrow>
     (let want = HoldRequested (node_Spec n); cur = st_MaintenanceHold (node_Status n);
          wipe = [ObserveImage, MarkNotReady, StopSeid, ResetDataKeepSignState, RecordDataReset]
      in if DataResetPending n
         then tys = wipe @ (if want \<noteq> HoldNone then [RecordMaintenanceHold]
                            else if cur \<noteq> HoldNone then [MarkReady, RecordMaintenanceHold] else [MarkReady])
         else if want \<noteq> HoldNone \<and> cur \<noteq> HoldNone \<and> sidecarGateOpen E n
         then tys = map fst (hold_steps E n cur HoldNone)
         else if want \<noteq> cur then tys = map fst (hold_steps E n want cur)
         else if podTemplateDrifted n P
         then tys = key_gates n @ [ApplyStatefulSet, ApplyService, ObserveImage] @
                    (if want \<noteq> HoldNone then [] else [MarkReady])
         else want = HoldNone \<and> tys = [MarkReady])"

lemma static_reset_shape:
  assumes "static_reset_plan E pid n = Inr plan"
  shows "built_plan E plan \<and> plan_ID plan = pid \<and>
     plan_types plan = [ObserveImage, MarkNotReady, StopSeid, ResetDataKeepSignState, RecordDataReset] @
       (if HoldRequested (node_Spec n) \<noteq> HoldNone then [RecordMaintenanceHold]
        else if st_MaintenanceHold (node_Status n) \<noteq> HoldNone then [MarkReady, RecordMaintenanceHold]
        else [MarkReady])"
proof -
  obtain p where p: "buildDataResetPlan E pid n = Inr p" and rest:
    "(if HoldRequested (node_Spec n) \<noteq> HoldNone then parkInsteadOfRelease E p
      else if st_MaintenanceHold (node_Status n) \<noteq> HoldNone then clearHoldAfterRelease E p else Ok p) = Inr plan"
    using assms by (auto simp: static_reset_plan_def bind_result_eq_Inr)
  note shape = buildDataResetPlan_shape[OF p]
  show ?thesis
    using rest shape park_shape[of E p plan] clearHold_shape[of E p plan]
    by (auto simp: data_reset_steps_def observe_step_def split: if_splits)
qed

lemma static_running_shape:
  assumes "static_buildRunningPlan E P pid n = (n', Inr (Some plan))"
  shows "built_plan E plan \<and> plan_ID plan = pid \<and> static_types E P n (plan_types plan)"
proof (cases "DataResetPending n")
  case True
  then have "static_reset_plan E pid n = Inr plan"
    using assms by (auto simp: static_buildRunningPlan_def Let_def split: sum.splits)
  from static_reset_shape[OF this] True show ?thesis by (simp add: static_types_def Let_def)
next
  case no_reset: False
  let ?want = "HoldRequested (node_Spec n)" and ?cur = "st_MaintenanceHold (node_Status n)"
  show ?thesis
  proof (cases "buildHoldPlan E pid n ?want ?cur")
    case (Inl e)
    then show ?thesis using assms no_reset by (simp add: static_buildRunningPlan_def Let_def)
  next
    case (Inr h)
    show ?thesis
    proof (cases h)
      case (Some q)
      then have "q = plan" using assms no_reset Inr by (simp add: static_buildRunningPlan_def Let_def)
      with Inr Some have "buildHoldPlan E pid n ?want ?cur = Inr (Some plan)" by simp
      from buildHoldPlan_Some[OF this] no_reset show ?thesis
        by (simp add: static_types_def Let_def split: if_splits)
    next
      case None
      then have hold: "?want = ?cur" "\<not> (?want \<noteq> HoldNone \<and> sidecarGateOpen E n)"
        using Inr by (auto simp: buildHoldPlan_None)
      show ?thesis
      proof (cases "podTemplateDrifted n P")
        case True
        then obtain m p where p: "static_buildUpdatePlan E pid n = (m, Inr p)"
          "plan = (if ?want \<noteq> HoldNone then withoutMarkReady p else p)"
          using assms no_reset Inr None
          by (auto simp: static_buildRunningPlan_def Let_def split: prod.splits sum.splits)
        note shape = static_update_shape[OF p(1)]
        have "MarkReady \<notin> set (key_gates n @ [ApplyStatefulSet, ApplyService, ObserveImage])" by simp
        with shape p(2) withoutMarkReady_shape[of E p "key_gates n @ [ApplyStatefulSet, ApplyService, ObserveImage]"]
        show ?thesis using hold no_reset True by (auto simp: static_types_def Let_def)
      next
        case False
        then obtain ts where ts: "build_tasks E pid [(MarkReady, paramsForTaskType E n MarkReady None None)] = Inr ts"
          "plan = new_plan pid ts PhaseRunning PhaseUnset" "?want = HoldNone"
          using assms no_reset Inr None
          by (auto simp: static_buildRunningPlan_def Let_def buildMarkReadyPlan_def map_sum_def bind_result_eq_Inr
              split: if_splits sum.splits)
        then show ?thesis using hold no_reset False built_new_plan[OF ts(1)] build_tasks_types[OF ts(1)]
          by (simp add: static_types_def Let_def)
      qed
    qed
  qed
qed

subsection \<open>Every plan of every planner\<close>

lemma init_build_Inr: "init_build n r = (n', Inr (Some plan)) \<longleftrightarrow> n' = n \<and> r = Inr plan"
  by (cases r) (auto simp: init_build_def)

lemma key_gates_gates: "set (key_gates n) \<subseteq> {ValidateSigningKey, ValidateNodeKey, ValidateOperatorKeyring}"
  by (auto simp: key_gates_def)

lemmas running_arm_defs = full_buildRunningPlan_def archive_buildRunningPlan_def replayer_buildRunningPlan_def
  validator_buildRunningPlan_def seed_buildRunningPlan_def

lemmas mode_build_defs = full_BuildPlan_def archive_BuildPlan_def replayer_BuildPlan_def
  validator_BuildPlan_def seed_BuildPlan_def running_arm_defs

lemma running_plan_built:
  "running_plan E P pid n gates = (n', Inr (Some plan)) \<Longrightarrow>
   set gates \<subseteq> {ValidateSigningKey, ValidateNodeKey, ValidateOperatorKeyring} \<Longrightarrow>
   built_plan E plan \<and> plan_ID plan = pid"
  using running_plan_shape by blast

lemma BuildPlan_built:
  "BuildPlan E P pid mode n = (n', Inr (Some plan)) \<Longrightarrow> built_plan E plan \<and> plan_ID plan = pid"
proof (induction mode arbitrary: n' plan)
  case (StaticConfigPlanner base)
  show ?case
  proof (cases "node_Phase n = PhaseRunning")
    case True
    then show ?thesis using StaticConfigPlanner.prems static_running_shape by auto
  next
    case False
    then obtain m p where p: "BuildPlan E P pid base n = (m, Inr (Some p))"
      and parked: "(if HoldRequested (node_Spec m) = HoldNone then (m, Ok (Some p))
        else (m, map_sum id Some (parkInsteadOfRelease E p))) = (n', Inr (Some plan))"
      using StaticConfigPlanner.prems by (auto split: prod.splits sum.splits option.splits)
    show ?thesis using parked StaticConfigPlanner.IH[OF p] park_shape[of E p plan]
      by (auto simp: map_sum_id_Inr split: if_splits)
  qed
qed (auto simp: mode_build_defs init_build_Inr dest: key_gates_gates[THEN subsetD]
       dest!: running_plan_built buildBasePlan_shape buildGenesisPlan_shape split: if_splits)

text \<open>
  Every plan a planner builds, for any mode and phase: it is Active under the fresh plan id,
  every task is pending with no retries spent and nothing submitted, and no two tasks share an id
  provided the UUID hash does not collide on the seeds of this plan's own tasks.
\<close>

theorem BuildPlan_fresh:
  assumes "BuildPlan E P pid mode n = (n', Inr (Some plan))"
    and "inj_on (NewSHA1 E) (task_seeds pid (plan_Tasks plan))"
  shows "plan_ID plan = pid \<and> plan_Phase plan = TaskPlanActive \<and> list_all fresh (plan_Tasks plan) \<and>
         distinct (map pt_ID (plan_Tasks plan))"
  using BuildPlan_built[OF assms(1)] assms(2) ids_seeded_distinct[of E pid] by (auto simp: built_plan_def)

theorem BuildPlan_fresh_witness:
  "distinct (map pt_ID (plan_Tasks (the (projr (snd (BuildPlan demo_ext demo_platform ''p''
      (StaticConfigPlanner (FullNodePlanner \<lparr>fn_Snapshot = None, fn_SnapshotGeneration = None, fn_Freeze = None\<rparr>))
      (static_node\<lparr>node_Status := demo_status\<lparr>st_Phase := PhasePending\<rparr>\<rparr>)))))))"
proof -
  let ?b = "BuildPlan demo_ext demo_platform ''p''
      (StaticConfigPlanner (FullNodePlanner \<lparr>fn_Snapshot = None, fn_SnapshotGeneration = None, fn_Freeze = None\<rparr>))
      (static_node\<lparr>node_Status := demo_status\<lparr>st_Phase := PhasePending\<rparr>\<rparr>)"
  have "case snd ?b of Inr (Some plan) \<Rightarrow> True | _ \<Rightarrow> False" by code_simp
  then obtain m plan where b: "?b = (m, Inr (Some plan))" by (cases ?b) (auto split: sum.splits option.splits)
  have "inj_on (NewSHA1 demo_ext) (task_seeds ''p'' (plan_Tasks plan))" by (simp add: demo_ext_def)
  from BuildPlan_fresh[OF b this] show ?thesis using b by simp
qed

subsection \<open>Held nodes\<close>

definition starts_nothing :: "TaskType list \<Rightarrow> bool" where
  "starts_nothing tys \<longleftrightarrow> MarkReady \<notin> set (butlast tys) \<and> StartSeidOnce \<notin> set tys"

lemma init_types_start: "starts_nothing (init_types n snap)"
  by (simp add: starts_nothing_def init_types_def butlast_append)

lemma genesis_types_start:
  "starts_nothing (if b then with_patch genesisProgression else genesisProgression)"
  by (simp add: starts_nothing_def genesisProgression_def)

lemma base_starts: "buildBasePlan E pid n snap intent = Inr plan \<Longrightarrow> starts_nothing (plan_types plan)"
  using buildBasePlan_shape init_types_start by metis

lemma genesis_starts: "buildGenesisPlan E pid n = Inr plan \<Longrightarrow> starts_nothing (plan_types plan)"
  using buildGenesisPlan_shape genesis_types_start by metis

lemma hold_steps_types:
  "map fst (hold_steps E n want cur) =
     (case want of
        HoldImmediate \<Rightarrow> [MarkNotReady, StopSeid]
      | HoldAfterExit \<Rightarrow>
          if cur = HoldImmediate then [ObserveImage, StartSeidOnce, AwaitSeidStart, MarkNotReady] else [MarkNotReady]
      | HoldNone \<Rightarrow> [ObserveImage, MarkReady]) @ [RecordMaintenanceHold]"
  by (cases want) (simp_all add: hold_steps_def recordHoldStep_def observe_step_def)

lemma mode_init_starts:
  assumes "BuildPlan E P pid base n = (n', Inr (Some plan))" and "node_Phase n \<noteq> PhaseRunning"
    and "\<And>b. base \<noteq> StaticConfigPlanner b"
  shows "n' = n \<and> starts_nothing (plan_types plan)"
  using assms
  by (cases base) (auto simp: mode_build_defs init_build_Inr base_starts genesis_starts split: if_splits)

lemma held_static_types:
  assumes "static_types E P n tys" and "HoldRequested (node_Spec n) \<noteq> HoldNone"
  shows "MarkReady \<notin> set tys \<and>
     (StartSeidOnce \<in> set tys \<longrightarrow> HoldRequested (node_Spec n) = HoldAfterExit \<and>
        st_MaintenanceHold (node_Status n) = HoldImmediate \<and> \<not> DataResetPending n)"
  using assms
  by (cases "HoldRequested (node_Spec n)"; cases "st_MaintenanceHold (node_Status n)")
     (auto simp: static_types_def Let_def hold_steps_types split: if_splits)

text \<open>
  While a maintenance hold is requested, no plan built for a ConfigMap-configured node carries
  a mark-ready, in any phase; start-seid-once appears only when the node is Running, the request
  is AfterExit, the hold in effect is Immediate and no data reset is pending.
\<close>

theorem held_plan_never_releases:
  assumes "BuildPlan E P pid (StaticConfigPlanner base) n = (n', Inr (Some plan))"
    and "HoldRequested (node_Spec n) \<noteq> HoldNone" and "\<forall>b. base \<noteq> StaticConfigPlanner b"
  shows "MarkReady \<notin> set (plan_types plan) \<and>
     (StartSeidOnce \<in> set (plan_types plan) \<longrightarrow>
        node_Phase n = PhaseRunning \<and> HoldRequested (node_Spec n) = HoldAfterExit \<and>
        st_MaintenanceHold (node_Status n) = HoldImmediate \<and> \<not> DataResetPending n)"
proof (cases "node_Phase n = PhaseRunning")
  case True
  then have "static_types E P n (plan_types plan)" using assms(1) static_running_shape by auto
  from held_static_types[OF this assms(2)] True show ?thesis by blast
next
  case False
  then obtain m p where p: "BuildPlan E P pid base n = (m, Inr (Some p))"
    and parked: "(if HoldRequested (node_Spec m) = HoldNone then (m, Ok (Some p))
      else (m, map_sum id Some (parkInsteadOfRelease E p))) = (n', Inr (Some plan))"
    using assms(1) by (auto split: prod.splits sum.splits option.splits)
  from mode_init_starts[OF p False] assms(3) have "m = n" "starts_nothing (plan_types p)" by auto
  then have "parkInsteadOfRelease E p = Inr plan" using parked assms(2) by (simp add: map_sum_id_Inr)
  from park_shape[OF this] BuildPlan_built[OF p] \<open>starts_nothing (plan_types p)\<close>
  show ?thesis by (auto simp: starts_nothing_def dest: in_set_butlastD)
qed

theorem held_plan_never_releases_witness:
  "MarkReady \<notin> set (plan_types (the (projr (snd (BuildPlan demo_ext demo_platform ''p''
      (StaticConfigPlanner (FullNodePlanner \<lparr>fn_Snapshot = None, fn_SnapshotGeneration = None, fn_Freeze = None\<rparr>))
      (static_node\<lparr>node_Spec := (node_Spec static_node)\<lparr>spec_Maintenance := Some HoldImmediate\<rparr>\<rparr>))))))"
proof -
  let ?base = "FullNodePlanner \<lparr>fn_Snapshot = None, fn_SnapshotGeneration = None, fn_Freeze = None\<rparr>"
  let ?n = "static_node\<lparr>node_Spec := (node_Spec static_node)\<lparr>spec_Maintenance := Some HoldImmediate\<rparr>\<rparr>"
  let ?b = "BuildPlan demo_ext demo_platform ''p'' (StaticConfigPlanner ?base) ?n"
  have "case snd ?b of Inr (Some plan) \<Rightarrow> True | _ \<Rightarrow> False" by code_simp
  then obtain m plan where b: "?b = (m, Inr (Some plan))" by (cases ?b) (auto split: sum.splits option.splits)
  have "HoldRequested (node_Spec ?n) \<noteq> HoldNone" by (simp add: HoldRequested_def)
  from held_plan_never_releases[OF b this] show ?thesis using b by simp
qed

subsection \<open>The data reset\<close>

lemma reset_tasks:
  assumes "buildDataResetPlan E pid n = Inr plan"
  shows "length (plan_Tasks plan) = 6"
    and "pt_Params (plan_Tasks plan ! 4) = RecordDataResetParams (spec_DataResetGeneration (node_Spec n))"
    and "pt_MaxRetries (plan_Tasks plan ! 3) = 5" and "plan_FailedPhase plan = PhaseUnset"
proof -
  obtain ts where ts: "build_tasks E pid (data_reset_steps E n) = Inr ts" and
    plan: "plan = new_plan pid (map (\<lambda>t. if pt_Type t = ResetDataKeepSignState
        then t\<lparr>pt_MaxRetries := dataResetMaxRetries\<rparr> else t) ts) PhaseRunning PhaseUnset"
    using assms by (auto simp: buildDataResetPlan_def bind_result_eq_Inr)
  have len: "length ts = 6" using build_tasks_length[OF ts] by (simp add: data_reset_steps_def)
  have "map pt_Type ts ! 3 = ResetDataKeepSignState" "map pt_Type ts ! 4 = RecordDataReset"
    "map pt_Params ts ! 4 = RecordDataResetParams (spec_DataResetGeneration (node_Spec n))"
    unfolding build_tasks_types[OF ts] build_tasks_params[OF ts] by (simp_all add: data_reset_steps_def)
  with len plan show "length (plan_Tasks plan) = 6"
    "pt_Params (plan_Tasks plan ! 4) = RecordDataResetParams (spec_DataResetGeneration (node_Spec n))"
    "pt_MaxRetries (plan_Tasks plan ! 3) = 5" "plan_FailedPhase plan = PhaseUnset"
    by simp_all
qed

text \<open>
  The plan of a Running ConfigMap-configured node with a pending data reset: the roll is
  observed, the start gate closed and seid stopped before anything is wiped; the wipe keeps the
  sign state and is retried up to five times; the generation recorded after the wipe is the one
  the plan was built for; seid is released last, unless a hold is requested, in which case the
  node is parked instead; and a failure does not fail the node.
\<close>

theorem data_reset_plan_exact:
  assumes "BuildPlan E P pid (StaticConfigPlanner base) n = (n', Inr (Some plan))"
    and "node_Phase n = PhaseRunning" and "DataResetPending n"
  shows "plan_types plan =
       [ObserveImage, MarkNotReady, StopSeid, ResetDataKeepSignState, RecordDataReset] @
       (if HoldRequested (node_Spec n) \<noteq> HoldNone then [RecordMaintenanceHold]
        else if st_MaintenanceHold (node_Status n) \<noteq> HoldNone then [MarkReady, RecordMaintenanceHold]
        else [MarkReady]) \<and>
     pt_MaxRetries (plan_Tasks plan ! 3) = 5 \<and>
     pt_Params (plan_Tasks plan ! 4) = RecordDataResetParams (spec_DataResetGeneration (node_Spec n)) \<and>
     plan_FailedPhase plan = PhaseUnset"
proof -
  have reset: "static_reset_plan E pid n = Inr plan"
    using assms by (auto simp: static_buildRunningPlan_def Let_def split: sum.splits)
  then obtain p where p: "buildDataResetPlan E pid n = Inr p" and rest:
    "(if HoldRequested (node_Spec n) \<noteq> HoldNone then parkInsteadOfRelease E p
      else if st_MaintenanceHold (node_Status n) \<noteq> HoldNone then clearHoldAfterRelease E p else Ok p) = Inr plan"
    by (auto simp: static_reset_plan_def bind_result_eq_Inr)
  from rest have "(\<exists>t. plan_Tasks plan = butlast (plan_Tasks p) @ [t] \<or> plan_Tasks plan = plan_Tasks p @ [t]) \<or> plan = p"
    and failed: "plan_FailedPhase plan = plan_FailedPhase p"
    by (auto simp: parkInsteadOfRelease_def clearHoldAfterRelease_def bind_result_eq_Inr split: if_splits)
  then have "plan_Tasks plan ! 3 = plan_Tasks p ! 3" "plan_Tasks plan ! 4 = plan_Tasks p ! 4"
    using reset_tasks(1)[OF p] by (auto simp: nth_append nth_butlast)
  with reset_tasks[OF p] static_reset_shape[OF reset] failed show ?thesis by simp
qed

theorem data_reset_plan_exact_witness:
  "pt_Params (plan_Tasks (the (projr (snd (BuildPlan demo_ext demo_platform ''p''
      (StaticConfigPlanner (FullNodePlanner \<lparr>fn_Snapshot = None, fn_SnapshotGeneration = None, fn_Freeze = None\<rparr>))
      (static_node\<lparr>node_Spec := (node_Spec static_node)\<lparr>spec_DataResetGeneration := 3\<rparr>\<rparr>))))) ! 4) =
   RecordDataResetParams 3"
proof -
  let ?base = "FullNodePlanner \<lparr>fn_Snapshot = None, fn_SnapshotGeneration = None, fn_Freeze = None\<rparr>"
  let ?n = "static_node\<lparr>node_Spec := (node_Spec static_node)\<lparr>spec_DataResetGeneration := 3\<rparr>\<rparr>"
  let ?b = "BuildPlan demo_ext demo_platform ''p'' (StaticConfigPlanner ?base) ?n"
  have "case snd ?b of Inr (Some plan) \<Rightarrow> True | _ \<Rightarrow> False" by code_simp
  then obtain m plan where b: "?b = (m, Inr (Some plan))" by (cases ?b) (auto split: sum.splits option.splits)
  have "node_Phase ?n = PhaseRunning" "DataResetPending ?n" by code_simp+
  from data_reset_plan_exact[OF b this] show ?thesis using b by simp
qed

end
