(* ===== verification/ResolveProps.thy ===== *)
theory ResolveProps
  imports ResolvePlan PlanShape
begin

text \<open>
  What \<open>ResolvePlan\<close> guarantees: one plan at a time, the fail-closed gates, no plan that would
  overwrite mounted configuration, the phase it moves a node to, and the roll budget.
\<close>

subsection \<open>Only conditions change\<close>

text \<open>The planners read the node and write only its conditions.\<close>

definition cond_only :: "SeiNode \<Rightarrow> SeiNode \<Rightarrow> bool" where
  "cond_only n m \<longleftrightarrow> (\<exists>cs. m = upd_status (\<lambda>s. s\<lparr>st_Conditions := cs\<rparr>) n)"

lemma cond_only_refl [simp]: "cond_only n n"
  unfolding cond_only_def by (rule exI[of _ "node_Conditions n"]) simp

lemma cond_only_trans: "cond_only a b \<Longrightarrow> cond_only b c \<Longrightarrow> cond_only a c"
  by (auto simp: cond_only_def)

lemma cond_only_set [simp]: "cond_only n (set_node_cond E n ty st re ms)"
  by (auto simp: cond_only_def set_node_cond_def)

lemma cond_only_setters [simp]:
  "cond_only n (setNodeUpdateCondition E n st re ms)"
  "cond_only n (setDataResetCondition E n st re ms)"
  "cond_only n (setSidecarReadyCondition E n st re ms)"
  by (simp_all add: setNodeUpdateCondition_def setDataResetCondition_def setSidecarReadyCondition_def)

lemma cond_only_frame:
  assumes "cond_only n m"
  shows "node_Spec m = node_Spec n" and "node_Phase m = node_Phase n" and "node_Plan m = node_Plan n"
    and "node_Name m = node_Name n" and "st_ResolvedPeers (node_Status m) = st_ResolvedPeers (node_Status n)"
    and "node_CreationTimestamp m = node_CreationTimestamp n" and "node_Namespace m = node_Namespace n"
  using assms by (auto simp: cond_only_def)

lemma stamp_update_cond: "cond_only n (fst r) \<Longrightarrow> cond_only n (fst (stamp_update E r re ms))"
  by (cases r) (auto simp: stamp_update_def split: sum.splits intro: cond_only_trans)

lemma record_build_error_cond: "cond_only n (fst (record_build_error E n r))"
  by (simp add: record_build_error_def split: sum.splits)

lemma running_plan_cond: "cond_only n (fst (running_plan E P pid n gates))"
  by (simp add: running_plan_def buildConfigUpdatePlan_def assembleUpdatePlan_def
      stamp_update_cond record_build_error_cond)

lemma static_update_cond: "cond_only n (fst (static_buildUpdatePlan E pid n))"
  by (simp add: static_buildUpdatePlan_def assembleStaticUpdatePlan_def record_build_error_cond)

lemma static_running_cond: "cond_only n (fst (static_buildRunningPlan E P pid n))"
  using static_update_cond[of n E pid]
  by (auto simp: static_buildRunningPlan_def Let_def markDataResetStarted_def
      split: sum.splits option.splits prod.splits intro: cond_only_trans)

lemma BuildPlan_cond: "cond_only n (fst (BuildPlan E P pid mode n))"
proof (induction mode)
  case (StaticConfigPlanner base)
  then show ?case
    by (auto simp: static_running_cond split: prod.splits sum.splits option.splits)
qed (simp_all add: mode_build_defs running_plan_cond init_build_def)

lemma observeTerminal_cond: "cond_only n (observeTerminalDataResetPlan E n plan)"
  by (simp add: observeTerminalDataResetPlan_def Let_def split: TaskPlanPhase.splits)

lemma probe_cond: "cond_only n (probeSidecarHealth E n h)"
  by (simp add: probeSidecarHealth_def split: sum.splits bool.splits)

subsection \<open>Terminal plans\<close>

lemma clear_plan_frame [simp]:
  "node_Spec (clear_plan n) = node_Spec n" "node_Phase (clear_plan n) = node_Phase n"
  "node_Plan (clear_plan n) = None" "node_Conditions (clear_plan n) = node_Conditions n"
  "st_ResolvedPeers (node_Status (clear_plan n)) = st_ResolvedPeers (node_Status n)"
  "node_CreationTimestamp (clear_plan n) = node_CreationTimestamp n"
  by (simp_all add: clear_plan_def)

text \<open>Before \<open>clear_plan\<close>, a terminal plan changes only conditions.\<close>

lemma handleTerminalPlan_shape:
  "\<exists>m. cond_only n m \<and> handleTerminalPlan E n = (if plan_active n \<or> node_Plan n = None then m else clear_plan m)"
proof (cases "node_Plan n")
  case None
  then show ?thesis by (auto simp: handleTerminalPlan_def intro: exI[of _ n])
next
  case (Some plan)
  let ?o = "observeTerminalDataResetPlan E n plan"
  have o: "cond_only n ?o" by (rule observeTerminal_cond)
  have upd: "cond_only n (setNodeUpdateCondition E ?o st re ms)" for st re ms
    using cond_only_trans[OF o] by simp
  show ?thesis
  proof (cases "plan_Phase plan")
    case TaskPlanActive
    then show ?thesis using Some o by (auto simp: handleTerminalPlan_def Let_def plan_active_def)
  next
    case TaskPlanComplete
    then show ?thesis using Some o upd
      by (auto simp: handleTerminalPlan_def Let_def plan_active_def)
  next
    case TaskPlanFailed
    then show ?thesis using Some o upd
      by (auto simp: handleTerminalPlan_def Let_def plan_active_def)
  qed
qed

lemma handleTerminalPlan_frame:
  "node_Spec (handleTerminalPlan E n) = node_Spec n" "node_Phase (handleTerminalPlan E n) = node_Phase n"
  "st_ResolvedPeers (node_Status (handleTerminalPlan E n)) = st_ResolvedPeers (node_Status n)"
  "node_CreationTimestamp (handleTerminalPlan E n) = node_CreationTimestamp n"
  using handleTerminalPlan_shape[of n E] cond_only_frame by (auto split: if_splits)

lemma handleTerminalPlan_clears: "\<not> plan_active n \<Longrightarrow> node_Plan (handleTerminalPlan E n) = None"
  using handleTerminalPlan_shape[of n E] cond_only_frame(3) clear_plan_frame(3) by metis

text \<open>
  Once a plan is Complete or Failed, handling it empties the node's plan slot and leaves no
  update in progress: afterwards the condition NodeUpdateInProgress is not True, whatever the plan
  was, and the node's spec and phase are as before.
\<close>

theorem handleTerminalPlan_settles:
  assumes "cond_laws E" and "node_Plan n = Some plan" and "plan_Phase plan \<noteq> TaskPlanActive"
  shows "node_Plan (handleTerminalPlan E n) = None \<and> \<not> hasNodeUpdateCondition E (handleTerminalPlan E n) \<and>
         node_Spec (handleTerminalPlan E n) = node_Spec n \<and> node_Phase (handleTerminalPlan E n) = node_Phase n"
proof -
  have inactive: "\<not> plan_active n" using assms(2,3) by (simp add: plan_active_def)
  have off: "\<not> hasNodeUpdateCondition E (clear_plan (setNodeUpdateCondition E m ConditionFalse re ms))" for m re ms
    using node_cond_set_same[OF assms(1), of m ConditionNodeUpdateInProgress ConditionFalse re ms]
    by (auto simp: hasNodeUpdateCondition_def setNodeUpdateCondition_def)
  have same: "hasNodeUpdateCondition E (clear_plan m) = hasNodeUpdateCondition E m" for m
    by (simp add: hasNodeUpdateCondition_def)
  have "\<not> hasNodeUpdateCondition E (handleTerminalPlan E n)"
    using assms(2,3) off same by (cases "plan_Phase plan") (auto simp: handleTerminalPlan_def Let_def)
  then show ?thesis using handleTerminalPlan_clears[OF inactive] handleTerminalPlan_frame by simp
qed

theorem handleTerminalPlan_settles_witness:
  "node_Plan (handleTerminalPlan demo_ext
     (set_node_cond demo_ext (demo_node\<lparr>node_Status := demo_status\<lparr>st_Plan :=
        Some ((new_plan ''p'' [] PhaseRunning PhaseUnset)\<lparr>plan_Phase := TaskPlanComplete\<rparr>)\<rparr>\<rparr>)
      ConditionNodeUpdateInProgress ConditionTrue ''UpdateStarted'' [])) = None"
  using handleTerminalPlan_settles[OF demo_cond_laws, of
      "set_node_cond demo_ext (demo_node\<lparr>node_Status := demo_status\<lparr>st_Plan :=
        Some ((new_plan ''p'' [] PhaseRunning PhaseUnset)\<lparr>plan_Phase := TaskPlanComplete\<rparr>)\<rparr>\<rparr>)
      ConditionNodeUpdateInProgress ConditionTrue ''UpdateStarted'' []"
      "(new_plan ''p'' [] PhaseRunning PhaseUnset)\<lparr>plan_Phase := TaskPlanComplete\<rparr>"]
  by simp

subsection \<open>Admission\<close>

text \<open>How the tail of \<open>ResolvePlan\<close> ends: no plan, or the given one with the phase moved on.\<close>

lemma install_plan_simps [simp]:
  "node_Plan (install_plan now n p) = Some p" "node_Spec (install_plan now n p) = node_Spec n"
  "node_Phase (install_plan now n p) =
     (if node_Phase n = PhaseUnset \<or> node_Phase n = PhasePending then PhaseInitializing else node_Phase n)"
  by (auto simp: install_plan_def Let_def)

lemma admit_plan_cases:
  assumes "admit_plan E P nodes now n plan = (n', err)"
  obtains (kept) "cond_only n n'"
    | (installed) p where "plan = Some p" "n' = install_plan now n p" "err = None"
        "mountedConfigWriterInPlan n plan = None"
        "isDriftUpdatePlan P n p \<Longrightarrow> \<exists>msg. DriftSlot E P nodes n = Inr (True, msg)"
proof (cases "mountedConfigWriterInPlan n plan")
  case (Some w)
  then show thesis using kept assms by (auto simp: admit_plan_def)
next
  case none: None
  show thesis
  proof (cases plan)
    case None
    then show thesis using kept assms none by (auto simp: admit_plan_def split: if_splits)
  next
    case (Some p)
    show thesis
    proof (cases "isDriftUpdatePlan P n p")
      case True
      then show thesis using kept installed[OF Some] assms none Some
        by (auto simp: admit_plan_def split: sum.splits if_splits)
    next
      case False
      then show thesis using installed[OF Some] assms none Some by (auto simp: admit_plan_def)
    qed
  qed
qed

lemma build_next_cases:
  assumes "build_next E P nodes now pid n = (n', err)"
  obtains (kept) "cond_only n n'"
    | (installed) mode m p where "plannerFor n = Inr mode" "BuildPlan E P pid mode n = (m, Inr (Some p))"
        "cond_only n m" "n' = install_plan now m p" "err = None" "mountedConfigWriterInPlan m (Some p) = None"
        "isDriftUpdatePlan P m p \<Longrightarrow> \<exists>msg. DriftSlot E P nodes m = Inr (True, msg)"
proof (cases "plannerFor n")
  case (Inl e)
  then show thesis using kept assms by (simp add: build_next_def)
next
  case (Inr mode)
  show thesis
  proof (cases "Validate mode n")
    case (Some e)
    then show thesis using kept assms Inr by (simp add: build_next_def)
  next
    case None
    obtain m r where b: "BuildPlan E P pid mode n = (m, r)" by fastforce
    then have m: "cond_only n m" using BuildPlan_cond[of n E P pid mode] by simp
    show thesis
    proof (cases r)
      case (Inl e)
      then show thesis using kept assms Inr None b m by (simp add: build_next_def)
    next
      case r: (Inr plan)
      then have adm: "admit_plan E P nodes now m plan = (n', err)"
        using assms Inr None b by (simp add: build_next_def)
      from adm show thesis
      proof (cases rule: admit_plan_cases[consumes 1])
        case kept1: kept
        then show thesis using kept cond_only_trans[OF m] by blast
      next
        case (installed p)
        then show thesis using that(2)[OF Inr _ m] b r by blast
      qed
    qed
  qed
qed

text \<open>The node on which the next plan is built.\<close>

definition settled :: "ext \<Rightarrow> bool result option \<Rightarrow> SeiNode \<Rightarrow> SeiNode" where
  "settled E probe n =
     handleTerminalPlan E (case probe of
        Some h \<Rightarrow> if node_Phase n = PhaseRunning then probeSidecarHealth E n h else n
      | None \<Rightarrow> n)"

lemma plan_active_cond: "cond_only n m \<Longrightarrow> plan_active m = plan_active n"
  by (simp add: plan_active_def cond_only_frame)

lemma probed_cond:
  "cond_only n (case probe of
     Some h \<Rightarrow> if node_Phase n = PhaseRunning then probeSidecarHealth E n h else n | None \<Rightarrow> n)"
  by (simp add: probe_cond split: option.splits)

lemma settled_frame:
  "node_Spec (settled E probe n) = node_Spec n" "node_Phase (settled E probe n) = node_Phase n"
  "st_ResolvedPeers (node_Status (settled E probe n)) = st_ResolvedPeers (node_Status n)"
  "node_CreationTimestamp (settled E probe n) = node_CreationTimestamp n"
  "\<not> plan_active n \<Longrightarrow> node_Plan (settled E probe n) = None"
  using cond_only_frame[OF probed_cond] plan_active_cond[OF probed_cond]
  by (simp_all add: settled_def handleTerminalPlan_frame handleTerminalPlan_clears)

lemma other_conditions:
  assumes "cond_laws E"
  shows "node_cond E (setNodeUpdateCondition E n st re ms) ConditionStateSyncReady = node_cond E n ConditionStateSyncReady"
    and "node_cond E (setDataResetCondition E n st re ms) ConditionStateSyncReady = node_cond E n ConditionStateSyncReady"
    and "node_cond E (setSidecarReadyCondition E n st re ms) ConditionStateSyncReady = node_cond E n ConditionStateSyncReady"
  using node_cond_set_other[OF assms]
  by (simp_all add: setNodeUpdateCondition_def setDataResetCondition_def setSidecarReadyCondition_def)

lemma settled_statesync:
  assumes "cond_laws E"
  shows "StateSyncBlocksPlan E (settled E probe n) = StateSyncBlocksPlan E n"
proof -
  have obs: "node_cond E (observeTerminalDataResetPlan E m plan) ConditionStateSyncReady = node_cond E m ConditionStateSyncReady" for m plan
    by (simp add: observeTerminalDataResetPlan_def Let_def other_conditions[OF assms] split: TaskPlanPhase.splits)
  have term': "node_cond E (handleTerminalPlan E m) ConditionStateSyncReady = node_cond E m ConditionStateSyncReady" for m
    by (auto simp: handleTerminalPlan_def Let_def obs other_conditions[OF assms]
        split: option.splits TaskPlanPhase.splits)
  have probe': "node_cond E (probeSidecarHealth E m h) ConditionStateSyncReady = node_cond E m ConditionStateSyncReady" for m h
    by (simp add: probeSidecarHealth_def other_conditions[OF assms] split: sum.splits bool.splits)
  have "node_cond E (settled E probe n) ConditionStateSyncReady = node_cond E n ConditionStateSyncReady"
    by (simp add: settled_def term' probe' split: option.splits)
  then show ?thesis by (simp add: StateSyncBlocksPlan_def settled_frame)
qed

lemma ResolvePlan_inactive:
  assumes "\<not> plan_active n"
  shows "ResolvePlan E P nodes probe now pid n =
     (if StateSyncBlocksPlan E (settled E probe n) \<or> PeersBlockPlan (settled E probe n) now
      then (settled E probe n, None) else build_next E P nodes now pid (settled E probe n))"
  using assms plan_active_cond[OF probed_cond[where n = n and probe = probe and E = E]]
  by (simp add: ResolvePlan_def settled_def Let_def)

text \<open>
  A node has one plan slot: while its plan is Active, \<open>ResolvePlan\<close> returns without an error
  and leaves the plan, the phase and the spec exactly as they are.
\<close>

theorem ResolvePlan_keeps_active:
  assumes "plan_active n"
  shows "snd (ResolvePlan E P nodes probe now pid n) = None \<and>
         cond_only n (fst (ResolvePlan E P nodes probe now pid n)) \<and>
         node_Plan (fst (ResolvePlan E P nodes probe now pid n)) = node_Plan n"
  using assms plan_active_cond[OF probed_cond[where n = n and probe = probe and E = E]] probed_cond[where n = n and probe = probe and E = E] cond_only_frame(3)
  by (simp add: ResolvePlan_def Let_def)

theorem ResolvePlan_keeps_active_witness:
  "node_Plan (fst (ResolvePlan demo_ext demo_platform None None 0 ''q''
     (demo_node\<lparr>node_Status := demo_status\<lparr>st_Plan := Some (new_plan ''p'' [] PhaseRunning PhaseUnset)\<rparr>\<rparr>))) =
   Some (new_plan ''p'' [] PhaseRunning PhaseUnset)"
  using ResolvePlan_keeps_active[of
      "demo_node\<lparr>node_Status := demo_status\<lparr>st_Plan := Some (new_plan ''p'' [] PhaseRunning PhaseUnset)\<rparr>\<rparr>"
      demo_ext demo_platform None None 0 "''q''"]
  by (simp add: plan_active_def)

text \<open>
  C3. What a resolve without an Active plan leaves behind.  The slot is empty, or it holds a plan
  that the node's planner just built under the fresh id: no task of it overwrites the mounted
  configuration of a ConfigMap-configured node, neither the state-sync gate nor the peer gate held
  the node, a drift roll owns a slot, and the phase moves to Initializing exactly from unset or
  Pending.
\<close>

theorem ResolvePlan_installs:
  assumes "cond_laws E" and "\<not> plan_active n" and "ResolvePlan E P nodes probe now pid n = (n', err)"
    and "node_Plan n' = Some plan"
  shows "err = None \<and> built_plan E plan \<and> plan_ID plan = pid \<and>
     (MountsNodeConfig n \<longrightarrow> list_all (\<lambda>t. pt_Type t \<notin> set mountedConfigWriters) (plan_Tasks plan)) \<and>
     \<not> StateSyncBlocksPlan E n \<and> \<not> PeersBlockPlan n now \<and>
     node_Spec n' = node_Spec n \<and>
     node_Phase n' = (if node_Phase n = PhaseUnset \<or> node_Phase n = PhasePending then PhaseInitializing
                      else node_Phase n)"
proof -
  let ?m = "settled E probe n"
  have empty: "node_Plan ?m = None" using assms(2) by (rule settled_frame)
  then have gates: "\<not> StateSyncBlocksPlan E ?m" "\<not> PeersBlockPlan ?m now"
    and next': "build_next E P nodes now pid ?m = (n', err)"
    using assms(3,4) ResolvePlan_inactive[OF assms(2)] by (auto split: if_splits)
  have peers: "PeersBlockPlan ?m now = PeersBlockPlan n now"
    by (simp add: PeersBlockPlan_def settled_frame)
  from next' show ?thesis
  proof (cases rule: build_next_cases[consumes 1])
    case kept
    then show ?thesis using empty assms(4) cond_only_frame(3) by fastforce
  next
    case (installed mode k p)
    then have "p = plan" using assms(4) by simp
    moreover have "MountsNodeConfig k = MountsNodeConfig n"
      using cond_only_frame(1)[OF installed(3)] settled_frame(1) by (simp add: MountsNodeConfig_def)
    then have "MountsNodeConfig n \<longrightarrow> list_all (\<lambda>t. pt_Type t \<notin> set mountedConfigWriters) (plan_Tasks p)"
      using installed(6) by (auto simp: mountedConfigWriterInPlan_def list_all_iff find_None_iff)
    ultimately show ?thesis
      using installed BuildPlan_built[OF installed(2)] gates peers settled_statesync[OF assms(1)]
        cond_only_frame(1,2)[OF installed(3)] settled_frame(1,2)[of E probe n] by simp
  qed
qed

theorem ResolvePlan_installs_witness:
  "node_Phase (fst (ResolvePlan demo_ext demo_platform None None 0 ''q''
     (static_node\<lparr>node_Status := demo_status\<lparr>st_Phase := PhasePending\<rparr>\<rparr>))) = PhaseInitializing"
proof -
  let ?n = "static_node\<lparr>node_Status := demo_status\<lparr>st_Phase := PhasePending\<rparr>\<rparr>"
  let ?r = "ResolvePlan demo_ext demo_platform None None 0 ''q'' ?n"
  have "\<not> plan_active ?n" by code_simp
  have "case node_Plan (fst ?r) of Some _ \<Rightarrow> True | None \<Rightarrow> False" by code_simp
  then obtain plan where "node_Plan (fst ?r) = Some plan" by (auto split: option.splits)
  from ResolvePlan_installs[OF demo_cond_laws \<open>\<not> plan_active ?n\<close> prod.collapse[symmetric] this]
  show ?thesis by simp
qed

subsection \<open>The roll budget\<close>

text \<open>The nodes of a namespace that the budget counts against a slot: those already rolling and those
  whose roll the budget would let through now.\<close>

definition granted :: "ext \<Rightarrow> PlatformConfig \<Rightarrow> NodeReader \<Rightarrow> SeiNode \<Rightarrow> bool" where
  "granted E P rd n \<longleftrightarrow> DriftSlot E P (Some rd) n = Inr (True, [])"

lemma DriftSlot_index:
  assumes "rd_List rd = Inr ns" and "0 < DriftUpdateBudgetPercent P"
    and "node_Name n \<in> set (updating_names E ns @ waiting_names E P ns)" and "granted E P rd n"
  shows "node_Name n \<in> set (take (roll_slots P ns) (updating_names E ns @ waiting_names E P ns))"
proof -
  let ?order = "updating_names E ns @ waiting_names E P ns"
  have "find_index (\<lambda>m. m = node_Name n) ?order \<noteq> None"
    using assms(3) by (simp only: find_index_None) blast
  then obtain i where i: "find_index (\<lambda>m. m = node_Name n) ?order = Some i" by blast
  then have at_i: "?order ! i = node_Name n" "i < length ?order"
    unfolding find_index_Some by blast+
  have "DriftSlot E P (Some rd) n = Inr (True, [])" using assms(4) by (simp only: granted_def)
  then have "i < roll_slots P ns"
    using assms(2) i by (simp add: DriftSlot_def Let_def assms(1) split: if_splits)
  then have "i < length (take (roll_slots P ns) ?order)" "take (roll_slots P ns) ?order ! i = node_Name n"
    using at_i by (simp_all del: take_append)
  then show ?thesis by (metis nth_mem)
qed

text \<open>
  The drift-roll budget is never overdrawn: among the Running, unpaused nodes of a namespace
  that are rolling or want to roll, at most \<open>max 1 (budget% of the nodes)\<close> distinct ones get a
  slot, however many reconciles ask.
\<close>

theorem drift_budget_bound:
  assumes "rd_List rd = Inr ns" and "0 < DriftUpdateBudgetPercent P"
  shows "card {node_Name n | n. n \<in> set ns \<and> budgeted n \<and> (updateInProgress E n \<or> podTemplateDrifted n P) \<and>
                              granted E P rd n} \<le> roll_slots P ns"
proof -
  let ?order = "updating_names E ns @ waiting_names E P ns"
  have "node_Name n \<in> set (take (roll_slots P ns) ?order)"
    if "n \<in> set ns" "budgeted n" "updateInProgress E n \<or> podTemplateDrifted n P" "granted E P rd n" for n
  proof (rule DriftSlot_index[OF assms _ that(4)])
    show "node_Name n \<in> set ?order"
      using that by (cases "updateInProgress E n") (auto simp: updating_names_def waiting_names_def)
  qed
  then have "{node_Name n | n. n \<in> set ns \<and> budgeted n \<and> (updateInProgress E n \<or> podTemplateDrifted n P) \<and>
      granted E P rd n} \<subseteq> set (take (roll_slots P ns) ?order)" by auto
  then have "card {node_Name n | n. n \<in> set ns \<and> budgeted n \<and> (updateInProgress E n \<or> podTemplateDrifted n P) \<and>
      granted E P rd n} \<le> card (set (take (roll_slots P ns) ?order))" by (intro card_mono) auto
  also have "\<dots> \<le> roll_slots P ns" by (rule order_trans[OF card_length]) simp
  finally show ?thesis .
qed

theorem drift_budget_bound_witness:
  "card {node_Name n | n. n \<in> set [demo_node, demo_node\<lparr>node_Name := ''rpc-1''\<rparr>] \<and> budgeted n \<and>
      (updateInProgress demo_ext n \<or> podTemplateDrifted n demo_platform) \<and>
      granted demo_ext demo_platform
        \<lparr>rd_List = Inr [demo_node, demo_node\<lparr>node_Name := ''rpc-1''\<rparr>], rd_Get = Inr None\<rparr> n} \<le> 1"
proof -
  let ?ns = "[demo_node, demo_node\<lparr>node_Name := ''rpc-1''\<rparr>]"
  let ?rd = "\<lparr>rd_List = Inr ?ns, rd_Get = Inr None\<rparr> :: NodeReader"
  have "roll_slots demo_platform ?ns = 1" by code_simp
  moreover have "rd_List ?rd = Inr ?ns" "0 < DriftUpdateBudgetPercent demo_platform"
    by (simp_all add: demo_platform_def)
  from drift_budget_bound[OF this, of demo_ext] calculation show ?thesis by (simp only:)
qed

text \<open>
  A node whose roll has to wait is rendered from what it runs: once the running image is
  known, the pinned node shows no pod-template drift at all, so applying its StatefulSet cannot
  roll the pod.
\<close>

theorem pinned_no_drift:
  assumes "pinnedToRunning rd n = Inr (Some m)" and "st_CurrentImage (node_Status n) \<noteq> []"
  shows "\<not> podTemplateDrifted m P \<and> node_Status m = node_Status n \<and> node_Name m = node_Name n"
proof -
  let ?st = "node_Status n"
  obtain side where m: "m = n\<lparr>node_Spec := pin_nodepool n (pin_isolation (st_CurrentNodeIsolation ?st)
        (pin_sidecar side ((node_Spec n)\<lparr>spec_Image := st_CurrentImage ?st\<rparr>)))\<rparr>"
    and side: "st_CurrentSidecarImage ?st \<noteq> [] \<Longrightarrow> side = st_CurrentSidecarImage ?st"
    using assms
    by (auto simp: pinnedToRunning_def live_images_def Let_def split: sum.splits option.splits prod.splits if_splits)
  have "\<not> imageDrifted m"
    by (simp add: m imageDrifted_def pin_nodepool_def pin_isolation_def pin_sidecar_def)
  moreover have "\<not> sidecarImageDrifted m P"
  proof (cases "st_CurrentSidecarImage ?st = []")
    case True
    then show ?thesis by (simp add: m sidecarImageDrifted_def)
  next
    case False
    from False side[OF False] show ?thesis
      by (simp add: m sidecarImageDrifted_def EffectiveSidecarImage_def pin_nodepool_def pin_isolation_def
          pin_sidecar_def split: option.splits)
  qed
  moreover have "\<not> nodeIsolationDrifted m"
    by (auto simp: m nodeIsolationDrifted_def EffectiveNodeIsolation_def pin_nodepool_def pin_isolation_def
        pin_sidecar_def scheduling_or_empty_def Let_def split: option.splits)
  moreover have "\<not> nodePoolDrifted m"
    using assms(2)
    by (auto simp: m nodePoolDrifted_def RequestedNodePool_def pin_nodepool_def pin_isolation_def
        pin_sidecar_def scheduling_or_empty_def split: option.splits if_splits)
  ultimately show ?thesis by (simp add: podTemplateDrifted_def m)
qed

theorem pinned_no_drift_witness:
  "case pinnedToRunning \<lparr>rd_List = Inr [], rd_Get = Inr None\<rparr>
          (demo_node\<lparr>node_Spec := demo_spec\<lparr>spec_Image := ''sei:next''\<rparr>\<rparr>) of
     Inr (Some m) \<Rightarrow> podTemplateDrifted (demo_node\<lparr>node_Spec := demo_spec\<lparr>spec_Image := ''sei:next''\<rparr>\<rparr>) demo_platform \<and>
                     \<not> podTemplateDrifted m demo_platform
   | _ \<Rightarrow> False"
proof -
  let ?n = "demo_node\<lparr>node_Spec := demo_spec\<lparr>spec_Image := ''sei:next''\<rparr>\<rparr>"
  let ?p = "pinnedToRunning \<lparr>rd_List = Inr [], rd_Get = Inr None\<rparr> ?n"
  have "case ?p of Inr (Some _) \<Rightarrow> True | _ \<Rightarrow> False" by code_simp
  then obtain m where m: "?p = Inr (Some m)" by (auto split: sum.splits option.splits)
  have "st_CurrentImage (node_Status ?n) \<noteq> []" by code_simp
  from pinned_no_drift[OF m this, of demo_platform] have "\<not> podTemplateDrifted m demo_platform" by simp
  moreover have "podTemplateDrifted ?n demo_platform" by code_simp
  ultimately show ?thesis by (simp add: m)
qed

end
