(* ===== verification/NumberProps.thy ===== *)
theory NumberProps
  imports CanonicalNumber
begin

text \<open>
  The canonical spelling of a JSON number decides numeric equality: two tokens get the same
  spelling exactly when they denote the same number, whatever their size.
\<close>

subsection \<open>Digit strings\<close>

abbreviation all_digits :: "string \<Rightarrow> bool" where
  "all_digits s \<equiv> list_all is_digit s"

lemma digits_val_acc: "digits_val a xs = a * 10 ^ length xs + digits_val 0 xs"
proof (induction xs arbitrary: a)
  case (Cons c xs)
  show ?case using Cons[of "10 * a + digit c"] Cons[of "digit c"] by (simp add: algebra_simps)
qed simp

lemma digits_val_append: "digits_val 0 (xs @ ys) = digits_val 0 xs * 10 ^ length ys + digits_val 0 ys"
proof -
  have "digits_val a (xs @ ys) = digits_val (digits_val a xs) ys" for a
    by (induction xs arbitrary: a) auto
  then show ?thesis by (simp add: digits_val_acc[of "digits_val 0 xs"])
qed

lemma digits_val_Cons: "digits_val 0 (c # xs) = digit c * 10 ^ length xs + digits_val 0 xs"
  using digits_val_append[of "[c]" xs] by simp

lemma digit_lt: "is_digit c \<Longrightarrow> digit c < 10"
  by (auto simp: is_digit_def digit_def)

lemma digit_inj: "is_digit c \<Longrightarrow> is_digit d \<Longrightarrow> digit c = digit d \<Longrightarrow> c = d"
  by (metis char_of_char digit_def is_digit_def le_add_diff_inverse2)

lemma digit_zero: "is_digit c \<Longrightarrow> digit c = 0 \<longleftrightarrow> c = CHR ''0''"
  using digit_inj[of c "CHR ''0''"] by (auto simp: is_digit_def digit_def)

lemma digits_val_lt: "all_digits xs \<Longrightarrow> digits_val 0 xs < 10 ^ length xs"
proof (induction xs)
  case (Cons c xs)
  then have "digits_val 0 xs < 10 ^ length xs" "digit c \<le> 9" using digit_lt[of c] by auto
  then have "digit c * 10 ^ length xs + digits_val 0 xs < 9 * 10 ^ length xs + 10 ^ length xs"
    by (intro add_le_less_mono mult_right_mono) auto
  then show ?case by (simp only: digits_val_Cons) simp
qed simp

lemma digits_val_inj_length:
  "all_digits xs \<Longrightarrow> all_digits ys \<Longrightarrow> length xs = length ys \<Longrightarrow> digits_val 0 xs = digits_val 0 ys \<Longrightarrow> xs = ys"
proof (induction xs arbitrary: ys)
  case (Cons c xs)
  then obtain d zs where ys: "ys = d # zs" "length zs = length xs" by (cases ys) auto
  let ?B = "10 ^ length xs :: nat"
  have lt: "digits_val 0 xs < ?B" "digits_val 0 zs < ?B"
    using Cons.prems ys digits_val_lt[of xs] digits_val_lt[of zs] by auto
  have eq: "digit c * ?B + digits_val 0 xs = digit d * ?B + digits_val 0 zs"
    using Cons.prems(4) ys by (simp only: digits_val_Cons)
  then have "(digit c * ?B + digits_val 0 xs) div ?B = (digit d * ?B + digits_val 0 zs) div ?B" by simp
  then have "digit c = digit d" using lt by simp
  moreover from this eq have "digits_val 0 xs = digits_val 0 zs" by simp
  ultimately show ?case using Cons.IH[of zs] Cons.prems ys digit_inj[of c d] by simp
qed simp

lemma digits_val_ge: "all_digits xs \<Longrightarrow> xs \<noteq> [] \<Longrightarrow> hd xs \<noteq> CHR ''0'' \<Longrightarrow> 10 ^ (length xs - 1) \<le> digits_val 0 xs"
proof (cases xs)
  case (Cons c ys)
  assume "all_digits xs" "hd xs \<noteq> CHR ''0''"
  then have "1 \<le> digit c" using Cons digit_zero[of c] by (auto simp: Suc_le_eq)
  then have "10 ^ length ys \<le> digit c * 10 ^ length ys" by simp
  then have "10 ^ length ys \<le> digits_val 0 (c # ys)" unfolding digits_val_Cons by (rule trans_le_add1)
  then show ?thesis using Cons by simp
qed simp

lemma digits_val_inj:
  assumes "all_digits xs" "all_digits ys" "xs \<noteq> []" "ys \<noteq> []" "hd xs \<noteq> CHR ''0''" "hd ys \<noteq> CHR ''0''"
    and "digits_val 0 xs = digits_val 0 ys"
  shows "xs = ys"
proof (rule digits_val_inj_length[OF assms(1,2) _ assms(7)])
  have "length xs - 1 < length ys" "length ys - 1 < length xs"
    using digits_val_ge[of xs] digits_val_ge[of ys] digits_val_lt[of xs] digits_val_lt[of ys] assms
    by (metis le_less_trans power_strict_increasing_iff one_less_numeral_iff semiring_norm(76))+
  then show "length xs = length ys" by linarith
qed

lemma trim_left_val: "all_digits xs \<Longrightarrow> digits_val 0 (trim_left (CHR ''0'') xs) = digits_val 0 xs"
proof (induction xs)
  case (Cons c xs)
  then show ?case by (cases "c = CHR ''0''") (auto simp: trim_left_def digit_def)
qed (simp add: trim_left_def)

lemma trim_right_split:
  "xs = trim_right c xs @ replicate (length xs - length (trim_right c xs)) c"
proof -
  have "rev xs = takeWhile (\<lambda>x. x = c) (rev xs) @ dropWhile (\<lambda>x. x = c) (rev xs)" by simp
  moreover have "takeWhile (\<lambda>x. x = c) (rev xs) = replicate (length (takeWhile (\<lambda>x. x = c) (rev xs))) c"
    by (intro replicate_length_same[symmetric]) (auto dest: set_takeWhileD)
  ultimately have "xs = trim_right c xs @ replicate (length (takeWhile (\<lambda>x. x = c) (rev xs))) c"
    unfolding trim_right_def by (metis rev_append rev_replicate rev_rev_ident)
  then show ?thesis by (metis length_append length_replicate diff_add_inverse)
qed

lemma zeros_val: "digits_val 0 (replicate k (CHR ''0'')) = 0"
  by (induction k) (simp_all add: digit_def)

lemma trim_right_val:
  "digits_val 0 xs =
     digits_val 0 (trim_right (CHR ''0'') xs) * 10 ^ (length xs - length (trim_right (CHR ''0'') xs))"
  using digits_val_append[of "trim_right (CHR ''0'') xs"
      "replicate (length xs - length (trim_right (CHR ''0'') xs)) (CHR ''0'')"]
  by (simp only: zeros_val length_replicate add_0_right flip: trim_right_split[of xs "CHR ''0''"])

lemma trim_right_last: "trim_right c xs \<noteq> [] \<Longrightarrow> last (trim_right c xs) \<noteq> c"
  using hd_dropWhile[of "\<lambda>x. x = c" "rev xs"] by (simp add: trim_right_def last_rev)

lemma trim_right_hd: "trim_right c xs \<noteq> [] \<Longrightarrow> hd (trim_right c xs) = hd xs"
  using arg_cong[OF trim_right_split[of xs c], of hd] by simp

lemma trim_right_nonempty: "xs \<noteq> [] \<Longrightarrow> hd xs \<noteq> c \<Longrightarrow> trim_right c xs \<noteq> []"
proof
  assume xs: "xs \<noteq> []" "hd xs \<noteq> c" "trim_right c xs = []"
  then have "xs = replicate (length xs) c" using trim_right_split[of xs c] by simp
  then show False using xs(1,2) by (metis hd_replicate length_0_conv)
qed

lemma not_dvd_last: "all_digits xs \<Longrightarrow> xs \<noteq> [] \<Longrightarrow> last xs \<noteq> CHR ''0'' \<Longrightarrow> \<not> 10 dvd digits_val 0 xs"
proof -
  assume xs: "all_digits xs" "xs \<noteq> []" "last xs \<noteq> CHR ''0''"
  have "digits_val 0 xs = digits_val 0 (butlast xs) * 10 + digit (last xs)"
    using digits_val_append[of "butlast xs" "[last xs]"] xs(2) by simp
  moreover have "is_digit (last xs)" using xs(1,2) by (metis last_in_set list_all_iff)
  then have "0 < digit (last xs)" "digit (last xs) < 10" using digit_zero[of "last xs"] digit_lt xs(3) by auto
  ultimately show ?thesis by (simp add: dvd_eq_mod_eq_0)
qed

subsection \<open>Reading a token\<close>

lemma lower_digit [simp]: "is_digit c \<Longrightarrow> lower c = c"
  by (auto simp: lower_def is_digit_def Let_def)

lemma lower_digits: "all_digits xs \<Longrightarrow> map lower xs = xs"
  by (induction xs) auto

lemma digit_not [simp]:
  "\<not> is_digit (CHR ''e'')" "\<not> is_digit (CHR ''.'')" "\<not> is_digit (CHR ''-'')" "\<not> is_digit (CHR ''+'')"
  by (simp_all add: is_digit_def)

lemma digits_free: "all_digits xs \<Longrightarrow> \<not> is_digit c \<Longrightarrow> c \<notin> set xs"
  by (auto simp: list_all_iff)

lemma cut_none: "c \<notin> set xs \<Longrightarrow> cut c xs = (xs, [])"
  by (induction xs) auto

lemma cut_at: "c \<notin> set xs \<Longrightarrow> cut c (xs @ c # ys) = (xs, ys)"
  by (induction xs) auto

text \<open>A token spelled as sign, whole part, fraction and exponent reads back as those parts.\<close>

definition spelled :: "bool \<Rightarrow> string \<Rightarrow> string \<Rightarrow> string \<Rightarrow> string" where
  "spelled neg whole fraction ex =
     (if neg then ''-'' else []) @ whole @ (if fraction = [] then [] else CHR ''.'' # fraction) @
     (if ex = [] then [] else CHR ''e'' # ex)"

lemma parse_spelled:
  assumes "map lower s = spelled neg whole fraction ex" and "all_digits whole" and "whole \<noteq> []"
    and "all_digits fraction"
  shows "parse_number s = \<lparr>np_negative = neg, np_whole = whole, np_fraction = fraction, np_exponent = ex\<rparr>"
proof -
  let ?m = "(if neg then ''-'' else []) @ whole @ (if fraction = [] then [] else CHR ''.'' # fraction)"
  have "CHR ''e'' \<notin> set ?m" using digits_free assms(2,4) by auto
  then have "cut (CHR ''e'') (map lower s) = (?m, ex)"
    unfolding assms(1) spelled_def by (cases "ex = []") (simp_all add: cut_none cut_at flip: append_assoc)
  moreover have "has_prefix ?m ''-'' \<longleftrightarrow> neg"
    using assms(2,3) by (cases whole) auto
  moreover have "cut (CHR ''.'') (whole @ (if fraction = [] then [] else CHR ''.'' # fraction)) = (whole, fraction)"
    using digits_free[OF assms(2), of "CHR ''.''"] by (simp add: cut_none cut_at)
  ultimately show ?thesis by (cases neg) (simp_all add: parse_number_def)
qed

lemma valid_spelled:
  assumes "valid_number s"
  obtains neg whole fraction ex where "map lower s = spelled neg whole fraction ex" and "all_digits whole"
    and "whole \<noteq> []" and "all_digits fraction"
proof -
  define s1 where "s1 = (if has_prefix s ''-'' then tl s else s)"
  define r1 where "r1 = dropWhile is_digit s1"
  define hf where "hf = has_prefix r1 ''.''"
  define r2 where "r2 = (if hf then dropWhile is_digit (tl r1) else r1)"
  let ?whole = "takeWhile is_digit s1"
  let ?fraction = "if hf then takeWhile is_digit (tl r1) else []"
  have v: "?whole \<noteq> []" "hf \<longrightarrow> ?fraction \<noteq> []" "r2 = [] \<or> lower (hd r2) = CHR ''e''  \<and> tl r2 \<noteq> []"
    using assms unfolding valid_number_def Let_def s1_def[symmetric] r1_def[symmetric] hf_def[symmetric] r2_def[symmetric]
    by (auto split: if_splits)
  have s: "s = (if has_prefix s ''-'' then ''-'' else []) @ s1"
    unfolding s1_def by (cases s) auto
  have s1: "s1 = ?whole @ r1" by (simp add: r1_def)
  have "r1 = (if hf then CHR ''.'' # tl r1 else r1)" unfolding hf_def by (cases r1) auto
  then have r1: "r1 = (if ?fraction = [] then [] else CHR ''.'' # ?fraction) @ r2"
    using v(2) by (auto simp: r2_def split: if_splits)
  have d: "all_digits ?whole" "all_digits ?fraction"
    by (auto simp: list_all_iff dest: set_takeWhileD)
  have r2: "map lower r2 = (if map lower (tl r2) = [] then [] else CHR ''e'' # map lower (tl r2))"
    using v(3) by (cases r2) auto
  have [simp]: "lower (CHR ''-'') = CHR ''-''" "lower (CHR ''.'') = CHR ''.''" by (simp_all add: lower_def)
  have "map lower s = map lower (if has_prefix s ''-'' then ''-'' else []) @ map lower ?whole @
      map lower (if ?fraction = [] then [] else CHR ''.'' # ?fraction) @ map lower r2"
    by (subst s, subst s1, subst r1) simp
  also have "\<dots> = spelled (has_prefix s ''-'') ?whole ?fraction (map lower (tl r2))"
    using d by (simp add: spelled_def r2 lower_digits)
  finally have "map lower s = spelled (has_prefix s ''-'') ?whole ?fraction (map lower (tl r2))" .
  then show thesis using d v(1) that by blast
qed

subsection \<open>The value of the canonical spelling\<close>

lemma scaling_le:
  fixes m n :: nat
  assumes "\<not> 10 dvd m" and "a \<le> b" and "real m * 10 powi a = real n * 10 powi b"
  shows "a = b \<and> m = n"
proof -
  have "(10 :: real) powi b = 10 powi a * 10 powi (b - a)" by (simp flip: power_int_add)
  moreover have "(10 :: real) powi (b - a) = real (10 ^ nat (b - a))" using assms(2) by (simp add: power_int_def)
  ultimately have "real m = real n * real (10 ^ nat (b - a))" using assms(3) by simp
  then have m: "m = n * 10 ^ nat (b - a)" by (metis of_nat_eq_iff of_nat_mult)
  then have "nat (b - a) = 0" using assms(1) by (cases "nat (b - a)") auto
  then show ?thesis using m assms(2) by simp
qed

lemma unique_scaling:
  fixes m n :: nat
  assumes "\<not> 10 dvd m" and "\<not> 10 dvd n" and "real m * 10 powi a = real n * 10 powi b"
  shows "a = b \<and> m = n"
  using scaling_le[OF assms(1) _ assms(3)] scaling_le[OF assms(2) _ assms(3)[symmetric]]
  by (cases "a \<le> b") auto

lemma decimal_digits: "all_digits (show_nat n) \<and> digits_val 0 (show_nat n) = n"
proof (induction n rule: show_nat.induct)
  case (1 n)
  have last: "is_digit (char_of (48 + k))" "digit (char_of (48 + k)) = k" if "k < 10" for k :: nat
    using that by (simp_all add: is_digit_def digit_def of_char_of)
  show ?case
  proof (cases "n < 10")
    case True
    then show ?thesis using last by (simp add: show_nat.simps[of n])
  next
    case False
    then show ?thesis using 1 last[of "n mod 10"] by (simp add: show_nat.simps[of n] digits_val_append)
  qed
qed

lemma big_int_itoa: "big_int (itoa k) = k"
proof -
  obtain c cs where "show_nat (nat k) = c # cs" by (cases "show_nat (nat k)") auto
  then have "c \<noteq> CHR ''-'' \<and> c \<noteq> CHR ''+''" using decimal_digits[of "nat k"] by auto
  with \<open>show_nat (nat k) = c # cs\<close> show ?thesis
    using decimal_digits[of "nat k"] decimal_digits[of "nat (- k)"] by (auto simp: big_int_def itoa_def)
qed

text \<open>The significand and exponent that the spelling is made of.\<close>

definition significand :: "string \<Rightarrow> string" where
  "significand s =
     (let n = parse_number s in trim_right (CHR ''0'') (trim_left (CHR ''0'') (np_whole n @ np_fraction n)))"

definition scale :: "string \<Rightarrow> int" where
  "scale s =
     (let n = parse_number s; d = trim_left (CHR ''0'') (np_whole n @ np_fraction n)
      in (if np_exponent n \<noteq> [] then big_int (np_exponent n) else 0) +
         (int (length d) - int (length (significand s)) - int (length (np_fraction n))))"

lemma canonical_parts:
  assumes "valid_number s"
  shows "canonicalJSONNumber s =
      (if significand s = [] then ''0''
       else spelled (np_negative (parse_number s)) (significand s) [] (if scale s = 0 then [] else itoa (scale s)))"
    and "number_value s = (if np_negative (parse_number s) then -1 else 1) *
      real (digits_val 0 (significand s)) * 10 powi scale s"
    and "all_digits (significand s)"
    and "significand s \<noteq> [] \<Longrightarrow> hd (significand s) \<noteq> CHR ''0'' \<and> \<not> 10 dvd digits_val 0 (significand s)"
proof -
  obtain neg whole fraction ex where sp: "map lower s = spelled neg whole fraction ex"
    and d: "all_digits whole" "whole \<noteq> []" "all_digits fraction"
    using valid_spelled[OF assms] by blast
  note parse = parse_spelled[OF sp d]
  let ?ds = "trim_left (CHR ''0'') (whole @ fraction)"
  let ?t = "trim_right (CHR ''0'') ?ds"
  have sig: "significand s = ?t" by (simp add: significand_def parse)
  have hd_ds: "?ds \<noteq> [] \<Longrightarrow> hd ?ds \<noteq> CHR ''0''"
    unfolding trim_left_def by (rule hd_dropWhile)
  have ds: "all_digits ?ds"
    using d by (auto simp: trim_left_def list_all_iff dest!: set_dropWhileD)
  show digits: "all_digits (significand s)"
    unfolding sig using ds arg_cong[OF trim_right_split[of ?ds "CHR ''0''"], of set] by (auto simp: list_all_iff)
  show "hd (significand s) \<noteq> CHR ''0'' \<and> \<not> 10 dvd digits_val 0 (significand s)" if "significand s \<noteq> []"
    using that hd_ds digits not_dvd_last trim_right_last trim_right_hd unfolding sig
    by (metis dropWhile.simps(1) rev.simps(1) trim_right_def)
  have empty: "?t = [] \<longleftrightarrow> ?ds = []"
    using hd_ds trim_right_nonempty[of ?ds] by (auto simp: trim_right_def)
  show "canonicalJSONNumber s =
      (if significand s = [] then ''0''
       else spelled (np_negative (parse_number s)) (significand s) [] (if scale s = 0 then [] else itoa (scale s)))"
    unfolding canonicalJSONNumber_def Let_def sig scale_def parse
    using empty by (auto simp: spelled_def itoa_def)
  show "number_value s = (if np_negative (parse_number s) then -1 else 1) *
      real (digits_val 0 (significand s)) * 10 powi scale s"
  proof -
    let ?j = "length ?ds - length ?t"
    have "length ?t \<le> length ?ds" using arg_cong[OF trim_right_split[of ?ds "CHR ''0''"], of length] by simp
    then have sc: "scale s = number_exponent (parse_number s) + int ?j"
      by (simp add: scale_def number_exponent_def parse sig)
    have "digits_val 0 (whole @ fraction) = digits_val 0 ?t * 10 ^ ?j"
      using trim_left_val[of "whole @ fraction"] trim_right_val[of ?ds] d by simp
    then show ?thesis
      unfolding number_value_def Let_def sc by (simp add: parse sig power_int_add)
  qed
qed

lemma lower_itoa: "map lower (itoa k) = itoa k"
  using decimal_digits by (simp add: itoa_def lower_digits) (simp add: lower_def)

lemma itoa_nonempty [simp]: "itoa k \<noteq> []"
  by (simp add: itoa_def)

lemma canonical_value:
  assumes "valid_number s"
  shows "number_value (canonicalJSONNumber s) = number_value s"
proof (cases "significand s = []")
  case True
  have "number_value ''0'' = 0" by (simp add: number_value_def parse_number_def lower_def digit_def)
  then show ?thesis using canonical_parts(1,2)[OF assms] True by simp
next
  case False
  let ?neg = "np_negative (parse_number s)" and ?ex = "if scale s = 0 then [] else itoa (scale s)"
  have eq: "canonicalJSONNumber s = spelled ?neg (significand s) [] ?ex"
    using canonical_parts(1)[OF assms] False by simp
  have "map lower (canonicalJSONNumber s) = spelled ?neg (significand s) [] ?ex"
    unfolding eq spelled_def using canonical_parts(3)[OF assms]
    by (simp add: lower_digits lower_itoa) (simp add: lower_def)
  from parse_spelled[OF this canonical_parts(3)[OF assms] False]
  have "parse_number (canonicalJSONNumber s) =
      \<lparr>np_negative = ?neg, np_whole = significand s, np_fraction = [], np_exponent = ?ex\<rparr>" by simp
  then have "number_value (canonicalJSONNumber s) =
      (if ?neg then -1 else 1) * real (digits_val 0 (significand s)) * 10 powi scale s"
    by (simp add: number_value_def number_exponent_def big_int_itoa)
  then show ?thesis using canonical_parts(2)[OF assms] by simp
qed

lemma significand_pos:
  assumes "valid_number s" and "significand s \<noteq> []"
  shows "0 < real (digits_val 0 (significand s)) * 10 powi scale s"
proof -
  have "digits_val 0 (significand s) \<noteq> 0" using canonical_parts(4)[OF assms] by (metis dvd_0_right)
  then show ?thesis by simp
qed

lemma value_zero: "valid_number s \<Longrightarrow> number_value s = 0 \<longleftrightarrow> significand s = []"
  using significand_pos[of s]
  by (cases "significand s = []") (auto simp: canonical_parts(2) zero_less_mult_iff)

lemma equal_values_spelled:
  assumes "valid_number s" and "valid_number t" and "number_value s = number_value t"
  shows "canonicalJSONNumber s = canonicalJSONNumber t"
proof (cases "significand s = [] \<or> significand t = []")
  case True
  then have "significand s = [] \<and> significand t = []"
    using value_zero[OF assms(1)] value_zero[OF assms(2)] assms(3) by simp
  then show ?thesis using canonical_parts(1)[OF assms(1)] canonical_parts(1)[OF assms(2)] by simp
next
  case False
  let ?A = "\<lambda>u. real (digits_val 0 (significand u)) * 10 powi scale u"
  have pos: "0 < ?A s" "0 < ?A t" using False significand_pos assms(1,2) by auto
  have eq: "(if np_negative (parse_number s) then -1 else 1) * ?A s = (if np_negative (parse_number t) then -1 else 1) * ?A t"
    using assms(3) canonical_parts(2)[OF assms(1)] canonical_parts(2)[OF assms(2)] by (simp add: mult.assoc)
  then have neg: "np_negative (parse_number s) = np_negative (parse_number t)" and A: "?A s = ?A t"
    using pos by (auto split: if_splits)
  from False have "scale s = scale t \<and> digits_val 0 (significand s) = digits_val 0 (significand t)"
    using unique_scaling[OF _ _ A] canonical_parts(4)[OF assms(1)] canonical_parts(4)[OF assms(2)] by blast
  moreover from this have "significand s = significand t"
    using False digits_val_inj canonical_parts(3,4)[OF assms(1)] canonical_parts(3,4)[OF assms(2)] by blast
  ultimately show ?thesis
    using neg canonical_parts(1)[OF assms(1)] canonical_parts(1)[OF assms(2)] by simp
qed

text \<open>
  The spelling that goes into the configuration hash decides numeric equality: it denotes the
  number the token denotes, and two JSON number tokens are spelled alike exactly when they denote
  the same number, at any precision and any exponent.
\<close>

theorem canonicalJSONNumber_exact:
  assumes "valid_number s" and "valid_number t"
  shows "number_value (canonicalJSONNumber s) = number_value s \<and>
         (canonicalJSONNumber s = canonicalJSONNumber t \<longleftrightarrow> number_value s = number_value t)"
  using canonical_value[OF assms(1)] canonical_value[OF assms(2)] equal_values_spelled[OF assms] by auto

theorem canonicalJSONNumber_exact_witness:
  "number_value (canonicalJSONNumber ''1.50e3'') = number_value ''1.50e3'' \<and>
   canonicalJSONNumber ''1.50e3'' = canonicalJSONNumber ''1500'' \<and> number_value ''1.50e3'' = number_value ''1500''"
proof -
  have v: "valid_number ''1.50e3''" "valid_number ''1500''" by code_simp+
  have "canonicalJSONNumber ''1.50e3'' = canonicalJSONNumber ''1500''" by code_simp
  with canonicalJSONNumber_exact[OF v] show ?thesis by blast
qed

end
