(* ===== verification/OverlayProps.thy ===== *)
theory OverlayProps
  imports PlanBuilder NumberProps Fixtures "HOL-Library.Multiset"
begin

text \<open>
  What the configuration overlay says: its leaves are exactly the leaves of the operator's
  values, the engine's keys win or the plan is refused, and the hash that decides drift depends
  on the values and not on their spelling or order.
\<close>

subsection \<open>Leaves\<close>

fun is_object :: "json \<Rightarrow> bool" where
  "is_object (JObject _) = True"
| "is_object _ = False"

text \<open>\<open>has_leaf j p v\<close>: reading the path \<open>p\<close> in \<open>j\<close> gives the value \<open>v\<close>, which is not a table.\<close>

definition has_leaf :: "json \<Rightarrow> string list \<Rightarrow> json \<Rightarrow> bool" where
  "has_leaf j p v \<longleftrightarrow> json_at j p = Some v \<and> \<not> is_object v"

lemma leaf_root [simp]: "\<not> has_leaf (JObject t) [] v"
  by (auto simp: has_leaf_def)

lemma leaf_at: "has_leaf (JObject t) (k # p) v \<longleftrightarrow> (\<exists>j. map_of t k = Some j \<and> has_leaf j p v)"
  by (auto simp: has_leaf_def split: option.splits)

lemma leaf_scalar: "\<not> is_object j \<Longrightarrow> has_leaf j p v \<longleftrightarrow> p = [] \<and> v = j"
  by (cases j; cases p) (auto simp: has_leaf_def)

lemma leaf_empty [simp]: "\<not> has_leaf (JObject []) p v"
  by (cases p) (simp_all add: leaf_at)

lemma has_leaf_unique: "has_leaf j p v \<Longrightarrow> has_leaf j p w \<Longrightarrow> v = w"
  by (simp add: has_leaf_def)

lemma has_leaf_put:
  "has_leaf (JObject (put k j t)) p v \<longleftrightarrow>
     (if p \<noteq> [] \<and> hd p = k then has_leaf j (tl p) v else has_leaf (JObject t) p v)"
  by (cases p) (auto simp: leaf_at)

lemma has_leaf_Cons:
  "k \<notin> fst ` set t \<Longrightarrow> has_leaf (JObject ((k, j) # t)) p v \<longleftrightarrow>
     (if p \<noteq> [] \<and> hd p = k then has_leaf j (tl p) v else has_leaf (JObject t) p v)"
  by (cases p) (auto simp: leaf_at)

lemma has_leaf_absent: "k \<notin> fst ` set t \<Longrightarrow> \<not> has_leaf (JObject t) (k # p) v"
  by (auto dest: map_of_SomeD simp: leaf_at rev_image_eqI)

lemma nest_leaf: "has_leaf (nest ks j) p v \<longleftrightarrow> (\<exists>q. p = ks @ q \<and> has_leaf j q v)"
proof (induction ks arbitrary: p)
  case (Cons k ks)
  show ?case by (cases p) (auto simp: Cons leaf_at)
qed simp

lemma nest_wf: "json_wf j \<Longrightarrow> json_wf (nest ks j)"
  by (induction ks) auto

lemma wf_put: "json_wf (JObject t) \<Longrightarrow> json_wf j \<Longrightarrow> json_wf (JObject (put k j t))"
proof (induction t)
  case (Cons kv t)
  then show ?case using distinct_put[of "kv # t" k j] by (cases kv) auto
qed simp

lemma wf_value: "json_wf (JObject t) \<Longrightarrow> map_of t k = Some j \<Longrightarrow> json_wf j"
  by (auto dest!: map_of_SomeD)

subsection \<open>Inserting one entry\<close>

text \<open>Every entry of a table has an origin with a non-empty key, at every depth.\<close>

fun origins_ok :: "overlayOrigin \<Rightarrow> json \<Rightarrow> bool" where
  "origins_ok org (JObject kvs) =
     (\<forall>kv \<in> set kvs. origin_key (child org (fst kv)) \<noteq> [] \<and> origins_ok (child org (fst kv)) (snd kv))"
| "origins_ok org _ = True"

lemma child_set_child [simp]: "child (set_child org k c) k' = (if k' = k then c else child org k')"
  by (simp add: child_def set_child_def)

lemma origins_ok_lookup:
  "origins_ok org (JObject t) \<Longrightarrow> map_of t k = Some j \<Longrightarrow>
   origin_key (child org k) \<noteq> [] \<and> origins_ok (child org k) j"
  by (auto dest!: map_of_SomeD)

lemma put_distinct_set:
  "distinct (map fst t) \<Longrightarrow> kv \<in> set (put k j t) \<longleftrightarrow> kv = (k, j) \<or> kv \<in> set t \<and> fst kv \<noteq> k"
  by (induction t) (auto simp: rev_image_eqI split: if_splits)

lemma origins_ok_put:
  assumes "origins_ok org (JObject t)" and "distinct (map fst t)" and "origin_key c \<noteq> []" and "origins_ok c j"
  shows "origins_ok (set_child org k c) (JObject (put k j t))"
  using assms by (auto simp: put_distinct_set)

definition inserted :: "table \<Rightarrow> table \<Rightarrow> table \<Rightarrow> overlayOrigin \<Rightarrow> overlayOrigin \<Rightarrow> bool" where
  "inserted dst src dst' org org' \<longleftrightarrow>
     json_wf (JObject dst') \<and> origins_ok org' (JObject dst') \<and> origin_key org' = origin_key org \<and>
     (\<forall>p v. has_leaf (JObject dst') p v \<longleftrightarrow> has_leaf (JObject dst) p v \<or> has_leaf (JObject src) p v)"

text \<open>One turn of the loop: the value now stored under \<open>k\<close> holds the leaves that were there and
  those of the incoming value, and the rest of the source follows.\<close>

lemma inserted_step:
  assumes "json_wf (JObject (put k j' dst)) \<Longrightarrow> origins_ok (set_child org k c) (JObject (put k j' dst)) \<Longrightarrow>
      inserted (put k j' dst) rest dst' (set_child org k c) org'"
    and "k \<notin> fst ` set rest" and "json_wf (JObject dst)" and "origins_ok org (JObject dst)"
    and "json_wf j'" and "origins_ok c j'" and "origin_key c \<noteq> []"
    and "\<And>p v. has_leaf j' p v \<longleftrightarrow> has_leaf (JObject dst) (k # p) v \<or> has_leaf j p v"
  shows "inserted dst ((k, j) # rest) dst' org org'"
proof -
  have ins: "inserted (put k j' dst) rest dst' (set_child org k c) org'"
    using assms(3) by (intro assms(1) wf_put origins_ok_put assms(3-7)) simp
  have "has_leaf (JObject dst') p v \<longleftrightarrow> has_leaf (JObject dst) p v \<or> has_leaf (JObject ((k, j) # rest)) p v" for p v
  proof (cases "p \<noteq> [] \<and> hd p = k")
    case True
    then obtain q where "p = k # q" by (cases p) auto
    then show ?thesis
      using ins assms(8)[of q v] has_leaf_absent[OF assms(2), of q v]
      by (auto simp: inserted_def has_leaf_put has_leaf_Cons[OF assms(2)])
  next
    case False
    then show ?thesis using ins has_leaf_Cons[OF assms(2)] by (auto simp: inserted_def has_leaf_put)
  qed
  then show ?thesis using ins by (simp add: inserted_def set_child_def)
qed

lemma insertOverlay_inserted:
  assumes "insertOverlay dst src org key = ([], dst', org')" and "key \<noteq> []"
    and "json_wf (JObject dst)" and "json_wf (JObject src)" and "origins_ok org (JObject dst)"
  shows "inserted dst src dst' org org'"
  using assms
proof (induction dst src org key arbitrary: dst' org' rule: insertOverlay.induct)
  case (1 dst org key)
  then show ?case by (simp add: inserted_def)
next
  case (2 dst name val rest org key)
  have rest: "name \<notin> fst ` set rest" "json_wf (JObject rest)" "json_wf val" using "2.prems"(4) by auto
  note step = inserted_step[OF _ rest(1) "2.prems"(3,5)]
  show ?case
  proof (cases "map_of dst name")
    case None
    then have new: "\<not> has_leaf (JObject dst) (name # p) v" for p v by (simp add: leaf_at)
    show ?thesis
    proof (cases "is_object val")
      case True
      then obtain incoming where val: "val = JObject incoming" by (cases val) auto
      obtain conflict cur o' where ins: "insertOverlay [] incoming (Origin key []) key = (conflict, cur, o')"
        by (cases "insertOverlay [] incoming (Origin key []) key")
      have ok: "conflict = []" "insertOverlay (put name (JObject cur) dst) rest (set_child org name o') key = ([], dst', org')"
        using "2.prems"(1,2) None val ins by (auto split: if_splits)
      have sub: "inserted [] incoming cur (Origin key []) o'"
        using "2.IH"(6)[OF None val] ins ok(1) "2.prems"(2) rest(3) val by simp
      have "inserted (put name (JObject cur) dst) rest dst' (set_child org name o') org'"
        if "json_wf (JObject (put name (JObject cur) dst))"
          "origins_ok (set_child org name o') (JObject (put name (JObject cur) dst))"
        using "2.IH"(7)[OF None val ins[symmetric] refl _ ok(2) "2.prems"(2) that(1) rest(2) that(2)] ok(1) by simp
      from step[OF this] show ?thesis
        using sub new val "2.prems"(2) by (simp add: inserted_def)
    next
      case False
      then have ok: "insertOverlay (put name val dst) rest (set_child org name (Origin key [])) key = ([], dst', org')"
        using "2.prems"(1) None by (cases val) auto
      have "inserted (put name val dst) rest dst' (set_child org name (Origin key [])) org'"
        if "json_wf (JObject (put name val dst))"
          "origins_ok (set_child org name (Origin key [])) (JObject (put name val dst))"
        using False None ok "2.IH"(1-5) "2.prems"(2) that rest(2) by (cases val) simp_all
      from step[OF this rest(3)] show ?thesis
        using False new "2.prems"(2) by (cases val) simp_all
    qed
  next
    case (Some previous)
    have org: "origin_key (child org name) \<noteq> []" "origins_ok (child org name) previous"
      using origins_ok_lookup[OF "2.prems"(5) Some] by auto
    then obtain incoming current where objs: "val = JObject incoming" "previous = JObject current"
      using "2.prems"(1) Some by (cases val; cases previous) auto
    obtain conflict cur o' where ins: "insertOverlay current incoming (child org name) key = (conflict, cur, o')"
      by (cases "insertOverlay current incoming (child org name) key")
    have ok: "conflict = []" "insertOverlay (put name (JObject cur) dst) rest (set_child org name o') key = ([], dst', org')"
      using "2.prems"(1,2) Some objs ins by (auto split: if_splits)
    have sub: "inserted current incoming cur (child org name) o'"
      using "2.IH"(8)[OF Some refl objs] ins ok(1) "2.prems"(2) rest(3) objs org(2) wf_value[OF "2.prems"(3) Some] by simp
    have "inserted (put name (JObject cur) dst) rest dst' (set_child org name o') org'"
      if "json_wf (JObject (put name (JObject cur) dst))"
        "origins_ok (set_child org name o') (JObject (put name (JObject cur) dst))"
      using "2.IH"(9)[OF Some refl objs ins[symmetric] refl _ ok(2) "2.prems"(2) that(1) rest(2) that(2)] ok(1) by simp
    from step[OF this] show ?thesis
      using sub Some objs org by (simp add: inserted_def leaf_at)
  qed
qed

subsection \<open>The operator's overlay\<close>

text \<open>What the API server admits: a key is not empty, and a decoded JSON object has distinct keys.\<close>

definition admitted :: "ConfigValue \<Rightarrow> bool" where
  "admitted e \<longleftrightarrow> cv_Key e \<noteq> [] \<and> (\<forall>j. cv_Value e = Some j \<longrightarrow> json_wf j)"

definition file_leaf :: "files \<Rightarrow> string \<Rightarrow> string list \<Rightarrow> json \<Rightarrow> bool" where
  "file_leaf fs f p v \<longleftrightarrow> (\<exists>t. map_of fs f = Some t \<and> has_leaf (JObject t) p v)"

definition entry_leaf :: "ConfigValue \<Rightarrow> string \<Rightarrow> string list \<Rightarrow> json \<Rightarrow> bool" where
  "entry_leaf e f p v \<longleftrightarrow>
     f = cv_FileName e \<and>
     (\<exists>j q. cv_Value e = Some j \<and> p = split_on (CHR ''.'') (cv_Key e) @ q \<and> has_leaf j q v)"

definition files_wf :: "files \<Rightarrow> bool" where
  "files_wf fs \<longleftrightarrow> (\<forall>f t. map_of fs f = Some t \<longrightarrow> json_wf (JObject t))"

lemma files_wf_put: "files_wf fs \<Longrightarrow> json_wf (JObject t) \<Longrightarrow> files_wf (put f t fs)"
  by (auto simp: files_wf_def split: if_splits)

lemma file_leaf_put:
  "file_leaf (put f t fs) g p v \<longleftrightarrow> (if g = f then has_leaf (JObject t) p v else file_leaf fs g p v)"
  by (auto simp: file_leaf_def)

definition overlay_ok :: "overlay_state \<Rightarrow> bool" where
  "overlay_ok st \<longleftrightarrow>
     files_wf (fst st) \<and>
     (\<forall>f t. map_of (fst st) f = Some t \<longrightarrow>
        (\<exists>org. map_of (snd st) f = Some org \<and> origins_ok org (JObject t)))"

lemma split_on_nonempty: "split_on c s \<noteq> []"
  by (cases s) (auto split: list.splits)

lemma overlay_entry_leaves:
  assumes "overlay_entry st e = Inr st'" and "overlay_ok st" and "admitted e"
  shows "overlay_ok st' \<and> (\<forall>f p v. file_leaf (fst st') f p v \<longleftrightarrow> file_leaf (fst st) f p v \<or> entry_leaf e f p v)"
proof -
  let ?file = "cv_FileName e" and ?path = "split_on (CHR ''.'') (cv_Key e)"
  obtain fs origins where st: "st = (fs, origins)" by (cases st)
  let ?t = "case map_of fs ?file of Some t \<Rightarrow> t | None \<Rightarrow> []"
  let ?org = "case map_of origins ?file of Some r \<Rightarrow> r | None \<Rightarrow> Origin [] []"
  obtain j src t' org' where j: "cv_Value e = Some j" and src: "nest ?path j = JObject src"
    and ins: "insertOverlay ?t src ?org (cv_Key e) = ([], t', org')"
    and st': "st' = (put ?file t' fs, put ?file org' origins)"
    using assms(1) unfolding overlay_entry_def st
    by (auto simp: Let_def split: if_splits option.splits json.splits prod.splits)
  have "json_wf (JObject src)" using assms(3) j nest_wf[of j ?path] by (simp add: admitted_def flip: src)
  moreover have "json_wf (JObject ?t)" using assms(2) st by (cases "map_of fs ?file") (simp_all add: overlay_ok_def files_wf_def)
  moreover have "origins_ok ?org (JObject ?t)"
  proof (cases "map_of fs ?file")
    case (Some t)
    then obtain org where "map_of origins ?file = Some org" "origins_ok org (JObject t)"
      using assms(2) st unfolding overlay_ok_def by force
    then show ?thesis using Some by simp
  qed simp
  ultimately have new: "inserted ?t src t' ?org org'"
    using insertOverlay_inserted[OF ins] assms(3) by (simp add: admitted_def)
  then have "overlay_ok st'"
    using assms(2) st st' files_wf_put by (auto simp: overlay_ok_def inserted_def)
  moreover have "file_leaf (fst st') f p v \<longleftrightarrow> file_leaf (fst st) f p v \<or> entry_leaf e f p v" for f p v
  proof (cases "f = ?file")
    case True
    have "has_leaf (JObject t') p v \<longleftrightarrow> has_leaf (JObject ?t) p v \<or> has_leaf (nest ?path j) p v"
      using new src by (simp add: inserted_def)
    moreover have "has_leaf (JObject ?t) p v \<longleftrightarrow> file_leaf fs f p v"
      using True by (auto simp: file_leaf_def split: option.splits)
    ultimately show ?thesis using True j by (simp add: st' st file_leaf_put entry_leaf_def nest_leaf)
  next
    case False
    then show ?thesis by (simp add: st' st file_leaf_put entry_leaf_def)
  qed
  ultimately show ?thesis by blast
qed

lemma overlay_entries_leaves:
  assumes "overlay_entries st es = Inr st'" and "overlay_ok st" and "\<forall>e \<in> set es. admitted e"
  shows "overlay_ok st' \<and>
    (\<forall>f p v. file_leaf (fst st') f p v \<longleftrightarrow> file_leaf (fst st) f p v \<or> (\<exists>e \<in> set es. entry_leaf e f p v))"
  using assms
proof (induction es arbitrary: st)
  case (Cons e es)
  then obtain st1 where st1: "overlay_entry st e = Inr st1" "overlay_entries st1 es = Inr st'"
    by (auto split: sum.splits)
  with overlay_entry_leaves[OF st1(1)] Cons show ?case by auto
qed simp

lemma configValuesOverlay_leaves:
  assumes "configValuesOverlay es = Inr fs" and "\<forall>e \<in> set es. admitted e"
  shows "files_wf fs \<and> (\<forall>f p v. file_leaf fs f p v \<longleftrightarrow> (\<exists>e \<in> set es. entry_leaf e f p v))"
proof -
  obtain orgs where "overlay_entries ([], []) es = Inr (fs, orgs)"
    using assms(1) by (auto simp: configValuesOverlay_def split: sum.splits)
  from overlay_entries_leaves[OF this _ assms(2)] show ?thesis
    by (auto simp: overlay_ok_def files_wf_def file_leaf_def)
qed

subsection \<open>The engine's overlay\<close>

text \<open>A merge holds the leaves of both tables, and the controller's leaves sit where the operator
  set nothing at all.\<close>

definition merged :: "table \<Rightarrow> table \<Rightarrow> table \<Rightarrow> bool" where
  "merged dst src dst' \<longleftrightarrow>
     json_wf (JObject dst') \<and>
     (\<forall>p v. has_leaf (JObject dst') p v \<longleftrightarrow> has_leaf (JObject dst) p v \<or> has_leaf (JObject src) p v) \<and>
     (\<forall>p v. has_leaf (JObject src) p v \<longrightarrow> json_at (JObject dst) p = None)"

lemma merged_step:
  assumes "merged (put k j' dst) rest dst'" and "k \<notin> fst ` set rest"
    and "\<And>p v. has_leaf j' p v \<longleftrightarrow> has_leaf (JObject dst) (k # p) v \<or> has_leaf j p v"
    and "\<And>p v. has_leaf j p v \<Longrightarrow> json_at (JObject dst) (k # p) = None"
  shows "merged dst ((k, j) # rest) dst'"
proof -
  have "(has_leaf (JObject dst') p v \<longleftrightarrow> has_leaf (JObject dst) p v \<or> has_leaf (JObject ((k, j) # rest)) p v) \<and>
    (has_leaf (JObject ((k, j) # rest)) p v \<longrightarrow> json_at (JObject dst) p = None)" for p v
  proof (cases "p \<noteq> [] \<and> hd p = k")
    case True
    then obtain q where "p = k # q" by (cases p) auto
    then show ?thesis
      using assms(1) assms(3)[of q v] assms(4)[of q v] has_leaf_absent[OF assms(2), of q v]
      by (auto simp: merged_def has_leaf_put has_leaf_Cons[OF assms(2)])
  next
    case False
    then show ?thesis
      using assms(1) has_leaf_Cons[OF assms(2)] by (cases p) (auto simp: merged_def has_leaf_put)
  qed
  then show ?thesis using assms(1) by (simp add: merged_def)
qed

lemma mergeTables_merged:
  assumes "mergeTables dst src fname prefix = Inr dst'" and "json_wf (JObject dst)" and "json_wf (JObject src)"
  shows "merged dst src dst'"
  using assms
proof (induction dst src fname prefix arbitrary: dst' rule: mergeTables.induct)
  case (1 dst fname prefix)
  then show ?case by (simp add: merged_def)
next
  case (2 dst key val rest fname prefix)
  have rest: "key \<notin> fst ` set rest" "json_wf (JObject rest)" "json_wf val" using "2.prems"(3) by auto
  show ?case
  proof (cases "map_of dst key")
    case None
    then have "mergeTables (put key val dst) rest fname prefix = Inr dst'" using "2.prems"(1) by simp
    from "2.IH"(1)[OF None this wf_put[OF "2.prems"(2) rest(3)] rest(2)]
    show ?thesis by (rule merged_step[OF _ rest(1)]) (simp_all add: None leaf_at)
  next
    case (Some taken)
    then obtain incoming current where objs: "val = JObject incoming" "taken = JObject current"
      using "2.prems"(1) by (cases val; cases taken) auto
    then obtain cur where cur: "mergeTables current incoming fname (prefix @ key @ ''.'') = Inr cur"
      and ok: "mergeTables (put key (JObject cur) dst) rest fname prefix = Inr dst'"
      using "2.prems"(1) Some by (auto split: sum.splits)
    have sub: "merged current incoming cur"
      using "2.IH"(2)[OF Some refl objs cur] rest(3) objs wf_value[OF "2.prems"(2) Some] by simp
    then have "json_wf (JObject cur)" by (simp add: merged_def)
    from "2.IH"(3)[OF Some refl objs cur ok wf_put[OF "2.prems"(2) this] rest(2)]
    show ?thesis
      by (rule merged_step[OF _ rest(1)]) (use sub Some objs in \<open>auto simp: merged_def leaf_at\<close>)
  qed
qed

definition files_at :: "files \<Rightarrow> string \<Rightarrow> string list \<Rightarrow> json option" where
  "files_at fs f p = (case map_of fs f of None \<Rightarrow> None | Some t \<Rightarrow> json_at (JObject t) p)"

lemma files_wf_Cons:
  "f \<notin> fst ` set fs \<Longrightarrow> files_wf ((f, t) # fs) \<longleftrightarrow> json_wf (JObject t) \<and> files_wf fs"
  unfolding files_wf_def
  by (simp del: json_wf.simps(1)) (metis map_of_eq_None_iff option.distinct(1))

lemma file_leaf_Cons:
  "f \<notin> fst ` set fs \<Longrightarrow> file_leaf ((f, t) # fs) g p v \<longleftrightarrow>
     (if g = f then has_leaf (JObject t) p v else file_leaf fs g p v)"
  by (auto simp: file_leaf_def)

lemma file_leaf_absent: "f \<notin> fst ` set fs \<Longrightarrow> \<not> file_leaf fs f p v"
  by (auto simp: file_leaf_def rev_image_eqI dest!: map_of_SomeD)

lemma merge_files_merged:
  assumes "merge_files user ctl = Inr fs" and "files_wf user" and "files_wf ctl" and "distinct (map fst ctl)"
  shows "files_wf fs \<and>
    (\<forall>f p v. file_leaf fs f p v \<longleftrightarrow> file_leaf user f p v \<or> file_leaf ctl f p v) \<and>
    (\<forall>f p v. file_leaf ctl f p v \<longrightarrow> files_at user f p = None)"
  using assms
proof (induction user ctl rule: merge_files.induct)
  case (1 user)
  then show ?case by (simp add: file_leaf_def)
next
  case (2 user fname table rest)
  let ?cur = "case map_of user fname of Some t \<Rightarrow> t | None \<Rightarrow> []"
  obtain m where m: "mergeTables ?cur table fname [] = Inr m" and ok: "merge_files (put fname m user) rest = Inr fs"
    using "2.prems"(1) by (auto simp: Let_def split: sum.splits)
  have new: "fname \<notin> fst ` set rest" using "2.prems"(4) by simp
  have wf: "json_wf (JObject ?cur)"
    using "2.prems"(2) by (cases "map_of user fname") (simp_all add: files_wf_def)
  moreover have "json_wf (JObject table)" "files_wf rest"
    using "2.prems"(3) files_wf_Cons[OF new] by blast+
  ultimately have sub: "merged ?cur table m" using mergeTables_merged[OF m] by simp
  then have "json_wf (JObject m)" by (simp add: merged_def)
  from "2.IH"[OF refl m ok files_wf_put[OF "2.prems"(2) this] \<open>files_wf rest\<close>] "2.prems"(4)
  have IH: "files_wf fs"
    "\<And>f p v. file_leaf fs f p v \<longleftrightarrow> file_leaf (put fname m user) f p v \<or> file_leaf rest f p v"
    "\<And>f p v. file_leaf rest f p v \<Longrightarrow> files_at (put fname m user) f p = None"
    unfolding list.map distinct.simps by blast+
  have cur: "has_leaf (JObject ?cur) p v \<longleftrightarrow> file_leaf user fname p v" for p v
    by (auto simp: file_leaf_def split: option.splits)
  have at_cur: "has_leaf (JObject table) p v \<Longrightarrow> files_at user fname p = None" for p v
    using sub by (auto simp: merged_def files_at_def split: option.splits)
  have "file_leaf fs f p v \<longleftrightarrow> file_leaf user f p v \<or> file_leaf ((fname, table) # rest) f p v" for f p v
    using sub file_leaf_absent[OF new]
    by (auto simp: IH(2) file_leaf_put file_leaf_Cons[OF new] merged_def cur)
  moreover have "files_at user f p = None" if "file_leaf ((fname, table) # rest) f p v" for f p v
    using that IH(3)[of f p v] at_cur[of p v] by (auto simp: file_leaf_Cons[OF new] files_at_def split: if_splits)
  ultimately show ?case using IH(1) by blast
qed

definition engine_leaf :: "SeiNode \<Rightarrow> string \<Rightarrow> string list \<Rightarrow> json \<Rightarrow> bool" where
  "engine_leaf n f p v \<longleftrightarrow> (\<exists>c. consensusOverlay n = Some c \<and> file_leaf c f p v)"

lemma consensusOverlay_wf:
  assumes "consensusOverlay n = Some c"
  shows "files_wf c \<and> distinct (map fst c)"
  using assms by (auto simp: consensusOverlay_def Let_def files_wf_def split: if_splits)

text \<open>What a task is to do, and a plan's steps with one more config-patch right before every
  config-validate.\<close>

definition step_of :: "PlannedTask \<Rightarrow> TaskType \<times> TaskParams" where
  "step_of t = (pt_Type t, pt_Params t)"

fun patched_steps :: "files \<Rightarrow> (TaskType \<times> TaskParams) list \<Rightarrow> (TaskType \<times> TaskParams) list" where
  "patched_steps fs [] = []"
| "patched_steps fs ((ty, p) # steps) =
     (if ty = ConfigValidate then [(ConfigPatch, ConfigPatchParams fs)] else []) @ (ty, p) # patched_steps fs steps"

lemma splice_steps:
  "splice_overlay E pid patch k ts = Inr us \<Longrightarrow> map step_of us = patched_steps patch (map step_of ts)"
proof (induction ts arbitrary: k us)
  case (Cons planned ts)
  then show ?case
    by (auto simp: buildPlannedTask_def marshalParams_def step_of_def split: if_splits sum.splits)
qed simp

lemma patched_length:
  "ConfigValidate \<notin> fst ` set steps \<Longrightarrow> length (patched_steps fs steps) = length steps"
  by (induction fs steps rule: patched_steps.induct) auto

text \<open>An EVM-only Autobahn node with one operator value, and the task its patch goes before.\<close>

definition overlay_node :: SeiNode where
  "overlay_node =
     demo_node\<lparr>node_Spec := demo_spec\<lparr>
       spec_Consensus := Some \<lparr>cons_Engine = ConsensusEngineAutobahn, cons_EvmOnly = True\<rparr>,
       spec_ConfigValues := [\<lparr>cv_FileName = ''app.toml'', cv_Key = ''evm.http_port'', cv_Value = Some (JString ''8545'')\<rparr>]\<rparr>\<rparr>"

definition demo_validate :: PlannedTask where
  "demo_validate =
     \<lparr>pt_Type = ConfigValidate, pt_ID = ''v'', pt_Status = TaskPending, pt_Params = EmptyParams,
      pt_SubmittedAt = None, pt_Error = [], pt_MaxRetries = 0, pt_RetryCount = 0\<rparr>"

text \<open>
  C37. What the configValues of a node add to a plan, any plan of the planners (those for a new node
  and those that update a Running one, which carry a config-patch for the p2p keys already).  A
  node with neither configValues nor a consensus engine keeps the plan's tasks.  For admitted
  configValues every other plan has a config-validate and gains one config-patch right before it,
  after every other config-patch, and nothing else.  The leaves of that patch are exactly those
  the operator set, at the dotted path of their entry, and the keys the consensus engine needs;
  no operator entry reaches a path the engine owns.  A conflict between two entries or with the
  engine therefore never ends in one value silently replacing the other.
\<close>

theorem config_patch_exact:
  assumes "withConfigValues E plan n = Inr plan'" and "\<forall>e \<in> set (spec_ConfigValues (node_Spec n)). admitted e"
  shows "if spec_ConfigValues (node_Spec n) = [] \<and> consensusOverlay n = None
     then plan_Tasks plan' = plan_Tasks plan
     else ConfigValidate \<in> pt_Type ` set (plan_Tasks plan) \<and>
       (\<exists>fs. map step_of (plan_Tasks plan') = patched_steps fs (map step_of (plan_Tasks plan)) \<and>
         (\<forall>f p v. file_leaf fs f p v \<longleftrightarrow>
            (\<exists>e \<in> set (spec_ConfigValues (node_Spec n)). entry_leaf e f p v) \<or> engine_leaf n f p v) \<and>
         (\<forall>f p v. engine_leaf n f p v \<longrightarrow> (\<forall>e \<in> set (spec_ConfigValues (node_Spec n)). \<forall>w. \<not> entry_leaf e f p w)))"
proof (cases "spec_ConfigValues (node_Spec n) = [] \<and> consensusOverlay n = None")
  case True
  then show ?thesis using assms(1) by (auto simp: withConfigValues_def Let_def split: sum.splits)
next
  case False
  let ?es = "spec_ConfigValues (node_Spec n)"
  obtain user m tasks where user: "configValuesOverlay ?es = Inr user"
    and m: "mergeOverlayPatches (Some user) (consensusOverlay n) = Inr m"
    and tasks: "splice_overlay E (plan_ID plan) (case m of Some p \<Rightarrow> p | None \<Rightarrow> []) 0 (plan_Tasks plan) = Inr tasks"
    and len: "length tasks \<noteq> length (plan_Tasks plan)" and plan': "plan_Tasks plan' = tasks"
    using assms(1) False by (auto simp: withConfigValues_def Let_def split: sum.splits if_splits)
  let ?fs = "case m of Some p \<Rightarrow> p | None \<Rightarrow> []"
  note steps = splice_steps[OF tasks]
  have validate: "ConfigValidate \<in> pt_Type ` set (plan_Tasks plan)"
  proof (rule ccontr)
    assume "ConfigValidate \<notin> pt_Type ` set (plan_Tasks plan)"
    then have "ConfigValidate \<notin> fst ` set (map step_of (plan_Tasks plan))" by (auto simp: step_of_def)
    from patched_length[OF this] steps len show False by (metis length_map)
  qed
  note leaves = configValuesOverlay_leaves[OF user assms(2)]
  have "(\<forall>f p v. file_leaf ?fs f p v \<longleftrightarrow> (\<exists>e \<in> set ?es. entry_leaf e f p v) \<or> engine_leaf n f p v) \<and>
      (\<forall>f p v. engine_leaf n f p v \<longrightarrow> (\<forall>e \<in> set ?es. \<forall>w. \<not> entry_leaf e f p w))"
  proof (cases "consensusOverlay n")
    case None
    then have "m = Some user" using m by (simp add: mergeOverlayPatches_def)
    then show ?thesis using leaves None by (simp add: engine_leaf_def)
  next
    case (Some c)
    then obtain fs where fs: "merge_files user c = Inr fs" "m = Some fs"
      using m by (auto simp: mergeOverlayPatches_def split: sum.splits)
    have "\<not> entry_leaf e f p w" if "file_leaf c f p v" "e \<in> set ?es" for f p v e w
      using merge_files_merged[OF fs(1)] consensusOverlay_wf[OF Some] leaves that
      by (metis file_leaf_def files_at_def has_leaf_def option.case(2) option.distinct(1))
    then show ?thesis
      using fs(2) merge_files_merged[OF fs(1)] consensusOverlay_wf[OF Some] leaves Some
      by (auto simp: engine_leaf_def)
  qed
  then show ?thesis using False steps plan' validate by auto
qed

text \<open>The tasks of a configuration update: the p2p patch stays as it is, the overlay comes after it.\<close>

definition demo_p2p_patch :: PlannedTask where
  "demo_p2p_patch = demo_validate\<lparr>pt_Type := ConfigPatch, pt_ID := ''c'',
     pt_Params := ConfigPatchParams [(''config.toml'', [(''p2p'', JObject [(''persistent-peers'', JString [])])])]\<rparr>"

theorem config_patch_exact_witness:
  "case withConfigValues demo_ext (new_plan ''p'' [demo_p2p_patch, demo_validate] PhaseRunning PhaseUnset) overlay_node of
     Inl _ \<Rightarrow> False
   | Inr plan' \<Rightarrow> (\<exists>fs. map step_of (plan_Tasks plan') =
         [step_of demo_p2p_patch, (ConfigPatch, ConfigPatchParams fs), step_of demo_validate] \<and>
       file_leaf fs ''app.toml'' [''evm'', ''http_port''] (JString ''8545'') \<and>
       file_leaf fs ''app.toml'' [''evm'', ''ws_enabled''] (JBool True))"
proof -
  let ?plan = "new_plan ''p'' [demo_p2p_patch, demo_validate] PhaseRunning PhaseUnset"
  let ?r = "withConfigValues demo_ext ?plan overlay_node"
  have "case ?r of Inl _ \<Rightarrow> False | Inr q \<Rightarrow> True" by code_simp
  then obtain q where q: "?r = Inr q" by (auto split: sum.splits)
  have ok: "\<forall>e \<in> set (spec_ConfigValues (node_Spec overlay_node)). admitted e"
    and vals: "spec_ConfigValues (node_Spec overlay_node) \<noteq> []"
    by (simp_all add: overlay_node_def demo_defs admitted_def)
  then obtain fs where fs: "map step_of (plan_Tasks q) = patched_steps fs (map step_of (plan_Tasks ?plan))"
    "\<And>f p v. file_leaf fs f p v \<longleftrightarrow>
        (\<exists>e \<in> set (spec_ConfigValues (node_Spec overlay_node)). entry_leaf e f p v) \<or> engine_leaf overlay_node f p v"
    using config_patch_exact[OF q ok] by auto
  have "entry_leaf (hd (spec_ConfigValues (node_Spec overlay_node))) ''app.toml'' [''evm'', ''http_port''] (JString ''8545'')"
    by (simp add: entry_leaf_def overlay_node_def demo_defs leaf_scalar)
  then have "file_leaf fs ''app.toml'' [''evm'', ''http_port''] (JString ''8545'')"
    using fs(2) list.set_sel(1)[OF vals] by blast
  moreover have "case consensusOverlay overlay_node of None \<Rightarrow> False | Some c \<Rightarrow>
      (case map_of c ''app.toml'' of None \<Rightarrow> False | Some t \<Rightarrow>
         json_at (JObject t) [''evm'', ''ws_enabled''] = Some (JBool True))" by code_simp
  then have "engine_leaf overlay_node ''app.toml'' [''evm'', ''ws_enabled''] (JBool True)"
    by (auto simp: engine_leaf_def file_leaf_def has_leaf_def split: option.splits)
  ultimately show ?thesis using fs q
    by (auto simp: new_plan_def step_of_def demo_p2p_patch_def demo_validate_def)
qed

subsection \<open>The hash\<close>

text \<open>Two JSON values that differ only in the order of object members and the spelling of numbers.\<close>

inductive same_json :: "json \<Rightarrow> json \<Rightarrow> bool" where
  same_null: "same_json JNull JNull"
| same_bool: "same_json (JBool b) (JBool b)"
| same_string: "same_json (JString s) (JString s)"
| same_number: "valid_number s \<Longrightarrow> valid_number t \<Longrightarrow> number_value s = number_value t \<Longrightarrow>
    same_json (JNumber s) (JNumber t)"
| same_array: "list_all2 same_json xs ys \<Longrightarrow> same_json (JArray xs) (JArray ys)"
| same_object: "distinct (map fst xs) \<Longrightarrow> list_all2 (\<lambda>a b. fst a = fst b \<and> same_json (snd a) (snd b)) xs zs \<Longrightarrow>
    mset zs = mset ys \<Longrightarrow> same_json (JObject xs) (JObject ys)"

lemma map_eq_all2:
  assumes "list_all2 R xs ys" and "\<And>x y. R x y \<Longrightarrow> f x = f y"
  shows "map f xs = map f ys"
  using assms(1) by (induction rule: list_all2_induct) (simp_all add: assms(2))

lemma same_json_encode: "same_json a b \<Longrightarrow> json_encode (canonicalJSONValue a) = json_encode (canonicalJSONValue b)"
proof (induction rule: same_json.induct)
  case (same_number s t)
  from equal_values_spelled[OF this] show ?case by simp
next
  case (same_array xs ys)
  then have "map (json_encode \<circ> canonicalJSONValue) xs = map (json_encode \<circ> canonicalJSONValue) ys"
    by (rule map_eq_all2) simp
  then show ?case by (simp add: comp_def)
next
  case (same_object xs zs ys)
  let ?g = "\<lambda>kv. (fst kv, json_encode (canonicalJSONValue (snd kv)))"
  have eq: "map ?g xs = map ?g zs"
    using same_object.IH by (rule map_eq_all2) simp
  have "mset (map ?g xs) = mset (map ?g ys)" unfolding eq by (simp only: mset_map same_object.hyps(2))
  moreover have "distinct (map fst (map ?g xs))" using same_object.hyps(1) by (simp add: comp_def)
  then have "inj_on fst (set (map ?g xs))" using distinct_map[of fst "map ?g xs"] by blast
  ultimately have "sort_key fst (map ?g xs) = sort_key fst (map ?g ys)"
    by (intro sort_key_inj_key_eq) simp_all
  then show ?case by (simp add: comp_def)
qed simp_all

definition same_entry :: "ConfigValue \<Rightarrow> ConfigValue \<Rightarrow> bool" where
  "same_entry v w \<longleftrightarrow>
     cv_FileName v = cv_FileName w \<and> cv_Key v = cv_Key w \<and> rel_option same_json (cv_Value v) (cv_Value w)"

lemma config_tuple_same:
  assumes "same_entry v w"
  shows "config_tuple v = config_tuple w"
  using assms same_json_encode
  by (cases "cv_Value v"; cases "cv_Value w") (auto simp: same_entry_def config_tuple_def)

lemma map_result_iff:
  "map_result f xs = Inr ys \<longleftrightarrow> (\<forall>x \<in> set xs. \<exists>y. f x = Inr y) \<and> ys = map (projr \<circ> f) xs"
proof (induction xs arbitrary: ys)
  case (Cons x xs)
  show ?case
  proof (cases "\<exists>zs. map_result f xs = Inr zs")
    case True
    then obtain zs where "map_result f xs = Inr zs" by blast
    with Cons[of zs] show ?thesis by (cases "f x") auto
  next
    case False
    then have "\<not> (\<forall>x \<in> set xs. \<exists>y. f x = Inr y)" using Cons by blast
    with False show ?thesis by (auto split: sum.splits)
  qed
qed auto

text \<open>
  C38. The hash that detects configuration drift depends on the values only: reordering the list,
  reordering object members and respelling numbers (1500, 1.5e3, 1500.0) leave it unchanged, so
  none of them starts a configuration update.
\<close>

theorem configValuesHash_stable:
  assumes "configValuesHash E vs = Inr h" and "list_all2 same_entry vs us" and "mset ws = mset us"
  shows "configValuesHash E ws = Inr h"
proof -
  obtain ts where ts: "map_result config_tuple vs = Inr ts" "h = Sum256 E (json_encode (JArray (map JString (sort ts))))"
    using assms(1) by (auto simp: configValuesHash_def split: sum.splits)
  have same: "map config_tuple vs = map config_tuple us"
    using assms(2) config_tuple_same by (rule map_eq_all2)
  let ?rs = "map (projr \<circ> config_tuple) ws"
  have "config_tuple ` set ws = config_tuple ` set vs"
    using arg_cong[OF same, of set] mset_eq_setD[OF assms(3)] by simp
  moreover have "\<forall>r \<in> config_tuple ` set vs. \<exists>y. r = Inr y" using ts(1) by (simp add: map_result_iff)
  ultimately have rs: "map_result config_tuple ws = Inr ?rs" unfolding map_result_iff by blast
  have "mset ?rs = mset (map projr (map config_tuple us))"
    using assms(3) by (simp add: comp_def)
  also have "\<dots> = mset ts" using ts(1) by (simp add: map_result_iff same[symmetric])
  finally have "sort ?rs = sort ts" by (metis mset_sort sorted_sort properties_for_sort)
  then show ?thesis using rs ts(2) by (simp add: configValuesHash_def)
qed

lemma spellings_agree: "canonicalJSONNumber ''1.50e3'' = canonicalJSONNumber ''1500''"
  by code_simp

theorem configValuesHash_stable_witness:
  "configValuesHash demo_ext
     [\<lparr>cv_FileName = ''config.toml'', cv_Key = ''a'', cv_Value = Some (JNumber ''1.50e3'')\<rparr>,
      \<lparr>cv_FileName = ''app.toml'', cv_Key = ''b'', cv_Value = Some (JBool True)\<rparr>] =
   configValuesHash demo_ext
     [\<lparr>cv_FileName = ''app.toml'', cv_Key = ''b'', cv_Value = Some (JBool True)\<rparr>,
      \<lparr>cv_FileName = ''config.toml'', cv_Key = ''a'', cv_Value = Some (JNumber ''1500'')\<rparr>]"
proof -
  let ?a = "\<lambda>s. \<lparr>cv_FileName = ''config.toml'', cv_Key = ''a'', cv_Value = Some (JNumber s)\<rparr>"
  let ?b = "\<lparr>cv_FileName = ''app.toml'', cv_Key = ''b'', cv_Value = Some (JBool True)\<rparr>"
  have v: "valid_number ''1.50e3''" "valid_number ''1500''" by code_simp+
  have "number_value ''1.50e3'' = number_value ''1500''"
    using canonical_value[OF v(1)] canonical_value[OF v(2)] by (metis spellings_agree)
  then have "list_all2 same_entry [?a ''1.50e3'', ?b] [?a ''1500'', ?b]"
    using v by (auto simp: same_entry_def intro: same_json.intros)
  moreover obtain h where "configValuesHash demo_ext [?a ''1.50e3'', ?b] = Inr h"
    by (simp add: configValuesHash_def config_tuple_def)
  ultimately show ?thesis
    using configValuesHash_stable[of demo_ext "[?a ''1.50e3'', ?b]" h "[?a ''1500'', ?b]" "[?b, ?a ''1500'']"] by simp
qed

end
