(* ===== verification/InfraProps.thy ===== *)
theory InfraProps
  imports ExecFixtures
begin

text \<open>
  What the controller-side tasks may do to the cluster: replace-pod deletes only stale pods of the
  node's own StatefulSet, ensure-data-pvc creates only a missing claim and never takes over a
  foreign one, and the StatefulSet sync deletes only an impostor.
\<close>

subsection \<open>Replacing pods\<close>

lemma log_call_calls [simp]: "xs_Calls (log_call c s) = c # xs_Calls s" "xs_Node (log_call c s) = xs_Node s"
  by (simp_all add: log_call_def)

lemma outcome_defs:
  "done_with s = (s, complete fresh_task, None)" "still_running s = (s, fresh_task, None)"
  "give_up s e = (s, fresh_task, Some e)"
  by (simp_all add: done_with_def still_running_def give_up_def)

text \<open>\<open>delete_stale\<close> deletes stale pods of the list only, and without an error it has asked for the
  deletion of every one of them: what is not in the trace was already gone or changed.\<close>

lemma delete_stale_calls:
  assumes "delete_stale W sts pods s = (s', err)"
  shows "\<exists>ds. xs_Calls s' = ds @ xs_Calls s \<and>
      (\<forall>c \<in> set ds. \<exists>pod \<in> set pods. stale_pod sts pod \<and> c = DeletePod (pod_Name pod) (pod_UID pod)) \<and>
      (err = None \<longrightarrow> (\<forall>pod \<in> set pods. stale_pod sts pod \<longrightarrow>
         DeletePod (pod_Name pod) (pod_UID pod) \<in> set ds \<or>
         (\<exists>calls e. w_Delete W calls (pod_Name pod) = Some e \<and> delete_tolerated e)))"
  using assms
proof (induction pods arbitrary: s)
  case (Cons pod pods)
  show ?case
  proof (cases "stale_pod sts pod")
    case False
    then have "delete_stale W sts pods s = (s', err)" using Cons.prems by simp
    from Cons.IH[OF this] False show ?thesis by auto
  next
    case stale: True
    show ?thesis
    proof (cases "w_Delete W (xs_Calls s) (pod_Name pod)")
      case None
      then have "delete_stale W sts pods (log_call (DeletePod (pod_Name pod) (pod_UID pod)) s) = (s', err)"
        using Cons.prems stale by simp
      from Cons.IH[OF this] obtain ds where ds: "xs_Calls s' = (ds @ [DeletePod (pod_Name pod) (pod_UID pod)]) @ xs_Calls s"
        "\<forall>c \<in> set ds. \<exists>pod \<in> set pods. stale_pod sts pod \<and> c = DeletePod (pod_Name pod) (pod_UID pod)"
        "err = None \<longrightarrow> (\<forall>pod \<in> set pods. stale_pod sts pod \<longrightarrow> DeletePod (pod_Name pod) (pod_UID pod) \<in> set ds \<or>
           (\<exists>calls e. w_Delete W calls (pod_Name pod) = Some e \<and> delete_tolerated e))" by auto
      then show ?thesis using stale
        by (intro exI[of _ "ds @ [DeletePod (pod_Name pod) (pod_UID pod)]"]) auto
    next
      case (Some e)
      then show ?thesis
      proof (cases "delete_tolerated e")
        case True
        then have "delete_stale W sts pods s = (s', err)" using Cons.prems stale Some by simp
        from Cons.IH[OF this] True Some show ?thesis by auto
      next
        case False
        then show ?thesis using Cons.prems stale Some by (auto intro!: exI[of _ "[]"])
      qed
    qed
  qed
qed simp

text \<open>
  What replace-pod deletes: only pods that the API server listed under the StatefulSet's
  selector, that this very StatefulSet owns, that carry a revision other than the one rolled out
  to and that are not already going away; and only once the StatefulSet controller has observed
  the current generation and the set has at most one replica.  When it completes, every such pod
  was deleted or its deletion answered not-found or conflict.
\<close>

theorem replacePod_deletes_stale_only:
  assumes "replacePod_Execute W s = (s', b, err)"
  shows "\<exists>ds. xs_Calls s' = ds @ xs_Calls s \<and> xs_Node s' = xs_Node s \<and>
     (ds \<noteq> [] \<or> tb_status b = ExecutionComplete \<longrightarrow>
       (\<exists>sts pods. w_StatefulSet W (xs_Calls s) = Inr sts \<and>
          w_Pods W (xs_Calls s) (sts_MatchLabels sts) = Inr pods \<and> sts_MatchLabels sts \<noteq> [] \<and>
          sts_Generation sts \<le> sts_ObservedGeneration sts \<and> (\<forall>r. sts_Replicas sts = Some r \<longrightarrow> r \<le> 1) \<and>
          (\<forall>c \<in> set ds. \<exists>pod \<in> set pods. c = DeletePod (pod_Name pod) (pod_UID pod) \<and>
              ownedByStatefulSet pod sts \<and> stale_pod sts pod) \<and>
          (tb_status b = ExecutionComplete \<longrightarrow>
            (\<forall>pod \<in> set pods. ownedByStatefulSet pod sts \<and> stale_pod sts pod \<longrightarrow>
               DeletePod (pod_Name pod) (pod_UID pod) \<in> set ds \<or>
               (\<exists>calls e. w_Delete W calls (pod_Name pod) = Some e \<and> delete_tolerated e)))))"
proof -
  have node: "xs_Node s2 = xs_Node s1" if "delete_stale W sts pods s1 = (s2, e)" for sts pods s1 s2 e
    using that by (induction pods arbitrary: s1) (auto split: if_splits option.splits)
  consider (idle) "s' = s" "tb_status b \<noteq> ExecutionComplete"
    | (ran) n sts pods e where "xs_Node s = Some n" "w_StatefulSet W (xs_Calls s) = Inr sts"
        "sts_Generation sts \<le> sts_ObservedGeneration sts" "guardSelectorAndReplicas n sts = None"
        "w_Pods W (xs_Calls s) (sts_MatchLabels sts) = Inr pods"
        "delete_stale W sts (filter (\<lambda>p. ownedByStatefulSet p sts) pods) s = (s', e)"
        "tb_status b = ExecutionComplete \<longrightarrow> e = None"
    using assms
    by (auto simp: replacePod_Execute_def outcome_defs fresh_task_def complete_def
        split: option.splits sum.splits if_splits prod.splits)
  then show ?thesis
  proof cases
    case idle
    then show ?thesis by auto
  next
    case ran
    have "sts_MatchLabels sts \<noteq> []" "\<forall>r. sts_Replicas sts = Some r \<longrightarrow> r \<le> 1"
      using ran(4) by (auto simp: guardSelectorAndReplicas_def split: if_splits option.splits)
    moreover obtain ds where "xs_Calls s' = ds @ xs_Calls s"
      "\<forall>c \<in> set ds. \<exists>pod \<in> set (filter (\<lambda>p. ownedByStatefulSet p sts) pods). stale_pod sts pod \<and>
          c = DeletePod (pod_Name pod) (pod_UID pod)"
      "e = None \<longrightarrow> (\<forall>pod \<in> set (filter (\<lambda>p. ownedByStatefulSet p sts) pods). stale_pod sts pod \<longrightarrow>
         DeletePod (pod_Name pod) (pod_UID pod) \<in> set ds \<or>
         (\<exists>calls e. w_Delete W calls (pod_Name pod) = Some e \<and> delete_tolerated e))"
      using delete_stale_calls[OF ran(6)] by blast
    ultimately show ?thesis using ran node[OF ran(6)]
      by (intro exI[of _ ds] conjI impI exI[of _ sts] exI[of _ pods]) auto
  qed
qed

text \<open>A world whose API server lists a stale pod, a current one and one of another owner.\<close>

definition rolling_world :: world where
  "rolling_world = demo_world\<lparr>w_Pods := (\<lambda>_ _. Inr
     [\<lparr>pod_Name = ''rpc-0-0'', pod_UID = ''a'', pod_Hash = Some ''rev0'', pod_Deleting = False,
       pod_Owners = [(''StatefulSet'', ''u1'')]\<rparr>,
      \<lparr>pod_Name = ''rpc-0-1'', pod_UID = ''b'', pod_Hash = Some ''rev1'', pod_Deleting = False,
       pod_Owners = [(''StatefulSet'', ''u1'')]\<rparr>,
      \<lparr>pod_Name = ''debug'', pod_UID = ''c'', pod_Hash = Some ''rev0'', pod_Deleting = False,
       pod_Owners = [(''Job'', ''j'')]\<rparr>])\<rparr>"

theorem replacePod_deletes_stale_only_witness:
  "\<exists>ds. xs_Calls (fst (replacePod_Execute rolling_world \<lparr>xs_Node = Some demo_node, xs_Calls = []\<rparr>)) = ds \<and>
     length ds = 1 \<and> (\<forall>c \<in> set ds. \<exists>pod sts. c = DeletePod (pod_Name pod) (pod_UID pod) \<and>
       ownedByStatefulSet pod sts \<and> stale_pod sts pod)"
proof -
  let ?s = "\<lparr>xs_Node = Some demo_node, xs_Calls = []\<rparr> :: xstate"
  let ?r = "replacePod_Execute rolling_world ?s"
  have one: "length (xs_Calls (fst ?r)) = 1" by code_simp
  have "?r = (fst ?r, fst (snd ?r), snd (snd ?r))" by simp
  from replacePod_deletes_stale_only[OF this] one show ?thesis by fastforce
qed

subsection \<open>The data volume claim\<close>

definition import_name :: "SeiNode \<Rightarrow> string option" where
  "import_name n =
     (case spec_DataVolume (node_Spec n) of
        Some dv \<Rightarrow> (case dv_Import dv of Some pvc \<Rightarrow> if pvc \<noteq> [] then Some pvc else None | None \<Rightarrow> None)
      | None \<Rightarrow> None)"

text \<open>What an imported claim has to satisfy before the node may use it.\<close>

definition importable :: "world \<Rightarrow> call list \<Rightarrow> SeiNode \<Rightarrow> string \<Rightarrow> bool" where
  "importable W calls n name \<longleftrightarrow>
     (\<exists>pvc pv required actual. w_PVC W calls name = Inr pvc \<and> pvc_Deleting pvc = None \<and> pvc_Phase pvc = ClaimBound \<and>
        (''ReadWriteOnce'' \<in> set (pvc_AccessModes pvc) \<or> ''ReadWriteOncePod'' \<in> set (pvc_AccessModes pvc)) \<and>
        w_RequiredStorage W n = Inr required \<and> pvc_Capacity pvc = Some actual \<and> required \<le> actual \<and>
        w_PV W calls (pvc_VolumeName pvc) = Inr pv \<and> \<not> pv_Failed pv \<and> pv_Capacity pv = Some actual)"

lemma validateImport_importable: "validateImport W n name s = None \<Longrightarrow> importable W (xs_Calls s) n name"
  unfolding validateImport_def importable_pv_def importable_def Let_def
  by (auto split: sum.splits if_splits option.splits)

lemma preflight_cases:
  assumes "preflight E c reasons m e s = (s', b, err)"
  shows "xs_Calls s' = xs_Calls s" and "tb_status b = ExecutionComplete \<Longrightarrow> e = None"
    and "err = (case e of Some (Terminal x) \<Rightarrow> Some (Terminal x) | _ \<Rightarrow> None)"
  using assms
  by (auto simp: preflight_def outcome_defs upd_node_def fresh_task_def
      split: option.splits if_splits prod.splits exec_error.splits)

lemma executeCreate_cases:
  assumes "executeCreate E W n s = (s', b, err)"
  shows "(xs_Calls s' = xs_Calls s \<and> (tb_status b = ExecutionComplete \<longrightarrow>
            (\<exists>pvc. w_PVC W (xs_Calls s) (DataPVCName n) = Inr pvc \<and> pvc_Controlled pvc))) \<or>
         (s' = log_call (CreatePVC (DataPVCName n)) s \<and> err = None \<and> tb_status b = ExecutionComplete \<and>
          (\<exists>e. w_PVC W (xs_Calls s) (DataPVCName n) = Inl (NotFound e)) \<and> holdForVolumeAttributesClass E n = None)"
proof -
  have nf: "\<exists>x. e = NotFound x" if "IsNotFound e" for e using that by (cases e) auto
  show ?thesis
    using assms nf unfolding executeCreate_def Let_def
    by (auto simp: outcome_defs fresh_task_def complete_def
        split: option.splits sum.splits if_splits api_error.splits)
qed

text \<open>
  The data volume of a node.  A claim is created only when none of that name exists, no import
  is requested and the requested volume attributes class is ready; a claim that exists and belongs
  to someone else ends the plan and is never touched; and the task completes only with a claim it
  created, a claim the node controls, or an imported claim that is bound, writable by one node,
  large enough and backed by a healthy volume of the same size.
\<close>

theorem ensureDataPVC_safe:
  assumes "ensureDataPVC_Execute E W s = (s', b, err)" and "xs_Node s = Some n"
  shows "(xs_Calls s' = xs_Calls s \<or>
          xs_Calls s' = CreatePVC (DataPVCName n) # xs_Calls s \<and> import_name n = None \<and>
          (\<exists>e. w_PVC W (xs_Calls s) (DataPVCName n) = Inl (NotFound e)) \<and> holdForVolumeAttributesClass E n = None) \<and>
     (tb_status b = ExecutionComplete \<longrightarrow> (case import_name n of
          Some name \<Rightarrow> importable W (xs_Calls s) n name
        | None \<Rightarrow> xs_Calls s' \<noteq> xs_Calls s \<or>
            (\<exists>pvc. w_PVC W (xs_Calls s) (DataPVCName n) = Inr pvc \<and> pvc_Controlled pvc))) \<and>
     (\<forall>pvc. import_name n = None \<and> w_PVC W (xs_Calls s) (DataPVCName n) = Inr pvc \<and> \<not> pvc_Controlled pvc \<longrightarrow>
        (\<exists>e. err = Some (Terminal e)))"
proof (cases "import_name n")
  case None
  then have create: "executeCreate E W n s = (s', b, err)"
    using assms by (auto simp: ensureDataPVC_Execute_def import_name_def split: option.splits if_splits)
  have "\<exists>e. err = Some (Terminal e)"
    if "w_PVC W (xs_Calls s) (DataPVCName n) = Inr pvc" "\<not> pvc_Controlled pvc" for pvc
    using create that by (auto simp: executeCreate_def Let_def outcome_defs split: option.splits)
  then show ?thesis using executeCreate_cases[OF create] None by auto
next
  case (Some name)
  then have "executeImport E W n name s = (s', b, err)"
    using assms by (auto simp: ensureDataPVC_Execute_def import_name_def split: option.splits if_splits)
  then have "preflight E ConditionImportPVCReady (''PVCValidated'', ''PVCInvalid'', ''PVCNotReady'')
       (''PVC '' @ quoted name @ '' passes all import requirements'') (validateImport W n name s) s = (s', b, err)"
    by (simp only: executeImport_def)
  from preflight_cases[OF this] show ?thesis using Some validateImport_importable by auto
qed

theorem ensureDataPVC_safe_witness:
  "tb_status (fst (snd (ensureDataPVC_Execute demo_ext demo_world \<lparr>xs_Node = Some demo_node, xs_Calls = []\<rparr>))) =
     ExecutionComplete \<and>
   xs_Calls (fst (ensureDataPVC_Execute demo_ext demo_world \<lparr>xs_Node = Some demo_node, xs_Calls = []\<rparr>)) =
     [CreatePVC ''data-rpc-0'']"
proof -
  let ?s = "\<lparr>xs_Node = Some demo_node, xs_Calls = []\<rparr> :: xstate"
  let ?r = "ensureDataPVC_Execute demo_ext demo_world ?s"
  have c: "tb_status (fst (snd ?r)) = ExecutionComplete" by code_simp
  have none: "import_name demo_node = None" by code_simp
  have missing: "w_PVC demo_world (xs_Calls ?s) (DataPVCName demo_node) = Inl (NotFound ''pvc'')"
    by (simp add: demo_world_def)
  have name: "DataPVCName demo_node = ''data-rpc-0''" by code_simp
  have "?r = (fst ?r, fst (snd ?r), snd (snd ?r))" by simp
  from ensureDataPVC_safe[OF this, of demo_node] c none missing name show ?thesis by auto
qed

subsection \<open>The StatefulSet sync\<close>

text \<open>
  The StatefulSet sync has three outcomes.  An error changes nothing.  The rendered set is
  applied, and then the set in the cache, if the node tracks one, has the tracked UID.  Or the set
  in the cache is an impostor, of another UID than the tracked one: then only it is deleted (or
  was already gone), nothing is applied and the node forgets what it tracked.
\<close>

theorem SyncStatefulSet_impostor:
  assumes "SyncStatefulSet W n s = (s', r)"
  shows "case r of
     Inl e \<Rightarrow> s' = s
   | Inr True \<Rightarrow> s' = log_call (ApplyObject ''StatefulSet'') s \<and>
       (\<forall>t sts. st_StatefulSet (node_Status n) = Some t \<and> w_CachedStatefulSet W (xs_Calls s) = Inr sts \<longrightarrow>
          sts_UID sts = stsref_UID t)
   | Inr False \<Rightarrow>
       (\<exists>t sts. st_StatefulSet (node_Status n) = Some t \<and> w_CachedStatefulSet W (xs_Calls s) = Inr sts \<and>
          sts_UID sts \<noteq> stsref_UID t) \<and>
       xs_Calls s' \<in> {xs_Calls s, DeleteStatefulSet (node_Name n) # xs_Calls s} \<and>
       (\<forall>m. xs_Node s' = Some m \<longrightarrow> st_StatefulSet (node_Status m) = None)"
  using assms
  by (auto simp: SyncStatefulSet_def apply_sts_def upd_node_def log_call_def
      split: option.splits sum.splits if_splits)

theorem SyncStatefulSet_impostor_witness:
  "\<exists>s'. SyncStatefulSet demo_world
      (demo_node\<lparr>node_Status := demo_status\<lparr>st_StatefulSet := Some \<lparr>stsref_Name = ''rpc-0'', stsref_UID = ''old''\<rparr>\<rparr>\<rparr>)
      \<lparr>xs_Node = Some demo_node, xs_Calls = []\<rparr> = (s', Inr False) \<and> xs_Calls s' \<in> {[], [DeleteStatefulSet ''rpc-0'']}"
proof -
  let ?n = "demo_node\<lparr>node_Status := demo_status\<lparr>st_StatefulSet := Some \<lparr>stsref_Name = ''rpc-0'', stsref_UID = ''old''\<rparr>\<rparr>\<rparr>"
  let ?r = "SyncStatefulSet demo_world ?n \<lparr>xs_Node = Some demo_node, xs_Calls = []\<rparr>"
  have "case snd ?r of Inr False \<Rightarrow> True | _ \<Rightarrow> False" by code_simp
  then have "?r = (fst ?r, Inr False)" by (cases ?r) (auto split: sum.splits bool.splits)
  with SyncStatefulSet_impostor[OF this] show ?thesis
    by (intro exI[of _ "fst ?r"]) (auto simp: demo_node_def)
qed

end
