(* ===== verification/WorkflowPlan.thy ===== *)
theory WorkflowPlan
  imports PlanBuilder
begin

text \<open>
  Workflows: the custom resource \<open>SeiNodeTaskWorkflow\<close>
  (\<open>api/v1alpha1/seinodetaskworkflow_types.go\<close>) and the planner that compiles its recipe into a
  task plan for the target node (\<open>internal/planner/workflow.go\<close>).
\<close>

subsection \<open>The resource\<close>

datatype WorkflowPhase = WorkflowUnset | WorkflowPending | WorkflowRunning | WorkflowComplete | WorkflowFailed

record ConfigMigration =
  mig_Kind :: string
  mig_Backend :: "string option"  \<comment> \<open>\<open>GigaStore.Backend\<close>, when the payload is set\<close>

record StateSyncWorkflow =
  ss_Migration :: "ConfigMigration option"
  ss_RpcServers :: "string list"

record SeiNodeTaskWorkflowStatus =
  wfs_ObservedGeneration :: int
  wfs_Phase :: WorkflowPhase
  wfs_TargetFirstObservedAt :: "go_time option"
  wfs_Plan :: "TaskPlan option"
  wfs_Conditions :: "condition list"

record SeiNodeTaskWorkflow =
  wf_Name :: string
  wf_UID :: string
  wf_Generation :: int
  wf_CreationTimestamp :: go_time
  wf_Deleting :: bool
  wf_Finalizer :: bool  \<comment> \<open>carries the deletion gate\<close>
  wf_ForceDelete :: bool  \<comment> \<open>the force annotation is not empty\<close>
  wf_Kind :: string
  wf_RequirePhase :: SeiNodePhase
  wf_RequirePhaseTimeout :: "duration option"
  wf_StateSync :: "StateSyncWorkflow option"
  wf_Status :: SeiNodeTaskWorkflowStatus

subsection \<open>The config migration\<close>

definition gigaStoreConfigPatch :: "string option \<Rightarrow> files" where
  "gigaStoreConfigPatch payload =
     (let backend = (case payload of Some b \<Rightarrow> if b \<noteq> [] then b else ''pebbledb'' | None \<Rightarrow> ''pebbledb'')
      in [(''app.toml'',
            [(''state-store'', JObject [(''ss-enable'', JBool True), (''evm-ss-split'', JBool True),
                                        (''ss-backend'', JString backend)]),
             (''state-commit'', JObject [(''sc-enable'', JBool True)])])])"

definition migrationConfigPatch :: "ConfigMigration option \<Rightarrow> files result" where
  "migrationConfigPatch m =
     (case m of
        None \<Rightarrow> Ok []
      | Some mig \<Rightarrow>
          if mig_Kind mig = ''GigaStore''
          then (let fs = gigaStoreConfigPatch (mig_Backend mig)
                in if fs = []
                   then Err (''config migration kind '' @ quoted (mig_Kind mig) @ '' produced an empty patch'')
                   else Ok fs)
          else Err (''unknown config migration kind '' @ quoted (mig_Kind mig)))"

subsection \<open>The state-sync recipe\<close>

definition minStateSyncWitnesses :: nat where
  "minStateSyncWitnesses = 2"

definition stateSync_Validate :: "SeiNode \<Rightarrow> SeiNodeTaskWorkflow \<Rightarrow> error option" where
  "stateSync_Validate n w =
     (let target = node_Namespace n @ ''/'' @ node_Name n
      in if wf_StateSync w = None then Some ''stateSync recipe params are nil''
         else if spec_FullNode (node_Spec n) = None
         then Some (''stateSync workflow refuses non-full/RPC target '' @ target)
         else if MountsNodeConfig n
         then Some (''stateSync workflow refuses static-config target '' @ target)
         else None)"

definition recipe_witnesses :: "SeiNode \<Rightarrow> StateSyncWorkflow \<Rightarrow> string list" where
  "recipe_witnesses n ss =
     (if ss_RpcServers ss = [] then st_ResolvedStateSyncers (node_Status n) else ss_RpcServers ss)"

definition recipe_steps ::
  "ext \<Rightarrow> SeiNode \<Rightarrow> string list \<Rightarrow> files \<Rightarrow> (TaskType \<times> TaskParams) list" where
  "recipe_steps E n witnesses patch =
     [(MarkNotReady, EmptyParams), (StopSeid, UpCheckParams (UpCheckForNode E n)), (ResetData, EmptyParams)] @
     (if patch \<noteq> [] then [(ConfigPatch, ConfigPatchParams patch)] else []) @
     [(ConfigureStateSync, StateSyncParams
         ((configureStateSyncTask n)\<lparr>css_RpcServers := witnesses, css_UseLocalSnapshot := False\<rparr>)),
      (MarkReady, EmptyParams)]"

definition stateSync_BuildPlan :: "ext \<Rightarrow> string \<Rightarrow> SeiNode \<Rightarrow> StateSyncWorkflow \<Rightarrow> TaskPlan result" where
  "stateSync_BuildPlan E pid n ss =
     (let witnesses = recipe_witnesses n ss
      in if length witnesses < minStateSyncWitnesses
         then Err (''stateSync workflow fail-closed: need >='' @ itoa (int minStateSyncWitnesses) @
                '' resolved witnesses (recipe rpcServers or node.status.resolvedStateSyncers), have '' @
                itoa (int (length witnesses)))
         else case migrationConfigPatch (ss_Migration ss) of
           Inl e \<Rightarrow> Err (''stateSync workflow config migration: '' @ e)
         | Inr patch \<Rightarrow>
             bind_result (build_tasks E pid (recipe_steps E n witnesses patch)) (\<lambda>tasks.
               Ok (new_plan pid tasks PhaseUnset PhaseUnset)))"

text \<open>\<open>buildWorkflowPlan\<close>, with the choice of \<open>WorkflowPlannerFor\<close>.\<close>

definition buildWorkflowPlan :: "ext \<Rightarrow> string \<Rightarrow> SeiNode \<Rightarrow> SeiNodeTaskWorkflow \<Rightarrow> TaskPlan result" where
  "buildWorkflowPlan E pid n w =
     (if wf_Kind w \<noteq> ''StateSync'' then Err (''unknown workflow kind '' @ quoted (wf_Kind w))
      else case stateSync_Validate n w of
        Some e \<Rightarrow> Err e
      | None \<Rightarrow> (case wf_StateSync w of
          None \<Rightarrow> Err ''stateSync recipe params are nil''
        | Some ss \<Rightarrow> stateSync_BuildPlan E pid n ss))"

end
