(* ===== verification/NodeGates.thy ===== *)
theory NodeGates
  imports ResolvePlan InfraTasks WorkflowPlan
begin

text \<open>
  The conditions every reconcile of a node resolves before it plans
  (\<open>internal/controller/node\<close>: \<open>statesync.go\<close>, \<open>volumeattributesclass.go\<close>,
  \<open>datavolumeresize.go\<close>, \<open>evmserving.go\<close>, \<open>peers.go\<close>, \<open>endpoints.go\<close> and the helpers of
  \<open>controller.go\<close> and \<open>statefulset.go\<close>), over the writes a reconcile makes and the answers it gets.
\<close>

subsection \<open>Writes and answers\<close>

text \<open>What a reconcile writes outside its own memory, newest first in a trace.\<close>

datatype event =
    TaskCall call
  | PatchNodeStatus SeiNodeStatus
  | SetNodeFinalizer bool
  | PatchPVCRequest string int
  | DeletePVC string
  | PatchWorkflowFinalizer string bool
  | PatchWorkflowStatus string SeiNodeTaskWorkflowStatus

type_synonym trace = "event list"

record PodView =
  pview_Conditions :: "(string \<times> condition_status) list"
  pview_Labels :: "string \<rightharpoonup> string"

text \<open>
  The answers of the API server, the sidecar and the mounted configuration file, each of which may
  depend on everything written so far.  \<open>cw_Quantity\<close> parses a resource quantity.
\<close>

record cworld =
  cw_World :: "trace \<Rightarrow> world"
  cw_ReadFileConfig :: "(string \<rightharpoonup> string list) result"  \<comment> \<open>the syncers per chain\<close>
  cw_VolumeAttributesClass :: "trace \<Rightarrow> string \<Rightarrow> string api"  \<comment> \<open>its driver\<close>
  cw_Pod :: "trace \<Rightarrow> string \<Rightarrow> PodView api"
  cw_Quantity :: "string \<Rightarrow> int"
  cw_PatchPVC :: "trace \<Rightarrow> string \<Rightarrow> api_error option"
  cw_DeletePVC :: "trace \<Rightarrow> string \<Rightarrow> api_error option"
  cw_ResolvePeers :: "trace \<Rightarrow> SeiNode \<Rightarrow> string list result"
  cw_Height :: "trace \<Rightarrow> int result option"  \<comment> \<open>None: no reader is wired\<close>
  cw_AppliedStatefulSet :: "trace \<Rightarrow> StatefulSetRef"  \<comment> \<open>the object an apply returned\<close>
  cw_Nodes :: "trace \<Rightarrow> NodeReader option"
  cw_Probe :: "trace \<Rightarrow> bool result option"
  cw_NewUUID :: "trace \<Rightarrow> string"
  cw_PatchNodeStatus :: "trace \<Rightarrow> api_error option"
  cw_UpdateNode :: "trace \<Rightarrow> api_error option"
  cw_GetWorkflow :: "trace \<Rightarrow> string \<Rightarrow> SeiNodeTaskWorkflow api"
  cw_ListWorkflows :: "trace \<Rightarrow> SeiNodeTaskWorkflow list api"
  cw_PatchWorkflow :: "trace \<Rightarrow> string \<Rightarrow> api_error option"
  cw_PatchWorkflowStatus :: "trace \<Rightarrow> string \<Rightarrow> api_error option"

subsection \<open>State sync\<close>

abbreviation ConditionPeersReady :: string where
  "ConditionPeersReady \<equiv> ''PeersReady''"
abbreviation ConditionSeiNodePaused :: string where
  "ConditionSeiNodePaused \<equiv> ''Paused''"
abbreviation ConditionEvmServing :: string where
  "ConditionEvmServing \<equiv> ''EvmServing''"
abbreviation ConditionDataVolumeResizeInProgress :: string where
  "ConditionDataVolumeResizeInProgress \<equiv> ''DataVolumeResizeInProgress''"

definition minCanonicalSyncers :: nat where
  "minCanonicalSyncers = 2"

text \<open>\<open>strings.FieldsFunc\<close>: the maximal runs of characters that are not separators.\<close>

fun fields_func :: "(char \<Rightarrow> bool) \<Rightarrow> string \<Rightarrow> string \<Rightarrow> string list" where
  "fields_func p [] run = (if run = [] then [] else [run])"
| "fields_func p (c # cs) run =
     (if p c then (if run = [] then fields_func p cs [] else run # fields_func p cs [])
      else fields_func p cs (run @ [c]))"

definition syncer_separator :: "char \<Rightarrow> bool" where
  "syncer_separator c \<longleftrightarrow> c \<in> {CHR 0x0A, CHR 0x0D, CHR '','', CHR '' '', CHR 0x09}"

definition parseSyncerList :: "string \<Rightarrow> string list" where
  "parseSyncerList raw = remdups_adj (sort (filter (\<lambda>f. f \<noteq> []) (fields_func syncer_separator raw [])))"

definition canonicalSyncers :: "cworld \<Rightarrow> string \<Rightarrow> string list result" where
  "canonicalSyncers C chain =
     (case cw_ReadFileConfig C of
        Inl e \<Rightarrow> Err e
      | Inr syncers \<Rightarrow>
          Ok (parseSyncerList (join (case syncers chain of Some xs \<Rightarrow> xs | None \<Rightarrow> []) [CHR 0x0A])))"

definition setStateSyncReady ::
  "ext \<Rightarrow> SeiNode \<Rightarrow> condition_status \<Rightarrow> string \<Rightarrow> string \<Rightarrow> SeiNode" where
  "setStateSyncReady E n st reason msg = set_node_cond E n ConditionStateSyncReady st reason msg"

definition set_syncers :: "string list \<Rightarrow> SeiNode \<Rightarrow> SeiNode" where
  "set_syncers xs n = upd_status (\<lambda>s. s\<lparr>st_ResolvedStateSyncers := xs\<rparr>) n"

definition too_few_syncers :: "string \<Rightarrow> nat \<Rightarrow> string" where
  "too_few_syncers chain found =
     ''state sync requires >='' @ itoa (int minCanonicalSyncers) @ '' canonical syncers configured for chain '' @
     quoted chain @ ''; found '' @ itoa (int found) @ '' '' @ [CHR 0xE2, CHR 0x80, CHR 0x94] @
     '' register syncers for the chain in the controller config, or declare >='' @
     itoa (int minCanonicalSyncers) @ '' spec.fullNode.snapshot.rpcServers on the SeiNode''"

text \<open>The result: the node with the condition and the witness set, and whether the gate is closed.\<close>

definition reconcileStateSyncGate :: "ext \<Rightarrow> cworld \<Rightarrow> SeiNode \<Rightarrow> SeiNode \<times> bool" where
  "reconcileStateSyncGate E C n =
     (let chain = spec_ChainID (node_Spec n) in
      case SnapshotSource_of (node_Spec n) of
        None \<Rightarrow>
          (setStateSyncReady E (set_syncers [] n) ConditionFalse ''NotApplicable''
             ''node does not bootstrap from a snapshot'', False)
      | Some snap \<Rightarrow>
          (let specSyncers = remdups_adj (sort (snap_RpcServers snap)) in
           if minCanonicalSyncers \<le> length specSyncers
           then (setStateSyncReady E (set_syncers specSyncers n) ConditionTrue ''Ready''
                   (itoa (int (length specSyncers)) @ '' rpc-servers declared on spec for chain '' @ quoted chain), False)
           else case canonicalSyncers C chain of
             Inl e \<Rightarrow>
               (setStateSyncReady E (set_syncers [] n) ConditionUnknown ''SyncerSourceError''
                  (''reading canonical-syncer source for chain '' @ quoted chain @ '': '' @ e), True)
           | Inr syncers \<Rightarrow>
               if length syncers < minCanonicalSyncers
               then (setStateSyncReady E (set_syncers [] n) ConditionFalse ''NoSyncersConfigured''
                       (too_few_syncers chain (length syncers)), True)
               else (setStateSyncReady E (set_syncers syncers n) ConditionTrue ''Ready''
                       (itoa (int (length syncers)) @ '' canonical syncers configured for chain '' @ quoted chain), False)))"

subsection \<open>The volume attributes class\<close>

definition setVolumeAttributesClassReady ::
  "ext \<Rightarrow> SeiNode \<Rightarrow> condition_status \<Rightarrow> string \<Rightarrow> string \<Rightarrow> SeiNode" where
  "setVolumeAttributesClassReady E n st reason msg =
     set_node_cond E n ConditionVolumeAttributesClassReady st reason msg"

text \<open>The PVC an import names, if it names one.\<close>

definition imported_pvc :: "SeiNode \<Rightarrow> string option" where
  "imported_pvc n =
     (case spec_DataVolume (node_Spec n) of
        None \<Rightarrow> None
      | Some dv \<Rightarrow> (case dv_Import dv of
          None \<Rightarrow> None | Some pvc \<Rightarrow> if pvc \<noteq> [] then Some pvc else None))"

definition reconcileVolumeAttributesClass :: "ext \<Rightarrow> cworld \<Rightarrow> trace \<Rightarrow> SeiNode \<Rightarrow> SeiNode" where
  "reconcileVolumeAttributesClass E C tr n =
     (case imported_pvc n of
        Some pvc \<Rightarrow> setVolumeAttributesClassReady E n ConditionFalse ''NotApplicable''
          (''data volume is imported from PVC '' @ quoted pvc @ '', which keeps the importer's volume attributes'')
      | None \<Rightarrow> (case VolumeAttributesClassForNode n of
          None \<Rightarrow> setVolumeAttributesClassReady E n ConditionTrue ''ModeDefaultStorage''
            ''no volumeAttributesClassName selected; the mode-default storage class supplies the volume's performance''
        | Some name \<Rightarrow> (case cw_VolumeAttributesClass C tr name of
            Inr driver \<Rightarrow> setVolumeAttributesClassReady E n ConditionTrue ''VolumeAttributesClassFound''
              (''VolumeAttributesClass '' @ quoted name @ '' exists (driver '' @ quoted driver @ '')'')
          | Inl e \<Rightarrow>
              if IsNotFound e
              then setVolumeAttributesClassReady E n ConditionFalse ''VolumeAttributesClassNotFound''
                (''VolumeAttributesClass '' @ quoted name @
                 '' not found; the platform must add it before this volume can be provisioned'')
              else setVolumeAttributesClassReady E n ConditionFalse ''VolumeAttributesClassLookupError''
                (''reading VolumeAttributesClass '' @ quoted name @ '': '' @ api_text e))))"

subsection \<open>Growing the data volume\<close>

definition crdStorageSize :: "cworld \<Rightarrow> SeiNode \<Rightarrow> int option" where
  "crdStorageSize C n =
     (case spec_DataVolume (node_Spec n) of
        None \<Rightarrow> None
      | Some dv \<Rightarrow> (case dv_Storage dv of
          None \<Rightarrow> None
        | Some st \<Rightarrow> (case dvs_Requests st of
            None \<Rightarrow> None | Some reqs \<Rightarrow> map_option (cw_Quantity C) (reqs ''storage''))))"

definition GrowableStorageSize :: "cworld \<Rightarrow> SeiNode \<Rightarrow> int option" where
  "GrowableStorageSize C n = (if spec_NodeConfig (node_Spec n) = None then None else crdStorageSize C n)"

definition growableSize :: "cworld \<Rightarrow> SeiNode \<Rightarrow> string + int" where
  "growableSize C n =
     (case imported_pvc n of
        Some pvc \<Rightarrow> Inl (''data volume is imported from PVC '' @ quoted pvc @ ''; the importer owns its size'')
      | None \<Rightarrow>
          if spec_NodeConfig (node_Spec n) = None
          then Inl ''only a node with spec.nodeConfig can grow its data volume after creation''
          else case GrowableStorageSize C n of
            None \<Rightarrow> Inl ''spec.dataVolume.storage.resources.requests.storage is unset; set it to grow the volume''
          | Some want \<Rightarrow> Inr want)"

definition ownedDataPVC :: "cworld \<Rightarrow> trace \<Rightarrow> SeiNode \<Rightarrow> PVC option api" where
  "ownedDataPVC C tr n =
     (case w_PVC (cw_World C tr) [] (DataPVCName n) of
        Inl e \<Rightarrow> Inl e
      | Inr pvc \<Rightarrow> Inr (if pvc_Controlled pvc then Some pvc else None))"

definition resize_signals :: "string list" where
  "resize_signals =
     [''Resizing'', ''FileSystemResizePending'', ''ControllerResizeError'', ''NodeResizeError'']"

definition pvcResizeDetail :: "PVC \<Rightarrow> string" where
  "pvcResizeDetail pvc =
     join (map (\<lambda>(ty, _, msg). if msg \<noteq> [] then ty @ '': '' @ msg else ty)
             (filter (\<lambda>(ty, is_true, _). ty \<in> set resize_signals \<and> is_true) (pvc_Conditions pvc)) @
           (case pvc_AllocatedStatus pvc of None \<Rightarrow> [] | Some s \<Rightarrow> [''allocatedResourceStatus: '' @ s])) ''; ''"

definition setDataVolumeResize ::
  "ext \<Rightarrow> SeiNode \<Rightarrow> condition_status \<Rightarrow> string \<Rightarrow> string \<Rightarrow> SeiNode" where
  "setDataVolumeResize E n st reason msg = set_node_cond E n ConditionDataVolumeResizeInProgress st reason msg"

definition reconcileDataVolumeResize :: "ext \<Rightarrow> cworld \<Rightarrow> trace \<Rightarrow> SeiNode \<Rightarrow> SeiNode" where
  "reconcileDataVolumeResize E C tr n =
     (let name = DataPVCName n; qty = w_QuantityString (cw_World C tr) in
      case growableSize C n of
        Inl reason \<Rightarrow> setDataVolumeResize E n ConditionFalse ''NotApplicable'' reason
      | Inr want \<Rightarrow> (case ownedDataPVC C tr n of
          Inl e \<Rightarrow>
            if IsNotFound e
            then setDataVolumeResize E n ConditionFalse ''NotApplicable''
              (''data PVC '' @ quoted name @ '' does not exist yet; ensure-data-pvc provisions it at '' @ qty want)
            else setDataVolumeResize E n ConditionUnknown ''PVCLookupError''
              (''reading data PVC '' @ quoted name @ '': '' @ api_text e)
        | Inr None \<Rightarrow> setDataVolumeResize E n ConditionFalse ''NotApplicable''
            (''data PVC '' @ quoted name @ '' is not controlled by this SeiNode, so the controller never resizes it'')
        | Inr (Some pvc) \<Rightarrow>
            if pvc_Phase pvc \<noteq> ClaimBound
            then setDataVolumeResize E n ConditionFalse ''NotApplicable''
              (''data PVC '' @ quoted name @ '' is '' @ claim_phase_string (pvc_Phase pvc) @
               '', not Bound; a claim grows only once it is bound'')
            else let capacity = (case pvc_Capacity pvc of Some c \<Rightarrow> c | None \<Rightarrow> 0)
                 in if want \<le> capacity
                    then setDataVolumeResize E n ConditionFalse ''ResizeComplete''
                      (''data PVC '' @ quoted name @ '' capacity '' @ qty capacity @ '' meets the requested '' @ qty want)
                    else setDataVolumeResize E n ConditionTrue ''Resizing''
                      (''data PVC '' @ quoted name @ '' capacity '' @ qty capacity @ '', requested '' @ qty want @
                       (if pvcResizeDetail pvc \<noteq> [] then ''; '' @ pvcResizeDetail pvc else []) @
                       (if spec_Paused (node_Spec n)
                        then ''; the controller raises the claim's request only while spec.paused is false'' else []))))"

definition growDataPVC :: "ext \<Rightarrow> cworld \<Rightarrow> trace \<Rightarrow> SeiNode \<Rightarrow> SeiNode \<times> trace" where
  "growDataPVC E C tr n =
     (let name = DataPVCName n; qty = w_QuantityString (cw_World C tr) in
      case growableSize C n of
        Inl _ \<Rightarrow> (n, tr)
      | Inr want \<Rightarrow> (case ownedDataPVC C tr n of
          Inr (Some pvc) \<Rightarrow>
            (let current = (case pvc_Request pvc of Some r \<Rightarrow> r | None \<Rightarrow> 0)
             in if pvc_Phase pvc \<noteq> ClaimBound \<or> want \<le> current then (n, tr)
                else case cw_PatchPVC C tr name of
                  None \<Rightarrow> (n, PatchPVCRequest name want # tr)
                | Some (Conflict e) \<Rightarrow> (n, tr)
                | Some e \<Rightarrow>
                    (setDataVolumeResize E n ConditionTrue ''ResizeFailed''
                       (''raising data PVC '' @ quoted name @ '' request from '' @ qty current @ '' to '' @ qty want @
                        '': '' @ api_text e), tr))
        | _ \<Rightarrow> (n, tr)))"

subsection \<open>EVM serving and the endpoint\<close>

definition setEvmServing :: "ext \<Rightarrow> SeiNode \<Rightarrow> condition_status \<Rightarrow> string \<Rightarrow> string \<Rightarrow> SeiNode" where
  "setEvmServing E n st reason msg = set_node_cond E n ConditionEvmServing st reason msg"

definition podReady :: "PodView \<Rightarrow> bool" where
  "podReady pod =
     (case find (\<lambda>c. fst c = ''Ready'') (pview_Conditions pod) of
        Some (_, st) \<Rightarrow> st = ConditionTrue | None \<Rightarrow> False)"

definition reconcileEvmServing :: "ext \<Rightarrow> cworld \<Rightarrow> trace \<Rightarrow> SeiNode \<Rightarrow> SeiNode" where
  "reconcileEvmServing E C tr n =
     (let engine = EffectiveExecutionEngine (node_Spec n) in
      if \<not> IsEvmOnly engine
      then setEvmServing E n ConditionFalse ''NotApplicable''
        ''execution engine is not EvmOnly; EVM serving is a property of the seid mode, not this condition''
      else if \<not> EvmHTTPEnabled engine
      then setEvmServing E n ConditionFalse ''HttpDisabled''
        ''spec.executionEngine.evmOnly.httpEnabled is false; the EVM JSON-RPC listener is not started''
      else case st_StatefulSet (node_Status n) of
        None \<Rightarrow> setEvmServing E n ConditionFalse ''ListenerRefused''
          ''no StatefulSet yet; the EVM JSON-RPC listener has not started''
      | Some sts \<Rightarrow>
          (let name = stsref_Name sts @ ''-0'' in
           case cw_Pod C tr name of
             Inl e \<Rightarrow>
               if IsNotFound e
               then setEvmServing E n ConditionFalse ''ListenerRefused''
                 (''pod '' @ name @ '' not found; the EVM JSON-RPC listener is not reachable'')
               else setEvmServing E n ConditionFalse ''ListenerRefused'' (''reading pod '' @ name @ '': '' @ api_text e)
           | Inr pod \<Rightarrow>
               if podReady pod
               then setEvmServing E n ConditionTrue ''Serving''
                 (''pod '' @ name @ '' passes readiness on the EVM JSON-RPC listener'')
               else setEvmServing E n ConditionFalse ''ListenerRefused''
                 (''pod '' @ name @ '' is not Ready; the EVM JSON-RPC listener refuses or has not started'')))"

definition servesEVM :: "SeiNode \<Rightarrow> bool" where
  "servesEVM n \<longleftrightarrow> spec_FullNode (node_Spec n) \<noteq> None \<or> spec_Archive (node_Spec n) \<noteq> None"

definition httpURL :: "string \<Rightarrow> string \<Rightarrow> int \<Rightarrow> string" where
  "httpURL service namespace port = ''http://'' @ service @ ''.'' @ namespace @ ''.svc:'' @ itoa port"

definition wsURL :: "string \<Rightarrow> string \<Rightarrow> int \<Rightarrow> string" where
  "wsURL service namespace port = ''ws://'' @ service @ ''.'' @ namespace @ ''.svc:'' @ itoa port"

definition condition_true :: "ext \<Rightarrow> SeiNode \<Rightarrow> string \<Rightarrow> bool" where
  "condition_true E n ty \<longleftrightarrow> (case node_cond E n ty of None \<Rightarrow> False | Some c \<Rightarrow> cond_Status c = ConditionTrue)"

definition composeNodeEndpoints :: "ext \<Rightarrow> SeiNode \<Rightarrow> NodeEndpointStatus option" where
  "composeNodeEndpoints E n =
     (let ns = node_Namespace n; name = node_Name n;
          none = \<lparr>ep_EvmJsonRpc = [], ep_EvmWs = [], ep_TendermintRpc = [], ep_TendermintRest = []\<rparr>
      in if IsEvmOnly (EffectiveExecutionEngine (node_Spec n))
         then (if \<not> condition_true E n ConditionEvmServing then None
               else Some (none\<lparr>ep_EvmJsonRpc := httpURL name ns (PortEVMHTTP E)\<rparr>))
         else if \<not> servesEVM n
         then (if spec_Validator (node_Spec n) = None then None
               else Some (none\<lparr>ep_TendermintRpc := httpURL name ns (PortRPC E)\<rparr>))
         else Some \<lparr>ep_EvmJsonRpc = httpURL name ns (PortEVMHTTP E), ep_EvmWs = wsURL name ns (PortEVMWS E),
                    ep_TendermintRpc = httpURL name ns (PortRPC E), ep_TendermintRest = httpURL name ns (PortREST E)\<rparr>)"

definition set_endpoint :: "ext \<Rightarrow> SeiNode \<Rightarrow> SeiNode" where
  "set_endpoint E n = upd_status (\<lambda>s. s\<lparr>st_Endpoint := composeNodeEndpoints E n\<rparr>) n"

subsection \<open>Peers and pause\<close>

definition setPeersReady :: "ext \<Rightarrow> SeiNode \<Rightarrow> go_time \<Rightarrow> SeiNode" where
  "setPeersReady E n now =
     (let set_to = set_node_cond E n ConditionPeersReady; peers = st_ResolvedPeers (node_Status n) in
      if spec_Peers (node_Spec n) = [] then set_to ConditionFalse ''NotApplicable'' ''spec.peers is empty''
      else if peers \<noteq> []
      then set_to ConditionTrue ''Resolved'' (itoa (int (length peers)) @ '' persistent peers resolved'')
      else if PeersBlockPlan n now
      then set_to ConditionFalse ''AwaitingPeers''
        ''no label peer resolved yet; init plan held for up to 10m0s after creation''
      else set_to ConditionFalse ''Unresolved''
        ''no peer resolved; seid runs without persistent peers until the next deployment'')"

definition reconcilePeers :: "ext \<Rightarrow> cworld \<Rightarrow> go_time \<Rightarrow> trace \<Rightarrow> SeiNode \<Rightarrow> SeiNode result" where
  "reconcilePeers E C now tr n =
     (case cw_ResolvePeers C tr n of
        Inl e \<Rightarrow> Err (''resolving peers: '' @ e)
      | Inr peers \<Rightarrow> Ok (setPeersReady E (upd_status (\<lambda>s. s\<lparr>st_ResolvedPeers := peers\<rparr>) n) now))"

definition setNodePausedCondition :: "ext \<Rightarrow> SeiNode \<Rightarrow> SeiNode" where
  "setNodePausedCondition E n =
     (if spec_Paused (node_Spec n)
      then set_node_cond E n ConditionSeiNodePaused ConditionTrue ''Paused''
        ''spec.paused is true; reconciliation is frozen''
      else set_node_cond E n ConditionSeiNodePaused ConditionFalse ''NotPaused'' ''spec.paused is unset or false'')"

subsection \<open>The steady state\<close>

definition statusPollInterval :: duration where
  "statusPollInterval = 30 * 1000000000"

definition heightReadBackoff :: duration where
  "heightReadBackoff = statusPollInterval"

text \<open>\<open>retryAt\<close> is the node's entry of the reconciler's back-off table.\<close>

definition observeCommittedHeight ::
  "cworld \<Rightarrow> go_time \<Rightarrow> trace \<Rightarrow> bool \<Rightarrow> go_time option \<Rightarrow> SeiNode \<Rightarrow> SeiNode \<times> go_time option" where
  "observeCommittedHeight C now tr suppressDrift retryAt n =
     (case cw_Height C tr of
        None \<Rightarrow> (n, retryAt)
      | Some reading \<Rightarrow>
          if suppressDrift \<or> node_Phase n \<noteq> PhaseRunning \<or> plan_active n then (n, retryAt)
          else if (case retryAt of Some t \<Rightarrow> now < t | None \<Rightarrow> False) then (n, retryAt)
          else case reading of
            Inl e \<Rightarrow> (n, Some (now + heightReadBackoff))
          | Inr h \<Rightarrow> (upd_status (\<lambda>s. s\<lparr>st_CommittedHeight := Some h, st_CommittedHeightTime := Some now\<rparr>) n, None))"

definition steadyStateRequeue :: "SeiNode \<Rightarrow> duration \<Rightarrow> bool \<Rightarrow> bool \<Rightarrow> duration" where
  "steadyStateRequeue n result suppressDrift blocked =
     (if suppressDrift then result
      else if node_Phase n = PhaseRunning \<and> \<not> plan_active n then statusPollInterval
      else if blocked \<and> result = 0 then statusPollInterval
      else result)"

definition PodNodeIsolation :: "PodView \<Rightarrow> NodeIsolation" where
  "PodNodeIsolation pod =
     (if pview_Labels pod DedicatedNodeKey = Some ''true'' then NodeIsolationDedicated else NodeIsolationShared)"

definition backfillNodeIsolation :: "cworld \<Rightarrow> trace \<Rightarrow> SeiNode \<Rightarrow> SeiNode result" where
  "backfillNodeIsolation C tr n =
     (case st_StatefulSet (node_Status n) of
        None \<Rightarrow> Ok n
      | Some sts \<Rightarrow>
          if node_Phase n \<noteq> PhaseRunning \<or> st_CurrentNodeIsolation (node_Status n) \<noteq> NodeIsolationUnset \<or> plan_active n
          then Ok n
          else case cw_Pod C tr (stsref_Name sts @ ''-0'') of
            Inl e \<Rightarrow> if IsNotFound e then Ok n
                     else Err (''getting pod '' @ stsref_Name sts @ ''-0: '' @ api_text e)
          | Inr pod \<Rightarrow> Ok (upd_status (\<lambda>s. s\<lparr>st_CurrentNodeIsolation := PodNodeIsolation pod\<rparr>) n))"

subsection \<open>Waking deferred nodes\<close>

definition nodeUpdating :: "ext \<Rightarrow> SeiNode \<Rightarrow> bool" where
  "nodeUpdating E n \<longleftrightarrow> condition_true E n ConditionNodeUpdateInProgress"

text \<open>The update predicate of the watch that wakes nodes waiting for a roll slot.\<close>

definition slotReleased :: "ext \<Rightarrow> SeiNode \<Rightarrow> SeiNode \<Rightarrow> bool" where
  "slotReleased E old new \<longleftrightarrow>
     nodeUpdating E old \<and> \<not> nodeUpdating E new \<or>
     spec_Paused (node_Spec old) \<noteq> spec_Paused (node_Spec new) \<or> node_Phase old \<noteq> node_Phase new"

definition deferredPeers :: "ext \<Rightarrow> SeiNode list result \<Rightarrow> string list" where
  "deferredPeers E listing =
     (case listing of
        Inl _ \<Rightarrow> []
      | Inr ns \<Rightarrow> map node_Name (filter (\<lambda>n. case node_cond E n ConditionNodeUpdateInProgress of
            None \<Rightarrow> False | Some c \<Rightarrow> cond_Reason c = ReasonUpdateDeferred) ns))"

end
