(* ===== verification/WorkflowControl.thy ===== *)
theory WorkflowControl
  imports NodeGates Executor "HOL-Library.Product_Lexorder"
begin

text \<open>
  The workflow half of the node reconcile (\<open>internal/controller/node/workflow.go\<close>): adopting a
  pending workflow, driving, parking, finalizing and releasing an adopted one.

  A reconcile works on the node in memory and on the trace of its writes; \<open>c_Saved\<close> is the status
  the API server holds, \<open>flushStatus\<close> is the only writer of the node's status.
\<close>

record cstate =
  c_Node :: SeiNode
  c_Trace :: trace
  c_Saved :: SeiNodeStatus
  c_FlushFailed :: bool

definition on_node :: "(SeiNode \<Rightarrow> SeiNode) \<Rightarrow> cstate \<Rightarrow> cstate" where
  "on_node f s = s\<lparr>c_Node := f (c_Node s)\<rparr>"

definition flushStatus :: "cworld \<Rightarrow> cstate \<Rightarrow> cstate \<times> error option" where
  "flushStatus C s =
     (let st = node_Status (c_Node s)
      in if c_Saved s = st then (s, None)
         else case cw_PatchNodeStatus C (c_Trace s) of
           Some e \<Rightarrow> (s\<lparr>c_FlushFailed := True\<rparr>, Some (api_text e))
         | None \<Rightarrow> (s\<lparr>c_Saved := st, c_Trace := PatchNodeStatus st # c_Trace s\<rparr>, None))"

subsection \<open>Conditions\<close>

abbreviation ConditionWorkflowInProgress :: string where
  "ConditionWorkflowInProgress \<equiv> ''WorkflowInProgress''"

definition setWorkflowInProgress ::
  "ext \<Rightarrow> condition_status \<Rightarrow> string \<Rightarrow> string \<Rightarrow> SeiNode \<Rightarrow> SeiNode" where
  "setWorkflowInProgress E st reason msg n = set_node_cond E n ConditionWorkflowInProgress st reason msg"

definition seedWorkflowInProgress :: "ext \<Rightarrow> SeiNode \<Rightarrow> SeiNode" where
  "seedWorkflowInProgress E n =
     (if node_cond E n ConditionWorkflowInProgress = None
      then setWorkflowInProgress E ConditionFalse ''NoWorkflow'' ''no workflow adopted'' n else n)"

definition adoptedWorkflowParkedFailed :: "ext \<Rightarrow> SeiNode \<Rightarrow> bool" where
  "adoptedWorkflowParkedFailed E n \<longleftrightarrow>
     (case node_cond E n ConditionWorkflowInProgress of
        None \<Rightarrow> False
      | Some c \<Rightarrow> cond_Status c = ConditionTrue \<and> cond_Reason c = ''WorkflowFailedHeld'')"

definition setWorkflowCondition ::
  "ext \<Rightarrow> string \<Rightarrow> condition_status \<Rightarrow> string \<Rightarrow> string \<Rightarrow> SeiNodeTaskWorkflow \<Rightarrow> SeiNodeTaskWorkflow" where
  "setWorkflowCondition E ty st reason msg w =
     w\<lparr>wf_Status := (wf_Status w)\<lparr>wfs_Conditions :=
         SetStatusCondition E (wfs_Conditions (wf_Status w)) (mk_condition ty st reason msg (wf_Generation w))\<rparr>\<rparr>"

definition seed_absent ::
  "ext \<Rightarrow> string \<Rightarrow> string \<Rightarrow> string \<Rightarrow> SeiNodeTaskWorkflow \<Rightarrow> SeiNodeTaskWorkflow" where
  "seed_absent E ty reason msg w =
     (if FindStatusCondition E (wfs_Conditions (wf_Status w)) ty = None
      then setWorkflowCondition E ty ConditionFalse reason msg w else w)"

definition seedWorkflowTerminalConditions :: "ext \<Rightarrow> SeiNodeTaskWorkflow \<Rightarrow> SeiNodeTaskWorkflow" where
  "seedWorkflowTerminalConditions E w =
     seed_absent E ''Failed'' ''NotFailed'' ''workflow has not failed''
       (seed_absent E ''Ready'' ''NotComplete'' ''workflow has not completed'' w)"

definition set_phase :: "WorkflowPhase \<Rightarrow> SeiNodeTaskWorkflow \<Rightarrow> SeiNodeTaskWorkflow" where
  "set_phase ph w = w\<lparr>wf_Status := (wf_Status w)\<lparr>wfs_Phase := ph\<rparr>\<rparr>"

abbreviation wf_Phase :: "SeiNodeTaskWorkflow \<Rightarrow> WorkflowPhase" where
  "wf_Phase w \<equiv> wfs_Phase (wf_Status w)"

abbreviation wf_Plan :: "SeiNodeTaskWorkflow \<Rightarrow> TaskPlan option" where
  "wf_Plan w \<equiv> wfs_Plan (wf_Status w)"

subsection \<open>Writes to a workflow\<close>

definition wrap_api :: "string \<Rightarrow> api_error \<Rightarrow> api_error" where
  "wrap_api prefix e =
     (case e of NotFound t \<Rightarrow> NotFound (prefix @ t) | Conflict t \<Rightarrow> Conflict (prefix @ t)
      | AlreadyExists t \<Rightarrow> AlreadyExists (prefix @ t) | ApiError t \<Rightarrow> ApiError (prefix @ t))"

definition patchWorkflowFinalizer ::
  "cworld \<Rightarrow> bool \<Rightarrow> SeiNodeTaskWorkflow \<Rightarrow> trace \<Rightarrow> SeiNodeTaskWorkflow \<times> trace \<times> api_error option" where
  "patchWorkflowFinalizer C add w tr =
     (if wf_Finalizer w = add then (w, tr, None)
      else let w' = w\<lparr>wf_Finalizer := add\<rparr>
           in case cw_PatchWorkflow C tr (wf_Name w) of
                None \<Rightarrow> (w', PatchWorkflowFinalizer (wf_Name w) add # tr, None)
              | Some e \<Rightarrow>
                  if IsNotFound e then (w', tr, None)
                  else (w', tr, Some (wrap_api (''patching workflow finalizer (add='' @
                          (if add then ''true'' else ''false'') @ ''): '') e)))"

definition patchWorkflowStatus ::
  "cworld \<Rightarrow> (SeiNodeTaskWorkflow \<Rightarrow> SeiNodeTaskWorkflow) \<Rightarrow> SeiNodeTaskWorkflow \<Rightarrow> trace \<Rightarrow>
   SeiNodeTaskWorkflow \<times> trace \<times> api_error option" where
  "patchWorkflowStatus C mutate w tr =
     (let w' = mutate (w\<lparr>wf_Status := (wf_Status w)\<lparr>wfs_ObservedGeneration := wf_Generation w\<rparr>\<rparr>)
      in if wf_Status w' = wf_Status w then (w', tr, None)
         else case cw_PatchWorkflowStatus C tr (wf_Name w) of
           None \<Rightarrow> (w', PatchWorkflowStatus (wf_Name w) (wf_Status w') # tr, None)
         | Some e \<Rightarrow> (w', tr, Some (wrap_api ''patching workflow status: '' e)))"

definition failWorkflow ::
  "ext \<Rightarrow> cworld \<Rightarrow> string \<Rightarrow> string \<Rightarrow> SeiNodeTaskWorkflow \<Rightarrow> trace \<Rightarrow> trace" where
  "failWorkflow E C reason msg w tr =
     (if wf_Phase w = WorkflowFailed then tr
      else fst (snd (patchWorkflowStatus C
             (\<lambda>v. seedWorkflowTerminalConditions E
                (setWorkflowCondition E ''Failed'' ConditionTrue reason msg (set_phase WorkflowFailed v))) w tr)))"

definition seedWorkflowAdoption ::
  "ext \<Rightarrow> cworld \<Rightarrow> condition_status \<Rightarrow> string \<Rightarrow> string \<Rightarrow> SeiNodeTaskWorkflow \<Rightarrow> trace \<Rightarrow> trace" where
  "seedWorkflowAdoption E C st reason msg w tr =
     fst (snd (patchWorkflowStatus C
       (\<lambda>v. seedWorkflowTerminalConditions E (setWorkflowCondition E ''Adopted'' st reason msg
          (if wf_Phase v = WorkflowUnset then set_phase WorkflowPending v else v))) w tr))"

definition persistWorkflowPlan ::
  "ext \<Rightarrow> cworld \<Rightarrow> TaskPlan \<Rightarrow> SeiNodeTaskWorkflow \<Rightarrow> trace \<Rightarrow> SeiNodeTaskWorkflow \<times> trace \<times> api_error option" where
  "persistWorkflowPlan E C plan w tr =
     patchWorkflowStatus C
       (\<lambda>v. seedWorkflowTerminalConditions E
          (setWorkflowCondition E ''Adopted'' ConditionTrue ''Adopted'' ''plan compiled and persisted''
             (v\<lparr>wf_Status := (wf_Status v)\<lparr>wfs_Plan := Some plan, wfs_Phase := WorkflowRunning,
                                           wfs_TargetFirstObservedAt := None\<rparr>\<rparr>))) w tr"

fun over_trace :: "('a \<Rightarrow> trace \<Rightarrow> trace) \<Rightarrow> 'a list \<Rightarrow> trace \<Rightarrow> trace" where
  "over_trace f [] tr = tr"
| "over_trace f (x # xs) tr = over_trace f xs (f x tr)"

subsection \<open>Finalizers of many workflows\<close>

text \<open>The loop shared by \<open>reapCompletedWorkflowFinalizers\<close> and \<open>releaseWorkflowFinalizersForNode\<close>:
  a conflict is skipped, any other error stops.\<close>

fun strip_finalizers ::
  "cworld \<Rightarrow> string \<Rightarrow> string \<Rightarrow> SeiNodeTaskWorkflow list \<Rightarrow> trace \<Rightarrow> trace \<times> error option" where
  "strip_finalizers C pre post [] tr = (tr, None)"
| "strip_finalizers C pre post (w # ws) tr =
     (case patchWorkflowFinalizer C False w tr of
        (_, tr', None) \<Rightarrow> strip_finalizers C pre post ws tr'
      | (_, tr', Some (Conflict _)) \<Rightarrow> strip_finalizers C pre post ws tr'
      | (_, tr', Some e) \<Rightarrow> (tr', Some (pre @ wf_Name w @ post @ '': '' @ api_text e)))"

definition reapCompletedWorkflowFinalizers :: "cworld \<Rightarrow> trace \<Rightarrow> trace \<times> error option" where
  "reapCompletedWorkflowFinalizers C tr =
     (case cw_ListWorkflows C tr of
        Inl e \<Rightarrow> (tr, Some (api_text e))
      | Inr ws \<Rightarrow> strip_finalizers C ''reaping finalizer from completed workflow '' []
                   (filter (\<lambda>w. wf_Phase w = WorkflowComplete) ws) tr)"

definition releaseWorkflowFinalizersForNode :: "cworld \<Rightarrow> trace \<Rightarrow> trace \<times> error option" where
  "releaseWorkflowFinalizersForNode C tr =
     (case cw_ListWorkflows C tr of
        Inl e \<Rightarrow> (tr, Some (api_text e))
      | Inr ws \<Rightarrow> strip_finalizers C ''releasing finalizer from workflow '' '' on node delete'' ws tr)"

definition pendingWorkflowsForNode :: "cworld \<Rightarrow> trace \<Rightarrow> SeiNodeTaskWorkflow list api" where
  "pendingWorkflowsForNode C tr =
     (case cw_ListWorkflows C tr of
        Inl e \<Rightarrow> Inl e
      | Inr ws \<Rightarrow> Inr (sort_key (\<lambda>w. (wf_CreationTimestamp w, wf_Name w))
          (filter (\<lambda>w. \<not> wf_Deleting w \<and> wf_Phase w \<noteq> WorkflowComplete \<and> wf_Phase w \<noteq> WorkflowFailed) ws)))"

subsection \<open>Outcomes\<close>

text \<open>What the workflow half tells the reconcile: whether a workflow occupies the node, the requeue
  delay, whether the adoption was committed, and an error.\<close>

record wf_outcome =
  wo_suppress :: bool
  wo_result :: duration
  wo_handled :: bool
  wo_err :: "error option"

definition outcome :: "bool \<Rightarrow> duration \<Rightarrow> wf_outcome" where
  "outcome suppress d = \<lparr>wo_suppress = suppress, wo_result = d, wo_handled = False, wo_err = None\<rparr>"

definition wf_error :: "bool \<Rightarrow> error \<Rightarrow> wf_outcome" where
  "wf_error suppress e = \<lparr>wo_suppress = suppress, wo_result = 0, wo_handled = False, wo_err = Some e\<rparr>"

definition set_trace :: "trace \<Rightarrow> cstate \<Rightarrow> cstate" where
  "set_trace tr s = s\<lparr>c_Trace := tr\<rparr>"

definition clear_pointer :: "ext \<Rightarrow> string \<Rightarrow> cstate \<Rightarrow> cstate" where
  "clear_pointer E msg s =
     on_node (\<lambda>n. setWorkflowInProgress E ConditionFalse ''NoWorkflow'' msg
                    (upd_status (\<lambda>st. st\<lparr>st_AdoptedWorkflow := None\<rparr>) n)) s"

subsection \<open>Finalizing and releasing\<close>

definition verifyWorkflowDataSafe :: "bool \<times> string" where
  "verifyWorkflowDataSafe = (False, ''data-state verification unavailable'')"

definition finalizeWorkflow ::
  "ext \<Rightarrow> cworld \<Rightarrow> SeiNodeTaskWorkflow \<Rightarrow> cstate \<Rightarrow> cstate \<times> wf_outcome" where
  "finalizeWorkflow E C w s =
     (if \<not> wf_Finalizer w then (clear_pointer E ''adopted workflow deleted'' s, outcome False 0)
      else case verifyWorkflowDataSafe of (safe, reason) \<Rightarrow>
        if \<not> wf_ForceDelete w \<and> \<not> safe
        then (on_node (setWorkflowInProgress E ConditionTrue ''WorkflowFailedHeld'' (''deletion held: '' @ reason)) s,
              outcome True statusPollInterval)
        else case patchWorkflowFinalizer C False w (c_Trace s) of
          (_, tr, Some e) \<Rightarrow> (set_trace tr s, wf_error True (api_text e))
        | (_, tr, None) \<Rightarrow>
            (clear_pointer E ''workflow deleted; hold released'' (set_trace tr s), outcome False 0))"

definition releaseCompletedWorkflow ::
  "ext \<Rightarrow> cworld \<Rightarrow> SeiNodeTaskWorkflow \<Rightarrow> cstate \<Rightarrow> cstate \<times> wf_outcome" where
  "releaseCompletedWorkflow E C w s =
     (case patchWorkflowFinalizer C False w (c_Trace s) of
        (_, tr, Some e) \<Rightarrow> (set_trace tr s, wf_error True (api_text e))
      | (_, tr, None) \<Rightarrow> (clear_pointer E ''workflow completed'' (set_trace tr s), outcome False 0))"

subsection \<open>Driving an adopted workflow\<close>

definition planFailureDetail :: "TaskPlan \<Rightarrow> string" where
  "planFailureDetail plan =
     (case plan_FailedTaskDetail plan of
        Some d \<Rightarrow> ''task '' @ task_type_string (fti_Type d) @ '': '' @ fti_Error d
      | None \<Rightarrow> ''workflow plan failed'')"

definition park_failed :: "ext \<Rightarrow> cstate \<Rightarrow> cstate \<times> wf_outcome" where
  "park_failed E s =
     (on_node (setWorkflowInProgress E ConditionTrue ''WorkflowFailedHeld''
        ''workflow failed; node held pending re-run or deletion'') s, outcome True statusPollInterval)"

text \<open>The executor's calls enter the trace behind what the reconcile wrote before.\<close>

definition run_plan_on ::
  "ext \<Rightarrow> PlatformConfig \<Rightarrow> cworld \<Rightarrow> go_time \<Rightarrow> TaskPlan \<Rightarrow> cstate \<Rightarrow> cstate \<times> TaskPlan \<times> duration" where
  "run_plan_on E P C now plan s =
     (case executePlan (registry E P (cw_World C (c_Trace s))) now
             \<lparr>run_state = \<lparr>xs_Node = Some (c_Node s), xs_Calls = []\<rparr>, run_plan = plan, run_active = 0\<rparr> of
        (r, d) \<Rightarrow>
          (s\<lparr>c_Node := (case xs_Node (run_state r) of Some n \<Rightarrow> n | None \<Rightarrow> c_Node s),
             c_Trace := map TaskCall (xs_Calls (run_state r)) @ c_Trace s\<rparr>, run_plan r, d))"

definition mirror_terminal :: "ext \<Rightarrow> TaskPlan \<Rightarrow> SeiNodeTaskWorkflow \<Rightarrow> SeiNodeTaskWorkflow" where
  "mirror_terminal E plan w =
     (case plan_Phase plan of
        TaskPlanComplete \<Rightarrow>
          setWorkflowCondition E ''Ready'' ConditionTrue ''WorkflowComplete'' ''recipe completed''
            (set_phase WorkflowComplete w)
      | TaskPlanFailed \<Rightarrow>
          setWorkflowCondition E ''Failed'' ConditionTrue ''WorkflowFailed'' (planFailureDetail plan)
            (set_phase WorkflowFailed w)
      | TaskPlanActive \<Rightarrow> w)"

definition executeWorkflow ::
  "ext \<Rightarrow> PlatformConfig \<Rightarrow> cworld \<Rightarrow> go_time \<Rightarrow> TaskPlan \<Rightarrow> SeiNodeTaskWorkflow \<Rightarrow> cstate \<Rightarrow>
   cstate \<times> wf_outcome" where
  "executeWorkflow E P C now plan w s =
     (let started = w\<lparr>wf_Status := (wf_Status w)\<lparr>wfs_ObservedGeneration := wf_Generation w,
            wfs_Phase := (if wf_Phase w = WorkflowUnset \<or> wf_Phase w = WorkflowPending
                          then WorkflowRunning else wf_Phase w)\<rparr>\<rparr>
      in case run_plan_on E P C now plan s of
        (s1, plan', d) \<Rightarrow>
          (let w' = mirror_terminal E plan' (started\<lparr>wf_Status := (wf_Status started)\<lparr>wfs_Plan := Some plan'\<rparr>\<rparr>);
               err = (if wf_Status w' = wf_Status w then None
                      else map_option (wrap_api ''patching workflow status: '')
                             (cw_PatchWorkflowStatus C (c_Trace s1) (wf_Name w)));
               s2 = (if wf_Status w' = wf_Status w \<or> err \<noteq> None then s1
                     else set_trace (PatchWorkflowStatus (wf_Name w) (wf_Status w') # c_Trace s1) s1)
           in case err of
                Some e \<Rightarrow> (s2, wf_error True (api_text e))
              | None \<Rightarrow> (case plan_Phase plan' of
                  TaskPlanComplete \<Rightarrow> releaseCompletedWorkflow E C w' s2
                | TaskPlanFailed \<Rightarrow> park_failed E s2
                | TaskPlanActive \<Rightarrow> (s2, outcome True d))))"

definition buildAndPersistWorkflowPlan ::
  "ext \<Rightarrow> cworld \<Rightarrow> SeiNodeTaskWorkflow \<Rightarrow> cstate \<Rightarrow> cstate \<times> error option" where
  "buildAndPersistWorkflowPlan E C w s =
     (case buildWorkflowPlan E (cw_NewUUID C (c_Trace s)) (c_Node s) w of
        Inl e \<Rightarrow> (set_trace (failWorkflow E C ''PlanBuildFailed'' e w (c_Trace s)) s, None)
      | Inr plan \<Rightarrow> (case persistWorkflowPlan E C plan w (c_Trace s) of
          (_, tr, err) \<Rightarrow> (set_trace tr s, map_option api_text err)))"

definition driveAdoptedWorkflow ::
  "ext \<Rightarrow> PlatformConfig \<Rightarrow> cworld \<Rightarrow> go_time \<Rightarrow> AdoptedWorkflowRef \<Rightarrow> cstate \<Rightarrow> cstate \<times> wf_outcome" where
  "driveAdoptedWorkflow E P C now ptr s =
     (case cw_GetWorkflow C (c_Trace s) (aw_Name ptr) of
        Inl e \<Rightarrow>
          if IsNotFound e then (clear_pointer E ''adopted workflow no longer present'' s, outcome False 0)
          else (s, wf_error True (api_text e))
      | Inr w \<Rightarrow>
          if wf_UID w \<noteq> aw_UID ptr
          then (clear_pointer E ''adopted workflow no longer present'' s, outcome False 0)
          else if wf_Deleting w then finalizeWorkflow E C w s
          else if map_option plan_Phase (wf_Plan w) = Some TaskPlanComplete then releaseCompletedWorkflow E C w s
          else if map_option plan_Phase (wf_Plan w) = Some TaskPlanFailed then park_failed E s
          else
            (let s1 = on_node (setWorkflowInProgress E ConditionTrue ''WorkflowRunning''
                                 (''driving workflow '' @ wf_Name w)) s
             in case patchWorkflowFinalizer C True w (c_Trace s1) of
                  (_, tr, Some e) \<Rightarrow> (set_trace tr s1, wf_error True (api_text e))
                | (w', tr, None) \<Rightarrow>
                    (case wf_Plan w' of
                       None \<Rightarrow>
                         (case buildAndPersistWorkflowPlan E C w' (set_trace tr s1) of
                            (s2, Some e) \<Rightarrow> (s2, wf_error True e)
                          | (s2, None) \<Rightarrow> (s2, outcome True ResultRequeueImmediate))
                     | Some plan \<Rightarrow> executeWorkflow E P C now plan w' (set_trace tr s1))))"

subsection \<open>Adopting a workflow\<close>

definition defaultWorkflowRequirePhaseTimeout :: duration where
  "defaultWorkflowRequirePhaseTimeout = 5 * 60 * 1000000000"

definition workflowTargetWaitInterval :: duration where
  "workflowTargetWaitInterval = 5 * 1000000000"

fun phase_string :: "SeiNodePhase \<Rightarrow> string" where
  "phase_string PhaseUnset = []"
| "phase_string PhasePending = ''Pending''"
| "phase_string PhaseInitializing = ''Initializing''"
| "phase_string PhaseRunning = ''Running''"
| "phase_string PhaseFailed = ''Failed''"
| "phase_string PhaseTerminating = ''Terminating''"

text \<open>\<open>time.Duration.String\<close>: hours, minutes and seconds from one second up, otherwise the unit
  that leaves a whole part; fractions without trailing zeros.\<close>

definition fraction_string :: "nat \<Rightarrow> int \<Rightarrow> string" where
  "fraction_string width v =
     (let digits = trim_right (CHR ''0'') (replicate (width - length (itoa v)) (CHR ''0'') @ itoa v)
      in if v = 0 then [] else ''.'' @ digits)"

definition duration_string :: "duration \<Rightarrow> string" where
  "duration_string d =
     (let u = \<bar>d\<bar>; secs = u div 1000000000; minutes = secs div 60; hours = minutes div 60;
          body = (if u = 0 then ''0s''
            else if u < 1000 then itoa u @ ''ns''
            else if u < 1000000 then itoa (u div 1000) @ fraction_string 3 (u mod 1000) @ [CHR 0xC2, CHR 0xB5] @ ''s''
            else if u < 1000000000 then itoa (u div 1000000) @ fraction_string 6 (u mod 1000000) @ ''ms''
            else (if hours > 0 then itoa hours @ ''h'' else []) @
                 (if minutes > 0 then itoa (minutes mod 60) @ ''m'' else []) @
                 itoa (secs mod 60) @ fraction_string 9 (u mod 1000000000) @ ''s'')
      in if d < 0 then ''-'' @ body else body)"

text \<open>The result: the workflow, the trace, and the requeue delay when the target is not ready.\<close>

definition gateOnRequirePhase ::
  "ext \<Rightarrow> cworld \<Rightarrow> go_time \<Rightarrow> SeiNode \<Rightarrow> SeiNodeTaskWorkflow \<Rightarrow> trace \<Rightarrow>
   SeiNodeTaskWorkflow \<times> trace \<times> duration option" where
  "gateOnRequirePhase E C now n w tr =
     (let required = (if wf_RequirePhase w = PhaseUnset then PhaseRunning else wf_RequirePhase w);
          since = wfs_TargetFirstObservedAt (wf_Status w);
          timeout = (case wf_RequirePhaseTimeout w of Some t \<Rightarrow> t | None \<Rightarrow> defaultWorkflowRequirePhaseTimeout)
      in if node_Phase n = required
         then (if since = None then (w, tr, None)
               else case patchWorkflowStatus C
                      (\<lambda>v. v\<lparr>wf_Status := (wf_Status v)\<lparr>wfs_TargetFirstObservedAt := None\<rparr>\<rparr>) w tr of
                    (w', tr', _) \<Rightarrow> (w', tr', None))
         else if (case since of Some t \<Rightarrow> now - t > timeout | None \<Rightarrow> False)
         then (w, failWorkflow E C ''TargetPhaseTimeout''
                 (''target '' @ node_Name n @ '' did not reach phase '' @ phase_string required @ '' within '' @
                  duration_string timeout @ '' (current: '' @ phase_string (node_Phase n) @ '')'') w tr, Some 0)
         else (case patchWorkflowStatus C
                 (\<lambda>v. seedWorkflowTerminalConditions E
                    (setWorkflowCondition E ''Adopted'' ConditionFalse ''TargetNotReady''
                       (''waiting for target '' @ node_Name n @ '' to reach '' @ phase_string required @
                        '' (current: '' @ phase_string (node_Phase n) @ '')'')
                       (v\<lparr>wf_Status := (wf_Status v)\<lparr>
                          wfs_TargetFirstObservedAt := (case wfs_TargetFirstObservedAt (wf_Status v) of
                              None \<Rightarrow> Some now | Some t \<Rightarrow> Some t),
                          wfs_Phase := (if wf_Phase v = WorkflowUnset then WorkflowPending else wf_Phase v)\<rparr>\<rparr>))) w tr of
                 (w', tr', _) \<Rightarrow> (w', tr', Some workflowTargetWaitInterval)))"

definition ineligibleWorkflowRole :: "SeiNode \<Rightarrow> string" where
  "ineligibleWorkflowRole n =
     (let s = node_Spec n in
      if spec_FullNode s \<noteq> None then []
      else if spec_Validator s \<noteq> None then ''validator''
      else if spec_Archive s \<noteq> None then ''archive''
      else if spec_Replayer s \<noteq> None then ''replayer''
      else if spec_Seed s \<noteq> None then ''seed''
      else ''non-full'')"

definition fail_all ::
  "ext \<Rightarrow> cworld \<Rightarrow> string \<Rightarrow> SeiNodeTaskWorkflow list \<Rightarrow> cstate \<Rightarrow> cstate \<times> wf_outcome" where
  "fail_all E C msg candidates s =
     (set_trace (over_trace (failWorkflow E C ''TargetRejected'' msg) candidates (c_Trace s)) s, outcome False 0)"

text \<open>The commit, in the order the code writes: the pointer with the node's status, the deletion
  gate, then the plan.\<close>

definition commit_adoption ::
  "ext \<Rightarrow> cworld \<Rightarrow> go_time \<Rightarrow> TaskPlan \<Rightarrow> SeiNodeTaskWorkflow \<Rightarrow> cstate \<Rightarrow> cstate \<times> wf_outcome" where
  "commit_adoption E C now plan w s =
     (let ptr = \<lparr>aw_Name = wf_Name w, aw_UID = wf_UID w, aw_AdoptedAt = now\<rparr>;
          s1 = on_node (\<lambda>n. setWorkflowInProgress E ConditionTrue ''WorkflowRunning'' (''adopted workflow '' @ wf_Name w)
                              (upd_status (\<lambda>st. st\<lparr>st_AdoptedWorkflow := Some ptr\<rparr>) n)) s
      in case flushStatus C s1 of
           (s2, Some e) \<Rightarrow> (s2, wf_error False (''committing adoption pointer: '' @ e))
         | (s2, None) \<Rightarrow>
             (case patchWorkflowFinalizer C True w (c_Trace s2) of
                (_, tr, Some e) \<Rightarrow> (set_trace tr s2, wf_error True (api_text e))
              | (w', tr, None) \<Rightarrow>
                  (case persistWorkflowPlan E C plan w' tr of
                     (_, tr', Some e) \<Rightarrow> (set_trace tr' s2, wf_error True (api_text e))
                   | (_, tr', None) \<Rightarrow>
                       (set_trace tr' s2,
                        \<lparr>wo_suppress = True, wo_result = ResultRequeueImmediate, wo_handled = True, wo_err = None\<rparr>))))"

definition adopt_winner ::
  "ext \<Rightarrow> cworld \<Rightarrow> go_time \<Rightarrow> SeiNodeTaskWorkflow \<Rightarrow> cstate \<Rightarrow> cstate \<times> wf_outcome" where
  "adopt_winner E C now w s =
     (let n = c_Node s; waiting = (\<lambda>msg. (set_trace (seedWorkflowAdoption E C ConditionFalse ''TargetNotReady'' msg w
                                                       (c_Trace s)) s, outcome False 0))
      in if spec_Paused (node_Spec n) then waiting ''target is paused''
         else if node_Plan n \<noteq> None then waiting ''target has an active plan''
         else case gateOnRequirePhase E C now n w (c_Trace s) of
           (_, tr, Some d) \<Rightarrow> (set_trace tr s, outcome False d)
         | (w', tr, None) \<Rightarrow>
             (case buildWorkflowPlan E (cw_NewUUID C tr) n w' of
                Inl e \<Rightarrow> (set_trace (failWorkflow E C ''PlanBuildFailed'' e w' tr) s, outcome False 0)
              | Inr plan \<Rightarrow> commit_adoption E C now plan w' (set_trace tr s)))"

definition maybeAdoptWorkflow ::
  "ext \<Rightarrow> cworld \<Rightarrow> go_time \<Rightarrow> cstate \<Rightarrow> cstate \<times> wf_outcome" where
  "maybeAdoptWorkflow E C now s0 =
     (case reapCompletedWorkflowFinalizers C (c_Trace s0) of
        (tr, Some e) \<Rightarrow> (set_trace tr s0, wf_error False e)
      | (tr, None) \<Rightarrow>
          (let s = set_trace tr s0; n = c_Node s in
           case pendingWorkflowsForNode C tr of
             Inl e \<Rightarrow> (s, wf_error False (api_text e))
           | Inr [] \<Rightarrow> (s, outcome False 0)
           | Inr (winner # losers) \<Rightarrow>
               if ineligibleWorkflowRole n \<noteq> []
               then fail_all E C (ineligibleWorkflowRole n @ '' target is ineligible; workflows target full/RPC nodes only'')
                      (winner # losers) s
               else if MountsNodeConfig n
               then fail_all E C
                      ''target sets spec.nodeConfig; workflows rewrite config.toml, which the node mounts read-only''
                      (winner # losers) s
               else adopt_winner E C now winner
                      (set_trace (over_trace (seedWorkflowAdoption E C ConditionFalse ''QueuedBehindActive''
                         ''another workflow is queued ahead on this node'') losers tr) s)))"

definition reconcileWorkflow ::
  "ext \<Rightarrow> PlatformConfig \<Rightarrow> cworld \<Rightarrow> go_time \<Rightarrow> cstate \<Rightarrow> cstate \<times> wf_outcome" where
  "reconcileWorkflow E P C now s =
     (case st_AdoptedWorkflow (node_Status (c_Node s)) of
        Some ptr \<Rightarrow> driveAdoptedWorkflow E P C now ptr s
      | None \<Rightarrow>
          if node_Phase (c_Node s) \<noteq> PhaseRunning then (s, outcome False 0)
          else maybeAdoptWorkflow E C now (on_node (seedWorkflowInProgress E) s))"

end
