(* ===== verification/NodeReconcile.thy ===== *)
theory NodeReconcile
  imports WorkflowControl
begin

text \<open>
  The reconcile of a node (\<open>SeiNodeReconciler.Reconcile\<close> in
  \<open>internal/controller/node/controller.go\<close>, with \<open>reconcileStatefulSet\<close> of \<open>statefulset.go\<close>): the
  deletion path, the always-present conditions, the StatefulSet, the workflow half, the drift
  plan, and the one status write with its backstop.  The clock is read once per reconcile.
\<close>

record node_object =
  no_Node :: SeiNode
  no_Deleting :: bool
  no_Finalizer :: bool

record reconcile_result =
  rr_State :: cstate
  rr_Retry :: "go_time option"  \<comment> \<open>the node's entry of the height back-off table\<close>
  rr_Requeue :: duration
  rr_Err :: "error option"

subsection \<open>Deletion\<close>

definition deleteNodeDataPVC :: "cworld \<Rightarrow> SeiNode \<Rightarrow> trace \<Rightarrow> trace \<times> api_error option" where
  "deleteNodeDataPVC C n tr =
     (case imported_pvc n of
        Some _ \<Rightarrow> (tr, None)
      | None \<Rightarrow> (case w_PVC (cw_World C tr) [] (DataPVCName n) of
          Inl e \<Rightarrow> if IsNotFound e then (tr, None) else (tr, Some e)
        | Inr _ \<Rightarrow> (case cw_DeletePVC C tr (DataPVCName n) of
            Some e \<Rightarrow> (tr, Some e) | None \<Rightarrow> (DeletePVC (DataPVCName n) # tr, None))))"

definition handleNodeDeletion :: "cworld \<Rightarrow> node_object \<Rightarrow> cstate \<Rightarrow> cstate \<times> error option" where
  "handleNodeDeletion C ob s =
     (if \<not> no_Finalizer ob then (s, None)
      else let s1 = on_node (upd_status (\<lambda>st. st\<lparr>st_Phase := PhaseTerminating\<rparr>)) s;
               st = node_Status (c_Node s1)
           in case cw_PatchNodeStatus C (c_Trace s1) of
                Some e \<Rightarrow> (s1, Some (''setting terminating status: '' @ api_text e))
              | None \<Rightarrow>
                  (let s2 = s1\<lparr>c_Saved := st, c_Trace := PatchNodeStatus st # c_Trace s1\<rparr> in
                   case deleteNodeDataPVC C (c_Node s2) (c_Trace s2) of
                     (tr, Some e) \<Rightarrow> (set_trace tr s2, Some (''deleting data PVC: '' @ api_text e))
                   | (tr, None) \<Rightarrow> (case releaseWorkflowFinalizersForNode C tr of
                       (tr', Some e) \<Rightarrow> (set_trace tr' s2, Some (''releasing workflow finalizers: '' @ e))
                     | (tr', None) \<Rightarrow> (case cw_UpdateNode C tr' of
                         Some e \<Rightarrow> (set_trace tr' s2, Some (api_text e))
                       | None \<Rightarrow> (set_trace (SetNodeFinalizer False # tr') s2, None)))))"

subsection \<open>The always-present conditions\<close>

definition resolve_gates :: "ext \<Rightarrow> cworld \<Rightarrow> go_time \<Rightarrow> trace \<Rightarrow> SeiNode \<Rightarrow> SeiNode \<times> bool" where
  "resolve_gates E C now tr n =
     (case reconcileStateSyncGate E C (setNodePausedCondition E n) of
        (n1, blocked) \<Rightarrow>
          (let n2 = reconcileVolumeAttributesClass E C tr n1;
               n3 = reconcileDataVolumeResize E C tr n2;
               n4 = reconcileEvmServing E C tr n3;
               n5 = (if IsEvmOnly (EffectiveExecutionEngine (node_Spec n4)) then set_endpoint E n4 else n4);
               n6 = setPeersReady E n5 now
           in (ResolveMaintenance E (ResolveDataReset E n6), blocked)))"

subsection \<open>The StatefulSet\<close>

definition reconcileStatefulSet :: "cworld \<Rightarrow> SeiNode \<Rightarrow> trace \<Rightarrow> trace \<times> StatefulSetRef option result" where
  "reconcileStatefulSet C n tr =
     (case SyncStatefulSet (cw_World C tr) n \<lparr>xs_Node = Some n, xs_Calls = []\<rparr> of
        (x, r) \<Rightarrow>
          (let tr' = map TaskCall (xs_Calls x) @ tr in
           case r of
             Inl e \<Rightarrow> (tr', Err (''syncing statefulset: '' @ e))
           | Inr True \<Rightarrow> (tr', Ok (Some (cw_AppliedStatefulSet C tr')))
           | Inr False \<Rightarrow> (tr', Ok None)))"

definition hold_statefulset :: "ext \<Rightarrow> go_time \<Rightarrow> SeiNode \<Rightarrow> bool" where
  "hold_statefulset E now n \<longleftrightarrow>
     (StateSyncBlocksPlan E n \<or> PeersBlockPlan n now) \<and> st_StatefulSet (node_Status n) = None \<or>
     st_AdoptedWorkflow (node_Status n) \<noteq> None \<and> \<not> adoptedWorkflowParkedFailed E n"

definition sync_workload ::
  "ext \<Rightarrow> PlatformConfig \<Rightarrow> cworld \<Rightarrow> go_time \<Rightarrow> cstate \<Rightarrow> cstate \<times> error option" where
  "sync_workload E P C now s =
     (let hold = hold_statefulset E now (c_Node s) in
      case DriftRenderNode E P (cw_Nodes C (c_Trace s)) (c_Node s) of
        (n, Inl e) \<Rightarrow> (on_node (\<lambda>_. n) s, Some (''checking the drift-roll budget: '' @ e))
      | (n, Inr rendered) \<Rightarrow>
          (let s1 = on_node (\<lambda>_. n) s in
           if hold then (s1, None)
           else case reconcileStatefulSet C rendered (c_Trace s1) of
             (tr, Inl e) \<Rightarrow> (set_trace tr s1, Some (''reconciling statefulset: '' @ e))
           | (tr, Inr ref) \<Rightarrow>
               (on_node (upd_status (\<lambda>st. st\<lparr>st_StatefulSet := ref\<rparr>)) (set_trace tr s1), None)))"

subsection \<open>The drift plan\<close>

definition resolveDriftPlan ::
  "ext \<Rightarrow> PlatformConfig \<Rightarrow> cworld \<Rightarrow> go_time \<Rightarrow> cstate \<Rightarrow> cstate \<times> duration \<times> error option" where
  "resolveDriftPlan E P C now s =
     (let tr = c_Trace s; wasActive = plan_active (c_Node s) in
      case ResolvePlan E P (cw_Nodes C tr) (cw_Probe C tr) now (cw_NewUUID C tr) (c_Node s) of
        (n, Some e) \<Rightarrow> (on_node (\<lambda>_. n) s, 0, Some (''resolving plan: '' @ e))
      | (n, None) \<Rightarrow>
          (let s1 = on_node (\<lambda>_. n) s;
               (s2, d) = (case node_Plan n of
                   None \<Rightarrow> (s1, 0)
                 | Some plan \<Rightarrow>
                     if \<not> wasActive then (s1, ResultRequeueImmediate)
                     else if plan_Phase plan = TaskPlanActive
                     then (case run_plan_on E P C now plan s1 of (s', plan', d') \<Rightarrow>
                             (on_node (upd_status (\<lambda>st. st\<lparr>st_Plan := Some plan'\<rparr>)) s', d'))
                     else (s1, 0));
               m = c_Node s2
           in (if \<not> IsEvmOnly (EffectiveExecutionEngine (node_Spec m)) \<and> node_Phase m = PhaseRunning
               then on_node (set_endpoint E) s2 else s2, d, None)))"

subsection \<open>The reconcile\<close>

definition stop :: "cstate \<Rightarrow> go_time option \<Rightarrow> duration \<Rightarrow> error option \<Rightarrow> reconcile_result" where
  "stop s retry d err = \<lparr>rr_State = s, rr_Retry = retry, rr_Requeue = d, rr_Err = err\<rparr>"

definition flush_and_stop :: "cworld \<Rightarrow> string \<Rightarrow> go_time option \<Rightarrow> duration \<Rightarrow> cstate \<Rightarrow> reconcile_result" where
  "flush_and_stop C what retry d s =
     (case flushStatus C s of
        (s', Some e) \<Rightarrow> stop s' retry 0 (Some (what @ '': '' @ e))
      | (s', None) \<Rightarrow> stop s' retry d None)"

text \<open>From the plan work on: height, flush and requeue.\<close>

definition finish ::
  "cworld \<Rightarrow> go_time \<Rightarrow> bool \<Rightarrow> bool \<Rightarrow> go_time option \<Rightarrow> duration \<Rightarrow> cstate \<Rightarrow> reconcile_result" where
  "finish C now suppress blocked retry d s =
     (case observeCommittedHeight C now (c_Trace s) suppress retry (c_Node s) of
        (n, retry') \<Rightarrow>
          flush_and_stop C ''flushing status'' retry' (steadyStateRequeue n d suppress blocked) (on_node (\<lambda>_. n) s))"

text \<open>From the workflow half on.\<close>

definition plan_work ::
  "ext \<Rightarrow> PlatformConfig \<Rightarrow> cworld \<Rightarrow> go_time \<Rightarrow> go_time option \<Rightarrow> bool \<Rightarrow> cstate \<Rightarrow> reconcile_result" where
  "plan_work E P C now retry blocked s =
     (case reconcileWorkflow E P C now s of
        (s1, out) \<Rightarrow>
          (case wo_err out of
             Some e \<Rightarrow> stop s1 retry 0 (Some (''reconciling workflow: '' @ e))
           | None \<Rightarrow>
               if wo_handled out then stop s1 retry (wo_result out) None
               else if wo_suppress out then finish C now True blocked retry (wo_result out) s1
               else case backfillNodeIsolation C (c_Trace s1) (c_Node s1) of
                 Inl e \<Rightarrow> stop s1 retry 0 (Some (''backfilling node isolation: '' @ e))
               | Inr n \<Rightarrow> (case resolveDriftPlan E P C now (on_node (\<lambda>_. n) s1) of
                   (s2, _, Some e) \<Rightarrow> stop s2 retry 0 (Some e)
                 | (s2, d, None) \<Rightarrow> finish C now False blocked retry d s2)))"

definition reconcile_body ::
  "ext \<Rightarrow> PlatformConfig \<Rightarrow> cworld \<Rightarrow> go_time \<Rightarrow> go_time option \<Rightarrow> cstate \<Rightarrow> reconcile_result" where
  "reconcile_body E P C now retry s0 =
     (case resolve_gates E C now (c_Trace s0) (c_Node s0) of
        (n, stateSyncBlocked) \<Rightarrow>
          (let s = on_node (\<lambda>_. n) s0 in
           if node_Phase n = PhaseFailed then flush_and_stop C ''flushing status on Failed'' retry 0 s
           else case sync_workload E P C now s of
             (s1, Some e) \<Rightarrow> stop s1 retry 0 (Some e)
           | (s1, None) \<Rightarrow>
               if spec_Paused (node_Spec (c_Node s1)) then flush_and_stop C ''flushing paused status'' retry 0 s1
               else case growDataPVC E C (c_Trace s1) (c_Node s1) of
                 (n2, tr2) \<Rightarrow>
                   (let s2 = set_trace tr2 (on_node (\<lambda>_. n2) s1) in
                    case reconcilePeers E C now tr2 n2 of
                      Inl e \<Rightarrow> stop s2 retry 0 (Some (''reconciling peers: '' @ e))
                    | Inr n3 \<Rightarrow>
                        plan_work E P C now retry (stateSyncBlocked \<or> PeersBlockPlan n3 now)
                          (on_node (\<lambda>_. n3) s2))))"

text \<open>The deferred flush: what was resolved is persisted on every way out, and it never replaces
  the error that ended the reconcile.\<close>

definition backstop :: "cworld \<Rightarrow> reconcile_result \<Rightarrow> reconcile_result" where
  "backstop C r =
     (if c_FlushFailed (rr_State r) then r
      else case flushStatus C (rr_State r) of
        (s, None) \<Rightarrow> r\<lparr>rr_State := s\<rparr>
      | (s, Some e) \<Rightarrow>
          if rr_Err r \<noteq> None then r\<lparr>rr_State := s\<rparr>
          else r\<lparr>rr_State := s, rr_Err := Some (''flushing status: '' @ e)\<rparr>)"

definition reconcile_object ::
  "ext \<Rightarrow> PlatformConfig \<Rightarrow> cworld \<Rightarrow> go_time \<Rightarrow> go_time option \<Rightarrow> node_object \<Rightarrow> reconcile_result" where
  "reconcile_object E P C now retry ob =
     (let s = \<lparr>c_Node = no_Node ob, c_Trace = [], c_Saved = node_Status (no_Node ob), c_FlushFailed = False\<rparr>
      in if no_Deleting ob
         then (case handleNodeDeletion C ob s of (s', err) \<Rightarrow> stop s' None 0 err)
         else if no_Finalizer ob then backstop C (reconcile_body E P C now retry s)
         else case cw_UpdateNode C [] of
           Some e \<Rightarrow> stop s retry 0 (Some (api_text e))
         | None \<Rightarrow> backstop C (reconcile_body E P C now retry (set_trace [SetNodeFinalizer True] s)))"

text \<open>\<open>Reconcile\<close> on what the read of the object answered: a missing object ends it without an error.\<close>

definition Reconcile ::
  "ext \<Rightarrow> PlatformConfig \<Rightarrow> cworld \<Rightarrow> go_time \<Rightarrow> go_time option \<Rightarrow> node_object api \<Rightarrow>
   error option + reconcile_result" where
  "Reconcile E P C now retry reading =
     (case reading of
        Inl e \<Rightarrow> Inl (if IsNotFound e then None else Some (api_text e))
      | Inr ob \<Rightarrow> Inr (reconcile_object E P C now retry ob))"

end
