(* ===== verification/ControlFixtures.thy ===== *)
theory ControlFixtures
  imports NodeReconcile ExecFixtures
begin

text \<open>
  Concrete worlds for the controller: an API server that accepts every write, a node that
  bootstraps from a snapshot, and a state-sync workflow adopted by the full node of \<open>Fixtures\<close>.
\<close>

definition ready_pod :: PodView where
  "ready_pod = \<lparr>pview_Conditions = [(''Ready'', ConditionTrue)], pview_Labels = Map.empty\<rparr>"

definition demo_workflow :: SeiNodeTaskWorkflow where
  "demo_workflow =
     \<lparr>wf_Name = ''resync'', wf_UID = ''wf-1'', wf_Generation = 1, wf_CreationTimestamp = 5, wf_Deleting = False,
      wf_Finalizer = False, wf_ForceDelete = False, wf_Kind = ''StateSync'', wf_RequirePhase = PhaseUnset,
      wf_RequirePhaseTimeout = None,
      wf_StateSync = Some \<lparr>ss_Migration = None, ss_RpcServers = [''a:26657'', ''b:26657'']\<rparr>,
      wf_Status = \<lparr>wfs_ObservedGeneration = 0, wfs_Phase = WorkflowUnset, wfs_TargetFirstObservedAt = None,
                   wfs_Plan = None, wfs_Conditions = []\<rparr>\<rparr>"

definition demo_cworld :: cworld where
  "demo_cworld =
     \<lparr>cw_World = (\<lambda>_. demo_world), cw_ReadFileConfig = Inr (\<lambda>_. None),
      cw_VolumeAttributesClass = (\<lambda>_ _. Inl (NotFound ''vac'')), cw_Pod = (\<lambda>_ _. Inr ready_pod),
      cw_Quantity = (\<lambda>s. int (length s)), cw_PatchPVC = (\<lambda>_ _. None), cw_DeletePVC = (\<lambda>_ _. None),
      cw_ResolvePeers = (\<lambda>_ _. Inr []), cw_Height = (\<lambda>_. None),
      cw_AppliedStatefulSet = (\<lambda>_. \<lparr>stsref_Name = ''rpc-0'', stsref_UID = ''u1''\<rparr>),
      cw_Nodes = (\<lambda>_. None), cw_Probe = (\<lambda>_. None), cw_NewUUID = (\<lambda>_. ''p''), cw_PatchNodeStatus = (\<lambda>_. None),
      cw_UpdateNode = (\<lambda>_. None), cw_GetWorkflow = (\<lambda>_ _. Inr demo_workflow),
      cw_ListWorkflows = (\<lambda>_. Inr [demo_workflow]), cw_PatchWorkflow = (\<lambda>_ _. None),
      cw_PatchWorkflowStatus = (\<lambda>_ _. None)\<rparr>"

text \<open>A full node that has not started yet and bootstraps by state sync.\<close>

definition syncing_node :: SeiNode where
  "syncing_node =
     demo_node\<lparr>node_Spec := demo_spec\<lparr>spec_FullNode := Some
                 \<lparr>fn_Snapshot = Some \<lparr>snap_S3 = None, snap_StateSync = True, snap_TrustPeriod = [],
                                     snap_RpcServers = [''a:26657''], snap_BackfillBlocks = 0\<rparr>,
                  fn_SnapshotGeneration = None, fn_Freeze = None\<rparr>\<rparr>,
               node_Status := demo_status\<lparr>st_Phase := PhasePending\<rparr>\<rparr>"

definition cstate_of :: "SeiNode \<Rightarrow> cstate" where
  "cstate_of n = \<lparr>c_Node = n, c_Trace = [], c_Saved = node_Status n, c_FlushFailed = False\<rparr>"

lemmas control_demo_defs = ready_pod_def demo_workflow_def demo_cworld_def syncing_node_def cstate_of_def

end
