(* ===== verification/WorkflowProps.thy ===== *)
theory WorkflowProps
  imports ControlFixtures StartSafety
begin

text \<open>
  What the workflow half of the node reconcile guarantees: destructive work runs only for the
  adopted, undeleted workflow behind its deletion gate; a node forgets a workflow only once that
  gate is gone; and an adoption is committed to the node before anything else.
\<close>

subsection \<open>Traces\<close>

text \<open>\<open>tr'\<close> extends \<open>tr\<close> by events that satisfy \<open>K\<close>.\<close>

definition emits :: "(event \<Rightarrow> bool) \<Rightarrow> trace \<Rightarrow> trace \<Rightarrow> bool" where
  "emits K tr tr' \<longleftrightarrow> (\<exists>evs. tr' = evs @ tr \<and> list_all K evs)"

lemma emits_refl [simp]: "emits K tr tr"
  by (simp add: emits_def)

lemma emits_Cons: "emits K tr tr' \<Longrightarrow> K e \<Longrightarrow> emits K tr (e # tr')"
  unfolding emits_def by (elim exE conjE, rule exI[of _ "e # _"]) simp

lemma emits_one: "K e \<Longrightarrow> emits K tr (e # tr)"
  by (simp add: emits_Cons)

lemma emits_trans: "emits K a b \<Longrightarrow> emits K b c \<Longrightarrow> emits K a c"
  unfolding emits_def by (metis append.assoc list_all_append)

lemma emits_mono: "emits K a b \<Longrightarrow> (\<And>e. K e \<Longrightarrow> L e) \<Longrightarrow> emits L a b"
  unfolding emits_def by (metis (mono_tags, lifting) list.pred_mono_strong)

lemma emits_only_new: "emits K tr tr' \<Longrightarrow> e \<in> set tr' \<Longrightarrow> \<not> K e \<Longrightarrow> e \<in> set tr"
  by (auto simp: emits_def list_all_iff)

fun is_call :: "event \<Rightarrow> bool" where
  "is_call (TaskCall _) = True"
| "is_call _ = False"

fun is_workflow_write :: "event \<Rightarrow> bool" where
  "is_workflow_write (PatchWorkflowFinalizer _ _) = True"
| "is_workflow_write (PatchWorkflowStatus _ _) = True"
| "is_workflow_write _ = False"

lemma workflow_write_no_call: "is_workflow_write e \<Longrightarrow> \<not> is_call e"
  by (cases e) auto

subsection \<open>Writes to workflows\<close>

lemma finalizer_cases:
  assumes "patchWorkflowFinalizer C add w tr = (w', tr', err)"
  obtains (kept) "wf_Finalizer w = add" "w' = w" "tr' = tr" "err = None"
    | (patched) "wf_Finalizer w \<noteq> add" "w' = w\<lparr>wf_Finalizer := add\<rparr>" "err = None"
        "tr' = PatchWorkflowFinalizer (wf_Name w) add # tr"
    | (gone) e where "wf_Finalizer w \<noteq> add" "cw_PatchWorkflow C tr (wf_Name w) = Some (NotFound e)"
        "w' = w\<lparr>wf_Finalizer := add\<rparr>" "tr' = tr" "err = None"
    | (refused) e where "wf_Finalizer w \<noteq> add" "tr' = tr" "err = Some e"
  using assms unfolding patchWorkflowFinalizer_def Let_def
  by (auto split: if_splits option.splits elim: IsNotFound.elims)

text \<open>Each writer, for every class of events that holds its writes.\<close>

lemma finalizer_emits:
  "patchWorkflowFinalizer C add w tr = (w', tr', err) \<Longrightarrow> (\<And>n. K (PatchWorkflowFinalizer n add)) \<Longrightarrow> emits K tr tr'"
proof -
  assume patch: "patchWorkflowFinalizer C add w tr = (w', tr', err)" and "\<And>n. K (PatchWorkflowFinalizer n add)"
  then have K: "K (PatchWorkflowFinalizer (wf_Name w) add)" by blast
  from patch have "tr' = tr \<or> tr' = PatchWorkflowFinalizer (wf_Name w) add # tr" by (cases rule: finalizer_cases) simp_all
  then show "emits K tr tr'" using emits_one[of K, OF K] emits_refl by metis
qed

lemma status_emits:
  "patchWorkflowStatus C f w tr = (w', tr', err) \<Longrightarrow> (\<And>n st. K (PatchWorkflowStatus n st)) \<Longrightarrow> emits K tr tr'"
  unfolding patchWorkflowStatus_def Let_def by (auto split: if_splits option.splits simp: emits_one)

lemma status_emits_proj:
  "(\<And>n st. K (PatchWorkflowStatus n st)) \<Longrightarrow> emits K tr (fst (snd (patchWorkflowStatus C f w tr)))"
  by (rule status_emits[where w' = "fst (patchWorkflowStatus C f w tr)"
      and err = "snd (snd (patchWorkflowStatus C f w tr))"]) simp_all

lemma failWorkflow_emits:
  "(\<And>n st. K (PatchWorkflowStatus n st)) \<Longrightarrow> emits K tr (failWorkflow E C reason msg w tr)"
  by (simp add: failWorkflow_def status_emits_proj)

lemma seedAdoption_emits:
  "(\<And>n st. K (PatchWorkflowStatus n st)) \<Longrightarrow> emits K tr (seedWorkflowAdoption E C st reason msg w tr)"
  by (simp add: seedWorkflowAdoption_def status_emits_proj)

lemma over_trace_emits: "(\<And>x t. emits K t (f x t)) \<Longrightarrow> emits K tr (over_trace f xs tr)"
  by (induction xs arbitrary: tr) (auto intro: emits_trans)

lemma strip_emits:
  "strip_finalizers C pre post ws tr = (tr', err) \<Longrightarrow> (\<And>n. K (PatchWorkflowFinalizer n False)) \<Longrightarrow> emits K tr tr'"
proof (induction ws arbitrary: tr)
  case (Cons w ws)
  obtain w' tr1 e where patch: "patchWorkflowFinalizer C False w tr = (w', tr1, e)" by (metis prod_cases3)
  then have "emits K tr tr1" using Cons.prems(2) by (rule finalizer_emits)
  with Cons patch show ?case by (auto split: option.splits api_error.splits intro: emits_trans)
qed simp

lemma reap_emits:
  "reapCompletedWorkflowFinalizers C tr = (tr', err) \<Longrightarrow> (\<And>n. K (PatchWorkflowFinalizer n False)) \<Longrightarrow> emits K tr tr'"
  unfolding reapCompletedWorkflowFinalizers_def by (auto split: sum.splits intro: strip_emits)

lemma requirePhase_emits:
  "gateOnRequirePhase E C now n w tr = (w', tr', d) \<Longrightarrow> (\<And>n st. K (PatchWorkflowStatus n st)) \<Longrightarrow> emits K tr tr'"
  unfolding gateOnRequirePhase_def Let_def
  by (auto split: if_splits prod.splits option.splits intro: status_emits failWorkflow_emits)

lemma persistPlan_emits:
  "persistWorkflowPlan E C plan w tr = (w', tr', err) \<Longrightarrow> (\<And>n st. K (PatchWorkflowStatus n st)) \<Longrightarrow> emits K tr tr'"
  unfolding persistWorkflowPlan_def by (rule status_emits)

lemma set_trace_simps [simp]:
  "c_Trace (set_trace tr s) = tr" "c_Node (set_trace tr s) = c_Node s" "c_Saved (set_trace tr s) = c_Saved s"
  "c_FlushFailed (set_trace tr s) = c_FlushFailed s"
  by (simp_all add: set_trace_def)

lemma on_node_simps [simp]:
  "c_Trace (on_node f s) = c_Trace s" "c_Node (on_node f s) = f (c_Node s)" "c_Saved (on_node f s) = c_Saved s"
  "c_FlushFailed (on_node f s) = c_FlushFailed s"
  by (simp_all add: on_node_def)

lemma clear_pointer_simps [simp]:
  "c_Trace (clear_pointer E msg s) = c_Trace s"
  "st_AdoptedWorkflow (node_Status (c_Node (clear_pointer E msg s))) = None"
  by (simp_all add: clear_pointer_def setWorkflowInProgress_def)

lemma buildAndPersist_emits:
  "buildAndPersistWorkflowPlan E C w s = (s', err) \<Longrightarrow>
     emits is_workflow_write (c_Trace s) (c_Trace s') \<and> c_Node s' = c_Node s"
  unfolding buildAndPersistWorkflowPlan_def
  by (auto split: sum.splits prod.splits simp: failWorkflow_emits dest!: persistPlan_emits[where K = is_workflow_write])

subsection \<open>Running a plan\<close>

lemma run_plan_on_shape:
  assumes "run_plan_on E P C now plan s = (s', plan', d)"
  obtains calls m where "s' = s\<lparr>c_Node := m, c_Trace := map TaskCall calls @ c_Trace s\<rparr>" "owner_frame (c_Node s) m"
proof -
  let ?r = "\<lparr>run_state = \<lparr>xs_Node = Some (c_Node s), xs_Calls = []\<rparr>, run_plan = plan, run_active = 0\<rparr>"
  obtain r where r: "executePlan (registry E P (cw_World C (c_Trace s))) now ?r = (r, d)" "plan' = run_plan r"
    "s' = s\<lparr>c_Node := (case xs_Node (run_state r) of Some n \<Rightarrow> n | None \<Rightarrow> c_Node s),
             c_Trace := map TaskCall (xs_Calls (run_state r)) @ c_Trace s\<rparr>"
    using assms unfolding run_plan_on_def by (auto split: prod.splits)
  obtain m where "xs_Node (run_state r) = Some m" "owner_frame (c_Node s) m"
    using registry.executePlan_guarded[of ?r "c_Node s" E P "cw_World C (c_Trace s)" now] r(1)
    by (auto simp: registry.guard_end_def)
  with r(3) show thesis by (auto intro: that)
qed

subsection \<open>Driving an adopted workflow\<close>

abbreviation adopted :: "cstate \<Rightarrow> AdoptedWorkflowRef option" where
  "adopted s \<equiv> st_AdoptedWorkflow (node_Status (c_Node s))"

lemma in_progress_adopted [simp]:
  "st_AdoptedWorkflow (node_Status (setWorkflowInProgress E st re ms n)) = st_AdoptedWorkflow (node_Status n)"
  by (simp add: setWorkflowInProgress_def)

text \<open>The deletion gate of the workflow is gone: its removal was the last write, or the API server
  answered that the workflow no longer exists.\<close>

definition gate_lifted :: "cworld \<Rightarrow> string \<Rightarrow> trace \<Rightarrow> bool" where
  "gate_lifted C name tr \<longleftrightarrow>
     (\<exists>rest. tr = PatchWorkflowFinalizer name False # rest) \<or> (\<exists>e. cw_PatchWorkflow C tr name = Some (NotFound e))"

lemma release_shape:
  assumes "releaseCompletedWorkflow E C w s = (s', out)"
  obtains (held) "adopted s' = adopted s" "c_Trace s' = c_Trace s"
    | (lifted) "adopted s' = None" "gate_lifted C (wf_Name w) (c_Trace s')"
        "emits is_workflow_write (c_Trace s) (c_Trace s')"
    | (ungated) "adopted s' = None" "\<not> wf_Finalizer w" "c_Trace s' = c_Trace s"
proof -
  obtain w' tr err where patch: "patchWorkflowFinalizer C False w (c_Trace s) = (w', tr, err)" by (metis prod_cases3)
  show thesis
    using patch
  proof (cases rule: finalizer_cases)
    case kept
    with patch assms show thesis by (intro ungated) (auto simp: releaseCompletedWorkflow_def)
  next
    case patched
    with patch assms show thesis
      by (intro lifted) (auto simp: releaseCompletedWorkflow_def gate_lifted_def emits_one)
  next
    case (gone e)
    with patch assms show thesis by (intro lifted) (auto simp: releaseCompletedWorkflow_def gate_lifted_def)
  next
    case (refused e)
    with patch assms show thesis by (intro held) (auto simp: releaseCompletedWorkflow_def)
  qed
qed

lemma finalize_release:
  assumes "finalizeWorkflow E C w s = (s', out)"
  shows "adopted s' = adopted s \<and> c_Trace s' = c_Trace s \<or>
    \<not> wf_Finalizer w \<and> adopted s' = None \<and> c_Trace s' = c_Trace s \<or>
    wf_Finalizer w \<and> wf_ForceDelete w \<and> adopted s' = None \<and> gate_lifted C (wf_Name w) (c_Trace s') \<and>
      emits is_workflow_write (c_Trace s) (c_Trace s')"
proof (cases "wf_Finalizer w \<and> wf_ForceDelete w")
  case True
  obtain w' tr err where patch: "patchWorkflowFinalizer C False w (c_Trace s) = (w', tr, err)" by (metis prod_cases3)
  show ?thesis
    using patch by (cases rule: finalizer_cases)
      (use True patch assms in \<open>auto simp: finalizeWorkflow_def verifyWorkflowDataSafe_def gate_lifted_def emits_one\<close>)
next
  case False
  then show ?thesis
    using assms by (auto simp: finalizeWorkflow_def verifyWorkflowDataSafe_def split: if_splits)
qed

text \<open>A pass of \<open>executeWorkflow\<close>: the executor's calls, then writes to the workflow; the node
  lets go of the workflow only behind the terminal status and with the gate lifted.\<close>

lemma execute_shape:
  assumes run: "executeWorkflow E P C now plan w s = (s', out)"
    and active: "wf_Plan w = Some plan" "plan_Phase plan = TaskPlanActive" "wf_Finalizer w"
  shows "\<exists>later calls. c_Trace s' = later @ map TaskCall calls @ c_Trace s \<and> list_all is_workflow_write later \<and>
    (adopted s' = adopted s \<or>
     adopted s' = None \<and> gate_lifted C (wf_Name w) (c_Trace s') \<and>
       (\<exists>st. PatchWorkflowStatus (wf_Name w) st \<in> set later \<and> wfs_Phase st = WorkflowComplete))"
proof -
  obtain s1 plan' d where run1: "run_plan_on E P C now plan s = (s1, plan', d)" by (metis prod_cases3)
  obtain calls m where s1: "s1 = s\<lparr>c_Node := m, c_Trace := map TaskCall calls @ c_Trace s\<rparr>"
    and frame: "owner_frame (c_Node s) m" by (rule run_plan_on_shape[OF run1])
  define started where "started = w\<lparr>wf_Status := (wf_Status w)\<lparr>wfs_ObservedGeneration := wf_Generation w,
       wfs_Phase := (if wf_Phase w = WorkflowUnset \<or> wf_Phase w = WorkflowPending then WorkflowRunning else wf_Phase w)\<rparr>\<rparr>"
  define w1 where "w1 = mirror_terminal E plan' (started\<lparr>wf_Status := (wf_Status started)\<lparr>wfs_Plan := Some plan'\<rparr>\<rparr>)"
  have w1: "wf_Name w1 = wf_Name w" "wf_Finalizer w1"
    using active(3) by (simp_all add: w1_def started_def mirror_terminal_def setWorkflowCondition_def set_phase_def split: TaskPlanPhase.split)
  define same where "same \<longleftrightarrow> wf_Status w1 = wf_Status w"
  define err where "err = (if same then None
      else map_option (wrap_api ''patching workflow status: '') (cw_PatchWorkflowStatus C (c_Trace s1) (wf_Name w)))"
  define s2 where "s2 = (if same \<or> err \<noteq> None then s1
      else set_trace (PatchWorkflowStatus (wf_Name w) (wf_Status w1) # c_Trace s1) s1)"
  have s2: "\<exists>pub. c_Trace s2 = pub @ map TaskCall calls @ c_Trace s \<and> list_all is_workflow_write pub \<and>
        (\<not> same \<and> err = None \<longrightarrow> PatchWorkflowStatus (wf_Name w) (wf_Status w1) \<in> set pub)"
    "adopted s2 = adopted s"
    using frame by (auto simp: s2_def s1 intro: exI[of _ "[PatchWorkflowStatus (wf_Name w) (wf_Status w1)]"])
  then obtain pub where pub: "c_Trace s2 = pub @ map TaskCall calls @ c_Trace s" "list_all is_workflow_write pub"
      "\<not> same \<and> err = None \<longrightarrow> PatchWorkflowStatus (wf_Name w) (wf_Status w1) \<in> set pub" by blast
  have body: "(s', out) = (case err of Some e \<Rightarrow> (s2, wf_error True (api_text e))
      | None \<Rightarrow> (case plan_Phase plan' of TaskPlanComplete \<Rightarrow> releaseCompletedWorkflow E C w1 s2
          | TaskPlanFailed \<Rightarrow> park_failed E s2 | TaskPlanActive \<Rightarrow> (s2, outcome True d)))"
    unfolding s2_def err_def same_def w1_def started_def
    using run[symmetric] by (simp only: executeWorkflow_def Let_def run1 prod.case)
  show ?thesis
  proof (cases "err = None \<and> plan_Phase plan' = TaskPlanComplete")
    case True
    have "wf_Plan w1 = Some plan'" "wfs_Phase (wf_Status w1) = WorkflowComplete"
      using True by (simp_all add: w1_def started_def mirror_terminal_def setWorkflowCondition_def set_phase_def)
    with active True have "\<not> same" unfolding same_def by force
    with pub(3) True have published: "PatchWorkflowStatus (wf_Name w) (wf_Status w1) \<in> set pub" by simp
    have release: "releaseCompletedWorkflow E C w1 s2 = (s', out)" using body True by simp
    from release show ?thesis
    proof (cases rule: release_shape)
      case held
      then show ?thesis using pub s2(2) by auto
    next
      case lifted
      then obtain evs where "c_Trace s' = evs @ c_Trace s2" "list_all is_workflow_write evs" by (auto simp: emits_def)
      with lifted pub published show ?thesis
        using w1 \<open>wfs_Phase (wf_Status w1) = WorkflowComplete\<close>
        by (intro exI[of _ "evs @ pub"] exI[of _ calls]) auto
    next
      case ungated
      then show ?thesis using w1 by simp
    qed
  next
    case False
    then have "c_Trace s' = c_Trace s2 \<and> adopted s' = adopted s2"
      using body by (auto simp: park_failed_def split: option.splits TaskPlanPhase.splits)
    then show ?thesis using pub s2(2) by auto
  qed
qed

text \<open>The ways through \<open>driveAdoptedWorkflow\<close>.\<close>

lemma drive_cases:
  assumes drive: "driveAdoptedWorkflow E P C now ptr s = (s', out)"
  obtains (absent) "c_Trace s' = c_Trace s"
        "\<And>w. cw_GetWorkflow C (c_Trace s) (aw_Name ptr) = Inr w \<Longrightarrow> wf_UID w \<noteq> aw_UID ptr"
        "\<And>e. cw_GetWorkflow C (c_Trace s) (aw_Name ptr) = Inl e \<Longrightarrow> IsNotFound e" "adopted s' = None"
    | (unread) "s' = s"
    | (deleting) w where "cw_GetWorkflow C (c_Trace s) (aw_Name ptr) = Inr w" "wf_UID w = aw_UID ptr" "wf_Deleting w"
        "finalizeWorkflow E C w s = (s', out)"
    | (completed) w where "cw_GetWorkflow C (c_Trace s) (aw_Name ptr) = Inr w" "wf_UID w = aw_UID ptr" "\<not> wf_Deleting w"
        "map_option plan_Phase (wf_Plan w) = Some TaskPlanComplete" "releaseCompletedWorkflow E C w s = (s', out)"
    | (waiting) "emits is_workflow_write (c_Trace s) (c_Trace s')" "adopted s' = adopted s"
    | (executing) w plan gate s1 where "cw_GetWorkflow C (c_Trace s) (aw_Name ptr) = Inr w" "wf_UID w = aw_UID ptr"
        "\<not> wf_Deleting w" "wf_Plan w = Some plan" "plan_Phase plan = TaskPlanActive"
        "wf_Finalizer w \<and> gate = [] \<or> gate = [PatchWorkflowFinalizer (wf_Name w) True] \<or>
         gate = [] \<and> (\<exists>e. cw_PatchWorkflow C (c_Trace s) (wf_Name w) = Some (NotFound e))"
        "c_Trace s1 = gate @ c_Trace s" "adopted s1 = adopted s"
        "executeWorkflow E P C now plan (w\<lparr>wf_Finalizer := True\<rparr>) s1 = (s', out)"
proof (cases "cw_GetWorkflow C (c_Trace s) (aw_Name ptr)")
  case (Inl e)
  then show thesis
    using drive absent unread by (cases "IsNotFound e") (auto simp: driveAdoptedWorkflow_def)
next
  case (Inr w)
  note body = drive[unfolded driveAdoptedWorkflow_def Inr sum.case Let_def]
  consider "wf_UID w \<noteq> aw_UID ptr" | "wf_UID w = aw_UID ptr" "wf_Deleting w"
    | "wf_UID w = aw_UID ptr" "\<not> wf_Deleting w" "map_option plan_Phase (wf_Plan w) = Some TaskPlanComplete"
    | "wf_UID w = aw_UID ptr" "\<not> wf_Deleting w" "map_option plan_Phase (wf_Plan w) = Some TaskPlanFailed"
    | (live) "wf_UID w = aw_UID ptr" "\<not> wf_Deleting w" "map_option plan_Phase (wf_Plan w) \<notin> {Some TaskPlanComplete, Some TaskPlanFailed}"
    by blast
  then show thesis
  proof cases
    case 1
    then show thesis using body Inr by (intro absent) auto
  next
    case 2
    then show thesis using body Inr by (intro deleting) auto
  next
    case 3
    then show thesis using body Inr by (intro completed) auto
  next
    case 4
    then show thesis using body by (intro waiting) (auto simp: park_failed_def)
  next
    case live
    let ?s1 = "on_node (setWorkflowInProgress E ConditionTrue ''WorkflowRunning'' (''driving workflow '' @ wf_Name w)) s"
    obtain w' tr err where patch: "patchWorkflowFinalizer C True w (c_Trace s) = (w', tr, err)" by (metis prod_cases3)
    have open_plan: "map_option plan_Phase (wf_Plan w) \<noteq> Some TaskPlanComplete"
        "map_option plan_Phase (wf_Plan w) \<noteq> Some TaskPlanFailed" using live by auto
    note body = body[unfolded on_node_simps patch prod.case, simplified live(1) live(2) open_plan if_False not_True_eq_False simp_thms]
    from patch have w': "err = None \<Longrightarrow> w' = w\<lparr>wf_Finalizer := True\<rparr>" by (cases rule: finalizer_cases) auto
    show thesis
    proof (cases "err = None")
      case False
      then show thesis
        using body patch live finalizer_emits[OF patch, of is_workflow_write] by (intro waiting) auto
    next
      case gated: True
      show thesis
      proof (cases "wf_Plan w")
        case None
        obtain s2 e where build: "buildAndPersistWorkflowPlan E C w' (set_trace tr ?s1) = (s2, e)" by fastforce
        from buildAndPersist_emits[OF build] have "emits is_workflow_write (c_Trace s) (c_Trace s2)" "adopted s2 = adopted s"
          using finalizer_emits[OF patch, of is_workflow_write] by (auto intro: emits_trans)
        then show thesis
          using body live None build patch gated w' by (intro waiting) (auto split: option.splits)
      next
        case (Some plan)
        then have "plan_Phase plan = TaskPlanActive" using live by (cases "plan_Phase plan") auto
        moreover obtain gate where "tr = gate @ c_Trace s" "wf_Finalizer w \<and> gate = [] \<or>
            gate = [PatchWorkflowFinalizer (wf_Name w) True] \<or>
            gate = [] \<and> (\<exists>e. cw_PatchWorkflow C (c_Trace s) (wf_Name w) = Some (NotFound e))"
          using patch gated by (cases rule: finalizer_cases) auto
        ultimately show thesis
          using body live Some patch gated w' Inr
          by (intro executing[of w plan gate "set_trace tr ?s1"]) auto
      qed
    qed
  qed
qed

subsection \<open>Adopting a workflow\<close>

lemma flush_emits: "flushStatus C s = (s', err) \<Longrightarrow> (\<And>st. K (PatchNodeStatus st)) \<Longrightarrow> emits K (c_Trace s) (c_Trace s')"
  unfolding flushStatus_def Let_def by (auto split: if_splits option.splits simp: emits_one)

abbreviation pointer_to :: "SeiNodeTaskWorkflow \<Rightarrow> go_time \<Rightarrow> AdoptedWorkflowRef" where
  "pointer_to w now \<equiv> \<lparr>aw_Name = wf_Name w, aw_UID = wf_UID w, aw_AdoptedAt = now\<rparr>"

text \<open>The commit: the pointer is published with the node's status before anything is written to
  the workflow, or the reconcile ends with the failed publication.\<close>

lemma commit_shape:
  assumes commit: "commit_adoption E C now plan w s = (s', out)"
  shows "adopted s' = Some (pointer_to w now)"
    and "\<exists>after pub. c_Trace s' = after @ pub @ c_Trace s \<and> list_all is_workflow_write after \<and>
       (pub = [PatchNodeStatus (c_Saved s')] \<and> st_AdoptedWorkflow (c_Saved s') = Some (pointer_to w now) \<or>
        pub = [] \<and> after = [] \<and> c_FlushFailed s' \<and> wo_err out \<noteq> None \<or>
        pub = [] \<and> st_AdoptedWorkflow (c_Saved s) = Some (pointer_to w now))"
proof -
  define s1 where "s1 = on_node (\<lambda>n. setWorkflowInProgress E ConditionTrue ''WorkflowRunning'' (''adopted workflow '' @ wf_Name w)
      (upd_status (\<lambda>st. st\<lparr>st_AdoptedWorkflow := Some (pointer_to w now)\<rparr>) n)) s"
  have s1: "adopted s1 = Some (pointer_to w now)" "c_Trace s1 = c_Trace s" "c_Saved s1 = c_Saved s"
    by (simp_all add: s1_def)
  obtain s2 e where flush: "flushStatus C s1 = (s2, e)" by fastforce
  obtain w' tr e' where gate: "patchWorkflowFinalizer C True w (c_Trace s2) = (w', tr, e')" by (metis prod_cases3)
  obtain w'' tr' e'' where persist: "persistWorkflowPlan E C plan w' tr = (w'', tr', e'')" by (metis prod_cases3)
  have s2: "c_Node s2 = c_Node s1" "e \<noteq> None \<Longrightarrow> c_FlushFailed s2 \<and> c_Trace s2 = c_Trace s"
    using flush s1 by (auto simp: flushStatus_def Let_def split: if_splits option.splits)
  have pub: "\<exists>pub. c_Trace s2 = pub @ c_Trace s \<and> (pub = [PatchNodeStatus (c_Saved s2)] \<and>
      st_AdoptedWorkflow (c_Saved s2) = Some (pointer_to w now) \<or> pub = [] \<and> st_AdoptedWorkflow (c_Saved s) = Some (pointer_to w now))"
    if "e = None"
    using flush s1 that by (auto simp: flushStatus_def Let_def split: if_splits option.splits)
  have writes: "emits is_workflow_write (c_Trace s2) tr" "emits is_workflow_write tr tr'"
    using finalizer_emits[OF gate, of is_workflow_write] persistPlan_emits[OF persist, of is_workflow_write] by simp_all
  have result: "(s', out) = (case e of Some x \<Rightarrow> (s2, wf_error False (''committing adoption pointer: '' @ x))
      | None \<Rightarrow> (case e' of Some x \<Rightarrow> (set_trace tr s2, wf_error True (api_text x))
        | None \<Rightarrow> (case e'' of Some x \<Rightarrow> (set_trace tr' s2, wf_error True (api_text x))
          | None \<Rightarrow> (set_trace tr' s2, \<lparr>wo_suppress = True, wo_result = ResultRequeueImmediate, wo_handled = True, wo_err = None\<rparr>))))"
    using commit by (simp only: commit_adoption_def Let_def s1_def[symmetric] flush gate persist prod.case)
  show "adopted s' = Some (pointer_to w now)"
    using result s1(1) s2(1) by (auto split: option.splits)
  show "\<exists>after pub. c_Trace s' = after @ pub @ c_Trace s \<and> list_all is_workflow_write after \<and>
       (pub = [PatchNodeStatus (c_Saved s')] \<and> st_AdoptedWorkflow (c_Saved s') = Some (pointer_to w now) \<or>
        pub = [] \<and> after = [] \<and> c_FlushFailed s' \<and> wo_err out \<noteq> None \<or>
        pub = [] \<and> st_AdoptedWorkflow (c_Saved s) = Some (pointer_to w now))"
  proof (cases e)
    case (Some x)
    then show ?thesis using result s2(2) by (auto simp: wf_error_def)
  next
    case None
    then have "emits is_workflow_write (c_Trace s2) (c_Trace s') \<and> c_Saved s' = c_Saved s2"
      using result writes by (auto split: option.splits intro: emits_trans)
    with pub[OF None] show ?thesis unfolding emits_def by (metis (no_types, lifting))
  qed
qed

lemma commit_emits:
  assumes "commit_adoption E C now plan w s = (s', out)"
  shows "emits (\<lambda>e. \<not> is_call e) (c_Trace s) (c_Trace s')"
proof -
  obtain after pub where tr: "c_Trace s' = after @ pub @ c_Trace s" "list_all is_workflow_write after"
    "pub = [PatchNodeStatus (c_Saved s')] \<or> pub = []"
    using commit_shape(2)[OF assms] by blast
  have "list_all (\<lambda>e. \<not> is_call e) (after @ pub)"
    using tr(2,3) workflow_write_no_call by (auto simp: list_all_iff)
  with tr(1) show ?thesis unfolding emits_def by (intro exI[of _ "after @ pub"]) simp
qed

lemma adopt_winner_emits:
  assumes "adopt_winner E C now w s = (s', out)"
  shows "emits (\<lambda>e. \<not> is_call e) (c_Trace s) (c_Trace s')"
proof -
  obtain w' tr d where gate: "gateOnRequirePhase E C now (c_Node s) w (c_Trace s) = (w', tr, d)" by (metis prod_cases3)
  then have "emits (\<lambda>e. \<not> is_call e) (c_Trace s) tr" by (rule requirePhase_emits) simp
  then show ?thesis
    using assms gate
    by (auto simp: adopt_winner_def Let_def seedAdoption_emits failWorkflow_emits split: if_splits option.splits sum.splits
        dest!: commit_emits intro: emits_trans failWorkflow_emits)
qed

lemma maybeAdopt_emits:
  assumes "maybeAdoptWorkflow E C now s = (s', out)"
  shows "emits (\<lambda>e. \<not> is_call e) (c_Trace s) (c_Trace s')"
proof -
  let ?K = "\<lambda>e. \<not> is_call e"
  obtain tr e where reap: "reapCompletedWorkflowFinalizers C (c_Trace s) = (tr, e)" by fastforce
  have first: "emits ?K (c_Trace s) tr" by (rule reap_emits[OF reap]) simp
  have seeds: "emits ?K tr (over_trace (seedWorkflowAdoption E C st re ms) ws tr)"
    and fails: "emits ?K tr (over_trace (failWorkflow E C re ms) ws tr)" for st re ms ws
    by (rule over_trace_emits, simp add: seedAdoption_emits failWorkflow_emits)+
  show ?thesis
    using assms reap first emits_trans[OF first seeds] emits_trans[OF first fails]
    by (auto simp: maybeAdoptWorkflow_def Let_def fail_all_def split: option.splits sum.splits list.splits if_splits
        dest!: adopt_winner_emits intro: emits_trans[OF emits_trans[OF first seeds]] simp del: over_trace.simps)
qed

subsection \<open>Properties\<close>

text \<open>C5.  Destructive work is gated.  Whatever the workflow half of a reconcile asks of the
  sidecar and the cluster, it asks for the workflow the node points at, read under the same UID,
  not being deleted and carrying an unfinished plan that an earlier reconcile persisted; and before
  the first of these calls the workflow carries the deletion gate, because it had it or because the
  reconcile has just written it.  The one exception is a workflow of which the API server answered,
  when the gate was added, that it no longer exists.\<close>

theorem workflow_calls_gated:
  assumes rec: "reconcileWorkflow E P C now s = (s', out)"
    and call: "TaskCall c \<in> set (c_Trace s')" "TaskCall c \<notin> set (c_Trace s)"
  shows "\<exists>ptr w plan. adopted s = Some ptr \<and> cw_GetWorkflow C (c_Trace s) (aw_Name ptr) = Inr w \<and>
     wf_UID w = aw_UID ptr \<and> \<not> wf_Deleting w \<and> wf_Plan w = Some plan \<and> plan_Phase plan = TaskPlanActive \<and>
     (\<exists>later calls gate. c_Trace s' = later @ map TaskCall calls @ gate @ c_Trace s \<and> list_all (\<lambda>e. \<not> is_call e) later \<and>
        (gate = [] \<and> wf_Finalizer w \<or> gate = [PatchWorkflowFinalizer (wf_Name w) True] \<or>
         gate = [] \<and> (\<exists>e. cw_PatchWorkflow C (c_Trace s) (wf_Name w) = Some (NotFound e))))"
proof (cases "adopted s")
  case None
  then have "emits (\<lambda>e. \<not> is_call e) (c_Trace s) (c_Trace s')"
    using rec by (auto simp: reconcileWorkflow_def split: if_splits dest: maybeAdopt_emits)
  then show ?thesis using call by (auto dest: emits_only_new)
next
  case (Some ptr)
  then have drive: "driveAdoptedWorkflow E P C now ptr s = (s', out)" using rec by (simp add: reconcileWorkflow_def)
  have quiet: ?thesis if "emits is_workflow_write (c_Trace s) (c_Trace s')"
    using that call by (auto dest: emits_only_new)
  from drive show ?thesis
  proof (cases rule: drive_cases)
    case (deleting w)
    have "emits is_workflow_write (c_Trace s) (c_Trace s')" using finalize_release[OF deleting(4)] by auto
    then show ?thesis by (rule quiet)
  next
    case (completed w)
    from completed(5) have "emits is_workflow_write (c_Trace s) (c_Trace s')" by (cases rule: release_shape) auto
    then show ?thesis by (rule quiet)
  next
    case (executing w plan gate s1)
    obtain later calls where "c_Trace s' = later @ map TaskCall calls @ gate @ c_Trace s" "list_all is_workflow_write later"
      using execute_shape[OF executing(9)] executing(4,5,7) by auto
    moreover from this(2) have "list_all (\<lambda>e. \<not> is_call e) later"
      by (rule list.pred_mono_strong) (simp add: workflow_write_no_call)
    ultimately show ?thesis using executing Some by blast
  qed (use quiet call in auto)
qed

text \<open>C6.  A node lets go of its workflow only once nothing protects data on its behalf any more.
  When a reconcile drops the pointer, the workflow is gone or was replaced by another of the same
  name, or it is being deleted (by force, or without a gate), or its plan is complete and that has
  been published in its status; and its deletion gate is gone: never there, removed by the last
  write of the reconcile, or reported gone by the API server.\<close>

theorem pointer_release_safe:
  assumes rec: "reconcileWorkflow E P C now s = (s', out)"
    and ptr: "adopted s = Some ptr" and dropped: "adopted s' \<noteq> Some ptr"
  shows "adopted s' = None \<and>
    (case cw_GetWorkflow C (c_Trace s) (aw_Name ptr) of
       Inl e \<Rightarrow> IsNotFound e
     | Inr w \<Rightarrow> wf_UID w \<noteq> aw_UID ptr \<or>
         (if wf_Deleting w then wf_ForceDelete w \<or> \<not> wf_Finalizer w
          else map_option plan_Phase (wf_Plan w) = Some TaskPlanComplete \<or>
            (\<exists>st. PatchWorkflowStatus (wf_Name w) st \<in> set (c_Trace s') \<and> wfs_Phase st = WorkflowComplete)) \<and>
         (gate_lifted C (wf_Name w) (c_Trace s') \<or> \<not> wf_Finalizer w \<and> c_Trace s' = c_Trace s))"
proof -
  have drive: "driveAdoptedWorkflow E P C now ptr s = (s', out)" using rec ptr by (simp add: reconcileWorkflow_def)
  from drive show ?thesis
  proof (cases rule: drive_cases)
    case absent
    then show ?thesis by (auto split: sum.splits)
  next
    case (deleting w)
    then show ?thesis using finalize_release[OF deleting(4)] ptr dropped by auto
  next
    case (completed w)
    from completed(5) show ?thesis
      by (cases rule: release_shape) (use completed ptr dropped in auto)
  next
    case (executing w plan gate s1)
    then show ?thesis
      using execute_shape[OF executing(9)] ptr dropped by auto
  qed (use ptr dropped in auto)
qed

text \<open>Adoption: what must hold of the node and the workflow, and in which order it is written.\<close>

lemma adopt_winner_shape:
  assumes adopt: "adopt_winner E C now w s = (s', out)" and none: "adopted s = None" and some: "adopted s' = Some ptr"
  obtains w' tr plan where "\<not> spec_Paused (node_Spec (c_Node s))" "node_Plan (c_Node s) = None"
    "emits (\<lambda>e. is_workflow_write e \<and> (\<forall>n. e \<noteq> PatchWorkflowFinalizer n True)) (c_Trace s) tr"
    "buildWorkflowPlan E (cw_NewUUID C tr) (c_Node s) w' = Inr plan" "wf_Name w' = wf_Name w" "wf_UID w' = wf_UID w"
    "commit_adoption E C now plan w' (set_trace tr s) = (s', out)"
proof -
  let ?K = "\<lambda>e. is_workflow_write e \<and> (\<forall>n. e \<noteq> PatchWorkflowFinalizer n True)"
  obtain w' tr d where gate: "gateOnRequirePhase E C now (c_Node s) w (c_Trace s) = (w', tr, d)" by (metis prod_cases3)
  have emits: "emits ?K (c_Trace s) tr" by (rule requirePhase_emits[OF gate]) simp
  have same: "wf_Name w' = wf_Name w \<and> wf_UID w' = wf_UID w" if "d = None"
    using gate that unfolding gateOnRequirePhase_def Let_def
    by (auto simp: patchWorkflowStatus_def Let_def split: if_splits prod.splits option.splits)
  from adopt none some gate show thesis
    unfolding adopt_winner_def Let_def
    by (auto split: if_splits option.splits sum.splits intro: that[OF _ _ emits] simp: same)
qed

definition adoptable :: "SeiNodeTaskWorkflow \<Rightarrow> bool" where
  "adoptable w \<longleftrightarrow> \<not> wf_Deleting w \<and> wf_Phase w \<noteq> WorkflowComplete \<and> wf_Phase w \<noteq> WorkflowFailed"

lemma pending_head:
  assumes "pendingWorkflowsForNode C tr = Inr (w # ws)"
  obtains listed where "cw_ListWorkflows C tr = Inr listed" "w \<in> set listed" "adoptable w"
    "\<And>v. v \<in> set listed \<Longrightarrow> adoptable v \<Longrightarrow> (wf_CreationTimestamp w, wf_Name w) \<le> (wf_CreationTimestamp v, wf_Name v)"
proof -
  let ?key = "\<lambda>w. (wf_CreationTimestamp w, wf_Name w)"
  from assms obtain listed where listed: "cw_ListWorkflows C tr = Inr listed"
    and sorted: "w # ws = sort_key ?key (filter adoptable listed)"
    by (auto simp: pendingWorkflowsForNode_def adoptable_def[abs_def] split: sum.splits)
  have "set (w # ws) = set (filter adoptable listed)" using sorted by simp
  moreover have "sorted (map ?key (w # ws))" unfolding sorted by (rule sorted_sort_key)
  ultimately show thesis using listed by (intro that[of listed]) fastforce+
qed

text \<open>How a workflow is adopted.  A reconcile that gives the node a new pointer found the node
  Running, not paused, without a plan, a full node and not configured by ConfigMaps, and took the
  oldest of the workflows that wait for it.  Nothing has been asked of the node's sidecar, and the
  first write that commits to the workflow is the node's own status carrying the pointer: its
  deletion gate and its plan come after it, and not at all when that write fails.\<close>

theorem adoption_committed_first:
  assumes rec: "reconcileWorkflow E P C now s = (s', out)"
    and none: "adopted s = None" "st_AdoptedWorkflow (c_Saved s) = None" and some: "adopted s' = Some ptr"
  shows "node_Phase (c_Node s) = PhaseRunning \<and> \<not> spec_Paused (node_Spec (c_Node s)) \<and> node_Plan (c_Node s) = None \<and>
     spec_FullNode (node_Spec (c_Node s)) \<noteq> None \<and> \<not> MountsNodeConfig (c_Node s) \<and>
     (\<exists>tr listed w. cw_ListWorkflows C tr = Inr listed \<and> w \<in> set listed \<and> adoptable w \<and> ptr = pointer_to w now \<and>
        (\<forall>v \<in> set listed. adoptable v \<longrightarrow>
           (wf_CreationTimestamp w, wf_Name w) \<le> (wf_CreationTimestamp v, wf_Name v))) \<and>
     (\<exists>after pub before. c_Trace s' = after @ pub @ before @ c_Trace s \<and> list_all is_workflow_write after \<and>
        list_all (\<lambda>e. is_workflow_write e \<and> (\<forall>n. e \<noteq> PatchWorkflowFinalizer n True)) before \<and>
        (pub = [PatchNodeStatus (c_Saved s')] \<and> st_AdoptedWorkflow (c_Saved s') = Some ptr \<or>
         pub = [] \<and> after = [] \<and> c_FlushFailed s' \<and> wo_err out \<noteq> None))"
proof -
  let ?K = "\<lambda>e. is_workflow_write e \<and> (\<forall>n. e \<noteq> PatchWorkflowFinalizer n True)"
  define s0 where "s0 = on_node (seedWorkflowInProgress E) s"
  have frame: "node_Spec (c_Node s0) = node_Spec (c_Node s)" "node_Plan (c_Node s0) = node_Plan (c_Node s)"
    "adopted s0 = None" "c_Trace s0 = c_Trace s" "c_Saved s0 = c_Saved s"
    using none(1) by (simp_all add: s0_def seedWorkflowInProgress_def setWorkflowInProgress_def)
  have phase: "node_Phase (c_Node s) = PhaseRunning" and maybe: "maybeAdoptWorkflow E C now s0 = (s', out)"
    using rec none(1) some by (auto simp: reconcileWorkflow_def s0_def split: if_splits)
  obtain tr e where reap: "reapCompletedWorkflowFinalizers C (c_Trace s0) = (tr, e)" by fastforce
  have first: "emits ?K (c_Trace s) tr" using reap_emits[OF reap, of ?K] frame by simp
  from maybe reap frame some obtain w ws where pending: "pendingWorkflowsForNode C tr = Inr (w # ws)"
    and role: "ineligibleWorkflowRole (c_Node s0) = []" "\<not> MountsNodeConfig (c_Node s0)"
    and winner: "adopt_winner E C now w (set_trace (over_trace (seedWorkflowAdoption E C ConditionFalse
       ''QueuedBehindActive'' ''another workflow is queued ahead on this node'') ws tr) s0) = (s', out)"
    unfolding maybeAdoptWorkflow_def Let_def
    by (auto simp: fail_all_def set_trace_def split: option.splits sum.splits list.splits if_splits)
  let ?tr = "over_trace (seedWorkflowAdoption E C ConditionFalse ''QueuedBehindActive''
       ''another workflow is queued ahead on this node'') ws tr"
  have seeds: "emits ?K tr ?tr" by (rule over_trace_emits, rule seedAdoption_emits) simp
  obtain w' tr' plan where win: "\<not> spec_Paused (node_Spec (c_Node s0))" "node_Plan (c_Node s0) = None"
    "emits ?K ?tr tr'" "wf_Name w' = wf_Name w" "wf_UID w' = wf_UID w"
    "commit_adoption E C now plan w' (set_trace tr' (set_trace ?tr s0)) = (s', out)"
    by (rule adopt_winner_shape[OF winner]) (use frame some in auto)
  obtain before where before: "tr' = before @ c_Trace s" "list_all ?K before"
    using emits_trans[OF emits_trans[OF first seeds] win(3)] by (auto simp: emits_def)
  have ptr: "ptr = pointer_to w now" using commit_shape(1)[OF win(6)] some win(4,5) by simp
  have "\<exists>after pub. c_Trace s' = after @ pub @ before @ c_Trace s \<and> list_all is_workflow_write after \<and>
      (pub = [PatchNodeStatus (c_Saved s')] \<and> st_AdoptedWorkflow (c_Saved s') = Some ptr \<or>
       pub = [] \<and> after = [] \<and> c_FlushFailed s' \<and> wo_err out \<noteq> None)"
    using commit_shape(2)[OF win(6)] none(2) frame(5) win(4,5) ptr before(1) by auto
  moreover have "spec_FullNode (node_Spec (c_Node s)) \<noteq> None"
    using role(1) frame(1) by (auto simp: ineligibleWorkflowRole_def Let_def split: if_splits)
  moreover have "\<not> MountsNodeConfig (c_Node s)" using role(2) frame(1) by (simp add: MountsNodeConfig_def)
  moreover have "\<exists>tr listed w. cw_ListWorkflows C tr = Inr listed \<and> w \<in> set listed \<and> adoptable w \<and> ptr = pointer_to w now \<and>
      (\<forall>v \<in> set listed. adoptable v \<longrightarrow> (wf_CreationTimestamp w, wf_Name w) \<le> (wf_CreationTimestamp v, wf_Name v))"
    by (rule pending_head[OF pending]) (use ptr in blast)
  ultimately show ?thesis using phase win(1,2) frame(1,2) before(2) by auto
qed

subsection \<open>Witnesses\<close>

definition running_workflow :: SeiNodeTaskWorkflow where
  "running_workflow = demo_workflow\<lparr>wf_Finalizer := True, wf_Status := (wf_Status demo_workflow)\<lparr>wfs_Phase := WorkflowRunning,
     wfs_Plan := Some (new_plan ''p'' [demo_task 0 StopSeid] PhaseUnset PhaseUnset)\<rparr>\<rparr>"

definition adopted_node :: SeiNode where
  "adopted_node = upd_status (\<lambda>st. st\<lparr>st_AdoptedWorkflow := Some (pointer_to demo_workflow 1)\<rparr>) demo_node"

definition workflow_world :: cworld where
  "workflow_world = demo_cworld\<lparr>cw_GetWorkflow := (\<lambda>_ _. Inr running_workflow)\<rparr>"

lemma workflow_calls_gated_witness:
  "\<exists>c. TaskCall c \<in> set (c_Trace (fst (reconcileWorkflow demo_ext demo_platform workflow_world 9 (cstate_of adopted_node)))) \<and>
     (\<exists>ptr w. adopted (cstate_of adopted_node) = Some ptr \<and> cw_GetWorkflow workflow_world [] (aw_Name ptr) = Inr w \<and>
        wf_Finalizer w)"
proof -
  let ?s = "cstate_of adopted_node"
  obtain s' out where rec: "reconcileWorkflow demo_ext demo_platform workflow_world 9 ?s = (s', out)" by fastforce
  have "list_ex is_call (c_Trace (fst (reconcileWorkflow demo_ext demo_platform workflow_world 9 ?s)))"
    by code_simp
  then obtain c where c: "TaskCall c \<in> set (c_Trace s')"
    using rec by (auto simp: list_ex_iff elim!: is_call.elims)
  have "c_Trace ?s = []" by (simp add: cstate_of_def)
  with workflow_calls_gated[OF rec c] obtain ptr w where
    "adopted ?s = Some ptr" "cw_GetWorkflow workflow_world [] (aw_Name ptr) = Inr w" by auto
  moreover have "wf_Finalizer w" using calculation(2)
    by (auto simp: workflow_world_def control_demo_defs running_workflow_def)
  ultimately show ?thesis using c rec by auto
qed

lemma pointer_release_safe_witness:
  "adopted (fst (reconcileWorkflow demo_ext demo_platform workflow_world 9 (cstate_of adopted_node))) = None \<and>
   gate_lifted workflow_world ''resync''
     (c_Trace (fst (reconcileWorkflow demo_ext demo_platform workflow_world 9 (cstate_of adopted_node))))"
proof -
  let ?s = "cstate_of adopted_node"
  obtain s' out where rec: "reconcileWorkflow demo_ext demo_platform workflow_world 9 ?s = (s', out)" by fastforce
  have ptr: "adopted ?s = Some (pointer_to demo_workflow 1)" by (simp add: cstate_of_def adopted_node_def)
  have "case adopted (fst (reconcileWorkflow demo_ext demo_platform workflow_world 9 ?s)) of None \<Rightarrow> True | Some _ \<Rightarrow> False"
    by code_simp
  then have "adopted s' \<noteq> Some (pointer_to demo_workflow 1)" using rec by auto
  from pointer_release_safe[OF rec ptr this] rec show ?thesis
    by (simp add: workflow_world_def control_demo_defs running_workflow_def)
qed

lemma adoption_committed_first_witness:
  "\<exists>ptr. adopted (fst (reconcileWorkflow demo_ext demo_platform demo_cworld 9 (cstate_of demo_node))) = Some ptr \<and>
     aw_Name ptr = ''resync''"
proof -
  let ?s = "cstate_of demo_node"
  obtain s' out where rec: "reconcileWorkflow demo_ext demo_platform demo_cworld 9 ?s = (s', out)" by fastforce
  have none: "adopted ?s = None" "st_AdoptedWorkflow (c_Saved ?s) = None" by (simp_all add: cstate_of_def demo_node_def demo_status_def)
  have "case adopted (fst (reconcileWorkflow demo_ext demo_platform demo_cworld 9 ?s)) of None \<Rightarrow> False | Some _ \<Rightarrow> True"
    by code_simp
  then obtain ptr where ptr: "adopted s' = Some ptr" using rec by (auto split: option.splits)
  from adoption_committed_first[OF rec none ptr] have "aw_Name ptr = ''resync''"
    by (auto simp: demo_cworld_def demo_workflow_def)
  with ptr rec show ?thesis by simp
qed

end
