(* ===== verification/GateProps.thy ===== *)
theory GateProps
  imports ControlFixtures
begin

text \<open>
  What the gates of a reconcile guarantee: state sync fails closed, an EVM-only endpoint is
  published only while it is served, and a data volume only ever grows.
\<close>

subsection \<open>State sync\<close>

lemma condition_true_set_same:
  assumes "cond_laws E"
  shows "condition_true E (set_node_cond E n ty st re ms) ty \<longleftrightarrow> st = ConditionTrue"
  using node_cond_set_same[OF assms, of n ty st re ms] by (auto simp: condition_true_def)

lemma condition_true_set_other:
  assumes "cond_laws E" and "ty \<noteq> ty'"
  shows "condition_true E (set_node_cond E n ty st re ms) ty' \<longleftrightarrow> condition_true E n ty'"
  using node_cond_set_other[OF assms(1), of ty' ty n st re ms] assms(2) by (simp add: condition_true_def)

lemma set_cond_present:
  assumes "cond_laws E"
  shows "node_cond E (set_node_cond E n ty st re ms) ty \<noteq> None"
  using node_cond_set_same[OF assms, of n ty st re ms] by auto

lemma sorted_remdups_adj_distinct: "sorted xs \<Longrightarrow> distinct (remdups_adj xs)"
  by (induction xs rule: remdups_adj.induct) (auto simp: antisym)

lemma canonicalSyncers_distinct: "canonicalSyncers C chain = Inr xs \<Longrightarrow> distinct xs"
  by (auto simp: canonicalSyncers_def parseSyncerList_def Let_def sorted_remdups_adj_distinct
      split: sum.splits)

lemma set_syncers_simps [simp]:
  "node_Spec (set_syncers xs n) = node_Spec n"
  "node_Phase (set_syncers xs n) = node_Phase n"
  "st_ResolvedStateSyncers (node_Status (set_syncers xs n)) = xs"
  by (simp_all add: set_syncers_def)

text \<open>The five ways out of the gate.\<close>

lemma gate_cases:
  assumes "reconcileStateSyncGate E C n = (n', blocked)"
  obtains
    (not_applicable) re ms where "SnapshotSource_of (node_Spec n) = None" "\<not> blocked"
      "n' = set_node_cond E (set_syncers [] n) ConditionStateSyncReady ConditionFalse re ms"
  | (ready) xs re ms where "SnapshotSource_of (node_Spec n) \<noteq> None" "\<not> blocked" "distinct xs" "2 \<le> length xs"
      "n' = set_node_cond E (set_syncers xs n) ConditionStateSyncReady ConditionTrue re ms"
  | (closed) st re ms where "SnapshotSource_of (node_Spec n) \<noteq> None" "blocked" "st \<noteq> ConditionTrue"
      "n' = set_node_cond E (set_syncers [] n) ConditionStateSyncReady st re ms"
proof (cases "SnapshotSource_of (node_Spec n)")
  case None
  with assms show thesis
    unfolding reconcileStateSyncGate_def setStateSyncReady_def by (auto simp: Let_def intro: not_applicable)
next
  case (Some snap)
  let ?spec = "remdups_adj (sort (snap_RpcServers snap))" and ?chain = "spec_ChainID (node_Spec n)"
  note gate = assms[unfolded reconcileStateSyncGate_def setStateSyncReady_def minCanonicalSyncers_def Let_def Some,
      simplified]
  consider "2 \<le> length ?spec" | e where "\<not> 2 \<le> length ?spec" "canonicalSyncers C ?chain = Inl e"
    | xs where "\<not> 2 \<le> length ?spec" "canonicalSyncers C ?chain = Inr xs"
    by (cases "canonicalSyncers C ?chain") auto
  then show thesis
  proof cases
    case 1
    with gate show thesis
      by (intro ready[of ?spec]) (auto simp: Some sorted_remdups_adj_distinct)
  next
    case 2
    with gate show thesis by (intro closed) (auto simp: Some)
  next
    case (3 xs)
    with gate canonicalSyncers_distinct[OF 3(2)] show thesis
      by (cases "length xs < 2") (auto simp: Some intro: ready[of xs] closed)
  qed
qed

text \<open> State sync fails closed.  After the gate the witness set the node stores and the
  condition agree: StateSyncReady is True only with at least two distinct witnesses stored and the
  gate open, and otherwise no witness is stored.  The gate is closed exactly when the node
  bootstraps from a snapshot and the condition is not True, and while the node is not yet Running a
  closed gate is exactly what makes the planner decline the bootstrap plan.\<close>

theorem stateSync_fail_closed:
  assumes "cond_laws E" and gate: "reconcileStateSyncGate E C n = (n', blocked)"
  shows "(if condition_true E n' ConditionStateSyncReady
          then 2 \<le> card (set (st_ResolvedStateSyncers (node_Status n'))) \<and> \<not> blocked
          else st_ResolvedStateSyncers (node_Status n') = []) \<and>
         (blocked \<longleftrightarrow> SnapshotSource_of (node_Spec n) \<noteq> None \<and> \<not> condition_true E n' ConditionStateSyncReady) \<and>
         (node_Phase n \<noteq> PhaseRunning \<longrightarrow> (StateSyncBlocksPlan E n' \<longleftrightarrow> blocked))"
  using gate
proof (cases rule: gate_cases)
  case (not_applicable re ms)
  then show ?thesis
    by (simp add: condition_true_set_same[OF assms(1)] StateSyncBlocksPlan_def needsStateSyncWitnesses_def)
next
  case (ready xs re ms)
  then show ?thesis
    using condition_true_set_same[OF assms(1), of "set_syncers xs n" ConditionStateSyncReady ConditionTrue re ms]
    by (auto simp: distinct_card StateSyncBlocksPlan_def condition_true_def split: option.splits)
next
  case (closed st re ms)
  then show ?thesis
    using node_cond_set_same[OF assms(1), of "set_syncers [] n" ConditionStateSyncReady st re ms]
    by (auto simp: condition_true_def StateSyncBlocksPlan_def needsStateSyncWitnesses_def)
qed

lemma stateSync_fail_closed_witness:
  "snd (reconcileStateSyncGate demo_ext demo_cworld syncing_node) \<and>
   StateSyncBlocksPlan demo_ext (fst (reconcileStateSyncGate demo_ext demo_cworld syncing_node))"
proof -
  obtain n' b where gate: "reconcileStateSyncGate demo_ext demo_cworld syncing_node = (n', b)"
    by fastforce
  have "snd (reconcileStateSyncGate demo_ext demo_cworld syncing_node) \<and> node_Phase syncing_node \<noteq> PhaseRunning"
    by code_simp
  with stateSync_fail_closed[OF demo_cond_laws gate] gate show ?thesis by simp
qed

subsection \<open>Condition updates\<close>

text \<open>
  \<open>n'\<close> is \<open>n\<close> with conditions of the types in \<open>T\<close> set: nothing else changes, no other condition
  changes and no condition disappears.
\<close>

definition cond_step :: "ext \<Rightarrow> string set \<Rightarrow> SeiNode \<Rightarrow> SeiNode \<Rightarrow> bool" where
  "cond_step E T n n' \<longleftrightarrow>
     (\<exists>cs. n' = upd_status (\<lambda>s. s\<lparr>st_Conditions := cs\<rparr>) n) \<and>
     (\<forall>ty. ty \<notin> T \<longrightarrow> node_cond E n' ty = node_cond E n ty) \<and>
     (\<forall>ty. node_cond E n ty \<noteq> None \<longrightarrow> node_cond E n' ty \<noteq> None)"

lemma cond_step_refl [simp]: "cond_step E T n n"
  unfolding cond_step_def by (auto intro: exI[of _ "node_Conditions n"])

lemma cond_step_set [intro]:
  assumes "cond_laws E" and "ty \<in> T"
  shows "cond_step E T n (set_node_cond E n ty st re ms)"
  unfolding cond_step_def
proof (intro conjI allI impI)
  show "\<exists>cs. set_node_cond E n ty st re ms = upd_status (\<lambda>s. s\<lparr>st_Conditions := cs\<rparr>) n"
    unfolding set_node_cond_def by (rule exI) (rule refl)
next
  fix ty' assume "ty' \<notin> T"
  with assms(2) show "node_cond E (set_node_cond E n ty st re ms) ty' = node_cond E n ty'"
    by (intro node_cond_set_other[OF assms(1)]) auto
next
  fix ty' assume "node_cond E n ty' \<noteq> None"
  then show "node_cond E (set_node_cond E n ty st re ms) ty' \<noteq> None"
    using set_cond_present[OF assms(1)] node_cond_set_other[OF assms(1), of ty' ty] by (cases "ty' = ty") auto
qed

lemma cond_step_trans [trans]:
  assumes "cond_step E T n1 n2" and "cond_step E U n2 n3"
  shows "cond_step E (T \<union> U) n1 n3"
proof -
  obtain cs2 cs3 where "n2 = upd_status (\<lambda>s. s\<lparr>st_Conditions := cs2\<rparr>) n1"
      "n3 = upd_status (\<lambda>s. s\<lparr>st_Conditions := cs3\<rparr>) n2"
    using assms unfolding cond_step_def by blast
  then have "\<exists>cs. n3 = upd_status (\<lambda>s. s\<lparr>st_Conditions := cs\<rparr>) n1" by (intro exI[of _ cs3]) simp
  moreover have "\<forall>ty. ty \<notin> T \<union> U \<longrightarrow> node_cond E n3 ty = node_cond E n1 ty"
    using assms unfolding cond_step_def by simp
  moreover have "\<forall>ty. node_cond E n1 ty \<noteq> None \<longrightarrow> node_cond E n3 ty \<noteq> None"
    using assms unfolding cond_step_def by blast
  ultimately show ?thesis unfolding cond_step_def by blast
qed

lemma cond_step_frame:
  assumes "cond_step E T n n'"
  shows "node_Spec n' = node_Spec n" "node_Phase n' = node_Phase n" "node_Plan n' = node_Plan n"
    "st_Endpoint (node_Status n') = st_Endpoint (node_Status n)"
    "st_StatefulSet (node_Status n') = st_StatefulSet (node_Status n)"
    "st_AdoptedWorkflow (node_Status n') = st_AdoptedWorkflow (node_Status n)"
    "st_ResolvedPeers (node_Status n') = st_ResolvedPeers (node_Status n)"
    "node_CreationTimestamp n' = node_CreationTimestamp n"
    "node_Name n' = node_Name n" "node_Namespace n' = node_Namespace n"
  using assms unfolding cond_step_def by auto

lemma cond_step_other: "cond_step E T n n' \<Longrightarrow> ty \<notin> T \<Longrightarrow> node_cond E n' ty = node_cond E n ty"
  and cond_step_keeps: "cond_step E T n n' \<Longrightarrow> node_cond E n ty \<noteq> None \<Longrightarrow> node_cond E n' ty \<noteq> None"
  unfolding cond_step_def by auto

text \<open>Each gate sets its one condition; the conditions of the types below are then present.\<close>

lemma gate_steps:
  assumes "cond_laws E"
  shows "cond_step E {ConditionSeiNodePaused} n (setNodePausedCondition E n)"
    and "cond_step E {ConditionVolumeAttributesClassReady} n (reconcileVolumeAttributesClass E C tr n)"
    and "cond_step E {ConditionDataVolumeResizeInProgress} n (reconcileDataVolumeResize E C tr n)"
    and "cond_step E {ConditionEvmServing} n (reconcileEvmServing E C tr n)"
    and "cond_step E {ConditionPeersReady} n (setPeersReady E n now)"
    and "cond_step E {ConditionMaintenanceInProgress} n (ResolveMaintenance E n)"
    and "cond_step E {ConditionDataResetInProgress} (if spec_NodeConfig (node_Spec n) = None then n else raise_handled n)
           (ResolveDataReset E n)"
  unfolding setNodePausedCondition_def reconcileVolumeAttributesClass_def setVolumeAttributesClassReady_def
    reconcileDataVolumeResize_def setDataVolumeResize_def reconcileEvmServing_def setEvmServing_def
    setPeersReady_def ResolveMaintenance_def setMaintenanceCondition_def ResolveDataReset_def
    setDataResetCondition_def Let_def
  by (auto intro!: cond_step_set[OF assms] split: option.splits sum.splits if_splits)

lemma gates_present:
  assumes "cond_laws E"
  shows "node_cond E (setNodePausedCondition E n) ConditionSeiNodePaused \<noteq> None"
    and "node_cond E (reconcileVolumeAttributesClass E C tr n) ConditionVolumeAttributesClassReady \<noteq> None"
    and "node_cond E (reconcileDataVolumeResize E C tr n) ConditionDataVolumeResizeInProgress \<noteq> None"
    and "node_cond E (reconcileEvmServing E C tr n) ConditionEvmServing \<noteq> None"
    and "node_cond E (setPeersReady E n now) ConditionPeersReady \<noteq> None"
    and "node_cond E (ResolveMaintenance E n) ConditionMaintenanceInProgress \<noteq> None"
  unfolding setNodePausedCondition_def reconcileVolumeAttributesClass_def setVolumeAttributesClassReady_def
    reconcileDataVolumeResize_def setDataVolumeResize_def reconcileEvmServing_def setEvmServing_def
    setPeersReady_def ResolveMaintenance_def setMaintenanceCondition_def Let_def
  using set_cond_present[OF assms]
  by (auto simp del: not_None_eq not_Some_eq split: option.splits sum.splits if_splits)

subsection \<open>The EVM-only endpoint\<close>

text \<open>The pod that \<open>EvmServing\<close> reads is there and passes readiness.\<close>

definition evm_listener_ready :: "cworld \<Rightarrow> trace \<Rightarrow> SeiNode \<Rightarrow> bool" where
  "evm_listener_ready C tr n \<longleftrightarrow>
     (case st_StatefulSet (node_Status n) of
        None \<Rightarrow> False
      | Some sts \<Rightarrow> (case cw_Pod C tr (stsref_Name sts @ ''-0'') of Inl _ \<Rightarrow> False | Inr pod \<Rightarrow> podReady pod))"

lemma evm_serving_iff:
  assumes "cond_laws E"
  shows "condition_true E (reconcileEvmServing E C tr n) ConditionEvmServing \<longleftrightarrow>
    IsEvmOnly (EffectiveExecutionEngine (node_Spec n)) \<and> EvmHTTPEnabled (EffectiveExecutionEngine (node_Spec n)) \<and>
    evm_listener_ready C tr n"
  unfolding reconcileEvmServing_def setEvmServing_def Let_def evm_listener_ready_def
  by (simp add: condition_true_set_same[OF assms] split: option.split sum.split)

lemma set_endpoint_simps [simp]:
  "node_Spec (set_endpoint E n) = node_Spec n"
  "node_Name (set_endpoint E n) = node_Name n"
  "node_Namespace (set_endpoint E n) = node_Namespace n"
  "node_Phase (set_endpoint E n) = node_Phase n"
  "node_Plan (set_endpoint E n) = node_Plan n"
  "node_Conditions (set_endpoint E n) = node_Conditions n"
  "st_StatefulSet (node_Status (set_endpoint E n)) = st_StatefulSet (node_Status n)"
  "st_AdoptedWorkflow (node_Status (set_endpoint E n)) = st_AdoptedWorkflow (node_Status n)"
  "st_Endpoint (node_Status (set_endpoint E n)) = composeNodeEndpoints E n"
  by (simp_all add: set_endpoint_def)

lemma raise_handled_simps [simp]:
  "node_Spec (raise_handled n) = node_Spec n"
  "node_Name (raise_handled n) = node_Name n"
  "node_Namespace (raise_handled n) = node_Namespace n"
  "node_Phase (raise_handled n) = node_Phase n"
  "node_Plan (raise_handled n) = node_Plan n"
  "node_Conditions (raise_handled n) = node_Conditions n"
  "st_StatefulSet (node_Status (raise_handled n)) = st_StatefulSet (node_Status n)"
  "st_AdoptedWorkflow (node_Status (raise_handled n)) = st_AdoptedWorkflow (node_Status n)"
  "st_Endpoint (node_Status (raise_handled n)) = st_Endpoint (node_Status n)"
  by (simp_all add: raise_handled_def)

text \<open>The gates after the endpoint leave it and the serving condition alone.\<close>

lemma late_gates_frame:
  fixes now :: go_time
  assumes "cond_laws E"
  defines "m \<equiv> \<lambda>n. ResolveMaintenance E (ResolveDataReset E (setPeersReady E n now))"
  shows "st_Endpoint (node_Status (m n)) = st_Endpoint (node_Status n)"
    and "node_cond E (m n) ConditionEvmServing = node_cond E n ConditionEvmServing"
    and "node_Spec (m n) = node_Spec n" and "node_Name (m n) = node_Name n"
    and "node_Namespace (m n) = node_Namespace n"
proof -
  let ?p = "setPeersReady E n now"
  let ?r = "if spec_NodeConfig (node_Spec ?p) = None then ?p else raise_handled ?p"
  note steps = gate_steps(5)[OF assms(1), of n now] gate_steps(7)[OF assms(1), of ?p]
    gate_steps(6)[OF assms(1), of "ResolveDataReset E ?p"]
  show "st_Endpoint (node_Status (m n)) = st_Endpoint (node_Status n)" "node_Spec (m n) = node_Spec n"
    "node_Name (m n) = node_Name n" "node_Namespace (m n) = node_Namespace n"
    using steps[THEN cond_step_frame(4)] steps[THEN cond_step_frame(1)]
      steps[THEN cond_step_frame(9)] steps[THEN cond_step_frame(10)] by (simp_all add: m_def)
  show "node_cond E (m n) ConditionEvmServing = node_cond E n ConditionEvmServing"
    using steps[THEN cond_step_other, of ConditionEvmServing] by (simp add: m_def)
qed

lemma gates_before_evm:
  fixes C :: cworld and tr :: trace
  assumes "cond_laws E"
  defines "m \<equiv> \<lambda>n. reconcileDataVolumeResize E C tr (reconcileVolumeAttributesClass E C tr
                      (fst (reconcileStateSyncGate E C (setNodePausedCondition E n))))"
  shows "node_Spec (m n) = node_Spec n"
    and "st_StatefulSet (node_Status (m n)) = st_StatefulSet (node_Status n)"
proof -
  obtain n1 b where gate: "reconcileStateSyncGate E C (setNodePausedCondition E n) = (n1, b)" by fastforce
  have "node_Spec n1 = node_Spec n \<and> st_StatefulSet (node_Status n1) = st_StatefulSet (node_Status n)"
    using gate cond_step_frame[OF gate_steps(1)[OF assms(1), of n]]
    by (cases rule: gate_cases) (simp_all add: set_node_cond_def set_syncers_def)
  then show "node_Spec (m n) = node_Spec n" "st_StatefulSet (node_Status (m n)) = st_StatefulSet (node_Status n)"
    using cond_step_frame[OF gate_steps(2)[OF assms(1), of n1 C tr]]
      cond_step_frame[OF gate_steps(3)[OF assms(1), of "reconcileVolumeAttributesClass E C tr n1" C tr]]
    by (simp_all add: m_def gate)
qed

text \<open>After the gates of a reconcile, whatever path it takes from there, an EVM-only node
  publishes an endpoint exactly when its EvmServing condition is True, and that is exactly when the
  listener is enabled and the node's pod exists and passes readiness.  The endpoint then carries the
  JSON-RPC URL and nothing else.\<close>

theorem evm_endpoint_vouched:
  assumes "cond_laws E" and "resolve_gates E C now tr n = (n', blocked)"
    and "IsEvmOnly (EffectiveExecutionEngine (node_Spec n))"
  shows "st_Endpoint (node_Status n') =
           (if EvmHTTPEnabled (EffectiveExecutionEngine (node_Spec n)) \<and> evm_listener_ready C tr n
            then Some \<lparr>ep_EvmJsonRpc = httpURL (node_Name n') (node_Namespace n') (PortEVMHTTP E),
                       ep_EvmWs = [], ep_TendermintRpc = [], ep_TendermintRest = []\<rparr>
            else None) \<and>
         (st_Endpoint (node_Status n') \<noteq> None \<longleftrightarrow> condition_true E n' ConditionEvmServing)"
proof -
  let ?m = "reconcileDataVolumeResize E C tr (reconcileVolumeAttributesClass E C tr
              (fst (reconcileStateSyncGate E C (setNodePausedCondition E n))))"
  let ?e = "reconcileEvmServing E C tr ?m"
  have spec: "node_Spec ?e = node_Spec n"
    using cond_step_frame(1)[OF gate_steps(4)[OF assms(1), of ?m C tr]] gates_before_evm(1)[OF assms(1)] by simp
  have n': "n' = ResolveMaintenance E (ResolveDataReset E (setPeersReady E (set_endpoint E ?e) now))"
    using assms(2,3) spec by (auto simp: resolve_gates_def Let_def split: prod.splits)
  note frame = late_gates_frame[OF assms(1), where now = now and n = "set_endpoint E ?e"]
  have serving: "condition_true E n' ConditionEvmServing \<longleftrightarrow>
      EvmHTTPEnabled (EffectiveExecutionEngine (node_Spec n)) \<and> evm_listener_ready C tr n"
    using evm_serving_iff[OF assms(1), of C tr ?m] gates_before_evm[OF assms(1), where C = C and tr = tr and n = n] assms(3) frame(2)
    by (simp add: n' condition_true_def evm_listener_ready_def)
  moreover have "condition_true E ?e ConditionEvmServing \<longleftrightarrow> condition_true E n' ConditionEvmServing"
    using frame(2) by (simp add: n' condition_true_def)
  moreover have "st_Endpoint (node_Status n') = composeNodeEndpoints E ?e"
    using frame(1) by (simp add: n')
  moreover have "node_Name n' = node_Name ?e \<and> node_Namespace n' = node_Namespace ?e"
    using frame(4,5) by (simp add: n')
  ultimately show ?thesis
    using assms(3) spec by (simp add: composeNodeEndpoints_def Let_def)
qed

definition evm_node :: SeiNode where
  "evm_node =
     demo_node\<lparr>node_Spec := demo_spec\<lparr>spec_ExecutionEngine := Some \<lparr>ee_Mode = ExecutionEngineEvmOnly, ee_EvmOnly = None\<rparr>\<rparr>,
               node_Status := demo_status\<lparr>st_StatefulSet := Some \<lparr>stsref_Name = ''rpc-0'', stsref_UID = ''u1''\<rparr>\<rparr>\<rparr>"

lemma evm_endpoint_vouched_witness:
  "st_Endpoint (node_Status (fst (resolve_gates demo_ext demo_cworld 0 [] evm_node))) \<noteq> None \<and>
   condition_true demo_ext (fst (resolve_gates demo_ext demo_cworld 0 [] evm_node)) ConditionEvmServing"
proof -
  obtain n' b where gates: "resolve_gates demo_ext demo_cworld 0 [] evm_node = (n', b)" by fastforce
  have "IsEvmOnly (EffectiveExecutionEngine (node_Spec evm_node)) \<and>
      EvmHTTPEnabled (EffectiveExecutionEngine (node_Spec evm_node)) \<and> evm_listener_ready demo_cworld [] evm_node"
    by code_simp
  with evm_endpoint_vouched[OF demo_cond_laws gates] gates show ?thesis by auto
qed

end
