(* ===== verification/ReconcileProps.thy ===== *)
theory ReconcileProps
  imports WorkflowProps GateProps ResolveProps
begin

text \<open>
  What a whole reconcile of a node guarantees: the status it ends with is the status the API
  server holds unless it reports an error, a paused or failed node is left alone, and a workflow
  that occupies the node keeps the node's own plan untouched.
\<close>

subsection \<open>The status the API server holds\<close>

fun is_node_patch :: "event \<Rightarrow> bool" where
  "is_node_patch (PatchNodeStatus _) = True"
| "is_node_patch _ = False"

fun last_status :: "SeiNodeStatus \<Rightarrow> trace \<Rightarrow> SeiNodeStatus" where
  "last_status st [] = st"
| "last_status st (PatchNodeStatus st' # tr) = st'"
| "last_status st (e # tr) = last_status st tr"

lemma last_status_other [simp]: "\<not> is_node_patch e \<Longrightarrow> last_status st (e # tr) = last_status st tr"
  by (cases e) auto

lemma last_status_append: "list_all (\<lambda>e. \<not> is_node_patch e) evs \<Longrightarrow> last_status st (evs @ tr) = last_status st tr"
  by (induction evs) auto

abbreviation emits_other :: "trace \<Rightarrow> trace \<Rightarrow> bool" where
  "emits_other \<equiv> emits (\<lambda>e. \<not> is_node_patch e)"

lemma last_status_emits: "emits_other tr tr' \<Longrightarrow> last_status st tr' = last_status st tr"
  by (auto simp: emits_def last_status_append)

lemma workflow_write_other: "is_workflow_write e \<Longrightarrow> \<not> is_node_patch e"
  by (cases e) auto

lemma workflow_writes_other: "emits is_workflow_write tr tr' \<Longrightarrow> emits_other tr tr'"
  by (erule emits_mono) (rule workflow_write_other)

lemma calls_other: "emits_other tr (map TaskCall calls @ tr)"
  unfolding emits_def by (rule exI[of _ "map TaskCall calls"]) (simp add: list_all_iff)

text \<open>The reconcile knows what the API server holds.\<close>

definition in_sync :: "SeiNodeStatus \<Rightarrow> cstate \<Rightarrow> bool" where
  "in_sync st s \<longleftrightarrow> c_Saved s = last_status st (c_Trace s)"

text \<open>A part of the reconcile that writes no node status.\<close>

definition no_flush :: "cstate \<Rightarrow> cstate \<Rightarrow> bool" where
  "no_flush s s' \<longleftrightarrow>
     c_Saved s' = c_Saved s \<and> c_FlushFailed s' = c_FlushFailed s \<and> emits_other (c_Trace s) (c_Trace s')"

lemma no_flush_refl [simp]: "no_flush s s"
  by (simp add: no_flush_def)

lemma no_flush_trans: "no_flush a b \<Longrightarrow> no_flush b c \<Longrightarrow> no_flush a c"
  unfolding no_flush_def using emits_trans by metis

lemma no_flush_on_node [simp]: "no_flush s (on_node f s)"
  by (simp add: no_flush_def)

lemma no_flush_in_sync: "no_flush s s' \<Longrightarrow> in_sync st s \<Longrightarrow> in_sync st s'"
  unfolding no_flush_def in_sync_def using last_status_emits by metis

lemma flush_in_sync:
  assumes "flushStatus C s = (s', err)" and "in_sync st s"
  shows "in_sync st s' \<and> c_Node s' = c_Node s \<and>
         (if err = None then c_FlushFailed s' = c_FlushFailed s \<and> c_Saved s' = node_Status (c_Node s')
          else c_FlushFailed s')"
  using assms by (auto simp: flushStatus_def Let_def in_sync_def split: if_splits option.splits)

subsection \<open>The workflow half\<close>

lemma release_no_flush: "releaseCompletedWorkflow E C w s = (s', out) \<Longrightarrow>
    c_Saved s' = c_Saved s \<and> c_FlushFailed s' = c_FlushFailed s"
  by (auto simp: releaseCompletedWorkflow_def clear_pointer_def split: prod.splits option.splits)

lemma finalize_no_flush: "finalizeWorkflow E C w s = (s', out) \<Longrightarrow>
    c_Saved s' = c_Saved s \<and> c_FlushFailed s' = c_FlushFailed s"
  by (auto simp: finalizeWorkflow_def clear_pointer_def verifyWorkflowDataSafe_def split: prod.splits option.splits if_splits)

lemma run_plan_on_no_flush:
  assumes "run_plan_on E P C now plan s = (s', plan', d)"
  shows "no_flush s s'"
proof -
  obtain calls m where "s' = s\<lparr>c_Node := m, c_Trace := map TaskCall calls @ c_Trace s\<rparr>"
    by (rule run_plan_on_shape[OF assms])
  then show ?thesis by (simp add: no_flush_def calls_other)
qed

lemma execute_no_flush:
  assumes "executeWorkflow E P C now plan w s = (s', out)"
  shows "c_Saved s' = c_Saved s \<and> c_FlushFailed s' = c_FlushFailed s"
proof -
  obtain s1 plan' d where run: "run_plan_on E P C now plan s = (s1, plan', d)" by (metis prod_cases3)
  then have "c_Saved s1 = c_Saved s \<and> c_FlushFailed s1 = c_FlushFailed s"
    using run_plan_on_no_flush by (simp add: no_flush_def)
  then show ?thesis
    using assms run
    by (auto simp: executeWorkflow_def Let_def park_failed_def split: option.splits TaskPlanPhase.splits if_splits
        dest!: release_no_flush)
qed

lemma build_no_flush: "buildAndPersistWorkflowPlan E C w s = (s', err) \<Longrightarrow>
    c_Saved s' = c_Saved s \<and> c_FlushFailed s' = c_FlushFailed s"
  by (auto simp: buildAndPersistWorkflowPlan_def split: sum.splits prod.splits)

lemma drive_saved:
  "driveAdoptedWorkflow E P C now ptr s = (s', out) \<Longrightarrow> c_Saved s' = c_Saved s \<and> c_FlushFailed s' = c_FlushFailed s"
  unfolding driveAdoptedWorkflow_def Let_def
  by (auto simp: clear_pointer_def park_failed_def split: sum.splits if_splits prod.splits option.splits
      dest!: release_no_flush finalize_no_flush execute_no_flush build_no_flush)

lemma drive_no_flush:
  assumes drive: "driveAdoptedWorkflow E P C now ptr s = (s', out)"
  shows "no_flush s s'"
proof -
  from drive have "emits_other (c_Trace s) (c_Trace s')"
  proof (cases rule: drive_cases)
    case (deleting w)
    then show ?thesis using finalize_release[OF deleting(4)] by (auto intro: workflow_writes_other)
  next
    case (completed w)
    from completed(5) show ?thesis by (cases rule: release_shape) (auto intro: workflow_writes_other)
  next
    case waiting
    then show ?thesis by (simp add: workflow_writes_other)
  next
    case (executing w plan gate s1)
    obtain later calls where later: "c_Trace s' = later @ map TaskCall calls @ gate @ c_Trace s" "list_all is_workflow_write later"
      using execute_shape[OF executing(9)] executing(4,5,7) by auto
    have "list_all (\<lambda>e. \<not> is_node_patch e) (later @ map TaskCall calls @ gate)"
      using later(2) executing(6) workflow_write_other by (auto simp: list_all_iff)
    with later(1) show ?thesis unfolding emits_def by (intro exI[of _ "later @ map TaskCall calls @ gate"]) simp
  qed simp_all
  with drive_saved[OF drive] show ?thesis by (simp add: no_flush_def)
qed

lemma write_no_flush: "emits is_workflow_write (c_Trace s) tr \<Longrightarrow> no_flush s (set_trace tr s)"
  by (simp add: no_flush_def workflow_writes_other)

text \<open>The adoption commit is the one flush outside \<open>Reconcile\<close> itself.\<close>

definition flushes_reported :: "SeiNodeStatus \<Rightarrow> cstate \<Rightarrow> error option \<Rightarrow> bool" where
  "flushes_reported st s err \<longleftrightarrow> in_sync st s \<and> (c_FlushFailed s \<longrightarrow> err \<noteq> None)"

lemma no_flush_reported:
  "no_flush s s' \<Longrightarrow> in_sync st s \<Longrightarrow> \<not> c_FlushFailed s \<Longrightarrow> flushes_reported st s' err"
  unfolding flushes_reported_def using no_flush_in_sync by (auto simp: no_flush_def)

lemma commit_reported:
  assumes commit: "commit_adoption E C now plan w s = (s', out)" and sync: "in_sync st s" "\<not> c_FlushFailed s"
  shows "flushes_reported st s' (wo_err out)"
proof -
  define s1 where "s1 = on_node (\<lambda>n. setWorkflowInProgress E ConditionTrue ''WorkflowRunning'' (''adopted workflow '' @ wf_Name w)
      (upd_status (\<lambda>st. st\<lparr>st_AdoptedWorkflow := Some (pointer_to w now)\<rparr>) n)) s"
  obtain s2 e where flush: "flushStatus C s1 = (s2, e)" by fastforce
  obtain w' tr e' where gate: "patchWorkflowFinalizer C True w (c_Trace s2) = (w', tr, e')" by (metis prod_cases3)
  obtain w'' tr' e'' where persist: "persistWorkflowPlan E C plan w' tr = (w'', tr', e'')" by (metis prod_cases3)
  have "no_flush s s1" by (simp add: s1_def)
  then have s1: "in_sync st s1" "\<not> c_FlushFailed s1" using sync no_flush_in_sync by (auto simp: no_flush_def)
  have s2: "in_sync st s2" "c_FlushFailed s2 \<longleftrightarrow> e \<noteq> None" using flush_in_sync[OF flush s1(1)] s1(2) by (auto split: if_splits)
  have writes: "emits is_workflow_write (c_Trace s2) tr" "emits is_workflow_write (c_Trace s2) tr'"
    using finalizer_emits[OF gate, of is_workflow_write] persistPlan_emits[OF persist, of is_workflow_write]
    by (auto intro: emits_trans)
  have "(s', out) = (case e of Some x \<Rightarrow> (s2, wf_error False (''committing adoption pointer: '' @ x))
      | None \<Rightarrow> (case e' of Some x \<Rightarrow> (set_trace tr s2, wf_error True (api_text x))
        | None \<Rightarrow> (case e'' of Some x \<Rightarrow> (set_trace tr' s2, wf_error True (api_text x))
          | None \<Rightarrow> (set_trace tr' s2, \<lparr>wo_suppress = True, wo_result = ResultRequeueImmediate, wo_handled = True, wo_err = None\<rparr>))))"
    using commit by (simp only: commit_adoption_def Let_def s1_def[symmetric] flush gate persist prod.case)
  then show ?thesis
    using s2 no_flush_reported[OF write_no_flush[OF writes(1)] s2(1)] no_flush_reported[OF write_no_flush[OF writes(2)] s2(1)]
    by (auto simp: flushes_reported_def wf_error_def split: option.splits)
qed

lemma adopt_winner_reported:
  assumes adopt: "adopt_winner E C now w s = (s', out)" and sync: "in_sync st s" "\<not> c_FlushFailed s"
  shows "flushes_reported st s' (wo_err out)"
proof -
  obtain w' tr d where gate: "gateOnRequirePhase E C now (c_Node s) w (c_Trace s) = (w', tr, d)" by (metis prod_cases3)
  have tr: "emits is_workflow_write (c_Trace s) tr" by (rule requirePhase_emits[OF gate]) simp
  then have sync': "in_sync st (set_trace tr s)" "\<not> c_FlushFailed (set_trace tr s)"
    using sync no_flush_in_sync[OF write_no_flush] by auto
  have fails: "emits is_workflow_write (c_Trace s) (failWorkflow E C re ms w' tr)"
    and seeds: "emits is_workflow_write (c_Trace s) (seedWorkflowAdoption E C cst re ms w (c_Trace s))" for re ms cst
    using emits_trans[OF tr failWorkflow_emits] by (simp_all add: seedAdoption_emits)
  note quiet = no_flush_reported[OF write_no_flush sync]
  from adopt gate show ?thesis
    unfolding adopt_winner_def Let_def
    by (auto split: if_splits option.splits sum.splits intro: quiet[OF tr] quiet[OF fails] quiet[OF seeds]
        commit_reported[OF _ sync'])
qed

lemma maybeAdopt_reported:
  assumes maybe: "maybeAdoptWorkflow E C now s = (s', out)" and sync: "in_sync st s" "\<not> c_FlushFailed s"
  shows "flushes_reported st s' (wo_err out)"
proof -
  let ?K = is_workflow_write
  obtain tr e where reap: "reapCompletedWorkflowFinalizers C (c_Trace s) = (tr, e)" by fastforce
  have first: "emits ?K (c_Trace s) tr" by (rule reap_emits[OF reap]) simp
  have seeds: "emits ?K (c_Trace s) (over_trace (seedWorkflowAdoption E C cst re ms) ws tr)"
    and fails: "emits ?K (c_Trace s) (over_trace (failWorkflow E C re ms) ws tr)" for cst re ms ws
    by (rule emits_trans[OF first over_trace_emits], simp add: seedAdoption_emits failWorkflow_emits)+
  note quiet = no_flush_reported[OF write_no_flush sync]
  have sync': "in_sync st (set_trace t s)" "\<not> c_FlushFailed (set_trace t s)" if "emits ?K (c_Trace s) t" for t
    using that sync no_flush_in_sync[OF write_no_flush] by auto
  have twice [simp]: "set_trace t (set_trace u s) = set_trace t s" for t u by (simp add: set_trace_def)
  from maybe reap show ?thesis
    unfolding maybeAdoptWorkflow_def Let_def fail_all_def
    by (auto split: option.splits sum.splits list.splits if_splits simp del: over_trace.simps
        intro: quiet[OF first] quiet[OF seeds] quiet[OF fails] adopt_winner_reported[OF _ sync'[OF seeds]])
qed

lemma workflow_reported:
  assumes "reconcileWorkflow E P C now s = (s', out)" and sync: "in_sync st s" "\<not> c_FlushFailed s"
  shows "flushes_reported st s' (wo_err out)"
proof (cases "st_AdoptedWorkflow (node_Status (c_Node s))")
  case None
  have "in_sync st (on_node f s)" "\<not> c_FlushFailed (on_node f s)" for f
    using sync no_flush_in_sync[OF no_flush_on_node] by auto
  then show ?thesis
    using None assms no_flush_reported[OF no_flush_refl sync]
    by (auto simp: reconcileWorkflow_def split: if_splits intro: maybeAdopt_reported)
next
  case (Some ptr)
  then show ?thesis
    using assms no_flush_reported[OF drive_no_flush sync] by (simp add: reconcileWorkflow_def)
qed

subsection \<open>The rest of the reconcile\<close>

lemma sync_workload_no_flush:
  assumes "sync_workload E P C now s = (s', err)"
  shows "no_flush s s'"
proof -
  have "emits_other tr (fst (reconcileStatefulSet C n tr))" for n tr
    by (auto simp: reconcileStatefulSet_def Let_def calls_other split: prod.splits sum.splits bool.splits)
  then have sts: "emits_other tr tr'" if "reconcileStatefulSet C n tr = (tr', r)" for n tr tr' r
    using that by (metis fst_conv)
  show ?thesis
    using assms unfolding sync_workload_def Let_def no_flush_def
    by (auto split: prod.splits sum.splits if_splits dest!: sts)
qed

lemma resolveDriftPlan_no_flush:
  assumes "resolveDriftPlan E P C now s = (s', d, err)"
  shows "no_flush s s'"
proof -
  have run: "no_flush s s2" if "run_plan_on E P C now plan (on_node f s) = (s2, plan', d')" for f s2 plan plan' d'
    using no_flush_trans[OF no_flush_on_node run_plan_on_no_flush[OF that]] .
  have node: "no_flush a (on_node f b)" if "no_flush a b" for a b f using that by (simp add: no_flush_def)
  show ?thesis
    using assms unfolding resolveDriftPlan_def Let_def
    by (auto split: prod.splits option.splits if_splits intro!: node dest!: run)
qed

lemma flush_and_stop_reported:
  assumes "in_sync st s" "\<not> c_FlushFailed s"
  shows "flushes_reported st (rr_State (flush_and_stop C what retry d s)) (rr_Err (flush_and_stop C what retry d s))"
proof -
  obtain s' err where flush: "flushStatus C s = (s', err)" by fastforce
  show ?thesis
    using flush_in_sync[OF flush assms(1)] assms(2) flush
    by (auto simp: flush_and_stop_def stop_def flushes_reported_def split: option.splits)
qed

lemma stop_simps [simp]: "rr_State (stop s retry d err) = s" "rr_Err (stop s retry d err) = err"
  by (simp_all add: stop_def)

lemma plan_work_reported:
  assumes sync: "in_sync st s" "\<not> c_FlushFailed s" and r_def: "r = plan_work E P C now retry blocked s"
  shows "flushes_reported st (rr_State r) (rr_Err r)"
proof -
  obtain s1 out where wf: "reconcileWorkflow E P C now s = (s1, out)" by fastforce
  note rep = workflow_reported[OF wf sync]
  have finished: "flushes_reported st (rr_State (finish C now b blocked retry d s2)) (rr_Err (finish C now b blocked retry d s2))"
    if "no_flush s1 s2" "wo_err out = None" for b d s2
  proof -
    have "in_sync st (on_node f s2)" "\<not> c_FlushFailed (on_node f s2)" for f
      using that rep no_flush_in_sync[OF no_flush_trans[OF that(1) no_flush_on_node]]
      by (auto simp: flushes_reported_def no_flush_def)
    then show ?thesis by (auto simp: finish_def flush_and_stop_reported split: prod.splits)
  qed
  show ?thesis
  proof (cases "wo_err out")
    case (Some e)
    then show ?thesis using rep by (simp add: r_def plan_work_def wf flushes_reported_def)
  next
    case None
    have clean: "in_sync st s1" "\<not> c_FlushFailed s1" using rep None by (auto simp: flushes_reported_def)
    have drift: "no_flush s1 s2" if "resolveDriftPlan E P C now (on_node f s1) = (s2, d, e)" for f s2 d e
      using no_flush_trans[OF no_flush_on_node resolveDriftPlan_no_flush[OF that]] .
    show ?thesis
      using None rep unfolding r_def plan_work_def wf
      by (auto split: sum.splits prod.splits option.splits simp: finished
          dest!: drift intro: finished no_flush_reported[OF _ clean])
  qed
qed

lemma reconcile_body_reported:
  assumes sync: "in_sync st s" "\<not> c_FlushFailed s" and r_def: "r = reconcile_body E P C now retry s"
  shows "flushes_reported st (rr_State r) (rr_Err r)"
proof -
  have keep: "in_sync st s2" "\<not> c_FlushFailed s2" if "no_flush s s2" for s2
    using that sync no_flush_in_sync by (auto simp: no_flush_def)
  obtain n b where gates: "resolve_gates E C now (c_Trace s) (c_Node s) = (n, b)" by fastforce
  obtain s1 e where work: "sync_workload E P C now (on_node (\<lambda>_. n) s) = (s1, e)" by fastforce
  have s1: "no_flush s s1" using no_flush_trans[OF no_flush_on_node sync_workload_no_flush[OF work]] .
  obtain n2 tr2 where grow: "growDataPVC E C (c_Trace s1) (c_Node s1) = (n2, tr2)" by fastforce
  have "emits_other (c_Trace s1) tr2"
    using grow by (auto simp: growDataPVC_def Let_def emits_one split: sum.splits option.splits if_splits api_error.splits)
  then have s2: "no_flush s (set_trace tr2 (on_node f s1))" "no_flush s (on_node g (set_trace tr2 (on_node f s1)))" for f g
    using s1 by (auto simp: no_flush_def intro: emits_trans)
  show ?thesis
    unfolding r_def reconcile_body_def gates Let_def prod.case work grow
    by (simp add: flush_and_stop_reported[OF keep[OF no_flush_on_node]] flush_and_stop_reported[OF keep[OF s1]]
        no_flush_reported[OF s1 sync] no_flush_reported[OF s2(1) sync] plan_work_reported[OF keep[OF s2(2)] refl]
        split: option.split sum.split)
qed

subsection \<open>Nothing resolved is lost\<close>

lemma backstop_persists:
  assumes rep: "flushes_reported st (rr_State r) (rr_Err r)" and b_def: "b = backstop C r"
  shows "in_sync st (rr_State b) \<and> (if c_FlushFailed (rr_State b) then rr_Err b \<noteq> None
           else c_Saved (rr_State b) = node_Status (c_Node (rr_State b)))"
proof (cases "c_FlushFailed (rr_State r)")
  case True
  then show ?thesis using rep by (simp add: b_def backstop_def flushes_reported_def)
next
  case False
  obtain s' err where flush: "flushStatus C (rr_State r) = (s', err)" by fastforce
  show ?thesis
    using False flush_in_sync[OF flush] rep flush
    by (auto simp: b_def backstop_def flushes_reported_def split: option.splits)
qed

text \<open>C4.  Nothing a reconcile resolves is lost silently.  Whatever way a reconcile of a node that is
  not being deleted takes - also when it ends in an error of the StatefulSet, the peers, the workflow
  or the planner - either the status it has in memory at the end is the status the API server holds,
  or a status write was refused and the reconcile reports an error, so it runs again.  What the API
  server holds is the last status the reconcile wrote, or the one it read when it wrote none.\<close>

theorem reconcile_persists:
  assumes "\<not> no_Deleting ob" and "reconcile_object E P C now retry ob = r"
  shows "(if c_FlushFailed (rr_State r) then rr_Err r \<noteq> None
          else c_Saved (rr_State r) = node_Status (c_Node (rr_State r))) \<and>
         c_Saved (rr_State r) = last_status (node_Status (no_Node ob)) (c_Trace (rr_State r))"
proof -
  let ?st = "node_Status (no_Node ob)"
  let ?s = "\<lparr>c_Node = no_Node ob, c_Trace = [], c_Saved = ?st, c_FlushFailed = False\<rparr>"
  have start: "in_sync ?st ?s" "in_sync ?st (set_trace [SetNodeFinalizer True] ?s)" by (simp_all add: in_sync_def)
  note body = backstop_persists[OF reconcile_body_reported[where E = E and P = P and C = C and now = now and
      retry = retry, OF _ _ refl] refl, where C = C]
  consider (refused) e where "\<not> no_Finalizer ob" "cw_UpdateNode C [] = Some e"
    | (added) "\<not> no_Finalizer ob" "cw_UpdateNode C [] = None" | (present) "no_Finalizer ob" by (cases "cw_UpdateNode C []") auto
  then have "in_sync ?st (rr_State r) \<and> (if c_FlushFailed (rr_State r) then rr_Err r \<noteq> None
           else c_Saved (rr_State r) = node_Status (c_Node (rr_State r)))"
  proof cases
    case refused
    then show ?thesis using assms by (auto simp: reconcile_object_def Let_def in_sync_def)
  next
    case added
    then show ?thesis using assms body[OF start(2)] by (auto simp: reconcile_object_def Let_def)
  next
    case present
    then show ?thesis using assms body[OF start(1)] by (auto simp: reconcile_object_def Let_def)
  qed
  then show ?thesis unfolding in_sync_def by blast
qed

definition demo_object :: node_object where
  "demo_object = \<lparr>no_Node = demo_node, no_Deleting = False, no_Finalizer = False\<rparr>"

lemma reconcile_persists_witness:
  "\<not> c_FlushFailed (rr_State (reconcile_object demo_ext demo_platform demo_cworld 9 None demo_object)) \<and>
   last_status demo_status (c_Trace (rr_State (reconcile_object demo_ext demo_platform demo_cworld 9 None demo_object))) =
   node_Status (c_Node (rr_State (reconcile_object demo_ext demo_platform demo_cworld 9 None demo_object)))"
proof -
  let ?r = "reconcile_object demo_ext demo_platform demo_cworld 9 None demo_object"
  have live: "\<not> no_Deleting demo_object" and st: "node_Status (no_Node demo_object) = demo_status"
    by (simp_all add: demo_object_def demo_node_def)
  have ok: "\<not> c_FlushFailed (rr_State ?r)" by code_simp
  from reconcile_persists[OF live refl, of demo_ext demo_platform demo_cworld 9 None] ok
  have "c_Saved (rr_State ?r) = node_Status (c_Node (rr_State ?r))"
    "c_Saved (rr_State ?r) = last_status demo_status (c_Trace (rr_State ?r))" unfolding st by auto
  with ok show ?thesis by metis
qed

subsection \<open>Frozen nodes\<close>

text \<open>What a reconcile that only resolves conditions leaves alone on the node.\<close>

definition frozen :: "SeiNode \<Rightarrow> SeiNode \<Rightarrow> bool" where
  "frozen n m \<longleftrightarrow> owner_frame n m \<and> node_Phase m = node_Phase n"

lemma frozen_refl [simp]: "frozen n n"
  by (simp add: frozen_def)

lemma frozen_trans [trans]: "frozen a b \<Longrightarrow> frozen b c \<Longrightarrow> frozen a c"
  by (simp add: frozen_def)

lemma frozen_cond_step: "cond_step E T n m \<Longrightarrow> frozen n m"
  by (auto simp: frozen_def dest: cond_step_frame)

lemma frozen_set [simp]: "frozen n (set_node_cond E n ty st re ms)"
  by (simp add: frozen_def)

lemma ResolveDataReset_frozen:
  assumes "cond_laws E"
  shows "frozen n (ResolveDataReset E n)"
proof -
  have "frozen n (if spec_NodeConfig (node_Spec n) = None then n else raise_handled n)" by (simp add: frozen_def)
  also have "frozen \<dots> (ResolveDataReset E n)" by (rule frozen_cond_step[OF gate_steps(7)[OF assms]])
  finally show ?thesis .
qed

lemma set_endpoint_frozen: "frozen n (if b then set_endpoint E n else n)"
  by (simp add: frozen_def)

lemma stateSyncGate_frozen: "reconcileStateSyncGate E C n = (n', b) \<Longrightarrow> frozen n n'"
  by (erule gate_cases) (simp_all add: frozen_def set_syncers_def)

lemma gates_frozen:
  assumes "cond_laws E" and "resolve_gates E C now tr n = (n', blocked)"
  shows "frozen n n'"
proof -
  obtain n1 b where gate: "reconcileStateSyncGate E C (setNodePausedCondition E n) = (n1, b)" by fastforce
  define n2 where "n2 = reconcileVolumeAttributesClass E C tr n1"
  define n3 where "n3 = reconcileDataVolumeResize E C tr n2"
  define n4 where "n4 = reconcileEvmServing E C tr n3"
  define n5 where "n5 = (if IsEvmOnly (EffectiveExecutionEngine (node_Spec n4)) then set_endpoint E n4 else n4)"
  note step = frozen_cond_step[OF gate_steps(1)[OF assms(1)]] frozen_cond_step[OF gate_steps(2)[OF assms(1)]]
    frozen_cond_step[OF gate_steps(3)[OF assms(1)]] frozen_cond_step[OF gate_steps(4)[OF assms(1)]]
    frozen_cond_step[OF gate_steps(5)[OF assms(1)]] frozen_cond_step[OF gate_steps(6)[OF assms(1)]]
  have "frozen n (setNodePausedCondition E n)" by (rule step)
  also have "frozen \<dots> n1" using gate by (rule stateSyncGate_frozen)
  also have "frozen n1 n2" unfolding n2_def by (rule step)
  also have "frozen n2 n3" unfolding n3_def by (rule step)
  also have "frozen n3 n4" unfolding n4_def by (rule step)
  also have "frozen n4 n5" unfolding n5_def by (rule set_endpoint_frozen)
  also have "frozen n5 (setPeersReady E n5 now)" by (rule step)
  also have "frozen \<dots> (ResolveDataReset E \<dots>)" by (rule ResolveDataReset_frozen[OF assms(1)])
  also have "frozen \<dots> (ResolveMaintenance E \<dots>)" by (rule step)
  also have "ResolveMaintenance E (ResolveDataReset E (setPeersReady E n5 now)) = n'"
    unfolding n5_def n4_def n3_def n2_def
    using assms(2) by (simp only: resolve_gates_def Let_def gate prod.case prod.inject)
  finally show ?thesis .
qed

lemma DriftRender_frozen: "DriftRenderNode E P nodes n = (n', r) \<Longrightarrow> frozen n n'"
  unfolding DriftRenderNode_def setNodeUpdateCondition_def Let_def
  by (auto split: if_splits sum.splits option.splits prod.splits)

fun is_sts_call :: "event \<Rightarrow> bool" where
  "is_sts_call (TaskCall (ApplyObject kind)) = (kind = ''StatefulSet'')"
| "is_sts_call (TaskCall (DeleteStatefulSet _)) = True"
| "is_sts_call _ = False"

lemma reconcileStatefulSet_calls:
  assumes "reconcileStatefulSet C n tr = (tr', r)"
  shows "emits is_sts_call tr tr'"
proof -
  obtain x res where sync: "SyncStatefulSet (cw_World C tr) n \<lparr>xs_Node = Some n, xs_Calls = []\<rparr> = (x, res)" by fastforce
  then have "xs_Calls x = [] \<or> xs_Calls x = [ApplyObject ''StatefulSet''] \<or> xs_Calls x = [DeleteStatefulSet (node_Name n)]"
    by (auto simp: SyncStatefulSet_def apply_sts_def log_call_def upd_node_def split: option.splits sum.splits if_splits)
  then have "emits is_sts_call tr (map TaskCall (xs_Calls x) @ tr)" by (auto simp: emits_one)
  with assms sync show ?thesis
    by (auto simp: reconcileStatefulSet_def Let_def split: sum.splits bool.splits)
qed

lemma sync_workload_frozen:
  assumes "sync_workload E P C now s = (s', err)"
  shows "frozen (c_Node s) (c_Node s')" and "emits is_sts_call (c_Trace s) (c_Trace s')"
    and "hold_statefulset E now (c_Node s) \<Longrightarrow> c_Trace s' = c_Trace s"
proof -
  have sts: "frozen n (upd_status (\<lambda>st. st\<lparr>st_StatefulSet := ref\<rparr>) m)" if "frozen n m" for n m ref
    using that by (simp add: frozen_def)
  show "frozen (c_Node s) (c_Node s')"
    using assms unfolding sync_workload_def Let_def
    by (auto split: prod.splits sum.splits if_splits dest!: DriftRender_frozen intro: sts)
  show "emits is_sts_call (c_Trace s) (c_Trace s')"
    using assms unfolding sync_workload_def Let_def
    by (auto split: prod.splits sum.splits if_splits dest!: reconcileStatefulSet_calls)
  show "hold_statefulset E now (c_Node s) \<Longrightarrow> c_Trace s' = c_Trace s"
    using assms unfolding sync_workload_def Let_def by (auto split: prod.splits sum.splits)
qed

lemma grow_frozen: "growDataPVC E C tr n = (n', tr') \<Longrightarrow> frozen n n'"
  by (auto simp: growDataPVC_def setDataVolumeResize_def Let_def
      split: sum.splits option.splits if_splits api_error.splits)

lemma peers_frozen: "reconcilePeers E C now tr n = Inr n' \<Longrightarrow> frozen n n'"
  by (auto simp: reconcilePeers_def setPeersReady_def Let_def frozen_def split: sum.splits)

lemma flush_and_stop_shape:
  "c_Node (rr_State (flush_and_stop C what retry d s)) = c_Node s"
  "emits is_node_patch (c_Trace s) (c_Trace (rr_State (flush_and_stop C what retry d s)))"
proof -
  obtain s' err where flush: "flushStatus C s = (s', err)" by fastforce
  then show "c_Node (rr_State (flush_and_stop C what retry d s)) = c_Node s"
    by (auto simp: flush_and_stop_def flushStatus_def Let_def split: option.splits if_splits)
  have "emits is_node_patch (c_Trace s) (c_Trace s')" by (rule flush_emits[OF flush]) simp
  then show "emits is_node_patch (c_Trace s) (c_Trace (rr_State (flush_and_stop C what retry d s)))"
    using flush by (auto simp: flush_and_stop_def split: option.splits)
qed

lemma backstop_shape:
  "c_Node (rr_State (backstop C r)) = c_Node (rr_State r)"
  "emits is_node_patch (c_Trace (rr_State r)) (c_Trace (rr_State (backstop C r)))"
proof -
  obtain s' err where flush: "flushStatus C (rr_State r) = (s', err)" by fastforce
  then show "c_Node (rr_State (backstop C r)) = c_Node (rr_State r)"
    by (auto simp: backstop_def flushStatus_def Let_def split: option.splits if_splits)
  have "emits is_node_patch (c_Trace (rr_State r)) (c_Trace s')" by (rule flush_emits[OF flush]) simp
  then show "emits is_node_patch (c_Trace (rr_State r)) (c_Trace (rr_State (backstop C r)))"
    using flush by (auto simp: backstop_def split: option.splits)
qed

lemma starting_state:
  assumes "reconcile_object E P C now retry ob = r" "\<not> no_Deleting ob"
  obtains (refused) "c_Node (rr_State r) = no_Node ob" "c_Trace (rr_State r) = []"
    | (ran) s where "c_Node s = no_Node ob" "c_Trace s = [] \<or> c_Trace s = [SetNodeFinalizer True]"
        "r = backstop C (reconcile_body E P C now retry s)"
proof -
  let ?s = "\<lparr>c_Node = no_Node ob, c_Trace = [], c_Saved = node_Status (no_Node ob), c_FlushFailed = False\<rparr>"
  consider e where "\<not> no_Finalizer ob" "cw_UpdateNode C [] = Some e"
    | "\<not> no_Finalizer ob" "cw_UpdateNode C [] = None" | "no_Finalizer ob" by (cases "cw_UpdateNode C []") auto
  then show thesis
  proof cases
    case 1
    then show thesis using assms by (intro refused) (auto simp: reconcile_object_def Let_def)
  next
    case 2
    then show thesis using assms by (intro ran[of "set_trace [SetNodeFinalizer True] ?s"]) (auto simp: reconcile_object_def Let_def)
  next
    case 3
    then show thesis using assms by (intro ran[of ?s]) (auto simp: reconcile_object_def Let_def)
  qed
qed

text \<open>A paused node is frozen, and a Failed node stays Failed.  A reconcile of such a node keeps
  its plan, its phase and its workflow pointer, submits no task, and writes only the finalizer, the
  node's own status and, on a paused node that has not failed, the StatefulSet.\<close>

theorem frozen_reconcile:
  assumes "cond_laws E" and live: "\<not> no_Deleting ob" and rec: "reconcile_object E P C now retry ob = r"
    and still: "spec_Paused (node_Spec (no_Node ob)) \<or> node_Phase (no_Node ob) = PhaseFailed"
  shows "frozen (no_Node ob) (c_Node (rr_State r)) \<and>
    (\<forall>e \<in> set (c_Trace (rr_State r)). e = SetNodeFinalizer True \<or> is_node_patch e \<or>
        is_sts_call e \<and> node_Phase (no_Node ob) \<noteq> PhaseFailed)"
  using rec live
proof (cases rule: starting_state)
  case refused
  then show ?thesis by simp
next
  case (ran s)
  obtain n b where gates: "resolve_gates E C now (c_Trace s) (c_Node s) = (n, b)" by fastforce
  have n: "frozen (no_Node ob) n" using gates_frozen[OF assms(1) gates] ran(1) by simp
  obtain s1 e where work: "sync_workload E P C now (on_node (\<lambda>_. n) s) = (s1, e)" by fastforce
  have s1: "frozen (no_Node ob) (c_Node s1)" using frozen_trans[OF n] sync_workload_frozen(1)[OF work] by simp
  let ?body = "reconcile_body E P C now retry s"
  let ?L = "\<lambda>e. e = SetNodeFinalizer True \<or> is_node_patch e \<or> is_sts_call e \<and> node_Phase (no_Node ob) \<noteq> PhaseFailed"
  have patch: "emits ?L a c" if "emits is_node_patch a c" for a c using that by (rule emits_mono) simp
  have sts: "emits ?L (c_Trace s) (c_Trace s1)" if "node_Phase (no_Node ob) \<noteq> PhaseFailed"
    using emits_mono[OF sync_workload_frozen(2)[OF work], of ?L] that by simp
  have "frozen (no_Node ob) (c_Node (rr_State ?body)) \<and> emits ?L (c_Trace s) (c_Trace (rr_State ?body))"
  proof (cases "node_Phase (no_Node ob) = PhaseFailed")
    case True
    then have "?body = flush_and_stop C ''flushing status on Failed'' retry 0 (on_node (\<lambda>_. n) s)"
      using n by (simp add: reconcile_body_def gates frozen_def)
    then show ?thesis using n patch[OF flush_and_stop_shape(2)[of "on_node (\<lambda>_. n) s"]] by (simp add: flush_and_stop_shape(1))
  next
    case False
    then have paused: "spec_Paused (node_Spec (c_Node s1))" and phase: "node_Phase n \<noteq> PhaseFailed"
      using still s1 n by (auto simp: frozen_def)
    show ?thesis
    proof (cases e)
      case (Some x)
      then have "?body = stop s1 retry 0 (Some x)" using phase by (simp add: reconcile_body_def gates work)
      then show ?thesis using s1 sts[OF False] by simp
    next
      case None
      then have "?body = flush_and_stop C ''flushing paused status'' retry 0 s1"
        using phase paused by (simp add: reconcile_body_def gates work)
      then show ?thesis
        using s1 emits_trans[OF sts[OF False] patch[OF flush_and_stop_shape(2)]] by (simp add: flush_and_stop_shape(1))
    qed
  qed
  then have "frozen (no_Node ob) (c_Node (rr_State r)) \<and> emits ?L (c_Trace s) (c_Trace (rr_State r))"
    using backstop_shape(1)[of C ?body] emits_trans[OF _ patch[OF backstop_shape(2)[of ?body C]]] ran(3) by simp
  then show ?thesis using ran(2) by (auto simp: emits_def list_all_iff)
qed

lemma frozen_reconcile_witness:
  "frozen (demo_node\<lparr>node_Spec := demo_spec\<lparr>spec_Paused := True\<rparr>\<rparr>)
     (c_Node (rr_State (reconcile_object demo_ext demo_platform demo_cworld 9 None
        (demo_object\<lparr>no_Node := demo_node\<lparr>node_Spec := demo_spec\<lparr>spec_Paused := True\<rparr>\<rparr>\<rparr>))))"
  using frozen_reconcile[OF demo_cond_laws _ refl,
      of "demo_object\<lparr>no_Node := demo_node\<lparr>node_Spec := demo_spec\<lparr>spec_Paused := True\<rparr>\<rparr>\<rparr>" demo_platform demo_cworld 9 None]
  by (simp add: demo_object_def)

subsection \<open>Occupied nodes\<close>

text \<open>The node's own plan is kept, and the workflow half tells the reconcile to go on only when it
  has let go of the workflow.\<close>

definition occupies :: "cstate \<Rightarrow> cstate \<times> wf_outcome \<Rightarrow> bool" where
  "occupies s r \<longleftrightarrow> (case r of (s', out) \<Rightarrow>
     node_Plan (c_Node s') = node_Plan (c_Node s) \<and> (wo_err out = None \<and> \<not> wo_suppress out \<longrightarrow> adopted s' = None))"

lemma clear_pointer_plan [simp]: "node_Plan (c_Node (clear_pointer E ms s)) = node_Plan (c_Node s)"
  by (simp add: clear_pointer_def setWorkflowInProgress_def)

lemma in_progress_plan [simp]: "node_Plan (setWorkflowInProgress E st re ms n) = node_Plan n"
  by (simp add: setWorkflowInProgress_def)

lemma outcome_simps [simp]:
  "wo_err (outcome b d) = None" "wo_suppress (outcome b d) = b" "wo_err (wf_error b e) = Some e"
  by (simp_all add: outcome_def wf_error_def)

lemma release_occupies: "node_Plan (c_Node s) = node_Plan (c_Node s0) \<Longrightarrow> occupies s0 (releaseCompletedWorkflow E C w s)"
  by (auto simp: releaseCompletedWorkflow_def occupies_def split: prod.splits option.splits)

lemma finalize_occupies: "occupies s (finalizeWorkflow E C w s)"
  by (auto simp: finalizeWorkflow_def occupies_def verifyWorkflowDataSafe_def split: prod.splits option.splits)

lemma execute_occupies: "occupies s (executeWorkflow E P C now plan w s)"
proof -
  obtain s1 plan' d where run: "run_plan_on E P C now plan s = (s1, plan', d)" by (metis prod_cases3)
  then have s1: "node_Plan (c_Node s1) = node_Plan (c_Node s)" by (auto elim!: run_plan_on_shape)
  then show ?thesis
    using run release_occupies[of _ s E C]
    by (auto simp: executeWorkflow_def Let_def park_failed_def occupies_def split: option.splits TaskPlanPhase.splits)
qed

lemma drive_occupies: "occupies s (driveAdoptedWorkflow E P C now ptr s)"
proof -
  have exec: "occupies s (executeWorkflow E P C now plan w s')" if "node_Plan (c_Node s') = node_Plan (c_Node s)" for plan w s'
    using execute_occupies[of s' E P C now plan w] that by (simp add: occupies_def split: prod.splits)
  have build: "node_Plan (c_Node s2) = node_Plan (c_Node s')" if "buildAndPersistWorkflowPlan E C w s' = (s2, e)" for w s' s2 e
    using buildAndPersist_emits[OF that] by simp
  show ?thesis
    unfolding driveAdoptedWorkflow_def Let_def
    by (auto simp: finalize_occupies release_occupies exec park_failed_def split: sum.splits prod.splits option.splits)
       (auto simp: occupies_def dest!: build)
qed

lemma ResolvePlan_adopted:
  assumes "ResolvePlan E P nodes probe now pid n = (n', err)"
  shows "st_AdoptedWorkflow (node_Status n') = st_AdoptedWorkflow (node_Status n)"
proof -
  let ?a = "\<lambda>n. st_AdoptedWorkflow (node_Status n)"
  have only: "?a b = ?a a" if "cond_only a b" for a b using that by (auto simp: cond_only_def)
  have clear: "?a (clear_plan m) = ?a m" for m by (simp add: clear_plan_def)
  have install: "?a (install_plan now m p) = ?a m" for m p by (simp add: install_plan_def Let_def)
  define n1 where "n1 = (case probe of Some h \<Rightarrow> if node_Phase n = PhaseRunning then probeSidecarHealth E n h else n | None \<Rightarrow> n)"
  have n1: "?a n1 = ?a n" unfolding n1_def by (rule only[OF probed_cond])
  obtain m where m: "cond_only n1 m"
      "handleTerminalPlan E n1 = (if plan_active n1 \<or> node_Plan n1 = None then m else clear_plan m)"
    using handleTerminalPlan_shape[of n1 E] by blast
  have n2: "?a (handleTerminalPlan E n1) = ?a n" using m only[OF m(1)] n1 clear by simp
  consider "n' = n1" | "n' = handleTerminalPlan E n1" | "build_next E P nodes now pid (handleTerminalPlan E n1) = (n', err)"
    using assms unfolding ResolvePlan_def Let_def n1_def[symmetric] by (auto split: if_splits)
  then show ?thesis
  proof cases
    case 3
    then show ?thesis
      by (cases rule: build_next_cases) (use n2 only install in auto)
  qed (use n1 n2 in auto)
qed

lemma resolveDriftPlan_adopted:
  assumes "resolveDriftPlan E P C now s = (s', d, err)"
  shows "adopted s' = adopted s"
proof -
  obtain n e where resolve: "ResolvePlan E P (cw_Nodes C (c_Trace s)) (cw_Probe C (c_Trace s)) now (cw_NewUUID C (c_Trace s))
      (c_Node s) = (n, e)" by fastforce
  then have n: "st_AdoptedWorkflow (node_Status n) = adopted s" by (rule ResolvePlan_adopted)
  have run: "adopted s2 = adopted s" if "run_plan_on E P C now plan (on_node (\<lambda>_. n) s) = (s2, plan', d')" for s2 plan plan' d'
    by (rule run_plan_on_shape[OF that]) (use n in simp)
  show ?thesis
    using assms resolve n unfolding resolveDriftPlan_def Let_def
    by (auto split: prod.splits option.splits if_splits dest!: run)
qed

lemma finish_node:
  "node_Plan (c_Node (rr_State (finish C now b blocked retry d s))) = node_Plan (c_Node s)"
  "adopted (rr_State (finish C now b blocked retry d s)) = adopted s"
  by (auto simp: finish_def flush_and_stop_shape(1) observeCommittedHeight_def split: prod.splits option.splits sum.splits if_splits)

lemma plan_work_occupied:
  assumes ptr: "adopted s = Some ptr" and r: "r = plan_work E P C now retry blocked s"
    and held: "adopted (rr_State r) = Some ptr"
  shows "node_Plan (c_Node (rr_State r)) = node_Plan (c_Node s)"
proof -
  obtain s1 out where wf: "reconcileWorkflow E P C now s = (s1, out)" by fastforce
  have occ: "node_Plan (c_Node s1) = node_Plan (c_Node s)" "wo_err out = None \<Longrightarrow> \<not> wo_suppress out \<Longrightarrow> adopted s1 = None"
    using drive_occupies[of s E P C now ptr] wf ptr by (auto simp: reconcileWorkflow_def occupies_def)
  have isolation: "st_AdoptedWorkflow (node_Status n) = adopted s1" if "backfillNodeIsolation C tr (c_Node s1) = Inr n" for n tr
    using that by (auto simp: backfillNodeIsolation_def split: option.splits if_splits sum.splits)
  show ?thesis
    using occ held unfolding r plan_work_def wf
    by (auto split: option.splits sum.splits prod.splits if_splits simp: finish_node
        dest!: isolation resolveDriftPlan_adopted)
qed

text \<open> While a workflow occupies a node, the node's own plan slot is untouched: a reconcile that
  starts and ends with the same workflow pointer neither resolves, advances nor clears the plan of
  the node, however the workflow fares.\<close>

theorem occupied_keeps_plan:
  assumes laws: "cond_laws E" and live: "\<not> no_Deleting ob" and rec: "reconcile_object E P C now retry ob = r"
    and ptr: "st_AdoptedWorkflow (node_Status (no_Node ob)) = Some ptr" and held: "adopted (rr_State r) = Some ptr"
  shows "node_Plan (c_Node (rr_State r)) = node_Plan (no_Node ob)"
  using rec live
proof (cases rule: starting_state)
  case (ran s)
  obtain n b where gates: "resolve_gates E C now (c_Trace s) (c_Node s) = (n, b)" by fastforce
  have n: "frozen (no_Node ob) n" using gates_frozen[OF laws gates] ran(1) by simp
  obtain s1 e where work: "sync_workload E P C now (on_node (\<lambda>_. n) s) = (s1, e)" by fastforce
  have s1: "frozen (no_Node ob) (c_Node s1)" using frozen_trans[OF n] sync_workload_frozen(1)[OF work] by simp
  obtain n2 tr2 where grow: "growDataPVC E C (c_Trace s1) (c_Node s1) = (n2, tr2)" by fastforce
  have n2: "frozen (no_Node ob) n2" by (rule frozen_trans[OF s1 grow_frozen[OF grow]])
  have n3: "frozen (no_Node ob) n3" if "reconcilePeers E C now tr2 n2 = Inr n3" for n3
    by (rule frozen_trans[OF n2 peers_frozen[OF that]])
  let ?body = "reconcile_body E P C now retry s"
  have held': "adopted (rr_State ?body) = Some ptr" using held ran(3) by (simp add: backstop_shape(1))
  have "node_Plan (c_Node (rr_State ?body)) = node_Plan (no_Node ob)"
    using n s1 n2 n3 held' ptr
      plan_work_occupied[OF _ refl, of _ ptr E P C now retry]
    unfolding reconcile_body_def gates Let_def prod.case work grow
    by (auto split: option.splits sum.splits if_splits simp: flush_and_stop_shape(1) frozen_def)
  then show ?thesis using ran(3) by (simp add: backstop_shape(1))
qed simp

definition parked_object :: node_object where
  "parked_object = demo_object\<lparr>no_Node := adopted_node\<rparr>"

lemma occupied_keeps_plan_witness:
  "adopted (rr_State (reconcile_object demo_ext demo_platform demo_cworld 9 None parked_object)) =
     Some (pointer_to demo_workflow 1) \<and>
   node_Plan (c_Node (rr_State (reconcile_object demo_ext demo_platform demo_cworld 9 None parked_object))) = None"
proof -
  have held: "adopted (rr_State (reconcile_object demo_ext demo_platform demo_cworld 9 None parked_object)) =
      Some (pointer_to demo_workflow 1)" by code_simp
  have "st_AdoptedWorkflow (node_Status (no_Node parked_object)) = Some (pointer_to demo_workflow 1)"
      "\<not> no_Deleting parked_object" "node_Plan (no_Node parked_object) = None"
    by (simp_all add: parked_object_def demo_object_def adopted_node_def demo_node_def demo_status_def)
  with occupied_keeps_plan[OF demo_cond_laws _ refl _ held] held show ?thesis by simp
qed

end
