(* ===== verification/PlanInvariant.thy ===== *)
theory PlanInvariant
  imports ReconcileProps ExecutorProps
begin

text \<open>
  The plan invariant across components: what the planners build is well formed in the sense the
  executor relies on, and every reconcile keeps it so; the recipe a workflow compiles to, and what
  becomes of a node whose adopted workflow's recipe does not compile.
\<close>

subsection \<open>Built plans are well formed\<close>

lemma fresh_plan_wf:
  assumes "plan_Phase plan = TaskPlanActive" and "list_all fresh (plan_Tasks plan)"
  shows "plan_wf plan"
proof -
  have "in_order plan"
    using assms(2) by (auto simp: in_order_def fresh_def list_all_iff split: option.splits dest: in_set_dropD)
  moreover have "list_all retries_bounded (plan_Tasks plan)" "list_all (\<lambda>t. pt_Status t \<noteq> TaskFailed) (plan_Tasks plan)"
    using assms(2) by (auto simp: fresh_def retries_bounded_def list_all_iff)
  ultimately show ?thesis using assms(1) by (simp add: plan_wf_def)
qed

lemma built_plan_wf: "built_plan E plan \<Longrightarrow> plan_wf plan"
  by (simp add: built_plan_def fresh_plan_wf)

definition plan_ok :: "SeiNode \<Rightarrow> bool" where
  "plan_ok n \<longleftrightarrow> (case node_Plan n of None \<Rightarrow> True | Some plan \<Rightarrow> plan_wf plan)"

lemma plan_ok_cong: "node_Plan m = node_Plan n \<Longrightarrow> plan_ok m = plan_ok n"
  by (simp add: plan_ok_def)

lemma plan_ok_frozen: "frozen n m \<Longrightarrow> plan_ok n \<Longrightarrow> plan_ok m"
  by (simp add: frozen_def plan_ok_cong[of m n])

lemma plan_ok_cond_only: "cond_only n m \<Longrightarrow> plan_ok m = plan_ok n"
  by (rule plan_ok_cong) (rule cond_only_frame)

lemma ResolvePlan_ok:
  assumes "plan_ok n" and "ResolvePlan E P nodes probe now pid n = (n', err)"
  shows "plan_ok n'"
proof (cases "plan_active n")
  case True
  then have "cond_only n n'"
    using assms(2) plan_active_cond[OF probed_cond[where n = n and probe = probe and E = E]]
      probed_cond[where n = n and probe = probe and E = E]
    by (auto simp: ResolvePlan_def Let_def)
  then show ?thesis using assms(1) plan_ok_cond_only by blast
next
  case False
  let ?m = "settled E probe n"
  have empty: "plan_ok ?m" using settled_frame(5)[OF False] by (simp add: plan_ok_def)
  consider "n' = ?m" | "build_next E P nodes now pid ?m = (n', err)"
    using assms(2) ResolvePlan_inactive[OF False] by (auto split: if_splits)
  then show ?thesis
  proof cases
    case 2
    then show ?thesis
    proof (cases rule: build_next_cases)
      case kept
      then show ?thesis using empty plan_ok_cond_only by blast
    next
      case (installed mode m p)
      then show ?thesis using built_plan_wf[of E p] BuildPlan_built[OF installed(2)] by (simp add: plan_ok_def)
    qed
  qed (use empty in simp)
qed

lemma run_plan_on_wf:
  assumes "run_plan_on E P C now plan s = (s', plan', d)" and "plan_wf plan"
  shows "plan_wf plan'"
  using assms executePlan_keeps_wf[of "\<lparr>run_state = \<lparr>xs_Node = Some (c_Node s), xs_Calls = []\<rparr>, run_plan = plan, run_active = 0\<rparr>"
      "registry E P (cw_World C (c_Trace s))" now]
  by (auto simp: run_plan_on_def split: prod.splits)

lemma resolveDriftPlan_ok:
  assumes "plan_ok (c_Node s)" and "resolveDriftPlan E P C now s = (s', d, err)"
  shows "plan_ok (c_Node s')"
proof -
  obtain n e where resolve: "ResolvePlan E P (cw_Nodes C (c_Trace s)) (cw_Probe C (c_Trace s)) now (cw_NewUUID C (c_Trace s))
      (c_Node s) = (n, e)" by fastforce
  have n: "plan_ok n" by (rule ResolvePlan_ok[OF assms(1) resolve])
  have endpoint: "plan_ok (set_endpoint E m) = plan_ok m" for m by (rule plan_ok_cong) simp
  show ?thesis
    using assms(2) resolve n unfolding resolveDriftPlan_def Let_def
    by (auto split: prod.splits option.splits if_splits simp: endpoint dest: run_plan_on_wf simp: plan_ok_def)
qed

subsection \<open>The rest of the reconcile leaves the plan alone\<close>

lemma flush_node: "flushStatus C s = (s', err) \<Longrightarrow> c_Node s' = c_Node s"
  by (auto simp: flushStatus_def Let_def split: if_splits option.splits)

lemma commit_plan: "commit_adoption E C now plan w s = (s', out) \<Longrightarrow> node_Plan (c_Node s') = node_Plan (c_Node s)"
  by (auto simp: commit_adoption_def Let_def split: prod.splits option.splits dest!: flush_node)

lemma adopt_winner_plan: "adopt_winner E C now w s = (s', out) \<Longrightarrow> node_Plan (c_Node s') = node_Plan (c_Node s)"
  by (auto simp: adopt_winner_def Let_def split: prod.splits option.splits sum.splits if_splits dest!: commit_plan)

lemma workflow_plan_slot:
  assumes "reconcileWorkflow E P C now s = (s', out)"
  shows "node_Plan (c_Node s') = node_Plan (c_Node s)"
proof (cases "st_AdoptedWorkflow (node_Status (c_Node s))")
  case None
  have "node_Plan (seedWorkflowInProgress E n) = node_Plan n" for n
    by (simp add: seedWorkflowInProgress_def)
  then show ?thesis
    using assms None unfolding reconcileWorkflow_def maybeAdoptWorkflow_def Let_def fail_all_def
    by (auto split: prod.splits option.splits sum.splits list.splits if_splits dest!: adopt_winner_plan)
next
  case (Some ptr)
  then show ?thesis using assms drive_occupies[of s E P C now ptr] by (simp add: reconcileWorkflow_def occupies_def)
qed

lemma plan_work_ok:
  assumes "plan_ok (c_Node s)"
  shows "plan_ok (c_Node (rr_State (plan_work E P C now retry blocked s)))"
proof -
  obtain s1 out where wf: "reconcileWorkflow E P C now s = (s1, out)" by fastforce
  have s1: "plan_ok (c_Node s1)" using assms plan_ok_cong[OF workflow_plan_slot[OF wf]] by simp
  have isolation: "plan_ok n" if "backfillNodeIsolation C tr (c_Node s1) = Inr n" for n tr
  proof -
    have "node_Plan n = node_Plan (c_Node s1)"
      using that by (auto simp: backfillNodeIsolation_def split: option.splits if_splits sum.splits)
    then show ?thesis using s1 plan_ok_cong by blast
  qed
  have drift: "plan_ok (c_Node s2)" if "resolveDriftPlan E P C now (on_node (\<lambda>_. n) s1) = (s2, d, e)" "plan_ok n" for n s2 d e
    by (rule resolveDriftPlan_ok[OF _ that(1)]) (simp add: that(2))
  have fin: "plan_ok (c_Node (rr_State (finish C now b blocked retry d s2))) = plan_ok (c_Node s2)" for b d s2
    by (rule plan_ok_cong) (rule finish_node)
  show ?thesis
    using s1 unfolding plan_work_def wf
    by (auto split: option.splits sum.splits prod.splits simp: fin dest!: isolation intro: drift)
qed

text \<open>C7.  The plan invariant of the whole controller.  If the plan in a node's status is well formed -
  tasks are finished strictly in order, retry counts stay within their limits, and the phase of the
  plan agrees with its tasks - then so is the plan a reconcile leaves behind: every planner builds
  plans the executor's invariant holds for, and neither the executor nor any other part of the
  reconcile breaks it.\<close>

theorem reconcile_plan_wf:
  assumes laws: "cond_laws E" and live: "\<not> no_Deleting ob" and rec: "reconcile_object E P C now retry ob = r"
    and ok: "plan_ok (no_Node ob)"
  shows "plan_ok (c_Node (rr_State r))"
  using rec live
proof (cases rule: starting_state)
  case (ran s)
  obtain n b where gates: "resolve_gates E C now (c_Trace s) (c_Node s) = (n, b)" by fastforce
  have n: "frozen (no_Node ob) n" using gates_frozen[OF laws gates] ran(1) by simp
  obtain s1 e where work: "sync_workload E P C now (on_node (\<lambda>_. n) s) = (s1, e)" by fastforce
  have s1: "frozen (no_Node ob) (c_Node s1)" using frozen_trans[OF n] sync_workload_frozen(1)[OF work] by simp
  obtain n2 tr2 where grow: "growDataPVC E C (c_Trace s1) (c_Node s1) = (n2, tr2)" by fastforce
  have n2: "frozen (no_Node ob) n2" by (rule frozen_trans[OF s1 grow_frozen[OF grow]])
  have n3: "frozen (no_Node ob) n3" if "reconcilePeers E C now tr2 n2 = Inr n3" for n3
    by (rule frozen_trans[OF n2 peers_frozen[OF that]])
  have "plan_ok (c_Node (rr_State (reconcile_body E P C now retry s)))"
    using n s1 n2 n3 plan_ok_frozen[OF _ ok] unfolding reconcile_body_def gates Let_def prod.case work grow
    by (auto split: option.splits sum.splits simp: flush_and_stop_shape(1) intro!: plan_work_ok)
  then show ?thesis using ran(3) by (simp add: backstop_shape(1))
qed (use ok in simp)

text \<open>An initializing node in the middle of its plan, against a sidecar that fails every task: the reconcile finishes the first
  task and sends the second into its retry.\<close>

definition busy_object :: node_object where
  "busy_object =
     \<lparr>no_Node = upd_status (\<lambda>st. st\<lparr>st_Phase := PhaseInitializing,
        st_Plan := Some (new_plan ''p'' [demo_task 0 ApplyService, demo_task 1 ConfigApply] PhaseRunning PhaseFailed)\<rparr>) demo_node,
      no_Deleting = False, no_Finalizer = True\<rparr>"

definition busy_world :: cworld where
  "busy_world = demo_cworld\<lparr>cw_World := (\<lambda>_. failing_world), cw_ListWorkflows := (\<lambda>_. Inr [])\<rparr>"

definition plan_progress :: "SeiNode \<Rightarrow> (TaskPlanPhase \<times> (TaskType \<times> TaskStatus \<times> int) list) option" where
  "plan_progress n = map_option (\<lambda>p. (plan_Phase p, map (\<lambda>t. (pt_Type t, pt_Status t, pt_RetryCount t)) (plan_Tasks p))) (node_Plan n)"

lemma reconcile_plan_wf_witness:
  "plan_progress (no_Node busy_object) =
     Some (TaskPlanActive, [(ApplyService, TaskPending, 0), (ConfigApply, TaskPending, 0)]) \<and>
   plan_progress (c_Node (rr_State (reconcile_object demo_ext demo_platform busy_world 9 None busy_object))) =
     Some (TaskPlanActive, [(ApplyService, TaskComplete, 0), (ConfigApply, TaskPending, 1)]) \<and>
   plan_ok (c_Node (rr_State (reconcile_object demo_ext demo_platform busy_world 9 None busy_object)))"
proof (intro conjI)
  show "plan_progress (no_Node busy_object) =
     Some (TaskPlanActive, [(ApplyService, TaskPending, 0), (ConfigApply, TaskPending, 0)])" by code_simp
  show "plan_progress (c_Node (rr_State (reconcile_object demo_ext demo_platform busy_world 9 None busy_object))) =
     Some (TaskPlanActive, [(ApplyService, TaskComplete, 0), (ConfigApply, TaskPending, 1)])" by code_simp
  have "plan_ok (no_Node busy_object)" by code_simp
  then show "plan_ok (c_Node (rr_State (reconcile_object demo_ext demo_platform busy_world 9 None busy_object)))"
    by (rule reconcile_plan_wf[OF demo_cond_laws _ refl, rotated]) (simp add: busy_object_def)
qed

subsection \<open>The state-sync recipe\<close>

text \<open> What a workflow does to a node.  A workflow compiles only for a full node that does not
  mount its configuration and with at least two witnesses, its own or the node's; the plan marks the
  node not ready, stops seid, wipes the data, patches the configuration when a migration is asked
  for, configures state sync against exactly those witnesses and never a local snapshot, and only
  then marks the node ready.  The plan is fresh and well formed and sets no phase on the node.\<close>

theorem workflow_recipe:
  assumes "buildWorkflowPlan E pid n w = Inr plan"
  shows "\<exists>ss. wf_StateSync w = Some ss \<and> spec_FullNode (node_Spec n) \<noteq> None \<and> \<not> MountsNodeConfig n \<and>
     2 \<le> length (recipe_witnesses n ss) \<and> plan_wf plan \<and>
     plan_types plan = [MarkNotReady, StopSeid, ResetData] @ (if ss_Migration ss = None then [] else [ConfigPatch]) @
       [ConfigureStateSync, MarkReady] \<and>
     (\<forall>t \<in> set (plan_Tasks plan). pt_Type t = ConfigureStateSync \<longrightarrow>
        (\<exists>q. pt_Params t = StateSyncParams q \<and> css_RpcServers q = recipe_witnesses n ss \<and> \<not> css_UseLocalSnapshot q)) \<and>
     plan_TargetPhase plan = PhaseUnset \<and> plan_FailedPhase plan = PhaseUnset"
proof -
  obtain ss where ss: "wf_StateSync w = Some ss" "stateSync_Validate n w = None" "stateSync_BuildPlan E pid n ss = Inr plan"
    using assms by (auto simp: buildWorkflowPlan_def split: if_splits option.splits)
  let ?ws = "recipe_witnesses n ss"
  obtain patch where enough: "\<not> length ?ws < 2" and patch: "migrationConfigPatch (ss_Migration ss) = Inr patch"
    and build: "bind_result (build_tasks E pid (recipe_steps E n ?ws patch)) (\<lambda>tasks. Ok (new_plan pid tasks PhaseUnset PhaseUnset)) = Inr plan"
    using ss(3) by (auto simp: stateSync_BuildPlan_def Let_def minStateSyncWitnesses_def split: if_splits sum.splits)
  then obtain ts where ts: "build_tasks E pid (recipe_steps E n ?ws patch) = Inr ts" "plan = new_plan pid ts PhaseUnset PhaseUnset"
    by (cases "build_tasks E pid (recipe_steps E n ?ws patch)") auto
  have patched: "patch = [] \<longleftrightarrow> ss_Migration ss = None"
    using patch by (auto simp: migrationConfigPatch_def gigaStoreConfigPatch_def Let_def split: option.splits if_splits)
  have pairs: "zip (map pt_Type ts) (map pt_Params ts) = recipe_steps E n ?ws patch"
    using build_tasks_types[OF ts(1)] build_tasks_params[OF ts(1)] by (simp add: zip_map_fst_snd)
  have "\<exists>q. pt_Params t = StateSyncParams q \<and> css_RpcServers q = ?ws \<and> \<not> css_UseLocalSnapshot q"
    if t: "t \<in> set ts" "pt_Type t = ConfigureStateSync" for t
  proof -
    have "(pt_Type t, pt_Params t) \<in> set (zip (map pt_Type ts) (map pt_Params ts))"
      using t(1) by (auto simp: zip_map_map in_set_conv_nth set_zip)
    with t(2) show ?thesis unfolding pairs by (auto simp: recipe_steps_def split: if_splits)
  qed
  moreover have "plan_types plan = [MarkNotReady, StopSeid, ResetData] @ (if ss_Migration ss = None then [] else [ConfigPatch]) @
       [ConfigureStateSync, MarkReady]"
    using build_tasks_types[OF ts(1)] patched ts(2) by (simp add: recipe_steps_def)
  moreover have "spec_FullNode (node_Spec n) \<noteq> None \<and> \<not> MountsNodeConfig n"
    using ss(2) by (auto simp: stateSync_Validate_def Let_def split: if_splits)
  moreover have "plan_wf plan" unfolding ts(2) by (rule built_plan_wf[OF built_new_plan[OF ts(1)]])
  ultimately show ?thesis using ss(1) enough ts(2) by auto
qed

lemma workflow_recipe_witness:
  "plan_types (projr (buildWorkflowPlan demo_ext ''p'' demo_node demo_workflow)) =
     [MarkNotReady, StopSeid, ResetData, ConfigureStateSync, MarkReady]"
proof -
  have "case buildWorkflowPlan demo_ext ''p'' demo_node demo_workflow of Inr _ \<Rightarrow> True | Inl _ \<Rightarrow> False" by code_simp
  then obtain plan where plan: "buildWorkflowPlan demo_ext ''p'' demo_node demo_workflow = Inr plan"
    by (auto split: sum.splits)
  from workflow_recipe[OF plan] plan show ?thesis by (auto simp: demo_workflow_def)
qed

subsection \<open>A recipe that does not compile\<close>

text \<open>Every cause for which a recipe does not compile, for a node with the given spec and resolved witnesses.\<close>

definition refused_recipe :: "SeiNodeSpec \<Rightarrow> string list \<Rightarrow> SeiNodeTaskWorkflow \<Rightarrow> bool" where
  "refused_recipe spec witnesses w \<longleftrightarrow>
     wf_Kind w \<noteq> ''StateSync'' \<or>
     (case wf_StateSync w of
        None \<Rightarrow> True
      | Some ss \<Rightarrow> spec_FullNode spec = None \<or> spec_NodeConfig spec \<noteq> None \<or>
          length (if ss_RpcServers ss = [] then witnesses else ss_RpcServers ss) < minStateSyncWitnesses \<or>
          (\<exists>e. migrationConfigPatch (ss_Migration ss) = Inl e))"

lemma map_result_Inr: "(\<And>x. x \<in> set xs \<Longrightarrow> \<exists>y. f x = Inr y) \<Longrightarrow> \<exists>ys. map_result f xs = Inr ys"
  by (induction xs) fastforce+

lemma recipe_builds:
  assumes "migrationConfigPatch m = Inr patch"
  shows "\<exists>ts. build_tasks E pid (recipe_steps E n ws patch) = Inr ts"
proof -
  have "params_marshalable p" if "(ty, p) \<in> set (recipe_steps E n ws patch)" for ty p
    using that assms
    by (auto simp: recipe_steps_def migrationConfigPatch_def gigaStoreConfigPatch_def Let_def split: option.splits if_splits)
  moreover have "snd x \<in> set (recipe_steps E n ws patch)" if "x \<in> set (List.enumerate 0 (recipe_steps E n ws patch))" for x
    using that by (metis image_eqI list.set_map map_snd_enumerate)
  ultimately have "params_marshalable (snd (snd x))" if "x \<in> set (List.enumerate 0 (recipe_steps E n ws patch))" for x
    using that by (metis prod.collapse)
  then show ?thesis unfolding build_tasks_def
    by (intro map_result_Inr) (simp add: buildPlannedTask_def marshalParams_def split_beta)
qed

lemma refused_recipe_iff:
  "(\<exists>e. buildWorkflowPlan E pid n w = Inl e) \<longleftrightarrow> refused_recipe (node_Spec n) (st_ResolvedStateSyncers (node_Status n)) w"
proof (cases "wf_StateSync w")
  case None
  then show ?thesis by (simp add: buildWorkflowPlan_def stateSync_Validate_def refused_recipe_def)
next
  case (Some ss)
  have "\<nexists>e. bind_result (build_tasks E pid (recipe_steps E n ws patch)) (\<lambda>tasks. Ok (new_plan pid tasks PhaseUnset PhaseUnset)) = Inl e"
    if "migrationConfigPatch (ss_Migration ss) = Inr patch" for ws patch
    using recipe_builds[OF that, of E pid n ws] by auto
  then show ?thesis using Some
    by (auto simp: buildWorkflowPlan_def stateSync_Validate_def refused_recipe_def stateSync_BuildPlan_def
        recipe_witnesses_def MountsNodeConfig_def Let_def split: sum.splits)
qed

text \<open>The witnesses a reconcile resolves: a function of the spec and the controller's configuration.\<close>

definition round_witnesses :: "cworld \<Rightarrow> SeiNodeSpec \<Rightarrow> string list" where
  "round_witnesses C spec =
     (case SnapshotSource_of spec of
        None \<Rightarrow> []
      | Some snap \<Rightarrow>
          let declared = remdups_adj (sort (snap_RpcServers snap))
          in if minCanonicalSyncers \<le> length declared then declared
             else case canonicalSyncers C (spec_ChainID spec) of
               Inl e \<Rightarrow> []
             | Inr syncers \<Rightarrow> if length syncers < minCanonicalSyncers then [] else syncers)"

definition resolved :: "cworld \<Rightarrow> SeiNode \<Rightarrow> SeiNode \<Rightarrow> bool" where
  "resolved C n0 n \<longleftrightarrow> frozen n0 n \<and> st_ResolvedStateSyncers (node_Status n) = round_witnesses C (node_Spec n0)"

lemma resolved_spec: "resolved C n0 n \<Longrightarrow> node_Spec n = node_Spec n0"
  by (simp add: resolved_def frozen_def)

lemma cond_step_resolved: "cond_step E T n m \<Longrightarrow> resolved C n0 n \<Longrightarrow> resolved C n0 m"
  by (auto simp: cond_step_def resolved_def frozen_def)

lemma set_node_cond_resolved: "resolved C n0 n \<Longrightarrow> resolved C n0 (set_node_cond E n ty st re ms)"
  by (simp add: resolved_def frozen_def)

lemma gates_resolved:
  assumes laws: "cond_laws E" and gates: "resolve_gates E C now tr n = (n', blocked)"
  shows "resolved C n n'"
proof -
  obtain n1 b where gate: "reconcileStateSyncGate E C (setNodePausedCondition E n) = (n1, b)" by fastforce
  have "resolved C n n1"
  proof -
    have "frozen n n1" using stateSyncGate_frozen[OF gate] frozen_cond_step[OF gate_steps(1)[OF laws]] frozen_trans by blast
    moreover have "node_Spec (setNodePausedCondition E n) = node_Spec n" by (simp add: setNodePausedCondition_def)
    then have "st_ResolvedStateSyncers (node_Status n1) = round_witnesses C (node_Spec n)"
      using gate unfolding reconcileStateSyncGate_def round_witnesses_def Let_def setStateSyncReady_def set_syncers_def
      by (auto split: option.splits if_splits sum.splits)
    ultimately show ?thesis by (simp add: resolved_def)
  qed
  note step = cond_step_resolved[OF gate_steps(2)[OF laws]] cond_step_resolved[OF gate_steps(3)[OF laws]]
    cond_step_resolved[OF gate_steps(4)[OF laws]] cond_step_resolved[OF gate_steps(5)[OF laws]]
    cond_step_resolved[OF gate_steps(6)[OF laws]] cond_step_resolved[OF gate_steps(7)[OF laws]]
  have endpoint: "resolved C n (if q then set_endpoint E m else m)" if "resolved C n m" for q m
    using that by (simp add: resolved_def frozen_def set_endpoint_def)
  have raised: "resolved C n (if q then m else raise_handled m)" if "resolved C n m" for q m
    using that by (simp add: resolved_def frozen_def raise_handled_def)
  show ?thesis
    using gates unfolding resolve_gates_def Let_def gate prod.case prod.inject
    by (elim conjE, hypsubst) (intro step endpoint raised \<open>resolved C n n1\<close>)
qed

lemma sync_workload_resolved:
  assumes "sync_workload E P C now s = (s', err)" and "resolved C0 n0 (c_Node s)"
  shows "resolved C0 n0 (c_Node s')" and "c_Saved s' = c_Saved s"
proof -
  have drift: "resolved C0 n0 n" if "DriftRenderNode E P nodes (c_Node s) = (n, r)" for nodes n r
    using that assms(2) set_node_cond_resolved unfolding DriftRenderNode_def setNodeUpdateCondition_def Let_def
    by (auto split: if_splits sum.splits option.splits prod.splits)
  have sts: "resolved C0 n0 (upd_status (\<lambda>st. st\<lparr>st_StatefulSet := ref\<rparr>) n)" if "resolved C0 n0 n" for n ref
    using that by (simp add: resolved_def frozen_def)
  show "resolved C0 n0 (c_Node s')" using assms(1) unfolding sync_workload_def Let_def
    by (auto split: prod.splits sum.splits if_splits dest!: drift intro: sts)
  show "c_Saved s' = c_Saved s" using assms(1) unfolding sync_workload_def Let_def
    by (auto split: prod.splits sum.splits if_splits)
qed

lemma grow_resolved:
  assumes "growDataPVC E C tr n = (n', tr')" and "resolved C0 n0 n"
  shows "resolved C0 n0 n'"
  using assms set_node_cond_resolved unfolding growDataPVC_def setDataVolumeResize_def Let_def
  by (auto split: sum.splits option.splits if_splits api_error.splits)

lemma peers_resolved:
  assumes "reconcilePeers E C now tr n = Inr n'" and "resolved C0 n0 n"
  shows "resolved C0 n0 n'"
  using assms by (auto simp: reconcilePeers_def setPeersReady_def Let_def resolved_def frozen_def split: sum.splits)

text \<open>What a reconcile writes while nothing moves: the node's finalizer, status and StatefulSet, the size of its volume, the
  workflow's deletion gate, and the verdict Failed; never a task, never a plan of the workflow, never the release of the gate.\<close>

fun idle_event :: "event \<Rightarrow> bool" where
  "idle_event (PatchWorkflowFinalizer n b) \<longleftrightarrow> b"
| "idle_event (PatchWorkflowStatus n st) \<longleftrightarrow> wfs_Phase st = WorkflowFailed \<and> wfs_Plan st = None"
| "idle_event (TaskCall c) \<longleftrightarrow> is_sts_call (TaskCall c)"
| "idle_event _ \<longleftrightarrow> True"

definition parked_state :: "SeiNode \<Rightarrow> cstate \<Rightarrow> bool" where
  "parked_state n0 s \<longleftrightarrow> frozen n0 (c_Node s) \<and> (\<exists>m. frozen n0 m \<and> c_Saved s = node_Status m) \<and> list_all idle_event (c_Trace s)"

lemma parked_on_node: "parked_state n0 s \<Longrightarrow> frozen n0 n \<Longrightarrow> parked_state n0 (on_node (\<lambda>_. n) s)"
  by (simp add: parked_state_def)

lemma parked_emits:
  "parked_state n0 s \<Longrightarrow> emits idle_event (c_Trace s) tr \<Longrightarrow> parked_state n0 (set_trace tr s)"
  by (auto simp: parked_state_def emits_def)

lemma flush_parked: "parked_state n0 s \<Longrightarrow> flushStatus C s = (s', e) \<Longrightarrow> parked_state n0 s'"
  by (auto simp: parked_state_def flushStatus_def Let_def split: if_splits option.splits)

lemma flush_and_stop_parked:
  assumes "parked_state n0 s"
  shows "parked_state n0 (rr_State (flush_and_stop C what retry d s))"
    and "rr_Err (flush_and_stop C what retry d s) = None \<Longrightarrow> rr_Requeue (flush_and_stop C what retry d s) = d"
  using flush_parked[OF assms, of C] by (auto simp: flush_and_stop_def stop_def split: prod.splits option.splits)

lemma backstop_parked:
  assumes "parked_state n0 (rr_State r)"
  shows "parked_state n0 (rr_State (backstop C r))"
    and "rr_Err (backstop C r) = None \<Longrightarrow> rr_Err r = None" and "rr_Requeue (backstop C r) = rr_Requeue r"
  using assms flush_parked[OF assms, of C] by (auto simp: backstop_def split: prod.splits option.splits if_splits)

lemma fail_write_idle:
  assumes "wf_Plan w = None"
  shows "emits idle_event tr (failWorkflow E C reason msg w tr)"
proof -
  have keep: "wf_Plan (seed_absent E ty re ms v) = wf_Plan v \<and> wf_Phase (seed_absent E ty re ms v) = wf_Phase v" for ty re ms v
    by (simp add: seed_absent_def setWorkflowCondition_def)
  show ?thesis using assms
    by (auto simp: failWorkflow_def patchWorkflowStatus_def Let_def emits_one seedWorkflowTerminalConditions_def keep
        setWorkflowCondition_def set_phase_def split: option.splits)
qed

text \<open>A round: what the cluster answers, the clock, the back-off entry, and the spec the operator has by then.  The workflow the
  pointer names is still there, not being deleted and without a plan, in whatever phase and with or without its gate; its
  recipe does not compile; and the node is not paused.\<close>

definition stuck_round :: "AdoptedWorkflowRef \<Rightarrow> cworld \<Rightarrow> SeiNodeSpec \<Rightarrow> bool" where
  "stuck_round ptr C spec \<longleftrightarrow> \<not> spec_Paused spec \<and>
     (\<forall>tr. \<exists>w. cw_GetWorkflow C tr (aw_Name ptr) = Inr w \<and> wf_UID w = aw_UID ptr \<and> \<not> wf_Deleting w \<and> wf_Plan w = None \<and>
        refused_recipe spec (round_witnesses C spec) w)"

lemma drive_stuck:
  assumes park: "parked_state n0 s" and res: "resolved C n0 (c_Node s)" and ptr: "st_AdoptedWorkflow (node_Status n0) = Some ptr"
    and stuck: "stuck_round ptr C (node_Spec n0)" and rec: "reconcileWorkflow E P C now s = (s', out)"
  shows "parked_state n0 s' \<and> (wo_err out \<noteq> None \<or> out = outcome True ResultRequeueImmediate)"
proof -
  have ad: "adopted s = Some ptr" using park ptr by (simp add: parked_state_def frozen_def)
  obtain w where w: "cw_GetWorkflow C (c_Trace s) (aw_Name ptr) = Inr w" "wf_UID w = aw_UID ptr" "\<not> wf_Deleting w" "wf_Plan w = None"
    and refused: "refused_recipe (node_Spec n0) (round_witnesses C (node_Spec n0)) w" using stuck by (auto simp: stuck_round_def)
  let ?f = "setWorkflowInProgress E ConditionTrue ''WorkflowRunning'' (''driving workflow '' @ wf_Name w)"
  let ?s1 = "on_node ?f s"
  have res1: "resolved C n0 (c_Node ?s1)" using set_node_cond_resolved[OF res] by (simp add: setWorkflowInProgress_def)
  have park1: "parked_state n0 ?s1" using park res1 by (simp add: parked_state_def resolved_def)
  obtain w' tr e where patch: "patchWorkflowFinalizer C True w (c_Trace ?s1) = (w', tr, e)" by (metis prod_cases3)
  have tr: "emits idle_event (c_Trace ?s1) tr" by (rule finalizer_emits[OF patch]) simp
  have w': "wf_Plan w' = None" "refused_recipe (node_Spec n0) (round_witnesses C (node_Spec n0)) w'" if "e = None"
    using patch w(4) refused that by (cases rule: finalizer_cases; simp add: refused_recipe_def)+
  have park2: "parked_state n0 (set_trace tr ?s1)" by (rule parked_emits[OF park1 tr])
  show ?thesis
  proof (cases e)
    case (Some err)
    then have "(s', out) = (set_trace tr ?s1, wf_error True (api_text err))"
      using rec ad w patch by (simp add: reconcileWorkflow_def driveAdoptedWorkflow_def Let_def)
    then show ?thesis using park2 by (simp add: wf_error_def)
  next
    case None
    have "refused_recipe (node_Spec (c_Node ?s1)) (st_ResolvedStateSyncers (node_Status (c_Node ?s1))) w'"
      using w'(2)[OF None] res1 resolved_spec[OF res1] by (simp add: resolved_def)
    then obtain m where "buildWorkflowPlan E (cw_NewUUID C tr) (c_Node ?s1) w' = Inl m" using refused_recipe_iff by blast
    then have "buildAndPersistWorkflowPlan E C w' (set_trace tr ?s1) =
        (set_trace (failWorkflow E C ''PlanBuildFailed'' m w' tr) (set_trace tr ?s1), None)"
      by (simp add: buildAndPersistWorkflowPlan_def)
    then have out: "(s', out) = (set_trace (failWorkflow E C ''PlanBuildFailed'' m w' tr) (set_trace tr ?s1),
        outcome True ResultRequeueImmediate)"
      using rec ad w patch None w'(1)[OF None] by (simp add: reconcileWorkflow_def driveAdoptedWorkflow_def Let_def)
    have "parked_state n0 (set_trace (failWorkflow E C ''PlanBuildFailed'' m w' tr) (set_trace tr ?s1))"
      by (rule parked_emits[OF park2]) (simp add: fail_write_idle[OF w'(1)[OF None]])
    then show ?thesis using out by simp
  qed
qed

definition spins :: "SeiNode \<Rightarrow> reconcile_result \<Rightarrow> bool" where
  "spins n0 r \<longleftrightarrow> parked_state n0 (rr_State r) \<and> (rr_Err r \<noteq> None \<or> rr_Requeue r = ResultRequeueImmediate)"

lemma stop_spins: "parked_state n0 s \<Longrightarrow> spins n0 (stop s retry d (Some e))"
  by (simp add: spins_def stop_def)

lemma backstop_spins: "spins n0 r \<Longrightarrow> spins n0 (backstop C r)"
  using backstop_parked[of n0 r C] unfolding spins_def by metis

lemma plan_work_stuck:
  assumes "parked_state n0 s" and "resolved C n0 (c_Node s)" and "st_AdoptedWorkflow (node_Status n0) = Some ptr"
    and "stuck_round ptr C (node_Spec n0)"
  shows "spins n0 (plan_work E P C now retry blocked s)"
proof -
  obtain s1 out where wf: "reconcileWorkflow E P C now s = (s1, out)" by fastforce
  have s1: "parked_state n0 s1" "wo_err out \<noteq> None \<or> out = outcome True ResultRequeueImmediate"
    using drive_stuck[OF assms wf] by blast+
  show ?thesis
  proof (cases "wo_err out")
    case (Some e)
    then show ?thesis using wf stop_spins[OF s1(1)] by (simp add: plan_work_def)
  next
    case None
    then have out: "out = outcome True ResultRequeueImmediate" using s1(2) by simp
    have "finish C now True blocked retry ResultRequeueImmediate s1 =
        flush_and_stop C ''flushing status'' retry ResultRequeueImmediate (on_node (\<lambda>_. c_Node s1) s1)"
      by (simp add: finish_def observeCommittedHeight_def steadyStateRequeue_def split: option.splits)
    moreover have "parked_state n0 (on_node (\<lambda>_. c_Node s1) s1)" using s1(1) by (simp add: parked_state_def)
    ultimately have "spins n0 (finish C now True blocked retry ResultRequeueImmediate s1)"
      using flush_and_stop_parked[of n0 "on_node (\<lambda>_. c_Node s1) s1" C "''flushing status''" retry ResultRequeueImmediate]
      unfolding spins_def by metis
    then show ?thesis using wf out by (simp add: plan_work_def outcome_def)
  qed
qed

lemma body_stuck:
  assumes laws: "cond_laws E" and park: "parked_state n0 s" and node: "c_Node s = n0" and phase: "node_Phase n0 \<noteq> PhaseFailed"
    and ptr: "st_AdoptedWorkflow (node_Status n0) = Some ptr" and stuck: "stuck_round ptr C (node_Spec n0)"
  shows "spins n0 (reconcile_body E P C now retry s)"
proof -
  obtain n b where gates: "resolve_gates E C now (c_Trace s) (c_Node s) = (n, b)" by fastforce
  have n: "resolved C n0 n" using gates_resolved[OF laws gates] node by simp
  let ?s = "on_node (\<lambda>_. n) s"
  have ps: "parked_state n0 ?s" using park n by (simp add: parked_state_def resolved_def)
  obtain s1 e where work: "sync_workload E P C now ?s = (s1, e)" by fastforce
  have s1: "resolved C n0 (c_Node s1)" "c_Saved s1 = c_Saved s" using sync_workload_resolved[OF work] n by simp_all
  have sts: "idle_event x" if "is_sts_call x" for x using that by (cases x) auto
  have "emits idle_event (c_Trace s) (c_Trace s1)" using emits_mono[OF sync_workload_frozen(2)[OF work], of idle_event] sts by simp
  then have p1: "parked_state n0 s1" using ps s1 by (auto simp: parked_state_def resolved_def emits_def)
  obtain n2 tr2 where grow: "growDataPVC E C (c_Trace s1) (c_Node s1) = (n2, tr2)" by fastforce
  have n2: "resolved C n0 n2" by (rule grow_resolved[OF grow s1(1)])
  have tr2: "emits idle_event (c_Trace s1) tr2"
    using grow by (auto simp: growDataPVC_def Let_def emits_one split: sum.splits option.splits if_splits api_error.splits)
  have p2: "parked_state n0 (set_trace tr2 (on_node (\<lambda>_. m) s1))" if "frozen n0 m" for m
    using parked_emits[OF parked_on_node[OF p1 that]] tr2 by simp
  have f2: "frozen n0 n2" using n2 by (simp add: resolved_def)
  have p3: "spins n0 (plan_work E P C now retry bl (on_node (\<lambda>_. n3) (set_trace tr2 (on_node (\<lambda>_. n2) s1))))"
    if "reconcilePeers E C now tr2 n2 = Inr n3" for n3 bl
    by (rule plan_work_stuck[OF parked_on_node[OF p2[OF f2]] _ ptr stuck])
       (use peers_resolved[OF that n2] in \<open>simp_all add: resolved_def\<close>)
  have live: "node_Phase n \<noteq> PhaseFailed" "\<not> spec_Paused (node_Spec (c_Node s1))"
    using n phase resolved_spec[OF s1(1)] stuck by (simp_all add: resolved_def frozen_def stuck_round_def)
  show ?thesis
    using live p3 stop_spins[OF p1] stop_spins[OF p2[OF f2]] unfolding reconcile_body_def gates Let_def prod.case work grow
    by (auto split: option.splits sum.splits)
qed

lemma object_stuck:
  assumes "cond_laws E" and "\<not> no_Deleting ob" and "node_Phase (no_Node ob) \<noteq> PhaseFailed"
    and "st_AdoptedWorkflow (node_Status (no_Node ob)) = Some ptr" and "stuck_round ptr C (node_Spec (no_Node ob))"
  shows "spins (no_Node ob) (reconcile_object E P C now retry ob)"
proof -
  let ?s = "\<lparr>c_Node = no_Node ob, c_Trace = [], c_Saved = node_Status (no_Node ob), c_FlushFailed = False\<rparr>"
  have start: "parked_state (no_Node ob) (set_trace tr ?s)" if "list_all idle_event tr" for tr
    using that frozen_refl[of "no_Node ob"] unfolding parked_state_def by (auto intro!: exI[of _ "no_Node ob"])
  have "spins (no_Node ob) (backstop C (reconcile_body E P C now retry (set_trace tr ?s)))" if "list_all idle_event tr" for tr
    by (intro backstop_spins body_stuck[OF assms(1) start[OF that] _ assms(3-5)]) simp
  from this[of "[]"] this[of "[SetNodeFinalizer True]"] show ?thesis
    using assms(2) stop_spins[OF start[of "[]"]] by (auto simp: reconcile_object_def Let_def set_trace_def split: option.splits)
qed

text \<open>The object the next reconcile reads: the status is what was saved.\<close>

definition with_spec :: "SeiNodeSpec \<Rightarrow> node_object \<Rightarrow> node_object" where
  "with_spec spec ob = ob\<lparr>no_Node := (no_Node ob)\<lparr>node_Spec := spec\<rparr>\<rparr>"

definition next_object :: "node_object \<Rightarrow> reconcile_result \<Rightarrow> node_object" where
  "next_object ob r = ob\<lparr>no_Node := (no_Node ob)\<lparr>node_Status := c_Saved (rr_State r)\<rparr>,
     no_Finalizer := (no_Finalizer ob \<or> SetNodeFinalizer True \<in> set (c_Trace (rr_State r)))\<rparr>"

definition reconcile_rounds :: "ext \<Rightarrow> PlatformConfig \<Rightarrow> (cworld \<times> go_time \<times> go_time option \<times> SeiNodeSpec) list \<Rightarrow> node_object \<Rightarrow> node_object" where
  "reconcile_rounds E P = fold (\<lambda>(C, now, retry, spec) ob.
     next_object (with_spec spec ob) (reconcile_object E P C now retry (with_spec spec ob)))"

text \<open>C19.  An adopted workflow whose recipe stops compiling before its first plan holds the node for ever.  As long as every reconcile
  finds the workflow the pointer names, without a plan, not being deleted, in whatever phase and with or without its deletion
  gate, and its recipe does not compile for the spec and the witnesses of that round (for any of the reasons there are: unknown
  kind, missing parameters, no longer a full node, a mounted configuration, fewer than two witnesses, an unknown migration),
  and the node is not paused, every reconcile, after any number of them and with any other answers, keeps the pointer, the phase and
  the plan slot of the node, submits no task and gives the workflow no plan, and either reports an error or asks to be run
  again immediately.\<close>

theorem uncompilable_adoption_spins:
  assumes laws: "cond_laws E" and ob: "\<not> no_Deleting ob" "st_AdoptedWorkflow (node_Status (no_Node ob)) = Some ptr"
      "node_Phase (no_Node ob) \<noteq> PhaseFailed"
    and rounds: "\<forall>(C, now, retry, spec) \<in> set rounds. stuck_round ptr C spec" and stuck: "stuck_round ptr C spec"
    and r: "r = reconcile_object E P C now retry (with_spec spec (reconcile_rounds E P rounds ob))"
  shows "st_AdoptedWorkflow (c_Saved (rr_State r)) = Some ptr \<and> st_Phase (c_Saved (rr_State r)) = node_Phase (no_Node ob) \<and>
     st_Plan (c_Saved (rr_State r)) = node_Plan (no_Node ob) \<and> list_all idle_event (c_Trace (rr_State r)) \<and>
     (rr_Err r \<noteq> None \<or> rr_Requeue r = ResultRequeueImmediate)"
proof -
  define kept where "kept st \<longleftrightarrow> st_AdoptedWorkflow st = Some ptr \<and> st_Phase st = node_Phase (no_Node ob) \<and>
    st_Plan st = node_Plan (no_Node ob)" for st :: SeiNodeStatus
  have round: "spins (no_Node (with_spec sp o1)) q \<and> kept (c_Saved (rr_State q))"
    if "\<not> no_Deleting o1" "kept (node_Status (no_Node o1))" "stuck_round ptr D sp" "q = reconcile_object E P D t rt (with_spec sp o1)"
    for o1 D sp t rt q
  proof -
    have "spins (no_Node (with_spec sp o1)) q"
      unfolding that(4) using that(1-3) ob(3) by (intro object_stuck[OF laws]) (auto simp: with_spec_def kept_def)
    then show ?thesis using that(2) by (auto simp: spins_def parked_state_def frozen_def with_spec_def kept_def)
  qed
  have "\<not> no_Deleting (reconcile_rounds E P rounds ob) \<and> kept (node_Status (no_Node (reconcile_rounds E P rounds ob)))"
    using rounds
  proof (induction rounds rule: rev_induct)
    case Nil
    then show ?case using ob by (simp add: reconcile_rounds_def kept_def)
  next
    case (snoc x rounds)
    then show ?case using round[OF _ _ _ refl, of "reconcile_rounds E P rounds ob"]
      by (cases x) (auto simp: reconcile_rounds_def next_object_def with_spec_def)
  qed
  then show ?thesis using round[OF _ _ stuck r] by (auto simp: kept_def spins_def parked_state_def)
qed

text \<open>A state-sync recipe without witnesses of its own, on a node that resolves none: three reconciles.\<close>

definition stuck_workflow :: SeiNodeTaskWorkflow where
  "stuck_workflow = demo_workflow\<lparr>wf_StateSync := map_option (\<lambda>ss. ss\<lparr>ss_RpcServers := []\<rparr>) (wf_StateSync demo_workflow)\<rparr>"

definition stuck_world :: cworld where
  "stuck_world = demo_cworld\<lparr>cw_GetWorkflow := (\<lambda>_ _. Inr stuck_workflow)\<rparr>"

lemma uncompilable_adoption_spins_witness:
  "let r = reconcile_object demo_ext demo_platform stuck_world 11 None (with_spec demo_spec
         (reconcile_rounds demo_ext demo_platform [(stuck_world, 9, None, demo_spec), (stuck_world, 10, None, demo_spec)] parked_object))
   in st_AdoptedWorkflow (c_Saved (rr_State r)) = Some (pointer_to demo_workflow 1) \<and>
      (rr_Err r \<noteq> None \<or> rr_Requeue r = ResultRequeueImmediate)"
proof -
  have "SnapshotSource_of demo_spec = None \<and> \<not> spec_Paused demo_spec" by code_simp
  then have "round_witnesses stuck_world demo_spec = []" "\<not> spec_Paused demo_spec" by (simp_all add: round_witnesses_def)
  then have stuck: "stuck_round (pointer_to demo_workflow 1) stuck_world demo_spec"
    by (simp add: stuck_round_def stuck_world_def stuck_workflow_def demo_workflow_def refused_recipe_def minStateSyncWitnesses_def
        split: option.splits)
  have ob: "\<not> no_Deleting parked_object" "st_AdoptedWorkflow (node_Status (no_Node parked_object)) = Some (pointer_to demo_workflow 1)"
    "node_Phase (no_Node parked_object) \<noteq> PhaseFailed"
    by (simp_all add: parked_object_def demo_object_def adopted_node_def demo_node_def demo_status_def)
  show ?thesis
    using uncompilable_adoption_spins[OF demo_cond_laws ob _ stuck refl, of "[(stuck_world, 9, None, demo_spec), (stuck_world, 10, None, demo_spec)]"
        demo_platform 11 None] stuck by (simp add: Let_def)
qed

end
