(* ===== verification/GoTime.thy ===== *)
theory GoTime
  imports NumberProps "HOL-Library.Code_Target_Numeral"
begin

text \<open>
  Wall-clock timestamps as text: what the sidecar's store does with Go's \<open>time\<close> package.  A time
  is a number of nanoseconds since the epoch; \<open>format_time\<close> is \<open>t.UTC().Format(time.RFC3339Nano)\<close>
  (the fraction of a second is printed without its trailing zeros and left out when it is zero)
  and \<open>parse_time\<close> is \<open>time.Parse(time.RFC3339Nano, s)\<close> on the texts of that form.  The calendar
  is the proleptic Gregorian one from year 0.

  The round trip \<open>parse_format\<close> holds for the years a four-digit year can write.
\<close>

subsection \<open>The calendar\<close>

definition leap :: "nat \<Rightarrow> bool" where
  "leap y \<longleftrightarrow> 4 dvd y \<and> (\<not> 100 dvd y \<or> 400 dvd y)"

text \<open>Days from the first of January of year 0 to the first of January of year \<open>y\<close>.\<close>

definition days_before_year :: "nat \<Rightarrow> nat" where
  "days_before_year y = 365 * y + (y + 3) div 4 + (y + 399) div 400 - (y + 99) div 100"

definition month_lengths :: "nat \<Rightarrow> nat list" where
  "month_lengths y = [31, if leap y then 29 else 28, 31, 30, 31, 30, 31, 31, 30, 31, 30, 31]"

text \<open>The largest year that starts no later than day \<open>d\<close>, searched upwards from \<open>y\<close>.\<close>

lemma days_before_year_Suc:
  "days_before_year (Suc y) = days_before_year y + (if leap y then 366 else 365)"
proof -
  have step: "(Suc y + k) div Suc k = (y + k) div Suc k + (if Suc k dvd y then 1 else 0)" for k
    using div_Suc[of "y + k" "Suc k"] mod_add_self2[of y "Suc k"] by (simp add: dvd_eq_mod_eq_0)
  define a b c where "a = (y + 3) div 4" and "b = (y + 399) div 400" and "c = (y + 99) div 100"
  define A B C where "A = (4 dvd y)" and "B = (400 dvd y)" and "C = (100 dvd y)"
  note folds = a_def[symmetric] b_def[symmetric] c_def[symmetric] A_def[symmetric] B_def[symmetric] C_def[symmetric]
  have steps: "(Suc y + 3) div 4 = a + (if A then 1 else 0)" "(Suc y + 399) div 400 = b + (if B then 1 else 0)"
    "(Suc y + 99) div 100 = c + (if C then 1 else 0)"
    using step[of 3] step[of 399] step[of 99] by (simp_all add: folds)
  have le: "c \<le> y" unfolding c_def using less_mult_imp_div_less[of "y + 99" "Suc y" 100] by simp
  have dvds: "B \<longrightarrow> C" "C \<longrightarrow> A" unfolding A_def B_def C_def by (auto intro: dvd_trans)
  show ?thesis unfolding days_before_year_def leap_def steps folds
    using le dvds by (cases A; cases B; cases C; simp)
qed

function year_from :: "nat \<Rightarrow> nat \<Rightarrow> nat" where
  "year_from d y = (if days_before_year (Suc y) \<le> d then year_from d (Suc y) else y)"
  by pat_completeness auto

termination
  by (relation "measure (\<lambda>(d, y). d - days_before_year y)") (auto simp: days_before_year_Suc split: if_splits)

declare year_from.simps [simp del]

definition year_of :: "nat \<Rightarrow> nat" where
  "year_of d = year_from d (d div 366)"

text \<open>The month and the day of the month of the \<open>r\<close>-th day of the year, counted from 0.\<close>

fun month_day :: "nat list \<Rightarrow> nat \<Rightarrow> nat \<times> nat" where
  "month_day [] r = (0, r)"
| "month_day (l # ls) r = (if r < l then (0, r) else apfst Suc (month_day ls (r - l)))"

subsection \<open>Formatting\<close>

fun fixed_digits :: "nat \<Rightarrow> nat \<Rightarrow> string" where
  "fixed_digits 0 n = []"
| "fixed_digits (Suc w) n = fixed_digits w (n div 10) @ [char_of (48 + n mod 10)]"

definition ns_per_second :: nat where
  "ns_per_second = 1000000000"

definition epoch_days :: int where
  "epoch_days = 719528"

definition nanos_text :: "nat \<Rightarrow> string" where
  "nanos_text n = (if n = 0 then [] else ''.'' @ trim_right (CHR ''0'') (fixed_digits 9 n))"

definition date_text :: "nat \<Rightarrow> string" where
  "date_text d =
     (let y = year_of d; (m, k) = month_day (month_lengths y) (d - days_before_year y)
      in fixed_digits 4 y @ ''-'' @ fixed_digits 2 (Suc m) @ ''-'' @ fixed_digits 2 (Suc k))"

definition clock_text :: "nat \<Rightarrow> string" where
  "clock_text s =
     fixed_digits 2 (s div 3600) @ '':'' @ fixed_digits 2 (s div 60 mod 60) @ '':'' @ fixed_digits 2 (s mod 60)"

definition format_time :: "go_time \<Rightarrow> string" where
  "format_time t =
     (let secs = t div 1000000000 + epoch_days * 86400
      in date_text (nat (secs div 86400)) @ ''T'' @ clock_text (nat (secs mod 86400)) @
         nanos_text (nat (t mod 1000000000)) @ ''Z'')"

subsection \<open>Parsing\<close>

text \<open>A field of \<open>w\<close> digits with its value between the bounds, followed by the rest.\<close>

definition take_number :: "nat \<Rightarrow> nat \<Rightarrow> nat \<Rightarrow> string \<Rightarrow> (nat \<times> string) option" where
  "take_number w lo hi s =
     (let f = take w s; v = digits_val 0 f
      in if length f = w \<and> all_digits f \<and> lo \<le> v \<and> v \<le> hi then Some (v, drop w s) else None)"

definition take_char :: "char \<Rightarrow> string \<Rightarrow> string option" where
  "take_char c s = (case s of [] \<Rightarrow> None | x # xs \<Rightarrow> if x = c then Some xs else None)"

definition parse_date :: "string \<Rightarrow> (nat \<times> string) option" where
  "parse_date s0 =
     Option.bind (take_number 4 0 9999 s0) (\<lambda>(y, s1).
     Option.bind (take_char (CHR ''-'') s1) (\<lambda>s2.
     Option.bind (take_number 2 1 12 s2) (\<lambda>(m, s3).
     Option.bind (take_char (CHR ''-'') s3) (\<lambda>s4.
     Option.bind (take_number 2 1 (month_lengths y ! (m - 1)) s4) (\<lambda>(k, s5).
       Some (days_before_year y + sum_list (take (m - 1) (month_lengths y)) + (k - 1), s5))))))"

definition parse_clock :: "string \<Rightarrow> (nat \<times> string) option" where
  "parse_clock s0 =
     Option.bind (take_number 2 0 23 s0) (\<lambda>(h, s1).
     Option.bind (take_char (CHR '':'') s1) (\<lambda>s2.
     Option.bind (take_number 2 0 59 s2) (\<lambda>(m, s3).
     Option.bind (take_char (CHR '':'') s3) (\<lambda>s4.
     Option.bind (take_number 2 0 59 s4) (\<lambda>(s, s5).
       Some (h * 3600 + m * 60 + s, s5))))))"

definition parse_nanos :: "string \<Rightarrow> (nat \<times> string) option" where
  "parse_nanos s =
     (case take_char (CHR ''.'') s of
        None \<Rightarrow> Some (0, s)
      | Some r \<Rightarrow>
          (let f = takeWhile is_digit r
           in if f = [] \<or> 9 < length f then None
              else Some (digits_val 0 f * 10 ^ (9 - length f), dropWhile is_digit r)))"

definition parse_time :: "string \<Rightarrow> go_time option" where
  "parse_time s0 =
     Option.bind (parse_date s0) (\<lambda>(d, s1).
     Option.bind (take_char (CHR ''T'') s1) (\<lambda>s2.
     Option.bind (parse_clock s2) (\<lambda>(c, s3).
     Option.bind (parse_nanos s3) (\<lambda>(n, s4).
       if s4 = ''Z'' then Some (((int d - epoch_days) * 86400 + int c) * 1000000000 + int n) else None))))"

text \<open>The times whose year has four digits.\<close>

definition printable_time :: "go_time \<Rightarrow> bool" where
  "printable_time t \<longleftrightarrow> - (epoch_days * 86400) \<le> t div 1000000000 \<and> t div 1000000000 < 253402300800"

subsection \<open>The round trip\<close>

lemma fixed_digits_ok:
  "length (fixed_digits w n) = w" "all_digits (fixed_digits w n)"
  "digits_val 0 (fixed_digits w n) = n mod 10 ^ w"
proof -
  have d: "is_digit (char_of (48 + k mod 10 :: nat))" "digit (char_of (48 + k mod 10 :: nat)) = k mod 10" for k
    by (simp_all add: is_digit_def digit_def of_char_of)
  show "length (fixed_digits w n) = w" by (induction w arbitrary: n) auto
  show "all_digits (fixed_digits w n)" by (induction w arbitrary: n) (auto simp: d)
  show "digits_val 0 (fixed_digits w n) = n mod 10 ^ w"
  proof (induction w arbitrary: n)
    case (Suc w)
    have "n mod (10 * 10 ^ w) = 10 * (n div 10 mod 10 ^ w) + n mod 10" by (rule mod_mult2_eq)
    then show ?case using Suc[of "n div 10"] d[of n] by (simp add: digits_val_append)
  qed simp
qed

lemma take_number_fixed:
  assumes "lo \<le> n" "n \<le> hi" "hi < 10 ^ w"
  shows "take_number w lo hi (fixed_digits w n @ s) = Some (n, s)"
  using assms by (simp add: take_number_def fixed_digits_ok Let_def)

lemma take_char_append [simp]: "take_char c (c # s) = Some s"
  by (simp add: take_char_def)

lemma days_before_year_mono: "y \<le> z \<Longrightarrow> days_before_year y \<le> days_before_year z"
  by (rule lift_Suc_mono_le[of days_before_year]) (simp_all add: days_before_year_Suc)

lemma days_before_year_upper: "days_before_year y \<le> 366 * y"
proof (induction y)
  case 0
  show ?case by (simp add: days_before_year_def)
next
  case (Suc y)
  then show ?case unfolding days_before_year_Suc by simp
qed

lemma year_from_bounds:
  "days_before_year y \<le> d \<Longrightarrow>
   days_before_year (year_from d y) \<le> d \<and> d < days_before_year (Suc (year_from d y))"
proof (induction d y rule: year_from.induct)
  case (1 d y)
  then show ?case by (cases "days_before_year (Suc y) \<le> d") (simp_all add: year_from.simps[of d y])
qed

lemma year_of_bounds: "days_before_year (year_of d) \<le> d \<and> d < days_before_year (Suc (year_of d))"
proof -
  have "366 * (d div 366) \<le> d" by (rule times_div_less_eq_dividend)
  then show ?thesis unfolding year_of_def
    using year_from_bounds[of "d div 366" d] days_before_year_upper[of "d div 366"] by linarith
qed

lemma month_day_ok:
  "r < sum_list ls \<Longrightarrow> month_day ls r = (m, k) \<Longrightarrow>
   m < length ls \<and> k < ls ! m \<and> sum_list (take m ls) + k = r"
proof (induction ls arbitrary: r m k)
  case (Cons l ls)
  show ?case
  proof (cases "r < l")
    case False
    then obtain m' where m': "month_day ls (r - l) = (m', k)" "m = Suc m'"
      using Cons.prems(2) by (cases "month_day ls (r - l)") auto
    then have "m' < length ls \<and> k < ls ! m' \<and> sum_list (take m' ls) + k = r - l"
      using Cons.prems(1) False by (intro Cons.IH) auto
    then show ?thesis using m'(2) False by auto
  qed (use Cons.prems in auto)
qed simp

lemma month_lengths_sum: "sum_list (month_lengths y) = (if leap y then 366 else 365)"
  by (simp add: month_lengths_def)

lemma month_lengths_le: "m < 12 \<Longrightarrow> month_lengths y ! m \<le> 31"
proof -
  assume "m < 12"
  then have "month_lengths y ! m \<in> set (month_lengths y)" by (intro nth_mem) (simp add: month_lengths_def)
  then show ?thesis by (auto simp: month_lengths_def split: if_splits)
qed

lemma parse_date_text:
  assumes "year_of d \<le> 9999"
  shows "parse_date (date_text d @ s) = Some (d, s)"
proof -
  define y where "y = year_of d"
  define r where "r = d - days_before_year y"
  obtain m k where mk: "month_day (month_lengths y) r = (m, k)" by (cases "month_day (month_lengths y) r")
  have d: "days_before_year y \<le> d" "d < days_before_year (Suc y)"
    using year_of_bounds[of d] by (simp_all add: y_def)
  then have "r < sum_list (month_lengths y)"
    unfolding r_def month_lengths_sum days_before_year_Suc by (auto split: if_splits)
  from month_day_ok[OF this mk] have m: "m < 12" and k: "k < month_lengths y ! m"
    and sum: "sum_list (take m (month_lengths y)) + k = r" by (simp_all add: month_lengths_def)
  have dt: "date_text d =
      fixed_digits 4 y @ CHR ''-'' # fixed_digits 2 (Suc m) @ CHR ''-'' # fixed_digits 2 (Suc k)"
    by (simp add: date_text_def Let_def mk r_def[symmetric] y_def[symmetric])
  have "take_number 4 0 9999 (fixed_digits 4 y @ t) = Some (y, t)" for t
    using assms by (intro take_number_fixed) (simp_all add: y_def)
  moreover have "take_number 2 1 12 (fixed_digits 2 (Suc m) @ t) = Some (Suc m, t)" for t
    using m by (intro take_number_fixed) simp_all
  moreover have "take_number 2 1 (month_lengths y ! m) (fixed_digits 2 (Suc k) @ t) = Some (Suc k, t)" for t
    using k month_lengths_le[OF m, of y] by (intro take_number_fixed) simp_all
  ultimately show ?thesis
    using sum d(1) by (simp add: dt parse_date_def r_def)
qed

lemma parse_clock_text:
  assumes "c < 86400"
  shows "parse_clock (clock_text c @ s) = Some (c, s)"
proof -
  have "take_number 2 0 23 (fixed_digits 2 (c div 3600) @ t) = Some (c div 3600, t)" for t
    using assms by (intro take_number_fixed) auto
  moreover have "take_number 2 0 59 (fixed_digits 2 (n mod 60) @ t) = Some (n mod 60, t)" for n t
  proof (intro take_number_fixed)
    show "n mod 60 \<le> 59" by presburger
  qed simp_all
  moreover have "c div 3600 * 3600 + c div 60 mod 60 * 60 + c mod 60 = c"
  proof -
    have "c div 60 div 60 * 60 + c div 60 mod 60 = c div 60" by (rule div_mult_mod_eq)
    moreover have "c div 60 * 60 + c mod 60 = c" by (rule div_mult_mod_eq)
    moreover have "c div 60 div 60 = c div 3600" by (simp add: div_mult2_eq[symmetric])
    ultimately show ?thesis by linarith
  qed
  ultimately show ?thesis by (simp add: parse_clock_def clock_text_def)
qed

lemma parse_nanos_text:
  assumes "n < 1000000000"
  shows "parse_nanos (nanos_text n @ ''Z'') = Some (n, ''Z'')"
proof (cases "n = 0")
  case False
  define f where "f = trim_right (CHR ''0'') (fixed_digits 9 n)"
  have split: "fixed_digits 9 n = f @ replicate (9 - length f) (CHR ''0'')"
    using trim_right_split[of "fixed_digits 9 n" "CHR ''0''"] by (simp add: f_def fixed_digits_ok)
  have len: "length f \<le> 9" using arg_cong[OF split, of length] by (simp add: fixed_digits_ok)
  have dig: "all_digits f" using fixed_digits_ok(2)[of 9 n] split by (metis list_all_append)
  have val: "digits_val 0 f * 10 ^ (9 - length f) = n"
    using trim_right_val[of "fixed_digits 9 n"] assms by (simp add: f_def fixed_digits_ok)
  then have ne: "f \<noteq> []" using False by auto
  have "takeWhile is_digit (f @ ''Z'') = f" "dropWhile is_digit (f @ ''Z'') = ''Z''"
    using dig by (auto simp: takeWhile_append dropWhile_append list_all_iff is_digit_def)
  then show ?thesis using False ne len val
    by (simp add: parse_nanos_def nanos_text_def f_def[symmetric] Let_def)
qed (simp add: parse_nanos_def nanos_text_def take_char_def)

lemma year_of_printable: "d < days_before_year 10000 \<Longrightarrow> year_of d \<le> 9999"
  using year_of_bounds[of d] days_before_year_mono[of 10000 "year_of d"] by linarith

lemma parse_format:
  assumes "printable_time t"
  shows "parse_time (format_time t) = Some t"
proof -
  define secs where "secs = t div 1000000000 + epoch_days * 86400"
  have b: "0 \<le> secs" "secs < 253402300800 + epoch_days * 86400"
    using assms by (auto simp: printable_time_def secs_def)
  have "nat (secs div 86400) < days_before_year 10000"
    using b by (simp add: epoch_days_def days_before_year_def)
  note date = parse_date_text[OF year_of_printable[OF this]]
  have "nat (secs mod 86400) < 86400" by simp
  note clock = parse_clock_text[OF this]
  have "nat (t mod 1000000000) < 1000000000" by simp
  note nanos = parse_nanos_text[OF this]
  have "((secs div 86400 - epoch_days) * 86400 + secs mod 86400) * 1000000000 + t mod 1000000000 = t"
    unfolding secs_def epoch_days_def by (simp add: algebra_simps)
  moreover have "0 \<le> secs div 86400" using b(1) by simp
  ultimately show ?thesis
    by (simp add: parse_time_def format_time_def Let_def secs_def[symmetric] date clock nanos)
qed

text \<open>Text order is not time order: a fraction that is a prefix of another one, and a whole second,
  sort after the later time, because \<open>Z\<close> is greater than every digit and than the point.\<close>

fun text_less :: "string \<Rightarrow> string \<Rightarrow> bool" where
  "text_less s [] = False"
| "text_less [] (d # t) = True"
| "text_less (c # s) (d # t) =
     ((of_char c :: nat) < of_char d \<or> (c = d \<and> text_less s t))"

end
