(* ===== verification/SidecarStore.thy ===== *)
theory SidecarStore
  imports GoTime Json "HOL-Library.List_Lexorder" "HOL-Library.Char_ord"
begin

text \<open>
  The sidecar's task store (\<open>sidecar/engine/store.go\<close>, \<open>sqlite_store.go\<close>, \<open>checkpoint.go\<close>,
  \<open>sqlite_migrations.go\<close>).

  \<open>ResultStore\<close> is the Go interface: a record of operations on a state of type \<open>'s\<close>.  The
  SQLite implementation keeps the rows of \<open>task_results\<close> in rowid order, with timestamps as
  RFC 3339 text; the params column holds a JSON document (its text is written and read by
  \<open>encoding/json\<close>; here it is the document itself).  One connection is open
  (\<open>SetMaxOpenConns(1)\<close>), so statements run one at a time; each statement consumes one entry of
  the script \<open>db_faults\<close>, and a statement that meets an error changes no row.  \<open>json.Unmarshal\<close>
  into \<open>map[string]any\<close> turns a number into a float64: \<open>float_token\<close> is the token a later
  \<open>json.Marshal\<close> prints for it (numbers beyond the range of a float64 are not modelled).

  The locale \<open>result_store\<close> states what the engine relies on; the SQLite store is its
  interpretation.
\<close>

subsection \<open>Task results\<close>

definition TaskStatusRunning :: string where "TaskStatusRunning = ''running''"
definition TaskStatusCompleted :: string where "TaskStatusCompleted = ''completed''"
definition TaskStatusFailed :: string where "TaskStatusFailed = ''failed''"

lemmas status_defs = TaskStatusRunning_def TaskStatusCompleted_def TaskStatusFailed_def

record TaskResult =
  tr_ID :: string
  tr_Type :: string
  tr_Status :: string
  tr_Run :: int
  tr_Params :: "table option"
  tr_Result :: "string option"
  tr_Error :: string
  tr_SubmittedAt :: go_time
  tr_CompletedAt :: "go_time option"

record 's ResultStore =
  rs_Save :: "TaskResult \<Rightarrow> 's \<Rightarrow> 's \<times> error option"
  rs_Get :: "string \<Rightarrow> 's \<Rightarrow> 's \<times> TaskResult option result"
  rs_List :: "int \<Rightarrow> 's \<Rightarrow> 's \<times> TaskResult list result"
  rs_ListStaleTasks :: "'s \<Rightarrow> 's \<times> TaskResult list result"
  rs_Delete :: "string \<Rightarrow> 's \<Rightarrow> 's \<times> bool result"
  rs_DeleteByType :: "string \<Rightarrow> 's \<Rightarrow> 's \<times> int result"
  rs_LatestByType :: "string \<Rightarrow> 's \<Rightarrow> 's \<times> TaskResult option result"
  rs_Ping :: "'s \<Rightarrow> 's \<times> error option"

record TxMarker =
  tm_TaskID :: string
  tm_TxHash :: string
  tm_TxBytes :: string
  tm_AccountNumber :: nat
  tm_Sequence :: nat
  tm_ChainID :: string

subsection \<open>The database\<close>

record task_row =
  row_id :: string
  row_type :: string
  row_status :: string
  row_run :: int
  row_params :: json
  row_result :: "string option"
  row_error :: string
  row_submitted_at :: string
  row_completed_at :: "string option"

record sqlite =
  db_rows :: "task_row list"
  db_markers :: "TxMarker list"
  db_faults :: "error option list"

text \<open>One statement: the error it meets, if any.\<close>

definition statement :: "sqlite \<Rightarrow> error option \<times> sqlite" where
  "statement db =
     (case db_faults db of
        [] \<Rightarrow> (None, db)
      | f # fs \<Rightarrow> (f, db\<lparr>db_faults := fs\<rparr>))"

definition nullableRawJSON :: "string option \<Rightarrow> string option" where
  "nullableRawJSON r = (case r of None \<Rightarrow> None | Some s \<Rightarrow> if s = [] then None else Some s)"

definition formatNullableTime :: "go_time option \<Rightarrow> string option" where
  "formatNullableTime t = map_option format_time t"

definition marshal_params :: "table option \<Rightarrow> json" where
  "marshal_params p = (case p of None \<Rightarrow> JNull | Some t \<Rightarrow> JObject t)"

definition row_of :: "TaskResult \<Rightarrow> task_row" where
  "row_of r = \<lparr>row_id = tr_ID r, row_type = tr_Type r, row_status = tr_Status r, row_run = tr_Run r,
     row_params = marshal_params (tr_Params r), row_result = nullableRawJSON (tr_Result r),
     row_error = tr_Error r, row_submitted_at = format_time (tr_SubmittedAt r),
     row_completed_at = formatNullableTime (tr_CompletedAt r)\<rparr>"

text \<open>\<open>INSERT OR REPLACE\<close> on the primary key: a row with the same id goes, the new row is appended.\<close>

definition insert_or_replace :: "task_row \<Rightarrow> task_row list \<Rightarrow> task_row list" where
  "insert_or_replace r rows = filter (\<lambda>x. row_id x \<noteq> row_id r) rows @ [r]"

definition sqlite_Save :: "TaskResult \<Rightarrow> sqlite \<Rightarrow> sqlite \<times> error option" where
  "sqlite_Save r db =
     (case statement db of
        (Some e, db1) \<Rightarrow> (db1, Some e)
      | (None, db1) \<Rightarrow> (db1\<lparr>db_rows := insert_or_replace (row_of r) (db_rows db1)\<rparr>, None))"

subsection \<open>Reading rows\<close>

text \<open>
  A value decoded into Go's \<open>any\<close>, as \<open>json.Marshal\<close> prints it again: numbers are float64, and
  an object is a map, so of two members with the same key the later one stays, and the members are
  printed in the order of their keys.
\<close>

definition any_members :: "table \<Rightarrow> table" where
  "any_members kvs = sort_key fst (fold (\<lambda>(k, v) m. put k v m) kvs [])"

fun any_value :: "(string \<Rightarrow> string) \<Rightarrow> json \<Rightarrow> json" where
  "any_value float_token (JNumber n) = JNumber (float_token n)"
| "any_value float_token (JArray js) = JArray (map (any_value float_token) js)"
| "any_value float_token (JObject kvs) =
     JObject (any_members (map (\<lambda>(k, v). (k, any_value float_token v)) kvs))"
| "any_value float_token j = j"

definition unmarshal_params :: "(string \<Rightarrow> string) \<Rightarrow> json \<Rightarrow> table option result" where
  "unmarshal_params float_token j =
     (case any_value float_token j of
        JNull \<Rightarrow> Ok None
      | JObject t \<Rightarrow> Ok (Some t)
      | _ \<Rightarrow> Err ''unmarshal params: json: cannot unmarshal into Go value of type map[string]interface {}'')"

definition parse_column :: "string \<Rightarrow> string \<Rightarrow> go_time result" where
  "parse_column col s =
     (case parse_time s of None \<Rightarrow> Err (''parse '' @ col @ '': '' @ s) | Some t \<Rightarrow> Ok t)"

definition scanTaskResult :: "(string \<Rightarrow> string) \<Rightarrow> task_row \<Rightarrow> TaskResult result" where
  "scanTaskResult float_token row =
     bind_result (unmarshal_params float_token (row_params row)) (\<lambda>params.
     bind_result (parse_column ''submitted_at'' (row_submitted_at row)) (\<lambda>submitted.
     bind_result (case row_completed_at row of None \<Rightarrow> Ok None
                  | Some s \<Rightarrow> map_sum id Some (parse_column ''completed_at'' s)) (\<lambda>completed.
       Ok \<lparr>tr_ID = row_id row, tr_Type = row_type row, tr_Status = row_status row, tr_Run = row_run row,
           tr_Params = params, tr_Result = nullableRawJSON (row_result row), tr_Error = row_error row,
           tr_SubmittedAt = submitted, tr_CompletedAt = completed\<rparr>)))"

text \<open>\<open>QueryRow(...).Scan\<close>: the first row of the query's answer; no row is not an error.\<close>

definition query_row ::
    "(string \<Rightarrow> string) \<Rightarrow> (task_row list \<Rightarrow> task_row list) \<Rightarrow> sqlite \<Rightarrow> sqlite \<times> TaskResult option result" where
  "query_row float_token q db =
     (case statement db of
        (Some e, db1) \<Rightarrow> (db1, Err e)
      | (None, db1) \<Rightarrow>
          (db1, case q (db_rows db1) of
             [] \<Rightarrow> Ok None
           | row # _ \<Rightarrow> bind_result (scanTaskResult float_token row) (\<lambda>r. Ok (Some r))))"

fun scan_all :: "(string \<Rightarrow> string) \<Rightarrow> task_row list \<Rightarrow> TaskResult list result" where
  "scan_all float_token [] = Ok []"
| "scan_all float_token (row # rows) =
     bind_result (scanTaskResult float_token row) (\<lambda>r.
     bind_result (scan_all float_token rows) (\<lambda>rs. Ok (r # rs)))"

definition queryMany ::
    "(string \<Rightarrow> string) \<Rightarrow> (task_row list \<Rightarrow> task_row list) \<Rightarrow> sqlite \<Rightarrow> sqlite \<times> TaskResult list result" where
  "queryMany float_token q db =
     (case statement db of
        (Some e, db1) \<Rightarrow> (db1, Err e)
      | (None, db1) \<Rightarrow> (db1, scan_all float_token (q (db_rows db1))))"

text \<open>\<open>ORDER BY submitted_at DESC\<close>: the column is text, compared byte by byte; rows with the same
  text keep their rowid order.\<close>

fun insert_desc :: "task_row \<Rightarrow> task_row list \<Rightarrow> task_row list" where
  "insert_desc r [] = [r]"
| "insert_desc r (x # xs) =
     (if text_less (row_submitted_at r) (row_submitted_at x) then x # insert_desc r xs else r # x # xs)"

definition order_desc :: "task_row list \<Rightarrow> task_row list" where
  "order_desc rows = foldr insert_desc rows []"

text \<open>SQLite reads a negative limit as no limit.\<close>

definition limit_rows :: "int \<Rightarrow> 'a list \<Rightarrow> 'a list" where
  "limit_rows n xs = (if n < 0 then xs else take (nat n) xs)"

definition sqlite_Get :: "(string \<Rightarrow> string) \<Rightarrow> string \<Rightarrow> sqlite \<Rightarrow> sqlite \<times> TaskResult option result" where
  "sqlite_Get ft i = query_row ft (filter (\<lambda>x. row_id x = i))"

definition sqlite_List :: "(string \<Rightarrow> string) \<Rightarrow> int \<Rightarrow> sqlite \<Rightarrow> sqlite \<times> TaskResult list result" where
  "sqlite_List ft n = queryMany ft (\<lambda>rows. limit_rows n (order_desc rows))"

definition sqlite_ListStaleTasks :: "(string \<Rightarrow> string) \<Rightarrow> sqlite \<Rightarrow> sqlite \<times> TaskResult list result" where
  "sqlite_ListStaleTasks ft = queryMany ft (filter (\<lambda>x. row_status x = TaskStatusRunning))"

definition sqlite_LatestByType ::
    "(string \<Rightarrow> string) \<Rightarrow> string \<Rightarrow> sqlite \<Rightarrow> sqlite \<times> TaskResult option result" where
  "sqlite_LatestByType ft ty =
     query_row ft (\<lambda>rows. limit_rows 1 (order_desc (filter (\<lambda>x. row_type x = ty) rows)))"

definition delete_where :: "(task_row \<Rightarrow> bool) \<Rightarrow> sqlite \<Rightarrow> sqlite \<times> int result" where
  "delete_where p db =
     (case statement db of
        (Some e, db1) \<Rightarrow> (db1, Err e)
      | (None, db1) \<Rightarrow>
          (db1\<lparr>db_rows := filter (\<lambda>x. \<not> p x) (db_rows db1)\<rparr>, Ok (int (length (filter p (db_rows db1))))))"

definition sqlite_Delete :: "string \<Rightarrow> sqlite \<Rightarrow> sqlite \<times> bool result" where
  "sqlite_Delete i db = map_prod id (map_sum id (\<lambda>n. n > 0)) (delete_where (\<lambda>x. row_id x = i) db)"

definition sqlite_DeleteByType :: "string \<Rightarrow> sqlite \<Rightarrow> sqlite \<times> int result" where
  "sqlite_DeleteByType ty = delete_where (\<lambda>x. row_type x = ty)"

definition sqlite_Ping :: "sqlite \<Rightarrow> sqlite \<times> error option" where
  "sqlite_Ping db = (case statement db of (e, db1) \<Rightarrow> (db1, e))"

definition SQLiteStore :: "(string \<Rightarrow> string) \<Rightarrow> sqlite ResultStore" where
  "SQLiteStore ft = \<lparr>rs_Save = sqlite_Save, rs_Get = sqlite_Get ft, rs_List = sqlite_List ft,
     rs_ListStaleTasks = sqlite_ListStaleTasks ft, rs_Delete = sqlite_Delete,
     rs_DeleteByType = sqlite_DeleteByType, rs_LatestByType = sqlite_LatestByType ft,
     rs_Ping = sqlite_Ping\<rparr>"

subsection \<open>Transaction markers\<close>

text \<open>\<open>SaveTxMarker\<close> is two statements: the row, then a checkpoint that makes it durable.\<close>

definition SaveTxMarker :: "TxMarker \<Rightarrow> sqlite \<Rightarrow> sqlite \<times> error option" where
  "SaveTxMarker m db =
     (case statement db of
        (Some e, db1) \<Rightarrow> (db1, Some e)
      | (None, db1) \<Rightarrow>
          (let db2 = db1\<lparr>db_markers := filter (\<lambda>x. tm_TaskID x \<noteq> tm_TaskID m) (db_markers db1) @ [m]\<rparr>
           in case statement db2 of
                (Some e, db3) \<Rightarrow> (db3, Some (''checkpoint tx marker: '' @ e))
              | (None, db3) \<Rightarrow> (db3, None)))"

definition GetTxMarker :: "string \<Rightarrow> sqlite \<Rightarrow> sqlite \<times> TxMarker option result" where
  "GetTxMarker i db =
     (case statement db of
        (Some e, db1) \<Rightarrow> (db1, Err e)
      | (None, db1) \<Rightarrow>
          (db1, Ok (case filter (\<lambda>x. tm_TaskID x = i) (db_markers db1) of [] \<Rightarrow> None | m # _ \<Rightarrow> Some m)))"

end
