(* ===== verification/StoreProps.thy ===== *)
theory StoreProps
  imports SidecarStore
begin

text \<open>
  The contract of the task store.  The locale \<open>result_store\<close> gives a store an abstract content
  \<open>tasks\<close>, a map from task ids to results, and says what each operation does to it, with and
  without a store error; the SQLite store is shown to keep it.  A row comes back from the database
  as it was saved (\<open>stored\<close>: the params as a \<open>map[string]any\<close> holds them, numbers as float64
  tokens and members by key, an empty result as none).
\<close>

subsection \<open>The contract\<close>

locale result_store =
  fixes S :: "'s ResultStore"
    and inv :: "'s \<Rightarrow> bool"
    and tasks :: "'s \<Rightarrow> string \<Rightarrow> TaskResult option"
    and stored :: "TaskResult \<Rightarrow> TaskResult"
    and storable :: "TaskResult \<Rightarrow> bool"
  assumes Save: "\<lbrakk>inv s; storable r; rs_Save S r s = (s', e)\<rbrakk> \<Longrightarrow>
      inv s' \<and> tasks s' = (if e = None then (tasks s)(tr_ID r \<mapsto> stored r) else tasks s)"
    and Get: "\<lbrakk>inv s; rs_Get S i s = (s', g)\<rbrakk> \<Longrightarrow>
      inv s' \<and> tasks s' = tasks s \<and> (\<forall>x. g = Inr x \<longrightarrow> x = tasks s i)"
    and Delete: "\<lbrakk>inv s; rs_Delete S i s = (s', d)\<rbrakk> \<Longrightarrow>
      inv s' \<and> (case d of Inl e \<Rightarrow> tasks s' = tasks s
                 | Inr b \<Rightarrow> b = (tasks s i \<noteq> None) \<and> tasks s' = (tasks s)(i := None))"
    and DeleteByType: "\<lbrakk>inv s; rs_DeleteByType S ty s = (s', dn)\<rbrakk> \<Longrightarrow>
      inv s' \<and> (case dn of Inl e \<Rightarrow> tasks s' = tasks s
                 | Inr n \<Rightarrow> tasks s' = (\<lambda>i. case tasks s i of None \<Rightarrow> None
                                           | Some r \<Rightarrow> if tr_Type r = ty then None else Some r))"
    and ListStaleTasks: "\<lbrakk>inv s; rs_ListStaleTasks S s = (s', l)\<rbrakk> \<Longrightarrow>
      inv s' \<and> tasks s' = tasks s \<and>
      (\<forall>ts. l = Inr ts \<longrightarrow> distinct (map tr_ID ts) \<and>
         set ts = {r. tasks s (tr_ID r) = Some r \<and> tr_Status r = TaskStatusRunning})"
    and LatestByType: "\<lbrakk>inv s; rs_LatestByType S ty s = (s', h0)\<rbrakk> \<Longrightarrow>
      inv s' \<and> tasks s' = tasks s \<and>
      (h0 = Inr None \<longrightarrow> (\<forall>i r. tasks s i = Some r \<longrightarrow> tr_Type r \<noteq> ty)) \<and>
      (\<forall>h. h0 = Inr (Some h) \<longrightarrow> tasks s (tr_ID h) = Some h \<and> tr_Type h = ty \<and>
         (\<forall>i r. tasks s i = Some r \<longrightarrow> tr_Type r = ty \<longrightarrow>
            \<not> text_less (format_time (tr_SubmittedAt h)) (format_time (tr_SubmittedAt r))))"
    and ident: "\<lbrakk>inv s; tasks s i = Some r\<rbrakk> \<Longrightarrow> tr_ID r = i \<and> storable r"
    and stored_fields: "tr_ID (stored r) = tr_ID r" "tr_Type (stored r) = tr_Type r"
      "tr_Status (stored r) = tr_Status r" "tr_Run (stored r) = tr_Run r"
      "tr_SubmittedAt (stored r) = tr_SubmittedAt r" "tr_CompletedAt (stored r) = tr_CompletedAt r"
      "tr_Error (stored r) = tr_Error r"
    and storable_times: "\<lbrakk>printable_time (tr_SubmittedAt r); \<forall>t. tr_CompletedAt r = Some t \<longrightarrow> printable_time t\<rbrakk>
      \<Longrightarrow> storable r"
    and storable_SubmittedAt: "storable r \<Longrightarrow> printable_time (tr_SubmittedAt r)"
begin

lemma Save_ok:
  "\<lbrakk>inv s; storable r; rs_Save S r s = (s', None)\<rbrakk> \<Longrightarrow> tasks s' = (tasks s)(tr_ID r \<mapsto> stored r)"
  using Save by fastforce

lemma Save_error: "\<lbrakk>inv s; storable r; rs_Save S r s = (s', Some e)\<rbrakk> \<Longrightarrow> tasks s' = tasks s"
  using Save by fastforce

end

subsection \<open>The SQLite store\<close>

definition stored_row :: "(string \<Rightarrow> string) \<Rightarrow> TaskResult \<Rightarrow> TaskResult" where
  "stored_row ft r = r\<lparr>tr_Params := map_option (\<lambda>t. any_members (map (\<lambda>(k, v). (k, any_value ft v)) t)) (tr_Params r),
     tr_Result := nullableRawJSON (tr_Result r)\<rparr>"

definition storable_row :: "TaskResult \<Rightarrow> bool" where
  "storable_row r \<longleftrightarrow> printable_time (tr_SubmittedAt r) \<and>
     (\<forall>t. tr_CompletedAt r = Some t \<longrightarrow> printable_time t)"

definition sqlite_inv :: "sqlite \<Rightarrow> bool" where
  "sqlite_inv db \<longleftrightarrow> distinct (map row_id (db_rows db)) \<and>
     (\<forall>row \<in> set (db_rows db). \<exists>r. storable_row r \<and> row = row_of r)"

definition sqlite_tasks :: "(string \<Rightarrow> string) \<Rightarrow> sqlite \<Rightarrow> string \<Rightarrow> TaskResult option" where
  "sqlite_tasks ft db i =
     (case filter (\<lambda>x. row_id x = i) (db_rows db) of
        [] \<Rightarrow> None
      | row # _ \<Rightarrow> (case scanTaskResult ft row of Inl e \<Rightarrow> None | Inr r \<Rightarrow> Some r))"

lemma nullable_idem [simp]: "nullableRawJSON (nullableRawJSON r) = nullableRawJSON r"
  by (auto simp: nullableRawJSON_def split: option.splits)

lemma scan_row_of: "storable_row r \<Longrightarrow> scanTaskResult ft (row_of r) = Ok (stored_row ft r)"
  by (cases "tr_Params r"; cases "tr_CompletedAt r")
     (simp_all add: scanTaskResult_def row_of_def unmarshal_params_def marshal_params_def parse_column_def
       formatNullableTime_def stored_row_def storable_row_def parse_format)

lemma row_of_simps [simp]:
  "row_id (row_of r) = tr_ID r" "row_type (row_of r) = tr_Type r" "row_status (row_of r) = tr_Status r"
  "row_submitted_at (row_of r) = format_time (tr_SubmittedAt r)"
  by (simp_all add: row_of_def)

lemma stored_row_simps [simp]:
  "tr_ID (stored_row ft r) = tr_ID r" "tr_Type (stored_row ft r) = tr_Type r"
  "tr_Status (stored_row ft r) = tr_Status r" "tr_Run (stored_row ft r) = tr_Run r"
  "tr_SubmittedAt (stored_row ft r) = tr_SubmittedAt r" "tr_CompletedAt (stored_row ft r) = tr_CompletedAt r"
  "tr_Error (stored_row ft r) = tr_Error r"
  by (simp_all add: stored_row_def)

lemma statement_frame:
  "statement db = (e, db1) \<Longrightarrow> db_rows db1 = db_rows db \<and> db_markers db1 = db_markers db"
  by (auto simp: statement_def split: list.splits)

lemma sqlite_tasks_cong: "db_rows db1 = db_rows db \<Longrightarrow> sqlite_tasks ft db1 = sqlite_tasks ft db"
  by (simp add: sqlite_tasks_def fun_eq_iff)

lemma sqlite_inv_cong: "db_rows db1 = db_rows db \<Longrightarrow> sqlite_inv db1 = sqlite_inv db"
  by (simp add: sqlite_inv_def)

text \<open>Under the invariant, the content is the rows, one per id.\<close>

lemma filter_unique:
  "distinct (map f xs) \<Longrightarrow> x \<in> set xs \<Longrightarrow> filter (\<lambda>y. f y = f x) xs = [x]"
proof (induction xs)
  case (Cons y ys)
  show ?case
  proof (cases "y = x")
    case True
    then have "\<forall>y \<in> set ys. f y \<noteq> f x" using Cons.prems(1) by (auto simp: image_iff)
    then have "filter (\<lambda>y. f y = f x) ys = []" by simp
    then show ?thesis using True by simp
  next
    case False
    then have "x \<in> set ys" "f y \<noteq> f x" using Cons.prems by auto
    then show ?thesis using Cons by simp
  qed
qed simp

lemma sqlite_tasks_iff:
  assumes "sqlite_inv db"
  shows "sqlite_tasks ft db i = Some r \<longleftrightarrow>
    (\<exists>r0. row_of r0 \<in> set (db_rows db) \<and> storable_row r0 \<and> r = stored_row ft r0 \<and> tr_ID r0 = i)"
proof
  assume "sqlite_tasks ft db i = Some r"
  then obtain row rest where f: "filter (\<lambda>x. row_id x = i) (db_rows db) = row # rest"
    and s: "scanTaskResult ft row = Ok r" by (auto simp: sqlite_tasks_def split: list.splits sum.splits)
  then have row: "row \<in> set (db_rows db)" "row_id row = i" by (auto simp: filter_eq_Cons_iff)
  then obtain r0 where "storable_row r0" "row = row_of r0" using assms by (auto simp: sqlite_inv_def)
  then show "\<exists>r0. row_of r0 \<in> set (db_rows db) \<and> storable_row r0 \<and> r = stored_row ft r0 \<and> tr_ID r0 = i"
    using s row scan_row_of[of r0 ft] by auto
next
  assume "\<exists>r0. row_of r0 \<in> set (db_rows db) \<and> storable_row r0 \<and> r = stored_row ft r0 \<and> tr_ID r0 = i"
  then obtain r0 where r0: "row_of r0 \<in> set (db_rows db)" "storable_row r0" "r = stored_row ft r0" "tr_ID r0 = i"
    by auto
  then have "filter (\<lambda>x. row_id x = i) (db_rows db) = [row_of r0]"
    using filter_unique[of row_id "db_rows db" "row_of r0"] assms by (simp add: sqlite_inv_def)
  then show "sqlite_tasks ft db i = Some r" using r0 by (simp add: sqlite_tasks_def scan_row_of)
qed

lemma sqlite_tasks_None:
  assumes "sqlite_inv db"
  shows "sqlite_tasks ft db i = None \<longleftrightarrow> i \<notin> row_id ` set (db_rows db)"
proof
  show "sqlite_tasks ft db i = None \<Longrightarrow> i \<notin> row_id ` set (db_rows db)"
  proof
    assume n: "sqlite_tasks ft db i = None" and "i \<in> row_id ` set (db_rows db)"
    then obtain row where row: "row \<in> set (db_rows db)" "row_id row = i" by auto
    with assms obtain r0 where "storable_row r0" "row = row_of r0" by (auto simp: sqlite_inv_def)
    with row have "sqlite_tasks ft db i = Some (stored_row ft r0)" using sqlite_tasks_iff[OF assms] by auto
    with n show False by simp
  qed
  show "i \<notin> row_id ` set (db_rows db) \<Longrightarrow> sqlite_tasks ft db i = None"
  proof -
    assume "i \<notin> row_id ` set (db_rows db)"
    then have "filter (\<lambda>x. row_id x = i) (db_rows db) = []" by (auto simp: filter_empty_conv)
    then show ?thesis by (simp add: sqlite_tasks_def)
  qed
qed

lemma sqlite_Get_law:
  assumes "sqlite_inv db" and "sqlite_Get ft i db = (db', res)"
  shows "sqlite_inv db' \<and> sqlite_tasks ft db' = sqlite_tasks ft db \<and>
    (\<forall>x. res = Inr x \<longrightarrow> x = sqlite_tasks ft db i)"
proof -
  obtain e db1 where st: "statement db = (e, db1)" by (cases "statement db")
  have rows: "db_rows db1 = db_rows db" using statement_frame[OF st] by simp
  have "db' = db1" using assms(2) st by (auto simp: sqlite_Get_def query_row_def split: option.splits)
  moreover have "x = sqlite_tasks ft db i" if "res = Inr x" for x
    using assms(2) that st rows unfolding sqlite_Get_def query_row_def sqlite_tasks_def
    by (auto split: option.splits list.splits sum.splits simp: bind_result_eq_Inr)
  ultimately show ?thesis using assms(1) sqlite_inv_cong[OF rows] sqlite_tasks_cong[OF rows] by simp
qed

lemma sqlite_inv_insert:
  assumes "sqlite_inv db" and "storable_row r" and "db_rows db' = insert_or_replace (row_of r) (db_rows db)"
  shows "sqlite_inv db'" "sqlite_tasks ft db' = (sqlite_tasks ft db)(tr_ID r \<mapsto> stored_row ft r)"
proof -
  show inv: "sqlite_inv db'" using assms
    by (auto simp: sqlite_inv_def insert_or_replace_def distinct_map inj_on_def)
  have "sqlite_tasks ft db' i = ((sqlite_tasks ft db)(tr_ID r \<mapsto> stored_row ft r)) i" for i
  proof (cases "i = tr_ID r")
    case True
    then show ?thesis using sqlite_tasks_iff[OF inv, of ft i "stored_row ft r"] assms(2,3)
      by (auto simp: insert_or_replace_def)
  next
    case False
    have "filter (\<lambda>x. row_id x = i) (db_rows db') = filter (\<lambda>x. row_id x = i) (db_rows db)"
      using False assms(3) by (auto simp: insert_or_replace_def intro: filter_cong)
    then show ?thesis using False by (simp add: sqlite_tasks_def)
  qed
  then show "sqlite_tasks ft db' = (sqlite_tasks ft db)(tr_ID r \<mapsto> stored_row ft r)" by blast
qed

lemma sqlite_Save_law:
  assumes "sqlite_inv db" and "storable_row r" and "sqlite_Save r db = (db', e)"
  shows "sqlite_inv db' \<and> sqlite_tasks ft db' =
    (if e = None then (sqlite_tasks ft db)(tr_ID r \<mapsto> stored_row ft r) else sqlite_tasks ft db)"
proof -
  obtain f db1 where st: "statement db = (f, db1)" by (cases "statement db")
  have rows: "db_rows db1 = db_rows db" using statement_frame[OF st] by simp
  show ?thesis
  proof (cases f)
    case None
    then have "e = None" and "db_rows db' = insert_or_replace (row_of r) (db_rows db)"
      using assms(3) st rows by (auto simp: sqlite_Save_def)
    then show ?thesis using sqlite_inv_insert[OF assms(1,2)] by simp
  next
    case (Some x)
    then show ?thesis using assms(1,3) st sqlite_inv_cong[OF rows] sqlite_tasks_cong[OF rows, of ft]
      by (auto simp: sqlite_Save_def)
  qed
qed

text \<open>The two deletes: the rows that satisfy a condition on the saved result go.\<close>

lemma delete_where_law:
  assumes inv: "sqlite_inv db" and "delete_where p db = (db', res)"
    and p: "\<And>r. p (row_of r) \<longleftrightarrow> q (stored_row ft r)"
  shows "sqlite_inv db' \<and>
    (case res of Inl e \<Rightarrow> sqlite_tasks ft db' = sqlite_tasks ft db
     | Inr n \<Rightarrow> sqlite_tasks ft db' =
         (\<lambda>i. case sqlite_tasks ft db i of None \<Rightarrow> None | Some r \<Rightarrow> if q r then None else Some r) \<and>
         (n > 0 \<longleftrightarrow> (\<exists>i r. sqlite_tasks ft db i = Some r \<and> q r)))"
proof -
  obtain f db1 where st: "statement db = (f, db1)" by (cases "statement db")
  have rows: "db_rows db1 = db_rows db" using statement_frame[OF st] by simp
  show ?thesis
  proof (cases f)
    case (Some x)
    then show ?thesis using assms(1,2) st sqlite_inv_cong[OF rows] sqlite_tasks_cong[OF rows]
      by (auto simp: delete_where_def)
  next
    case None
    then have res: "res = Ok (int (length (filter p (db_rows db))))"
      and rows': "db_rows db' = filter (\<lambda>x. \<not> p x) (db_rows db)"
      using assms(2) st rows by (auto simp: delete_where_def)
    have inv': "sqlite_inv db'" using inv rows' by (auto simp: sqlite_inv_def distinct_map inj_on_def)
    have "sqlite_tasks ft db' i =
        (case sqlite_tasks ft db i of None \<Rightarrow> None | Some r \<Rightarrow> if q r then None else Some r)" for i
    proof (rule option.exhaust[of "sqlite_tasks ft db i"])
      assume none: "sqlite_tasks ft db i = None"
      then have "sqlite_tasks ft db' i = None"
        unfolding sqlite_tasks_None[OF inv] sqlite_tasks_None[OF inv'] rows' by auto
      with none show ?thesis by simp
    next
      fix r assume some: "sqlite_tasks ft db i = Some r"
      then obtain r0 where r0: "row_of r0 \<in> set (db_rows db)" "storable_row r0" "r = stored_row ft r0" "tr_ID r0 = i"
        using sqlite_tasks_iff[OF inv] by auto
      show ?thesis
      proof (cases "q r")
        case False
        then have "sqlite_tasks ft db' i = Some r" using r0 p rows' sqlite_tasks_iff[OF inv'] by auto
        then show ?thesis using some False by simp
      next
        case True
        have "x = row_of r0" if "x \<in> set (db_rows db)" "row_id x = i" for x
          using that r0(1,4) inv by (auto simp: sqlite_inv_def distinct_map inj_on_def)
        then have "i \<notin> row_id ` set (db_rows db')" using True r0(3) p rows' by auto
        then show ?thesis using some True sqlite_tasks_None[OF inv'] by simp
      qed
    qed
    moreover have "(\<exists>i r. sqlite_tasks ft db i = Some r \<and> q r) \<longleftrightarrow> filter p (db_rows db) \<noteq> []"
    proof -
      have "(\<exists>i r. sqlite_tasks ft db i = Some r \<and> q r) \<longleftrightarrow>
          (\<exists>r0. row_of r0 \<in> set (db_rows db) \<and> storable_row r0 \<and> p (row_of r0))"
        unfolding sqlite_tasks_iff[OF inv] p by blast
      also have "\<dots> \<longleftrightarrow> (\<exists>row \<in> set (db_rows db). p row)" using inv by (auto simp: sqlite_inv_def)
      finally show ?thesis by (auto simp: filter_empty_conv)
    qed
    ultimately show ?thesis using res inv' by auto
  qed
qed

lemma scan_all_map:
  "\<forall>row \<in> set rows. \<exists>r. storable_row r \<and> row = row_of r \<Longrightarrow>
   scan_all ft rows = Ok ts \<Longrightarrow> map tr_ID ts = map row_id rows \<and>
     set ts = {stored_row ft r | r. storable_row r \<and> row_of r \<in> set rows}"
proof (induction rows arbitrary: ts)
  case (Cons row rows)
  then obtain r where r: "storable_row r" "row = row_of r" by auto
  with Cons.prems(2) obtain ts' where ts: "scan_all ft rows = Ok ts'" "ts = stored_row ft r # ts'"
    by (auto simp: scan_row_of bind_result_eq_Inr)
  have same: "stored_row ft r' = stored_row ft r" if "storable_row r'" "row_of r' = row_of r" for r'
    using scan_row_of[OF that(1), of ft, unfolded that(2)] scan_row_of[OF r(1), of ft] by (metis sum.inject(2))
  have IH: "map tr_ID ts' = map row_id rows" "set ts' = {stored_row ft r | r. storable_row r \<and> row_of r \<in> set rows}"
    using Cons.IH[OF _ ts(1)] Cons.prems(1) by auto
  have "{stored_row ft r' | r'. storable_row r' \<and> row_of r' \<in> set (row # rows)} =
      insert (stored_row ft r) {stored_row ft r' | r'. storable_row r' \<and> row_of r' \<in> set rows}"
    (is "?L = insert _ ?R")
  proof (intro equalityI subsetI)
    fix x assume "x \<in> ?L"
    then obtain r' where "storable_row r'" "x = stored_row ft r'" "row_of r' = row_of r \<or> row_of r' \<in> set rows"
      using r(2) by auto
    then show "x \<in> insert (stored_row ft r) ?R" using same by blast
  next
    fix x assume "x \<in> insert (stored_row ft r) ?R"
    then show "x \<in> ?L" using r by auto
  qed
  then show ?case using IH ts(2) r(2) by simp
qed simp

lemma sqlite_ListStaleTasks_law:
  assumes inv: "sqlite_inv db" and "sqlite_ListStaleTasks ft db = (db', res)"
  shows "sqlite_inv db' \<and> sqlite_tasks ft db' = sqlite_tasks ft db \<and>
    (\<forall>ts. res = Inr ts \<longrightarrow> distinct (map tr_ID ts) \<and>
       set ts = {r. sqlite_tasks ft db (tr_ID r) = Some r \<and> tr_Status r = TaskStatusRunning})"
proof -
  obtain e db1 where st: "statement db = (e, db1)" by (cases "statement db")
  have rows: "db_rows db1 = db_rows db" using statement_frame[OF st] by simp
  have "db' = db1"
    using assms(2) st by (auto simp: sqlite_ListStaleTasks_def queryMany_def split: option.splits)
  moreover have "distinct (map tr_ID ts) \<and>
       set ts = {r. sqlite_tasks ft db (tr_ID r) = Some r \<and> tr_Status r = TaskStatusRunning}"
    if "res = Inr ts" for ts
  proof -
    define run where "run = filter (\<lambda>x. row_status x = TaskStatusRunning) (db_rows db)"
    have scan: "scan_all ft run = Ok ts" using assms(2) that st rows
      by (auto simp: sqlite_ListStaleTasks_def queryMany_def run_def split: option.splits)
    have "\<forall>row \<in> set run. \<exists>r. storable_row r \<and> row = row_of r" using inv by (auto simp: sqlite_inv_def run_def)
    from scan_all_map[OF this scan] have ids: "map tr_ID ts = map row_id run"
      and set_ts: "set ts = {stored_row ft r | r. storable_row r \<and> row_of r \<in> set run}" by auto
    have "distinct (map row_id run)" using inv by (auto simp: sqlite_inv_def run_def distinct_map inj_on_def)
    moreover have "set ts = {r. sqlite_tasks ft db (tr_ID r) = Some r \<and> tr_Status r = TaskStatusRunning}"
      unfolding set_ts sqlite_tasks_iff[OF inv] run_def by auto
    ultimately show ?thesis using ids by simp
  qed
  ultimately show ?thesis using inv sqlite_inv_cong[OF rows] sqlite_tasks_cong[OF rows] by simp
qed

text \<open>The first row of a descending sort is a row with the greatest text.\<close>

lemma text_less_irrefl [simp]: "\<not> text_less s s"
  by (induction s) auto

lemma text_less_trans: "text_less a b \<Longrightarrow> text_less b c \<Longrightarrow> text_less a c"
proof (induction a c arbitrary: b rule: text_less.induct)
  case (1 s)
  then show ?case by (cases b) auto
next
  case (3 x s y t)
  then show ?case by (cases b) auto
qed simp

lemma text_less_total: "text_less a b \<or> a = b \<or> text_less b a"
proof (induction a b rule: text_less.induct)
  case (1 s)
  then show ?case by (cases s) auto
next
  case (3 c s d t)
  have "(of_char c :: nat) < of_char d \<or> c = d \<or> (of_char d :: nat) < of_char c"
    using linorder_less_linear[of "of_char c :: nat" "of_char d"] by auto
  then show ?case using 3 by auto
qed simp

lemma set_insert_desc [simp]: "set (insert_desc r xs) = insert r (set xs)"
  by (induction xs) auto

lemma set_order_desc [simp]: "set (order_desc rows) = set rows"
proof -
  have "set (foldr insert_desc rows acc) = set rows \<union> set acc" for acc by (induction rows) auto
  then show ?thesis by (simp add: order_desc_def)
qed

lemma insert_desc_hd:
  assumes "\<forall>x \<in> set xs. \<not> text_less (row_submitted_at (hd xs)) (row_submitted_at x)"
  shows "\<forall>x \<in> set (insert_desc r xs). \<not> text_less (row_submitted_at (hd (insert_desc r xs))) (row_submitted_at x)"
proof (cases xs)
  case (Cons y ys)
  show ?thesis
  proof (cases "text_less (row_submitted_at r) (row_submitted_at y)")
    case True
    have "\<not> text_less (row_submitted_at y) (row_submitted_at r)"
      using text_less_trans[OF True, of "row_submitted_at r"] by auto
    then show ?thesis using True assms Cons by auto
  next
    case False
    have "\<not> text_less (row_submitted_at r) (row_submitted_at x)" if "x \<in> set xs" for x
    proof
      assume less: "text_less (row_submitted_at r) (row_submitted_at x)"
      have y: "\<not> text_less (row_submitted_at y) (row_submitted_at x)" using assms that Cons by auto
      from text_less_total[of "row_submitted_at r" "row_submitted_at y"] False
      show False using less y text_less_trans[of "row_submitted_at y" "row_submitted_at r" "row_submitted_at x"] by auto
    qed
    then show ?thesis using False Cons by auto
  qed
qed simp

lemma order_desc_hd:
  "\<forall>x \<in> set rows. \<not> text_less (row_submitted_at (hd (order_desc rows))) (row_submitted_at x)"
proof -
  have "\<forall>x \<in> set (foldr insert_desc rows []).
      \<not> text_less (row_submitted_at (hd (foldr insert_desc rows []))) (row_submitted_at x)"
  proof (induction rows)
    case (Cons r rows)
    then show ?case unfolding foldr.simps o_apply by (rule insert_desc_hd)
  qed simp
  then show ?thesis using set_order_desc[of rows] by (simp add: order_desc_def)
qed

lemma sqlite_LatestByType_law:
  assumes inv: "sqlite_inv db" and "sqlite_LatestByType ft ty db = (db', res)"
  shows "sqlite_inv db' \<and> sqlite_tasks ft db' = sqlite_tasks ft db \<and>
    (res = Inr None \<longrightarrow> (\<forall>i r. sqlite_tasks ft db i = Some r \<longrightarrow> tr_Type r \<noteq> ty)) \<and>
    (\<forall>h. res = Inr (Some h) \<longrightarrow> sqlite_tasks ft db (tr_ID h) = Some h \<and> tr_Type h = ty \<and>
       (\<forall>i r. sqlite_tasks ft db i = Some r \<longrightarrow> tr_Type r = ty \<longrightarrow>
          \<not> text_less (format_time (tr_SubmittedAt h)) (format_time (tr_SubmittedAt r))))"
proof -
  define typed where "typed = filter (\<lambda>x. row_type x = ty) (db_rows db)"
  obtain e db1 where st: "statement db = (e, db1)" by (cases "statement db")
  have rows: "db_rows db1 = db_rows db" using statement_frame[OF st] by simp
  have db': "db' = db1" using assms(2) st by (auto simp: sqlite_LatestByType_def query_row_def split: option.splits)
  have res: "res = Err (the e) \<and> e \<noteq> None \<or> order_desc typed = [] \<and> res = Ok None \<or>
      (\<exists>row rest. order_desc typed = row # rest \<and>
         res = bind_result (scanTaskResult ft row) (\<lambda>r. Ok (Some r)))"
    using assms(2) st rows
    by (cases "order_desc typed")
       (auto simp: sqlite_LatestByType_def query_row_def limit_rows_def typed_def split: option.splits)
  have in_typed: "\<exists>r0. row_of r0 \<in> set typed \<and> r = stored_row ft r0"
    if "sqlite_tasks ft db i = Some r" "tr_Type r = ty" for i r
    using that by (auto simp: sqlite_tasks_iff[OF inv] typed_def)
  have "tr_Type r \<noteq> ty" if "res = Inr None" "sqlite_tasks ft db i = Some r" for i r
  proof
    assume "tr_Type r = ty"
    with in_typed that(2) have "typed \<noteq> []" by fastforce
    then have "order_desc typed \<noteq> []" by (metis set_empty set_order_desc)
    then show False using res that(1) by (cases "scanTaskResult ft (hd (order_desc typed))") auto
  qed
  moreover have "sqlite_tasks ft db (tr_ID h) = Some h \<and> tr_Type h = ty \<and>
      (\<forall>i r. sqlite_tasks ft db i = Some r \<longrightarrow> tr_Type r = ty \<longrightarrow>
          \<not> text_less (format_time (tr_SubmittedAt h)) (format_time (tr_SubmittedAt r)))"
    if "res = Inr (Some h)" for h
  proof -
    from that res obtain row rest where row: "order_desc typed = row # rest"
      and b: "bind_result (scanTaskResult ft row) (\<lambda>r. Ok (Some r)) = Ok (Some h)" by auto
    from b have scan: "scanTaskResult ft row = Ok h" by (simp add: bind_result_eq_Inr)
    have "row \<in> set typed" using row by (metis list.set_intros(1) set_order_desc)
    moreover from this obtain r0 where r0: "storable_row r0" "row = row_of r0"
      using inv by (auto simp: sqlite_inv_def typed_def)
    ultimately have h: "sqlite_tasks ft db (tr_ID h) = Some h" "tr_Type h = ty" "h = stored_row ft r0"
      using scan scan_row_of[OF r0(1), of ft] by (auto simp: sqlite_tasks_iff[OF inv] typed_def)
    have "\<not> text_less (format_time (tr_SubmittedAt h)) (format_time (tr_SubmittedAt r))"
      if r: "sqlite_tasks ft db i = Some r" "tr_Type r = ty" for i r
    proof -
      obtain r1 where "row_of r1 \<in> set typed" "r = stored_row ft r1" using in_typed[OF r] by auto
      then show ?thesis using order_desc_hd[of typed] row r0(2) h(3) by fastforce
    qed
    then show ?thesis using h by auto
  qed
  ultimately show ?thesis using db' inv sqlite_inv_cong[OF rows] sqlite_tasks_cong[OF rows] by auto
qed

lemma sqlite_Delete_law:
  assumes inv: "sqlite_inv db" and "sqlite_Delete i db = (db', res)"
  shows "sqlite_inv db' \<and> (case res of Inl e \<Rightarrow> sqlite_tasks ft db' = sqlite_tasks ft db
    | Inr b \<Rightarrow> b = (sqlite_tasks ft db i \<noteq> None) \<and> sqlite_tasks ft db' = (sqlite_tasks ft db)(i := None))"
proof -
  obtain x where d: "delete_where (\<lambda>x. row_id x = i) db = (db', x)" and res: "res = map_sum id (\<lambda>n. n > 0) x"
    using assms(2) by (cases "delete_where (\<lambda>x. row_id x = i) db") (auto simp: sqlite_Delete_def)
  have ident: "sqlite_tasks ft db j = Some r \<Longrightarrow> tr_ID r = j" for j r by (auto simp: sqlite_tasks_iff[OF inv])
  note law = delete_where_law[OF inv d, of "\<lambda>r. tr_ID r = i" ft]
  have "(\<lambda>j. case sqlite_tasks ft db j of None \<Rightarrow> None | Some r \<Rightarrow> if tr_ID r = i then None else Some r) =
      (sqlite_tasks ft db)(i := None)"
    using ident by (auto simp: fun_eq_iff split: option.splits)
  moreover have "(\<exists>j r. sqlite_tasks ft db j = Some r \<and> tr_ID r = i) \<longleftrightarrow> sqlite_tasks ft db i \<noteq> None"
    using ident by fastforce
  ultimately show ?thesis using law res by (cases x) auto
qed

interpretation sq: result_store "SQLiteStore ft" sqlite_inv "sqlite_tasks ft" "stored_row ft" storable_row for ft
proof (unfold_locales, goal_cases)
  case (1 s r s' e)
  then show ?case using sqlite_Save_law by (simp add: SQLiteStore_def)
next
  case (2 s i s' res)
  then show ?case using sqlite_Get_law[of s ft i s' res] by (simp add: SQLiteStore_def)
next
  case (3 s i s' res)
  then show ?case using sqlite_Delete_law[of s i s' res] by (simp add: SQLiteStore_def)
next
  case (4 s ty s' res)
  then show ?case using delete_where_law[of s "\<lambda>x. row_type x = ty" s' res "\<lambda>r. tr_Type r = ty" ft]
    by (auto simp: SQLiteStore_def sqlite_DeleteByType_def split: sum.splits)
next
  case (5 s s' res)
  then show ?case using sqlite_ListStaleTasks_law[of s ft s' res] by (simp add: SQLiteStore_def)
next
  case (6 s ty s' res)
  then show ?case using sqlite_LatestByType_law[of s ft ty s' res] by (simp add: SQLiteStore_def)
next
  case (7 s i r)
  then show ?case by (auto simp: sqlite_tasks_iff storable_row_def)
qed (auto simp: storable_row_def)

end
