(* ===== verification/SidecarEngine.thy ===== *)
theory SidecarEngine
  imports StoreProps
begin

text \<open>
  The sidecar's task engine (\<open>sidecar/engine/engine.go\<close>, \<open>types.go\<close>, \<open>typed_handler.go\<close>,
  \<open>sidecar/tasks/mark_not_ready.go\<close>, \<open>ready.go\<close>).

  A context is named by the generation that registered it; \<open>e_cancelled\<close> holds the generations
  whose cancel function has been called and \<open>e_stopped\<close> says that the engine's own context is
  cancelled.  A handler is a function of its context (generation, and whether it is cancelled when
  the handler returns), its params and the store: the only state of the engine a handler can reach
  is the store, which the mark-not-ready handler changes with a single statement.  The flag beside a
  handler's error says whether it wraps \<open>context.Canceled\<close>.

  Every operation that takes a lock or touches the store several times is the composition of the
  steps between which other goroutines may run (\<open>submit_read\<close>, \<open>submit_write\<close>;
  \<open>executeRecovered\<close>, \<open>persist_outcome\<close>, \<open>clearCancel\<close>; \<open>remove_cancel\<close>,
  \<open>remove_row\<close>, \<open>remove_entry\<close>): \<open>EngineMachine\<close> interleaves them.
\<close>

subsection \<open>Tasks and handlers\<close>

definition TaskMarkReady :: string where "TaskMarkReady = ''mark-ready''"
definition TaskMarkNotReady :: string where "TaskMarkNotReady = ''mark-not-ready''"

record Task =
  task_ID :: string
  task_Type :: string
  task_Params :: "table option"

type_synonym handler_error = "error \<times> bool"

datatype handler_outcome =
    Returned "string option" "handler_error option"
  | Panicked string

type_synonym 's task_handler = "nat \<Rightarrow> bool \<Rightarrow> table option \<Rightarrow> 's \<Rightarrow> 's \<times> handler_outcome"

text \<open>\<open>TypedHandlerWithResult\<close>: the params go through JSON into the handler's own type
  (\<open>decode\<close>), the result through \<open>marshal\<close>; a result that prints as \<open>null\<close> is none, and a
  marshalling error shows only when the handler itself succeeded.\<close>

definition TypedHandlerWithResult ::
    "(json \<Rightarrow> 't result) \<Rightarrow> ('r \<Rightarrow> string result) \<Rightarrow>
     (nat \<Rightarrow> bool \<Rightarrow> 't \<Rightarrow> 's \<Rightarrow> 's \<times> 'r \<times> handler_error option) \<Rightarrow> 's task_handler" where
  "TypedHandlerWithResult decode marshal fn g cancelled params s =
     (case decode (marshal_params params) of
        Inl e \<Rightarrow> (s, Returned None (Some (''parsing params: '' @ e, False)))
      | Inr typed \<Rightarrow>
          (case fn g cancelled typed s of (s1, res, ferr) \<Rightarrow>
            (case marshal res of
               Inl e \<Rightarrow> (s1, Returned None (if ferr = None then Some (''marshaling result: '' @ e, False) else ferr))
             | Inr raw \<Rightarrow> (s1, Returned (if raw = ''null'' then None else Some raw) ferr))))"

definition TypedHandler ::
    "(json \<Rightarrow> 't result) \<Rightarrow> (nat \<Rightarrow> bool \<Rightarrow> 't \<Rightarrow> 's \<Rightarrow> 's \<times> handler_error option) \<Rightarrow> 's task_handler" where
  "TypedHandler decode fn =
     TypedHandlerWithResult decode (\<lambda>_. Ok ''null'')
       (\<lambda>g c p s. case fn g c p s of (s1, err) \<Rightarrow> (s1, (), err))"

text \<open>Decoding into the empty struct: any object, or null.\<close>

definition decode_empty :: "json \<Rightarrow> unit result" where
  "decode_empty j = (case j of JNull \<Rightarrow> Ok () | JObject _ \<Rightarrow> Ok ()
     | _ \<Rightarrow> Err ''json: cannot unmarshal into Go value of type struct {}'')"

definition MarkReadyHandler :: "'s task_handler" where
  "MarkReadyHandler = TypedHandler decode_empty (\<lambda>_ _ _ s. (s, None))"

definition MarkNotReadier :: "'s ResultStore \<Rightarrow> 's task_handler" where
  "MarkNotReadier S = TypedHandler decode_empty
     (\<lambda>_ _ _ s. case rs_DeleteByType S TaskMarkReady s of
        (s1, Inl e) \<Rightarrow> (s1, Some (''mark-not-ready: purging mark-ready records: '' @ e, False))
      | (s1, Inr n) \<Rightarrow> (s1, None))"

subsection \<open>The engine\<close>

record 's engine_env =
  env_store :: "'s ResultStore"
  env_handlers :: "string \<Rightarrow> 's task_handler option"
  env_uuid_valid :: "string \<Rightarrow> bool"

record 's engine =
  e_store :: 's
  e_ready :: bool
  e_cancels :: "string \<Rightarrow> nat option"
  e_gen :: nat
  e_cancelled :: "nat list"
  e_stopped :: bool

definition NewEngine :: "'s \<Rightarrow> 's engine" where
  "NewEngine st = \<lparr>e_store = st, e_ready = False, e_cancels = Map.empty, e_gen = 0, e_cancelled = [],
     e_stopped = False\<rparr>"

text \<open>A run of a task: the arguments of \<open>runTaskSync\<close>.\<close>

record goroutine =
  g_id :: string
  g_type :: string
  g_params :: "table option"
  g_submittedAt :: go_time
  g_run :: int
  g_gen :: nat

definition ctx_cancelled :: "'s engine \<Rightarrow> nat \<Rightarrow> bool" where
  "ctx_cancelled e g \<longleftrightarrow> e_stopped e \<or> g \<in> set (e_cancelled e)"

definition on_store :: "('s \<Rightarrow> 's \<times> 'a) \<Rightarrow> 's engine \<Rightarrow> 's engine \<times> 'a" where
  "on_store f e = (case f (e_store e) of (st, x) \<Rightarrow> (e\<lparr>e_store := st\<rparr>, x))"

definition newTaskContext :: "string \<Rightarrow> 's engine \<Rightarrow> 's engine \<times> nat" where
  "newTaskContext i e =
     (let gen = e_gen e + 1
      in (e\<lparr>e_gen := gen, e_cancels := (e_cancels e)(i \<mapsto> gen)\<rparr>, gen))"

definition cancel_gen :: "nat \<Rightarrow> 's engine \<Rightarrow> 's engine" where
  "cancel_gen g e = e\<lparr>e_cancelled := g # e_cancelled e\<rparr>"

definition clearCancel :: "string \<Rightarrow> nat \<Rightarrow> 's engine \<Rightarrow> 's engine" where
  "clearCancel i g e =
     (if e_cancels e i = Some g then (cancel_gen g e)\<lparr>e_cancels := (e_cancels e)(i := None)\<rparr> else e)"

subsection \<open>Running a task\<close>

definition execute ::
    "string \<Rightarrow> 's task_handler \<Rightarrow> nat \<Rightarrow> table option \<Rightarrow> 's engine \<Rightarrow> 's engine \<times> handler_outcome" where
  "execute ty h g params e =
     (case on_store (h g (ctx_cancelled e g) params) e of
        (e1, Returned res None) \<Rightarrow>
          (if ty = TaskMarkReady then e1\<lparr>e_ready := True\<rparr>
           else if ty = TaskMarkNotReady then e1\<lparr>e_ready := False\<rparr> else e1, Returned res None)
      | (e1, out) \<Rightarrow> (e1, out))"

definition executeRecovered ::
    "string \<Rightarrow> 's task_handler \<Rightarrow> nat \<Rightarrow> table option \<Rightarrow> 's engine \<Rightarrow>
     's engine \<times> string option \<times> handler_error option" where
  "executeRecovered ty h g params e =
     (case execute ty h g params e of
        (e1, Returned res err) \<Rightarrow> (e1, res, err)
      | (e1, Panicked p) \<Rightarrow> (e1, None, Some (''task handler panicked: '' @ p, False)))"

text \<open>The second half of \<open>runTaskSync\<close>: a failed run of a cancelled task writes nothing; every other
  run writes its outcome.\<close>

definition outcome_row :: "go_time \<Rightarrow> goroutine \<Rightarrow> string option \<Rightarrow> handler_error option \<Rightarrow> TaskResult" where
  "outcome_row now g res err =
     \<lparr>tr_ID = g_id g, tr_Type = g_type g,
      tr_Status = (if err = None then TaskStatusCompleted else TaskStatusFailed), tr_Run = g_run g,
      tr_Params = g_params g, tr_Result = res, tr_Error = (case err of None \<Rightarrow> [] | Some (m, _) \<Rightarrow> m),
      tr_SubmittedAt = g_submittedAt g, tr_CompletedAt = Some now\<rparr>"

definition persist_outcome ::
    "'s engine_env \<Rightarrow> go_time \<Rightarrow> goroutine \<Rightarrow> string option \<Rightarrow> handler_error option \<Rightarrow> 's engine \<Rightarrow> 's engine" where
  "persist_outcome env now g res err e =
     (if (case err of None \<Rightarrow> False | Some (_, canceled) \<Rightarrow> canceled \<or> ctx_cancelled e (g_gen g)) then e
      else fst (on_store (rs_Save (env_store env) (outcome_row now g res err)) e))"

definition runTaskSync ::
    "'s engine_env \<Rightarrow> 's task_handler \<Rightarrow> go_time \<Rightarrow> goroutine \<Rightarrow> 's engine \<Rightarrow> 's engine" where
  "runTaskSync env h now g e =
     (case executeRecovered (g_type g) h (g_gen g) (g_params g) e of
        (e1, res, err) \<Rightarrow> clearCancel (g_id g) (g_gen g) (persist_outcome env now g res err e1))"

subsection \<open>Submitting\<close>

definition validateTaskID :: "'s engine_env \<Rightarrow> string \<Rightarrow> error option" where
  "validateTaskID env i =
     (if i = [] \<or> env_uuid_valid env i then None
      else Some (''task ID must be a valid UUID: '' @ quoted i))"

text \<open>What \<open>store.Get\<close> says about a submission: nothing to do, or the number of the run to start.
  The error of the read is dropped.\<close>

definition submit_decision :: "TaskResult option result \<Rightarrow> int option" where
  "submit_decision res =
     (case res of
        Inr (Some existing) \<Rightarrow>
          if tr_Status existing = TaskStatusRunning \<or> tr_Status existing = TaskStatusCompleted then None
          else if tr_Status existing = TaskStatusFailed then Some (tr_Run existing + 1) else Some 1
      | _ \<Rightarrow> Some 1)"

definition submit_read :: "'s engine_env \<Rightarrow> string \<Rightarrow> 's engine \<Rightarrow> 's engine \<times> int option" where
  "submit_read env i e =
     (case on_store (rs_Get (env_store env) i) e of (e1, res) \<Rightarrow> (e1, submit_decision res))"

definition running_row :: "go_time \<Rightarrow> Task \<Rightarrow> string \<Rightarrow> int \<Rightarrow> TaskResult" where
  "running_row now task i run =
     \<lparr>tr_ID = i, tr_Type = task_Type task, tr_Status = TaskStatusRunning, tr_Run = run,
      tr_Params = task_Params task, tr_Result = None, tr_Error = [], tr_SubmittedAt = now,
      tr_CompletedAt = None\<rparr>"

definition submit_write ::
    "'s engine_env \<Rightarrow> go_time \<Rightarrow> Task \<Rightarrow> string \<Rightarrow> int \<Rightarrow> 's engine \<Rightarrow>
     's engine \<times> goroutine option \<times> string result" where
  "submit_write env now task i run e =
     (case on_store (rs_Save (env_store env) (running_row now task i run)) e of
        (e1, Some err) \<Rightarrow> (e1, None, Err (''persist task: '' @ err))
      | (e1, None) \<Rightarrow>
          (case newTaskContext i e1 of (e2, gen) \<Rightarrow>
            (e2, Some \<lparr>g_id = i, g_type = task_Type task, g_params = task_Params task, g_submittedAt = now,
                       g_run = run, g_gen = gen\<rparr>, Ok i)))"

text \<open>\<open>Submit\<close>: the goroutine it starts, if any, and the task id or the error.  \<open>fresh\<close> is the
  random UUID used for a task without an id.\<close>

definition submit_guard :: "'s engine_env \<Rightarrow> string \<Rightarrow> Task \<Rightarrow> string result" where
  "submit_guard env fresh task =
     (case env_handlers env (task_Type task) of
        None \<Rightarrow> Err (''unknown task type: '' @ task_Type task)
      | Some _ \<Rightarrow>
          (case validateTaskID env (task_ID task) of
             Some err \<Rightarrow> Err err
           | None \<Rightarrow> Ok (if task_ID task = [] then fresh else task_ID task)))"

definition Submit ::
    "'s engine_env \<Rightarrow> string \<Rightarrow> go_time \<Rightarrow> Task \<Rightarrow> 's engine \<Rightarrow> 's engine \<times> goroutine option \<times> string result" where
  "Submit env fresh now task e =
     (case submit_guard env fresh task of
        Inl err \<Rightarrow> (e, None, Err err)
      | Inr i \<Rightarrow>
          (case submit_read env i e of
             (e1, None) \<Rightarrow> (e1, None, Ok i)
           | (e1, Some run) \<Rightarrow> submit_write env now task i run e1))"

subsection \<open>Crash recovery\<close>

definition fail_row :: "error \<Rightarrow> go_time \<Rightarrow> TaskResult \<Rightarrow> TaskResult" where
  "fail_row msg now tr = tr\<lparr>tr_Status := TaskStatusFailed, tr_Error := msg, tr_CompletedAt := Some now\<rparr>"

definition resolveStaleHandler ::
    "'s engine_env \<Rightarrow> go_time \<Rightarrow> TaskResult \<Rightarrow> 's engine \<Rightarrow> 's engine \<times> 's task_handler option" where
  "resolveStaleHandler env now tr e =
     (case env_handlers env (tr_Type tr) of
        Some h \<Rightarrow> (e, Some h)
      | None \<Rightarrow>
          (fst (on_store (rs_Save (env_store env) (fail_row ''no handler registered for task type'' now tr)) e), None))"

definition markReadySuperseded ::
    "'s engine_env \<Rightarrow> go_time \<Rightarrow> TaskResult \<Rightarrow> 's engine \<Rightarrow> 's engine \<times> bool" where
  "markReadySuperseded env now mr e =
     (case on_store (rs_LatestByType (env_store env) TaskMarkNotReady) e of
        (e1, Inl err) \<Rightarrow> (e1, True)
      | (e1, Inr None) \<Rightarrow> (e1, False)
      | (e1, Inr (Some hold)) \<Rightarrow>
          if tr_SubmittedAt hold < tr_SubmittedAt mr then (e1, False)
          else (fst (on_store (rs_Save (env_store env) (fail_row ''superseded by hold'' now mr)) e1), True))"

definition stale_goroutine :: "TaskResult \<Rightarrow> nat \<Rightarrow> goroutine" where
  "stale_goroutine tr gen = \<lparr>g_id = tr_ID tr, g_type = tr_Type tr, g_params = tr_Params tr,
     g_submittedAt = tr_SubmittedAt tr, g_run = tr_Run tr, g_gen = gen\<rparr>"

text \<open>The first loop: every stale hold is run to its end, in order.  \<open>now i\<close> is the clock while the
  row \<open>i\<close> is handled.\<close>

fun rehydrate_holds ::
    "'s engine_env \<Rightarrow> (string \<Rightarrow> go_time) \<Rightarrow> TaskResult list \<Rightarrow> 's engine \<Rightarrow> 's engine \<times> bool" where
  "rehydrate_holds env now [] e = (e, False)"
| "rehydrate_holds env now (tr # trs) e =
     (if tr_Type tr \<noteq> TaskMarkNotReady then rehydrate_holds env now trs e
      else (case resolveStaleHandler env (now (tr_ID tr)) tr e of
              (e1, None) \<Rightarrow> (fst (rehydrate_holds env now trs e1), True)
            | (e1, Some h) \<Rightarrow>
                (case newTaskContext (tr_ID tr) e1 of (e2, gen) \<Rightarrow>
                  (fst (rehydrate_holds env now trs
                     (runTaskSync env h (now (tr_ID tr)) (stale_goroutine tr gen) e2)), True))))"

definition rehydrate_one ::
    "'s engine_env \<Rightarrow> go_time \<Rightarrow> TaskResult \<Rightarrow> 's engine \<Rightarrow> 's engine \<times> goroutine list" where
  "rehydrate_one env now tr e =
     (case resolveStaleHandler env now tr e of
        (e1, None) \<Rightarrow> (e1, [])
      | (e1, Some h) \<Rightarrow> (case newTaskContext (tr_ID tr) e1 of (e2, gen) \<Rightarrow> (e2, [stale_goroutine tr gen])))"

definition rehydrate_step ::
    "'s engine_env \<Rightarrow> go_time \<Rightarrow> TaskResult \<Rightarrow> 's engine \<Rightarrow> 's engine \<times> goroutine list" where
  "rehydrate_step env now tr e =
     (if tr_Type tr = TaskMarkNotReady then (e, [])
      else if tr_Type tr = TaskMarkReady then
        (case markReadySuperseded env now tr e of
           (e1, True) \<Rightarrow> (e1, [])
         | (e1, False) \<Rightarrow> rehydrate_one env now tr e1)
      else rehydrate_one env now tr e)"

fun rehydrate_rest ::
    "'s engine_env \<Rightarrow> (string \<Rightarrow> go_time) \<Rightarrow> TaskResult list \<Rightarrow> 's engine \<Rightarrow> 's engine \<times> goroutine list" where
  "rehydrate_rest env now [] e = (e, [])"
| "rehydrate_rest env now (tr # trs) e =
     (case rehydrate_step env (now (tr_ID tr)) tr e of (e1, gs) \<Rightarrow>
       (case rehydrate_rest env now trs e1 of (e2, gs') \<Rightarrow> (e2, gs @ gs')))"

definition RehydrateStaleTasks ::
    "'s engine_env \<Rightarrow> (string \<Rightarrow> go_time) \<Rightarrow> 's engine \<Rightarrow> 's engine \<times> goroutine list" where
  "RehydrateStaleTasks env now e =
     (case on_store (rs_ListStaleTasks (env_store env)) e of
        (e1, Inl err) \<Rightarrow> (e1, [])
      | (e1, Inr stale) \<Rightarrow>
          (case rehydrate_holds env now stale e1 of
             (e2, False) \<Rightarrow> rehydrate_rest env now stale e2
           | (e2, True) \<Rightarrow>
               (case on_store (rs_ListStaleTasks (env_store env)) e2 of
                  (e3, Inl err) \<Rightarrow> (e3, [])
                | (e3, Inr stale') \<Rightarrow> rehydrate_rest env now stale' e3)))"

subsection \<open>Removing and reading\<close>

definition remove_cancel :: "string \<Rightarrow> 's engine \<Rightarrow> 's engine \<times> nat option" where
  "remove_cancel i e =
     (case e_cancels e i of None \<Rightarrow> (e, None) | Some g \<Rightarrow> (cancel_gen g e, Some g))"

definition remove_row :: "'s engine_env \<Rightarrow> string \<Rightarrow> 's engine \<Rightarrow> 's engine \<times> bool result" where
  "remove_row env i = on_store (rs_Delete (env_store env) i)"

definition remove_entry :: "string \<Rightarrow> nat option \<Rightarrow> 's engine \<Rightarrow> 's engine" where
  "remove_entry i entry e =
     (if entry \<noteq> None \<and> e_cancels e i = entry then e\<lparr>e_cancels := (e_cancels e)(i := None)\<rparr> else e)"

definition RemoveResult :: "'s engine_env \<Rightarrow> string \<Rightarrow> 's engine \<Rightarrow> 's engine \<times> bool result" where
  "RemoveResult env i e =
     (case remove_cancel i e of (e1, entry) \<Rightarrow>
       (case remove_row env i e1 of
          (e2, Inl err) \<Rightarrow> (e2, Inl err)
        | (e2, Inr deleted) \<Rightarrow> (remove_entry i entry e2, Inr deleted)))"

definition Healthz :: "'s engine \<Rightarrow> bool" where
  "Healthz e = e_ready e"

definition Livez :: "'s engine_env \<Rightarrow> 's engine \<Rightarrow> 's engine \<times> error option" where
  "Livez env = on_store (rs_Ping (env_store env))"

definition Status :: "'s engine \<Rightarrow> string" where
  "Status e = (if e_ready e then ''Ready'' else ''Initializing'')"

definition RecentResults :: "'s engine_env \<Rightarrow> 's engine \<Rightarrow> 's engine \<times> TaskResult list" where
  "RecentResults env e =
     (case on_store (rs_List (env_store env) 100) e of (e1, Inl _) \<Rightarrow> (e1, []) | (e1, Inr rs) \<Rightarrow> (e1, rs))"

definition GetResult :: "'s engine_env \<Rightarrow> string \<Rightarrow> 's engine \<Rightarrow> 's engine \<times> TaskResult option" where
  "GetResult env i e =
     (case on_store (rs_Get (env_store env) i) e of (e1, Inl _) \<Rightarrow> (e1, None) | (e1, Inr r) \<Rightarrow> (e1, r))"

end
