(* ===== verification/EngineProps.thy ===== *)
theory EngineProps
  imports SidecarEngine
begin

text \<open>
  What the engine guarantees over any store that keeps the contract \<open>result_store\<close>: the lifecycle
  of a submission, and crash recovery.  The locale \<open>engine_store\<close> adds to the contract an engine
  environment that uses that store; \<open>sidecar_env\<close>, the environment \<open>serve.go\<close> builds over the
  SQLite store, is its interpretation.
\<close>

subsection \<open>The abstract lifecycle\<close>

text \<open>A task id has no row, or a row in one of three states.  Submitting starts run 1 of an absent
  task, the next run of a failed one, and nothing otherwise.\<close>

definition next_run :: "TaskResult option \<Rightarrow> int option" where
  "next_run row =
     (case row of
        None \<Rightarrow> Some 1
      | Some r \<Rightarrow> if tr_Status r = TaskStatusFailed then Some (tr_Run r + 1) else None)"

definition known_status :: "string \<Rightarrow> bool" where
  "known_status s \<longleftrightarrow> s \<in> {TaskStatusRunning, TaskStatusCompleted, TaskStatusFailed}"

text \<open>The type and the submission time of every row: crash recovery keeps them.\<close>

definition stamps :: "(string \<Rightarrow> TaskResult option) \<Rightarrow> string \<Rightarrow> (string \<times> go_time) option" where
  "stamps T i = map_option (\<lambda>r. (tr_Type r, tr_SubmittedAt r)) (T i)"

text \<open>The text of the timestamps of the holds sorts them by time.\<close>

definition holds_ordered :: "(string \<Rightarrow> TaskResult option) \<Rightarrow> bool" where
  "holds_ordered T \<longleftrightarrow>
     (\<forall>i j a b. stamps T i = Some (TaskMarkNotReady, a) \<longrightarrow> stamps T j = Some (TaskMarkNotReady, b) \<longrightarrow>
        a < b \<longrightarrow> text_less (format_time a) (format_time b))"

definition holds_before :: "(string \<Rightarrow> TaskResult option) \<Rightarrow> go_time \<Rightarrow> bool" where
  "holds_before T t \<longleftrightarrow> (\<forall>i a. stamps T i = Some (TaskMarkNotReady, a) \<longrightarrow> a < t)"

lemma holds_cong:
  "stamps T' = stamps T \<Longrightarrow> holds_ordered T' = holds_ordered T \<and> holds_before T' t = holds_before T t"
  by (simp add: holds_ordered_def holds_before_def)

lemma fail_row_simps [simp]:
  "tr_ID (fail_row m t r) = tr_ID r" "tr_Type (fail_row m t r) = tr_Type r"
  "tr_SubmittedAt (fail_row m t r) = tr_SubmittedAt r" "tr_CompletedAt (fail_row m t r) = Some t"
  "tr_Status (fail_row m t r) = TaskStatusFailed"
  by (simp_all add: fail_row_def)

lemma on_store_eq:
  "on_store f e = (e', x) \<longleftrightarrow> (\<exists>st. f (e_store e) = (st, x) \<and> e' = e\<lparr>e_store := st\<rparr>)"
  by (auto simp: on_store_def split: prod.splits)

lemma newTaskContext_eq:
  "newTaskContext i e = (e', g) \<longleftrightarrow>
     g = e_gen e + 1 \<and> e' = e\<lparr>e_gen := e_gen e + 1, e_cancels := (e_cancels e)(i \<mapsto> e_gen e + 1)\<rparr>"
  by (auto simp: newTaskContext_def)

subsection \<open>The engine over a store\<close>

locale engine_store = result_store S inv tasks stored storable
  for S :: "'s ResultStore" and inv tasks stored storable +
  fixes env :: "'s engine_env"
  assumes env_store: "env_store env = S"
    and hold_handler: "env_handlers env TaskMarkNotReady = Some (MarkNotReadier S)"
begin

lemma submit_read_law:
  assumes "inv (e_store e)" and "submit_read env i e = (e1, d)"
  shows "inv (e_store e1) \<and> tasks (e_store e1) = tasks (e_store e) \<and> e_cancels e1 = e_cancels e \<and>
    e_gen e1 = e_gen e \<and>
    ((\<exists>st x. rs_Get S i (e_store e) = (st, Inr x)) \<longrightarrow>
     (\<forall>r. tasks (e_store e) i = Some r \<longrightarrow> known_status (tr_Status r)) \<longrightarrow> d = next_run (tasks (e_store e) i))"
proof -
  obtain st res where g: "rs_Get S i (e_store e) = (st, res)" by (cases "rs_Get S i (e_store e)")
  then have e1: "e1 = e\<lparr>e_store := st\<rparr>" "d = submit_decision res"
    using assms(2) by (auto simp: submit_read_def env_store on_store_def)
  note law = Get[OF assms(1) g]
  have "d = next_run (tasks (e_store e) i)"
    if "res = Inr x" "\<forall>r. tasks (e_store e) i = Some r \<longrightarrow> known_status (tr_Status r)" for x
    using law that e1(2)
    by (auto simp: submit_decision_def next_run_def known_status_def status_defs split: option.splits)
  then show ?thesis using law e1(1) g by auto
qed

lemma submit_write_law:
  assumes "inv (e_store e)" and "printable_time now" and "submit_write env now task i run e = (e', g, res)"
  shows "inv (e_store e')"
    and "res = Inl err \<Longrightarrow> tasks (e_store e') = tasks (e_store e) \<and> g = None \<and>
           e_cancels e' = e_cancels e \<and> e_gen e' = e_gen e"
    and "res = Inr j \<Longrightarrow> j = i \<and>
           tasks (e_store e') = (tasks (e_store e))(i \<mapsto> stored (running_row now task i run)) \<and>
           g = Some \<lparr>g_id = i, g_type = task_Type task, g_params = task_Params task, g_submittedAt = now,
                     g_run = run, g_gen = e_gen e + 1\<rparr> \<and>
           e_cancels e' i = Some (e_gen e + 1) \<and> e_gen e' = e_gen e + 1"
proof -
  have ok: "storable (running_row now task i run)"
    using assms(2) by (intro storable_times) (simp_all add: running_row_def)
  obtain st f where s: "rs_Save S (running_row now task i run) (e_store e) = (st, f)"
    by (cases "rs_Save S (running_row now task i run) (e_store e)")
  note law = Save[OF assms(1) ok s] and sub = assms(3)[unfolded submit_write_def env_store on_store_def s]
  have id: "tr_ID (running_row now task i run) = i" by (simp add: running_row_def)
  show "inv (e_store e')" using sub law by (auto simp: newTaskContext_def Let_def split: option.splits)
  show "tasks (e_store e') = tasks (e_store e) \<and> g = None \<and> e_cancels e' = e_cancels e \<and> e_gen e' = e_gen e"
    if "res = Inl err"
    using sub law that by (auto simp: newTaskContext_def Let_def split: option.splits)
  show "j = i \<and> tasks (e_store e') = (tasks (e_store e))(i \<mapsto> stored (running_row now task i run)) \<and>
      g = Some \<lparr>g_id = i, g_type = task_Type task, g_params = task_Params task, g_submittedAt = now,
                g_run = run, g_gen = e_gen e + 1\<rparr> \<and>
      e_cancels e' i = Some (e_gen e + 1) \<and> e_gen e' = e_gen e + 1"
    if "res = Inr j"
    using sub law that id by (auto simp: newTaskContext_def Let_def split: option.splits)
qed

text \<open>A submission that returns an error leaves the rows and the registry alone and starts nothing.\<close>

lemma Submit_error:
  assumes "inv (e_store e)" and "printable_time now" and "Submit env fresh now task e = (e', g, Inl err)"
  shows "tasks (e_store e') = tasks (e_store e) \<and> g = None \<and> e_cancels e' = e_cancels e \<and> e_gen e' = e_gen e"
proof (cases "submit_guard env fresh task")
  case (Inl x)
  then show ?thesis using assms(3) by (simp add: Submit_def)
next
  case (Inr i)
  obtain e1 d where r: "submit_read env i e = (e1, d)" by (cases "submit_read env i e")
  note read = submit_read_law[OF assms(1) r]
  obtain run where "d = Some run" and w: "submit_write env now task i run e1 = (e', g, Inl err)"
    using assms(3) Inr r by (auto simp: Submit_def split: option.splits)
  then show ?thesis using submit_write_law(2)[OF _ assms(2) w] read by simp
qed

lemma Submit_lifecycle:
  assumes "inv (e_store e)" and "printable_time now" and "Submit env fresh now task e = (e', g, Inr i)"
    and "\<exists>st x. rs_Get S i (e_store e) = (st, Inr x)"
    and "\<forall>r. tasks (e_store e) i = Some r \<longrightarrow> known_status (tr_Status r)"
  shows "case next_run (tasks (e_store e) i) of
      None \<Rightarrow> tasks (e_store e') = tasks (e_store e) \<and> g = None \<and> e_cancels e' = e_cancels e
    | Some run \<Rightarrow> tasks (e_store e') = (tasks (e_store e))(i \<mapsto> stored (running_row now task i run)) \<and>
        g = Some \<lparr>g_id = i, g_type = task_Type task, g_params = task_Params task, g_submittedAt = now,
                  g_run = run, g_gen = e_gen e + 1\<rparr> \<and>
        e_cancels e' i = Some (e_gen e + 1)"
proof -
  obtain j where j: "submit_guard env fresh task = Inr j"
    using assms(3) by (auto simp: Submit_def split: sum.splits)
  obtain e1 d where r: "submit_read env j e = (e1, d)" by (cases "submit_read env j e")
  have ji: "j = i"
    using assms(3) j r by (auto simp: Submit_def submit_write_def split: option.splits prod.splits)
  note read = submit_read_law[OF assms(1) r, unfolded ji]
  have d: "d = next_run (tasks (e_store e) i)" using read assms(4,5) by blast
  show ?thesis
  proof (cases d)
    case None
    then show ?thesis using assms(3) j r ji d read by (auto simp: Submit_def)
  next
    case (Some run)
    then have w: "submit_write env now task i run e1 = (e', g, Inr i)"
      using assms(3) j r ji by (auto simp: Submit_def)
    show ?thesis using submit_write_law(3)[OF _ assms(2) w] read Some d by simp
  qed
qed

subsubsection \<open>Crash recovery\<close>

lemma fail_save:
  assumes "inv (e_store e)" and "printable_time now" and "printable_time (tr_SubmittedAt tr)"
    and "stamps (tasks (e_store e)) (tr_ID tr) = Some (tr_Type tr, tr_SubmittedAt tr)"
    and "on_store (rs_Save S (fail_row m now tr)) e = (e', x)"
  shows "inv (e_store e') \<and> stamps (tasks (e_store e')) = stamps (tasks (e_store e))"
proof -
  obtain st where s: "rs_Save S (fail_row m now tr) (e_store e) = (st, x)" and e': "e' = e\<lparr>e_store := st\<rparr>"
    using assms(5) by (auto simp: on_store_eq)
  have ok: "storable (fail_row m now tr)" using assms(2,3) by (intro storable_times) simp_all
  from Save[OF assms(1) ok s] show ?thesis
    using assms(4) e' by (auto simp: stamps_def fun_eq_iff stored_fields)
qed

lemma superseded_law:
  assumes inv: "inv (e_store e)" and "printable_time now" and "printable_time (tr_SubmittedAt mr)"
    and "stamps (tasks (e_store e)) (tr_ID mr) = Some (tr_Type mr, tr_SubmittedAt mr)"
    and eq: "markReadySuperseded env now mr e = (e1, b)"
  shows "inv (e_store e1) \<and> stamps (tasks (e_store e1)) = stamps (tasks (e_store e)) \<and>
    (\<not> b \<longrightarrow> holds_ordered (tasks (e_store e)) \<longrightarrow> holds_before (tasks (e_store e)) (tr_SubmittedAt mr))"
proof -
  obtain st res where l: "rs_LatestByType S TaskMarkNotReady (e_store e) = (st, res)"
    by (cases "rs_LatestByType S TaskMarkNotReady (e_store e)")
  note law = LatestByType[OF inv l]
  define e0 where "e0 = e\<lparr>e_store := st\<rparr>"
  have eq: "markReadySuperseded env now mr e =
    (case res of Inl err \<Rightarrow> (e0, True) | Inr None \<Rightarrow> (e0, False)
     | Inr (Some hold) \<Rightarrow> if tr_SubmittedAt hold < tr_SubmittedAt mr then (e0, False)
         else (fst (on_store (rs_Save S (fail_row ''superseded by hold'' now mr)) e0), True))"
    by (auto simp: markReadySuperseded_def env_store on_store_def l e0_def split: sum.splits option.splits)
  have e0: "inv (e_store e0)" "stamps (tasks (e_store e0)) = stamps (tasks (e_store e))"
    using law by (simp_all add: e0_def stamps_def fun_eq_iff)
  consider (error) err where "res = Inl err" | (none) "res = Inr None"
    | (older) h where "res = Inr (Some h)" "tr_SubmittedAt h < tr_SubmittedAt mr"
    | (newer) h where "res = Inr (Some h)" "\<not> tr_SubmittedAt h < tr_SubmittedAt mr"
    by (metis sum.exhaust option.exhaust)
  then show ?thesis
  proof cases
    case error
    then show ?thesis using eq assms(5) e0 by auto
  next
    case none
    then have "holds_before (tasks (e_store e)) (tr_SubmittedAt mr)"
      using law by (auto simp: holds_before_def stamps_def)
    then show ?thesis using eq assms(5) e0 none by auto
  next
    case older
    have "a < tr_SubmittedAt mr"
      if ord: "holds_ordered (tasks (e_store e))" and a: "stamps (tasks (e_store e)) i = Some (TaskMarkNotReady, a)" for i a
    proof -
      from a obtain r where r: "tasks (e_store e) i = Some r" "tr_Type r = TaskMarkNotReady" "tr_SubmittedAt r = a"
        by (auto simp: stamps_def)
      have h: "stamps (tasks (e_store e)) (tr_ID h) = Some (TaskMarkNotReady, tr_SubmittedAt h)"
        using law older(1) by (simp add: stamps_def)
      have "\<not> text_less (format_time (tr_SubmittedAt h)) (format_time a)"
        using law older(1) r by auto
      then have "\<not> tr_SubmittedAt h < a" using ord h a unfolding holds_ordered_def by blast
      then show ?thesis using older(2) by simp
    qed
    then show ?thesis using eq assms(5) e0 older by (auto simp: holds_before_def)
  next
    case newer
    obtain e2 x where s: "on_store (rs_Save S (fail_row ''superseded by hold'' now mr)) e0 = (e2, x)"
      by (cases "on_store (rs_Save S (fail_row ''superseded by hold'' now mr)) e0")
    from fail_save[OF e0(1) assms(2,3) _ s] show ?thesis
      using eq assms(4,5) e0(2) newer s by auto
  qed
qed

lemma rehydrate_one_law:
  assumes "inv (e_store e)" and "printable_time now" and "printable_time (tr_SubmittedAt tr)"
    and "stamps (tasks (e_store e)) (tr_ID tr) = Some (tr_Type tr, tr_SubmittedAt tr)"
    and "rehydrate_one env now tr e = (e1, gs)"
  shows "inv (e_store e1) \<and> stamps (tasks (e_store e1)) = stamps (tasks (e_store e)) \<and>
    (\<forall>g \<in> set gs. g_type g = tr_Type tr \<and> g_submittedAt g = tr_SubmittedAt tr)"
proof (cases "env_handlers env (tr_Type tr)")
  case None
  obtain e2 x where s: "on_store (rs_Save S (fail_row ''no handler registered for task type'' now tr)) e = (e2, x)"
    by (cases "on_store (rs_Save S (fail_row ''no handler registered for task type'' now tr)) e")
  from fail_save[OF assms(1-4) s] show ?thesis
    using assms(5) None s by (auto simp: rehydrate_one_def resolveStaleHandler_def env_store)
next
  case (Some h)
  then show ?thesis using assms(1,5)
    by (auto simp: rehydrate_one_def resolveStaleHandler_def newTaskContext_def stale_goroutine_def Let_def)
qed

lemma rehydrate_step_law:
  assumes "inv (e_store e)" and "printable_time now" and "printable_time (tr_SubmittedAt tr)"
    and "stamps (tasks (e_store e)) (tr_ID tr) = Some (tr_Type tr, tr_SubmittedAt tr)"
    and "rehydrate_step env now tr e = (e1, gs)"
  shows "inv (e_store e1) \<and> stamps (tasks (e_store e1)) = stamps (tasks (e_store e)) \<and>
    (\<forall>g \<in> set gs. g_type g \<noteq> TaskMarkNotReady \<and>
       (g_type g = TaskMarkReady \<longrightarrow> holds_ordered (tasks (e_store e)) \<longrightarrow>
          holds_before (tasks (e_store e)) (g_submittedAt g)))"
proof (cases "tr_Type tr = TaskMarkReady")
  case False
  then show ?thesis using assms rehydrate_one_law[OF assms(1-4)]
    by (cases "tr_Type tr = TaskMarkNotReady") (auto simp: rehydrate_step_def)
next
  case True
  have ne: "TaskMarkReady \<noteq> TaskMarkNotReady" by (simp add: TaskMarkReady_def TaskMarkNotReady_def)
  obtain e2 b where m: "markReadySuperseded env now tr e = (e2, b)" by (cases "markReadySuperseded env now tr e")
  note law = superseded_law[OF assms(1-4) m]
  show ?thesis
  proof (cases b)
    case b: True
    then show ?thesis using assms(5) True ne m law by (auto simp: rehydrate_step_def)
  next
    case b: False
    then have one: "rehydrate_one env now tr e2 = (e1, gs)" using assms(5) True ne m by (simp add: rehydrate_step_def)
    from rehydrate_one_law[OF _ assms(2,3) _ one] law assms(4) b True ne show ?thesis by auto
  qed
qed

lemma rehydrate_rest_law:
  assumes "inv (e_store e)" and "\<forall>i. printable_time (now i)"
    and "\<forall>tr \<in> set trs. printable_time (tr_SubmittedAt tr) \<and>
           stamps (tasks (e_store e)) (tr_ID tr) = Some (tr_Type tr, tr_SubmittedAt tr)"
    and "rehydrate_rest env now trs e = (e', gs)"
  shows "inv (e_store e') \<and> stamps (tasks (e_store e')) = stamps (tasks (e_store e)) \<and>
    (\<forall>g \<in> set gs. g_type g \<noteq> TaskMarkNotReady \<and>
       (g_type g = TaskMarkReady \<longrightarrow> holds_ordered (tasks (e_store e)) \<longrightarrow>
          holds_before (tasks (e_store e)) (g_submittedAt g)))"
  using assms
proof (induction trs arbitrary: e gs)
  case (Cons tr trs)
  obtain e1 gs1 where s: "rehydrate_step env (now (tr_ID tr)) tr e = (e1, gs1)"
    by (cases "rehydrate_step env (now (tr_ID tr)) tr e")
  obtain gs2 where r: "rehydrate_rest env now trs e1 = (e', gs2)" and gs: "gs = gs1 @ gs2"
    using Cons.prems(4) s by (auto split: prod.splits)
  have step: "inv (e_store e1) \<and> stamps (tasks (e_store e1)) = stamps (tasks (e_store e)) \<and>
    (\<forall>g \<in> set gs1. g_type g \<noteq> TaskMarkNotReady \<and>
       (g_type g = TaskMarkReady \<longrightarrow> holds_ordered (tasks (e_store e)) \<longrightarrow>
          holds_before (tasks (e_store e)) (g_submittedAt g)))"
    using Cons.prems(1-3) by (intro rehydrate_step_law[OF _ _ _ _ s]) simp_all
  have rest: "inv (e_store e') \<and> stamps (tasks (e_store e')) = stamps (tasks (e_store e1)) \<and>
    (\<forall>g \<in> set gs2. g_type g \<noteq> TaskMarkNotReady \<and>
       (g_type g = TaskMarkReady \<longrightarrow> holds_ordered (tasks (e_store e1)) \<longrightarrow>
          holds_before (tasks (e_store e1)) (g_submittedAt g)))"
    using step Cons.prems(2,3) by (intro Cons.IH[OF _ _ _ r]) simp_all
  show ?case unfolding gs
    using step rest holds_cong[of "tasks (e_store e1)" "tasks (e_store e)"] by auto
qed simp

lemma MarkNotReadier_law:
  assumes "inv s" and "MarkNotReadier S g c params s = (s', out)"
  shows "inv s' \<and>
    (out = Returned None None \<and>
       tasks s' = (\<lambda>i. case tasks s i of None \<Rightarrow> None | Some r \<Rightarrow> if tr_Type r = TaskMarkReady then None else Some r) \<or>
     (\<exists>m. out = Returned None (Some (m, False))) \<and> tasks s' = tasks s)"
proof -
  obtain s1 res where d: "rs_DeleteByType S TaskMarkReady s = (s1, res)" by (cases "rs_DeleteByType S TaskMarkReady s")
  have "decode_empty (marshal_params params) = Ok ()"
    by (simp add: decode_empty_def marshal_params_def split: option.splits)
  then show ?thesis using DeleteByType[OF assms(1) d] assms(2) d
    by (cases res) (auto simp: MarkNotReadier_def TypedHandler_def TypedHandlerWithResult_def)
qed

lemma hold_run_law:
  assumes "inv (e_store e)" and "printable_time now" and "printable_time (g_submittedAt g)"
    and "g_type g = TaskMarkNotReady"
  shows "inv (e_store (runTaskSync env (MarkNotReadier S) now g e))"
proof -
  obtain st out where h: "MarkNotReadier S (g_gen g) (ctx_cancelled e (g_gen g)) (g_params g) (e_store e) = (st, out)"
    by (cases "MarkNotReadier S (g_gen g) (ctx_cancelled e (g_gen g)) (g_params g) (e_store e)")
  note law = MarkNotReadier_law[OF assms(1) h]
  obtain e1 res err where x: "executeRecovered (g_type g) (MarkNotReadier S) (g_gen g) (g_params g) e = (e1, res, err)"
    by (cases "executeRecovered (g_type g) (MarkNotReadier S) (g_gen g) (g_params g) e") auto
  have e1: "inv (e_store e1)" using x h law
    by (auto simp: executeRecovered_def execute_def on_store_def split: handler_outcome.splits option.splits if_splits)
  have ok: "storable (outcome_row now g res err)"
    using assms(2,3) by (intro storable_times) (simp_all add: outcome_row_def)
  obtain st2 f where sv: "rs_Save S (outcome_row now g res err) (e_store e1) = (st2, f)"
    by (cases "rs_Save S (outcome_row now g res err) (e_store e1)")
  have "inv (e_store (persist_outcome env now g res err e1))"
    using e1 Save[OF e1 ok sv] sv by (auto simp: persist_outcome_def env_store on_store_def)
  then show ?thesis using x by (simp add: runTaskSync_def clearCancel_def cancel_gen_def)
qed

lemma rehydrate_holds_law:
  assumes "inv (e_store e)" and "\<forall>i. printable_time (now i)" and "\<forall>tr \<in> set trs. printable_time (tr_SubmittedAt tr)"
    and "rehydrate_holds env now trs e = (e', seen)"
  shows "inv (e_store e') \<and> (\<not> seen \<longrightarrow> e' = e)"
  using assms
proof (induction trs arbitrary: e e' seen)
  case (Cons tr trs)
  show ?case
  proof (cases "tr_Type tr = TaskMarkNotReady")
    case False
    then show ?thesis using Cons.IH[OF Cons.prems(1,2), of e' seen] Cons.prems(3,4) by simp
  next
    case True
    define e2 where "e2 = fst (newTaskContext (tr_ID tr) e)"
    define e3 where "e3 = runTaskSync env (MarkNotReadier S) (now (tr_ID tr)) (stale_goroutine tr (snd (newTaskContext (tr_ID tr) e))) e2"
    have "inv (e_store e2)" using Cons.prems(1) by (simp add: e2_def newTaskContext_def Let_def)
    then have "inv (e_store e3)" unfolding e3_def
      using Cons.prems(2,3) True by (intro hold_run_law) (simp_all add: stale_goroutine_def)
    moreover have "rehydrate_holds env now (tr # trs) e = (fst (rehydrate_holds env now trs e3), True)"
      using True hold_handler by (simp add: resolveStaleHandler_def e2_def e3_def split: prod.splits)
    ultimately show ?thesis using Cons.IH[of e3] Cons.prems(2-4) by (cases "rehydrate_holds env now trs e3") auto
  qed
qed simp

lemma stale_rows:
  assumes "inv s" and "rs_ListStaleTasks S s = (s', Inr ts)"
  shows "\<forall>tr \<in> set ts. printable_time (tr_SubmittedAt tr) \<and> stamps (tasks s) (tr_ID tr) = Some (tr_Type tr, tr_SubmittedAt tr)"
proof
  fix tr assume "tr \<in> set ts"
  then have row: "tasks s (tr_ID tr) = Some tr" using ListStaleTasks[OF assms] by auto
  have "printable_time (tr_SubmittedAt tr)" using ident[OF assms(1) row] by (intro storable_SubmittedAt) simp
  then show "printable_time (tr_SubmittedAt tr) \<and> stamps (tasks s) (tr_ID tr) = Some (tr_Type tr, tr_SubmittedAt tr)"
    using row by (simp add: stamps_def)
qed

lemma rehydrate_listed:
  assumes "inv (e_store e)" and now: "\<forall>i. printable_time (now i)"
    and l: "rs_ListStaleTasks S (e_store e) = (st, Inr ts)"
    and r: "rehydrate_rest env now ts (e\<lparr>e_store := st\<rparr>) = (e', gs)"
    and g: "g \<in> set gs" "holds_ordered (tasks (e_store e'))"
  shows "g_type g \<noteq> TaskMarkNotReady \<and> (g_type g = TaskMarkReady \<longrightarrow> holds_before (tasks (e_store e')) (g_submittedAt g))"
proof -
  have st: "inv st" "tasks st = tasks (e_store e)" using ListStaleTasks[OF assms(1) l] by auto
  have "\<forall>tr \<in> set ts. printable_time (tr_SubmittedAt tr) \<and>
      stamps (tasks (e_store (e\<lparr>e_store := st\<rparr>))) (tr_ID tr) = Some (tr_Type tr, tr_SubmittedAt tr)"
    using stale_rows[OF assms(1) l] st(2) by simp
  from rehydrate_rest_law[OF _ now this r] st(1)
  have law: "stamps (tasks (e_store e')) = stamps (tasks st)"
    "\<forall>g \<in> set gs. g_type g \<noteq> TaskMarkNotReady \<and> (g_type g = TaskMarkReady \<longrightarrow> holds_ordered (tasks st) \<longrightarrow>
       holds_before (tasks st) (g_submittedAt g))" by auto
  then show ?thesis using g holds_cong[OF law(1)] by auto
qed

lemma Rehydrate_safe:
  assumes "inv (e_store e)" and now: "\<forall>i. printable_time (now i)"
    and r: "RehydrateStaleTasks env now e = (e', gs)"
    and g: "g \<in> set gs" "holds_ordered (tasks (e_store e'))"
  shows "g_type g \<noteq> TaskMarkNotReady \<and> (g_type g = TaskMarkReady \<longrightarrow> holds_before (tasks (e_store e')) (g_submittedAt g))"
proof -
  obtain st res where l: "rs_ListStaleTasks S (e_store e) = (st, res)" by (cases "rs_ListStaleTasks S (e_store e)")
  then obtain ts where ts: "res = Inr ts"
    using r g(1) by (cases res) (auto simp: RehydrateStaleTasks_def env_store on_store_def)
  note l = l[unfolded ts]
  have st: "inv st" using ListStaleTasks[OF assms(1) l] by simp
  obtain e2 seen where h: "rehydrate_holds env now ts (e\<lparr>e_store := st\<rparr>) = (e2, seen)"
    by (cases "rehydrate_holds env now ts (e\<lparr>e_store := st\<rparr>)")
  have holds: "inv (e_store e2) \<and> (\<not> seen \<longrightarrow> e2 = e\<lparr>e_store := st\<rparr>)"
    using st stale_rows[OF assms(1) l] by (intro rehydrate_holds_law[OF _ now _ h]) auto
  show ?thesis
  proof (cases seen)
    case False
    then have "rehydrate_rest env now ts (e\<lparr>e_store := st\<rparr>) = (e', gs)"
      using r l h holds by (simp add: RehydrateStaleTasks_def env_store on_store_def)
    then show ?thesis using rehydrate_listed[OF assms(1) now l _ g] by simp
  next
    case True
    obtain st' res' where l': "rs_ListStaleTasks S (e_store e2) = (st', res')"
      by (cases "rs_ListStaleTasks S (e_store e2)")
    with r l h True have "(case res' of Inl err \<Rightarrow> (e2\<lparr>e_store := st'\<rparr>, [])
        | Inr ts' \<Rightarrow> rehydrate_rest env now ts' (e2\<lparr>e_store := st'\<rparr>)) = (e', gs)"
      by (auto simp: RehydrateStaleTasks_def env_store on_store_def split: sum.splits)
    then obtain ts' where "res' = Inr ts'" "rehydrate_rest env now ts' (e2\<lparr>e_store := st'\<rparr>) = (e', gs)"
      using g(1) by (cases res') auto
    then show ?thesis using rehydrate_listed[OF _ now _ _ g] holds l' by blast
  qed
qed

end

end
