(* ===== verification/EngineMachine.thy ===== *)
theory EngineMachine
  imports EngineProps "HOL-Library.Multiset"
begin

text \<open>
  The engine's goroutines, interleaved.  A thread is a task's goroutine, a submission that holds the
  mutex between its read and its write, or a DELETE request between its steps; \<open>m_locked\<close> is the
  mutex.  One \<open>action\<close> is a request that arrives or one atomic step of one thread; \<open>do_action\<close>
  is executable and returns nothing when the thread has to wait for the mutex.  The ghost field
  \<open>m_deletes\<close> remembers for which tasks a DELETE has begun.

  \<open>sidecar_env\<close> is the environment \<open>serve.go\<close> sets up; the handlers of the other task types
  are its argument.
\<close>

subsection \<open>The environment of the sidecar\<close>

definition sidecar_env ::
    "(string \<Rightarrow> string) \<Rightarrow> (string \<Rightarrow> sqlite task_handler option) \<Rightarrow> (string \<Rightarrow> bool) \<Rightarrow> sqlite engine_env" where
  "sidecar_env ft others uuid_valid =
     \<lparr>env_store = SQLiteStore ft,
      env_handlers = (\<lambda>ty. if ty = TaskMarkReady then Some MarkReadyHandler
                           else if ty = TaskMarkNotReady then Some (MarkNotReadier (SQLiteStore ft))
                           else others ty),
      env_uuid_valid = uuid_valid\<rparr>"

interpretation se: engine_store "SQLiteStore ft" sqlite_inv "sqlite_tasks ft" "stored_row ft" storable_row
    "sidecar_env ft others uuid_valid" for ft others uuid_valid
  by unfold_locales (simp_all add: sidecar_env_def TaskMarkReady_def TaskMarkNotReady_def)

subsection \<open>Threads\<close>

datatype run_stage = Executing | Executed "string option" "handler_error option" | Persisted

datatype thread =
    Run goroutine run_stage
  | Submitting Task string int
  | Deleting string "nat option"
  | Removing string "nat option"

record 's machine =
  m_engine :: "'s engine"
  m_threads :: "thread list"
  m_locked :: bool
  m_deletes :: "string list"

datatype action =
    PostTask string Task
  | DeleteTask string
  | Advance nat go_time
  | Shutdown

definition replace_at :: "nat \<Rightarrow> 'a list \<Rightarrow> 'a list \<Rightarrow> 'a list" where
  "replace_at n new xs = take n xs @ new @ drop (Suc n) xs"

definition set_thread :: "nat \<Rightarrow> thread list \<Rightarrow> 's engine \<Rightarrow> 's machine \<Rightarrow> 's machine" where
  "set_thread n new e m = m\<lparr>m_engine := e, m_threads := replace_at n new (m_threads m)\<rparr>"

fun advance :: "'s engine_env \<Rightarrow> nat \<Rightarrow> go_time \<Rightarrow> thread \<Rightarrow> 's machine \<Rightarrow> 's machine option" where
  "advance env n now (Run g Executing) m =
     (case env_handlers env (g_type g) of
        None \<Rightarrow> None
      | Some h \<Rightarrow>
          (case executeRecovered (g_type g) h (g_gen g) (g_params g) (m_engine m) of
             (e, res, err) \<Rightarrow> Some (set_thread n [Run g (Executed res err)] e m)))"
| "advance env n now (Run g (Executed res err)) m =
     Some (set_thread n [Run g Persisted] (persist_outcome env now g res err (m_engine m)) m)"
| "advance env n now (Run g Persisted) m =
     (if m_locked m then None
      else Some (set_thread n [] (clearCancel (g_id g) (g_gen g) (m_engine m)) m))"
| "advance env n now (Submitting task i run) m =
     (case submit_write env now task i run (m_engine m) of
        (e, None, _) \<Rightarrow> Some ((set_thread n [] e m)\<lparr>m_locked := False\<rparr>)
      | (e, Some g, _) \<Rightarrow> Some ((set_thread n [Run g Executing] e m)\<lparr>m_locked := False\<rparr>))"
| "advance env n now (Deleting i entry) m =
     (case remove_row env i (m_engine m) of
        (e, Inl _) \<Rightarrow> Some (set_thread n [] e m)
      | (e, Inr _) \<Rightarrow> Some (set_thread n (if entry = None then [] else [Removing i entry]) e m))"
| "advance env n now (Removing i entry) m =
     (if m_locked m then None
      else Some (set_thread n [] (remove_entry i entry (m_engine m)) m))"

fun do_action :: "'s engine_env \<Rightarrow> action \<Rightarrow> 's machine \<Rightarrow> 's machine option" where
  "do_action env (PostTask fresh task) m =
     (case submit_guard env fresh task of
        Inl _ \<Rightarrow> Some m
      | Inr i \<Rightarrow>
          if m_locked m then None
          else (case submit_read env i (m_engine m) of
                  (e, None) \<Rightarrow> Some (m\<lparr>m_engine := e\<rparr>)
                | (e, Some run) \<Rightarrow>
                    Some (m\<lparr>m_engine := e, m_threads := m_threads m @ [Submitting task i run], m_locked := True\<rparr>)))"
| "do_action env (DeleteTask i) m =
     (if m_locked m then None
      else (case remove_cancel i (m_engine m) of
              (e, entry) \<Rightarrow> Some (m\<lparr>m_engine := e, m_threads := m_threads m @ [Deleting i entry],
                                    m_deletes := i # m_deletes m\<rparr>)))"
| "do_action env (Advance n now) m =
     (if n < length (m_threads m) then advance env n now (m_threads m ! n) m else None)"
| "do_action env Shutdown m = Some (m\<lparr>m_engine := (m_engine m)\<lparr>e_stopped := True\<rparr>\<rparr>)"

text \<open>The process starts by recovering what the previous one left in the store.\<close>

definition boot :: "'s engine_env \<Rightarrow> (string \<Rightarrow> go_time) \<Rightarrow> 's \<Rightarrow> 's machine" where
  "boot env now st =
     (case RehydrateStaleTasks env now (NewEngine st) of
        (e, gs) \<Rightarrow> \<lparr>m_engine = e, m_threads = map (\<lambda>g. Run g Executing) gs, m_locked = False, m_deletes = []\<rparr>)"

inductive reachable :: "'s engine_env \<Rightarrow> 's machine \<Rightarrow> bool" for env where
  start: "reachable env (boot env now st)"
| step: "reachable env m \<Longrightarrow> do_action env a m = Some m' \<Longrightarrow> reachable env m'"

fun run_actions :: "'s engine_env \<Rightarrow> action list \<Rightarrow> 's machine \<Rightarrow> 's machine option" where
  "run_actions env [] m = Some m"
| "run_actions env (a # as) m = Option.bind (do_action env a m) (run_actions env as)"

lemma run_actions_reachable: "reachable env m \<Longrightarrow> run_actions env as m = Some m' \<Longrightarrow> reachable env m'"
  by (induction as arbitrary: m) (auto split: bind_splits intro: reachable.step)

subsection \<open>Who can cancel a run\<close>

fun run_of :: "thread \<Rightarrow> goroutine list" where
  "run_of (Run g st) = [g]"
| "run_of t = []"

definition live_runs :: "thread list \<Rightarrow> goroutine list" where
  "live_runs ts = concat (map run_of ts)"

text \<open>The registry agrees with the live runs: generations are never reused, an entry belongs to the run of
  its own task, and the context of a live run is cancelled only after a DELETE of its task.\<close>

definition registry_inv :: "string set \<Rightarrow> goroutine list \<Rightarrow> 's engine \<Rightarrow> bool" where
  "registry_inv D gs e \<longleftrightarrow>
     distinct (map g_gen gs) \<and> (\<forall>g \<in> set gs. g_gen g \<le> e_gen e) \<and>
     (\<forall>i k. e_cancels e i = Some k \<longrightarrow> k \<le> e_gen e \<and> (\<forall>g \<in> set gs. g_gen g = k \<longrightarrow> g_id g = i)) \<and>
     (\<forall>k \<in> set (e_cancelled e). k \<le> e_gen e \<and> (\<forall>g \<in> set gs. g_gen g = k \<longrightarrow> g_id g \<in> D))"

lemma registry_invI:
  assumes "distinct (map g_gen gs)" and "\<And>g. g \<in> set gs \<Longrightarrow> g_gen g \<le> e_gen e"
    and "\<And>i k. e_cancels e i = Some k \<Longrightarrow> k \<le> e_gen e"
    and "\<And>i g. e_cancels e i = Some (g_gen g) \<Longrightarrow> g \<in> set gs \<Longrightarrow> g_id g = i"
    and "\<And>k. k \<in> set (e_cancelled e) \<Longrightarrow> k \<le> e_gen e"
    and "\<And>g. g_gen g \<in> set (e_cancelled e) \<Longrightarrow> g \<in> set gs \<Longrightarrow> g_id g \<in> D"
  shows "registry_inv D gs e"
  using assms by (auto simp: registry_inv_def)

lemma registry_invD:
  assumes "registry_inv D gs e"
  shows "distinct (map g_gen gs)" and "g \<in> set gs \<Longrightarrow> g_gen g \<le> e_gen e"
    and "e_cancels e i = Some k \<Longrightarrow> k \<le> e_gen e"
    and "e_cancels e i = Some (g_gen g) \<Longrightarrow> g \<in> set gs \<Longrightarrow> g_id g = i"
    and "k \<in> set (e_cancelled e) \<Longrightarrow> k \<le> e_gen e"
    and "g_gen g \<in> set (e_cancelled e) \<Longrightarrow> g \<in> set gs \<Longrightarrow> g_id g \<in> D"
  using assms by (auto simp: registry_inv_def)

lemma registry_cong:
  "e_gen e' = e_gen e \<Longrightarrow> e_cancels e' = e_cancels e \<Longrightarrow> e_cancelled e' = e_cancelled e \<Longrightarrow>
   registry_inv D gs e' = registry_inv D gs e"
  by (simp add: registry_inv_def)

lemma on_store_frame:
  "e_gen (fst (on_store f e)) = e_gen e" "e_cancels (fst (on_store f e)) = e_cancels e"
  "e_cancelled (fst (on_store f e)) = e_cancelled e" "e_ready (fst (on_store f e)) = e_ready e"
  by (simp_all add: on_store_def split: prod.splits)

lemma registry_on_store [simp]: "registry_inv D gs (fst (on_store f e)) = registry_inv D gs e"
  by (rule registry_cong) (simp_all add: on_store_frame)

lemma registry_on_storeD: "on_store f e = (e', x) \<Longrightarrow> registry_inv D gs e' = registry_inv D gs e"
  using registry_on_store[of D gs f e] by simp

lemma registry_new:
  assumes "registry_inv D gs e" and "newTaskContext i e = (e', k)" and "g_id g = i" and "g_gen g = k"
  shows "registry_inv D (gs @ [g]) e'"
proof -
  note d = registry_invD[OF assms(1)]
  have k: "g_gen g = Suc (e_gen e)" "g_id g = i"
    and e': "e_gen e' = Suc (e_gen e)" "e_cancels e' = (e_cancels e)(i \<mapsto> Suc (e_gen e))" "e_cancelled e' = e_cancelled e"
    using assms(2-4) by (simp_all add: newTaskContext_eq)
  have old: "g_gen x \<noteq> Suc (e_gen e)" if "x \<in> set gs" for x using d(2)[OF that] by simp
  show ?thesis
  proof (rule registry_invI, goal_cases)
    case 1
    have "Suc (e_gen e) \<notin> g_gen ` set gs" using old by (metis imageE)
    then show ?case using d(1) by (simp add: k)
  next
    case (2 x)
    then show ?case using d(2)[of x] by (auto simp: k e')
  next
    case (3 j l)
    then show ?case using d(3)[of j l] by (auto simp: e' split: if_splits)
  next
    case (4 j x)
    show ?case
    proof (cases "j = i")
      case True
      with 4(1) have "g_gen x = Suc (e_gen e)" by (simp add: e')
      then show ?thesis using 4(2) old[of x] True k(2) by auto
    next
      case False
      with 4(1) have j: "e_cancels e j = Some (g_gen x)" by (simp add: e')
      then have "x \<noteq> g" using d(3)[OF j] k(1) by auto
      then show ?thesis using 4(2) d(4)[OF j] by simp
    qed
  next
    case (5 l)
    then show ?case using d(5)[of l] by (simp add: e')
  next
    case (6 x)
    then show ?case using d(5)[of "g_gen x"] d(6)[of x] by (auto simp: e' k)
  qed
qed

lemma registry_clear:
  assumes "registry_inv D (xs @ g # ys) e"
  shows "registry_inv D (xs @ ys) (clearCancel (g_id g) (g_gen g) e)"
proof -
  note d = registry_invD[OF assms]
  have gen: "g_gen x \<noteq> g_gen g" if "x \<in> set (xs @ ys)" for x
  proof
    assume "g_gen x = g_gen g"
    then have "g_gen g \<in> g_gen ` set (xs @ ys)" using that by (metis imageI)
    then show False using d(1) by auto
  qed
  show ?thesis
  proof (rule registry_invI, goal_cases)
    case 1
    then show ?case using d(1) by simp
  next
    case (4 j x)
    then show ?case using d(4)[of j x] by (auto simp: clearCancel_def cancel_gen_def split: if_splits)
  next
    case (6 x)
    then show ?case using gen[of x] d(6)[of x] by (auto simp: clearCancel_def cancel_gen_def split: if_splits)
  qed (use d(2,3,5) in \<open>auto simp: clearCancel_def cancel_gen_def split: if_splits\<close>)
qed

lemma registry_execute:
  "executeRecovered ty h k p e = (e1, res, err) \<Longrightarrow> registry_inv D gs e1 = registry_inv D gs e"
  by (rule registry_cong)
     (auto simp: executeRecovered_def execute_def on_store_def split: prod.splits handler_outcome.splits option.splits if_splits)

lemma registry_persist [simp]: "registry_inv D gs (persist_outcome env now g res err e) = registry_inv D gs e"
  by (simp add: persist_outcome_def)

lemma registry_run_sync:
  assumes "registry_inv D gs e" and "newTaskContext (g_id g) e = (e', g_gen g)"
  shows "registry_inv D gs (runTaskSync env h now g e')"
proof -
  obtain e1 res err where x: "executeRecovered (g_type g) h (g_gen g) (g_params g) e' = (e1, res, err)"
    by (cases "executeRecovered (g_type g) h (g_gen g) (g_params g) e'") auto
  have "registry_inv D (gs @ [g]) (persist_outcome env now g res err e1)"
    using registry_new[OF assms] registry_execute[OF x] by simp
  from registry_clear[OF this] show ?thesis by (simp add: runTaskSync_def x del: registry_persist)
qed

lemma registry_mono: "registry_inv D gs e \<Longrightarrow> D \<subseteq> D' \<Longrightarrow> registry_inv D' gs e"
  by (auto simp: registry_inv_def)

lemma registry_remove_cancel:
  "registry_inv D gs e \<Longrightarrow> remove_cancel i e = (e', x) \<Longrightarrow> registry_inv (insert i D) gs e'"
proof -
  assume r: "registry_inv D gs e" and c: "remove_cancel i e = (e', x)"
  note d = registry_invD[OF r]
  show ?thesis
  proof (cases "e_cancels e i")
    case (Some k)
    then have e': "e' = cancel_gen k e" using c by (simp add: remove_cancel_def)
    show ?thesis
    proof (rule registry_invI, goal_cases)
      case (6 g)
      then show ?case using d(4)[of i g] d(6)[of g] Some by (auto simp: e' cancel_gen_def)
    qed (use d Some in \<open>auto simp: e' cancel_gen_def\<close>)
  qed (use r c registry_mono[OF r, of "insert i D"] in \<open>auto simp: remove_cancel_def\<close>)
qed

lemma registry_remove_entry: "registry_inv D gs e \<Longrightarrow> registry_inv D gs (remove_entry i x e)"
  by (auto simp: registry_inv_def remove_entry_def)

subsection \<open>Crash recovery sets the registry up\<close>

lemma registry_resolve:
  "resolveStaleHandler env now tr e = (e1, h) \<Longrightarrow> registry_inv D gs e1 = registry_inv D gs e"
  by (auto simp: resolveStaleHandler_def split: option.splits)

lemma registry_holds: "registry_inv D gs e \<Longrightarrow> registry_inv D gs (fst (rehydrate_holds env now trs e))"
proof (induction trs arbitrary: e)
  case (Cons tr trs)
  obtain e1 ho where r: "resolveStaleHandler env (now (tr_ID tr)) tr e = (e1, ho)"
    by (cases "resolveStaleHandler env (now (tr_ID tr)) tr e")
  obtain e2 k where n: "newTaskContext (tr_ID tr) e1 = (e2, k)" by (cases "newTaskContext (tr_ID tr) e1")
  have e1: "registry_inv D gs e1" using Cons.prems registry_resolve[OF r] by simp
  have "registry_inv D gs (runTaskSync env h (now (tr_ID tr)) (stale_goroutine tr k) e2)" for h
    using n by (intro registry_run_sync[OF e1]) (simp add: stale_goroutine_def)
  then show ?case using Cons.IH Cons.prems e1 r n by (simp split: option.splits)
qed simp

lemma registry_one:
  assumes "registry_inv D gs0 e" and "rehydrate_one env now tr e = (e', gs)"
  shows "registry_inv D (gs0 @ gs) e'"
proof -
  obtain e1 ho where r: "resolveStaleHandler env now tr e = (e1, ho)" by (cases "resolveStaleHandler env now tr e")
  have e1: "registry_inv D gs0 e1" using assms(1) registry_resolve[OF r] by simp
  show ?thesis using assms(2) r e1 registry_new[OF e1, of "tr_ID tr"]
    by (auto simp: rehydrate_one_def stale_goroutine_def split: option.splits prod.splits)
qed

lemma registry_step:
  assumes "registry_inv D gs0 e" and "rehydrate_step env now tr e = (e', gs)"
  shows "registry_inv D (gs0 @ gs) e'"
proof -
  have m: "registry_inv D gs0 (fst (markReadySuperseded env now tr e))"
    using assms(1)
    by (simp add: markReadySuperseded_def registry_on_store on_store_def split: prod.splits sum.splits option.splits)
       (auto intro: registry_cong[THEN iffD1, rotated -1])
  show ?thesis using assms m registry_one
    by (auto simp: rehydrate_step_def split: if_splits prod.splits bool.splits)
qed

lemma registry_rest:
  assumes "registry_inv D gs0 e" and "rehydrate_rest env now trs e = (e', gs)"
  shows "registry_inv D (gs0 @ gs) e'"
  using assms
proof (induction trs arbitrary: e gs0 gs)
  case (Cons tr trs)
  obtain e1 gs1 where s: "rehydrate_step env (now (tr_ID tr)) tr e = (e1, gs1)"
    by (cases "rehydrate_step env (now (tr_ID tr)) tr e")
  obtain gs2 where r: "rehydrate_rest env now trs e1 = (e', gs2)" and gs: "gs = gs1 @ gs2"
    using Cons.prems(2) s by (auto split: prod.splits)
  show ?case using Cons.IH[OF registry_step[OF Cons.prems(1) s] r] gs by simp
qed simp

lemma registry_rehydrate:
  assumes "registry_inv D [] e" and "RehydrateStaleTasks env now e = (e', gs)"
  shows "registry_inv D gs e'"
proof -
  have on: "registry_inv D [] e1 = registry_inv D [] e0" if "on_store f e0 = (e1, x)" for f x and e0 e1 :: "'a engine"
    using registry_on_store[of D "[]" f e0] that by simp
  have h: "registry_inv D [] e2" if "rehydrate_holds env now ts e1 = (e2, b)" "registry_inv D [] e1" for ts e1 e2 b
    using registry_holds[OF that(2), of env now ts] that(1) by simp
  obtain e1 r1 where l: "on_store (rs_ListStaleTasks (env_store env)) e = (e1, r1)"
    by (cases "on_store (rs_ListStaleTasks (env_store env)) e")
  have e1: "registry_inv D [] e1" using on[OF l] assms(1) by simp
  show ?thesis
  proof (cases r1)
    case (Inl err)
    then show ?thesis using assms(2) l e1 by (simp add: RehydrateStaleTasks_def)
  next
    case (Inr ts)
    obtain e2 b where hh: "rehydrate_holds env now ts e1 = (e2, b)" by (cases "rehydrate_holds env now ts e1")
    have e2: "registry_inv D [] e2" using h[OF hh e1] .
    obtain e3 r3 where l3: "on_store (rs_ListStaleTasks (env_store env)) e2 = (e3, r3)"
      by (cases "on_store (rs_ListStaleTasks (env_store env)) e2")
    have e3: "registry_inv D [] e3" using on[OF l3] e2 by simp
    show ?thesis
      using assms(2) l Inr hh l3 e3 registry_rest[OF e2, of env now] registry_rest[OF e3, of env now]
      by (auto simp: RehydrateStaleTasks_def split: bool.splits sum.splits)
  qed
qed

text \<open>Every action keeps the registry consistent.\<close>

lemma live_runs_simps [simp]:
  "live_runs (xs @ ys) = live_runs xs @ live_runs ys" "live_runs (t # ts) = run_of t @ live_runs ts"
  "live_runs [] = []"
  by (simp_all add: live_runs_def)

lemma live_runs_Run: "live_runs (map (\<lambda>g. Run g Executing) gs) = gs"
  by (induction gs) auto

definition machine_inv :: "'s machine \<Rightarrow> bool" where
  "machine_inv m \<longleftrightarrow> registry_inv (set (m_deletes m)) (live_runs (m_threads m)) (m_engine m)"

lemma registry_perm:
  "registry_inv D gs e \<Longrightarrow> mset gs = mset gs' \<Longrightarrow> registry_inv D gs' e"
proof -
  assume r: "registry_inv D gs e" and p: "mset gs = mset gs'"
  have "set gs = set gs'" using p by (metis set_mset_mset)
  moreover have "mset (map g_gen gs) = mset (map g_gen gs')" using p by simp
  then have "distinct (map g_gen gs) = distinct (map g_gen gs')" by (metis mset_eq_imp_distinct_iff)
  ultimately show ?thesis using r by (simp add: registry_inv_def)
qed

lemma submit_write_registry:
  assumes "registry_inv D gs e" and "submit_write env now task i run e = (e', go, res)"
  shows "registry_inv D (gs @ (case go of None \<Rightarrow> [] | Some g \<Rightarrow> [g])) e'"
proof -
  obtain e1 f where s: "on_store (rs_Save (env_store env) (running_row now task i run)) e = (e1, f)"
    by (cases "on_store (rs_Save (env_store env) (running_row now task i run)) e")
  have e1: "registry_inv D gs e1"
    using assms(1) registry_on_store[of D gs "rs_Save (env_store env) (running_row now task i run)" e] s by simp
  show ?thesis using assms(2) s e1 registry_new[OF e1, of i]
    by (auto simp: submit_write_def split: option.splits prod.splits)
qed

lemma advance_inv:
  assumes "machine_inv m" and t: "n < length (m_threads m)" "m_threads m ! n = t" and adv: "advance env n now t m = Some m'"
  shows "machine_inv m'"
proof -
  define us vs where "us = take n (m_threads m)" and "vs = drop (Suc n) (m_threads m)"
  have ts: "m_threads m = us @ t # vs" using id_take_nth_drop[OF t(1)] t(2) by (simp add: us_def vs_def)
  have rep: "replace_at n new (m_threads m) = us @ new @ vs" for new by (simp add: replace_at_def us_def vs_def)
  let ?D = "set (m_deletes m)"
  have inv: "registry_inv ?D (live_runs us @ run_of t @ live_runs vs) (m_engine m)"
    using assms(1) ts by (simp add: machine_inv_def)
  note frame = machine_inv_def set_thread_def rep
  show ?thesis
  proof (cases t)
    case (Run g st)
    show ?thesis
    proof (cases st)
      case Executing
      obtain h where h: "env_handlers env (g_type g) = Some h" using adv Run Executing by (auto split: option.splits)
      obtain e res err where x: "executeRecovered (g_type g) h (g_gen g) (g_params g) (m_engine m) = (e, res, err)"
        by (cases "executeRecovered (g_type g) h (g_gen g) (g_params g) (m_engine m)") auto
      have "m' = set_thread n [Run g (Executed res err)] e m" using adv Run Executing h x by simp
      then show ?thesis using inv Run registry_execute[OF x] by (simp add: frame)
    next
      case (Executed res err)
      then show ?thesis using adv Run inv by (auto simp: frame)
    next
      case Persisted
      then show ?thesis using adv Run inv registry_clear[of ?D "live_runs us" g "live_runs vs"]
        by (auto simp: frame split: if_splits)
    qed
  next
    case (Submitting task i run)
    obtain e go res where w: "submit_write env now task i run (m_engine m) = (e, go, res)"
      by (cases "submit_write env now task i run (m_engine m)") auto
    have "registry_inv ?D ((live_runs us @ live_runs vs) @ (case go of None \<Rightarrow> [] | Some g \<Rightarrow> [g])) e"
      using inv Submitting by (intro submit_write_registry[OF _ w]) simp
    then have "registry_inv ?D (live_runs us @ (case go of None \<Rightarrow> [] | Some g \<Rightarrow> [g]) @ live_runs vs) e"
      by (rule registry_perm) (simp split: option.splits)
    then show ?thesis using adv Submitting w by (auto simp: frame split: option.splits)
  next
    case (Deleting i entry)
    obtain e res where r: "on_store (rs_Delete (env_store env) i) (m_engine m) = (e, res)"
      by (cases "on_store (rs_Delete (env_store env) i) (m_engine m)")
    then show ?thesis using adv Deleting inv registry_on_storeD[OF r]
      by (cases res) (auto simp: frame remove_row_def)
  next
    case (Removing i entry)
    then show ?thesis using adv inv by (auto simp: frame registry_remove_entry split: if_splits)
  qed
qed

lemma do_action_inv: "machine_inv m \<Longrightarrow> do_action env a m = Some m' \<Longrightarrow> machine_inv m'"
proof (cases a)
  case (PostTask fresh task)
  assume "machine_inv m" and "do_action env a m = Some m'"
  then show ?thesis using PostTask
    by (auto simp: machine_inv_def submit_read_def registry_on_storeD
        split: sum.splits if_splits prod.splits option.splits)
next
  case (DeleteTask i)
  assume "machine_inv m" and "do_action env a m = Some m'"
  then show ?thesis using DeleteTask registry_remove_cancel
    by (fastforce simp: machine_inv_def split: if_splits prod.splits)
next
  case (Advance n now)
  assume "machine_inv m" and "do_action env a m = Some m'"
  then show ?thesis using Advance advance_inv[of m n _ env now m'] by (auto split: if_splits)
next
  case Shutdown
  assume "machine_inv m" and "do_action env a m = Some m'"
  then show ?thesis using Shutdown by (auto simp: machine_inv_def registry_inv_def)
qed

lemma reachable_inv: "reachable env m \<Longrightarrow> machine_inv m"
proof (induction rule: reachable.induct)
  case (start now st)
  obtain e gs where r: "RehydrateStaleTasks env now (NewEngine st) = (e, gs)"
    by (cases "RehydrateStaleTasks env now (NewEngine st)")
  have "registry_inv {} [] (NewEngine st)" by (simp add: registry_inv_def NewEngine_def)
  from registry_rehydrate[OF this r] show ?case by (simp add: boot_def r machine_inv_def live_runs_Run)
qed (rule do_action_inv)

end
