(* ===== verification/SidecarProps.thy ===== *)
theory SidecarProps
  imports EngineMachine
begin

text \<open>
  The properties of the sidecar's engine and store, each over the environment \<open>sidecar_env\<close> that
  the sidecar runs, with a concrete store as witness.
\<close>

subsection \<open>A store without faults\<close>

lemma statement_ok: "db_faults db = [] \<Longrightarrow> statement db = (None, db)"
  by (simp add: statement_def)

lemma sqlite_Get_ok:
  assumes "sqlite_inv db" and "db_faults db = []"
  shows "sqlite_Get ft i db = (db, Ok (sqlite_tasks ft db i))"
proof (cases "filter (\<lambda>x. row_id x = i) (db_rows db)")
  case (Cons row rest)
  then have "row \<in> set (db_rows db)" by (auto simp: filter_eq_Cons_iff)
  then obtain r where "storable_row r" "row = row_of r" using assms(1) by (auto simp: sqlite_inv_def)
  then show ?thesis using Cons assms(2)
    by (simp add: sqlite_Get_def query_row_def statement_ok sqlite_tasks_def scan_row_of)
qed (use assms(2) in \<open>simp add: sqlite_Get_def query_row_def statement_ok sqlite_tasks_def\<close>)

lemma sqlite_Save_ok:
  "db_faults db = [] \<Longrightarrow> sqlite_Save r db = (db\<lparr>db_rows := insert_or_replace (row_of r) (db_rows db)\<rparr>, None)"
  by (simp add: sqlite_Save_def statement_ok)

lemma sqlite_inv_rows:
  "db_rows db = map row_of rs \<Longrightarrow> distinct (map tr_ID rs) \<Longrightarrow> list_all storable_row rs \<Longrightarrow> sqlite_inv db"
  by (auto simp: sqlite_inv_def list_all_iff comp_def)

lemma printable_storable [code]:
  "storable_row r \<longleftrightarrow> printable_time (tr_SubmittedAt r) \<and>
     (case tr_CompletedAt r of None \<Rightarrow> True | Some t \<Rightarrow> printable_time t)"
  by (simp add: storable_row_def split: option.splits)

text \<open>An executable check that the holds of a table sort by time.\<close>

definition hold_times :: "TaskResult list \<Rightarrow> go_time list" where
  "hold_times rs = map tr_SubmittedAt (filter (\<lambda>r. tr_Type r = TaskMarkNotReady) rs)"

lemma holds_ordered_rows:
  assumes "sqlite_inv db" and "db_rows db = map row_of rs" and "list_all storable_row rs"
    and "list_all (\<lambda>a. list_all (\<lambda>b. a < b \<longrightarrow> text_less (format_time a) (format_time b)) (hold_times rs)) (hold_times rs)"
  shows "holds_ordered (sqlite_tasks ft db)"
proof -
  have "a \<in> set (hold_times rs)" if "stamps (sqlite_tasks ft db) i = Some (TaskMarkNotReady, a)" for i a
  proof -
    from that obtain r0 where r0: "row_of r0 \<in> set (db_rows db)" "storable_row r0" "tr_Type r0 = TaskMarkNotReady" "tr_SubmittedAt r0 = a"
      by (auto simp: stamps_def sqlite_tasks_iff[OF assms(1)])
    then obtain r where r: "r \<in> set rs" "row_of r = row_of r0" using assms(2) by auto
    then have "storable_row r" using assms(3) by (auto simp: list_all_iff)
    then have "stored_row ft r = stored_row ft r0" using scan_row_of[of r ft] scan_row_of[OF r0(2), of ft] r(2) by (metis sum.inject(2))
    then have "tr_Type r = tr_Type r0" "tr_SubmittedAt r = tr_SubmittedAt r0" by (metis stored_row_simps(2), metis stored_row_simps(5))
    then show ?thesis using r(1) r0(3,4) by (auto simp: hold_times_def)
  qed
  then show ?thesis using assms(4) unfolding holds_ordered_def list_all_iff by blast
qed

subsection \<open>Fixtures\<close>

definition demo_result :: "string \<Rightarrow> string \<Rightarrow> string \<Rightarrow> go_time \<Rightarrow> TaskResult" where
  "demo_result i ty status t =
     \<lparr>tr_ID = i, tr_Type = ty, tr_Status = status, tr_Run = 1,
      tr_Params = Some [(''height'', JNumber ''7'')], tr_Result = None, tr_Error = [], tr_SubmittedAt = t,
      tr_CompletedAt = (if status = TaskStatusRunning then None else Some t)\<rparr>"

lemma demo_result_simps [simp]:
  "tr_ID (demo_result i ty status t) = i" "tr_Type (demo_result i ty status t) = ty"
  "tr_Status (demo_result i ty status t) = status" "tr_Run (demo_result i ty status t) = 1"
  "tr_SubmittedAt (demo_result i ty status t) = t"
  by (simp_all add: demo_result_def)

definition demo_store :: "TaskResult list \<Rightarrow> sqlite" where
  "demo_store rs = \<lparr>db_rows = map row_of rs, db_markers = [], db_faults = []\<rparr>"

text \<open>The other task types of the demonstration sidecar: one whose handler fails.\<close>

definition demo_others :: "string \<Rightarrow> sqlite task_handler option" where
  "demo_others ty =
     (if ty = ''config-patch'' then Some (\<lambda>_ _ _ s. (s, Returned None (Some (''boom'', False)))) else None)"

definition demo_uuid :: "string \<Rightarrow> bool" where
  "demo_uuid i \<longleftrightarrow> length i = 36"

definition demo_env :: "sqlite engine_env" where
  "demo_env = sidecar_env (\<lambda>n. n) demo_others demo_uuid"

definition demo_id :: string where
  "demo_id = ''6ba7b810-9dad-11d1-80b4-00c04fd430c8''"

definition demo_task :: Task where
  "demo_task = \<lparr>task_ID = demo_id, task_Type = ''config-patch'', task_Params = None\<rparr>"

subsection \<open>Rows\<close>

text \<open> What the store saves it gives back: over a database without faults, reading the id just saved
  returns the saved result (numbers of the params as float64 tokens, an empty result as none), with
  both timestamps to the nanosecond, and every other id reads as before.\<close>

theorem store_roundtrip:
  assumes "sqlite_inv db" and "db_faults db = []" and "storable_row r"
    and "sqlite_Save r db = (db', e)"
  shows "e = None \<and> snd (sqlite_Get ft (tr_ID r) db') = Ok (Some (stored_row ft r)) \<and>
    (j \<noteq> tr_ID r \<longrightarrow> snd (sqlite_Get ft j db') = snd (sqlite_Get ft j db))"
proof -
  have db': "db' = db\<lparr>db_rows := insert_or_replace (row_of r) (db_rows db)\<rparr>" and e: "e = None"
    using assms(4) sqlite_Save_ok[OF assms(2), of r] by simp_all
  have f: "db_faults db' = []" using db' assms(2) by simp
  have inv: "sqlite_inv db'" and t: "sqlite_tasks ft db' = (sqlite_tasks ft db)(tr_ID r \<mapsto> stored_row ft r)"
    using sq.Save[OF assms(1,3), of ft db' e] assms(4) e by (simp_all add: SQLiteStore_def)
  show ?thesis using e t sqlite_Get_ok[OF inv f] sqlite_Get_ok[OF assms(1,2)] by simp
qed

theorem store_roundtrip_witness:
  "snd (sqlite_Get (\<lambda>n. n) demo_id (fst (sqlite_Save (demo_result demo_id TaskMarkReady TaskStatusRunning 1500000000) (demo_store [])))) =
     Ok (Some (stored_row (\<lambda>n. n) (demo_result demo_id TaskMarkReady TaskStatusRunning 1500000000)))"
proof -
  have "tr_ID (demo_result demo_id TaskMarkReady TaskStatusRunning 1500000000) = demo_id" by (simp add: demo_result_def)
  moreover have "sqlite_inv (demo_store [])" by (rule sqlite_inv_rows[of _ "[]"]) (simp_all add: demo_store_def)
  moreover have "storable_row (demo_result demo_id TaskMarkReady TaskStatusRunning 1500000000)" by code_simp
  ultimately show ?thesis
    using store_roundtrip[of "demo_store []" "demo_result demo_id TaskMarkReady TaskStatusRunning 1500000000"
        "fst (sqlite_Save (demo_result demo_id TaskMarkReady TaskStatusRunning 1500000000) (demo_store []))"
        "snd (sqlite_Save (demo_result demo_id TaskMarkReady TaskStatusRunning 1500000000) (demo_store []))" "\<lambda>n. n"]
    by (simp add: demo_store_def)
qed

subsection \<open>Submitting\<close>

definition abs_submit ::
    "(TaskResult \<Rightarrow> TaskResult) \<Rightarrow> go_time \<Rightarrow> Task \<Rightarrow> string \<Rightarrow> (string \<Rightarrow> TaskResult option) \<Rightarrow>
     (string \<Rightarrow> TaskResult option) \<times> int option" where
  "abs_submit stored now task i T =
     (case next_run (T i) of
        None \<Rightarrow> (T, None)
      | Some run \<Rightarrow> (T(i \<mapsto> stored (running_row now task i run)), Some run))"

text \<open>C10.  \<open>Submit\<close> refines the task lifecycle: over a store without faults an accepted submission of
  task \<open>i\<close> starts run 1 when there is no row, the next run when the row is failed, and nothing when it
  is running or completed; the row becomes the running row of that run, and the run started is
  registered under the next generation so that a DELETE can reach it.\<close>

theorem submit_refines_lifecycle:
  assumes "sqlite_inv (e_store e)" and "db_faults (e_store e) = []" and "printable_time now"
    and "submit_guard (sidecar_env ft others uv) fresh task = Ok i"
    and "\<forall>r. sqlite_tasks ft (e_store e) i = Some r \<longrightarrow> known_status (tr_Status r)"
    and "Submit (sidecar_env ft others uv) fresh now task e = (e', g, res)"
  shows "res = Ok i \<and>
    (sqlite_tasks ft (e_store e'), map_option g_run g) =
      abs_submit (stored_row ft) now task i (sqlite_tasks ft (e_store e)) \<and>
    (\<forall>x. g = Some x \<longrightarrow> g_id x = i \<and> g_gen x = e_gen e + 1 \<and> e_cancels e' i = Some (g_gen x))"
proof -
  have get: "rs_Get (SQLiteStore ft) i (e_store e) = (e_store e, Inr (sqlite_tasks ft (e_store e) i))"
    using sqlite_Get_ok[OF assms(1,2)] by (simp add: SQLiteStore_def)
  have "res = Ok i"
    using assms(2,4,6) get
    by (auto simp: Submit_def submit_read_def on_store_def sidecar_env_def SQLiteStore_def submit_write_def
        newTaskContext_def Let_def sqlite_Save_ok split: option.splits)
  with assms(6) have "Submit (sidecar_env ft others uv) fresh now task e = (e', g, Inr i)" by simp
  from se.Submit_lifecycle[OF assms(1,3) this _ assms(5)] get \<open>res = Ok i\<close>
  show ?thesis by (auto simp: abs_submit_def split: option.splits)
qed

theorem submit_refines_lifecycle_witness:
  "map_option g_run (fst (snd (Submit demo_env [] 0 demo_task
      (NewEngine (demo_store [demo_result demo_id ''config-patch'' TaskStatusFailed 0]))))) = Some 2"
proof -
  let ?rs = "[demo_result demo_id ''config-patch'' TaskStatusFailed 0]"
  let ?e = "NewEngine (demo_store ?rs)"
  obtain e' g res where s: "Submit demo_env [] 0 demo_task ?e = (e', g, res)"
    by (cases "Submit demo_env [] 0 demo_task ?e") auto
  have st: "e_store ?e = demo_store ?rs" by (simp add: NewEngine_def)
  have inv: "sqlite_inv (demo_store ?rs)"
    by (rule sqlite_inv_rows[of _ ?rs]) (simp add: demo_store_def, simp, code_simp)
  have row: "sqlite_tasks (\<lambda>n. n) (demo_store ?rs) demo_id = Some (stored_row (\<lambda>n. n) (hd ?rs))"
    unfolding sqlite_tasks_iff[OF inv]
    by (rule exI[of _ "hd ?rs"]) (simp add: demo_store_def, simp add: demo_result_def storable_row_def printable_time_def epoch_days_def)
  have inv_e: "sqlite_inv (e_store ?e)" using inv st by simp
  have faults: "db_faults (e_store ?e) = []" by (simp add: demo_store_def NewEngine_def)
  have now: "printable_time 0" by code_simp
  have guard: "submit_guard demo_env [] demo_task = Ok demo_id"
    by (simp add: submit_guard_def validateTaskID_def demo_env_def sidecar_env_def demo_task_def demo_id_def
        demo_others_def demo_uuid_def TaskMarkReady_def TaskMarkNotReady_def)
  have known: "\<forall>r. sqlite_tasks (\<lambda>n. n) (e_store ?e) demo_id = Some r \<longrightarrow> known_status (tr_Status r)"
    using row by (simp add: st known_status_def)
  have "(sqlite_tasks (\<lambda>n. n) (e_store e'), map_option g_run g) =
      abs_submit (stored_row (\<lambda>n. n)) 0 demo_task demo_id (sqlite_tasks (\<lambda>n. n) (e_store ?e))"
    using submit_refines_lifecycle[where ft = "\<lambda>n. n" and others = demo_others and uv = demo_uuid,
        OF inv_e faults now guard[unfolded demo_env_def] known s[unfolded demo_env_def]]
    by blast
  then show ?thesis using s row
    by (simp add: st abs_submit_def next_run_def)
qed

text \<open> A submission that is refused has no effect: whatever the store does, when \<open>Submit\<close> returns an
  error (an unknown type, an id that is no UUID, a failed write) the rows and the cancel registry are
  unchanged and no goroutine is started.\<close>

theorem submit_error_inert:
  assumes "sqlite_inv (e_store e)" and "printable_time now"
    and "Submit (sidecar_env ft others uv) fresh now task e = (e', g, Inl err)"
  shows "sqlite_tasks ft (e_store e') = sqlite_tasks ft (e_store e) \<and> g = None \<and>
    e_cancels e' = e_cancels e \<and> e_gen e' = e_gen e"
  using se.Submit_error[OF assms] .

theorem submit_error_inert_witness:
  "sqlite_tasks (\<lambda>n. n) (e_store (fst (Submit demo_env [] 0 demo_task
       (NewEngine ((demo_store [])\<lparr>db_faults := [None, Some ''disk full'']\<rparr>))))) =
   sqlite_tasks (\<lambda>n. n) ((demo_store [])\<lparr>db_faults := [None, Some ''disk full'']\<rparr>)"
proof -
  let ?db = "(demo_store [])\<lparr>db_faults := [None, Some ''disk full'']\<rparr>"
  let ?r = "Submit demo_env [] 0 demo_task (NewEngine ?db)"
  have "snd (snd ?r) = Inl ''persist task: disk full''" by code_simp
  then obtain e' g where s: "?r = (e', g, Inl ''persist task: disk full'')" by (cases ?r) auto
  have "sqlite_inv ?db" by (rule sqlite_inv_rows[of _ "[]"]) (simp_all add: demo_store_def)
  then have inv: "sqlite_inv (e_store (NewEngine ?db))" by (simp add: NewEngine_def)
  have "printable_time 0" by code_simp
  from submit_error_inert[where ft = "\<lambda>n. n" and others = demo_others and uv = demo_uuid, OF inv this s[unfolded demo_env_def]] s show ?thesis by (simp add: NewEngine_def demo_env_def)
qed

subsection \<open>Crash recovery\<close>

text \<open>C8.  A node hold survives a crash.  Whatever store errors occur, the recovery that runs at start-up
  never dispatches a hold in the background, and when it dispatches a stranded mark-ready, every
  hold in the store, in whatever state, was submitted before it (as long as the text of the holds'
  timestamps sorts them by time).\<close>

theorem hold_survives_recovery:
  assumes "sqlite_inv st" and "\<forall>i. printable_time (now i)"
    and "RehydrateStaleTasks (sidecar_env ft others uv) now (NewEngine st) = (e', gs)"
    and "holds_ordered (sqlite_tasks ft (e_store e'))" and "g \<in> set gs"
  shows "g_type g \<noteq> TaskMarkNotReady \<and>
    (g_type g = TaskMarkReady \<longrightarrow> holds_before (sqlite_tasks ft (e_store e')) (g_submittedAt g))"
proof -
  have "sqlite_inv (e_store (NewEngine st))" using assms(1) by (simp add: NewEngine_def)
  from se.Rehydrate_safe[OF this assms(2,3,5,4)] show ?thesis .
qed

theorem hold_survives_recovery_witness:
  "holds_before (sqlite_tasks (\<lambda>n. n) (e_store (fst (RehydrateStaleTasks demo_env (\<lambda>_. 9000000000)
     (NewEngine (demo_store [demo_result ''hold'' TaskMarkNotReady TaskStatusFailed 1000000000,
                             demo_result ''release'' TaskMarkReady TaskStatusRunning 2500000000])))))) 2500000000"
proof -
  let ?rs = "[demo_result ''hold'' TaskMarkNotReady TaskStatusFailed 1000000000,
              demo_result ''release'' TaskMarkReady TaskStatusRunning 2500000000]"
  let ?r = "RehydrateStaleTasks demo_env (\<lambda>_. 9000000000) (NewEngine (demo_store ?rs))"
  let ?g = "\<lparr>g_id = ''release'', g_type = TaskMarkReady, g_params = Some [(''height'', JNumber ''7'')],
     g_submittedAt = 2500000000, g_run = 1, g_gen = 1\<rparr>"
  have g: "snd ?r = [?g]" by code_simp
  have same: "e_store (fst ?r) = demo_store ?rs" by code_simp
  have ok: "list_all storable_row ?rs" by code_simp
  have inv: "sqlite_inv (demo_store ?rs)"
    by (rule sqlite_inv_rows[of _ ?rs, OF _ _ ok]) (simp add: demo_store_def, code_simp)
  have ord: "holds_ordered (sqlite_tasks (\<lambda>n. n) (e_store (fst ?r)))"
    unfolding same
    by (rule holds_ordered_rows[OF inv _ ok]) (simp_all add: demo_store_def hold_times_def TaskMarkReady_def TaskMarkNotReady_def)
  have "printable_time 9000000000" by code_simp
  then have "\<forall>i. printable_time ((\<lambda>_::string. 9000000000) i)" by simp
  from hold_survives_recovery[where ft = "\<lambda>n. n" and others = demo_others and uv = demo_uuid and e' = "fst ?r"
      and gs = "snd ?r" and g = ?g, OF inv this] ord g
  show ?thesis by (simp add: demo_env_def)
qed

subsection \<open>Cancellation\<close>

text \<open>C9.  In every interleaving of submissions, DELETE requests, running tasks and crash recovery, the
  context of a task that is still running is cancelled only by a DELETE of that same task or by the
  shutdown of the engine: the late clean-up of an earlier run, or of another task, never stops a live
  run, and two live runs never share a generation.\<close>

theorem only_delete_cancels:
  assumes "reachable env m" and "Run g st \<in> set (m_threads m)" and "ctx_cancelled (m_engine m) (g_gen g)"
  shows "e_stopped (m_engine m) \<or> g_id g \<in> set (m_deletes m)"
proof -
  have "g \<in> set (live_runs (m_threads m))" using assms(2) by (force simp: live_runs_def)
  moreover have "registry_inv (set (m_deletes m)) (live_runs (m_threads m)) (m_engine m)"
    using reachable_inv[OF assms(1)] by (simp add: machine_inv_def)
  ultimately show ?thesis using registry_invD(6) assms(3) by (auto simp: ctx_cancelled_def)
qed

theorem only_delete_cancels_witness:
  "\<exists>m. run_actions demo_env [PostTask [] demo_task, Advance 0 0, DeleteTask demo_id]
         (boot demo_env (\<lambda>_. 0) (demo_store [])) = Some m \<and>
     ctx_cancelled (m_engine m) 1 \<and> demo_id \<in> set (m_deletes m)"
proof -
  let ?r = "run_actions demo_env [PostTask [] demo_task, Advance 0 0, DeleteTask demo_id]
         (boot demo_env (\<lambda>_. 0) (demo_store []))"
  have "case ?r of None \<Rightarrow> False | Some m \<Rightarrow> ctx_cancelled (m_engine m) 1 \<and> \<not> e_stopped (m_engine m) \<and>
      (case m_threads m of Run g st # _ \<Rightarrow> g_gen g = 1 \<and> g_id g = demo_id | _ \<Rightarrow> False)" by code_simp
  then obtain m g st ts where m: "?r = Some m" "ctx_cancelled (m_engine m) 1" "\<not> e_stopped (m_engine m)"
    "m_threads m = Run g st # ts" "g_gen g = 1" "g_id g = demo_id"
    by (auto split: option.splits list.splits thread.splits)
  have "reachable demo_env m" using run_actions_reachable[OF reachable.start m(1)] .
  from only_delete_cancels[OF this, of g st] m show ?thesis by auto
qed

subsection \<open>What the store and the engine do not promise\<close>

text \<open>A submission that nothing interrupts, over a store without faults.\<close>

definition resubmitted :: "(string \<Rightarrow> string) \<Rightarrow> string \<Rightarrow> int \<Rightarrow> goroutine \<Rightarrow> sqlite machine \<Rightarrow> sqlite machine \<Rightarrow> bool" where
  "resubmitted ft i run g m m' \<longleftrightarrow>
     m_threads m' = m_threads m @ [Run g Executing] \<and> \<not> m_locked m' \<and> g_id g = i \<and> g_run g = run \<and>
     g_gen g = Suc (e_gen (m_engine m)) \<and> e_gen (m_engine m') = g_gen g \<and>
     e_cancelled (m_engine m') = e_cancelled (m_engine m) \<and> e_stopped (m_engine m') = e_stopped (m_engine m) \<and>
     sqlite_inv (e_store (m_engine m')) \<and> db_faults (e_store (m_engine m')) = []"

lemma resubmit_actions:
  fixes m :: "sqlite machine"
  assumes inv: "sqlite_inv (e_store (m_engine m))" and ok: "db_faults (e_store (m_engine m)) = []" and "\<not> m_locked m"
    and guard: "submit_guard env fresh task = Ok i" and env: "env_store env = SQLiteStore ft" and t: "printable_time t"
    and run: "submit_decision (Ok (sqlite_tasks ft (e_store (m_engine m)) i)) = Some run"
  shows "\<exists>m' g. run_actions env [PostTask fresh task, Advance (length (m_threads m)) t] m = Some m' \<and>
           resubmitted ft i run g m m'"
proof -
  define r where "r = running_row t task i run"
  define db where "db = (e_store (m_engine m))\<lparr>db_rows := insert_or_replace (row_of r) (db_rows (e_store (m_engine m)))\<rparr>"
  have "storable_row r" using t by (simp add: r_def running_row_def storable_row_def)
  moreover have save: "sqlite_Save r (e_store (m_engine m)) = (db, None)" using sqlite_Save_ok[OF ok] by (simp add: db_def)
  ultimately have "sqlite_inv db" using sq.Save[OF inv, of r ft db None] by (simp add: SQLiteStore_def)
  then show ?thesis
    using assms save sqlite_Get_ok[OF inv ok, of ft i]
    by (simp add: submit_read_def on_store_def SQLiteStore_def submit_write_def newTaskContext_def Let_def r_def[symmetric]
        set_thread_def replace_at_def resubmitted_def db_def)
qed

lemma sqlite_Delete_ok:
  assumes "db_faults db = []"
  shows "sqlite_Delete i db = (db\<lparr>db_rows := filter (\<lambda>x. row_id x \<noteq> i) (db_rows db)\<rparr>,
           Ok (\<exists>x \<in> set (db_rows db). row_id x = i))"
  using assms by (auto simp: sqlite_Delete_def delete_where_def statement_ok filter_empty_conv length_greater_0_conv[symmetric]
      simp del: length_greater_0_conv)

text \<open>The last step of a DELETE that found no run to cancel: only the row goes.\<close>

lemma delete_action:
  fixes m :: "sqlite machine"
  assumes inv: "sqlite_inv (e_store (m_engine m))" and ok: "db_faults (e_store (m_engine m)) = []" and env: "env_store env = SQLiteStore ft"
    and ts: "m_threads m = ts @ Deleting i None # us"
  shows "\<exists>e. do_action env (Advance (length ts) t) m = Some (m\<lparr>m_engine := e, m_threads := ts @ us\<rparr>) \<and>
           e_gen e = e_gen (m_engine m) \<and> e_cancelled e = e_cancelled (m_engine m) \<and> e_stopped e = e_stopped (m_engine m) \<and>
           sqlite_inv (e_store e) \<and> db_faults (e_store e) = [] \<and> sqlite_tasks ft (e_store e) i = None"
proof -
  define db where "db = (e_store (m_engine m))\<lparr>db_rows := filter (\<lambda>x. row_id x \<noteq> i) (db_rows (e_store (m_engine m)))\<rparr>"
  obtain b where del: "sqlite_Delete i (e_store (m_engine m)) = (db, Inr b)" using sqlite_Delete_ok[OF ok] by (simp add: db_def)
  then have "sqlite_inv db \<and> sqlite_tasks ft db i = None" using sq.Delete[OF inv, of ft i db "Inr b"] by (simp add: SQLiteStore_def)
  moreover have "db_faults db = []" using ok by (simp add: db_def)
  ultimately show ?thesis using ts env del
    by (intro exI[of _ "(m_engine m)\<lparr>e_store := db\<rparr>"])
       (simp add: remove_row_def on_store_def SQLiteStore_def set_thread_def replace_at_def nth_append)
qed

text \<open>C36.  A DELETE is not atomic with a resubmission.  In any state the sidecar reaches, over a store
  without any fault: take a task whose row is failed and whose run has ended.  If a DELETE of it and a
  resubmission overlap, the DELETE looking for a run to cancel before the resubmission and removing
  the row after it, then both succeed, the row of the run just started is gone, and that run
  executes on, uncancelled.  A further submission then starts run 1 of the same task beside it, and
  neither is cancelled.\<close>

theorem delete_races_resubmit:
  assumes "reachable (sidecar_env ft others uv) m" and inv: "sqlite_inv (e_store (m_engine m))"
    and ok: "db_faults (e_store (m_engine m)) = []" and free: "\<not> m_locked m" and up: "\<not> e_stopped (m_engine m)"
    and guard: "submit_guard (sidecar_env ft others uv) fresh task = Ok i"
    and row: "sqlite_tasks ft (e_store (m_engine m)) i = Some r" "tr_Status r = TaskStatusFailed"
    and ended: "e_cancels (m_engine m) i = None" and times: "printable_time t1" "printable_time t3"
    and n: "n = length (m_threads m)"
  shows "\<exists>m1 g. run_actions (sidecar_env ft others uv)
        [DeleteTask i, PostTask fresh task, Advance (Suc n) t1, Advance n t2] m = Some m1 \<and>
      sqlite_tasks ft (e_store (m_engine m1)) i = None \<and> m_threads m1 = m_threads m @ [Run g Executing] \<and>
      g_id g = i \<and> g_run g = tr_Run r + 1 \<and> \<not> ctx_cancelled (m_engine m1) (g_gen g) \<and>
      (\<exists>m2 g'. run_actions (sidecar_env ft others uv) [PostTask fresh task, Advance (Suc n) t3] m1 = Some m2 \<and>
        m_threads m2 = m_threads m @ [Run g Executing, Run g' Executing] \<and> g_id g' = i \<and> g_run g' = 1 \<and> g_gen g' \<noteq> g_gen g \<and>
        \<not> ctx_cancelled (m_engine m2) (g_gen g) \<and> \<not> ctx_cancelled (m_engine m2) (g_gen g'))"
proof -
  let ?env = "sidecar_env ft others uv"
  have env: "env_store ?env = SQLiteStore ft" by (simp add: sidecar_env_def)
  define ma where "ma = m\<lparr>m_threads := m_threads m @ [Deleting i None], m_deletes := i # m_deletes m\<rparr>"
  have del: "do_action ?env (DeleteTask i) m = Some ma" using free ended by (simp add: ma_def remove_cancel_def)
  have "submit_decision (Ok (sqlite_tasks ft (e_store (m_engine ma)) i)) = Some (tr_Run r + 1)"
    using row by (simp add: ma_def submit_decision_def status_defs)
  then obtain mb g where mb: "run_actions ?env [PostTask fresh task, Advance (Suc n) t1] ma = Some mb"
      "resubmitted ft i (tr_Run r + 1) g ma mb"
    using resubmit_actions[of ma ?env fresh task i ft t1] inv ok free guard env times(1) n by (auto simp: ma_def)
  have ts: "m_threads mb = m_threads m @ Deleting i None # [Run g Executing]" using mb(2) by (simp add: resubmitted_def ma_def)
  obtain e where e: "do_action ?env (Advance n t2) mb = Some (mb\<lparr>m_engine := e, m_threads := m_threads m @ [Run g Executing]\<rparr>)"
    "e_gen e = e_gen (m_engine mb)" "e_cancelled e = e_cancelled (m_engine mb)" "e_stopped e = e_stopped (m_engine mb)"
    "sqlite_inv (e_store e)" "db_faults (e_store e) = []" "sqlite_tasks ft (e_store e) i = None"
    using delete_action[OF _ _ env ts, of t2] mb(2) n by (auto simp: resubmitted_def)
  define mc where "mc = mb\<lparr>m_engine := e, m_threads := m_threads m @ [Run g Executing]\<rparr>"
  have "submit_decision (Ok (sqlite_tasks ft (e_store (m_engine mc)) i)) = Some 1"
    using e(7) by (simp add: mc_def submit_decision_def)
  then obtain md g' where md: "run_actions ?env [PostTask fresh task, Advance (Suc n) t3] mc = Some md" "resubmitted ft i 1 g' mc md"
    using resubmit_actions[of mc ?env fresh task i ft t3] e(5,6) mb(2) guard env times(2) n by (auto simp: mc_def resubmitted_def)
  have old: "k \<le> e_gen (m_engine m)" if "k \<in> set (e_cancelled (m_engine m))" for k
    using registry_invD(5) reachable_inv[OF assms(1)] that by (auto simp: machine_inv_def)
  have run1: "run_actions ?env [DeleteTask i, PostTask fresh task, Advance (Suc n) t1, Advance n t2] m = Some mc"
  proof -
    have split: "run_actions ?env (as @ bs) x = Option.bind (run_actions ?env as x) (run_actions ?env bs)" for as bs x
      by (induction as arbitrary: x) (simp_all split: Option.bind_split)
    have "run_actions ?env ([PostTask fresh task, Advance (Suc n) t1] @ [Advance n t2]) ma = Some mc"
      unfolding split mb(1) using e(1) by (simp add: mc_def)
    then show ?thesis using del by simp
  qed
  have gens: "g_gen g = Suc (e_gen (m_engine m))" "g_gen g' = Suc (Suc (e_gen (m_engine m)))"
    "e_cancelled (m_engine mc) = e_cancelled (m_engine m)" "e_cancelled (m_engine md) = e_cancelled (m_engine m)"
    "\<not> e_stopped (m_engine mc)" "\<not> e_stopped (m_engine md)"
    using mb(2) md(2) e(2-4) up by (simp_all add: resubmitted_def ma_def mc_def)
  then have "\<not> ctx_cancelled (m_engine mc) (g_gen g)" "\<not> ctx_cancelled (m_engine md) (g_gen g)"
    "\<not> ctx_cancelled (m_engine md) (g_gen g')"
    using old by (fastforce simp: ctx_cancelled_def)+
  moreover have "sqlite_tasks ft (e_store (m_engine mc)) i = None" "m_threads mc = m_threads m @ [Run g Executing]"
    "g_id g = i" "g_run g = tr_Run r + 1" "m_threads md = m_threads m @ [Run g Executing, Run g' Executing]" "g_id g' = i" "g_run g' = 1"
    "g_gen g' \<noteq> g_gen g"
    using e(7) mb(2) md(2) gens by (simp_all add: mc_def resubmitted_def)
  ultimately show ?thesis using run1 md(1) by blast
qed

theorem delete_races_resubmit_witness:
  "let m = boot demo_env (\<lambda>_. 0) (demo_store [demo_result demo_id ''config-patch'' TaskStatusFailed 0])
   in \<exists>m1 g. run_actions demo_env [DeleteTask demo_id, PostTask [] demo_task, Advance 1 0, Advance 0 0] m = Some m1 \<and>
      sqlite_tasks (\<lambda>n. n) (e_store (m_engine m1)) demo_id = None \<and> m_threads m1 = [Run g Executing] \<and>
      g_id g = demo_id \<and> g_run g = 2 \<and> \<not> ctx_cancelled (m_engine m1) (g_gen g)"
proof -
  let ?rs = "[demo_result demo_id ''config-patch'' TaskStatusFailed 0]"
  let ?m = "boot demo_env (\<lambda>_. 0) (demo_store ?rs)"
  have "e_store (m_engine ?m) = demo_store ?rs \<and> m_threads ?m = [] \<and> \<not> m_locked ?m \<and> \<not> e_stopped (m_engine ?m) \<and>
      e_cancels (m_engine ?m) demo_id = None" by code_simp
  then have m: "e_store (m_engine ?m) = demo_store ?rs" "m_threads ?m = []" "\<not> m_locked ?m" "\<not> e_stopped (m_engine ?m)"
      "e_cancels (m_engine ?m) demo_id = None" by blast+
  have inv: "sqlite_inv (demo_store ?rs)"
    by (rule sqlite_inv_rows[of _ ?rs]) (simp add: demo_store_def, simp, code_simp)
  have row: "sqlite_tasks (\<lambda>n. n) (demo_store ?rs) demo_id = Some (stored_row (\<lambda>n. n) (hd ?rs))"
    unfolding sqlite_tasks_iff[OF inv]
    by (rule exI[of _ "hd ?rs"]) (simp add: demo_store_def, simp add: demo_result_def storable_row_def printable_time_def epoch_days_def)
  have now: "printable_time 0" by code_simp
  have guard: "submit_guard demo_env [] demo_task = Ok demo_id"
    by (simp add: submit_guard_def validateTaskID_def demo_env_def sidecar_env_def demo_task_def demo_id_def
        demo_others_def demo_uuid_def TaskMarkReady_def TaskMarkNotReady_def)
  have "db_faults (demo_store ?rs) = []" by (simp add: demo_store_def)
  note race = delete_races_resubmit[where ft = "\<lambda>n. n" and others = demo_others and uv = demo_uuid and m = ?m and ?t1.0 = 0 and ?t3.0 = 0
      and ?t2.0 = 0 and n = 0, folded demo_env_def]
  show ?thesis
    using race[OF reachable.start _ _ m(3,4) guard _ _ m(5) now now] m inv row \<open>db_faults (demo_store ?rs) = []\<close>
    by (simp add: Let_def status_defs) blast
qed

text \<open>The newest hold by the text of its timestamp need not be the newest hold: a hold submitted 120 ms into
  a second sorts after one submitted 123 ms into it.  A mark-ready submitted between the two is
  then rehydrated although the later hold supersedes it.\<close>

theorem text_order_misses_hold:
  "let st = demo_store [demo_result ''hold1'' TaskMarkNotReady TaskStatusFailed 1120000000,
                        demo_result ''release'' TaskMarkReady TaskStatusRunning 1121000000,
                        demo_result ''hold2'' TaskMarkNotReady TaskStatusFailed 1123000000]
   in map g_id (snd (RehydrateStaleTasks demo_env (\<lambda>_. 9000000000) (NewEngine st))) = [''release'']"
  by code_simp

text \<open>\<open>Submit\<close> drops the error of its read: when the read of a completed task fails, the task runs again as
  run 1 and its row is overwritten.\<close>

theorem failed_read_reruns:
  "let st = (demo_store [demo_result demo_id ''config-patch'' TaskStatusCompleted 0])\<lparr>db_faults := [Some ''busy'']\<rparr>;
       r = Submit demo_env [] 5 demo_task (NewEngine st)
   in map_option g_run (fst (snd r)) = Some 1 \<and>
      map row_status (db_rows (e_store (fst r))) = [TaskStatusRunning]"
  by code_simp

text \<open>A run that succeeds after its task was deleted writes its row back: the deleted task reappears as
  completed.\<close>

definition slow_env :: "sqlite engine_env" where
  "slow_env = sidecar_env (\<lambda>n. n) (\<lambda>ty. if ty = ''config-patch'' then Some (\<lambda>_ _ _ s. (s, Returned None None)) else None) demo_uuid"

theorem deleted_task_reappears:
  "case run_actions slow_env [PostTask [] demo_task, Advance 0 1, DeleteTask demo_id, Advance 1 1, Advance 1 1,
                              Advance 0 2, Advance 0 2, Advance 0 2] (boot slow_env (\<lambda>_. 0) (demo_store [])) of
     None \<Rightarrow> False
   | Some m \<Rightarrow> m_threads m = [] \<and> m_deletes m = [demo_id] \<and>
       map row_id (db_rows (e_store (m_engine m))) = [demo_id] \<and>
       map row_status (db_rows (e_store (m_engine m))) = [TaskStatusCompleted]"
  by code_simp

end
