(* ===== verification/SidecarServer.thy ===== *)
theory SidecarServer
  imports SidecarProps
begin

text \<open>
  The sidecar's HTTP interface (\<open>sidecar/server/server.go\<close>, \<open>auth.go\<close>, \<open>hashlog.go\<close>): the
  authentication middleware, the route handlers and the hash-log files.

  A request names its endpoint after routing, with the path value of a wildcard already unescaped (it may
  hold any character, a slash included), the decoded body of a POST (none when the body is not
  a task request), and the values of the \<open>X-Remote-User\<close> header.  A response is its status code, its
  \<open>Retry-After\<close> header and what the body encodes.  The endpoint \<open>/v0/metrics\<close> (Prometheus' own
  handler) and \<open>/v0/node-id\<close> (base64 and SHA-256 of a key file) answer through a parameter.
\<close>

subsection \<open>Hash-log files\<close>

definition name_char :: "char \<Rightarrow> bool" where
  "name_char c \<longleftrightarrow> (let n = (of_char c :: nat) in
     65 \<le> n \<and> n \<le> 90 \<or> 97 \<le> n \<and> n \<le> 122 \<or> 48 \<le> n \<and> n \<le> 57 \<or> c = CHR ''.'' \<or> c = CHR ''_'')"

text \<open>A run of digits, followed by a dash.\<close>

definition digits_dash :: "string \<Rightarrow> (string \<times> string) option" where
  "digits_dash s =
     (let d = takeWhile is_digit s; r = dropWhile is_digit s
      in if d \<noteq> [] \<and> has_prefix r ''-'' then Some (d, tl r) else None)"

text \<open>One or more name characters, then the suffix.\<close>

definition version_with :: "string \<Rightarrow> string \<Rightarrow> bool" where
  "version_with suffix s \<longleftrightarrow>
     length suffix < length s \<and> drop (length s - length suffix) s = suffix \<and>
     list_all name_char (take (length s - length suffix) s)"

text \<open>The two regular expressions: the file index when the name matches.\<close>

definition sealedHashLogName :: "string \<Rightarrow> string option" where
  "sealedHashLogName s =
     Option.bind (digits_dash s) (\<lambda>(idx, r1).
     Option.bind (digits_dash r1) (\<lambda>(_, r2).
     Option.bind (digits_dash r2) (\<lambda>(_, r3). if version_with ''.hlog'' r3 then Some idx else None)))"

definition unsealedHashLogName :: "string \<Rightarrow> string option" where
  "unsealedHashLogName s =
     Option.bind (digits_dash s) (\<lambda>(idx, r). if version_with ''.hlog.u'' r then Some idx else None)"

definition parse_uint64 :: "string \<Rightarrow> nat option" where
  "parse_uint64 s = (let n = digits_val 0 s in if n < 18446744073709551616 then Some n else None)"

definition parseHashLogName :: "string \<Rightarrow> (nat \<times> bool) option" where
  "parseHashLogName name =
     (case sealedHashLogName name of
        Some idx \<Rightarrow> map_option (\<lambda>i. (i, True)) (parse_uint64 idx)
      | None \<Rightarrow>
          (case unsealedHashLogName name of
             Some idx \<Rightarrow> map_option (\<lambda>i. (i, False)) (parse_uint64 idx)
           | None \<Rightarrow> None))"

record HashLogFile =
  hl_Name :: string
  hl_Index :: nat
  hl_Size :: int
  hl_Sealed :: bool

datatype fs_error = NotExist | FsError string

record dir_entry =
  de_Name :: string
  de_Regular :: bool
  de_Info :: "fs_error + int"

text \<open>The loop over the directory: a file that disappeared meanwhile is skipped, another error ends it.\<close>

fun hashlog_files :: "dir_entry list \<Rightarrow> HashLogFile list result" where
  "hashlog_files [] = Ok []"
| "hashlog_files (e # es) =
     (if \<not> de_Regular e then hashlog_files es
      else (case parseHashLogName (de_Name e) of
              None \<Rightarrow> hashlog_files es
            | Some (idx, sealed) \<Rightarrow>
                (case de_Info e of
                   Inl NotExist \<Rightarrow> hashlog_files es
                 | Inl (FsError m) \<Rightarrow> Err (''reading hash log file info: '' @ m)
                 | Inr sz \<Rightarrow>
                     bind_result (hashlog_files es) (\<lambda>fs.
                       Ok (\<lparr>hl_Name = de_Name e, hl_Index = idx, hl_Size = sz, hl_Sealed = sealed\<rparr> # fs)))))"

subsection \<open>Requests and responses\<close>

datatype endpoint =
    GetHealthz | GetStartupz | GetLivez bool | GetStatus | GetMetrics | GetNodeID
  | ListHashLog | GetHashLogFile string
  | PostTasks "Task option" | ListTasks | GetTask string | DeleteTasks string

datatype body =
    NoBody
  | ErrorBody string
  | IDBody string
  | StatusBody string "int option"
  | TaskBody TaskResult
  | TasksBody "TaskResult list"
  | HashLogBody "HashLogFile list"
  | FileBody string
  | OtherBody string

record response =
  rsp_code :: nat
  rsp_retry_after :: "string option"
  rsp_body :: body

record request =
  req_endpoint :: endpoint
  req_remote_user :: "string list"

text \<open>What the handlers read beside the engine: the hash-log directory and its files, the local RPC's
  height, the two parameter endpoints, the clock and a fresh UUID.\<close>

record server_world =
  w_hashlog_dir :: "fs_error + dir_entry list"
  w_hashlog_open :: "string \<Rightarrow> fs_error + string"
  w_height :: "int option"
  w_metrics :: response
  w_node_id :: response
  w_now :: go_time
  w_fresh :: string

definition respond :: "nat \<Rightarrow> body \<Rightarrow> response" where
  "respond code b = \<lparr>rsp_code = code, rsp_retry_after = None, rsp_body = b\<rparr>"

definition writeError :: "nat \<Rightarrow> string \<Rightarrow> response" where
  "writeError code msg = respond code (ErrorBody msg)"

subsection \<open>The handlers\<close>

definition handleHealthz :: "'s engine \<Rightarrow> response" where
  "handleHealthz e = respond (if Healthz e then 200 else 503) NoBody"

definition handleLivez :: "'s engine_env \<Rightarrow> bool \<Rightarrow> 's engine \<Rightarrow> 's engine \<times> response" where
  "handleLivez env verbose e =
     (case Livez env e of
        (e1, None) \<Rightarrow> (e1, respond 200 NoBody)
      | (e1, Some err) \<Rightarrow> (e1, if verbose then writeError 503 err else respond 503 NoBody))"

definition handleStatus :: "server_world \<Rightarrow> 's engine \<Rightarrow> response" where
  "handleStatus w e = respond 200 (StatusBody (Status e) (w_height w))"

definition handlePostTask ::
    "'s engine_env \<Rightarrow> server_world \<Rightarrow> Task option \<Rightarrow> 's engine \<Rightarrow> 's engine \<times> response \<times> goroutine option" where
  "handlePostTask env w req e =
     (case req of
        None \<Rightarrow> (e, writeError 400 ''invalid request body'', None)
      | Some task \<Rightarrow>
          if task_Type task = [] then (e, writeError 400 ''type is required'', None)
          else (case Submit env (w_fresh w) (w_now w) task e of
                  (e1, g, Inl err) \<Rightarrow> (e1, writeError 400 err, g)
                | (e1, g, Inr i) \<Rightarrow> (e1, respond 201 (IDBody i), g)))"

definition handleListTasks :: "'s engine_env \<Rightarrow> 's engine \<Rightarrow> 's engine \<times> response" where
  "handleListTasks env e = map_prod id (\<lambda>rs. respond 200 (TasksBody rs)) (RecentResults env e)"

definition handleGetTask :: "'s engine_env \<Rightarrow> string \<Rightarrow> 's engine \<Rightarrow> 's engine \<times> response" where
  "handleGetTask env i e =
     (if i = [] then (e, writeError 400 ''missing task ID'')
      else (case GetResult env i e of
              (e1, None) \<Rightarrow> (e1, writeError 404 ''task not found'')
            | (e1, Some r) \<Rightarrow> (e1, respond 200 (TaskBody r))))"

definition handleDeleteTask :: "'s engine_env \<Rightarrow> string \<Rightarrow> 's engine \<Rightarrow> 's engine \<times> response" where
  "handleDeleteTask env i e =
     (if i = [] then (e, writeError 400 ''missing task ID'')
      else (case RemoveResult env i e of
              (e1, Inl err) \<Rightarrow> (e1, (writeError 503 ''failed to delete task; retry'')\<lparr>rsp_retry_after := Some ''1''\<rparr>)
            | (e1, Inr deleted) \<Rightarrow> (e1, if deleted then respond 204 NoBody else writeError 404 ''task not found'')))"

text \<open>The listing is sorted by file index (\<open>sort.Slice\<close> does not promise an order between equal
  indices; here they stay as read).\<close>

definition handleListHashLog :: "server_world \<Rightarrow> response" where
  "handleListHashLog w =
     (case w_hashlog_dir w of
        Inl NotExist \<Rightarrow> writeError 404 ''hash log directory not found''
      | Inl (FsError m) \<Rightarrow> writeError 500 (''reading hash log directory: '' @ m)
      | Inr es \<Rightarrow>
          (case hashlog_files es of
             Inl err \<Rightarrow> writeError 500 err
           | Inr fs \<Rightarrow> respond 200 (HashLogBody (sort_key hl_Index fs))))"

definition handleGetHashLogFile :: "server_world \<Rightarrow> string \<Rightarrow> response" where
  "handleGetHashLogFile w name =
     (if parseHashLogName name = None then writeError 400 ''not a hash log file name''
      else (case w_hashlog_open w name of
              Inl NotExist \<Rightarrow> writeError 404 ''hash log file not found''
            | Inl (FsError m) \<Rightarrow> writeError 500 (''opening hash log file: '' @ m)
            | Inr content \<Rightarrow> respond 200 (FileBody content)))"

fun route ::
    "'s engine_env \<Rightarrow> server_world \<Rightarrow> endpoint \<Rightarrow> 's engine \<Rightarrow> 's engine \<times> response \<times> goroutine option" where
  "route env w GetHealthz e = (e, handleHealthz e, None)"
| "route env w GetStartupz e = (e, handleHealthz e, None)"
| "route env w (GetLivez v) e = (case handleLivez env v e of (e1, r) \<Rightarrow> (e1, r, None))"
| "route env w GetStatus e = (e, handleStatus w e, None)"
| "route env w GetMetrics e = (e, w_metrics w, None)"
| "route env w GetNodeID e = (e, w_node_id w, None)"
| "route env w ListHashLog e = (e, handleListHashLog w, None)"
| "route env w (GetHashLogFile n) e = (e, handleGetHashLogFile w n, None)"
| "route env w (PostTasks t) e = handlePostTask env w t e"
| "route env w ListTasks e = (case handleListTasks env e of (e1, r) \<Rightarrow> (e1, r, None))"
| "route env w (GetTask i) e = (case handleGetTask env i e of (e1, r) \<Rightarrow> (e1, r, None))"
| "route env w (DeleteTasks i) e = (case handleDeleteTask env i e of (e1, r) \<Rightarrow> (e1, r, None))"

subsection \<open>Authentication\<close>

datatype authn_mode = AuthnModeUnauthenticated | AuthnModeTrustedHeader

text \<open>\<open>raw\<close> is the environment variable after trimming and lowering.\<close>

definition AuthnMode :: "string \<Rightarrow> authn_mode result" where
  "AuthnMode raw =
     (if raw = [] \<or> raw = ''unauthenticated'' then Ok AuthnModeUnauthenticated
      else if raw = ''trusted-header'' then Ok AuthnModeTrustedHeader
      else Err (''SEI_SIDECAR_AUTHN_MODE='' @ quoted raw @ '' is not recognized (allowed: '' @ quoted [] @ '', '' @
                quoted ''unauthenticated'' @ '', '' @ quoted ''trusted-header'' @ '')''))"

definition BindAddress :: "string \<Rightarrow> authn_mode \<Rightarrow> string" where
  "BindAddress port mode = (if mode = AuthnModeTrustedHeader then ''127.0.0.1:'' @ port else '':'' @ port)"

fun endpoint_path :: "endpoint \<Rightarrow> string" where
  "endpoint_path GetHealthz = ''/v0/healthz''"
| "endpoint_path GetStartupz = ''/v0/startupz''"
| "endpoint_path (GetLivez v) = ''/v0/livez''"
| "endpoint_path GetStatus = ''/v0/status''"
| "endpoint_path GetMetrics = ''/v0/metrics''"
| "endpoint_path GetNodeID = ''/v0/node-id''"
| "endpoint_path ListHashLog = ''/v0/hashlog''"
| "endpoint_path (GetHashLogFile n) = ''/v0/hashlog/'' @ n"
| "endpoint_path (PostTasks t) = ''/v0/tasks''"
| "endpoint_path ListTasks = ''/v0/tasks''"
| "endpoint_path (GetTask i) = ''/v0/tasks/'' @ i"
| "endpoint_path (DeleteTasks i) = ''/v0/tasks/'' @ i"

definition bypassPaths :: "string list" where
  "bypassPaths = [''/v0/healthz'', ''/v0/startupz'', ''/v0/livez'', ''/v0/metrics'']"

definition trustedHeaderMiddleware ::
    "(request \<Rightarrow> 's engine \<Rightarrow> 's engine \<times> response \<times> goroutine option) \<Rightarrow>
     request \<Rightarrow> 's engine \<Rightarrow> 's engine \<times> response \<times> goroutine option" where
  "trustedHeaderMiddleware next_handler req e =
     (if endpoint_path (req_endpoint req) \<in> set bypassPaths then next_handler req e
      else (case req_remote_user req of
              [] \<Rightarrow> (e, writeError 401 ''missing X-Remote-User header'', None)
            | v # [] \<Rightarrow>
                if v = [] then (e, writeError 401 ''empty X-Remote-User header'', None) else next_handler req e
            | v # w # ws \<Rightarrow>
                (e, writeError 401 (''expected exactly one X-Remote-User header '' @ [CHR 0xE2, CHR 0x80, CHR 0x94] @
                   '' proxy must overwrite, not append''), None)))"

definition serve ::
    "authn_mode \<Rightarrow> 's engine_env \<Rightarrow> server_world \<Rightarrow> request \<Rightarrow> 's engine \<Rightarrow>
     's engine \<times> response \<times> goroutine option" where
  "serve mode env w =
     (let handler = (\<lambda>req. route env w (req_endpoint req))
      in if mode = AuthnModeTrustedHeader then trustedHeaderMiddleware handler else handler)"

subsection \<open>Properties\<close>

text \<open>The endpoints that skip the header check: the probes and the metrics.\<close>

definition is_probe :: "endpoint \<Rightarrow> bool" where
  "is_probe ep \<longleftrightarrow> (case ep of GetHealthz \<Rightarrow> True | GetStartupz \<Rightarrow> True | GetLivez _ \<Rightarrow> True | GetMetrics \<Rightarrow> True | _ \<Rightarrow> False)"

lemma bypass_iff_probe: "endpoint_path ep \<in> set bypassPaths \<longleftrightarrow> is_probe ep"
  by (cases ep) (simp_all add: bypassPaths_def is_probe_def)

text \<open>C35.  In trusted-header mode a request that does not carry exactly one non-empty \<open>X-Remote-User\<close> value
  is answered 401 and changes nothing, starts no task and reads no file, unless it is one of the
  four probe and metrics endpoints; and an accepted one is served as without authentication.\<close>

theorem trusted_header_gate:
  "if is_probe (req_endpoint req) \<or> (\<exists>u. req_remote_user req = [u] \<and> u \<noteq> [])
   then serve AuthnModeTrustedHeader env w req e = serve AuthnModeUnauthenticated env w req e
   else \<exists>r. serve AuthnModeTrustedHeader env w req e = (e, r, None) \<and> rsp_code r = 401"
  by (auto simp: serve_def trustedHeaderMiddleware_def bypass_iff_probe writeError_def respond_def Let_def
      split: list.splits)

lemma digits_dash_chars:
  "digits_dash s = Some (d, r) \<Longrightarrow> s = d @ CHR ''-'' # r \<and> all_digits d"
proof -
  assume d: "digits_dash s = Some (d, r)"
  then have eq: "d = takeWhile is_digit s" and p: "has_prefix (dropWhile is_digit s) ''-''" and r: "r = tl (dropWhile is_digit s)"
    by (auto simp: digits_dash_def Let_def split: if_splits)
  then have "dropWhile is_digit s = CHR ''-'' # r" by (cases "dropWhile is_digit s") auto
  moreover have "s = d @ dropWhile is_digit s" using eq by simp
  ultimately show ?thesis using eq by (metis list_all_iff set_takeWhileD)
qed

lemma version_chars: "version_with suffix s \<Longrightarrow> list_all name_char suffix \<Longrightarrow> list_all name_char s"
  unfolding version_with_def by (metis append_take_drop_id list_all_append)

text \<open> The hash-log download stays inside its directory: a name is opened only when it parses as a hash-log
  file name, and such a name holds no slash and is neither \<open>.\<close> nor \<open>..\<close>, so joining it to the
  directory names a direct child of it, whatever the request's unescaped path value was.\<close>

theorem hashlog_name_confined:
  assumes "handleGetHashLogFile w name \<noteq> writeError 400 ''not a hash log file name''"
  shows "CHR ''/'' \<notin> set name \<and> name \<noteq> ''.'' \<and> name \<noteq> ''..'' \<and> name \<noteq> [] \<and>
    (\<exists>idx sealed. parseHashLogName name = Some (idx, sealed) \<and> idx < 2 ^ 64)"
proof -
  obtain idx sealed where p: "parseHashLogName name = Some (idx, sealed)"
    using assms by (cases "parseHashLogName name") (auto simp: handleGetHashLogFile_def)
  have bound: "idx < 2 ^ 64"
    using p by (auto simp: parseHashLogName_def parse_uint64_def Let_def split: option.splits if_splits)
  have dg: "list_all (\<lambda>c. name_char c \<or> c = CHR ''-'') d" if "all_digits d" for d
    using that by (auto simp: list_all_iff is_digit_def name_char_def)
  have dc: "name_char c" if "is_digit c" for c using that by (auto simp: is_digit_def name_char_def)
  have suf: "list_all name_char ''.hlog''" "list_all name_char ''.hlog.u''" by (simp_all add: name_char_def)
  have nc: "list_all (\<lambda>c. name_char c \<or> c = CHR ''-'') s" if "list_all name_char s" for s
    using that by (auto simp: list_all_iff)
  have chars: "list_all (\<lambda>c. name_char c \<or> c = CHR ''-'') name \<and> is_digit (hd name) \<and> name \<noteq> []"
  proof (cases "sealedHashLogName name")
    case (Some x)
    then obtain a b c r1 r2 r3 where "digits_dash name = Some (a, r1)" "digits_dash r1 = Some (b, r2)"
      "digits_dash r2 = Some (c, r3)" "version_with ''.hlog'' r3" and a: "a \<noteq> []"
      by (auto simp: sealedHashLogName_def digits_dash_def Let_def split: bind_splits if_splits)
    then have "name = a @ CHR ''-'' # b @ CHR ''-'' # c @ CHR ''-'' # r3" "all_digits a" "all_digits b" "all_digits c"
      "list_all name_char r3"
      using digits_dash_chars version_chars[OF _ suf(1)] by (metis, metis, metis, metis, metis)
    then show ?thesis using dg nc dc a by (cases a) simp_all
  next
    case None
    with p obtain x where "unsealedHashLogName name = Some x"
      by (auto simp: parseHashLogName_def split: option.splits)
    then obtain a r where "digits_dash name = Some (a, r)" "version_with ''.hlog.u'' r" and a: "a \<noteq> []"
      by (auto simp: unsealedHashLogName_def digits_dash_def Let_def split: bind_splits if_splits)
    then have "name = a @ CHR ''-'' # r" "all_digits a" "list_all name_char r"
      using digits_dash_chars version_chars[OF _ suf(2)] by (metis, metis, metis)
    then show ?thesis using dg nc dc a by (cases a) simp_all
  qed
  have "\<not> name_char (CHR ''/'')" by (simp add: name_char_def)
  then have "CHR ''/'' \<notin> set name" using chars by (auto simp: list_all_iff)
  moreover have "\<not> is_digit (CHR ''.'')" by (simp add: is_digit_def)
  then have "name \<noteq> ''.''" "name \<noteq> ''..''" using chars by auto
  ultimately show ?thesis using p bound chars by blast
qed

theorem hashlog_name_confined_witness:
  "\<exists>idx sealed. parseHashLogName ''10-2001-2500-v6.7.0.hlog'' = Some (idx, sealed) \<and> idx < 2 ^ 64"
proof -
  define w where "w = \<lparr>w_hashlog_dir = Inl NotExist, w_hashlog_open = (\<lambda>_. Inr ''csv''), w_height = None,
    w_metrics = respond 200 NoBody, w_node_id = respond 500 NoBody, w_now = 0, w_fresh = []\<rparr>"
  have "parseHashLogName ''10-2001-2500-v6.7.0.hlog'' = Some (10, True)" by code_simp
  then have "handleGetHashLogFile w ''10-2001-2500-v6.7.0.hlog'' \<noteq> writeError 400 ''not a hash log file name''"
    by (simp add: handleGetHashLogFile_def w_def writeError_def respond_def)
  from hashlog_name_confined[OF this] show ?thesis by blast
qed

end
