(* ===== verification/SignTx.thy ===== *)
theory SignTx
  imports SidecarStore
begin

text \<open>
  Signing and broadcasting transactions (\<open>sidecar/tasks/sign_and_broadcast.go\<close>, \<open>gov_result.go\<close>): the
  shared path of the gov and unjail handlers, with the marker that keeps a crashed task from signing twice.

  Everything outside the process is the record \<open>txworld\<close>: the local node's answers, the Cosmos SDK's
  coin parser, message validation and signing, the time each call takes and when the task's context
  is cancelled.  Its answers may depend on all events so far.  The events are the node calls, the
  reads and writes of the marker and the sleeps; the clock advances with them.
\<close>

subsection \<open>Events, state and world\<close>

datatype tx_event =
    AskedStatus
  | AskedAccount
  | ReadMarker string
  | WroteMarker TxMarker
  | Broadcasted string
  | AskedTx string
  | Slept

record sign_state =
  ss_store :: sqlite
  ss_trace :: "tx_event list"
  ss_now :: go_time

record TxResponse =
  txr_TxHash :: string
  txr_Height :: int
  txr_Code :: nat
  txr_Codespace :: string
  txr_RawLog :: string
  txr_Data :: string
  txr_GasWanted :: int
  txr_GasUsed :: int

datatype tx_error =
    PlainError error
  | TerminalError error
  | ContextCanceled
  | TxIndexingDisabled

text \<open>The answer of \<open>QueryTx\<close>.\<close>

datatype tx_answer = TxFound TxResponse | TxNotFound | TxDisabled | TxQueryError error

datatype account_answer = AccountIs nat nat | AccountNotFound error | AccountError error

datatype sign_answer = BuildError error | SignError error | EncodeError error | Signed string

record SignAndBroadcastInput =
  si_ChainID :: string
  si_KeyName :: string
  si_Msg :: "string option"
  si_Fees :: string
  si_Gas :: nat
  si_Memo :: string
  si_TaskID :: string

record txworld =
  tw_env_chain :: string
  tw_from_addr :: string
  tw_rpc_configured :: bool
  tw_status :: "tx_event list \<Rightarrow> string result"
  tw_account :: "tx_event list \<Rightarrow> account_answer"
  tw_broadcast :: "tx_event list \<Rightarrow> string \<Rightarrow> TxResponse result"
  tw_query :: "tx_event list \<Rightarrow> string \<Rightarrow> tx_answer"
  tw_sign :: "tx_event list \<Rightarrow> SignAndBroadcastInput \<Rightarrow> nat \<Rightarrow> nat \<Rightarrow> sign_answer"
  tw_hash :: "string \<Rightarrow> string"
  tw_parse_coins :: "string \<Rightarrow> (string \<times> int) list result"
  tw_validate_msg :: "string \<Rightarrow> error option"
  tw_nonprintable :: "string \<Rightarrow> string option"
  tw_proposal_id :: "TxResponse \<Rightarrow> nat"
  tw_checkpointer :: bool
  tw_elapsed :: "tx_event list \<Rightarrow> nat"
  tw_canceled :: "tx_event list \<Rightarrow> bool"

text \<open>An event happens: it is recorded and takes the time the world says.\<close>

definition observe :: "txworld \<Rightarrow> tx_event \<Rightarrow> sign_state \<Rightarrow> sign_state" where
  "observe W ev s = s\<lparr>ss_trace := ss_trace s @ [ev], ss_now := ss_now s + int (tw_elapsed W (ss_trace s))\<rparr>"

definition canceled :: "txworld \<Rightarrow> sign_state \<Rightarrow> bool" where
  "canceled W s = tw_canceled W (ss_trace s)"

definition sleep :: "txworld \<Rightarrow> duration \<Rightarrow> sign_state \<Rightarrow> sign_state" where
  "sleep W d s = (observe W Slept s)\<lparr>ss_now := ss_now (observe W Slept s) + d\<rparr>"

definition ask_tx :: "txworld \<Rightarrow> string \<Rightarrow> sign_state \<Rightarrow> sign_state \<times> tx_answer" where
  "ask_tx W h s = (observe W (AskedTx h) s, tw_query W (ss_trace s) h)"

subsection \<open>Results\<close>

record SignAndBroadcastResult =
  sr_TxHash :: string
  sr_Height :: int
  sr_Code :: nat
  sr_Codespace :: string
  sr_RawLog :: string
  sr_GasWanted :: int
  sr_GasUsed :: int
  sr_Sequence :: nat
  sr_AccountNumber :: nat
  sr_ChainID :: string
  sr_BroadcastedAt :: go_time
  sr_ProposalID :: nat
  sr_IncludedAt :: "go_time option"
  sr_Unverifiable :: bool

type_synonym tx_result = "tx_error + SignAndBroadcastResult"

definition undetermined_result :: "string \<Rightarrow> nat \<Rightarrow> nat \<Rightarrow> string \<Rightarrow> go_time \<Rightarrow> SignAndBroadcastResult" where
  "undetermined_result h acc sq chain now =
     \<lparr>sr_TxHash = h, sr_Height = 0, sr_Code = 0, sr_Codespace = [], sr_RawLog = [], sr_GasWanted = 0,
      sr_GasUsed = 0, sr_Sequence = sq, sr_AccountNumber = acc, sr_ChainID = chain, sr_BroadcastedAt = now,
      sr_ProposalID = 0, sr_IncludedAt = None, sr_Unverifiable = False\<rparr>"

definition unverifiableResult :: "string \<Rightarrow> nat \<Rightarrow> nat \<Rightarrow> string \<Rightarrow> go_time \<Rightarrow> SignAndBroadcastResult" where
  "unverifiableResult h acc sq chain now = (undetermined_result h acc sq chain now)\<lparr>sr_Unverifiable := True\<rparr>"

definition resultFromTxResponse ::
    "txworld \<Rightarrow> TxResponse \<Rightarrow> nat \<Rightarrow> nat \<Rightarrow> string \<Rightarrow> go_time \<Rightarrow> go_time option \<Rightarrow> SignAndBroadcastResult" where
  "resultFromTxResponse W resp acc sq chain broadcasted included =
     \<lparr>sr_TxHash = txr_TxHash resp, sr_Height = txr_Height resp, sr_Code = txr_Code resp,
      sr_Codespace = txr_Codespace resp, sr_RawLog = txr_RawLog resp, sr_GasWanted = txr_GasWanted resp,
      sr_GasUsed = txr_GasUsed resp, sr_Sequence = sq, sr_AccountNumber = acc, sr_ChainID = chain,
      sr_BroadcastedAt = broadcasted, sr_ProposalID = tw_proposal_id W resp, sr_IncludedAt = included,
      sr_Unverifiable = False\<rparr>"

subsection \<open>Checks before signing\<close>

definition taskIDMemoPrefix :: string where "taskIDMemoPrefix = ''taskID=''"

definition feeDenom :: string where "feeDenom = ''usei''"

definition maxMemoBytes :: nat where "maxMemoBytes = 256"

definition appendTaskIDToMemo :: "string \<Rightarrow> string \<Rightarrow> string" where
  "appendTaskIDToMemo base taskID =
     (if taskID = [] then base
      else if base = [] then taskIDMemoPrefix @ taskID
      else base @ '' '' @ taskIDMemoPrefix @ taskID)"

definition validateMemo :: "txworld \<Rightarrow> string \<Rightarrow> error option" where
  "validateMemo W memo =
     (if maxMemoBytes < length memo then
        Some (''memo length '' @ show_nat (length memo) @ '' exceeds '' @ show_nat maxMemoBytes @ '' bytes'')
      else map_option (\<lambda>r. ''memo contains non-printable character '' @ r) (tw_nonprintable W memo))"

definition validateInput :: "txworld \<Rightarrow> SignAndBroadcastInput \<Rightarrow> error option" where
  "validateInput W i =
     (if si_ChainID i = [] then Some ''chainId required''
      else if si_KeyName i = [] then Some ''keyName required''
      else case si_Msg i of
        None \<Rightarrow> Some ''msg required''
      | Some msg \<Rightarrow>
          if si_TaskID i = [] then Some ''taskId required (engine should always populate this)''
          else if si_Gas i = 0 then Some ''gas required (must be > 0)''
          else if si_Fees i = [] then Some ''fees required''
          else (case validateMemo W (si_Memo i) of
                  Some e \<Rightarrow> Some e
                | None \<Rightarrow> map_option (\<lambda>e. ''msg.ValidateBasic: '' @ e) (tw_validate_msg W msg)))"

fun first_foreign_denom :: "(string \<times> int) list \<Rightarrow> string option" where
  "first_foreign_denom [] = None"
| "first_foreign_denom ((d, n) # cs) = (if d \<noteq> feeDenom then Some d else first_foreign_denom cs)"

definition checkFeesDenom :: "txworld \<Rightarrow> string \<Rightarrow> error option" where
  "checkFeesDenom W fees =
     (case tw_parse_coins W fees of
        Inl e \<Rightarrow> Some (''parse fees '' @ quoted fees @ '': '' @ e)
      | Inr coins \<Rightarrow>
          if coins = [] then Some (''fees '' @ quoted fees @ '' resolves to zero or empty coins'')
          else if \<not> list_all (\<lambda>(d, n). n > 0) coins then Some (''fees '' @ quoted fees @ '' contains non-positive amounts'')
          else map_option (\<lambda>d. ''fees '' @ quoted fees @ '': denom '' @ quoted d @ '' not permitted (only '' @
                 quoted feeDenom @ '')'') (first_foreign_denom coins))"

definition guardChainID :: "txworld \<Rightarrow> string \<Rightarrow> sign_state \<Rightarrow> sign_state \<times> tx_error option" where
  "guardChainID W chain s =
     (if tw_env_chain W = [] then (s, Some (TerminalError ''SEI_CHAIN_ID not set on sidecar; refusing to sign''))
      else if chain \<noteq> tw_env_chain W then
        (s, Some (TerminalError (''chain mismatch: params.chainId='' @ quoted chain @ '' sidecar.SEI_CHAIN_ID='' @
                    quoted (tw_env_chain W))))
      else if \<not> tw_rpc_configured W then
        (s, Some (TerminalError ''RPC client not configured; cannot verify chain identity via /status''))
      else (observe W AskedStatus s,
            case tw_status W (ss_trace s) of
              Inl e \<Rightarrow> Some (PlainError e)
            | Inr net \<Rightarrow>
                if net = [] then Some (TerminalError ''/status.node_info.network is empty; refusing to sign'')
                else if net \<noteq> chain then
                  Some (TerminalError (''chain mismatch: params.chainId='' @ quoted chain @ '' node.network='' @ quoted net))
                else None))"

subsection \<open>Waiting loops\<close>

definition inclusionPollTimeout :: duration where "inclusionPollTimeout = 60000000000"
definition inclusionPollInterval :: duration where "inclusionPollInterval = 500000000"
definition accountNotFoundTimeout :: duration where "accountNotFoundTimeout = 60000000000"
definition accountNotFoundPollInterval :: duration where "accountNotFoundPollInterval = 1000000000"
definition adoptReQueryTimeout :: duration where "adoptReQueryTimeout = 5000000000"

lemma observe_simps [simp]:
  "ss_store (observe W ev s) = ss_store s" "ss_trace (observe W ev s) = ss_trace s @ [ev]"
  "ss_now s \<le> ss_now (observe W ev s)"
  by (simp_all add: observe_def)

lemma sleep_simps [simp]:
  "ss_store (sleep W d s) = ss_store s" "ss_trace (sleep W d s) = ss_trace s @ [Slept]"
  "ss_now s + d \<le> ss_now (sleep W d s)"
  by (simp_all add: sleep_def observe_def)

lemma ask_tx_now: "ss_now s \<le> ss_now (fst (ask_tx W h s))"
  by (simp add: ask_tx_def)

lemma sleep_now: "ss_now s + d \<le> ss_now (sleep W d s)"
  by (rule sleep_simps(3))

lemma poll_progress: "ss_now s + inclusionPollInterval \<le> ss_now (sleep W inclusionPollInterval (fst (ask_tx W h s)))"
  by (rule order_trans[OF _ sleep_now]) (simp add: ask_tx_now)

lemma poll_interval_pos: "0 < inclusionPollInterval" "0 < accountNotFoundPollInterval"
  by (simp_all add: inclusionPollInterval_def accountNotFoundPollInterval_def)

text \<open>\<open>pollForInclusion\<close> with its deadline; each turn that goes on sleeps for the poll interval.\<close>

function poll_until ::
    "txworld \<Rightarrow> string \<Rightarrow> go_time \<Rightarrow> sign_state \<Rightarrow> sign_state \<times> (tx_error + TxResponse option)" where
  "poll_until W h deadline s =
     (if canceled W s then (s, Inl ContextCanceled)
      else if ss_now s > deadline then (s, Inr None)
      else (case snd (ask_tx W h s) of
              TxFound r \<Rightarrow> (fst (ask_tx W h s), Inr (Some r))
            | TxDisabled \<Rightarrow> (fst (ask_tx W h s), Inl TxIndexingDisabled)
            | _ \<Rightarrow>
                (let s2 = sleep W inclusionPollInterval (fst (ask_tx W h s))
                 in if canceled W s2 then (s2, Inl ContextCanceled) else poll_until W h deadline s2)))"
  by pat_completeness auto

termination
proof (relation "measure (\<lambda>(W, h, deadline, s). nat (deadline + 1 - ss_now s))", goal_cases)
  case (2 W h deadline s s2)
  then show ?case using poll_progress[of s W h] poll_interval_pos by simp
next
  case (3 W h deadline s x s2)
  then show ?case using poll_progress[of s W h] poll_interval_pos by simp
qed simp

declare poll_until.simps [simp del]

definition pollForInclusion ::
    "txworld \<Rightarrow> string \<Rightarrow> duration \<Rightarrow> sign_state \<Rightarrow> sign_state \<times> (tx_error + TxResponse option)" where
  "pollForInclusion W h timeout s = poll_until W h (ss_now s + timeout) s"

function account_until ::
    "txworld \<Rightarrow> go_time \<Rightarrow> sign_state \<Rightarrow> sign_state \<times> (tx_error + nat \<times> nat)" where
  "account_until W deadline s =
     (let s1 = observe W AskedAccount s
      in case tw_account W (ss_trace s) of
           AccountIs acc sq \<Rightarrow> (s1, Inr (acc, sq))
         | AccountError e \<Rightarrow> (s1, Inl (PlainError e))
         | AccountNotFound e \<Rightarrow>
             if \<not> ss_now s1 < deadline then (s1, Inl (PlainError e))
             else (let s2 = sleep W accountNotFoundPollInterval s1
                   in if canceled W s2 then (s2, Inl ContextCanceled) else account_until W deadline s2))"
  by pat_completeness auto

termination
proof (relation "measure (\<lambda>(W, deadline, s). nat (deadline - ss_now s))", goal_cases)
  case (2 W deadline s s1 x s2)
  have "ss_now s \<le> ss_now s1" using 2 by simp
  moreover have "ss_now s1 + accountNotFoundPollInterval \<le> ss_now s2" using 2 sleep_now by blast
  moreover have "ss_now s1 < deadline" using 2 by simp
  ultimately have "nat (deadline - ss_now s2) < nat (deadline - ss_now s)" using poll_interval_pos(2) by linarith
  then show ?case by (simp only: in_measure prod.case)
qed simp

declare account_until.simps [simp del]

definition retrieveAccount :: "txworld \<Rightarrow> sign_state \<Rightarrow> sign_state \<times> (tx_error + nat \<times> nat)" where
  "retrieveAccount W s = account_until W (ss_now s + accountNotFoundTimeout) s"

subsection \<open>Broadcasting\<close>

definition broadcastAndPoll ::
    "txworld \<Rightarrow> string \<Rightarrow> string \<Rightarrow> nat \<Rightarrow> nat \<Rightarrow> string \<Rightarrow> sign_state \<Rightarrow> sign_state \<times> tx_result" where
  "broadcastAndPoll W bytes h acc sq chain s =
     (let s1 = observe W (Broadcasted bytes) s
      in case tw_broadcast W (ss_trace s) bytes of
           Inl e \<Rightarrow> (s1, Inr (undetermined_result h acc sq chain (ss_now s)))
         | Inr resp \<Rightarrow>
             if txr_Code resp \<noteq> 0 then
               (s1, Inl (TerminalError (''checkTx rejected: code='' @ show_nat (txr_Code resp) @ '' codespace='' @
                      quoted (txr_Codespace resp) @ '' log='' @ txr_RawLog resp)))
             else
               (case pollForInclusion W (txr_TxHash resp) inclusionPollTimeout s1 of
                  (s2, Inl TxIndexingDisabled) \<Rightarrow>
                    (s2, Inr (unverifiableResult (txr_TxHash resp) acc sq chain (ss_now s2)))
                | (s2, Inl e) \<Rightarrow> (s2, Inl e)
                | (s2, Inr (Some included)) \<Rightarrow>
                    (s2, Inr (resultFromTxResponse W included acc sq chain (ss_now s) (Some (ss_now s2))))
                | (s2, Inr None) \<Rightarrow> (s2, Inr (resultFromTxResponse W resp acc sq chain (ss_now s) None))))"

definition rebroadcast :: "txworld \<Rightarrow> TxMarker \<Rightarrow> sign_state \<Rightarrow> sign_state \<times> tx_result" where
  "rebroadcast W m s =
     (case broadcastAndPoll W (tm_TxBytes m) (tm_TxHash m) (tm_AccountNumber m) (tm_Sequence m) (tm_ChainID m) s of
        (s1, Inl (TerminalError e)) \<Rightarrow>
          (case pollForInclusion W (tm_TxHash m) adoptReQueryTimeout s1 of
             (s2, Inr (Some included)) \<Rightarrow>
               (s2, Inr (resultFromTxResponse W included (tm_AccountNumber m) (tm_Sequence m) (tm_ChainID m)
                           (ss_now s2) (Some (ss_now s2))))
           | (s2, _) \<Rightarrow> (s2, Inl (TerminalError e)))
      | (s1, out) \<Rightarrow> (s1, out))"

definition adoptMarker :: "txworld \<Rightarrow> TxMarker \<Rightarrow> sign_state \<Rightarrow> sign_state \<times> tx_result" where
  "adoptMarker W m s =
     (case ask_tx W (tm_TxHash m) s of
        (s1, TxDisabled) \<Rightarrow>
          (s1, Inr (unverifiableResult (tm_TxHash m) (tm_AccountNumber m) (tm_Sequence m) (tm_ChainID m) (ss_now s1)))
      | (s1, TxQueryError e) \<Rightarrow>
          (s1, Inr (undetermined_result (tm_TxHash m) (tm_AccountNumber m) (tm_Sequence m) (tm_ChainID m) (ss_now s1)))
      | (s1, TxFound r) \<Rightarrow>
          (s1, Inr (resultFromTxResponse W r (tm_AccountNumber m) (tm_Sequence m) (tm_ChainID m)
                      (ss_now s1) (Some (ss_now s1))))
      | (s1, TxNotFound) \<Rightarrow> rebroadcast W m s1)"

text \<open>Reading and writing the marker.  The write is two statements; the row is there as soon as the first one
  succeeds.\<close>

definition read_marker :: "txworld \<Rightarrow> string \<Rightarrow> sign_state \<Rightarrow> sign_state \<times> TxMarker option result" where
  "read_marker W i s =
     (case GetTxMarker i (ss_store s) of (db, r) \<Rightarrow> ((observe W (ReadMarker i) s)\<lparr>ss_store := db\<rparr>, r))"

definition write_marker :: "txworld \<Rightarrow> TxMarker \<Rightarrow> sign_state \<Rightarrow> sign_state \<times> error option" where
  "write_marker W m s =
     (case SaveTxMarker m (ss_store s) of (db, e) \<Rightarrow>
       ((if fst (statement (ss_store s)) = None then observe W (WroteMarker m) s else s)\<lparr>ss_store := db\<rparr>, e))"

definition sign_fresh :: "txworld \<Rightarrow> SignAndBroadcastInput \<Rightarrow> sign_state \<Rightarrow> sign_state \<times> tx_result" where
  "sign_fresh W i s =
     (case retrieveAccount W s of
        (s1, Inl (PlainError e)) \<Rightarrow> (s1, Inl (PlainError (''account retrieve '' @ tw_from_addr W @ '': '' @ e)))
      | (s1, Inl e) \<Rightarrow> (s1, Inl e)
      | (s1, Inr (acc, sq)) \<Rightarrow>
          (case tw_sign W (ss_trace s1) i acc sq of
             BuildError e \<Rightarrow> (s1, Inl (TerminalError (''build unsigned tx: '' @ e)))
           | SignError e \<Rightarrow> (s1, Inl (PlainError (''sign tx: '' @ e)))
           | EncodeError e \<Rightarrow> (s1, Inl (PlainError (''encode tx: '' @ e)))
           | Signed bytes \<Rightarrow>
               (let h = tw_hash W bytes;
                    m = \<lparr>tm_TaskID = si_TaskID i, tm_TxHash = h, tm_TxBytes = bytes, tm_AccountNumber = acc,
                         tm_Sequence = sq, tm_ChainID = si_ChainID i\<rparr>
                in if tw_checkpointer W \<and> si_TaskID i \<noteq> [] then
                     (case write_marker W m s1 of
                        (s2, Some e) \<Rightarrow> (s2, Inl (PlainError (''persist tx marker: '' @ e)))
                      | (s2, None) \<Rightarrow> broadcastAndPoll W bytes h acc sq (si_ChainID i) s2)
                   else broadcastAndPoll W bytes h acc sq (si_ChainID i) s1)))"

definition adopt_or_sign :: "txworld \<Rightarrow> SignAndBroadcastInput \<Rightarrow> sign_state \<Rightarrow> sign_state \<times> tx_result" where
  "adopt_or_sign W i s =
     (if tw_checkpointer W \<and> si_TaskID i \<noteq> [] then
        (case read_marker W (si_TaskID i) s of
           (s1, Inl e) \<Rightarrow> (s1, Inl (PlainError (''read tx marker: '' @ e)))
         | (s1, Inr (Some m)) \<Rightarrow> adoptMarker W m s1
         | (s1, Inr None) \<Rightarrow> sign_fresh W i s1)
      else sign_fresh W i s)"

definition signAndBroadcast :: "txworld \<Rightarrow> SignAndBroadcastInput \<Rightarrow> sign_state \<Rightarrow> sign_state \<times> tx_result" where
  "signAndBroadcast W i0 s =
     (if contains_str (si_Memo i0) taskIDMemoPrefix then
        (s, Inl (TerminalError (''memo must not contain '' @ quoted taskIDMemoPrefix @
              '' (reserved for engine-supplied task tag)'')))
      else
        (let i = i0\<lparr>si_Memo := appendTaskIDToMemo (si_Memo i0) (si_TaskID i0)\<rparr>
         in case validateInput W i of
              Some e \<Rightarrow> (s, Inl (TerminalError e))
            | None \<Rightarrow>
                (case checkFeesDenom W (si_Fees i) of
                   Some e \<Rightarrow> (s, Inl (TerminalError e))
                 | None \<Rightarrow>
                     (case guardChainID W (si_ChainID i) s of
                        (s1, Some e) \<Rightarrow> (s1, Inl e)
                      | (s1, None) \<Rightarrow> adopt_or_sign W i s1))))"

subsection \<open>The completion contract of gov tasks\<close>

datatype inclusion = InclusionCommittedOK | InclusionCommittedFailed | InclusionPending | InclusionUnverifiable

record GovTxResult =
  gr_TxHash :: string
  gr_Height :: int
  gr_ProposalID :: nat
  gr_Code :: nat
  gr_Codespace :: string
  gr_RawLog :: string
  gr_InclusionStatus :: inclusion

definition gov_result :: "SignAndBroadcastResult \<Rightarrow> inclusion \<Rightarrow> GovTxResult" where
  "gov_result r st = \<lparr>gr_TxHash = sr_TxHash r, gr_Height = sr_Height r, gr_ProposalID = sr_ProposalID r,
     gr_Code = sr_Code r, gr_Codespace = sr_Codespace r, gr_RawLog = sr_RawLog r, gr_InclusionStatus = st\<rparr>"

definition txIndexingDisabledText :: string where
  "txIndexingDisabledText = ''node transaction indexing is disabled (no kvEventSink): the tx may already be on chain '' @
     [CHR 0xE2, CHR 0x80, CHR 0x94] @
     '' verify via an indexed RPC before re-running, or enable tx_index on the target node''"

definition classifyGovResult :: "SignAndBroadcastResult \<Rightarrow> GovTxResult \<times> tx_error option" where
  "classifyGovResult r =
     (if sr_Unverifiable r then
        (gov_result r InclusionUnverifiable,
         Some (TerminalError (''tx '' @ sr_TxHash r @ '' inclusion unverifiable: '' @ txIndexingDisabledText)))
      else if sr_IncludedAt r = None then
        (gov_result r InclusionPending,
         Some (PlainError (''tx '' @ sr_TxHash r @ '' inclusion undetermined; re-check pending'')))
      else if sr_Code r \<noteq> 0 then
        (gov_result r InclusionCommittedFailed,
         Some (TerminalError (''tx '' @ sr_TxHash r @ '' committed but failed: code='' @ show_nat (sr_Code r) @
                 '' codespace='' @ quoted (sr_Codespace r) @ '' log='' @ sr_RawLog r)))
      else (gov_result r InclusionCommittedOK, None))"

definition requireProposalID :: "GovTxResult \<Rightarrow> tx_error option \<Rightarrow> tx_error option" where
  "requireProposalID out cerr =
     (if cerr = None \<and> gr_InclusionStatus out = InclusionCommittedOK \<and> gr_ProposalID out = 0 then
        Some (TerminalError (''tx '' @ gr_TxHash out @ '' committed but minted no proposal ID (parse failure)''))
      else cerr)"

end
