(* ===== verification/SignProps.thy ===== *)
theory SignProps
  imports SignTx
begin

text \<open>
  A task never broadcasts two different transactions: the marker is written before the first broadcast,
  later runs of the same task adopt it, and this holds however often the process dies in between.
  Nothing is signed or broadcast before the guards have passed, and a run makes a bounded number of
  calls.
\<close>

subsection \<open>What a run adds to the trace\<close>

definition waits :: "tx_event \<Rightarrow> bool" where
  "waits ev \<longleftrightarrow> (case ev of Broadcasted _ \<Rightarrow> False | WroteMarker _ \<Rightarrow> False | _ \<Rightarrow> True)"

text \<open>\<open>adds P k s s'\<close>: the store's markers are unchanged, and at most \<open>k\<close> events were added, all
  satisfying \<open>P\<close>.\<close>

definition adds :: "(tx_event \<Rightarrow> bool) \<Rightarrow> nat \<Rightarrow> sign_state \<Rightarrow> sign_state \<Rightarrow> bool" where
  "adds P k s s' \<longleftrightarrow> (\<exists>evs. ss_trace s' = ss_trace s @ evs \<and> list_all P evs \<and> length evs \<le> k) \<and>
     db_markers (ss_store s') = db_markers (ss_store s)"

lemma adds_refl [simp]: "adds P k s s"
  by (simp add: adds_def)

lemma adds_trans: "adds P j s s1 \<Longrightarrow> adds P k s1 s2 \<Longrightarrow> j + k \<le> n \<Longrightarrow> adds P n s s2"
proof -
  assume "adds P j s s1" "adds P k s1 s2" and n: "j + k \<le> n"
  then obtain e1 e2 where "ss_trace s1 = ss_trace s @ e1" "list_all P e1" "length e1 \<le> j"
    "ss_trace s2 = ss_trace s1 @ e2" "list_all P e2" "length e2 \<le> k"
    and m: "db_markers (ss_store s2) = db_markers (ss_store s)" by (auto simp: adds_def)
  then have "ss_trace s2 = ss_trace s @ (e1 @ e2) \<and> list_all P (e1 @ e2) \<and> length (e1 @ e2) \<le> n" using n by simp
  then show ?thesis unfolding adds_def using m by blast
qed

lemma adds_mono: "adds P j s s' \<Longrightarrow> (\<And>ev. P ev \<Longrightarrow> Q ev) \<Longrightarrow> j \<le> k \<Longrightarrow> adds Q k s s'"
  unfolding adds_def by (fastforce simp: list_all_iff)

lemma adds_observe: "P ev \<Longrightarrow> 1 \<le> k \<Longrightarrow> adds P k s (observe W ev s)"
  by (simp add: adds_def)

lemma adds_sleep: "P Slept \<Longrightarrow> 1 \<le> k \<Longrightarrow> adds P k s (sleep W d s)"
  by (simp add: adds_def)

lemma waits_simps [simp]:
  "waits AskedStatus" "waits AskedAccount" "waits (ReadMarker i)" "waits (AskedTx h)" "waits Slept"
  "\<not> waits (Broadcasted b)" "\<not> waits (WroteMarker m)"
  by (simp_all add: waits_def)

text \<open>The number of turns of a polling loop until its deadline.\<close>

definition turns :: "duration \<Rightarrow> duration \<Rightarrow> nat" where
  "turns interval left = nat (left div interval)"

lemma turns_step:
  assumes "0 < interval" and "interval \<le> left" and "later \<le> left - interval"
  shows "Suc (turns interval later) \<le> turns interval left"
proof -
  have "later div interval \<le> (left - interval) div interval" using assms(1,3) by (simp add: zdiv_mono1)
  also have "\<dots> = left div interval - 1" using assms(1) div_add_self2[of interval "left - interval"] by simp
  finally have le: "later div interval \<le> left div interval - 1" .
  have "1 \<le> left div interval" using assms(1,2) by (simp add: pos_imp_zdiv_pos_iff int_one_le_iff_zero_less)
  then show ?thesis using le unfolding turns_def by linarith
qed

lemma poll_adds:
  "poll_until W h deadline s = (s', r) \<Longrightarrow>
   adds waits (2 * turns inclusionPollInterval (deadline - ss_now s + inclusionPollInterval)) s s'"
proof (induction W h deadline s arbitrary: s' r rule: poll_until.induct)
  case (1 W h deadline s)
  let ?I = inclusionPollInterval
  define s1 where "s1 = fst (ask_tx W h s)"
  define s2 where "s2 = sleep W ?I s1"
  let ?n = "turns ?I (deadline - ss_now s + ?I)"
  let ?more = "if canceled W s2 then (s2, Inl ContextCanceled) else poll_until W h deadline s2"
  note I = poll_interval_pos(1)
  have eq: "poll_until W h deadline s =
      (if canceled W s then (s, Inl ContextCanceled)
       else if ss_now s > deadline then (s, Inr None)
       else (case snd (ask_tx W h s) of TxFound r \<Rightarrow> (s1, Inr (Some r)) | TxDisabled \<Rightarrow> (s1, Inl TxIndexingDisabled)
             | _ \<Rightarrow> ?more))"
    by (subst poll_until.simps) (simp add: s1_def s2_def Let_def split: tx_answer.splits)
  show ?case
  proof (cases "canceled W s \<or> ss_now s > deadline")
    case True
    then show ?thesis using 1(3) eq by (auto split: if_splits)
  next
    case False
    have late: "ss_now s + ?I \<le> ss_now s2" using poll_progress[of s W h] by (simp add: s1_def s2_def)
    have n: "Suc (turns ?I (deadline - ss_now s2 + ?I)) \<le> ?n"
      using False late I by (intro turns_step) auto
    have a1: "adds waits 1 s s1" by (simp add: s1_def ask_tx_def adds_observe)
    have a2: "adds waits 2 s s2"
      unfolding s2_def by (rule adds_trans[OF a1 adds_sleep[of waits 1]]) simp_all
    have done1: "adds waits (2 * ?n) s s1" and done2: "adds waits (2 * ?n) s s2"
      using adds_mono[OF a1] adds_mono[OF a2] n by auto
    have more: "adds waits (2 * ?n) s s'" if m: "?more = (s', r)" and q: "snd (ask_tx W h s) = TxNotFound \<or> (\<exists>e. snd (ask_tx W h s) = TxQueryError e)"
    proof (cases "canceled W s2")
      case True
      then show ?thesis using m done2 by simp
    next
      case nc: False
      then have p: "poll_until W h deadline s2 = (s', r)" using m by simp
      have "adds waits (2 * turns ?I (deadline - ss_now s2 + ?I)) s2 s'"
        using q
      proof
        assume "snd (ask_tx W h s) = TxNotFound"
        then show ?thesis using False nc p by (intro "1.IH"(1)[where x = s2]) (auto simp: s1_def s2_def)
      next
        assume "\<exists>e. snd (ask_tx W h s) = TxQueryError e"
        then show ?thesis using False nc p by (elim exE, intro "1.IH"(2)[where x = s2]) (auto simp: s1_def s2_def)
      qed
      from adds_trans[OF a2 this] show ?thesis using n by simp
    qed
    show ?thesis
    proof (cases "snd (ask_tx W h s)")
      case (TxFound x)
      then show ?thesis using 1(3) eq False done1 by auto
    next
      case TxDisabled
      then show ?thesis using 1(3) eq False done1 by auto
    next
      case TxNotFound
      then show ?thesis using 1(3) eq False by (intro more) auto
    next
      case (TxQueryError e)
      then show ?thesis using 1(3) eq False by (intro more) auto
    qed
  qed
qed

lemma account_adds:
  "account_until W deadline s = (s', r) \<Longrightarrow>
   adds waits (1 + 2 * turns accountNotFoundPollInterval (deadline - ss_now s + accountNotFoundPollInterval - 1)) s s'"
proof (induction W deadline s arbitrary: s' r rule: account_until.induct)
  case (1 W deadline s)
  let ?I = accountNotFoundPollInterval
  define s1 where "s1 = observe W AskedAccount s"
  define s2 where "s2 = sleep W ?I s1"
  let ?n = "turns ?I (deadline - ss_now s + ?I - 1)"
  note I = poll_interval_pos(2)
  have a1: "adds waits 1 s s1" by (simp add: s1_def adds_observe)
  have one: "adds waits (1 + 2 * ?n) s s1" by (rule adds_mono[OF a1]) simp_all
  show ?case
  proof (cases "tw_account W (ss_trace s)")
    case (AccountNotFound e)
    show ?thesis
    proof (cases "ss_now s1 < deadline")
      case False
      then show ?thesis using 1(2) AccountNotFound one by (subst (asm) account_until.simps) (auto simp: s1_def Let_def)
    next
      case True
      have late: "ss_now s \<le> ss_now s1" "ss_now s1 + ?I \<le> ss_now s2"
        using sleep_now[of s1 ?I W] observe_simps(3)[of s W AskedAccount] by (simp_all add: s1_def s2_def)
      have n: "Suc (turns ?I (deadline - ss_now s2 + ?I - 1)) \<le> ?n"
        using True late I by (intro turns_step) auto
      have a2: "adds waits 2 s s2"
        unfolding s2_def by (rule adds_trans[OF a1 adds_sleep[of waits 1]]) simp_all
      show ?thesis
      proof (cases "canceled W s2")
        case c: True
        then have "s' = s2" using 1(2) AccountNotFound True by (subst (asm) account_until.simps) (auto simp: s1_def s2_def Let_def)
        then show ?thesis using adds_mono[OF a2, of waits "1 + 2 * ?n"] n by auto
      next
        case c: False
        then have p: "account_until W deadline s2 = (s', r)"
          using 1(2) AccountNotFound True by (subst (asm) account_until.simps) (auto simp: s1_def s2_def Let_def)
        have "adds waits (1 + 2 * turns ?I (deadline - ss_now s2 + ?I - 1)) s2 s'"
          using AccountNotFound True c p by (intro "1.IH"[of s1 e s2]) (auto simp: s1_def s2_def)
        from adds_trans[OF a2 this] show ?thesis using n by simp
      qed
    qed
  qed (use 1(2) one in \<open>auto simp: account_until.simps[of W deadline s] s1_def Let_def\<close>)
qed

lemma pollForInclusion_adds: "pollForInclusion W h timeout s = (s', r) \<Longrightarrow> timeout = inclusionPollTimeout \<or> timeout = adoptReQueryTimeout \<Longrightarrow>
  adds waits (if timeout = inclusionPollTimeout then 242 else 22) s s'"
  using poll_adds[of W h "ss_now s + timeout" s s' r]
  by (auto simp: pollForInclusion_def inclusionPollTimeout_def adoptReQueryTimeout_def turns_def inclusionPollInterval_def)

lemma retrieveAccount_adds: "retrieveAccount W s = (s', r) \<Longrightarrow> adds waits 121 s s'"
  using account_adds[of W "ss_now s + accountNotFoundTimeout" s s' r]
  by (simp add: retrieveAccount_def accountNotFoundTimeout_def turns_def accountNotFoundPollInterval_def)

definition sends :: "string \<Rightarrow> tx_event \<Rightarrow> bool" where
  "sends bytes ev \<longleftrightarrow> waits ev \<or> ev = Broadcasted bytes"

lemma sends_waits: "waits ev \<Longrightarrow> sends b ev"
  by (simp add: sends_def)

lemma broadcastAndPoll_adds:
  assumes "broadcastAndPoll W bytes h acc sq chain s = (s', r)"
  shows "adds (sends bytes) 243 s s'"
proof -
  define s1 where "s1 = observe W (Broadcasted bytes) s"
  have a1: "adds (sends bytes) 1 s s1" by (simp add: s1_def adds_observe sends_def)
  show ?thesis
  proof (cases "\<exists>resp. tw_broadcast W (ss_trace s) bytes = Inr resp \<and> txr_Code resp = 0")
    case False
    then have "s' = s1" using assms by (auto simp: broadcastAndPoll_def s1_def Let_def split: sum.splits if_splits)
    then show ?thesis using adds_mono[OF a1] by simp
  next
    case True
    then obtain resp where b: "tw_broadcast W (ss_trace s) bytes = Inr resp" "txr_Code resp = 0" by auto
    obtain s2 x where p: "pollForInclusion W (txr_TxHash resp) inclusionPollTimeout s1 = (s2, x)"
      by (cases "pollForInclusion W (txr_TxHash resp) inclusionPollTimeout s1")
    have "s' = s2" using assms b p
      by (auto simp: broadcastAndPoll_def s1_def Let_def split: sum.splits tx_error.splits option.splits)
    moreover have "adds waits 242 s1 s2" using pollForInclusion_adds[OF p] by simp
    then have "adds (sends bytes) 242 s1 s2" by (rule adds_mono) (simp_all add: sends_def)
    ultimately show ?thesis using adds_trans[OF a1, of 242 s2 243] by simp
  qed
qed

lemma adoptMarker_adds:
  assumes "adoptMarker W m s = (s', r)"
  shows "adds (sends (tm_TxBytes m)) 266 s s'"
proof -
  obtain s1 a where q: "ask_tx W (tm_TxHash m) s = (s1, a)" by (cases "ask_tx W (tm_TxHash m) s")
  then have a1: "adds (sends (tm_TxBytes m)) 1 s s1" by (auto simp: ask_tx_def adds_observe sends_def)
  show ?thesis
  proof (cases "a = TxNotFound")
    case False
    then have "s' = s1" using assms q by (auto simp: adoptMarker_def split: tx_answer.splits)
    then show ?thesis using adds_mono[OF a1] by simp
  next
    case True
    obtain s2 out where b: "broadcastAndPoll W (tm_TxBytes m) (tm_TxHash m) (tm_AccountNumber m) (tm_Sequence m) (tm_ChainID m) s1 = (s2, out)"
      by (cases "broadcastAndPoll W (tm_TxBytes m) (tm_TxHash m) (tm_AccountNumber m) (tm_Sequence m) (tm_ChainID m) s1")
    obtain s3 x where p: "pollForInclusion W (tm_TxHash m) adoptReQueryTimeout s2 = (s3, x)"
      by (cases "pollForInclusion W (tm_TxHash m) adoptReQueryTimeout s2")
    have a2: "adds (sends (tm_TxBytes m)) 244 s s2"
      by (rule adds_trans[OF a1 broadcastAndPoll_adds[OF b]]) simp
    have "adds waits 22 s2 s3" using pollForInclusion_adds[OF p] by (simp add: inclusionPollTimeout_def adoptReQueryTimeout_def)
    then have "adds (sends (tm_TxBytes m)) 22 s2 s3" by (rule adds_mono) (simp_all add: sends_def)
    from adds_trans[OF a2 this] have a3: "adds (sends (tm_TxBytes m)) 266 s s3" by simp
    have "s' = s2 \<or> s' = s3" using assms q True b p
      by (auto simp: adoptMarker_def rebroadcast_def split: sum.splits tx_error.splits option.splits)
    then show ?thesis using adds_mono[OF a2, of "sends (tm_TxBytes m)" 266] a3 by auto
  qed
qed

subsection \<open>Markers\<close>

definition marker_of :: "string \<Rightarrow> TxMarker list \<Rightarrow> TxMarker option" where
  "marker_of i ms = (case filter (\<lambda>x. tm_TaskID x = i) ms of [] \<Rightarrow> None | m # _ \<Rightarrow> Some m)"

fun after_event :: "TxMarker list \<Rightarrow> tx_event \<Rightarrow> TxMarker list" where
  "after_event ms (WroteMarker m) = filter (\<lambda>x. tm_TaskID x \<noteq> tm_TaskID m) ms @ [m]"
| "after_event ms ev = ms"

text \<open>The marker table once the given events have happened.\<close>

definition markers_after :: "TxMarker list \<Rightarrow> tx_event list \<Rightarrow> TxMarker list" where
  "markers_after ms evs = foldl after_event ms evs"

lemma markers_after_sends: "list_all (sends b) evs \<Longrightarrow> markers_after ms evs = ms"
proof (induction evs arbitrary: ms)
  case (Cons ev evs)
  then show ?case by (cases ev) (auto simp: markers_after_def sends_def)
qed (simp add: markers_after_def)

lemma waits_sends: "list_all waits evs \<Longrightarrow> list_all (sends b) evs"
  by (auto simp: list_all_iff sends_def)

lemma markers_after_append: "markers_after ms (p @ q) = markers_after (markers_after ms p) q"
  by (simp add: markers_after_def)

lemma marker_of_written:
  "marker_of i (after_event ms (WroteMarker m)) = (if tm_TaskID m = i then Some m else marker_of i ms)"
proof (cases "tm_TaskID m = i")
  case True
  then have "filter (\<lambda>x. tm_TaskID x = i) (filter (\<lambda>x. tm_TaskID x \<noteq> tm_TaskID m) ms) = []" by (auto simp: filter_empty_conv)
  then show ?thesis using True by (simp add: marker_of_def)
next
  case False
  then have "filter (\<lambda>x. tm_TaskID x = i) (filter (\<lambda>x. tm_TaskID x \<noteq> tm_TaskID m) ms) = filter (\<lambda>x. tm_TaskID x = i) ms"
    by (induction ms) auto
  then show ?thesis using False by (simp add: marker_of_def)
qed

lemma statement_markers: "statement db = (e, db1) \<Longrightarrow> db_markers db1 = db_markers db"
  by (auto simp: statement_def split: list.splits)

lemma read_marker_law:
  assumes "read_marker W i s = (s1, r)"
  shows "adds waits 1 s s1 \<and> (\<forall>m. r = Inr m \<longrightarrow> m = marker_of i (db_markers (ss_store s)))"
proof -
  obtain e db1 where st: "statement (ss_store s) = (e, db1)" by (cases "statement (ss_store s)")
  show ?thesis using assms st statement_markers[OF st]
    by (cases e) (auto simp: read_marker_def GetTxMarker_def adds_def marker_of_def)
qed

lemma write_marker_law:
  assumes "write_marker W m s = (s1, e)"
  shows "(e \<noteq> None \<and> ss_trace s1 = ss_trace s \<and> db_markers (ss_store s1) = db_markers (ss_store s)) \<or>
    (ss_trace s1 = ss_trace s @ [WroteMarker m] \<and>
     db_markers (ss_store s1) = after_event (db_markers (ss_store s)) (WroteMarker m))"
proof -
  obtain f db1 where st: "statement (ss_store s) = (f, db1)" by (cases "statement (ss_store s)")
  define db2 where "db2 = db1\<lparr>db_markers := filter (\<lambda>x. tm_TaskID x \<noteq> tm_TaskID m) (db_markers db1) @ [m]\<rparr>"
  obtain f2 db3 where st2: "statement db2 = (f2, db3)" by (cases "statement db2")
  show ?thesis
  proof (cases f)
    case (Some x)
    then show ?thesis using assms st statement_markers[OF st] by (auto simp: write_marker_def SaveTxMarker_def)
  next
    case None
    then have "SaveTxMarker m (ss_store s) = (db3, map_option (\<lambda>e. ''checkpoint tx marker: '' @ e) f2)"
      using st st2 by (cases f2) (simp_all add: SaveTxMarker_def db2_def Let_def)
    then have "ss_trace s1 = ss_trace s @ [WroteMarker m]" "ss_store s1 = db3"
      using assms None st by (auto simp: write_marker_def)
    moreover have "db_markers db3 = after_event (db_markers (ss_store s)) (WroteMarker m)"
      using statement_markers[OF st2] statement_markers[OF st] by (simp add: db2_def)
    ultimately show ?thesis by simp
  qed
qed

subsection \<open>One run\<close>

text \<open>A run adds at most \<open>k\<close> events.  Either they only wait, or the task has a marker and they broadcast only its
  bytes, or the task had none and the marker is written before anything is broadcast.\<close>

definition run_shape :: "string \<Rightarrow> nat \<Rightarrow> sign_state \<Rightarrow> sign_state \<Rightarrow> bool" where
  "run_shape i k s s' \<longleftrightarrow>
     (\<exists>evs. ss_trace s' = ss_trace s @ evs \<and> length evs \<le> k \<and>
        db_markers (ss_store s') = markers_after (db_markers (ss_store s)) evs \<and>
        (list_all waits evs \<or>
         (\<exists>m. marker_of i (db_markers (ss_store s)) = Some m \<and> list_all (sends (tm_TxBytes m)) evs) \<or>
         (\<exists>m us vs. marker_of i (db_markers (ss_store s)) = None \<and> tm_TaskID m = i \<and>
            evs = us @ WroteMarker m # vs \<and> list_all waits us \<and> list_all (sends (tm_TxBytes m)) vs)))"

lemma adds_waits_shape: "adds waits k s s' \<Longrightarrow> run_shape i k s s'"
proof -
  assume "adds waits k s s'"
  then obtain evs where e: "ss_trace s' = ss_trace s @ evs" "list_all waits evs" "length evs \<le> k"
    "db_markers (ss_store s') = db_markers (ss_store s)" by (auto simp: adds_def)
  then show ?thesis unfolding run_shape_def using markers_after_sends[OF waits_sends[OF e(2)]] by auto
qed

lemma shape_after_waits:
  assumes "adds waits j s s1" and "run_shape i k s1 s2" and "j + k \<le> n"
  shows "run_shape i n s s2"
proof -
  obtain e1 where e1: "ss_trace s1 = ss_trace s @ e1" "list_all waits e1" "length e1 \<le> j"
    and m1: "db_markers (ss_store s1) = db_markers (ss_store s)" using assms(1) by (auto simp: adds_def)
  obtain e2 where e2: "ss_trace s2 = ss_trace s1 @ e2" "length e2 \<le> k"
    "db_markers (ss_store s2) = markers_after (db_markers (ss_store s1)) e2"
    and c: "list_all waits e2 \<or>
      (\<exists>m. marker_of i (db_markers (ss_store s1)) = Some m \<and> list_all (sends (tm_TxBytes m)) e2) \<or>
      (\<exists>m us vs. marker_of i (db_markers (ss_store s1)) = None \<and> tm_TaskID m = i \<and>
         e2 = us @ WroteMarker m # vs \<and> list_all waits us \<and> list_all (sends (tm_TxBytes m)) vs)"
    using assms(2) by (auto simp: run_shape_def)
  have tr: "ss_trace s2 = ss_trace s @ (e1 @ e2)" "length (e1 @ e2) \<le> n" using e1 e2 assms(3) by simp_all
  have ma: "db_markers (ss_store s2) = markers_after (db_markers (ss_store s)) (e1 @ e2)"
    using e2(3) m1 markers_after_sends[OF waits_sends[OF e1(2)]] by (simp add: markers_after_append)
  have "list_all waits (e1 @ e2) \<or>
      (\<exists>m. marker_of i (db_markers (ss_store s)) = Some m \<and> list_all (sends (tm_TxBytes m)) (e1 @ e2)) \<or>
      (\<exists>m us vs. marker_of i (db_markers (ss_store s)) = None \<and> tm_TaskID m = i \<and>
         e1 @ e2 = us @ WroteMarker m # vs \<and> list_all waits us \<and> list_all (sends (tm_TxBytes m)) vs)"
    using c
  proof (elim disjE exE conjE)
    assume "list_all waits e2"
    then show ?thesis using e1(2) by simp
  next
    fix m assume "marker_of i (db_markers (ss_store s1)) = Some m" "list_all (sends (tm_TxBytes m)) e2"
    then show ?thesis using waits_sends[OF e1(2), of "tm_TxBytes m"] m1 by auto
  next
    fix m us vs assume a: "marker_of i (db_markers (ss_store s1)) = None" "tm_TaskID m = i"
      "e2 = us @ WroteMarker m # vs" "list_all waits us" "list_all (sends (tm_TxBytes m)) vs"
    have "e1 @ e2 = (e1 @ us) @ WroteMarker m # vs" "list_all waits (e1 @ us)" using a e1(2) by simp_all
    then show ?thesis using a m1 by metis
  qed
  then show ?thesis unfolding run_shape_def using tr ma by blast
qed

lemma sign_fresh_shape:
  assumes "sign_fresh W i s = (s', r)" and "tw_checkpointer W" and "si_TaskID i \<noteq> []"
    and none: "marker_of (si_TaskID i) (db_markers (ss_store s)) = None"
  shows "run_shape (si_TaskID i) 365 s s'"
proof -
  obtain s1 a where ra: "retrieveAccount W s = (s1, a)" by (cases "retrieveAccount W s")
  have w: "adds waits 121 s s1" by (rule retrieveAccount_adds[OF ra])
  have w': "run_shape (si_TaskID i) 365 s s1" by (rule adds_waits_shape, rule adds_mono[OF w]) simp_all
  show ?thesis
  proof (cases "\<exists>acc sq bytes. a = Inr (acc, sq) \<and> tw_sign W (ss_trace s1) i acc sq = Signed bytes")
    case False
    then have "s' = s1" using assms(1) ra
      by (auto simp: sign_fresh_def split: sum.splits tx_error.splits sign_answer.splits)
    then show ?thesis using w' by simp
  next
    case True
    then obtain acc sq bytes where sg: "a = Inr (acc, sq)" "tw_sign W (ss_trace s1) i acc sq = Signed bytes" by auto
    define m where "m = \<lparr>tm_TaskID = si_TaskID i, tm_TxHash = tw_hash W bytes, tm_TxBytes = bytes,
      tm_AccountNumber = acc, tm_Sequence = sq, tm_ChainID = si_ChainID i\<rparr>"
    obtain s2 e where wm: "write_marker W m s1 = (s2, e)" by (cases "write_marker W m s1")
    have cont: "(s', r) = (case e of Some e \<Rightarrow> (s2, Inl (PlainError (''persist tx marker: '' @ e)))
        | None \<Rightarrow> broadcastAndPoll W bytes (tw_hash W bytes) acc sq (si_ChainID i) s2)"
      using assms(1-3) ra sg wm by (simp add: sign_fresh_def Let_def m_def[symmetric] split: option.splits)
    have m1: "db_markers (ss_store s1) = db_markers (ss_store s)" using w by (simp add: adds_def)
    from write_marker_law[OF wm] show ?thesis
    proof (elim disjE conjE)
      assume e: "e \<noteq> None" and tr: "ss_trace s2 = ss_trace s1" and s2: "db_markers (ss_store s2) = db_markers (ss_store s1)"
      then obtain x where "e = Some x" by auto
      then have "s' = s2" using cont by simp
      then have "adds waits 121 s s'" using w s2 tr by (simp add: adds_def)
      then show ?thesis using adds_waits_shape[OF adds_mono[of waits 121 s s' waits 365]] by simp
    next
      assume s2: "ss_trace s2 = ss_trace s1 @ [WroteMarker m]"
        "db_markers (ss_store s2) = after_event (db_markers (ss_store s1)) (WroteMarker m)"
      have "adds (sends bytes) 243 s2 s'"
      proof (cases e)
        case None
        then show ?thesis using cont broadcastAndPoll_adds by (metis option.simps(4))
      qed (use cont in simp)
      then obtain e3 where e3: "ss_trace s' = ss_trace s2 @ e3" "list_all (sends bytes) e3" "length e3 \<le> 243"
        "db_markers (ss_store s') = db_markers (ss_store s2)" by (auto simp: adds_def)
      have tr: "ss_trace s' = ss_trace s1 @ ([] @ WroteMarker m # e3)" using s2(1) e3(1) by simp
      have "run_shape (si_TaskID i) 244 s1 s'" unfolding run_shape_def
      proof (intro exI conjI disjI2)
        show "ss_trace s' = ss_trace s1 @ ([] @ WroteMarker m # e3)" by (rule tr)
        show "db_markers (ss_store s') = markers_after (db_markers (ss_store s1)) ([] @ WroteMarker m # e3)"
          using e3(2,4) s2(2) markers_after_sends[OF e3(2)] by (simp add: markers_after_def)
        show "marker_of (si_TaskID i) (db_markers (ss_store s1)) = None" using none m1 by simp
        show "list_all waits []" by simp
        show "list_all (sends (tm_TxBytes m)) e3" using e3(2) by (simp add: m_def)
      qed (use e3(3) in \<open>simp_all add: m_def\<close>)
      from shape_after_waits[OF w this] show ?thesis by simp
    qed
  qed
qed

lemma signAndBroadcast_shape:
  assumes run: "signAndBroadcast W i0 s = (s', r)" and "tw_checkpointer W"
  shows "run_shape (si_TaskID i0) 367 s s'"
proof -
  define i where "i = i0\<lparr>si_Memo := appendTaskIDToMemo (si_Memo i0) (si_TaskID i0)\<rparr>"
  have ti: "si_TaskID i = si_TaskID i0" by (simp add: i_def)
  obtain s1 g where gd: "guardChainID W (si_ChainID i) s = (s1, g)" by (cases "guardChainID W (si_ChainID i) s")
  have w: "adds waits 1 s s1" using gd by (auto simp: guardChainID_def adds_observe split: if_splits)
  show ?thesis
  proof (cases "contains_str (si_Memo i0) taskIDMemoPrefix \<or> validateInput W i \<noteq> None \<or> checkFeesDenom W (si_Fees i) \<noteq> None \<or> g \<noteq> None")
    case True
    then have "s' = s \<or> s' = s1" using run gd by (auto simp: signAndBroadcast_def i_def[symmetric] Let_def split: if_splits option.splits)
    then show ?thesis using adds_waits_shape[OF adds_mono[OF w, of waits 367]] adds_waits_shape[OF adds_refl] by auto
  next
    case False
    then have ad: "adopt_or_sign W i s1 = (s', r)" and task: "si_TaskID i \<noteq> []"
      using run gd by (auto simp: signAndBroadcast_def i_def[symmetric] Let_def validateInput_def split: option.splits if_splits)
    obtain s2 mr where rm: "read_marker W (si_TaskID i) s1 = (s2, mr)" by (cases "read_marker W (si_TaskID i) s1")
    note law = read_marker_law[OF rm]
    have m2: "db_markers (ss_store s2) = db_markers (ss_store s1)" using law by (simp add: adds_def)
    have w2: "adds waits 2 s s2" by (rule adds_trans[OF w, of 1]) (use law in simp_all)
    consider (error) e where "mr = Inl e" | (adopt) m where "mr = Inr (Some m)" | (fresh) "mr = Inr None"
      by (metis sum.exhaust option.exhaust)
    then have "run_shape (si_TaskID i) 365 s2 s'"
    proof cases
      case error
      then have "s' = s2" using ad rm assms(2) task by (simp add: adopt_or_sign_def)
      then show ?thesis by (simp add: adds_waits_shape)
    next
      case adopt
      then have "adoptMarker W m s2 = (s', r)" using ad rm assms(2) task by (simp add: adopt_or_sign_def)
      from adoptMarker_adds[OF this] obtain evs where "ss_trace s' = ss_trace s2 @ evs"
        "list_all (sends (tm_TxBytes m)) evs" "length evs \<le> 266" "db_markers (ss_store s') = db_markers (ss_store s2)"
        by (auto simp: adds_def)
      moreover have "marker_of (si_TaskID i) (db_markers (ss_store s2)) = Some m" using law adopt m2 by simp
      ultimately show ?thesis unfolding run_shape_def
        using markers_after_sends[of "tm_TxBytes m" evs] by (intro exI[of _ evs]) auto
    next
      case fresh
      then have "sign_fresh W i s2 = (s', r)" using ad rm assms(2) task by (simp add: adopt_or_sign_def)
      moreover have "marker_of (si_TaskID i) (db_markers (ss_store s2)) = None" using law fresh m2 by simp
      ultimately show ?thesis using sign_fresh_shape assms(2) task by blast
    qed
    from shape_after_waits[OF w2 this] show ?thesis using ti by simp
  qed
qed

subsection \<open>Any number of runs and crashes\<close>

text \<open>The marker table and all events of the runs of task \<open>i\<close>.  A run may stop after any of its events (the
  process died there) or at its end; a later run starts from the marker table the events left,
  in any world, with any parameters, clock and store faults.  Other tasks write their own markers.\<close>

inductive runs :: "string \<Rightarrow> TxMarker list \<Rightarrow> tx_event list \<Rightarrow> bool" for i where
  start: "marker_of i ms = None \<Longrightarrow> runs i ms []"
| run: "\<lbrakk>runs i ms h; signAndBroadcast W inp s = (s', r); si_TaskID inp = i; tw_checkpointer W;
         db_markers (ss_store s) = ms; ss_trace s' = ss_trace s @ p @ q\<rbrakk> \<Longrightarrow>
        runs i (markers_after ms p) (h @ p)"
| other: "runs i ms h \<Longrightarrow> tm_TaskID m \<noteq> i \<Longrightarrow> runs i (after_event ms (WroteMarker m)) h"

lemma waits_no_broadcast: "list_all waits evs \<Longrightarrow> Broadcasted b \<notin> set evs"
  by (auto simp: list_all_iff)

lemma prefix_of_shape:
  assumes "run_shape i k s s'" and "ss_trace s' = ss_trace s @ p @ q" and "Broadcasted b \<in> set p"
  shows "\<exists>m. tm_TxBytes m = b \<and> marker_of i (markers_after (db_markers (ss_store s)) p) = Some m \<and>
    (marker_of i (db_markers (ss_store s)) = Some m \<or> marker_of i (db_markers (ss_store s)) = None)"
proof -
  obtain evs where evs: "p @ q = evs" and
    c: "list_all waits evs \<or>
      (\<exists>m. marker_of i (db_markers (ss_store s)) = Some m \<and> list_all (sends (tm_TxBytes m)) evs) \<or>
      (\<exists>m us vs. marker_of i (db_markers (ss_store s)) = None \<and> tm_TaskID m = i \<and>
         evs = us @ WroteMarker m # vs \<and> list_all waits us \<and> list_all (sends (tm_TxBytes m)) vs)"
    using assms(1,2) unfolding run_shape_def by auto
  have b: "Broadcasted b \<in> set evs" using assms(3) evs by auto
  from c show ?thesis
  proof (elim disjE exE conjE)
    assume "list_all waits evs"
    then show ?thesis using b waits_no_broadcast by blast
  next
    fix m assume m: "marker_of i (db_markers (ss_store s)) = Some m" "list_all (sends (tm_TxBytes m)) evs"
    then have "tm_TxBytes m = b" using b by (auto simp: list_all_iff sends_def)
    moreover have "list_all (sends (tm_TxBytes m)) p" using m(2) evs by auto
    ultimately show ?thesis using m(1) markers_after_sends by auto
  next
    fix m us vs assume a: "marker_of i (db_markers (ss_store s)) = None" "tm_TaskID m = i"
      "evs = us @ WroteMarker m # vs" "list_all waits us" "list_all (sends (tm_TxBytes m)) vs"
    have "\<not> length p \<le> length us"
    proof
      assume "length p \<le> length us"
      then have "p = take (length p) us" using evs a(3) by (metis append_eq_append_conv_if)
      then have "list_all waits p" using a(4) by (metis append_take_drop_id list_all_append)
      then show False using assms(3) waits_no_broadcast by blast
    qed
    then obtain ws where p: "p = us @ WroteMarker m # ws" "vs = ws @ q"
      using evs a(3) by (auto simp: append_eq_append_conv2 append_eq_Cons_conv)
    then have ws: "list_all (sends (tm_TxBytes m)) ws" using a(5) by simp
    have "markers_after (db_markers (ss_store s)) p = after_event (db_markers (ss_store s)) (WroteMarker m)"
      unfolding p(1) markers_after_append
      using markers_after_sends[OF waits_sends[OF a(4)]] markers_after_sends[OF ws] by (simp add: markers_after_def)
    moreover have "tm_TxBytes m = b"
      using assms(3) waits_no_broadcast[OF a(4)] ws unfolding p(1) by (auto simp: list_all_iff sends_def)
    ultimately show ?thesis using a(1,2) marker_of_written[of i "db_markers (ss_store s)" m] by auto
  qed
qed

lemma shape_keeps_marker:
  assumes "run_shape i k s s'" and "ss_trace s' = ss_trace s @ p @ q" and m: "marker_of i (db_markers (ss_store s)) = Some m"
  shows "marker_of i (markers_after (db_markers (ss_store s)) p) = Some m"
proof -
  have "list_all (sends (tm_TxBytes m)) (p @ q)"
    using assms waits_sends unfolding run_shape_def by auto
  then have "list_all (sends (tm_TxBytes m)) p" by simp
  then show ?thesis using m markers_after_sends by simp
qed

lemma runs_marked: "runs i ms h \<Longrightarrow> Broadcasted b \<in> set h \<Longrightarrow> \<exists>m. marker_of i ms = Some m \<and> tm_TxBytes m = b"
proof (induction rule: runs.induct)
  case (run ms h W inp s s' r p q)
  have shape: "run_shape i 367 s s'" using signAndBroadcast_shape[OF run.hyps(2,4)] run.hyps(3) by simp
  show ?case
  proof (cases "Broadcasted b \<in> set p")
    case True
    then show ?thesis using prefix_of_shape[OF shape run.hyps(6) True] run.hyps(5) by auto
  next
    case False
    then obtain m where "marker_of i ms = Some m" "tm_TxBytes m = b" using run.IH run.prems by auto
    then show ?thesis using shape_keeps_marker[OF shape run.hyps(6)] run.hyps(5) by auto
  qed
next
  case (other ms h m)
  then show ?case by (simp add: marker_of_written del: after_event.simps)
qed simp

text \<open>C11.  A task signs at most one transaction.  Over any number of runs of a sign-tx task, each of which may
  be cut short by a crash after any of its steps, all broadcasts of the task carry the same signed bytes, and
  these are the bytes of the marker the store keeps for it.\<close>

theorem one_transaction_per_task:
  assumes "runs i ms h" and "Broadcasted b \<in> set h"
  shows "(\<forall>b'. Broadcasted b' \<in> set h \<longrightarrow> b' = b) \<and> (\<exists>m. marker_of i ms = Some m \<and> tm_TxBytes m = b)"
proof -
  obtain m where m: "marker_of i ms = Some m" "tm_TxBytes m = b" using runs_marked[OF assms] by blast
  have "b' = b" if "Broadcasted b' \<in> set h" for b' using runs_marked[OF assms(1) that] m by auto
  then show ?thesis using m by blast
qed

text \<open>A node that loses the answer to the first broadcast and commits the transaction after the second.\<close>

definition demo_response :: TxResponse where
  "demo_response = \<lparr>txr_TxHash = ''h:tx-3'', txr_Height = 9, txr_Code = 0, txr_Codespace = [], txr_RawLog = [],
     txr_Data = [], txr_GasWanted = 10, txr_GasUsed = 7\<rparr>"

definition demo_txworld :: "bool \<Rightarrow> txworld" where
  "demo_txworld lost =
     \<lparr>tw_env_chain = ''pacific-1'', tw_from_addr = ''sei1op'', tw_rpc_configured = True, tw_status = (\<lambda>_. Ok ''pacific-1''),
      tw_account = (\<lambda>_. AccountIs 7 3),
      tw_broadcast = (\<lambda>_ _. if lost then Inl ''connection reset'' else Ok demo_response),
      tw_query = (\<lambda>evs h. if Broadcasted ''tx-3'' \<in> set evs then TxFound demo_response else TxNotFound),
      tw_sign = (\<lambda>_ _ _ sq. Signed (''tx-'' @ show_nat sq)), tw_hash = (\<lambda>b. ''h:'' @ b),
      tw_parse_coins = (\<lambda>_. Ok [(''usei'', 2000)]), tw_validate_msg = (\<lambda>_. None),
      tw_nonprintable = (\<lambda>_. None), tw_proposal_id = (\<lambda>_. 0), tw_checkpointer = True,
      tw_elapsed = (\<lambda>_. 1000), tw_canceled = (\<lambda>_. False)\<rparr>"

definition demo_input :: SignAndBroadcastInput where
  "demo_input = \<lparr>si_ChainID = ''pacific-1'', si_KeyName = ''ops'', si_Msg = Some ''vote'', si_Fees = ''2000usei'',
     si_Gas = 200000, si_Memo = [], si_TaskID = ''t1''\<rparr>"

definition demo_marker :: TxMarker where
  "demo_marker = \<lparr>tm_TaskID = ''t1'', tm_TxHash = ''h:tx-3'', tm_TxBytes = ''tx-3'', tm_AccountNumber = 7,
     tm_Sequence = 3, tm_ChainID = ''pacific-1''\<rparr>"

definition demo_sign_state :: "TxMarker list \<Rightarrow> sign_state" where
  "demo_sign_state ms = \<lparr>ss_store = \<lparr>db_rows = [], db_markers = ms, db_faults = []\<rparr>, ss_trace = [], ss_now = 0\<rparr>"

definition first_run :: "tx_event list" where
  "first_run = [AskedStatus, ReadMarker ''t1'', AskedAccount, WroteMarker demo_marker, Broadcasted ''tx-3'']"

definition second_run :: "tx_event list" where
  "second_run = [AskedStatus, ReadMarker ''t1'', AskedTx ''h:tx-3'', Broadcasted ''tx-3'', AskedTx ''h:tx-3'']"

lemma demo_first_run:
  "ss_trace (fst (signAndBroadcast (demo_txworld True) demo_input (demo_sign_state []))) = first_run"
  by code_simp

lemma demo_second_run:
  "ss_trace (fst (signAndBroadcast (demo_txworld False) demo_input (demo_sign_state [demo_marker]))) = second_run"
  by code_simp

lemma demo_markers: "markers_after [] first_run = [demo_marker]" "markers_after [demo_marker] second_run = [demo_marker]"
  by code_simp+

lemma demo_runs: "runs ''t1'' [demo_marker] (first_run @ second_run)"
proof -
  have "runs ''t1'' [] []" by (rule runs.start) (simp add: marker_of_def)
  from runs.run[OF this prod.collapse[symmetric], where W = "demo_txworld True" and inp = demo_input and s = "demo_sign_state []" and p = first_run and q = "[]"]
  have "runs ''t1'' [demo_marker] first_run"
    using demo_first_run demo_markers(1)
    by (simp add: demo_input_def demo_sign_state_def demo_txworld_def)
  from runs.run[OF this prod.collapse[symmetric], where W = "demo_txworld False" and inp = demo_input and s = "demo_sign_state [demo_marker]" and p = second_run and q = "[]"]
  show ?thesis using demo_second_run demo_markers(2)
    by (simp add: demo_input_def demo_sign_state_def demo_txworld_def)
qed

theorem one_transaction_per_task_witness:
  "runs ''t1'' [demo_marker] (first_run @ second_run) \<and> Broadcasted ''tx-3'' \<in> set second_run \<and>
   {b. Broadcasted b \<in> set (first_run @ second_run)} = {''tx-3''}"
  using one_transaction_per_task[OF demo_runs, of "''tx-3''"] demo_runs by (auto simp: second_run_def)

text \<open>C12.  A sign-tx run always ends, with at most 367 calls, reads, writes and sleeps, whatever the node answers
  and however long its answers take.\<close>

theorem sign_run_bounded:
  assumes "signAndBroadcast W inp s = (s', r)" and "tw_checkpointer W"
  shows "\<exists>evs. ss_trace s' = ss_trace s @ evs \<and> length evs \<le> 367"
  using signAndBroadcast_shape[OF assms] by (auto simp: run_shape_def)

theorem sign_run_bounded_witness:
  "tw_checkpointer (demo_txworld True) \<and>
   (\<exists>evs. ss_trace (fst (signAndBroadcast (demo_txworld True) demo_input (demo_sign_state []))) = evs \<and> length evs \<le> 367)"
  using sign_run_bounded[OF prod.collapse[symmetric], where W = "demo_txworld True" and inp = demo_input and s = "demo_sign_state []"]
  by (simp add: demo_txworld_def demo_sign_state_def)

text \<open> Nothing is signed for the wrong chain or the wrong coin: a run that writes a marker or broadcasts was given
  the chain id of both the sidecar and the local node, a positive fee in usei only, gas, a key, and a memo
  without a forged task tag that fits the chain's limit with the tag appended.\<close>

theorem sign_only_after_guards:
  assumes "signAndBroadcast W inp s = (s', r)" and "ss_trace s' = ss_trace s @ evs"
    and "\<not> list_all waits evs"
  shows "si_ChainID inp = tw_env_chain W \<and> tw_status W (ss_trace s) = Ok (si_ChainID inp) \<and> si_ChainID inp \<noteq> [] \<and>
    (\<exists>coins. tw_parse_coins W (si_Fees inp) = Ok coins \<and> coins \<noteq> [] \<and> (\<forall>(d, n) \<in> set coins. d = feeDenom \<and> n > 0)) \<and>
    si_Gas inp > 0 \<and> si_KeyName inp \<noteq> [] \<and> si_TaskID inp \<noteq> [] \<and>
    \<not> contains_str (si_Memo inp) taskIDMemoPrefix \<and>
    length (appendTaskIDToMemo (si_Memo inp) (si_TaskID inp)) \<le> 256"
proof -
  define i where "i = inp\<lparr>si_Memo := appendTaskIDToMemo (si_Memo inp) (si_TaskID inp)\<rparr>"
  obtain s1 g where gd: "guardChainID W (si_ChainID i) s = (s1, g)" by (cases "guardChainID W (si_ChainID i) s")
  have memo: "\<not> contains_str (si_Memo inp) taskIDMemoPrefix"
  proof
    assume "contains_str (si_Memo inp) taskIDMemoPrefix"
    then have "s' = s" using assms(1) by (simp add: signAndBroadcast_def)
    then show False using assms(2,3) by simp
  qed
  have vi: "validateInput W i = None"
  proof (rule ccontr)
    assume "validateInput W i \<noteq> None"
    then have "s' = s" using assms(1) memo by (auto simp: signAndBroadcast_def i_def[symmetric] Let_def)
    then show False using assms(2,3) by simp
  qed
  have cf: "checkFeesDenom W (si_Fees i) = None"
  proof (rule ccontr)
    assume "checkFeesDenom W (si_Fees i) \<noteq> None"
    then have "s' = s" using assms(1) memo vi by (auto simp: signAndBroadcast_def i_def[symmetric] Let_def)
    then show False using assms(2,3) by simp
  qed
  have g: "g = None"
  proof (rule ccontr)
    assume "g \<noteq> None"
    then have "s' = s1" using assms(1) memo vi cf gd by (auto simp: signAndBroadcast_def i_def[symmetric] Let_def)
    moreover have "adds waits 1 s s1" using gd by (auto simp: guardChainID_def adds_observe split: if_splits)
    ultimately show False using assms(2,3) by (auto simp: adds_def)
  qed
  have foreign: "first_foreign_denom cs = None \<Longrightarrow> (d, n) \<in> set cs \<Longrightarrow> d = feeDenom" for cs d n
    by (induction cs rule: first_foreign_denom.induct) (auto split: if_splits)
  have "si_ChainID inp = tw_env_chain W \<and> tw_status W (ss_trace s) = Ok (si_ChainID inp)"
    using gd g by (auto simp: guardChainID_def i_def split: if_splits sum.splits)
  moreover have "\<exists>coins. tw_parse_coins W (si_Fees inp) = Ok coins \<and> coins \<noteq> [] \<and> (\<forall>(d, n) \<in> set coins. d = feeDenom \<and> n > 0)"
    using cf foreign by (auto simp: checkFeesDenom_def i_def list_all_iff split: sum.splits if_splits)
  moreover have "si_ChainID inp \<noteq> [] \<and> si_Gas inp > 0 \<and> si_KeyName inp \<noteq> [] \<and> si_TaskID inp \<noteq> [] \<and>
      length (appendTaskIDToMemo (si_Memo inp) (si_TaskID inp)) \<le> 256"
    using vi by (auto simp: validateInput_def i_def validateMemo_def maxMemoBytes_def split: if_splits option.splits)
  ultimately show ?thesis using memo by blast
qed

theorem sign_only_after_guards_witness:
  "\<not> list_all waits first_run \<and> tw_status (demo_txworld True) [] = Ok (si_ChainID demo_input) \<and>
   si_Gas demo_input > 0"
  using sign_only_after_guards[OF prod.collapse[symmetric], where W = "demo_txworld True" and inp = demo_input and s = "demo_sign_state []" and evs = first_run]
    demo_first_run by (simp add: demo_sign_state_def first_run_def)

end
