(* ===== verification/GoJson.thy ===== *)
theory GoJson
  imports Json NumberProps "HOL-Library.Code_Target_Numeral"
begin

text \<open>
  Decoding JSON into Go structs (\<open>encoding/json\<close>), as the sidecar's handlers and the task controller use
  it: members are matched to fields by name, first exactly and then ignoring case, unknown members are
  skipped, \<open>null\<close> leaves a field at its zero value, and integers must be integer tokens in range.
  Type errors abort the decoding; every caller drops a partly decoded value.
\<close>

subsection \<open>Scalars\<close>

definition unmarshal_error :: "string \<Rightarrow> string \<Rightarrow> error" where
  "unmarshal_error what ty = ''json: cannot unmarshal '' @ what @ '' into Go value of type '' @ ty"

fun json_kind :: "json \<Rightarrow> string" where
  "json_kind JNull = ''null''"
| "json_kind (JBool _) = ''bool''"
| "json_kind (JNumber _) = ''number''"
| "json_kind (JString _) = ''string''"
| "json_kind (JArray _) = ''array''"
| "json_kind (JObject _) = ''object''"

definition dec_string :: "string \<Rightarrow> json \<Rightarrow> string result" where
  "dec_string old j = (case j of JNull \<Rightarrow> Ok old | JString s \<Rightarrow> Ok s | _ \<Rightarrow> Err (unmarshal_error (json_kind j) ''string''))"

definition dec_bool :: "bool \<Rightarrow> json \<Rightarrow> bool result" where
  "dec_bool old j = (case j of JNull \<Rightarrow> Ok old | JBool b \<Rightarrow> Ok b | _ \<Rightarrow> Err (unmarshal_error (json_kind j) ''bool''))"

text \<open>\<open>strconv.ParseUint\<close> and \<open>ParseInt\<close> in base ten; a JSON number token has no plus sign.\<close>

definition parse_uint :: "string \<Rightarrow> nat option" where
  "parse_uint s = (if s \<noteq> [] \<and> all_digits s then Some (digits_val 0 s) else None)"

definition parse_int :: "string \<Rightarrow> int option" where
  "parse_int s =
     (case s of CHR ''-'' # t \<Rightarrow> map_option (\<lambda>n. - int n) (parse_uint t) | _ \<Rightarrow> map_option int (parse_uint s))"

definition dec_uint :: "nat \<Rightarrow> nat \<Rightarrow> json \<Rightarrow> nat result" where
  "dec_uint bits old j =
     (case j of
        JNull \<Rightarrow> Ok old
      | JNumber s \<Rightarrow> (case parse_uint s of
            Some n \<Rightarrow> if n < 2 ^ bits then Ok n else Err (unmarshal_error (''number '' @ s) (''uint'' @ show_nat bits))
          | None \<Rightarrow> Err (unmarshal_error (''number '' @ s) (''uint'' @ show_nat bits)))
      | _ \<Rightarrow> Err (unmarshal_error (json_kind j) (''uint'' @ show_nat bits)))"

definition dec_int64 :: "int \<Rightarrow> json \<Rightarrow> int result" where
  "dec_int64 old j =
     (case j of
        JNull \<Rightarrow> Ok old
      | JNumber s \<Rightarrow> (case parse_int s of
            Some n \<Rightarrow> if - (2 ^ 63) \<le> n \<and> n < 2 ^ 63 then Ok n else Err (unmarshal_error (''number '' @ s) ''int64'')
          | None \<Rightarrow> Err (unmarshal_error (''number '' @ s) ''int64''))
      | _ \<Rightarrow> Err (unmarshal_error (json_kind j) ''int64''))"

subsection \<open>Structs\<close>

text \<open>\<open>foldName\<close>: letters in one case; the long s (C5 BF) and the Kelvin sign (E2 84 AA) fold to ASCII.\<close>

fun fold_name :: "string \<Rightarrow> string" where
  "fold_name (c # d # e # cs) =
     (if c = CHR 0xE2 \<and> d = CHR 0x84 \<and> e = CHR 0xAA then CHR ''k'' # fold_name cs
      else if c = CHR 0xC5 \<and> d = CHR 0xBF then CHR ''s'' # fold_name (e # cs)
      else (if of_char c \<ge> (65::nat) \<and> of_char c \<le> (90::nat) then char_of (of_char c + (32::nat)) else c)
           # fold_name (d # e # cs))"
| "fold_name (c # cs) =
     (if c = CHR 0xC5 \<and> cs = [CHR 0xBF] then ''s''
      else (if of_char c \<ge> (65::nat) \<and> of_char c \<le> (90::nat) then char_of (of_char c + (32::nat)) else c)
           # fold_name cs)"
| "fold_name [] = []"

text \<open>The fields of a struct: JSON name and the update the member's value makes.\<close>

type_synonym 'r fields = "(string \<times> ('r \<Rightarrow> json \<Rightarrow> 'r result)) list"

definition find_field :: "'r fields \<Rightarrow> string \<Rightarrow> ('r \<Rightarrow> json \<Rightarrow> 'r result) option" where
  "find_field fs k =
     (case map_of fs k of
        Some f \<Rightarrow> Some f
      | None \<Rightarrow> map_option snd (find (\<lambda>(name, f). fold_name name = fold_name k) fs))"

fun decode_members :: "'r fields \<Rightarrow> 'r \<Rightarrow> table \<Rightarrow> 'r result" where
  "decode_members fs r [] = Ok r"
| "decode_members fs r ((k, j) # kvs) =
     (case find_field fs k of
        None \<Rightarrow> decode_members fs r kvs
      | Some f \<Rightarrow> (case f r j of Inl e \<Rightarrow> Inl e | Inr r' \<Rightarrow> decode_members fs r' kvs))"

definition decode_struct :: "string \<Rightarrow> 'r fields \<Rightarrow> 'r \<Rightarrow> json \<Rightarrow> 'r result" where
  "decode_struct ty fs zero j =
     (case j of JNull \<Rightarrow> Ok zero | JObject kvs \<Rightarrow> decode_members fs zero kvs
      | _ \<Rightarrow> Err (unmarshal_error (json_kind j) ty))"

text \<open>A field given by its decoder, its reader and its writer.\<close>

definition field :: "('a \<Rightarrow> json \<Rightarrow> 'a result) \<Rightarrow> ('r \<Rightarrow> 'a) \<Rightarrow> ('a \<Rightarrow> 'r \<Rightarrow> 'r) \<Rightarrow> 'r \<Rightarrow> json \<Rightarrow> 'r result" where
  "field dec rd wr r j = (case dec (rd r) j of Inl e \<Rightarrow> Inl e | Inr v \<Rightarrow> Inr (wr v r))"

definition dec_list :: "('a \<Rightarrow> json \<Rightarrow> 'a result) \<Rightarrow> 'a \<Rightarrow> 'a list \<Rightarrow> json \<Rightarrow> 'a list result" where
  "dec_list dec zero old j =
     (case j of JNull \<Rightarrow> Ok [] | JArray js \<Rightarrow> map_result (dec zero) js
      | _ \<Rightarrow> Err (unmarshal_error (json_kind j) ''slice''))"

subsection \<open>Reading back what was printed\<close>

lemma parse_uint_show [simp]: "parse_uint (show_nat n) = Some n"
  using decimal_digits[of n] by (simp add: parse_uint_def)

lemma parse_int_itoa [simp]: "parse_int (itoa i) = Some i"
proof (cases "i < 0")
  case True
  then show ?thesis by (simp add: itoa_def parse_int_def)
next
  case False
  obtain c cs where s: "show_nat (nat i) = c # cs" by (cases "show_nat (nat i)") simp_all
  have "all_digits (c # cs)" using decimal_digits[of "nat i"] s by simp
  then have "c \<noteq> CHR ''-''" by (auto simp: is_digit_def)
  then have "parse_int (show_nat (nat i)) = map_option int (parse_uint (show_nat (nat i)))"
    by (simp add: s parse_int_def split: list.splits char.splits bool.splits)
  then show ?thesis using False by (simp add: itoa_def)
qed

lemma dec_scalars [simp]:
  "dec_string old (JString s) = Ok s" "dec_bool b0 (JBool b) = Ok b"
  "n < 2 ^ bits \<Longrightarrow> dec_uint bits u (JNumber (show_nat n)) = Ok n"
  "- (2 ^ 63) \<le> i \<Longrightarrow> i < 2 ^ 63 \<Longrightarrow> dec_int64 k (JNumber (itoa i)) = Ok i"
  by (simp_all add: dec_string_def dec_bool_def dec_uint_def dec_int64_def)

end
