(* ===== verification/NodeTask.thy ===== *)
theory NodeTask
  imports WorkflowControl GoJson
begin

text \<open>
  The SeiNodeTask controller (\<open>internal/controller/nodetask\<close>, \<open>internal/task/seinodetask_params.go\<close>,
  \<open>api/v1alpha1/seinodetask_types.go\<close>): one resource is one task against one node, driven from Pending to
  Complete or Failed.  The task itself is an execution of \<open>InfraTasks\<close>, built for the target node.
\<close>

subsection \<open>The resource\<close>

datatype SeiNodeTaskKind =
    KindGovSoftwareUpgrade | KindGovVote | KindGovParamChange | KindGovUpdateInstantiateConfig
  | KindAwaitCondition | KindUpdateNodeImage | KindAwaitNodesAtHeight | KindRestartSeid | KindMarkReady
  | KindUnjail
  | KindOther string

fun kind_string :: "SeiNodeTaskKind \<Rightarrow> string" where
  "kind_string KindGovSoftwareUpgrade = ''GovSoftwareUpgrade''"
| "kind_string KindGovVote = ''GovVote''"
| "kind_string KindGovParamChange = ''GovParamChange''"
| "kind_string KindGovUpdateInstantiateConfig = ''GovUpdateInstantiateConfig''"
| "kind_string KindAwaitCondition = ''AwaitCondition''"
| "kind_string KindUpdateNodeImage = ''UpdateNodeImage''"
| "kind_string KindAwaitNodesAtHeight = ''AwaitNodesAtHeight''"
| "kind_string KindRestartSeid = ''RestartSeid''"
| "kind_string KindMarkReady = ''MarkReady''"
| "kind_string KindUnjail = ''Unjail''"
| "kind_string (KindOther s) = s"

datatype SeiNodeTaskPhase = NTUnset | NTPending | NTRunning | NTComplete | NTFailed

record SeiNodeTaskTarget =
  tgt_NodeName :: string
  tgt_RequirePhase :: SeiNodePhase
  tgt_RequirePhaseTimeout :: "duration option"

record GovSoftwareUpgradePayload =
  gsp_ChainID :: string
  gsp_KeyName :: string
  gsp_Title :: string
  gsp_Description :: string
  gsp_UpgradeName :: string
  gsp_UpgradeHeight :: int
  gsp_UpgradeInfo :: string
  gsp_InitialDeposit :: string
  gsp_Memo :: string
  gsp_Fees :: string
  gsp_Gas :: nat

text \<open>A value of \<open>null\<close> has no raw bytes.\<close>

record GovParamChangeEntry =
  pce_Subspace :: string
  pce_Key :: string
  pce_Value :: "json option"

record GovParamChangePayload =
  gpp_ChainID :: string
  gpp_KeyName :: string
  gpp_Title :: string
  gpp_Description :: string
  gpp_Changes :: "GovParamChangeEntry list"
  gpp_InitialDeposit :: string
  gpp_Memo :: string
  gpp_Fees :: string
  gpp_Gas :: nat

record GovInstantiateConfigUpdate =
  giu_CodeID :: nat
  giu_Permission :: string

record GovUpdateInstantiateConfigPayload =
  gup_ChainID :: string
  gup_KeyName :: string
  gup_Title :: string
  gup_Description :: string
  gup_Updates :: "GovInstantiateConfigUpdate list"
  gup_InitialDeposit :: string
  gup_Memo :: string
  gup_Fees :: string
  gup_Gas :: nat

record GovVotePayload =
  gvp_ChainID :: string
  gvp_KeyName :: string
  gvp_ProposalID :: nat
  gvp_Option :: string
  gvp_Memo :: string
  gvp_Fees :: string
  gvp_Gas :: nat

record UnjailPayload =
  ujp_ChainID :: string
  ujp_KeyName :: string
  ujp_Memo :: string
  ujp_Fees :: string
  ujp_Gas :: nat

record AwaitConditionPayload =
  acp_Height :: "int option"  \<comment> \<open>\<open>AwaitHeightCondition.TargetHeight\<close>\<close>
  acp_Action :: string

record SeiNodeTaskSpec =
  nts_Kind :: SeiNodeTaskKind
  nts_Target :: SeiNodeTaskTarget
  nts_TimeoutSeconds :: int
  nts_GovSoftwareUpgrade :: "GovSoftwareUpgradePayload option"
  nts_GovVote :: "GovVotePayload option"
  nts_GovParamChange :: "GovParamChangePayload option"
  nts_GovUpdateInstantiateConfig :: "GovUpdateInstantiateConfigPayload option"
  nts_AwaitCondition :: "AwaitConditionPayload option"
  nts_UpdateNodeImage :: "string option"  \<comment> \<open>\<open>UpdateNodeImagePayload.Image\<close>\<close>
  nts_AwaitNodesAtHeight :: "int option"  \<comment> \<open>\<open>AwaitNodesAtHeightPayload.TargetHeight\<close>\<close>
  nts_RestartSeid :: "unit option"
  nts_MarkReady :: "unit option"
  nts_Unjail :: "UnjailPayload option"

record SeiNodeTaskExecution =
  nte_ID :: string
  nte_Status :: TaskStatus
  nte_Err :: string
  nte_SubmittedAt :: "go_time option"
  nte_ExecutionStartedAt :: "go_time option"

text \<open>The outputs of a proposal and of a plain transaction.  The outputs of the two await kinds, which no code writes,
  are left out.\<close>

record ProposalOutputs =
  po_TxHash :: string
  po_Height :: int
  po_ProposalID :: nat

record TxOutputs =
  to_TxHash :: string
  to_Height :: int

record SeiNodeTaskOutputs =
  out_GovSoftwareUpgrade :: "ProposalOutputs option"
  out_GovVote :: "TxOutputs option"
  out_GovParamChange :: "ProposalOutputs option"
  out_GovUpdateInstantiateConfig :: "ProposalOutputs option"
  out_UpdateNodeImage :: "string option"  \<comment> \<open>\<open>UpdateNodeImageOutputs.AppliedImage\<close>\<close>
  out_Unjail :: "TxOutputs option"

definition no_outputs :: SeiNodeTaskOutputs where
  "no_outputs = \<lparr>out_GovSoftwareUpgrade = None, out_GovVote = None, out_GovParamChange = None,
     out_GovUpdateInstantiateConfig = None, out_UpdateNodeImage = None, out_Unjail = None\<rparr>"

record SeiNodeTaskStatus =
  ntst_ObservedGeneration :: int
  ntst_Phase :: SeiNodeTaskPhase
  ntst_Task :: "SeiNodeTaskExecution option"
  ntst_Outputs :: "SeiNodeTaskOutputs option"
  ntst_PhaseTransitionTime :: "go_time option"
  ntst_StartedAt :: "go_time option"
  ntst_TargetFirstObservedAt :: "go_time option"
  ntst_Conditions :: "condition list"

record SeiNodeTask =
  snt_Name :: string
  snt_Namespace :: string
  snt_UID :: string
  snt_Generation :: int
  snt_Spec :: SeiNodeTaskSpec
  snt_Status :: SeiNodeTaskStatus

abbreviation snt_Kind :: "SeiNodeTask \<Rightarrow> SeiNodeTaskKind" where
  "snt_Kind cr \<equiv> nts_Kind (snt_Spec cr)"

abbreviation snt_Phase :: "SeiNodeTask \<Rightarrow> SeiNodeTaskPhase" where
  "snt_Phase cr \<equiv> ntst_Phase (snt_Status cr)"

abbreviation snt_Task :: "SeiNodeTask \<Rightarrow> SeiNodeTaskExecution option" where
  "snt_Task cr \<equiv> ntst_Task (snt_Status cr)"

definition upd_nt :: "(SeiNodeTaskStatus \<Rightarrow> SeiNodeTaskStatus) \<Rightarrow> SeiNodeTask \<Rightarrow> SeiNodeTask" where
  "upd_nt f cr = cr\<lparr>snt_Status := f (snt_Status cr)\<rparr>"

definition upd_exec :: "(SeiNodeTaskExecution \<Rightarrow> SeiNodeTaskExecution) \<Rightarrow> SeiNodeTask \<Rightarrow> SeiNodeTask" where
  "upd_exec f = upd_nt (\<lambda>st. st\<lparr>ntst_Task := map_option f (ntst_Task st)\<rparr>)"

subsection \<open>Parameters of the task\<close>

datatype params_error = ErrUnsupportedKind SeiNodeTaskKind | ParamsErr error

fun params_error_text :: "params_error \<Rightarrow> error" where
  "params_error_text (ErrUnsupportedKind k) = ''unsupported kind '' @ quoted (kind_string k) @ '' is not wired in this build''"
| "params_error_text (ParamsErr e) = e"

definition ReasonParamsBuildFailed :: string where "ReasonParamsBuildFailed = ''ParamsBuildFailed''"
definition ReasonUnsupportedKind :: string where "ReasonUnsupportedKind = ''UnsupportedKind''"

fun FailureReason :: "params_error \<Rightarrow> string" where
  "FailureReason (ErrUnsupportedKind k) = ReasonUnsupportedKind"
| "FailureReason (ParamsErr e) = ReasonParamsBuildFailed"

type_synonym task_params = "params_error + TaskType \<times> TaskParams"

definition ResolveOperatorKeyringUID :: "SeiNode \<Rightarrow> string" where
  "ResolveOperatorKeyringUID n =
     (case spec_Validator (node_Spec n) of
        None \<Rightarrow> ''validator''
      | Some v \<Rightarrow> (case val_OperatorKeyring v of
          Some (Some s) \<Rightarrow> if opk_KeyName s = [] then ''node_admin'' else opk_KeyName s
        | _ \<Rightarrow> ''validator''))"

definition resolveSigningUID :: "string \<Rightarrow> SeiNode option \<Rightarrow> string" where
  "resolveSigningUID explicit target =
     (if explicit \<noteq> [] then explicit
      else case target of None \<Rightarrow> [] | Some n \<Rightarrow> ResolveOperatorKeyringUID n)"

definition updateNodeImageParams :: "SeiNodeTask \<Rightarrow> task_params" where
  "updateNodeImageParams cr =
     (case nts_UpdateNodeImage (snt_Spec cr) of
        None \<Rightarrow> Inl (ParamsErr ''spec.updateNodeImage is required for kind=UpdateNodeImage'')
      | Some img \<Rightarrow> Inr (UpdateNodeImage, UpdateImageParams (tgt_NodeName (nts_Target (snt_Spec cr))) (snt_Namespace cr) img))"

definition govVoteParams :: "SeiNodeTask \<Rightarrow> SeiNode option \<Rightarrow> task_params" where
  "govVoteParams cr target =
     (case nts_GovVote (snt_Spec cr) of
        None \<Rightarrow> Inl (ParamsErr ''spec.govVote is required for kind=GovVote'')
      | Some p \<Rightarrow> Inr (GovVote, GovVoteParams
          \<lparr>gv_ChainID = gvp_ChainID p, gv_KeyName = resolveSigningUID (gvp_KeyName p) target,
           gv_ProposalID = gvp_ProposalID p, gv_Option = gvp_Option p, gv_Memo = gvp_Memo p,
           gv_Fees = gvp_Fees p, gv_Gas = gvp_Gas p\<rparr>))"

definition govSoftwareUpgradeParams :: "SeiNodeTask \<Rightarrow> SeiNode option \<Rightarrow> task_params" where
  "govSoftwareUpgradeParams cr target =
     (case nts_GovSoftwareUpgrade (snt_Spec cr) of
        None \<Rightarrow> Inl (ParamsErr ''spec.govSoftwareUpgrade is required for kind=GovSoftwareUpgrade'')
      | Some p \<Rightarrow> Inr (GovSoftwareUpgrade, GovSoftwareUpgradeParams
          \<lparr>gsu_ChainID = gsp_ChainID p, gsu_KeyName = resolveSigningUID (gsp_KeyName p) target,
           gsu_Title = gsp_Title p, gsu_Description = gsp_Description p, gsu_UpgradeName = gsp_UpgradeName p,
           gsu_UpgradeHeight = gsp_UpgradeHeight p, gsu_UpgradeInfo = gsp_UpgradeInfo p,
           gsu_InitialDeposit = gsp_InitialDeposit p, gsu_Memo = gsp_Memo p, gsu_Fees = gsp_Fees p,
           gsu_Gas = gsp_Gas p\<rparr>))"

text \<open>The payload is marshalled and unmarshalled before it is validated; a value without bytes comes back as
  the four bytes of \<open>null\<close>.\<close>

definition param_change_input :: "GovParamChangeEntry \<Rightarrow> ParamChangeInput" where
  "param_change_input c = \<lparr>pci_Subspace = pce_Subspace c, pci_Key = pce_Key c,
     pci_Value = Some (case pce_Value c of None \<Rightarrow> JNull | Some j \<Rightarrow> j)\<rparr>"

definition govParamChangeParams :: "SeiNodeTask \<Rightarrow> SeiNode option \<Rightarrow> task_params" where
  "govParamChangeParams cr target =
     (case nts_GovParamChange (snt_Spec cr) of
        None \<Rightarrow> Inl (ParamsErr ''spec.govParamChange is required for kind=GovParamChange'')
      | Some p \<Rightarrow> Inr (GovParamChange, GovParamChangeParams
          \<lparr>gpc_ChainID = gpp_ChainID p, gpc_KeyName = resolveSigningUID (gpp_KeyName p) target,
           gpc_Title = gpp_Title p, gpc_Description = gpp_Description p,
           gpc_Changes = map param_change_input (gpp_Changes p), gpc_InitialDeposit = gpp_InitialDeposit p,
           gpc_Memo = gpp_Memo p, gpc_Fees = gpp_Fees p, gpc_Gas = gpp_Gas p\<rparr>))"

definition govUpdateInstantiateConfigParams :: "SeiNodeTask \<Rightarrow> SeiNode option \<Rightarrow> task_params" where
  "govUpdateInstantiateConfigParams cr target =
     (case nts_GovUpdateInstantiateConfig (snt_Spec cr) of
        None \<Rightarrow> Inl (ParamsErr ''spec.govUpdateInstantiateConfig is required for kind=GovUpdateInstantiateConfig'')
      | Some p \<Rightarrow> Inr (GovUpdateInstantiateConfig, GovUpdateInstantiateConfigParams
          \<lparr>guc_ChainID = gup_ChainID p, guc_KeyName = resolveSigningUID (gup_KeyName p) target,
           guc_Title = gup_Title p, guc_Description = gup_Description p,
           guc_Updates = map (\<lambda>u. \<lparr>icu_CodeID = giu_CodeID u, icu_Permission = giu_Permission u\<rparr>) (gup_Updates p),
           guc_InitialDeposit = gup_InitialDeposit p, guc_Memo = gup_Memo p, guc_Fees = gup_Fees p,
           guc_Gas = gup_Gas p\<rparr>))"

definition awaitConditionParams :: "SeiNodeTask \<Rightarrow> task_params" where
  "awaitConditionParams cr =
     (case nts_AwaitCondition (snt_Spec cr) of
        None \<Rightarrow> Inl (ParamsErr ''spec.awaitCondition is required for kind=AwaitCondition'')
      | Some p \<Rightarrow> (case acp_Height p of
          None \<Rightarrow> Inl (ParamsErr ''spec.awaitCondition.height is required (height is the only condition wired in MVP)'')
        | Some h \<Rightarrow> Inr (AwaitCondition, AwaitConditionParams ''height'' h (acp_Action p))))"

definition awaitNodesAtHeightParams :: "SeiNodeTask \<Rightarrow> task_params" where
  "awaitNodesAtHeightParams cr =
     (case nts_AwaitNodesAtHeight (snt_Spec cr) of
        None \<Rightarrow> Inl (ParamsErr ''spec.awaitNodesAtHeight is required for kind=AwaitNodesAtHeight'')
      | Some h \<Rightarrow> Inr (AwaitCondition, AwaitConditionParams ''height'' h []))"

definition restartSeidParams :: "ext \<Rightarrow> SeiNodeTask \<Rightarrow> SeiNode option \<Rightarrow> task_params" where
  "restartSeidParams E cr target =
     (if nts_RestartSeid (snt_Spec cr) = None
      then Inl (ParamsErr ''spec.restartSeid is required for kind=RestartSeid'')
      else Inr (RestartSeid, case target of None \<Rightarrow> EmptyParams | Some n \<Rightarrow> UpCheckParams (UpCheckForNode E n)))"

definition markReadyParams :: "SeiNodeTask \<Rightarrow> task_params" where
  "markReadyParams cr =
     (if nts_MarkReady (snt_Spec cr) = None
      then Inl (ParamsErr ''spec.markReady is required for kind=MarkReady'')
      else Inr (MarkReady, EmptyParams))"

definition unjailParams :: "SeiNodeTask \<Rightarrow> SeiNode option \<Rightarrow> task_params" where
  "unjailParams cr target =
     (case nts_Unjail (snt_Spec cr) of
        None \<Rightarrow> Inl (ParamsErr ''spec.unjail is required for kind=Unjail'')
      | Some p \<Rightarrow>
          if (case target of None \<Rightarrow> False | Some n \<Rightarrow> spec_Validator (node_Spec n) = None)
          then Inl (ParamsErr (''kind=Unjail requires a validator target: SeiNode '' @
                 (case target of None \<Rightarrow> [] | Some n \<Rightarrow> node_Name n) @ '' has no spec.validator''))
          else Inr (Unjail, UnjailParams
            \<lparr>uj_ChainID = ujp_ChainID p, uj_KeyName = resolveSigningUID (ujp_KeyName p) target,
             uj_Memo = ujp_Memo p, uj_Fees = ujp_Fees p, uj_Gas = ujp_Gas p\<rparr>))"

definition SeiNodeTaskParamsFor :: "ext \<Rightarrow> SeiNodeTask \<Rightarrow> SeiNode option \<Rightarrow> task_params" where
  "SeiNodeTaskParamsFor E cr target =
     (case snt_Kind cr of
        KindUpdateNodeImage \<Rightarrow> updateNodeImageParams cr
      | KindGovVote \<Rightarrow> govVoteParams cr target
      | KindGovSoftwareUpgrade \<Rightarrow> govSoftwareUpgradeParams cr target
      | KindGovParamChange \<Rightarrow> govParamChangeParams cr target
      | KindGovUpdateInstantiateConfig \<Rightarrow> govUpdateInstantiateConfigParams cr target
      | KindAwaitCondition \<Rightarrow> awaitConditionParams cr
      | KindAwaitNodesAtHeight \<Rightarrow> awaitNodesAtHeightParams cr
      | KindRestartSeid \<Rightarrow> restartSeidParams E cr target
      | KindMarkReady \<Rightarrow> markReadyParams cr
      | KindUnjail \<Rightarrow> unjailParams cr target
      | KindOther s \<Rightarrow> Inl (ErrUnsupportedKind (KindOther s)))"

subsection \<open>The structured result\<close>

text \<open>\<open>GovTxResult\<close> as the controller decodes it; the inclusion status is any text.\<close>

record gov_answer =
  ga_TxHash :: string
  ga_Height :: int
  ga_ProposalID :: nat
  ga_Code :: nat
  ga_Codespace :: string
  ga_RawLog :: string
  ga_InclusionStatus :: string

definition no_answer :: gov_answer where
  "no_answer = \<lparr>ga_TxHash = [], ga_Height = 0, ga_ProposalID = 0, ga_Code = 0, ga_Codespace = [], ga_RawLog = [],
     ga_InclusionStatus = []\<rparr>"

definition gov_answer_fields :: "gov_answer fields" where
  "gov_answer_fields =
     [(''txHash'', field dec_string ga_TxHash (\<lambda>v r. r\<lparr>ga_TxHash := v\<rparr>)),
      (''height'', field dec_int64 ga_Height (\<lambda>v r. r\<lparr>ga_Height := v\<rparr>)),
      (''proposalId'', field (dec_uint 64) ga_ProposalID (\<lambda>v r. r\<lparr>ga_ProposalID := v\<rparr>)),
      (''code'', field (dec_uint 32) ga_Code (\<lambda>v r. r\<lparr>ga_Code := v\<rparr>)),
      (''codespace'', field dec_string ga_Codespace (\<lambda>v r. r\<lparr>ga_Codespace := v\<rparr>)),
      (''rawLog'', field dec_string ga_RawLog (\<lambda>v r. r\<lparr>ga_RawLog := v\<rparr>)),
      (''inclusionStatus'', field dec_string ga_InclusionStatus (\<lambda>v r. r\<lparr>ga_InclusionStatus := v\<rparr>))]"

text \<open>Only sidecar executions have a result: for the others \<open>tb_result\<close> stays empty.\<close>

definition decodeGovResult :: "taskBase \<Rightarrow> gov_answer option" where
  "decodeGovResult b =
     (case tb_result b of
        None \<Rightarrow> None
      | Some raw \<Rightarrow> (case decode_struct ''wire.GovTxResult'' gov_answer_fields no_answer raw of
          Inl e \<Rightarrow> None | Inr gr \<Rightarrow> Some gr))"

fun isSignTxKind :: "SeiNodeTaskKind \<Rightarrow> bool" where
  "isSignTxKind KindGovVote = True"
| "isSignTxKind KindGovSoftwareUpgrade = True"
| "isSignTxKind KindGovParamChange = True"
| "isSignTxKind KindGovUpdateInstantiateConfig = True"
| "isSignTxKind KindUnjail = True"
| "isSignTxKind _ = False"

definition set_outputs :: "(SeiNodeTaskOutputs \<Rightarrow> SeiNodeTaskOutputs) \<Rightarrow> SeiNodeTask \<Rightarrow> SeiNodeTask" where
  "set_outputs f = upd_nt (\<lambda>st. st\<lparr>ntst_Outputs :=
     Some (f (case ntst_Outputs st of None \<Rightarrow> no_outputs | Some out \<Rightarrow> out))\<rparr>)"

definition proposal_outputs :: "gov_answer \<Rightarrow> ProposalOutputs" where
  "proposal_outputs gr = \<lparr>po_TxHash = ga_TxHash gr, po_Height = ga_Height gr, po_ProposalID = ga_ProposalID gr\<rparr>"

definition tx_outputs :: "gov_answer \<Rightarrow> TxOutputs" where
  "tx_outputs gr = \<lparr>to_TxHash = ga_TxHash gr, to_Height = ga_Height gr\<rparr>"

definition populateTxOutputs :: "SeiNodeTask \<Rightarrow> gov_answer option \<Rightarrow> SeiNodeTask" where
  "populateTxOutputs cr answer =
     (case answer of
        None \<Rightarrow> cr
      | Some gr \<Rightarrow> set_outputs (\<lambda>out.
          (case snt_Kind cr of
             KindGovSoftwareUpgrade \<Rightarrow> out\<lparr>out_GovSoftwareUpgrade := Some (proposal_outputs gr)\<rparr>
           | KindGovParamChange \<Rightarrow> out\<lparr>out_GovParamChange := Some (proposal_outputs gr)\<rparr>
           | KindGovUpdateInstantiateConfig \<Rightarrow> out\<lparr>out_GovUpdateInstantiateConfig := Some (proposal_outputs gr)\<rparr>
           | KindGovVote \<Rightarrow> out\<lparr>out_GovVote := Some (tx_outputs gr)\<rparr>
           | KindUnjail \<Rightarrow> out\<lparr>out_Unjail := Some (tx_outputs gr)\<rparr>
           | _ \<Rightarrow> out)) cr)"

definition populateOutputs :: "SeiNodeTask \<Rightarrow> SeiNode \<Rightarrow> gov_answer option \<Rightarrow> SeiNodeTask" where
  "populateOutputs cr target gr =
     (case snt_Kind cr of
        KindUpdateNodeImage \<Rightarrow>
          set_outputs (\<lambda>out. out\<lparr>out_UpdateNodeImage := Some (st_CurrentImage (node_Status target))\<rparr>) cr
      | k \<Rightarrow> if isSignTxKind k then populateTxOutputs cr gr else cr)"

subsection \<open>Phase, conditions and timeouts\<close>

definition setPhase :: "go_time \<Rightarrow> SeiNodeTaskPhase \<Rightarrow> SeiNodeTask \<Rightarrow> SeiNodeTask" where
  "setPhase now ph cr =
     (if snt_Phase cr = ph then cr
      else upd_nt (\<lambda>st. st\<lparr>ntst_Phase := ph, ntst_PhaseTransitionTime := Some now\<rparr>) cr)"

definition setCondition :: "ext \<Rightarrow> string \<Rightarrow> condition_status \<Rightarrow> string \<Rightarrow> string \<Rightarrow> SeiNodeTask \<Rightarrow> SeiNodeTask" where
  "setCondition E ty st reason msg cr =
     upd_nt (\<lambda>s. s\<lparr>ntst_Conditions :=
       SetStatusCondition E (ntst_Conditions s) (mk_condition ty st reason msg (snt_Generation cr))\<rparr>) cr"

definition markFailed :: "ext \<Rightarrow> go_time \<Rightarrow> string \<Rightarrow> string \<Rightarrow> SeiNodeTask \<Rightarrow> SeiNodeTask" where
  "markFailed E now reason msg cr = setCondition E ''Failed'' ConditionTrue reason msg (setPhase now NTFailed cr)"

definition defaultRequirePhaseTimeout :: duration where "defaultRequirePhaseTimeout = 5 * 60 * 1000000000"
definition targetWaitInterval :: duration where "targetWaitInterval = 5 * 1000000000"
definition taskPollInterval :: duration where "taskPollInterval = 15 * 1000000000"
definition resultRequeueImmediate :: duration where "resultRequeueImmediate = 1000000"
definition defaultRestartSeidTimeout :: duration where "defaultRestartSeidTimeout = 10 * 60 * 1000000000"
definition defaultMarkReadyTimeout :: duration where "defaultMarkReadyTimeout = 2 * 60 * 1000000000"

definition effectiveTimeout :: "SeiNodeTask \<Rightarrow> duration" where
  "effectiveTimeout cr =
     (if nts_TimeoutSeconds (snt_Spec cr) > 0 then nts_TimeoutSeconds (snt_Spec cr) * 1000000000
      else case snt_Kind cr of
        KindRestartSeid \<Rightarrow> defaultRestartSeidTimeout
      | KindMarkReady \<Rightarrow> defaultMarkReadyTimeout
      | _ \<Rightarrow> 0)"

definition execTimedOut :: "go_time \<Rightarrow> SeiNodeTask \<Rightarrow> bool" where
  "execTimedOut now cr \<longleftrightarrow>
     (case snt_Task cr of
        None \<Rightarrow> False
      | Some t \<Rightarrow> (case nte_ExecutionStartedAt t of
          None \<Rightarrow> False
        | Some t0 \<Rightarrow> effectiveTimeout cr > 0 \<and> now > t0 + effectiveTimeout cr))"

subsection \<open>Driving the task\<close>

definition fail_task :: "ext \<Rightarrow> go_time \<Rightarrow> string \<Rightarrow> string \<Rightarrow> string \<Rightarrow> SeiNodeTask \<Rightarrow> SeiNodeTask" where
  "fail_task E now err reason msg cr =
     markFailed E now reason msg (upd_exec (\<lambda>t. t\<lparr>nte_Status := TaskFailed, nte_Err := err\<rparr>) cr)"

definition markComplete :: "ext \<Rightarrow> go_time \<Rightarrow> taskBase \<Rightarrow> SeiNode \<Rightarrow> SeiNodeTask \<Rightarrow> SeiNodeTask" where
  "markComplete E now b target cr =
     setCondition E ''Ready'' ConditionTrue (if isSignTxKind (snt_Kind cr) then ''Confirmed'' else ''TaskComplete'') []
       (setPhase now NTComplete
         (populateOutputs (upd_exec (\<lambda>t. t\<lparr>nte_Status := TaskComplete\<rparr>) cr) target (decodeGovResult b)))"

definition handleFailure :: "ext \<Rightarrow> go_time \<Rightarrow> taskBase \<Rightarrow> SeiNodeTask \<Rightarrow> SeiNodeTask" where
  "handleFailure E now b cr =
     (let msg = (case tb_err b of None \<Rightarrow> [] | Some e \<Rightarrow> e)
      in case decodeGovResult b of
           None \<Rightarrow> fail_task E now msg ''TaskFailed'' msg cr
         | Some gr \<Rightarrow>
             (let cr1 = populateTxOutputs cr (Some gr)
              in if ga_InclusionStatus gr = ''pending'' then
                   (if execTimedOut now cr1 then fail_task E now msg ''InclusionUndetermined'' msg cr1
                    else upd_exec (\<lambda>t. t\<lparr>nte_Status := TaskPending\<rparr>) cr1)
                 else if ga_InclusionStatus gr = ''committed_failed'' then fail_task E now msg ''TxFailed'' msg cr1
                 else fail_task E now msg ''TaskFailed'' msg cr1))"

definition settle :: "ext \<Rightarrow> go_time \<Rightarrow> taskBase \<Rightarrow> SeiNode \<Rightarrow> SeiNodeTask \<Rightarrow> SeiNodeTask" where
  "settle E now b target cr =
     (case tb_status b of
        ExecutionComplete \<Rightarrow> markComplete E now b target cr
      | ExecutionFailed \<Rightarrow> handleFailure E now b cr
      | ExecutionRunning \<Rightarrow>
          if execTimedOut now cr
          then fail_task E now ''timeout'' ''Timeout''
                 (''task did not complete within '' @ duration_string (effectiveTimeout cr)) cr
          else cr)"

definition stamp_submission :: "go_time \<Rightarrow> SeiNodeTaskExecution \<Rightarrow> SeiNodeTaskExecution" where
  "stamp_submission now t =
     t\<lparr>nte_SubmittedAt := (case nte_SubmittedAt t of None \<Rightarrow> Some now | Some u \<Rightarrow> Some u), nte_Status := TaskRunning\<rparr>"

definition anchor :: "go_time \<Rightarrow> SeiNodeTaskExecution \<Rightarrow> SeiNodeTaskExecution" where
  "anchor now t =
     t\<lparr>nte_ExecutionStartedAt := (case nte_ExecutionStartedAt t of None \<Rightarrow> Some now | Some u \<Rightarrow> Some u)\<rparr>"

text \<open>The calls made against the API server and the sidecar are threaded through; the error is a transient error
  of \<open>Execute\<close>.\<close>

definition driveTask ::
    "ext \<Rightarrow> PlatformConfig \<Rightarrow> world \<Rightarrow> go_time \<Rightarrow> SeiNode \<Rightarrow> SeiNodeTask \<Rightarrow> call list \<Rightarrow>
     SeiNodeTask \<times> call list \<times> error option" where
  "driveTask E P W now target cr calls =
     (case SeiNodeTaskParamsFor E cr (Some target) of
        Inl e \<Rightarrow> (markFailed E now (FailureReason e) (params_error_text e) cr, calls, None)
      | Inr (ty, p) \<Rightarrow>
          (let tid = (case snt_Task cr of None \<Rightarrow> [] | Some t \<Rightarrow> nte_ID t)
           in case Deserialize ty tid p of
                Some e \<Rightarrow> (markFailed E now ''DeserializeFailed'' e cr, calls, None)
              | None \<Rightarrow>
                  (let cr1 = upd_exec (anchor now) cr;
                       s = \<lparr>xs_Node = Some target, xs_Calls = calls\<rparr>
                   in if map_option nte_Status (snt_Task cr1) = Some TaskPending then
                        (case task_Execute E P W ty tid p s of
                           (s1, b, Some (Terminal e)) \<Rightarrow> (fail_task E now e ''TaskTerminalError'' e cr1, xs_Calls s1, None)
                         | (s1, b, Some (Transient e)) \<Rightarrow> (cr1, xs_Calls s1, Some e)
                         | (s1, b, None) \<Rightarrow>
                             (settle E now (task_Status W ty tid p s1 b) target (upd_exec (stamp_submission now) cr1),
                              xs_Calls s1, None))
                      else (settle E now (task_Status W ty tid p s fresh_task) target cr1, calls, None))))"

subsection \<open>Reconciling\<close>

text \<open>The target, a wait, or a fatal error.\<close>

datatype target_answer = Dispatch SeiNode | WaitFor duration | Fatal error

definition resolveTarget :: "ext \<Rightarrow> world \<Rightarrow> go_time \<Rightarrow> SeiNodeTask \<Rightarrow> SeiNodeTask \<times> target_answer" where
  "resolveTarget E W now cr =
     (let tgt = nts_Target (snt_Spec cr); name = tgt_NodeName tgt
      in case w_Node W [] name of
           Inl e \<Rightarrow>
             (cr, Fatal (if IsNotFound e
                then ''target SeiNode '' @ quoted name @ '' not found in namespace '' @ quoted (snt_Namespace cr)
                else api_text e))
         | Inr target \<Rightarrow>
             (let required = (if tgt_RequirePhase tgt = PhaseUnset then PhaseRunning else tgt_RequirePhase tgt)
              in if node_Phase target = required then
                   (setCondition E ''TargetReady'' ConditionTrue ''PhaseMet''
                      (''target '' @ name @ '' is '' @ phase_string required)
                      (upd_nt (\<lambda>st. st\<lparr>ntst_TargetFirstObservedAt := None\<rparr>) cr),
                    Dispatch target)
                 else
                   (let since = (case ntst_TargetFirstObservedAt (snt_Status cr) of None \<Rightarrow> now | Some t \<Rightarrow> t);
                        cr1 = upd_nt (\<lambda>st. st\<lparr>ntst_TargetFirstObservedAt := Some since\<rparr>) cr;
                        timeout = (case tgt_RequirePhaseTimeout tgt of None \<Rightarrow> defaultRequirePhaseTimeout | Some d \<Rightarrow> d)
                    in if now - since > timeout then
                         (cr1, Fatal (''target '' @ quoted name @ '' did not reach phase '' @
                            quoted (phase_string required) @ '' within '' @ duration_string timeout @ '' (current: '' @
                            quoted (phase_string (node_Phase target)) @ '')''))
                       else
                         (setCondition E ''TargetReady'' ConditionFalse ''PhaseNotMet''
                            (''waiting for target '' @ name @ '' to reach '' @ phase_string required @ '' (current: '' @
                             phase_string (node_Phase target) @ '')'') cr1,
                          WaitFor targetWaitInterval))))"

text \<open>What one reconcile leaves: the object the API server holds, the calls made, the requeue delay (0 for none) and
  the error returned.\<close>

record nt_result =
  nr_Stored :: SeiNodeTask
  nr_Calls :: "call list"
  nr_Requeue :: duration
  nr_Error :: "error option"

definition flush ::
    "(call list \<Rightarrow> api_error option) \<Rightarrow> SeiNodeTask \<Rightarrow> SeiNodeTask \<Rightarrow> call list \<Rightarrow> duration \<Rightarrow> error option \<Rightarrow> nt_result" where
  "flush patch prev cr calls requeue execErr =
     (if snt_Status prev \<noteq> snt_Status cr then
        (case patch calls of
           Some e \<Rightarrow> \<lparr>nr_Stored = prev, nr_Calls = calls, nr_Requeue = 0,
                      nr_Error = Some (''flushing status: '' @ api_text e)\<rparr>
         | None \<Rightarrow> \<lparr>nr_Stored = cr, nr_Calls = calls, nr_Requeue = requeue, nr_Error = execErr\<rparr>)
      else \<lparr>nr_Stored = cr, nr_Calls = calls, nr_Requeue = requeue, nr_Error = execErr\<rparr>)"

definition observed :: "go_time \<Rightarrow> SeiNodeTask \<Rightarrow> SeiNodeTask" where
  "observed now cr = upd_nt (\<lambda>st. st\<lparr>ntst_ObservedGeneration := snt_Generation cr,
     ntst_StartedAt := (case ntst_StartedAt st of None \<Rightarrow> Some now | Some t \<Rightarrow> Some t)\<rparr>) cr"

definition synthesize :: "ext \<Rightarrow> go_time \<Rightarrow> SeiNodeTask \<Rightarrow> SeiNodeTask" where
  "synthesize E now cr =
     setPhase now NTRunning
       (upd_nt (\<lambda>st. st\<lparr>ntst_Task := Some
          \<lparr>nte_ID = DeterministicTaskID E (snt_UID cr) (OtherTask (kind_string (snt_Kind cr))) 0,
           nte_Status = TaskPending, nte_Err = [], nte_SubmittedAt = None, nte_ExecutionStartedAt = Some now\<rparr>\<rparr>) cr)"

definition poll_delay :: "SeiNodeTask \<Rightarrow> duration" where
  "poll_delay cr = (if snt_Phase cr = NTRunning then taskPollInterval else 0)"

text \<open>The target is ready: the task is minted and persisted before anything else happens, later it is driven.\<close>

definition dispatch_task ::
    "ext \<Rightarrow> PlatformConfig \<Rightarrow> world \<Rightarrow> (call list \<Rightarrow> api_error option) \<Rightarrow> go_time \<Rightarrow> SeiNodeTask \<Rightarrow> SeiNodeTask \<Rightarrow> SeiNode \<Rightarrow>
     nt_result" where
  "dispatch_task E P W patch now prev cr target =
     (case snt_Task cr of
        None \<Rightarrow>
          (case SeiNodeTaskParamsFor E cr None of
             Inl e \<Rightarrow> flush patch prev (markFailed E now (FailureReason e) (params_error_text e) cr) [] 0 None
           | Inr _ \<Rightarrow> flush patch prev (synthesize E now cr) [] resultRequeueImmediate None)
      | Some t \<Rightarrow>
          (case driveTask E P W now target cr [] of
             (cr1, calls, err) \<Rightarrow> flush patch prev cr1 calls (poll_delay cr1) err))"

text \<open>The object is the one the reconcile read; a read error ends the reconcile before.\<close>

definition reconcile_task ::
    "ext \<Rightarrow> PlatformConfig \<Rightarrow> world \<Rightarrow> (call list \<Rightarrow> api_error option) \<Rightarrow> go_time \<Rightarrow> SeiNodeTask \<Rightarrow> nt_result" where
  "reconcile_task E P W patch now cr =
     (if snt_Phase cr = NTComplete \<or> snt_Phase cr = NTFailed then
        \<lparr>nr_Stored = cr, nr_Calls = [], nr_Requeue = 0, nr_Error = None\<rparr>
      else case resolveTarget E W now (observed now cr) of
        (cr1, WaitFor d) \<Rightarrow> flush patch cr cr1 [] d None
      | (cr1, Fatal e) \<Rightarrow> flush patch cr (markFailed E now ''TargetResolveFailed'' e cr1) [] 0 None
      | (cr1, Dispatch target) \<Rightarrow> dispatch_task E P W patch now cr cr1 target)"

text \<open>\<open>seiNodeTargetHandler\<close>: the tasks that wake up when a node changes.\<close>

definition enqueueForNode :: "SeiNode \<Rightarrow> SeiNodeTask list api \<Rightarrow> (string \<times> string) list" where
  "enqueueForNode n answer =
     (case answer of
        Inl e \<Rightarrow> []
      | Inr ts \<Rightarrow> map (\<lambda>t. (snt_Namespace t, snt_Name t))
          (filter (\<lambda>t. tgt_NodeName (nts_Target (snt_Spec t)) = node_Name n) ts))"

end
