(* ===== verification/CondView.thy ===== *)
theory CondView
  imports ApiMethods
begin

text \<open>
  Reading a condition list: what a client of \<open>meta.SetStatusCondition\<close> sees of a condition afterwards.
\<close>

definition cond_true :: "ext \<Rightarrow> condition list \<Rightarrow> string \<Rightarrow> bool" where
  "cond_true E cs ty \<longleftrightarrow> (case FindStatusCondition E cs ty of None \<Rightarrow> False | Some c \<Rightarrow> cond_Status c = ConditionTrue)"

definition cond_reason :: "ext \<Rightarrow> condition list \<Rightarrow> string \<Rightarrow> string option" where
  "cond_reason E cs ty = map_option cond_Reason (FindStatusCondition E cs ty)"

lemma find_set:
  assumes "cond_laws E"
  shows "\<exists>c'. FindStatusCondition E (SetStatusCondition E cs c) (cond_Type c) = Some c' \<and> cond_Status c' = cond_Status c \<and>
    cond_Reason c' = cond_Reason c"
  using status_conditions.find_after_set[OF assms, of cs c] by blast

lemma cond_true_set:
  assumes "cond_laws E"
  shows "cond_true E (SetStatusCondition E cs c) ty \<longleftrightarrow>
    (if ty = cond_Type c then cond_Status c = ConditionTrue else cond_true E cs ty)"
  using find_set[OF assms, of cs c] status_conditions.find_set_other[OF assms, of ty c cs]
  by (auto simp: cond_true_def)

lemma cond_reason_set:
  assumes "cond_laws E"
  shows "cond_reason E (SetStatusCondition E cs c) ty =
    (if ty = cond_Type c then Some (cond_Reason c) else cond_reason E cs ty)"
  using find_set[OF assms, of cs c] status_conditions.find_set_other[OF assms, of ty c cs]
  by (auto simp: cond_reason_def)

end
