(* ===== verification/NodeTaskProps.thy ===== *)
theory NodeTaskProps
  imports NodeTask CondView ControlFixtures
begin

text \<open>
  The SeiNodeTask controller: the status invariant over any sequence of reconciles and spec edits, what a
  reconcile may do outside the object and when, how a transaction task settles, and two ways in which a task
  does not end as its timeouts promise.
\<close>

subsection \<open>Fields\<close>

lemma upd_simps [simp]:
  "snt_Status (upd_nt f cr) = f (snt_Status cr)" "snt_Spec (upd_nt f cr) = snt_Spec cr"
  "snt_UID (upd_nt f cr) = snt_UID cr" "snt_Name (upd_nt f cr) = snt_Name cr"
  "snt_Namespace (upd_nt f cr) = snt_Namespace cr" "snt_Generation (upd_nt f cr) = snt_Generation cr"
  by (simp_all add: upd_nt_def)

text \<open>Two versions of one object: same metadata and spec.\<close>

definition same_object :: "SeiNodeTask \<Rightarrow> SeiNodeTask \<Rightarrow> bool" where
  "same_object cr cr' \<longleftrightarrow> cr' = cr\<lparr>snt_Status := snt_Status cr'\<rparr>"

lemma same_object_iff: "same_object cr cr' \<longleftrightarrow>
  snt_Name cr' = snt_Name cr \<and> snt_Namespace cr' = snt_Namespace cr \<and> snt_UID cr' = snt_UID cr \<and>
  snt_Generation cr' = snt_Generation cr \<and> snt_Spec cr' = snt_Spec cr"
  by (cases cr; cases cr') (auto simp: same_object_def)

lemma same_refl [simp]: "same_object cr cr"
  by (simp add: same_object_def)

lemma same_trans: "same_object a b \<Longrightarrow> same_object b c \<Longrightarrow> same_object a c"
  by (simp add: same_object_iff)

lemma same_upd [simp]: "same_object cr (upd_nt f cr)" "same_object cr (upd_exec g cr)"
  "same_object cr (setPhase now ph cr)" "same_object cr (setCondition E ty st re msg cr)"
  "same_object cr (markFailed E now re msg cr)" "same_object cr (fail_task E now err re msg cr)"
  "same_object cr (populateTxOutputs cr gr)" "same_object cr (populateOutputs cr target gr)"
  "same_object cr (markComplete E now b target cr)" "same_object cr (handleFailure E now b cr)"
  "same_object cr (settle E now b target cr)" "same_object cr (observed now cr)" "same_object cr (synthesize E now cr)"
  by (simp_all add: same_object_iff upd_exec_def setPhase_def setCondition_def markFailed_def fail_task_def
      populateTxOutputs_def set_outputs_def populateOutputs_def markComplete_def handleFailure_def settle_def
      observed_def synthesize_def Let_def split: option.splits SeiNodeTaskKind.splits ExecutionStatus.splits)

abbreviation nt_true :: "ext \<Rightarrow> SeiNodeTask \<Rightarrow> string \<Rightarrow> bool" where
  "nt_true E cr ty \<equiv> cond_true E (ntst_Conditions (snt_Status cr)) ty"

lemma setCondition_simps [simp]:
  "snt_Phase (setCondition E ty st re msg cr) = snt_Phase cr" "snt_Task (setCondition E ty st re msg cr) = snt_Task cr"
  "ntst_Outputs (snt_Status (setCondition E ty st re msg cr)) = ntst_Outputs (snt_Status cr)"
  "snt_Spec (setCondition E ty st re msg cr) = snt_Spec cr" "snt_UID (setCondition E ty st re msg cr) = snt_UID cr"
  "ntst_Conditions (snt_Status (setCondition E ty st re msg cr)) =
     SetStatusCondition E (ntst_Conditions (snt_Status cr)) (mk_condition ty st re msg (snt_Generation cr))"
  by (simp_all add: setCondition_def)

lemma setPhase_simps [simp]:
  "snt_Phase (setPhase now ph cr) = ph" "snt_Task (setPhase now ph cr) = snt_Task cr"
  "ntst_Outputs (snt_Status (setPhase now ph cr)) = ntst_Outputs (snt_Status cr)"
  "ntst_Conditions (snt_Status (setPhase now ph cr)) = ntst_Conditions (snt_Status cr)"
  "snt_Spec (setPhase now ph cr) = snt_Spec cr" "snt_UID (setPhase now ph cr) = snt_UID cr"
  "snt_Generation (setPhase now ph cr) = snt_Generation cr"
  by (simp_all add: setPhase_def)

lemma upd_exec_simps [simp]:
  "snt_Phase (upd_exec f cr) = snt_Phase cr" "snt_Task (upd_exec f cr) = map_option f (snt_Task cr)"
  "ntst_Outputs (snt_Status (upd_exec f cr)) = ntst_Outputs (snt_Status cr)"
  "ntst_Conditions (snt_Status (upd_exec f cr)) = ntst_Conditions (snt_Status cr)"
  "snt_Spec (upd_exec f cr) = snt_Spec cr" "snt_UID (upd_exec f cr) = snt_UID cr"
  "snt_Generation (upd_exec f cr) = snt_Generation cr"
  by (simp_all add: upd_exec_def)

lemma outputs_simps [simp]:
  "snt_Phase (populateTxOutputs cr gr) = snt_Phase cr" "snt_Task (populateTxOutputs cr gr) = snt_Task cr"
  "ntst_Conditions (snt_Status (populateTxOutputs cr gr)) = ntst_Conditions (snt_Status cr)"
  "snt_Spec (populateTxOutputs cr gr) = snt_Spec cr" "snt_UID (populateTxOutputs cr gr) = snt_UID cr"
  "snt_Phase (populateOutputs cr target gr) = snt_Phase cr" "snt_Task (populateOutputs cr target gr) = snt_Task cr"
  "ntst_Conditions (snt_Status (populateOutputs cr target gr)) = ntst_Conditions (snt_Status cr)"
  "snt_Spec (populateOutputs cr target gr) = snt_Spec cr" "snt_UID (populateOutputs cr target gr) = snt_UID cr"
  by (simp_all add: populateTxOutputs_def populateOutputs_def set_outputs_def split: option.splits SeiNodeTaskKind.splits)

subsection \<open>The status invariant\<close>

definition task_id :: "ext \<Rightarrow> SeiNodeTask \<Rightarrow> string" where
  "task_id E cr = DeterministicTaskID E (snt_UID cr) (OtherTask (kind_string (snt_Kind cr))) 0"

text \<open>Before the task is minted the phase is open (or the task failed early); afterwards the id is the one derived from
  UID and kind, a running task is pending or submitted with a start time, a complete one is complete, and
  Ready and Failed are True exactly in the phases they name.\<close>

definition nt_wf :: "ext \<Rightarrow> SeiNodeTask \<Rightarrow> bool" where
  "nt_wf E cr \<longleftrightarrow>
     (case snt_Task cr of
        None \<Rightarrow> snt_Phase cr \<in> {NTUnset, NTPending, NTFailed}
      | Some t \<Rightarrow> nte_ID t = task_id E cr \<and>
          (snt_Phase cr = NTRunning \<and> nte_Status t \<in> {TaskPending, TaskRunning} \<and> nte_ExecutionStartedAt t \<noteq> None \<or>
           snt_Phase cr = NTComplete \<and> nte_Status t = TaskComplete \<or> snt_Phase cr = NTFailed)) \<and>
     (nt_true E cr ''Ready'' \<longleftrightarrow> snt_Phase cr = NTComplete) \<and>
     (nt_true E cr ''Failed'' \<longleftrightarrow> snt_Phase cr = NTFailed)"

definition open_phase :: "SeiNodeTask \<Rightarrow> bool" where
  "open_phase cr \<longleftrightarrow> snt_Phase cr \<noteq> NTComplete \<and> snt_Phase cr \<noteq> NTFailed"

lemma task_id_same: "same_object cr cr' \<Longrightarrow> task_id E cr' = task_id E cr"
  by (simp add: task_id_def same_object_iff)

lemma markFailed_wf:
  assumes "cond_laws E" and "nt_wf E cr" and "open_phase cr"
  shows "nt_wf E (markFailed E now re msg cr)"
  using assms(2,3) by (auto simp: nt_wf_def markFailed_def cond_true_set[OF assms(1)] open_phase_def task_id_def
      split: option.splits)

lemma fail_task_wf:
  assumes "cond_laws E" and "nt_wf E cr" and "open_phase cr"
  shows "nt_wf E (fail_task E now err re msg cr)"
  using assms(2,3) by (auto simp: nt_wf_def fail_task_def markFailed_def cond_true_set[OF assms(1)] open_phase_def task_id_def
      split: option.splits)

lemma outputs_wf [simp]: "nt_wf E (populateTxOutputs cr gr) = nt_wf E cr" "nt_wf E (populateOutputs cr target gr) = nt_wf E cr"
  by (simp_all add: nt_wf_def task_id_def split: option.splits)

lemma outputs_open [simp]: "open_phase (populateTxOutputs cr gr) = open_phase cr"
  by (simp add: open_phase_def)

text \<open>The task is running: what \<open>settle\<close> starts from.\<close>

lemma settle_wf:
  assumes E: "cond_laws E" and wf: "nt_wf E cr" and run: "snt_Phase cr = NTRunning"
  shows "nt_wf E (settle E now b target cr)"
proof -
  have op: "open_phase cr" using run by (simp add: open_phase_def)
  obtain t where t: "snt_Task cr = Some t" using wf run by (auto simp: nt_wf_def split: option.splits)
  show ?thesis
  proof (cases "tb_status b")
    case ExecutionRunning
    then show ?thesis using fail_task_wf[OF E wf op] wf by (simp add: settle_def)
  next
    case ExecutionComplete
    have "nt_wf E (markComplete E now b target cr)"
      using wf run t by (auto simp: nt_wf_def markComplete_def cond_true_set[OF E] task_id_def)
    then show ?thesis using ExecutionComplete by (simp add: settle_def)
  next
    case ExecutionFailed
    have re: "nt_wf E (upd_exec (\<lambda>t. t\<lparr>nte_Status := TaskPending\<rparr>) cr')" if "nt_wf E cr'" "snt_Phase cr' = NTRunning" for cr'
      using that by (auto simp: nt_wf_def task_id_def split: option.splits)
    have "nt_wf E (handleFailure E now b cr)"
      unfolding handleFailure_def Let_def
      by (auto intro!: fail_task_wf[OF E] re simp: wf op run split: option.splits)
    then show ?thesis using ExecutionFailed by (simp add: settle_def)
  qed
qed

lemma exec_update_wf:
  assumes "nt_wf E cr" and "snt_Phase cr = NTRunning"
    and "\<And>t. nte_ID (f t) = nte_ID t" and "\<And>t. nte_Status t \<in> {TaskPending, TaskRunning} \<Longrightarrow> nte_Status (f t) \<in> {TaskPending, TaskRunning}"
    and "\<And>t. nte_ExecutionStartedAt t \<noteq> None \<Longrightarrow> nte_ExecutionStartedAt (f t) \<noteq> None"
  shows "nt_wf E (upd_exec f cr)"
proof -
  obtain t where t: "snt_Task cr = Some t" using assms(1,2) by (auto simp: nt_wf_def split: option.splits)
  then show ?thesis using assms by (auto simp: nt_wf_def task_id_def)
qed

lemma anchor_wf: "nt_wf E cr \<Longrightarrow> snt_Phase cr = NTRunning \<Longrightarrow> nt_wf E (upd_exec (anchor now) cr)"
  by (rule exec_update_wf) (auto simp: anchor_def split: option.splits)

lemma submitted_wf: "nt_wf E cr \<Longrightarrow> snt_Phase cr = NTRunning \<Longrightarrow> nt_wf E (upd_exec (stamp_submission now) cr)"
  by (rule exec_update_wf) (auto simp: stamp_submission_def)

definition task_ref :: "SeiNodeTask \<Rightarrow> string" where
  "task_ref cr = (case snt_Task cr of None \<Rightarrow> [] | Some t \<Rightarrow> nte_ID t)"

text \<open>The six ways \<open>driveTask\<close> ends.\<close>

lemma driveTask_cases:
  fixes now target
  assumes d: "driveTask E P W now target cr calls = (cr', calls', err)"
  defines "cr1 \<equiv> upd_exec (anchor now) cr" and "s0 \<equiv> \<lparr>xs_Node = Some target, xs_Calls = calls\<rparr>"
  obtains (unfit) re m where "cr' = markFailed E now re m cr" "calls' = calls" "err = None"
    | (permanent) ty p s1 b e where "SeiNodeTaskParamsFor E cr (Some target) = Inr (ty, p)"
        "map_option nte_Status (snt_Task cr1) = Some TaskPending" "task_Execute E P W ty (task_ref cr) p s0 = (s1, b, Some (Terminal e))"
        "cr' = fail_task E now e ''TaskTerminalError'' e cr1" "calls' = xs_Calls s1" "err = None"
    | (transient) ty p s1 b e where "SeiNodeTaskParamsFor E cr (Some target) = Inr (ty, p)"
        "map_option nte_Status (snt_Task cr1) = Some TaskPending" "task_Execute E P W ty (task_ref cr) p s0 = (s1, b, Some (Transient e))"
        "cr' = cr1" "calls' = xs_Calls s1" "err = Some e"
    | (submitted) ty p s1 b where "SeiNodeTaskParamsFor E cr (Some target) = Inr (ty, p)"
        "map_option nte_Status (snt_Task cr1) = Some TaskPending" "task_Execute E P W ty (task_ref cr) p s0 = (s1, b, None)"
        "cr' = settle E now (task_Status W ty (task_ref cr) p s1 b) target (upd_exec (stamp_submission now) cr1)"
        "calls' = xs_Calls s1" "err = None"
    | (polled) ty p where "SeiNodeTaskParamsFor E cr (Some target) = Inr (ty, p)"
        "cr' = settle E now (task_Status W ty (task_ref cr) p s0 fresh_task) target cr1" "calls' = calls" "err = None"
proof -
  consider (e) e where "SeiNodeTaskParamsFor E cr (Some target) = Inl e"
    | (ok) ty p where "SeiNodeTaskParamsFor E cr (Some target) = Inr (ty, p)" by (metis sum.exhaust surj_pair)
  then show thesis
  proof cases
    case e
    then show thesis using d unfit by (auto simp: driveTask_def)
  next
    case ok
    show thesis
    proof (cases "Deserialize ty (task_ref cr) p")
      case (Some e)
      then show thesis using d ok unfit by (auto simp: driveTask_def task_ref_def)
    next
      case None
      obtain s1 b e where ex: "task_Execute E P W ty (task_ref cr) p s0 = (s1, b, e)" by (metis prod_cases3)
      have "(cr', calls', err) =
        (if map_option nte_Status (snt_Task cr1) = Some TaskPending then
           (case task_Execute E P W ty (task_ref cr) p s0 of
              (s1, b, Some (Terminal e)) \<Rightarrow> (fail_task E now e ''TaskTerminalError'' e cr1, xs_Calls s1, None)
            | (s1, b, Some (Transient e)) \<Rightarrow> (cr1, xs_Calls s1, Some e)
            | (s1, b, None) \<Rightarrow>
                (settle E now (task_Status W ty (task_ref cr) p s1 b) target (upd_exec (stamp_submission now) cr1), xs_Calls s1, None))
         else (settle E now (task_Status W ty (task_ref cr) p s0 fresh_task) target cr1, calls, None))"
        using d ok None unfolding driveTask_def by (simp add: task_ref_def[symmetric] cr1_def[symmetric] s0_def[symmetric] Let_def)
      note eq = this[unfolded ex]
      consider (no) "map_option nte_Status (snt_Task cr1) \<noteq> Some TaskPending" | (none) "e = None" | (perm) m where "e = Some (Terminal m)"
        | (tr) m where "e = Some (Transient m)" by (metis exec_error.exhaust not_None_eq)
      then show thesis
        by cases (use eq ex permanent[OF ok] transient[OF ok] submitted[OF ok] polled[OF ok] in \<open>auto split: if_splits\<close>)
    qed
  qed
qed

lemma driveTask_wf:
  assumes E: "cond_laws E" and wf: "nt_wf E cr" and run: "snt_Phase cr = NTRunning"
    and d: "driveTask E P W now target cr calls = (cr', calls', err)"
  shows "nt_wf E cr' \<and> same_object cr cr'"
proof -
  have op: "open_phase cr" using run by (simp add: open_phase_def)
  define cr1 where "cr1 = upd_exec (anchor now) cr"
  have c1: "nt_wf E cr1" "snt_Phase cr1 = NTRunning" "same_object cr cr1" "open_phase cr1"
    using anchor_wf[OF wf run] run op by (simp_all add: cr1_def open_phase_def)
  have sub: "nt_wf E (upd_exec (stamp_submission now) cr1)" "snt_Phase (upd_exec (stamp_submission now) cr1) = NTRunning"
    using submitted_wf[OF c1(1,2)] c1(2) by simp_all
  show ?thesis
    using d by (rule driveTask_cases)
      (use markFailed_wf[OF E wf op] fail_task_wf[OF E c1(1,4)] settle_wf[OF E sub] settle_wf[OF E c1(1,2)] c1(1,3)
         same_trans[OF c1(3) same_upd(6)] same_trans[OF c1(3) same_upd(11)]
         same_trans[OF same_trans[OF c1(3) same_upd(2)] same_upd(11)]
       in \<open>simp_all add: cr1_def\<close>)
qed

lemma resolveTarget_keeps:
  assumes "resolveTarget E W now cr = (cr', ans)"
  shows "same_object cr cr' \<and> snt_Phase cr' = snt_Phase cr \<and> snt_Task cr' = snt_Task cr"
  using assms by (auto simp: resolveTarget_def Let_def same_object_iff setCondition_def split: sum.splits if_splits)

lemma resolveTarget_conditions:
  assumes "resolveTarget E W now cr = (cr', ans)"
  shows "ntst_Conditions (snt_Status cr') = ntst_Conditions (snt_Status cr) \<or>
    (\<exists>c. cond_Type c = ''TargetReady'' \<and> ntst_Conditions (snt_Status cr') = SetStatusCondition E (ntst_Conditions (snt_Status cr)) c)"
proof -
  have up: "cond_Type (mk_condition ''TargetReady'' st re m g) = ''TargetReady''" for st re m g by simp
  show ?thesis using assms
    by (auto simp: resolveTarget_def Let_def setCondition_def split: sum.splits if_splits; use up in blast)
qed

lemma resolveTarget_wf:
  assumes E: "cond_laws E" and "nt_wf E cr" and rt: "resolveTarget E W now cr = (cr', ans)"
  shows "nt_wf E cr'"
proof -
  have "nt_true E cr' ty = nt_true E cr ty" if "ty \<noteq> ''TargetReady''" for ty
    using resolveTarget_conditions[OF rt] that by (auto simp: cond_true_set[OF E])
  then have "nt_true E cr' ''Ready'' = nt_true E cr ''Ready''" "nt_true E cr' ''Failed'' = nt_true E cr ''Failed''" by simp_all
  then show ?thesis using assms(2) resolveTarget_keeps[OF rt] task_id_same
    by (auto simp: nt_wf_def split: option.splits)
qed

lemma observed_simps [simp]:
  "snt_Phase (observed now cr) = snt_Phase cr" "snt_Task (observed now cr) = snt_Task cr"
  "snt_Spec (observed now cr) = snt_Spec cr" "snt_UID (observed now cr) = snt_UID cr"
  "ntst_Conditions (snt_Status (observed now cr)) = ntst_Conditions (snt_Status cr)"
  by (simp_all add: observed_def)

lemma observed_wf [simp]: "nt_wf E (observed now cr) = nt_wf E cr"
  by (simp add: nt_wf_def task_id_def split: option.splits)

lemma synthesize_wf:
  assumes "nt_wf E cr" and "snt_Task cr = None" and "open_phase cr"
  shows "nt_wf E (synthesize E now cr)"
  using assms by (auto simp: nt_wf_def synthesize_def task_id_def open_phase_def)

lemma reconcile_closed: "\<not> open_phase cr \<Longrightarrow> reconcile_task E P W patch now cr =
    \<lparr>nr_Stored = cr, nr_Calls = [], nr_Requeue = 0, nr_Error = None\<rparr>"
  by (auto simp: reconcile_task_def open_phase_def)

lemma reconcile_open:
  assumes "open_phase cr" and "resolveTarget E W now (observed now cr) = (cr1, ans)"
  shows "reconcile_task E P W patch now cr =
    (case ans of WaitFor d \<Rightarrow> flush patch cr cr1 [] d None
     | Fatal e \<Rightarrow> flush patch cr (markFailed E now ''TargetResolveFailed'' e cr1) [] 0 None
     | Dispatch target \<Rightarrow> dispatch_task E P W patch now cr cr1 target)"
  using assms by (simp add: reconcile_task_def open_phase_def)

lemma flush_stored: "nr_Stored (flush patch prev cr calls d err) \<in> {prev, cr}" "nr_Calls (flush patch prev cr calls d err) = calls"
  by (auto simp: flush_def split: option.splits)

lemma reconcile_wf:
  assumes E: "cond_laws E" and wf: "nt_wf E cr"
  shows "nt_wf E (nr_Stored (reconcile_task E P W patch now cr)) \<and>
    same_object cr (nr_Stored (reconcile_task E P W patch now cr))"
proof (cases "open_phase cr")
  case False
  then show ?thesis using wf by (simp add: reconcile_closed)
next
  case True
  obtain cr1 ans where rt: "resolveTarget E W now (observed now cr) = (cr1, ans)"
    by (cases "resolveTarget E W now (observed now cr)")
  have c1: "nt_wf E cr1" "same_object cr cr1" "snt_Phase cr1 = snt_Phase cr" "snt_Task cr1 = snt_Task cr"
    using resolveTarget_wf[OF E _ rt] resolveTarget_keeps[OF rt] wf same_trans[OF same_upd(12)] by auto
  have op1: "open_phase cr1" using True c1(3) by (simp add: open_phase_def)
  have fl: "nt_wf E (nr_Stored (flush patch cr c calls d err)) \<and> same_object cr (nr_Stored (flush patch cr c calls d err))"
    if "nt_wf E c" "same_object cr c" for c calls d err
    using that wf flush_stored(1)[of patch cr c calls d err] by auto
  have failed: "nt_wf E (markFailed E now re m cr1)" "same_object cr (markFailed E now re m cr1)" for re m
    using markFailed_wf[OF E c1(1) op1] same_trans[OF c1(2)] by simp_all
  show ?thesis
  proof (cases ans)
    case (WaitFor d)
    then show ?thesis using fl[OF c1(1,2)] by (simp add: reconcile_open[OF True rt])
  next
    case (Fatal e)
    then show ?thesis using fl[OF failed] by (simp add: reconcile_open[OF True rt])
  next
    case (Dispatch target)
    show ?thesis
    proof (cases "snt_Task cr1")
      case None
      have "nt_wf E (synthesize E now cr1)" "same_object cr (synthesize E now cr1)"
        using synthesize_wf[OF c1(1) None op1] same_trans[OF c1(2)] by simp_all
      then show ?thesis using Dispatch None fl failed
        by (auto simp: reconcile_open[OF True rt] dispatch_task_def split: sum.splits)
    next
      case (Some t)
      then have run: "snt_Phase cr1 = NTRunning" using c1(1) op1 by (auto simp: nt_wf_def open_phase_def)
      obtain cr2 calls err where d: "driveTask E P W now target cr1 [] = (cr2, calls, err)"
        by (metis prod_cases3)
      have "nt_wf E cr2" "same_object cr cr2" using driveTask_wf[OF E c1(1) run d] same_trans[OF c1(2)] by auto
      then show ?thesis using Dispatch Some d fl by (simp add: reconcile_open[OF True rt] dispatch_task_def)
    qed
  qed
qed

subsection \<open>Any sequence of reconciles and edits\<close>

text \<open>A step is a reconcile, against any answers of API server and sidecar and at any time, or an edit of the spec; the
  kind is immutable.\<close>

inductive nt_step :: "ext \<Rightarrow> SeiNodeTask \<Rightarrow> SeiNodeTask \<Rightarrow> bool" for E where
  reconcile: "nt_step E cr (nr_Stored (reconcile_task E P W patch now cr))"
| edit: "nts_Kind spec = snt_Kind cr \<Longrightarrow> nt_step E cr (cr\<lparr>snt_Spec := spec, snt_Generation := g\<rparr>)"

definition same_run :: "SeiNodeTask \<Rightarrow> SeiNodeTask \<Rightarrow> bool" where
  "same_run cr cr' \<longleftrightarrow> (\<forall>t. snt_Task cr = Some t \<longrightarrow>
     (\<exists>t'. snt_Task cr' = Some t' \<and> nte_ID t' = nte_ID t \<and>
        (nte_ExecutionStartedAt t \<noteq> None \<longrightarrow> nte_ExecutionStartedAt t' = nte_ExecutionStartedAt t)))"

lemma same_run_refl [simp]: "same_run cr cr"
  by (simp add: same_run_def)

lemma same_run_trans: "same_run a b \<Longrightarrow> same_run b c \<Longrightarrow> same_run a c"
  by (fastforce simp: same_run_def)

lemma same_run_task: "snt_Task cr' = snt_Task cr \<Longrightarrow> same_run cr cr'"
  by (simp add: same_run_def)

lemma same_run_exec:
  assumes "\<And>t. nte_ID (f t) = nte_ID t" and "\<And>t. nte_ExecutionStartedAt t \<noteq> None \<Longrightarrow> nte_ExecutionStartedAt (f t) = nte_ExecutionStartedAt t"
  shows "same_run cr (upd_exec f cr)"
  using assms by (auto simp: same_run_def)

lemma same_run_fail: "same_run cr (fail_task E now e re m cr)"
  unfolding fail_task_def markFailed_def by (rule same_run_trans[OF same_run_exec same_run_task]) simp_all

lemma same_run_settle: "same_run cr (settle E now b target cr)"
proof -
  have "same_run cr (markComplete E now b target cr)"
    unfolding markComplete_def by (rule same_run_trans[OF same_run_exec same_run_task]) simp_all
  moreover have "same_run cr (handleFailure E now b cr)"
    unfolding handleFailure_def Let_def
    by (auto intro!: same_run_trans[OF same_run_task same_run_fail] same_run_trans[OF same_run_task same_run_exec]
        same_run_fail split: option.splits)
  ultimately show ?thesis by (auto simp: settle_def same_run_fail split: ExecutionStatus.splits)
qed

lemma driveTask_same_run:
  assumes "driveTask E P W now target cr calls = (cr', calls', err)"
  shows "same_run cr cr'"
proof -
  define cr1 where "cr1 = upd_exec (anchor now) cr"
  have a: "same_run cr cr1" unfolding cr1_def by (rule same_run_exec) (auto simp: anchor_def)
  have b: "same_run cr1 (upd_exec (stamp_submission now) cr1)" by (rule same_run_exec) (auto simp: stamp_submission_def)
  have f: "same_run cr (markFailed E now re m cr)" for re m by (rule same_run_task) (simp add: markFailed_def)
  show ?thesis using assms
    by (rule driveTask_cases)
      (use a b f same_run_trans[OF a same_run_fail] same_run_trans[OF a same_run_settle]
         same_run_trans[OF a same_run_trans[OF b same_run_settle]] in \<open>simp_all add: cr1_def\<close>)
qed

lemma reconcile_same_run: "same_run cr (nr_Stored (reconcile_task E P W patch now cr))"
proof (cases "open_phase cr")
  case False
  then show ?thesis by (simp add: reconcile_closed)
next
  case True
  obtain cr1 ans where rt: "resolveTarget E W now (observed now cr) = (cr1, ans)"
    by (cases "resolveTarget E W now (observed now cr)")
  have c1: "same_run cr cr1" using resolveTarget_keeps[OF rt] by (intro same_run_task) simp
  have fl: "same_run cr (nr_Stored (flush patch cr c calls d err))" if "same_run cr c" for c calls d err
    using that flush_stored(1)[of patch cr c calls d err] by auto
  have failed: "same_run cr (markFailed E now re m cr1)" for re m
    by (rule same_run_trans[OF c1 same_run_task]) (simp add: markFailed_def)
  have syn: "snt_Task cr1 = None \<Longrightarrow> same_run cr (synthesize E now cr1)"
    using resolveTarget_keeps[OF rt] by (simp add: same_run_def)
  have dr: "same_run cr cr2" if "driveTask E P W now target cr1 [] = (cr2, calls, err)" for target cr2 calls err
    using same_run_trans[OF c1 driveTask_same_run[OF that]] .
  show ?thesis
  proof (cases ans)
    case (Dispatch target)
    obtain cr2 calls err where d: "driveTask E P W now target cr1 [] = (cr2, calls, err)" by (metis prod_cases3)
    show ?thesis using Dispatch d fl[OF failed] fl[OF syn] fl[OF dr[OF d]]
      by (cases "snt_Task cr1"; cases "SeiNodeTaskParamsFor E cr1 None") (simp_all add: reconcile_open[OF True rt] dispatch_task_def)
  qed (use fl[OF c1] fl[OF failed] in \<open>simp_all add: reconcile_open[OF True rt]\<close>)
qed

lemma step_keeps:
  assumes E: "cond_laws E" and wf: "nt_wf E cr" and st: "nt_step E cr cr'"
  shows "nt_wf E cr' \<and> snt_UID cr' = snt_UID cr \<and> snt_Kind cr' = snt_Kind cr \<and> same_run cr cr' \<and>
    (\<not> open_phase cr \<longrightarrow> snt_Status cr' = snt_Status cr)"
  using st
proof cases
  case (reconcile P W patch now)
  then show ?thesis using reconcile_wf[OF E wf, of P W patch now] reconcile_same_run[of cr E P W patch now]
    by (auto simp: same_object_iff reconcile_closed)
next
  case (edit spec g)
  then have "snt_Status cr' = snt_Status cr" "snt_UID cr' = snt_UID cr" "snt_Kind cr' = snt_Kind cr" by simp_all
  moreover have "task_id E cr' = task_id E cr" using calculation by (simp add: task_id_def)
  ultimately show ?thesis using wf unfolding nt_wf_def same_run_def by (simp split: option.splits)
qed

text \<open>C16.  The life of a SeiNodeTask.  Over any number of reconciles, whatever API server and sidecar answer, and any edits of
  the spec: the status stays well formed (one task id, derived from UID and kind; Ready is True exactly when the
  task is Complete and Failed exactly when it is Failed), the task once minted keeps its id and its start
  time, so no later reconcile extends its timeout, and a Complete or Failed status never changes again.\<close>

theorem nodetask_lifecycle:
  assumes "cond_laws E" and "nt_wf E cr" and "(nt_step E)\<^sup>*\<^sup>* cr cr'"
  shows "nt_wf E cr' \<and> snt_UID cr' = snt_UID cr \<and> snt_Kind cr' = snt_Kind cr \<and> same_run cr cr' \<and>
    (\<not> open_phase cr \<longrightarrow> snt_Status cr' = snt_Status cr)"
  using assms(3)
proof (induction rule: rtranclp_induct)
  case base
  then show ?case using assms(2) by simp
next
  case (step y z)
  then show ?case using step_keeps[OF assms(1), of y z] same_run_trans[of cr y z]
    by (auto simp: open_phase_def)
qed

subsection \<open>What a reconcile does outside\<close>

lemma params_same: "same_object cr cr' \<Longrightarrow> SeiNodeTaskParamsFor E cr' target = SeiNodeTaskParamsFor E cr target"
  by (simp add: SeiNodeTaskParamsFor_def updateNodeImageParams_def govVoteParams_def govSoftwareUpgradeParams_def
      govParamChangeParams_def govUpdateInstantiateConfigParams_def awaitConditionParams_def awaitNodesAtHeightParams_def
      restartSeidParams_def markReadyParams_def unjailParams_def same_object_iff split: SeiNodeTaskKind.splits option.splits)

text \<open>The task types of the ten kinds.\<close>

lemma params_types:
  assumes "SeiNodeTaskParamsFor E cr target = Inr (ty, p)"
  shows "ty = UpdateNodeImage \<and> (\<exists>img. nts_UpdateNodeImage (snt_Spec cr) = Some img \<and>
      p = UpdateImageParams (tgt_NodeName (nts_Target (snt_Spec cr))) (snt_Namespace cr) img) \<or>
    ty = MarkReady \<or> ty \<in> {GovVote, GovSoftwareUpgrade, GovParamChange, GovUpdateInstantiateConfig, AwaitCondition, RestartSeid, Unjail}"
  using assms
  by (auto simp: SeiNodeTaskParamsFor_def updateNodeImageParams_def govVoteParams_def govSoftwareUpgradeParams_def
      govParamChangeParams_def govUpdateInstantiateConfigParams_def awaitConditionParams_def awaitNodesAtHeightParams_def
      restartSeidParams_def markReadyParams_def unjailParams_def split: SeiNodeTaskKind.splits option.splits if_splits)

lemma sidecar_Execute_calls:
  "sidecar_Execute W ff ty tid p s = (s', b, e) \<Longrightarrow> xs_Calls s' = xs_Calls s \<or> xs_Calls s' = SubmitTask tid ty p # xs_Calls s"
  by (auto simp: sidecar_Execute_def give_up_def log_call_def Let_def split: option.splits)

text \<open>What a task may call: its one submission under its own id, or the image patch.\<close>

definition nt_call :: "ext \<Rightarrow> SeiNodeTask \<Rightarrow> SeiNode \<Rightarrow> call \<Rightarrow> bool" where
  "nt_call E cr target c \<longleftrightarrow>
     (case c of
        SubmitTask i ty p \<Rightarrow> i = task_ref cr \<and> SeiNodeTaskParamsFor E cr (Some target) = Inr (ty, p) \<and>
          (ty = MarkReady \<longrightarrow> StartBlocked target = [])
      | PatchImage name img \<Rightarrow> name = tgt_NodeName (nts_Target (snt_Spec cr)) \<and> nts_UpdateNodeImage (snt_Spec cr) = Some img
      | _ \<Rightarrow> False)"

lemma task_Execute_calls:
  assumes pr: "SeiNodeTaskParamsFor E cr (Some target) = Inr (ty, p)"
    and ex: "task_Execute E P W ty (task_ref cr) p \<lparr>xs_Node = Some target, xs_Calls = []\<rparr> = (s1, b, e)"
  shows "list_all (nt_call E cr target) (xs_Calls s1)"
proof -
  let ?s = "\<lparr>xs_Node = Some target, xs_Calls = []\<rparr>"
  consider (image) img where "ty = UpdateNodeImage" "nts_UpdateNodeImage (snt_Spec cr) = Some img"
      "p = UpdateImageParams (tgt_NodeName (nts_Target (snt_Spec cr))) (snt_Namespace cr) img"
    | (ready) "ty = MarkReady" | (side) ff where "ty \<noteq> MarkReady" "task_Execute E P W ty (task_ref cr) p ?s = sidecar_Execute W ff ty (task_ref cr) p ?s"
    using params_types[OF pr] by auto
  then show ?thesis
  proof cases
    case image
    then show ?thesis using ex
      by (auto simp: nt_call_def updateNodeImage_params_def updateNodeImage_Execute_def give_up_def still_running_def log_call_def
          split: sum.splits if_splits option.splits)
  next
    case ready
    then show ?thesis using ex sidecar_Execute_calls[of W True MarkReady "task_ref cr" p ?s s1 b e] pr
      by (auto simp: guarded_Execute_def nt_call_def Let_def split: if_splits)
  next
    case side
    then show ?thesis using ex sidecar_Execute_calls[of W ff ty "task_ref cr" p ?s s1 b e] pr
      by (auto simp: nt_call_def)
  qed
qed

text \<open>The target is ready: it could be read and is in the phase the task asks for.\<close>

definition required_phase :: "SeiNodeTask \<Rightarrow> SeiNodePhase" where
  "required_phase cr = (if tgt_RequirePhase (nts_Target (snt_Spec cr)) = PhaseUnset then PhaseRunning
     else tgt_RequirePhase (nts_Target (snt_Spec cr)))"

definition target_ready :: "world \<Rightarrow> SeiNodeTask \<Rightarrow> SeiNode \<Rightarrow> bool" where
  "target_ready W cr target \<longleftrightarrow> w_Node W [] (tgt_NodeName (nts_Target (snt_Spec cr))) = Inr target \<and>
     node_Phase target = required_phase cr"

lemma resolveTarget_dispatch:
  "resolveTarget E W now cr = (cr', Dispatch target) \<Longrightarrow> target_ready W cr target"
  by (auto simp: resolveTarget_def target_ready_def required_phase_def Let_def split: sum.splits if_splits)

lemma nt_call_same: "same_object cr cr' \<Longrightarrow> snt_Task cr' = snt_Task cr \<Longrightarrow> nt_call E cr' target c = nt_call E cr target c"
  using params_same[of cr cr' E "Some target"] by (auto simp: nt_call_def task_ref_def same_object_iff split: call.splits)

text \<open>C17.  Side effects of a SeiNodeTask.  Whatever a reconcile calls outside the object, the task it acts for was already in
  the stored status, not terminal and waiting to be submitted, and the target was read in the required phase;
  the call is the submission of the kind's own task under the stored id, or the patch of the target's
  image, and a mark-ready is never submitted to a node whose start is blocked by a hold or a data reset.\<close>

theorem nodetask_calls_gated:
  assumes "c \<in> set (nr_Calls (reconcile_task E P W patch now cr))"
  shows "\<exists>t target. snt_Task cr = Some t \<and> nte_Status t = TaskPending \<and> open_phase cr \<and> target_ready W cr target \<and>
    nt_call E cr target c"
proof -
  have op: "open_phase cr" using assms by (cases "open_phase cr") (simp_all add: reconcile_closed)
  obtain cr1 ans where rt: "resolveTarget E W now (observed now cr) = (cr1, ans)"
    by (cases "resolveTarget E W now (observed now cr)")
  note keep = resolveTarget_keeps[OF rt]
  note rec = reconcile_open[OF op rt, of P patch]
  obtain target where ans: "ans = Dispatch target"
    using assms rec by (cases ans) (simp_all add: flush_stored(2))
  obtain t where t: "snt_Task cr1 = Some t"
    using assms rec ans by (cases "snt_Task cr1") (simp_all add: dispatch_task_def flush_stored(2) split: sum.splits)
  obtain cr2 calls err where d: "driveTask E P W now target cr1 [] = (cr2, calls, err)" by (metis prod_cases3)
  have c: "c \<in> set calls" using assms rec ans t d by (simp add: dispatch_task_def flush_stored(2))
  have ok: "nte_Status t = TaskPending \<and> nt_call E cr1 target c"
    using d
  proof (rule driveTask_cases)
    fix ty p s1 b and e :: error
    assume h: "SeiNodeTaskParamsFor E cr1 (Some target) = Inr (ty, p)"
      "map_option nte_Status (snt_Task (upd_exec (anchor now) cr1)) = Some TaskPending"
      "task_Execute E P W ty (task_ref cr1) p \<lparr>xs_Node = Some target, xs_Calls = []\<rparr> = (s1, b, Some (Terminal e))"
      "calls = xs_Calls s1"
    then show ?thesis using task_Execute_calls[OF h(1,3)] c t by (auto simp: list_all_iff anchor_def)
  next
    fix ty p s1 b and e :: error
    assume h: "SeiNodeTaskParamsFor E cr1 (Some target) = Inr (ty, p)"
      "map_option nte_Status (snt_Task (upd_exec (anchor now) cr1)) = Some TaskPending"
      "task_Execute E P W ty (task_ref cr1) p \<lparr>xs_Node = Some target, xs_Calls = []\<rparr> = (s1, b, Some (Transient e))"
      "calls = xs_Calls s1"
    then show ?thesis using task_Execute_calls[OF h(1,3)] c t by (auto simp: list_all_iff anchor_def)
  next
    fix ty p s1 b
    assume h: "SeiNodeTaskParamsFor E cr1 (Some target) = Inr (ty, p)"
      "map_option nte_Status (snt_Task (upd_exec (anchor now) cr1)) = Some TaskPending"
      "task_Execute E P W ty (task_ref cr1) p \<lparr>xs_Node = Some target, xs_Calls = []\<rparr> = (s1, b, None)"
      "calls = xs_Calls s1"
    then show ?thesis using task_Execute_calls[OF h(1,3)] c t by (auto simp: list_all_iff anchor_def)
  qed (use c in simp_all)
  have same: "same_object cr cr1" "snt_Task cr1 = snt_Task cr" using keep same_trans[OF same_upd(12)] by auto
  have "target_ready W cr target" using resolveTarget_dispatch[of E W now "observed now cr"] rt ans
    by (auto simp: target_ready_def required_phase_def)
  moreover have "nt_call E cr target c" using nt_call_same[OF same] ok by simp
  ultimately show ?thesis using ok op t same(2) by auto
qed

subsection \<open>How a transaction task settles\<close>

lemma resolve_ready:
  assumes "target_ready W cr target"
  shows "\<exists>cr1. resolveTarget E W now (observed now cr) = (cr1, Dispatch target) \<and> same_object cr cr1 \<and>
    snt_Task cr1 = snt_Task cr \<and> snt_Phase cr1 = snt_Phase cr \<and> ntst_Outputs (snt_Status cr1) = ntst_Outputs (snt_Status cr)"
  using assms
  by (auto simp: resolveTarget_def target_ready_def required_phase_def Let_def same_object_iff observed_def setCondition_def)

definition recorded_tx :: "SeiNodeTask \<Rightarrow> (string \<times> int) option" where
  "recorded_tx cr =
     (case ntst_Outputs (snt_Status cr) of
        None \<Rightarrow> None
      | Some out \<Rightarrow> (case snt_Kind cr of
          KindGovSoftwareUpgrade \<Rightarrow> map_option (\<lambda>x. (po_TxHash x, po_Height x)) (out_GovSoftwareUpgrade out)
        | KindGovParamChange \<Rightarrow> map_option (\<lambda>x. (po_TxHash x, po_Height x)) (out_GovParamChange out)
        | KindGovUpdateInstantiateConfig \<Rightarrow> map_option (\<lambda>x. (po_TxHash x, po_Height x)) (out_GovUpdateInstantiateConfig out)
        | KindGovVote \<Rightarrow> map_option (\<lambda>x. (to_TxHash x, to_Height x)) (out_GovVote out)
        | KindUnjail \<Rightarrow> map_option (\<lambda>x. (to_TxHash x, to_Height x)) (out_Unjail out)
        | _ \<Rightarrow> None))"

lemma recorded_populate:
  "isSignTxKind (snt_Kind cr) \<Longrightarrow> recorded_tx (populateTxOutputs cr (Some gr)) = Some (ga_TxHash gr, ga_Height gr)"
  by (cases "snt_Kind cr") (auto simp: recorded_tx_def populateTxOutputs_def set_outputs_def proposal_outputs_def tx_outputs_def)

lemma recorded_cong: "ntst_Outputs (snt_Status cr') = ntst_Outputs (snt_Status cr) \<Longrightarrow> snt_Spec cr' = snt_Spec cr \<Longrightarrow>
  recorded_tx cr' = recorded_tx cr"
  by (simp only: recorded_tx_def)

lemma recorded_keep [simp]: "recorded_tx (fail_task E now e re m cr) = recorded_tx cr" "recorded_tx (upd_exec f cr) = recorded_tx cr"
  by (rule recorded_cong; simp add: fail_task_def markFailed_def)+

lemma timed_out_cong: "snt_Spec cr' = snt_Spec cr \<Longrightarrow> snt_Task cr' = snt_Task cr \<Longrightarrow> execTimedOut now cr' = execTimedOut now cr"
  by (simp only: execTimedOut_def effectiveTimeout_def)

lemma handleFailure_tx:
  fixes E now
  assumes "isSignTxKind (snt_Kind cr)" and "decodeGovResult b = Some gr"
  defines "cr' \<equiv> handleFailure E now b cr"
  shows "recorded_tx cr' = Some (ga_TxHash gr, ga_Height gr) \<and>
    (if ga_InclusionStatus gr = ''pending'' \<and> \<not> execTimedOut now cr
     then snt_Phase cr' = snt_Phase cr \<and> snt_Task cr' = map_option (\<lambda>t. t\<lparr>nte_Status := TaskPending\<rparr>) (snt_Task cr)
     else snt_Phase cr' = NTFailed)"
proof -
  have t: "execTimedOut now (populateTxOutputs cr (Some gr)) = execTimedOut now cr" by (rule timed_out_cong) simp_all
  show ?thesis unfolding cr'_def using assms(2) recorded_populate[OF assms(1), of gr]
    by (simp add: handleFailure_def Let_def t) (simp add: fail_task_def markFailed_def)
qed

lemma sign_kind_sidecar:
  assumes "isSignTxKind (snt_Kind cr)" and "SeiNodeTaskParamsFor E cr tg = Inr (ty, p)"
  shows "sidecar_entry ty = Some False \<and> ty \<noteq> UpdateNodeImage \<and> ty \<noteq> MarkReady \<and> Deserialize ty tid p = None \<and>
    task_Status W ty tid p s b = sidecar_Status W tid s b"
  using assms
  by (cases "snt_Kind cr")
     (auto simp: SeiNodeTaskParamsFor_def govVoteParams_def govSoftwareUpgradeParams_def govParamChangeParams_def
       govUpdateInstantiateConfigParams_def unjailParams_def split: option.splits if_splits)

text \<open> A broadcast transaction is never forgotten.  When the sidecar reports the failure of a submitted transaction task
  together with its structured result, the reconcile records the transaction's hash and height in the status.
  If inclusion is undetermined and the execution time is not over, the task goes back to pending under the same
  id, so that the next submission adopts the same transaction; in every other case the task is Failed.\<close>

theorem failed_tx_recorded:
  assumes wf: "nt_wf E cr" and t: "snt_Task cr = Some t" "nte_Status t = TaskRunning" and run: "snt_Phase cr = NTRunning"
    and kind: "isSignTxKind (snt_Kind cr)" and ready: "target_ready W cr target"
    and pr: "SeiNodeTaskParamsFor E cr (Some target) = Inr (ty, p)"
    and sc: "w_BuildSidecarClient W [] = None" "w_ParseUUID W (nte_ID t) = None"
      "w_GetTask W [] (nte_ID t) = GetResult ScFailed e (Some raw)"
    and raw: "decode_struct ''wire.GovTxResult'' gov_answer_fields no_answer raw = Ok gr"
    and patch: "patch [] = None" and cr'_def: "cr' = nr_Stored (reconcile_task E P W patch now cr)"
  shows "recorded_tx cr' = Some (ga_TxHash gr, ga_Height gr) \<and>
    (if ga_InclusionStatus gr = ''pending'' \<and> \<not> execTimedOut now cr
     then snt_Phase cr' = NTRunning \<and> snt_Task cr' = Some (t\<lparr>nte_Status := TaskPending\<rparr>)
     else snt_Phase cr' = NTFailed)"
proof -
  have op: "open_phase cr" using run by (simp add: open_phase_def)
  obtain cr1 where rt: "resolveTarget E W now (observed now cr) = (cr1, Dispatch target)" and same: "same_object cr cr1"
    and c1: "snt_Task cr1 = Some t" "snt_Phase cr1 = NTRunning" using resolve_ready[OF ready, of E now] t run by auto
  have anch: "upd_exec (anchor now) cr1 = cr1"
  proof -
    have "anchor now t = t" using wf t run by (auto simp: nt_wf_def anchor_def)
    then show ?thesis using c1 by (simp add: upd_exec_def upd_nt_def)
  qed
  define b where "b = sidecar_Status W (nte_ID t) \<lparr>xs_Node = Some target, xs_Calls = []\<rparr> fresh_task"
  have bst: "tb_status b = ExecutionFailed" "tb_result b = Some raw"
    using sc by (simp_all add: b_def sidecar_Status_def fresh_task_def setFailed_def Let_def)
  have dec: "decodeGovResult b = Some gr" using bst raw by (simp add: decodeGovResult_def)
  have kind1: "isSignTxKind (snt_Kind cr1)" using kind same by (simp add: same_object_iff)
  have pr1: "SeiNodeTaskParamsFor E cr1 (Some target) = Inr (ty, p)" using pr params_same[OF same] by simp
  note sk = sign_kind_sidecar[OF kind1 pr1]
  have d: "driveTask E P W now target cr1 [] = (handleFailure E now b cr1, [], None)"
    using pr1 c1 t(2) sk anch bst by (simp add: driveTask_def Let_def b_def settle_def)
  let ?h = "handleFailure E now b cr1"
  have hf: "recorded_tx ?h = Some (ga_TxHash gr, ga_Height gr) \<and>
    (if ga_InclusionStatus gr = ''pending'' \<and> \<not> execTimedOut now cr
     then snt_Phase ?h = NTRunning \<and> snt_Task ?h = Some (t\<lparr>nte_Status := TaskPending\<rparr>)
     else snt_Phase ?h = NTFailed)"
    using handleFailure_tx[OF kind1 dec, of E now] c1 timed_out_cong[of cr1 cr now] same t by (simp add: same_object_iff)
  moreover have "t \<noteq> t\<lparr>nte_Status := TaskPending\<rparr>"
    using t(2) by (metis SeiNodeTaskExecution.select_convs(2) SeiNodeTaskExecution.surjective SeiNodeTaskExecution.update_convs(2) TaskStatus.distinct(1))
  moreover have "snt_Status ?h \<noteq> snt_Status cr"
  proof
    assume eq: "snt_Status ?h = snt_Status cr"
    then show False using hf run t calculation(2) by (cases "ga_InclusionStatus gr = ''pending'' \<and> \<not> execTimedOut now cr") auto
  qed
  ultimately show ?thesis unfolding cr'_def using c1 d patch
    by (simp add: reconcile_open[OF op rt] dispatch_task_def flush_def)
qed

subsection \<open>Two ways past the timeouts\<close>

text \<open>The kinds whose task is a submission to the sidecar.\<close>

definition sidecar_kind :: "SeiNodeTaskKind \<Rightarrow> bool" where
  "sidecar_kind k \<longleftrightarrow> isSignTxKind k \<or> k = KindAwaitCondition \<or> k = KindAwaitNodesAtHeight \<or> k = KindRestartSeid"

lemma sidecar_kind_Execute:
  assumes "sidecar_kind (snt_Kind cr)" and "SeiNodeTaskParamsFor E cr tg = Inr (ty, p)"
  shows "Deserialize ty tid p = None \<and> task_Execute E P W ty tid p s = sidecar_Execute W False ty tid p s"
  using assms
  by (cases "snt_Kind cr")
     (auto simp: sidecar_kind_def SeiNodeTaskParamsFor_def govVoteParams_def govSoftwareUpgradeParams_def govParamChangeParams_def
       govUpdateInstantiateConfigParams_def unjailParams_def awaitConditionParams_def awaitNodesAtHeightParams_def
       restartSeidParams_def split: option.splits if_splits)

text \<open>A round in which the submission fails: the target is in the required phase, the parameters resolve, and the POST to the
  sidecar returns an error.  Whether the code gets as far as the POST does not matter: every step before it fails the same
  way.\<close>

definition unsubmittable :: "ext \<Rightarrow> SeiNodeTask \<Rightarrow> string \<Rightarrow> world \<Rightarrow> bool" where
  "unsubmittable E cr tid W \<longleftrightarrow> w_SubmitTask W [] tid \<noteq> None \<and>
     (\<exists>target ty p. target_ready W cr target \<and> SeiNodeTaskParamsFor E cr (Some target) = Inr (ty, p))"

lemma unsubmittable_same: "same_object cr c \<Longrightarrow> unsubmittable E c tid W = unsubmittable E cr tid W"
  using params_same[of cr c E] by (simp add: unsubmittable_def target_ready_def required_phase_def same_object_iff)

lemma sidecar_Execute_unsubmitted:
  "w_SubmitTask W (xs_Calls s) tid \<noteq> None \<Longrightarrow> \<exists>b e. sidecar_Execute W ff ty tid p s = (s, b, Some (Transient e))"
  by (auto simp: sidecar_Execute_def give_up_def Let_def split: option.splits)

lemma unsubmitted_step:
  assumes wf: "nt_wf E cr" and t: "snt_Task cr = Some t" "nte_Status t = TaskPending" and run: "snt_Phase cr = NTRunning"
    and kind: "sidecar_kind (snt_Kind cr)" and un: "unsubmittable E cr (nte_ID t) W"
  shows "same_object cr (nr_Stored (reconcile_task E P W patch now cr)) \<and>
    snt_Phase (nr_Stored (reconcile_task E P W patch now cr)) = NTRunning \<and>
    snt_Task (nr_Stored (reconcile_task E P W patch now cr)) = Some t \<and> nr_Error (reconcile_task E P W patch now cr) \<noteq> None"
proof -
  from un obtain target ty p where ready: "target_ready W cr target"
    and pr: "SeiNodeTaskParamsFor E cr (Some target) = Inr (ty, p)" and sub: "w_SubmitTask W [] (nte_ID t) \<noteq> None"
    by (auto simp: unsubmittable_def)
  have op: "open_phase cr" using run by (simp add: open_phase_def)
  obtain cr1 where rt: "resolveTarget E W now (observed now cr) = (cr1, Dispatch target)" and same: "same_object cr cr1"
    and c1: "snt_Task cr1 = Some t" "snt_Phase cr1 = NTRunning" using resolve_ready[OF ready, of E now] t run by auto
  have "anchor now t = t" using wf t run by (auto simp: nt_wf_def anchor_def)
  then have anch: "upd_exec (anchor now) cr1 = cr1" using c1 by (simp add: upd_exec_def upd_nt_def)
  have pr1: "SeiNodeTaskParamsFor E cr1 (Some target) = Inr (ty, p)" using pr params_same[OF same] by simp
  have kind1: "sidecar_kind (snt_Kind cr1)" using kind same by (simp add: same_object_iff)
  obtain b e where "sidecar_Execute W False ty (nte_ID t) p \<lparr>xs_Node = Some target, xs_Calls = []\<rparr> =
      (\<lparr>xs_Node = Some target, xs_Calls = []\<rparr>, b, Some (Transient e))"
    using sidecar_Execute_unsubmitted[of W "\<lparr>xs_Node = Some target, xs_Calls = []\<rparr>" "nte_ID t" False ty p] sub by auto
  then have "driveTask E P W now target cr1 [] = (cr1, [], Some e)"
    using pr1 c1 t(2) sidecar_kind_Execute[OF kind1 pr1] anch by (simp add: driveTask_def Let_def)
  then show ?thesis using c1 t run same by (simp add: reconcile_open[OF op rt] dispatch_task_def flush_def split: option.splits)
qed

text \<open>C18.  A submission that keeps failing is not subject to the timeout.  As long as every reconcile finds the target in the
  required phase, resolves the parameters and has its POST to the sidecar refused or unanswered, a pending task of a
  sidecar kind stays Running and pending through any number of reconciles, each with its own answers and at its own time, and
  every one reports an error, also when the execution timeout measured from the start time is long over.\<close>

theorem unsubmitted_task_outlives_timeout:
  assumes "cond_laws E" and wf: "nt_wf E cr" and t: "snt_Task cr = Some t" "nte_Status t = TaskPending" and run: "snt_Phase cr = NTRunning"
    and kind: "sidecar_kind (snt_Kind cr)"
    and rounds: "\<forall>(W, patch, now) \<in> set rounds. unsubmittable E cr (nte_ID t) W" and un: "unsubmittable E cr (nte_ID t) W"
    and cr': "cr' = fold (\<lambda>(W, patch, now) c. nr_Stored (reconcile_task E P W patch now c)) rounds cr"
  shows "snt_Phase cr' = NTRunning \<and> snt_Task cr' = Some t \<and> execTimedOut now cr' = execTimedOut now cr \<and>
         nr_Error (reconcile_task E P W patch now cr') \<noteq> None"
proof -
  have "nt_wf E cr' \<and> same_object cr cr' \<and> snt_Phase cr' = NTRunning \<and> snt_Task cr' = Some t"
    using rounds unfolding cr'
  proof (induction rounds rule: rev_induct)
    case Nil
    then show ?case using wf t run by simp
  next
    case (snoc r rounds)
    obtain W0 patch0 now0 where r: "r = (W0, patch0, now0)" by (cases r) auto
    define c where "c = fold (\<lambda>(W, patch, now) c. nr_Stored (reconcile_task E P W patch now c)) rounds cr"
    have c: "nt_wf E c" "same_object cr c" "snt_Phase c = NTRunning" "snt_Task c = Some t" using snoc by (simp_all add: c_def)
    have "sidecar_kind (snt_Kind c)" "unsubmittable E c (nte_ID t) W0"
      using kind snoc.prems r c(2) unsubmittable_same[OF c(2)] by (simp_all add: same_object_iff)
    from unsubmitted_step[OF c(1,4) t(2) c(3) this, of P patch0 now0] reconcile_wf[OF assms(1) c(1), of P W0 patch0 now0] c(2)
    show ?case by (simp add: c_def[symmetric] r) (metis same_trans)
  qed
  then have c: "nt_wf E cr'" "same_object cr cr'" "snt_Phase cr' = NTRunning" "snt_Task cr' = Some t" by simp_all
  have "sidecar_kind (snt_Kind cr')" "unsubmittable E cr' (nte_ID t) W"
    using kind un unsubmittable_same[OF c(2)] c(2) by (simp_all add: same_object_iff)
  from unsubmitted_step[OF c(1,4) t(2) c(3) this, of P patch now] c t timed_out_cong[of cr' cr now] show ?thesis
    by (simp add: same_object_iff)
qed

text \<open>A failed read of the target that is not \<open>NotFound\<close> ends the task like a missing target.\<close>

theorem read_error_fails_task:
  assumes E: "cond_laws E" and "nt_wf E cr" and "open_phase cr"
    and "w_Node W [] (tgt_NodeName (nts_Target (snt_Spec cr))) = Inl (ApiError e)" and "patch [] = None"
    and "(nt_step E)\<^sup>*\<^sup>* (nr_Stored (reconcile_task E P W patch now cr)) cr'"
  shows "snt_Phase cr' = NTFailed"
proof -
  let ?f = "markFailed E now ''TargetResolveFailed'' e (observed now cr)"
  let ?s = "nr_Stored (reconcile_task E P W patch now cr)"
  have "resolveTarget E W now (observed now cr) = (observed now cr, Fatal e)"
    using assms(4) by (simp add: resolveTarget_def Let_def)
  then have rec: "reconcile_task E P W patch now cr = flush patch cr ?f [] 0 None" using reconcile_open[OF assms(3)] by simp
  have ph: "snt_Phase ?f = NTFailed" by (simp add: markFailed_def)
  then have "?s = ?f" using rec assms(3,5) by (auto simp: flush_def open_phase_def)
  then have s: "snt_Phase ?s = NTFailed" "nt_wf E ?s" using ph reconcile_wf[OF E assms(2), of P W patch now] by simp_all
  have "snt_Status cr' = snt_Status ?s"
    using assms(6)
  proof (induction rule: rtranclp_induct)
    case (step y z)
    have "nt_wf E y" using step(1) s(2)
      by (induction rule: rtranclp_induct) (use step_keeps[OF E] in blast)+
    then show ?case using step_keeps[OF E _ step(2)] step(3) s(1) by (simp add: open_phase_def)
  qed simp
  then show ?thesis using s(1) by simp
qed

subsection \<open>An example\<close>

text \<open>A vote against the demonstration node, submitted at time 5 with a timeout of a minute.\<close>

definition demo_vote :: "TaskStatus \<Rightarrow> SeiNodeTask" where
  "demo_vote st =
     \<lparr>snt_Name = ''vote'', snt_Namespace = ''sei'', snt_UID = ''u7'', snt_Generation = 1,
      snt_Spec = \<lparr>nts_Kind = KindGovVote,
        nts_Target = \<lparr>tgt_NodeName = ''rpc-0'', tgt_RequirePhase = PhaseUnset, tgt_RequirePhaseTimeout = None\<rparr>,
        nts_TimeoutSeconds = 60, nts_GovSoftwareUpgrade = None,
        nts_GovVote = Some \<lparr>gvp_ChainID = ''pacific-1'', gvp_KeyName = ''ops'', gvp_ProposalID = 4, gvp_Option = ''yes'',
          gvp_Memo = [], gvp_Fees = ''2000usei'', gvp_Gas = 200000\<rparr>,
        nts_GovParamChange = None, nts_GovUpdateInstantiateConfig = None, nts_AwaitCondition = None,
        nts_UpdateNodeImage = None, nts_AwaitNodesAtHeight = None, nts_RestartSeid = None, nts_MarkReady = None,
        nts_Unjail = None\<rparr>,
      snt_Status = \<lparr>ntst_ObservedGeneration = 1, ntst_Phase = NTRunning,
        ntst_Task = Some \<lparr>nte_ID = ''u7/GovVote/0'', nte_Status = st, nte_Err = [], nte_SubmittedAt = None,
          nte_ExecutionStartedAt = Some 5\<rparr>,
        ntst_Outputs = None, ntst_PhaseTransitionTime = Some 5, ntst_StartedAt = Some 5,
        ntst_TargetFirstObservedAt = None, ntst_Conditions = []\<rparr>\<rparr>"

definition pending_result :: json where
  "pending_result = JObject [(''txHash'', JString ''AB12''), (''height'', JNumber ''0''), (''inclusionStatus'', JString ''pending'')]"

definition undetermined_world :: world where
  "undetermined_world = demo_world\<lparr>w_GetTask := (\<lambda>_ _. GetResult ScFailed (Some ''undetermined'') (Some pending_result))\<rparr>"

definition unreachable_world :: world where
  "unreachable_world = demo_world\<lparr>w_SubmitTask := (\<lambda>_ _. Some ''dial tcp: i/o timeout'')\<rparr>"

definition demo_vote_params :: TaskParams where
  "demo_vote_params = GovVoteParams \<lparr>gv_ChainID = ''pacific-1'', gv_KeyName = ''ops'', gv_ProposalID = 4, gv_Option = ''yes'',
     gv_Memo = [], gv_Fees = ''2000usei'', gv_Gas = 200000\<rparr>"

lemma demo_vote_facts:
  "nt_wf demo_ext (demo_vote TaskPending)" "nt_wf demo_ext (demo_vote TaskRunning)"
  "target_ready demo_world (demo_vote st) demo_node" "target_ready undetermined_world (demo_vote st) demo_node"
  "target_ready unreachable_world (demo_vote st) demo_node"
  "SeiNodeTaskParamsFor demo_ext (demo_vote st) (Some demo_node) = Inr (GovVote, demo_vote_params)"
  subgoal by code_simp
  subgoal by code_simp
  by (simp_all add: target_ready_def required_phase_def demo_vote_def demo_world_def undetermined_world_def unreachable_world_def
      demo_defs SeiNodeTaskParamsFor_def govVoteParams_def resolveSigningUID_def demo_vote_params_def)

lemma demo_decode:
  "decode_struct ''wire.GovTxResult'' gov_answer_fields no_answer pending_result =
     Ok \<lparr>ga_TxHash = ''AB12'', ga_Height = 0, ga_ProposalID = 0, ga_Code = 0, ga_Codespace = [], ga_RawLog = [],
         ga_InclusionStatus = ''pending''\<rparr>"
  by code_simp

theorem nodetask_lifecycle_witness:
  "nt_wf demo_ext (nr_Stored (reconcile_task demo_ext demo_platform demo_world (\<lambda>_. None) 9 (demo_vote TaskPending))) \<and>
   snt_Phase (nr_Stored (reconcile_task demo_ext demo_platform demo_world (\<lambda>_. None) 9 (demo_vote TaskPending))) = NTComplete"
proof
  have st: "(nt_step demo_ext)\<^sup>*\<^sup>* (demo_vote TaskPending)
      (nr_Stored (reconcile_task demo_ext demo_platform demo_world (\<lambda>_. None) 9 (demo_vote TaskPending)))"
    by (intro r_into_rtranclp nt_step.reconcile)
  show "nt_wf demo_ext (nr_Stored (reconcile_task demo_ext demo_platform demo_world (\<lambda>_. None) 9 (demo_vote TaskPending)))"
    using nodetask_lifecycle[OF demo_cond_laws demo_vote_facts(1) st] by simp
  show "snt_Phase (nr_Stored (reconcile_task demo_ext demo_platform demo_world (\<lambda>_. None) 9 (demo_vote TaskPending))) = NTComplete"
    by code_simp
qed

lemma demo_vote_calls:
  "SubmitTask ''u7/GovVote/0'' GovVote demo_vote_params \<in>
     set (nr_Calls (reconcile_task demo_ext demo_platform demo_world (\<lambda>_. None) 9 (demo_vote TaskPending)))"
  by code_simp

theorem nodetask_calls_gated_witness:
  "\<exists>t target. snt_Task (demo_vote TaskPending) = Some t \<and> nte_Status t = TaskPending \<and>
     target_ready demo_world (demo_vote TaskPending) target"
  using nodetask_calls_gated[OF demo_vote_calls] by auto

theorem failed_tx_recorded_witness:
  "recorded_tx (nr_Stored (reconcile_task demo_ext demo_platform undetermined_world (\<lambda>_. None) 9 (demo_vote TaskRunning))) =
     Some (''AB12'', 0) \<and>
   snt_Phase (nr_Stored (reconcile_task demo_ext demo_platform undetermined_world (\<lambda>_. None) 9 (demo_vote TaskRunning))) = NTRunning"
proof -
  have tm: "\<not> execTimedOut 9 (demo_vote TaskRunning)" by code_simp
  obtain t where t: "snt_Task (demo_vote TaskRunning) = Some t" "nte_Status t = TaskRunning" by (simp add: demo_vote_def)
  have ph: "snt_Phase (demo_vote TaskRunning) = NTRunning" "isSignTxKind (snt_Kind (demo_vote TaskRunning))"
    by (simp_all add: demo_vote_def)
  have sc: "w_BuildSidecarClient undetermined_world [] = None" "w_ParseUUID undetermined_world (nte_ID t) = None"
    "w_GetTask undetermined_world [] (nte_ID t) = GetResult ScFailed (Some ''undetermined'') (Some pending_result)"
    by (simp_all add: undetermined_world_def demo_world_def)
  show ?thesis
    using failed_tx_recorded[OF demo_vote_facts(2) t ph demo_vote_facts(4,6) sc demo_decode,
        where patch = "\<lambda>_. None" and P = demo_platform and now = 9, OF refl refl] tm by simp
qed

text \<open>Two reconciles, the first against a sidecar that answers no POST, the second against one whose address is refused too,
  hours after the timeout of a minute.\<close>

definition refused_world :: world where
  "refused_world = unreachable_world\<lparr>w_BuildSidecarClient := (\<lambda>_. Some ''invalid url'')\<rparr>"

definition demo_rounds :: "(world \<times> (call list \<Rightarrow> api_error option) \<times> go_time) list" where
  "demo_rounds = [(unreachable_world, \<lambda>_. None, 10000000000000)]"

theorem unsubmitted_task_outlives_timeout_witness:
  "let cr = fold (\<lambda>(W, patch, now) c. nr_Stored (reconcile_task demo_ext demo_platform W patch now c)) demo_rounds (demo_vote TaskPending)
   in snt_Phase cr = NTRunning \<and> map_option nte_Status (snt_Task cr) = Some TaskPending \<and> execTimedOut 20000000000000 cr \<and>
      nr_Error (reconcile_task demo_ext demo_platform refused_world (\<lambda>_. None) 20000000000000 cr) \<noteq> None"
proof -
  obtain t where t: "snt_Task (demo_vote TaskPending) = Some t" "nte_Status t = TaskPending" by (simp add: demo_vote_def)
  have ph: "snt_Phase (demo_vote TaskPending) = NTRunning" "sidecar_kind (snt_Kind (demo_vote TaskPending))"
    by (simp_all add: demo_vote_def sidecar_kind_def)
  have un: "unsubmittable demo_ext (demo_vote TaskPending) (nte_ID t) W" if "W \<in> {unreachable_world, refused_world}" for W
    using that demo_vote_facts(5,6)[of TaskPending]
    by (auto simp: unsubmittable_def target_ready_def unreachable_world_def refused_world_def intro!: exI[of _ demo_node])
  have "\<forall>(W, patch, now) \<in> set demo_rounds. unsubmittable demo_ext (demo_vote TaskPending) (nte_ID t) W"
    using un by (simp add: demo_rounds_def)
  note ok = unsubmitted_task_outlives_timeout[OF demo_cond_laws demo_vote_facts(1) t ph this, of refused_world _ demo_platform
      20000000000000 "\<lambda>_. None"]
  have "execTimedOut 20000000000000 (demo_vote TaskPending)" by code_simp
  then show ?thesis using ok[OF un refl] t(2) by (simp add: Let_def)
qed

end
