(* ===== verification/NetworkTypes.thy ===== *)
theory NetworkTypes
  imports NodeGates Executor CondView
begin

text \<open>
  The SeiNetwork resource (\<open>api/v1alpha1/seinetwork_types.go\<close>, \<open>networking_types.go\<close> and the network part of
  \<open>common_types.go\<close>), the group planner (\<open>internal/planner/group.go\<close>, \<open>ForGroup\<close> of \<open>planner.go\<close>), and the labels
  and child objects a network derives from its spec (\<open>labels.go\<close>, \<open>generateSeiNode\<close> of \<open>nodes.go\<close> and
  \<open>generateInternalService\<close> of \<open>internal_service.go\<close> in \<open>internal/controller/seinetwork\<close>).
\<close>

subsection \<open>Spec\<close>

record AccountVesting =
  avs_Amount :: string
  avs_EndTime :: int
  avs_Delayed :: bool

record GenesisAccount =
  ga_Address :: string
  ga_Balance :: string
  ga_Vesting :: "AccountVesting option"

text \<open>\<open>MaxCeremonyDuration\<close>, which no code reads, is left out.\<close>

record GenesisCeremonyConfig =
  gcc_ChainID :: string
  gcc_StakingAmount :: string
  gcc_AccountBalance :: string
  gcc_Accounts :: "GenesisAccount list"
  gcc_Overrides :: table
  gcc_ConsensusParams :: "json option"

record AutobahnCeremonySpec =
  acs_BlockInterval :: string
  acs_AllowEmptyBlocks :: "bool option"
  acs_MaxTxsPerBlock :: "int option"
  acs_EnableEvmProxy :: "bool option"

record NetworkConsensusSpec =
  ncs_Consensus :: ConsensusSpec
  ncs_Autobahn :: "AutobahnCeremonySpec option"

text \<open>A deletion policy is a string; the empty one is the default, any other is kept as it is.\<close>

datatype DeletionPolicy =
  DeletionPolicyUnset | DeletionPolicyDelete | DeletionPolicyRetain | DeletionPolicyOther string

record SeiNetworkSpec =
  sns_Image :: string
  sns_Genesis :: GenesisCeremonyConfig
  sns_Consensus :: "NetworkConsensusSpec option"
  sns_ExecutionEngine :: "ExecutionEngineSpec option"
  sns_Replicas :: int
  sns_ConfigOverrides :: overrides
  sns_ConfigValues :: "ConfigValue list"
  sns_DataVolume :: "DataVolumeSpec option"
  sns_Resources :: "Resources option"
  sns_Scheduling :: "SchedulingConfig option"
  sns_Sidecar :: "SidecarConfig option"
  sns_PodLabels :: labels
  sns_Paused :: bool
  sns_DeletionPolicy :: DeletionPolicy

subsection \<open>Status\<close>

datatype SeiNetworkPhase =
    GroupPhaseUnset | GroupPhasePending | GroupPhaseInitializing | GroupPhaseReady | GroupPhasePaused
  | GroupPhaseDegraded | GroupPhaseFailed | GroupPhaseTerminating

datatype Placement = PlacementPending | PlacementScheduled

record GroupNodeStatus =
  gns_Name :: string
  gns_Phase :: SeiNodePhase
  gns_Ready :: bool
  gns_CurrentImage :: string
  gns_WorkerNode :: string
  gns_Placement :: Placement

record ObservedHeight =
  oh_Height :: int
  oh_Time :: go_time

record InternalServicePorts =
  isp_Rpc :: int
  isp_EvmHttp :: int
  isp_Rest :: int

record InternalServiceStatus =
  iss_Name :: string
  iss_Namespace :: string
  iss_Ports :: InternalServicePorts

record PerPodServicePorts =
  pps_EvmHttp :: int
  pps_EvmWs :: int

record PerPodServiceStatus =
  ppss_Name :: string
  ppss_Namespace :: string
  ppss_Ports :: PerPodServicePorts

record NodeEndpoint =
  ne_Name :: string
  ne_EvmJsonRpc :: string
  ne_EvmWs :: string
  ne_TendermintRpc :: string
  ne_TendermintRest :: string

record Endpoints =
  eps_TendermintRpc :: string
  eps_TendermintRest :: string
  eps_Nodes :: "NodeEndpoint list"

text \<open>\<open>GenesisHash\<close> and \<open>GenesisS3URI\<close>, which no code writes, are left out.\<close>

record SeiNetworkStatus =
  sst_ObservedGeneration :: int
  sst_Phase :: SeiNetworkPhase
  sst_Replicas :: int
  sst_ReadyReplicas :: int
  sst_UpToDateReplicas :: int
  sst_Nodes :: "GroupNodeStatus list"
  sst_Plan :: "TaskPlan option"
  sst_ObservedHeight :: "ObservedHeight option"
  sst_IncumbentNodes :: "string list"
  sst_InternalService :: "InternalServiceStatus option"
  sst_PerPodServices :: "PerPodServiceStatus list"
  sst_Endpoints :: "Endpoints option"
  sst_Conditions :: "condition list"

record SeiNetwork =
  sn_Name :: string
  sn_Namespace :: string
  sn_UID :: string
  sn_Generation :: int
  sn_CreationTimestamp :: go_time
  sn_Deleting :: bool
  sn_Finalizer :: bool  \<comment> \<open>carries \<open>sei.io/seinetwork-finalizer\<close>\<close>
  sn_Spec :: SeiNetworkSpec
  sn_Status :: SeiNetworkStatus

definition upd_net :: "(SeiNetworkStatus \<Rightarrow> SeiNetworkStatus) \<Rightarrow> SeiNetwork \<Rightarrow> SeiNetwork" where
  "upd_net f net = net\<lparr>sn_Status := f (sn_Status net)\<rparr>"

abbreviation sn_Plan :: "SeiNetwork \<Rightarrow> TaskPlan option" where
  "sn_Plan net \<equiv> sst_Plan (sn_Status net)"

abbreviation sn_Conditions :: "SeiNetwork \<Rightarrow> condition list" where
  "sn_Conditions net \<equiv> sst_Conditions (sn_Status net)"

abbreviation sn_Replicas :: "SeiNetwork \<Rightarrow> int" where
  "sn_Replicas net \<equiv> sns_Replicas (sn_Spec net)"

abbreviation sn_Paused :: "SeiNetwork \<Rightarrow> bool" where
  "sn_Paused net \<equiv> sns_Paused (sn_Spec net)"

lemma upd_net_frame [simp]:
  "sn_Name (upd_net f net) = sn_Name net"
  "sn_Namespace (upd_net f net) = sn_Namespace net"
  "sn_UID (upd_net f net) = sn_UID net"
  "sn_Generation (upd_net f net) = sn_Generation net"
  "sn_CreationTimestamp (upd_net f net) = sn_CreationTimestamp net"
  "sn_Deleting (upd_net f net) = sn_Deleting net"
  "sn_Finalizer (upd_net f net) = sn_Finalizer net"
  "sn_Spec (upd_net f net) = sn_Spec net"
  "sn_Status (upd_net f net) = f (sn_Status net)"
  by (simp_all add: upd_net_def)

subsection \<open>Methods of the spec\<close>

definition ncs_Node :: "NetworkConsensusSpec option \<Rightarrow> ConsensusSpec option" where
  "ncs_Node n = (case n of None \<Rightarrow> None | Some c \<Rightarrow> Some (ncs_Consensus c))"

definition ncs_IsAutobahn :: "NetworkConsensusSpec option \<Rightarrow> bool" where
  "ncs_IsAutobahn n \<longleftrightarrow> (case n of None \<Rightarrow> False | Some c \<Rightarrow> IsAutobahn (Some (ncs_Consensus c)))"

definition ncs_EffectiveEngine :: "NetworkConsensusSpec option \<Rightarrow> ConsensusEngine" where
  "ncs_EffectiveEngine n =
     (case n of None \<Rightarrow> ConsensusEngineTendermint | Some c \<Rightarrow> EffectiveEngine (Some (ncs_Consensus c)))"

definition AutobahnSettings :: "NetworkConsensusSpec option \<Rightarrow> AutobahnCeremonySpec option" where
  "AutobahnSettings n = (case n of None \<Rightarrow> None | Some c \<Rightarrow> ncs_Autobahn c)"

definition CommitsOnDemand :: "NetworkConsensusSpec option \<Rightarrow> bool" where
  "CommitsOnDemand n \<longleftrightarrow>
     (if \<not> ncs_IsAutobahn n then False
      else case AutobahnSettings n of
        None \<Rightarrow> True
      | Some a \<Rightarrow> (case acs_AllowEmptyBlocks a of None \<Rightarrow> True | Some b \<Rightarrow> \<not> b))"

definition net_EffectiveExecutionEngine :: "SeiNetworkSpec \<Rightarrow> ExecutionEngineSpec" where
  "net_EffectiveExecutionEngine s = ResolveExecutionEngine (sns_ExecutionEngine s) (ncs_Node (sns_Consensus s))"

subsection \<open>Child objects\<close>

record OwnerReference =
  or_Kind :: string
  or_Name :: string
  or_UID :: string
  or_Controller :: bool

record ChildNode =
  ch_Node :: SeiNode
  ch_Labels :: labels
  ch_Owners :: "OwnerReference list"
  ch_Deleting :: bool

abbreviation ch_Name :: "ChildNode \<Rightarrow> string" where
  "ch_Name c \<equiv> node_Name (ch_Node c)"

abbreviation ch_Spec :: "ChildNode \<Rightarrow> SeiNodeSpec" where
  "ch_Spec c \<equiv> node_Spec (ch_Node c)"

abbreviation ch_Annotations :: "ChildNode \<Rightarrow> labels" where
  "ch_Annotations c \<equiv> node_Annotations (ch_Node c)"

definition upd_cspec :: "(SeiNodeSpec \<Rightarrow> SeiNodeSpec) \<Rightarrow> ChildNode \<Rightarrow> ChildNode" where
  "upd_cspec f c = c\<lparr>ch_Node := (ch_Node c)\<lparr>node_Spec := f (ch_Spec c)\<rparr>\<rparr>"

definition set_annotations :: "labels \<Rightarrow> ChildNode \<Rightarrow> ChildNode" where
  "set_annotations a c = c\<lparr>ch_Node := (ch_Node c)\<lparr>node_Annotations := a\<rparr>\<rparr>"

definition label_set :: "(string \<times> string) list \<Rightarrow> labels" where
  "label_set kvs = fold (\<lambda>(k, v). Mapping.update k v) kvs Mapping.empty"

definition groupLabel :: string where "groupLabel = ''sei.io/nodedeployment''"
definition groupOrdinalLabel :: string where "groupOrdinalLabel = ''sei.io/nodedeployment-ordinal''"
definition seinetworkLabel :: string where "seinetworkLabel = ''sei.io/seinetwork''"
definition seinetworkOrdinalLabel :: string where "seinetworkOrdinalLabel = ''sei.io/seinetwork-ordinal''"
definition chainLabel :: string where "chainLabel = ''sei.io/chain''"
definition roleLabel :: string where "roleLabel = ''sei.io/role''"
definition managedByAnnotation :: string where "managedByAnnotation = ''sei.io/managed-by''"
definition RetainedFromAnnotation :: string where "RetainedFromAnnotation = ''sei.io/retained-from-seinetwork''"
definition RetainReasonAnnotation :: string where "RetainReasonAnnotation = ''sei.io/retain-reason''"

lemmas label_defs = groupLabel_def groupOrdinalLabel_def seinetworkLabel_def seinetworkOrdinalLabel_def chainLabel_def
  roleLabel_def managedByAnnotation_def RetainedFromAnnotation_def RetainReasonAnnotation_def

definition seiNodeName :: "SeiNetwork \<Rightarrow> nat \<Rightarrow> string" where
  "seiNodeName net ordinal = sn_Name net @ ''-'' @ itoa (int ordinal)"

definition groupSelector :: "SeiNetwork \<Rightarrow> labels" where
  "groupSelector net = label_set [(groupLabel, sn_Name net)]"

definition seinetworkSelector :: "SeiNetwork \<Rightarrow> labels" where
  "seinetworkSelector net = label_set [(seinetworkLabel, sn_Name net)]"

definition seiNodeLabels :: "SeiNetwork \<Rightarrow> nat \<Rightarrow> labels" where
  "seiNodeLabels net ordinal =
     label_set [(groupLabel, sn_Name net), (groupOrdinalLabel, itoa (int ordinal)), (seinetworkLabel, sn_Name net),
      (seinetworkOrdinalLabel, itoa (int ordinal)), (chainLabel, gcc_ChainID (sns_Genesis (sn_Spec net))),
      (roleLabel, ''validator'')]"

definition seiNodeAnnotations :: "SeiNetwork \<Rightarrow> labels" where
  "seiNodeAnnotations net = Mapping.empty"

definition resourceLabels :: "SeiNetwork \<Rightarrow> labels" where
  "resourceLabels net = label_set [(groupLabel, sn_Name net)]"

definition managedByAnnotations :: labels where
  "managedByAnnotations = label_set [(managedByAnnotation, ''seinetwork'')]"

text \<open>The status and the server-set metadata of an object that has not been stored yet: Go's zero values.\<close>

definition zero_node_status :: SeiNodeStatus where
  "zero_node_status = \<lparr>st_Phase = PhaseUnset, st_CurrentImage = [], st_CurrentConfigValuesHash = [],
     st_CurrentSidecarImage = [], st_CurrentNodeIsolation = NodeIsolationUnset, st_CurrentNodePool = [],
     st_Conditions = [], st_PhaseTransitionTime = None, st_CommittedHeight = None, st_CommittedHeightTime = None,
     st_Plan = None, st_AdoptedWorkflow = None, st_ResolvedPeers = [], st_ResolvedRPCWitnesses = [],
     st_ResolvedStateSyncers = [], st_StatefulSet = None, st_Endpoint = None, st_DataResetGeneration = 0,
     st_MaintenanceHold = HoldNone\<rparr>"

definition child_spec :: "SeiNetwork \<Rightarrow> nat \<Rightarrow> SeiNodeSpec" where
  "child_spec net ordinal =
     (let s = sn_Spec net; gc = sns_Genesis s
      in \<lparr>spec_ChainID = gcc_ChainID gc, spec_Image = sns_Image s, spec_Peers = [],
          spec_Overrides = sns_ConfigOverrides s, spec_Consensus = ncs_Node (sns_Consensus s),
          spec_ExecutionEngine = sns_ExecutionEngine s, spec_ConfigValues = sns_ConfigValues s,
          spec_NodeConfig = None, spec_Scheduling = sns_Scheduling s, spec_Sidecar = sns_Sidecar s,
          spec_PodLabels = Mapping.update seinetworkLabel (sn_Name net) (Mapping.update groupLabel (sn_Name net) (sns_PodLabels s)),
          spec_DataVolume = sns_DataVolume s, spec_Resources = sns_Resources s, spec_FullNode = None,
          spec_Archive = None, spec_Replayer = None,
          spec_Validator = Some \<lparr>val_Snapshot = None,
            val_GenesisCeremony = Some \<lparr>gc_ChainID = gcc_ChainID gc, gc_StakingAmount = gcc_StakingAmount gc,
              gc_AccountBalance = gcc_AccountBalance gc, gc_Index = int ordinal\<rparr>,
            val_SigningKey = None, val_NodeKey = None, val_OperatorKeyring = None\<rparr>,
          spec_Seed = None, spec_ExternalAddress = [], spec_Paused = sns_Paused s,
          spec_DataResetGeneration = 0, spec_Maintenance = None\<rparr>)"

definition generateSeiNode :: "SeiNetwork \<Rightarrow> nat \<Rightarrow> ChildNode" where
  "generateSeiNode net ordinal =
     \<lparr>ch_Node = \<lparr>node_Name = seiNodeName net ordinal, node_Namespace = sn_Namespace net,
        node_Annotations = seiNodeAnnotations net, node_Generation = 0, node_CreationTimestamp = 0,
        node_Spec = child_spec net ordinal, node_Status = zero_node_status\<rparr>,
      ch_Labels = seiNodeLabels net ordinal, ch_Owners = [], ch_Deleting = False\<rparr>"

text \<open>A Service, with the fields the controller sets or reads; a port is its name, number and target.\<close>

record K8sService =
  svc_Name :: string
  svc_Namespace :: string
  svc_Labels :: labels
  svc_Annotations :: labels
  svc_Owners :: "OwnerReference list"
  svc_Selector :: labels
  svc_PublishNotReady :: bool
  svc_Ports :: "(string \<times> int \<times> int) list"

definition internalServiceName :: "SeiNetwork \<Rightarrow> string" where
  "internalServiceName net = sn_Name net @ ''-internal''"

definition generateInternalService :: "ext \<Rightarrow> SeiNetwork \<Rightarrow> K8sService" where
  "generateInternalService E net =
     \<lparr>svc_Name = internalServiceName net, svc_Namespace = sn_Namespace net, svc_Labels = resourceLabels net,
      svc_Annotations = managedByAnnotations, svc_Owners = [], svc_Selector = groupSelector net,
      svc_PublishNotReady = False,
      svc_Ports = [(''rpc'', PortRPC E, PortRPC E), (''evm-http'', PortEVMHTTP E, PortEVMHTTP E),
                   (''rest'', PortREST E, PortREST E)]\<rparr>"

subsection \<open>Conditions of a network\<close>

abbreviation ConditionNodesReady :: string where "ConditionNodesReady \<equiv> ''NodesReady''"
abbreviation ConditionProducing :: string where "ConditionProducing \<equiv> ''Producing''"
abbreviation ConditionGenesisCeremonyComplete :: string where
  "ConditionGenesisCeremonyComplete \<equiv> ''GenesisCeremonyComplete''"
abbreviation ConditionPlanInProgress :: string where "ConditionPlanInProgress \<equiv> ''PlanInProgress''"
abbreviation ConditionRolloutInProgress :: string where "ConditionRolloutInProgress \<equiv> ''RolloutInProgress''"
abbreviation ConditionPaused :: string where "ConditionPaused \<equiv> ''Paused''"
abbreviation ConditionConfigValuesValid :: string where "ConditionConfigValuesValid \<equiv> ''ConfigValuesValid''"

definition setNetworkCondition ::
    "ext \<Rightarrow> SeiNetwork \<Rightarrow> string \<Rightarrow> condition_status \<Rightarrow> string \<Rightarrow> string \<Rightarrow> SeiNetwork" where
  "setNetworkCondition E net ty st reason msg =
     upd_net (\<lambda>s. s\<lparr>sst_Conditions :=
       SetStatusCondition E (sst_Conditions s) (mk_condition ty st reason msg (sn_Generation net))\<rparr>) net"

definition hasConditionTrue :: "ext \<Rightarrow> SeiNetwork \<Rightarrow> string \<Rightarrow> bool" where
  "hasConditionTrue E net ty \<longleftrightarrow>
     (case FindStatusCondition E (sn_Conditions net) ty of None \<Rightarrow> False | Some c \<Rightarrow> cond_Status c = ConditionTrue)"

definition hasConditionReason :: "ext \<Rightarrow> SeiNetwork \<Rightarrow> string \<Rightarrow> string \<Rightarrow> bool" where
  "hasConditionReason E net ty reason \<longleftrightarrow>
     (case FindStatusCondition E (sn_Conditions net) ty of None \<Rightarrow> False | Some c \<Rightarrow> cond_Reason c = reason)"

definition seedConditionIfAbsent :: "ext \<Rightarrow> string \<Rightarrow> string \<Rightarrow> string \<Rightarrow> SeiNetwork \<Rightarrow> SeiNetwork" where
  "seedConditionIfAbsent E ty reason msg net =
     (if FindStatusCondition E (sn_Conditions net) ty \<noteq> None then net
      else setNetworkCondition E net ty ConditionFalse reason msg)"

subsection \<open>The group planner\<close>

text \<open>The planner's own lookup scans the list for a True condition of the type.\<close>

definition isConditionTrue :: "SeiNetwork \<Rightarrow> string \<Rightarrow> bool" where
  "isConditionTrue net ty \<longleftrightarrow>
     list_ex (\<lambda>c. cond_Type c = ty \<and> cond_Status c = ConditionTrue) (sn_Conditions net)"

definition allReplicasCreated :: "SeiNetwork \<Rightarrow> bool" where
  "allReplicasCreated net \<longleftrightarrow> int (length (sst_IncumbentNodes (sn_Status net))) \<ge> sn_Replicas net"

definition needsGenesisPlan :: "SeiNetwork \<Rightarrow> bool" where
  "needsGenesisPlan net \<longleftrightarrow>
     sn_Plan net = None \<and> \<not> isConditionTrue net ConditionGenesisCeremonyComplete \<and> allReplicasCreated net"

definition account_entry :: "GenesisAccount \<Rightarrow> GenesisAccountEntry" where
  "account_entry a = \<lparr>gae_Address = ga_Address a, gae_Balance = ga_Balance a,
     gae_Vesting = (case ga_Vesting a of None \<Rightarrow> None
       | Some v \<Rightarrow> Some \<lparr>gav_Amount = avs_Amount v, gav_EndTime = avs_EndTime v, gav_Delayed = avs_Delayed v\<rparr>)\<rparr>"

definition assemble_params :: "SeiNetwork \<Rightarrow> AssembleAndUploadGenesisTask" where
  "assemble_params net =
     (let s = sn_Spec net; gc = sns_Genesis s
      in \<lparr>agt_AccountBalance = gcc_AccountBalance gc, agt_Namespace = sn_Namespace net,
          agt_Nodes = sst_IncumbentNodes (sn_Status net), agt_Accounts = map account_entry (gcc_Accounts gc),
          agt_Overrides = gcc_Overrides gc, agt_ConsensusParams = gcc_ConsensusParams gc,
          agt_Autobahn = ncs_IsAutobahn (sns_Consensus s),
          agt_AutobahnConfig = (case AutobahnSettings (sns_Consensus s) of
              None \<Rightarrow> None
            | Some ab \<Rightarrow> Some \<lparr>abc_BlockInterval = acs_BlockInterval ab, abc_AllowEmptyBlocks = acs_AllowEmptyBlocks ab,
                abc_MaxTxsPerBlock = acs_MaxTxsPerBlock ab, abc_EnableEvmProxy = acs_EnableEvmProxy ab\<rparr>)\<rparr>)"

definition group_BuildPlan ::
    "ext \<Rightarrow> bech32_decode \<Rightarrow> parse_duration \<Rightarrow> string \<Rightarrow> SeiNetwork \<Rightarrow> TaskPlan result" where
  "group_BuildPlan E dec pd pid net =
     (let names = sst_IncumbentNodes (sn_Status net); req = assemble_params net
      in case AssembleGenesis_Validate dec pd req of
           Some e \<Rightarrow> Err e
         | None \<Rightarrow>
             bind_result (buildPlannedTask E pid AssembleGenesis 0 (AssembleGenesisParams req)) (\<lambda>t0.
             bind_result (buildPlannedTask E pid CollectAndSetPeers 1 (GroupParams (sn_Name net) (sn_Namespace net) names)) (\<lambda>t1.
             bind_result (buildPlannedTask E pid AwaitNodesRunning 2
               (AwaitNodesParams (sn_Name net) (sn_Namespace net) (int (length names)) names)) (\<lambda>t2.
             Ok (new_plan pid [t0, t1, t2] PhaseUnset PhaseUnset)))))"

end
