(* ===== verification/GoStrconv.thy ===== *)
theory GoStrconv
  imports CanonicalNumber
begin

text \<open>Reading numbers from text (\<open>strconv.Atoi\<close>, \<open>fmt.Sscanf\<close>) and trimming it (\<open>strings.TrimSpace\<close>).\<close>

subsection \<open>Numbers\<close>

text \<open>
  \<open>fmt.Sscanf\<close> with \<open>%d\<close> reads a sign and the leading digits and ignores what follows; \<open>strconv.Atoi\<close> wants the whole
  string.  Both fail outside int64.  A label value holds no white space, which \<open>Sscanf\<close> would skip.
\<close>

definition split_sign :: "string \<Rightarrow> bool \<times> string" where
  "split_sign s =
     (case s of [] \<Rightarrow> (False, [])
      | c # cs \<Rightarrow> if c = CHR ''-'' then (True, cs) else if c = CHR ''+'' then (False, cs) else (False, s))"

definition int64_of :: "bool \<Rightarrow> string \<Rightarrow> int option" where
  "int64_of neg ds =
     (if ds = [] then None
      else let v = (if neg then - int (digits_val 0 ds) else int (digits_val 0 ds))
           in if - (2 ^ 63) \<le> v \<and> v < 2 ^ 63 then Some v else None)"

definition sscanf_int :: "string \<Rightarrow> int option" where
  "sscanf_int s = (case split_sign s of (neg, r) \<Rightarrow> int64_of neg (takeWhile is_digit r))"

definition Atoi :: "string \<Rightarrow> int option" where
  "Atoi s = (case split_sign s of (neg, r) \<Rightarrow> if list_all is_digit r then int64_of neg r else None)"

text \<open>The text of a \<open>*strconv.NumError\<close>: digits that do not fit are out of range, anything else is a syntax error.\<close>

definition ParseInt_error :: "bool \<Rightarrow> string \<Rightarrow> error" where
  "ParseInt_error digits s =
     ''strconv.ParseInt: parsing '' @ quoted s @ '': '' @ (if digits then ''value out of range'' else ''invalid syntax'')"

definition decimal_text :: "string \<Rightarrow> bool" where
  "decimal_text s = (case split_sign s of (neg, r) \<Rightarrow> r \<noteq> [] \<and> list_all is_digit r)"

subsection \<open>White space\<close>

text \<open>The encodings of the characters \<open>unicode.IsSpace\<close> accepts.\<close>

definition white :: "string list" where
  "white = [[CHR '' ''], [CHR 0x09], [CHR 0x0A], [CHR 0x0B], [CHR 0x0C], [CHR 0x0D], [CHR 0xC2, CHR 0x85], [CHR 0xC2, CHR 0xA0],
     [CHR 0xE1, CHR 0x9A, CHR 0x80], [CHR 0xE2, CHR 0x80, CHR 0x80], [CHR 0xE2, CHR 0x80, CHR 0x81],
     [CHR 0xE2, CHR 0x80, CHR 0x82], [CHR 0xE2, CHR 0x80, CHR 0x83], [CHR 0xE2, CHR 0x80, CHR 0x84],
     [CHR 0xE2, CHR 0x80, CHR 0x85], [CHR 0xE2, CHR 0x80, CHR 0x86], [CHR 0xE2, CHR 0x80, CHR 0x87],
     [CHR 0xE2, CHR 0x80, CHR 0x88], [CHR 0xE2, CHR 0x80, CHR 0x89], [CHR 0xE2, CHR 0x80, CHR 0x8A],
     [CHR 0xE2, CHR 0x80, CHR 0xA8], [CHR 0xE2, CHR 0x80, CHR 0xA9], [CHR 0xE2, CHR 0x80, CHR 0xAF],
     [CHR 0xE2, CHR 0x81, CHR 0x9F], [CHR 0xE3, CHR 0x80, CHR 0x80]]"

definition starts_white :: "string list \<Rightarrow> string \<Rightarrow> string option" where
  "starts_white ws s = find (\<lambda>w. w \<noteq> [] \<and> take (length w) s = w) ws"

lemma starts_white_shorter: "starts_white ws s = Some w \<Longrightarrow> length s - length w < length s"
  by (cases s) (auto simp: starts_white_def find_Some_iff)

function skip_white :: "string list \<Rightarrow> string \<Rightarrow> string" where
  "skip_white ws s = (case starts_white ws s of None \<Rightarrow> s | Some w \<Rightarrow> skip_white ws (drop (length w) s))"
  by pat_completeness auto
termination
  by (relation "measure (\<lambda>(ws, s). length s)") (auto dest: starts_white_shorter)

definition TrimSpace :: "string \<Rightarrow> string" where
  "TrimSpace s = rev (skip_white (map rev white) (rev (skip_white white s)))"

end
