(* ===== verification/NetworkControl.thy ===== *)
theory NetworkControl
  imports NetworkTypes WorkflowControl GoStrconv
begin

text \<open>
  The SeiNetwork controller (\<open>internal/controller/seinetwork\<close>): children, paused propagation, the internal Service,
  the ceremony plan, the status and the deletion policy.  The API server answers every call from the calls made
  before it, so it may change in any way.  A call that changes something is in the trace whether or not it was
  answered with an error.  Events, logs and metrics are left out.
\<close>

subsection \<open>The API server and the state of one reconcile\<close>

datatype net_event =
    SetNetFinalizer bool
  | WriteStatus SeiNetwork
  | CreateNode ChildNode
  | UpdateNode ChildNode ChildNode  \<comment> \<open>as read, as written\<close>
  | DeleteNode ChildNode
  | PatchNode ChildNode ChildNode
  | ApplySvc K8sService
  | PatchSvc K8sService K8sService
  | PlanCalls "call list"

record ChildPod =
  cp_Labels :: labels
  cp_NodeName :: string
  cp_Deleting :: bool
  cp_Phase :: string

text \<open>
  The owner-reference helpers of apimachinery and controller-runtime and the semantic comparison of two sidecar
  configurations (which compares quantities by value) are fields of the record as well.
\<close>

record nworld =
  nw_ListNodes :: "net_event list \<Rightarrow> string \<Rightarrow> labels \<Rightarrow> ChildNode list api"
  nw_GetNode :: "net_event list \<Rightarrow> string \<Rightarrow> string \<Rightarrow> ChildNode api"
  nw_ListPods :: "net_event list \<Rightarrow> string \<Rightarrow> labels \<Rightarrow> ChildPod list api"
  nw_GetService :: "net_event list \<Rightarrow> string \<Rightarrow> string \<Rightarrow> K8sService api"
  nw_ApplyService :: "net_event list \<Rightarrow> K8sService \<Rightarrow> K8sService api"
  nw_Call :: "net_event list \<Rightarrow> net_event \<Rightarrow> api_error option"
  nw_World :: "net_event list \<Rightarrow> world"
  nw_GetControllerOf :: "OwnerReference list \<Rightarrow> OwnerReference option"
  nw_IsControlledBy :: "OwnerReference list \<Rightarrow> string \<Rightarrow> bool"
  nw_SetControllerReference :: "SeiNetwork \<Rightarrow> OwnerReference list \<Rightarrow> OwnerReference list result"
  nw_SidecarEqual :: "SidecarConfig option \<Rightarrow> SidecarConfig option \<Rightarrow> bool"

text \<open>The object in memory, the object the API server stores, and the calls so far, newest first.\<close>

record netst =
  ns_Net :: SeiNetwork
  ns_Stored :: SeiNetwork
  ns_Trace :: "net_event list"

type_synonym net_step = "netst \<Rightarrow> netst \<times> error option"

definition on_net :: "(SeiNetwork \<Rightarrow> SeiNetwork) \<Rightarrow> netst \<Rightarrow> netst" where
  "on_net f s = s\<lparr>ns_Net := f (ns_Net s)\<rparr>"

definition net_call :: "nworld \<Rightarrow> net_event \<Rightarrow> netst \<Rightarrow> netst \<times> api_error option" where
  "net_call W ev s = (s\<lparr>ns_Trace := ev # ns_Trace s\<rparr>, nw_Call W (ns_Trace s) ev)"

text \<open>Sequencing with early return, and a loop that stops at the first error.\<close>

definition and_then :: "netst \<times> error option \<Rightarrow> net_step \<Rightarrow> netst \<times> error option" where
  "and_then r f = (case r of (s, Some e) \<Rightarrow> (s, Some e) | (s, None) \<Rightarrow> f s)"

definition wrap_err :: "string \<Rightarrow> netst \<times> error option \<Rightarrow> netst \<times> error option" where
  "wrap_err pre r = (fst r, map_option (\<lambda>e. pre @ e) (snd r))"

fun for_each :: "('a \<Rightarrow> net_step) \<Rightarrow> 'a list \<Rightarrow> net_step" where
  "for_each f [] s = (s, None)"
| "for_each f (x # xs) s = and_then (f x s) (for_each f xs)"

text \<open>A mutating call whose error is returned as it is, and one that tolerates a missing object.\<close>

definition do_call :: "nworld \<Rightarrow> net_event \<Rightarrow> net_step" where
  "do_call W ev s = (case net_call W ev s of (s', e) \<Rightarrow> (s', map_option api_text e))"

definition do_delete :: "nworld \<Rightarrow> ChildNode \<Rightarrow> net_step" where
  "do_delete W c s =
     (case net_call W (DeleteNode c) s of
        (s', Some e) \<Rightarrow> (s', if IsNotFound e then None else Some (api_text e))
      | (s', None) \<Rightarrow> (s', None))"

definition write_status :: "nworld \<Rightarrow> net_step" where
  "write_status W s =
     (case net_call W (WriteStatus (ns_Net s)) s of
        (s', Some e) \<Rightarrow> (s', Some (api_text e))
      | (s', None) \<Rightarrow> (s'\<lparr>ns_Stored := (ns_Stored s')\<lparr>sn_Status := sn_Status (ns_Net s')\<rparr>\<rparr>, None))"

definition write_finalizer :: "nworld \<Rightarrow> bool \<Rightarrow> net_step" where
  "write_finalizer W b s =
     (case net_call W (SetNetFinalizer b) (on_net (\<lambda>n. n\<lparr>sn_Finalizer := b\<rparr>) s) of
        (s', Some e) \<Rightarrow> (s', Some (api_text e))
      | (s', None) \<Rightarrow> (s'\<lparr>ns_Stored := (ns_Stored s')\<lparr>sn_Finalizer := b\<rparr>\<rparr>, None))"

subsection \<open>Children\<close>

definition listChildSeiNodes :: "nworld \<Rightarrow> netst \<Rightarrow> ChildNode list result" where
  "listChildSeiNodes W s =
     (let net = ns_Net s
      in case nw_ListNodes W (ns_Trace s) (sn_Namespace net) (seinetworkSelector net) of
           Inl e \<Rightarrow> Err (''listing child SeiNodes: '' @ api_text e)
         | Inr nodes \<Rightarrow> Ok (filter (\<lambda>c. nw_IsControlledBy W (ch_Owners c) (sn_UID net)) nodes))"

definition with_children :: "nworld \<Rightarrow> string \<Rightarrow> (ChildNode list \<Rightarrow> net_step) \<Rightarrow> net_step" where
  "with_children W pre f s =
     (case listChildSeiNodes W s of Inl e \<Rightarrow> (s, Some (pre @ e)) | Inr nodes \<Rightarrow> f nodes s)"

definition sync_paused_child :: "nworld \<Rightarrow> bool \<Rightarrow> ChildNode \<Rightarrow> net_step" where
  "sync_paused_child W desired c s =
     (if spec_Paused (ch_Spec c) = desired then (s, None)
      else wrap_err (''syncing paused='' @ (if desired then ''true'' else ''false'') @ '' to '' @ ch_Name c @ '': '')
             (do_call W (UpdateNode c (upd_cspec (\<lambda>sp. sp\<lparr>spec_Paused := desired\<rparr>) c)) s))"

definition syncPausedToChildren :: "nworld \<Rightarrow> bool \<Rightarrow> net_step" where
  "syncPausedToChildren W desired =
     with_children W ''listing child SeiNodes: '' (for_each (sync_paused_child W desired))"

definition record_incumbents :: "ChildNode list \<Rightarrow> net_step" where
  "record_incumbents nodes s =
     (on_net (upd_net (\<lambda>st. st\<lparr>sst_IncumbentNodes := map ch_Name (filter (\<lambda>c. \<not> ch_Deleting c) nodes)\<rparr>)) s, None)"

definition populateIncumbentNodes :: "nworld \<Rightarrow> net_step" where
  "populateIncumbentNodes W = with_children W ''listing child SeiNodes: '' record_incumbents"

definition configValuesRejected :: "ext \<Rightarrow> SeiNetwork \<Rightarrow> bool" where
  "configValuesRejected E net \<longleftrightarrow>
     (case FindStatusCondition E (sn_Conditions net) ConditionConfigValuesValid of
        None \<Rightarrow> False | Some c \<Rightarrow> cond_Status c = ConditionFalse)"

text \<open>One comparison of \<open>ensureSeiNode\<close>: the object so far and whether anything changed.\<close>

definition sync_when :: "bool \<times> (ChildNode \<Rightarrow> ChildNode) \<Rightarrow> ChildNode \<times> bool \<Rightarrow> ChildNode \<times> bool" where
  "sync_when cf r = (if fst cf then (snd cf (fst r), True) else r)"

definition sync_child :: "nworld \<Rightarrow> bool \<Rightarrow> ChildNode \<Rightarrow> ChildNode \<Rightarrow> ChildNode \<times> bool \<Rightarrow> ChildNode \<times> bool" where
  "sync_child W rejected existing desired =
     (let old = ch_Spec existing; new = ch_Spec desired
      in fold sync_when
        [(ch_Labels existing \<noteq> ch_Labels desired, \<lambda>c. c\<lparr>ch_Labels := ch_Labels desired\<rparr>),
         (ch_Annotations existing \<noteq> ch_Annotations desired, set_annotations (ch_Annotations desired)),
         (spec_Image old \<noteq> spec_Image new, upd_cspec (\<lambda>s. s\<lparr>spec_Image := spec_Image new\<rparr>)),
         (\<not> nw_SidecarEqual W (spec_Sidecar old) (spec_Sidecar new), upd_cspec (\<lambda>s. s\<lparr>spec_Sidecar := spec_Sidecar new\<rparr>)),
         (spec_Scheduling old \<noteq> spec_Scheduling new, upd_cspec (\<lambda>s. s\<lparr>spec_Scheduling := spec_Scheduling new\<rparr>)),
         (spec_PodLabels old \<noteq> spec_PodLabels new, upd_cspec (\<lambda>s. s\<lparr>spec_PodLabels := spec_PodLabels new\<rparr>)),
         (spec_Overrides old \<noteq> spec_Overrides new, upd_cspec (\<lambda>s. s\<lparr>spec_Overrides := spec_Overrides new\<rparr>)),
         (\<not> rejected \<and> spec_ConfigValues old \<noteq> spec_ConfigValues new,
          upd_cspec (\<lambda>s. s\<lparr>spec_ConfigValues := spec_ConfigValues new\<rparr>))])"

definition desired_child :: "ext \<Rightarrow> SeiNetwork \<Rightarrow> nat \<Rightarrow> ChildNode" where
  "desired_child E net ordinal =
     (if configValuesRejected E net
      then upd_cspec (\<lambda>s. s\<lparr>spec_ConfigValues := []\<rparr>) (generateSeiNode net ordinal)
      else generateSeiNode net ordinal)"

definition foreign_controller :: "ChildNode \<Rightarrow> OwnerReference \<Rightarrow> SeiNetwork \<Rightarrow> error" where
  "foreign_controller c r net =
     ''SeiNode '' @ ch_Name c @ '' is controlled by '' @ or_Kind r @ '' '' @ or_Name r @ '' (uid '' @ or_UID r @
     ''), so this SeiNetwork (uid '' @ sn_UID net @ '') will not adopt it''"

text \<open>The controller reference of an existing child: adopted, already ours, or a conflict.\<close>

definition adopt_child :: "nworld \<Rightarrow> SeiNetwork \<Rightarrow> ChildNode \<Rightarrow> (ChildNode \<times> bool) result" where
  "adopt_child W net existing =
     (case nw_GetControllerOf W (ch_Owners existing) of
        None \<Rightarrow> (case nw_SetControllerReference W net (ch_Owners existing) of
            Inl e \<Rightarrow> Err (''adopting SeiNode '' @ ch_Name existing @ '': '' @ e)
          | Inr owners \<Rightarrow> Ok (existing\<lparr>ch_Owners := owners\<rparr>, True))
      | Some r \<Rightarrow> if or_UID r \<noteq> sn_UID net then Err (foreign_controller existing r net)
                  else Ok (existing, False))"

definition ensure_existing :: "ext \<Rightarrow> nworld \<Rightarrow> ChildNode \<Rightarrow> ChildNode \<Rightarrow> net_step" where
  "ensure_existing E W existing desired s =
     (if ch_Deleting existing then (s, None)
      else case adopt_child W (ns_Net s) existing of
        Inl e \<Rightarrow> (s, Some e)
      | Inr r \<Rightarrow>
          (case sync_child W (configValuesRejected E (ns_Net s)) existing desired r of
             (c, updated) \<Rightarrow> if updated then do_call W (UpdateNode existing c) s else (s, None)))"

definition ensureSeiNode :: "ext \<Rightarrow> nworld \<Rightarrow> nat \<Rightarrow> net_step" where
  "ensureSeiNode E W ordinal s =
     (let net = ns_Net s; desired0 = desired_child E net ordinal
      in case nw_SetControllerReference W net (ch_Owners desired0) of
           Inl e \<Rightarrow> (s, Some (''setting owner reference: '' @ e))
         | Inr owners \<Rightarrow>
             (let desired = desired0\<lparr>ch_Owners := owners\<rparr>
              in case nw_GetNode W (ns_Trace s) (sn_Namespace net) (ch_Name desired) of
                   Inl e \<Rightarrow> if IsNotFound e then do_call W (CreateNode desired) s else (s, Some (api_text e))
                 | Inr existing \<Rightarrow> ensure_existing E W existing desired s))"

definition excess_ordinal :: "int \<Rightarrow> ChildNode \<Rightarrow> bool" where
  "excess_ordinal replicas c \<longleftrightarrow>
     (case Mapping.lookup (ch_Labels c) seinetworkOrdinalLabel of
        None \<Rightarrow> False
      | Some l \<Rightarrow> l \<noteq> [] \<and> (case sscanf_int l of None \<Rightarrow> False | Some ord \<Rightarrow> ord \<ge> replicas))"

definition scale_down_child :: "nworld \<Rightarrow> ChildNode \<Rightarrow> net_step" where
  "scale_down_child W c s =
     (if nw_IsControlledBy W (ch_Owners c) (sn_UID (ns_Net s)) \<and> excess_ordinal (sn_Replicas (ns_Net s)) c
      then wrap_err (''deleting excess SeiNode '' @ ch_Name c @ '': '') (do_delete W c s) else (s, None))"

definition scaleDown :: "nworld \<Rightarrow> net_step" where
  "scaleDown W s =
     (let net = ns_Net s
      in if sn_Replicas net \<le> 0 then (s, None)
         else case nw_ListNodes W (ns_Trace s) (sn_Namespace net) (seinetworkSelector net) of
           Inl e \<Rightarrow> (s, Some (''listing child SeiNodes: '' @ api_text e))
         | Inr nodes \<Rightarrow> for_each (scale_down_child W) nodes s)"

definition ensure_ordinal :: "ext \<Rightarrow> nworld \<Rightarrow> nat \<Rightarrow> net_step" where
  "ensure_ordinal E W i s = wrap_err (''ensuring SeiNode '' @ itoa (int i) @ '': '') (ensureSeiNode E W i s)"

definition mutate_children :: "ext \<Rightarrow> nworld \<Rightarrow> net_step" where
  "mutate_children E W s =
     and_then (for_each (ensure_ordinal E W) [0 ..< nat (sn_Replicas (ns_Net s))] s) (scaleDown W)"

definition reconcileSeiNodes :: "ext \<Rightarrow> nworld \<Rightarrow> net_step" where
  "reconcileSeiNodes E W s =
     (let net = ns_Net s
      in if sn_Deleting net \<or> sn_Paused net \<or> hasConditionTrue E net ConditionPlanInProgress
         then populateIncumbentNodes W s
         else and_then (mutate_children E W s) (populateIncumbentNodes W))"

subsection \<open>The internal Service\<close>

definition retain_record :: "labels \<Rightarrow> bool" where
  "retain_record a \<longleftrightarrow> Mapping.lookup a RetainedFromAnnotation \<noteq> None \<or> Mapping.lookup a RetainReasonAnnotation \<noteq> None"

definition clearRetainRecord :: "nworld \<Rightarrow> K8sService \<Rightarrow> net_step" where
  "clearRetainRecord W svc s =
     (if \<not> retain_record (svc_Annotations svc) then (s, None)
      else do_call W (PatchSvc svc (svc\<lparr>svc_Annotations :=
             Mapping.delete RetainReasonAnnotation (Mapping.delete RetainedFromAnnotation (svc_Annotations svc))\<rparr>)) s)"

definition internal_status :: "ext \<Rightarrow> K8sService \<Rightarrow> InternalServiceStatus" where
  "internal_status E svc = \<lparr>iss_Name = svc_Name svc, iss_Namespace = svc_Namespace svc,
     iss_Ports = \<lparr>isp_Rpc = PortRPC E, isp_EvmHttp = PortEVMHTTP E, isp_Rest = PortREST E\<rparr>\<rparr>"

definition record_service :: "ext \<Rightarrow> K8sService \<Rightarrow> net_step" where
  "record_service E svc s =
     (on_net (upd_net (\<lambda>st. st\<lparr>sst_InternalService := Some (internal_status E svc)\<rparr>)) s, None)"

definition reconcileInternalService :: "ext \<Rightarrow> nworld \<Rightarrow> net_step" where
  "reconcileInternalService E W s =
     (let desired0 = generateInternalService E (ns_Net s)
      in case nw_SetControllerReference W (ns_Net s) (svc_Owners desired0) of
           Inl e \<Rightarrow> (s, Some (''setting owner reference on internal Service: '' @ e))
         | Inr owners \<Rightarrow>
             (let desired = desired0\<lparr>svc_Owners := owners\<rparr>; s1 = s\<lparr>ns_Trace := ApplySvc desired # ns_Trace s\<rparr>
              in case nw_ApplyService W (ns_Trace s) desired of
                   Inl e \<Rightarrow> (s1, Some (''applying internal Service: '' @ api_text e))
                 | Inr live \<Rightarrow>
                     and_then (wrap_err ''clearing retain record on internal Service: '' (clearRetainRecord W live s1))
                       (record_service E live)))"

subsection \<open>Seeded conditions\<close>

definition ReasonValidatorLost :: string where "ReasonValidatorLost = ''ValidatorLost''"
definition ReasonAdoptedSet :: string where "ReasonAdoptedSet = ''AdoptedSet''"
definition ReasonNotStarted :: string where "ReasonNotStarted = ''NotStarted''"

definition setGenesisCeremonyCondition :: "ext \<Rightarrow> SeiNetwork \<Rightarrow> SeiNetwork" where
  "setGenesisCeremonyCondition E net =
     (if hasConditionTrue E net ConditionGenesisCeremonyComplete then net
      else if hasConditionTrue E net ConditionPlanInProgress
      then setNetworkCondition E net ConditionGenesisCeremonyComplete ConditionFalse ''InProgress''
             ''genesis ceremony is executing under an active plan''
      else if hasConditionReason E net ConditionGenesisCeremonyComplete ''CeremonyFailed'' \<or>
              hasConditionReason E net ConditionGenesisCeremonyComplete ReasonValidatorLost then net
      else setNetworkCondition E net ConditionGenesisCeremonyComplete ConditionFalse ReasonNotStarted
             ''genesis ceremony has not yet started'')"

definition setPausedCondition :: "ext \<Rightarrow> SeiNetwork \<Rightarrow> SeiNetwork" where
  "setPausedCondition E net =
     (if sn_Paused net
      then setNetworkCondition E net ConditionPaused ConditionTrue ''Paused''
             ''spec.paused is true; plan-driven orchestration is frozen''
      else setNetworkCondition E net ConditionPaused ConditionFalse ''NotPaused'' ''spec.paused is unset or false'')"

definition setConfigValuesValidCondition :: "ext \<Rightarrow> SeiNetwork \<Rightarrow> SeiNetwork" where
  "setConfigValuesValidCondition E net =
     (case ValidateConfigValues (sns_ConfigValues (sn_Spec net)) of
        None \<Rightarrow> setNetworkCondition E net ConditionConfigValuesValid ConditionTrue ''Valid''
                  (itoa (int (length (sns_ConfigValues (sn_Spec net)))) @ '' config values build a TOML overlay'')
      | Some e \<Rightarrow> setNetworkCondition E net ConditionConfigValuesValid ConditionFalse ''InvalidConfigValues'' e)"

definition seedAlwaysPresentConditions :: "ext \<Rightarrow> SeiNetwork \<Rightarrow> SeiNetwork" where
  "seedAlwaysPresentConditions E net =
     seedConditionIfAbsent E ConditionProducing ''NoNodes'' ''no child nodes observed yet''
     (seedConditionIfAbsent E ConditionRolloutInProgress ''AllUpToDate'' ''no child nodes observed yet''
     (seedConditionIfAbsent E ConditionNodesReady ''Pending'' ''no child nodes observed yet''
     (seedConditionIfAbsent E ConditionPlanInProgress ReasonNotStarted ''no plan has run yet''
     (setConfigValuesValidCondition E (setPausedCondition E (setGenesisCeremonyCondition E net))))))"

subsection \<open>The ceremony plan\<close>

definition validatorLost :: "SeiNetwork \<Rightarrow> bool" where
  "validatorLost net \<longleftrightarrow> int (length (sst_IncumbentNodes (sn_Status net))) < sn_Replicas net"

definition set_plan :: "TaskPlan option \<Rightarrow> SeiNetwork \<Rightarrow> SeiNetwork" where
  "set_plan p = upd_net (\<lambda>st. st\<lparr>sst_Plan := p\<rparr>)"

definition setPlanInProgress :: "ext \<Rightarrow> string \<Rightarrow> string \<Rightarrow> SeiNetwork \<Rightarrow> SeiNetwork" where
  "setPlanInProgress E reason msg net =
     setNetworkCondition E net ConditionPlanInProgress ConditionTrue reason msg"

definition clearPlanInProgress :: "ext \<Rightarrow> string \<Rightarrow> string \<Rightarrow> SeiNetwork \<Rightarrow> SeiNetwork" where
  "clearPlanInProgress E reason msg net =
     setNetworkCondition E net ConditionPlanInProgress ConditionFalse reason msg"

definition startPlan :: "ext \<Rightarrow> TaskPlan \<Rightarrow> SeiNetwork \<Rightarrow> SeiNetwork" where
  "startPlan E plan net = setPlanInProgress E ''PlanStarted'' ''Plan execution started'' (set_plan (Some plan) net)"

definition completePlan :: "ext \<Rightarrow> SeiNetwork \<Rightarrow> SeiNetwork" where
  "completePlan E net =
     clearPlanInProgress E ''PlanComplete'' ''Plan completed successfully'' (set_plan None
       (setNetworkCondition E net ConditionGenesisCeremonyComplete ConditionTrue ''Complete'' ''genesis ceremony completed''))"

definition failPlan :: "ext \<Rightarrow> SeiNetwork \<Rightarrow> SeiNetwork" where
  "failPlan E net =
     clearPlanInProgress E ''PlanFailed'' ''Plan failed'' (set_plan None
       (setNetworkCondition E net ConditionGenesisCeremonyComplete ConditionFalse ''CeremonyFailed''
          ''genesis ceremony plan failed''))"

definition plan_id :: "SeiNetwork \<Rightarrow> string" where
  "plan_id net = (case sn_Plan net of None \<Rightarrow> [] | Some p \<Rightarrow> plan_ID p)"

definition present_of :: "SeiNetwork \<Rightarrow> string" where
  "present_of net = itoa (int (length (sst_IncumbentNodes (sn_Status net)))) @ '' of '' @ itoa (sn_Replicas net)"

definition abandoned :: "ext \<Rightarrow> SeiNetwork \<Rightarrow> SeiNetwork" where
  "abandoned E net =
     clearPlanInProgress E ReasonValidatorLost
       ''Plan abandoned: a founding validator was deleted during the genesis ceremony'' (set_plan None net)"

definition torn_down :: "ext \<Rightarrow> nat \<Rightarrow> SeiNetwork \<Rightarrow> SeiNetwork" where
  "torn_down E deleted net =
     setNetworkCondition E net ConditionGenesisCeremonyComplete ConditionFalse ReasonValidatorLost
       (present_of net @ '' founding validators present; plan '' @ plan_id net @ '' abandoned, '' @ itoa (int deleted) @
        '' surviving founding SeiNodes deleted, the genesis ceremony restarts once the set is recreated'')"

definition adopted_set :: "ext \<Rightarrow> SeiNetwork \<Rightarrow> SeiNetwork" where
  "adopted_set E net =
     setNetworkCondition E net ConditionGenesisCeremonyComplete ConditionTrue ReasonAdoptedSet
       (present_of net @ '' validators present; plan '' @ plan_id net @
        '' abandoned, adopted validators are kept, the ceremony is not rebuilt and the missing node is recreated '' @
        ''with a fresh identity that the existing genesis does not name (its validator slot is not restored)'')"

definition older_than :: "ChildNode \<Rightarrow> SeiNetwork \<Rightarrow> bool" where
  "older_than c net \<longleftrightarrow> node_CreationTimestamp (ch_Node c) < sn_CreationTimestamp net"

definition delete_survivor :: "nworld \<Rightarrow> ChildNode \<Rightarrow> net_step" where
  "delete_survivor W c s =
     (if ch_Deleting c then (s, None)
      else wrap_err (''deleting founding SeiNode '' @ ch_Name c @ '' after validator loss: '') (do_delete W c s))"

definition abandon_set :: "ext \<Rightarrow> nworld \<Rightarrow> ChildNode list \<Rightarrow> net_step" where
  "abandon_set E W survivors s =
     (if list_ex (\<lambda>c. older_than c (ns_Net s)) survivors
      then (on_net (abandoned E \<circ> adopted_set E) s, None)
      else case for_each (delete_survivor W) survivors s of
        (s1, Some e) \<Rightarrow> (s1, Some e)
      | (s1, None) \<Rightarrow>
          (on_net (abandoned E \<circ> torn_down E (length (filter (\<lambda>c. \<not> ch_Deleting c) survivors))) s1, None))"

definition abandonPlanForLostValidator :: "ext \<Rightarrow> nworld \<Rightarrow> net_step" where
  "abandonPlanForLostValidator E W = with_children W [] (abandon_set E W)"

definition settle_plan :: "ext \<Rightarrow> SeiNetwork \<Rightarrow> SeiNetwork" where
  "settle_plan E net =
     (case sn_Plan net of
        None \<Rightarrow> net
      | Some p \<Rightarrow> (case plan_Phase p of
          TaskPlanComplete \<Rightarrow> completePlan E net
        | TaskPlanFailed \<Rightarrow> failPlan E net
        | TaskPlanActive \<Rightarrow> net))"

definition drivePlan :: "ext \<Rightarrow> PlatformConfig \<Rightarrow> nworld \<Rightarrow> go_time \<Rightarrow> TaskPlan \<Rightarrow> netst \<Rightarrow> netst \<times> duration" where
  "drivePlan E P W now p s =
     (case executePlan (registry E P (nw_World W (ns_Trace s))) now
             \<lparr>run_state = \<lparr>xs_Node = None, xs_Calls = []\<rparr>, run_plan = p, run_active = 0\<rparr> of
        (r, d) \<Rightarrow>
          ((on_net (settle_plan E \<circ> set_plan (Some (run_plan r))) s)
             \<lparr>ns_Trace := PlanCalls (xs_Calls (run_state r)) # ns_Trace s\<rparr>, d))"

definition reconcilePlan ::
    "ext \<Rightarrow> PlatformConfig \<Rightarrow> nworld \<Rightarrow> go_time \<Rightarrow> string \<Rightarrow> netst \<Rightarrow> netst \<times> duration \<times> error option" where
  "reconcilePlan E P W now pid s =
     (let net = ns_Net s
      in if sn_Paused net then (s, 0, None)
         else case sn_Plan net of
           Some p \<Rightarrow>
             if plan_Phase p = TaskPlanActive then
               (if validatorLost net
                then (case abandonPlanForLostValidator E W s of
                        (s', Some e) \<Rightarrow> (s', 0, Some e) | (s', None) \<Rightarrow> (s', ResultRequeueImmediate, None))
                else (case drivePlan E P W now p s of (s', d) \<Rightarrow> (s', d, None)))
             else (s, 0, None)
         | None \<Rightarrow>
             if \<not> needsGenesisPlan net then (s, 0, None)
             else let w = nw_World W (ns_Trace s)
                  in case group_BuildPlan E (w_Bech32Decode w) (w_ParseDuration w) pid net of
                       Inl e \<Rightarrow> (s, 0, Some (''building plan: '' @ e))
                     | Inr plan \<Rightarrow> (on_net (startPlan E plan) s, ResultRequeueImmediate, None))"

end
