(* ===== verification/NetworkReconcile.thy ===== *)
theory NetworkReconcile
  imports NetworkControl
begin

text \<open>
  The status of a SeiNetwork (\<open>status.go\<close>, \<open>endpoints.go\<close>, \<open>per_pod_services.go\<close>, \<open>producing.go\<close>), its deletion
  (\<open>handleDeletion\<close>, \<open>orphanChildSeiNodes\<close>, \<open>orphanInternalService\<close>) and the reconcile (\<open>controller.go\<close>).  The clock is
  read once per reconcile.
\<close>

subsection \<open>Endpoints and per-pod services\<close>

definition httpURL :: "string \<Rightarrow> string \<Rightarrow> int \<Rightarrow> string" where
  "httpURL service namespace port = ''http://'' @ service @ ''.'' @ namespace @ ''.svc:'' @ itoa port"

definition zero_endpoint :: NodeEndpointStatus where
  "zero_endpoint = \<lparr>ep_EvmJsonRpc = [], ep_EvmWs = [], ep_TendermintRpc = [], ep_TendermintRest = []\<rparr>"

definition childEndpoints :: "SeiNode list \<Rightarrow> NodeEndpoint list" where
  "childEndpoints nodes =
     List.map_filter (\<lambda>n. case st_Endpoint (node_Status n) of
         None \<Rightarrow> None
       | Some ep \<Rightarrow> if ep = zero_endpoint then None
           else Some \<lparr>ne_Name = node_Name n, ne_EvmJsonRpc = ep_EvmJsonRpc ep, ne_EvmWs = ep_EvmWs ep,
                  ne_TendermintRpc = ep_TendermintRpc ep, ne_TendermintRest = ep_TendermintRest ep\<rparr>) nodes"

definition composeEndpoints :: "SeiNetwork \<Rightarrow> SeiNode list \<Rightarrow> Endpoints option" where
  "composeEndpoints net nodes =
     (let urls = (case sst_InternalService (sn_Status net) of
            None \<Rightarrow> ([], [])
          | Some i \<Rightarrow> if IsEvmOnly (net_EffectiveExecutionEngine (sn_Spec net)) then ([], [])
              else (httpURL (iss_Name i) (iss_Namespace i) (isp_Rpc (iss_Ports i)),
                    httpURL (iss_Name i) (iss_Namespace i) (isp_Rest (iss_Ports i))));
          eps = childEndpoints nodes
      in if fst urls = [] \<and> eps = [] then None
         else Some \<lparr>eps_TendermintRpc = fst urls, eps_TendermintRest = snd urls, eps_Nodes = eps\<rparr>)"

text \<open>Entries sorted by ordinal; the order of two children with the same ordinal is not specified.\<close>

definition per_pod_entry :: "ext \<Rightarrow> ChildNode \<Rightarrow> (int \<times> PerPodServiceStatus) option" where
  "per_pod_entry E c =
     (case Mapping.lookup (ch_Labels c) seinetworkOrdinalLabel of
        None \<Rightarrow> None
      | Some l \<Rightarrow> (case Atoi l of
          None \<Rightarrow> None
        | Some ord \<Rightarrow> Some (ord, \<lparr>ppss_Name = ch_Name c, ppss_Namespace = node_Namespace (ch_Node c),
            ppss_Ports = \<lparr>pps_EvmHttp = PortEVMHTTP E, pps_EvmWs = PortEVMWS E\<rparr>\<rparr>)))"

definition populatePerPodServices :: "ext \<Rightarrow> ChildNode list \<Rightarrow> PerPodServiceStatus list" where
  "populatePerPodServices E nodes = map snd (sort_key fst (List.map_filter (per_pod_entry E) nodes))"

subsection \<open>Producing\<close>

definition heightReadingMaxAge :: duration where "heightReadingMaxAge = 90 * 1000000000"
definition producingWindow :: duration where "producingWindow = 120 * 1000000000"

record heightReadings =
  hr_highestFresh :: int
  hr_highestAny :: int
  hr_fresh :: nat
  hr_stale :: nat

definition read_height :: "go_time \<Rightarrow> SeiNode \<Rightarrow> heightReadings \<Rightarrow> heightReadings" where
  "read_height now n r =
     (case (st_CommittedHeight (node_Status n), st_CommittedHeightTime (node_Status n)) of
        (Some h, Some t) \<Rightarrow>
          (let r1 = r\<lparr>hr_highestAny := max (hr_highestAny r) h\<rparr>
           in if now - t > heightReadingMaxAge then r1\<lparr>hr_stale := hr_stale r1 + 1\<rparr>
              else r1\<lparr>hr_fresh := hr_fresh r1 + 1, hr_highestFresh := max (hr_highestFresh r1) h\<rparr>)
      | _ \<Rightarrow> r)"

definition readHeights :: "SeiNode list \<Rightarrow> go_time \<Rightarrow> heightReadings" where
  "readHeights nodes now =
     fold (read_height now) nodes \<lparr>hr_highestFresh = 0, hr_highestAny = 0, hr_fresh = 0, hr_stale = 0\<rparr>"

text \<open>\<open>Truncate(time.Second)\<close> rounds towards zero.\<close>

definition whole_seconds :: "duration \<Rightarrow> duration" where
  "whole_seconds d = (if d \<ge> 0 then d - d mod 1000000000 else - (- d - (- d) mod 1000000000))"

definition next_mark :: "ObservedHeight option \<Rightarrow> heightReadings \<Rightarrow> go_time \<Rightarrow> ObservedHeight" where
  "next_mark prev r now =
     (case prev of
        None \<Rightarrow> \<lparr>oh_Height = hr_highestFresh r, oh_Time = now\<rparr>
      | Some m \<Rightarrow> if hr_highestFresh r > oh_Height m \<or> hr_highestAny r < oh_Height m
                  then \<lparr>oh_Height = hr_highestFresh r, oh_Time = now\<rparr> else m)"

definition height_advanced :: "ObservedHeight option \<Rightarrow> heightReadings \<Rightarrow> bool" where
  "height_advanced prev r \<longleftrightarrow>
     (case prev of None \<Rightarrow> hr_highestFresh r > 0 | Some m \<Rightarrow> hr_highestFresh r > oh_Height m)"

definition unread_message :: "heightReadings \<Rightarrow> nat \<Rightarrow> string" where
  "unread_message r children =
     ''no committed-height reading newer than '' @ duration_string heightReadingMaxAge @ '' from any of '' @
     itoa (int children) @ '' child nodes ('' @ itoa (int (hr_stale r)) @ '' stale, '' @
     itoa (int children - int (hr_stale r)) @ '' never read)''"

definition unchanged_message :: "string \<Rightarrow> ObservedHeight \<Rightarrow> duration \<Rightarrow> heightReadings \<Rightarrow> string" where
  "unchanged_message what mark since r =
     ''observed height '' @ itoa (oh_Height mark) @ what @ duration_string since @ '' (window '' @
     duration_string producingWindow @ ''; highest fresh reading '' @ itoa (hr_highestFresh r) @ '')''"

definition setProducingCondition :: "ext \<Rightarrow> SeiNode list \<Rightarrow> go_time \<Rightarrow> SeiNetwork \<Rightarrow> SeiNetwork" where
  "setProducingCondition E nodes now net =
     (if nodes = []
      then setNetworkCondition E net ConditionProducing ConditionFalse ''NoNodes'' ''no child SeiNodes exist''
      else let r = readHeights nodes now in
        if hr_fresh r = 0 then
          (if hr_stale r = 0
           then setNetworkCondition E net ConditionProducing ConditionFalse ''AwaitingFirstBlock''
                  (''no committed-height reading yet from any of '' @ itoa (int (length nodes)) @
                   '' child nodes (none Running long enough to report)'')
           else setNetworkCondition E net ConditionProducing ConditionFalse ''SignalUnreadable''
                  (unread_message r (length nodes)))
        else let prev = sst_ObservedHeight (sn_Status net); mark = next_mark prev r now;
                 net1 = upd_net (\<lambda>st. st\<lparr>sst_ObservedHeight := Some mark\<rparr>) net;
                 since = whole_seconds (now - oh_Time mark)
             in if height_advanced prev r
                then setNetworkCondition E net1 ConditionProducing ConditionTrue ''HeightAdvancing''
                       (''observed height advanced to '' @ itoa (oh_Height mark) @ '' ('' @ itoa (int (hr_fresh r)) @ ''/'' @
                        itoa (int (length nodes)) @ '' child readings fresh)'')
                else if since \<le> producingWindow then
                  (if oh_Height mark = 0
                   then setNetworkCondition E net1 ConditionProducing ConditionFalse ''AwaitingFirstBlock''
                          (''no block committed yet; '' @ duration_string since @ '' of '' @
                           duration_string producingWindow @ '' grace window elapsed'')
                   else setNetworkCondition E net1 ConditionProducing ConditionTrue ''HeightAdvancing''
                          (unchanged_message '' unchanged for '' mark since r))
                else if CommitsOnDemand (sns_Consensus (sn_Spec net))
                then setNetworkCondition E net1 ConditionProducing ConditionFalse ''Idle''
                       (''engine commits only when transactions arrive (allowEmptyBlocks off); height '' @
                        itoa (oh_Height mark) @ '' unchanged for '' @ duration_string since)
                else setNetworkCondition E net1 ConditionProducing ConditionFalse ''HeightStalled''
                       (unchanged_message '' has not advanced for '' mark since r))"

subsection \<open>Phase, readiness and rollout\<close>

definition childReady :: "ext \<Rightarrow> SeiNode \<Rightarrow> bool" where
  "childReady E n \<longleftrightarrow>
     (if node_Phase n \<noteq> PhaseRunning then False
      else let engine = EffectiveExecutionEngine (node_Spec n)
           in if \<not> IsEvmOnly engine \<or> \<not> EvmHTTPEnabled engine then True
              else condition_true E n ConditionEvmServing)"

definition childNotServing :: "ext \<Rightarrow> SeiNode \<Rightarrow> bool" where
  "childNotServing E n \<longleftrightarrow> node_Phase n = PhaseRunning \<and> \<not> childReady E n"

definition count_if :: "('a \<Rightarrow> bool) \<Rightarrow> 'a list \<Rightarrow> int" where
  "count_if p xs = int (length (filter p xs))"

definition computeGroupPhase :: "ext \<Rightarrow> SeiNetwork \<Rightarrow> int \<Rightarrow> int \<Rightarrow> SeiNode list \<Rightarrow> SeiNetworkPhase" where
  "computeGroupPhase E net ready desired nodes =
     (if sn_Paused net then GroupPhasePaused
      else if hasConditionTrue E net ConditionPlanInProgress then GroupPhaseInitializing
      else if hasConditionReason E net ConditionGenesisCeremonyComplete ''CeremonyFailed'' then GroupPhaseFailed
      else if nodes = [] then GroupPhasePending
      else if ready = desired then GroupPhaseReady
      else let failed = count_if (\<lambda>n. node_Phase n = PhaseFailed) nodes;
               notServing = count_if (\<lambda>n. node_Phase n \<noteq> PhaseFailed \<and> childNotServing E n) nodes
           in if failed = int (length nodes) then GroupPhaseFailed
              else if (failed > 0 \<or> notServing > 0) \<and> ready > 0 then GroupPhaseDegraded
              else GroupPhaseInitializing)"

definition ready_ratio :: "int \<Rightarrow> int \<Rightarrow> string" where
  "ready_ratio ready desired = itoa ready @ ''/'' @ itoa desired @ '' nodes ready''"

definition setNodesReadyCondition :: "ext \<Rightarrow> int \<Rightarrow> int \<Rightarrow> SeiNode list \<Rightarrow> SeiNetwork \<Rightarrow> SeiNetwork" where
  "setNodesReadyCondition E ready desired nodes net =
     (let failed = count_if (\<lambda>n. node_Phase n = PhaseFailed) nodes;
          initializing = count_if (\<lambda>n. node_Phase n = PhasePending \<or> node_Phase n = PhaseInitializing) nodes;
          notServing = count_if (childNotServing E) nodes
      in if \<not> ready < desired
         then setNetworkCondition E net ConditionNodesReady ConditionTrue ''AllNodesReady'' (ready_ratio ready desired)
         else if failed > 0
         then setNetworkCondition E net ConditionNodesReady ConditionFalse ''NodesFailed''
                (ready_ratio ready desired @ '' ('' @ itoa failed @ '' failed, '' @ itoa initializing @ '' initializing)'')
         else if notServing > 0
         then setNetworkCondition E net ConditionNodesReady ConditionFalse ''NodesNotServing''
                (ready_ratio ready desired @ '' ('' @ itoa notServing @ '' running but not serving, '' @ itoa initializing @
                 '' initializing)'')
         else setNetworkCondition E net ConditionNodesReady ConditionFalse ''NodesInitializing''
                (ready_ratio ready desired @ '' ('' @ itoa initializing @ '' initializing)''))"

definition setRolloutInProgressCondition :: "ext \<Rightarrow> int \<Rightarrow> int \<Rightarrow> nat \<Rightarrow> SeiNetwork \<Rightarrow> SeiNetwork" where
  "setRolloutInProgressCondition E upToDate desired children net =
     (let msg = itoa upToDate @ ''/'' @ itoa desired @ '' replicas on spec.image''
      in if children > 0 \<and> upToDate < desired
         then setNetworkCondition E net ConditionRolloutInProgress ConditionTrue ''ImageRolling'' msg
         else setNetworkCondition E net ConditionRolloutInProgress ConditionFalse ''AllUpToDate'' msg)"

subsection \<open>Placement\<close>

definition pod_bound :: "ChildPod \<Rightarrow> bool" where
  "pod_bound p \<longleftrightarrow>
     \<not> (Mapping.lookup (cp_Labels p) ''sei.io/node'' = None \<or> Mapping.lookup (cp_Labels p) ''sei.io/node'' = Some [] \<or> cp_NodeName p = [] \<or> cp_Deleting p) \<and>
     \<not> (cp_Phase p = ''Succeeded'' \<or> cp_Phase p = ''Failed'')"

definition childWorkerNodes :: "nworld \<Rightarrow> netst \<Rightarrow> (string \<rightharpoonup> string) result" where
  "childWorkerNodes W s =
     (case nw_ListPods W (ns_Trace s) (sn_Namespace (ns_Net s)) (seinetworkSelector (ns_Net s)) of
        Inl e \<Rightarrow> Err (''listing child pods: '' @ api_text e)
      | Inr pods \<Rightarrow>
          Ok (fold (\<lambda>p m. if pod_bound p
                then (case Mapping.lookup (cp_Labels p) ''sei.io/node'' of None \<Rightarrow> m | Some name \<Rightarrow> m(name \<mapsto> cp_NodeName p)) else m)
              pods Map.empty))"

definition node_status_entry :: "ext \<Rightarrow> (string \<rightharpoonup> string) \<Rightarrow> SeiNode \<Rightarrow> GroupNodeStatus" where
  "node_status_entry E workers n =
     (let worker = (case workers (node_Name n) of None \<Rightarrow> [] | Some w \<Rightarrow> w)
      in \<lparr>gns_Name = node_Name n, gns_Phase = node_Phase n, gns_Ready = childReady E n,
          gns_CurrentImage = st_CurrentImage (node_Status n), gns_WorkerNode = worker,
          gns_Placement = (if worker \<noteq> [] then PlacementScheduled else PlacementPending)\<rparr>)"

subsection \<open>The status write\<close>

definition report_fields :: "ext \<Rightarrow> (string \<rightharpoonup> string) \<Rightarrow> ChildNode list \<Rightarrow> SeiNetwork \<Rightarrow> SeiNetwork" where
  "report_fields E workers children net =
     (let nodes = map ch_Node children; ready = count_if (childReady E) nodes
      in upd_net (\<lambda>st. st\<lparr>
           sst_ObservedGeneration := (if hasConditionTrue E net ConditionPlanInProgress
              then sst_ObservedGeneration st else sn_Generation net),
           sst_Replicas := sn_Replicas net, sst_ReadyReplicas := ready,
           sst_UpToDateReplicas := count_if (\<lambda>n. st_CurrentImage (node_Status n) = sns_Image (sn_Spec net)) nodes,
           sst_Nodes := map (node_status_entry E workers) nodes,
           sst_PerPodServices := populatePerPodServices E children,
           sst_Endpoints := composeEndpoints net nodes,
           sst_Phase := computeGroupPhase E net ready (sn_Replicas net) nodes\<rparr>) net)"

definition report :: "ext \<Rightarrow> go_time \<Rightarrow> (string \<rightharpoonup> string) \<Rightarrow> ChildNode list \<Rightarrow> SeiNetwork \<Rightarrow> SeiNetwork" where
  "report E now workers children net =
     (let nodes = map ch_Node children; net1 = report_fields E workers children net
      in setProducingCondition E nodes now
           (setRolloutInProgressCondition E (sst_UpToDateReplicas (sn_Status net1)) (sn_Replicas net) (length children)
             (setNodesReadyCondition E (sst_ReadyReplicas (sn_Status net1)) (sn_Replicas net) nodes net1)))"

definition write_report :: "ext \<Rightarrow> nworld \<Rightarrow> go_time \<Rightarrow> ChildNode list \<Rightarrow> net_step" where
  "write_report E W now children s =
     write_status W (on_net (report E now (case childWorkerNodes W s of Inl e \<Rightarrow> Map.empty | Inr m \<Rightarrow> m) children) s)"

definition updateStatus :: "ext \<Rightarrow> nworld \<Rightarrow> go_time \<Rightarrow> net_step" where
  "updateStatus E W now = with_children W [] (write_report E W now)"

subsection \<open>Deletion\<close>

definition retainReason :: string where
  "retainReason = ''SeiNetwork deleted with deletionPolicy=Retain; the data volume holds the '' @
     ''ceremony-generated consensus identity, which cannot be regenerated''"

definition drop_owner :: "SeiNetwork \<Rightarrow> OwnerReference list \<Rightarrow> OwnerReference list" where
  "drop_owner net refs = filter (\<lambda>r. or_UID r \<noteq> sn_UID net) refs"

definition retain_annotations :: "SeiNetwork \<Rightarrow> labels \<Rightarrow> labels" where
  "retain_annotations net a = Mapping.update RetainReasonAnnotation retainReason (Mapping.update RetainedFromAnnotation (sn_Name net) a)"

definition retained_node :: "SeiNetwork \<Rightarrow> ChildNode \<Rightarrow> ChildNode" where
  "retained_node net c =
     set_annotations (retain_annotations net (ch_Annotations c)) (c\<lparr>ch_Owners := drop_owner net (ch_Owners c)\<rparr>)"

definition retained_service :: "SeiNetwork \<Rightarrow> K8sService \<Rightarrow> K8sService" where
  "retained_service net v =
     v\<lparr>svc_Owners := drop_owner net (svc_Owners v), svc_Annotations := retain_annotations net (svc_Annotations v)\<rparr>"

definition orphan_child :: "nworld \<Rightarrow> ChildNode \<Rightarrow> net_step" where
  "orphan_child W c s =
     wrap_err (''orphaning SeiNode '' @ ch_Name c @ '': '') (do_call W (PatchNode c (retained_node (ns_Net s) c)) s)"

definition orphanChildSeiNodes :: "nworld \<Rightarrow> net_step" where
  "orphanChildSeiNodes W = with_children W [] (for_each (orphan_child W))"

definition orphanInternalService :: "nworld \<Rightarrow> net_step" where
  "orphanInternalService W s =
     (let net = ns_Net s
      in case nw_GetService W (ns_Trace s) (sn_Namespace net) (internalServiceName net) of
           Inl e \<Rightarrow> if IsNotFound e then (s, None) else (s, Some (''fetching internal Service for orphan: '' @ api_text e))
         | Inr v \<Rightarrow> wrap_err ''orphaning internal Service: '' (do_call W (PatchSvc v (retained_service net v)) s))"

definition cascades :: "DeletionPolicy \<Rightarrow> bool" where
  "cascades p \<longleftrightarrow> p = DeletionPolicyUnset \<or> p = DeletionPolicyDelete"

text \<open>The policy arms.  Retain is also the arm of a policy this build does not know.\<close>

definition release_children :: "nworld \<Rightarrow> net_step" where
  "release_children W s =
     (if cascades (sns_DeletionPolicy (sn_Spec (ns_Net s))) then (s, None)
      else case wrap_err ''orphaning child SeiNodes: '' (orphanChildSeiNodes W s) of
        (s1, Some e) \<Rightarrow> (s1, Some e)
      | (s1, None) \<Rightarrow> wrap_err ''orphaning internal Service: '' (orphanInternalService W s1))"

definition handleDeletion :: "nworld \<Rightarrow> net_step" where
  "handleDeletion W s =
     (if \<not> sn_Finalizer (ns_Net s) then (s, None)
      else case wrap_err ''setting terminating status: ''
               (write_status W (on_net (upd_net (\<lambda>st. st\<lparr>sst_Phase := GroupPhaseTerminating\<rparr>)) s)) of
        (s1, Some e) \<Rightarrow> (s1, Some e)
      | (s1, None) \<Rightarrow> and_then (release_children W s1) (write_finalizer W False))"

subsection \<open>Reconcile\<close>

definition ensureFinalizer :: "nworld \<Rightarrow> net_step" where
  "ensureFinalizer W s = (if sn_Finalizer (ns_Net s) then (s, None) else write_finalizer W True s)"

definition networkPollInterval :: duration where "networkPollInterval = 30 * 1000000000"

text \<open>Everything before the plan, in order.\<close>

definition sync_paused :: "ext \<Rightarrow> nworld \<Rightarrow> net_step" where
  "sync_paused E W s =
     wrap_err ''propagating paused state: ''
       (syncPausedToChildren W (sn_Paused (ns_Net s)) (on_net (seedAlwaysPresentConditions E) s))"

definition sync_service :: "ext \<Rightarrow> nworld \<Rightarrow> net_step" where
  "sync_service E W s = wrap_err ''reconciling internal RPC service: '' (reconcileInternalService E W s)"

definition sync_nodes :: "ext \<Rightarrow> nworld \<Rightarrow> net_step" where
  "sync_nodes E W s = wrap_err ''reconciling SeiNodes: '' (reconcileSeiNodes E W s)"

definition before_plan :: "ext \<Rightarrow> nworld \<Rightarrow> net_step" where
  "before_plan E W s =
     and_then (and_then (and_then (ensureFinalizer W s) (sync_paused E W)) (sync_service E W)) (sync_nodes E W)"

record net_result =
  nres_State :: netst
  nres_Requeue :: duration
  nres_Error :: "error option"

definition net_done :: "netst \<times> error option \<Rightarrow> duration \<Rightarrow> net_result" where
  "net_done r d = \<lparr>nres_State = fst r, nres_Requeue = (if snd r = None then d else 0), nres_Error = snd r\<rparr>"

definition reconcile_live ::
    "ext \<Rightarrow> PlatformConfig \<Rightarrow> nworld \<Rightarrow> go_time \<Rightarrow> string \<Rightarrow> netst \<Rightarrow> net_result" where
  "reconcile_live E P W now pid s =
     (case before_plan E W s of
        (s1, Some e) \<Rightarrow> net_done (s1, Some e) 0
      | (s1, None) \<Rightarrow> (case reconcilePlan E P W now pid s1 of
          (s2, d, Some e) \<Rightarrow> net_done (s2, Some (''reconciling plan: '' @ e)) 0
        | (s2, d, None) \<Rightarrow>
            net_done (wrap_err ''updating status: '' (updateStatus E W now s2)) (if d > 0 then d else networkPollInterval)))"

definition start_state :: "SeiNetwork \<Rightarrow> netst" where
  "start_state net = \<lparr>ns_Net = net, ns_Stored = net, ns_Trace = []\<rparr>"

text \<open>\<open>Reconcile\<close> on the object the first read returned; when there is none the reconcile ends at once.\<close>

definition reconcile_network ::
    "ext \<Rightarrow> PlatformConfig \<Rightarrow> nworld \<Rightarrow> go_time \<Rightarrow> string \<Rightarrow> SeiNetwork \<Rightarrow> net_result" where
  "reconcile_network E P W now pid net =
     (if sn_Deleting net then net_done (handleDeletion W (start_state net)) 0
      else reconcile_live E P W now pid (start_state net))"

definition podToSeiNetwork :: "string \<Rightarrow> labels \<Rightarrow> (string \<times> string) list" where
  "podToSeiNetwork namespace lbls =
     (case Mapping.lookup lbls seinetworkLabel of
        None \<Rightarrow> [] | Some name \<Rightarrow> if name = [] then [] else [(namespace, name)])"

text \<open>The predicates that decide which update events wake the network.\<close>

definition childPhaseChanged :: "ext \<Rightarrow> SeiNode \<Rightarrow> SeiNode \<Rightarrow> bool" where
  "childPhaseChanged E old new \<longleftrightarrow>
     node_Generation old \<noteq> node_Generation new \<or> node_Phase old \<noteq> node_Phase new \<or>
     condition_true E old ConditionEvmServing \<noteq> condition_true E new ConditionEvmServing \<or>
     st_Endpoint (node_Status old) \<noteq> st_Endpoint (node_Status new)"

definition podPlacementChanged :: "ChildPod \<Rightarrow> ChildPod \<Rightarrow> bool" where
  "podPlacementChanged old new \<longleftrightarrow>
     cp_NodeName old \<noteq> cp_NodeName new \<or> cp_Phase old \<noteq> cp_Phase new \<or> cp_Deleting old \<noteq> cp_Deleting new"

end
