(* ===== verification/NetworkSteps.thy ===== *)
theory NetworkSteps
  imports NetworkReconcile
begin

text \<open>
  How the steps of the SeiNetwork controller compose.  The locale \<open>step_relation\<close> states what a relation between the
  states before and after a step needs so that early returns and loops keep it; it is interpreted on the frame of the
  steps that only talk to the API server.  The locale \<open>owner_references\<close> states what the owner-reference helpers of
  apimachinery and controller-runtime document.
\<close>

subsection \<open>Step relations\<close>

locale step_relation =
  fixes R :: "netst \<Rightarrow> netst \<Rightarrow> bool"
  assumes rel_refl: "R s s"
    and rel_trans: "R s t \<Longrightarrow> R t u \<Longrightarrow> R s u"
begin

lemma rel_and_then:
  assumes "R s (fst r)" and "\<And>t. r = (t, None) \<Longrightarrow> R t (fst (f t))"
  shows "R s (fst (and_then r f))"
proof (cases r)
  case (Pair t e)
  then show ?thesis using assms rel_trans[of s t] by (cases e) (auto simp: and_then_def)
qed

lemma rel_for_each: "(\<And>x t. x \<in> set xs \<Longrightarrow> R t (fst (f x t))) \<Longrightarrow> R s (fst (for_each f xs s))"
proof (induction xs arbitrary: s)
  case Nil
  then show ?case by (simp add: rel_refl)
next
  case (Cons x xs)
  then show ?case by (auto intro!: rel_and_then)
qed

lemma rel_wrap: "R s (fst r) \<Longrightarrow> R s (fst (wrap_err pre r))"
  by (simp add: wrap_err_def)

lemma rel_with_children:
  "(\<And>cs. listChildSeiNodes W s = Inr cs \<Longrightarrow> R s (fst (f cs s))) \<Longrightarrow> R s (fst (with_children W pre f s))"
  by (auto simp: with_children_def rel_refl split: sum.splits)

end

text \<open>A step that changes neither object and makes only the calls \<open>Q\<close> allows.\<close>

definition quiet :: "(SeiNetwork \<Rightarrow> net_event \<Rightarrow> bool) \<Rightarrow> netst \<Rightarrow> netst \<Rightarrow> bool" where
  "quiet Q s s' \<longleftrightarrow> ns_Net s' = ns_Net s \<and> ns_Stored s' = ns_Stored s \<and>
     (\<exists>new. ns_Trace s' = new @ ns_Trace s \<and> (\<forall>e \<in> set new. Q (ns_Net s) e))"

interpretation quiet: step_relation "quiet Q" for Q
proof unfold_locales
  show "quiet Q s s" for s by (simp add: quiet_def)
  show "quiet Q s u" if st: "quiet Q s t" and tu: "quiet Q t u" for s t u
  proof -
    from st obtain a where a: "ns_Trace t = a @ ns_Trace s" "\<forall>e \<in> set a. Q (ns_Net s) e" and
      eq: "ns_Net t = ns_Net s" "ns_Stored t = ns_Stored s" by (auto simp: quiet_def)
    from tu eq obtain b where b: "ns_Trace u = b @ ns_Trace t" "\<forall>e \<in> set b. Q (ns_Net s) e" and
      equ: "ns_Net u = ns_Net s" "ns_Stored u = ns_Stored s" by (auto simp: quiet_def)
    have "ns_Trace u = (b @ a) @ ns_Trace s" "\<forall>e \<in> set (b @ a). Q (ns_Net s) e" using a b by auto
    then show ?thesis using equ unfolding quiet_def by blast
  qed
qed

lemma quiet_call: "Q (ns_Net s) ev \<Longrightarrow> quiet Q s (fst (net_call W ev s))"
  by (simp add: quiet_def net_call_def)

lemma quiet_do_call: "Q (ns_Net s) ev \<Longrightarrow> quiet Q s (fst (do_call W ev s))"
  using quiet_call[of Q s ev W] by (cases "net_call W ev s") (simp add: do_call_def)

lemma quiet_do_delete: "Q (ns_Net s) (DeleteNode c) \<Longrightarrow> quiet Q s (fst (do_delete W c s))"
  using quiet_call[of Q s "DeleteNode c" W] by (auto simp: do_delete_def split: prod.splits option.splits)

lemma quiet_mono: "quiet Q s s' \<Longrightarrow> (\<And>e. Q (ns_Net s) e \<Longrightarrow> Q' (ns_Net s) e) \<Longrightarrow> quiet Q' s s'"
  unfolding quiet_def by blast

lemmas quiet_intros = quiet.rel_refl quiet.rel_wrap quiet_do_call quiet_do_delete

subsection \<open>Owner references\<close>

locale owner_references =
  fixes get_controller :: "OwnerReference list \<Rightarrow> OwnerReference option"
    and is_controlled :: "OwnerReference list \<Rightarrow> string \<Rightarrow> bool"
    and set_controller :: "SeiNetwork \<Rightarrow> OwnerReference list \<Rightarrow> OwnerReference list result"
  assumes controlled_iff: "is_controlled refs uid \<longleftrightarrow> (\<exists>r. get_controller refs = Some r \<and> or_UID r = uid)"
    and set_controls: "set_controller net refs = Inr refs' \<Longrightarrow> is_controlled refs' (sn_UID net)"

abbreviation owner_laws :: "nworld \<Rightarrow> bool" where
  "owner_laws W \<equiv> owner_references (nw_GetControllerOf W) (nw_IsControlledBy W) (nw_SetControllerReference W)"

text \<open>The documented algorithm: the reference to the same kind and name is replaced, another controller is an error.\<close>

definition ref_get_controller :: "OwnerReference list \<Rightarrow> OwnerReference option" where
  "ref_get_controller refs = find or_Controller refs"

definition ref_is_controlled :: "OwnerReference list \<Rightarrow> string \<Rightarrow> bool" where
  "ref_is_controlled refs uid \<longleftrightarrow> (case ref_get_controller refs of None \<Rightarrow> False | Some r \<Rightarrow> or_UID r = uid)"

definition network_ref :: "SeiNetwork \<Rightarrow> OwnerReference" where
  "network_ref net = \<lparr>or_Kind = ''SeiNetwork'', or_Name = sn_Name net, or_UID = sn_UID net, or_Controller = True\<rparr>"

definition same_owner :: "SeiNetwork \<Rightarrow> OwnerReference \<Rightarrow> bool" where
  "same_owner net r \<longleftrightarrow> or_Kind r = ''SeiNetwork'' \<and> or_Name r = sn_Name net"

definition ref_set_controller :: "SeiNetwork \<Rightarrow> OwnerReference list \<Rightarrow> OwnerReference list result" where
  "ref_set_controller net refs =
     (case find or_Controller refs of
        Some r \<Rightarrow> if same_owner net r then Ok (map (\<lambda>x. if same_owner net x then network_ref net else x) refs)
                  else Err ''object is already owned by another controller''
      | None \<Rightarrow> Ok (filter (\<lambda>x. \<not> same_owner net x) refs @ [network_ref net]))"

lemma find_replaced:
  "find or_Controller refs = Some r \<Longrightarrow> same_owner net r \<Longrightarrow>
   find or_Controller (map (\<lambda>x. if same_owner net x then network_ref net else x) refs) = Some (network_ref net)"
  by (induction refs) (auto simp: network_ref_def split: if_splits)

lemma find_appended:
  "find or_Controller refs = None \<Longrightarrow>
   find or_Controller (filter (\<lambda>x. \<not> same_owner net x) refs @ [network_ref net]) = Some (network_ref net)"
  by (induction refs) (auto simp: network_ref_def split: if_splits)

interpretation ref_owners: owner_references ref_get_controller ref_is_controlled ref_set_controller
proof unfold_locales
  show "ref_is_controlled refs uid \<longleftrightarrow> (\<exists>r. ref_get_controller refs = Some r \<and> or_UID r = uid)" for refs uid
    by (simp add: ref_is_controlled_def split: option.splits)
  show "ref_is_controlled refs' (sn_UID net)" if "ref_set_controller net refs = Inr refs'" for net refs refs'
    using that find_replaced[of refs _ net] find_appended[of refs net]
    by (auto simp: ref_set_controller_def ref_is_controlled_def ref_get_controller_def network_ref_def
        split: option.splits if_splits)
qed

subsection \<open>What each step may do to the children\<close>

definition gate_open :: "ext \<Rightarrow> SeiNetwork \<Rightarrow> bool" where
  "gate_open E net \<longleftrightarrow> \<not> sn_Deleting net \<and> \<not> sn_Paused net \<and> \<not> hasConditionTrue E net ConditionPlanInProgress"

text \<open>The fields of an existing child that the controller never writes.\<close>

definition create_only :: "ChildNode \<Rightarrow> ChildNode \<Rightarrow> bool" where
  "create_only c c' \<longleftrightarrow>
     ch_Name c' = ch_Name c \<and> spec_Peers (ch_Spec c') = spec_Peers (ch_Spec c) \<and>
     spec_DataVolume (ch_Spec c') = spec_DataVolume (ch_Spec c) \<and> spec_Resources (ch_Spec c') = spec_Resources (ch_Spec c) \<and>
     spec_Consensus (ch_Spec c') = spec_Consensus (ch_Spec c) \<and> spec_ExecutionEngine (ch_Spec c') = spec_ExecutionEngine (ch_Spec c) \<and>
     spec_Validator (ch_Spec c') = spec_Validator (ch_Spec c) \<and> node_Status (ch_Node c') = node_Status (ch_Node c)"

definition pause_write :: "nworld \<Rightarrow> SeiNetwork \<Rightarrow> ChildNode \<Rightarrow> ChildNode \<Rightarrow> bool" where
  "pause_write W net c c' \<longleftrightarrow>
     nw_IsControlledBy W (ch_Owners c) (sn_UID net) \<and> c' = upd_cspec (\<lambda>sp. sp\<lparr>spec_Paused := sn_Paused net\<rparr>) c"

definition sync_write :: "nworld \<Rightarrow> SeiNetwork \<Rightarrow> ChildNode \<Rightarrow> ChildNode \<Rightarrow> bool" where
  "sync_write W net c c' \<longleftrightarrow>
     \<not> ch_Deleting c \<and> create_only c c' \<and> nw_IsControlledBy W (ch_Owners c') (sn_UID net) \<and>
     (nw_GetControllerOf W (ch_Owners c) = None \<or> nw_IsControlledBy W (ch_Owners c) (sn_UID net))"

definition fresh_child :: "nworld \<Rightarrow> SeiNetwork \<Rightarrow> ChildNode \<Rightarrow> bool" where
  "fresh_child W net c \<longleftrightarrow>
     (\<exists>i < nat (sn_Replicas net). ch_Name c = seiNodeName net i \<and> ch_Labels c = seiNodeLabels net i) \<and>
     nw_IsControlledBy W (ch_Owners c) (sn_UID net)"

definition scale_down_delete :: "nworld \<Rightarrow> SeiNetwork \<Rightarrow> ChildNode \<Rightarrow> bool" where
  "scale_down_delete W net c \<longleftrightarrow>
     nw_IsControlledBy W (ch_Owners c) (sn_UID net) \<and> 0 < sn_Replicas net \<and> excess_ordinal (sn_Replicas net) c"

fun mutation_allowed :: "nworld \<Rightarrow> SeiNetwork \<Rightarrow> net_event \<Rightarrow> bool" where
  "mutation_allowed W net (CreateNode c) = fresh_child W net c"
| "mutation_allowed W net (UpdateNode c c') = sync_write W net c c'"
| "mutation_allowed W net (DeleteNode c) = scale_down_delete W net c"
| "mutation_allowed W net _ = False"

fun pause_allowed :: "nworld \<Rightarrow> SeiNetwork \<Rightarrow> net_event \<Rightarrow> bool" where
  "pause_allowed W net (UpdateNode c c') = pause_write W net c c'"
| "pause_allowed W net _ = False"

lemma listChild_controlled:
  "listChildSeiNodes W s = Inr cs \<Longrightarrow> c \<in> set cs \<Longrightarrow> nw_IsControlledBy W (ch_Owners c) (sn_UID (ns_Net s))"
  by (auto simp: listChildSeiNodes_def Let_def split: sum.splits)

text \<open>An invariant of one state that every step in a loop needs is an invariant of the loop: the object in memory.\<close>

lemma quiet_for_each:
  assumes "\<And>x t. x \<in> set xs \<Longrightarrow> ns_Net t = ns_Net s \<Longrightarrow> quiet Q t (fst (f x t))"
  shows "quiet Q s (fst (for_each f xs s))"
proof -
  have "ns_Net t = ns_Net s \<Longrightarrow> set ys \<subseteq> set xs \<Longrightarrow> quiet Q t (fst (for_each f ys t))" for ys t
  proof (induction ys arbitrary: t)
    case Nil
    then show ?case by (simp add: quiet.rel_refl)
  next
    case (Cons y ys)
    have y: "quiet Q t (fst (f y t))" using Cons.prems assms by auto
    then have "ns_Net (fst (f y t)) = ns_Net s" using Cons.prems by (simp add: quiet_def)
    then show ?case using Cons y by (auto intro!: quiet.rel_and_then)
  qed
  then show ?thesis by blast
qed

lemma syncPaused_quiet:
  assumes "desired = sn_Paused (ns_Net s)"
  shows "quiet (pause_allowed W) s (fst (syncPausedToChildren W desired s))"
  unfolding syncPausedToChildren_def
proof (rule quiet.rel_with_children, rule quiet_for_each)
  fix cs c and t :: netst
  assume cs: "listChildSeiNodes W s = Inr cs" and c: "c \<in> set cs" and t: "ns_Net t = ns_Net s"
  from listChild_controlled[OF cs c] show "quiet (pause_allowed W) t (fst (sync_paused_child W desired c t))"
    using assms t by (auto simp: sync_paused_child_def pause_write_def intro!: quiet_intros)
qed

lemma adopt_child_owners:
  assumes "owner_laws W" and "adopt_child W net c = Inr (c', u)"
  shows "nw_IsControlledBy W (ch_Owners c') (sn_UID net)"
    and "nw_GetControllerOf W (ch_Owners c) = None \<or> nw_IsControlledBy W (ch_Owners c) (sn_UID net)"
    and "ch_Node c' = ch_Node c"
  using assms(2) owner_references.controlled_iff[OF assms(1)] owner_references.set_controls[OF assms(1), of net]
  by (auto simp: adopt_child_def split: option.splits sum.splits if_splits)

lemma sync_when_create_only:
  assumes "\<And>c. create_only c (snd cf c)" and "\<And>c. ch_Owners (snd cf c) = ch_Owners c"
    and "create_only c0 (fst r)"
  shows "create_only c0 (fst (sync_when cf r)) \<and> ch_Owners (fst (sync_when cf r)) = ch_Owners (fst r)"
  using assms(1,2)[of "fst r"] assms(3) by (auto simp: sync_when_def create_only_def)

lemma fold_sync_create_only:
  assumes "\<And>cf c. cf \<in> set cfs \<Longrightarrow> create_only c (snd cf c) \<and> ch_Owners (snd cf c) = ch_Owners c"
    and "create_only c0 (fst r)"
  shows "create_only c0 (fst (fold sync_when cfs r)) \<and> ch_Owners (fst (fold sync_when cfs r)) = ch_Owners (fst r)"
  using assms
proof (induction cfs arbitrary: r)
  case Nil
  then show ?case by simp
next
  case (Cons cf cfs)
  have "create_only c0 (fst (sync_when cf r)) \<and> ch_Owners (fst (sync_when cf r)) = ch_Owners (fst r)"
    using Cons.prems by (intro sync_when_create_only) auto
  then show ?case using Cons.IH[of "sync_when cf r"] Cons.prems(1) by simp
qed

lemma sync_child_create_only:
  assumes "create_only c0 (fst r)"
  shows "create_only c0 (fst (sync_child W b c d r)) \<and> ch_Owners (fst (sync_child W b c d r)) = ch_Owners (fst r)"
  unfolding sync_child_def Let_def
  by (rule fold_sync_create_only[OF _ assms]) (auto simp: create_only_def upd_cspec_def set_annotations_def)

lemma ensure_existing_quiet:
  assumes "owner_laws W"
  shows "quiet (mutation_allowed W) s (fst (ensure_existing E W c d s))"
proof (cases "ch_Deleting c \<or> (\<exists>e. adopt_child W (ns_Net s) c = Inl e)")
  case True
  then show ?thesis by (auto simp: ensure_existing_def quiet.rel_refl)
next
  case False
  then obtain c1 u where ad: "adopt_child W (ns_Net s) c = Inr (c1, u)" and live: "\<not> ch_Deleting c"
    by (metis sum.exhaust surj_pair)
  obtain c2 v where sc: "sync_child W (configValuesRejected E (ns_Net s)) c d (c1, u) = (c2, v)" by (metis surj_pair)
  have "create_only c c1" using adopt_child_owners(3)[OF assms ad] by (simp add: create_only_def)
  then have "create_only c c2 \<and> ch_Owners c2 = ch_Owners c1"
    using sync_child_create_only[of c "(c1, u)" W "configValuesRejected E (ns_Net s)" c d] sc by simp
  then have "sync_write W (ns_Net s) c c2"
    using adopt_child_owners(1,2)[OF assms ad] live by (simp add: sync_write_def)
  then show ?thesis using live by (auto simp: ensure_existing_def ad sc intro: quiet_intros)
qed

lemma ensureSeiNode_quiet:
  assumes "owner_laws W" and "i < nat (sn_Replicas (ns_Net s))"
  shows "quiet (mutation_allowed W) s (fst (ensureSeiNode E W i s))"
proof -
  have fresh: "fresh_child W (ns_Net s) ((desired_child E (ns_Net s) i)\<lparr>ch_Owners := owners\<rparr>)"
    if "nw_SetControllerReference W (ns_Net s) (ch_Owners (desired_child E (ns_Net s) i)) = Inr owners" for owners
    using owner_references.set_controls[OF assms(1) that] assms(2)
    by (auto simp: fresh_child_def desired_child_def generateSeiNode_def upd_cspec_def)
  then show ?thesis
    by (auto simp: ensureSeiNode_def Let_def split: sum.splits
        intro!: quiet_do_call quiet.rel_refl ensure_existing_quiet[OF assms(1)])
qed

lemma scaleDown_quiet: "quiet (mutation_allowed W) s (fst (scaleDown W s))"
proof (cases "sn_Replicas (ns_Net s) \<le> 0 \<or>
    (\<exists>e. nw_ListNodes W (ns_Trace s) (sn_Namespace (ns_Net s)) (seinetworkSelector (ns_Net s)) = Inl e)")
  case True
  then show ?thesis by (auto simp: scaleDown_def Let_def quiet.rel_refl)
next
  case False
  then obtain nodes where nodes:
      "nw_ListNodes W (ns_Trace s) (sn_Namespace (ns_Net s)) (seinetworkSelector (ns_Net s)) = Inr nodes"
    and pos: "0 < sn_Replicas (ns_Net s)" by (metis not_le sum.exhaust)
  have "quiet (mutation_allowed W) t (fst (scale_down_child W c t))" if "ns_Net t = ns_Net s" for c t
    using pos that by (auto simp: scale_down_child_def scale_down_delete_def intro!: quiet_intros)
  then have "quiet (mutation_allowed W) s (fst (for_each (scale_down_child W) nodes s))" by (intro quiet_for_each)
  then show ?thesis using pos nodes by (simp add: scaleDown_def Let_def)
qed

lemma mutate_children_quiet:
  assumes "owner_laws W"
  shows "quiet (mutation_allowed W) s (fst (mutate_children E W s))"
  unfolding mutate_children_def
  by (rule quiet.rel_and_then, rule quiet_for_each)
     (auto simp: ensure_ordinal_def intro!: quiet.rel_wrap ensureSeiNode_quiet[OF assms] scaleDown_quiet)

end
