(* ===== verification/NetworkGates.thy ===== *)
theory NetworkGates
  imports NetworkSteps
begin

text \<open>
  Which writes to its children a SeiNetwork may make: the gate that a paused network and a running plan close, the
  deletes of a scale-down and of a lost ceremony, and the two arms of the deletion policy.
\<close>

subsection \<open>Conditions of the network in memory\<close>

lemma hasConditionTrue_cond: "hasConditionTrue E net ty = cond_true E (sn_Conditions net) ty"
  by (simp add: hasConditionTrue_def cond_true_def)

lemma hasConditionReason_cond: "hasConditionReason E net ty r \<longleftrightarrow> cond_reason E (sn_Conditions net) ty = Some r"
  by (auto simp: hasConditionReason_def cond_reason_def split: option.splits)

lemma setNetworkCondition_frame [simp]:
  "sn_Name (setNetworkCondition E net ty st re ms) = sn_Name net"
  "sn_Namespace (setNetworkCondition E net ty st re ms) = sn_Namespace net"
  "sn_UID (setNetworkCondition E net ty st re ms) = sn_UID net"
  "sn_Generation (setNetworkCondition E net ty st re ms) = sn_Generation net"
  "sn_CreationTimestamp (setNetworkCondition E net ty st re ms) = sn_CreationTimestamp net"
  "sn_Deleting (setNetworkCondition E net ty st re ms) = sn_Deleting net"
  "sn_Finalizer (setNetworkCondition E net ty st re ms) = sn_Finalizer net"
  "sn_Spec (setNetworkCondition E net ty st re ms) = sn_Spec net"
  "sn_Plan (setNetworkCondition E net ty st re ms) = sn_Plan net"
  "sst_IncumbentNodes (sn_Status (setNetworkCondition E net ty st re ms)) = sst_IncumbentNodes (sn_Status net)"
  "sst_ObservedHeight (sn_Status (setNetworkCondition E net ty st re ms)) = sst_ObservedHeight (sn_Status net)"
  "sst_Phase (sn_Status (setNetworkCondition E net ty st re ms)) = sst_Phase (sn_Status net)"
  by (simp_all add: setNetworkCondition_def)

lemma hasConditionTrue_set:
  assumes "cond_laws E"
  shows "hasConditionTrue E (setNetworkCondition E net ty st re ms) ty' \<longleftrightarrow>
    (if ty' = ty then st = ConditionTrue else hasConditionTrue E net ty')"
  using cond_true_set[OF assms] by (simp add: hasConditionTrue_cond setNetworkCondition_def)

lemma hasConditionReason_set:
  assumes "cond_laws E"
  shows "hasConditionReason E (setNetworkCondition E net ty st re ms) ty' r \<longleftrightarrow>
    (if ty' = ty then re = r else hasConditionReason E net ty' r)"
  using cond_reason_set[OF assms] by (auto simp: hasConditionReason_cond setNetworkCondition_def)

lemma seedIfAbsent_true:
  assumes "cond_laws E"
  shows "hasConditionTrue E (seedConditionIfAbsent E ty re ms net) ty' \<longleftrightarrow> hasConditionTrue E net ty'"
  using hasConditionTrue_set[OF assms, of net ty ConditionFalse re ms ty']
  by (auto simp: seedConditionIfAbsent_def hasConditionTrue_def)

lemma seedIfAbsent_frame [simp]:
  "sn_Name (seedConditionIfAbsent E ty re ms net) = sn_Name net"
  "sn_Namespace (seedConditionIfAbsent E ty re ms net) = sn_Namespace net"
  "sn_UID (seedConditionIfAbsent E ty re ms net) = sn_UID net"
  "sn_CreationTimestamp (seedConditionIfAbsent E ty re ms net) = sn_CreationTimestamp net"
  "sn_Deleting (seedConditionIfAbsent E ty re ms net) = sn_Deleting net"
  "sn_Spec (seedConditionIfAbsent E ty re ms net) = sn_Spec net"
  "sn_Plan (seedConditionIfAbsent E ty re ms net) = sn_Plan net"
  "sst_IncumbentNodes (sn_Status (seedConditionIfAbsent E ty re ms net)) = sst_IncumbentNodes (sn_Status net)"
  by (simp_all add: seedConditionIfAbsent_def)

subsection \<open>What a step keeps of the object\<close>

text \<open>The part of the object that decides what the reconcile may do to the children.\<close>

definition view :: "ext \<Rightarrow> SeiNetwork \<Rightarrow>
    string \<times> string \<times> string \<times> go_time \<times> bool \<times> SeiNetworkSpec \<times> TaskPlan option \<times> bool \<times> bool" where
  "view E net = (sn_Name net, sn_Namespace net, sn_UID net, sn_CreationTimestamp net, sn_Deleting net, sn_Spec net,
     sn_Plan net, hasConditionTrue E net ConditionPlanInProgress, hasConditionTrue E net ConditionGenesisCeremonyComplete)"

definition follows :: "ext \<Rightarrow> SeiNetwork \<Rightarrow> (net_event \<Rightarrow> bool) \<Rightarrow> netst \<Rightarrow> netst \<Rightarrow> bool" where
  "follows E net Q s s' \<longleftrightarrow>
     (view E (ns_Net s) = view E net \<longrightarrow>
        view E (ns_Net s') = view E net \<and> (\<exists>new. ns_Trace s' = new @ ns_Trace s \<and> (\<forall>e \<in> set new. Q e)))"

interpretation follows: step_relation "follows E net Q" for E net Q
proof unfold_locales
  show "follows E net Q s s" for s by (simp add: follows_def)
  show "follows E net Q s u" if st: "follows E net Q s t" and tu: "follows E net Q t u" for s t u
    unfolding follows_def
  proof
    assume v: "view E (ns_Net s) = view E net"
    with st obtain a where a: "view E (ns_Net t) = view E net" "ns_Trace t = a @ ns_Trace s" "\<forall>e \<in> set a. Q e"
      by (auto simp: follows_def)
    with tu obtain b where b: "view E (ns_Net u) = view E net" "ns_Trace u = b @ ns_Trace t" "\<forall>e \<in> set b. Q e"
      by (auto simp: follows_def)
    from a b have "ns_Trace u = (b @ a) @ ns_Trace s" "\<forall>e \<in> set (b @ a). Q e" by auto
    with b(1) show "view E (ns_Net u) = view E net \<and> (\<exists>new. ns_Trace u = new @ ns_Trace s \<and> (\<forall>e \<in> set new. Q e))"
      by blast
  qed
qed

lemma follows_quiet:
  assumes "quiet Q' s s'" and "\<And>e. view E (ns_Net s) = view E net \<Longrightarrow> Q' (ns_Net s) e \<Longrightarrow> Q e"
  shows "follows E net Q s s'"
  using assms unfolding quiet_def follows_def by fastforce

lemma follows_on_net: "view E (f (ns_Net s)) = view E (ns_Net s) \<Longrightarrow> follows E net Q s (on_net f s)"
  by (simp add: follows_def on_net_def)

lemma follows_do_call: "Q ev \<Longrightarrow> follows E net Q s (fst (do_call W ev s))"
  by (rule follows_quiet[where Q' = "\<lambda>_. Q"]) (auto intro: quiet_do_call)

lemma follows_log: "Q ev \<Longrightarrow> follows E net Q s (s\<lparr>ns_Trace := ev # ns_Trace s\<rparr>)"
  by (simp add: follows_def)

lemma follows_events:
  "follows E net Q s s' \<Longrightarrow> view E (ns_Net s) = view E net \<Longrightarrow> e \<in> set (ns_Trace s') \<Longrightarrow> e \<in> set (ns_Trace s) \<or> Q e"
  by (auto simp: follows_def)

subsection \<open>What a running plan writes\<close>

text \<open>The nodes a collect-and-set-peers task names.\<close>

definition peer_targets :: "TaskParams \<Rightarrow> string list" where
  "peer_targets p = (case p of GroupParams g ns names \<Rightarrow> names | AwaitNodesParams g ns k names \<Rightarrow> names | _ \<Rightarrow> [])"

text \<open>The calls a task of the given type and parameters may make, as far as they write another node: a patch of the peers
  of a node the task names, or of the image of the node it names.\<close>

fun task_write :: "TaskType \<Rightarrow> TaskParams \<Rightarrow> call \<Rightarrow> bool" where
  "task_write ty p (PatchPeers name peers) \<longleftrightarrow> ty = CollectAndSetPeers \<and> name \<in> set (peer_targets p)"
| "task_write ty p (PatchImage name img) \<longleftrightarrow> ty = UpdateNodeImage \<and> (\<exists>ns. updateNodeImage_params p = Inr (name, ns, img))"
| "task_write ty p _ \<longleftrightarrow> True"

definition planned_write :: "TaskPlan \<Rightarrow> call \<Rightarrow> bool" where
  "planned_write plan c \<longleftrightarrow> (\<exists>t \<in> set (plan_Tasks plan). task_write (pt_Type t) (pt_Params t) c)"

text \<open>What the executor needs of task executions to keep a plan's calls within what its tasks may do.\<close>

locale bounded_executions =
  fixes X :: executions and may :: "TaskType \<Rightarrow> TaskParams \<Rightarrow> call \<Rightarrow> bool"
  assumes Execute_calls: "c \<in> set (xs_Calls (fst (ex_Execute X ty tid p s))) \<Longrightarrow> c \<in> set (xs_Calls s) \<or> may ty p c"
begin

definition bounded_run :: "run \<Rightarrow> run \<Rightarrow> bool" where
  "bounded_run r0 r \<longleftrightarrow>
     map task_key (plan_Tasks (run_plan r)) = map task_key (plan_Tasks (run_plan r0)) \<and>
     (\<forall>c \<in> set (xs_Calls (run_state r)). c \<in> set (xs_Calls (run_state r0)) \<or>
        (\<exists>t \<in> set (plan_Tasks (run_plan r0)). may (pt_Type t) (pt_Params t) c))"

lemma bounded_exec:
  assumes inv: "bounded_run r0 r" and i: "i < length (plan_Tasks (run_plan r))"
    and es: "exec_state X (plan_Tasks (run_plan r) ! i) (run_state r) s"
    and u: "task_key u = task_key (plan_Tasks (run_plan r) ! i)"
  shows "bounded_run r0 (at_task i u s r)"
proof -
  let ?t = "plan_Tasks (run_plan r) ! i"
  have "map task_key ((plan_Tasks (run_plan r))[i := u]) = map task_key (plan_Tasks (run_plan r))"
    using u i by (simp add: map_update list_update_same_conv)
  then have keys: "map task_key (plan_Tasks (run_plan (at_task i u s r))) = map task_key (plan_Tasks (run_plan r0))"
    using inv by (simp add: bounded_run_def)
  have "task_key ?t \<in> task_key ` set (plan_Tasks (run_plan r0))"
    using inv i unfolding bounded_run_def by (metis image_eqI image_set nth_mem)
  then obtain t where t: "t \<in> set (plan_Tasks (run_plan r0))" "pt_Type t = pt_Type ?t" "pt_Params t = pt_Params ?t"
    by (auto simp: task_key_def)
  have "c \<in> set (xs_Calls (run_state r)) \<or> may (pt_Type t) (pt_Params t) c" if "c \<in> set (xs_Calls s)" for c
    using es that Execute_calls t(2,3) unfolding exec_state_def by metis
  then show ?thesis using inv keys t(1) unfolding bounded_run_def by fastforce
qed

lemma bounded_complete: "bounded_run r0 r \<Longrightarrow> bounded_run r0 (complete_plan now r)"
  by (simp add: bounded_run_def complete_plan_def Let_def setTargetPhase_def upd_node_def)

lemma bounded_stop:
  assumes inv: "bounded_run r0 r" and cur: "CurrentTask (run_plan r) = Some i" and adv: "advanceTask X now i r = (r', d)"
  shows "bounded_run r0 r'"
proof -
  from cur have i: "i < length (plan_Tasks (run_plan r))" by (simp add: CurrentTask_Some)
  note kept = bounded_exec[OF inv i]
  from i show ?thesis
  proof (cases rule: advanceTask_cases[where X = X and now = now, consumes 1])
    case (waiting u s)
    then show ?thesis using adv kept[of s u] by (auto simp: task_key_def)
  next
    case (completed u s)
    then show ?thesis using adv kept[of s "u\<lparr>pt_Status := TaskComplete\<rparr>"] by (auto simp: task_key_def)
  next
    case (retry u s)
    then show ?thesis using adv kept[of s "retried u"] by (auto simp: task_key_def retried_def)
  next
    case (failed e u s)
    let ?q = "at_task i u s r"
    have "bounded_run r0 ?q" using failed kept[of s u] by (auto simp: task_key_def)
    moreover have "map task_key (plan_Tasks (run_plan r')) = map task_key (plan_Tasks (run_plan ?q))"
      using failed(3) adv i by (auto simp: failTask_def Let_def task_key_def map_update list_update_same_conv)
    moreover have "xs_Calls (run_state r') = xs_Calls (run_state ?q)"
      using failed(3) adv by (auto simp: failTask_def Let_def setTargetPhase_def upd_node_def)
    ultimately show ?thesis by (simp add: bounded_run_def)
  qed
qed

lemma executePlan_within: "bounded_run r (fst (executePlan X now r))"
proof (cases "plan_Phase (run_plan r)")
  case TaskPlanActive
  let ?r = "r\<lparr>run_active := run_active r + 1\<rparr>"
  have "bounded_run r ?r" by (simp add: bounded_run_def)
  then have "(\<exists>q. bounded_run r q \<and> CurrentTask (run_plan q) = None \<and>
              run_loop X now ?r = (complete_plan now q, ResultRequeueImmediate)) \<or>
         (\<exists>q i r' d. bounded_run r q \<and> CurrentTask (run_plan q) = Some i \<and> advanceTask X now i q = (r', d) \<and>
              pt_Status (plan_Tasks (run_plan r') ! i) \<noteq> TaskComplete \<and> run_loop X now ?r = (r', d))"
    by (rule run_loop_outcome) (auto intro!: bounded_exec simp: CurrentTask_Some task_key_def)
  then show ?thesis using TaskPlanActive bounded_complete bounded_stop by (auto simp: executePlan_def)
qed (simp_all add: executePlan_def bounded_run_def)

end

text \<open>A change of the owner's state whose new calls all satisfy \<open>Q\<close>.\<close>

definition calls_within :: "(call \<Rightarrow> bool) \<Rightarrow> xstate \<Rightarrow> xstate \<Rightarrow> bool" where
  "calls_within Q s s' \<longleftrightarrow> (\<forall>c \<in> set (xs_Calls s'). c \<in> set (xs_Calls s) \<or> Q c)"

lemma calls_within_intros:
  "calls_within Q s s" "Q c \<Longrightarrow> calls_within Q s (log_call c s)" "calls_within Q s (upd_node f s)"
  by (auto simp: calls_within_def log_call_def upd_node_def)

lemma calls_within_trans: "calls_within Q a b \<Longrightarrow> calls_within Q b c \<Longrightarrow> calls_within Q a c"
  by (auto simp: calls_within_def)

lemma calls_within_then:
  "calls_within Q s s' \<Longrightarrow> Q c \<Longrightarrow> calls_within Q s (log_call c s')" "calls_within Q s s' \<Longrightarrow> calls_within Q s (upd_node f s')"
  by (auto simp: calls_within_def log_call_def upd_node_def)

lemma outcome_calls [simp]: "fst (done_with s) = s" "fst (still_running s) = s" "fst (give_up s e) = s"
  by (simp_all add: done_with_def still_running_def give_up_def)

lemmas within_intros = calls_within_intros calls_within_then

lemma sidecar_calls: "calls_within (task_write ty p) s (fst (sidecar_Execute W f ty' tid p' s))"
  by (auto simp: sidecar_Execute_def Let_def intro!: within_intros split: option.splits)

lemma guarded_calls: "calls_within (task_write ty p) s (fst (guarded_Execute W blocked tid p' s))"
  by (auto simp: guarded_Execute_def Let_def sidecar_calls intro!: within_intros split: option.splits)

lemma preflight_calls: "calls_within Q s (fst (preflight E c reasons m err s))"
  by (auto simp: preflight_def intro!: within_intros split: option.splits prod.splits)

lemma record_calls:
  "calls_within Q s (fst (recordDataReset_Execute p s))" "calls_within Q s (fst (recordMaintenanceHold_Execute p s))"
  "calls_within Q s (fst (observeImage_Execute P W s))"
  by (auto simp: recordDataReset_Execute_def recordMaintenanceHold_Execute_def observeImage_Execute_def Let_def
      intro!: within_intros split: option.splits sum.splits)

lemma apply_calls: "calls_within (task_write ty p) s (fst (apply_object W k w s))"
  by (auto simp: apply_object_def intro!: within_intros split: option.splits)

lemma SyncStatefulSet_calls: "calls_within (task_write ty p) s (fst (SyncStatefulSet W n s))"
  by (auto simp: SyncStatefulSet_def apply_sts_def intro!: within_intros split: option.splits sum.splits)

lemma applyStatefulSet_calls: "calls_within (task_write ty p) s (fst (applyStatefulSet_Execute W s))"
  using SyncStatefulSet_calls[of ty p s W]
  by (auto simp: applyStatefulSet_Execute_def calls_within_intros split: option.splits prod.splits sum.splits bool.splits)
     (metis fst_conv)+

lemma ensureDataPVC_calls: "calls_within (task_write ty p) s (fst (ensureDataPVC_Execute E W s))"
  by (auto simp: ensureDataPVC_Execute_def executeCreate_def executeImport_def Let_def preflight_calls
      intro!: within_intros split: option.splits sum.splits api_error.splits)

lemma delete_stale_writes: "calls_within (task_write ty p) s (fst (delete_stale W sts pods s))"
proof (induction pods arbitrary: s)
  case (Cons pod pods)
  have "calls_within (task_write ty p) s (fst (delete_stale W sts pods (log_call (DeletePod a b) s)))" for a b
    using calls_within_trans[OF calls_within_intros(2) Cons.IH, of "DeletePod a b"] by simp
  with Cons.IH show ?case by (auto simp: calls_within_intros split: option.splits)
qed (simp add: calls_within_intros)

lemma replacePod_calls: "calls_within (task_write ty p) s (fst (replacePod_Execute W s))"
  using delete_stale_writes[of ty p s W]
  by (auto simp: replacePod_Execute_def calls_within_intros split: option.splits sum.splits prod.splits) (metis fst_conv)+

lemma setPeers_calls:
  "set names \<subseteq> set (peer_targets p) \<Longrightarrow>
   calls_within (task_write CollectAndSetPeers p) s (fst (setPeersOnNodes W peers names s))"
proof (induction names arbitrary: s)
  case (Cons name names)
  have "calls_within (task_write CollectAndSetPeers p) s
      (fst (setPeersOnNodes W peers names (log_call (PatchPeers name peers) s)))"
    using Cons by (intro calls_within_trans[OF calls_within_intros(2) Cons.IH]) simp_all
  then show ?case by (auto simp: calls_within_intros split: option.splits sum.splits)
qed (simp add: calls_within_intros)

lemma collectAndSetPeers_calls: "calls_within (task_write CollectAndSetPeers p) s (fst (collectAndSetPeers_Execute W p s))"
proof -
  obtain ns names where p: "(case p of GroupParams g ns names \<Rightarrow> (ns, names) | AwaitNodesParams g ns _ names \<Rightarrow> (ns, names)
      | _ \<Rightarrow> ([], [])) = (ns, names)" by (metis surj_pair)
  then have "peer_targets p = names" by (auto simp: peer_targets_def split: TaskParams.splits)
  then show ?thesis using setPeers_calls[of names p s W] p
    by (auto simp: collectAndSetPeers_Execute_def calls_within_intros split: sum.splits prod.splits option.splits) (metis fst_conv)+
qed

lemma updateNodeImage_calls:
  "updateNodeImage_params p = Inr (name, ns, img) \<Longrightarrow>
   calls_within (task_write UpdateNodeImage p) s (fst (updateNodeImage_Execute W name img s))"
  by (auto simp: updateNodeImage_Execute_def intro!: within_intros split: option.splits sum.splits)

lemma task_Execute_writes: "calls_within (task_write ty p) s (fst (task_Execute E P W ty tid p s))"
  by (cases ty)
     (auto simp: sidecar_calls guarded_calls preflight_calls record_calls apply_calls applyStatefulSet_calls ensureDataPVC_calls
        replacePod_calls collectAndSetPeers_calls updateNodeImage_calls applyRBACProxyConfig_Execute_def applyService_Execute_def
        validateSigningKey_Execute_def validateNodeKey_Execute_def validateOperatorKeyring_Execute_def calls_within_intros
        split: option.splits sum.splits prod.splits)

interpretation plan_calls: bounded_executions "registry E P W" task_write for E P W
  using task_Execute_writes by unfold_locales (fastforce simp: registry_def calls_within_def)

lemma executePlan_calls:
  assumes "c \<in> set (xs_Calls (run_state (fst (executePlan (registry E P W) now r))))" and "xs_Calls (run_state r) = []"
  shows "planned_write (run_plan r) c"
  using plan_calls.executePlan_within[of r E P W now] assms by (auto simp: plan_calls.bounded_run_def planned_write_def)

subsection \<open>The children\<close>

definition teardown_delete :: "nworld \<Rightarrow> SeiNetwork \<Rightarrow> ChildNode \<Rightarrow> bool" where
  "teardown_delete W net c \<longleftrightarrow>
     (\<exists>p. sn_Plan net = Some p \<and> plan_Phase p = TaskPlanActive) \<and>
     (\<exists>tr cs. nw_ListNodes W tr (sn_Namespace net) (seinetworkSelector net) = Inr cs \<and> c \<in> set cs \<and>
        nw_IsControlledBy W (ch_Owners c) (sn_UID net) \<and>
        (\<forall>d \<in> set cs. nw_IsControlledBy W (ch_Owners d) (sn_UID net) \<longrightarrow> \<not> older_than d net))"

fun live_allowed :: "ext \<Rightarrow> nworld \<Rightarrow> SeiNetwork \<Rightarrow> net_event \<Rightarrow> bool" where
  "live_allowed E W net (CreateNode c) = (gate_open E net \<and> fresh_child W net c)"
| "live_allowed E W net (UpdateNode c c') = (pause_write W net c c' \<or> gate_open E net \<and> sync_write W net c c')"
| "live_allowed E W net (DeleteNode c) =
     (\<not> sn_Paused net \<and> (gate_open E net \<and> scale_down_delete W net c \<or> teardown_delete W net c))"
| "live_allowed E W net (PatchNode c c') = False"
| "live_allowed E W net (PlanCalls cs) =
     (\<not> sn_Paused net \<and> (\<exists>p. sn_Plan net = Some p \<and> plan_Phase p = TaskPlanActive \<and> list_all (planned_write p) cs))"
| "live_allowed E W net _ = True"

lemma mutation_live:
  assumes "view E n = view E net" and "gate_open E n" and "mutation_allowed W n e"
  shows "live_allowed E W net e"
  using assms by (cases e) (auto simp: view_def gate_open_def fresh_child_def sync_write_def scale_down_delete_def
      seiNodeName_def seiNodeLabels_def)

lemma pause_live: "view E n = view E net \<Longrightarrow> pause_allowed W n e \<Longrightarrow> live_allowed E W net e"
  by (cases e) (auto simp: view_def pause_write_def)

lemma view_upd_net:
  assumes "sst_Plan (f (sn_Status n)) = sst_Plan (sn_Status n)" and "sst_Conditions (f (sn_Status n)) = sst_Conditions (sn_Status n)"
  shows "view E (upd_net f n) = view E n"
  using assms by (simp add: view_def hasConditionTrue_def)

lemma follows_populate: "follows E net Q s (fst (populateIncumbentNodes W s))"
  unfolding populateIncumbentNodes_def
  by (rule follows.rel_with_children) (auto simp: record_incumbents_def intro!: follows_on_net view_upd_net)

lemma follows_reconcileSeiNodes:
  assumes "owner_laws W"
  shows "follows E net (live_allowed E W net) s (fst (reconcileSeiNodes E W s))"
proof (cases "gate_open E (ns_Net s)")
  case True
  have "follows E net (live_allowed E W net) s (fst (mutate_children E W s))"
    by (rule follows_quiet[OF mutate_children_quiet[OF assms]]) (auto intro: mutation_live[OF _ True])
  moreover have "reconcileSeiNodes E W s = and_then (mutate_children E W s) (populateIncumbentNodes W)"
    using True by (simp add: reconcileSeiNodes_def gate_open_def Let_def)
  ultimately show ?thesis by (auto intro!: follows.rel_and_then follows_populate)
next
  case False
  then have "reconcileSeiNodes E W s = populateIncumbentNodes W s"
    by (auto simp: reconcileSeiNodes_def gate_open_def Let_def)
  then show ?thesis using follows_populate by simp
qed

lemma follows_internalService: "follows E net (live_allowed E W net) s (fst (reconcileInternalService E W s))"
proof -
  have clear: "follows E net (live_allowed E W net) t (fst (clearRetainRecord W v t))" for v t
    by (auto simp: clearRetainRecord_def follows.rel_refl intro: follows_do_call)
  show ?thesis
  proof (cases "nw_SetControllerReference W (ns_Net s) (svc_Owners (generateInternalService E (ns_Net s)))")
    case (Inl e)
    then show ?thesis by (simp add: reconcileInternalService_def Let_def follows.rel_refl)
  next
    case (Inr owners)
    let ?d = "(generateInternalService E (ns_Net s))\<lparr>svc_Owners := owners\<rparr>"
    let ?t = "s\<lparr>ns_Trace := ApplySvc ?d # ns_Trace s\<rparr>"
    have log: "follows E net (live_allowed E W net) s ?t" by (rule follows_log) simp
    show ?thesis
    proof (cases "nw_ApplyService W (ns_Trace s) ?d")
      case (Inl e)
      then show ?thesis using Inr log by (simp add: reconcileInternalService_def Let_def)
    next
      case live: (Inr v)
      have "follows E net (live_allowed E W net) ?t
          (fst (and_then (wrap_err ''clearing retain record on internal Service: '' (clearRetainRecord W v ?t))
             (record_service E v)))"
        by (rule follows.rel_and_then) (auto simp: record_service_def intro!: follows.rel_wrap clear follows_on_net view_upd_net)
      then show ?thesis using Inr live follows.rel_trans[OF log] by (simp add: reconcileInternalService_def Let_def)
    qed
  qed
qed

lemma view_set:
  assumes "cond_laws E" and "ty \<noteq> ConditionPlanInProgress" "ty \<noteq> ConditionGenesisCeremonyComplete"
  shows "view E (setNetworkCondition E net ty st re ms) = view E net"
  using assms(2,3) by (auto simp: view_def hasConditionTrue_set[OF assms(1)])

lemma view_seedIfAbsent:
  assumes "cond_laws E"
  shows "view E (seedConditionIfAbsent E ty re ms net) = view E net"
  by (simp add: view_def seedIfAbsent_true[OF assms])

lemma view_seeders:
  assumes "cond_laws E"
  shows "view E (setGenesisCeremonyCondition E net) = view E net"
    and "view E (setPausedCondition E net) = view E net"
    and "view E (setConfigValuesValidCondition E net) = view E net"
proof -
  have "view E (setNetworkCondition E net ConditionGenesisCeremonyComplete ConditionFalse re ms) = view E net"
    if "\<not> hasConditionTrue E net ConditionGenesisCeremonyComplete" for re ms
    using that by (simp add: view_def hasConditionTrue_set[OF assms])
  then show "view E (setGenesisCeremonyCondition E net) = view E net" by (simp add: setGenesisCeremonyCondition_def)
qed (simp_all add: setPausedCondition_def setConfigValuesValidCondition_def view_set[OF assms] split: option.split)

lemma view_seed:
  assumes "cond_laws E"
  shows "view E (seedAlwaysPresentConditions E net) = view E net"
  unfolding seedAlwaysPresentConditions_def by (simp only: view_seedIfAbsent[OF assms] view_seeders[OF assms])

lemma follows_finalizer: "Q (SetNetFinalizer b) \<Longrightarrow> follows E net Q s (fst (write_finalizer W b s))"
  by (auto simp: write_finalizer_def follows_def net_call_def on_net_def view_def hasConditionTrue_def split: option.splits)

lemma follows_before_plan:
  assumes "cond_laws E" and "owner_laws W"
  shows "follows E net (live_allowed E W net) s (fst (before_plan E W s))"
proof -
  let ?R = "follows E net (live_allowed E W net)"
  have fin: "?R s (fst (ensureFinalizer W s))"
    by (auto simp: ensureFinalizer_def follows.rel_refl intro: follows_finalizer)
  have sync: "?R t (fst (syncPausedToChildren W (sn_Paused (ns_Net t)) (on_net (seedAlwaysPresentConditions E) t)))" for t
  proof (rule follows.rel_trans)
    show "?R t (on_net (seedAlwaysPresentConditions E) t)" by (rule follows_on_net) (simp add: view_seed[OF assms(1)])
    have "sn_Paused (ns_Net t) = sn_Paused (ns_Net (on_net (seedAlwaysPresentConditions E) t))"
      using view_seed[OF assms(1), of "ns_Net t"] by (simp add: on_net_def view_def)
    then show "?R (on_net (seedAlwaysPresentConditions E) t)
        (fst (syncPausedToChildren W (sn_Paused (ns_Net t)) (on_net (seedAlwaysPresentConditions E) t)))"
      by (rule follows_quiet[OF syncPaused_quiet pause_live])
  qed
  show ?thesis
    unfolding before_plan_def
    by (intro follows.rel_and_then fin)
       (auto simp: sync_paused_def sync_service_def sync_nodes_def
          intro!: follows.rel_wrap sync follows_internalService follows_reconcileSeiNodes[OF assms(2)])
qed

subsection \<open>The plan and the status write\<close>

lemma teardown_quiet:
  assumes "list_ex (\<lambda>c. older_than c (ns_Net s)) cs = False"
  shows "quiet (\<lambda>_ e. \<exists>c \<in> set cs. e = DeleteNode c) s (fst (for_each (delete_survivor W) cs s))"
  by (rule quiet_for_each) (auto simp: delete_survivor_def intro!: quiet_intros)

lemma view_fields:
  assumes "view E n = view E net"
  shows "sn_Name n = sn_Name net" "sn_Namespace n = sn_Namespace net" "sn_UID n = sn_UID net"
    "sn_CreationTimestamp n = sn_CreationTimestamp net" "sn_Deleting n = sn_Deleting net" "sn_Spec n = sn_Spec net"
    "sn_Plan n = sn_Plan net"
    "hasConditionTrue E n ConditionPlanInProgress = hasConditionTrue E net ConditionPlanInProgress"
    "hasConditionTrue E n ConditionGenesisCeremonyComplete = hasConditionTrue E net ConditionGenesisCeremonyComplete"
  using assms by (simp_all add: view_def)

lemma abandon_events:
  assumes v: "view E (ns_Net s) = view E net" and p: "sn_Plan net = Some p" "plan_Phase p = TaskPlanActive"
    and live: "\<not> sn_Paused net"
    and ev: "ev \<in> set (ns_Trace (fst (abandonPlanForLostValidator E W s)))"
  shows "ev \<in> set (ns_Trace s) \<or> live_allowed E W net ev"
proof (cases "listChildSeiNodes W s")
  case (Inl e)
  then show ?thesis using ev by (simp add: abandonPlanForLostValidator_def with_children_def)
next
  case (Inr cs)
  show ?thesis
  proof (cases "list_ex (\<lambda>c. older_than c (ns_Net s)) cs")
    case True
    then show ?thesis using ev Inr by (simp add: abandonPlanForLostValidator_def with_children_def abandon_set_def on_net_def)
  next
    case False
    let ?r = "for_each (delete_survivor W) cs s"
    have "ns_Trace (fst (abandonPlanForLostValidator E W s)) = ns_Trace (fst ?r)"
      using Inr False by (cases ?r; cases "snd ?r")
        (auto simp: abandonPlanForLostValidator_def with_children_def abandon_set_def on_net_def)
    with ev teardown_quiet[of s cs W] False have "ev \<in> set (ns_Trace s) \<or> (\<exists>c \<in> set cs. ev = DeleteNode c)"
      by (auto simp: quiet_def)
    moreover have "teardown_delete W net c" if "c \<in> set cs" for c
    proof -
      from Inr obtain all where all: "nw_ListNodes W (ns_Trace s) (sn_Namespace net) (seinetworkSelector net) = Inr all"
        and cs: "cs = filter (\<lambda>c. nw_IsControlledBy W (ch_Owners c) (sn_UID net)) all"
        using view_fields[OF v] by (auto simp: listChildSeiNodes_def seinetworkSelector_def Let_def split: sum.splits)
      have "\<forall>d \<in> set all. nw_IsControlledBy W (ch_Owners d) (sn_UID net) \<longrightarrow> \<not> older_than d net"
        using False view_fields[OF v] by (auto simp: cs list_ex_iff older_than_def)
      then show ?thesis using that all p unfolding teardown_delete_def cs by auto
    qed
    ultimately show ?thesis using live by auto
  qed
qed

lemma drivePlan_trace:
  "\<exists>calls. ns_Trace (fst (drivePlan E P W now p s)) = PlanCalls calls # ns_Trace s \<and> list_all (planned_write p) calls"
proof -
  let ?r = "\<lparr>run_state = \<lparr>xs_Node = None, xs_Calls = []\<rparr>, run_plan = p, run_active = 0\<rparr>"
  let ?q = "fst (executePlan (registry E P (nw_World W (ns_Trace s))) now ?r)"
  have "list_all (planned_write p) (xs_Calls (run_state ?q))"
    using executePlan_calls[where r = ?r] by (auto simp: list_all_iff)
  then show ?thesis by (simp add: drivePlan_def on_net_def split_beta)
qed

lemma reconcilePlan_cases:
  fixes E P W now pid s
  defines "net \<equiv> ns_Net s" and "r \<equiv> reconcilePlan E P W now pid s"
  obtains (idle) "sn_Paused net \<or> (\<exists>p. sn_Plan net = Some p \<and> plan_Phase p \<noteq> TaskPlanActive) \<or>
        sn_Plan net = None \<and> \<not> needsGenesisPlan net" "r = (s, 0, None)"
    | (lost) p s' e where "\<not> sn_Paused net" "sn_Plan net = Some p" "plan_Phase p = TaskPlanActive" "validatorLost net"
        "abandonPlanForLostValidator E W s = (s', e)" "r = (s', if e = None then ResultRequeueImmediate else 0, e)"
    | (drive) p s' d where "\<not> sn_Paused net" "sn_Plan net = Some p" "plan_Phase p = TaskPlanActive" "\<not> validatorLost net"
        "drivePlan E P W now p s = (s', d)" "r = (s', d, None)"
    | (unbuildable) e where "\<not> sn_Paused net" "sn_Plan net = None" "needsGenesisPlan net" "r = (s, 0, Some e)"
    | (start) plan where "\<not> sn_Paused net" "sn_Plan net = None" "needsGenesisPlan net"
        "group_BuildPlan E (w_Bech32Decode (nw_World W (ns_Trace s))) (w_ParseDuration (nw_World W (ns_Trace s))) pid net = Inr plan"
        "r = (on_net (startPlan E plan) s, ResultRequeueImmediate, None)"
proof (cases "sn_Paused net")
  case True
  then show thesis using idle by (simp add: r_def net_def reconcilePlan_def)
next
  case unpaused: False
  show thesis
  proof (cases "sn_Plan net")
    case None
    show thesis
    proof (cases "group_BuildPlan E (w_Bech32Decode (nw_World W (ns_Trace s))) (w_ParseDuration (nw_World W (ns_Trace s))) pid net")
      case (Inl e)
      then show thesis using None unpaused idle unbuildable[of "''building plan: '' @ e"]
        by (cases "needsGenesisPlan net") (simp_all add: r_def net_def reconcilePlan_def Let_def)
    next
      case (Inr plan)
      then show thesis using None unpaused idle start[of plan]
        by (cases "needsGenesisPlan net") (simp_all add: r_def net_def reconcilePlan_def Let_def)
    qed
  next
    case (Some p)
    obtain s1 e where ab: "abandonPlanForLostValidator E W s = (s1, e)" by (metis surj_pair)
    obtain s2 d where dr: "drivePlan E P W now p s = (s2, d)" by (metis surj_pair)
    have ab': "r = (s1, if e = None then ResultRequeueImmediate else 0, e)"
      if "plan_Phase p = TaskPlanActive" "validatorLost net"
      using that Some unpaused ab by (cases e) (simp_all add: r_def net_def reconcilePlan_def Let_def)
    have dr': "r = (s2, d, None)" if "plan_Phase p = TaskPlanActive" "\<not> validatorLost net"
      using that Some unpaused dr by (simp add: r_def net_def reconcilePlan_def Let_def)
    have id': "r = (s, 0, None)" if "plan_Phase p \<noteq> TaskPlanActive"
      using that Some unpaused by (simp add: r_def net_def reconcilePlan_def Let_def)
    show thesis using Some unpaused ab dr ab' dr' id' idle lost[of p s1 e] drive[of p s2 d] by blast
  qed
qed

lemma reconcilePlan_events:
  assumes v: "view E (ns_Net s) = view E net"
    and ev: "ev \<in> set (ns_Trace (fst (reconcilePlan E P W now pid s)))"
  shows "ev \<in> set (ns_Trace s) \<or> live_allowed E W net ev"
proof (cases rule: reconcilePlan_cases[of s E P W now pid])
  case (lost p s' e)
  then show ?thesis using abandon_events[OF v, of p ev W] ev view_fields[OF v] by simp
next
  case (drive p s' d)
  then show ?thesis using drivePlan_trace[of E P W now p s] ev view_fields[OF v] by auto
qed (use ev in \<open>simp_all add: on_net_def\<close>)

lemma write_status_trace: "ns_Trace (fst (write_status W s)) = WriteStatus (ns_Net s) # ns_Trace s"
  by (auto simp: write_status_def net_call_def split: option.splits)

lemma updateStatus_events:
  "ev \<in> set (ns_Trace (fst (updateStatus E W now s))) \<Longrightarrow> ev \<in> set (ns_Trace s) \<or> (\<exists>n. ev = WriteStatus n)"
  by (auto simp: updateStatus_def with_children_def write_report_def write_status_trace on_net_def split: sum.splits)

subsection \<open>The gate\<close>

lemma reconcile_live_cases:
  obtains (early) s1 e where "before_plan E W s = (s1, Some e)" "nres_State (reconcile_live E P W now pid s) = s1"
    | (plan_error) s1 s2 d e where "before_plan E W s = (s1, None)" "reconcilePlan E P W now pid s1 = (s2, d, Some e)"
        "nres_State (reconcile_live E P W now pid s) = s2"
    | (full) s1 s2 d where "before_plan E W s = (s1, None)" "reconcilePlan E P W now pid s1 = (s2, d, None)"
        "nres_State (reconcile_live E P W now pid s) = fst (updateStatus E W now s2)"
proof -
  obtain s1 b where b: "before_plan E W s = (s1, b)" by (metis surj_pair)
  obtain s2 d e where p: "reconcilePlan E P W now pid s1 = (s2, d, e)" by (metis prod_cases3)
  show thesis
  proof (cases b)
    case (Some m)
    then show thesis using b early by (simp add: reconcile_live_def net_done_def)
  next
    case None
    then show thesis using b p plan_error full by (cases e) (simp_all add: reconcile_live_def net_done_def wrap_err_def)
  qed
qed

lemma reconcile_events:
  assumes laws: "cond_laws E" "owner_laws W" and live: "\<not> sn_Deleting net"
    and ev: "ev \<in> set (ns_Trace (nres_State (reconcile_network E P W now pid net)))"
  shows "live_allowed E W net ev"
proof -
  let ?s = "start_state net"
  have v0: "view E (ns_Net ?s) = view E net" by (simp add: start_state_def)
  have f: "follows E net (live_allowed E W net) ?s (fst (before_plan E W ?s))" by (rule follows_before_plan[OF laws])
  have v1: "view E (ns_Net (fst (before_plan E W ?s))) = view E net" using f v0 by (simp add: follows_def)
  have b: "live_allowed E W net e" if "e \<in> set (ns_Trace (fst (before_plan E W ?s)))" for e
    using follows_events[OF f v0 that] by (auto simp: start_state_def)
  have ev': "ev \<in> set (ns_Trace (nres_State (reconcile_live E P W now pid ?s)))"
    using ev live by (simp add: reconcile_network_def)
  show ?thesis
  proof (cases rule: reconcile_live_cases[of E W ?s P now pid])
    case early
    then show ?thesis using ev' b by simp
  next
    case (plan_error s1 s2 d e)
    then show ?thesis using reconcilePlan_events[of E s1 net ev P W now pid] v1 b ev' by auto
  next
    case (full s1 s2 d)
    then have "ev \<in> set (ns_Trace s2) \<or> (\<exists>n. ev = WriteStatus n)" using updateStatus_events ev' by simp
    then show ?thesis using full reconcilePlan_events[of E s1 net ev P W now pid] v1 b by auto
  qed
qed

end
