(* ===== verification/NetworkProps.thy ===== *)
theory NetworkProps
  imports NetworkGates ExecFixtures "HOL-Library.Code_Target_Numeral"
begin

text \<open>
  Theorems about the SeiNetwork controller: what it may do to its children and when, and the two arms of the deletion
  policy.
\<close>

subsection \<open>A concrete network\<close>

definition demo_genesis :: GenesisCeremonyConfig where
  "demo_genesis = \<lparr>gcc_ChainID = ''dev-1'', gcc_StakingAmount = ''1usei'', gcc_AccountBalance = ''2usei'',
     gcc_Accounts = [], gcc_Overrides = [], gcc_ConsensusParams = None\<rparr>"

definition demo_network_status :: SeiNetworkStatus where
  "demo_network_status = \<lparr>sst_ObservedGeneration = 0, sst_Phase = GroupPhaseUnset, sst_Replicas = 0,
     sst_ReadyReplicas = 0, sst_UpToDateReplicas = 0, sst_Nodes = [], sst_Plan = None, sst_ObservedHeight = None,
     sst_IncumbentNodes = [], sst_InternalService = None, sst_PerPodServices = [], sst_Endpoints = None,
     sst_Conditions = []\<rparr>"

definition demo_network :: SeiNetwork where
  "demo_network = \<lparr>sn_Name = ''net'', sn_Namespace = ''sei'', sn_UID = ''uid-1'', sn_Generation = 1,
     sn_CreationTimestamp = 100, sn_Deleting = False, sn_Finalizer = True,
     sn_Spec = \<lparr>sns_Image = ''seid:1'', sns_Genesis = demo_genesis, sns_Consensus = None, sns_ExecutionEngine = None,
       sns_Replicas = 2, sns_ConfigOverrides = Mapping.empty, sns_ConfigValues = [], sns_DataVolume = None,
       sns_Resources = None, sns_Scheduling = None, sns_Sidecar = None, sns_PodLabels = Mapping.empty,
       sns_Paused = False, sns_DeletionPolicy = DeletionPolicyRetain\<rparr>,
     sn_Status = demo_network_status\<rparr>"

text \<open>A child of the network created at time \<open>t\<close>, and an API server that lists the given children.\<close>

definition demo_child :: "nat \<Rightarrow> go_time \<Rightarrow> ChildNode" where
  "demo_child i t =
     (let c = generateSeiNode demo_network i
      in c\<lparr>ch_Owners := [network_ref demo_network],
           ch_Node := (ch_Node c)\<lparr>node_CreationTimestamp := t, node_Status := demo_status\<rparr>\<rparr>)"

definition demo_nworld :: "ChildNode list \<Rightarrow> nworld" where
  "demo_nworld cs =
     \<lparr>nw_ListNodes = (\<lambda>_ _ _. Inr cs), nw_GetNode = (\<lambda>_ _ name. case find (\<lambda>c. ch_Name c = name) cs of
        None \<Rightarrow> Inl (NotFound ''node'') | Some c \<Rightarrow> Inr c),
      nw_ListPods = (\<lambda>_ _ _. Inr []), nw_GetService = (\<lambda>_ _ _. Inl (NotFound ''service'')),
      nw_ApplyService = (\<lambda>_ v. Inr v), nw_Call = (\<lambda>_ _. None), nw_World = (\<lambda>_. demo_world),
      nw_GetControllerOf = ref_get_controller, nw_IsControlledBy = ref_is_controlled,
      nw_SetControllerReference = ref_set_controller, nw_SidecarEqual = (\<lambda>a b. (a = None) = (b = None))\<rparr>"

lemma demo_owner_laws: "owner_laws (demo_nworld cs)"
  using ref_owners.owner_references_axioms by (simp add: demo_nworld_def)

definition with_plan :: "TaskPlan \<Rightarrow> SeiNetwork \<Rightarrow> SeiNetwork" where
  "with_plan p net = startPlan demo_ext p net"

abbreviation demo_reconcile :: "ChildNode list \<Rightarrow> SeiNetwork \<Rightarrow> net_result" where
  "demo_reconcile cs net \<equiv> reconcile_network demo_ext demo_platform (demo_nworld cs) 1000 ''plan'' net"

abbreviation trace_of :: "net_result \<Rightarrow> net_event list" where
  "trace_of r \<equiv> ns_Trace (nres_State r)"

abbreviation stored_of :: "net_result \<Rightarrow> SeiNetwork" where
  "stored_of r \<equiv> ns_Stored (nres_State r)"

subsection \<open>Writes to the children\<close>

definition creates :: "net_event list \<Rightarrow> ChildNode list" where
  "creates tr = List.map_filter (\<lambda>e. case e of CreateNode c \<Rightarrow> Some c | _ \<Rightarrow> None) tr"

definition updates :: "net_event list \<Rightarrow> (ChildNode \<times> ChildNode) list" where
  "updates tr = List.map_filter (\<lambda>e. case e of UpdateNode c c' \<Rightarrow> Some (c, c') | _ \<Rightarrow> None) tr"

definition deletes :: "net_event list \<Rightarrow> ChildNode list" where
  "deletes tr = List.map_filter (\<lambda>e. case e of DeleteNode c \<Rightarrow> Some c | _ \<Rightarrow> None) tr"

definition patches :: "net_event list \<Rightarrow> (ChildNode \<times> ChildNode) list" where
  "patches tr = List.map_filter (\<lambda>e. case e of PatchNode c c' \<Rightarrow> Some (c, c') | _ \<Rightarrow> None) tr"

definition plan_runs :: "net_event list \<Rightarrow> call list list" where
  "plan_runs tr = List.map_filter (\<lambda>e. case e of PlanCalls cs \<Rightarrow> Some cs | _ \<Rightarrow> None) tr"

lemma set_writes:
  "set (creates tr) = {c. CreateNode c \<in> set tr}"
  "set (updates tr) = {(c, c'). UpdateNode c c' \<in> set tr}"
  "set (deletes tr) = {c. DeleteNode c \<in> set tr}"
  "set (patches tr) = {(c, c'). PatchNode c c' \<in> set tr}"
  "set (plan_runs tr) = {cs. PlanCalls cs \<in> set tr}"
  by (induction tr) (auto simp: creates_def updates_def deletes_def patches_def plan_runs_def List.map_filter_simps split: net_event.splits)

text \<open>C20. What a reconcile of a network that is not being deleted writes to its children.  It creates a child only with the
  gate open (not paused, no plan in progress), and only one of its own ordinals.  It updates a child, outside the plan, only to bring
  \<open>spec.paused\<close> in line or, with the gate open, to sync a child that is not terminating and has no other controller, and such an
  update never touches peers, volume, resources, engine, identity or status.  It patches none directly.  Deletions apart, the only other
  writes are those of the plan it executes: never while paused, only for the stored Active plan, and there only what a task of
  that plan does, the peers of a node that a collect-and-set-peers task names or the image of the node an update-node-image
  task names.\<close>

theorem network_writes_gated:
  assumes "cond_laws E" and "owner_laws W" and "\<not> sn_Deleting net"
  shows "list_all (\<lambda>c. gate_open E net \<and> fresh_child W net c)
           (creates (trace_of (reconcile_network E P W now pid net))) \<and>
         list_all (\<lambda>(c, c'). pause_write W net c c' \<or> gate_open E net \<and> sync_write W net c c')
           (updates (trace_of (reconcile_network E P W now pid net))) \<and>
         patches (trace_of (reconcile_network E P W now pid net)) = [] \<and>
         list_all (\<lambda>cs. \<not> sn_Paused net \<and>
             (\<exists>p. sn_Plan net = Some p \<and> plan_Phase p = TaskPlanActive \<and> list_all (planned_write p) cs))
           (plan_runs (trace_of (reconcile_network E P W now pid net)))"
proof -
  let ?tr = "trace_of (reconcile_network E P W now pid net)"
  have ok: "\<And>e. e \<in> set ?tr \<Longrightarrow> live_allowed E W net e" using reconcile_events[OF assms] by blast
  have "(c, c') \<notin> set (patches ?tr)" for c c' using ok[of "PatchNode c c'"] by (auto simp: set_writes)
  then have "set (patches ?tr) = {}" by (metis equals0I surj_pair)
  then show ?thesis using ok by (force simp: list_all_iff set_writes)
qed

text \<open>A network whose plan has come to collect-and-set-peers.\<close>

definition peering_network :: SeiNetwork where
  "peering_network = with_plan (new_plan ''p1'' [\<lparr>pt_Type = CollectAndSetPeers, pt_ID = ''t'', pt_Status = TaskPending,
     pt_Params = GroupParams ''net'' ''sei'' [''net-0'', ''net-1''], pt_SubmittedAt = None, pt_Error = [],
     pt_MaxRetries = 0, pt_RetryCount = 0\<rparr>] PhaseUnset PhaseUnset) demo_network"

abbreviation peering_trace :: "net_event list" where
  "peering_trace \<equiv> trace_of (demo_reconcile [demo_child 0 100, demo_child 1 100] peering_network)"

theorem network_writes_gated_witness:
  "list_all (\<lambda>c. gate_open demo_ext demo_network \<and> fresh_child (demo_nworld []) demo_network c)
     (creates (trace_of (demo_reconcile [] demo_network))) \<and>
   map ch_Name (creates (trace_of (demo_reconcile [] demo_network))) = [''net-1'', ''net-0''] \<and>
   list_all (\<lambda>cs. \<exists>p. sn_Plan peering_network = Some p \<and> list_all (planned_write p) cs) (plan_runs peering_trace) \<and>
   map (map (\<lambda>c. case c of PatchPeers name _ \<Rightarrow> name | _ \<Rightarrow> [])) (plan_runs peering_trace) = [[''net-1'', ''net-0'']]"
proof (intro conjI)
  show "list_all (\<lambda>c. gate_open demo_ext demo_network \<and> fresh_child (demo_nworld []) demo_network c)
     (creates (trace_of (demo_reconcile [] demo_network)))"
    using network_writes_gated[OF demo_cond_laws demo_owner_laws, of demo_network] by (simp add: demo_network_def)
  show "map ch_Name (creates (trace_of (demo_reconcile [] demo_network))) = [''net-1'', ''net-0'']" by code_simp
  have "\<not> sn_Deleting peering_network" by code_simp
  from network_writes_gated[OF demo_cond_laws demo_owner_laws this, of "[demo_child 0 100, demo_child 1 100]" demo_platform 1000 "''plan''"]
  show "list_all (\<lambda>cs. \<exists>p. sn_Plan peering_network = Some p \<and> list_all (planned_write p) cs) (plan_runs peering_trace)"
    by (auto simp: list_all_iff)
  show "map (map (\<lambda>c. case c of PatchPeers name _ \<Rightarrow> name | _ \<Rightarrow> [])) (plan_runs peering_trace) = [[''net-1'', ''net-0'']]"
    by code_simp
qed

text \<open>C21. A reconcile deletes only children it controls, never while paused, and only in two situations: an ordinal beyond
  the replicas while no plan runs, or the survivors of an active ceremony plan when no child of the network is older than
  the network.  An adopted validator is never deleted with a lost ceremony, and neither is any of its siblings.\<close>

theorem network_deletes_bounded:
  assumes "cond_laws E" and "owner_laws W" and "\<not> sn_Deleting net"
  shows "list_all (\<lambda>c. \<not> sn_Paused net \<and> nw_IsControlledBy W (ch_Owners c) (sn_UID net) \<and>
           (gate_open E net \<and> 0 < sn_Replicas net \<and> excess_ordinal (sn_Replicas net) c \<or>
            (\<exists>p. sn_Plan net = Some p \<and> plan_Phase p = TaskPlanActive) \<and>
            (\<exists>tr cs. nw_ListNodes W tr (sn_Namespace net) (seinetworkSelector net) = Inr cs \<and> c \<in> set cs \<and>
               list_all (\<lambda>d. \<not> older_than d net) (filter (\<lambda>d. nw_IsControlledBy W (ch_Owners d) (sn_UID net)) cs))))
         (deletes (trace_of (reconcile_network E P W now pid net)))"
  using reconcile_events[OF assms, of _ P now pid]
  by (fastforce simp: list_all_iff set_writes scale_down_delete_def teardown_delete_def)

definition lost_network :: SeiNetwork where
  "lost_network = with_plan (new_plan ''p1'' [\<lparr>pt_Type = AwaitNodesRunning, pt_ID = ''t'', pt_Status = TaskRunning,
     pt_Params = AwaitNodesParams ''net'' ''sei'' 2 [''net-0'', ''net-1''], pt_SubmittedAt = None, pt_Error = [],
     pt_MaxRetries = 0, pt_RetryCount = 0\<rparr>] PhaseUnset PhaseUnset) demo_network"

theorem network_deletes_bounded_witness:
  "list_all (\<lambda>c. ref_is_controlled (ch_Owners c) ''uid-1'') (deletes (trace_of (demo_reconcile [demo_child 0 100] lost_network))) \<and>
   map ch_Name (deletes (trace_of (demo_reconcile [demo_child 0 100] lost_network))) = [''net-0''] \<and>
   deletes (trace_of (demo_reconcile [demo_child 0 99] lost_network)) = []"
proof (intro conjI)
  have "\<not> sn_Deleting lost_network" by code_simp
  from network_deletes_bounded[OF demo_cond_laws demo_owner_laws this, of "[demo_child 0 100]" demo_platform 1000 "''plan''"]
  show "list_all (\<lambda>c. ref_is_controlled (ch_Owners c) ''uid-1'') (deletes (trace_of (demo_reconcile [demo_child 0 100] lost_network)))"
    by (auto simp: list_all_iff demo_nworld_def lost_network_def with_plan_def startPlan_def setPlanInProgress_def
        set_plan_def demo_network_def)
  show "map ch_Name (deletes (trace_of (demo_reconcile [demo_child 0 100] lost_network))) = [''net-0'']" by code_simp
  have "map ch_Name (deletes (trace_of (demo_reconcile [demo_child 0 99] lost_network))) = []" by code_simp
  then show "deletes (trace_of (demo_reconcile [demo_child 0 99] lost_network)) = []" by simp
qed

subsection \<open>The deletion policy\<close>

lemma and_then_Some: "and_then r f = (s', None) \<Longrightarrow> \<exists>s1. r = (s1, None) \<and> f s1 = (s', None)"
  by (auto simp: and_then_def split: prod.splits option.splits)

lemma wrap_err_None: "wrap_err pre r = (s', None) \<longleftrightarrow> r = (s', None)"
  by (cases r) (auto simp: wrap_err_def)

lemma do_call_state: "fst (do_call W ev s) = s\<lparr>ns_Trace := ev # ns_Trace s\<rparr>"
  by (simp add: do_call_def net_call_def)

text \<open>A loop of calls that ran to its end made every one of them, in order.\<close>

lemma orphan_loop:
  "for_each (orphan_child W) cs s = (s', None) \<Longrightarrow>
   s' = s\<lparr>ns_Trace := rev (map (\<lambda>c. PatchNode c (retained_node (ns_Net s) c)) cs) @ ns_Trace s\<rparr>"
proof (induction cs arbitrary: s)
  case Nil
  then show ?case by simp
next
  case (Cons c cs)
  from and_then_Some[of "orphan_child W c s"] Cons.prems obtain s1 where s1: "orphan_child W c s = (s1, None)"
    and rest: "for_each (orphan_child W) cs s1 = (s', None)" by auto
  from s1 have "do_call W (PatchNode c (retained_node (ns_Net s) c)) s = (s1, None)"
    by (simp add: orphan_child_def wrap_err_None)
  then have "s1 = s\<lparr>ns_Trace := PatchNode c (retained_node (ns_Net s) c) # ns_Trace s\<rparr>"
    using do_call_state[of W "PatchNode c (retained_node (ns_Net s) c)" s] by simp
  then show ?case using Cons.IH[OF rest] by simp
qed

fun patch_event :: "net_event \<Rightarrow> bool" where
  "patch_event (PatchNode _ _) = True"
| "patch_event (PatchSvc _ _) = True"
| "patch_event _ = False"

fun own_event :: "net_event \<Rightarrow> bool" where
  "own_event (WriteStatus _) = True"
| "own_event (SetNetFinalizer _) = True"
| "own_event _ = False"

lemma release_quiet: "quiet (\<lambda>_. patch_event) s (fst (release_children W s))"
proof (cases "cascades (sns_DeletionPolicy (sn_Spec (ns_Net s)))")
  case True
  then show ?thesis by (simp add: release_children_def quiet.rel_refl)
next
  case False
  have nodes: "quiet (\<lambda>_. patch_event) s (fst (orphanChildSeiNodes W s))"
    unfolding orphanChildSeiNodes_def
    by (rule quiet.rel_with_children, rule quiet_for_each) (auto simp: orphan_child_def intro!: quiet_intros)
  have svc: "quiet (\<lambda>_. patch_event) t (fst (orphanInternalService W t))" for t
    by (auto simp: orphanInternalService_def Let_def split: sum.splits intro!: quiet_intros)
  have "release_children W s = and_then (wrap_err ''orphaning child SeiNodes: '' (orphanChildSeiNodes W s))
      (\<lambda>s1. wrap_err ''orphaning internal Service: '' (orphanInternalService W s1))"
    using False by (simp add: release_children_def and_then_def)
  then show ?thesis by (auto intro!: quiet.rel_and_then quiet.rel_wrap nodes svc)
qed

lemma write_status_ok:
  "write_status W s = (s', None) \<Longrightarrow> s' = s\<lparr>ns_Trace := WriteStatus (ns_Net s) # ns_Trace s,
     ns_Stored := (ns_Stored s)\<lparr>sn_Status := sn_Status (ns_Net s)\<rparr>\<rparr>"
  by (auto simp: write_status_def net_call_def split: option.splits)

lemma handleDeletion_cases:
  assumes "sn_Finalizer net"
  obtains (refused) e where "trace_of (reconcile_network E P W now pid (net\<lparr>sn_Deleting := True\<rparr>)) =
      [WriteStatus e]"
    | (stuck) s1 s2 e where "ns_Trace s1 = [WriteStatus (ns_Net s1)]" "release_children W s1 = (s2, Some e)"
        "trace_of (reconcile_network E P W now pid (net\<lparr>sn_Deleting := True\<rparr>)) = ns_Trace s2"
        "ns_Net s1 = upd_net (\<lambda>st. st\<lparr>sst_Phase := GroupPhaseTerminating\<rparr>) (net\<lparr>sn_Deleting := True\<rparr>)"
    | (released) s1 s2 where "ns_Trace s1 = [WriteStatus (ns_Net s1)]" "release_children W s1 = (s2, None)"
        "trace_of (reconcile_network E P W now pid (net\<lparr>sn_Deleting := True\<rparr>)) = SetNetFinalizer False # ns_Trace s2"
        "ns_Net s1 = upd_net (\<lambda>st. st\<lparr>sst_Phase := GroupPhaseTerminating\<rparr>) (net\<lparr>sn_Deleting := True\<rparr>)"
proof -
  let ?n = "net\<lparr>sn_Deleting := True\<rparr>"
  let ?s = "on_net (upd_net (\<lambda>st. st\<lparr>sst_Phase := GroupPhaseTerminating\<rparr>)) (start_state ?n)"
  have tr: "trace_of (reconcile_network E P W now pid ?n) = ns_Trace (fst (handleDeletion W (start_state ?n)))"
    by (simp add: reconcile_network_def net_done_def)
  have fin: "sn_Finalizer (ns_Net (start_state ?n))" using assms by (simp add: start_state_def)
  obtain s1 e1 where ws: "write_status W ?s = (s1, e1)" by (metis surj_pair)
  show thesis
  proof (cases e1)
    case (Some e)
    then have "fst (handleDeletion W (start_state ?n)) = s1" using ws fin by (simp add: handleDeletion_def wrap_err_def)
    moreover have "ns_Trace s1 = [WriteStatus (ns_Net ?s)]"
      using write_status_trace[of W ?s] ws by (simp add: start_state_def on_net_def)
    ultimately show thesis using refused tr by simp
  next
    case None
    from write_status_ok[of W ?s s1] ws None have s1: "ns_Trace s1 = [WriteStatus (ns_Net s1)]" "ns_Net s1 = ns_Net ?s"
      by (simp_all add: start_state_def on_net_def)
    have net1: "ns_Net s1 = upd_net (\<lambda>st. st\<lparr>sst_Phase := GroupPhaseTerminating\<rparr>) ?n"
      using s1(2) by (simp add: start_state_def on_net_def)
    have hd: "handleDeletion W (start_state ?n) = and_then (release_children W s1) (write_finalizer W False)"
      using ws None fin by (simp add: handleDeletion_def wrap_err_def)
    obtain s2 e2 where rel: "release_children W s1 = (s2, e2)" by (metis surj_pair)
    show thesis
    proof (cases e2)
      case (Some e)
      then show thesis using stuck[OF s1(1) _ _ net1] rel tr hd by (simp add: and_then_def)
    next
      case None
      have "ns_Trace (fst (write_finalizer W False s2)) = SetNetFinalizer False # ns_Trace s2"
        by (auto simp: write_finalizer_def net_call_def on_net_def split: option.splits)
      then show thesis using released[OF s1(1) _ _ net1] rel None tr hd by (simp add: and_then_def)
    qed
  qed
qed

lemma retained_node_same: "sn_UID n = sn_UID net \<Longrightarrow> sn_Name n = sn_Name net \<Longrightarrow> retained_node n c = retained_node net c"
  by (simp add: retained_node_def drop_owner_def retain_annotations_def)

text \<open>The Retain arm that ran to its end patched every child the network listed.\<close>

lemma release_retain:
  assumes "\<not> cascades (sns_DeletionPolicy (sn_Spec (ns_Net s)))" and "release_children W s = (s', None)"
  obtains cs rest where "listChildSeiNodes W s = Inr cs"
    "ns_Trace s' = rest @ rev (map (\<lambda>c. PatchNode c (retained_node (ns_Net s) c)) cs) @ ns_Trace s"
proof -
  from assms obtain s1 where s1: "orphanChildSeiNodes W s = (s1, None)" and svc: "orphanInternalService W s1 = (s', None)"
    by (auto simp: release_children_def wrap_err_None split: prod.splits option.splits)
  from s1 obtain cs where cs: "listChildSeiNodes W s = Inr cs" "for_each (orphan_child W) cs s = (s1, None)"
    by (auto simp: orphanChildSeiNodes_def with_children_def split: sum.splits)
  have "quiet (\<lambda>_. patch_event) s1 (fst (orphanInternalService W s1))"
    by (auto simp: orphanInternalService_def Let_def split: sum.splits intro!: quiet_intros)
  then obtain rest where "ns_Trace s' = rest @ ns_Trace s1" using svc by (auto simp: quiet_def)
  with orphan_loop[OF cs(2)] show thesis using that[OF cs(1), of rest] by simp
qed

text \<open>Deletion: no arm of the policy deletes, creates or updates a child.  Under Delete only the status and the
  finalizer are written.  Under Retain, and under a policy the build does not know, the finalizer is released last, and
  only after every listed child was released by one patch that drops the network's owner reference and records who
  released it and why.\<close>

theorem deletion_policy_arms:
  assumes fin: "sn_Finalizer net" and tr: "tr = trace_of (reconcile_network E P W now pid (net\<lparr>sn_Deleting := True\<rparr>))"
  shows "list_all (\<lambda>e. own_event e \<or> patch_event e \<and> \<not> cascades (sns_DeletionPolicy (sn_Spec net))) tr \<and>
    (\<not> cascades (sns_DeletionPolicy (sn_Spec net)) \<and> SetNetFinalizer False \<in> set tr \<longrightarrow>
       (\<exists>earlier cs prior. tr = SetNetFinalizer False # prior \<and>
          nw_ListNodes W earlier (sn_Namespace net) (seinetworkSelector net) = Inr cs \<and>
          list_all (\<lambda>c. PatchNode c (retained_node net c) \<in> set prior)
            (filter (\<lambda>c. nw_IsControlledBy W (ch_Owners c) (sn_UID net)) cs)))"
proof -
  let ?policy = "sns_DeletionPolicy (sn_Spec net)"
  have emitted: "\<exists>new. ns_Trace s2 = new @ [WriteStatus (ns_Net s1)] \<and> list_all patch_event new \<and> (cascades ?policy \<longrightarrow> new = [])"
    if "ns_Trace s1 = [WriteStatus (ns_Net s1)]" "release_children W s1 = (s2, e)" "sn_Spec (ns_Net s1) = sn_Spec net"
    for s1 s2 e
  proof (cases "cascades ?policy")
    case True
    then show ?thesis using that by (simp add: release_children_def)
  next
    case False
    then show ?thesis using release_quiet[of s1 W] that by (auto simp: quiet_def list_all_iff)
  qed
  from fin show ?thesis
  proof (cases rule: handleDeletion_cases[where E = E and P = P and W = W and now = now and pid = pid])
    case (refused n)
    then show ?thesis by (simp add: tr)
  next
    case (stuck s1 s2 e)
    from emitted[OF stuck(1,2)] stuck(4) obtain new where "ns_Trace s2 = new @ [WriteStatus (ns_Net s1)]"
      "list_all patch_event new" "cascades ?policy \<longrightarrow> new = []" by auto
    then show ?thesis using stuck(3) by (fastforce simp: tr list_all_iff)
  next
    case (released s1 s2)
    from emitted[OF released(1,2)] released(4) obtain new where new: "ns_Trace s2 = new @ [WriteStatus (ns_Net s1)]"
      "list_all patch_event new" "cascades ?policy \<longrightarrow> new = []" by auto
    have arms: "list_all (\<lambda>e. own_event e \<or> patch_event e \<and> \<not> cascades ?policy) tr"
      using new released(3) by (auto simp: tr list_all_iff)
    have retained: "\<exists>earlier cs. nw_ListNodes W earlier (sn_Namespace net) (seinetworkSelector net) = Inr cs \<and>
        list_all (\<lambda>c. PatchNode c (retained_node net c) \<in> set (ns_Trace s2))
          (filter (\<lambda>c. nw_IsControlledBy W (ch_Owners c) (sn_UID net)) cs)" if "\<not> cascades ?policy"
    proof -
      have "\<not> cascades (sns_DeletionPolicy (sn_Spec (ns_Net s1)))" using that released(4) by simp
      then obtain cs rest where cs: "listChildSeiNodes W s1 = Inr cs"
        and t2: "ns_Trace s2 = rest @ rev (map (\<lambda>c. PatchNode c (retained_node (ns_Net s1) c)) cs) @ ns_Trace s1"
        using release_retain[OF _ released(2)] by blast
      have "seinetworkSelector (ns_Net s1) = seinetworkSelector net" using released(4) by (simp add: seinetworkSelector_def)
      moreover have "retained_node (ns_Net s1) = retained_node net"
        using released(4) by (intro ext retained_node_same) simp_all
      ultimately show ?thesis using cs t2 released(4)
        by (fastforce simp: listChildSeiNodes_def Let_def list_all_iff split: sum.splits)
    qed
    show ?thesis using arms retained released(3) by (auto simp: tr)
  qed
qed

theorem deletion_policy_arms_witness:
  "\<exists>prior. trace_of (demo_reconcile [demo_child 0 100] (demo_network\<lparr>sn_Deleting := True\<rparr>)) = SetNetFinalizer False # prior \<and>
     list_all (\<lambda>e. own_event e \<or> patch_event e) prior \<and> length prior = 2"
proof -
  let ?tr = "trace_of (demo_reconcile [demo_child 0 100] (demo_network\<lparr>sn_Deleting := True\<rparr>))"
  have fin: "sn_Finalizer demo_network" by (simp add: demo_network_def)
  have len: "length ?tr = 3" by code_simp
  have "list_ex (\<lambda>e. case e of SetNetFinalizer b \<Rightarrow> \<not> b | _ \<Rightarrow> False) ?tr" by code_simp
  then obtain e where e: "e \<in> set ?tr" "case e of SetNetFinalizer b \<Rightarrow> \<not> b | _ \<Rightarrow> False" by (auto simp: list_ex_iff)
  have "e = SetNetFinalizer False" using e(2) by (simp split: net_event.splits)
  with e(1) have "SetNetFinalizer False \<in> set ?tr" by simp
  moreover have "\<not> cascades (sns_DeletionPolicy (sn_Spec demo_network))" by code_simp
  ultimately obtain prior where "?tr = SetNetFinalizer False # prior" "list_all (\<lambda>e. own_event e \<or> patch_event e) ?tr"
    using deletion_policy_arms[OF fin refl, of demo_ext demo_platform "demo_nworld [demo_child 0 100]" 1000 "''plan''"]
    by (auto simp: list_all_iff)
  then show ?thesis using len by auto
qed

end
