(* ===== verification/NetworkPlan.thy ===== *)
theory NetworkPlan
  imports NetworkGates
begin

text \<open>
  The ceremony plan in the executor: the plan ends Complete exactly when a step completes its last task, which waits for
  the founding validators, so at that moment every one of them was read Running.
\<close>

subsection \<open>The last task of a plan\<close>

lemma advanceTask_frame:
  assumes "i < length (plan_Tasks (run_plan r))" and "advanceTask X now i r = (r', d)"
  shows "length (plan_Tasks (run_plan r')) = length (plan_Tasks (run_plan r))"
    and "j \<noteq> i \<Longrightarrow> plan_Tasks (run_plan r') ! j = plan_Tasks (run_plan r) ! j"
    and "task_key (plan_Tasks (run_plan r') ! i) = task_key (plan_Tasks (run_plan r) ! i)"
proof -
  have "length (plan_Tasks (run_plan r')) = length (plan_Tasks (run_plan r)) \<and>
      (j \<noteq> i \<longrightarrow> plan_Tasks (run_plan r') ! j = plan_Tasks (run_plan r) ! j) \<and>
      task_key (plan_Tasks (run_plan r') ! i) = task_key (plan_Tasks (run_plan r) ! i)" for j
    by (rule advanceTask_cases[OF assms(1), of X now])
       (use assms in \<open>auto simp: task_key_def retried_def failTask_def Let_def\<close>)
  then show "length (plan_Tasks (run_plan r')) = length (plan_Tasks (run_plan r))"
    "j \<noteq> i \<Longrightarrow> plan_Tasks (run_plan r') ! j = plan_Tasks (run_plan r) ! j"
    "task_key (plan_Tasks (run_plan r') ! i) = task_key (plan_Tasks (run_plan r) ! i)" by blast+
qed

abbreviation task_at :: "run \<Rightarrow> nat \<Rightarrow> PlannedTask" where
  "task_at r i \<equiv> plan_Tasks (run_plan r) ! i"

lemma advanceTask_phase:
  assumes "i < length (plan_Tasks (run_plan r))" and "advanceTask X now i r = (r', d)"
  shows "plan_Phase (run_plan r') = plan_Phase (run_plan r) \<or> plan_Phase (run_plan r') = TaskPlanFailed"
  by (rule advanceTask_cases[OF assms(1), of X now]) (use assms in \<open>auto simp: failTask_def Let_def\<close>)

lemma all_complete:
  assumes "length (plan_Tasks p) = Suc k" and "pt_Status (plan_Tasks p ! k) = TaskComplete"
    and "\<forall>j < k. pt_Status (plan_Tasks p ! j) = TaskComplete"
  shows "CurrentTask p = None"
  using assms by (auto simp: CurrentTask_None in_set_conv_nth less_Suc_eq)

definition completed_by :: "executions \<Rightarrow> go_time \<Rightarrow> nat \<Rightarrow> PlannedTask \<Rightarrow> bool" where
  "completed_by X now k t \<longleftrightarrow>
     (\<exists>q q' d. k < length (plan_Tasks (run_plan q)) \<and> task_key (task_at q k) = task_key t \<and>
        pt_Status (task_at q k) \<noteq> TaskComplete \<and> advanceTask X now k q = (q', d) \<and> pt_Status (task_at q' k) = TaskComplete)"

text \<open>The plan ends Complete exactly when a step completes its last task; otherwise that task is still open.\<close>

lemma run_loop_last:
  assumes "length (plan_Tasks (run_plan r)) = Suc k" and "pt_Status (task_at r k) \<noteq> TaskComplete"
    and "plan_Phase (run_plan r) = TaskPlanActive" and "run_loop X now r = (r', d)"
  shows "plan_Phase (run_plan r') = TaskPlanComplete \<and> completed_by X now k (task_at r k) \<or>
         plan_Phase (run_plan r') \<noteq> TaskPlanComplete \<and> length (plan_Tasks (run_plan r')) = Suc k \<and>
           task_key (task_at r' k) = task_key (task_at r k) \<and> pt_Status (task_at r' k) \<noteq> TaskComplete"
  using assms
proof (induction "open_tasks (run_plan r)" arbitrary: r rule: less_induct)
  case less
  have "CurrentTask (run_plan r) \<noteq> None" using less.prems(1,2) by (auto simp: CurrentTask_None)
  then obtain i where cur: "CurrentTask (run_plan r) = Some i" by blast
  obtain q d1 where adv: "advanceTask X now i r = (q, d1)" by (metis surj_pair)
  have i: "i < Suc k" using cur less.prems(1) by (simp add: CurrentTask_Some)
  note fr = advanceTask_frame[OF _ adv, unfolded less.prems(1), OF i]
  have key: "task_key (task_at q k) = task_key (task_at r k)" using fr(2,3) by (cases "k = i") auto
  show ?case
  proof (cases "pt_Status (task_at q i) = TaskComplete")
    case False
    then have "run_loop X now r = (q, d1)" using cur adv by (subst run_loop.simps) simp
    then have r': "r' = q" using less.prems(4) by simp
    have "pt_Status (task_at q k) \<noteq> TaskComplete" using False fr(2)[of k] less.prems(2) by (cases "k = i") auto
    moreover have "plan_Phase (run_plan q) \<noteq> TaskPlanComplete"
      using advanceTask_phase[OF _ adv] i less.prems(1,3) by auto
    ultimately show ?thesis using fr(1) key r' by simp
  next
    case True
    obtain u s where q: "q = at_task i (u\<lparr>pt_Status := TaskComplete\<rparr>) s r" by (rule advance_completes[OF cur adv True])
    have loop: "run_loop X now q = (r', d)"
      using less.prems(4) cur adv True by (subst (asm) run_loop.simps) simp
    show ?thesis
    proof (cases "i = k")
      case True
      have "CurrentTask (run_plan q) = None"
        using cur True fr \<open>pt_Status (task_at q i) = TaskComplete\<close> by (intro all_complete[of _ k]) (auto simp: CurrentTask_Some)
      then have "plan_Phase (run_plan r') = TaskPlanComplete"
        using loop by (subst (asm) run_loop.simps) (auto simp: complete_plan_def Let_def)
      moreover have "completed_by X now k (task_at r k)"
        unfolding completed_by_def using less.prems(1,2) adv \<open>pt_Status (task_at q i) = TaskComplete\<close> True
        by (intro exI[of _ r] exI[of _ q] exI[of _ d1]) simp
      ultimately show ?thesis by simp
    next
      case False
      have "pt_Status (task_at q k) \<noteq> TaskComplete" using fr(2)[of k] False less.prems(2) by auto
      moreover have "plan_Phase (run_plan q) = TaskPlanActive" using q less.prems(3) by simp
      ultimately show ?thesis
        using less.hyps[OF advance_decreases[OF cur adv True] fr(1) _ _ loop] key by (simp add: completed_by_def)
    qed
  qed
qed

subsection \<open>Waiting for the validators\<close>

lemma count_running_le: "count_running ns k = Inr m \<Longrightarrow> m \<le> k + int (length ns)"
  by (induction ns arbitrary: k) (force split: if_splits)+

lemma count_running_all:
  "count_running ns k = Inr m \<Longrightarrow> k + int (length ns) \<le> m \<Longrightarrow> \<forall>n \<in> set ns. node_Phase n = PhaseRunning"
proof (induction ns arbitrary: k)
  case Nil
  then show ?case by simp
next
  case (Cons n ns)
  show ?case
  proof (cases "node_Phase n = PhaseRunning")
    case True
    then show ?thesis using Cons.IH[of "k + 1"] Cons.prems by simp
  next
    case False
    then have "count_running ns k = Inr m" using Cons.prems(1) by (simp split: if_splits)
    from count_running_le[OF this] Cons.prems(2) show ?thesis by simp
  qed
qed

definition all_running :: "world \<Rightarrow> string list \<Rightarrow> bool" where
  "all_running W names \<longleftrightarrow>
     (\<exists>calls. \<forall>name \<in> set names. \<exists>n. w_Node W calls name = Inr n \<and> node_Phase n = PhaseRunning)"

lemma await_complete:
  assumes "tb_status (awaitNodesRunning_Status W (AwaitNodesParams g ns (int (length names)) names) s fresh_task) = ExecutionComplete"
  shows "all_running W names"
proof (cases "names = []")
  case True
  then show ?thesis by (simp add: all_running_def)
next
  case False
  from assms False obtain nodes m where
      nodes: "map_result (\<lambda>name. map_sum api_text id (w_Node W (xs_Calls s) name)) names = Inr nodes"
    and m: "count_running nodes 0 = Inr m" "int (length names) \<le> m"
    by (auto simp: awaitNodesRunning_Status_def listTargetNodes_def fresh_task_def complete_def setFailed_def
        split: sum.splits if_splits)
  have run: "\<forall>n \<in> set nodes. node_Phase n = PhaseRunning"
    using count_running_all[OF m(1)] m(2) map_result_length[OF nodes] by simp
  have "\<exists>n. w_Node W (xs_Calls s) name = Inr n \<and> n \<in> set nodes" if "name \<in> set names" for name
    using nodes that
  proof (induction names arbitrary: nodes)
    case (Cons x xs)
    then show ?case by (cases "w_Node W (xs_Calls s) x") (auto split: sum.splits)
  qed simp
  with run show ?thesis unfolding all_running_def by blast
qed

lemma settle_complete:
  assumes "i < length (plan_Tasks (run_plan r))" "settleTask now i b r = (r', d)" "pt_Status (task_at r' i) = TaskComplete"
    "pt_Status (task_at r i) \<noteq> TaskComplete"
  shows "tb_status b = ExecutionComplete"
  using assms by (auto simp: settleTask_def Let_def failTask_def split: ExecutionStatus.splits if_splits)

lemma await_step:
  assumes i: "i < length (plan_Tasks (run_plan r))"
    and t: "pt_Type (task_at r i) = AwaitNodesRunning" "pt_Params (task_at r i) = AwaitNodesParams g ns (int (length names)) names"
    and open_i: "pt_Status (task_at r i) \<noteq> TaskComplete"
    and adv: "advanceTask (registry E P W) now i r = (r', d)" "pt_Status (task_at r' i) = TaskComplete"
  shows "all_running W names"
proof -
  let ?s = "run_state r" let ?p = "AwaitNodesParams g ns (int (length names)) names"
  let ?b = "awaitNodesRunning_Status W ?p ?s fresh_task"
  have "\<exists>r1. i < length (plan_Tasks (run_plan r1)) \<and> settleTask now i ?b r1 = (r', d) \<and> pt_Status (task_at r1 i) \<noteq> TaskComplete"
  proof (cases "needsSubmission (task_at r i)")
    case True
    have "settleTask now i ?b (at_task i (stamp_submitted now (task_at r i)) ?s r) = (r', d)"
      using adv(1) t True by (simp add: advanceTask_def Let_def registry_def still_running_def)
    moreover have "pt_Status (task_at (at_task i (stamp_submitted now (task_at r i)) ?s r) i) \<noteq> TaskComplete"
      using i open_i by simp
    moreover have "i < length (plan_Tasks (run_plan (at_task i (stamp_submitted now (task_at r i)) ?s r)))" using i by simp
    ultimately show ?thesis by blast
  next
    case False
    then have "settleTask now i ?b r = (r', d)" using adv(1) t by (simp add: advanceTask_def Let_def registry_def)
    with i open_i show ?thesis by blast
  qed
  then obtain r1 where "i < length (plan_Tasks (run_plan r1))" "settleTask now i ?b r1 = (r', d)"
    "pt_Status (task_at r1 i) \<noteq> TaskComplete" by blast
  from settle_complete[OF this(1,2) adv(2) this(3)] show ?thesis by (rule await_complete)
qed

subsection \<open>The ceremony in flight\<close>

text \<open>The founding set a plan in flight still waits for.\<close>

definition awaited :: "TaskPlan \<Rightarrow> string list option" where
  "awaited p =
     (case rev (plan_Tasks p) of
        [] \<Rightarrow> None
      | t # _ \<Rightarrow>
          if pt_Type t = AwaitNodesRunning \<and> pt_Status t \<noteq> TaskComplete
          then (case pt_Params t of AwaitNodesParams g ns e names \<Rightarrow> if e = int (length names) then Some names else None
                | _ \<Rightarrow> None)
          else None)"

definition awaits :: "string list \<Rightarrow> PlannedTask \<Rightarrow> bool" where
  "awaits names t \<longleftrightarrow> pt_Type t = AwaitNodesRunning \<and>
     (\<exists>g ns. pt_Params t = AwaitNodesParams g ns (int (length names)) names)"

lemma awaited_iff:
  "awaited p = Some names \<longleftrightarrow> (\<exists>k. length (plan_Tasks p) = Suc k \<and> awaits names (plan_Tasks p ! k) \<and>
     pt_Status (plan_Tasks p ! k) \<noteq> TaskComplete)"
proof (cases "plan_Tasks p" rule: rev_cases)
  case Nil
  then show ?thesis by (simp add: awaited_def)
next
  case (snoc ts t)
  then show ?thesis by (auto simp: awaited_def awaits_def nth_append split: TaskParams.splits)
qed

lemma built_awaited:
  assumes "group_BuildPlan E dec pd pid net = Inr plan"
  shows "awaited plan = Some (sst_IncumbentNodes (sn_Status net))"
  using assms by (auto simp: group_BuildPlan_def Let_def bind_result_eq_Inr buildPlannedTask_def marshalParams_def
      new_plan_def awaited_def split: option.splits if_splits)

lemma awaits_key: "task_key t = task_key u \<Longrightarrow> awaits names t = awaits names u"
  by (simp add: task_key_def awaits_def)

lemma executePlan_awaited:
  assumes "awaited p = Some names" and "plan_Phase p = TaskPlanActive"
    and "executePlan (registry E P W) now \<lparr>run_state = s, run_plan = p, run_active = a\<rparr> = (r', d)"
  shows "if plan_Phase (run_plan r') = TaskPlanComplete then all_running W names else awaited (run_plan r') = Some names"
proof -
  let ?r = "\<lparr>run_state = s, run_plan = p, run_active = a + 1\<rparr>"
  from assms(1) obtain k where k: "length (plan_Tasks p) = Suc k" "awaits names (plan_Tasks p ! k)"
    "pt_Status (plan_Tasks p ! k) \<noteq> TaskComplete" by (auto simp: awaited_iff)
  have "run_loop (registry E P W) now ?r = (r', d)" using assms(2,3) by (simp add: executePlan_def)
  from run_loop_last[of ?r k, OF _ _ _ this] k assms(2)
  consider (complete) "plan_Phase (run_plan r') = TaskPlanComplete" "completed_by (registry E P W) now k (plan_Tasks p ! k)"
    | (still) "plan_Phase (run_plan r') \<noteq> TaskPlanComplete" "length (plan_Tasks (run_plan r')) = Suc k"
        "task_key (task_at r' k) = task_key (plan_Tasks p ! k)" "pt_Status (task_at r' k) \<noteq> TaskComplete"
    by auto
  then show ?thesis
  proof cases
    case complete
    then obtain q q' d' where q: "k < length (plan_Tasks (run_plan q))" "task_key (task_at q k) = task_key (plan_Tasks p ! k)"
        "pt_Status (task_at q k) \<noteq> TaskComplete" "advanceTask (registry E P W) now k q = (q', d')"
        "pt_Status (task_at q' k) = TaskComplete" unfolding completed_by_def by blast
    have "awaits names (task_at q k)" using awaits_key[OF q(2)] k(2) by simp
    then obtain g ns where "pt_Type (task_at q k) = AwaitNodesRunning"
      "pt_Params (task_at q k) = AwaitNodesParams g ns (int (length names)) names" by (auto simp: awaits_def)
    from await_step[OF q(1) this q(3,4,5)] have "all_running W names" .
    then show ?thesis using complete by simp
  next
    case still
    have "awaits names (task_at r' k)" using awaits_key[OF still(3)] k(2) by simp
    then have "awaited (run_plan r') = Some names" using still(2,4) unfolding awaited_iff by blast
    then show ?thesis using still(1) by simp
  qed
qed

end
