(* ===== verification/NetworkCeremony.thy ===== *)
theory NetworkCeremony
  imports NetworkProps NetworkPlan
begin

text \<open>
  The genesis ceremony of a SeiNetwork over any sequence of reconciles and spec edits: the plan, the PlanInProgress
  condition and the GenesisCeremonyComplete condition agree, the latter latches, and a failed ceremony is rebuilt.
\<close>

subsection \<open>Keyed condition lists\<close>

text \<open>
  The planner looks a condition up by scanning the list itself.  That agrees with \<open>FindStatusCondition\<close> on a list with
  one entry per type, which the API server enforces (\<open>listMapKey=type\<close>) and \<open>SetStatusCondition\<close> keeps.
\<close>

locale keyed_conditions = status_conditions +
  assumes find_member:
      "distinct (map cond_Type cs) \<Longrightarrow> find_cond cs ty = Some c \<longleftrightarrow> c \<in> set cs \<and> cond_Type c = ty"
    and set_distinct: "distinct (map cond_Type cs) \<Longrightarrow> distinct (map cond_Type (set_cond cs c))"
begin

lemma scan_find:
  "distinct (map cond_Type cs) \<Longrightarrow>
   list_ex (\<lambda>c. cond_Type c = ty \<and> cond_Status c = st) cs \<longleftrightarrow> (\<exists>c. find_cond cs ty = Some c \<and> cond_Status c = st)"
  by (auto simp: list_ex_iff find_member)

lemma find_empty: "find_cond [] ty = None"
  using find_member[of "[]" ty] by (cases "find_cond [] ty") auto

end

abbreviation keyed_laws :: "ext \<Rightarrow> bool" where
  "keyed_laws E \<equiv> keyed_conditions (FindStatusCondition E) (SetStatusCondition E)"

lemma keyed_cond_laws: "keyed_laws E \<Longrightarrow> cond_laws E"
  by (simp add: keyed_conditions_def)

lemma ref_find_member:
  "distinct (map cond_Type cs) \<Longrightarrow> ref_find_cond cs ty = Some c \<longleftrightarrow> c \<in> set cs \<and> cond_Type c = ty"
  unfolding ref_find_cond_def by (induction cs) (auto simp: image_iff)

lemma ref_set_types: "set (map cond_Type (ref_set_cond now cs c)) = insert (cond_Type c) (set (map cond_Type cs))"
  by (induction cs) auto

lemma ref_set_distinct: "distinct (map cond_Type cs) \<Longrightarrow> distinct (map cond_Type (ref_set_cond now cs c))"
proof (induction cs)
  case Nil
  then show ?case by simp
next
  case (Cons d ds)
  then show ?case using ref_set_types[of now ds c] by auto
qed

interpretation ref_keyed: keyed_conditions ref_find_cond "ref_set_cond now"
  by unfold_locales (simp_all add: ref_find_member ref_set_distinct)

lemma demo_keyed_laws: "keyed_laws demo_ext"
  using ref_keyed.keyed_conditions_axioms[of 0] by (simp add: demo_ext_def)

subsection \<open>The invariant\<close>

abbreviation ceremony_complete :: "ext \<Rightarrow> SeiNetwork \<Rightarrow> bool" where
  "ceremony_complete E net \<equiv> hasConditionTrue E net ConditionGenesisCeremonyComplete"

definition ceremony_inv :: "ext \<Rightarrow> SeiNetwork \<Rightarrow> bool" where
  "ceremony_inv E net \<longleftrightarrow> distinct (map cond_Type (sn_Conditions net)) \<and>
     (case sn_Plan net of
        None \<Rightarrow> \<not> hasConditionTrue E net ConditionPlanInProgress
      | Some p \<Rightarrow> plan_Phase p = TaskPlanActive \<and> awaited p \<noteq> None \<and>
                  hasConditionTrue E net ConditionPlanInProgress \<and> \<not> ceremony_complete E net)"

text \<open>From one version of the object to a later one: the invariant is kept, and a complete ceremony stays complete.\<close>

definition keeps :: "ext \<Rightarrow> SeiNetwork \<Rightarrow> SeiNetwork \<Rightarrow> bool" where
  "keeps E n n' \<longleftrightarrow> (keyed_laws E \<and> ceremony_inv E n \<longrightarrow>
     ceremony_inv E n' \<and> (ceremony_complete E n \<longrightarrow> ceremony_complete E n'))"

lemma keepsI: "(keyed_laws E \<Longrightarrow> keeps E n n') \<Longrightarrow> keeps E n n'"
  by (auto simp: keeps_def)

lemma keeps_trans: "keeps E a b \<Longrightarrow> keeps E b c \<Longrightarrow> keeps E a c"
  by (auto simp: keeps_def)

lemma keeps_same:
  assumes "sn_Plan m = sn_Plan n" and "sn_Conditions m = sn_Conditions n"
  shows "keeps E n m"
proof -
  have "hasConditionTrue E m ty = hasConditionTrue E n ty" for ty using assms by (simp add: hasConditionTrue_def)
  then show ?thesis using assms by (simp add: keeps_def ceremony_inv_def split: option.splits)
qed

lemma keeps_status: "sn_Status b' = sn_Status b \<Longrightarrow> keeps E a b \<Longrightarrow> keeps E a b'"
  by (rule keeps_trans[OF _ keeps_same]) simp_all

lemma inv_complete_no_plan: "ceremony_inv E n \<Longrightarrow> ceremony_complete E n \<Longrightarrow> sn_Plan n = None"
  by (auto simp: ceremony_inv_def split: option.splits)

lemma distinct_set:
  assumes "keyed_laws E"
  shows "distinct (map cond_Type (sn_Conditions n)) \<Longrightarrow>
    distinct (map cond_Type (sn_Conditions (setNetworkCondition E n ty st re ms)))"
  using keyed_conditions.set_distinct[OF assms] by (simp add: setNetworkCondition_def)

lemma keeps_set_other:
  assumes "keyed_laws E" and "ty \<noteq> ConditionPlanInProgress" "ty \<noteq> ConditionGenesisCeremonyComplete"
  shows "keeps E n (setNetworkCondition E n ty st re ms)"
  using assms(2,3) distinct_set[OF assms(1), of n ty st re ms]
  by (auto simp: keeps_def ceremony_inv_def hasConditionTrue_set[OF keyed_cond_laws[OF assms(1)]] split: option.splits)

lemma keeps_ceremony_false:
  assumes "keyed_laws E" and "\<not> ceremony_complete E n"
  shows "keeps E n (setNetworkCondition E n ConditionGenesisCeremonyComplete ConditionFalse re ms)"
  using assms(2) distinct_set[OF assms(1), of n ConditionGenesisCeremonyComplete ConditionFalse re ms]
  by (auto simp: keeps_def ceremony_inv_def hasConditionTrue_set[OF keyed_cond_laws[OF assms(1)]] split: option.splits)

lemma keeps_seedIfAbsent:
  assumes "keyed_laws E"
  shows "keeps E n (seedConditionIfAbsent E ty re ms n)"
proof -
  have "distinct (map cond_Type (sn_Conditions n)) \<Longrightarrow> distinct (map cond_Type (sn_Conditions (seedConditionIfAbsent E ty re ms n)))"
    using distinct_set[OF assms, of n] by (simp add: seedConditionIfAbsent_def)
  then show ?thesis
    by (auto simp: keeps_def ceremony_inv_def seedIfAbsent_true[OF keyed_cond_laws[OF assms]] split: option.splits)
qed

lemma keeps_seed:
  assumes "keyed_laws E"
  shows "keeps E n (seedAlwaysPresentConditions E n)"
proof -
  have refl: "keeps E m m" for m by (simp add: keeps_def)
  have g: "keeps E m (setGenesisCeremonyCondition E m)" for m
    using keeps_ceremony_false[OF assms, of m] by (simp add: setGenesisCeremonyCondition_def refl)
  have p: "keeps E m (setPausedCondition E m)" for m
    by (simp add: setPausedCondition_def keeps_set_other[OF assms])
  have c: "keeps E m (setConfigValuesValidCondition E m)" for m
    by (simp add: setConfigValuesValidCondition_def keeps_set_other[OF assms] split: option.split)
  show ?thesis
    unfolding seedAlwaysPresentConditions_def
    by (rule keeps_trans[OF _ keeps_seedIfAbsent[OF assms]])+ (rule keeps_trans[OF keeps_trans[OF g p] c])
qed

lemma keeps_report:
  assumes "keyed_laws E"
  shows "keeps E n (report E now ws cs n)"
proof -
  have fields: "keeps E n (report_fields E ws cs n)"
    by (rule keeps_same) (simp_all add: report_fields_def Let_def)
  have nodes: "keeps E m (setNodesReadyCondition E r d ns m)" for m r d ns
    by (simp add: setNodesReadyCondition_def Let_def keeps_set_other[OF assms])
  have roll: "keeps E m (setRolloutInProgressCondition E u d k m)" for m u d k
    by (simp add: setRolloutInProgressCondition_def Let_def keeps_set_other[OF assms])
  have prod: "keeps E m (setProducingCondition E ns t m)" for m ns t
  proof -
    have set: "keeps E k (setNetworkCondition E k ConditionProducing st re ms)" for k st re ms
      by (rule keeps_set_other[OF assms]) simp_all
    have mark: "keeps E m (upd_net (\<lambda>st. st\<lparr>sst_ObservedHeight := h\<rparr>) m)" for h by (rule keeps_same) simp_all
    show ?thesis by (simp add: setProducingCondition_def Let_def set keeps_trans[OF mark set])
  qed
  show ?thesis
    unfolding report_def Let_def by (rule keeps_trans[OF keeps_trans[OF keeps_trans[OF fields nodes] roll] prod])
qed

text \<open>The transitions of the plan.\<close>

lemma set_plan_frame [simp]:
  "sn_Plan (set_plan p n) = p" "sn_Conditions (set_plan p n) = sn_Conditions n" "sn_Spec (set_plan p n) = sn_Spec n"
  "hasConditionTrue E (set_plan p n) ty = hasConditionTrue E n ty"
  by (simp_all add: set_plan_def hasConditionTrue_def)

lemma inv_cleared:
  assumes "keyed_laws E" and "distinct (map cond_Type (sn_Conditions n))"
  shows "ceremony_inv E (clearPlanInProgress E re ms (set_plan None n))"
  using distinct_set[OF assms(1), of "set_plan None n"] assms(2)
  by (simp add: ceremony_inv_def clearPlanInProgress_def hasConditionTrue_set[OF keyed_cond_laws[OF assms(1)]])

lemma inv_settled:
  assumes "keyed_laws E" and "ceremony_inv E n" and "sn_Plan n = Some p0"
    and "plan_Phase p = TaskPlanActive \<Longrightarrow> awaited p \<noteq> None"
  shows "ceremony_inv E (settle_plan E (set_plan (Some p) n))"
proof (cases "plan_Phase p")
  case TaskPlanActive
  then show ?thesis using assms(2,3,4) by (simp add: settle_plan_def ceremony_inv_def)
next
  case TaskPlanComplete
  have "distinct (map cond_Type (sn_Conditions n))" using assms(2) by (simp add: ceremony_inv_def)
  with TaskPlanComplete show ?thesis using distinct_set[OF assms(1), of "set_plan (Some p) n"]
    by (simp add: settle_plan_def completePlan_def inv_cleared[OF assms(1)])
next
  case TaskPlanFailed
  have "distinct (map cond_Type (sn_Conditions n))" using assms(2) by (simp add: ceremony_inv_def)
  with TaskPlanFailed show ?thesis using distinct_set[OF assms(1), of "set_plan (Some p) n"]
    by (simp add: settle_plan_def failPlan_def inv_cleared[OF assms(1)])
qed

lemma inv_abandoned:
  assumes "keyed_laws E" and "ceremony_inv E n"
  shows "ceremony_inv E (abandoned E (adopted_set E n))" and "ceremony_inv E (abandoned E (torn_down E k n))"
  using assms(2) distinct_set[OF assms(1), of n]
  by (simp_all add: abandoned_def adopted_set_def torn_down_def ceremony_inv_def[of E n] inv_cleared[OF assms(1)])

lemma group_BuildPlan_active: "group_BuildPlan E dec pd pid n = Inr plan \<Longrightarrow> plan_Phase plan = TaskPlanActive"
  by (auto simp: group_BuildPlan_def Let_def new_plan_def bind_result_eq_Inr split: option.splits)

lemma keeps_start:
  assumes "keyed_laws E" and "needsGenesisPlan n" and "plan_Phase plan = TaskPlanActive" "awaited plan \<noteq> None"
  shows "keeps E n (startPlan E plan n)"
proof (cases "ceremony_inv E n")
  case False
  then show ?thesis by (simp add: keeps_def)
next
  case True
  then have d: "distinct (map cond_Type (sn_Conditions n))" by (simp add: ceremony_inv_def)
  have "\<not> ceremony_complete E n"
    using assms(2) keyed_conditions.scan_find[OF assms(1) d, of ConditionGenesisCeremonyComplete ConditionTrue]
    by (auto simp: needsGenesisPlan_def isConditionTrue_def hasConditionTrue_def split: option.splits)
  then show ?thesis using assms(3,4) d distinct_set[OF assms(1), of "set_plan (Some plan) n"]
    by (simp add: keeps_def ceremony_inv_def startPlan_def setPlanInProgress_def
        hasConditionTrue_set[OF keyed_cond_laws[OF assms(1)]])
qed

lemma keeps_active:
  assumes "sn_Plan n = Some p" and "ceremony_inv E n \<Longrightarrow> ceremony_inv E n'"
  shows "keeps E n n'"
  using assms by (auto simp: keeps_def ceremony_inv_def[of E n])

subsection \<open>One reconcile\<close>

text \<open>
  A relation between versions of the object that every step except the plan's respects relates the object a reconcile
  read to the object in memory and to the stored object.  The locale states what the relation needs, and carries it
  through the steps.
\<close>

definition lifts :: "(SeiNetwork \<Rightarrow> SeiNetwork \<Rightarrow> bool) \<Rightarrow> SeiNetwork \<Rightarrow> netst \<Rightarrow> netst \<Rightarrow> bool" where
  "lifts K net s s' \<longleftrightarrow> (K net (ns_Net s) \<and> K net (ns_Stored s) \<longrightarrow> K net (ns_Net s') \<and> K net (ns_Stored s'))"

interpretation lifts: step_relation "lifts K net" for K net
  by unfold_locales (auto simp: lifts_def)

lemma lifts_quiet: "quiet Q s s' \<Longrightarrow> lifts K net s s'"
  by (simp add: quiet_def lifts_def)

lemma lifts_do_call: "lifts K net s (fst (do_call W ev s))"
  by (simp add: do_call_state lifts_def)

lemma lifts_log: "lifts K net s (s\<lparr>ns_Trace := tr\<rparr>)"
  by (simp add: lifts_def)

lemma lifts_do_delete: "lifts K net s (fst (do_delete W c s))"
  by (auto simp: do_delete_def net_call_def lifts_log split: option.splits)

lemma lifts_syncPaused: "lifts K net s (fst (syncPausedToChildren W b s))"
  unfolding syncPausedToChildren_def
  by (rule lifts.rel_with_children, rule lifts.rel_for_each)
     (auto simp: sync_paused_child_def intro!: lifts.rel_wrap lifts_do_call lifts.rel_refl)

lemma lifts_ensure: "lifts K net s (fst (ensureSeiNode E W i s))"
  by (auto simp: ensureSeiNode_def ensure_existing_def Let_def lifts.rel_refl split: sum.splits prod.splits
      intro: lifts_do_call)

lemma lifts_scaleDown: "lifts K net s (fst (scaleDown W s))"
  by (auto simp: scaleDown_def Let_def scale_down_child_def split: sum.splits
      intro!: lifts.rel_refl lifts.rel_for_each lifts.rel_wrap lifts_do_delete)

lemma lifts_mutate: "lifts K net s (fst (mutate_children E W s))"
  unfolding mutate_children_def
  by (rule lifts.rel_and_then, rule lifts.rel_for_each)
     (auto simp: ensure_ordinal_def intro!: lifts.rel_wrap lifts_ensure lifts_scaleDown)

locale net_relation =
  fixes E :: ext and K :: "SeiNetwork \<Rightarrow> SeiNetwork \<Rightarrow> bool"
  assumes K_trans: "K a b \<Longrightarrow> K b c \<Longrightarrow> K a c"
    and K_same: "sn_Plan m = sn_Plan n \<Longrightarrow> sn_Conditions m = sn_Conditions n \<Longrightarrow> K n m"
    and K_seed: "K n (seedAlwaysPresentConditions E n)"
    and K_report: "K n (report E now ws cs n)"
begin

lemma on_net: "K (ns_Net s) (f (ns_Net s)) \<Longrightarrow> lifts K net s (on_net f s)"
  by (auto simp: lifts_def on_net_def intro: K_trans)

lemma K_status: "sn_Status b' = sn_Status b \<Longrightarrow> K a b \<Longrightarrow> K a b'"
  by (rule K_trans[OF _ K_same]) simp_all

lemma write_status: "lifts K net s (fst (write_status W s))"
  by (auto simp: lifts_def write_status_def net_call_def split: option.splits intro: K_status)

lemma write_finalizer: "lifts K net s (fst (write_finalizer W b s))"
  by (auto simp: lifts_def write_finalizer_def net_call_def on_net_def split: option.splits intro: K_status)

lemma populate: "lifts K net s (fst (populateIncumbentNodes W s))"
  unfolding populateIncumbentNodes_def
  by (rule lifts.rel_with_children) (auto simp: record_incumbents_def intro!: on_net K_same)

lemma nodes: "lifts K net s (fst (reconcileSeiNodes E' W s))"
  by (auto simp: reconcileSeiNodes_def Let_def populate lifts_mutate intro!: lifts.rel_and_then)

lemma service: "lifts K net s (fst (reconcileInternalService E' W s))"
proof -
  have clear: "lifts K net t (fst (clearRetainRecord W v t))" for v t
    by (auto simp: clearRetainRecord_def lifts.rel_refl lifts_do_call)
  have "lifts K net (s\<lparr>ns_Trace := tr\<rparr>)
      (fst (and_then (wrap_err m (clearRetainRecord W v (s\<lparr>ns_Trace := tr\<rparr>))) (record_service E' v)))" for v m tr
    by (rule lifts.rel_and_then) (auto simp: record_service_def intro!: lifts.rel_wrap clear on_net K_same)
  then have "lifts K net s
      (fst (and_then (wrap_err m (clearRetainRecord W v (s\<lparr>ns_Trace := tr\<rparr>))) (record_service E' v)))" for v m tr
    by (rule lifts.rel_trans[OF lifts_log])
  then show ?thesis
    by (simp add: reconcileInternalService_def Let_def lifts.rel_refl lifts_log split: sum.splits)
qed

lemma before_plan: "lifts K net s (fst (before_plan E W s))"
proof -
  have "lifts K net t (fst (sync_paused E W t))" for t
    unfolding sync_paused_def
    by (rule lifts.rel_wrap, rule lifts.rel_trans[OF on_net lifts_syncPaused]) (rule K_seed)
  then show ?thesis
    unfolding before_plan_def
    by (intro lifts.rel_and_then)
       (auto simp: ensureFinalizer_def sync_service_def sync_nodes_def lifts.rel_refl write_finalizer
          intro!: lifts.rel_wrap service nodes)
qed

lemma updateStatus: "lifts K net s (fst (updateStatus E W now s))"
  unfolding updateStatus_def
  by (rule lifts.rel_with_children)
     (auto simp: write_report_def intro!: lifts.rel_trans[OF on_net write_status] K_report)

lemma deletion: "lifts K net s (fst (handleDeletion W s))"
proof -
  have wr: "lifts K net s (fst (write_status W (on_net (upd_net (\<lambda>st. st\<lparr>sst_Phase := ph\<rparr>)) s)))" for ph
    by (rule lifts.rel_trans[OF on_net write_status]) (rule K_same; simp)
  have rel: "lifts K net t (fst (and_then (release_children W t) (write_finalizer W False)))" for t
    by (rule lifts.rel_and_then) (auto intro: lifts_quiet[OF release_quiet] write_finalizer)
  show ?thesis
    using wr[of GroupPhaseTerminating] lifts.rel_trans[OF wr[of GroupPhaseTerminating] rel]
    by (auto simp: handleDeletion_def wrap_err_def lifts.rel_refl split: prod.splits option.splits)
qed

lemma start: "K net (ns_Net (start_state net))" "K net (ns_Stored (start_state net))"
  by (simp_all add: start_state_def K_same)

end

interpretation keeps: net_relation E "keeps E" for E
  by unfold_locales (auto intro: keeps_trans keeps_same keepsI[OF keeps_seed] keepsI[OF keeps_report])

lemma lifts_abandon:
  assumes "keyed_laws E" and "sn_Plan (ns_Net s) = Some p"
  shows "lifts (keeps E) net s (fst (abandonPlanForLostValidator E W s))"
  unfolding abandonPlanForLostValidator_def
proof (rule lifts.rel_with_children)
  fix cs
  have adopted: "keeps E (ns_Net s) (abandoned E (adopted_set E (ns_Net s)))"
    and torn: "keeps E (ns_Net s) (abandoned E (torn_down E k (ns_Net s)))" for k
    using inv_abandoned[OF assms(1), of "ns_Net s"] assms(2) by (auto intro!: keeps_active)
  show "lifts (keeps E) net s (fst (abandon_set E W cs s))"
  proof (cases "list_ex (\<lambda>c. older_than c (ns_Net s)) cs")
    case True
    then show ?thesis using adopted by (simp add: abandon_set_def keeps.on_net)
  next
    case False
    obtain s1 e where loop: "for_each (delete_survivor W) cs s = (s1, e)" by (metis surj_pair)
    have q: "quiet (\<lambda>_ e. \<exists>c \<in> set cs. e = DeleteNode c) s s1" using teardown_quiet[of s cs W] False loop by simp
    have adv: "lifts (keeps E) net s s1" by (rule lifts_quiet[OF q])
    have s1: "ns_Net s1 = ns_Net s" using q by (simp add: quiet_def)
    have "lifts (keeps E) net s1 (on_net (abandoned E \<circ> torn_down E k) s1)" for k
      by (rule keeps.on_net) (simp add: s1 torn)
    then have fin: "lifts (keeps E) net s (on_net (abandoned E \<circ> torn_down E k) s1)" for k
      by (rule lifts.rel_trans[OF adv])
    show ?thesis using False loop adv fin by (cases e) (simp_all add: abandon_set_def)
  qed
qed

lemma lifts_drive:
  assumes "keyed_laws E" and p: "sn_Plan (ns_Net s) = Some p"
  shows "lifts (keeps E) net s (fst (drivePlan E P W now p s))"
proof -
  obtain r d where r: "executePlan (registry E P (nw_World W (ns_Trace s))) now
      \<lparr>run_state = \<lparr>xs_Node = None, xs_Calls = []\<rparr>, run_plan = p, run_active = 0\<rparr> = (r, d)" by (metis surj_pair)
  have "keeps E (ns_Net s) (settle_plan E (set_plan (Some (run_plan r)) (ns_Net s)))"
  proof (rule keeps_active[OF p])
    assume inv: "ceremony_inv E (ns_Net s)"
    then obtain names where "awaited p = Some names" "plan_Phase p = TaskPlanActive" using p by (auto simp: ceremony_inv_def)
    from executePlan_awaited[OF this r] have "plan_Phase (run_plan r) = TaskPlanActive \<Longrightarrow> awaited (run_plan r) \<noteq> None" by auto
    then show "ceremony_inv E (settle_plan E (set_plan (Some (run_plan r)) (ns_Net s)))"
      by (rule inv_settled[OF assms(1) inv p])
  qed
  then show ?thesis using r by (auto simp: drivePlan_def on_net_def lifts_def intro: keeps_trans)
qed

lemma lifts_reconcilePlan:
  assumes "keyed_laws E"
  shows "lifts (keeps E) net s (fst (reconcilePlan E P W now pid s))"
proof (cases rule: reconcilePlan_cases[of s E P W now pid])
  case (lost p s' e)
  then show ?thesis using lifts_abandon[OF assms lost(2), of net W] by simp
next
  case (drive p s' d)
  then show ?thesis using lifts_drive[OF assms drive(2), of net P W now] by simp
next
  case (start plan)
  then show ?thesis using keeps_start[OF assms start(3) group_BuildPlan_active[OF start(4)]] built_awaited[OF start(4)]
    by (simp add: keeps.on_net)
qed (simp_all add: lifts.rel_refl)

lemma reconcile_keeps: "keeps E net (stored_of (reconcile_network E P W now pid net))"
proof (rule keepsI)
  assume laws: "keyed_laws E"
  have live: "lifts (keeps E) net s (nres_State (reconcile_live E P W now pid s))" for s
  proof (cases rule: reconcile_live_cases[of E W s P now pid])
    case (early s1 e)
    then show ?thesis using keeps.before_plan[of E net s W] by simp
  next
    case (plan_error s1 s2 d e)
    then show ?thesis using keeps.before_plan[of E net s W] lifts_reconcilePlan[OF laws, of net s1 P W now pid]
      by (auto intro: lifts.rel_trans)
  next
    case (full s1 s2 d)
    then have "lifts (keeps E) net s s2"
      using keeps.before_plan[of E net s W] lifts_reconcilePlan[OF laws, of net s1 P W now pid]
      by (auto intro: lifts.rel_trans)
    then show ?thesis using full(3) lifts.rel_trans[OF _ keeps.updateStatus] by simp
  qed
  show "keeps E net (stored_of (reconcile_network E P W now pid net))"
    using live[of "start_state net"] keeps.deletion[of E net "start_state net" W] keeps.start[of E net]
    by (simp add: reconcile_network_def net_done_def lifts_def)
qed

subsection \<open>The life of a network\<close>

text \<open>An edit of the spec or the metadata leaves the status alone; only reconciles write it.\<close>

inductive net_evolve :: "ext \<Rightarrow> SeiNetwork \<Rightarrow> SeiNetwork \<Rightarrow> bool" for E where
  edit: "sn_Status net' = sn_Status net \<Longrightarrow> net_evolve E net net'"
| pass: "net_evolve E net (stored_of (reconcile_network E P W now pid net))"

lemma evolve_keeps: "net_evolve E a b \<Longrightarrow> keeps E a b"
  by (erule net_evolve.cases) (auto intro: reconcile_keeps keeps_same)

lemma reach_keeps:
  assumes "(net_evolve E)\<^sup>*\<^sup>* a b"
  shows "keeps E a b"
  using assms
proof (induction rule: rtranclp_induct)
  case base
  then show ?case by (simp add: keeps_def)
next
  case (step b c)
  then show ?case using keeps_trans evolve_keeps by blast
qed

text \<open>Over any sequence of reconciles and spec edits, against any API server and any sidecars, a network stores a plan
  exactly while PlanInProgress is True, the stored plan is always active, and no plan is stored once the genesis ceremony
  is complete.\<close>

theorem ceremony_status_agrees:
  assumes "keyed_laws E" and "sn_Plan net = None" and "sn_Conditions net = []" and "(net_evolve E)\<^sup>*\<^sup>* net net'"
  shows "case sn_Plan net' of
      None \<Rightarrow> \<not> hasConditionTrue E net' ConditionPlanInProgress
    | Some p \<Rightarrow> plan_Phase p = TaskPlanActive \<and> hasConditionTrue E net' ConditionPlanInProgress \<and> \<not> ceremony_complete E net'"
proof -
  have "ceremony_inv E net"
    using assms(2,3) keyed_conditions.find_empty[OF assms(1)] by (simp add: ceremony_inv_def hasConditionTrue_def)
  then show ?thesis using reach_keeps[OF assms(4)] assms(1) by (auto simp: keeps_def ceremony_inv_def split: option.splits)
qed

text \<open>C22. The ceremony runs at most once: from the moment GenesisCeremonyComplete is True, because the plan completed or
  because an adopted set lost a validator, it stays True and no plan is ever stored again.\<close>

theorem ceremony_latches:
  assumes "keyed_laws E" and "ceremony_inv E net" and "ceremony_complete E net" and "(net_evolve E)\<^sup>*\<^sup>* net net'"
  shows "ceremony_complete E net' \<and> sn_Plan net' = None"
  using reach_keeps[OF assms(4)] assms(1,2,3) inv_complete_no_plan[of E net'] by (auto simp: keeps_def)

lemma demo_pass: "(net_evolve demo_ext)\<^sup>*\<^sup>* net (stored_of (demo_reconcile cs net))"
  by (intro r_into_rtranclp net_evolve.pass)

theorem ceremony_status_agrees_witness:
  "hasConditionTrue demo_ext (stored_of (demo_reconcile [demo_child 0 100, demo_child 1 100] demo_network)) ConditionPlanInProgress \<and>
   (\<exists>p. sn_Plan (stored_of (demo_reconcile [demo_child 0 100, demo_child 1 100] demo_network)) = Some p \<and>
      plan_Phase p = TaskPlanActive)"
proof -
  let ?net = "stored_of (demo_reconcile [demo_child 0 100, demo_child 1 100] demo_network)"
  have "hasConditionTrue demo_ext ?net ConditionPlanInProgress" by code_simp
  moreover have "sn_Plan demo_network = None" "sn_Conditions demo_network = []"
    by (simp_all add: demo_network_def demo_network_status_def)
  ultimately show ?thesis
    using ceremony_status_agrees[OF demo_keyed_laws _ _ demo_pass,
        of demo_network "[demo_child 0 100, demo_child 1 100]"]
    by (auto split: option.splits)
qed

theorem ceremony_latches_witness:
  "ceremony_complete demo_ext (stored_of (demo_reconcile [demo_child 0 99, demo_child 1 200]
     (stored_of (demo_reconcile [demo_child 0 99] lost_network)))) \<and>
   sn_Plan (stored_of (demo_reconcile [demo_child 0 99, demo_child 1 200]
     (stored_of (demo_reconcile [demo_child 0 99] lost_network)))) = None"
proof -
  have "ceremony_inv demo_ext lost_network" by code_simp
  then have "ceremony_inv demo_ext (stored_of (demo_reconcile [demo_child 0 99] lost_network))"
    using reconcile_keeps[of demo_ext lost_network] demo_keyed_laws by (simp add: keeps_def)
  moreover have "ceremony_complete demo_ext (stored_of (demo_reconcile [demo_child 0 99] lost_network))" by code_simp
  ultimately show ?thesis
    by (rule ceremony_latches[OF demo_keyed_laws _ _ demo_pass])
qed

subsection \<open>A failed ceremony\<close>

lemma before_plan_view:
  assumes "cond_laws E" "owner_laws W" and "before_plan E W (start_state net) = (s1, e)"
  shows "view E (ns_Net s1) = view E net"
  using follows_before_plan[OF assms(1,2), of net "start_state net"] assms(3)
  by (simp add: follows_def start_state_def)

lemma report_plan: "sn_Plan (report E now ws cs n) = sn_Plan n"
proof -
  have "sn_Plan (setProducingCondition E ns t m) = sn_Plan m" for ns t m
    by (simp add: setProducingCondition_def Let_def)
  moreover have "sn_Plan (setRolloutInProgressCondition E u d k m) = sn_Plan m" for u d k m
    by (simp add: setRolloutInProgressCondition_def Let_def)
  moreover have "sn_Plan (setNodesReadyCondition E r d ns m) = sn_Plan m" for r d ns m
    by (simp add: setNodesReadyCondition_def Let_def)
  moreover have "sn_Plan (report_fields E ws cs n) = sn_Plan n" by (simp add: report_fields_def Let_def)
  ultimately show ?thesis by (simp only: report_def Let_def)
qed

lemma updateStatus_stored:
  assumes "updateStatus E W now s = (s', None)"
  shows "sn_Plan (ns_Stored s') = sn_Plan (ns_Net s)"
proof -
  from assms obtain cs where "write_report E W now cs s = (s', None)"
    by (auto simp: updateStatus_def with_children_def split: sum.splits)
  from write_status_ok[OF this[unfolded write_report_def]] show ?thesis by (simp add: report_plan on_net_def)
qed

text \<open>C24. A failed ceremony is not terminal: once every replica exists again, the next reconcile of a network that is
  neither paused nor complete stores a new ceremony plan, whatever the condition says of the last one.\<close>

theorem failed_ceremony_rebuilt:
  assumes laws: "keyed_laws E" "owner_laws W"
    and net: "ceremony_inv E net" "sn_Plan net = None" "\<not> ceremony_complete E net" "\<not> sn_Paused net" "\<not> sn_Deleting net"
    and failed: "hasConditionReason E net ConditionGenesisCeremonyComplete ''CeremonyFailed''"
    and children: "before_plan E W (start_state net) = (s1, None)" "allReplicasCreated (ns_Net s1)"
    and built: "group_BuildPlan E (w_Bech32Decode (nw_World W (ns_Trace s1))) (w_ParseDuration (nw_World W (ns_Trace s1))) pid
      (ns_Net s1) = Inr plan"
    and ok: "nres_Error (reconcile_network E P W now pid net) = None"
  shows "sn_Plan (stored_of (reconcile_network E P W now pid net)) = Some plan"
proof -
  note v = view_fields[OF before_plan_view[OF keyed_cond_laws[OF laws(1)] laws(2) children(1)]]
  have "keeps E net (ns_Net s1)"
    using keeps.before_plan[of E net "start_state net" W] keeps.start[of E net] children(1) by (simp add: lifts_def)
  then have "distinct (map cond_Type (sn_Conditions (ns_Net s1)))"
    using net(1) laws(1) by (simp add: keeps_def ceremony_inv_def)
  then have "\<not> isConditionTrue (ns_Net s1) ConditionGenesisCeremonyComplete"
    using keyed_conditions.scan_find[OF laws(1), of "sn_Conditions (ns_Net s1)"] net(3) v(9)
    by (auto simp: isConditionTrue_def hasConditionTrue_def)
  then have needs: "needsGenesisPlan (ns_Net s1)" using children(2) net(2) v(7) by (simp add: needsGenesisPlan_def)
  have plan: "reconcilePlan E P W now pid s1 = (on_net (startPlan E plan) s1, ResultRequeueImmediate, None)"
    using needs built net(2,4) v(6,7) by (simp add: reconcilePlan_def Let_def)
  obtain s3 e3 where upd: "updateStatus E W now (on_net (startPlan E plan) s1) = (s3, e3)" by (metis surj_pair)
  have "e3 = None" and st: "nres_State (reconcile_network E P W now pid net) = s3"
    using ok net(5) children(1) plan upd by (simp_all add: reconcile_network_def reconcile_live_def net_done_def wrap_err_def)
  then show ?thesis using updateStatus_stored[of E W now "on_net (startPlan E plan) s1" s3] upd
    by (simp add: on_net_def startPlan_def setPlanInProgress_def)
qed

definition failed_network :: SeiNetwork where
  "failed_network = failPlan demo_ext lost_network"

theorem failed_ceremony_rebuilt_witness:
  "hasConditionReason demo_ext failed_network ConditionGenesisCeremonyComplete ''CeremonyFailed'' \<and>
   sn_Plan (stored_of (demo_reconcile [demo_child 0 100, demo_child 1 100] failed_network)) \<noteq> None"
proof
  let ?cs = "[demo_child 0 100, demo_child 1 100]"
  let ?b = "before_plan demo_ext (demo_nworld ?cs) (start_state failed_network)"
  have net: "ceremony_inv demo_ext failed_network" by code_simp
  have net2: "case sn_Plan failed_network of None \<Rightarrow> True | Some _ \<Rightarrow> False" by code_simp
  have net3: "\<not> ceremony_complete demo_ext failed_network" "\<not> sn_Paused failed_network" "\<not> sn_Deleting failed_network"
    by code_simp+
  show why: "hasConditionReason demo_ext failed_network ConditionGenesisCeremonyComplete ''CeremonyFailed''" by code_simp
  have b: "?b = (fst ?b, None)" "allReplicasCreated (ns_Net (fst ?b))"
  proof -
    have "case snd ?b of None \<Rightarrow> True | Some _ \<Rightarrow> False" by code_simp
    then show "?b = (fst ?b, None)" by (cases ?b) (auto split: option.splits)
    show "allReplicasCreated (ns_Net (fst ?b))" by code_simp
  qed
  have w: "nw_World (demo_nworld ?cs) tr = demo_world" for tr by (simp add: demo_nworld_def)
  have "case group_BuildPlan demo_ext (w_Bech32Decode demo_world) (w_ParseDuration demo_world) ''plan'' (ns_Net (fst ?b)) of
      Inl _ \<Rightarrow> False | Inr _ \<Rightarrow> True" by code_simp
  then obtain plan where built: "group_BuildPlan demo_ext (w_Bech32Decode demo_world) (w_ParseDuration demo_world) ''plan''
      (ns_Net (fst ?b)) = Inr plan" by (auto split: sum.splits)
  have "case nres_Error (demo_reconcile ?cs failed_network) of None \<Rightarrow> True | Some _ \<Rightarrow> False" by code_simp
  then have ok: "nres_Error (demo_reconcile ?cs failed_network) = None" by (simp split: option.splits)
  have "group_BuildPlan demo_ext (w_Bech32Decode (nw_World (demo_nworld ?cs) (ns_Trace (fst ?b))))
      (w_ParseDuration (nw_World (demo_nworld ?cs) (ns_Trace (fst ?b)))) ''plan'' (ns_Net (fst ?b)) = Inr plan"
    by (simp only: w built)
  note built = this
  have "sn_Plan failed_network = None" using net2 by (simp split: option.splits)
  from failed_ceremony_rebuilt[OF demo_keyed_laws demo_owner_laws net this net3 why b(1,2) built ok]
  show "sn_Plan (stored_of (demo_reconcile ?cs failed_network)) \<noteq> None" by simp
qed

end
