(* ===== verification/NetworkOutcome.thy ===== *)
theory NetworkOutcome
  imports NetworkCeremony
begin

text \<open>
  What a network reports: a ceremony is reported complete only when every founding validator was read Running in that
  reconcile, and Producing rests on a fresh reading of the committed height.
\<close>

subsection \<open>The ceremony\<close>

lemma report_condition:
  assumes "cond_laws E" and "ty \<notin> {ConditionNodesReady, ConditionRolloutInProgress, ConditionProducing}"
  shows "hasConditionTrue E (report E now ws cs n) ty = hasConditionTrue E n ty"
    and "hasConditionReason E (report E now ws cs n) ty re = hasConditionReason E n ty re"
proof -
  note set = hasConditionTrue_set[OF assms(1)] hasConditionReason_set[OF assms(1)]
  have upd: "hasConditionTrue E (upd_net f m) ty = hasConditionTrue E m ty"
    "hasConditionReason E (upd_net f m) ty re = hasConditionReason E m ty re"
    if "sst_Conditions (f (sn_Status m)) = sst_Conditions (sn_Status m)" for f m re
    using that by (simp_all add: hasConditionTrue_def hasConditionReason_def)
  have fields: "hasConditionTrue E (report_fields E ws cs n) ty = hasConditionTrue E n ty"
    "hasConditionReason E (report_fields E ws cs n) ty re = hasConditionReason E n ty re"
    unfolding report_fields_def Let_def by (rule upd; simp)+
  have nodes: "hasConditionTrue E (setNodesReadyCondition E r d ns m) ty = hasConditionTrue E m ty"
    "hasConditionReason E (setNodesReadyCondition E r d ns m) ty re = hasConditionReason E m ty re" for r d ns m
    using assms(2) by (simp_all add: setNodesReadyCondition_def Let_def set)
  have roll: "hasConditionTrue E (setRolloutInProgressCondition E u d k m) ty = hasConditionTrue E m ty"
    "hasConditionReason E (setRolloutInProgressCondition E u d k m) ty re = hasConditionReason E m ty re" for u d k m
    using assms(2) by (simp_all add: setRolloutInProgressCondition_def Let_def set)
  have prod: "hasConditionTrue E (setProducingCondition E ns t m) ty = hasConditionTrue E m ty"
    "hasConditionReason E (setProducingCondition E ns t m) ty re = hasConditionReason E m ty re" for ns t m
    using assms(2) by (simp_all add: setProducingCondition_def Let_def set upd)
  show "hasConditionTrue E (report E now ws cs n) ty = hasConditionTrue E n ty"
    by (simp only: report_def Let_def prod roll nodes fields)
  show "hasConditionReason E (report E now ws cs n) ty re = hasConditionReason E n ty re"
    by (simp only: report_def Let_def prod roll nodes fields)
qed

text \<open>The ceremony was completed by the plan, rather than given up on an adopted set.\<close>

definition plan_completed :: "ext \<Rightarrow> SeiNetwork \<Rightarrow> bool" where
  "plan_completed E n \<longleftrightarrow>
     ceremony_complete E n \<and> hasConditionReason E n ConditionGenesisCeremonyComplete ''Complete''"

definition no_news :: "ext \<Rightarrow> SeiNetwork \<Rightarrow> SeiNetwork \<Rightarrow> bool" where
  "no_news E n n' \<longleftrightarrow> (cond_laws E \<and> plan_completed E n' \<longrightarrow> plan_completed E n)"

lemma completed_set:
  assumes "cond_laws E"
  shows "plan_completed E (setNetworkCondition E n ty st re ms) \<longleftrightarrow>
    (if ty = ConditionGenesisCeremonyComplete then st = ConditionTrue \<and> re = ''Complete'' else plan_completed E n)"
  by (auto simp: plan_completed_def hasConditionTrue_set[OF assms] hasConditionReason_set[OF assms])

lemma completed_same: "sn_Conditions m = sn_Conditions n \<Longrightarrow> plan_completed E m = plan_completed E n"
  by (simp add: plan_completed_def hasConditionTrue_def hasConditionReason_def)

lemma completed_seed:
  assumes "cond_laws E" and "plan_completed E (seedAlwaysPresentConditions E n)"
  shows "plan_completed E n"
proof -
  note set = completed_set[OF assms(1)]
  have absent: "plan_completed E (seedConditionIfAbsent E ty re ms m) = plan_completed E m"
    if "ty \<noteq> ConditionGenesisCeremonyComplete" for ty re ms m
    using that by (simp add: seedConditionIfAbsent_def set)
  have paused: "plan_completed E (setPausedCondition E m) = plan_completed E m" for m
    by (simp add: setPausedCondition_def set)
  have config: "plan_completed E (setConfigValuesValidCondition E m) = plan_completed E m" for m
    by (simp add: setConfigValuesValidCondition_def set split: option.split)
  have "plan_completed E (setGenesisCeremonyCondition E n)"
    using assms(2) by (simp add: seedAlwaysPresentConditions_def absent paused config)
  then show ?thesis by (simp add: setGenesisCeremonyCondition_def set split: if_splits)
qed

interpretation no_news: net_relation E "no_news E" for E
proof unfold_locales
  show "no_news E a c" if "no_news E a b" "no_news E b c" for a b c using that by (auto simp: no_news_def)
  show "no_news E n m" if "sn_Plan m = sn_Plan n" "sn_Conditions m = sn_Conditions n" for m n
    using completed_same[OF that(2)] by (simp add: no_news_def)
  show "no_news E n (seedAlwaysPresentConditions E n)" for n by (auto simp: no_news_def intro: completed_seed)
  show "no_news E n (report E now ws cs n)" for n now ws cs
    by (auto simp: no_news_def plan_completed_def report_condition)
qed

lemma no_news_abandon:
  assumes "cond_laws E"
  shows "lifts (no_news E) net s (fst (abandonPlanForLostValidator E W s))"
  unfolding abandonPlanForLostValidator_def
proof (rule lifts.rel_with_children)
  fix cs
  note set = completed_set[OF assms]
  have given_up: "no_news E n (abandoned E (adopted_set E n))" "no_news E n (abandoned E (torn_down E k n))" for n k
    by (simp_all add: no_news_def abandoned_def adopted_set_def torn_down_def clearPlanInProgress_def set ReasonAdoptedSet_def
        completed_same[of "set_plan None m" m for m])
  have loop: "lifts (no_news E) net s (fst (for_each (delete_survivor W) cs s))"
    by (rule lifts.rel_for_each) (auto simp: delete_survivor_def lifts.rel_refl intro!: lifts.rel_wrap lifts_do_delete)
  have torn: "lifts (no_news E) net t (on_net (abandoned E \<circ> torn_down E k) t)" for t k
    by (rule no_news.on_net) (simp add: given_up)
  show "lifts (no_news E) net s (fst (abandon_set E W cs s))"
    using loop lifts.rel_trans[OF loop torn] given_up
    by (auto simp: abandon_set_def intro!: no_news.on_net split: prod.splits option.splits)
qed

text \<open>The validators the plan still waited for were all read Running, in one view of the cluster.\<close>

definition validators_running :: "nworld \<Rightarrow> SeiNetwork \<Rightarrow> bool" where
  "validators_running W net \<longleftrightarrow>
     (\<exists>p names tr. sn_Plan net = Some p \<and> awaited p = Some names \<and> all_running (nw_World W tr) names)"

lemma completed_settle:
  assumes "cond_laws E" and "plan_completed E (settle_plan E (set_plan (Some p) n))"
  shows "plan_completed E n \<or> plan_Phase p = TaskPlanComplete"
  using assms(2) completed_set[OF assms(1)] completed_same[of "set_plan (Some p) n" n E]
    completed_same[of "set_plan None m" m E for m]
  by (cases "plan_Phase p") (simp_all add: settle_plan_def failPlan_def clearPlanInProgress_def)

lemma no_news_drive:
  assumes "cond_laws E" and "ceremony_inv E (ns_Net s)" "sn_Plan (ns_Net s) = Some p" and "\<not> validators_running W (ns_Net s)"
  shows "lifts (no_news E) net s (fst (drivePlan E P W now p s))"
proof -
  obtain r d where r: "executePlan (registry E P (nw_World W (ns_Trace s))) now
      \<lparr>run_state = \<lparr>xs_Node = None, xs_Calls = []\<rparr>, run_plan = p, run_active = 0\<rparr> = (r, d)" by (metis surj_pair)
  from assms(2,3) obtain names where names: "awaited p = Some names" "plan_Phase p = TaskPlanActive"
    by (auto simp: ceremony_inv_def)
  have "\<not> all_running (nw_World W (ns_Trace s)) names" using assms(3,4) names(1) by (auto simp: validators_running_def)
  with executePlan_awaited[OF names r] have "plan_Phase (run_plan r) \<noteq> TaskPlanComplete" by auto
  then have "no_news E (ns_Net s) (settle_plan E (set_plan (Some (run_plan r)) (ns_Net s)))"
    using completed_settle[OF assms(1), of "run_plan r" "ns_Net s"] by (auto simp: no_news_def)
  then show ?thesis using r by (auto simp: drivePlan_def on_net_def lifts_def intro: no_news.K_trans)
qed

lemma no_news_plan:
  assumes "cond_laws E" and "ceremony_inv E (ns_Net s)" and "\<not> validators_running W (ns_Net s)"
  shows "lifts (no_news E) net s (fst (reconcilePlan E P W now pid s))"
proof (cases rule: reconcilePlan_cases[of s E P W now pid])
  case (lost p s' e)
  then show ?thesis using no_news_abandon[OF assms(1), of net s W] by simp
next
  case (drive p s' d)
  then show ?thesis using no_news_drive[OF assms(1,2) drive(2) assms(3), of net P now] by simp
next
  case (start plan)
  have "no_news E (ns_Net s) (startPlan E plan (ns_Net s))"
    using completed_set[OF assms(1)] completed_same[of "set_plan (Some plan) m" m E for m]
    by (simp add: no_news_def startPlan_def setPlanInProgress_def)
  then show ?thesis using start by (simp add: no_news.on_net)
qed (simp_all add: lifts.rel_refl)

lemma no_news_live:
  assumes laws: "keyed_laws E" "owner_laws W" and inv: "ceremony_inv E net" and none: "\<not> validators_running W net"
  shows "lifts (no_news E) net (start_state net) (nres_State (reconcile_live E P W now pid (start_state net)))"
proof -
  let ?s = "start_state net"
  have b: "lifts (no_news E) net ?s (fst (before_plan E W ?s))" by (rule no_news.before_plan)
  have plan: "lifts (no_news E) net ?s s2" if "before_plan E W ?s = (s1, None)" "reconcilePlan E P W now pid s1 = (s2, d, e)"
    for s1 s2 d e
  proof -
    note v = view_fields[OF before_plan_view[OF keyed_cond_laws[OF laws(1)] laws(2) that(1)]]
    have "keeps E net (ns_Net s1)"
      using keeps.before_plan[of E net ?s W] keeps.start[of E net] that(1) by (simp add: lifts_def)
    then have "ceremony_inv E (ns_Net s1)" using inv laws(1) by (simp add: keeps_def)
    moreover have "\<not> validators_running W (ns_Net s1)" using none v(7) by (simp add: validators_running_def)
    ultimately show ?thesis
      using no_news_plan[OF keyed_cond_laws[OF laws(1)], of s1 W net P now pid] b that by (auto intro: lifts.rel_trans)
  qed
  show ?thesis
  proof (cases rule: reconcile_live_cases[of E W ?s P now pid])
    case (early s1 e)
    then show ?thesis using b by simp
  next
    case (plan_error s1 s2 d e)
    then show ?thesis using plan by simp
  next
    case (full s1 s2 d)
    then show ?thesis using lifts.rel_trans[OF plan no_news.updateStatus] by simp
  qed
qed

text \<open>C23. A reconcile turns the genesis ceremony Complete only through the plan, and only when that plan's last task found
  every founding validator it names in phase Running.  (The other way to end a ceremony, AdoptedSet, has its own reason.)\<close>

theorem complete_means_running:
  assumes "keyed_laws E" "owner_laws W" and "ceremony_inv E net" and "\<not> plan_completed E net"
    and "plan_completed E (stored_of (reconcile_network E P W now pid net))"
  shows "\<exists>p names tr. sn_Plan net = Some p \<and> awaited p = Some names \<and> all_running (nw_World W tr) names"
proof (rule ccontr)
  assume "\<not> ?thesis"
  then have none: "\<not> validators_running W net" by (simp add: validators_running_def)
  have "lifts (no_news E) net (start_state net) (nres_State (reconcile_network E P W now pid net))"
    using no_news_live[OF assms(1-3) none, of P now pid] no_news.deletion[of E net "start_state net" W]
    by (simp add: reconcile_network_def net_done_def)
  then have "no_news E net (stored_of (reconcile_network E P W now pid net))"
    using no_news.start[of E net] by (simp add: lifts_def)
  then show False using assms(4,5) keyed_cond_laws[OF assms(1)] by (simp add: no_news_def)
qed

definition running_world :: world where
  "running_world = demo_world\<lparr>w_Node := \<lambda>_ name. Inr (demo_node\<lparr>node_Name := name,
     node_Status := (node_Status demo_node)\<lparr>st_Phase := PhaseRunning\<rparr>\<rparr>)\<rparr>"

definition running_nworld :: nworld where
  "running_nworld = (demo_nworld [demo_child 0 100, demo_child 1 100])\<lparr>nw_World := \<lambda>_. running_world\<rparr>"

theorem complete_means_running_witness:
  "plan_completed demo_ext (stored_of (reconcile_network demo_ext demo_platform running_nworld 1000 ''plan'' lost_network)) \<and>
   (\<exists>p names tr. sn_Plan lost_network = Some p \<and> awaited p = Some names \<and> all_running (nw_World running_nworld tr) names)"
proof
  have laws: "owner_laws running_nworld"
    using ref_owners.owner_references_axioms by (simp add: running_nworld_def demo_nworld_def)
  have inv: "ceremony_inv demo_ext lost_network" by code_simp
  have before_it: "\<not> plan_completed demo_ext lost_network" by code_simp
  show after_it: "plan_completed demo_ext
      (stored_of (reconcile_network demo_ext demo_platform running_nworld 1000 ''plan'' lost_network))" by code_simp
  from complete_means_running[OF demo_keyed_laws laws inv before_it after_it]
  show "\<exists>p names tr. sn_Plan lost_network = Some p \<and> awaited p = Some names \<and> all_running (nw_World running_nworld tr) names" .
qed

subsection \<open>Producing\<close>

definition reading :: "SeiNode \<Rightarrow> (int \<times> go_time) option" where
  "reading n =
     (case (st_CommittedHeight (node_Status n), st_CommittedHeightTime (node_Status n)) of
        (Some h, Some t) \<Rightarrow> Some (h, t) | _ \<Rightarrow> None)"

definition fresh_reading :: "go_time \<Rightarrow> SeiNode \<Rightarrow> bool" where
  "fresh_reading now n \<longleftrightarrow> (case reading n of None \<Rightarrow> False | Some (h, t) \<Rightarrow> now - t \<le> heightReadingMaxAge)"

definition reading_below :: "int \<Rightarrow> SeiNode \<Rightarrow> bool" where
  "reading_below b n \<longleftrightarrow> (case reading n of None \<Rightarrow> True | Some (h, t) \<Rightarrow> h < b)"

lemma read_height_reading:
  "read_height now n r =
     (case reading n of
        None \<Rightarrow> r
      | Some (h, t) \<Rightarrow>
          (let r1 = r\<lparr>hr_highestAny := max (hr_highestAny r) h\<rparr>
           in if fresh_reading now n then r1\<lparr>hr_fresh := hr_fresh r1 + 1, hr_highestFresh := max (hr_highestFresh r1) h\<rparr>
              else r1\<lparr>hr_stale := hr_stale r1 + 1\<rparr>))"
  by (auto simp: read_height_def reading_def fresh_reading_def Let_def split: option.splits)

lemma fold_readings:
  "hr_highestAny r \<le> hr_highestAny (fold (read_height now) ns r)"
  "n \<in> set ns \<Longrightarrow> reading n = Some (h, t) \<Longrightarrow> h \<le> hr_highestAny (fold (read_height now) ns r)"
  "hr_fresh (fold (read_height now) ns r) = hr_fresh r + length (filter (fresh_reading now) ns)"
proof (induction ns arbitrary: r)
  case (Cons m ns)
  have step: "hr_highestAny r \<le> hr_highestAny (read_height now m r)" for r
    by (simp add: read_height_reading Let_def split: option.splits)
  { case 1 show ?case using order_trans[OF step Cons.IH(1)] by simp }
  { case 2
    show ?case
    proof (cases "n = m")
      case True
      have "h \<le> hr_highestAny (read_height now m r)" using 2 True by (simp add: read_height_reading Let_def)
      then show ?thesis using order_trans[OF _ Cons.IH(1)] by simp
    next
      case False
      then show ?thesis using 2 Cons.IH(2)[of "read_height now m r"] by simp
    qed }
  { case 3
    have "hr_fresh (read_height now m r) = hr_fresh r + (if fresh_reading now m then 1 else 0)"
      by (auto simp: read_height_reading Let_def fresh_reading_def split: option.splits)
    then show ?case using Cons.IH(3)[of "read_height now m r"] by simp }
qed simp_all

lemma fresh_count: "hr_fresh (readHeights ns now) = length (filter (fresh_reading now) ns)"
  by (simp add: readHeights_def fold_readings(3))

lemma below_highest:
  "hr_highestAny (readHeights ns now) < b \<Longrightarrow> list_all (reading_below b) ns"
  unfolding readHeights_def list_all_iff reading_below_def
  by (auto dest: fold_readings(2) split: option.splits intro: le_less_trans)

lemma fresh_le_any: "hr_highestFresh (readHeights ns now) \<le> hr_highestAny (readHeights ns now)"
proof -
  have "hr_highestFresh r \<le> hr_highestAny r \<Longrightarrow>
      hr_highestFresh (fold (read_height now) ns r) \<le> hr_highestAny (fold (read_height now) ns r)" for r
  proof (induction ns arbitrary: r)
    case (Cons m ns)
    have "hr_highestFresh (read_height now m r) \<le> hr_highestAny (read_height now m r)"
      using Cons.prems by (auto simp: read_height_reading Let_def split: option.splits)
    then show ?case using Cons.IH by simp
  qed simp
  then show ?thesis by (simp add: readHeights_def)
qed

lemma whole_seconds_le: "whole_seconds d \<le> producingWindow \<Longrightarrow> d < producingWindow + 1000000000"
proof (cases "d \<ge> 0")
  case True
  assume "whole_seconds d \<le> producingWindow"
  moreover have "d mod 1000000000 < 1000000000" by simp
  ultimately show ?thesis using True by (simp add: whole_seconds_def)
qed (simp add: producingWindow_def)

definition producing_ok :: "go_time \<Rightarrow> SeiNode list \<Rightarrow> SeiNetwork \<Rightarrow> bool" where
  "producing_ok now nodes n \<longleftrightarrow> list_ex (fresh_reading now) nodes \<and>
     (case sst_ObservedHeight (sn_Status n) of
        None \<Rightarrow> False | Some m \<Rightarrow> oh_Height m \<noteq> 0 \<and> now - oh_Time m < producingWindow + 1000000000)"

lemma producing_set:
  assumes "cond_laws E"
  shows "hasConditionTrue E (setNetworkCondition E n ConditionProducing st re ms) ConditionProducing \<longleftrightarrow> st = ConditionTrue"
  by (simp add: hasConditionTrue_set[OF assms])

lemma producing_sound:
  assumes laws: "cond_laws E" and prev: "\<And>m. sst_ObservedHeight (sn_Status n) = Some m \<Longrightarrow> oh_Height m \<ge> 0"
    and true_now: "hasConditionTrue E (setProducingCondition E nodes now n) ConditionProducing"
  shows "producing_ok now nodes (setProducingCondition E nodes now n)"
proof -
  let ?r = "readHeights nodes now" let ?prev = "sst_ObservedHeight (sn_Status n)"
  let ?m = "next_mark ?prev ?r now"
  note set = producing_set[OF laws]
  have ne: "nodes \<noteq> []" and fresh: "hr_fresh ?r \<noteq> 0"
    using true_now by (auto simp: setProducingCondition_def set Let_def split: if_splits)
  then have some: "list_ex (fresh_reading now) nodes" by (auto simp: fresh_count list_ex_iff filter_empty_conv)
  have mark: "sst_ObservedHeight (sn_Status (setProducingCondition E nodes now n)) = Some ?m"
    using ne fresh by (simp add: setProducingCondition_def Let_def)
  have "height_advanced ?prev ?r \<or> whole_seconds (now - oh_Time ?m) \<le> producingWindow \<and> oh_Height ?m \<noteq> 0"
    using true_now ne fresh by (auto simp: setProducingCondition_def set Let_def split: if_splits)
  then have "oh_Height ?m \<noteq> 0 \<and> now - oh_Time ?m < producingWindow + 1000000000"
  proof
    assume adv: "height_advanced ?prev ?r"
    then have m: "?m = \<lparr>oh_Height = hr_highestFresh ?r, oh_Time = now\<rparr>" and "hr_highestFresh ?r > 0"
      using prev by (force simp: height_advanced_def next_mark_def split: option.splits)+
    then show ?thesis by (simp add: producingWindow_def)
  qed (simp add: whole_seconds_le)
  then show ?thesis using some mark by (simp add: producing_ok_def)
qed

lemma mark_drops:
  assumes "sst_ObservedHeight (sn_Status n) = Some m"
    and "sst_ObservedHeight (sn_Status (setProducingCondition E nodes now n)) = Some m'" and "oh_Height m' < oh_Height m"
  shows "list_all (reading_below (oh_Height m)) nodes"
proof -
  have "hr_highestAny (readHeights nodes now) < oh_Height m"
    using assms by (auto simp: setProducingCondition_def Let_def next_mark_def split: if_splits)
  then show ?thesis by (rule below_highest)
qed

text \<open>A written status says Producing only when some listed child's committed height was read within 90 seconds and
  the recorded height is not zero and last moved less than 121 seconds ago; and the recorded height falls only
  when every child's reading, stale ones included, is below it.\<close>

theorem producing_needs_fresh_reading:
  assumes laws: "cond_laws E" and prev: "\<And>m. sst_ObservedHeight (sn_Status (ns_Net s)) = Some m \<Longrightarrow> oh_Height m \<ge> 0"
    and listed: "listChildSeiNodes W s = Inr cs" and written: "updateStatus E W now s = (s', None)"
    and n': "n' = ns_Stored s'"
  shows "(hasConditionTrue E n' ConditionProducing \<longrightarrow> list_ex (fresh_reading now) (map ch_Node cs) \<and>
       (\<exists>m. sst_ObservedHeight (sn_Status n') = Some m \<and> oh_Height m \<noteq> 0 \<and> now - oh_Time m < 121 * 1000000000)) \<and>
    (\<forall>m m'. sst_ObservedHeight (sn_Status (ns_Net s)) = Some m \<and> sst_ObservedHeight (sn_Status n') = Some m' \<and>
       oh_Height m' < oh_Height m \<longrightarrow> list_all (reading_below (oh_Height m)) (map ch_Node cs))"
proof -
  obtain n1 where rep: "\<And>ws. \<exists>n1. report E now ws cs (ns_Net s) = setProducingCondition E (map ch_Node cs) now n1 \<and>
      sst_ObservedHeight (sn_Status n1) = sst_ObservedHeight (sn_Status (ns_Net s))"
  proof -
    have roll: "sst_ObservedHeight (sn_Status (setRolloutInProgressCondition E u d k m)) = sst_ObservedHeight (sn_Status m)"
      for u d k m by (simp add: setRolloutInProgressCondition_def Let_def)
    have nodes: "sst_ObservedHeight (sn_Status (setNodesReadyCondition E u d k m)) = sst_ObservedHeight (sn_Status m)"
      for u d k m by (simp add: setNodesReadyCondition_def Let_def)
    have "sst_ObservedHeight (sn_Status (report_fields E ws cs m)) = sst_ObservedHeight (sn_Status m)" for ws m
      by (simp add: report_fields_def Let_def)
    then show thesis using that unfolding report_def Let_def by (metis roll nodes)
  qed
  from written listed obtain ws where wr: "write_status W (on_net (report E now ws cs) s) = (s', None)"
    by (auto simp: updateStatus_def with_children_def write_report_def)
  from rep[of ws] obtain n1 where n1: "report E now ws cs (ns_Net s) = setProducingCondition E (map ch_Node cs) now n1"
      "sst_ObservedHeight (sn_Status n1) = sst_ObservedHeight (sn_Status (ns_Net s))" by blast
  have st: "sn_Status n' = sn_Status (setProducingCondition E (map ch_Node cs) now n1)"
    using write_status_ok[OF wr] n' n1(1) by (simp add: on_net_def)
  then have "hasConditionTrue E n' ConditionProducing =
      hasConditionTrue E (setProducingCondition E (map ch_Node cs) now n1) ConditionProducing" by (simp add: hasConditionTrue_def)
  then show ?thesis
    using producing_sound[OF laws, of n1 "map ch_Node cs" now] prev n1(2) st mark_drops[of n1 _ E "map ch_Node cs" now]
    by (auto simp: producing_ok_def producingWindow_def split: option.splits)
qed

definition producing_child :: "nat \<Rightarrow> int \<Rightarrow> ChildNode" where
  "producing_child i h =
     (let c = demo_child i 100
      in c\<lparr>ch_Node := (ch_Node c)\<lparr>node_Status := (node_Status (ch_Node c))\<lparr>st_CommittedHeight := Some h,
           st_CommittedHeightTime := Some 900\<rparr>\<rparr>\<rparr>)"

theorem producing_needs_fresh_reading_witness:
  "hasConditionTrue demo_ext (ns_Stored (fst (updateStatus demo_ext (demo_nworld [producing_child 0 7]) 1000
     (start_state demo_network)))) ConditionProducing \<and> list_ex (fresh_reading 1000) [ch_Node (producing_child 0 7)]"
proof
  let ?W = "demo_nworld [producing_child 0 7]"
  let ?r = "updateStatus demo_ext ?W 1000 (start_state demo_network)"
  show true_now: "hasConditionTrue demo_ext (ns_Stored (fst ?r)) ConditionProducing" by code_simp
  have "case listChildSeiNodes ?W (start_state demo_network) of Inl _ \<Rightarrow> False | Inr _ \<Rightarrow> True" by code_simp
  then have listed: "listChildSeiNodes ?W (start_state demo_network) = Inr [producing_child 0 7]"
    by (simp add: listChildSeiNodes_def demo_nworld_def Let_def start_state_def producing_child_def demo_child_def
        ref_is_controlled_def ref_get_controller_def network_ref_def)
  have "case snd ?r of None \<Rightarrow> True | Some _ \<Rightarrow> False" by code_simp
  then have written: "?r = (fst ?r, None)" by (cases ?r) (auto split: option.splits)
  have "sst_ObservedHeight (sn_Status (ns_Net (start_state demo_network))) = None"
    by (simp add: start_state_def demo_network_def demo_network_status_def)
  then show "list_ex (fresh_reading 1000) [ch_Node (producing_child 0 7)]"
    using producing_needs_fresh_reading[OF demo_cond_laws _ listed written refl] true_now by simp
qed

end
