(* ===== verification/GoFiles.thy ===== *)
theory GoFiles
  imports ConfigOverlay "HOL-Library.Sublist"
begin

text \<open>
  The file calls the sidecar makes below its home directory (\<open>os\<close>, \<open>path/filepath\<close>) and
  \<open>sidecarapi/tomlpatch/file.go\<close>, \<open>toml.go\<close>.  The tree is an association list from paths (relative to the home
  directory, which exists) to entries; a listing comes in the order of that list, which is any order.  A script
  says of every call whether it proceeds, is refused, or is where the process dies: what was done before stays
  done, nothing after happens.  Symbolic links, permissions and the loss of a disk's cache are left out.
\<close>

subsection \<open>The tree\<close>

datatype fs_entry = Dir | File string

type_synonym path = "string list"
type_synonym tree = "(path \<times> fs_entry) list"

definition entry_at :: "tree \<Rightarrow> path \<Rightarrow> fs_entry option" where
  "entry_at t p = (if p = [] then Some Dir else map_of t p)"

definition drop_entry :: "path \<Rightarrow> tree \<Rightarrow> tree" where
  "drop_entry p t = filter (\<lambda>kv. fst kv \<noteq> p) t"

definition children :: "tree \<Rightarrow> path \<Rightarrow> string list" where
  "children t p = remdups (map (\<lambda>q. q ! length p) (filter (strict_prefix p) (map fst t)))"

lemma entry_put [simp]: "p \<noteq> [] \<Longrightarrow> entry_at (put p e t) q = (if q = p then Some e else entry_at t q)"
  by (simp add: entry_at_def)

lemma map_of_filter_ne: "map_of (filter (\<lambda>kv. fst kv \<noteq> p) t) q = (if q = p then None else map_of t q)"
  by (induction t) auto

lemma entry_drop [simp]: "p \<noteq> [] \<Longrightarrow> entry_at (drop_entry p t) q = (if q = p then None else entry_at t q)"
  by (simp add: entry_at_def drop_entry_def map_of_filter_ne)

lemma entry_listed: "entry_at t q \<noteq> None \<Longrightarrow> q \<noteq> [] \<Longrightarrow> q \<in> set (map fst t)"
  by (auto simp: entry_at_def map_of_eq_None_iff)

subsection \<open>Path names\<close>

definition clean_step :: "bool \<Rightarrow> string \<Rightarrow> string list \<Rightarrow> string list" where
  "clean_step rooted c acc =
     (if c = [] \<or> c = ''.'' then acc
      else if c = ''..'' then
        (case acc of [] \<Rightarrow> if rooted then [] else [''..''] | x # r \<Rightarrow> if x = ''..'' then ''..'' # acc else r)
      else c # acc)"

definition filepath_Clean :: "string \<Rightarrow> string" where
  "filepath_Clean s =
     (let rooted = (take 1 s = ''/''); cs = rev (fold (clean_step rooted) (split_on (CHR ''/'') s) [])
      in if rooted then ''/'' @ join cs ''/'' else if cs = [] then ''.'' else join cs ''/'')"

definition filepath_Join :: "string \<Rightarrow> string \<Rightarrow> string" where
  "filepath_Join a b =
     (if a = [] \<and> b = [] then [] else if a = [] then filepath_Clean b else filepath_Clean (a @ ''/'' @ b))"

definition shown :: "string \<Rightarrow> path \<Rightarrow> string" where "shown home p = filepath_Join home (join p ''/'')"

subsection \<open>Calls\<close>

datatype os_error = ENotExist | EOther error

datatype sys_answer = Proceed | Refuse error | Die

type_synonym script = "nat \<Rightarrow> sys_answer"

datatype 'a os_outcome = Died | Failed os_error | Done 'a

record disk =
  dk_Tree :: tree
  dk_Calls :: nat

type_synonym 'a os = "disk \<Rightarrow> disk \<times> 'a os_outcome"

definition sys :: "script \<Rightarrow> (tree \<Rightarrow> tree \<times> 'a os_outcome) \<Rightarrow> 'a os" where
  "sys X f d =
     (case X (dk_Calls d) of
        Die \<Rightarrow> (d, Died)
      | Refuse e \<Rightarrow> (d\<lparr>dk_Calls := Suc (dk_Calls d)\<rparr>, Failed (EOther e))
      | Proceed \<Rightarrow> (case f (dk_Tree d) of (t, r) \<Rightarrow> (\<lparr>dk_Tree = t, dk_Calls = Suc (dk_Calls d)\<rparr>, r)))"

text \<open>Sequencing: an error ends the function, a dead process ends everything.\<close>

definition os_then :: "'a os \<Rightarrow> ('a \<Rightarrow> 'b os) \<Rightarrow> 'b os" where
  "os_then m k d =
     (case m d of (d1, Died) \<Rightarrow> (d1, Died) | (d1, Failed e) \<Rightarrow> (d1, Failed e) | (d1, Done x) \<Rightarrow> k x d1)"

definition os_return :: "'a \<Rightarrow> 'a os" where "os_return x d = (d, Done x)"
definition os_fail :: "error \<Rightarrow> 'a os" where "os_fail e d = (d, Failed (EOther e))"

definition os_text :: "os_error \<Rightarrow> error" where
  "os_text e = (case e of ENotExist \<Rightarrow> ''no such file or directory'' | EOther s \<Rightarrow> s)"

definition os_wrap :: "string \<Rightarrow> 'a os \<Rightarrow> 'a os" where
  "os_wrap pre m d = (case m d of (d1, Failed e) \<Rightarrow> (d1, Failed (EOther (pre @ os_text e))) | r \<Rightarrow> r)"

text \<open>\<open>err != nil && !os.IsNotExist(err)\<close>: a missing object is no error.\<close>

definition tolerate_missing :: "unit os \<Rightarrow> unit os" where
  "tolerate_missing m d = (case m d of (d1, Failed ENotExist) \<Rightarrow> (d1, Done ()) | r \<Rightarrow> r)"

definition stat :: "path \<Rightarrow> tree \<Rightarrow> tree \<times> unit os_outcome" where
  "stat p t = (t, if entry_at t p = None then Failed ENotExist else Done ())"

definition read_dir :: "path \<Rightarrow> tree \<Rightarrow> tree \<times> string list os_outcome" where
  "read_dir p t =
     (t, case entry_at t p of
           None \<Rightarrow> Failed ENotExist | Some Dir \<Rightarrow> Done (children t p) | Some (File _) \<Rightarrow> Failed (EOther ''not a directory''))"

definition read_file :: "path \<Rightarrow> tree \<Rightarrow> tree \<times> string os_outcome" where
  "read_file p t =
     (t, case entry_at t p of
           None \<Rightarrow> Failed ENotExist | Some Dir \<Rightarrow> Failed (EOther ''is a directory'') | Some (File c) \<Rightarrow> Done c)"

definition unlink :: "path \<Rightarrow> tree \<Rightarrow> tree \<times> unit os_outcome" where
  "unlink p t =
     (case entry_at t p of
        None \<Rightarrow> (t, Failed ENotExist)
      | Some (File _) \<Rightarrow> (drop_entry p t, Done ())
      | Some Dir \<Rightarrow> if children t p = [] then (drop_entry p t, Done ()) else (t, Failed (EOther ''directory not empty'')))"

definition mkdir :: "path \<Rightarrow> tree \<Rightarrow> tree \<times> unit os_outcome" where
  "mkdir p t =
     (case entry_at t p of
        None \<Rightarrow> (put p Dir t, Done ()) | Some Dir \<Rightarrow> (t, Done ()) | Some (File _) \<Rightarrow> (t, Failed (EOther ''not a directory'')))"

definition open_trunc :: "path \<Rightarrow> tree \<Rightarrow> tree \<times> unit os_outcome" where
  "open_trunc p t =
     (case entry_at t p of
        Some Dir \<Rightarrow> (t, Failed (EOther ''is a directory''))
      | Some (File _) \<Rightarrow> (put p (File []) t, Done ())
      | None \<Rightarrow> if entry_at t (butlast p) = Some Dir then (put p (File []) t, Done ()) else (t, Failed ENotExist))"

definition open_excl :: "path \<Rightarrow> tree \<Rightarrow> tree \<times> unit os_outcome" where
  "open_excl p t =
     (if entry_at t p \<noteq> None then (t, Failed (EOther ''file exists''))
      else if entry_at t (butlast p) = Some Dir then (put p (File []) t, Done ()) else (t, Failed ENotExist))"

definition write_content :: "path \<Rightarrow> string \<Rightarrow> tree \<Rightarrow> tree \<times> unit os_outcome" where
  "write_content p c t = (case entry_at t p of Some (File _) \<Rightarrow> (put p (File c) t, Done ()) | _ \<Rightarrow> (t, Done ()))"

text \<open>Renaming a file over a file or over nothing.\<close>

definition rename :: "path \<Rightarrow> path \<Rightarrow> tree \<Rightarrow> tree \<times> unit os_outcome" where
  "rename p q t =
     (case entry_at t p of
        None \<Rightarrow> (t, Failed ENotExist)
      | Some e \<Rightarrow> if entry_at t q = Some Dir then (t, Failed (EOther ''file exists''))
          else (put q e (drop_entry p t), Done ()))"

text \<open>Calls with no effect on the tree (\<open>fsync\<close>, \<open>close\<close>, \<open>chmod\<close>).\<close>

definition touch_nothing :: "tree \<Rightarrow> tree \<times> unit os_outcome" where "touch_nothing t = (t, Done ())"

text \<open>
  \<open>os.RemoveAll\<close>: everything at and below the path goes, children first; a missing entry is no error, and after
  another error the rest is still tried and the first error returned.
\<close>

definition below :: "tree \<Rightarrow> path \<Rightarrow> path list" where
  "below t p = rev (sort_key length (filter (prefix p) (map fst t)))"

fun unlink_each :: "script \<Rightarrow> path list \<Rightarrow> os_error option \<Rightarrow> unit os" where
  "unlink_each X [] err d = (d, case err of None \<Rightarrow> Done () | Some e \<Rightarrow> Failed e)"
| "unlink_each X (q # qs) err d =
     (case sys X (unlink q) d of
        (d1, Died) \<Rightarrow> (d1, Died)
      | (d1, Failed ENotExist) \<Rightarrow> unlink_each X qs err d1
      | (d1, Failed e) \<Rightarrow> unlink_each X qs (if err = None then Some e else err) d1
      | (d1, Done _) \<Rightarrow> unlink_each X qs err d1)"

definition RemoveAll :: "script \<Rightarrow> path \<Rightarrow> unit os" where
  "RemoveAll X p d = unlink_each X (below (dk_Tree d) p) None d"

fun mkdir_each :: "script \<Rightarrow> path list \<Rightarrow> unit os" where
  "mkdir_each X [] = os_return ()"
| "mkdir_each X (q # qs) = os_then (sys X (mkdir q)) (\<lambda>_. mkdir_each X qs)"

definition MkdirAll :: "script \<Rightarrow> path \<Rightarrow> unit os" where
  "MkdirAll X p = mkdir_each X (filter (\<lambda>q. q \<noteq> []) (prefixes p))"

subsection \<open>Reading and writing whole files\<close>

text \<open>\<open>toml.Unmarshal\<close> is the argument \<open>parse\<close>, \<open>toml.Marshal\<close> the argument \<open>print\<close>.\<close>

definition parse_toml :: "(string \<Rightarrow> table result) \<Rightarrow> string \<Rightarrow> table os" where
  "parse_toml parse c d = (case parse c of Inl e \<Rightarrow> (d, Failed (EOther e)) | Inr doc \<Rightarrow> (d, Done doc))"

definition ReadTOML :: "script \<Rightarrow> (string \<Rightarrow> table result) \<Rightarrow> path \<Rightarrow> table os" where
  "ReadTOML X parse p d =
     (case sys X (read_file p) d of
        (d1, Failed ENotExist) \<Rightarrow> (d1, Done [])
      | (d1, Failed e) \<Rightarrow> (d1, Failed e)
      | (d1, Died) \<Rightarrow> (d1, Died)
      | (d1, Done c) \<Rightarrow> parse_toml parse c d1)"

text \<open>\<open>CreateTemp\<close> puts \<open>tmp\<close> for the star of the pattern; an error up to the close removes the temporary file, whose own errors are dropped.\<close>

definition temp_path :: "string \<Rightarrow> path \<Rightarrow> path" where
  "temp_path tmp p = butlast p @ [''.tmp-'' @ tmp]"

definition discard_temp :: "script \<Rightarrow> path \<Rightarrow> unit os \<Rightarrow> unit os" where
  "discard_temp X tmp m d =
     (case m d of
        (d1, Failed e) \<Rightarrow> (case sys X (unlink tmp) d1 of (d2, Died) \<Rightarrow> (d2, Died) | (d2, _) \<Rightarrow> (d2, Failed e))
      | r \<Rightarrow> r)"

definition fill_temp :: "script \<Rightarrow> path \<Rightarrow> string \<Rightarrow> unit os" where
  "fill_temp X tmp c =
     os_then (sys X (write_content tmp c)) (\<lambda>_. os_then (sys X touch_nothing) (\<lambda>_. sys X touch_nothing))"

definition WriteFileAtomic :: "script \<Rightarrow> string \<Rightarrow> path \<Rightarrow> string \<Rightarrow> unit os" where
  "WriteFileAtomic X tmp p c =
     (let tp = temp_path tmp p
      in os_then (sys X (open_excl tp)) (\<lambda>_.
         os_then (discard_temp X tp (fill_temp X tp c)) (\<lambda>_.
         os_then (sys X touch_nothing) (\<lambda>_. sys X (rename tp p)))))"

definition WriteTOML :: "script \<Rightarrow> (table \<Rightarrow> string result) \<Rightarrow> string \<Rightarrow> path \<Rightarrow> table \<Rightarrow> unit os" where
  "WriteTOML X print tmp p doc d =
     (case print doc of
        Inl e \<Rightarrow> (d, Failed (EOther (''encoding TOML: '' @ e))) | Inr c \<Rightarrow> WriteFileAtomic X tmp p c d)"

subsection \<open>What a call may touch\<close>

text \<open>A step that leaves every path outside \<open>Q\<close> as it was.\<close>

definition confined :: "(path \<Rightarrow> bool) \<Rightarrow> disk \<Rightarrow> disk \<Rightarrow> bool" where
  "confined Q d d' \<longleftrightarrow> (\<forall>p. \<not> Q p \<longrightarrow> entry_at (dk_Tree d') p = entry_at (dk_Tree d) p)"

text \<open>The rules by which a property of every call carries over to the functions composed of them.\<close>

locale disk_relation =
  fixes R :: "disk \<Rightarrow> disk \<Rightarrow> bool"
  assumes refl: "R d d" and trans: "R a b \<Longrightarrow> R b c \<Longrightarrow> R a c"
    and count: "dk_Tree d' = dk_Tree d \<Longrightarrow> R d d'"
begin

lemma sys_step:
  assumes "\<And>n. R d \<lparr>dk_Tree = fst (f (dk_Tree d)), dk_Calls = n\<rparr>"
  shows "R d (fst (sys X f d))"
  using assms by (auto simp: sys_def intro: count refl split: sys_answer.splits prod.splits)

lemma sys_read: "fst (f (dk_Tree d)) = dk_Tree d \<Longrightarrow> R d (fst (sys X f d))"
  by (rule sys_step, rule count) simp

lemma then_step:
  assumes "R d (fst (m d))" and "\<And>x d1. m d = (d1, Done x) \<Longrightarrow> R d1 (fst (k x d1))"
  shows "R d (fst (os_then m k d))"
proof (cases "m d")
  case (Pair d1 r)
  with assms show ?thesis by (cases r) (auto simp: os_then_def intro: trans)
qed

lemma wrap_step: "R d (fst (m d)) \<Longrightarrow> R d (fst (os_wrap pre m d))"
  by (auto simp: os_wrap_def split: prod.splits os_outcome.splits)

lemma tolerate_step: "R d (fst (m d)) \<Longrightarrow> R d (fst (tolerate_missing m d))"
  by (auto simp: tolerate_missing_def split: prod.splits os_outcome.splits os_error.splits)

lemma return_step: "R d (fst (os_return x d))" "R d (fst (os_fail e d))"
  by (simp_all add: os_return_def os_fail_def refl)

lemma unlink_each_step:
  assumes "\<And>q d. q \<in> set qs \<Longrightarrow> R d (fst (sys X (unlink q) d))"
  shows "R d (fst (unlink_each X qs err d))"
  using assms
proof (induction qs arbitrary: err d)
  case Nil
  then show ?case by (simp add: refl)
next
  case (Cons q qs)
  obtain d1 r where s: "sys X (unlink q) d = (d1, r)" by (metis surj_pair)
  have "R d d1" using Cons.prems[of q d] s by simp
  moreover have "R d1 (fst (unlink_each X qs e d1))" for e using Cons by simp
  ultimately show ?case using s by (auto intro: trans split: os_outcome.splits os_error.splits)
qed

lemma mkdir_each_step:
  assumes "\<And>q d. q \<in> set qs \<Longrightarrow> R d (fst (sys X (mkdir q) d))"
  shows "R d (fst (mkdir_each X qs d))"
  using assms by (induction qs arbitrary: d) (auto intro!: then_step return_step)

end

interpretation confined: disk_relation "confined Q" for Q
  by unfold_locales (auto simp: confined_def)

lemma confined_sys:
  "(\<And>q. \<not> Q q \<Longrightarrow> entry_at (fst (f (dk_Tree d))) q = entry_at (dk_Tree d) q) \<Longrightarrow> confined Q d (fst (sys X f d))"
  by (rule confined.sys_step) (simp add: confined_def)

lemma confined_calls:
  assumes "Q p" and "p \<noteq> []"
  shows "confined Q d (fst (sys X (unlink p) d))" "confined Q d (fst (sys X (mkdir p) d))"
    "confined Q d (fst (sys X (open_trunc p) d))" "confined Q d (fst (sys X (open_excl p) d))"
    "confined Q d (fst (sys X (write_content p c) d))"
  using assms
  by (auto intro!: confined_sys simp: unlink_def mkdir_def open_trunc_def open_excl_def write_content_def
      split: option.splits fs_entry.splits)

lemma confined_rename:
  assumes "Q p" "Q q" "p \<noteq> []" "q \<noteq> []"
  shows "confined Q d (fst (sys X (rename p q) d))"
  using assms by (auto intro!: confined_sys simp: rename_def split: option.splits)

lemma confined_reads:
  "confined Q d (fst (sys X (stat p) d))" "confined Q d (fst (sys X (read_dir p) d))"
  "confined Q d (fst (sys X (read_file p) d))" "confined Q d (fst (sys X touch_nothing d))"
  by (auto intro!: confined.sys_read simp: stat_def read_dir_def read_file_def touch_nothing_def)

lemma confined_RemoveAll:
  assumes "\<And>q. prefix p q \<Longrightarrow> Q q" and "p \<noteq> []"
  shows "confined Q d (fst (RemoveAll X p d))"
  unfolding RemoveAll_def
  by (rule confined.unlink_each_step) (use assms in \<open>auto simp: below_def intro!: confined_calls(1)\<close>)

lemma confined_ReadTOML: "confined Q d (fst (ReadTOML X parse p d))"
  using confined_reads(3)[of Q d X p]
  by (auto simp: ReadTOML_def parse_toml_def split: prod.splits os_outcome.splits os_error.splits sum.splits)

lemma confined_MkdirAll:
  assumes "\<And>q. prefix q p \<Longrightarrow> q \<noteq> [] \<Longrightarrow> Q q"
  shows "confined Q d (fst (MkdirAll X p d))"
  unfolding MkdirAll_def by (rule confined.mkdir_each_step) (use assms in \<open>auto intro!: confined_calls(2)\<close>)

lemma os_then_done: "os_then m k d = (d', Done y) \<longleftrightarrow> (\<exists>d1 x. m d = (d1, Done x) \<and> k x d1 = (d', Done y))"
  by (auto simp: os_then_def split: prod.splits os_outcome.splits)

lemma os_wrap_done: "os_wrap pre m d = (d', Done y) \<longleftrightarrow> m d = (d', Done y)"
  by (auto simp: os_wrap_def split: prod.splits os_outcome.splits)

text \<open>A removal that reports success left nothing at or below the path, and created nothing.\<close>

definition shrinks :: "disk \<Rightarrow> disk \<Rightarrow> bool" where
  "shrinks d d' \<longleftrightarrow> (\<forall>p. entry_at (dk_Tree d') p = None \<or> entry_at (dk_Tree d') p = entry_at (dk_Tree d) p)"

interpretation shrinks: disk_relation shrinks
  by unfold_locales (auto simp: shrinks_def, metis)

lemma shrinks_unlink: "p \<noteq> [] \<Longrightarrow> shrinks d (fst (sys X (unlink p) d))"
  by (rule shrinks.sys_step) (auto simp: shrinks_def unlink_def split: option.splits fs_entry.splits)

lemma unlink_gone:
  assumes "sys X (unlink p) d = (d', Done u)" and "p \<noteq> []"
  shows "entry_at (dk_Tree d') p = None"
  using assms by (auto simp: sys_def unlink_def split: sys_answer.splits option.splits fs_entry.splits if_splits)

end
