(* ===== verification/ResetData.thy ===== *)
theory ResetData
  imports GoFiles GoStrconv RequestTypes
begin

text \<open>
  The reset of the chain's data directory (\<open>sidecar/tasks/reset_data.go\<close>).  The probe of the local RPC, the process
  table and \<open>toml.Unmarshal\<close> are arguments; the file calls are those of \<open>GoFiles\<close>, each of which may be refused or be
  where the sidecar dies.
\<close>

subsection \<open>Refusals\<close>

definition em_dash :: string where "em_dash = [CHR 0xE2, CHR 0x80, CHR 0x94]"

definition privValidatorStateFile :: string where "privValidatorStateFile = ''priv_validator_state.json''"
definition defaultPrivValidatorStatePath :: string where
  "defaultPrivValidatorStatePath = ''data/'' @ privValidatorStateFile"
definition emptyPrivValidatorState :: string where
  "emptyPrivValidatorState = ''{'' @ [CHR 0x22] @ ''height'' @ [CHR 0x22] @ '':'' @ [CHR 0x22] @ ''0'' @ [CHR 0x22] @ '','' @
     [CHR 0x22] @ ''round'' @ [CHR 0x22] @ '':0,'' @ [CHR 0x22] @ ''step'' @ [CHR 0x22] @ '':0}'' @ [CHR 0x0A]"
definition dataUserProcesses :: "string list" where "dataUserProcesses = [''seid'', ''seidb'']"
definition stateSyncMarkerFile :: string where "stateSyncMarkerFile = ''.sei-sidecar-statesync-done''"

record proc_entry =
  pe_Name :: string
  pe_Dir :: bool
  pe_Comm :: "string result"
  pe_Cmdline :: "string result"

definition data_user :: "proc_entry \<Rightarrow> string option" where
  "data_user p =
     (if \<not> pe_Dir p then None
      else case Atoi (pe_Name p) of
        None \<Rightarrow> None
      | Some pid \<Rightarrow> (case pe_Comm p of
          Inl _ \<Rightarrow> None
        | Inr comm \<Rightarrow> if TrimSpace comm \<in> set dataUserProcesses
            then Some (TrimSpace comm @ '' (pid '' @ itoa pid @ '')'') else None))"

definition findDataUsers :: "proc_entry list result \<Rightarrow> string list result" where
  "findDataUsers procs =
     (case procs of Inl e \<Rightarrow> Err (''reading /proc: '' @ e) | Inr ps \<Rightarrow> Ok (List.map_filter data_user ps))"

definition refuseDataUsers :: "string list result \<Rightarrow> error option" where
  "refuseDataUsers users =
     (case users of
        Inl e \<Rightarrow> Some (''reset-data: listing processes that use the data directory: '' @ e)
      | Inr us \<Rightarrow> if us \<noteq> []
          then Some (''reset-data: '' @ join us '', '' @
                 '' running in the pod '' @ em_dash @ '' refusing to wipe data it is using; finish or stop it first'')
          else None)"

definition known_path :: "string \<Rightarrow> string \<Rightarrow> bool" where
  "known_path home c \<longleftrightarrow>
     c = [] \<or> filepath_Clean c = defaultPrivValidatorStatePath \<or>
     filepath_Clean c = filepath_Join home defaultPrivValidatorStatePath"

definition moved_key :: "string \<Rightarrow> string \<Rightarrow> table \<Rightarrow> string \<Rightarrow> error option" where
  "moved_key home name section key =
     (case map_of section key of
        None \<Rightarrow> None
      | Some (JString c) \<Rightarrow>
          if known_path home c then None
          else Some (''reset-data: config.toml sets ['' @ name @ ''] '' @ key @ '' = '' @ quoted c @ ''; the reset keeps only '' @
                 defaultPrivValidatorStatePath @ '', so it refuses rather than risk deleting the sign state'')
      | Some _ \<Rightarrow> Some (''reset-data: config.toml ['' @ name @ ''] '' @ key @
                    '' is not a string; refusing rather than guess where the sign state is''))"

definition moved_section :: "string \<Rightarrow> table \<Rightarrow> string \<Rightarrow> error option" where
  "moved_section home doc name =
     (case map_of doc name of
        None \<Rightarrow> None
      | Some (JObject section) \<Rightarrow> or_else (moved_key home name section ''state-file'') (moved_key home name section ''state_file'')
      | Some _ \<Rightarrow> Some (''reset-data: config.toml ['' @ name @
                    ''] is not a table; refusing rather than guess where the sign state is''))"

definition moved_sign_state :: "string \<Rightarrow> table \<Rightarrow> error option" where
  "moved_sign_state home doc = or_else (moved_section home doc ''priv-validator'') (moved_section home doc ''priv_validator'')"

record reset_env =
  re_Home :: string
  re_Up :: bool
  re_Procs :: "proc_entry list result"
  re_Parse :: "string \<Rightarrow> table result"

definition check_sign_state :: "reset_env \<Rightarrow> table \<Rightarrow> unit os" where
  "check_sign_state R doc d =
     (case moved_sign_state (re_Home R) doc of Some e \<Rightarrow> os_fail e d | None \<Rightarrow> os_return () d)"

definition refuseMovedSignState :: "reset_env \<Rightarrow> script \<Rightarrow> unit os" where
  "refuseMovedSignState R X =
     os_then (os_wrap (''reset-data: reading '' @ shown (re_Home R) [''config'', ''config.toml''] @ '' to locate the sign state: '')
                (ReadTOML X (re_Parse R) [''config'', ''config.toml'']))
       (check_sign_state R)"

subsection \<open>The wipe\<close>

definition data_dir :: path where "data_dir = [''data'']"
definition state_path :: path where "state_path = [''data'', privValidatorStateFile]"
definition marker_path :: path where "marker_path = [stateSyncMarkerFile]"

text \<open>The measured size; what cannot be measured counts as -1 and never stops the reset.\<close>

definition sum_files :: "path \<Rightarrow> tree \<Rightarrow> tree \<times> int os_outcome" where
  "sum_files p t =
     (t, Done (sum_list (map (\<lambda>q. case entry_at t q of Some (File c) \<Rightarrow> int (length c) | _ \<Rightarrow> 0) (below t p))))"

definition dirSize :: "script \<Rightarrow> path \<Rightarrow> int os" where
  "dirSize X p d = (case sys X (sum_files p) d of (d1, Failed _) \<Rightarrow> (d1, Done (- 1)) | r \<Rightarrow> r)"

fun wipe_each :: "script \<Rightarrow> string \<Rightarrow> path \<Rightarrow> string list \<Rightarrow> string list \<Rightarrow> unit os" where
  "wipe_each X home dir keep [] = os_return ()"
| "wipe_each X home dir keep (n # ns) =
     (if n \<in> set keep then wipe_each X home dir keep ns
      else os_then (os_wrap (''removing '' @ shown home (dir @ [n]) @ '': '') (tolerate_missing (RemoveAll X (dir @ [n]))))
             (\<lambda>_. wipe_each X home dir keep ns))"

definition wipeDirContents :: "script \<Rightarrow> string \<Rightarrow> path \<Rightarrow> string list \<Rightarrow> unit os" where
  "wipeDirContents X home dir keep d =
     (case sys X (read_dir dir) d of
        (d1, Failed ENotExist) \<Rightarrow> (d1, Done ())
      | (d1, Failed e) \<Rightarrow> (d1, Failed e)
      | (d1, Died) \<Rightarrow> (d1, Died)
      | (d1, Done names) \<Rightarrow> wipe_each X home dir keep names d1)"

definition writeFileSynced :: "script \<Rightarrow> path \<Rightarrow> string \<Rightarrow> unit os" where
  "writeFileSynced X p c =
     os_then (sys X (open_trunc p)) (\<lambda>_. os_then (sys X (write_content p c)) (\<lambda>_.
     os_then (sys X touch_nothing) (\<lambda>_. sys X touch_nothing)))"

definition ensure_sign_state :: "script \<Rightarrow> string \<Rightarrow> unit os" where
  "ensure_sign_state X home d =
     (case sys X (stat state_path) d of
        (d1, Failed ENotExist) \<Rightarrow>
          os_wrap (''reset-data: writing '' @ shown home state_path @ '': '') (writeFileSynced X state_path emptyPrivValidatorState) d1
      | (d1, Failed e) \<Rightarrow> (d1, Failed (EOther (''reset-data: checking '' @ shown home state_path @ '': '' @ os_text e)))
      | r \<Rightarrow> r)"

definition clear_marker :: "script \<Rightarrow> string \<Rightarrow> unit os" where
  "clear_marker X home =
     os_wrap (''reset-data: removing marker '' @ shown home marker_path @ '': '') (tolerate_missing (sys X (unlink marker_path)))"

definition recreate_data :: "script \<Rightarrow> string \<Rightarrow> int \<Rightarrow> int os" where
  "recreate_data X home n =
     os_then (os_wrap (''reset-data: recreating '' @ shown home data_dir @ '': '') (MkdirAll X data_dir)) (\<lambda>_.
     os_then (ensure_sign_state X home) (\<lambda>_. os_then (clear_marker X home) (\<lambda>_. os_return n)))"

definition wipe_data :: "script \<Rightarrow> string \<Rightarrow> int \<Rightarrow> int os" where
  "wipe_data X home n =
     os_then (os_wrap (''reset-data: wiping '' @ shown home data_dir @ '': '') (wipeDirContents X home data_dir [privValidatorStateFile])) (\<lambda>_. recreate_data X home n)"

definition reset_data :: "reset_env \<Rightarrow> script \<Rightarrow> int os" where
  "reset_data R X =
     (if re_Up R
      then os_fail (''reset-data: seid RPC is serving; node is not held '' @ em_dash @ '' refusing to wipe a live data directory'')
      else case refuseDataUsers (findDataUsers (re_Procs R)) of
        Some e \<Rightarrow> os_fail e
      | None \<Rightarrow> os_then (refuseMovedSignState R X) (\<lambda>_. os_then (dirSize X data_dir) (wipe_data X (re_Home R))))"

text \<open>One run of the task on the tree the last one left: the process starts with no calls made.\<close>

definition run_reset :: "reset_env \<times> script \<Rightarrow> tree \<Rightarrow> tree" where
  "run_reset RX t = dk_Tree (fst (reset_data (fst RX) (snd RX) \<lparr>dk_Tree = t, dk_Calls = 0\<rparr>))"

end
