(* ===== verification/ResetProps.thy ===== *)
theory ResetProps
  imports ResetData "HOL-Library.Code_Target_Numeral"
begin

text \<open>
  The reset of the data directory keeps the validator's sign state over any number of runs, refused calls and crashes,
  touches nothing else of the home directory, and leaves an empty data directory when it reports success.
\<close>

subsection \<open>What each step touches\<close>

definition wiped :: "path \<Rightarrow> bool" where
  "wiped p \<longleftrightarrow> strict_prefix data_dir p \<and> \<not> prefix state_path p"

lemma wiped_child:
  assumes "n \<noteq> privValidatorStateFile" and "prefix (data_dir @ [n]) q"
  shows "wiped q"
proof -
  from assms(2) obtain r where q: "q = data_dir @ n # r" by (auto simp: prefix_def)
  then show ?thesis using assms(1) by (auto simp: wiped_def state_path_def data_dir_def strict_prefix_def prefix_def)
qed

lemma confined_mono: "confined Q d d' \<Longrightarrow> (\<And>p. Q p \<Longrightarrow> Q' p) \<Longrightarrow> confined Q' d d'"
  by (auto simp: confined_def)

lemma wipe_each_confined: "confined wiped d (fst (wipe_each X home data_dir [privValidatorStateFile] ns d))"
proof (induction ns arbitrary: d)
  case Nil
  then show ?case by (simp add: confined.return_step)
next
  case (Cons n ns)
  show ?case
  proof (cases "n = privValidatorStateFile")
    case True
    then show ?thesis using Cons by simp
  next
    case False
    have "confined wiped d (fst (RemoveAll X (data_dir @ [n]) d))"
      by (rule confined_RemoveAll) (auto intro: wiped_child[OF False])
    then show ?thesis using False Cons
      by (auto intro!: confined.then_step confined.wrap_step confined.tolerate_step)
  qed
qed

lemma wipe_confined: "confined wiped d (fst (wipeDirContents X home data_dir [privValidatorStateFile] d))"
proof -
  obtain d1 r where s: "sys X (read_dir data_dir) d = (d1, r)" by (metis surj_pair)
  have d1: "confined wiped d d1" using confined_reads(2)[of wiped d X data_dir] s by simp
  show ?thesis
    using s d1 confined.trans[OF d1 wipe_each_confined]
    by (auto simp: wipeDirContents_def split: os_outcome.splits os_error.splits)
qed

lemma mkdir_confined: "confined (\<lambda>p. p = data_dir) d (fst (MkdirAll X data_dir d))"
  by (rule confined_MkdirAll) (auto simp: data_dir_def prefix_def Cons_eq_append_conv)

lemma dirSize_confined: "confined Q d (fst (dirSize X p d))"
  using confined.sys_read[of "sum_files p" d Q X]
  by (auto simp: dirSize_def sum_files_def split: prod.splits os_outcome.splits)

lemma marker_confined: "confined (\<lambda>p. p = marker_path) d (fst (clear_marker X home d))"
  unfolding clear_marker_def
  by (intro confined.wrap_step confined.tolerate_step confined_calls(1)) (simp_all add: marker_path_def)

lemma moved_confined: "confined Q d (fst (refuseMovedSignState R X d))"
  unfolding refuseMovedSignState_def
  by (auto intro!: confined.then_step confined.wrap_step confined_ReadTOML
      simp: check_sign_state_def confined.return_step split: option.splits)

lemma written_confined: "confined (\<lambda>p. p = state_path) d (fst (writeFileSynced X state_path c d))"
  unfolding writeFileSynced_def
  by (intro confined.then_step confined_calls confined_reads) (simp_all add: state_path_def)

lemma ensure_confined: "confined (\<lambda>p. p = state_path) d (fst (ensure_sign_state X home d))"
proof -
  obtain d1 r where s: "sys X (stat state_path) d = (d1, r)" by (metis surj_pair)
  have d1: "confined (\<lambda>p. p = state_path) d d1" using confined_reads(1)[of _ d X state_path] s by simp
  have "confined (\<lambda>p. p = state_path) d1 (fst (os_wrap pre (writeFileSynced X state_path c) d1))" for pre c
    by (rule confined.wrap_step[OF written_confined])
  then show ?thesis
    using s d1 confined.trans[OF d1]
    by (auto simp: ensure_sign_state_def split: os_outcome.splits os_error.splits)
qed

text \<open>A relation that holds of these five steps holds of a whole run.\<close>

context disk_relation
begin

lemma reset_step:
  assumes moved: "\<And>d. R d (fst (refuseMovedSignState E X d))" and size: "\<And>d. R d (fst (dirSize X data_dir d))"
    and wipe: "\<And>d. R d (fst (wipeDirContents X (re_Home E) data_dir [privValidatorStateFile] d))"
    and mk: "\<And>d. R d (fst (MkdirAll X data_dir d))" and ens: "\<And>d. R d (fst (ensure_sign_state X (re_Home E) d))"
    and mark: "\<And>d. R d (fst (clear_marker X (re_Home E) d))"
  shows "R d (fst (reset_data E X d))"
  by (auto simp: reset_data_def wipe_data_def recreate_data_def return_step split: option.splits
      intro!: then_step wrap_step moved size wipe mk ens mark)

end

lemma reset_confined: "confined (\<lambda>p. prefix data_dir p \<or> p = marker_path) d (fst (reset_data E X d))"
proof (rule confined.reset_step)
  let ?Q = "\<lambda>p. prefix data_dir p \<or> p = marker_path"
  show "confined ?Q d (fst (wipeDirContents X (re_Home E) data_dir [privValidatorStateFile] d))" for d
    by (rule confined_mono[OF wipe_confined]) (auto simp: wiped_def strict_prefix_def)
  show "confined ?Q d (fst (MkdirAll X data_dir d))" for d by (rule confined_mono[OF mkdir_confined]) simp
  show "confined ?Q d (fst (ensure_sign_state X (re_Home E) d))" for d
    by (rule confined_mono[OF ensure_confined]) (auto simp: state_path_def data_dir_def)
  show "confined ?Q d (fst (clear_marker X (re_Home E) d))" for d by (rule confined_mono[OF marker_confined]) simp
qed (auto intro: moved_confined dirSize_confined)

subsection \<open>The sign state survives\<close>

definition keeps_state :: "disk \<Rightarrow> disk \<Rightarrow> bool" where
  "keeps_state d d' \<longleftrightarrow>
     (entry_at (dk_Tree d) state_path \<noteq> None \<longrightarrow> entry_at (dk_Tree d') state_path = entry_at (dk_Tree d) state_path)"

interpretation keeps_state: disk_relation keeps_state
  by unfold_locales (auto simp: keeps_state_def)

lemma keeps_confined: "confined Q d d' \<Longrightarrow> \<not> Q state_path \<Longrightarrow> keeps_state d d'"
  by (simp add: confined_def keeps_state_def)

lemma ensure_keeps: "keeps_state d (fst (ensure_sign_state X home d))"
proof (cases "entry_at (dk_Tree d) state_path")
  case None
  then show ?thesis by (simp add: keeps_state_def)
next
  case (Some e)
  have "snd (sys X (stat state_path) d) \<noteq> Failed ENotExist"
    using Some by (simp add: sys_def stat_def split: sys_answer.splits)
  then have "fst (ensure_sign_state X home d) = fst (sys X (stat state_path) d)"
    by (auto simp: ensure_sign_state_def split: prod.splits os_outcome.splits os_error.splits)
  then show ?thesis using keeps_confined[OF confined_reads(1)[of "\<lambda>_. False" d X state_path]] by simp
qed

lemma reset_keeps: "keeps_state d (fst (reset_data E X d))"
proof (rule keeps_state.reset_step)
  show "keeps_state d (fst (wipeDirContents X (re_Home E) data_dir [privValidatorStateFile] d))" for d
    by (rule keeps_confined[OF wipe_confined]) (simp add: wiped_def)
  show "keeps_state d (fst (MkdirAll X data_dir d))" for d
    by (rule keeps_confined[OF mkdir_confined]) (simp add: state_path_def data_dir_def)
  show "keeps_state d (fst (clear_marker X (re_Home E) d))" for d
    by (rule keeps_confined[OF marker_confined]) (simp add: state_path_def marker_path_def)
  show "keeps_state d (fst (refuseMovedSignState E X d))" for d
    by (rule keeps_confined[OF moved_confined[of "\<lambda>_. False"]]) simp
  show "keeps_state d (fst (dirSize X data_dir d))" for d
    by (rule keeps_confined[OF dirSize_confined[of "\<lambda>_. False"]]) simp
qed (rule ensure_keeps)

text \<open>C27. The double-sign guard survives every reset: however many times the task runs, with whatever answers of probe and
  process table, whichever of its file calls are refused and wherever it dies, a sign state that was there is there
  unchanged, and outside \<open>data/\<close> nothing but the state-sync marker is touched.\<close>

theorem sign_state_survives:
  assumes "entry_at t state_path = Some e"
  shows "entry_at (fold run_reset runs t) state_path = Some e \<and>
    (\<forall>p. \<not> prefix data_dir p \<and> p \<noteq> marker_path \<longrightarrow> entry_at (fold run_reset runs t) p = entry_at t p)"
  using assms
proof (induction runs arbitrary: t)
  case Nil
  then show ?case by simp
next
  case (Cons r runs)
  let ?d = "\<lparr>dk_Tree = t, dk_Calls = 0\<rparr>"
  have "entry_at (run_reset r t) state_path = Some e"
    using reset_keeps[of ?d "fst r" "snd r"] Cons.prems by (simp add: keeps_state_def run_reset_def)
  moreover have "\<forall>p. \<not> prefix data_dir p \<and> p \<noteq> marker_path \<longrightarrow> entry_at (run_reset r t) p = entry_at t p"
    using reset_confined[of ?d "fst r" "snd r"] by (simp add: confined_def run_reset_def)
  ultimately show ?case using Cons.IH[of "run_reset r t"] by simp
qed

subsection \<open>Success\<close>

lemma shrinks_gone: "shrinks d d' \<Longrightarrow> entry_at (dk_Tree d) q = None \<Longrightarrow> entry_at (dk_Tree d') q = None"
  by (auto simp: shrinks_def)

lemma shrinks_each: "\<forall>q \<in> set qs. q \<noteq> [] \<Longrightarrow> shrinks d (fst (unlink_each X qs err d))"
  by (rule shrinks.unlink_each_step) (simp add: shrinks_unlink)

lemma shrinks_RemoveAll: "p \<noteq> [] \<Longrightarrow> shrinks d (fst (RemoveAll X p d))"
  unfolding RemoveAll_def by (rule shrinks_each) (auto simp: below_def)

lemma unlink_each_done:
  assumes "unlink_each X qs err d = (d', Done u)" and "\<forall>q \<in> set qs. q \<noteq> []"
  shows "err = None \<and> (\<forall>q \<in> set qs. entry_at (dk_Tree d') q = None)"
  using assms
proof (induction qs arbitrary: err d)
  case Nil
  then show ?case by (simp split: option.splits)
next
  case (Cons q qs)
  obtain d1 r where s: "sys X (unlink q) d = (d1, r)" by (metis surj_pair)
  from Cons.prems(1) s obtain err' where rest: "unlink_each X qs err' d1 = (d', Done u)"
      and r: "r = Failed ENotExist \<and> err' = err \<or> (\<exists>u. r = Done u) \<and> err' = err \<or>
        (\<exists>e. r = Failed e \<and> e \<noteq> ENotExist) \<and> err' \<noteq> None"
    by (auto split: os_outcome.splits os_error.splits if_splits)
  from Cons.IH[OF rest] Cons.prems(2) have ih: "err' = None" "\<forall>q \<in> set qs. entry_at (dk_Tree d') q = None" by simp_all
  have "shrinks d1 d'"
    using shrinks_each[of qs d1 X err'] rest Cons.prems(2) by simp
  moreover have "entry_at (dk_Tree d1) q = None"
    using r ih(1) s unlink_gone[of X q d d1] Cons.prems(2)
    by (auto simp: sys_def unlink_def split: sys_answer.splits option.splits fs_entry.splits if_splits)
  ultimately have "entry_at (dk_Tree d') q = None" by (rule shrinks_gone)
  then show ?case using ih r by auto
qed

lemma RemoveAll_done:
  assumes "RemoveAll X p d = (d', Done u)" and "p \<noteq> []" and "prefix p q"
  shows "entry_at (dk_Tree d') q = None"
proof (cases "q \<in> set (below (dk_Tree d) p)")
  case True
  have "\<forall>q \<in> set (below (dk_Tree d) p). q \<noteq> []" using assms(2) by (auto simp: below_def)
  from unlink_each_done[OF assms(1)[unfolded RemoveAll_def] this] True show ?thesis by blast
next
  case False
  have "q \<noteq> []" using assms(2,3) by auto
  with False assms(3) have "entry_at (dk_Tree d) q = None"
    using entry_listed[of "dk_Tree d" q] by (auto simp: below_def)
  moreover have "shrinks d d'" using shrinks_RemoveAll[OF assms(2), of d X] assms(1) by simp
  ultimately show ?thesis using shrinks_gone by blast
qed

lemma RemoveAll_never_missing: "RemoveAll X p d \<noteq> (d', Failed ENotExist)"
proof -
  have "err \<noteq> Some ENotExist \<Longrightarrow> unlink_each X qs err d \<noteq> (d', Failed ENotExist)" for qs err d
  proof (induction qs arbitrary: err d)
    case (Cons q qs)
    then show ?case by (auto split: prod.splits os_outcome.splits os_error.splits)
  qed (auto split: option.splits)
  then show ?thesis by (simp add: RemoveAll_def)
qed

lemma wipe_each_done:
  assumes "wipe_each X home data_dir keep ns d = (d', Done u)"
  shows "shrinks d d' \<and> (\<forall>n \<in> set ns - set keep. \<forall>q. prefix (data_dir @ [n]) q \<longrightarrow> entry_at (dk_Tree d') q = None)"
  using assms
proof (induction ns arbitrary: d)
  case Nil
  then show ?case by (simp add: os_return_def shrinks.refl)
next
  case (Cons n ns)
  show ?case
  proof (cases "n \<in> set keep")
    case True
    then show ?thesis using Cons by auto
  next
    case False
    with Cons.prems obtain d1 where rm: "RemoveAll X (data_dir @ [n]) d = (d1, Done ())"
        and rest: "wipe_each X home data_dir keep ns d1 = (d', Done u)"
      by (auto simp: os_then_done os_wrap_done tolerate_missing_def RemoveAll_never_missing
          split: prod.splits os_outcome.splits os_error.splits)
    have "shrinks d d1" using shrinks_RemoveAll[of "data_dir @ [n]" d X] rm by simp
    moreover have "entry_at (dk_Tree d') q = None" if "prefix (data_dir @ [n]) q" for q
      using RemoveAll_done[OF rm _ that] Cons.IH[OF rest] shrinks_gone[of d1 d' q] by simp
    ultimately show ?thesis using Cons.IH[OF rest] shrinks.trans[of d d1 d'] by auto
  qed
qed

lemma wipe_done:
  assumes "wipeDirContents X home data_dir [privValidatorStateFile] d = (d', Done u)" and "wiped q"
    and "entry_at (dk_Tree d) data_dir = None \<Longrightarrow> entry_at (dk_Tree d) q = None"
  shows "entry_at (dk_Tree d') q = None"
proof -
  obtain d1 r where s: "sys X (read_dir data_dir) d = (d1, r)" by (metis surj_pair)
  have t1: "dk_Tree d1 = dk_Tree d"
    using s by (auto simp: sys_def read_dir_def split: sys_answer.splits)
  from assms(1) s consider (missing) "r = Failed ENotExist" "d' = d1"
    | (listed) names where "r = Done names" "wipe_each X home data_dir [privValidatorStateFile] names d1 = (d', Done u)"
    by (auto simp: wipeDirContents_def split: os_outcome.splits os_error.splits)
  then show ?thesis
  proof cases
    case missing
    then have "entry_at (dk_Tree d) data_dir = None"
      using s by (auto simp: sys_def read_dir_def split: sys_answer.splits option.splits fs_entry.splits)
    then show ?thesis using assms(3) missing t1 by simp
  next
    case (listed names)
    have names: "names = children (dk_Tree d) data_dir"
      using s listed(1) by (auto simp: sys_def read_dir_def split: sys_answer.splits option.splits fs_entry.splits)
    show ?thesis
    proof (cases "entry_at (dk_Tree d) q = None")
      case True
      then show ?thesis using wipe_each_done[OF listed(2)] t1 shrinks_gone[of d1 d'] by simp
    next
      case False
      have "q \<noteq> []" using assms(2) by (auto simp: wiped_def)
      from entry_listed[OF False this] have "q ! length data_dir \<in> set names"
        using assms(2) by (auto simp: names children_def wiped_def)
      moreover from assms(2) obtain zs where "q = data_dir @ zs" "zs \<noteq> []"
        by (auto simp: wiped_def strict_prefix_def prefix_def)
      then obtain n r where q: "q = data_dir @ n # r" by (cases zs) auto
      then have "n \<noteq> privValidatorStateFile" using assms(2) by (auto simp: wiped_def state_path_def data_dir_def)
      ultimately show ?thesis using wipe_each_done[OF listed(2)] q by (auto simp: prefix_def)
    qed
  qed
qed

lemma mkdir_done:
  assumes "MkdirAll X data_dir d = (d', Done u)"
  shows "entry_at (dk_Tree d') data_dir = Some Dir"
proof -
  have "MkdirAll X data_dir = mkdir_each X [data_dir]" by (simp add: MkdirAll_def data_dir_def)
  then have "sys X (mkdir data_dir) d = (d', Done ())" using assms by (auto simp: os_then_done os_return_def)
  then show ?thesis by (auto simp: sys_def mkdir_def data_dir_def split: sys_answer.splits option.splits fs_entry.splits)
qed

lemma write_done:
  assumes "writeFileSynced X state_path c d = (d', Done u)" and "entry_at (dk_Tree d) state_path = None"
  shows "entry_at (dk_Tree d') state_path = Some (File c)"
proof -
  from assms(1) obtain d1 d2 d3 where o: "sys X (open_trunc state_path) d = (d1, Done ())"
      and w: "sys X (write_content state_path c) d1 = (d2, Done ())"
      and r: "sys X touch_nothing d2 = (d3, Done ())" "sys X touch_nothing d3 = (d', Done ())"
    by (auto simp: writeFileSynced_def os_then_done)
  have "entry_at (dk_Tree d1) state_path = Some (File [])"
    using o assms(2) by (auto simp: sys_def open_trunc_def state_path_def split: sys_answer.splits if_splits)
  then have "entry_at (dk_Tree d2) state_path = Some (File c)"
    using w by (auto simp: sys_def write_content_def state_path_def split: sys_answer.splits)
  moreover have "dk_Tree d3 = dk_Tree d2" "dk_Tree d' = dk_Tree d3"
    using r by (auto simp: sys_def touch_nothing_def split: sys_answer.splits)
  ultimately show ?thesis by simp
qed

lemma ensure_done:
  assumes "ensure_sign_state X home d = (d', Done u)"
  shows "entry_at (dk_Tree d') state_path =
    Some (case entry_at (dk_Tree d) state_path of None \<Rightarrow> File emptyPrivValidatorState | Some e \<Rightarrow> e)"
proof -
  obtain d1 r where s: "sys X (stat state_path) d = (d1, r)" by (metis surj_pair)
  have t1: "dk_Tree d1 = dk_Tree d" using s by (auto simp: sys_def stat_def split: sys_answer.splits)
  from assms s consider (new) "r = Failed ENotExist" "writeFileSynced X state_path emptyPrivValidatorState d1 = (d', Done u)"
    | (old) u' where "r = Done u'" "d' = d1"
    by (auto simp: ensure_sign_state_def os_wrap_done split: os_outcome.splits os_error.splits)
  then show ?thesis
  proof cases
    case new
    then have "entry_at (dk_Tree d) state_path = None"
      using s by (auto simp: sys_def stat_def split: sys_answer.splits if_splits)
    then show ?thesis using write_done[OF new(2)] t1 by simp
  next
    case old
    then have "entry_at (dk_Tree d) state_path \<noteq> None"
      using s by (auto simp: sys_def stat_def split: sys_answer.splits if_splits)
    then show ?thesis using old t1 by auto
  qed
qed

lemma clear_done: "clear_marker X home d = (d', Done u) \<Longrightarrow> entry_at (dk_Tree d') marker_path = None"
  by (auto simp: clear_marker_def os_wrap_done tolerate_missing_def sys_def unlink_def marker_path_def
      split: prod.splits os_outcome.splits os_error.splits sys_answer.splits option.splits fs_entry.splits if_splits)

lemma reset_done:
  assumes "reset_data E X d = (d', Done n)"
  obtains d2 d3 d4 d5 u where "\<not> re_Up E" "refuseDataUsers (findDataUsers (re_Procs E)) = None" "dk_Tree d2 = dk_Tree d"
    "wipeDirContents X (re_Home E) data_dir [privValidatorStateFile] d2 = (d3, Done u)"
    "MkdirAll X data_dir d3 = (d4, Done ())" "ensure_sign_state X (re_Home E) d4 = (d5, Done ())"
    "clear_marker X (re_Home E) d5 = (d', Done ())"
proof -
  have up: "\<not> re_Up E" and users: "refuseDataUsers (findDataUsers (re_Procs E)) = None"
    using assms by (auto simp: reset_data_def os_fail_def split: if_splits option.splits)
  with assms obtain d1 d2 m where m: "refuseMovedSignState E X d = (d1, Done ())" "dirSize X data_dir d1 = (d2, Done m)"
      and w: "wipe_data X (re_Home E) m d2 = (d', Done n)" by (auto simp: reset_data_def os_then_done)
  have same: "dk_Tree d1 = dk_Tree d" "dk_Tree d2 = dk_Tree d1"
  proof -
    from m(1) obtain r where "ReadTOML X (re_Parse E) [''config'', ''config.toml''] d = (d1, Done r)"
      by (auto simp: refuseMovedSignState_def os_then_done os_wrap_done check_sign_state_def os_return_def os_fail_def
          split: option.splits)
    then show "dk_Tree d1 = dk_Tree d"
      by (auto simp: ReadTOML_def parse_toml_def sys_def read_file_def
          split: prod.splits os_outcome.splits os_error.splits sum.splits sys_answer.splits)
    show "dk_Tree d2 = dk_Tree d1"
      using m(2) by (auto simp: dirSize_def sys_def sum_files_def split: prod.splits os_outcome.splits sys_answer.splits)
  qed
  from w obtain d3 d4 d5 where "wipeDirContents X (re_Home E) data_dir [privValidatorStateFile] d2 = (d3, Done ())"
    "MkdirAll X data_dir d3 = (d4, Done ())" "ensure_sign_state X (re_Home E) d4 = (d5, Done ())"
    "clear_marker X (re_Home E) d5 = (d', Done ())"
    by (auto simp: wipe_data_def recreate_data_def os_then_done os_wrap_done os_return_def)
  then show thesis using that[OF up users, of d2] same by simp
qed

text \<open>A reset that reports success found the RPC down and no \<open>seid\<close> or \<open>seidb\<close> process, and leaves in \<open>data/\<close> the sign
  state alone, the old one if there was one and otherwise the zero state, with the state-sync marker gone.\<close>

theorem reset_success:
  assumes done_now: "reset_data E X \<lparr>dk_Tree = t, dk_Calls = 0\<rparr> = (d', Done n)"
    and parent: "entry_at t data_dir = None \<Longrightarrow> list_all (\<lambda>kv. \<not> strict_prefix data_dir (fst kv)) t"
    and plain: "entry_at t state_path \<noteq> Some Dir" "list_all (\<lambda>kv. \<not> strict_prefix state_path (fst kv)) t"
  shows "\<not> re_Up E \<and> findDataUsers (re_Procs E) = Ok [] \<and> entry_at (dk_Tree d') data_dir = Some Dir \<and>
    entry_at (dk_Tree d') marker_path = None \<and>
    (\<forall>q. strict_prefix data_dir q \<longrightarrow> entry_at (dk_Tree d') q =
       (if q = state_path then Some (case entry_at t state_path of None \<Rightarrow> File emptyPrivValidatorState | Some e \<Rightarrow> e)
        else None))"
proof -
  obtain d2 d3 d4 d5 u where up: "\<not> re_Up E"
    and users: "refuseDataUsers (findDataUsers (re_Procs E)) = None" and d2: "dk_Tree d2 = t"
    and w: "wipeDirContents X (re_Home E) data_dir [privValidatorStateFile] d2 = (d3, Done u)"
    and m: "MkdirAll X data_dir d3 = (d4, Done ())" and e: "ensure_sign_state X (re_Home E) d4 = (d5, Done ())"
    and c: "clear_marker X (re_Home E) d5 = (d', Done ())"
    by (rule reset_done[OF done_now], rule that) simp_all
  note frames = wipe_confined[of d2 X "re_Home E"] mkdir_confined[of d3 X] ensure_confined[of d4 X "re_Home E"]
    marker_confined[of d5 X "re_Home E"]
  have other: "entry_at (dk_Tree d') q = entry_at (dk_Tree d3) q" if "q \<notin> {data_dir, state_path, marker_path}" for q
    using frames(2-4) m e c that by (simp add: confined_def)
  have state: "entry_at (dk_Tree d') state_path =
      Some (case entry_at t state_path of None \<Rightarrow> File emptyPrivValidatorState | Some e \<Rightarrow> e)"
    using ensure_done[OF e] frames(1,2,4) w m c d2
    by (simp add: confined_def wiped_def state_path_def data_dir_def marker_path_def)
  have data: "entry_at (dk_Tree d') data_dir = Some Dir"
    using mkdir_done[OF m] frames(3,4) e c
    by (simp add: confined_def state_path_def data_dir_def marker_path_def stateSyncMarkerFile_def)
  have gone: "entry_at (dk_Tree d') q = None" if q: "strict_prefix data_dir q" "q \<noteq> state_path" for q
  proof -
    have ne: "q \<notin> {data_dir, state_path, marker_path}" using q by (auto simp: data_dir_def marker_path_def strict_prefix_def prefix_def)
    have none: "entry_at t q = None" if "strict_prefix data_dir q \<and> entry_at t data_dir = None \<or> strict_prefix state_path q"
    proof (rule ccontr)
      assume "entry_at t q \<noteq> None"
      moreover have "q \<noteq> []" using q(1) by auto
      ultimately have "q \<in> set (map fst t)" by (rule entry_listed)
      then show False using that parent plain(2) by (auto simp: list_all_iff)
    qed
    show ?thesis
    proof (cases "wiped q")
      case True
      then show ?thesis using wipe_done[OF w True] none q(1) d2 other[OF ne] by simp
    next
      case False
      then have "strict_prefix state_path q" using q by (simp add: wiped_def strict_prefix_def)
      then show ?thesis using none frames(1) w d2 False other[OF ne] by (simp add: confined_def)
    qed
  qed
  have "findDataUsers (re_Procs E) = Ok []"
    using users by (cases "findDataUsers (re_Procs E)") (auto simp: refuseDataUsers_def split: if_splits)
  then show ?thesis using up data state gone clear_done[OF c] by auto
qed

subsection \<open>A torn zero state\<close>

definition demo_home :: tree where
  "demo_home = [([''config''], Dir), ([''config'', ''config.toml''], File ''cfg''), ([''data''], Dir),
     ([''data'', ''blocks''], Dir), ([''data'', ''blocks'', ''1.db''], File ''b''),
     ([''data'', privValidatorStateFile], File ''h7''), ([stateSyncMarkerFile], File [])]"

definition demo_reset :: reset_env where
  "demo_reset = \<lparr>re_Home = ''/sei'', re_Up = False, re_Procs = Inr [], re_Parse = (\<lambda>_. Inr [])\<rparr>"

definition dies_at :: "nat \<Rightarrow> script" where "dies_at k n = (if n = k then Die else Proceed)"

theorem sign_state_survives_witness:
  "entry_at (fold run_reset [(demo_reset, dies_at 4), (demo_reset, dies_at 100)] demo_home) state_path = Some (File ''h7'') \<and>
   entry_at (fold run_reset [(demo_reset, dies_at 4), (demo_reset, dies_at 100)] demo_home) [''data'', ''blocks'', ''1.db''] = None"
proof
  have "entry_at demo_home state_path = Some (File ''h7'')"
    by (simp add: entry_at_def demo_home_def state_path_def privValidatorStateFile_def stateSyncMarkerFile_def)
  from sign_state_survives[OF this]
  show "entry_at (fold run_reset [(demo_reset, dies_at 4), (demo_reset, dies_at 100)] demo_home) state_path = Some (File ''h7'')"
    by blast
  show "entry_at (fold run_reset [(demo_reset, dies_at 4), (demo_reset, dies_at 100)] demo_home) [''data'', ''blocks'', ''1.db''] = None"
    by code_simp
qed

theorem reset_success_witness:
  "case reset_data demo_reset (\<lambda>_. Proceed) \<lparr>dk_Tree = demo_home, dk_Calls = 0\<rparr> of
     (d', Done n) \<Rightarrow> n = 3 \<and> entry_at (dk_Tree d') [''data'', ''blocks''] = None \<and>
       entry_at (dk_Tree d') state_path = Some (File ''h7'')
   | _ \<Rightarrow> False"
proof -
  let ?r = "reset_data demo_reset (\<lambda>_. Proceed) \<lparr>dk_Tree = demo_home, dk_Calls = 0\<rparr>"
  have "case snd ?r of Done n \<Rightarrow> n = 3 | _ \<Rightarrow> False" by code_simp
  then have r: "?r = (fst ?r, Done 3)" by (cases ?r) (auto split: os_outcome.splits)
  have t: "entry_at demo_home state_path = Some (File ''h7'')" "entry_at demo_home data_dir = Some Dir"
    by (simp_all add: entry_at_def demo_home_def state_path_def data_dir_def privValidatorStateFile_def stateSyncMarkerFile_def)
  have p: "list_all (\<lambda>kv. \<not> strict_prefix state_path (fst kv)) demo_home" by code_simp
  have q: "strict_prefix data_dir [''data'', ''blocks'']" "[''data'', ''blocks''] \<noteq> state_path" "strict_prefix data_dir state_path"
    by code_simp+
  from reset_success[OF r _ _ p] t q show ?thesis by (subst r) simp
qed

text \<open>The zero state is not written atomically: a reset of a node without a sign state that dies between creating the
  file and writing it leaves an empty file, which every later reset keeps as the existing sign state and reports as success.\<close>

theorem torn_zero_state_kept:
  "\<exists>R X t. entry_at t state_path = None \<and> entry_at (run_reset (R, X) t) state_path = Some (File []) \<and>
     (case reset_data R (\<lambda>_. Proceed) \<lparr>dk_Tree = run_reset (R, X) t, dk_Calls = 0\<rparr> of
        (d', Done n) \<Rightarrow> entry_at (dk_Tree d') state_path = Some (File []) | _ \<Rightarrow> False)"
proof (intro exI[of _ demo_reset] exI[of _ "dies_at 6"] exI[of _ "[([''data''], Dir)]"] conjI)
  show "entry_at [([''data''], Dir)] state_path = None" by code_simp
  show "entry_at (run_reset (demo_reset, dies_at 6) [([''data''], Dir)]) state_path = Some (File [])" by code_simp
  show "case reset_data demo_reset (\<lambda>_. Proceed) \<lparr>dk_Tree = run_reset (demo_reset, dies_at 6) [([''data''], Dir)], dk_Calls = 0\<rparr> of
      (d', Done n) \<Rightarrow> entry_at (dk_Tree d') state_path = Some (File []) | _ \<Rightarrow> False" by code_simp
qed

end
