(* ===== verification/ConfigPatch.thy ===== *)
theory ConfigPatch
  imports OverlayProps GoFiles
begin

text \<open>
  The config-patch task in the sidecar (\<open>sidecar/tasks/config.go\<close>, \<open>sidecarapi/tomlpatch/merge.go\<close>): a merge patch applied
  to the node's TOML files, each replaced by a rename.  \<open>toml.Unmarshal\<close> and the encoder are arguments.
\<close>

subsection \<open>Merge\<close>

definition drop_key :: "string \<Rightarrow> table \<Rightarrow> table" where
  "drop_key k t = filter (\<lambda>kv. fst kv \<noteq> k) t"

definition members :: "json \<Rightarrow> table" where
  "members j = (case j of JObject t \<Rightarrow> t | _ \<Rightarrow> [])"

text \<open>A null in the patch deletes; what the original lacks is taken as it is.\<close>

function Merge :: "json \<Rightarrow> json \<Rightarrow> json" and merge_members :: "table \<Rightarrow> table \<Rightarrow> table" where
  "Merge original (JObject ps) = JObject (merge_members (members original) ps)"
| "Merge original JNull = JNull"
| "Merge original (JBool b) = JBool b"
| "Merge original (JNumber n) = JNumber n"
| "Merge original (JString s) = JString s"
| "Merge original (JArray js) = JArray js"
| "merge_members r [] = r"
| "merge_members r ((k, v) # ps) =
     merge_members
       (if v = JNull then drop_key k r
        else case map_of r k of Some old \<Rightarrow> put k (Merge old v) r | None \<Rightarrow> put k v r) ps"
  by pat_completeness auto
termination
  by (relation "measure (\<lambda>x. case x of Inl (_, p) \<Rightarrow> size p | Inr (_, ps) \<Rightarrow> size_list (size_prod (\<lambda>_. 0) size) ps)") auto

subsection \<open>The task\<close>

text \<open>\<open>filepath.Join(home, "config", filename)\<close>, relative to the home directory.\<close>

definition config_path :: "string \<Rightarrow> path" where
  "config_path f = rev (fold (clean_step False) (split_on (CHR ''/'') f) [''config''])"

record toml_codec =
  tc_Parse :: "string \<Rightarrow> table result"
  tc_Print :: "table \<Rightarrow> string result"

definition write_merged :: "script \<Rightarrow> toml_codec \<Rightarrow> string \<Rightarrow> path \<Rightarrow> table \<Rightarrow> table \<Rightarrow> unit os" where
  "write_merged X C tmp p patch doc = WriteTOML X (tc_Print C) tmp p (members (Merge (JObject doc) (JObject patch)))"

definition mergeAndWrite :: "script \<Rightarrow> toml_codec \<Rightarrow> string \<Rightarrow> string \<Rightarrow> table \<Rightarrow> unit os" where
  "mergeAndWrite X C tmp f patch =
     os_then (os_wrap (''reading '' @ last (config_path f) @ '': '') (ReadTOML X (tc_Parse C) (config_path f)))
       (write_merged X C tmp (config_path f) patch)"

fun PatchFiles :: "script \<Rightarrow> toml_codec \<Rightarrow> (string \<Rightarrow> string) \<Rightarrow> files \<Rightarrow> unit os" where
  "PatchFiles X C tmp [] = os_return ()"
| "PatchFiles X C tmp ((f, patch) # fs) =
     os_then (os_wrap (''config-patch '' @ f @ '': '') (mergeAndWrite X C (tmp f) f patch)) (\<lambda>_. PatchFiles X C tmp fs)"

definition ConfigPatcher :: "script \<Rightarrow> toml_codec \<Rightarrow> (string \<Rightarrow> string) \<Rightarrow> files \<Rightarrow> unit os" where
  "ConfigPatcher X C tmp fs =
     (if fs = [] then os_fail ''config-patch: at least one file is required'' else PatchFiles X C tmp fs)"

subsection \<open>What the merge does\<close>

lemma map_of_drop_key: "map_of (drop_key k t) q = (if q = k then None else map_of t q)"
  by (induction t) (auto simp: drop_key_def)

lemma map_of_merge:
  "distinct (map fst ps) \<Longrightarrow>
   map_of (merge_members r ps) k =
     (case map_of ps k of
        None \<Rightarrow> map_of r k
      | Some v \<Rightarrow> if v = JNull then None else Some (case map_of r k of Some old \<Rightarrow> Merge old v | None \<Rightarrow> v))"
proof (induction ps arbitrary: r)
  case Nil
  then show ?case by simp
next
  case (Cons kv ps)
  obtain k' v where kv: "kv = (k', v)" by (cases kv)
  have fresh: "map_of ps k' = None" using Cons.prems kv by (simp add: map_of_eq_None_iff)
  show ?case
    using Cons.IH Cons.prems fresh kv by (cases "k = k'") (auto simp: map_of_drop_key split: option.splits)
qed

lemma json_wf_member: "json_wf (JObject t) \<Longrightarrow> map_of t k = Some j \<Longrightarrow> json_wf j"
  using map_of_SomeD by fastforce

text \<open>Every leaf of the patch that is not null is a leaf of the result.\<close>

lemma Merge_leaf:
  "json_wf patch \<Longrightarrow> has_leaf patch p v \<Longrightarrow> v \<noteq> JNull \<Longrightarrow> has_leaf (Merge original patch) p v"
proof (induction p arbitrary: patch original)
  case Nil
  then show ?case by (cases patch) (auto simp: has_leaf_def)
next
  case (Cons k p)
  then obtain ps j where patch: "patch = JObject ps" and j: "map_of ps k = Some j" "has_leaf j p v"
    by (cases patch) (auto simp: has_leaf_def split: option.splits)
  have "j \<noteq> JNull" using j(2) Cons.prems(3) by (cases p) (auto simp: has_leaf_def)
  moreover have "json_wf j" using Cons.prems(1) j(1) patch json_wf_member by blast
  ultimately show ?case
    using Cons.IH[of j] Cons.prems(3) j patch Cons.prems(1) by (auto simp: leaf_at map_of_merge split: option.splits)
qed

text \<open>A path the patch does not reach reads as before.\<close>

fun misses :: "json \<Rightarrow> string list \<Rightarrow> bool" where
  "misses (JObject ps) (k # ks) = (case map_of ps k of None \<Rightarrow> True | Some j \<Rightarrow> misses j ks)"
| "misses _ _ = False"

lemma misses_absent: "misses j p \<Longrightarrow> json_at j p = None"
  by (induction j p rule: misses.induct) (auto split: option.splits)

lemma json_at_members: "p \<noteq> [] \<Longrightarrow> json_at (JObject (members j)) p = json_at j p"
  by (cases j; cases p) (auto simp: members_def)

lemma Merge_rest: "json_wf patch \<Longrightarrow> misses patch p \<Longrightarrow> json_at (Merge original patch) p = json_at original p"
proof (induction p arbitrary: patch original)
  case Nil
  then show ?case by (cases patch) auto
next
  case (Cons k p)
  then obtain ps where patch: "patch = JObject ps" by (cases patch) auto
  have at: "json_at original (k # p) = (case map_of (members original) k of None \<Rightarrow> None | Some j \<Rightarrow> json_at j p)"
    using json_at_members[of "k # p" original] by simp
  show ?case
  proof (cases "map_of ps k")
    case None
    then show ?thesis using patch Cons.prems(1) at by (auto simp: map_of_merge)
  next
    case (Some j)
    have j: "json_wf j" "misses j p" "j \<noteq> JNull"
      using Cons.prems patch Some json_wf_member by auto
    then show ?thesis
      using patch Some Cons.prems(1) at Cons.IH[OF j(1,2)] misses_absent[OF j(2)] by (auto simp: map_of_merge split: option.splits)
  qed
qed

subsection \<open>What a run leaves on disk\<close>

lemma sys_same:
  assumes "sys X f d = (d', r)" and "fst (f (dk_Tree d)) = dk_Tree d"
  shows "dk_Tree d' = dk_Tree d"
  using assms by (auto simp: sys_def split: sys_answer.splits prod.splits)

lemma temp_path_ne: "temp_path tmp p \<noteq> []"
  by (simp add: temp_path_def)

lemma discard_confined:
  assumes "Q tp" "tp \<noteq> []" "confined Q d (fst (m d))"
  shows "confined Q d (fst (discard_temp X tp m d))"
proof -
  obtain d1 r where m: "m d = (d1, r)" by (metis surj_pair)
  obtain d2 r2 where u: "sys X (unlink tp) d1 = (d2, r2)" by (metis surj_pair)
  have "confined Q d1 d2" using confined_calls(1)[of Q tp d1 X] assms(1,2) u by simp
  then show ?thesis
    using m u assms(3) confined.trans[of Q d d1 d2] by (cases r; cases r2) (auto simp: discard_temp_def)
qed

lemma fill_confined: "confined (\<lambda>q. q = temp_path tmp p) d (fst (fill_temp X (temp_path tmp p) c d))"
  unfolding fill_temp_def
  by (intro confined.then_step confined_calls(5) confined_reads) (simp_all add: temp_path_ne)

lemma fill_done:
  assumes "fill_temp X tp c d = (d', Done u)" and "entry_at (dk_Tree d) tp = Some (File a)" and "tp \<noteq> []"
  shows "entry_at (dk_Tree d') tp = Some (File c)"
proof -
  from assms(1) obtain d1 d2 where w: "sys X (write_content tp c) d = (d1, Done ())"
    and t: "sys X touch_nothing d1 = (d2, Done ())" "sys X touch_nothing d2 = (d', Done ())"
    by (auto simp: fill_temp_def os_then_done)
  have "entry_at (dk_Tree d1) tp = Some (File c)"
    using w assms(2,3) by (auto simp: sys_def write_content_def split: sys_answer.splits)
  moreover have "dk_Tree d2 = dk_Tree d1" "dk_Tree d' = dk_Tree d2"
    using sys_same[OF t(1)] sys_same[OF t(2)] by (simp_all add: touch_nothing_def)
  ultimately show ?thesis by simp
qed

lemma discard_done: "discard_temp X tp m d = (d', Done u) \<longleftrightarrow> m d = (d', Done u)"
  by (auto simp: discard_temp_def split: prod.splits os_outcome.splits)

text \<open>A file is replaced as a whole, and only by a run of the function that reports success.\<close>

lemma WriteFileAtomic_exact:
  assumes run: "WriteFileAtomic X tmp p c d = (d', r)" and p: "p \<noteq> []" "temp_path tmp p \<noteq> p"
  shows "entry_at (dk_Tree d') p = (if r = Done () then Some (File c) else entry_at (dk_Tree d) p)"
    and "q \<noteq> p \<Longrightarrow> q \<noteq> temp_path tmp p \<Longrightarrow> entry_at (dk_Tree d') q = entry_at (dk_Tree d) q"
proof -
  let ?tp = "temp_path tmp p" let ?Q = "\<lambda>q. q = temp_path tmp p"
  let ?pre = "os_then (sys X (open_excl ?tp)) (\<lambda>_. os_then (discard_temp X ?tp (fill_temp X ?tp c)) (\<lambda>_. sys X touch_nothing))"
  have split: "WriteFileAtomic X tmp p c d = os_then ?pre (\<lambda>_. sys X (rename ?tp p)) d"
    by (auto simp: WriteFileAtomic_def os_then_def Let_def split: prod.splits os_outcome.splits)
  obtain d1 r1 where pre: "?pre d = (d1, r1)" by (metis surj_pair)
  have frame: "confined ?Q d d1"
  proof -
    have "confined ?Q d (fst (?pre d))"
      by (intro confined.then_step discard_confined fill_confined confined_calls(4) confined_reads) (simp_all add: temp_path_ne)
    then show ?thesis using pre by simp
  qed
  have full: "entry_at (dk_Tree d1) ?tp = Some (File c)" if "r1 = Done ()"
  proof -
    from pre that obtain da db where o: "sys X (open_excl ?tp) d = (da, Done ())" and f: "fill_temp X ?tp c da = (db, Done ())"
      and t: "sys X touch_nothing db = (d1, Done ())" by (auto simp: os_then_done discard_done)
    have "entry_at (dk_Tree da) ?tp = Some (File [])"
      using o by (auto simp: sys_def open_excl_def temp_path_ne split: sys_answer.splits if_splits)
    from fill_done[OF f this] sys_same[OF t] show ?thesis by (simp add: touch_nothing_def temp_path_ne)
  qed
  show "entry_at (dk_Tree d') p = (if r = Done () then Some (File c) else entry_at (dk_Tree d) p)"
    and "q \<noteq> p \<Longrightarrow> q \<noteq> ?tp \<Longrightarrow> entry_at (dk_Tree d') q = entry_at (dk_Tree d) q"
  proof -
    have "entry_at (dk_Tree d') p = (if r = Done () then Some (File c) else entry_at (dk_Tree d) p) \<and>
        (q \<noteq> p \<longrightarrow> q \<noteq> ?tp \<longrightarrow> entry_at (dk_Tree d') q = entry_at (dk_Tree d) q)" for q
    proof (cases "r1 = Done ()")
      case True
      then have "sys X (rename ?tp p) d1 = (d', r)" using run split pre by (simp add: os_then_def)
      then show ?thesis using full[OF True] frame p
        by (auto simp: sys_def rename_def confined_def temp_path_ne split: sys_answer.splits if_splits)
    next
      case False
      then have "d' = d1 \<and> r \<noteq> Done ()" using run split pre by (cases r1) (auto simp: os_then_def)
      then show ?thesis using frame p by (auto simp: confined_def)
    qed
    then show "entry_at (dk_Tree d') p = (if r = Done () then Some (File c) else entry_at (dk_Tree d) p)"
      "q \<noteq> p \<Longrightarrow> q \<noteq> ?tp \<Longrightarrow> entry_at (dk_Tree d') q = entry_at (dk_Tree d) q" by blast+
  qed
qed

text \<open>The document a file holds; a missing file is the empty one.\<close>

definition document :: "toml_codec \<Rightarrow> fs_entry option \<Rightarrow> table option" where
  "document C e =
     (case e of
        None \<Rightarrow> Some []
      | Some (File c) \<Rightarrow> (case tc_Parse C c of Inl _ \<Rightarrow> None | Inr doc \<Rightarrow> Some doc)
      | Some Dir \<Rightarrow> None)"

definition patched :: "toml_codec \<Rightarrow> table \<Rightarrow> fs_entry option \<Rightarrow> fs_entry option \<Rightarrow> bool" where
  "patched C patch old new \<longleftrightarrow>
     (\<exists>doc c. document C old = Some doc \<and> new = Some (File c) \<and>
        tc_Print C (members (Merge (JObject doc) (JObject patch))) = Inr c)"

lemma ReadTOML_done:
  assumes "ReadTOML X parse p d = (d', r)"
  shows "dk_Tree d' = dk_Tree d" and "r = Done doc \<Longrightarrow> document \<lparr>tc_Parse = parse, tc_Print = pr\<rparr> (entry_at (dk_Tree d) p) = Some doc"
proof -
  have "dk_Tree d' = dk_Tree d \<and> (\<forall>doc. r = Done doc \<longrightarrow> document \<lparr>tc_Parse = parse, tc_Print = pr\<rparr> (entry_at (dk_Tree d) p) = Some doc)"
    using assms
    by (auto simp: ReadTOML_def parse_toml_def sys_def read_file_def document_def
        split: prod.splits os_outcome.splits os_error.splits sum.splits sys_answer.splits option.splits fs_entry.splits)
  then show "dk_Tree d' = dk_Tree d" "r = Done doc \<Longrightarrow> document \<lparr>tc_Parse = parse, tc_Print = pr\<rparr> (entry_at (dk_Tree d) p) = Some doc"
    by simp_all
qed

lemma config_path_temp: "temp_path tmp (config_path f) \<noteq> config_path f" if "take 5 (last (config_path f)) \<noteq> ''.tmp-''"
proof
  assume "temp_path tmp (config_path f) = config_path f"
  then have "last (config_path f) = ''.tmp-'' @ tmp" by (metis last_snoc temp_path_def)
  then show False using that by simp
qed

lemma mergeAndWrite_exact:
  assumes run: "mergeAndWrite X C tmp f patch d = (d', r)" and p: "config_path f \<noteq> []" "take 5 (last (config_path f)) \<noteq> ''.tmp-''"
  shows "if r = Done () then patched C patch (entry_at (dk_Tree d) (config_path f)) (entry_at (dk_Tree d') (config_path f))
         else entry_at (dk_Tree d') (config_path f) = entry_at (dk_Tree d) (config_path f)"
    and "q \<noteq> config_path f \<Longrightarrow> q \<noteq> temp_path tmp (config_path f) \<Longrightarrow> entry_at (dk_Tree d') q = entry_at (dk_Tree d) q"
proof -
  let ?p = "config_path f"
  obtain d1 r1 where rd: "ReadTOML X (tc_Parse C) ?p d = (d1, r1)" by (metis surj_pair)
  have C: "\<lparr>tc_Parse = tc_Parse C, tc_Print = tc_Print C\<rparr> = C" by (cases C) simp
  note same = ReadTOML_done(1)[OF rd] and doc = ReadTOML_done(2)[OF rd, where pr = "tc_Print C", unfolded C]
  have "(if r = Done () then patched C patch (entry_at (dk_Tree d) ?p) (entry_at (dk_Tree d') ?p)
         else entry_at (dk_Tree d') ?p = entry_at (dk_Tree d) ?p) \<and>
      (q \<noteq> ?p \<longrightarrow> q \<noteq> temp_path tmp ?p \<longrightarrow> entry_at (dk_Tree d') q = entry_at (dk_Tree d) q)" for q
  proof (cases r1)
    case (Done t)
    then have w: "write_merged X C tmp ?p patch t d1 = (d', r)"
      using run rd by (simp add: mergeAndWrite_def os_then_def os_wrap_def)
    show ?thesis
    proof (cases "tc_Print C (members (Merge (JObject t) (JObject patch)))")
      case (Inl e)
      then show ?thesis using w same by (auto simp: write_merged_def WriteTOML_def)
    next
      case (Inr c)
      then have "WriteFileAtomic X tmp ?p c d1 = (d', r)" using w by (simp add: write_merged_def WriteTOML_def)
      from WriteFileAtomic_exact[OF this p(1) config_path_temp[OF p(2)]] show ?thesis
        using same doc[OF Done] Inr by (auto simp: patched_def)
    qed
  qed (use run rd same in \<open>auto simp: mergeAndWrite_def os_then_def os_wrap_def\<close>)
  then show "if r = Done () then patched C patch (entry_at (dk_Tree d) ?p) (entry_at (dk_Tree d') ?p)
         else entry_at (dk_Tree d') ?p = entry_at (dk_Tree d) ?p"
    "q \<noteq> ?p \<Longrightarrow> q \<noteq> temp_path tmp ?p \<Longrightarrow> entry_at (dk_Tree d') q = entry_at (dk_Tree d) q" by blast+
qed

text \<open>The names a patch may carry: plain file names, no two of the same file, none of a temporary file.\<close>

definition plain_names :: "files \<Rightarrow> bool" where
  "plain_names fs \<longleftrightarrow> distinct (map (config_path \<circ> fst) fs) \<and>
     list_all (\<lambda>(f, _). config_path f \<noteq> [] \<and> take 5 (last (config_path f)) \<noteq> ''.tmp-'') fs"

lemma PatchFiles_exact:
  assumes "PatchFiles X C tmp fs d = (d', r)" and "plain_names fs"
  shows "(\<forall>(f, patch) \<in> set fs.
       patched C patch (entry_at (dk_Tree d) (config_path f)) (entry_at (dk_Tree d') (config_path f)) \<or>
       r \<noteq> Done () \<and> entry_at (dk_Tree d') (config_path f) = entry_at (dk_Tree d) (config_path f)) \<and>
     (\<forall>q. q \<notin> set (map (config_path \<circ> fst) fs) \<and> take 5 (last q) \<noteq> ''.tmp-'' \<longrightarrow>
        entry_at (dk_Tree d') q = entry_at (dk_Tree d) q)"
  using assms
proof (induction fs arbitrary: d)
  case Nil
  then show ?case by (auto simp: os_return_def)
next
  case (Cons fp fs)
  obtain f patch where fp: "fp = (f, patch)" by (cases fp)
  let ?p = "config_path f"
  have p: "?p \<noteq> []" "take 5 (last ?p) \<noteq> ''.tmp-''" and ps: "plain_names fs"
    and new: "?p \<notin> set (map (config_path \<circ> fst) fs)"
    using Cons.prems(2) fp by (auto simp: plain_names_def)
  obtain d1 r1 where m: "mergeAndWrite X C (tmp f) f patch d = (d1, r1)" by (metis surj_pair)
  note here = mergeAndWrite_exact[OF m p]
  have other: "entry_at (dk_Tree d1) q = entry_at (dk_Tree d) q" if "q \<noteq> ?p" "take 5 (last q) \<noteq> ''.tmp-''" for q
  proof -
    have "q \<noteq> temp_path (tmp f) ?p" using that(2) by (auto simp: temp_path_def)
    then show ?thesis using here(2) that(1) by blast
  qed
  have config_other: "entry_at (dk_Tree d1) (config_path g) = entry_at (dk_Tree d) (config_path g)"
    if "(g, t) \<in> set fs" for g t
  proof -
    have "config_path g \<noteq> ?p" using new that by (force simp: image_iff)
    moreover have "take 5 (last (config_path g)) \<noteq> ''.tmp-''" using ps that by (auto simp: plain_names_def list_all_iff)
    ultimately show ?thesis by (rule other)
  qed
  show ?case
  proof (cases "r1 = Done ()")
    case True
    then have rest: "PatchFiles X C tmp fs d1 = (d', r)"
      using Cons.prems(1) fp m by (simp add: os_then_def os_wrap_def)
    have "entry_at (dk_Tree d') ?p = entry_at (dk_Tree d1) ?p" using Cons.IH[OF rest ps] new p by blast
    then show ?thesis using Cons.IH[OF rest ps] here True other config_other fp by fastforce
  next
    case False
    then have "d' = d1 \<and> r \<noteq> Done ()"
      using Cons.prems(1) fp m by (cases r1) (auto simp: os_then_def os_wrap_def)
    then show ?thesis using here False other config_other fp by fastforce
  qed
qed


subsection \<open>The promise\<close>

lemma Merge_object: "JObject (members (Merge original (JObject ps))) = Merge original (JObject ps)"
  by (simp add: members_def)

text \<open>A patched file: the encoding of a document that has every leaf of the patch and reads as the old one elsewhere.\<close>

lemma patched_reads:
  assumes "patched C patch old new" and "json_wf (JObject patch)"
  shows "\<exists>was doc c. document C old = Some was \<and> new = Some (File c) \<and> tc_Print C doc = Inr c \<and>
    (\<forall>p v. has_leaf (JObject patch) p v \<and> v \<noteq> JNull \<longrightarrow> has_leaf (JObject doc) p v) \<and>
    (\<forall>p. misses (JObject patch) p \<longrightarrow> json_at (JObject doc) p = json_at (JObject was) p)"
proof -
  obtain t c where t: "document C old = Some t" "new = Some (File c)"
    "tc_Print C (members (Merge (JObject t) (JObject patch))) = Inr c"
    using assms(1) by (auto simp: patched_def)
  show ?thesis
    using t Merge_leaf[OF assms(2)] Merge_rest[OF assms(2)]
    by (intro exI[of _ t] exI[of _ "members (Merge (JObject t) (JObject patch))"] exI[of _ c])
      (simp add: Merge_object del: Merge.simps)
qed

text \<open>
  C28. A config-patch task, whatever its calls answer and wherever the process dies: each file it names is
  either as it was, and then the task did not report success, or the encoding of one complete document, with
  every value the patch sets and every other path as before.  Nothing else below the home directory changes
  but temporary files.
\<close>

theorem config_patch_atomic:
  assumes "ConfigPatcher X C tmp fs d = (d', r)" and "plain_names fs" and "(f, patch) \<in> set fs" and "json_wf (JObject patch)"
  shows "((r \<noteq> Done () \<and> entry_at (dk_Tree d') (config_path f) = entry_at (dk_Tree d) (config_path f)) \<or>
     (\<exists>was doc c. document C (entry_at (dk_Tree d) (config_path f)) = Some was \<and>
       entry_at (dk_Tree d') (config_path f) = Some (File c) \<and> tc_Print C doc = Inr c \<and>
       (\<forall>p v. has_leaf (JObject patch) p v \<and> v \<noteq> JNull \<longrightarrow> has_leaf (JObject doc) p v) \<and>
       (\<forall>p. misses (JObject patch) p \<longrightarrow> json_at (JObject doc) p = json_at (JObject was) p))) \<and>
    (\<forall>q. q \<notin> set (map (config_path \<circ> fst) fs) \<and> take 5 (last q) \<noteq> ''.tmp-'' \<longrightarrow>
       entry_at (dk_Tree d') q = entry_at (dk_Tree d) q)"
proof -
  have "PatchFiles X C tmp fs d = (d', r)" using assms(1,3) by (auto simp: ConfigPatcher_def split: if_splits)
  note ex = PatchFiles_exact[OF this assms(2)]
  then have "patched C patch (entry_at (dk_Tree d) (config_path f)) (entry_at (dk_Tree d') (config_path f)) \<or>
      r \<noteq> Done () \<and> entry_at (dk_Tree d') (config_path f) = entry_at (dk_Tree d) (config_path f)"
    using assms(3) by blast
  then show ?thesis
  proof
    assume "patched C patch (entry_at (dk_Tree d) (config_path f)) (entry_at (dk_Tree d') (config_path f))"
    from patched_reads[OF this assms(4)] show ?thesis using ex by blast
  qed (use ex in blast)
qed

definition demo_codec :: toml_codec where
  "demo_codec = \<lparr>tc_Parse = (\<lambda>c. Inr [(''moniker'', JString c)]), tc_Print = (\<lambda>t. Inr (concat (map fst t)))\<rparr>"

text \<open>The process dies at the rename: the file is as it was, and the temporary file stays behind.\<close>

theorem config_patch_atomic_witness:
  "case ConfigPatcher (\<lambda>k. if k = 6 then Die else Proceed) demo_codec (\<lambda>_. ''1'')
      [(''app.toml'', [(''pruning'', JString ''nothing'')])]
      \<lparr>dk_Tree = [([''config''], Dir), ([''config'', ''app.toml''], File ''old'')], dk_Calls = 0\<rparr> of
     (d, r) \<Rightarrow> r = Died \<and> entry_at (dk_Tree d) [''config'', ''app.toml''] = Some (File ''old'')"
proof -
  let ?run = "ConfigPatcher (\<lambda>k. if k = 6 then Die else Proceed) demo_codec (\<lambda>_. ''1'')
      [(''app.toml'', [(''pruning'', JString ''nothing'')])]
      \<lparr>dk_Tree = [([''config''], Dir), ([''config'', ''app.toml''], File ''old'')], dk_Calls = 0\<rparr>"
  obtain d r where run: "?run = (d, r)" by (metis surj_pair)
  have died: "snd ?run = Died" "entry_at (dk_Tree (fst ?run)) [''config'', ''.tmp-1''] = Some (File ''monikerpruning'')" by code_simp+
  have path: "config_path ''app.toml'' = [''config'', ''app.toml'']" by code_simp
  have fs: "plain_names [(''app.toml'', [(''pruning'', JString ''nothing'')])]" by code_simp
  have doc: "entry_at (dk_Tree d) (config_path ''app.toml'') = Some (File c) \<Longrightarrow> c = ''old''" for c
  proof -
    have "entry_at (dk_Tree (fst ?run)) [''config'', ''app.toml''] = Some (File ''old'')" by code_simp
    then show "entry_at (dk_Tree d) (config_path ''app.toml'') = Some (File c) \<Longrightarrow> c = ''old''" by (simp add: run path)
  qed
  from config_patch_atomic[OF run fs, of "''app.toml''" "[(''pruning'', JString ''nothing'')]"] show ?thesis
    using died run path doc by (auto simp: entry_at_def)
qed

end
