(* ===== verification/LocalRpc.thy ===== *)
theory LocalRpc
  imports GoJson GoStrconv
begin

text \<open>
  Reading the local node's height (\<open>sidecar/rpc\<close>): the CometBFT client, which takes plain answers and answers in a
  JSON-RPC envelope, its status call, and the fallback to the EVM endpoint.  An HTTP answer carries its status, its
  text, what \<open>json.Unmarshal\<close> reads in the whole text and what a decoder reads in its first 4096 bytes.
\<close>

subsection \<open>The client\<close>

record http_answer =
  ha_Code :: nat
  ha_Text :: string
  ha_Value :: "json result"
  ha_First :: "json result"

record rpcError =
  er_Code :: int
  er_Message :: string
  er_Data :: string

definition rpcError_fields :: "rpcError fields" where
  "rpcError_fields =
     [(''code'', field dec_int64 er_Code (\<lambda>v. er_Code_update (\<lambda>_. v))),
      (''message'', field dec_string er_Message (\<lambda>v. er_Message_update (\<lambda>_. v))),
      (''data'', field dec_string er_Data (\<lambda>v. er_Data_update (\<lambda>_. v)))]"

text \<open>A pointer to a struct: null clears it, an object fills what it points to.\<close>

definition dec_pointer :: "('a \<Rightarrow> json \<Rightarrow> 'a result) \<Rightarrow> 'a \<Rightarrow> 'a option \<Rightarrow> json \<Rightarrow> 'a option result" where
  "dec_pointer dec zero old j =
     (if j = JNull then Ok None
      else case dec (case old of None \<Rightarrow> zero | Some v \<Rightarrow> v) j of Inl e \<Rightarrow> Inl e | Inr v \<Rightarrow> Inr (Some v))"

definition dec_rpcError :: "rpcError option \<Rightarrow> json \<Rightarrow> rpcError option result" where
  "dec_rpcError =
     dec_pointer (decode_struct ''rpc.rpcError'' rpcError_fields) \<lparr>er_Code = 0, er_Message = [], er_Data = []\<rparr>"

text \<open>\<open>json.RawMessage\<close> takes any value, null included.\<close>

record envelope =
  en_JSONRPC :: string
  en_Result :: "json option"
  en_Error :: "rpcError option"

definition envelope_fields :: "envelope fields" where
  "envelope_fields =
     [(''jsonrpc'', field dec_string en_JSONRPC (\<lambda>v. en_JSONRPC_update (\<lambda>_. v))),
      (''result'', \<lambda>r j. Ok (r\<lparr>en_Result := Some j\<rparr>)),
      (''error'', field dec_rpcError en_Error (\<lambda>v. en_Error_update (\<lambda>_. v)))]"

definition doGet :: "http_answer result \<Rightarrow> http_answer result" where
  "doGet ans =
     (case ans of
        Inl e \<Rightarrow> Err e
      | Inr a \<Rightarrow> if ha_Code a \<noteq> 200 then Err (''HTTP '' @ show_nat (ha_Code a) @ '': '' @ take 512 (ha_Text a)) else Ok a)"

definition unwrap :: "string \<Rightarrow> json \<Rightarrow> envelope \<Rightarrow> json result" where
  "unwrap p body env =
     (if en_JSONRPC env = ''2.0'' then
        (case en_Error env of
           Some er \<Rightarrow> Err (''JSON-RPC error from '' @ p @ '': '' @ er_Message er @ '' (code '' @ itoa (er_Code er) @
                        '', data: '' @ er_Data er @ '')'')
         | None \<Rightarrow> (case en_Result env of
             None \<Rightarrow> Err (''empty result in JSON-RPC response from '' @ p)
           | Some j \<Rightarrow> Ok j))
      else Ok body)"

definition Get :: "string \<Rightarrow> http_answer result \<Rightarrow> json result" where
  "Get p ans =
     (case doGet ans of
        Inl e \<Rightarrow> Err e
      | Inr a \<Rightarrow>
          (case ha_Value a of
             Inl e \<Rightarrow> Err (''decoding JSON response from '' @ p @ '': '' @ e)
           | Inr body \<Rightarrow>
               (case decode_struct ''rpc.envelope'' envelope_fields
                       \<lparr>en_JSONRPC = [], en_Result = None, en_Error = None\<rparr> body of
                  Inl e \<Rightarrow> Err (''decoding JSON response from '' @ p @ '': '' @ e)
                | Inr env \<Rightarrow> unwrap p body env)))"

subsection \<open>The status\<close>

record SyncInfo =
  sy_LatestBlockHeight :: string
  sy_CatchingUp :: bool

record NodeInfo =
  ni_ID :: string
  ni_Network :: string

record StatusResult =
  sr_NodeInfo :: NodeInfo
  sr_SyncInfo :: SyncInfo

definition NodeInfo_fields :: "NodeInfo fields" where
  "NodeInfo_fields =
     [(''id'', field dec_string ni_ID (\<lambda>v. ni_ID_update (\<lambda>_. v))),
      (''network'', field dec_string ni_Network (\<lambda>v. ni_Network_update (\<lambda>_. v)))]"

definition SyncInfo_fields :: "SyncInfo fields" where
  "SyncInfo_fields =
     [(''latest_block_height'', field dec_string sy_LatestBlockHeight (\<lambda>v. sy_LatestBlockHeight_update (\<lambda>_. v))),
      (''catching_up'', field dec_bool sy_CatchingUp (\<lambda>v. sy_CatchingUp_update (\<lambda>_. v)))]"

definition StatusResult_fields :: "StatusResult fields" where
  "StatusResult_fields =
     [(''node_info'', field (decode_struct ''rpc.NodeInfo'' NodeInfo_fields) sr_NodeInfo (\<lambda>v. sr_NodeInfo_update (\<lambda>_. v))),
      (''sync_info'', field (decode_struct ''rpc.SyncInfo'' SyncInfo_fields) sr_SyncInfo (\<lambda>v. sr_SyncInfo_update (\<lambda>_. v)))]"

definition zero_status :: StatusResult where
  "zero_status =
     \<lparr>sr_NodeInfo = \<lparr>ni_ID = [], ni_Network = []\<rparr>, sr_SyncInfo = \<lparr>sy_LatestBlockHeight = [], sy_CatchingUp = False\<rparr>\<rparr>"

record NodeStatus =
  st_LatestBlockHeight :: int
  st_CatchingUp :: bool

definition node_status :: "StatusResult \<Rightarrow> NodeStatus result" where
  "node_status r =
     (case Atoi (sy_LatestBlockHeight (sr_SyncInfo r)) of
        None \<Rightarrow> Err (''parsing latest_block_height '' @ quoted (sy_LatestBlockHeight (sr_SyncInfo r)) @ '': '' @
                  ParseInt_error (decimal_text (sy_LatestBlockHeight (sr_SyncInfo r))) (sy_LatestBlockHeight (sr_SyncInfo r)))
      | Some h \<Rightarrow> Ok \<lparr>st_LatestBlockHeight = h, st_CatchingUp = sy_CatchingUp (sr_SyncInfo r)\<rparr>)"

definition rpc_Status :: "http_answer result \<Rightarrow> NodeStatus result" where
  "rpc_Status ans =
     (case Get ''/status'' ans of
        Inl e \<Rightarrow> Err e
      | Inr raw \<Rightarrow> (case decode_struct ''rpc.StatusResult'' StatusResult_fields zero_status raw of
          Inl e \<Rightarrow> Err (''decoding /status result: '' @ e)
        | Inr r \<Rightarrow> node_status r))"

definition LatestHeight :: "http_answer result \<Rightarrow> int result" where
  "LatestHeight ans = (case rpc_Status ans of Inl e \<Rightarrow> Err e | Inr s \<Rightarrow> Ok (st_LatestBlockHeight s))"

subsection \<open>The EVM endpoint\<close>

definition hex_value :: "char \<Rightarrow> nat option" where
  "hex_value c =
     (let n = of_char c :: nat
      in if 48 \<le> n \<and> n \<le> 57 then Some (n - 48) else if 97 \<le> n \<and> n \<le> 102 then Some (n - 87)
         else if 65 \<le> n \<and> n \<le> 70 then Some (n - 55) else None)"

fun hex_val :: "nat \<Rightarrow> string \<Rightarrow> nat option" where
  "hex_val acc [] = Some acc"
| "hex_val acc (c # cs) = (case hex_value c of None \<Rightarrow> None | Some d \<Rightarrow> hex_val (16 * acc + d) cs)"

text \<open>\<open>strconv.ParseInt(s, 16, 64)\<close>: a sign is read.\<close>

definition ParseHex :: "string \<Rightarrow> int option" where
  "ParseHex s =
     (case split_sign s of (neg, ds) \<Rightarrow>
        if ds = [] then None
        else case hex_val 0 ds of
          None \<Rightarrow> None
        | Some n \<Rightarrow>
            (let v = (if neg then - int n else int n) in if - (2 ^ 63) \<le> v \<and> v < 2 ^ 63 then Some v else None))"

definition hex_text :: "string \<Rightarrow> bool" where
  "hex_text s = (case split_sign s of (neg, ds) \<Rightarrow> ds \<noteq> [] \<and> hex_val 0 ds \<noteq> None)"

record evm_envelope =
  ev_Result :: string
  ev_Error :: "rpcError option"

definition evm_fields :: "evm_envelope fields" where
  "evm_fields =
     [(''result'', field dec_string ev_Result (\<lambda>v. ev_Result_update (\<lambda>_. v))),
      (''error'', field dec_rpcError ev_Error (\<lambda>v. ev_Error_update (\<lambda>_. v)))]"

definition TrimHexPrefix :: "string \<Rightarrow> string" where
  "TrimHexPrefix s = (if has_prefix s ''0x'' then drop 2 s else s)"

definition block_number :: "evm_envelope \<Rightarrow> int result" where
  "block_number env =
     (case ev_Error env of
        Some er \<Rightarrow> Err (''JSON-RPC error: '' @ er_Message er @ '' (code '' @ itoa (er_Code er) @ '')'')
      | None \<Rightarrow>
          if TrimHexPrefix (ev_Result env) = [] then Err (''empty eth_blockNumber result '' @ quoted (ev_Result env))
          else case ParseHex (TrimHexPrefix (ev_Result env)) of
            None \<Rightarrow> Err (''parsing eth_blockNumber '' @ quoted (ev_Result env) @ '': '' @
                      ParseInt_error (hex_text (TrimHexPrefix (ev_Result env))) (TrimHexPrefix (ev_Result env)))
          | Some h \<Rightarrow> Ok h)"

definition evmBlockNumber :: "http_answer result \<Rightarrow> int result" where
  "evmBlockNumber ans =
     (case doGet ans of
        Inl e \<Rightarrow> Err e
      | Inr a \<Rightarrow> (case ha_First a of
          Inl e \<Rightarrow> Err (''decoding eth_blockNumber response: '' @ e)
        | Inr body \<Rightarrow> (case decode_struct ''struct'' evm_fields \<lparr>ev_Result = [], ev_Error = None\<rparr> body of
            Inl e \<Rightarrow> Err (''decoding eth_blockNumber response: '' @ e)
          | Inr env \<Rightarrow> block_number env)))"

text \<open>The answers to the two calls; the second is made only when the first fails.\<close>

definition CommittedHeight :: "http_answer result \<Rightarrow> http_answer result \<Rightarrow> int result" where
  "CommittedHeight comet evm =
     (case LatestHeight comet of
        Inr h \<Rightarrow> Ok h
      | Inl ce \<Rightarrow> (case evmBlockNumber evm of
          Inr h \<Rightarrow> Ok h
        | Inl ee \<Rightarrow> Err (''cometbft: '' @ ce @ [CHR 0x0A] @ ''evm: '' @ ee)))"

subsection \<open>Both forms of an answer read alike\<close>

definition answer :: "json \<Rightarrow> http_answer result" where
  "answer j = Ok \<lparr>ha_Code = 200, ha_Text = [], ha_Value = Ok j, ha_First = Ok j\<rparr>"

lemma decode_unknown:
  "list_all (\<lambda>kv. find_field fs (fst kv) = None) kvs \<Longrightarrow> decode_members fs r kvs = Ok r"
  by (induction kvs) auto

lemma Get_plain:
  assumes "list_all (\<lambda>kv. find_field envelope_fields (fst kv) = None) kvs"
  shows "Get p (answer (JObject kvs)) = Ok (JObject kvs)"
  using assms by (simp add: Get_def answer_def doGet_def decode_struct_def decode_unknown unwrap_def)

lemma envelope_found:
  "find_field envelope_fields ''jsonrpc'' = Some (field dec_string en_JSONRPC (\<lambda>v. en_JSONRPC_update (\<lambda>_. v)))"
  "find_field envelope_fields ''result'' = Some (\<lambda>r j. Ok (r\<lparr>en_Result := Some j\<rparr>))"
  "find_field envelope_fields ''id'' = None"
  by (simp_all add: find_field_def envelope_fields_def)

lemma Get_wrapped:
  "Get p (answer (JObject [(''jsonrpc'', JString ''2.0''), (''id'', i), (''result'', j)])) = Ok j"
  by (simp add: Get_def answer_def doGet_def decode_struct_def envelope_found field_def unwrap_def)

text \<open>
  The height of the node does not depend on which of the two forms it answers in, and it is read from one of the two
  sources or not at all: no failure is taken for height zero.
\<close>

theorem status_form_irrelevant:
  assumes "list_all (\<lambda>kv. find_field envelope_fields (fst kv) = None) kvs"
  shows "rpc_Status (answer (JObject [(''jsonrpc'', JString ''2.0''), (''id'', i), (''result'', JObject kvs)])) =
    rpc_Status (answer (JObject kvs))"
  by (simp add: rpc_Status_def Get_wrapped Get_plain[OF assms])

theorem committed_height_sound:
  assumes "CommittedHeight comet evm = Inr h"
  shows "- (2 ^ 63) \<le> h \<and> h < 2 ^ 63 \<and>
    ((\<exists>raw r. Get ''/status'' comet = Inr raw \<and>
        decode_struct ''rpc.StatusResult'' StatusResult_fields zero_status raw = Inr r \<and>
        Atoi (sy_LatestBlockHeight (sr_SyncInfo r)) = Some h) \<or>
     ((\<exists>e. LatestHeight comet = Inl e) \<and>
      (\<exists>a body env. doGet evm = Inr a \<and> ha_First a = Inr body \<and>
        decode_struct ''struct'' evm_fields \<lparr>ev_Result = [], ev_Error = None\<rparr> body = Inr env \<and>
        ParseHex (TrimHexPrefix (ev_Result env)) = Some h)))"
proof -
  have dec: "Atoi s = Some h \<Longrightarrow> - (2 ^ 63) \<le> h \<and> h < 2 ^ 63" for s
    by (auto simp: Atoi_def int64_of_def Let_def split: prod.splits if_splits)
  have hex: "ParseHex s = Some h \<Longrightarrow> - (2 ^ 63) \<le> h \<and> h < 2 ^ 63" for s
    by (auto simp: ParseHex_def Let_def split: prod.splits if_splits option.splits)
  show ?thesis
  proof (cases "LatestHeight comet")
    case (Inl e)
    then have "evmBlockNumber evm = Inr h" using assms by (auto simp: CommittedHeight_def split: sum.splits)
    then obtain a body env where "doGet evm = Inr a" "ha_First a = Inr body"
      "decode_struct ''struct'' evm_fields \<lparr>ev_Result = [], ev_Error = None\<rparr> body = Inr env"
      "ParseHex (TrimHexPrefix (ev_Result env)) = Some h"
      by (auto simp: evmBlockNumber_def block_number_def split: sum.splits option.splits if_splits)
    then show ?thesis using Inl hex by blast
  next
    case (Inr h')
    then have "LatestHeight comet = Inr h" using assms by (simp add: CommittedHeight_def)
    then obtain raw r where "Get ''/status'' comet = Inr raw"
      "decode_struct ''rpc.StatusResult'' StatusResult_fields zero_status raw = Inr r"
      "Atoi (sy_LatestBlockHeight (sr_SyncInfo r)) = Some h"
      by (auto simp: LatestHeight_def rpc_Status_def node_status_def split: sum.splits option.splits)
    then show ?thesis using dec by blast
  qed
qed

end
