(* ===== verification/SeidProcess.thy ===== *)
theory SeidProcess
  imports TaskExec ResetData LocalRpc
begin

text \<open>
  Stopping, restarting and awaiting \<open>seid\<close> (\<open>sidecar/actions/process.go\<close>, \<open>sidecar/tasks/stop_seid.go\<close>,
  \<open>restart_seid.go\<close>, \<open>await_condition.go\<close>, \<open>await_seid_start.go\<close>).  The pod around the sidecar is the record
  \<open>pod_world\<close>, whose answers may depend on everything done before.  A loop around a \<open>select\<close> takes its wake-ups from a
  list: the context ends, the deadline passes or the ticker fires; Go's choice between channels that are ready
  together is any of them.  When the list is used up the loop still waits.
\<close>

subsection \<open>The pod\<close>

datatype signal = SIGTERM | SIGKILL

datatype pod_event =
    ScannedProc
  | Sent int signal
  | LookedAlive int
  | Dialed string
  | Fetched string

text \<open>\<open>os.ErrProcessDone\<close> and \<open>ESRCH\<close>, wrapped or not, against every other error.\<close>

datatype proc_error = Gone error | Other error

fun proc_text :: "proc_error \<Rightarrow> error" where
  "proc_text (Gone e) = e"
| "proc_text (Other e) = e"

fun isProcessGone :: "proc_error \<Rightarrow> bool" where
  "isProcessGone (Gone _) = True"
| "isProcessGone (Other _) = False"

fun wrap_proc :: "string \<Rightarrow> proc_error \<Rightarrow> proc_error" where
  "wrap_proc pre (Gone e) = Gone (pre @ e)"
| "wrap_proc pre (Other e) = Other (pre @ e)"

record pod_world =
  pw_Procs :: "pod_event list \<Rightarrow> proc_error + proc_entry list"
  pw_Signal :: "pod_event list \<Rightarrow> int \<Rightarrow> signal \<Rightarrow> proc_error option"
  pw_Alive :: "pod_event list \<Rightarrow> int \<Rightarrow> bool"
  pw_Dial :: "pod_event list \<Rightarrow> string \<Rightarrow> bool"
  pw_Fetch :: "pod_event list \<Rightarrow> string \<Rightarrow> http_answer result"

datatype wake = ContextDone | DeadlinePassed | Ticked

text \<open>A run so far: the events, newest first, and the wake-ups left; how it ended if it did.\<close>

type_synonym pod = "pod_event list \<times> wake list"

datatype pod_run = Waiting | Returned "error option"

definition context_canceled :: error where "context_canceled = ''context canceled''"

subsection \<open>Finding the process\<close>

definition NUL :: char where "NUL = CHR 0x00"

definition firstArg :: "string \<Rightarrow> string" where
  "firstArg cmdline = takeWhile (\<lambda>c. c \<noteq> NUL) cmdline"

definition named_exe :: "string \<Rightarrow> string \<Rightarrow> bool" where
  "named_exe name exe \<longleftrightarrow> exe = name \<or> suffix (''/'' @ name) exe"

definition argv0_match :: "string \<Rightarrow> proc_entry \<Rightarrow> int option" where
  "argv0_match name p =
     (if \<not> pe_Dir p then None
      else case Atoi (pe_Name p) of
        None \<Rightarrow> None
      | Some pid \<Rightarrow> (case pe_Cmdline p of
          Inl _ \<Rightarrow> None
        | Inr c \<Rightarrow> if c \<noteq> [] \<and> named_exe name (firstArg c) then Some pid else None))"

definition not_found :: "string \<Rightarrow> proc_error" where
  "not_found name = Other (''process '' @ quoted name @ '' not found in /proc'')"

definition first_match :: "string \<Rightarrow> (proc_entry \<Rightarrow> int option) \<Rightarrow> proc_error + proc_entry list \<Rightarrow> proc_error + int" where
  "first_match name match procs =
     (case procs of
        Inl e \<Rightarrow> Inl (wrap_proc ''reading /proc: '' e)
      | Inr ps \<Rightarrow> (case List.map_filter match ps of [] \<Rightarrow> Inl (not_found name) | pid # _ \<Rightarrow> Inr pid))"

definition FindPID :: "string \<Rightarrow> proc_error + proc_entry list \<Rightarrow> proc_error + int" where
  "FindPID name = first_match name (argv0_match name)"

definition restartSeidProcess :: string where "restartSeidProcess = ''seid''"

text \<open>\<open>strings.Split(strings.TrimRight(cmdline, "\x00"), "\x00")\<close>.\<close>

definition cmdline_args :: "string \<Rightarrow> string list" where
  "cmdline_args c = split_on NUL (rev (dropWhile (\<lambda>x. x = NUL) (rev c)))"

definition isSeidStart :: "string \<Rightarrow> bool" where
  "isSeidStart c =
     (case cmdline_args c of exe # sub # _ \<Rightarrow> named_exe restartSeidProcess exe \<and> sub = ''start'' | _ \<Rightarrow> False)"

definition seid_start_match :: "proc_entry \<Rightarrow> int option" where
  "seid_start_match p =
     (if \<not> pe_Dir p then None
      else case Atoi (pe_Name p) of
        None \<Rightarrow> None
      | Some pid \<Rightarrow> (case pe_Comm p of
          Inl _ \<Rightarrow> None
        | Inr comm \<Rightarrow> if TrimSpace comm \<noteq> restartSeidProcess then None
            else case pe_Cmdline p of Inl _ \<Rightarrow> None | Inr c \<Rightarrow> if isSeidStart c then Some pid else None))"

definition seidStart_FindPID :: "proc_error + proc_entry list \<Rightarrow> proc_error + int" where
  "seidStart_FindPID = first_match restartSeidProcess seid_start_match"

subsection \<open>Is it up?\<close>

definition DefaultEndpoint :: "ext \<Rightarrow> string" where
  "DefaultEndpoint E = ''http://localhost:'' @ itoa (PortRPC E)"

definition read_status :: "ext \<Rightarrow> pod_world \<Rightarrow> pod_event list \<Rightarrow> pod_event list \<times> NodeStatus result" where
  "read_status E W tr =
     (let url = DefaultEndpoint E @ ''/status'' in (Fetched url # tr, rpc_Status (pw_Fetch W tr url)))"

definition seidRPCUp :: "ext \<Rightarrow> pod_world \<Rightarrow> pod_event list \<Rightarrow> pod_event list \<times> bool" where
  "seidRPCUp E W tr = (case read_status E W tr of (tr1, r) \<Rightarrow> (tr1, case r of Inl _ \<Rightarrow> False | Inr _ \<Rightarrow> True))"

definition upCheckProbe :: "pod_world \<Rightarrow> UpCheck \<Rightarrow> pod_event list \<Rightarrow> pod_event list \<times> bool" where
  "upCheckProbe W u tr =
     (let addr = ''127.0.0.1:'' @ itoa (uc_Port u)
      in case uc_Scheme u of
           UpCheckTCP \<Rightarrow> (Dialed addr # tr, pw_Dial W tr addr)
         | UpCheckHTTP \<Rightarrow>
             (let url = ''http://'' @ addr @ uc_Path u
              in (Fetched url # tr,
                  case pw_Fetch W tr url of Inl _ \<Rightarrow> False | Inr a \<Rightarrow> 200 \<le> ha_Code a \<and> ha_Code a < 300)))"

text \<open>The up-check of a request, or the local status call when it names none.\<close>

definition probe :: "ext \<Rightarrow> pod_world \<Rightarrow> UpCheck option \<Rightarrow> pod_event list \<Rightarrow> pod_event list \<times> bool" where
  "probe E W check tr = (case check of None \<Rightarrow> seidRPCUp E W tr | Some u \<Rightarrow> upCheckProbe W u tr)"

subsection \<open>Waiting for the process to exit\<close>

text \<open>What happens at the deadline is an argument: the two loops of the code differ in nothing else.\<close>

fun wait_exit :: "pod_world \<Rightarrow> int \<Rightarrow> (pod_event list \<Rightarrow> pod_event list \<times> error option) \<Rightarrow> pod_event list \<Rightarrow> wake list \<Rightarrow> pod \<times> pod_run" where
  "wait_exit W pid late tr [] = ((tr, []), Waiting)"
| "wait_exit W pid late tr (ContextDone # ws) = ((tr, ws), Returned (Some context_canceled))"
| "wait_exit W pid late tr (DeadlinePassed # ws) = (case late tr of (tr1, e) \<Rightarrow> ((tr1, ws), Returned e))"
| "wait_exit W pid late tr (Ticked # ws) =
     (if pw_Alive W tr pid then wait_exit W pid late (LookedAlive pid # tr) ws
      else ((LookedAlive pid # tr, ws), Returned None))"

subsection \<open>stop-seid and restart-seid\<close>

definition restartSeidGracePeriod :: string where "restartSeidGracePeriod = ''1m30s''"
definition restartSeidUpTimeout :: string where "restartSeidUpTimeout = ''5m0s''"

definition leave_running :: "int \<Rightarrow> pod_event list \<Rightarrow> pod_event list \<times> error option" where
  "leave_running pid tr =
     (tr, Some (''seid pid '' @ itoa pid @ '' still alive '' @ restartSeidGracePeriod @
        '' after SIGTERM; leaving it running (not force-killing a validator mid-commit)''))"

definition gracefulStop :: "pod_world \<Rightarrow> int \<Rightarrow> pod_event list \<Rightarrow> wake list \<Rightarrow> pod \<times> pod_run" where
  "gracefulStop W pid tr ws =
     (case pw_Signal W tr pid SIGTERM of
        Some e \<Rightarrow> ((Sent pid SIGTERM # tr, ws), Returned (Some (''sending SIGTERM to seid pid '' @ itoa pid @ '': '' @ proc_text e)))
      | None \<Rightarrow> wait_exit W pid (leave_running pid) (Sent pid SIGTERM # tr) ws)"

definition stop_seid :: "ext \<Rightarrow> pod_world \<Rightarrow> string \<Rightarrow> UpCheck option \<Rightarrow> pod_event list \<Rightarrow> wake list \<Rightarrow> pod \<times> pod_run" where
  "stop_seid E W op check tr ws =
     (case seidStart_FindPID (pw_Procs W tr) of
        Inl e \<Rightarrow>
          (case probe E W check (ScannedProc # tr) of
             (tr1, True) \<Rightarrow> ((tr1, ws), Returned (Some (''seid RPC is serving but its process was not found in /proc: '' @ proc_text e @
                 '' '' @ em_dash @ '' refusing to report a '' @ op @ '' that did not happen'')))
           | (tr1, False) \<Rightarrow> ((tr1, ws), Returned None))
      | Inr pid \<Rightarrow> gracefulStop W pid (ScannedProc # tr) ws)"

definition StopSeider :: "ext \<Rightarrow> pod_world \<Rightarrow> UpCheck option \<Rightarrow> pod_event list \<Rightarrow> wake list \<Rightarrow> pod \<times> pod_run" where
  "StopSeider E W check tr ws =
     (case (case check of None \<Rightarrow> None | Some u \<Rightarrow> UpCheck_Validate u) of
        Some e \<Rightarrow> ((tr, ws), Returned (Some (''stop-seid: '' @ e)))
      | None \<Rightarrow> stop_seid E W ''stop'' check tr ws)"

text \<open>The clock is read when the ticker fires, so here the deadline passes at a tick.\<close>

fun waitForUp :: "ext \<Rightarrow> pod_world \<Rightarrow> UpCheck option \<Rightarrow> pod_event list \<Rightarrow> wake list \<Rightarrow> pod \<times> pod_run" where
  "waitForUp E W check tr [] =
     (case probe E W check tr of (tr1, up) \<Rightarrow> ((tr1, []), if up then Returned None else Waiting))"
| "waitForUp E W check tr (w # ws) =
     (case probe E W check tr of (tr1, up) \<Rightarrow>
        if up then ((tr1, w # ws), Returned None)
        else case w of
          ContextDone \<Rightarrow> ((tr1, ws), Returned (Some context_canceled))
        | DeadlinePassed \<Rightarrow> ((tr1, ws), Returned (Some (''seid did not come up within '' @ restartSeidUpTimeout @ '' after restart'')))
        | Ticked \<Rightarrow> waitForUp E W check tr1 ws)"

definition RestartSeider :: "ext \<Rightarrow> pod_world \<Rightarrow> UpCheck option \<Rightarrow> pod_event list \<Rightarrow> wake list \<Rightarrow> pod \<times> pod_run" where
  "RestartSeider E W check tr ws =
     (case (case check of None \<Rightarrow> None | Some u \<Rightarrow> UpCheck_Validate u) of
        Some e \<Rightarrow> ((tr, ws), Returned (Some (''restart-seid: '' @ e)))
      | None \<Rightarrow>
          (case stop_seid E W ''restart'' check tr ws of
             ((tr1, ws1), Returned None) \<Rightarrow> waitForUp E W check tr1 ws1
           | r \<Rightarrow> r))"

subsection \<open>await-seid-start\<close>

fun SeidStartAwaiter :: "pod_world \<Rightarrow> pod_event list \<Rightarrow> wake list \<Rightarrow> pod \<times> pod_run" where
  "SeidStartAwaiter W tr [] =
     ((ScannedProc # tr, []), case seidStart_FindPID (pw_Procs W tr) of Inr _ \<Rightarrow> Returned None | Inl _ \<Rightarrow> Waiting)"
| "SeidStartAwaiter W tr (w # ws) =
     (case seidStart_FindPID (pw_Procs W tr) of
        Inr _ \<Rightarrow> ((ScannedProc # tr, w # ws), Returned None)
      | Inl _ \<Rightarrow>
          (case w of
             ContextDone \<Rightarrow> ((ScannedProc # tr, ws),
               Returned (Some (''await-seid-start: seid start not running after 2m0s: '' @ context_canceled)))
           | DeadlinePassed \<Rightarrow> ((ScannedProc # tr, ws),
               Returned (Some ''await-seid-start: seid start not running after 2m0s: context deadline exceeded''))
           | Ticked \<Rightarrow> SeidStartAwaiter W (ScannedProc # tr) ws))"

subsection \<open>await-condition\<close>

definition kill_late :: "pod_world \<Rightarrow> int \<Rightarrow> pod_event list \<Rightarrow> pod_event list \<times> error option" where
  "kill_late W pid tr =
     (Sent pid SIGKILL # tr,
      case pw_Signal W tr pid SIGKILL of
        None \<Rightarrow> None
      | Some e \<Rightarrow> if isProcessGone e then None else Some (''sending SIGKILL to pid '' @ itoa pid @ '': '' @ proc_text e))"

definition GracefulStop :: "pod_world \<Rightarrow> string \<Rightarrow> pod_event list \<Rightarrow> wake list \<Rightarrow> pod \<times> pod_run" where
  "GracefulStop W name tr ws =
     (case FindPID name (pw_Procs W tr) of
        Inl e \<Rightarrow> ((ScannedProc # tr, ws),
                 Returned (if isProcessGone e then None else Some (''finding '' @ name @ '' process: '' @ proc_text e)))
      | Inr pid \<Rightarrow>
          (case pw_Signal W (ScannedProc # tr) pid SIGTERM of
             Some e \<Rightarrow> ((Sent pid SIGTERM # ScannedProc # tr, ws),
               Returned (if isProcessGone e then None else Some (''sending SIGTERM to pid '' @ itoa pid @ '': '' @ proc_text e)))
           | None \<Rightarrow> wait_exit W pid (kill_late W pid) (Sent pid SIGTERM # ScannedProc # tr) ws))"

record AwaitConditionRequest =
  ac_Condition :: string
  ac_Action :: string
  ac_TargetHeight :: int

text \<open>The two loops of the code: each tick reads the status, an error is waited out.\<close>

fun await_status :: "ext \<Rightarrow> pod_world \<Rightarrow> (NodeStatus \<Rightarrow> bool) \<Rightarrow> pod_event list \<Rightarrow> wake list \<Rightarrow> pod \<times> pod_run" where
  "await_status E W met tr [] = ((tr, []), Waiting)"
| "await_status E W met tr (ContextDone # ws) = ((tr, ws), Returned (Some context_canceled))"
| "await_status E W met tr (_ # ws) =
     (case read_status E W tr of
        (tr1, Inl _) \<Rightarrow> await_status E W met tr1 ws
      | (tr1, Inr s) \<Rightarrow> if met s then ((tr1, ws), Returned None) else await_status E W met tr1 ws)"

definition awaitHeight :: "ext \<Rightarrow> pod_world \<Rightarrow> int \<Rightarrow> pod_event list \<Rightarrow> wake list \<Rightarrow> pod \<times> pod_run" where
  "awaitHeight E W target = await_status E W (\<lambda>s. st_LatestBlockHeight s \<ge> target)"

definition awaitCaughtUp :: "ext \<Rightarrow> pod_world \<Rightarrow> pod_event list \<Rightarrow> wake list \<Rightarrow> pod \<times> pod_run" where
  "awaitCaughtUp E W = await_status E W (\<lambda>s. \<not> st_CatchingUp s \<and> st_LatestBlockHeight s > 1)"

definition executeAction :: "pod_world \<Rightarrow> string \<Rightarrow> pod_event list \<Rightarrow> wake list \<Rightarrow> pod \<times> pod_run" where
  "executeAction W a tr ws =
     (if a = ''SIGTERM_SEID'' then GracefulStop W ''seid'' tr ws
      else ((tr, ws), Returned (Some (''unknown action '' @ quoted a))))"

definition await_named :: "ext \<Rightarrow> pod_world \<Rightarrow> AwaitConditionRequest \<Rightarrow> pod_event list \<Rightarrow> wake list \<Rightarrow> pod \<times> pod_run" where
  "await_named E W q tr ws =
     (if ac_Condition q = ''height'' then
        (if ac_TargetHeight q \<le> 0 then ((tr, ws), Returned (Some (''targetHeight must be > 0, got '' @ itoa (ac_TargetHeight q))))
         else awaitHeight E W (ac_TargetHeight q) tr ws)
      else if ac_Condition q = ''catchingUp'' then awaitCaughtUp E W tr ws
      else ((tr, ws), Returned (Some (''unknown condition '' @ quoted (ac_Condition q)))))"

definition ConditionWaiter :: "ext \<Rightarrow> pod_world \<Rightarrow> AwaitConditionRequest \<Rightarrow> pod_event list \<Rightarrow> wake list \<Rightarrow> pod \<times> pod_run" where
  "ConditionWaiter E W q tr ws =
     (if ac_Condition q = [] then ((tr, ws), Returned (Some ''condition is required''))
      else case await_named E W q tr ws of
        ((tr1, ws1), Returned None) \<Rightarrow>
          if ac_Action q = [] then ((tr1, ws1), Returned None) else executeAction W (ac_Action q) tr1 ws1
      | r \<Rightarrow> r)"

end
