(* ===== verification/SeidProps.thy ===== *)
theory SeidProps
  imports SeidProcess ExecFixtures
begin

text \<open>
  What the process tasks do to \<open>seid\<close>: a stop or restart sends one SIGTERM to a scanned \<open>seid start\<close> and nothing
  harsher, reports success only on evidence, and returns at its deadline; await-condition acts only on a status it read.
\<close>

subsection \<open>The wait for an exit\<close>

lemma wait_exit_cases:
  assumes "wait_exit W pid late tr ws = ((tr', ws'), r)"
  shows "\<exists>n. (r = Waiting \<and> tr' = replicate n (LookedAlive pid) @ tr \<and> set ws \<subseteq> {Ticked})
    \<or> (r = Returned (Some context_canceled) \<and> tr' = replicate n (LookedAlive pid) @ tr)
    \<or> (\<exists>e. late (replicate n (LookedAlive pid) @ tr) = (tr', e) \<and> r = Returned e \<and> DeadlinePassed \<in> set ws)
    \<or> (r = Returned None \<and> tr' = LookedAlive pid # replicate n (LookedAlive pid) @ tr \<and>
       \<not> pw_Alive W (replicate n (LookedAlive pid) @ tr) pid \<and> set ws \<subseteq> {Ticked} \<union> set ws')"
  using assms
proof (induction W pid late tr ws rule: wait_exit.induct)
  case (1 W pid late tr)
  then show ?case by (intro exI[of _ 0]) simp
next
  case (2 W pid late tr ws)
  then show ?case by (intro exI[of _ 0]) simp
next
  case (3 W pid late tr ws)
  then show ?case by (intro exI[of _ 0]) (auto split: prod.splits)
next
  case (4 W pid late tr ws)
  show ?case
  proof (cases "pw_Alive W tr pid")
    case True
    then obtain n where n: "(r = Waiting \<and> tr' = replicate n (LookedAlive pid) @ LookedAlive pid # tr \<and> set ws \<subseteq> {Ticked})
    \<or> (r = Returned (Some context_canceled) \<and> tr' = replicate n (LookedAlive pid) @ LookedAlive pid # tr)
    \<or> (\<exists>e. late (replicate n (LookedAlive pid) @ LookedAlive pid # tr) = (tr', e) \<and> r = Returned e \<and> DeadlinePassed \<in> set ws)
    \<or> (r = Returned None \<and> tr' = LookedAlive pid # replicate n (LookedAlive pid) @ LookedAlive pid # tr \<and>
       \<not> pw_Alive W (replicate n (LookedAlive pid) @ LookedAlive pid # tr) pid \<and> set ws \<subseteq> {Ticked} \<union> set ws')"
      using 4 by auto
    have "replicate n (LookedAlive pid) @ LookedAlive pid # tr = replicate (Suc n) (LookedAlive pid) @ tr"
      by (simp add: replicate_app_Cons_same)
    with n show ?thesis by (intro exI[of _ "Suc n"]) auto
  next
    case False
    with 4 show ?thesis by (intro exI[of _ 0]) auto
  qed
qed

subsection \<open>Stopping\<close>

fun is_sent :: "pod_event \<Rightarrow> bool" where
  "is_sent (Sent _ _) = True"
| "is_sent _ = False"

text \<open>A stop on evidence: the process was seen gone after its SIGTERM, or none was found and the up-check is down.\<close>

definition stopped :: "ext \<Rightarrow> pod_world \<Rightarrow> UpCheck option \<Rightarrow> pod_event list \<Rightarrow> pod_event list \<Rightarrow> bool" where
  "stopped E W check tr tr' \<longleftrightarrow>
     (\<exists>p pre post. tr' = post @ LookedAlive p # pre \<and> Sent p SIGTERM \<in> set pre \<and> \<not> pw_Alive W pre p) \<or>
     ((\<exists>e. seidStart_FindPID (pw_Procs W tr) = Inl e) \<and> \<not> snd (probe E W check (ScannedProc # tr)))"

definition gentle :: "pod_world \<Rightarrow> pod_event list \<Rightarrow> pod_event list \<Rightarrow> bool" where
  "gentle W tr evs \<longleftrightarrow>
     length (filter is_sent evs) \<le> 1 \<and>
     (\<forall>p s. Sent p s \<in> set evs \<longrightarrow>
        s = SIGTERM \<and> (\<exists>ps x. pw_Procs W tr = Inr ps \<and> x \<in> set ps \<and> seid_start_match x = Some p))"

lemma find_seid:
  assumes "seidStart_FindPID procs = Inr p"
  shows "\<exists>ps x. procs = Inr ps \<and> x \<in> set ps \<and> seid_start_match x = Some p"
proof -
  obtain ps where ps: "procs = Inr ps" using assms by (auto simp: seidStart_FindPID_def first_match_def split: sum.splits)
  then have "p \<in> set (List.map_filter seid_start_match ps)"
    using assms by (auto simp: seidStart_FindPID_def first_match_def split: list.splits)
  then show ?thesis using ps by (force simp: List.map_filter_def)
qed

lemma probe_event: "\<exists>ev. fst (probe E W check tr) = ev # tr \<and> \<not> is_sent ev"
  by (auto simp: probe_def seidRPCUp_def read_status_def upCheckProbe_def Let_def
      split: option.splits UpCheckScheme.splits)

lemma quiet_events: "filter is_sent (replicate n (LookedAlive p)) = []"
  by (induction n) auto

lemma gracefulStop_gentle:
  assumes "gracefulStop W pid tr ws = ((tr', ws'), r)"
  shows "\<exists>evs. tr' = evs @ Sent pid SIGTERM # tr \<and> filter is_sent evs = [] \<and>
    (r = Returned None \<longrightarrow>
      (\<exists>pre post. tr' = post @ LookedAlive pid # pre \<and> Sent pid SIGTERM \<in> set pre \<and> \<not> pw_Alive W pre pid) \<and>
      set ws \<subseteq> {Ticked} \<union> set ws') \<and>
    (r = Waiting \<longrightarrow> set ws \<subseteq> {Ticked})"
proof (cases "pw_Signal W tr pid SIGTERM")
  case (Some e)
  then show ?thesis using assms by (auto simp: gracefulStop_def)
next
  case None
  let ?t = "Sent pid SIGTERM # tr"
  have "wait_exit W pid (leave_running pid) ?t ws = ((tr', ws'), r)" using assms None by (simp add: gracefulStop_def)
  from wait_exit_cases[OF this] obtain n where "(r = Waiting \<and> tr' = replicate n (LookedAlive pid) @ ?t \<and> set ws \<subseteq> {Ticked})
    \<or> (r = Returned (Some context_canceled) \<and> tr' = replicate n (LookedAlive pid) @ ?t)
    \<or> (\<exists>e. leave_running pid (replicate n (LookedAlive pid) @ ?t) = (tr', e) \<and> r = Returned e)
    \<or> (r = Returned None \<and> tr' = LookedAlive pid # replicate n (LookedAlive pid) @ ?t \<and>
       \<not> pw_Alive W (replicate n (LookedAlive pid) @ ?t) pid \<and> set ws \<subseteq> {Ticked} \<union> set ws')" by blast
  then show ?thesis
  proof (elim disjE)
    assume gone: "r = Returned None \<and> tr' = LookedAlive pid # replicate n (LookedAlive pid) @ ?t \<and>
       \<not> pw_Alive W (replicate n (LookedAlive pid) @ ?t) pid \<and> set ws \<subseteq> {Ticked} \<union> set ws'"
    then have "\<exists>pre post. tr' = post @ LookedAlive pid # pre \<and> Sent pid SIGTERM \<in> set pre \<and> \<not> pw_Alive W pre pid"
      by (intro exI[of _ "replicate n (LookedAlive pid) @ ?t"] exI[of _ "[]"]) auto
    then show ?thesis using gone by (intro exI[of _ "LookedAlive pid # replicate n (LookedAlive pid)"]) (auto simp: quiet_events)
  qed (auto simp: leave_running_def quiet_events intro!: exI[of _ "replicate n (LookedAlive pid)"])
qed

lemma stop_gentle:
  assumes "stop_seid E W op check tr ws = ((tr', ws'), r)"
  shows "\<exists>evs. tr' = evs @ tr \<and> gentle W tr evs \<and>
    (r = Returned None \<longrightarrow> stopped E W check tr tr' \<and> set ws \<subseteq> {Ticked} \<union> set ws') \<and> (r = Waiting \<longrightarrow> set ws \<subseteq> {Ticked})"
proof (cases "seidStart_FindPID (pw_Procs W tr)")
  case (Inl e)
  obtain tr1 up where p: "probe E W check (ScannedProc # tr) = (tr1, up)" by (metis surj_pair)
  obtain ev where ev: "tr1 = ev # ScannedProc # tr" "\<not> is_sent ev"
    using probe_event[of E W check "ScannedProc # tr"] p by auto
  have "gentle W tr [ev, ScannedProc]" using ev(2) by (auto simp: gentle_def)
  then show ?thesis using assms Inl p ev(1)
    by (cases up) (auto simp: stop_seid_def stopped_def intro!: exI[of _ "[ev, ScannedProc]"])
next
  case (Inr pid)
  then have "gracefulStop W pid (ScannedProc # tr) ws = ((tr', ws'), r)" using assms by (simp add: stop_seid_def)
  from gracefulStop_gentle[OF this] obtain evs where evs: "tr' = evs @ Sent pid SIGTERM # ScannedProc # tr" "filter is_sent evs = []"
    "r = Returned None \<longrightarrow>
      (\<exists>pre post. tr' = post @ LookedAlive pid # pre \<and> Sent pid SIGTERM \<in> set pre \<and> \<not> pw_Alive W pre pid) \<and>
      set ws \<subseteq> {Ticked} \<union> set ws'"
    "r = Waiting \<longrightarrow> set ws \<subseteq> {Ticked}" by blast
  have "Sent p s \<notin> set evs" for p s using evs(2) by (metis filter_empty_conv is_sent.simps(1))
  then have "gentle W tr (evs @ [Sent pid SIGTERM, ScannedProc])"
    using find_seid[OF Inr] evs(2) by (auto simp: gentle_def)
  moreover have "stopped E W check tr tr'" if "r = Returned None" using evs(3) that unfolding stopped_def by blast
  ultimately show ?thesis using evs by (intro exI[of _ "evs @ [Sent pid SIGTERM, ScannedProc]"]) auto
qed

lemma gentle_more: "gentle W tr evs \<Longrightarrow> filter is_sent post = [] \<Longrightarrow> gentle W tr (post @ evs)"
  by (auto simp: gentle_def filter_empty_conv)

lemma stopped_more: "stopped E W check tr tr' \<Longrightarrow> stopped E W check tr (post @ tr')"
  unfolding stopped_def by (metis append.assoc)

lemma waitForUp_cases:
  assumes "waitForUp E W check tr ws = ((tr', ws'), r)"
  shows "\<exists>evs. tr' = evs @ tr \<and> filter is_sent evs = [] \<and>
    (r = Returned None \<longrightarrow> (\<exists>pre. probe E W check pre = (tr', True))) \<and> (r = Waiting \<longrightarrow> set ws \<subseteq> {Ticked})"
  using assms
proof (induction ws arbitrary: tr)
  case Nil
  then show ?case using probe_event[of E W check tr] by (auto split: prod.splits if_splits)
next
  case (Cons w ws)
  obtain tr1 up where p: "probe E W check tr = (tr1, up)" by (metis surj_pair)
  obtain ev where ev: "tr1 = ev # tr" "\<not> is_sent ev" using probe_event[of E W check tr] p by auto
  consider "up" | "\<not> up" "w \<noteq> Ticked" | "\<not> up" "w = Ticked" by blast
  then show ?case
  proof cases
    case 1
    then have "tr' = [ev] @ tr" "r = Returned None" "probe E W check tr = (tr', True)" using Cons.prems p ev(1) by auto
    then show ?thesis using ev(2) by (intro exI[of _ "[ev]"]) auto
  next
    case 2
    then have "tr' = [ev] @ tr \<and> r \<noteq> Returned None \<and> r \<noteq> Waiting" using Cons.prems p ev(1) by (cases w) auto
    then show ?thesis using ev(2) by (intro exI[of _ "[ev]"]) auto
  next
    case 3
    then have "waitForUp E W check tr1 ws = ((tr', ws'), r)" using Cons.prems p by simp
    from Cons.IH[OF this] obtain evs where "tr' = evs @ tr1" "filter is_sent evs = []"
      "r = Returned None \<longrightarrow> (\<exists>pre. probe E W check pre = (tr', True))" "r = Waiting \<longrightarrow> set ws \<subseteq> {Ticked}" by blast
    then show ?thesis using 3 ev by (intro exI[of _ "evs @ [ev]"]) auto
  qed
qed

definition demo_pod :: pod_world where
  "demo_pod =
     \<lparr>pw_Procs = (\<lambda>tr. Inr [\<lparr>pe_Name = ''self'', pe_Dir = True, pe_Comm = Inr [], pe_Cmdline = Inr []\<rparr>,
        \<lparr>pe_Name = ''7'', pe_Dir = True, pe_Comm = Inr (''seid'' @ [CHR 0x0A]),
         pe_Cmdline = Inr (''/usr/bin/seid'' @ [NUL] @ ''start'' @ [NUL])\<rparr>]),
      pw_Signal = (\<lambda>tr p s. None),
      pw_Alive = (\<lambda>tr p. LookedAlive p \<notin> set tr),
      pw_Dial = (\<lambda>tr a. True),
      pw_Fetch = (\<lambda>tr u. Err ''connection refused'')\<rparr>"

text \<open>
  C29. Stopping and restarting \<open>seid\<close> is graceful and honest, whatever the pod answers: a task sends at most one signal,
  a SIGTERM to a process it scanned as \<open>seid start\<close>, and never a SIGKILL.  It reports success only when that process
  was seen gone or none was found and the up-check is down, a restart only when the up-check then answered.  It still
  waits only while nothing but ticks arrived: it returns when its context ends or its deadline passes.
\<close>

theorem seid_stopped_gracefully:
  assumes "(if restart then RestartSeider else StopSeider) E W check tr ws = ((tr', ws'), r)"
  shows "\<exists>evs. tr' = evs @ tr \<and> gentle W tr evs \<and> (r = Returned None \<longrightarrow> stopped E W check tr tr') \<and>
    (r = Returned None \<and> restart \<longrightarrow> (\<exists>pre. probe E W check pre = (tr', True))) \<and> (r = Waiting \<longrightarrow> set ws \<subseteq> {Ticked})"
proof (cases "case check of None \<Rightarrow> None | Some u \<Rightarrow> UpCheck_Validate u")
  case (Some e)
  then have "tr' = tr \<and> (\<exists>msg. r = Returned (Some msg))"
    using assms by (cases restart) (auto simp: StopSeider_def RestartSeider_def)
  then show ?thesis by (intro exI[of _ "[]"]) (auto simp: gentle_def)
next
  case valid: None
  show ?thesis
  proof (cases restart)
    case False
    then have "stop_seid E W ''stop'' check tr ws = ((tr', ws'), r)" using assms valid by (simp add: StopSeider_def)
    from stop_gentle[OF this] show ?thesis using False by blast
  next
    case True
    then have task: "RestartSeider E W check tr ws = ((tr', ws'), r)" using assms by simp
    obtain tr1 ws1 r1 where s: "stop_seid E W ''restart'' check tr ws = ((tr1, ws1), r1)" by (metis surj_pair)
    obtain evs where evs: "tr1 = evs @ tr" "gentle W tr evs"
      "r1 = Returned None \<longrightarrow> stopped E W check tr tr1 \<and> set ws \<subseteq> {Ticked} \<union> set ws1" "r1 = Waiting \<longrightarrow> set ws \<subseteq> {Ticked}"
      using stop_gentle[OF s] by blast
    show ?thesis
    proof (cases "r1 = Returned None")
      case True
      then have "waitForUp E W check tr1 ws1 = ((tr', ws'), r)" using task valid s by (simp add: RestartSeider_def)
      from waitForUp_cases[OF this] obtain post where "tr' = post @ tr1" "filter is_sent post = []"
        "r = Returned None \<longrightarrow> (\<exists>pre. probe E W check pre = (tr', True))" "r = Waiting \<longrightarrow> set ws1 \<subseteq> {Ticked}" by blast
      then show ?thesis using evs True gentle_more[OF evs(2)] stopped_more
        by (intro exI[of _ "post @ evs"]) auto
    next
      case other: False
      then have "tr' = tr1 \<and> r = r1" using task valid s by (cases r1) (auto simp: RestartSeider_def split: option.splits)
      then show ?thesis using evs other by blast
    qed
  qed
qed

theorem seid_stopped_gracefully_witness:
  "case RestartSeider demo_ext demo_pod (Some \<lparr>uc_Scheme = UpCheckTCP, uc_Port = 26656, uc_Path = []\<rparr>) [] [Ticked, Ticked] of
     ((tr, _), r) \<Rightarrow> r = Returned None \<and> Sent 7 SIGTERM \<in> set tr \<and> Sent 7 SIGKILL \<notin> set tr"
proof -
  let ?check = "Some \<lparr>uc_Scheme = UpCheckTCP, uc_Port = 26656, uc_Path = []\<rparr>"
  let ?run = "RestartSeider demo_ext demo_pod ?check [] [Ticked, Ticked]"
  obtain tr ws r where run: "?run = ((tr, ws), r)" by (metis surj_pair)
  have "snd ?run = Returned None" "Sent 7 SIGTERM \<in> set (fst (fst ?run))" by code_simp+
  moreover have "Sent 7 SIGKILL \<notin> set tr"
    using seid_stopped_gracefully[where restart = True, simplified, OF run] by (auto simp: gentle_def)
  ultimately show ?thesis by (simp add: run)
qed

subsection \<open>Awaiting a condition\<close>

definition condition_met :: "AwaitConditionRequest \<Rightarrow> NodeStatus \<Rightarrow> bool" where
  "condition_met q s \<longleftrightarrow>
     (if ac_Condition q = ''height'' then 0 < ac_TargetHeight q \<and> ac_TargetHeight q \<le> st_LatestBlockHeight s
      else ac_Condition q = ''catchingUp'' \<and> \<not> st_CatchingUp s \<and> 1 < st_LatestBlockHeight s)"

lemma await_status_cases:
  assumes "await_status E W met tr ws = ((tr', ws'), r)"
  shows "(\<exists>n. tr' = replicate n (Fetched (DefaultEndpoint E @ ''/status'')) @ tr) \<and>
    (r = Returned None \<longrightarrow> (\<exists>pre s. read_status E W pre = (tr', Inr s) \<and> met s)) \<and> set ws' \<subseteq> set ws"
  using assms
proof (induction ws arbitrary: tr)
  case Nil
  then show ?case by (auto intro: exI[of _ 0])
next
  case (Cons w ws)
  let ?f = "Fetched (DefaultEndpoint E @ ''/status'')"
  show ?case
  proof (cases "w = ContextDone")
    case True
    then show ?thesis using Cons.prems by (auto intro: exI[of _ 0])
  next
    case False
    obtain a where a: "read_status E W tr = (?f # tr, a)" by (simp add: read_status_def Let_def)
    have step: "await_status E W met tr (w # ws) =
        (case a of Inl _ \<Rightarrow> await_status E W met (?f # tr) ws
         | Inr s \<Rightarrow> if met s then ((?f # tr, ws), Returned None) else await_status E W met (?f # tr) ws)"
      using False a by (cases w) simp_all
    show ?thesis
    proof (cases "\<exists>s. a = Inr s \<and> met s")
      case True
      then obtain s where s: "a = Inr s" "met s" by blast
      then have "tr' = replicate 1 ?f @ tr" "ws' = ws" using Cons.prems step by auto
      moreover have "read_status E W tr = (tr', Inr s)" using a s(1) calculation(1) by simp
      ultimately show ?thesis using s(2) by (metis set_subset_Cons)
    next
      case False
      then have "await_status E W met (?f # tr) ws = ((tr', ws'), r)"
        using Cons.prems step by (auto split: sum.splits)
      from Cons.IH[OF this] show ?thesis by (auto simp: replicate_app_Cons_same intro: exI[of _ "Suc _"])
    qed
  qed
qed

lemma await_named_cases:
  assumes "await_named E W q tr ws = ((tr', ws'), r)"
  shows "(\<exists>evs. tr' = evs @ tr \<and> filter is_sent evs = []) \<and>
    (r = Returned None \<longrightarrow> (\<exists>pre s. read_status E W pre = (tr', Inr s) \<and> condition_met q s)) \<and> set ws' \<subseteq> set ws"
proof -
  have still: "filter is_sent (replicate n (Fetched u)) = []" for n u by (induction n) auto
  have done_now: ?thesis if "await_status E W met tr ws = ((tr', ws'), r)" and "\<And>s. met s \<Longrightarrow> condition_met q s" for met
    using await_status_cases[OF that(1)] that(2) still by blast
  consider "ac_Condition q = ''height''" "0 < ac_TargetHeight q"
    | "ac_Condition q \<noteq> ''height''" "ac_Condition q = ''catchingUp''"
    | "ac_Condition q = ''height'' \<and> \<not> 0 < ac_TargetHeight q \<or> ac_Condition q \<noteq> ''height'' \<and> ac_Condition q \<noteq> ''catchingUp''"
    by blast
  then show ?thesis
  proof cases
    case 1
    then show ?thesis using assms by (intro done_now[of "\<lambda>s. st_LatestBlockHeight s \<ge> ac_TargetHeight q"])
        (auto simp: await_named_def awaitHeight_def condition_met_def)
  next
    case 2
    then show ?thesis using assms by (intro done_now[of "\<lambda>s. \<not> st_CatchingUp s \<and> st_LatestBlockHeight s > 1"])
        (auto simp: await_named_def awaitCaughtUp_def condition_met_def)
  next
    case 3
    then show ?thesis using assms by (auto simp: await_named_def split: if_splits)
  qed
qed

lemma GracefulStop_signals:
  assumes "GracefulStop W name tr ws = ((tr', ws'), r)"
  shows "\<exists>evs. tr' = evs @ tr \<and>
    (\<forall>p. Sent p SIGKILL \<in> set evs \<longrightarrow> Sent p SIGTERM \<in> set evs \<and> DeadlinePassed \<in> set ws)"
proof (cases "FindPID name (pw_Procs W tr)")
  case (Inl e)
  then show ?thesis using assms by (auto simp: GracefulStop_def)
next
  case (Inr pid)
  let ?t = "Sent pid SIGTERM # ScannedProc # tr"
  show ?thesis
  proof (cases "pw_Signal W (ScannedProc # tr) pid SIGTERM")
    case (Some e)
    then show ?thesis using assms Inr by (auto simp: GracefulStop_def)
  next
    case None
    then have "wait_exit W pid (kill_late W pid) ?t ws = ((tr', ws'), r)" using assms Inr by (simp add: GracefulStop_def)
    from wait_exit_cases[OF this] obtain n where "tr' = replicate n (LookedAlive pid) @ ?t
      \<or> DeadlinePassed \<in> set ws \<and> tr' = Sent pid SIGKILL # replicate n (LookedAlive pid) @ ?t
      \<or> tr' = LookedAlive pid # replicate n (LookedAlive pid) @ ?t" by (auto simp: kill_late_def)
    then show ?thesis
    proof (elim disjE)
      assume "tr' = replicate n (LookedAlive pid) @ ?t"
      then show ?thesis by (intro exI[of _ "replicate n (LookedAlive pid) @ [Sent pid SIGTERM, ScannedProc]"]) auto
    next
      assume "DeadlinePassed \<in> set ws \<and> tr' = Sent pid SIGKILL # replicate n (LookedAlive pid) @ ?t"
      then show ?thesis by (intro exI[of _ "Sent pid SIGKILL # replicate n (LookedAlive pid) @ [Sent pid SIGTERM, ScannedProc]"]) auto
    next
      assume "tr' = LookedAlive pid # replicate n (LookedAlive pid) @ ?t"
      then show ?thesis by (intro exI[of _ "LookedAlive pid # replicate n (LookedAlive pid) @ [Sent pid SIGTERM, ScannedProc]"]) auto
    qed
  qed
qed

text \<open>
  await-condition signals nothing, and reports no success, before it has read a status that meets the condition; a
  SIGKILL follows a SIGTERM to the same process and a deadline.
\<close>

theorem await_acts_after_condition:
  assumes "ConditionWaiter E W q tr ws = ((tr', ws'), r)"
  shows "\<exists>acts evs. tr' = acts @ evs @ tr \<and> filter is_sent evs = [] \<and>
    (r = Returned None \<or> acts \<noteq> [] \<longrightarrow> (\<exists>pre s. read_status E W pre = (evs @ tr, Inr s) \<and> condition_met q s)) \<and>
    (\<forall>p. Sent p SIGKILL \<in> set acts \<longrightarrow> Sent p SIGTERM \<in> set acts \<and> DeadlinePassed \<in> set ws)"
proof (cases "ac_Condition q = []")
  case True
  then show ?thesis using assms by (auto simp: ConditionWaiter_def intro!: exI[of _ "[]"])
next
  case False
  obtain tr1 ws1 r1 where a: "await_named E W q tr ws = ((tr1, ws1), r1)" by (metis surj_pair)
  obtain evs where evs: "tr1 = evs @ tr" "filter is_sent evs = []"
    "r1 = Returned None \<longrightarrow> (\<exists>pre s. read_status E W pre = (tr1, Inr s) \<and> condition_met q s)" "set ws1 \<subseteq> set ws"
    using await_named_cases[OF a] by blast
  show ?thesis
  proof (cases "r1 = Returned None \<and> ac_Action q \<noteq> []")
    case True
    then have run: "executeAction W (ac_Action q) tr1 ws1 = ((tr', ws'), r)"
      using assms a False by (simp add: ConditionWaiter_def)
    have "\<exists>acts. tr' = acts @ tr1 \<and>
        (\<forall>p. Sent p SIGKILL \<in> set acts \<longrightarrow> Sent p SIGTERM \<in> set acts \<and> DeadlinePassed \<in> set ws1)"
      using run GracefulStop_signals[of W "''seid''" tr1 ws1] by (auto simp: executeAction_def split: if_splits)
    then show ?thesis using evs True by blast
  next
    case other: False
    then have "tr' = tr1 \<and> r = r1"
      using assms a False by (cases r1) (auto simp: ConditionWaiter_def split: option.splits if_splits)
    then show ?thesis using evs by (intro exI[of _ "[]"] exI[of _ evs]) auto
  qed
qed

text \<open>
  The action fails when \<open>seid\<close> is already gone: a scan that finds no process is no "process gone" error, so the branch
  for an exited process is never taken on it.
\<close>

theorem stopped_seid_fails_action:
  assumes "pw_Procs W tr = Inr ps" and "list_all (\<lambda>p. argv0_match ''seid'' p = None) ps"
  shows "executeAction W ''SIGTERM_SEID'' tr ws = ((ScannedProc # tr, ws),
    Returned (Some (''finding seid process: process '' @ quoted ''seid'' @ '' not found in /proc'')))"
proof -
  have "List.map_filter (argv0_match ''seid'') ps = []"
    using assms(2) by (induction ps) (auto simp: List.map_filter_simps)
  then show ?thesis using assms(1) by (simp add: executeAction_def GracefulStop_def FindPID_def first_match_def not_found_def)
qed

end
