(* ===== verification/HashLogReader.thy ===== *)
theory HashLogReader
  imports SidecarServer GoStrconv
begin

text \<open>
  Tailing a node's hash log over HTTP (\<open>internal/hashlogcompare/reader.go\<close> and the hash-log calls of
  \<open>sidecarapi/client/client.go\<close>).  The sidecar's answers are the record \<open>hl_source\<close>, by the number of the call, so the
  log may grow, be sealed and be pruned between any two calls.
\<close>

subsection \<open>The client\<close>

record hl_source =
  hs_List :: "nat \<Rightarrow> error + nat \<times> HashLogFile list option \<times> string"
  hs_Get :: "nat \<Rightarrow> string \<Rightarrow> string \<Rightarrow> error + nat \<times> string"

datatype hl_error = HashLogNotFound | CoverageGap error | TornRow error | ReadError error

definition listHashLog :: "hl_source \<Rightarrow> nat \<Rightarrow> hl_error + HashLogFile list" where
  "listHashLog S n =
     (case hs_List S n of
        Inl e \<Rightarrow> Inl (ReadError (''listing sidecar hash log: '' @ e))
      | Inr (code, parsed, body) \<Rightarrow>
          if code = 200 then
            (case parsed of None \<Rightarrow> Inl (ReadError ''sidecar hash log list returned 200 but empty body'') | Some fs \<Rightarrow> Inr fs)
          else if code = 404 then Inl HashLogNotFound
          else Inl (ReadError (''sidecar hash log list returned '' @ show_nat code @ '': '' @ TrimSpace body)))"

definition readHashLog :: "hl_source \<Rightarrow> nat \<Rightarrow> string \<Rightarrow> string \<Rightarrow> hl_error + string" where
  "readHashLog S n name rng =
     (case hs_Get S n name rng of
        Inl e \<Rightarrow> Inl (ReadError (''reading sidecar hash log file '' @ name @ '': '' @ e))
      | Inr (code, body) \<Rightarrow>
          if code = 200 \<or> code = 206 then Inr body
          else if code = 416 then Inr []
          else if code = 404 then Inl HashLogNotFound
          else Inl (ReadError (''sidecar hash log file '' @ name @ '' returned '' @ show_nat code @ '': '' @ TrimSpace body)))"

definition ReadHashLogFile :: "hl_source \<Rightarrow> nat \<Rightarrow> string \<Rightarrow> int \<Rightarrow> hl_error + string" where
  "ReadHashLogFile S n name offset =
     (if offset < 0 then Inl (ReadError (''hash log read offset '' @ itoa offset @ '' is negative''))
      else readHashLog S n name (if offset > 0 then ''bytes='' @ itoa offset @ ''-'' else []))"

definition ReadHashLogHead :: "hl_source \<Rightarrow> nat \<Rightarrow> string \<Rightarrow> int \<Rightarrow> hl_error + string" where
  "ReadHashLogHead S n name len =
     (if len \<le> 0 then Inl (ReadError (''hash log head length '' @ itoa len @ '' is not positive''))
      else map_sum (\<lambda>e. e) (take (nat len)) (readHashLog S n name (''bytes=0-'' @ itoa (len - 1))))"

subsection \<open>One line of CSV\<close>

definition NL :: char where "NL = CHR 0x0A"
definition QUOTE :: char where "QUOTE = CHR 0x22"

text \<open>
  \<open>encoding/csv\<close> on a single line without its end: a field that starts with a quote runs to a quote before a comma or
  the end, two quotes stand for one; elsewhere a quote is an error.  An empty line is no record.  What the error says is left out.
\<close>

fun quoted_field :: "string \<Rightarrow> string \<Rightarrow> (string \<times> string option) option" where
  "quoted_field acc [] = None"
| "quoted_field acc (c # cs) =
     (if c \<noteq> QUOTE then quoted_field (acc @ [c]) cs
      else case cs of
        [] \<Rightarrow> Some (acc, None)
      | d # ds \<Rightarrow> if d = QUOTE then quoted_field (acc @ [QUOTE]) ds
          else if d = CHR '','' then Some (acc, Some ds) else None)"

definition plain_field :: "string \<Rightarrow> (string \<times> string option) option" where
  "plain_field s =
     (let f = takeWhile (\<lambda>c. c \<noteq> CHR '','') s
      in if QUOTE \<in> set f then None
         else Some (f, if length f < length s then Some (drop (Suc (length f)) s) else None))"

definition csv_field :: "string \<Rightarrow> (string \<times> string option) option" where
  "csv_field s = (case s of c # cs \<Rightarrow> if c = QUOTE then quoted_field [] cs else plain_field s | [] \<Rightarrow> plain_field s)"

lemma quoted_field_shorter: "quoted_field acc s = Some (f, Some r) \<Longrightarrow> length r < length s"
proof (induction acc s rule: quoted_field.induct)
  case (2 acc c cs)
  then show ?case by (auto split: if_splits list.splits)
qed simp

lemma csv_field_shorter: "csv_field s = Some (f, Some r) \<Longrightarrow> length r < length s"
  by (cases s) (auto simp: csv_field_def plain_field_def Let_def dest: quoted_field_shorter split: if_splits)

function csv_fields :: "string \<Rightarrow> string list option" where
  "csv_fields s =
     (case csv_field s of
        None \<Rightarrow> None
      | Some (f, None) \<Rightarrow> Some [f]
      | Some (f, Some r) \<Rightarrow> map_option (\<lambda>fs. f # fs) (csv_fields r))"
  by pat_completeness auto
termination
  by (relation "measure length") (auto dest: csv_field_shorter)

text \<open>The end of the line goes first: a newline, with a carriage return before it or at the end of the input.\<close>

definition strip_eol :: "string \<Rightarrow> string" where
  "strip_eol s =
     (let t = (if s \<noteq> [] \<and> last s = NL then butlast s else s)
      in if t \<noteq> [] \<and> last t = CHR 0x0D then butlast t else t)"

definition csv_record :: "string \<Rightarrow> string list option" where
  "csv_record line = (if strip_eol line = [] then None else csv_fields (strip_eol line))"

subsection \<open>Rows\<close>

record Row =
  row_Height :: int
  row_Hashes :: "(string \<times> string) list"

text \<open>\<open>bytes.Lines\<close>: each line with its newline.\<close>

fun lines_of :: "string \<Rightarrow> string \<Rightarrow> string list" where
  "lines_of acc [] = (if acc = [] then [] else [acc])"
| "lines_of acc (c # cs) = (if c = NL then (acc @ [c]) # lines_of [] cs else lines_of (acc @ [c]) cs)"

definition parse_line :: "string list \<Rightarrow> string \<Rightarrow> Row option" where
  "parse_line header line =
     (case csv_record line of
        None \<Rightarrow> None
      | Some cells \<Rightarrow>
          if length cells \<noteq> length header then None
          else case Atoi (hd cells) of
            None \<Rightarrow> None
          | Some h \<Rightarrow> Some \<lparr>row_Height = h, row_Hashes = fold (\<lambda>(k, v). put k v) (zip (tl header) (tl cells)) []\<rparr>)"

definition parseRows :: "string list \<Rightarrow> string \<Rightarrow> Row list \<times> nat" where
  "parseRows header data =
     (let ls = lines_of [] data
      in (List.map_filter (parse_line header) ls, length (filter (\<lambda>l. parse_line header l = None) ls)))"

definition parseHeader :: "string \<Rightarrow> error + string list" where
  "parseHeader line =
     (case csv_record line of
        None \<Rightarrow> Inl ''parse hash log header''
      | Some cells \<Rightarrow>
          if length cells < 2 \<or> hd cells \<noteq> ''block_number''
          then Inl (''unexpected hash log header '' @ quoted line) else Inr cells)"

subsection \<open>The reader\<close>

record Reader =
  rd_Started :: bool
  rd_Index :: nat
  rd_Name :: string
  rd_Sealed :: bool
  rd_Offset :: int
  rd_Header :: "string list option"
  rd_SkipPartial :: bool

definition NewReader :: Reader where
  "NewReader = \<lparr>rd_Started = False, rd_Index = 0, rd_Name = [], rd_Sealed = False, rd_Offset = 0, rd_Header = None, rd_SkipPartial = False\<rparr>"

definition tipBacktrackBytes :: int where "tipBacktrackBytes = 16 * 1024"
definition maxReadsPerPoll :: nat where "maxReadsPerPoll = 16"
definition maxHeaderBytes :: int where "maxHeaderBytes = 64 * 1024"

definition index_NL :: "string \<Rightarrow> nat option" where
  "index_NL d = (if NL \<in> set d then Some (length (takeWhile (\<lambda>c. c \<noteq> NL) d)) else None)"

definition complete_part :: "string \<Rightarrow> string" where
  "complete_part d = rev (dropWhile (\<lambda>c. c \<noteq> NL) (rev d))"

definition position_at :: "HashLogFile \<Rightarrow> string list \<Rightarrow> nat \<Rightarrow> int \<Rightarrow> Reader \<Rightarrow> Reader" where
  "position_at f header nl headLen r =
     (let headerEnd = int nl + 1; off = max headerEnd (max (hl_Size f) headLen - tipBacktrackBytes)
      in r\<lparr>rd_Started := True, rd_Index := hl_Index f, rd_Name := hl_Name f, rd_Sealed := hl_Sealed f, rd_Header := Some header,
           rd_Offset := off, rd_SkipPartial := (off > headerEnd)\<rparr>)"

definition start_in :: "HashLogFile \<Rightarrow> string \<Rightarrow> Reader \<Rightarrow> Reader \<times> bool \<times> hl_error option" where
  "start_in f head r =
     (case index_NL head of
        None \<Rightarrow>
          if int (length head) \<ge> maxHeaderBytes
          then (r, False, Some (ReadError (''hash log '' @ hl_Name f @ '' header exceeds '' @ itoa maxHeaderBytes @ '' bytes'')))
          else (r, False, None)
      | Some nl \<Rightarrow>
          (case parseHeader (take nl head) of
             Inl e \<Rightarrow> (r, False, Some (ReadError e))
           | Inr header \<Rightarrow> (position_at f header nl (int (length head)) r, True, None)))"

definition start_reader :: "hl_source \<Rightarrow> Reader \<Rightarrow> nat \<Rightarrow> Reader \<times> nat \<times> bool \<times> hl_error option" where
  "start_reader S r n =
     (case listHashLog S n of
        Inl e \<Rightarrow> (r, Suc n, False, Some e)
      | Inr fs \<Rightarrow>
          if fs = [] then (r, Suc n, False, None)
          else case ReadHashLogHead S (Suc n) (hl_Name (last fs)) maxHeaderBytes of
            Inl e \<Rightarrow> (r, Suc (Suc n), False, if e = HashLogNotFound then None else Some e)
          | Inr head \<Rightarrow> (case start_in (last fs) head r of (r1, ok, err) \<Rightarrow> (r1, Suc (Suc n), ok, err)))"

definition moveAfter :: "HashLogFile list \<Rightarrow> Reader \<Rightarrow> Reader \<times> bool" where
  "moveAfter fs r =
     (case find (\<lambda>f. hl_Index f > rd_Index r) fs of
        None \<Rightarrow> (r, False)
      | Some f \<Rightarrow> (r\<lparr>rd_Index := hl_Index f, rd_Name := hl_Name f, rd_Sealed := hl_Sealed f, rd_Offset := 0, rd_Header := None,
                    rd_SkipPartial := False\<rparr>, True))"

definition handleMissing :: "hl_source \<Rightarrow> Reader \<Rightarrow> nat \<Rightarrow> Reader \<times> bool \<times> hl_error option" where
  "handleMissing S r n =
     (case listHashLog S n of
        Inl e \<Rightarrow> (r, False, Some e)
      | Inr fs \<Rightarrow>
          (case find (\<lambda>f. hl_Index f = rd_Index r) fs of
             Some f \<Rightarrow> if hl_Name f = rd_Name r then (r, False, None)
                 else (r\<lparr>rd_Name := hl_Name f, rd_Sealed := hl_Sealed f\<rparr>, True, None)
           | None \<Rightarrow>
               if rd_Offset r > 0
               then (r\<lparr>rd_Started := False\<rparr>, False,
                     Some (CoverageGap (''hash log coverage gap: file index '' @ show_nat (rd_Index r) @ '' was removed while it was read'')))
               else case moveAfter fs r of (r1, moved) \<Rightarrow> (r1, moved, None)))"

definition nextFile :: "hl_source \<Rightarrow> Reader \<Rightarrow> nat \<Rightarrow> Reader \<times> bool \<times> hl_error option" where
  "nextFile S r n =
     (case listHashLog S n of
        Inl e \<Rightarrow> (r, False, Some e)
      | Inr fs \<Rightarrow> (case moveAfter fs r of (r1, moved) \<Rightarrow> (r1, moved, None)))"

text \<open>What one read yields: the reader, the data still to be used (none: stop here), or an error.\<close>

definition take_header :: "Reader \<Rightarrow> string \<Rightarrow> Reader \<times> (hl_error option + string)" where
  "take_header r data =
     (if rd_Header r \<noteq> None then (r, Inr data)
      else case index_NL data of
        None \<Rightarrow> (r, Inl None)
      | Some nl \<Rightarrow>
          (case parseHeader (take nl data) of
             Inl e \<Rightarrow> (r, Inl (Some (ReadError e)))
           | Inr header \<Rightarrow> (r\<lparr>rd_Header := Some header, rd_Offset := rd_Offset r + int (nl + 1)\<rparr>, Inr (drop (nl + 1) data))))"

definition skip_partial :: "Reader \<Rightarrow> string \<Rightarrow> Reader \<times> (hl_error option + string)" where
  "skip_partial r data =
     (if \<not> rd_SkipPartial r then (r, Inr data)
      else case index_NL data of
        None \<Rightarrow> (r\<lparr>rd_Offset := rd_Offset r + int (length data)\<rparr>, Inl None)
      | Some nl \<Rightarrow>
          (r\<lparr>rd_Offset := rd_Offset r + int (nl + 1), rd_SkipPartial := False\<rparr>, Inr (drop (nl + 1) data)))"

definition take_rows :: "Reader \<Rightarrow> string \<Rightarrow> Reader \<times> Row list \<times> nat" where
  "take_rows r data =
     (r\<lparr>rd_Offset := rd_Offset r + int (length (complete_part data))\<rparr>,
      parseRows (case rd_Header r of None \<Rightarrow> [] | Some h \<Rightarrow> h) (complete_part data))"

text \<open>The part of the loop's body that works on the data read: rows, unusable lines, and either what is left or how it stopped.\<close>

definition consume :: "Reader \<Rightarrow> string \<Rightarrow> Reader \<times> Row list \<times> nat \<times> (hl_error option + string)" where
  "consume r data =
     (case take_header r data of
        (r1, Inl stop) \<Rightarrow> (r1, [], 0, Inl stop)
      | (r1, Inr d1) \<Rightarrow>
          (case skip_partial r1 d1 of
             (r2, Inl stop) \<Rightarrow> (r2, [], 0, Inl stop)
           | (r2, Inr d2) \<Rightarrow> (case take_rows r2 d2 of (r3, rows, bad) \<Rightarrow> (r3, rows, bad, Inr d2))))"

definition after_rows :: "hl_source \<Rightarrow> Reader \<Rightarrow> nat \<Rightarrow> string \<Rightarrow> Reader \<times> bool \<times> hl_error option" where
  "after_rows S r n data =
     (let torn = length data - length (complete_part data)
      in if \<not> rd_Sealed r then (r, False, None)
         else if torn > 0
         then (r\<lparr>rd_Offset := rd_Offset r + int torn\<rparr>, False,
               Some (TornRow (''hash log torn row: dropped '' @ show_nat torn @ '' trailing bytes of sealed file '' @ rd_Name r)))
         else nextFile S r n)"

fun poll_reads :: "hl_source \<Rightarrow> nat \<Rightarrow> Reader \<Rightarrow> nat \<Rightarrow> Row list \<Rightarrow> nat \<Rightarrow> Reader \<times> nat \<times> Row list \<times> nat \<times> hl_error option" where
  "poll_reads S 0 r n rows invalid = (r, n, rows, invalid, None)"
| "poll_reads S (Suc k) r n rows invalid =
     (case ReadHashLogFile S n (rd_Name r) (rd_Offset r) of
        Inl e \<Rightarrow>
          if e = HashLogNotFound then
            (case handleMissing S r (Suc n) of (r1, again, err) \<Rightarrow>
               if err \<noteq> None \<or> \<not> again then (r1, Suc (Suc n), rows, invalid, err)
               else poll_reads S k r1 (Suc (Suc n)) rows invalid)
          else (r, Suc n, rows, invalid, Some e)
      | Inr data \<Rightarrow>
          (case consume r data of
             (r1, new, bad, Inl stop) \<Rightarrow> (r1, Suc n, rows, invalid, stop)
           | (r1, new, bad, Inr left) \<Rightarrow>
               (case after_rows S r1 (Suc n) left of (r2, again, err) \<Rightarrow>
                  if err \<noteq> None \<or> \<not> again then (r2, Suc (Suc n), rows @ new, invalid + bad, err)
                  else poll_reads S k r2 (Suc (Suc n)) (rows @ new) (invalid + bad))))"

definition Poll :: "hl_source \<Rightarrow> Reader \<Rightarrow> nat \<Rightarrow> Reader \<times> nat \<times> Row list \<times> nat \<times> hl_error option" where
  "Poll S r n =
     (if rd_Started r then poll_reads S maxReadsPerPoll r n [] 0
      else case start_reader S r n of (r1, n1, ok, err) \<Rightarrow>
        if err \<noteq> None \<or> \<not> ok then (r1, n1, [], 0, err) else poll_reads S maxReadsPerPoll r1 n1 [] 0)"

end
