(* ===== verification/HashLogCompare.thy ===== *)
theory HashLogCompare
  imports HashLogReader "HOL-Library.List_Lexorder" "HOL-Library.Char_ord"
begin

text \<open>
  The comparison of a migrating node with its reserve (\<open>internal/hashlogcompare/compare.go\<close>, \<open>run.go\<close>,
  \<open>config.go\<close>): rows of both logs are buffered by height and compared once both sides have them.  Go's maps are
  association lists with distinct keys; the metrics of a pair are a record, log lines are left out.
\<close>

subsection \<open>Comparable columns\<close>

definition maxBufferedRows :: nat where "maxBufferedRows = 10000"
definition evictBatchRows :: nat where "evictBatchRows = 1000"

definition ColumnBlockHash :: string where "ColumnBlockHash = ''blockHash''"
definition ColumnChangeset :: string where "ColumnChangeset = ''changeset''"
definition ColumnResultHash :: string where "ColumnResultHash = ''resultHash''"
definition memIAVLModulePrefix :: string where "memIAVLModulePrefix = ''memIAVL/mod/''"
definition memIAVLEVMColumn :: string where "memIAVLEVMColumn = memIAVLModulePrefix @ ''evm''"

definition baseComparable :: "string list" where
  "baseComparable = [ColumnBlockHash, ColumnChangeset, ColumnResultHash]"

type_synonym hashes = "(string \<times> string) list"

definition module_column :: "string \<Rightarrow> bool" where
  "module_column name \<longleftrightarrow> has_prefix name memIAVLModulePrefix \<and> name \<noteq> memIAVLEVMColumn"

definition ComparableHashes :: "hashes \<Rightarrow> error + hashes" where
  "ComparableHashes hs =
     (if \<not> list_all (\<lambda>name. map_of hs name \<noteq> None) baseComparable
      then Inl ''row is missing blockHash, changeset or resultHash''
      else let out = filter (\<lambda>kv. fst kv \<in> set baseComparable) hs @ filter (\<lambda>kv. module_column (fst kv)) hs
           in if length out = length baseComparable then Inl ''row has no comparable non-EVM module hashes'' else Inr out)"

definition differingColumns :: "hashes \<Rightarrow> hashes \<Rightarrow> string list" where
  "differingColumns a b =
     sort (map fst (filter (\<lambda>(name, v). map_of b name \<noteq> Some v) a) @ filter (\<lambda>name. map_of a name = None) (map fst b))"

subsection \<open>The pair\<close>

record Mismatch =
  mm_Height :: int
  mm_Columns :: "string list"

record CompareResult =
  cr_Compared :: nat
  cr_Mismatches :: "Mismatch list"
  cr_MigratingGaps :: nat
  cr_ReserveGaps :: nat

type_synonym row_buffer = "(int \<times> hashes) list"

record pairState =
  ps_Migrating :: row_buffer
  ps_Reserve :: row_buffer
  ps_FirstCompared :: int
  ps_LastCompared :: int

definition newPairState :: pairState where
  "newPairState = \<lparr>ps_Migrating = [], ps_Reserve = [], ps_FirstCompared = 0, ps_LastCompared = 0\<rparr>"

definition evictOldest :: "nat \<Rightarrow> row_buffer \<Rightarrow> row_buffer" where
  "evictOldest n buf = (let gone = take n (sort (map fst buf)) in filter (\<lambda>(h, _). h \<notin> set gone) buf)"

definition add_row :: "int \<Rightarrow> int \<Rightarrow> hashes \<Rightarrow> row_buffer \<Rightarrow> row_buffer" where
  "add_row lastCompared height hs buf =
     (if lastCompared > 0 \<and> height \<le> lastCompared then buf
      else let buf1 = put height hs buf
           in if length buf1 > maxBufferedRows then evictOldest (length buf1 - maxBufferedRows + evictBatchRows) buf1 else buf1)"

definition without :: "int \<Rightarrow> row_buffer \<Rightarrow> row_buffer" where
  "without h buf = filter (\<lambda>kv. fst kv \<noteq> h) buf"

definition row_at :: "row_buffer \<Rightarrow> int \<Rightarrow> hashes" where
  "row_at buf h = (case map_of buf h of None \<Rightarrow> [] | Some hs \<Rightarrow> hs)"

definition compare_height :: "int \<Rightarrow> pairState \<times> CompareResult \<Rightarrow> pairState \<times> CompareResult" where
  "compare_height h sc =
     (case sc of (s, res) \<Rightarrow>
        let cols = differingColumns (row_at (ps_Migrating s) h) (row_at (ps_Reserve s) h)
        in (s\<lparr>ps_Migrating := without h (ps_Migrating s), ps_Reserve := without h (ps_Reserve s),
              ps_FirstCompared := (if ps_FirstCompared s = 0 then h else ps_FirstCompared s), ps_LastCompared := h\<rparr>,
            res\<lparr>cr_Mismatches := cr_Mismatches res @ (if cols \<noteq> [] then [\<lparr>mm_Height = h, mm_Columns = cols\<rparr>] else []),
                cr_Compared := Suc (cr_Compared res)\<rparr>))"

definition prune :: "int \<Rightarrow> int \<Rightarrow> row_buffer \<Rightarrow> row_buffer \<times> nat" where
  "prune firstCompared lastCompared buf =
     (filter (\<lambda>kv. fst kv > lastCompared) buf,
      length (filter (\<lambda>kv. fst kv \<le> lastCompared \<and> fst kv > firstCompared) buf))"

definition common_heights :: "pairState \<Rightarrow> int list" where
  "common_heights s = sort (filter (\<lambda>h. map_of (ps_Reserve s) h \<noteq> None) (map fst (ps_Migrating s)))"

definition compare_pair :: "pairState \<Rightarrow> pairState \<times> CompareResult" where
  "compare_pair s =
     (case fold compare_height (common_heights s)
             (s, \<lparr>cr_Compared = 0, cr_Mismatches = [], cr_MigratingGaps = 0, cr_ReserveGaps = 0\<rparr>) of
        (s1, res) \<Rightarrow>
          (case prune (ps_FirstCompared s1) (ps_LastCompared s1) (ps_Migrating s1) of (m, rg) \<Rightarrow>
             (case prune (ps_FirstCompared s1) (ps_LastCompared s1) (ps_Reserve s1) of (r, mg) \<Rightarrow>
                (s1\<lparr>ps_Migrating := m, ps_Reserve := r\<rparr>, res\<lparr>cr_ReserveGaps := rg, cr_MigratingGaps := mg\<rparr>))))"

subsection \<open>One poll\<close>

datatype role = RoleMigrating | RoleReserve

datatype reason = ReasonNotFound | ReasonUnavailable | ReasonCoverageGap | ReasonTornRow | ReasonInvalidRow

record pair_metrics =
  pm_Diverged :: bool
  pm_Mismatches :: nat
  pm_Columns :: "string \<Rightarrow> nat"
  pm_Compared :: nat
  pm_LastHeight :: int
  pm_LastTime :: int
  pm_SourceHeight :: "role \<Rightarrow> int"
  pm_Errors :: "role \<Rightarrow> reason \<Rightarrow> nat"
  pm_Gaps :: "role \<Rightarrow> nat"

definition initPair :: "int \<Rightarrow> pair_metrics" where
  "initPair now =
     \<lparr>pm_Diverged = False, pm_Mismatches = 0, pm_Columns = (\<lambda>_. 0), pm_Compared = 0, pm_LastHeight = 0, pm_LastTime = now,
      pm_SourceHeight = (\<lambda>_. 0), pm_Errors = (\<lambda>_ _. 0), pm_Gaps = (\<lambda>_. 0)\<rparr>"

definition count_error :: "role \<Rightarrow> reason \<Rightarrow> nat \<Rightarrow> pair_metrics \<Rightarrow> pair_metrics" where
  "count_error role why k m =
     m\<lparr>pm_Errors := (pm_Errors m)(role := (pm_Errors m role)(why := pm_Errors m role why + k))\<rparr>"

fun reason_of :: "hl_error \<Rightarrow> reason" where
  "reason_of HashLogNotFound = ReasonNotFound"
| "reason_of (CoverageGap _) = ReasonCoverageGap"
| "reason_of (TornRow _) = ReasonTornRow"
| "reason_of (ReadError _) = ReasonUnavailable"

definition side :: "role \<Rightarrow> pairState \<Rightarrow> row_buffer" where
  "side role s = (case role of RoleMigrating \<Rightarrow> ps_Migrating s | RoleReserve \<Rightarrow> ps_Reserve s)"

definition set_side :: "role \<Rightarrow> row_buffer \<Rightarrow> pairState \<Rightarrow> pairState" where
  "set_side role b s = (case role of RoleMigrating \<Rightarrow> s\<lparr>ps_Migrating := b\<rparr> | RoleReserve \<Rightarrow> s\<lparr>ps_Reserve := b\<rparr>)"

definition usable :: "Row \<Rightarrow> (int \<times> hashes) option" where
  "usable row = (case ComparableHashes (row_Hashes row) of Inl _ \<Rightarrow> None | Inr hs \<Rightarrow> Some (row_Height row, hs))"

definition add_all :: "role \<Rightarrow> (int \<times> hashes) list \<Rightarrow> pairState \<Rightarrow> pairState" where
  "add_all role rows s = set_side role (fold (\<lambda>(h, hs). add_row (ps_LastCompared s) h hs) rows (side role s)) s"

definition note_height :: "role \<Rightarrow> (int \<times> hashes) list \<Rightarrow> pair_metrics \<Rightarrow> pair_metrics" where
  "note_height role rows m =
     (if rows = [] then m else m\<lparr>pm_SourceHeight := (pm_SourceHeight m)(role := fst (last rows))\<rparr>)"

text \<open>What a poll of one side found: its rows, the lines it could not use, and an error.  The context may have ended.\<close>

definition read_side ::
    "bool \<Rightarrow> role \<Rightarrow> Row list \<times> nat \<times> hl_error option \<Rightarrow> pairState \<times> pair_metrics \<Rightarrow> pairState \<times> pair_metrics" where
  "read_side ended role found sm =
     (case (found, sm) of ((rows, invalid, err), (s, m)) \<Rightarrow>
        let good = List.map_filter usable rows; bad = invalid + (length rows - length good);
            m1 = (case err of None \<Rightarrow> m | Some e \<Rightarrow> if ended then m else count_error role (reason_of e) 1 m);
            m2 = note_height role good m1
        in (add_all role good s, if bad > 0 then count_error role ReasonInvalidRow bad m2 else m2))"

definition record_mismatch :: "Mismatch \<Rightarrow> pair_metrics \<Rightarrow> pair_metrics" where
  "record_mismatch mm m =
     m\<lparr>pm_Diverged := True, pm_Mismatches := Suc (pm_Mismatches m),
       pm_Columns := fold (\<lambda>c f. f(c := f c + 1)) (mm_Columns mm) (pm_Columns m)\<rparr>"

definition record_result :: "int \<Rightarrow> pairState \<Rightarrow> CompareResult \<Rightarrow> pair_metrics \<Rightarrow> pair_metrics" where
  "record_result now s res m =
     (let m1 = fold record_mismatch (cr_Mismatches res) m;
          m2 = m1\<lparr>pm_Gaps := (pm_Gaps m1)(RoleMigrating := pm_Gaps m1 RoleMigrating + cr_MigratingGaps res,
                                          RoleReserve := pm_Gaps m1 RoleReserve + cr_ReserveGaps res)\<rparr>
      in if cr_Compared res > 0
         then m2\<lparr>pm_Compared := pm_Compared m2 + cr_Compared res, pm_LastHeight := ps_LastCompared s, pm_LastTime := now\<rparr> else m2)"

text \<open>A poll from the rows both sides delivered, and from the two logs.\<close>

record delivery =
  dv_Now :: int
  dv_Ended :: bool
  dv_Migrating :: "Row list \<times> nat \<times> hl_error option"
  dv_Reserve :: "Row list \<times> nat \<times> hl_error option"

definition poll_delivered :: "delivery \<Rightarrow> pairState \<times> pair_metrics \<Rightarrow> pairState \<times> pair_metrics" where
  "poll_delivered d sm =
     (case read_side (dv_Ended d) RoleReserve (dv_Reserve d) (read_side (dv_Ended d) RoleMigrating (dv_Migrating d) sm) of
        (s, m) \<Rightarrow> (case compare_pair s of (s1, res) \<Rightarrow> (s1, record_result (dv_Now d) s1 res m)))"

record pairRunner =
  pr_Migrating :: Reader
  pr_Reserve :: Reader
  pr_MigratingCalls :: nat
  pr_ReserveCalls :: nat
  pr_State :: "pairState \<times> pair_metrics"

definition poll :: "hl_source \<Rightarrow> hl_source \<Rightarrow> int \<Rightarrow> bool \<Rightarrow> pairRunner \<Rightarrow> pairRunner" where
  "poll M R now ended p =
     (case Poll M (pr_Migrating p) (pr_MigratingCalls p) of (rm, nm, rows_m, bad_m, err_m) \<Rightarrow>
        (case Poll R (pr_Reserve p) (pr_ReserveCalls p) of (rr, nr, rows_r, bad_r, err_r) \<Rightarrow>
           \<lparr>pr_Migrating = rm, pr_Reserve = rr, pr_MigratingCalls = nm, pr_ReserveCalls = nr,
            pr_State = poll_delivered \<lparr>dv_Now = now, dv_Ended = ended, dv_Migrating = (rows_m, bad_m, err_m),
                                       dv_Reserve = (rows_r, bad_r, err_r)\<rparr> (pr_State p)\<rparr>))"

subsection \<open>Configuration\<close>

record Endpoint =
  ep_Namespace :: string
  ep_Name :: string
  ep_URL :: string

definition Label :: "Endpoint \<Rightarrow> string" where
  "Label e = (if ep_Name e \<noteq> [] then ep_Namespace e @ ''/'' @ ep_Name e else ep_URL e)"

definition InCluster :: "Endpoint \<Rightarrow> bool" where "InCluster e \<longleftrightarrow> ep_URL e = []"

definition Endpoint_validate :: "Endpoint \<Rightarrow> error option" where
  "Endpoint_validate e =
     (if ep_URL e \<noteq> [] \<and> (ep_Name e \<noteq> [] \<or> ep_Namespace e \<noteq> []) then Some ''set either url or namespace and name, not both''
      else if ep_URL e \<noteq> [] then None
      else if ep_Name e = [] \<or> ep_Namespace e = [] then Some ''namespace and name are required when url is unset'' else None)"

record Pair =
  pa_Chain :: string
  pa_Migrating :: Endpoint
  pa_Reserve :: Endpoint

definition pair_key :: "Pair \<Rightarrow> string" where
  "pair_key p = pa_Chain p @ ''|'' @ Label (pa_Migrating p) @ ''|'' @ Label (pa_Reserve p)"

definition pair_error :: "nat \<Rightarrow> string list \<Rightarrow> Pair \<Rightarrow> error option" where
  "pair_error i seen p =
     (let at_pair = ''pairs['' @ show_nat i @ '']''
      in if pa_Chain p = [] then Some (at_pair @ '': chain is required'')
         else case Endpoint_validate (pa_Migrating p) of
           Some e \<Rightarrow> Some (at_pair @ ''.migrating: '' @ e)
         | None \<Rightarrow> (case Endpoint_validate (pa_Reserve p) of
             Some e \<Rightarrow> Some (at_pair @ ''.reserve: '' @ e)
           | None \<Rightarrow>
               if Label (pa_Migrating p) = Label (pa_Reserve p) then Some (at_pair @ '': migrating and reserve are the same node'')
               else if pair_key p \<in> set seen then Some (at_pair @ '': duplicate pair'') else None))"

fun validate_pairs :: "nat \<Rightarrow> string list \<Rightarrow> Pair list \<Rightarrow> error option" where
  "validate_pairs i seen [] = None"
| "validate_pairs i seen (p # ps) =
     (case pair_error i seen p of Some e \<Rightarrow> Some e | None \<Rightarrow> validate_pairs (Suc i) (pair_key p # seen) ps)"

definition Config_Validate :: "Pair list \<Rightarrow> error option" where
  "Config_Validate ps = (if ps = [] then Some ''config has no pairs'' else validate_pairs 0 [] ps)"

end
