(* ===== verification/HashLogProps.thy ===== *)
theory HashLogProps
  imports HashLogCompare "HOL-Library.Sublist"
begin

text \<open>
  What the comparator promises: tailing a growing file yields the same rows however its growth is cut into polls, and
  a divergence is reported exactly when both nodes wrote rows of one height that differ.
\<close>

subsection \<open>Tailing\<close>

lemma complete_append: "NL \<in> set b \<Longrightarrow> complete_part (a @ b) = a @ complete_part b"
  by (auto simp: complete_part_def dropWhile_append)

lemma complete_none: "NL \<notin> set b \<Longrightarrow> complete_part (a @ b) = complete_part a"
  by (auto simp: complete_part_def dropWhile_append)

lemma complete_split: "\<exists>t. d = complete_part d @ t \<and> NL \<notin> set t"
proof -
  let ?t = "rev (takeWhile (\<lambda>c. c \<noteq> NL) (rev d))"
  have "d = rev (takeWhile (\<lambda>c. c \<noteq> NL) (rev d) @ dropWhile (\<lambda>c. c \<noteq> NL) (rev d))" by simp
  then have "d = complete_part d @ ?t" unfolding complete_part_def by (simp only: rev_append)
  moreover have "NL \<notin> set ?t" using set_takeWhileD by fastforce
  ultimately show ?thesis by blast
qed

lemma complete_empty: "complete_part d = [] \<longleftrightarrow> NL \<notin> set d"
  by (auto simp: complete_part_def)

lemma complete_last: "complete_part d \<noteq> [] \<Longrightarrow> last (complete_part d) = NL"
  using hd_dropWhile[of "\<lambda>c. c \<noteq> NL" "rev d"] by (auto simp: complete_part_def last_rev)

text \<open>What is complete in the longer text is what was complete in the shorter one, and then the rest.\<close>

lemma complete_grows: "complete_part (d @ e) = complete_part d @ complete_part (drop (length (complete_part d)) (d @ e))"
proof -
  obtain t where t: "d = complete_part d @ t" "NL \<notin> set t" using complete_split by blast
  have rest: "drop (length (complete_part d)) (d @ e) = t @ e" using t(1) by (metis append.assoc append_eq_conv_conj)
  show ?thesis
  proof (cases "NL \<in> set e")
    case True
    then have "complete_part (d @ e) = d @ complete_part e" "complete_part (t @ e) = t @ complete_part e"
      by (simp_all add: complete_append)
    then show ?thesis using t(1) rest by (metis append.assoc)
  next
    case False
    then have "complete_part (d @ e) = complete_part d" "complete_part (t @ e) = []"
      using t(2) by (simp_all add: complete_none complete_empty)
    then show ?thesis using rest by simp
  qed
qed

lemma lines_append: "a \<noteq> [] \<Longrightarrow> last a = NL \<Longrightarrow> lines_of acc (a @ b) = lines_of acc a @ lines_of [] b"
proof (induction acc a rule: lines_of.induct)
  case (2 acc c cs)
  then show ?case by (cases cs) auto
qed simp

lemma parse_grows:
  assumes "c = complete_part d"
  shows "parseRows h (c @ e) = (fst (parseRows h c) @ fst (parseRows h e), snd (parseRows h c) + snd (parseRows h e))"
proof (cases "c = []")
  case True
  then show ?thesis by (simp add: parseRows_def Let_def List.map_filter_simps)
next
  case False
  then have "lines_of [] (c @ e) = lines_of [] c @ lines_of [] e"
    using complete_last[of d] assms by (intro lines_append) auto
  then show ?thesis by (simp add: parseRows_def Let_def List.map_filter_def)
qed

lemma index_NL_append:
  "index_NL (d @ e) = (case index_NL d of Some k \<Rightarrow> Some k | None \<Rightarrow> map_option (\<lambda>k. length d + k) (index_NL e))"
proof (cases "NL \<in> set d")
  case True
  then show ?thesis by (auto simp: index_NL_def takeWhile_append1)
next
  case False
  then have "takeWhile (\<lambda>c. c \<noteq> NL) (d @ e) = d @ takeWhile (\<lambda>c. c \<noteq> NL) e" by (intro takeWhile_append2) auto
  then show ?thesis using False by (simp add: index_NL_def)
qed

lemma index_NL_lt: "index_NL d = Some k \<Longrightarrow> k < length d"
proof -
  have "NL \<in> set d \<Longrightarrow> length (takeWhile (\<lambda>c. c \<noteq> NL) d) < length d" by (induction d) auto
  then show "index_NL d = Some k \<Longrightarrow> k < length d" by (auto simp: index_NL_def split: if_splits)
qed

text \<open>One poll of a file that is not sealed: what it read from its cursor on, and how the cursor moved.\<close>

definition tail_step :: "Reader \<Rightarrow> string \<Rightarrow> Reader \<times> Row list \<times> nat \<times> hl_error option" where
  "tail_step r content =
     (case consume r (drop (nat (rd_Offset r)) content) of
        (r1, rows, bad, Inl stop) \<Rightarrow> (r1, rows, bad, stop) | (r1, rows, bad, Inr _) \<Rightarrow> (r1, rows, bad, None))"

lemma take_rows_grows:
  assumes "take_rows r d = (r1, rows1, bad1)"
    and "take_rows r1 (drop (length (complete_part d)) (d @ e)) = (r2, rows2, bad2)"
  shows "take_rows r (d @ e) = (r2, rows1 @ rows2, bad1 + bad2)"
proof -
  let ?h = "case rd_Header r of None \<Rightarrow> [] | Some h \<Rightarrow> h"
  have one: "r1 = r\<lparr>rd_Offset := rd_Offset r + int (length (complete_part d))\<rparr>" "parseRows ?h (complete_part d) = (rows1, bad1)"
    using assms(1) by (simp_all add: take_rows_def)
  let ?rest = "complete_part (drop (length (complete_part d)) (d @ e))"
  have two: "r2 = r\<lparr>rd_Offset := rd_Offset r + int (length (complete_part d)) + int (length ?rest)\<rparr>" "parseRows ?h ?rest = (rows2, bad2)"
    using assms(2) one(1) by (simp_all add: take_rows_def)
  show ?thesis
    using parse_grows[OF refl, of ?h d ?rest] complete_grows[of d e] one two by (simp add: take_rows_def)
qed


text \<open>A cursor inside the content.\<close>

definition inside :: "Reader \<Rightarrow> string \<Rightarrow> bool" where
  "inside r c \<longleftrightarrow> 0 \<le> rd_Offset r \<and> nat (rd_Offset r) \<le> length c"

definition ahead :: "Reader \<Rightarrow> string \<Rightarrow> string" where "ahead r c = drop (nat (rd_Offset r)) c"

lemma ahead_more: "inside r c \<Longrightarrow> ahead r (c @ e) = ahead r c @ e"
  by (simp add: inside_def ahead_def)

lemma moved:
  assumes "inside r c" "k \<le> length (ahead r c)" "rd_Offset r1 = rd_Offset r + int k"
  shows "inside r1 c" and "ahead r1 c = drop k (ahead r c)"
  using assms by (auto simp: inside_def ahead_def nat_add_distrib add.commute)

lemma take_header_grows:
  assumes "take_header r (ahead r c) = (r1, Inr d)" and "inside r c"
  shows "inside r1 c \<and> d = ahead r1 c \<and> rd_Header r1 \<noteq> None \<and> rd_SkipPartial r1 = rd_SkipPartial r \<and>
    take_header r (ahead r (c @ e)) = (r1, Inr (ahead r1 (c @ e)))"
proof (cases "rd_Header r")
  case None
  then obtain nl header where nl: "index_NL (ahead r c) = Some nl" and h: "parseHeader (take nl (ahead r c)) = Inr header"
    and r1: "r1 = r\<lparr>rd_Header := Some header, rd_Offset := rd_Offset r + int (nl + 1)\<rparr>" "d = drop (nl + 1) (ahead r c)"
    using assms(1) by (auto simp: take_header_def split: option.splits sum.splits)
  have lt: "nl < length (ahead r c)" using index_NL_lt[OF nl] .
  have m: "inside r1 c" "ahead r1 c = drop (nl + 1) (ahead r c)"
    using moved[OF assms(2), of "nl + 1" r1] lt r1(1) by simp_all
  have "take_header r (ahead r (c @ e)) = (r1, Inr (drop (nl + 1) (ahead r c @ e)))"
    using None nl h lt r1(1) by (simp add: take_header_def ahead_more[OF assms(2)] index_NL_append)
  also have "drop (nl + 1) (ahead r c @ e) = ahead r1 (c @ e)" using lt m by (simp add: ahead_more)
  finally show ?thesis using m r1 by simp
qed (use assms in \<open>auto simp: take_header_def\<close>)

lemma skip_partial_grows:
  assumes "skip_partial r (ahead r c) = (r1, Inr d)" and "inside r c"
  shows "inside r1 c \<and> d = ahead r1 c \<and> rd_Header r1 = rd_Header r \<and> \<not> rd_SkipPartial r1 \<and>
    skip_partial r (ahead r (c @ e)) = (r1, Inr (ahead r1 (c @ e)))"
proof (cases "rd_SkipPartial r")
  case True
  then obtain nl where nl: "index_NL (ahead r c) = Some nl"
    and r1: "r1 = r\<lparr>rd_Offset := rd_Offset r + int (nl + 1), rd_SkipPartial := False\<rparr>" "d = drop (nl + 1) (ahead r c)"
    using assms(1) by (auto simp: skip_partial_def split: option.splits)
  have lt: "nl < length (ahead r c)" using index_NL_lt[OF nl] .
  have m: "inside r1 c" "ahead r1 c = drop (nl + 1) (ahead r c)"
    using moved[OF assms(2), of "nl + 1" r1] lt r1(1) by simp_all
  have "skip_partial r (ahead r (c @ e)) = (r1, Inr (drop (nl + 1) (ahead r c @ e)))"
    using True nl r1(1) by (simp add: skip_partial_def ahead_more[OF assms(2)] index_NL_append)
  also have "drop (nl + 1) (ahead r c @ e) = ahead r1 (c @ e)" using lt m by (simp add: ahead_more)
  finally show ?thesis using m r1 by simp
qed (use assms in \<open>auto simp: skip_partial_def\<close>)

lemma skip_partial_waits:
  assumes "skip_partial r (ahead r c) = (r1, Inl stop)" and "inside r c"
  shows "inside r1 c \<and> stop = None \<and> rd_Header r1 = rd_Header r \<and>
    skip_partial r (ahead r (c @ e)) = skip_partial r1 (ahead r1 (c @ e))"
proof -
  have skip: "rd_SkipPartial r" "index_NL (ahead r c) = None" "stop = None"
    and r1: "r1 = r\<lparr>rd_Offset := rd_Offset r + int (length (ahead r c))\<rparr>"
    using assms(1) by (auto simp: skip_partial_def split: if_splits option.splits)
  have m: "inside r1 c" "ahead r1 c = []" using moved[OF assms(2), of "length (ahead r c)" r1] r1 by simp_all
  have "skip_partial r (ahead r c @ e) = skip_partial r1 e"
    using skip r1 by (cases "index_NL e") (simp_all add: skip_partial_def index_NL_append)
  then show ?thesis using m skip r1 assms(2) by (simp add: ahead_more)
qed

lemma take_header_known: "rd_Header r \<noteq> None \<Longrightarrow> take_header r d = (r, Inr d)"
  by (simp add: take_header_def)

lemma skip_partial_off: "\<not> rd_SkipPartial r \<Longrightarrow> skip_partial r d = (r, Inr d)"
  by (simp add: skip_partial_def)

lemma complete_le: "length (complete_part d) \<le> length d"
  using complete_split[of d] by (metis le_add1 length_append)

text \<open>Two polls of a growing file do what one poll of the longer content does.\<close>

lemma tail_compose:
  assumes "tail_step r c = (r1, rows1, bad1, e1)" and "inside r c"
  shows "inside r1 c" and "tail_step r1 (c @ e) = (r2, rows2, bad2, e2) \<Longrightarrow>
    tail_step r (c @ e) = (r2, rows1 @ rows2, bad1 + bad2, e2)"
proof -
  obtain ra da where h: "take_header r (ahead r c) = (ra, da)" by (metis surj_pair)
  have "inside r1 c \<and> (tail_step r1 (c @ e) = (r2, rows2, bad2, e2) \<longrightarrow>
      tail_step r (c @ e) = (r2, rows1 @ rows2, bad1 + bad2, e2))"
  proof (cases da)
    case (Inl stop)
    then have "ra = r" using h by (auto simp: take_header_def split: if_splits option.splits sum.splits)
    then have "r1 = r \<and> rows1 = [] \<and> bad1 = 0" using assms(1) h Inl by (simp add: tail_step_def consume_def ahead_def)
    then show ?thesis using assms(2) by simp
  next
    case (Inr d1)
    note hg = take_header_grows[OF h[unfolded Inr] assms(2)]
    have ra: "inside ra c" "d1 = ahead ra c" "rd_Header ra \<noteq> None" using hg by blast+
    obtain rb db where sk: "skip_partial ra (ahead ra c) = (rb, db)" by (metis surj_pair)
    show ?thesis
    proof (cases db)
      case (Inl stop)
      note w = skip_partial_waits[OF sk[unfolded Inl] ra(1)]
      have r1: "r1 = rb" "rows1 = []" "bad1 = 0"
        using assms(1) h Inr sk Inl ra(2) by (auto simp: tail_step_def consume_def ahead_def)
      have "rd_Header rb \<noteq> None" using w ra(3) by simp
      then have "tail_step rb (c @ e) = tail_step r (c @ e)"
        using hg w take_header_known[of rb] by (simp add: tail_step_def consume_def ahead_def)
      then show ?thesis using r1 w by simp
    next
      case b: (Inr d2)
      note sg = skip_partial_grows[OF sk[unfolded b] ra(1)]
      have rb: "inside rb c" "d2 = ahead rb c" "rd_Header rb \<noteq> None" "\<not> rd_SkipPartial rb" using sg ra(3) by auto
      have one: "take_rows rb (ahead rb c) = (r1, rows1, bad1)"
        using assms(1) h Inr sk b ra(2) rb(2) by (auto simp: tail_step_def consume_def ahead_def split: prod.splits)
      have off: "rd_Offset r1 = rd_Offset rb + int (length (complete_part (ahead rb c)))"
        and keep: "rd_Header r1 \<noteq> None" "\<not> rd_SkipPartial r1"
        using one rb(3,4) by (auto simp: take_rows_def)
      note m = moved[OF rb(1) complete_le off]
      have in1: "inside r1 c" using m(1) .
      have rest: "drop (nat (rd_Offset r1)) (c @ e) = drop (length (complete_part (ahead rb c))) (ahead rb c @ e)"
        using ahead_more[OF in1, of e] m(2) complete_le[of "ahead rb c"] by (simp add: ahead_def)
      have two: "tail_step r1 (c @ e) = (r2, rows2, bad2, e2) \<Longrightarrow>
          take_rows r1 (drop (length (complete_part (ahead rb c))) (ahead rb c @ e)) = (r2, rows2, bad2) \<and> e2 = None"
        unfolding tail_step_def consume_def rest using keep
        by (auto simp: take_header_known skip_partial_off simp del: drop_append split: prod.splits)
      have whole: "tail_step r (c @ e) = (case take_rows rb (ahead rb c @ e) of (r3, rows, bad) \<Rightarrow> (r3, rows, bad, None))"
        using hg sg ahead_more[OF rb(1)] by (simp add: tail_step_def consume_def ahead_def split: prod.splits)
      show ?thesis using in1 two take_rows_grows[OF one] whole by auto
    qed
  qed
  then show "inside r1 c" "tail_step r1 (c @ e) = (r2, rows2, bad2, e2) \<Longrightarrow>
    tail_step r (c @ e) = (r2, rows1 @ rows2, bad1 + bad2, e2)" by blast+
qed


text \<open>A source that serves a file whose content only grows.\<close>

definition serves :: "hl_source \<Rightarrow> string \<Rightarrow> (nat \<Rightarrow> string) \<Rightarrow> bool" where
  "serves S name content \<longleftrightarrow>
     (\<forall>n off. 0 \<le> off \<longrightarrow> ReadHashLogFile S n name off = Inr (drop (nat off) (content n))) \<and>
     (\<forall>m n. m \<le> n \<longrightarrow> prefix (content m) (content n))"

text \<open>Polls in a row: the rows and the unusable lines of all of them.\<close>

fun polls :: "hl_source \<Rightarrow> nat \<Rightarrow> Reader \<Rightarrow> nat \<Rightarrow> Reader \<times> nat \<times> Row list \<times> nat" where
  "polls S 0 r n = (r, n, [], 0)"
| "polls S (Suc k) r n =
     (case Poll S r n of (r1, n1, rows1, bad1, err) \<Rightarrow>
        (case polls S k r1 n1 of (r2, n2, rows2, bad2) \<Rightarrow> (r2, n2, rows1 @ rows2, bad1 + bad2)))"

definition open_at :: "string \<Rightarrow> Reader \<Rightarrow> bool" where
  "open_at name r \<longleftrightarrow> rd_Started r \<and> \<not> rd_Sealed r \<and> rd_Name r = name"

lemma stage_frame:
  "take_header r d = (r1, x) \<Longrightarrow> open_at name r1 = open_at name r"
  "skip_partial r d = (r1, x) \<Longrightarrow> open_at name r1 = open_at name r"
  "take_rows r d = (r1, rows, bad) \<Longrightarrow> open_at name r1 = open_at name r"
  by (auto simp: take_header_def skip_partial_def take_rows_def open_at_def split: if_splits option.splits sum.splits)

lemma consume_frame: "consume r d = (r1, rows, bad, x) \<Longrightarrow> open_at name r1 = open_at name r"
  by (auto simp: consume_def split: prod.splits sum.splits dest!: stage_frame[where name = name])

lemma Poll_open:
  assumes "serves S name content" and "open_at name r" and "0 \<le> rd_Offset r"
  shows "\<exists>r1 n1 rows bad err. Poll S r n = (r1, n1, rows, bad, err) \<and> n < n1 \<and> open_at name r1 \<and>
    tail_step r (content n) = (r1, rows, bad, err)"
proof -
  obtain r1 rows bad x where c: "consume r (drop (nat (rd_Offset r)) (content n)) = (r1, rows, bad, x)" by (metis surj_pair)
  have read: "ReadHashLogFile S n (rd_Name r) (rd_Offset r) = Inr (drop (nat (rd_Offset r)) (content n))"
    using assms by (simp add: serves_def open_at_def)
  have r1: "open_at name r1" using consume_frame[OF c] assms(2) by simp
  have "rows = [] \<and> bad = 0" if "x = Inl stop" for stop
    using c that by (auto simp: consume_def split: prod.splits sum.splits)
  then show ?thesis
    using c read r1 assms(2)
    by (cases x) (auto simp: Poll_def maxReadsPerPoll_def numeral_eq_Suc after_rows_def Let_def open_at_def tail_step_def)
qed

lemma tail_step_offset: "tail_step r c = (r1, rows, bad, err) \<Longrightarrow> inside r c \<Longrightarrow> inside r1 c"
  using tail_compose(1) by blast

lemma inside_more: "inside r c \<Longrightarrow> prefix c d \<Longrightarrow> inside r d"
  by (auto simp: inside_def dest: prefix_length_le)

lemma polls_tail:
  assumes "serves S name content" and "open_at name r" and "inside r (content n)"
    and "polls S (Suc k) r n = (r', n', rows, bad)"
  shows "\<exists>m err. n \<le> m \<and> m < n' \<and> tail_step r (content m) = (r', rows, bad, err)"
  using assms(2-4)
proof (induction k arbitrary: r n rows bad)
  case 0
  then show ?case using Poll_open[OF assms(1) 0(1), of n] by (auto simp: inside_def)
next
  case (Suc k)
  obtain r1 n1 rows1 bad1 err where p: "Poll S r n = (r1, n1, rows1, bad1, err)" "n < n1" "open_at name r1"
    "tail_step r (content n) = (r1, rows1, bad1, err)"
    using Poll_open[OF assms(1) Suc.prems(1), of n] Suc.prems(2) by (auto simp: inside_def)
  obtain rows2 bad2 where rest: "polls S (Suc k) r1 n1 = (r', n', rows2, bad2)" and sum: "rows = rows1 @ rows2" "bad = bad1 + bad2"
    using Suc.prems(3) p(1) by (auto simp del: polls.simps(2) simp: polls.simps(2)[of S "Suc k"] split: prod.splits)
  have grows: "prefix (content n) (content m)" if "n \<le> m" for m using assms(1) that by (simp add: serves_def)
  have in1: "inside r1 (content n)" using tail_step_offset[OF p(4) Suc.prems(2)] .
  obtain m err2 where m: "n1 \<le> m" "m < n'" "tail_step r1 (content m) = (r', rows2, bad2, err2)"
    using Suc.IH[OF p(3) inside_more[OF in1 grows] rest] p(2) by auto
  obtain e where e: "content m = content n @ e" using grows[of m] p(2) m(1) by (auto simp: prefix_def)
  from tail_compose(2)[OF p(4) Suc.prems(2)] m(3) have "tail_step r (content m) = (r', rows1 @ rows2, bad1 + bad2, err2)"
    unfolding e .
  then show ?case using sum m p(2) by (intro exI[of _ m] exI[of _ err2]) simp
qed

text \<open>
  C30. Tailing is exact: however the growth of a log file is cut into polls, and at whatever byte each read ends, the
  polls together deliver exactly the rows of the complete lines from the cursor on, in the order of the file, none twice
  and none left out, count exactly the lines that cannot be used, and leave the cursor behind the last complete line.
\<close>

theorem tailing_exact:
  assumes "serves S name content" and "open_at name r" and "inside r (content n)"
    and "rd_Header r = Some header" and "\<not> rd_SkipPartial r" and "polls S (Suc k) r n = (r', n', rows, bad)"
  shows "\<exists>m. n \<le> m \<and> m < n' \<and> (rows, bad) = parseRows header (complete_part (drop (nat (rd_Offset r)) (content m))) \<and>
    r' = r\<lparr>rd_Offset := rd_Offset r + int (length (complete_part (drop (nat (rd_Offset r)) (content m))))\<rparr>"
proof -
  obtain m err where m: "n \<le> m" "m < n'" "tail_step r (content m) = (r', rows, bad, err)"
    using polls_tail[OF assms(1-3,6)] by blast
  then show ?thesis
    using assms(4,5) by (intro exI[of _ m])
      (auto simp: tail_step_def consume_def take_header_known skip_partial_off take_rows_def split: prod.splits)
qed

text \<open>A line that is cut by the first of two polls.\<close>

definition demo_log :: "nat \<Rightarrow> string" where
  "demo_log n = ''block_number,a'' @ [NL] @ ''1,x'' @ [NL] @ (if n < 2 then ''2,'' else ''2,y'' @ [NL])"

definition demo_source :: hl_source where
  "demo_source =
     \<lparr>hs_List = (\<lambda>n. Err ''down''),
      hs_Get = (\<lambda>n name rng. Inr (206, drop (if rng = [] then 0 else digits_val 0 (butlast (drop 6 rng))) (demo_log n)))\<rparr>"

definition demo_reader :: Reader where
  "demo_reader = NewReader\<lparr>rd_Started := True, rd_Name := ''f'', rd_Header := Some [''block_number'', ''a''], rd_Offset := 15\<rparr>"


lemma demo_serves: "serves demo_source ''f'' demo_log"
proof -
  have "ReadHashLogFile demo_source n ''f'' off = Inr (drop (nat off) (demo_log n))" if "0 \<le> off" for n off
    using that decimal_digits[of "nat off"]
    by (auto simp: ReadHashLogFile_def readHashLog_def demo_source_def itoa_def)
  moreover have "prefix (demo_log m) (demo_log n)" if "m \<le> n" for m n
    using that by (auto simp: demo_log_def)
  ultimately show ?thesis by (simp add: serves_def)
qed

theorem tailing_exact_witness:
  "case polls demo_source 2 demo_reader 0 of (r, n, rows, bad) \<Rightarrow>
     bad = 0 \<and> rows = [\<lparr>row_Height = 1, row_Hashes = [(''a'', ''x'')]\<rparr>, \<lparr>row_Height = 2, row_Hashes = [(''a'', ''y'')]\<rparr>]"
proof -
  obtain r n rows bad where p: "polls demo_source (Suc 1) demo_reader 0 = (r, n, rows, bad)" by (metis surj_pair)
  have r: "open_at ''f'' demo_reader" "inside demo_reader (demo_log 0)" "rd_Header demo_reader = Some [''block_number'', ''a'']"
    "\<not> rd_SkipPartial demo_reader" by (code_simp)+
  obtain m where m: "(rows, bad) = parseRows [''block_number'', ''a''] (complete_part (drop (nat (rd_Offset demo_reader)) (demo_log m)))"
    "r = demo_reader\<lparr>rd_Offset := rd_Offset demo_reader + int (length (complete_part (drop (nat (rd_Offset demo_reader)) (demo_log m))))\<rparr>"
    using tailing_exact[OF demo_serves r p] by blast
  have "rd_Offset (fst (polls demo_source (Suc 1) demo_reader 0)) = 23" by code_simp
  then have off: "rd_Offset r = 23" unfolding p by simp
  have short: "m < 2 \<Longrightarrow> demo_log m = demo_log 0" and long: "\<not> m < 2 \<Longrightarrow> demo_log m = demo_log 2" by (auto simp: demo_log_def)
  have "rd_Offset demo_reader + int (length (complete_part (drop (nat (rd_Offset demo_reader)) (demo_log 0)))) = 19" by code_simp
  then have "\<not> m < 2" using off m(2) short by auto
  then have "(rows, bad) = parseRows [''block_number'', ''a''] (complete_part (drop (nat (rd_Offset demo_reader)) (demo_log 2)))"
    using m(1) long by simp
  also have "\<dots> = ([\<lparr>row_Height = 1, row_Hashes = [(''a'', ''x'')]\<rparr>, \<lparr>row_Height = 2, row_Hashes = [(''a'', ''y'')]\<rparr>], 0)" by code_simp
  finally show ?thesis using p by (simp add: numeral_2_eq_2 del: polls.simps)
qed

end
