(* ===== verification/DivergenceProps.thy ===== *)
theory DivergenceProps
  imports HashLogProps
begin

text \<open>
  Over any sequence of polls: the comparator reports a divergence exactly when both nodes delivered rows of one height
  whose comparable columns differ.
\<close>

subsection \<open>What the columns say\<close>

lemma sort_empty: "sort xs = [] \<longleftrightarrow> xs = []"
  by (metis length_0_conv length_sort)

lemma differing_iff:
  assumes "distinct (map fst a)" and "distinct (map fst b)"
  shows "differingColumns a b = [] \<longleftrightarrow> map_of a = map_of b"
proof -
  have "differingColumns a b = [] \<longleftrightarrow>
      (\<forall>(n, v) \<in> set a. map_of b n = Some v) \<and> (\<forall>n \<in> fst ` set b. map_of a n \<noteq> None)"
    by (auto simp: differingColumns_def sort_empty filter_empty_conv)
  also have "\<dots> \<longleftrightarrow> map_of a \<subseteq>\<^sub>m map_of b \<and> dom (map_of b) \<subseteq> dom (map_of a)"
  proof -
    have "(\<forall>(n, v) \<in> set a. map_of b n = Some v) \<longleftrightarrow> map_of a \<subseteq>\<^sub>m map_of b"
    proof
      assume all: "\<forall>(n, v) \<in> set a. map_of b n = Some v"
      show "map_of a \<subseteq>\<^sub>m map_of b" unfolding map_le_def
      proof
        fix n assume "n \<in> dom (map_of a)"
        then obtain v where v: "map_of a n = Some v" by blast
        then have "map_of b n = Some v" using all map_of_SomeD[OF v] by blast
        then show "map_of a n = map_of b n" using v by simp
      qed
    next
      assume le: "map_of a \<subseteq>\<^sub>m map_of b"
      show "\<forall>(n, v) \<in> set a. map_of b n = Some v"
      proof clarify
        fix n v assume "(n, v) \<in> set a"
        then have "map_of a n = Some v" using assms(1) by simp
        then show "map_of b n = Some v" using le by (force simp: map_le_def)
      qed
    qed
    moreover have "(\<forall>n \<in> fst ` set b. map_of a n \<noteq> None) \<longleftrightarrow> dom (map_of b) \<subseteq> dom (map_of a)"
      unfolding dom_map_of_conv_image_fst[of b] by blast
    ultimately show ?thesis by blast
  qed
  also have "\<dots> \<longleftrightarrow> map_of a = map_of b"
    by (metis map_le_antisym map_le_def map_le_implies_dom_le map_le_refl subset_antisym)
  finally show ?thesis .
qed

subsection \<open>Adding rows\<close>

lemma put_new: "k \<notin> fst ` set t \<Longrightarrow> put k v t = t @ [(k, v)]"
  by (induction t) auto

definition rising :: "row_buffer \<Rightarrow> bool" where
  "rising b \<longleftrightarrow> sorted_wrt (<) (map fst b) \<and> list_all (\<lambda>kv. 0 < fst kv) b \<and> length b \<le> maxBufferedRows"

lemma rising_distinct: "rising b \<Longrightarrow> distinct (map fst b)"
  using strict_sorted_iff by (auto simp: rising_def)

lemma rising_append:
  "rising (a @ b) \<Longrightarrow> rising a"
  by (auto simp: rising_def sorted_wrt_append)

lemma rising_above: "rising (a @ b) \<Longrightarrow> (h, x) \<in> set a \<Longrightarrow> (k, y) \<in> set b \<Longrightarrow> h < k"
  by (force simp: rising_def sorted_wrt_append)

lemma add_fold:
  assumes "rising (done_rows @ rows)" and "buf = filter (\<lambda>kv. last_h < fst kv) done_rows"
    and "last_h = 0 \<or> last_h \<in> fst ` set done_rows"
  shows "fold (\<lambda>(h, hs). add_row last_h h hs) rows buf = filter (\<lambda>kv. last_h < fst kv) (done_rows @ rows)"
  using assms
proof (induction rows arbitrary: done_rows buf)
  case Nil
  then show ?case by simp
next
  case (Cons row rows)
  obtain h hs where row: "row = (h, hs)" by (cases row)
  have pos: "0 < h" using Cons.prems(1) row by (simp add: rising_def)
  have below: "k < h" if "(k, y) \<in> set done_rows" for k y using rising_above[OF Cons.prems(1) that, of h hs] row by simp
  have h: "last_h < h" using Cons.prems(3) below pos by auto
  have new: "h \<notin> fst ` set buf" using below Cons.prems(2) by force
  have room: "length buf < maxBufferedRows"
  proof -
    have "length buf \<le> length done_rows" using Cons.prems(2) by simp
    then show ?thesis using Cons.prems(1) by (simp add: rising_def)
  qed
  have step: "add_row last_h h hs buf = filter (\<lambda>kv. last_h < fst kv) (done_rows @ [row])"
    using h new room Cons.prems(2) row by (simp add: add_row_def Let_def put_new)
  have "fold (\<lambda>(h, hs). add_row last_h h hs) rows (add_row last_h h hs buf) =
      filter (\<lambda>kv. last_h < fst kv) ((done_rows @ [row]) @ rows)"
    by (rule Cons.IH) (use Cons.prems step in auto)
  then show ?case by (simp add: row)
qed

subsection \<open>Comparing\<close>

definition differ_at :: "row_buffer \<Rightarrow> row_buffer \<Rightarrow> int \<Rightarrow> bool" where
  "differ_at dm dr h \<longleftrightarrow>
     (\<exists>a b. map_of dm h = Some a \<and> map_of dr h = Some b \<and> differingColumns a b \<noteq> [])"

lemma row_at_without: "k \<noteq> h \<Longrightarrow> row_at (without h b) k = row_at b k"
  by (induction b) (auto simp: row_at_def without_def)

lemma fold_compare:
  assumes "distinct hs" and "fold compare_height hs (s, res) = (s1, res1)"
  shows "ps_Migrating s1 = filter (\<lambda>kv. fst kv \<notin> set hs) (ps_Migrating s)"
    and "ps_Reserve s1 = filter (\<lambda>kv. fst kv \<notin> set hs) (ps_Reserve s)"
    and "ps_LastCompared s1 = (if hs = [] then ps_LastCompared s else last hs)"
    and "cr_Mismatches res1 \<noteq> [] \<longleftrightarrow> cr_Mismatches res \<noteq> [] \<or>
      (\<exists>h \<in> set hs. differingColumns (row_at (ps_Migrating s) h) (row_at (ps_Reserve s) h) \<noteq> [])"
proof -
  have "ps_Migrating s1 = filter (\<lambda>kv. fst kv \<notin> set hs) (ps_Migrating s) \<and>
    ps_Reserve s1 = filter (\<lambda>kv. fst kv \<notin> set hs) (ps_Reserve s) \<and>
    ps_LastCompared s1 = (if hs = [] then ps_LastCompared s else last hs) \<and>
    (cr_Mismatches res1 \<noteq> [] \<longleftrightarrow> cr_Mismatches res \<noteq> [] \<or>
      (\<exists>h \<in> set hs. differingColumns (row_at (ps_Migrating s) h) (row_at (ps_Reserve s) h) \<noteq> []))"
    using assms
  proof (induction hs arbitrary: s res)
    case Nil
    then show ?case by simp
  next
    case (Cons h hs)
    obtain s2 res2 where c: "compare_height h (s, res) = (s2, res2)" by (metis surj_pair)
    have two: "ps_Migrating s2 = without h (ps_Migrating s)" "ps_Reserve s2 = without h (ps_Reserve s)" "ps_LastCompared s2 = h"
      "cr_Mismatches res2 \<noteq> [] \<longleftrightarrow> cr_Mismatches res \<noteq> [] \<or>
        differingColumns (row_at (ps_Migrating s) h) (row_at (ps_Reserve s) h) \<noteq> []"
      using c by (auto simp: compare_height_def Let_def)
    have same: "row_at (ps_Migrating s2) k = row_at (ps_Migrating s) k" "row_at (ps_Reserve s2) k = row_at (ps_Reserve s) k"
      if "k \<in> set hs" for k
    proof -
      have "k \<noteq> h" using that Cons.prems(1) by auto
      then show "row_at (ps_Migrating s2) k = row_at (ps_Migrating s) k" "row_at (ps_Reserve s2) k = row_at (ps_Reserve s) k"
        by (simp_all add: two row_at_without)
    qed
    have "distinct hs" "fold compare_height hs (s2, res2) = (s1, res1)" using Cons.prems c by simp_all
    note ih = Cons.IH[OF this]
    show ?case using ih two same by (auto simp: without_def filter_filter conj_commute intro!: filter_cong)
  qed
  then show "ps_Migrating s1 = filter (\<lambda>kv. fst kv \<notin> set hs) (ps_Migrating s)"
    "ps_Reserve s1 = filter (\<lambda>kv. fst kv \<notin> set hs) (ps_Reserve s)"
    "ps_LastCompared s1 = (if hs = [] then ps_LastCompared s else last hs)"
    "cr_Mismatches res1 \<noteq> [] \<longleftrightarrow> cr_Mismatches res \<noteq> [] \<or>
      (\<exists>h \<in> set hs. differingColumns (row_at (ps_Migrating s) h) (row_at (ps_Reserve s) h) \<noteq> [])" by blast+
qed

text \<open>The state of a pair after all it was given: rows above the last compared height, and no height left to compare.\<close>

definition pair_settled :: "row_buffer \<Rightarrow> row_buffer \<Rightarrow> pairState \<times> pair_metrics \<Rightarrow> bool" where
  "pair_settled dm dr sm \<longleftrightarrow>
     ps_Migrating (fst sm) = filter (\<lambda>kv. ps_LastCompared (fst sm) < fst kv) dm \<and>
     ps_Reserve (fst sm) = filter (\<lambda>kv. ps_LastCompared (fst sm) < fst kv) dr \<and>
     0 \<le> ps_LastCompared (fst sm) \<and>
     (ps_LastCompared (fst sm) = 0 \<or> ps_LastCompared (fst sm) \<in> fst ` set dm \<inter> fst ` set dr) \<and>
     fst ` set dm \<inter> fst ` set dr \<subseteq> {.. ps_LastCompared (fst sm)} \<and>
     (pm_Diverged (snd sm) \<longleftrightarrow> (\<exists>h. differ_at dm dr h))"

lemma diverged_recorded: "pm_Diverged (record_result now s res m) \<longleftrightarrow> pm_Diverged m \<or> cr_Mismatches res \<noteq> []"
proof -
  have "pm_Diverged (fold record_mismatch mms m) \<longleftrightarrow> pm_Diverged m \<or> mms \<noteq> []" for mms m
    by (induction mms arbitrary: m) (auto simp: record_mismatch_def)
  then show ?thesis by (simp add: record_result_def Let_def)
qed


lemma common_set: "set (common_heights s) = fst ` set (ps_Migrating s) \<inter> fst ` set (ps_Reserve s)"
  by (auto simp: common_heights_def map_of_eq_None_iff)

lemma common_distinct: "distinct (map fst (ps_Migrating s)) \<Longrightarrow> distinct (common_heights s)"
  by (simp add: common_heights_def)

lemma last_sorted: "sorted hs \<Longrightarrow> h \<in> set hs \<Longrightarrow> h \<le> last hs"
  by (cases hs rule: rev_cases) (auto simp: sorted_append)

lemma map_of_filter_above: "map_of (filter (\<lambda>kv. l < fst kv) b) h = (if (l::int) < h then map_of b h else None)"
  by (induction b) auto

lemma keys_above: "fst ` set (filter (\<lambda>kv. l < fst kv) b) = fst ` set b \<inter> {l <..}"
  by force

lemma row_at_known: "map_of b h = Some a \<Longrightarrow> row_at b h = a"
  by (simp add: row_at_def)

lemma differ_keys: "differ_at dm dr h \<Longrightarrow> h \<in> fst ` set dm \<inter> fst ` set dr"
  by (force simp: differ_at_def dest: map_of_SomeD)

lemma compare_pair_eq:
  assumes "fold compare_height (common_heights s)
      (s, \<lparr>cr_Compared = 0, cr_Mismatches = [], cr_MigratingGaps = 0, cr_ReserveGaps = 0\<rparr>) = (s2, res2)"
    and "compare_pair s = (s1, res)"
  shows "ps_Migrating s1 = filter (\<lambda>kv. ps_LastCompared s2 < fst kv) (ps_Migrating s2)"
    "ps_Reserve s1 = filter (\<lambda>kv. ps_LastCompared s2 < fst kv) (ps_Reserve s2)"
    "ps_LastCompared s1 = ps_LastCompared s2" "cr_Mismatches res = cr_Mismatches res2"
  using assms(2) unfolding compare_pair_def assms(1) by (auto simp: prune_def)

text \<open>Comparing settles a pair that holds every row above the last compared height.\<close>

lemma compare_settles:
  assumes buf: "ps_Migrating s = filter (\<lambda>kv. ps_LastCompared s < fst kv) dm" "ps_Reserve s = filter (\<lambda>kv. ps_LastCompared s < fst kv) dr"
    and keys: "distinct (map fst dm)" and low: "0 \<le> ps_LastCompared s"
    and last_ok: "ps_LastCompared s = 0 \<or> ps_LastCompared s \<in> fst ` set dm \<inter> fst ` set dr"
    and old: "pm_Diverged m \<longleftrightarrow> (\<exists>h \<le> ps_LastCompared s. differ_at dm dr h)"
    and run: "compare_pair s = (s1, res)"
  shows "pair_settled dm dr (s1, record_result now s1 res m)"
proof -
  let ?l = "ps_LastCompared s" let ?hs = "common_heights s"
  have hs: "set ?hs = fst ` set dm \<inter> fst ` set dr \<inter> {?l <..}" using buf by (auto simp: common_set keys_above)
  have dist: "distinct ?hs" using keys buf(1) by (intro common_distinct) (simp add: distinct_map_filter)
  obtain s2 res2 where f: "fold compare_height ?hs
      (s, \<lparr>cr_Compared = 0, cr_Mismatches = [], cr_MigratingGaps = 0, cr_ReserveGaps = 0\<rparr>) = (s2, res2)" by (metis surj_pair)
  note fc = fold_compare[OF dist f]
  let ?l1 = "if ?hs = [] then ?l else last ?hs"
  note eq = compare_pair_eq[OF f run]
  have l1: "ps_LastCompared s1 = ?l1" using eq(3) fc(3) by simp
  have srt: "sorted ?hs" by (simp add: common_heights_def)
  have top: "?hs \<noteq> [] \<Longrightarrow> last ?hs \<in> set ?hs" by simp
  have up: "?l \<le> ?l1"
  proof (cases "?hs = []")
    case False
    then have "last ?hs \<in> {?l <..}" using top hs by blast
    then show ?thesis using False by simp
  qed simp
  have covered: "h \<le> ?l1" if "h \<in> set ?hs" for h
  proof -
    have "?hs \<noteq> []" using that by auto
    then show ?thesis using last_sorted[OF srt that] by simp
  qed
  have keep: "filter (\<lambda>kv. ?l1 < fst kv) (filter (\<lambda>kv. fst kv \<notin> set ?hs) (filter (\<lambda>kv. ?l < fst kv) b)) = filter (\<lambda>kv. ?l1 < fst kv) b" for b :: row_buffer
  proof -
    have "(?l < k \<and> k \<notin> set ?hs \<and> ?l1 < k) = (?l1 < k)" for k using up covered[of k] by (cases "?l1 < k") auto
    then show ?thesis by (simp only: filter_filter conj_assoc)
  qed
  have bufs: "ps_Migrating s1 = filter (\<lambda>kv. ?l1 < fst kv) dm" "ps_Reserve s1 = filter (\<lambda>kv. ?l1 < fst kv) dr"
    using eq(1,2) fc(1,2,3) keep[of dm] keep[of dr] by (simp_all add: buf)
  have mism: "cr_Mismatches res \<noteq> [] \<longleftrightarrow> (\<exists>h \<in> set ?hs. differ_at dm dr h)"
  proof -
    have "differingColumns (row_at (ps_Migrating s) h) (row_at (ps_Reserve s) h) \<noteq> [] \<longleftrightarrow> differ_at dm dr h" if "h \<in> set ?hs" for h
    proof -
      have h: "?l < h" "h \<in> fst ` set dm" "h \<in> fst ` set dr" using that hs by auto
      then obtain a b where "map_of dm h = Some a" "map_of dr h = Some b" by (metis map_of_eq_None_iff not_None_eq)
      then show ?thesis using h(1) by (simp add: buf row_at_def map_of_filter_above differ_at_def)
    qed
    then show ?thesis using eq(4) fc(4) by auto
  qed
  have "h \<in> set ?hs" if "differ_at dm dr h" "\<not> h \<le> ?l" for h using differ_keys[OF that(1)] that(2) hs by auto
  then have "pm_Diverged m \<or> cr_Mismatches res \<noteq> [] \<longleftrightarrow> (\<exists>h. differ_at dm dr h)" using old mism by blast
  moreover have "fst ` set dm \<inter> fst ` set dr \<subseteq> {..?l1}"
  proof
    fix h assume "h \<in> fst ` set dm \<inter> fst ` set dr"
    then have "h \<in> set ?hs \<or> h \<le> ?l" unfolding hs by auto
    then show "h \<in> {..?l1}" using covered[of h] up unfolding atMost_iff by linarith
  qed
  moreover have "?l1 = 0 \<or> ?l1 \<in> fst ` set dm \<inter> fst ` set dr" using last_ok hs top by auto
  ultimately show ?thesis using bufs l1 up low by (auto simp: pair_settled_def diverged_recorded)
qed

subsection \<open>All polls\<close>

definition rows_of :: "role \<Rightarrow> delivery \<Rightarrow> row_buffer" where
  "rows_of role d = List.map_filter usable (fst (case role of RoleMigrating \<Rightarrow> dv_Migrating d | RoleReserve \<Rightarrow> dv_Reserve d))"

definition delivered :: "role \<Rightarrow> delivery list \<Rightarrow> row_buffer" where
  "delivered role ds = concat (map (rows_of role) ds)"

lemma read_side_state: "fst (read_side ended role (rows, bad, err) (s, m)) = add_all role (List.map_filter usable rows) s"
  by (simp add: read_side_def Let_def)

lemma read_side_diverged: "pm_Diverged (snd (read_side ended role found (s, m))) = pm_Diverged m"
  by (auto simp: read_side_def Let_def count_error_def note_height_def split: prod.splits option.splits)

text \<open>New rows lie above the last compared height.\<close>

lemma older:
  assumes "rising (b @ rows)" and "h \<le> l" and "0 \<le> l" and "l = 0 \<or> l \<in> fst ` set b"
  shows "map_of (b @ rows) h = map_of b h"
proof -
  have "h \<notin> fst ` set rows"
  proof
    assume "h \<in> fst ` set rows"
    then obtain x where x: "(h, x) \<in> set rows" by force
    then have "0 < h" using assms(1) by (force simp: rising_def list_all_iff)
    moreover have "l < h" if "l \<in> fst ` set b" using that rising_above[OF assms(1) _ x] by force
    ultimately show False using assms(2,4) by auto
  qed
  then have "map_of rows h = None" by (simp add: map_of_eq_None_iff)
  then show ?thesis by (auto simp: map_add_def split: option.splits)
qed

lemma poll_settles:
  assumes "pair_settled dm dr sm" and "rising (dm @ rows_of RoleMigrating d)" and "rising (dr @ rows_of RoleReserve d)"
  shows "pair_settled (dm @ rows_of RoleMigrating d) (dr @ rows_of RoleReserve d) (poll_delivered d sm)"
proof -
  obtain s m where sm: "sm = (s, m)" by (cases sm)
  let ?rm = "rows_of RoleMigrating d" let ?rr = "rows_of RoleReserve d" let ?l = "ps_LastCompared s"
  obtain s2 m2 where rd: "read_side (dv_Ended d) RoleReserve (dv_Reserve d) (read_side (dv_Ended d) RoleMigrating (dv_Migrating d) sm) = (s2, m2)"
    by (metis surj_pair)
  obtain s1 m1 where rd1: "read_side (dv_Ended d) RoleMigrating (dv_Migrating d) sm = (s1, m1)" by (metis surj_pair)
  obtain rows_m bad_m err_m where dm: "dv_Migrating d = (rows_m, bad_m, err_m)" by (metis surj_pair)
  obtain rows_r bad_r err_r where dr: "dv_Reserve d = (rows_r, bad_r, err_r)" by (metis surj_pair)
  have s1: "s1 = add_all RoleMigrating ?rm s" "pm_Diverged m1 = pm_Diverged m"
    using arg_cong[OF rd1, of fst] arg_cong[OF rd1, of "\<lambda>x. pm_Diverged (snd x)"]
    unfolding sm dm read_side_state read_side_diverged by (simp_all add: rows_of_def dm)
  have s2: "s2 = add_all RoleReserve ?rr s1" "pm_Diverged m2 = pm_Diverged m1"
    using arg_cong[OF rd, of fst] arg_cong[OF rd, of "\<lambda>x. pm_Diverged (snd x)"]
    unfolding rd1 dr read_side_state read_side_diverged by (simp_all add: rows_of_def dr)
  have inv: "ps_Migrating s = filter (\<lambda>kv. ?l < fst kv) dm" "ps_Reserve s = filter (\<lambda>kv. ?l < fst kv) dr" "0 \<le> ?l"
    "?l = 0 \<or> ?l \<in> fst ` set dm \<inter> fst ` set dr" "fst ` set dm \<inter> fst ` set dr \<subseteq> {..?l}" "pm_Diverged m \<longleftrightarrow> (\<exists>h. differ_at dm dr h)"
    using assms(1) sm by (auto simp: pair_settled_def)
  have state: "ps_Migrating s2 = filter (\<lambda>kv. ?l < fst kv) (dm @ ?rm)" "ps_Reserve s2 = filter (\<lambda>kv. ?l < fst kv) (dr @ ?rr)" "ps_LastCompared s2 = ?l"
    using add_fold[OF assms(2) inv(1)] add_fold[OF assms(3) inv(2)] inv(4)
    by (auto simp: s2 s1 add_all_def set_side_def side_def)
  have "pm_Diverged m2 \<longleftrightarrow> (\<exists>h \<le> ?l. differ_at (dm @ ?rm) (dr @ ?rr) h)"
  proof -
    have part: "differ_at (dm @ ?rm) (dr @ ?rr) h \<longleftrightarrow> differ_at dm dr h" if "h \<le> ?l" for h
    proof -
      have "map_of (dm @ ?rm) h = map_of dm h" "map_of (dr @ ?rr) h = map_of dr h"
        using older[OF assms(2) that inv(3)] older[OF assms(3) that inv(3)] inv(4) by blast+
      then show ?thesis by (simp only: differ_at_def)
    qed
    have "differ_at dm dr h \<Longrightarrow> h \<le> ?l" for h using differ_keys inv(5) by blast
    then show ?thesis using part inv(6) s1(2) s2(2) by blast
  qed
  then have ok: "compare_pair s2 = (s3, res) \<Longrightarrow> pair_settled (dm @ ?rm) (dr @ ?rr) (s3, record_result (dv_Now d) s3 res m2)" for s3 res
    using compare_settles[of s2 "dm @ ?rm" "dr @ ?rr" m2 s3 res "dv_Now d"] state inv(3,4) rising_distinct[OF assms(2)] by auto
  obtain s3 res where "compare_pair s2 = (s3, res)" by (metis surj_pair)
  then show ?thesis using ok rd by (simp add: poll_delivered_def)
qed

lemma polls_settle:
  assumes "rising (delivered RoleMigrating ds)" and "rising (delivered RoleReserve ds)"
  shows "pair_settled (delivered RoleMigrating ds) (delivered RoleReserve ds) (fold poll_delivered ds (newPairState, initPair now))"
  using assms
proof (induction ds rule: rev_induct)
  case Nil
  then show ?case by (simp add: pair_settled_def delivered_def newPairState_def initPair_def differ_at_def)
next
  case (snoc d ds)
  have "pair_settled (delivered RoleMigrating ds) (delivered RoleReserve ds) (fold poll_delivered ds (newPairState, initPair now))"
    using snoc.prems by (intro snoc.IH) (auto simp: delivered_def dest: rising_append)
  from poll_settles[OF this, of d] show ?case using snoc.prems by (simp add: delivered_def)
qed

text \<open>Rows as the reader delivers them: each column once.\<close>

lemma put_fold_distinct: "distinct (map fst t) \<Longrightarrow> distinct (map fst (fold (\<lambda>(k, v). put k v) kvs t))"
  by (induction kvs arbitrary: t) (auto simp: distinct_put)

lemma usable_distinct:
  assumes "usable row = Some (h, hs)" and "distinct (map fst (row_Hashes row))"
  shows "distinct (map fst hs)"
proof -
  let ?r = "row_Hashes row"
  have hs: "hs = filter (\<lambda>kv. fst kv \<in> set baseComparable) ?r @ filter (\<lambda>kv. module_column (fst kv)) ?r"
    using assms(1) by (auto simp: usable_def ComparableHashes_def Let_def split: sum.splits if_splits)
  have "\<not> module_column n" if "n \<in> set baseComparable" for n
    using that by (auto simp: baseComparable_def module_column_def has_prefix.simps memIAVLModulePrefix_def ColumnBlockHash_def
        ColumnChangeset_def ColumnResultHash_def)
  then show ?thesis using assms(2) unfolding hs by (auto simp: distinct_map_filter)
qed

definition columns_once :: "delivery \<Rightarrow> bool" where
  "columns_once d \<longleftrightarrow>
     list_all (\<lambda>row. distinct (map fst (row_Hashes row))) (fst (dv_Migrating d) @ fst (dv_Reserve d))"

lemma delivered_distinct:
  assumes "list_all columns_once ds" and "(h, hs) \<in> set (delivered role ds)"
  shows "distinct (map fst hs)"
proof -
  obtain d row where d: "d \<in> set ds" "row \<in> set (fst (dv_Migrating d)) \<union> set (fst (dv_Reserve d))" "usable row = Some (h, hs)"
    using assms(2) that by (cases role) (force simp: delivered_def rows_of_def List.map_filter_def)+
  then show ?thesis using assms(1) by (intro usable_distinct[OF d(3)]) (auto simp: list_all_iff columns_once_def)
qed

text \<open>
  C31. The divergence gauge is exact.  Over any sequence of polls, with any errors and unusable lines in between, of two
  logs whose heights are positive and rise and of which no more than the buffer's bound is delivered: the gauge is set if
  and only if both nodes delivered a row of one height with different comparable columns.  It depends neither on how the
  rows are spread over the polls nor on which side is ahead.
\<close>

theorem divergence_exact:
  assumes "rising (delivered RoleMigrating ds)" and "rising (delivered RoleReserve ds)" and "list_all columns_once ds"
  shows "pm_Diverged (snd (fold poll_delivered ds (newPairState, initPair now))) \<longleftrightarrow>
    (\<exists>h a b. (h, a) \<in> set (delivered RoleMigrating ds) \<and> (h, b) \<in> set (delivered RoleReserve ds) \<and> map_of a \<noteq> map_of b)"
proof -
  let ?dm = "delivered RoleMigrating ds" and ?dr = "delivered RoleReserve ds"
  have at: "map_of b h = Some x \<longleftrightarrow> (h, x) \<in> set b" if "rising b" for b h x
    using rising_distinct[OF that] by simp
  have "(\<exists>h. differ_at ?dm ?dr h) \<longleftrightarrow> (\<exists>h a b. (h, a) \<in> set ?dm \<and> (h, b) \<in> set ?dr \<and> map_of a \<noteq> map_of b)"
    unfolding differ_at_def at[OF assms(1)] at[OF assms(2)]
    using differing_iff delivered_distinct[OF assms(3)] by metis
  then show ?thesis using polls_settle[OF assms(1,2), of now] by (simp add: pair_settled_def)
qed

definition demo_row :: "int \<Rightarrow> string \<Rightarrow> Row" where
  "demo_row h bank =
     \<lparr>row_Height = h, row_Hashes = [(''blockHash'', ''b''), (''changeset'', ''c''), (''resultHash'', ''r''), (''memIAVL/mod/bank'', bank)]\<rparr>"

definition demo_deliveries :: "delivery list" where
  "demo_deliveries =
     [\<lparr>dv_Now = 1, dv_Ended = False, dv_Migrating = ([demo_row 7 ''x'', demo_row 8 ''y''], 0, None), dv_Reserve = ([], 0, Some HashLogNotFound)\<rparr>,
      \<lparr>dv_Now = 2, dv_Ended = False, dv_Migrating = ([], 0, None), dv_Reserve = ([demo_row 7 ''x'', demo_row 8 ''z''], 1, None)\<rparr>]"

theorem divergence_exact_witness:
  "pm_Diverged (snd (fold poll_delivered demo_deliveries (newPairState, initPair 0)))"
proof -
  have rows: "delivered RoleMigrating demo_deliveries = [(7, row_Hashes (demo_row 7 ''x'')), (8, row_Hashes (demo_row 8 ''y''))]"
    "delivered RoleReserve demo_deliveries = [(7, row_Hashes (demo_row 7 ''x'')), (8, row_Hashes (demo_row 8 ''z''))]" by code_simp+
  have "rising (delivered RoleMigrating demo_deliveries)" "rising (delivered RoleReserve demo_deliveries)"
    by (simp_all add: rows rising_def maxBufferedRows_def)
  moreover have "list_all columns_once demo_deliveries" by code_simp
  ultimately have "pm_Diverged (snd (fold poll_delivered demo_deliveries (newPairState, initPair 0))) \<longleftrightarrow>
    (\<exists>h a b. (h, a) \<in> set (delivered RoleMigrating demo_deliveries) \<and> (h, b) \<in> set (delivered RoleReserve demo_deliveries) \<and> map_of a \<noteq> map_of b)"
    by (rule divergence_exact)
  moreover have "map_of (row_Hashes (demo_row 8 ''y'')) ''memIAVL/mod/bank'' \<noteq> map_of (row_Hashes (demo_row 8 ''z'')) ''memIAVL/mod/bank''"
    by code_simp
  then have "map_of (row_Hashes (demo_row 8 ''y'')) \<noteq> map_of (row_Hashes (demo_row 8 ''z''))" by metis
  ultimately show ?thesis unfolding rows by (metis list.set_intros)
qed

end
