(* ===== verification/GovHandlers.thy ===== *)
theory GovHandlers
  imports SignTx RequestTypes GoJson ConfigOverlay
begin

text \<open>
  The sidecar's transaction handlers (\<open>sidecar/tasks/gov_vote.go\<close>, \<open>gov_param_change.go\<close>, \<open>gov_software_upgrade.go\<close>,
  \<open>gov_update_instantiate_config.go\<close>, \<open>unjail.go\<close>) and the requests the client sends them
  (\<open>sidecarapi/client/tasks.go\<close>).  The handlers' request structs have the fields of the client's.  The keyring, the
  addresses and messages of the Cosmos SDK are the record \<open>gov_sdk\<close>; chain queries are answers given to the handler.
\<close>

subsection \<open>Requests on the wire\<close>

definition str_member :: "string \<Rightarrow> string \<Rightarrow> table" where "str_member k s = [(k, JString s)]"
definition num_member :: "string \<Rightarrow> nat \<Rightarrow> table" where "num_member k n = [(k, JNumber (show_nat n))]"
definition opt_member :: "string \<Rightarrow> string \<Rightarrow> table" where "opt_member k s = (if s = [] then [] else [(k, JString s)])"

definition GovVoteTask_params :: "GovVoteTask \<Rightarrow> table" where
  "GovVoteTask_params t =
     str_member ''chainId'' (gv_ChainID t) @ str_member ''keyName'' (gv_KeyName t) @ num_member ''proposalId'' (gv_ProposalID t) @
     str_member ''option'' (gv_Option t) @ str_member ''fees'' (gv_Fees t) @ num_member ''gas'' (gv_Gas t) @ opt_member ''memo'' (gv_Memo t)"

definition UnjailTask_params :: "UnjailTask \<Rightarrow> table" where
  "UnjailTask_params t =
     str_member ''chainId'' (uj_ChainID t) @ str_member ''keyName'' (uj_KeyName t) @ str_member ''fees'' (uj_Fees t) @
     num_member ''gas'' (uj_Gas t) @ opt_member ''memo'' (uj_Memo t)"

definition GovSoftwareUpgradeTask_params :: "GovSoftwareUpgradeTask \<Rightarrow> table" where
  "GovSoftwareUpgradeTask_params t =
     str_member ''chainId'' (gsu_ChainID t) @ str_member ''keyName'' (gsu_KeyName t) @ str_member ''title'' (gsu_Title t) @
     str_member ''description'' (gsu_Description t) @ str_member ''upgradeName'' (gsu_UpgradeName t) @
     [(''upgradeHeight'', JNumber (itoa (gsu_UpgradeHeight t)))] @ str_member ''initialDeposit'' (gsu_InitialDeposit t) @
     str_member ''fees'' (gsu_Fees t) @ num_member ''gas'' (gsu_Gas t) @ opt_member ''upgradeInfo'' (gsu_UpgradeInfo t) @
     opt_member ''memo'' (gsu_Memo t)"

text \<open>A nil \<open>json.RawMessage\<close> is marshalled as null.\<close>

definition change_json :: "ParamChangeInput \<Rightarrow> json" where
  "change_json c =
     JObject [(''subspace'', JString (pci_Subspace c)), (''key'', JString (pci_Key c)),
              (''value'', case pci_Value c of None \<Rightarrow> JNull | Some j \<Rightarrow> j)]"

definition GovParamChangeTask_params :: "GovParamChangeTask \<Rightarrow> table" where
  "GovParamChangeTask_params t =
     str_member ''chainId'' (gpc_ChainID t) @ str_member ''keyName'' (gpc_KeyName t) @ str_member ''title'' (gpc_Title t) @
     str_member ''description'' (gpc_Description t) @ [(''changes'', JArray (map change_json (gpc_Changes t)))] @
     str_member ''initialDeposit'' (gpc_InitialDeposit t) @ str_member ''fees'' (gpc_Fees t) @ num_member ''gas'' (gpc_Gas t) @
     opt_member ''memo'' (gpc_Memo t)"

definition update_json :: "InstantiateConfigUpdateInput \<Rightarrow> json" where
  "update_json u = JObject [(''codeId'', JNumber (show_nat (icu_CodeID u))), (''permission'', JString (icu_Permission u))]"

definition GovUpdateInstantiateConfigTask_params :: "GovUpdateInstantiateConfigTask \<Rightarrow> table" where
  "GovUpdateInstantiateConfigTask_params t =
     str_member ''chainId'' (guc_ChainID t) @ str_member ''keyName'' (guc_KeyName t) @ str_member ''title'' (guc_Title t) @
     str_member ''description'' (guc_Description t) @ [(''updates'', JArray (map update_json (guc_Updates t)))] @
     str_member ''initialDeposit'' (guc_InitialDeposit t) @ str_member ''fees'' (guc_Fees t) @ num_member ''gas'' (guc_Gas t) @
     opt_member ''memo'' (guc_Memo t)"

subsection \<open>Decoding them\<close>

definition GovVoteRequest_fields :: "GovVoteTask fields" where
  "GovVoteRequest_fields =
     [(''chainId'', field dec_string gv_ChainID (\<lambda>v. gv_ChainID_update (\<lambda>_. v))),
      (''keyName'', field dec_string gv_KeyName (\<lambda>v. gv_KeyName_update (\<lambda>_. v))),
      (''proposalId'', field (dec_uint 64) gv_ProposalID (\<lambda>v. gv_ProposalID_update (\<lambda>_. v))),
      (''option'', field dec_string gv_Option (\<lambda>v. gv_Option_update (\<lambda>_. v))),
      (''memo'', field dec_string gv_Memo (\<lambda>v. gv_Memo_update (\<lambda>_. v))),
      (''fees'', field dec_string gv_Fees (\<lambda>v. gv_Fees_update (\<lambda>_. v))),
      (''gas'', field (dec_uint 64) gv_Gas (\<lambda>v. gv_Gas_update (\<lambda>_. v)))]"

definition decode_GovVoteRequest :: "json \<Rightarrow> GovVoteTask result" where
  "decode_GovVoteRequest =
     decode_struct ''GovVoteRequest'' GovVoteRequest_fields
       \<lparr>gv_ChainID = [], gv_KeyName = [], gv_ProposalID = 0, gv_Option = [], gv_Memo = [], gv_Fees = [], gv_Gas = 0\<rparr>"

definition UnjailRequest_fields :: "UnjailTask fields" where
  "UnjailRequest_fields =
     [(''chainId'', field dec_string uj_ChainID (\<lambda>v. uj_ChainID_update (\<lambda>_. v))),
      (''keyName'', field dec_string uj_KeyName (\<lambda>v. uj_KeyName_update (\<lambda>_. v))),
      (''memo'', field dec_string uj_Memo (\<lambda>v. uj_Memo_update (\<lambda>_. v))),
      (''fees'', field dec_string uj_Fees (\<lambda>v. uj_Fees_update (\<lambda>_. v))),
      (''gas'', field (dec_uint 64) uj_Gas (\<lambda>v. uj_Gas_update (\<lambda>_. v)))]"

definition decode_UnjailRequest :: "json \<Rightarrow> UnjailTask result" where
  "decode_UnjailRequest =
     decode_struct ''UnjailRequest'' UnjailRequest_fields
       \<lparr>uj_ChainID = [], uj_KeyName = [], uj_Memo = [], uj_Fees = [], uj_Gas = 0\<rparr>"

definition GovSoftwareUpgradeRequest_fields :: "GovSoftwareUpgradeTask fields" where
  "GovSoftwareUpgradeRequest_fields =
     [(''chainId'', field dec_string gsu_ChainID (\<lambda>v. gsu_ChainID_update (\<lambda>_. v))),
      (''keyName'', field dec_string gsu_KeyName (\<lambda>v. gsu_KeyName_update (\<lambda>_. v))),
      (''title'', field dec_string gsu_Title (\<lambda>v. gsu_Title_update (\<lambda>_. v))),
      (''description'', field dec_string gsu_Description (\<lambda>v. gsu_Description_update (\<lambda>_. v))),
      (''upgradeName'', field dec_string gsu_UpgradeName (\<lambda>v. gsu_UpgradeName_update (\<lambda>_. v))),
      (''upgradeHeight'', field dec_int64 gsu_UpgradeHeight (\<lambda>v. gsu_UpgradeHeight_update (\<lambda>_. v))),
      (''upgradeInfo'', field dec_string gsu_UpgradeInfo (\<lambda>v. gsu_UpgradeInfo_update (\<lambda>_. v))),
      (''initialDeposit'', field dec_string gsu_InitialDeposit (\<lambda>v. gsu_InitialDeposit_update (\<lambda>_. v))),
      (''memo'', field dec_string gsu_Memo (\<lambda>v. gsu_Memo_update (\<lambda>_. v))),
      (''fees'', field dec_string gsu_Fees (\<lambda>v. gsu_Fees_update (\<lambda>_. v))),
      (''gas'', field (dec_uint 64) gsu_Gas (\<lambda>v. gsu_Gas_update (\<lambda>_. v)))]"

definition decode_GovSoftwareUpgradeRequest :: "json \<Rightarrow> GovSoftwareUpgradeTask result" where
  "decode_GovSoftwareUpgradeRequest =
     decode_struct ''GovSoftwareUpgradeRequest'' GovSoftwareUpgradeRequest_fields
       \<lparr>gsu_ChainID = [], gsu_KeyName = [], gsu_Title = [], gsu_Description = [], gsu_UpgradeName = [], gsu_UpgradeHeight = 0,
        gsu_UpgradeInfo = [], gsu_InitialDeposit = [], gsu_Memo = [], gsu_Fees = [], gsu_Gas = 0\<rparr>"

definition paramChange_fields :: "ParamChangeInput fields" where
  "paramChange_fields =
     [(''subspace'', field dec_string pci_Subspace (\<lambda>v. pci_Subspace_update (\<lambda>_. v))),
      (''key'', field dec_string pci_Key (\<lambda>v. pci_Key_update (\<lambda>_. v))),
      (''value'', \<lambda>r j. Ok (r\<lparr>pci_Value := Some j\<rparr>))]"

definition dec_change :: "ParamChangeInput \<Rightarrow> json \<Rightarrow> ParamChangeInput result" where
  "dec_change old j = decode_struct ''paramChange'' paramChange_fields old j"

definition zero_change :: ParamChangeInput where "zero_change = \<lparr>pci_Subspace = [], pci_Key = [], pci_Value = None\<rparr>"

definition GovParamChangeRequest_fields :: "GovParamChangeTask fields" where
  "GovParamChangeRequest_fields =
     [(''chainId'', field dec_string gpc_ChainID (\<lambda>v. gpc_ChainID_update (\<lambda>_. v))),
      (''keyName'', field dec_string gpc_KeyName (\<lambda>v. gpc_KeyName_update (\<lambda>_. v))),
      (''title'', field dec_string gpc_Title (\<lambda>v. gpc_Title_update (\<lambda>_. v))),
      (''description'', field dec_string gpc_Description (\<lambda>v. gpc_Description_update (\<lambda>_. v))),
      (''changes'', field (dec_list dec_change zero_change) gpc_Changes (\<lambda>v. gpc_Changes_update (\<lambda>_. v))),
      (''initialDeposit'', field dec_string gpc_InitialDeposit (\<lambda>v. gpc_InitialDeposit_update (\<lambda>_. v))),
      (''memo'', field dec_string gpc_Memo (\<lambda>v. gpc_Memo_update (\<lambda>_. v))),
      (''fees'', field dec_string gpc_Fees (\<lambda>v. gpc_Fees_update (\<lambda>_. v))),
      (''gas'', field (dec_uint 64) gpc_Gas (\<lambda>v. gpc_Gas_update (\<lambda>_. v)))]"

definition decode_GovParamChangeRequest :: "json \<Rightarrow> GovParamChangeTask result" where
  "decode_GovParamChangeRequest =
     decode_struct ''GovParamChangeRequest'' GovParamChangeRequest_fields
       \<lparr>gpc_ChainID = [], gpc_KeyName = [], gpc_Title = [], gpc_Description = [], gpc_Changes = [], gpc_InitialDeposit = [],
        gpc_Memo = [], gpc_Fees = [], gpc_Gas = 0\<rparr>"

definition configUpdate_fields :: "InstantiateConfigUpdateInput fields" where
  "configUpdate_fields =
     [(''codeId'', field (dec_uint 64) icu_CodeID (\<lambda>v. icu_CodeID_update (\<lambda>_. v))),
      (''permission'', field dec_string icu_Permission (\<lambda>v. icu_Permission_update (\<lambda>_. v)))]"

definition dec_update :: "InstantiateConfigUpdateInput \<Rightarrow> json \<Rightarrow> InstantiateConfigUpdateInput result" where
  "dec_update old j = decode_struct ''instantiateConfigUpdate'' configUpdate_fields old j"

definition zero_update :: InstantiateConfigUpdateInput where "zero_update = \<lparr>icu_CodeID = 0, icu_Permission = []\<rparr>"

definition GovUpdateInstantiateConfigRequest_fields :: "GovUpdateInstantiateConfigTask fields" where
  "GovUpdateInstantiateConfigRequest_fields =
     [(''chainId'', field dec_string guc_ChainID (\<lambda>v. guc_ChainID_update (\<lambda>_. v))),
      (''keyName'', field dec_string guc_KeyName (\<lambda>v. guc_KeyName_update (\<lambda>_. v))),
      (''title'', field dec_string guc_Title (\<lambda>v. guc_Title_update (\<lambda>_. v))),
      (''description'', field dec_string guc_Description (\<lambda>v. guc_Description_update (\<lambda>_. v))),
      (''updates'', field (dec_list dec_update zero_update) guc_Updates (\<lambda>v. guc_Updates_update (\<lambda>_. v))),
      (''initialDeposit'', field dec_string guc_InitialDeposit (\<lambda>v. guc_InitialDeposit_update (\<lambda>_. v))),
      (''memo'', field dec_string guc_Memo (\<lambda>v. guc_Memo_update (\<lambda>_. v))),
      (''fees'', field dec_string guc_Fees (\<lambda>v. guc_Fees_update (\<lambda>_. v))),
      (''gas'', field (dec_uint 64) guc_Gas (\<lambda>v. guc_Gas_update (\<lambda>_. v)))]"

definition decode_GovUpdateInstantiateConfigRequest :: "json \<Rightarrow> GovUpdateInstantiateConfigTask result" where
  "decode_GovUpdateInstantiateConfigRequest =
     decode_struct ''GovUpdateInstantiateConfigRequest'' GovUpdateInstantiateConfigRequest_fields
       \<lparr>guc_ChainID = [], guc_KeyName = [], guc_Title = [], guc_Description = [], guc_Updates = [], guc_InitialDeposit = [],
        guc_Memo = [], guc_Fees = [], guc_Gas = 0\<rparr>"

subsection \<open>Messages\<close>

text \<open>Addresses are their bytes; \<open>Voter\<close> is the printed form.  A \<open>Dec\<close> is its scaled integer.\<close>

datatype access = AllowNobody | AllowEverybody | OnlyAddress string

record gov_plan =
  up_Name :: string
  up_Height :: int
  up_Info :: string

datatype gov_content =
    ParameterChange string string "(string \<times> string \<times> string) list" bool
  | SoftwareUpgrade string string gov_plan
  | UpdateInstantiateConfig string string "(nat \<times> access) list"

record MsgVote =
  mv_Voter :: string
  mv_ProposalId :: nat
  mv_Option :: VoteOption

datatype sdk_msg =
    VoteMsg MsgVote
  | UnjailMsg string
  | SubmitProposal gov_content "(string \<times> int) list" string

record sdk_vote =
  vo_Options :: "(VoteOption \<times> int) list"

record sdk_validator =
  sv_Jailed :: bool
  sv_MinSelfDelegation :: int
  sv_DelegatorShares :: int
  sv_Tokens :: int

record signing_info =
  sg_Tombstoned :: bool
  sg_JailedUntil :: go_time

text \<open>A failed query: whether its gRPC code is \<open>NotFound\<close>, and its text.\<close>

type_synonym query_error = "bool \<times> string"

text \<open>The SDK and the chain queries.  An answer may depend on what the task did so far and on the number of the read.\<close>

record gov_sdk =
  gk_Keyring :: "(string \<Rightarrow> string result) option"
  gk_AccString :: "string \<Rightarrow> string"
  gk_ValString :: "string \<Rightarrow> string"
  gk_AccAddressFromBech32 :: "string \<Rightarrow> string result"
  gk_PackContent :: "gov_content \<Rightarrow> error option"
  gk_ValidateContent :: "gov_content \<Rightarrow> error option"
  gk_Encode :: "sdk_msg \<Rightarrow> string"
  gk_OneDec :: int
  gk_TokensFromShares :: "sdk_validator \<Rightarrow> int \<Rightarrow> int"
  gk_ClientContext :: "string \<Rightarrow> error option"
  gk_Status :: "tx_event list \<Rightarrow> nat \<Rightarrow> (bool \<times> go_time) result"
  gk_Vote :: "tx_event list \<Rightarrow> nat \<Rightarrow> nat \<Rightarrow> string \<Rightarrow> sdk_vote result"
  gk_Validator :: "tx_event list \<Rightarrow> nat \<Rightarrow> string \<Rightarrow> query_error + sdk_validator"
  gk_Delegation :: "tx_event list \<Rightarrow> nat \<Rightarrow> string \<Rightarrow> string \<Rightarrow> query_error + int option"
  gk_UnpackKey :: "sdk_validator \<Rightarrow> error option"
  gk_ConsAddr :: "sdk_validator \<Rightarrow> string result"
  gk_SigningInfo :: "tx_event list \<Rightarrow> nat \<Rightarrow> string \<Rightarrow> query_error + signing_info"
  gk_read_time :: "tx_event list \<Rightarrow> nat \<Rightarrow> nat"
  gk_cancelled_at :: "tx_event list \<Rightarrow> go_time option"
  gk_Format :: "go_time \<Rightarrow> string"

definition noKeyring :: tx_error where
  "noKeyring = TerminalError ''keyring not configured: set SEI_KEYRING_BACKEND/SEI_KEYRING_PASSPHRASE on the sidecar''"

definition key_error :: "string \<Rightarrow> error \<Rightarrow> tx_error" where
  "key_error name e = TerminalError (''keyring entry '' @ quoted name @ '': '' @ e)"

definition buildVoteMsg :: "gov_sdk \<Rightarrow> GovVoteTask \<Rightarrow> tx_error + MsgVote" where
  "buildVoteMsg K p =
     (if gv_ProposalID p = 0 then Inl (TerminalError ''proposalId required (must be > 0)'')
      else case ParseVoteOption (gv_Option p) of
        Inl e \<Rightarrow> Inl (TerminalError e)
      | Inr opt \<Rightarrow>
          (case gk_Keyring K of
             None \<Rightarrow> Inl noKeyring
           | Some key \<Rightarrow>
               if gv_KeyName p = [] then Inl (TerminalError ''keyName required'')
               else (case key (gv_KeyName p) of
                       Inl e \<Rightarrow> Inl (key_error (gv_KeyName p) e)
                     | Inr addr \<Rightarrow> Inr \<lparr>mv_Voter = gk_AccString K addr, mv_ProposalId = gv_ProposalID p, mv_Option = opt\<rparr>)))"

text \<open>The checks every proposal starts with, and the deposit they end with.\<close>

definition proposal_preamble :: "gov_sdk \<Rightarrow> string \<Rightarrow> string \<Rightarrow> string \<Rightarrow> tx_error + (string \<Rightarrow> string result)" where
  "proposal_preamble K keyName title descr =
     (case gk_Keyring K of
        None \<Rightarrow> Inl noKeyring
      | Some key \<Rightarrow>
          if keyName = [] then Inl (TerminalError ''keyName required'')
          else if title = [] then Inl (TerminalError ''title required'')
          else if descr = [] then Inl (TerminalError ''description required'')
          else Inr key)"

definition parse_deposit :: "txworld \<Rightarrow> string \<Rightarrow> tx_error + (string \<times> int) list" where
  "parse_deposit W dep =
     (case tw_parse_coins W dep of
        Inl e \<Rightarrow> Inl (TerminalError (''parse initialDeposit '' @ quoted dep @ '': '' @ e))
      | Inr coins \<Rightarrow>
          if coins = [] then Inl (TerminalError (''initialDeposit '' @ quoted dep @ '' resolves to zero coins''))
          else if \<not> list_all (\<lambda>(d, n). n > 0) coins then
            Inl (TerminalError (''initialDeposit '' @ quoted dep @ '' contains non-positive amounts''))
          else (case first_foreign_denom coins of
                  Some d \<Rightarrow> Inl (TerminalError (''initialDeposit '' @ quoted dep @ '': denom '' @ quoted d @
                              '' not permitted (only '' @ quoted feeDenom @ '')''))
                | None \<Rightarrow> Inr coins))"

definition submit_proposal :: "gov_sdk \<Rightarrow> gov_content \<Rightarrow> (string \<times> int) list \<Rightarrow> string \<Rightarrow> tx_error + sdk_msg" where
  "submit_proposal K content coins addr =
     (case gk_PackContent K content of
        Some e \<Rightarrow> Inl (TerminalError (''build MsgSubmitProposal: '' @ e))
      | None \<Rightarrow> Inr (SubmitProposal content coins addr))"

definition at_index :: "string \<Rightarrow> nat \<Rightarrow> string \<Rightarrow> error" where
  "at_index what i e = what @ ''['' @ show_nat i @ '']'' @ e"

text \<open>The value of a change is the text of its JSON, taken once and not escaped again.\<close>

fun param_changes :: "nat \<Rightarrow> ParamChangeInput list \<Rightarrow> tx_error + (string \<times> string \<times> string) list" where
  "param_changes i [] = Inr []"
| "param_changes i (c # cs) =
     (if pci_Subspace c = [] then Inl (TerminalError (at_index ''changes'' i ''.subspace required''))
      else if pci_Key c = [] then Inl (TerminalError (at_index ''changes'' i ''.key required''))
      else case pci_Value c of
        None \<Rightarrow> Inl (TerminalError (at_index ''changes'' i ''.value required''))
      | Some v \<Rightarrow>
          (case param_changes (i + 1) cs of
             Inl e \<Rightarrow> Inl e
           | Inr rest \<Rightarrow> Inr ((pci_Subspace c, pci_Key c, json_encode v) # rest)))"

definition buildParamChangeMsg :: "txworld \<Rightarrow> gov_sdk \<Rightarrow> GovParamChangeTask \<Rightarrow> tx_error + sdk_msg" where
  "buildParamChangeMsg W K p =
     (case proposal_preamble K (gpc_KeyName p) (gpc_Title p) (gpc_Description p) of
        Inl e \<Rightarrow> Inl e
      | Inr key \<Rightarrow>
          if gpc_Changes p = [] then Inl (TerminalError ''at least one change required'')
          else (case param_changes 0 (gpc_Changes p) of
            Inl e \<Rightarrow> Inl e
          | Inr changes \<Rightarrow>
              (case key (gpc_KeyName p) of
                 Inl e \<Rightarrow> Inl (key_error (gpc_KeyName p) e)
               | Inr addr \<Rightarrow>
                   (case parse_deposit W (gpc_InitialDeposit p) of
                      Inl e \<Rightarrow> Inl e
                    | Inr coins \<Rightarrow>
                        submit_proposal K (ParameterChange (gpc_Title p) (gpc_Description p) changes False) coins addr))))"

definition buildSoftwareUpgradeMsg :: "txworld \<Rightarrow> gov_sdk \<Rightarrow> GovSoftwareUpgradeTask \<Rightarrow> tx_error + sdk_msg" where
  "buildSoftwareUpgradeMsg W K p =
     (case proposal_preamble K (gsu_KeyName p) (gsu_Title p) (gsu_Description p) of
        Inl e \<Rightarrow> Inl e
      | Inr key \<Rightarrow>
          if gsu_UpgradeName p = [] then Inl (TerminalError ''upgradeName required'')
          else if gsu_UpgradeHeight p \<le> 0 then Inl (TerminalError ''upgradeHeight required (must be > 0)'')
          else (case key (gsu_KeyName p) of
                  Inl e \<Rightarrow> Inl (key_error (gsu_KeyName p) e)
                | Inr addr \<Rightarrow>
                    (case parse_deposit W (gsu_InitialDeposit p) of
                       Inl e \<Rightarrow> Inl e
                     | Inr coins \<Rightarrow>
                         submit_proposal K (SoftwareUpgrade (gsu_Title p) (gsu_Description p)
                           \<lparr>up_Name = gsu_UpgradeName p, up_Height = gsu_UpgradeHeight p, up_Info = gsu_UpgradeInfo p\<rparr>)
                           coins addr)))"

definition parseInstantiatePermission :: "gov_sdk \<Rightarrow> string \<Rightarrow> access result" where
  "parseInstantiatePermission K raw =
     (if raw = ''nobody'' then Ok AllowNobody
      else if raw = ''everybody'' then Ok AllowEverybody
      else if raw = [] then Err ''permission required''
      else (case gk_AccAddressFromBech32 K raw of
              Inl e \<Rightarrow> Err (''must be nobody, everybody, or a sei account address: '' @ e)
            | Inr addr \<Rightarrow> Ok (OnlyAddress addr)))"

fun config_updates ::
    "gov_sdk \<Rightarrow> nat \<Rightarrow> nat list \<Rightarrow> InstantiateConfigUpdateInput list \<Rightarrow> tx_error + (nat \<times> access) list" where
  "config_updates K i seen [] = Inr []"
| "config_updates K i seen (u # us) =
     (if icu_CodeID u = 0 then Inl (TerminalError (at_index ''updates'' i ''.codeId required (must be > 0)''))
      else if icu_CodeID u \<in> set seen then Inl (TerminalError (''duplicate codeId '' @ show_nat (icu_CodeID u)))
      else case parseInstantiatePermission K (icu_Permission u) of
        Inl e \<Rightarrow> Inl (TerminalError (at_index ''updates'' i (''.permission: '' @ e)))
      | Inr perm \<Rightarrow>
          (case config_updates K (i + 1) (icu_CodeID u # seen) us of
             Inl e \<Rightarrow> Inl e
           | Inr rest \<Rightarrow> Inr ((icu_CodeID u, perm) # rest)))"

definition buildGovUpdateInstantiateConfigMsg ::
    "txworld \<Rightarrow> gov_sdk \<Rightarrow> GovUpdateInstantiateConfigTask \<Rightarrow> tx_error + sdk_msg" where
  "buildGovUpdateInstantiateConfigMsg W K p =
     (case proposal_preamble K (guc_KeyName p) (guc_Title p) (guc_Description p) of
        Inl e \<Rightarrow> Inl e
      | Inr key \<Rightarrow>
          if guc_Updates p = [] then Inl (TerminalError ''at least one update required'')
          else (case config_updates K 0 [] (guc_Updates p) of
            Inl e \<Rightarrow> Inl e
          | Inr updates \<Rightarrow>
              (case key (guc_KeyName p) of
                 Inl e \<Rightarrow> Inl (key_error (guc_KeyName p) e)
               | Inr addr \<Rightarrow>
                   (case parse_deposit W (guc_InitialDeposit p) of
                      Inl e \<Rightarrow> Inl e
                    | Inr coins \<Rightarrow>
                        (let content = UpdateInstantiateConfig (guc_Title p) (guc_Description p) updates
                         in case gk_ValidateContent K content of
                              Some e \<Rightarrow> Inl (TerminalError (''validate UpdateInstantiateConfigProposal: '' @ e))
                            | None \<Rightarrow> submit_proposal K content coins addr)))))"

subsection \<open>Reading the chain\<close>

definition voteHasOption :: "gov_sdk \<Rightarrow> VoteOption \<Rightarrow> sdk_vote \<Rightarrow> bool" where
  "voteHasOption K opt v = (case vo_Options v of [(o1, weight)] \<Rightarrow> o1 = opt \<and> weight = gk_OneDec K | _ \<Rightarrow> False)"

definition readVoteState :: "gov_sdk \<Rightarrow> tx_event list \<Rightarrow> nat \<Rightarrow> string \<Rightarrow> nat \<Rightarrow> sdk_vote result" where
  "readVoteState K tr proposal voter n =
     (case gk_Status K tr n of
        Inl e \<Rightarrow> Err (''query local seid /status: '' @ e)
      | Inr (catchingUp, _) \<Rightarrow>
          if catchingUp then Err ''local seid is catching up, so its vote record may be stale''
          else gk_Vote K tr n proposal (gk_AccString K voter))"

datatype jail_error = NoValidator | JailError error

record jailState =
  js_CatchingUp :: bool
  js_BlockTime :: go_time
  js_HasSelfDelegation :: bool
  js_SelfBond :: int
  js_MinSelfBond :: int
  js_Jailed :: bool
  js_Tombstoned :: bool
  js_JailedUntil :: "go_time option"

definition isQueryNotFound :: "query_error \<Rightarrow> string \<Rightarrow> bool" where
  "isQueryNotFound e fragment \<longleftrightarrow> fst e \<or> contains_str (snd e) fragment"

definition selfBondTokens :: "gov_sdk \<Rightarrow> sdk_validator \<Rightarrow> int \<Rightarrow> int" where
  "selfBondTokens K v shares = (if sv_DelegatorShares v = 0 then 0 else gk_TokensFromShares K v shares)"

text \<open>The self-delegation, then, for a jailed validator, its signing info.\<close>

definition read_self_bond :: "gov_sdk \<Rightarrow> tx_event list \<Rightarrow> string \<Rightarrow> nat \<Rightarrow> sdk_validator \<Rightarrow> jailState \<Rightarrow> jail_error + jailState" where
  "read_self_bond K tr val n v st =
     (case gk_Delegation K tr n (gk_AccString K val) (gk_ValString K val) of
        Inr (Some shares) \<Rightarrow> Inr (st\<lparr>js_HasSelfDelegation := True, js_SelfBond := selfBondTokens K v shares\<rparr>)
      | Inr None \<Rightarrow> Inr st
      | Inl e \<Rightarrow> if isQueryNotFound e (''not found for validator '' @ gk_ValString K val) then Inr st
                 else Inl (JailError (''query self-delegation: '' @ snd e)))"

definition read_signing_info :: "gov_sdk \<Rightarrow> tx_event list \<Rightarrow> nat \<Rightarrow> sdk_validator \<Rightarrow> jailState \<Rightarrow> jail_error + jailState" where
  "read_signing_info K tr n v st =
     (case gk_UnpackKey K v of
        Some e \<Rightarrow> Inl (JailError (''unpack validator consensus key: '' @ e))
      | None \<Rightarrow>
          (case gk_ConsAddr K v of
             Inl e \<Rightarrow> Inl (JailError (''validator consensus address: '' @ e))
           | Inr cons \<Rightarrow>
               (case gk_SigningInfo K tr n cons of
                  Inl e \<Rightarrow> if isQueryNotFound e ''SigningInfo not found'' then Inr st
                           else Inl (JailError (''query signing info: '' @ snd e))
                | Inr si \<Rightarrow> Inr (st\<lparr>js_Tombstoned := sg_Tombstoned si, js_JailedUntil := Some (sg_JailedUntil si)\<rparr>))))"

definition readJailState :: "gov_sdk \<Rightarrow> tx_event list \<Rightarrow> string \<Rightarrow> nat \<Rightarrow> jail_error + jailState" where
  "readJailState K tr val n =
     (case gk_Status K tr n of
        Inl e \<Rightarrow> Inl (JailError (''query local seid /status: '' @ e))
      | Inr (catchingUp, blockTime) \<Rightarrow>
          (let st = \<lparr>js_CatchingUp = catchingUp, js_BlockTime = blockTime, js_HasSelfDelegation = False, js_SelfBond = 0,
                     js_MinSelfBond = 0, js_Jailed = False, js_Tombstoned = False, js_JailedUntil = None\<rparr>
           in if catchingUp then Inr st
              else (case gk_Validator K tr n (gk_ValString K val) of
                Inl e \<Rightarrow> Inl (if isQueryNotFound e (gk_ValString K val @ '' not found'') then NoValidator
                              else JailError (''query validator: '' @ snd e))
              | Inr v \<Rightarrow>
                  (case read_self_bond K tr val n v (st\<lparr>js_Jailed := sv_Jailed v, js_MinSelfBond := sv_MinSelfDelegation v\<rparr>) of
                     Inl e \<Rightarrow> Inl e
                   | Inr st1 \<Rightarrow> if js_Jailed st1 then read_signing_info K tr n v st1 else Inr st1))))"

definition chainJailState :: "gov_sdk \<Rightarrow> tx_event list \<Rightarrow> string \<Rightarrow> string \<Rightarrow> nat \<Rightarrow> jail_error + jailState" where
  "chainJailState K tr chain val n =
     (case gk_ClientContext K chain of Some e \<Rightarrow> Inl (JailError e) | None \<Rightarrow> readJailState K tr val n)"

definition chainVote :: "gov_sdk \<Rightarrow> tx_event list \<Rightarrow> string \<Rightarrow> nat \<Rightarrow> string \<Rightarrow> nat \<Rightarrow> sdk_vote result" where
  "chainVote K tr chain proposal voter n =
     (case gk_ClientContext K chain of Some e \<Rightarrow> Inl e | None \<Rightarrow> readVoteState K tr proposal voter n)"

subsection \<open>Waiting for the effect in state\<close>

definition confirmWait :: duration where "confirmWait = 30000000000"
definition confirmEvery :: duration where "confirmEvery = 1000000000"

text \<open>
  The loop of \<open>votedAfter\<close> and \<open>releasedAfter\<close>: \<open>ok n\<close> says whether the \<open>n\<close>-th read, if it ends before the deadline,
  shows the effect, and \<open>took n\<close> how long it takes; a read that the deadline cuts short shows nothing.  The result is the
  time at the end and whether the effect was seen.
\<close>

function confirm_until :: "(nat \<Rightarrow> bool) \<Rightarrow> (nat \<Rightarrow> nat) \<Rightarrow> go_time \<Rightarrow> nat \<Rightarrow> go_time \<Rightarrow> go_time \<times> bool" where
  "confirm_until ok took deadline n now =
     (let t = now + int (took n)
      in if deadline < t then (max now deadline, False)
         else if ok n then (t, True)
         else if deadline \<le> t + confirmEvery then (deadline, False)
         else confirm_until ok took deadline (n + 1) (t + confirmEvery))"
  by pat_completeness auto

termination
  by (relation "measure (\<lambda>(ok, took, deadline, n, now). nat (deadline - now))") (auto simp: confirmEvery_def)

declare confirm_until.simps [simp del]

text \<open>\<open>context.WithTimeout\<close>: the wait ends after \<open>confirmWait\<close>, or with the task's own context.\<close>

definition wait_end :: "gov_sdk \<Rightarrow> sign_state \<Rightarrow> go_time" where
  "wait_end K s =
     (case gk_cancelled_at K (ss_trace s) of None \<Rightarrow> ss_now s + confirmWait | Some t \<Rightarrow> min t (ss_now s + confirmWait))"

definition confirm :: "gov_sdk \<Rightarrow> (nat \<Rightarrow> bool) \<Rightarrow> sign_state \<Rightarrow> sign_state \<times> bool" where
  "confirm K ok s =
     (case confirm_until ok (gk_read_time K (ss_trace s)) (wait_end K s) 0 (ss_now s) of (t, b) \<Rightarrow> (s\<lparr>ss_now := t\<rparr>, b))"

definition vote_shown :: "gov_sdk \<Rightarrow> tx_event list \<Rightarrow> string \<Rightarrow> MsgVote \<Rightarrow> string \<Rightarrow> nat \<Rightarrow> bool" where
  "vote_shown K tr chain msg voter n =
     (case chainVote K tr chain (mv_ProposalId msg) voter n of Inl _ \<Rightarrow> False | Inr v \<Rightarrow> voteHasOption K (mv_Option msg) v)"

definition votedAfter :: "gov_sdk \<Rightarrow> string \<Rightarrow> MsgVote \<Rightarrow> sign_state \<Rightarrow> sign_state \<times> bool" where
  "votedAfter K chain msg s =
     (case gk_AccAddressFromBech32 K (mv_Voter msg) of
        Inl _ \<Rightarrow> (s, False)
      | Inr voter \<Rightarrow> confirm K (vote_shown K (ss_trace s) chain msg voter) s)"

definition release_shown :: "gov_sdk \<Rightarrow> tx_event list \<Rightarrow> string \<Rightarrow> string \<Rightarrow> nat \<Rightarrow> bool" where
  "release_shown K tr chain val n =
     (case chainJailState K tr chain val n of Inl _ \<Rightarrow> False | Inr st \<Rightarrow> \<not> js_CatchingUp st \<and> \<not> js_Jailed st)"

definition releasedAfter :: "gov_sdk \<Rightarrow> string \<Rightarrow> string \<Rightarrow> sign_state \<Rightarrow> sign_state \<times> bool" where
  "releasedAfter K chain val s = confirm K (release_shown K (ss_trace s) chain val) s"

subsection \<open>The handlers\<close>

definition checkJailed :: "gov_sdk \<Rightarrow> string \<Rightarrow> string \<Rightarrow> sign_state \<Rightarrow> tx_error option" where
  "checkJailed K chain val s =
     (let name = gk_ValString K val
      in case chainJailState K (ss_trace s) chain val 0 of
           Inl NoValidator \<Rightarrow>
             Some (TerminalError (''operator account has no validator '' @ name @ '': unjail applies only to a validator''))
         | Inl (JailError e) \<Rightarrow> Some (PlainError (''read jail state of '' @ name @ '': '' @ e))
         | Inr st \<Rightarrow>
             if js_CatchingUp st then
               Some (PlainError (''local seid is catching up, so its jail state for '' @ name @
                       '' may be stale; retry when it is caught up''))
             else if \<not> js_HasSelfDelegation st then
               Some (TerminalError (''validator '' @ name @
                       '' has no self-delegation; the chain rejects its unjail (ErrMissingSelfDelegation)''))
             else if js_SelfBond st < js_MinSelfBond st then
               Some (TerminalError (''validator '' @ name @ '' self-delegation '' @ itoa (js_SelfBond st) @
                       '' is below its min self-delegation '' @ itoa (js_MinSelfBond st) @
                       ''; the chain rejects its unjail (ErrSelfDelegationTooLowToUnjail)''))
             else if \<not> js_Jailed st then
               Some (TerminalError (''validator '' @ name @ '' is not jailed; refusing to spend a fee on an unjail''))
             else if js_Tombstoned st then
               Some (TerminalError (''validator '' @ name @ '' is tombstoned; an unjail cannot release it''))
             else (case js_JailedUntil st of
                     None \<Rightarrow> None
                   | Some u \<Rightarrow>
                       if js_BlockTime st < u then
                         Some (TerminalError (''validator '' @ name @ '' stays jailed until '' @ gk_Format K u @
                                 ''; the latest block time is '' @ gk_Format K (js_BlockTime st)))
                       else None))"

definition operatorValAddr :: "gov_sdk \<Rightarrow> string \<Rightarrow> tx_error + string" where
  "operatorValAddr K keyName =
     (case gk_Keyring K of
        None \<Rightarrow> Inl noKeyring
      | Some key \<Rightarrow>
          if keyName = [] then Inl (TerminalError ''keyName required'')
          else (case key keyName of Inl e \<Rightarrow> Inl (key_error keyName e) | Inr addr \<Rightarrow> Inr addr))"

definition hasTxMarker :: "txworld \<Rightarrow> string \<Rightarrow> sign_state \<Rightarrow> sign_state \<times> (tx_error + bool)" where
  "hasTxMarker W taskID s =
     (if \<not> tw_checkpointer W \<or> taskID = [] then (s, Inr False)
      else case read_marker W taskID s of
        (s1, Inl e) \<Rightarrow> (s1, Inl (PlainError (''read tx marker: '' @ e)))
      | (s1, Inr m) \<Rightarrow> (s1, Inr (m \<noteq> None)))"

text \<open>What a handler returns: no result with an error, or the transaction's result with or without one.\<close>

type_synonym gov_out = "GovTxResult option \<times> tx_error option"

definition GovVoter_Handler :: "txworld \<Rightarrow> gov_sdk \<Rightarrow> string \<Rightarrow> GovVoteTask \<Rightarrow> sign_state \<Rightarrow> sign_state \<times> gov_out" where
  "GovVoter_Handler W K taskID p s =
     (case buildVoteMsg K p of
        Inl e \<Rightarrow> (s, None, Some e)
      | Inr msg \<Rightarrow>
          (case signAndBroadcast W \<lparr>si_ChainID = gv_ChainID p, si_KeyName = gv_KeyName p, si_Msg = Some (gk_Encode K (VoteMsg msg)),
                  si_Fees = gv_Fees p, si_Gas = gv_Gas p, si_Memo = gv_Memo p, si_TaskID = taskID\<rparr> s of
             (s1, Inl e) \<Rightarrow> (s1, None, Some e)
           | (s1, Inr r) \<Rightarrow>
               (case classifyGovResult r of (out, cerr) \<Rightarrow>
                 if sr_Unverifiable r then
                   (case votedAfter K (gv_ChainID p) msg s1 of (s2, b) \<Rightarrow> (s2, Some out, if b then None else cerr))
                 else (s1, Some out, cerr))))"

definition unjail_broadcast :: "txworld \<Rightarrow> gov_sdk \<Rightarrow> string \<Rightarrow> UnjailTask \<Rightarrow> string \<Rightarrow> sign_state \<Rightarrow> sign_state \<times> gov_out" where
  "unjail_broadcast W K taskID p val s =
     (case signAndBroadcast W \<lparr>si_ChainID = uj_ChainID p, si_KeyName = uj_KeyName p, si_Msg = Some (gk_Encode K (UnjailMsg val)),
             si_Fees = uj_Fees p, si_Gas = uj_Gas p, si_Memo = uj_Memo p, si_TaskID = taskID\<rparr> s of
        (s1, Inl e) \<Rightarrow> (s1, None, Some e)
      | (s1, Inr r) \<Rightarrow>
          (case classifyGovResult r of (out, cerr) \<Rightarrow>
            if sr_Unverifiable r then
              (case releasedAfter K (uj_ChainID p) val s1 of (s2, b) \<Rightarrow> (s2, Some out, if b then None else cerr))
            else (s1, Some out, cerr)))"

definition Unjailer_Handler :: "txworld \<Rightarrow> gov_sdk \<Rightarrow> string \<Rightarrow> UnjailTask \<Rightarrow> sign_state \<Rightarrow> sign_state \<times> gov_out" where
  "Unjailer_Handler W K taskID p s =
     (case operatorValAddr K (uj_KeyName p) of
        Inl e \<Rightarrow> (s, None, Some e)
      | Inr val \<Rightarrow>
          (case hasTxMarker W taskID s of
             (s1, Inl e) \<Rightarrow> (s1, None, Some e)
           | (s1, Inr adopting) \<Rightarrow>
               (case (if adopting then None else checkJailed K (uj_ChainID p) val s1) of
                  Some e \<Rightarrow> (s1, None, Some e)
                | None \<Rightarrow> unjail_broadcast W K taskID p val s1)))"

text \<open>The three proposal handlers share their tail.\<close>

definition propose :: "txworld \<Rightarrow> SignAndBroadcastInput \<Rightarrow> sign_state \<Rightarrow> sign_state \<times> gov_out" where
  "propose W i s =
     (case signAndBroadcast W i s of
        (s1, Inl e) \<Rightarrow> (s1, None, Some e)
      | (s1, Inr r) \<Rightarrow> (case classifyGovResult r of (out, cerr) \<Rightarrow> (s1, Some out, requireProposalID out cerr)))"

definition GovParamChanger_Handler ::
    "txworld \<Rightarrow> gov_sdk \<Rightarrow> string \<Rightarrow> GovParamChangeTask \<Rightarrow> sign_state \<Rightarrow> sign_state \<times> gov_out" where
  "GovParamChanger_Handler W K taskID p s =
     (case buildParamChangeMsg W K p of
        Inl e \<Rightarrow> (s, None, Some e)
      | Inr msg \<Rightarrow> propose W \<lparr>si_ChainID = gpc_ChainID p, si_KeyName = gpc_KeyName p, si_Msg = Some (gk_Encode K msg),
          si_Fees = gpc_Fees p, si_Gas = gpc_Gas p, si_Memo = gpc_Memo p, si_TaskID = taskID\<rparr> s)"

definition GovSoftwareUpgrader_Handler ::
    "txworld \<Rightarrow> gov_sdk \<Rightarrow> string \<Rightarrow> GovSoftwareUpgradeTask \<Rightarrow> sign_state \<Rightarrow> sign_state \<times> gov_out" where
  "GovSoftwareUpgrader_Handler W K taskID p s =
     (case buildSoftwareUpgradeMsg W K p of
        Inl e \<Rightarrow> (s, None, Some e)
      | Inr msg \<Rightarrow> propose W \<lparr>si_ChainID = gsu_ChainID p, si_KeyName = gsu_KeyName p, si_Msg = Some (gk_Encode K msg),
          si_Fees = gsu_Fees p, si_Gas = gsu_Gas p, si_Memo = gsu_Memo p, si_TaskID = taskID\<rparr> s)"

definition GovInstantiateConfigUpdater_Handler ::
    "txworld \<Rightarrow> gov_sdk \<Rightarrow> string \<Rightarrow> GovUpdateInstantiateConfigTask \<Rightarrow> sign_state \<Rightarrow> sign_state \<times> gov_out" where
  "GovInstantiateConfigUpdater_Handler W K taskID p s =
     (case buildGovUpdateInstantiateConfigMsg W K p of
        Inl e \<Rightarrow> (s, None, Some e)
      | Inr msg \<Rightarrow> propose W \<lparr>si_ChainID = guc_ChainID p, si_KeyName = guc_KeyName p, si_Msg = Some (gk_Encode K msg),
          si_Fees = guc_Fees p, si_Gas = guc_Gas p, si_Memo = guc_Memo p, si_TaskID = taskID\<rparr> s)"

text \<open>Any of the five tasks, as the engine's handler table sends it on.\<close>

datatype gov_request =
    VoteRequest GovVoteTask
  | UnjailRequest UnjailTask
  | ParamChangeRequest GovParamChangeTask
  | UpgradeRequest GovSoftwareUpgradeTask
  | ConfigRequest GovUpdateInstantiateConfigTask

fun gov_handler :: "txworld \<Rightarrow> gov_sdk \<Rightarrow> string \<Rightarrow> gov_request \<Rightarrow> sign_state \<Rightarrow> sign_state \<times> gov_out" where
  "gov_handler W K i (VoteRequest p) s = GovVoter_Handler W K i p s"
| "gov_handler W K i (UnjailRequest p) s = Unjailer_Handler W K i p s"
| "gov_handler W K i (ParamChangeRequest p) s = GovParamChanger_Handler W K i p s"
| "gov_handler W K i (UpgradeRequest p) s = GovSoftwareUpgrader_Handler W K i p s"
| "gov_handler W K i (ConfigRequest p) s = GovInstantiateConfigUpdater_Handler W K i p s"

end
