(* ===== verification/GovProps.thy ===== *)
theory GovProps
  imports GovHandlers SignProps
begin

text \<open>
  What the transaction handlers promise: a task succeeds only when its transaction was seen committed or its effect was
  read in the chain's state, an unjail is broadcast only for a validator the chain would release, a wait for the effect
  ends within its bound, and the messages carry the request unchanged.
\<close>

subsection \<open>Seen committed\<close>

text \<open>The last thing the task did was to ask for a transaction, and the node had it.\<close>

definition found_last :: "txworld \<Rightarrow> sign_state \<Rightarrow> TxResponse \<Rightarrow> bool" where
  "found_last W s resp \<longleftrightarrow> (\<exists>tr h. ss_trace s = tr @ [AskedTx h] \<and> tw_query W tr h = TxFound resp)"

lemma ask_tx_found: "snd (ask_tx W h s) = TxFound r \<Longrightarrow> found_last W (fst (ask_tx W h s)) r"
  by (auto simp: ask_tx_def found_last_def)

lemma poll_found: "poll_until W h deadline s = (s', Inr (Some r)) \<Longrightarrow> found_last W s' r"
proof (induction W h deadline s rule: poll_until.induct)
  case (1 W h deadline s)
  have live: "\<not> canceled W s" "\<not> deadline < ss_now s" using 1(3) by (auto simp: poll_until.simps[of W h deadline s] split: if_splits)
  show ?case
  proof (cases "snd (ask_tx W h s)")
    case (TxFound x)
    then have "s' = fst (ask_tx W h s)" "x = r" using 1(3) live by (simp_all add: poll_until.simps[of W h deadline s])
    then show ?thesis using ask_tx_found[OF TxFound] by simp
  next
    case TxNotFound
    then show ?thesis using 1 live by (auto simp: poll_until.simps[of W h deadline s] Let_def split: if_splits)
  next
    case TxDisabled
    then show ?thesis using 1(3) live by (simp add: poll_until.simps[of W h deadline s])
  next
    case (TxQueryError e)
    then show ?thesis using 1 live by (auto simp: poll_until.simps[of W h deadline s] Let_def split: if_splits)
  qed
qed

lemma pollForInclusion_found: "pollForInclusion W h timeout s = (s', Inr (Some r)) \<Longrightarrow> found_last W s' r"
  by (auto simp: pollForInclusion_def intro: poll_found)

text \<open>A result that says it was included comes from such an answer; an unverifiable one never says so.\<close>

definition result_of :: "txworld \<Rightarrow> sign_state \<Rightarrow> SignAndBroadcastResult \<Rightarrow> bool" where
  "result_of W s r \<longleftrightarrow>
     (sr_IncludedAt r \<noteq> None \<longrightarrow> (\<exists>resp. found_last W s resp \<and> sr_TxHash r = txr_TxHash resp \<and> sr_Code r = txr_Code resp \<and>
        sr_ProposalID r = tw_proposal_id W resp)) \<and>
     (sr_Unverifiable r \<longrightarrow> sr_IncludedAt r = None)"

lemma result_of_found:
  "found_last W s resp \<Longrightarrow> result_of W s (resultFromTxResponse W resp acc sq chain b (Some t))"
  by (auto simp: result_of_def resultFromTxResponse_def)

lemma result_of_open [simp]:
  "result_of W s (undetermined_result h acc sq chain t)" "result_of W s (unverifiableResult h acc sq chain t)"
  "result_of W s (resultFromTxResponse W resp acc sq chain b None)"
  by (simp_all add: result_of_def undetermined_result_def unverifiableResult_def resultFromTxResponse_def)

lemma broadcastAndPoll_result:
  assumes "broadcastAndPoll W bytes h acc sq chain s = (s', Inr r)"
  shows "result_of W s' r"
proof (cases "tw_broadcast W (ss_trace s) bytes")
  case (Inl e)
  then show ?thesis using assms by (auto simp: broadcastAndPoll_def Let_def)
next
  case (Inr resp)
  obtain s2 q where q: "pollForInclusion W (txr_TxHash resp) inclusionPollTimeout (observe W (Broadcasted bytes) s) = (s2, q)"
    by (cases "pollForInclusion W (txr_TxHash resp) inclusionPollTimeout (observe W (Broadcasted bytes) s)")
  consider (err) e where "q = Inl e" | (none) "q = Inr None" | (found) x where "q = Inr (Some x)"
    by (metis sum.exhaust option.exhaust)
  then show ?thesis
  proof cases
    case err
    then show ?thesis using assms Inr q by (cases e) (auto simp: broadcastAndPoll_def Let_def split: if_splits)
  next
    case none
    then show ?thesis using assms Inr q by (auto simp: broadcastAndPoll_def Let_def split: if_splits)
  next
    case found
    then have "found_last W s2 x" using q pollForInclusion_found by simp
    then show ?thesis using assms Inr q found
      by (auto simp: broadcastAndPoll_def Let_def result_of_found split: if_splits)
  qed
qed

lemma rebroadcast_result:
  assumes "rebroadcast W m s = (s', Inr r)"
  shows "result_of W s' r"
proof -
  obtain s1 q where b: "broadcastAndPoll W (tm_TxBytes m) (tm_TxHash m) (tm_AccountNumber m) (tm_Sequence m) (tm_ChainID m) s = (s1, q)"
    by (cases "broadcastAndPoll W (tm_TxBytes m) (tm_TxHash m) (tm_AccountNumber m) (tm_Sequence m) (tm_ChainID m) s")
  obtain s2 p where p: "pollForInclusion W (tm_TxHash m) adoptReQueryTimeout s1 = (s2, p)"
    by (cases "pollForInclusion W (tm_TxHash m) adoptReQueryTimeout s1")
  show ?thesis
  proof (cases q)
    case (Inl e)
    show ?thesis
    proof (cases "\<exists>x. p = Inr (Some x)")
      case True
      then obtain x where x: "p = Inr (Some x)" by blast
      then have "found_last W s2 x" using p pollForInclusion_found by simp
      then show ?thesis using assms b p Inl x by (cases e) (auto simp: rebroadcast_def result_of_found)
    next
      case False
      then show ?thesis using assms b p Inl by (cases e) (auto simp: rebroadcast_def split: sum.splits option.splits)
    qed
  next
    case (Inr x)
    then show ?thesis using assms b broadcastAndPoll_result[of W _ _ _ _ _ s s1 x] by (auto simp: rebroadcast_def)
  qed
qed

lemma adoptMarker_result:
  assumes "adoptMarker W m s = (s', Inr r)"
  shows "result_of W s' r"
proof -
  obtain s1 a where a: "ask_tx W (tm_TxHash m) s = (s1, a)" by (cases "ask_tx W (tm_TxHash m) s")
  show ?thesis
  proof (cases a)
    case (TxFound x)
    then have "found_last W s1 x" using ask_tx_found[of W "tm_TxHash m" s x] a by simp
    then show ?thesis using assms a TxFound by (auto simp: adoptMarker_def result_of_found)
  next
    case TxNotFound
    then show ?thesis using assms a rebroadcast_result by (auto simp: adoptMarker_def)
  qed (use assms a in \<open>auto simp: adoptMarker_def\<close>)
qed

lemma sign_fresh_result:
  assumes "sign_fresh W i s = (s', Inr r)"
  shows "result_of W s' r"
proof -
  obtain s1 a where a: "retrieveAccount W s = (s1, a)" by (cases "retrieveAccount W s")
  obtain acc sq where acc: "a = Inr (acc, sq)"
    using assms a by (cases a) (auto simp: sign_fresh_def split: tx_error.splits)
  obtain bytes where bytes: "tw_sign W (ss_trace s1) i acc sq = Signed bytes"
    using assms a acc by (cases "tw_sign W (ss_trace s1) i acc sq") (auto simp: sign_fresh_def)
  show ?thesis using assms a acc bytes
    by (auto simp: sign_fresh_def Let_def split: if_splits prod.splits option.splits intro: broadcastAndPoll_result)
qed

lemma adopt_or_sign_result: "adopt_or_sign W i s = (s', Inr r) \<Longrightarrow> result_of W s' r"
  by (auto simp: adopt_or_sign_def split: if_splits prod.splits sum.splits option.splits
      intro: sign_fresh_result adoptMarker_result)

lemma signAndBroadcast_result: "signAndBroadcast W i s = (s', Inr r) \<Longrightarrow> result_of W s' r"
  by (auto simp: signAndBroadcast_def Let_def split: if_splits prod.splits option.splits intro: adopt_or_sign_result)

subsection \<open>Waiting\<close>

lemma confirm_until_seen:
  "confirm_until ok took deadline n now = (t, b) \<Longrightarrow>
     (b \<longrightarrow> (\<exists>k. ok k)) \<and> (now \<le> t) \<and> (t \<le> max now deadline)"
proof (induction ok took deadline n now rule: confirm_until.induct)
  case (1 ok took deadline n now)
  define u where "u = now + int (took n)"
  show ?case
  proof (cases "deadline < u \<or> ok n \<or> deadline \<le> u + confirmEvery")
    case True
    then show ?thesis using 1(2)
      by (auto simp: confirm_until.simps[of ok took deadline n now] Let_def u_def[symmetric] split: if_splits) (simp_all add: u_def confirmEvery_def)
  next
    case False
    then have "confirm_until ok took deadline (n + 1) (u + confirmEvery) = (t, b)"
      using 1(2) by (simp add: confirm_until.simps[of ok took deadline n now] Let_def u_def[symmetric])
    with 1(1)[OF u_def _ _ _] False have "(b \<longrightarrow> (\<exists>k. ok k)) \<and> u + confirmEvery \<le> t \<and> t \<le> max (u + confirmEvery) deadline" by simp
    then show ?thesis using False by (auto simp: u_def confirmEvery_def)
  qed
qed

lemma confirm_law:
  assumes "confirm K ok s = (s', b)"
  shows "ss_trace s' = ss_trace s \<and> ss_store s' = ss_store s \<and> ss_now s' \<le> ss_now s + confirmWait \<and> (b \<longrightarrow> (\<exists>n. ok n))"
proof -
  obtain t c where t: "confirm_until ok (gk_read_time K (ss_trace s)) (wait_end K s) 0 (ss_now s) = (t, c)"
    by (cases "confirm_until ok (gk_read_time K (ss_trace s)) (wait_end K s) 0 (ss_now s)")
  have "wait_end K s \<le> ss_now s + confirmWait" by (simp add: wait_end_def split: option.splits)
  moreover have "0 \<le> confirmWait" by (simp add: confirmWait_def)
  ultimately show ?thesis using confirm_until_seen[OF t] assms t by (auto simp: confirm_def)
qed

subsection \<open>Success\<close>

text \<open>The transaction was found with code 0 by the last query.\<close>

definition committed :: "txworld \<Rightarrow> sign_state \<Rightarrow> GovTxResult \<Rightarrow> bool" where
  "committed W s out \<longleftrightarrow> gr_InclusionStatus out = InclusionCommittedOK \<and>
     (\<exists>resp. found_last W s resp \<and> txr_Code resp = 0 \<and> gr_TxHash out = txr_TxHash resp \<and> gr_ProposalID out = tw_proposal_id W resp)"

text \<open>What a read of the chain shows when the request has taken effect.\<close>

fun effect_shown :: "gov_sdk \<Rightarrow> tx_event list \<Rightarrow> gov_request \<Rightarrow> nat \<Rightarrow> bool" where
  "effect_shown K tr (VoteRequest p) n =
     (case buildVoteMsg K p of
        Inl _ \<Rightarrow> False
      | Inr msg \<Rightarrow> (case gk_AccAddressFromBech32 K (mv_Voter msg) of
                      Inl _ \<Rightarrow> False | Inr voter \<Rightarrow> vote_shown K tr (gv_ChainID p) msg voter n))"
| "effect_shown K tr (UnjailRequest p) n =
     (case operatorValAddr K (uj_KeyName p) of Inl _ \<Rightarrow> False | Inr val \<Rightarrow> release_shown K tr (uj_ChainID p) val n)"
| "effect_shown K tr q n = False"

fun is_proposal :: "gov_request \<Rightarrow> bool" where
  "is_proposal (VoteRequest p) = False"
| "is_proposal (UnjailRequest p) = False"
| "is_proposal q = True"

lemma classify_committed:
  assumes "classifyGovResult r = (out, None)" and "result_of W s r"
  shows "committed W s out \<and> \<not> sr_Unverifiable r"
proof -
  have r: "\<not> sr_Unverifiable r" "sr_IncludedAt r \<noteq> None" "sr_Code r = 0" "out = gov_result r InclusionCommittedOK"
    using assms(1) by (auto simp: classifyGovResult_def split: if_splits)
  then show ?thesis using assms(2) by (auto simp: committed_def result_of_def gov_result_def)
qed

lemma classify_unverifiable:
  "classifyGovResult r = (out, cerr) \<Longrightarrow> sr_Unverifiable r \<Longrightarrow> gr_InclusionStatus out = InclusionUnverifiable \<and> cerr \<noteq> None"
  by (auto simp: classifyGovResult_def gov_result_def)

lemma propose_success:
  assumes "propose W i s = (s', res, None)"
  shows "\<exists>out. res = Some out \<and> committed W s' out \<and> gr_ProposalID out \<noteq> 0"
proof -
  obtain s1 q where sb: "signAndBroadcast W i s = (s1, q)" by (cases "signAndBroadcast W i s")
  obtain r where r: "q = Inr r" using assms sb by (cases q) (auto simp: propose_def)
  obtain out cerr where c: "classifyGovResult r = (out, cerr)" by (cases "classifyGovResult r")
  have fin: "s' = s1" "res = Some out" "requireProposalID out cerr = None" using assms sb r c by (auto simp: propose_def)
  then have n: "cerr = None" by (auto simp: requireProposalID_def split: if_splits)
  then have "committed W s1 out" using classify_committed[of r out W s1] c signAndBroadcast_result[of W i s s1 r] sb r by simp
  moreover from this fin(3) n have "gr_ProposalID out \<noteq> 0" by (auto simp: requireProposalID_def committed_def split: if_splits)
  ultimately show ?thesis using fin by simp
qed

lemma confirmed_success:
  assumes sb: "signAndBroadcast W i s = (s1, Inr r)" and c: "classifyGovResult r = (out, cerr)"
    and fin: "(if sr_Unverifiable r then (case w s1 of (s2, b) \<Rightarrow> (s2, Some out, if b then None else cerr)) else (s1, Some out, cerr))
      = (s', res, None)"
    and w: "\<And>s2 b. w s1 = (s2, b) \<Longrightarrow> ss_trace s2 = ss_trace s1 \<and> (b \<longrightarrow> (\<exists>n. shown (ss_trace s1) n))"
  shows "\<exists>out. res = Some out \<and>
    (committed W s' out \<or> gr_InclusionStatus out = InclusionUnverifiable \<and> (\<exists>n. shown (ss_trace s') n))"
proof (cases "sr_Unverifiable r")
  case True
  obtain s2 b where b: "w s1 = (s2, b)" by (cases "w s1")
  have "cerr \<noteq> None" "gr_InclusionStatus out = InclusionUnverifiable" using classify_unverifiable[OF c True] by auto
  then have "b" "s' = s2" "res = Some out" using fin True b by (auto split: if_splits)
  then show ?thesis using w[OF b] \<open>gr_InclusionStatus out = InclusionUnverifiable\<close> by auto
next
  case False
  then have "cerr = None" "s' = s1" "res = Some out" using fin by auto
  then show ?thesis using classify_committed[of r out W s1] c signAndBroadcast_result[OF sb] by auto
qed

lemma voter_success:
  assumes run: "GovVoter_Handler W K i p s = (s', res, None)"
  shows "\<exists>out. res = Some out \<and>
    (committed W s' out \<or> gr_InclusionStatus out = InclusionUnverifiable \<and> (\<exists>n. effect_shown K (ss_trace s') (VoteRequest p) n))"
proof -
  obtain msg where msg: "buildVoteMsg K p = Inr msg" using run by (cases "buildVoteMsg K p") (auto simp: GovVoter_Handler_def)
  define inp where "inp = \<lparr>si_ChainID = gv_ChainID p, si_KeyName = gv_KeyName p, si_Msg = Some (gk_Encode K (VoteMsg msg)),
    si_Fees = gv_Fees p, si_Gas = gv_Gas p, si_Memo = gv_Memo p, si_TaskID = i\<rparr>"
  obtain s1 q where sb: "signAndBroadcast W inp s = (s1, q)" by (cases "signAndBroadcast W inp s")
  obtain r where r: "q = Inr r" using run msg sb by (cases q) (auto simp: GovVoter_Handler_def inp_def[symmetric])
  obtain out cerr where c: "classifyGovResult r = (out, cerr)" by (cases "classifyGovResult r")
  show ?thesis
  proof (rule confirmed_success[OF sb[unfolded r] c, of "votedAfter K (gv_ChainID p) msg"])
    show "(if sr_Unverifiable r then case votedAfter K (gv_ChainID p) msg s1 of (s2, b) \<Rightarrow> (s2, Some out, if b then None else cerr)
      else (s1, Some out, cerr)) = (s', res, None)"
      using run msg sb r c by (simp add: GovVoter_Handler_def inp_def[symmetric])
    fix s2 b assume "votedAfter K (gv_ChainID p) msg s1 = (s2, b)"
    then show "ss_trace s2 = ss_trace s1 \<and> (b \<longrightarrow> (\<exists>n. effect_shown K (ss_trace s1) (VoteRequest p) n))"
      using msg by (auto simp: votedAfter_def split: sum.splits dest: confirm_law)
  qed
qed

lemma unjail_broadcast_success:
  assumes run: "unjail_broadcast W K i p val s = (s', res, None)" and val: "operatorValAddr K (uj_KeyName p) = Inr val"
  shows "\<exists>out. res = Some out \<and>
    (committed W s' out \<or> gr_InclusionStatus out = InclusionUnverifiable \<and> (\<exists>n. effect_shown K (ss_trace s') (UnjailRequest p) n))"
proof -
  define inp where "inp = \<lparr>si_ChainID = uj_ChainID p, si_KeyName = uj_KeyName p, si_Msg = Some (gk_Encode K (UnjailMsg val)),
    si_Fees = uj_Fees p, si_Gas = uj_Gas p, si_Memo = uj_Memo p, si_TaskID = i\<rparr>"
  obtain s1 q where sb: "signAndBroadcast W inp s = (s1, q)" by (cases "signAndBroadcast W inp s")
  obtain r where r: "q = Inr r" using run sb by (cases q) (auto simp: unjail_broadcast_def inp_def[symmetric])
  obtain out cerr where c: "classifyGovResult r = (out, cerr)" by (cases "classifyGovResult r")
  show ?thesis
  proof (rule confirmed_success[OF sb[unfolded r] c, of "releasedAfter K (uj_ChainID p) val"])
    show "(if sr_Unverifiable r then case releasedAfter K (uj_ChainID p) val s1 of (s2, b) \<Rightarrow> (s2, Some out, if b then None else cerr)
      else (s1, Some out, cerr)) = (s', res, None)"
      using run sb r c by (simp add: unjail_broadcast_def inp_def[symmetric])
    fix s2 b assume "releasedAfter K (uj_ChainID p) val s1 = (s2, b)"
    then show "ss_trace s2 = ss_trace s1 \<and> (b \<longrightarrow> (\<exists>n. effect_shown K (ss_trace s1) (UnjailRequest p) n))"
      using val by (auto simp: releasedAfter_def dest: confirm_law)
  qed
qed

lemma Unjailer_cases:
  assumes "Unjailer_Handler W K i p s = (s', res, err)"
  obtains (stopped) e s1 b where "err = Some e" "s' = s \<or> hasTxMarker W i s = (s1, b) \<and> s' = s1"
  | (went) val s1 adopting where "operatorValAddr K (uj_KeyName p) = Inr val" "hasTxMarker W i s = (s1, Inr adopting)"
      "adopting \<or> checkJailed K (uj_ChainID p) val s1 = None" "unjail_broadcast W K i p val s1 = (s', res, err)"
proof (cases "operatorValAddr K (uj_KeyName p)")
  case (Inl e)
  then show ?thesis using assms stopped by (auto simp: Unjailer_Handler_def)
next
  case (Inr val)
  obtain s1 a where a: "hasTxMarker W i s = (s1, a)" by (cases "hasTxMarker W i s")
  show ?thesis
  proof (cases a)
    case (Inl e)
    then show ?thesis using assms Inr a stopped by (auto simp: Unjailer_Handler_def)
  next
    case (Inr adopting)
    show ?thesis
    proof (cases "if adopting then None else checkJailed K (uj_ChainID p) val s1")
      case None
      then have "unjail_broadcast W K i p val s1 = (s', res, err)"
        using assms Inr a \<open>operatorValAddr K (uj_KeyName p) = Inr val\<close> by (simp add: Unjailer_Handler_def)
      then show ?thesis using went[of val s1 adopting] None Inr a \<open>operatorValAddr K (uj_KeyName p) = Inr val\<close>
        by (auto split: if_splits)
    next
      case (Some e)
      then have "s' = s1" "err = Some e"
        using assms Inr a \<open>operatorValAddr K (uj_KeyName p) = Inr val\<close> by (auto simp: Unjailer_Handler_def)
      then show ?thesis using a stopped[of e s1 a] by simp
    qed
  qed
qed

lemma unjailer_success:
  assumes "Unjailer_Handler W K i p s = (s', res, None)"
  shows "\<exists>out. res = Some out \<and>
    (committed W s' out \<or> gr_InclusionStatus out = InclusionUnverifiable \<and> (\<exists>n. effect_shown K (ss_trace s') (UnjailRequest p) n))"
  using assms by (rule Unjailer_cases) (use unjail_broadcast_success in blast)+

lemma proposal_success:
  assumes "gov_handler W K i q s = (s', res, None)" and "is_proposal q"
  shows "\<exists>out. res = Some out \<and> committed W s' out \<and> gr_ProposalID out \<noteq> 0"
  using assms
  by (cases q) (auto simp: GovParamChanger_Handler_def GovSoftwareUpgrader_Handler_def GovInstantiateConfigUpdater_Handler_def
      dest: propose_success split: sum.splits)

text \<open>C13. Success means effect.  A transaction task reports success only if the local node's last answer held the
  transaction, committed with code 0, or, where the node cannot look transactions up, if a read of the chain's state shows
  the effect the request asked for: the voter's recorded choice, the validator released.  A proposal is a success only with the id
  the chain gave it, and is never taken from state.\<close>

theorem gov_success_means_effect:
  assumes "gov_handler W K i q s = (s', res, None)"
  shows "\<exists>out. res = Some out \<and>
    (committed W s' out \<and> (is_proposal q \<longrightarrow> gr_ProposalID out \<noteq> 0) \<or>
     gr_InclusionStatus out = InclusionUnverifiable \<and> \<not> is_proposal q \<and> (\<exists>n. effect_shown K (ss_trace s') q n))"
proof (cases q)
  case (VoteRequest p)
  then show ?thesis using voter_success[of W K i p s s' res] assms by auto
next
  case (UnjailRequest p)
  then show ?thesis using unjailer_success[of W K i p s s' res] assms by auto
qed (use proposal_success[OF assms] in auto)

definition demo_sdk :: gov_sdk where
  "demo_sdk =
     \<lparr>gk_Keyring = Some (\<lambda>k. Ok ''addr''), gk_AccString = (\<lambda>a. ''sei1'' @ a), gk_ValString = (\<lambda>a. ''seivaloper1'' @ a),
      gk_AccAddressFromBech32 = (\<lambda>s. Ok (drop 4 s)), gk_PackContent = (\<lambda>_. None), gk_ValidateContent = (\<lambda>_. None),
      gk_Encode = (\<lambda>_. ''msg''), gk_OneDec = 1000000000000000000, gk_TokensFromShares = (\<lambda>_ n. n),
      gk_ClientContext = (\<lambda>_. None), gk_Status = (\<lambda>_ _. Ok (False, 500)),
      gk_Vote = (\<lambda>_ n _ _. if n < 3 then Err ''vote not found'' else Ok \<lparr>vo_Options = [(OptionYes, 1000000000000000000)]\<rparr>),
      gk_Validator = (\<lambda>_ _ _. Inr \<lparr>sv_Jailed = True, sv_MinSelfDelegation = 1, sv_DelegatorShares = 9, sv_Tokens = 9\<rparr>),
      gk_Delegation = (\<lambda>_ _ _ _. Inr (Some 5)), gk_UnpackKey = (\<lambda>_. None), gk_ConsAddr = (\<lambda>_. Ok ''cons''),
      gk_SigningInfo = (\<lambda>_ _ _. Inr \<lparr>sg_Tombstoned = False, sg_JailedUntil = 400\<rparr>), gk_read_time = (\<lambda>_ _. 1000),
      gk_cancelled_at = (\<lambda>_. None), gk_Format = (\<lambda>_. ''t'')\<rparr>"

definition sample_vote :: GovVoteTask where
  "sample_vote = \<lparr>gv_ChainID = ''pacific-1'', gv_KeyName = ''ops'', gv_ProposalID = 4, gv_Option = ''yes'', gv_Memo = [],
     gv_Fees = ''2000usei'', gv_Gas = 200000\<rparr>"

text \<open>A node without a transaction index: the vote shows at the fourth read.\<close>

definition unindexed_txworld :: txworld where
  "unindexed_txworld = (demo_txworld False)\<lparr>tw_query := \<lambda>_ _. TxDisabled\<rparr>"

definition sample_vote_run :: "sign_state \<times> gov_out" where
  "sample_vote_run = gov_handler unindexed_txworld demo_sdk ''t1'' (VoteRequest sample_vote) (demo_sign_state [])"

lemma sample_vote_run_ok: "snd (snd sample_vote_run) = None"
  by code_simp

theorem gov_success_means_effect_witness:
  "snd (snd sample_vote_run) = None \<and> (\<exists>out. fst (snd sample_vote_run) = Some out)"
  using gov_success_means_effect[of unindexed_txworld demo_sdk "''t1''" "VoteRequest sample_vote" "demo_sign_state []"
      "fst sample_vote_run" "fst (snd sample_vote_run)"] sample_vote_run_ok
  by (auto simp: sample_vote_run_def prod_eq_iff)

subsection \<open>Unjailing\<close>

text \<open>The conditions the chain's own handler puts on an unjail.\<close>

definition unjailable :: "jailState \<Rightarrow> bool" where
  "unjailable st \<longleftrightarrow> \<not> js_CatchingUp st \<and> js_HasSelfDelegation st \<and> js_MinSelfBond st \<le> js_SelfBond st \<and> js_Jailed st \<and>
     \<not> js_Tombstoned st \<and> (\<forall>u. js_JailedUntil st = Some u \<longrightarrow> u \<le> js_BlockTime st)"

lemma checkJailed_passes:
  "checkJailed K chain val s = None \<longleftrightarrow> (\<exists>st. chainJailState K (ss_trace s) chain val 0 = Inr st \<and> unjailable st)"
proof (cases "chainJailState K (ss_trace s) chain val 0")
  case (Inl e)
  then show ?thesis by (cases e) (simp_all add: checkJailed_def Let_def)
next
  case (Inr st)
  then show ?thesis by (auto simp: checkJailed_def Let_def unjailable_def split: option.splits)
qed

lemma hasTxMarker_law:
  assumes "hasTxMarker W i s = (s1, b)" and "tw_checkpointer W"
  shows "adds waits 1 s s1 \<and> (i \<noteq> [] \<longrightarrow> ss_trace s1 = ss_trace s @ [ReadMarker i]) \<and>
    (\<forall>x. i \<noteq> [] \<and> b = Inr x \<longrightarrow> x = (marker_of i (db_markers (ss_store s)) \<noteq> None))"
proof (cases "i = []")
  case True
  then show ?thesis using assms by (auto simp: hasTxMarker_def)
next
  case False
  obtain s2 r where rm: "read_marker W i s = (s2, r)" by (cases "read_marker W i s")
  have tr: "ss_trace s2 = ss_trace s @ [ReadMarker i]" using rm by (auto simp: read_marker_def split: prod.splits)
  show ?thesis using assms False rm read_marker_law[OF rm] tr by (cases r) (auto simp: hasTxMarker_def)
qed

lemma unjail_broadcast_run:
  assumes "unjail_broadcast W K i p val s = (s', out)"
  obtains s1 r inp where "signAndBroadcast W inp s = (s1, r)" "si_TaskID inp = i" "ss_trace s' = ss_trace s1" "ss_store s' = ss_store s1"
proof -
  define inp where "inp = \<lparr>si_ChainID = uj_ChainID p, si_KeyName = uj_KeyName p, si_Msg = Some (gk_Encode K (UnjailMsg val)),
    si_Fees = uj_Fees p, si_Gas = uj_Gas p, si_Memo = uj_Memo p, si_TaskID = i\<rparr>"
  obtain s1 r where sb: "signAndBroadcast W inp s = (s1, r)" by (cases "signAndBroadcast W inp s")
  have "ss_trace s' = ss_trace s1 \<and> ss_store s' = ss_store s1"
    using assms sb by (cases r) (auto simp: unjail_broadcast_def inp_def[symmetric] releasedAfter_def
        split: prod.splits if_splits dest: confirm_law)
  then show thesis using that[OF sb] by (simp add: inp_def)
qed

lemma no_task_no_broadcast:
  assumes "signAndBroadcast W inp s = (s1, r)" and "si_TaskID inp = []"
  shows "s1 = s"
proof (cases "contains_str (si_Memo inp) taskIDMemoPrefix")
  case True
  then show ?thesis using assms by (simp add: signAndBroadcast_def)
next
  case False
  have "validateInput W (inp\<lparr>si_Memo := appendTaskIDToMemo (si_Memo inp) (si_TaskID inp)\<rparr>) \<noteq> None"
    using assms(2) by (auto simp: validateInput_def split: option.splits)
  then show ?thesis using assms False by (auto simp: signAndBroadcast_def Let_def split: option.splits)
qed

text \<open>C14. No fee is spent on an unjail the chain refuses.  If a run of the unjail task broadcasts, then either the bytes are those
  of the marker an earlier run left, or the task had no marker and the chain state read just before allows the
  unjail: a caught-up node, a validator that is jailed, not tombstoned and past its jail time, with enough self-delegation.\<close>

theorem unjail_only_when_releasable:
  assumes run: "Unjailer_Handler W K i p s = (s', out)" and cp: "tw_checkpointer W"
    and tr: "ss_trace s' = ss_trace s @ evs" and b: "Broadcasted b \<in> set evs"
  shows "\<exists>val. operatorValAddr K (uj_KeyName p) = Inr val \<and>
    ((\<exists>m. marker_of i (db_markers (ss_store s)) = Some m \<and> tm_TxBytes m = b) \<or>
     marker_of i (db_markers (ss_store s)) = None \<and>
     (\<exists>st. chainJailState K (ss_trace s @ [ReadMarker i]) (uj_ChainID p) val 0 = Inr st \<and> unjailable st))"
proof -
  have run': "Unjailer_Handler W K i p s = (s', fst out, snd out)" using run by simp
  show ?thesis using run'
  proof (cases rule: Unjailer_cases)
    case (stopped e s1 c)
    have "adds waits 1 s s'" using stopped(2) hasTxMarker_law[OF _ cp] by auto
    then have "list_all waits evs" using tr by (auto simp: adds_def)
    then show ?thesis using b waits_no_broadcast by blast
  next
    case (went val s1 adopting)
    note law = hasTxMarker_law[OF went(2) cp]
    obtain s2 r inp where sb: "signAndBroadcast W inp s1 = (s2, r)" "si_TaskID inp = i" "ss_trace s' = ss_trace s2"
      "ss_store s' = ss_store s2" using unjail_broadcast_run[OF went(4)] .
    obtain us where us: "ss_trace s1 = ss_trace s @ us" "list_all waits us"
      "db_markers (ss_store s1) = db_markers (ss_store s)" using law by (auto simp: adds_def)
    have ne: "i \<noteq> []"
    proof
      assume "i = []"
      then have "s2 = s1" using no_task_no_broadcast[OF sb(1)] sb(2) by simp
      then show False using tr us sb(3) b waits_no_broadcast by simp
    qed
    have shape: "run_shape i 367 s1 s2" using signAndBroadcast_shape[OF sb(1) cp] sb(2) by simp
    then obtain ps where ps: "ss_trace s2 = ss_trace s1 @ ps" by (auto simp: run_shape_def)
    have bp: "Broadcasted b \<in> set ps" using ps tr us sb(3) b waits_no_broadcast[OF us(2)] by auto
    obtain m where m: "tm_TxBytes m = b"
      "marker_of i (db_markers (ss_store s)) = Some m \<or> marker_of i (db_markers (ss_store s)) = None"
      using prefix_of_shape[OF shape, of ps "[]" b] ps bp us(3) by auto
    show ?thesis
    proof (cases "marker_of i (db_markers (ss_store s))")
      case None
      then have "checkJailed K (uj_ChainID p) val s1 = None" using went(3) law ne by auto
      then show ?thesis using None went(1) law ne by (auto simp: checkJailed_passes)
    next
      case (Some x)
      then show ?thesis using m went(1) by auto
    qed
  qed
qed

definition demo_unjail :: UnjailTask where
  "demo_unjail = \<lparr>uj_ChainID = ''pacific-1'', uj_KeyName = ''ops'', uj_Memo = [], uj_Fees = ''2000usei'', uj_Gas = 200000\<rparr>"

definition demo_unjail_run :: "sign_state \<times> gov_out" where
  "demo_unjail_run = Unjailer_Handler (demo_txworld True) demo_sdk ''t1'' demo_unjail (demo_sign_state [])"

lemma demo_unjail_trace: "ss_trace (fst demo_unjail_run) = ReadMarker ''t1'' # first_run"
  by code_simp

theorem unjail_only_when_releasable_witness:
  "Broadcasted ''tx-3'' \<in> set (ss_trace (fst demo_unjail_run)) \<and>
   (\<exists>st. chainJailState demo_sdk [ReadMarker ''t1''] ''pacific-1'' ''addr'' 0 = Inr st \<and> unjailable st)"
  using unjail_only_when_releasable[OF prod.collapse[symmetric], where W = "demo_txworld True" and K = demo_sdk and i = "''t1''"
      and p = demo_unjail and s = "demo_sign_state []" and evs = "ReadMarker ''t1'' # first_run" and b = "''tx-3''"]
    demo_unjail_trace
  by (simp add: demo_unjail_run_def demo_sign_state_def first_run_def demo_txworld_def marker_of_def demo_unjail_def operatorValAddr_def demo_sdk_def)

section \<open>The wire\<close>

text \<open>
  The requests of the transaction tasks survive their way from the client to the handler: client struct, JSON body, the
  server's \<open>map[string]any\<close> with its float64 numbers, JSON again, handler struct.  And the message a handler signs carries what the request says.
\<close>

subsection \<open>All five requests\<close>

fun gov_params :: "gov_request \<Rightarrow> table" where
  "gov_params (VoteRequest t) = GovVoteTask_params t"
| "gov_params (UnjailRequest t) = UnjailTask_params t"
| "gov_params (ParamChangeRequest t) = GovParamChangeTask_params t"
| "gov_params (UpgradeRequest t) = GovSoftwareUpgradeTask_params t"
| "gov_params (ConfigRequest t) = GovUpdateInstantiateConfigTask_params t"

text \<open>Decoding into the request type of the same task.\<close>

fun gov_decode :: "gov_request \<Rightarrow> json \<Rightarrow> gov_request result" where
  "gov_decode (VoteRequest _) j = map_sum id VoteRequest (decode_GovVoteRequest j)"
| "gov_decode (UnjailRequest _) j = map_sum id UnjailRequest (decode_UnjailRequest j)"
| "gov_decode (ParamChangeRequest _) j = map_sum id ParamChangeRequest (decode_GovParamChangeRequest j)"
| "gov_decode (UpgradeRequest _) j = map_sum id UpgradeRequest (decode_GovSoftwareUpgradeRequest j)"
| "gov_decode (ConfigRequest _) j = map_sum id ConfigRequest (decode_GovUpdateInstantiateConfigRequest j)"

definition float_exact :: nat where "float_exact = 2 ^ 53"

text \<open>Every number of the request itself is one a float64 holds exactly, and every proposed parameter
  value is set; nothing is asked of the values.\<close>

fun float_safe :: "gov_request \<Rightarrow> bool" where
  "float_safe (VoteRequest t) \<longleftrightarrow> gv_ProposalID t < float_exact \<and> gv_Gas t < float_exact"
| "float_safe (UnjailRequest t) \<longleftrightarrow> uj_Gas t < float_exact"
| "float_safe (ParamChangeRequest t) \<longleftrightarrow> gpc_Gas t < float_exact \<and>
     list_all (\<lambda>c. pci_Value c \<noteq> None) (gpc_Changes t)"
| "float_safe (UpgradeRequest t) \<longleftrightarrow> gsu_Gas t < float_exact \<and> \<bar>gsu_UpgradeHeight t\<bar> < int float_exact"
| "float_safe (ConfigRequest t) \<longleftrightarrow> guc_Gas t < float_exact \<and> list_all (\<lambda>u. icu_CodeID u < float_exact) (guc_Updates t)"

text \<open>What a float64 does to an integer token: one of absolute value below \<open>2 ^ 53\<close> is printed as it was.\<close>

definition float_texts :: "(string \<Rightarrow> string) \<Rightarrow> bool" where
  "float_texts ft \<longleftrightarrow> (\<forall>i. \<bar>i\<bar> < int float_exact \<longrightarrow> ft (itoa i) = itoa i)"

text \<open>The request as the server's \<open>map[string]any\<close> leaves it: the proposed parameter values, which
  are arbitrary JSON, are decoded and printed again; everything else is untouched.\<close>

definition rewritten_change :: "(string \<Rightarrow> string) \<Rightarrow> ParamChangeInput \<Rightarrow> ParamChangeInput" where
  "rewritten_change ft c = c\<lparr>pci_Value := map_option (any_value ft) (pci_Value c)\<rparr>"

fun rewritten :: "(string \<Rightarrow> string) \<Rightarrow> gov_request \<Rightarrow> gov_request" where
  "rewritten ft (ParamChangeRequest t) = ParamChangeRequest (t\<lparr>gpc_Changes := map (rewritten_change ft) (gpc_Changes t)\<rparr>)"
| "rewritten ft q = q"

lemma float_texts_int: "float_texts ft \<Longrightarrow> \<bar>i\<bar> < int float_exact \<Longrightarrow> ft (itoa i) = itoa i"
  by (simp add: float_texts_def)

lemma float_texts_nat: "float_texts ft \<Longrightarrow> n < float_exact \<Longrightarrow> ft (show_nat n) = show_nat n"
  using float_texts_int[of ft "int n"] by (simp add: itoa_def)

lemma float_exact_64: "n < float_exact \<Longrightarrow> n < 2 ^ 64"
  by (simp add: float_exact_def)

lemma dec_uint64 [simp]: "n < float_exact \<Longrightarrow> dec_uint 64 u (JNumber (show_nat n)) = Ok n"
  by (rule dec_scalars(3)) (rule float_exact_64)

lemma dec_height [simp]: "\<bar>i\<bar> < int float_exact \<Longrightarrow> dec_int64 k (JNumber (itoa i)) = Ok i"
  by (rule dec_scalars(4)) (auto simp: float_exact_def)

abbreviation over_wire :: "(string \<Rightarrow> string) \<Rightarrow> table \<Rightarrow> table" where
  "over_wire ft t \<equiv> any_members (map (\<lambda>(k, v). (k, any_value ft v)) t)"

lemmas wire_defs = str_member_def num_member_def opt_member_def decode_struct_def find_field_def field_def

text \<open>Sorting the members of a concrete object.\<close>

lemmas member_order = any_members_def sort_key_def insort_key.simps less_eq_char_def less_char_def list_less_def

lemma vote_wire:
  "float_texts ft \<Longrightarrow> float_safe (VoteRequest t) \<Longrightarrow> decode_GovVoteRequest (JObject (over_wire ft (GovVoteTask_params t))) = Ok t"
  by (cases "gv_Memo t = []")
    (simp_all add: decode_GovVoteRequest_def GovVoteTask_params_def GovVoteRequest_fields_def member_order wire_defs float_texts_nat)

lemma unjail_wire:
  "float_texts ft \<Longrightarrow> float_safe (UnjailRequest t) \<Longrightarrow> decode_UnjailRequest (JObject (over_wire ft (UnjailTask_params t))) = Ok t"
  by (cases "uj_Memo t = []")
    (simp_all add: decode_UnjailRequest_def UnjailTask_params_def UnjailRequest_fields_def member_order wire_defs float_texts_nat)

lemma upgrade_wire:
  "float_texts ft \<Longrightarrow> float_safe (UpgradeRequest t) \<Longrightarrow>
   decode_GovSoftwareUpgradeRequest (JObject (over_wire ft (GovSoftwareUpgradeTask_params t))) = Ok t"
  by (cases "gsu_Memo t = []"; cases "gsu_UpgradeInfo t = []")
    (simp_all add: decode_GovSoftwareUpgradeRequest_def GovSoftwareUpgradeTask_params_def GovSoftwareUpgradeRequest_fields_def
      member_order wire_defs float_texts_nat float_texts_int)

lemma change_wire:
  "pci_Value c \<noteq> None \<Longrightarrow> dec_change zero_change (any_value ft (change_json c)) = Ok (rewritten_change ft c)"
  by (auto simp: dec_change_def zero_change_def change_json_def paramChange_fields_def member_order wire_defs rewritten_change_def)

lemma update_wire:
  "float_texts ft \<Longrightarrow> icu_CodeID u < float_exact \<Longrightarrow> dec_update zero_update (any_value ft (update_json u)) = Ok u"
  by (simp add: dec_update_def zero_update_def update_json_def configUpdate_fields_def member_order wire_defs float_texts_nat)

lemma map_result_images: "(\<And>x. x \<in> set xs \<Longrightarrow> f (g x) = Ok (h x)) \<Longrightarrow> map_result f (map g xs) = Ok (map h xs)"
  by (induction xs) auto

lemma changes_wire:
  assumes "list_all (\<lambda>c. pci_Value c \<noteq> None) cs"
  shows "dec_list dec_change zero_change old (JArray (map (\<lambda>c. any_value ft (change_json c)) cs)) = Ok (map (rewritten_change ft) cs)"
  using map_result_images[of cs "dec_change zero_change" "\<lambda>c. any_value ft (change_json c)" "rewritten_change ft"] assms change_wire
  by (simp add: dec_list_def list_all_iff)

lemma updates_wire:
  assumes "float_texts ft" and "list_all (\<lambda>u. icu_CodeID u < float_exact) us"
  shows "dec_list dec_update zero_update old (JArray (map (\<lambda>u. any_value ft (update_json u)) us)) = Ok us"
  using map_result_images[of us "dec_update zero_update" "\<lambda>u. any_value ft (update_json u)" "\<lambda>u. u"] assms update_wire
  by (simp add: dec_list_def list_all_iff)

lemma param_change_wire:
  "float_texts ft \<Longrightarrow> float_safe (ParamChangeRequest t) \<Longrightarrow>
   decode_GovParamChangeRequest (JObject (over_wire ft (GovParamChangeTask_params t))) =
     Ok (t\<lparr>gpc_Changes := map (rewritten_change ft) (gpc_Changes t)\<rparr>)"
  by (cases "gpc_Memo t = []")
    (simp_all add: decode_GovParamChangeRequest_def GovParamChangeTask_params_def GovParamChangeRequest_fields_def member_order wire_defs
      float_texts_nat changes_wire comp_def)

lemma config_wire:
  "float_texts ft \<Longrightarrow> float_safe (ConfigRequest t) \<Longrightarrow>
   decode_GovUpdateInstantiateConfigRequest (JObject (over_wire ft (GovUpdateInstantiateConfigTask_params t))) = Ok t"
  by (cases "guc_Memo t = []")
    (simp_all add: decode_GovUpdateInstantiateConfigRequest_def GovUpdateInstantiateConfigTask_params_def
      GovUpdateInstantiateConfigRequest_fields_def member_order wire_defs float_texts_nat updates_wire comp_def)

text \<open>C15. A transaction request reaches its handler.  The struct the handler decodes from the params the server stored is
  the one the client sent, for a vote, an unjail and every proposal, with the proposed values of a parameter change (free-form
  JSON) decoded into \<open>any\<close> and printed again: numbers as a float64 prints them, object members by key, of two with the same
  key the later.  It holds when the request's own numbers (gas, proposal id, code ids, upgrade height) are below \<open>2 ^ 53\<close> in
  absolute value, which a float64 holds exactly, and every proposed parameter has a value.\<close>

theorem gov_request_roundtrip:
  assumes "float_texts ft" and "float_safe q"
  shows "\<exists>t. unmarshal_params ft (JObject (gov_params q)) = Ok (Some t) \<and>
             gov_decode q (marshal_params (Some t)) = Ok (rewritten ft q)"
proof -
  have "unmarshal_params ft (JObject (gov_params q)) = Ok (Some (over_wire ft (gov_params q)))"
    by (simp add: unmarshal_params_def)
  moreover have "gov_decode q (marshal_params (Some (over_wire ft (gov_params q)))) = Ok (rewritten ft q)"
    using assms vote_wire unjail_wire upgrade_wire param_change_wire config_wire by (cases q) (simp_all add: marshal_params_def)
  ultimately show ?thesis by blast
qed

text \<open>A proposed value with unsorted members, a repeated key and a number that a float64 prints differently.\<close>

definition demo_change :: "json \<Rightarrow> GovParamChangeTask" where
  "demo_change v = \<lparr>gpc_ChainID = ''pacific-1'', gpc_KeyName = ''ops'', gpc_Title = ''t'', gpc_Description = ''d'',
     gpc_Changes = [\<lparr>pci_Subspace = ''slashing'', pci_Key = ''SignedBlocksWindow'', pci_Value = Some v\<rparr>],
     gpc_InitialDeposit = ''10000000usei'', gpc_Memo = [], gpc_Fees = ''2000usei'', gpc_Gas = 200000\<rparr>"

definition demo_sent :: json where
  "demo_sent = JObject [(''window'', JNumber ''1e3''), (''min'', JString ''0.05''), (''window'', JNumber ''1.50'')]"

definition demo_float :: "string \<Rightarrow> string" where
  "demo_float s = (if s = ''1e3'' then ''1000'' else if s = ''1.50'' then ''1.5'' else s)"

lemma demo_float_texts: "float_texts demo_float"
proof -
  have "parse_int ''1e3'' = None" "parse_int ''1.50'' = None" by code_simp+
  then have "itoa i \<noteq> ''1e3''" "itoa i \<noteq> ''1.50''" for i
    by (metis parse_int_itoa option.distinct(1))+
  then show ?thesis by (simp add: float_texts_def demo_float_def)
qed

theorem gov_request_roundtrip_witness:
  "float_texts demo_float \<and> float_safe (ParamChangeRequest (demo_change demo_sent)) \<and>
   (\<exists>t. unmarshal_params demo_float (JObject (gov_params (ParamChangeRequest (demo_change demo_sent)))) = Ok (Some t) \<and>
      gov_decode (ParamChangeRequest (demo_change demo_sent)) (marshal_params (Some t)) =
        Ok (ParamChangeRequest (demo_change (JObject [(''min'', JString ''0.05''), (''window'', JNumber ''1.5'')]))))"
proof -
  have "float_safe (ParamChangeRequest (demo_change demo_sent))" by (simp add: demo_change_def float_exact_def)
  moreover have "rewritten demo_float (ParamChangeRequest (demo_change demo_sent)) =
      ParamChangeRequest (demo_change (JObject [(''min'', JString ''0.05''), (''window'', JNumber ''1.5'')]))"
    by code_simp
  ultimately show ?thesis
    using gov_request_roundtrip[OF demo_float_texts, of "ParamChangeRequest (demo_change demo_sent)"] demo_float_texts by simp
qed

subsection \<open>The proposal's message\<close>

lemma param_changes_exact:
  "param_changes i cs = Inr xs \<Longrightarrow>
   xs = map (\<lambda>c. (pci_Subspace c, pci_Key c, json_encode (the (pci_Value c)))) cs \<and>
   list_all (\<lambda>c. pci_Subspace c \<noteq> [] \<and> pci_Key c \<noteq> [] \<and> pci_Value c \<noteq> None) cs"
proof (induction cs arbitrary: i xs)
  case (Cons c cs)
  then show ?case by (auto split: if_splits option.splits sum.splits)
qed simp

lemma config_updates_exact:
  "config_updates K i seen us = Inr xs \<Longrightarrow>
   map fst xs = map icu_CodeID us \<and> distinct (map icu_CodeID us) \<and> list_all (\<lambda>u. icu_CodeID u \<notin> set seen \<and> icu_CodeID u \<noteq> 0) us \<and>
   map (\<lambda>x. Ok (snd x)) xs = map (\<lambda>u. parseInstantiatePermission K (icu_Permission u)) us"
proof (induction us arbitrary: i seen xs)
  case (Cons u us)
  from Cons.prems obtain perm rest where "icu_CodeID u \<noteq> 0" "icu_CodeID u \<notin> set seen"
    "parseInstantiatePermission K (icu_Permission u) = Inr perm"
    "config_updates K (i + 1) (icu_CodeID u # seen) us = Inr rest" "xs = (icu_CodeID u, perm) # rest"
    by (auto split: if_splits sum.splits)
  then show ?case using Cons.IH[of "i + 1" "icu_CodeID u # seen" rest] by (auto simp: list_all_iff)
qed simp

lemma foreign_denom_none: "first_foreign_denom cs = None \<Longrightarrow> list_all (\<lambda>(d, n). d = feeDenom) cs"
  by (induction cs rule: first_foreign_denom.induct) (auto split: if_splits)

lemma parse_deposit_usei:
  assumes "parse_deposit W dep = Inr coins"
  shows "coins \<noteq> [] \<and> list_all (\<lambda>(d, n). d = feeDenom \<and> n > 0) coins \<and> tw_parse_coins W dep = Ok coins"
proof -
  have "tw_parse_coins W dep = Ok coins \<and> coins \<noteq> [] \<and> list_all (\<lambda>(d, n). n > 0) coins \<and> first_foreign_denom coins = None"
    using assms by (auto simp: parse_deposit_def split: sum.splits if_splits option.splits)
  then show ?thesis using foreign_denom_none[of coins] by (auto simp: list_all_iff)
qed

lemma submit_proposal_exact: "submit_proposal K content coins addr = Inr msg \<Longrightarrow> msg = SubmitProposal content coins addr"
  by (simp add: submit_proposal_def split: option.splits)

text \<open>A parameter-change proposal carries each change with the JSON text of its value, in order, and a positive deposit in
  usei only.\<close>

theorem param_change_message:
  assumes "buildParamChangeMsg W K p = Inr msg"
  shows "\<exists>coins addr. msg = SubmitProposal (ParameterChange (gpc_Title p) (gpc_Description p)
      (map (\<lambda>c. (pci_Subspace c, pci_Key c, json_encode (the (pci_Value c)))) (gpc_Changes p)) False) coins addr \<and>
    gpc_Changes p \<noteq> [] \<and> list_all (\<lambda>c. pci_Value c \<noteq> None) (gpc_Changes p) \<and>
    coins \<noteq> [] \<and> list_all (\<lambda>(d, n). d = feeDenom \<and> n > 0) coins"
proof -
  obtain key xs addr coins where
    x: "gpc_Changes p \<noteq> []" "param_changes 0 (gpc_Changes p) = Inr xs" "parse_deposit W (gpc_InitialDeposit p) = Inr coins"
    "submit_proposal K (ParameterChange (gpc_Title p) (gpc_Description p) xs False) coins addr = Inr msg"
    using assms by (auto simp: buildParamChangeMsg_def split: sum.splits if_splits)
  show ?thesis using x(1) param_changes_exact[OF x(2)] parse_deposit_usei[OF x(3)] submit_proposal_exact[OF x(4)]
    by (auto simp: list_all_iff)
qed

text \<open>A proposal to change instantiate permissions names every code once, none of them 0, in the order of the request.\<close>

theorem instantiate_config_message:
  assumes "buildGovUpdateInstantiateConfigMsg W K p = Inr msg"
  shows "\<exists>xs coins addr. msg = SubmitProposal (UpdateInstantiateConfig (guc_Title p) (guc_Description p) xs) coins addr \<and>
    map fst xs = map icu_CodeID (guc_Updates p) \<and> distinct (map icu_CodeID (guc_Updates p)) \<and> xs \<noteq> [] \<and>
    list_all (\<lambda>u. icu_CodeID u \<noteq> 0) (guc_Updates p) \<and>
    list_all (\<lambda>(d, n). d = feeDenom \<and> n > 0) coins"
proof -
  obtain xs addr coins where
    x: "guc_Updates p \<noteq> []" "config_updates K 0 [] (guc_Updates p) = Inr xs" "parse_deposit W (guc_InitialDeposit p) = Inr coins"
    "submit_proposal K (UpdateInstantiateConfig (guc_Title p) (guc_Description p) xs) coins addr = Inr msg"
    using assms by (auto simp: buildGovUpdateInstantiateConfigMsg_def Let_def split: sum.splits if_splits option.splits)
  show ?thesis using x(1) config_updates_exact[OF x(2)] parse_deposit_usei[OF x(3)] submit_proposal_exact[OF x(4)]
    by (auto simp: list_all_iff)
qed

end
