(* ===== verification/Platform.thy ===== *)
theory Platform
  imports ApiMethods GoStrconv
begin

text \<open>
  The platform configuration (\<open>internal/platform\<close>): the application-config file, its resolution at startup and the
  validation of the result.  The YAML decoder, the file system, the environment and the parser of Kubernetes quantities
  are arguments.
\<close>

subsection \<open>The application-config file\<close>

record ResourceOverride =
  ro_CPURequest :: string
  ro_Memory :: string

record FileDedicated =
  fd_NodepoolName :: string
  fd_NodepoolArchive :: string
  fd_NodepoolValidator :: string
  fd_NodepoolSeed :: string

record FileScheduling =
  fs_NodepoolName :: string
  fs_NodepoolArchive :: string
  fs_NodepoolValidator :: string
  fs_NodepoolSeed :: string
  fs_TolerationKey :: string
  fs_ServiceAccount :: string
  fs_Dedicated :: FileDedicated
  fs_SelectableNodepools :: "string list"

record FileStorage =
  fst_ClassPerf :: string
  fst_ClassDefault :: string
  fst_ClassArchive :: string
  fst_SizeDefault :: string
  fst_SizeArchive :: string
  fst_SizeSeed :: string

record FileResources =
  fr_Validator :: ResourceOverride
  fr_Node :: ResourceOverride
  fr_Replayer :: ResourceOverride
  fr_Archive :: ResourceOverride
  fr_Seed :: ResourceOverride

record FileBucket =
  fb_Bucket :: string
  fb_Region :: string

record FileImages =
  fi_Sidecar :: string
  fi_KubeRBACProxy :: string
  fi_CosmosExporter :: string
  fi_CosmosExporterExcludedChains :: "string list"

record FileConfig =
  fc_Syncers :: "string \<rightharpoonup> string list"
  fc_Scheduling :: FileScheduling
  fc_Storage :: FileStorage
  fc_Resources :: FileResources
  fc_Snapshot :: FileBucket
  fc_Genesis :: FileBucket
  fc_Images :: FileImages
  fc_DriftUpdateBudgetPercent :: int

definition no_override :: ResourceOverride where "no_override = \<lparr>ro_CPURequest = [], ro_Memory = []\<rparr>"

definition no_bucket :: FileBucket where "no_bucket = \<lparr>fb_Bucket = [], fb_Region = []\<rparr>"

definition zero_FileConfig :: FileConfig where
  "zero_FileConfig =
     \<lparr>fc_Syncers = Map.empty,
      fc_Scheduling = \<lparr>fs_NodepoolName = [], fs_NodepoolArchive = [], fs_NodepoolValidator = [], fs_NodepoolSeed = [],
        fs_TolerationKey = [], fs_ServiceAccount = [],
        fs_Dedicated = \<lparr>fd_NodepoolName = [], fd_NodepoolArchive = [], fd_NodepoolValidator = [], fd_NodepoolSeed = []\<rparr>,
        fs_SelectableNodepools = []\<rparr>,
      fc_Storage = \<lparr>fst_ClassPerf = [], fst_ClassDefault = [], fst_ClassArchive = [], fst_SizeDefault = [], fst_SizeArchive = [],
        fst_SizeSeed = []\<rparr>,
      fc_Resources = \<lparr>fr_Validator = no_override, fr_Node = no_override, fr_Replayer = no_override, fr_Archive = no_override,
        fr_Seed = no_override\<rparr>,
      fc_Snapshot = no_bucket, fc_Genesis = no_bucket,
      fc_Images = \<lparr>fi_Sidecar = [], fi_KubeRBACProxy = [], fi_CosmosExporter = [], fi_CosmosExporterExcludedChains = []\<rparr>,
      fc_DriftUpdateBudgetPercent = 0\<rparr>"

text \<open>\<open>os.ReadFile\<close>: the content, or an error that may be "does not exist".\<close>

datatype file_read = FileContent string | FileMissing | FileReadError error

definition ReadFileConfig :: "(string \<Rightarrow> file_read) \<Rightarrow> (string \<Rightarrow> FileConfig result) \<Rightarrow> string \<Rightarrow> FileConfig result" where
  "ReadFileConfig read yaml path =
     (if TrimSpace path = [] then Ok zero_FileConfig
      else case read path of
        FileMissing \<Rightarrow> Ok zero_FileConfig
      | FileReadError e \<Rightarrow> Err (''reading controller config file '' @ quoted path @ '': '' @ e)
      | FileContent raw \<Rightarrow>
          (case yaml raw of
             Inl e \<Rightarrow> Err (''parsing controller config file '' @ quoted path @ '': '' @ e)
           | Inr cfg \<Rightarrow> Ok cfg))"

subsection \<open>The resolved configuration\<close>

text \<open>The record of \<open>ApiMethods\<close> has the two fields the planner reads; this one adds the others.\<close>

record Config = PlatformConfig +
  pf_NodepoolName :: string
  pf_NodepoolArchive :: string
  pf_NodepoolValidator :: string
  pf_TolerationKey :: string
  pf_ServiceAccount :: string
  pf_StorageClassPerf :: string
  pf_StorageClassDefault :: string
  pf_StorageClassArchive :: string
  pf_StorageSizeDefault :: string
  pf_StorageSizeArchive :: string
  pf_NodepoolSeed :: string
  pf_StorageSizeSeed :: string
  pf_DedicatedNodepoolName :: string
  pf_DedicatedNodepoolArchive :: string
  pf_DedicatedNodepoolValidator :: string
  pf_DedicatedNodepoolSeed :: string
  pf_SelectableNodepools :: "string list"
  pf_NodeResourcesValidator :: ResourceOverride
  pf_NodeResourcesNode :: ResourceOverride
  pf_NodeResourcesReplayer :: ResourceOverride
  pf_NodeResourcesArchive :: ResourceOverride
  pf_NodeResourcesSeed :: ResourceOverride
  pf_SnapshotBucket :: string
  pf_SnapshotRegion :: string
  pf_GenesisBucket :: string
  pf_GenesisRegion :: string
  pf_GatewayName :: string
  pf_GatewayNamespace :: string
  pf_GatewayDomain :: string
  pf_GatewayPublicDomain :: string
  pf_KubeRBACProxyImage :: string
  pf_CosmosExporterImage :: string
  pf_CosmosExporterExcludedChains :: "string list"
  pf_ControllerConfigFile :: string

definition resolve_config :: "(string \<Rightarrow> string) \<Rightarrow> string \<Rightarrow> FileConfig \<Rightarrow> Config" where
  "resolve_config env path f =
     \<lparr>SidecarImage = fi_Sidecar (fc_Images f), DriftUpdateBudgetPercent = fc_DriftUpdateBudgetPercent f,
      pf_NodepoolName = fs_NodepoolName (fc_Scheduling f), pf_NodepoolArchive = fs_NodepoolArchive (fc_Scheduling f),
      pf_NodepoolValidator = fs_NodepoolValidator (fc_Scheduling f), pf_TolerationKey = fs_TolerationKey (fc_Scheduling f),
      pf_ServiceAccount = fs_ServiceAccount (fc_Scheduling f), pf_StorageClassPerf = fst_ClassPerf (fc_Storage f),
      pf_StorageClassDefault = fst_ClassDefault (fc_Storage f), pf_StorageClassArchive = fst_ClassArchive (fc_Storage f),
      pf_StorageSizeDefault = fst_SizeDefault (fc_Storage f), pf_StorageSizeArchive = fst_SizeArchive (fc_Storage f),
      pf_NodepoolSeed = fs_NodepoolSeed (fc_Scheduling f), pf_StorageSizeSeed = fst_SizeSeed (fc_Storage f),
      pf_DedicatedNodepoolName = fd_NodepoolName (fs_Dedicated (fc_Scheduling f)),
      pf_DedicatedNodepoolArchive = fd_NodepoolArchive (fs_Dedicated (fc_Scheduling f)),
      pf_DedicatedNodepoolValidator = fd_NodepoolValidator (fs_Dedicated (fc_Scheduling f)),
      pf_DedicatedNodepoolSeed = fd_NodepoolSeed (fs_Dedicated (fc_Scheduling f)),
      pf_SelectableNodepools = fs_SelectableNodepools (fc_Scheduling f),
      pf_NodeResourcesValidator = fr_Validator (fc_Resources f), pf_NodeResourcesNode = fr_Node (fc_Resources f),
      pf_NodeResourcesReplayer = fr_Replayer (fc_Resources f), pf_NodeResourcesArchive = fr_Archive (fc_Resources f),
      pf_NodeResourcesSeed = fr_Seed (fc_Resources f),
      pf_SnapshotBucket = fb_Bucket (fc_Snapshot f), pf_SnapshotRegion = fb_Region (fc_Snapshot f),
      pf_GenesisBucket = fb_Bucket (fc_Genesis f), pf_GenesisRegion = fb_Region (fc_Genesis f),
      pf_GatewayName = env ''SEI_GATEWAY_NAME'', pf_GatewayNamespace = env ''SEI_GATEWAY_NAMESPACE'',
      pf_GatewayDomain = env ''SEI_GATEWAY_DOMAIN'', pf_GatewayPublicDomain = env ''SEI_GATEWAY_PUBLIC_DOMAIN'',
      pf_KubeRBACProxyImage = fi_KubeRBACProxy (fc_Images f), pf_CosmosExporterImage = fi_CosmosExporter (fc_Images f),
      pf_CosmosExporterExcludedChains = fi_CosmosExporterExcludedChains (fc_Images f), pf_ControllerConfigFile = path\<rparr>"

definition Load ::
    "(string \<Rightarrow> string) \<Rightarrow> (string \<Rightarrow> file_read) \<Rightarrow> (string \<Rightarrow> FileConfig result) \<Rightarrow> Config result" where
  "Load env read yaml =
     (let path = TrimSpace (env ''SEI_CONTROLLER_CONFIG'')
      in case ReadFileConfig read yaml path of Inl e \<Rightarrow> Inl e | Inr f \<Rightarrow> Inr (resolve_config env path f))"

subsection \<open>Its methods\<close>

definition cfg_NodepoolForMode :: "Config \<Rightarrow> string \<Rightarrow> string" where
  "cfg_NodepoolForMode c mode =
     (if mode = ''archive'' then pf_NodepoolArchive c
      else if mode = ''validator'' then pf_NodepoolValidator c
      else if mode = ''seed'' then pf_NodepoolSeed c
      else pf_NodepoolName c)"

definition DedicatedNodepoolForMode :: "Config \<Rightarrow> string \<Rightarrow> string" where
  "DedicatedNodepoolForMode c mode =
     (if mode = ''archive'' then pf_DedicatedNodepoolArchive c
      else if mode = ''validator'' then pf_DedicatedNodepoolValidator c
      else if mode = ''seed'' then pf_DedicatedNodepoolSeed c
      else pf_DedicatedNodepoolName c)"

definition defaultStorageSizeSeed :: string where "defaultStorageSizeSeed = ''20Gi''"

definition SeedStorageSize :: "Config \<Rightarrow> string" where
  "SeedStorageSize c = (if pf_StorageSizeSeed c \<noteq> [] then pf_StorageSizeSeed c else defaultStorageSizeSeed)"

definition required_fields :: "Config \<Rightarrow> (string \<times> string) list" where
  "required_fields c =
     [(''scheduling.nodepoolName'', pf_NodepoolName c), (''scheduling.nodepoolArchive'', pf_NodepoolArchive c),
      (''scheduling.nodepoolValidator'', pf_NodepoolValidator c), (''scheduling.nodepoolSeed'', pf_NodepoolSeed c),
      (''scheduling.tolerationKey'', pf_TolerationKey c), (''scheduling.serviceAccount'', pf_ServiceAccount c),
      (''storage.classPerf'', pf_StorageClassPerf c), (''storage.classDefault'', pf_StorageClassDefault c),
      (''storage.classArchive'', pf_StorageClassArchive c), (''storage.sizeDefault'', pf_StorageSizeDefault c),
      (''storage.sizeArchive'', pf_StorageSizeArchive c), (''snapshot.bucket'', pf_SnapshotBucket c),
      (''snapshot.region'', pf_SnapshotRegion c), (''genesis.bucket'', pf_GenesisBucket c),
      (''genesis.region'', pf_GenesisRegion c), (''images.sidecar'', SidecarImage c),
      (''images.kubeRBACProxy'', pf_KubeRBACProxyImage c), (''SEI_GATEWAY_NAME'', pf_GatewayName c),
      (''SEI_GATEWAY_NAMESPACE'', pf_GatewayNamespace c), (''SEI_GATEWAY_DOMAIN'', pf_GatewayDomain c)]"

fun first_missing :: "(string \<times> string) list \<Rightarrow> error option" where
  "first_missing [] = None"
| "first_missing ((name, v) # fs) = (if TrimSpace v = [] then Some (name @ '' is required'') else first_missing fs)"

definition check_quantity :: "(string \<Rightarrow> error option) \<Rightarrow> string \<Rightarrow> string \<Rightarrow> string \<Rightarrow> error option" where
  "check_quantity qty key name v =
     (if TrimSpace v = [] then None
      else map_option (\<lambda>e. key @ ''.'' @ name @ '': invalid quantity '' @ quoted v @ '': '' @ e) (qty v))"

definition override_validate :: "(string \<Rightarrow> error option) \<Rightarrow> string \<Rightarrow> ResourceOverride \<Rightarrow> error option" where
  "override_validate qty key r =
     (case check_quantity qty key ''cpuRequest'' (ro_CPURequest r) of
        Some e \<Rightarrow> Some e
      | None \<Rightarrow> check_quantity qty key ''memory'' (ro_Memory r))"

fun first_bad_override :: "(string \<Rightarrow> error option) \<Rightarrow> (string \<times> ResourceOverride) list \<Rightarrow> error option" where
  "first_bad_override qty [] = None"
| "first_bad_override qty ((key, r) # rs) =
     (case override_validate qty key r of Some e \<Rightarrow> Some e | None \<Rightarrow> first_bad_override qty rs)"

text \<open>\<open>qty\<close> is \<open>resource.ParseQuantity\<close>: the error of a text that is not a quantity.\<close>

definition platform_Validate :: "(string \<Rightarrow> error option) \<Rightarrow> Config \<Rightarrow> error option" where
  "platform_Validate qty c =
     (case first_missing (required_fields c) of
        Some e \<Rightarrow> Some e
      | None \<Rightarrow>
          (case first_bad_override qty
                  [(''resources.validator'', pf_NodeResourcesValidator c), (''resources.node'', pf_NodeResourcesNode c),
                   (''resources.replayer'', pf_NodeResourcesReplayer c), (''resources.archive'', pf_NodeResourcesArchive c),
                   (''resources.seed'', pf_NodeResourcesSeed c)] of
             Some e \<Rightarrow> Some e
           | None \<Rightarrow>
               if DriftUpdateBudgetPercent c < 0 \<or> DriftUpdateBudgetPercent c > 100 then
                 Some (''rollout.driftUpdateBudgetPercent must be between 0 and 100, got '' @ itoa (DriftUpdateBudgetPercent c))
               else None))"

end
