(* ===== verification/NodeRender.thy ===== *)
theory NodeRender
  imports Platform InfraTasks
begin

text \<open>
  Rendering of a node's manifests (\<open>internal/noderesource/noderesource.go\<close>, \<open>probe_guard.go\<close>): labels, scheduling,
  sizing, the containers and volumes of the pod, the StatefulSet, the headless Service, the data claim and the proxy's
  ConfigMap.  A Kubernetes quantity is its text; \<open>resource.MustParse\<close> of a text that is not one is a panic.
\<close>

subsection \<open>Manifest types\<close>

text \<open>The parts of sei-config and of the quantity parser that the rendering uses.\<close>

record render_ext =
  rx_ext :: ext
  rx_PortGRPC :: int
  rx_PortSidecar :: int
  rx_NodePorts :: "(string \<times> int) list"
  rx_PortNameGRPC :: string
  rx_ParseQuantity :: "string \<Rightarrow> error option"
  rx_QuantityValue :: "string \<Rightarrow> int"
  rx_QuantityString :: "string \<Rightarrow> string"

datatype render_error = RenderError error | RenderPanic error

record EnvVar =
  env_Name :: string
  env_Value :: string
  env_SecretKeyRef :: "(string \<times> string) option"

record VolumeMount =
  vm_Name :: string
  vm_MountPath :: string
  vm_SubPath :: string
  vm_ReadOnly :: bool

record Probe =
  pr_HTTPGet :: "(string \<times> int) option"
  pr_TCPSocket :: "int option"
  pr_InitialDelaySeconds :: int
  pr_PeriodSeconds :: int
  pr_FailureThreshold :: int
  pr_TimeoutSeconds :: int

record SecurityContext =
  scx_RunAsNonRoot :: bool
  scx_RunAsUser :: int
  scx_RunAsGroup :: int
  scx_AllowPrivilegeEscalation :: bool
  scx_ReadOnlyRootFilesystem :: bool
  scx_Drop :: "string list"
  scx_SeccompProfile :: string

record ContainerPort =
  cpt_Name :: string
  cpt_ContainerPort :: int
  cpt_Protocol :: string

record Container =
  co_Name :: string
  co_Image :: string
  co_RestartPolicy :: "string option"
  co_Command :: "string list"
  co_Args :: "string list"
  co_Env :: "EnvVar list"
  co_EnvFrom :: "string list"  \<comment> \<open>the Secrets of \<open>envFrom\<close>\<close>
  co_Ports :: "ContainerPort list"
  co_VolumeMounts :: "VolumeMount list"
  co_Resources :: Resources
  co_SecurityContext :: "SecurityContext option"
  co_StartupProbe :: "Probe option"
  co_LivenessProbe :: "Probe option"
  co_ReadinessProbe :: "Probe option"

text \<open>Secret and ConfigMap volumes carry their file mode and their items; no items means all keys.\<close>

datatype VolumeSource =
    ClaimSource string
  | SecretSource string "int option" "(string \<times> string) list"
  | ConfigMapSource string "int option" "(string \<times> string) list"
  | EmptyDirSource

record Volume =
  vl_Name :: string
  vl_Source :: VolumeSource

datatype selector_op = OpIn | OpExists

record PodAffinityTerm =
  pat_TopologyKey :: string
  pat_AllNamespaces :: bool  \<comment> \<open>an empty, non-nil namespace selector\<close>
  pat_MatchExpressions :: "(string \<times> selector_op \<times> string list) list"

record Toleration =
  tol_Key :: string
  tol_Value :: string
  tol_Effect :: string

record PodSpec =
  ps_AutomountServiceAccountToken :: bool
  ps_ServiceAccountName :: string
  ps_Tolerations :: "Toleration list"
  ps_NodeAffinity :: "(string \<times> selector_op \<times> string list) list"
  ps_PodAntiAffinity :: "PodAffinityTerm list"
  ps_Volumes :: "Volume list"
  ps_ShareProcessNamespace :: bool
  ps_FSGroup :: int
  ps_FSGroupChangePolicy :: string
  ps_InitContainers :: "Container list"
  ps_Containers :: "Container list"

record RenderedStatefulSet =
  rs_Name :: string
  rs_Namespace :: string
  rs_Labels :: labels
  rs_Replicas :: int
  rs_ServiceName :: string
  rs_MatchLabels :: labels
  rs_PodManagementPolicy :: string
  rs_UpdateStrategy :: string
  rs_TemplateLabels :: labels
  rs_TemplateAnnotations :: labels
  rs_Spec :: PodSpec

record ServicePort =
  sp_Name :: string
  sp_Port :: int
  sp_TargetPort :: int
  sp_Protocol :: string
  sp_AppProtocol :: "string option"

record RenderedService =
  rsv_Name :: string
  rsv_Namespace :: string
  rsv_Labels :: labels
  rsv_ClusterIP :: string
  rsv_Selector :: labels
  rsv_Ports :: "ServicePort list"
  rsv_PublishNotReadyAddresses :: bool

record RenderedClaim =
  rc_Name :: string
  rc_Namespace :: string
  rc_Labels :: labels
  rc_AccessModes :: "string list"
  rc_StorageClassName :: string
  rc_StorageRequest :: string
  rc_VolumeAttributesClassName :: "string option"

record RenderedConfigMap =
  rcm_Name :: string
  rcm_Namespace :: string
  rcm_Labels :: labels
  rcm_Data :: "(string \<times> string) list"

definition plain_env :: "string \<Rightarrow> string \<Rightarrow> EnvVar" where
  "plain_env k v = \<lparr>env_Name = k, env_Value = v, env_SecretKeyRef = None\<rparr>"

definition rw_mount :: "string \<Rightarrow> string \<Rightarrow> VolumeMount" where
  "rw_mount vol path = \<lparr>vm_Name = vol, vm_MountPath = path, vm_SubPath = [], vm_ReadOnly = False\<rparr>"

definition empty_container :: Container where
  "empty_container =
     \<lparr>co_Name = [], co_Image = [], co_RestartPolicy = None, co_Command = [], co_Args = [], co_Env = [], co_EnvFrom = [], co_Ports = [],
      co_VolumeMounts = [], co_Resources = \<lparr>res_Requests = Map.empty, res_Limits = Map.empty\<rparr>, co_SecurityContext = None,
      co_StartupProbe = None, co_LivenessProbe = None, co_ReadinessProbe = None\<rparr>"

subsection \<open>Constants\<close>

definition NodeLabel :: string where "NodeLabel = ''sei.io/node''"
definition podChainLabel :: string where "podChainLabel = ''sei.io/chain''"
definition podRoleLabel :: string where "podRoleLabel = ''sei.io/role''"
definition snapshotPublishLabel :: string where "snapshotPublishLabel = ''sei.io/snapshot-publish''"
definition frozenLabel :: string where "frozenLabel = ''sei.io/frozen''"
definition hostnameTopologyKey :: string where "hostnameTopologyKey = ''kubernetes.io/hostname''"
definition homeDir :: string where "homeDir = ''/home/nonroot''"
definition dataDir :: string where "dataDir = homeDir @ ''/.sei''"
definition homeVolumeName :: string where "homeVolumeName = ''home''"
definition containerNameSeid :: string where "containerNameSeid = ''seid''"
definition containerNameSidecar :: string where "containerNameSidecar = ''sei-sidecar''"
definition containerNameRBACProxy :: string where "containerNameRBACProxy = ''kube-rbac-proxy''"
definition containerNameCosmosExporter :: string where "containerNameCosmosExporter = ''cosmos-exporter''"
definition rbacProxyConfigVolumeName :: string where "rbacProxyConfigVolumeName = ''rbac-proxy-config''"
definition rbacProxyConfigMountPath :: string where "rbacProxyConfigMountPath = ''/etc/kube-rbac-proxy''"
definition RBACProxyPort :: int where "RBACProxyPort = 8443"
definition signingKeyVolumeName :: string where "signingKeyVolumeName = ''signing-key''"
definition privValidatorKeyDataKey :: string where "privValidatorKeyDataKey = ''priv_validator_key.json''"
definition nodeKeyVolumeName :: string where "nodeKeyVolumeName = ''node-key''"
definition nodeKeyDataKey :: string where "nodeKeyDataKey = ''node_key.json''"
definition nodeConfigConfigVolumeName :: string where "nodeConfigConfigVolumeName = ''node-config-config''"
definition nodeConfigAppVolumeName :: string where "nodeConfigAppVolumeName = ''node-config-app''"
definition operatorKeyringVolumeName :: string where "operatorKeyringVolumeName = ''operator-keyring''"
definition operatorKeyringDirName :: string where "operatorKeyringDirName = ''keyring-file''"
definition sidecarTmpVolumeName :: string where "sidecarTmpVolumeName = ''sidecar-tmp''"
definition sidecarTmpMountPath :: string where "sidecarTmpMountPath = ''/tmp''"
definition sidecarNonRootUID :: int where "sidecarNonRootUID = 65532"
definition defaultCosmosExporterPort :: int where "defaultCosmosExporterPort = 9300"
definition goMemLimitPercentOfLimit :: int where "goMemLimitPercentOfLimit = 87"

subsection \<open>Labels, roles and modes\<close>

definition IsDedicatedNode :: "SeiNode \<Rightarrow> bool" where
  "IsDedicatedNode n \<longleftrightarrow> EffectiveNodeIsolation n = NodeIsolationDedicated"

text \<open>The first of validator, archive, replayer and seed that is set; a node with none is a full node.\<close>

definition deriveRole :: "SeiNode \<Rightarrow> string" where
  "deriveRole n =
     (let s = node_Spec n
      in if spec_Validator s \<noteq> None then ''validator''
         else if spec_Archive s \<noteq> None then ''archive''
         else if spec_Replayer s \<noteq> None then ''replayer''
         else if spec_Seed s \<noteq> None then ''seed''
         else ''node'')"

definition NodeMode :: "SeiNode \<Rightarrow> string" where
  "NodeMode n =
     (let s = node_Spec n
      in if spec_Archive s \<noteq> None then ''archive''
         else if spec_Validator s \<noteq> None then ''validator''
         else if spec_Seed s \<noteq> None then ''seed''
         else ''full'')"

definition snapshotPublishEnabled :: "SeiNode \<Rightarrow> bool" where
  "snapshotPublishEnabled n =
     (let s = node_Spec n;
          sg = (case spec_FullNode s of
                  Some fn \<Rightarrow> fn_SnapshotGeneration fn
                | None \<Rightarrow> (case spec_Archive s of Some a \<Rightarrow> ar_SnapshotGeneration a | None \<Rightarrow> None))
      in case sg of Some (Some tm) \<Rightarrow> tm_Publish tm | _ \<Rightarrow> False)"

definition SelectorLabels :: "SeiNode \<Rightarrow> labels" where
  "SelectorLabels n = Mapping.update NodeLabel (node_Name n) Mapping.empty"

definition put_if :: "bool \<Rightarrow> string \<Rightarrow> string \<Rightarrow> labels \<Rightarrow> labels" where
  "put_if b k v m = (if b then Mapping.update k v m else m)"

definition ResourceLabels :: "SeiNode \<Rightarrow> labels" where
  "ResourceLabels n =
     put_if (Freeze (node_Spec n) \<noteq> None) frozenLabel ''true''
      (put_if (snapshotPublishEnabled n) snapshotPublishLabel ''true''
       (put_if (IsDedicatedNode n) DedicatedNodeKey ''true''
        (Mapping.update podRoleLabel (deriveRole n)
         (put_if (spec_ChainID (node_Spec n) \<noteq> []) podChainLabel (spec_ChainID (node_Spec n))
          (Mapping.update NodeLabel (node_Name n) (spec_PodLabels (node_Spec n)))))))"

subsection \<open>Scheduling\<close>

definition BuildPodAntiAffinity :: "bool \<Rightarrow> PodAffinityTerm list" where
  "BuildPodAntiAffinity dedicated =
     \<lparr>pat_TopologyKey = hostnameTopologyKey, pat_AllNamespaces = True,
      pat_MatchExpressions = [(DedicatedNodeKey, OpIn, [''true''])]\<rparr> #
     (if dedicated then
        [\<lparr>pat_TopologyKey = hostnameTopologyKey, pat_AllNamespaces = True, pat_MatchExpressions = [(NodeLabel, OpExists, [])]\<rparr>]
      else [])"

definition NodepoolForMode :: "string \<Rightarrow> Config \<Rightarrow> bool \<Rightarrow> string" where
  "NodepoolForMode mode p dedicated =
     (if dedicated \<and> DedicatedNodepoolForMode p mode \<noteq> [] then DedicatedNodepoolForMode p mode else cfg_NodepoolForMode p mode)"

definition nodepoolFor :: "SeiNode \<Rightarrow> Config \<Rightarrow> bool \<Rightarrow> string result" where
  "nodepoolFor n p dedicated =
     (let pool = RequestedNodePool n
      in if pool \<noteq> [] then
           if pool \<notin> set (pf_SelectableNodepools p) \<and> pool \<noteq> st_CurrentNodePool (node_Status n) then
             Err (''spec.scheduling.nodePool '' @ quoted pool @ '' is not listed in the app-config's scheduling.selectableNodepools'')
           else Ok pool
         else Ok (NodepoolForMode (NodeMode n) p dedicated))"

subsection \<open>Sizing\<close>

definition NeedsLongStartup :: "SeiNode \<Rightarrow> bool" where
  "NeedsLongStartup n =
     (let s = node_Spec n
      in case spec_FullNode s of
           Some fn \<Rightarrow> fn_Snapshot fn \<noteq> None
         | None \<Rightarrow> (case spec_Validator s of
             Some v \<Rightarrow> val_Snapshot v \<noteq> None
           | None \<Rightarrow> spec_Replayer s \<noteq> None \<or> spec_Archive s \<noteq> None))"

definition DefaultStorageForMode :: "string \<Rightarrow> Config \<Rightarrow> string \<times> string" where
  "DefaultStorageForMode mode p =
     (if mode = ''archive'' then (pf_StorageClassArchive p, pf_StorageSizeArchive p)
      else if mode = ''full'' \<or> mode = ''validator'' then (pf_StorageClassPerf p, pf_StorageSizeDefault p)
      else if mode = ''seed'' then (pf_StorageClassDefault p, SeedStorageSize p)
      else (pf_StorageClassDefault p, pf_StorageSizeDefault p))"

text \<open>The size the resource sets, as the text of its quantity.\<close>

definition crd_storage_text :: "SeiNode \<Rightarrow> string option" where
  "crd_storage_text n =
     (case spec_DataVolume (node_Spec n) of
        None \<Rightarrow> None
      | Some dv \<Rightarrow> (case dv_Storage dv of
          None \<Rightarrow> None
        | Some st \<Rightarrow> (case dvs_Requests st of None \<Rightarrow> None | Some reqs \<Rightarrow> reqs ''storage'')))"

definition StorageForNode :: "render_ext \<Rightarrow> SeiNode \<Rightarrow> Config \<Rightarrow> string \<times> string" where
  "StorageForNode X n p =
     (case DefaultStorageForMode (NodeMode n) p of (cls, sz) \<Rightarrow>
       (cls, case crd_storage_text n of None \<Rightarrow> sz | Some q \<Rightarrow> rx_QuantityString X q))"

record nodeResourceProfile =
  np_cpuRequest :: string
  np_memory :: string

definition defaultNodeResourceProfiles :: "string \<Rightarrow> nodeResourceProfile" where
  "defaultNodeResourceProfiles role =
     (if role = ''validator'' then \<lparr>np_cpuRequest = ''16'', np_memory = ''128Gi''\<rparr>
      else if role = ''node'' then \<lparr>np_cpuRequest = ''32'', np_memory = ''256Gi''\<rparr>
      else if role = ''replayer'' then \<lparr>np_cpuRequest = ''32'', np_memory = ''256Gi''\<rparr>
      else if role = ''archive'' then \<lparr>np_cpuRequest = ''64'', np_memory = ''512Gi''\<rparr>
      else if role = ''seed'' then \<lparr>np_cpuRequest = ''1'', np_memory = ''2Gi''\<rparr>
      else \<lparr>np_cpuRequest = [], np_memory = []\<rparr>)"

definition overrideForRole :: "string \<Rightarrow> Config \<Rightarrow> ResourceOverride" where
  "overrideForRole role p =
     (if role = ''validator'' then pf_NodeResourcesValidator p
      else if role = ''archive'' then pf_NodeResourcesArchive p
      else if role = ''replayer'' then pf_NodeResourcesReplayer p
      else if role = ''seed'' then pf_NodeResourcesSeed p
      else pf_NodeResourcesNode p)"

definition firstNonEmpty :: "string \<Rightarrow> string \<Rightarrow> string" where
  "firstNonEmpty a b = (if TrimSpace a \<noteq> [] then a else b)"

definition MustParse :: "render_ext \<Rightarrow> string \<Rightarrow> render_error + string" where
  "MustParse X s = (case rx_ParseQuantity X s of None \<Rightarrow> Inr s | Some e \<Rightarrow> Inl (RenderPanic e))"

definition resolveQuantity :: "render_ext \<Rightarrow> string option \<Rightarrow> string \<Rightarrow> string \<Rightarrow> render_error + string" where
  "resolveQuantity X crd override codeDefault =
     (case crd of Some q \<Rightarrow> Inr q | None \<Rightarrow> MustParse X (firstNonEmpty override codeDefault))"

definition resourcesFrom :: "SeiNode \<Rightarrow> string option \<times> string option" where
  "resourcesFrom n =
     (case spec_Resources (node_Spec n) of
        None \<Rightarrow> (None, None)
      | Some r \<Rightarrow> (res_Requests r ''cpu'', res_Requests r ''memory''))"

definition ResourcesForNode :: "render_ext \<Rightarrow> SeiNode \<Rightarrow> Config \<Rightarrow> render_error + Resources" where
  "ResourcesForNode X n p =
     (let role = deriveRole n; d = defaultNodeResourceProfiles role; ov = overrideForRole role p; crd = resourcesFrom n
      in case resolveQuantity X (fst crd) (ro_CPURequest ov) (np_cpuRequest d) of
           Inl e \<Rightarrow> Inl e
         | Inr cpu \<Rightarrow>
             (case resolveQuantity X (snd crd) (ro_Memory ov) (np_memory d) of
                Inl e \<Rightarrow> Inl e
              | Inr mem \<Rightarrow> Inr \<lparr>res_Requests = [''cpu'' \<mapsto> cpu, ''memory'' \<mapsto> mem], res_Limits = [''memory'' \<mapsto> mem]\<rparr>))"

end
