(* ===== verification/NodePod.thy ===== *)
theory NodePod
  imports NodeRender
begin

text \<open>
  The pod of a node and the manifests around it: key and configuration volumes, the containers, the guards on the
  operator keyring and on the probes, the StatefulSet, Service, data claim and proxy ConfigMap
  (\<open>noderesource.go\<close>, \<open>probe_guard.go\<close>).
\<close>

subsection \<open>Keys and configuration files\<close>

definition secret_volume :: "string \<Rightarrow> string \<Rightarrow> (string \<times> string) list \<Rightarrow> Volume" where
  "secret_volume name secret items = \<lparr>vl_Name = name, vl_Source = SecretSource secret (Some 256) items\<rparr>"

definition file_mount :: "string \<Rightarrow> string \<Rightarrow> VolumeMount" where
  "file_mount vol key =
     \<lparr>vm_Name = vol, vm_MountPath = dataDir @ ''/config/'' @ key, vm_SubPath = key, vm_ReadOnly = True\<rparr>"

definition signingKeySecretSource :: "SeiNode \<Rightarrow> string option" where
  "signingKeySecretSource n =
     (case spec_Validator (node_Spec n) of
        None \<Rightarrow> None | Some v \<Rightarrow> (case val_SigningKey v of None \<Rightarrow> None | Some src \<Rightarrow> src))"

definition signingKeyVolumes :: "SeiNode \<Rightarrow> Volume list" where
  "signingKeyVolumes n =
     (case signingKeySecretSource n of
        None \<Rightarrow> []
      | Some secret \<Rightarrow> [secret_volume signingKeyVolumeName secret [(privValidatorKeyDataKey, privValidatorKeyDataKey)]])"

definition signingKeyMounts :: "SeiNode \<Rightarrow> VolumeMount list" where
  "signingKeyMounts n =
     (if signingKeySecretSource n = None then [] else [file_mount signingKeyVolumeName privValidatorKeyDataKey])"

definition nodeKeySecretSource :: "SeiNode \<Rightarrow> string option" where
  "nodeKeySecretSource n = NodeKeySecret (node_Spec n)"

definition nodeKeyVolumes :: "SeiNode \<Rightarrow> Volume list" where
  "nodeKeyVolumes n =
     (case nodeKeySecretSource n of
        None \<Rightarrow> [] | Some secret \<Rightarrow> [secret_volume nodeKeyVolumeName secret [(nodeKeyDataKey, nodeKeyDataKey)]])"

definition nodeKeyMounts :: "SeiNode \<Rightarrow> VolumeMount list" where
  "nodeKeyMounts n = (if nodeKeySecretSource n = None then [] else [file_mount nodeKeyVolumeName nodeKeyDataKey])"

definition nodeConfigVolume :: "string \<Rightarrow> string \<Rightarrow> string \<Rightarrow> Volume" where
  "nodeConfigVolume name configMap key = \<lparr>vl_Name = name, vl_Source = ConfigMapSource configMap (Some 292) [(key, key)]\<rparr>"

definition nodeConfigVolumes :: "SeiNode \<Rightarrow> Volume list" where
  "nodeConfigVolumes n =
     (case spec_NodeConfig (node_Spec n) of
        None \<Rightarrow> []
      | Some cfg \<Rightarrow>
          [nodeConfigVolume nodeConfigConfigVolumeName (nc_ConfigRef cfg) ''config.toml'',
           nodeConfigVolume nodeConfigAppVolumeName (nc_AppRef cfg) ''app.toml''])"

definition nodeConfigMount :: "string \<Rightarrow> string \<Rightarrow> VolumeMount" where
  "nodeConfigMount vol key = file_mount vol key"

definition nodeConfigMounts :: "SeiNode \<Rightarrow> VolumeMount list" where
  "nodeConfigMounts n =
     (if spec_NodeConfig (node_Spec n) = None then []
      else [nodeConfigMount nodeConfigConfigVolumeName ''config.toml'', nodeConfigMount nodeConfigAppVolumeName ''app.toml''])"

definition operatorKeyringSecretSource :: "SeiNode \<Rightarrow> SecretOperatorKeyringSource option" where
  "operatorKeyringSecretSource n =
     (case spec_Validator (node_Spec n) of
        None \<Rightarrow> None | Some v \<Rightarrow> (case val_OperatorKeyring v of None \<Rightarrow> None | Some src \<Rightarrow> src))"

definition operatorKeyringSeidMountEnabled :: "SeiNode \<Rightarrow> bool" where
  "operatorKeyringSeidMountEnabled n = (case operatorKeyringSecretSource n of None \<Rightarrow> False | Some src \<Rightarrow> opk_SeidMount src)"

definition operatorKeyringVolumes :: "SeiNode \<Rightarrow> Volume list" where
  "operatorKeyringVolumes n =
     (case operatorKeyringSecretSource n of
        None \<Rightarrow> [] | Some src \<Rightarrow> [secret_volume operatorKeyringVolumeName (opk_SecretName src) []])"

definition operatorKeyringMounts :: "SeiNode \<Rightarrow> VolumeMount list" where
  "operatorKeyringMounts n =
     (if operatorKeyringSecretSource n = None then []
      else [\<lparr>vm_Name = operatorKeyringVolumeName, vm_MountPath = dataDir @ ''/'' @ operatorKeyringDirName, vm_SubPath = [],
             vm_ReadOnly = True\<rparr>])"

definition operatorKeyringEnvVars :: "SeiNode \<Rightarrow> EnvVar list" where
  "operatorKeyringEnvVars n =
     (if spec_Validator (node_Spec n) = None then []
      else case operatorKeyringSecretSource n of
        None \<Rightarrow> [plain_env ''SEI_KEYRING_BACKEND'' ''test'', plain_env ''SEI_KEYRING_DIR'' dataDir]
      | Some src \<Rightarrow>
          [plain_env ''SEI_KEYRING_BACKEND'' ''file'', plain_env ''SEI_KEYRING_DIR'' dataDir,
           \<lparr>env_Name = ''SEI_KEYRING_PASSPHRASE'', env_Value = [],
            env_SecretKeyRef = Some (opk_PassphraseSecretName src, opk_PassphraseKey src)\<rparr>])"

definition validatorKeyringBackend :: "SeiNode \<Rightarrow> string" where
  "validatorKeyringBackend n = (if operatorKeyringSecretSource n \<noteq> None then ''file'' else ''test'')"

subsection \<open>Security contexts and probes\<close>

definition sidecarSecurityContext :: SecurityContext where
  "sidecarSecurityContext =
     \<lparr>scx_RunAsNonRoot = True, scx_RunAsUser = sidecarNonRootUID, scx_RunAsGroup = sidecarNonRootUID,
      scx_AllowPrivilegeEscalation = False, scx_ReadOnlyRootFilesystem = True, scx_Drop = [''ALL''],
      scx_SeccompProfile = ''RuntimeDefault''\<rparr>"

definition seidNonRootSecurityContext :: SecurityContext where
  "seidNonRootSecurityContext =
     \<lparr>scx_RunAsNonRoot = True, scx_RunAsUser = sidecarNonRootUID, scx_RunAsGroup = sidecarNonRootUID,
      scx_AllowPrivilegeEscalation = False, scx_ReadOnlyRootFilesystem = False, scx_Drop = [''ALL''],
      scx_SeccompProfile = ''RuntimeDefault''\<rparr>"

definition http_probe :: "string \<Rightarrow> int \<Rightarrow> int \<Rightarrow> int \<Rightarrow> int \<Rightarrow> int \<Rightarrow> Probe" where
  "http_probe path port initial period failures timeout =
     \<lparr>pr_HTTPGet = Some (path, port), pr_TCPSocket = None, pr_InitialDelaySeconds = initial, pr_PeriodSeconds = period,
      pr_FailureThreshold = failures, pr_TimeoutSeconds = timeout\<rparr>"

definition tcp_probe :: "int \<Rightarrow> int \<Rightarrow> int \<Rightarrow> int \<Rightarrow> int \<Rightarrow> Probe" where
  "tcp_probe port initial period failures timeout =
     \<lparr>pr_HTTPGet = None, pr_TCPSocket = Some port, pr_InitialDelaySeconds = initial, pr_PeriodSeconds = period,
      pr_FailureThreshold = failures, pr_TimeoutSeconds = timeout\<rparr>"

definition httpReadinessProbe :: "string \<Rightarrow> int \<Rightarrow> Probe" where
  "httpReadinessProbe path port = http_probe path port 30 10 3 5"

definition tcpReadinessProbe :: "int \<Rightarrow> Probe" where
  "tcpReadinessProbe port = tcp_probe port 30 10 3 5"

definition readinessProbeForNode :: "render_ext \<Rightarrow> SeiNode \<Rightarrow> Probe" where
  "readinessProbeForNode X n =
     (if servesSeidRPC n \<and> Freeze (node_Spec n) = None then httpReadinessProbe ''/lag_status'' (PortRPC (rx_ext X))
      else (let up = UpCheckForNode (rx_ext X) n
            in if uc_Scheme up = UpCheckTCP then tcpReadinessProbe (uc_Port up) else httpReadinessProbe (uc_Path up) (uc_Port up)))"

definition proxyStartupProbe :: Probe where "proxyStartupProbe = tcp_probe RBACProxyPort 5 5 60 0"
definition proxyLivenessProbe :: Probe where "proxyLivenessProbe = http_probe ''/v0/livez'' RBACProxyPort 5 10 3 0"
definition proxyReadinessProbe :: Probe where "proxyReadinessProbe = http_probe ''/v0/healthz'' RBACProxyPort 2 5 6 0"

definition probeTargetsSeidRPC :: "render_ext \<Rightarrow> Probe option \<Rightarrow> bool" where
  "probeTargetsSeidRPC X p =
     (case p of
        None \<Rightarrow> False
      | Some pr \<Rightarrow>
          (case pr_HTTPGet pr of
             Some (_, port) \<Rightarrow> port = PortRPC (rx_ext X) \<or> port = rx_PortGRPC X
           | None \<Rightarrow> (case pr_TCPSocket pr of
                        Some port \<Rightarrow> port = PortRPC (rx_ext X) \<or> port = rx_PortGRPC X | None \<Rightarrow> False)))"

definition ValidateGatedSeidProbes :: "render_ext \<Rightarrow> Container \<Rightarrow> error option" where
  "ValidateGatedSeidProbes X c =
     (if co_LivenessProbe c \<noteq> None then Some (''gated seid container '' @ quoted (co_Name c) @ '' must not carry a liveness probe'')
      else if probeTargetsSeidRPC X (co_StartupProbe c) then
        Some (''gated seid container '' @ quoted (co_Name c) @ '' startup probe must not target seid's RPC/gRPC port'')
      else None)"

fun first_rpc_probe :: "render_ext \<Rightarrow> (string \<times> Probe option) list \<Rightarrow> string option" where
  "first_rpc_probe X [] = None"
| "first_rpc_probe X ((name, p) # ps) = (if probeTargetsSeidRPC X p then Some name else first_rpc_probe X ps)"

definition ValidateSeedProbes :: "render_ext \<Rightarrow> SeiNode \<Rightarrow> Container \<Rightarrow> error option" where
  "ValidateSeedProbes X n c =
     (if servesSeidRPC n then None
      else map_option (\<lambda>name. ''seed seid container '' @ quoted (co_Name c) @ '' '' @ name @
               '' probe must not target seid's RPC/gRPC port; seed mode binds neither'')
             (first_rpc_probe X [(''readiness'', co_ReadinessProbe c), (''liveness'', co_LivenessProbe c),
                                 (''startup'', co_StartupProbe c)]))"

subsection \<open>Commands\<close>

definition dq :: string where "dq = [CHR 0x22]"

definition quoted_args :: "string list \<Rightarrow> string" where
  "quoted_args args = concat (map (\<lambda>a. '' '' @ quoted a) args)"

definition SidecarPort :: "render_ext \<Rightarrow> SeiNode \<Rightarrow> int" where
  "SidecarPort X n =
     (case spec_Sidecar (node_Spec n) of
        Some sc \<Rightarrow> if sc_Port sc \<noteq> 0 then sc_Port sc else rx_PortSidecar X
      | None \<Rightarrow> rx_PortSidecar X)"

definition crlf_text :: string where "crlf_text = [CHR 0x5C, CHR ''r'', CHR 0x5C, CHR ''n'']"

definition sidecarWaitCommand :: "render_ext \<Rightarrow> SeiNode \<Rightarrow> string list \<times> string list" where
  "sidecarWaitCommand X n =
     ([''/bin/bash'', ''-c''],
      [''echo '' @ quoted ''waiting for sidecar to become ready...'' @ ''; while true; do if (exec 3<>/dev/tcp/localhost/'' @
       itoa (SidecarPort X n) @ '' && printf '' @
       quoted (''GET /v0/healthz HTTP/1.0'' @ crlf_text @ ''Host: localhost'' @ crlf_text @ crlf_text) @
       '' >&3 && head -1 <&3 | grep -q '' @ quoted ''200'' @ '') 2>/dev/null; then break; fi; sleep 5; done; echo '' @
       quoted ''sidecar ready, starting seid'' @ ''; exec seid'' @ quoted_args [''start'', ''--home'', dataDir]])"

definition cosmosExporterWaitCommand :: "render_ext \<Rightarrow> string list \<times> string list" where
  "cosmosExporterWaitCommand X =
     (let port = itoa (rx_PortGRPC X)
      in ([''/bin/bash'', ''-c''],
          [''echo '' @ quoted (''waiting for gRPC :'' @ port @ '' to be available...'') @
           ''; until (exec 3<>/dev/tcp/localhost/'' @ port @ '') 2>/dev/null; do sleep 5; done; echo '' @
           quoted ''gRPC available, starting cosmos-exporter'' @ ''; exec /usr/local/bin/sei-cosmos-exporter'' @
           quoted_args [''--denom'', ''usei'', ''--denom-coefficient'', ''1000000'', ''--bech-prefix'', ''sei'',
                        ''--listen-address'', '':'' @ itoa defaultCosmosExporterPort]]))"

definition clientTomlKeyringBackendWrite :: "string \<Rightarrow> string \<Rightarrow> string" where
  "clientTomlKeyringBackendWrite dir backend =
     (let line = ''keyring-backend = '' @ quoted backend; toml = quoted ''$CLIENT_TOML'';
          apo = [CHR 0x27]
      in ''CLIENT_TOML='' @ quoted (dir @ ''/config/client.toml'') @ '' && if [ -f '' @ toml @ '' ] && grep -q '' @ apo @
         ''^keyring-backend[[:space:]]*='' @ apo @ '' '' @ toml @ ''; then sed -i '' @ apo @
         ''s#^keyring-backend[[:space:]]*=.*#'' @ line @ ''#'' @ apo @ '' '' @ toml @ ''; else mkdir -p '' @ quoted (dir @ ''/config'') @
         '' && echo '' @ apo @ line @ apo @ '' >> '' @ toml @ ''; fi'')"

subsection \<open>Containers\<close>

definition ContainerPorts :: "render_ext \<Rightarrow> ContainerPort list" where
  "ContainerPorts X = map (\<lambda>(name, port). \<lparr>cpt_Name = name, cpt_ContainerPort = port, cpt_Protocol = ''TCP''\<rparr>) (rx_NodePorts X)"

definition buildNodeMainContainer :: "render_ext \<Rightarrow> SeiNode \<Rightarrow> Container" where
  "buildNodeMainContainer X n =
     empty_container
       \<lparr>co_Name := containerNameSeid, co_Image := spec_Image (node_Spec n), co_SecurityContext := Some seidNonRootSecurityContext,
        co_Env := [plain_env ''HOME'' homeDir, plain_env ''TMPDIR'' (dataDir @ ''/tmp'')] @
                  (if operatorKeyringSeidMountEnabled n then operatorKeyringEnvVars n else []),
        co_Command := [''seid''], co_Args := [''start'', ''--home'', dataDir],
        co_VolumeMounts := [rw_mount ''data'' dataDir, rw_mount homeVolumeName homeDir] @ signingKeyMounts n @ nodeKeyMounts n @
                  nodeConfigMounts n @ (if operatorKeyringSeidMountEnabled n then operatorKeyringMounts n else []),
        co_Ports := ContainerPorts X,
        co_StartupProbe := Some (tcp_probe (PortRPC (rx_ext X)) 10 10 (if NeedsLongStartup n then 1800 else 30) 0)\<rparr>"

definition goMemLimitEnv :: "render_ext \<Rightarrow> SeiNode \<Rightarrow> Resources \<Rightarrow> EnvVar option" where
  "goMemLimitEnv X n r =
     (if servesSeidRPC n then None
      else case res_Limits r ''memory'' of
        None \<Rightarrow> None
      | Some q \<Rightarrow>
          (let soft = (rx_QuantityValue X q * goMemLimitPercentOfLimit) div 100
           in if soft \<le> 0 then None else Some (plain_env ''GOMEMLIMIT'' (itoa soft @ ''B''))))"

definition buildSidecarMainContainer :: "render_ext \<Rightarrow> SeiNode \<Rightarrow> Config \<Rightarrow> render_error + Container" where
  "buildSidecarMainContainer X n p =
     (case ResourcesForNode X n p of
        Inl e \<Rightarrow> Inl e
      | Inr r \<Rightarrow>
          (let c = buildNodeMainContainer X n; cmd = sidecarWaitCommand X n
           in Inr (c\<lparr>co_Command := fst cmd, co_Args := snd cmd, co_Resources := r,
                 co_Env := co_Env c @ (case goMemLimitEnv X n r of None \<Rightarrow> [] | Some ev \<Rightarrow> [ev]),
                 co_StartupProbe := Some (http_probe ''/v0/healthz'' RBACProxyPort 5 5 86400 0),
                 co_ReadinessProbe := Some (readinessProbeForNode X n)\<rparr>)))"

definition sidecarImage :: "SeiNode \<Rightarrow> Config \<Rightarrow> string" where
  "sidecarImage n p =
     (case spec_Sidecar (node_Spec n) of
        Some sc \<Rightarrow> if sc_Image sc \<noteq> [] then sc_Image sc else SidecarImage p
      | None \<Rightarrow> SidecarImage p)"

definition buildSidecarContainer :: "render_ext \<Rightarrow> SeiNode \<Rightarrow> Config \<Rightarrow> Container" where
  "buildSidecarContainer X n p =
     empty_container
       \<lparr>co_Name := containerNameSidecar, co_Image := sidecarImage n p, co_RestartPolicy := Some ''Always'',
        co_Env := [plain_env ''SEI_CHAIN_ID'' (spec_ChainID (node_Spec n)), plain_env ''SEI_SIDECAR_PORT'' (itoa (SidecarPort X n)),
                   plain_env ''SEI_HOME'' dataDir, plain_env ''HOME'' homeDir,
                   plain_env ''SEI_GENESIS_BUCKET'' (pf_GenesisBucket p), plain_env ''SEI_GENESIS_REGION'' (pf_GenesisRegion p),
                   plain_env ''SEI_SNAPSHOT_BUCKET'' (pf_SnapshotBucket p), plain_env ''SEI_SNAPSHOT_REGION'' (pf_SnapshotRegion p),
                   plain_env ''SEI_SIDECAR_AUTHN_MODE'' ''trusted-header''] @ operatorKeyringEnvVars n,
        co_Ports := [\<lparr>cpt_Name = ''sidecar'', cpt_ContainerPort = SidecarPort X n, cpt_Protocol = ''TCP''\<rparr>],
        co_VolumeMounts := [rw_mount homeVolumeName homeDir, rw_mount ''data'' dataDir, rw_mount sidecarTmpVolumeName sidecarTmpMountPath] @
                   operatorKeyringMounts n @ nodeConfigMounts n,
        co_SecurityContext := Some sidecarSecurityContext,
        co_Resources := (case spec_Sidecar (node_Spec n) of
            Some sc \<Rightarrow> (case sc_Resources sc of Some r \<Rightarrow> r | None \<Rightarrow> co_Resources empty_container)
          | None \<Rightarrow> co_Resources empty_container)\<rparr>"

definition init_script :: "SeiNode \<Rightarrow> string" where
  "init_script n =
     (let chain = spec_ChainID (node_Spec n)
      in ''if [ -f '' @ quoted (dataDir @ ''/config/genesis.json'') @ '' ]; then echo '' @
         quoted ''data directory already initialized, skipping seid init'' @ ''; else seid init '' @ chain @ '' --chain-id '' @ chain @
         '' --home '' @ quoted dataDir @ '' --overwrite; fi && mkdir -p '' @ quoted (dataDir @ ''/tmp'') @
         (if spec_Validator (node_Spec n) \<noteq> None then '' && '' @ clientTomlKeyringBackendWrite dataDir (validatorKeyringBackend n) else []))"

definition buildSeidInitContainer :: "SeiNode \<Rightarrow> Container" where
  "buildSeidInitContainer n =
     empty_container
       \<lparr>co_Name := ''seid-init'', co_Image := spec_Image (node_Spec n), co_Command := [''/bin/sh'', ''-c'', init_script n],
        co_Env := [plain_env ''HOME'' homeDir],
        co_VolumeMounts := [rw_mount ''data'' dataDir, rw_mount homeVolumeName homeDir],
        co_SecurityContext := Some seidNonRootSecurityContext\<rparr>"

definition proxyBypassPaths :: "string list" where
  "proxyBypassPaths = [''/v0/healthz'', ''/v0/startupz'', ''/v0/livez'', ''/v0/metrics'']"

definition RBACProxyConfigMapName :: "SeiNode \<Rightarrow> string" where
  "RBACProxyConfigMapName n = node_Name n @ ''-rbac-proxy-config''"

definition buildRBACProxyContainer :: "render_ext \<Rightarrow> SeiNode \<Rightarrow> Config \<Rightarrow> Container" where
  "buildRBACProxyContainer X n p =
     empty_container
       \<lparr>co_Name := containerNameRBACProxy, co_Image := pf_KubeRBACProxyImage p, co_RestartPolicy := Some ''Always'',
        co_Args := [''--insecure-listen-address=0.0.0.0:'' @ itoa RBACProxyPort,
                    ''--upstream=http://127.0.0.1:'' @ itoa (SidecarPort X n) @ ''/'',
                    ''--config-file='' @ rbacProxyConfigMountPath @ ''/config.yaml'',
                    ''--ignore-paths='' @ join proxyBypassPaths '','', ''--auth-header-fields-enabled=true'', ''--v=0''],
        co_Ports := [\<lparr>cpt_Name = ''api'', cpt_ContainerPort = RBACProxyPort, cpt_Protocol = ''TCP''\<rparr>],
        co_VolumeMounts := [\<lparr>vm_Name = rbacProxyConfigVolumeName, vm_MountPath = rbacProxyConfigMountPath, vm_SubPath = [], vm_ReadOnly = True\<rparr>],
        co_StartupProbe := Some proxyStartupProbe, co_LivenessProbe := Some proxyLivenessProbe,
        co_ReadinessProbe := Some proxyReadinessProbe, co_SecurityContext := Some sidecarSecurityContext\<rparr>"

definition defaultCosmosExporterResources :: Resources where
  "defaultCosmosExporterResources =
     \<lparr>res_Requests = [''cpu'' \<mapsto> ''50m'', ''memory'' \<mapsto> ''64Mi''], res_Limits = [''memory'' \<mapsto> ''384Mi'']\<rparr>"

definition buildCosmosExporterContainer :: "render_ext \<Rightarrow> Config \<Rightarrow> Container" where
  "buildCosmosExporterContainer X p =
     empty_container
       \<lparr>co_Name := containerNameCosmosExporter, co_Image := pf_CosmosExporterImage p,
        co_Command := fst (cosmosExporterWaitCommand X), co_Args := snd (cosmosExporterWaitCommand X),
        co_Ports := [\<lparr>cpt_Name = ''cosmos-metrics'', cpt_ContainerPort = defaultCosmosExporterPort, cpt_Protocol = ''TCP''\<rparr>],
        co_SecurityContext := Some sidecarSecurityContext, co_Resources := defaultCosmosExporterResources,
        co_VolumeMounts := [rw_mount sidecarTmpVolumeName sidecarTmpMountPath],
        co_ReadinessProbe := Some (tcp_probe defaultCosmosExporterPort 0 10 6 0),
        co_LivenessProbe := Some (tcp_probe defaultCosmosExporterPort 600 10 3 0)\<rparr>"

subsection \<open>The pod\<close>

definition pod_volumes :: "SeiNode \<Rightarrow> Volume list" where
  "pod_volumes n =
     [\<lparr>vl_Name = ''data'', vl_Source = ClaimSource (DataPVCName n)\<rparr>,
      \<lparr>vl_Name = sidecarTmpVolumeName, vl_Source = EmptyDirSource\<rparr>,
      \<lparr>vl_Name = homeVolumeName, vl_Source = EmptyDirSource\<rparr>,
      \<lparr>vl_Name = rbacProxyConfigVolumeName, vl_Source = ConfigMapSource (RBACProxyConfigMapName n) None []\<rparr>] @
     signingKeyVolumes n @ nodeKeyVolumes n @ operatorKeyringVolumes n @ nodeConfigVolumes n"

definition buildNodePodSpec :: "render_ext \<Rightarrow> SeiNode \<Rightarrow> Config \<Rightarrow> render_error + PodSpec" where
  "buildNodePodSpec X n p =
     (case nodepoolFor n p (IsDedicatedNode n) of
        Inl e \<Rightarrow> Inl (RenderError e)
      | Inr pool \<Rightarrow>
          (case buildSidecarMainContainer X n p of
             Inl e \<Rightarrow> Inl e
           | Inr seid \<Rightarrow>
               (case ValidateGatedSeidProbes X seid of
                  Some e \<Rightarrow> Inl (RenderError e)
                | None \<Rightarrow>
                    (case ValidateSeedProbes X n seid of
                       Some e \<Rightarrow> Inl (RenderError e)
                     | None \<Rightarrow>
                         Inr \<lparr>ps_AutomountServiceAccountToken = True, ps_ServiceAccountName = pf_ServiceAccount p,
                           ps_Tolerations = [\<lparr>tol_Key = pf_TolerationKey p, tol_Value = pool, tol_Effect = ''NoSchedule''\<rparr>],
                           ps_NodeAffinity = [(''karpenter.sh/nodepool'', OpIn, [pool])],
                           ps_PodAntiAffinity = BuildPodAntiAffinity (IsDedicatedNode n), ps_Volumes = pod_volumes n,
                           ps_ShareProcessNamespace = True, ps_FSGroup = sidecarNonRootUID,
                           ps_FSGroupChangePolicy = ''OnRootMismatch'',
                           ps_InitContainers = [buildSeidInitContainer n, buildSidecarContainer X n p, buildRBACProxyContainer X n p],
                           ps_Containers = seid #
                             (if servesSeidRPC n \<and> pf_CosmosExporterImage p \<noteq> [] \<and>
                                 spec_ChainID (node_Spec n) \<notin> set (pf_CosmosExporterExcludedChains p)
                              then [buildCosmosExporterContainer X p] else [])\<rparr>))))"

subsection \<open>The keyring guard\<close>

definition refers_to :: "string \<Rightarrow> EnvVar \<Rightarrow> bool" where
  "refers_to secret ev = (case env_SecretKeyRef ev of Some (s, _) \<Rightarrow> s = secret | None \<Rightarrow> False)"

text \<open>The em dash of the first message is written out as its bytes.\<close>

definition keyring_violation :: "SeiNode \<Rightarrow> string \<Rightarrow> Container \<Rightarrow> error option" where
  "keyring_violation n secret c =
     (let pod = ''pod-spec for '' @ node_Namespace n @ ''/'' @ node_Name n;
          only = ''the passphrase is exclusively the sidecar's (plus seid main when .secret.seidMount is set)''
      in if list_ex (\<lambda>m. vm_Name m = operatorKeyringVolumeName) (co_VolumeMounts c) then
           Some (pod @ '' mounts operator-keyring volume on container '' @ quoted (co_Name c) @
             ''; operator-keyring is exclusively the sidecar's (plus seid main when .secret.seidMount is set) '' @
             [CHR 0xE2, CHR 0x80, CHR 0x94] @ '' mounting elsewhere would collapse containment'')
         else case find (refers_to secret) (co_Env c) of
           Some ev \<Rightarrow>
             Some (pod @ '' references operator-keyring passphrase Secret '' @ quoted secret @ '' in env '' @ quoted (env_Name ev) @
               '' on container '' @ quoted (co_Name c) @ ''; '' @ only)
         | None \<Rightarrow>
             if secret \<in> set (co_EnvFrom c) then
               Some (pod @ '' references operator-keyring passphrase Secret '' @ quoted secret @ '' via envFrom on container '' @
                 quoted (co_Name c) @ ''; '' @ only)
             else None)"

definition keyring_permitted :: "SecretOperatorKeyringSource \<Rightarrow> string \<Rightarrow> bool" where
  "keyring_permitted src name \<longleftrightarrow> name = containerNameSidecar \<or> opk_SeidMount src \<and> name = containerNameSeid"

fun first_violation :: "SeiNode \<Rightarrow> SecretOperatorKeyringSource \<Rightarrow> Container list \<Rightarrow> error option" where
  "first_violation n src [] = None"
| "first_violation n src (c # cs) =
     (if keyring_permitted src (co_Name c) then first_violation n src cs
      else case keyring_violation n (opk_PassphraseSecretName src) c of
        Some e \<Rightarrow> Some e | None \<Rightarrow> first_violation n src cs)"

definition assertOperatorKeyringContainment :: "SeiNode \<Rightarrow> PodSpec \<Rightarrow> error option" where
  "assertOperatorKeyringContainment n spec =
     (case operatorKeyringSecretSource n of
        None \<Rightarrow> None | Some src \<Rightarrow> first_violation n src (ps_Containers spec @ ps_InitContainers spec))"

subsection \<open>Manifests\<close>

definition updateStrategy :: "SeiNode \<Rightarrow> string" where
  "updateStrategy n = (if spec_NodeConfig (node_Spec n) \<noteq> None then ''RollingUpdate'' else ''OnDelete'')"

definition podManagementPolicy :: "SeiNode \<Rightarrow> string" where
  "podManagementPolicy n = (if spec_NodeConfig (node_Spec n) \<noteq> None then ''Parallel'' else [])"

definition GenerateStatefulSet :: "render_ext \<Rightarrow> SeiNode \<Rightarrow> Config \<Rightarrow> render_error + RenderedStatefulSet" where
  "GenerateStatefulSet X n p =
     (if pf_KubeRBACProxyImage p = [] then Inl (RenderError ''images.kubeRBACProxy is not configured in the app-config file'')
      else if \<not> servesSeidRPC n \<and> pf_NodepoolSeed p = [] then
        Inl (RenderError ''scheduling.nodepoolSeed is not configured in the app-config file'')
      else case buildNodePodSpec X n p of
        Inl e \<Rightarrow> Inl e
      | Inr spec \<Rightarrow>
          (case assertOperatorKeyringContainment n spec of
             Some e \<Rightarrow> Inl (RenderError e)
           | None \<Rightarrow>
               Inr \<lparr>rs_Name = node_Name n, rs_Namespace = node_Namespace n, rs_Labels = ResourceLabels n, rs_Replicas = 1,
                 rs_ServiceName = node_Name n, rs_MatchLabels = SelectorLabels n, rs_PodManagementPolicy = podManagementPolicy n,
                 rs_UpdateStrategy = updateStrategy n, rs_TemplateLabels = ResourceLabels n,
                 rs_TemplateAnnotations = Mapping.update ''karpenter.sh/do-not-disrupt'' ''true'' Mapping.empty, rs_Spec = spec\<rparr>))"

definition ServicePorts :: "render_ext \<Rightarrow> ServicePort list" where
  "ServicePorts X =
     map (\<lambda>(name, port). \<lparr>sp_Name = name, sp_Port = port, sp_TargetPort = port, sp_Protocol = ''TCP'',
            sp_AppProtocol = (if name = rx_PortNameGRPC X then Some ''kubernetes.io/h2c'' else None)\<rparr>) (rx_NodePorts X)"

definition GenerateHeadlessService :: "render_ext \<Rightarrow> SeiNode \<Rightarrow> RenderedService" where
  "GenerateHeadlessService X n =
     \<lparr>rsv_Name = node_Name n, rsv_Namespace = node_Namespace n, rsv_Labels = ResourceLabels n, rsv_ClusterIP = ''None'',
      rsv_Selector = SelectorLabels n,
      rsv_Ports = ServicePorts X @ [\<lparr>sp_Name = ''api'', sp_Port = RBACProxyPort, sp_TargetPort = RBACProxyPort, sp_Protocol = ''TCP'',
                                     sp_AppProtocol = None\<rparr>],
      rsv_PublishNotReadyAddresses = True\<rparr>"

definition GenerateDataPVC :: "render_ext \<Rightarrow> SeiNode \<Rightarrow> Config \<Rightarrow> render_error + RenderedClaim" where
  "GenerateDataPVC X n p =
     (case StorageForNode X n p of (cls, sz) \<Rightarrow>
       (case MustParse X sz of
          Inl e \<Rightarrow> Inl e
        | Inr q \<Rightarrow>
            Inr \<lparr>rc_Name = DataPVCName n, rc_Namespace = node_Namespace n, rc_Labels = ResourceLabels n,
              rc_AccessModes = [''ReadWriteOnce''], rc_StorageClassName = cls, rc_StorageRequest = q,
              rc_VolumeAttributesClassName = VolumeAttributesClassForNode n\<rparr>))"

definition GenerateRBACProxyConfigMap :: "SeiNode \<Rightarrow> RenderedConfigMap" where
  "GenerateRBACProxyConfigMap n =
     \<lparr>rcm_Name = RBACProxyConfigMapName n, rcm_Namespace = node_Namespace n, rcm_Labels = ResourceLabels n,
      rcm_Data = [(''config.yaml'',
        join [''authorization:'', ''  resourceAttributes:'', ''    apiGroup: sei.io'', ''    resource: seinodetasks'',
              ''    namespace: '' @ node_Namespace n, ''    name: '' @ node_Name n, []] [CHR 0x0A])]\<rparr>"

definition SidecarURLForNode :: "SeiNode \<Rightarrow> string" where
  "SidecarURLForNode n =
     ''http://'' @ node_Name n @ ''-0.'' @ node_Name n @ ''.'' @ node_Namespace n @ ''.svc.cluster.local:'' @ itoa RBACProxyPort"

end
