(* ===== verification/RenderProps.thy ===== *)
theory RenderProps
  imports NodePod Fixtures SidecarServer
begin

text \<open>
  What the rendering promises: the keyring stays in its containers, every pod is well formed, the guards of the rendering
  never reject what it builds, a validated platform configuration renders, and the isolation of a dedicated node holds in both directions.
\<close>

subsection \<open>Example values\<close>

text \<open>A platform configuration, the constants and quantities it uses, and a validator with all its keys: the values the
  examples of the rendering evaluate.\<close>

definition demo_render :: render_ext where
  "demo_render =
     \<lparr>rx_ext = demo_ext, rx_PortGRPC = 9090, rx_PortSidecar = 7777, rx_NodePorts = [(''rpc'', 26657), (''grpc'', 9090)],
      rx_PortNameGRPC = ''grpc'', rx_ParseQuantity = (\<lambda>s. if s \<in> {''16'', ''128Gi'', ''32'', ''256Gi'', ''64'', ''512Gi'', ''1'', ''2Gi'', ''20Gi'', ''2Ti''} then None else Some ''quantities must match the regular expression''),
      rx_QuantityValue = (\<lambda>s. if s = ''2Gi'' then 2147483648 else 274877906944), rx_QuantityString = (\<lambda>s. s)\<rparr>"

definition demo_config :: Config where
  "demo_config =
     \<lparr>SidecarImage = ''sidecar:1'', DriftUpdateBudgetPercent = 50, pf_NodepoolName = ''rpc'', pf_NodepoolArchive = ''archive'',
      pf_NodepoolValidator = ''validator'', pf_TolerationKey = ''sei.io/pool'', pf_ServiceAccount = ''seid'', pf_StorageClassPerf = ''gp3-fast'',
      pf_StorageClassDefault = ''gp3'', pf_StorageClassArchive = ''gp3-big'', pf_StorageSizeDefault = ''2Ti'', pf_StorageSizeArchive = ''2Ti'',
      pf_NodepoolSeed = ''seed'', pf_StorageSizeSeed = [], pf_DedicatedNodepoolName = [], pf_DedicatedNodepoolArchive = [],
      pf_DedicatedNodepoolValidator = [], pf_DedicatedNodepoolSeed = [], pf_SelectableNodepools = [],
      pf_NodeResourcesValidator = no_override, pf_NodeResourcesNode = no_override, pf_NodeResourcesReplayer = no_override,
      pf_NodeResourcesArchive = no_override, pf_NodeResourcesSeed = no_override, pf_SnapshotBucket = ''snap'', pf_SnapshotRegion = ''eu'',
      pf_GenesisBucket = ''gen'', pf_GenesisRegion = ''eu'', pf_GatewayName = ''gw'', pf_GatewayNamespace = ''gw'', pf_GatewayDomain = ''sei.io'',
      pf_GatewayPublicDomain = [], pf_KubeRBACProxyImage = ''proxy:1'', pf_CosmosExporterImage = ''exporter:1'',
      pf_CosmosExporterExcludedChains = [], pf_ControllerConfigFile = ''/etc/config''\<rparr>"

definition demo_validator :: SeiNode where
  "demo_validator =
     demo_node\<lparr>node_Spec := demo_spec\<lparr>spec_FullNode := None, spec_Validator := Some
       \<lparr>val_Snapshot = None, val_GenesisCeremony = None, val_SigningKey = Some (Some ''signing''), val_NodeKey = Some (Some ''nodekey''),
        val_OperatorKeyring = Some (Some \<lparr>opk_SecretName = ''keyring'', opk_KeyName = ''ops'', opk_PassphraseSecretName = ''pass'',
          opk_PassphraseKey = ''passphrase'', opk_SeidMount = False\<rparr>)\<rparr>\<rparr>\<rparr>"

definition demo_evm_node :: SeiNode where
  "demo_evm_node =
     demo_node\<lparr>node_Spec := demo_spec\<lparr>spec_ExecutionEngine := Some \<lparr>ee_Mode = ExecutionEngineEvmOnly, ee_EvmOnly = None\<rparr>\<rparr>\<rparr>"

definition demo_dedicated_node :: SeiNode where
  "demo_dedicated_node =
     demo_node\<lparr>node_Spec := demo_spec\<lparr>spec_Scheduling := Some \<lparr>sch_NodeIsolation = NodeIsolationDedicated, sch_NodePool = []\<rparr>\<rparr>\<rparr>"

subsection \<open>Shape of a rendered pod\<close>

definition all_containers :: "PodSpec \<Rightarrow> Container list" where
  "all_containers spec = ps_Containers spec @ ps_InitContainers spec"

lemmas volume_names = homeVolumeName_def rbacProxyConfigVolumeName_def signingKeyVolumeName_def nodeKeyVolumeName_def
  nodeConfigConfigVolumeName_def nodeConfigAppVolumeName_def operatorKeyringVolumeName_def sidecarTmpVolumeName_def

lemmas container_names = containerNameSeid_def containerNameSidecar_def containerNameRBACProxy_def containerNameCosmosExporter_def

lemma buildNodePodSpec_cases:
  assumes "buildNodePodSpec X n p = Inr spec"
  obtains pool r where "nodepoolFor n p (IsDedicatedNode n) = Inr pool" "ResourcesForNode X n p = Inr r"
    "ps_Volumes spec = pod_volumes n" "ps_PodAntiAffinity spec = BuildPodAntiAffinity (IsDedicatedNode n)"
    "ps_InitContainers spec = [buildSeidInitContainer n, buildSidecarContainer X n p, buildRBACProxyContainer X n p]"
    "\<exists>seid. buildSidecarMainContainer X n p = Inr seid \<and>
       (ps_Containers spec = [seid] \<or> ps_Containers spec = [seid, buildCosmosExporterContainer X p])"
proof -
  obtain pool where pool: "nodepoolFor n p (IsDedicatedNode n) = Inr pool"
    using assms by (cases "nodepoolFor n p (IsDedicatedNode n)") (auto simp: buildNodePodSpec_def)
  obtain seid where seid: "buildSidecarMainContainer X n p = Inr seid"
    using assms pool by (cases "buildSidecarMainContainer X n p") (auto simp: buildNodePodSpec_def)
  obtain r where r: "ResourcesForNode X n p = Inr r"
    using seid by (cases "ResourcesForNode X n p") (auto simp: buildSidecarMainContainer_def)
  have probes: "ValidateGatedSeidProbes X seid = None" "ValidateSeedProbes X n seid = None"
    using assms pool seid by (auto simp: buildNodePodSpec_def split: option.splits)
  show thesis by (rule that[OF pool r]) (use assms pool seid probes in \<open>auto simp: buildNodePodSpec_def split: if_splits\<close>)
qed

lemma main_container:
  assumes "buildSidecarMainContainer X n p = Inr c"
  shows "co_Name c = containerNameSeid" "co_Image c = spec_Image (node_Spec n)"
    "co_VolumeMounts c = co_VolumeMounts (buildNodeMainContainer X n)" "co_EnvFrom c = []"
    "co_LivenessProbe c = None" "co_StartupProbe c = Some (http_probe ''/v0/healthz'' RBACProxyPort 5 5 86400 0)"
    "co_ReadinessProbe c = Some (readinessProbeForNode X n)"
    "\<exists>r. ResourcesForNode X n p = Inr r \<and> co_Resources c = r \<and>
       co_Env c = co_Env (buildNodeMainContainer X n) @ (case goMemLimitEnv X n r of None \<Rightarrow> [] | Some ev \<Rightarrow> [ev])"
  using assms by (auto simp: buildSidecarMainContainer_def buildNodeMainContainer_def empty_container_def Let_def split: sum.splits)

subsection \<open>The operator keyring\<close>

definition touches_keyring :: "string \<Rightarrow> Container \<Rightarrow> bool" where
  "touches_keyring secret c \<longleftrightarrow> operatorKeyringVolumeName \<in> set (map vm_Name (co_VolumeMounts c)) \<or>
     (\<exists>ev \<in> set (co_Env c). \<exists>k. env_SecretKeyRef ev = Some (secret, k)) \<or> secret \<in> set (co_EnvFrom c)"

lemma refers_iff: "refers_to secret ev \<longleftrightarrow> (\<exists>k. env_SecretKeyRef ev = Some (secret, k))"
  by (cases "env_SecretKeyRef ev") (auto simp: refers_to_def)

lemma find_refers: "find (refers_to secret) evs = None \<longleftrightarrow> (\<forall>ev \<in> set evs. \<forall>k. env_SecretKeyRef ev \<noteq> Some (secret, k))"
  by (auto simp: find_None_iff refers_iff)

lemma mounts_volume: "list_ex (\<lambda>m. vm_Name m = v) ms \<longleftrightarrow> v \<in> set (map vm_Name ms)"
  by (induction ms) auto

lemma violation_iff: "keyring_violation n secret c = None \<longleftrightarrow> \<not> touches_keyring secret c"
proof (cases "operatorKeyringVolumeName \<in> set (map vm_Name (co_VolumeMounts c))")
  case True
  then show ?thesis by (simp add: keyring_violation_def touches_keyring_def mounts_volume Let_def)
next
  case False
  show ?thesis
  proof (cases "find (refers_to secret) (co_Env c)")
    case None
    then show ?thesis using False find_refers[of secret "co_Env c"]
      by (auto simp: keyring_violation_def touches_keyring_def mounts_volume Let_def)
  next
    case (Some ev)
    then have "\<exists>ev \<in> set (co_Env c). \<exists>k. env_SecretKeyRef ev = Some (secret, k)" using find_refers[of secret "co_Env c"] by auto
    then show ?thesis using False Some by (simp add: keyring_violation_def touches_keyring_def mounts_volume Let_def)
  qed
qed

lemma first_violation_None:
  "first_violation n src cs = None \<longleftrightarrow>
     (\<forall>c \<in> set cs. touches_keyring (opk_PassphraseSecretName src) c \<longrightarrow> keyring_permitted src (co_Name c))"
proof (induction cs)
  case (Cons c cs)
  show ?case using Cons violation_iff[of n "opk_PassphraseSecretName src" c] by (auto split: option.splits)
qed simp

lemma keyring_quiet [simp]:
  "\<not> touches_keyring secret (buildSeidInitContainer n)" "\<not> touches_keyring secret (buildRBACProxyContainer X n p)"
  "\<not> touches_keyring secret (buildCosmosExporterContainer X p)"
  by (simp_all add: touches_keyring_def buildSeidInitContainer_def buildRBACProxyContainer_def buildCosmosExporterContainer_def
      empty_container_def rw_mount_def plain_env_def volume_names)

lemma key_mounts_names:
  "vm_Name ` set (signingKeyMounts n) \<subseteq> {signingKeyVolumeName}" "vm_Name ` set (nodeKeyMounts n) \<subseteq> {nodeKeyVolumeName}"
  "vm_Name ` set (nodeConfigMounts n) \<subseteq> {nodeConfigConfigVolumeName, nodeConfigAppVolumeName}"
  by (auto simp: signingKeyMounts_def nodeKeyMounts_def nodeConfigMounts_def nodeConfigMount_def file_mount_def)

lemma main_keyring_quiet:
  assumes c: "buildSidecarMainContainer X n p = Inr c" and off: "\<not> operatorKeyringSeidMountEnabled n"
  shows "\<not> touches_keyring secret c"
proof -
  obtain r where r: "co_Env c = co_Env (buildNodeMainContainer X n) @ (case goMemLimitEnv X n r of None \<Rightarrow> [] | Some ev \<Rightarrow> [ev])"
    using main_container(8)[OF c] by blast
  have e1: "env_SecretKeyRef ev = None" if "ev \<in> set (co_Env (buildNodeMainContainer X n))" for ev
    using that off by (auto simp: buildNodeMainContainer_def empty_container_def plain_env_def)
  have e2: "env_SecretKeyRef ev = None" if "goMemLimitEnv X n r = Some ev" for ev
    using that by (auto simp: goMemLimitEnv_def plain_env_def Let_def split: if_splits option.splits)
  have "operatorKeyringVolumeName \<notin> vm_Name ` set (co_VolumeMounts c)"
    using main_container(3)[OF c] off key_mounts_names[of n]
    by (auto simp: buildNodeMainContainer_def empty_container_def rw_mount_def image_iff) (auto simp: volume_names)
  moreover have "env_SecretKeyRef ev = None" if "ev \<in> set (co_Env c)" for ev
    using that r e1 e2 by (cases "goMemLimitEnv X n r") auto
  ultimately show ?thesis using main_container(4)[OF c] by (auto simp: touches_keyring_def)
qed

lemma contained_containers:
  assumes spec: "buildNodePodSpec X n p = Inr spec" and src: "operatorKeyringSecretSource n = Some src"
    and c: "c \<in> set (all_containers spec)" and t: "touches_keyring (opk_PassphraseSecretName src) c"
  shows "keyring_permitted src (co_Name c)"
proof -
  obtain seid where seid: "buildSidecarMainContainer X n p = Inr seid"
    and inits: "ps_InitContainers spec = [buildSeidInitContainer n, buildSidecarContainer X n p, buildRBACProxyContainer X n p]"
    and mains: "ps_Containers spec = [seid] \<or> ps_Containers spec = [seid, buildCosmosExporterContainer X p]"
    using buildNodePodSpec_cases[OF spec] by metis
  consider "c = seid" | "c = buildSidecarContainer X n p"
    using c t inits mains keyring_quiet by (auto simp: all_containers_def)
  then show ?thesis
  proof cases
    case 1
    then have "operatorKeyringSeidMountEnabled n" using main_keyring_quiet[OF seid] t by blast
    then show ?thesis using 1 main_container(1)[OF seid] src
      by (simp add: keyring_permitted_def operatorKeyringSeidMountEnabled_def)
  qed (simp add: keyring_permitted_def buildSidecarContainer_def empty_container_def)
qed

lemma keyring_guard_silent: "buildNodePodSpec X n p = Inr spec \<Longrightarrow> assertOperatorKeyringContainment n spec = None"
  using contained_containers[of X n p spec] first_violation_None[of n _ "all_containers spec"]
  by (auto simp: assertOperatorKeyringContainment_def all_containers_def split: option.splits)

text \<open>C32. The operator keyring stays contained.  In every pod the rendering builds for a node with an operator keyring, only the
  sidecar, and seid itself where the node opts in, mount the keyring's volume or refer to its passphrase; so the guard that runs
  before a StatefulSet is applied never rejects a rendered pod.\<close>

theorem keyring_contained:
  assumes spec: "buildNodePodSpec X n p = Inr spec"
  shows "assertOperatorKeyringContainment n spec = None \<and>
    (\<forall>src c. operatorKeyringSecretSource n = Some src \<and> c \<in> set (all_containers spec) \<and>
       touches_keyring (opk_PassphraseSecretName src) c \<longrightarrow>
       co_Name c = containerNameSidecar \<or> opk_SeidMount src \<and> co_Name c = containerNameSeid)"
  using keyring_guard_silent[OF spec] contained_containers[OF spec] by (auto simp: keyring_permitted_def)

subsection \<open>Well-formed pods\<close>

text \<open>What the API server demands of a pod: distinct volumes and containers, mounts of declared volumes only, at distinct paths,
  and one value per variable.\<close>

definition container_ok :: "string list \<Rightarrow> Container \<Rightarrow> bool" where
  "container_ok vols c \<longleftrightarrow> list_all (\<lambda>m. vm_Name m \<in> set vols) (co_VolumeMounts c) \<and> distinct (map vm_MountPath (co_VolumeMounts c)) \<and>
     distinct (map env_Name (co_Env c))"

definition pod_ok :: "PodSpec \<Rightarrow> bool" where
  "pod_ok spec \<longleftrightarrow> distinct (map vl_Name (ps_Volumes spec)) \<and> distinct (map co_Name (all_containers spec)) \<and>
     list_all (container_ok (map vl_Name (ps_Volumes spec))) (all_containers spec)"

lemma volume_list:
  "map vl_Name (pod_volumes n) = [''data'', sidecarTmpVolumeName, homeVolumeName, rbacProxyConfigVolumeName] @
     (if signingKeySecretSource n = None then [] else [signingKeyVolumeName]) @
     (if nodeKeySecretSource n = None then [] else [nodeKeyVolumeName]) @
     (if operatorKeyringSecretSource n = None then [] else [operatorKeyringVolumeName]) @
     (if spec_NodeConfig (node_Spec n) = None then [] else [nodeConfigConfigVolumeName, nodeConfigAppVolumeName])"
  by (simp add: pod_volumes_def signingKeyVolumes_def nodeKeyVolumes_def operatorKeyringVolumes_def nodeConfigVolumes_def
      nodeConfigVolume_def secret_volume_def split: option.splits)

lemma volumes_distinct: "distinct (map vl_Name (pod_volumes n))"
  unfolding volume_list by (simp add: volume_names)

lemma volume_base: "''data'' \<in> set (map vl_Name (pod_volumes n))" "homeVolumeName \<in> set (map vl_Name (pod_volumes n))"
  "sidecarTmpVolumeName \<in> set (map vl_Name (pod_volumes n))" "rbacProxyConfigVolumeName \<in> set (map vl_Name (pod_volumes n))"
  unfolding volume_list by simp_all

lemma volume_keys:
  "m \<in> set (signingKeyMounts n) \<Longrightarrow> vm_Name m \<in> set (map vl_Name (pod_volumes n))"
  "m \<in> set (nodeKeyMounts n) \<Longrightarrow> vm_Name m \<in> set (map vl_Name (pod_volumes n))"
  "m \<in> set (nodeConfigMounts n) \<Longrightarrow> vm_Name m \<in> set (map vl_Name (pod_volumes n))"
  "m \<in> set (operatorKeyringMounts n) \<Longrightarrow> vm_Name m \<in> set (map vl_Name (pod_volumes n))"
  unfolding volume_list
  by (auto simp: signingKeyMounts_def nodeKeyMounts_def nodeConfigMounts_def nodeConfigMount_def operatorKeyringMounts_def file_mount_def
      split: if_splits)

lemmas path_names = dataDir_def homeDir_def sidecarTmpMountPath_def rbacProxyConfigMountPath_def privValidatorKeyDataKey_def
  nodeKeyDataKey_def operatorKeyringDirName_def

text \<open>The paths below the data directory, without their common prefix.\<close>

definition optional_paths :: "SeiNode \<Rightarrow> bool \<Rightarrow> string list" where
  "optional_paths n keyring = map vm_MountPath (signingKeyMounts n @ nodeKeyMounts n @ nodeConfigMounts n @
     (if keyring then operatorKeyringMounts n else []))"

lemma optional_paths_ok:
  "distinct (optional_paths n b)" "dataDir \<notin> set (optional_paths n b)" "homeDir \<notin> set (optional_paths n b)"
  "sidecarTmpMountPath \<notin> set (optional_paths n b)"
  by (auto simp: optional_paths_def signingKeyMounts_def nodeKeyMounts_def nodeConfigMounts_def nodeConfigMount_def
      operatorKeyringMounts_def file_mount_def path_names split: if_splits)

lemma main_mounts_ok:
  "list_all (\<lambda>m. vm_Name m \<in> set (map vl_Name (pod_volumes n))) (co_VolumeMounts (buildNodeMainContainer X n)) \<and>
   distinct (map vm_MountPath (co_VolumeMounts (buildNodeMainContainer X n)))"
proof -
  have m: "co_VolumeMounts (buildNodeMainContainer X n) = [rw_mount ''data'' dataDir, rw_mount homeVolumeName homeDir] @
      (signingKeyMounts n @ nodeKeyMounts n @ nodeConfigMounts n @ (if operatorKeyringSeidMountEnabled n then operatorKeyringMounts n else []))"
    by (simp add: buildNodeMainContainer_def)
  have "map vm_MountPath (co_VolumeMounts (buildNodeMainContainer X n)) =
      dataDir # homeDir # optional_paths n (operatorKeyringSeidMountEnabled n)"
    by (simp add: m optional_paths_def rw_mount_def)
  moreover have "dataDir \<noteq> homeDir" by (simp add: path_names)
  ultimately have "distinct (map vm_MountPath (co_VolumeMounts (buildNodeMainContainer X n)))" using optional_paths_ok[of n] by simp
  moreover have "vm_Name x \<in> set (map vl_Name (pod_volumes n))" if "x \<in> set (co_VolumeMounts (buildNodeMainContainer X n))" for x
    using that volume_base[of n] volume_keys[of x n] by (auto simp: m rw_mount_def split: if_splits)
  ultimately show ?thesis by (simp add: list_all_iff)
qed

lemma sidecar_mounts_ok:
  "list_all (\<lambda>m. vm_Name m \<in> set (map vl_Name (pod_volumes n))) (co_VolumeMounts (buildSidecarContainer X n p)) \<and>
   distinct (map vm_MountPath (co_VolumeMounts (buildSidecarContainer X n p)))"
proof -
  have m: "co_VolumeMounts (buildSidecarContainer X n p) =
      [rw_mount homeVolumeName homeDir, rw_mount ''data'' dataDir, rw_mount sidecarTmpVolumeName sidecarTmpMountPath] @
      operatorKeyringMounts n @ nodeConfigMounts n" by (simp add: buildSidecarContainer_def)
  have "distinct (map vm_MountPath (co_VolumeMounts (buildSidecarContainer X n p)))"
    by (auto simp: m rw_mount_def operatorKeyringMounts_def nodeConfigMounts_def nodeConfigMount_def file_mount_def path_names)
  moreover have "vm_Name x \<in> set (map vl_Name (pod_volumes n))" if "x \<in> set (co_VolumeMounts (buildSidecarContainer X n p))" for x
    using that volume_base[of n] volume_keys[of x n] by (auto simp: m rw_mount_def)
  ultimately show ?thesis by (simp add: list_all_iff)
qed

lemma keyring_env_names: "map env_Name (operatorKeyringEnvVars n) \<in> {[], [''SEI_KEYRING_BACKEND'', ''SEI_KEYRING_DIR''],
    [''SEI_KEYRING_BACKEND'', ''SEI_KEYRING_DIR'', ''SEI_KEYRING_PASSPHRASE'']}"
  by (auto simp: operatorKeyringEnvVars_def plain_env_def split: option.splits)

lemma sidecar_env_ok: "distinct (map env_Name (co_Env (buildSidecarContainer X n p)))"
  using keyring_env_names[of n] by (auto simp: buildSidecarContainer_def plain_env_def)

lemma main_env_ok:
  assumes "buildSidecarMainContainer X n p = Inr c"
  shows "distinct (map env_Name (co_Env c))"
proof -
  obtain r where r: "co_Env c = co_Env (buildNodeMainContainer X n) @ (case goMemLimitEnv X n r of None \<Rightarrow> [] | Some ev \<Rightarrow> [ev])"
    using main_container(8)[OF assms] by blast
  have g: "env_Name ev = ''GOMEMLIMIT''" if "goMemLimitEnv X n r = Some ev" for ev
    using that by (auto simp: goMemLimitEnv_def plain_env_def Let_def split: if_splits option.splits)
  have "map env_Name (co_Env (buildNodeMainContainer X n)) =
      [''HOME'', ''TMPDIR''] @ (if operatorKeyringSeidMountEnabled n then map env_Name (operatorKeyringEnvVars n) else [])"
    by (simp add: buildNodeMainContainer_def plain_env_def)
  then show ?thesis using keyring_env_names[of n] r g by (cases "goMemLimitEnv X n r") (auto split: if_splits)
qed

lemma fixed_containers_ok:
  "container_ok (map vl_Name (pod_volumes n)) (buildSeidInitContainer n)"
  "container_ok (map vl_Name (pod_volumes n)) (buildRBACProxyContainer X n p)"
  "container_ok (map vl_Name (pod_volumes n)) (buildCosmosExporterContainer X p)"
  using volume_base[of n]
  by (simp_all add: container_ok_def buildSeidInitContainer_def buildRBACProxyContainer_def buildCosmosExporterContainer_def
      empty_container_def rw_mount_def path_names)

lemma container_name_simps:
  "co_Name (buildSeidInitContainer n) = ''seid-init''" "co_Name (buildSidecarContainer X n p) = containerNameSidecar"
  "co_Name (buildRBACProxyContainer X n p) = containerNameRBACProxy"
  "co_Name (buildCosmosExporterContainer X p) = containerNameCosmosExporter"
  by (simp_all add: buildSeidInitContainer_def buildSidecarContainer_def buildRBACProxyContainer_def buildCosmosExporterContainer_def)

text \<open>Every rendered pod is well formed: volume and container names are distinct, each container mounts only volumes the pod declares,
  at distinct paths, and sets no variable twice, whatever mode, keys, keyring and configuration files the node has.\<close>

theorem rendered_pod_ok:
  assumes "buildNodePodSpec X n p = Inr spec"
  shows "pod_ok spec"
proof -
  obtain seid where seid: "buildSidecarMainContainer X n p = Inr seid" and v: "ps_Volumes spec = pod_volumes n"
    and inits: "ps_InitContainers spec = [buildSeidInitContainer n, buildSidecarContainer X n p, buildRBACProxyContainer X n p]"
    and mains: "ps_Containers spec = [seid] \<or> ps_Containers spec = [seid, buildCosmosExporterContainer X p]"
    using buildNodePodSpec_cases[OF assms] by metis
  have s: "container_ok (map vl_Name (pod_volumes n)) seid"
    using main_mounts_ok[of n X] main_container(3)[OF seid] main_env_ok[OF seid] by (simp add: container_ok_def)
  have sc: "container_ok (map vl_Name (pod_volumes n)) (buildSidecarContainer X n p)"
    using sidecar_mounts_ok[of n X p] sidecar_env_ok[of X n p] by (simp add: container_ok_def)
  have "distinct (map co_Name (all_containers spec))"
    using mains inits main_container(1)[OF seid] by (auto simp: all_containers_def container_name_simps container_names)
  moreover have "list_all (container_ok (map vl_Name (pod_volumes n))) (all_containers spec)"
    using mains inits s sc fixed_containers_ok by (auto simp: all_containers_def)
  ultimately show ?thesis using v volumes_distinct[of n] by (simp add: pod_ok_def)
qed

section \<open>Which nodes render\<close>

text \<open>
  Which nodes render: with a validated platform configuration the rendering neither panics nor refuses, but for a node pool
  the platform does not offer.  What the templates say about images, memory, isolation and probes.
\<close>

subsection \<open>Sizes\<close>

definition default_sizes :: "string list" where
  "default_sizes = [''16'', ''128Gi'', ''32'', ''256Gi'', ''64'', ''512Gi'', ''1'', ''2Gi'']"

text \<open>The quantity parser accepts the constants of the code.\<close>

definition defaults_parse :: "render_ext \<Rightarrow> bool" where
  "defaults_parse X \<longleftrightarrow> list_all (\<lambda>s. rx_ParseQuantity X s = None) default_sizes"

lemma role_cases: "deriveRole n \<in> {''validator'', ''archive'', ''replayer'', ''seed'', ''node''}"
  by (simp add: deriveRole_def Let_def)

lemma profile_parses:
  assumes "defaults_parse X"
  shows "rx_ParseQuantity X (np_cpuRequest (defaultNodeResourceProfiles (deriveRole n))) = None \<and>
    rx_ParseQuantity X (np_memory (defaultNodeResourceProfiles (deriveRole n))) = None"
  using assms role_cases[of n]
  by (elim insertE emptyE) (simp_all add: defaults_parse_def default_sizes_def defaultNodeResourceProfiles_def)

lemma override_checked:
  assumes "override_validate qty key r = None"
  shows "(TrimSpace (ro_CPURequest r) \<noteq> [] \<longrightarrow> qty (ro_CPURequest r) = None) \<and> (TrimSpace (ro_Memory r) \<noteq> [] \<longrightarrow> qty (ro_Memory r) = None)"
  using assms by (auto simp: override_validate_def check_quantity_def split: option.splits if_splits)

lemma bad_override_None: "first_bad_override qty rs = None \<longleftrightarrow> list_all (\<lambda>(k, r). override_validate qty k r = None) rs"
  by (induction rs) (auto split: option.splits)

lemma missing_None: "first_missing fs = None \<longleftrightarrow> list_all (\<lambda>(k, v). TrimSpace v \<noteq> []) fs"
  by (induction fs) (auto split: if_splits)

lemma validate_None:
  assumes "platform_Validate qty p = None"
  shows "list_all (\<lambda>(k, v). TrimSpace v \<noteq> []) (required_fields p)"
    "override_validate qty ''resources.validator'' (pf_NodeResourcesValidator p) = None"
    "override_validate qty ''resources.node'' (pf_NodeResourcesNode p) = None"
    "override_validate qty ''resources.replayer'' (pf_NodeResourcesReplayer p) = None"
    "override_validate qty ''resources.archive'' (pf_NodeResourcesArchive p) = None"
    "override_validate qty ''resources.seed'' (pf_NodeResourcesSeed p) = None"
proof -
  have m: "first_missing (required_fields p) = None" using assms by (auto simp: platform_Validate_def split: option.splits)
  then show "list_all (\<lambda>(k, v). TrimSpace v \<noteq> []) (required_fields p)" by (simp only: missing_None)
  have "first_bad_override qty
      [(''resources.validator'', pf_NodeResourcesValidator p), (''resources.node'', pf_NodeResourcesNode p),
       (''resources.replayer'', pf_NodeResourcesReplayer p), (''resources.archive'', pf_NodeResourcesArchive p),
       (''resources.seed'', pf_NodeResourcesSeed p)] = None"
    using assms m by (auto simp: platform_Validate_def split: option.splits)
  then show "override_validate qty ''resources.validator'' (pf_NodeResourcesValidator p) = None"
    "override_validate qty ''resources.node'' (pf_NodeResourcesNode p) = None"
    "override_validate qty ''resources.replayer'' (pf_NodeResourcesReplayer p) = None"
    "override_validate qty ''resources.archive'' (pf_NodeResourcesArchive p) = None"
    "override_validate qty ''resources.seed'' (pf_NodeResourcesSeed p) = None"
    by (simp_all add: bad_override_None del: first_bad_override.simps)
qed

lemma role_override_checked:
  assumes "platform_Validate qty p = None"
  shows "\<exists>key. override_validate qty key (overrideForRole (deriveRole n) p) = None"
  using validate_None(2-6)[OF assms] role_cases[of n] by (elim insertE emptyE) (auto simp: overrideForRole_def)

lemma resolve_parses:
  assumes "TrimSpace ov \<noteq> [] \<longrightarrow> rx_ParseQuantity X ov = None" and "rx_ParseQuantity X d = None"
  shows "\<exists>q. resolveQuantity X crd ov d = Inr q"
  using assms by (cases crd) (auto simp: resolveQuantity_def MustParse_def firstNonEmpty_def)

lemma resources_render:
  assumes "platform_Validate (rx_ParseQuantity X) p = None" and "defaults_parse X"
  shows "\<exists>r. ResourcesForNode X n p = Inr r"
proof -
  obtain key where "override_validate (rx_ParseQuantity X) key (overrideForRole (deriveRole n) p) = None"
    using role_override_checked[OF assms(1)] by blast
  note ov = override_checked[OF this] and d = profile_parses[OF assms(2), of n]
  obtain cpu where cpu: "resolveQuantity X (fst (resourcesFrom n)) (ro_CPURequest (overrideForRole (deriveRole n) p))
      (np_cpuRequest (defaultNodeResourceProfiles (deriveRole n))) = Inr cpu" using resolve_parses[OF conjunct1[OF ov] conjunct1[OF d]] by blast
  obtain mem where "resolveQuantity X (snd (resourcesFrom n)) (ro_Memory (overrideForRole (deriveRole n) p))
      (np_memory (defaultNodeResourceProfiles (deriveRole n))) = Inr mem" using resolve_parses[OF conjunct2[OF ov] conjunct2[OF d]] by blast
  then show ?thesis using cpu by (simp add: ResourcesForNode_def Let_def)
qed

text \<open>Memory is requested and limited alike, and there is no CPU limit, wherever the sizes come from.\<close>

theorem memory_guaranteed:
  assumes "ResourcesForNode X n p = Inr r"
  shows "res_Limits r ''cpu'' = None \<and> res_Limits r ''memory'' = res_Requests r ''memory'' \<and> res_Limits r ''memory'' \<noteq> None"
  using assms by (auto simp: ResourcesForNode_def Let_def split: sum.splits)

subsection \<open>Probes\<close>

text \<open>The ports of sei-config are different ones, and none is the proxy's.\<close>

definition ports_differ :: "render_ext \<Rightarrow> bool" where
  "ports_differ X \<longleftrightarrow>
     distinct [PortRPC (rx_ext X), rx_PortGRPC X, PortP2P (rx_ext X), PortEVMHTTP (rx_ext X), RBACProxyPort]"

lemma readiness_avoids_rpc:
  assumes "ports_differ X" and "\<not> servesSeidRPC n"
  shows "\<not> probeTargetsSeidRPC X (Some (readinessProbeForNode X n))"
proof -
  have up: "uc_Port (UpCheckForNode (rx_ext X) n) = PortEVMHTTP (rx_ext X) \<or> uc_Port (UpCheckForNode (rx_ext X) n) = PortP2P (rx_ext X)"
    using assms(2) by (simp add: UpCheckForNode_def Let_def)
  show ?thesis
  proof (cases "uc_Scheme (UpCheckForNode (rx_ext X) n) = UpCheckTCP")
    case True
    then show ?thesis using assms up
      by (auto simp: readinessProbeForNode_def probeTargetsSeidRPC_def tcpReadinessProbe_def tcp_probe_def ports_differ_def)
  next
    case False
    then show ?thesis using assms up
      by (auto simp: readinessProbeForNode_def probeTargetsSeidRPC_def httpReadinessProbe_def http_probe_def ports_differ_def)
  qed
qed

lemma gate_avoids_rpc:
  "ports_differ X \<Longrightarrow> \<not> probeTargetsSeidRPC X (Some (http_probe path RBACProxyPort a b c d))"
  by (auto simp: probeTargetsSeidRPC_def http_probe_def ports_differ_def)

lemma probe_guards_silent:
  assumes "ports_differ X" and "buildSidecarMainContainer X n p = Inr c"
  shows "ValidateGatedSeidProbes X c = None \<and> ValidateSeedProbes X n c = None"
proof -
  note m = main_container[OF assms(2)]
  have none: "\<not> probeTargetsSeidRPC X None" by (simp add: probeTargetsSeidRPC_def)
  show ?thesis using m gate_avoids_rpc[OF assms(1)] readiness_avoids_rpc[OF assms(1), of n] none
    by (auto simp: ValidateGatedSeidProbes_def ValidateSeedProbes_def)
qed

subsection \<open>What renders\<close>

lemma trim_empty: "TrimSpace [] = []"
  by code_simp

lemma required_nonempty: "platform_Validate qty p = None \<Longrightarrow> pf_KubeRBACProxyImage p \<noteq> [] \<and> pf_NodepoolSeed p \<noteq> []"
  using validate_None(1)[of qty p] trim_empty by (auto simp: required_fields_def)

definition pool_allowed :: "SeiNode \<Rightarrow> Config \<Rightarrow> bool" where
  "pool_allowed n p \<longleftrightarrow> RequestedNodePool n = [] \<or> RequestedNodePool n \<in> set (pf_SelectableNodepools p) \<or>
     RequestedNodePool n = st_CurrentNodePool (node_Status n)"

lemma nodepool_renders: "(\<exists>pool. nodepoolFor n p d = Inr pool) \<longleftrightarrow> pool_allowed n p"
  by (auto simp: nodepoolFor_def pool_allowed_def Let_def)

lemma podspec_renders:
  assumes "platform_Validate (rx_ParseQuantity X) p = None" and "defaults_parse X" and "ports_differ X"
    and pool: "nodepoolFor n p (IsDedicatedNode n) = Inr pool"
  shows "\<exists>spec. buildNodePodSpec X n p = Inr spec"
proof -
  obtain r where r: "ResourcesForNode X n p = Inr r" using resources_render[OF assms(1,2)] by blast
  then obtain c where c: "buildSidecarMainContainer X n p = Inr c" by (simp add: buildSidecarMainContainer_def Let_def)
  show ?thesis using pool c probe_guards_silent[OF assms(3) c] by (simp add: buildNodePodSpec_def)
qed

lemma statefulset_renders:
  assumes "platform_Validate (rx_ParseQuantity X) p = None" and "defaults_parse X" and "ports_differ X" and "pool_allowed n p"
  shows "\<exists>sts. GenerateStatefulSet X n p = Inr sts"
proof -
  obtain pool where "nodepoolFor n p (IsDedicatedNode n) = Inr pool" using nodepool_renders assms(4) by blast
  then obtain spec where "buildNodePodSpec X n p = Inr spec" using podspec_renders[OF assms(1-3)] by blast
  then show ?thesis using required_nonempty[OF assms(1)] keyring_guard_silent by (simp add: GenerateStatefulSet_def)
qed

text \<open>C33. A validated platform renders every node.  Under a configuration that passes \<open>Validate\<close>, the StatefulSet of a node is
  rendered exactly when the pool the node requests is offered or is the one it runs on; otherwise there is an error that
  names the pool, and in no case a panic or a refusal by the rendering's own guards.\<close>

theorem validated_platform_renders:
  assumes "platform_Validate (rx_ParseQuantity X) p = None" and "defaults_parse X" and "ports_differ X"
  shows "if pool_allowed n p then (\<exists>sts. GenerateStatefulSet X n p = Inr sts)
    else GenerateStatefulSet X n p = Inl (RenderError (''spec.scheduling.nodePool '' @
      quoted (RequestedNodePool n) @ '' is not listed in the app-config's scheduling.selectableNodepools''))"
proof -
  note req = required_nonempty[OF assms(1)]
  have "\<exists>sts. GenerateStatefulSet X n p = Inr sts" if "pool_allowed n p" using statefulset_renders[OF assms that] .
  moreover have "GenerateStatefulSet X n p = Inl (RenderError (''spec.scheduling.nodePool '' @
      quoted (RequestedNodePool n) @ '' is not listed in the app-config's scheduling.selectableNodepools''))" if "\<not> pool_allowed n p"
    using that req by (simp add: GenerateStatefulSet_def buildNodePodSpec_def nodepoolFor_def pool_allowed_def Let_def)
  ultimately show ?thesis by simp
qed

lemma demo_config_valid: "platform_Validate (rx_ParseQuantity demo_render) demo_config = None"
  by code_simp

lemma demo_render_laws: "defaults_parse demo_render" "ports_differ demo_render"
  by code_simp+

lemma demo_pool_allowed: "pool_allowed demo_validator demo_config"
  by code_simp

theorem validated_platform_renders_witness:
  "platform_Validate (rx_ParseQuantity demo_render) demo_config = None \<and> (\<exists>sts. GenerateStatefulSet demo_render demo_validator demo_config = Inr sts)"
  using validated_platform_renders[OF demo_config_valid demo_render_laws, of demo_validator] demo_config_valid demo_pool_allowed by simp

lemma demo_pod_spec: "\<exists>spec. buildNodePodSpec demo_render demo_validator demo_config = Inr spec"
  using podspec_renders[OF demo_config_valid demo_render_laws] nodepool_renders demo_pool_allowed by blast

theorem keyring_contained_witness:
  "\<exists>spec. buildNodePodSpec demo_render demo_validator demo_config = Inr spec \<and> assertOperatorKeyringContainment demo_validator spec = None"
  using demo_pod_spec keyring_contained[of demo_render demo_validator demo_config] by blast

theorem rendered_pod_ok_witness:
  "\<exists>spec. buildNodePodSpec demo_render demo_validator demo_config = Inr spec \<and> pod_ok spec"
  using demo_pod_spec rendered_pod_ok[of demo_render demo_validator demo_config] by blast

subsection \<open>Isolation\<close>

text \<open>How the scheduler reads an anti-affinity term against the labels of a running pod of any namespace on the same host.\<close>

definition expression_holds :: "labels \<Rightarrow> string \<times> selector_op \<times> string list \<Rightarrow> bool" where
  "expression_holds ls e =
     (case e of (k, OpIn, vs) \<Rightarrow> (case Mapping.lookup ls k of Some v \<Rightarrow> v \<in> set vs | None \<Rightarrow> False)
      | (k, OpExists, vs) \<Rightarrow> Mapping.lookup ls k \<noteq> None)"

definition keeps_away :: "PodSpec \<Rightarrow> labels \<Rightarrow> bool" where
  "keeps_away spec ls \<longleftrightarrow> (\<exists>t \<in> set (ps_PodAntiAffinity spec). pat_TopologyKey t = hostnameTopologyKey \<and> pat_AllNamespaces t \<and>
     list_all (expression_holds ls) (pat_MatchExpressions t))"

lemmas label_keys = NodeLabel_def podChainLabel_def podRoleLabel_def snapshotPublishLabel_def frozenLabel_def DedicatedNodeKey_def

lemma label_lookups:
  "Mapping.lookup (ResourceLabels n) NodeLabel = Some (node_Name n)"
  "Mapping.lookup (ResourceLabels n) podRoleLabel = Some (deriveRole n)"
  "IsDedicatedNode n \<Longrightarrow> Mapping.lookup (ResourceLabels n) DedicatedNodeKey = Some ''true''"
  "\<not> IsDedicatedNode n \<Longrightarrow> Mapping.lookup (ResourceLabels n) DedicatedNodeKey = Mapping.lookup (spec_PodLabels (node_Spec n)) DedicatedNodeKey"
  by (simp_all add: ResourceLabels_def put_if_def label_keys lookup_update')

lemma render_parts:
  assumes "GenerateStatefulSet X n p = Inr sts"
  shows "rs_TemplateLabels sts = ResourceLabels n" "rs_MatchLabels sts = SelectorLabels n"
    "buildNodePodSpec X n p = Inr (rs_Spec sts)"
    "ps_PodAntiAffinity (rs_Spec sts) = BuildPodAntiAffinity (IsDedicatedNode n)"
proof -
  show "rs_TemplateLabels sts = ResourceLabels n" "rs_MatchLabels sts = SelectorLabels n" and spec: "buildNodePodSpec X n p = Inr (rs_Spec sts)"
    using assms by (auto simp: GenerateStatefulSet_def split: if_splits sum.splits option.splits)
  show "ps_PodAntiAffinity (rs_Spec sts) = BuildPodAntiAffinity (IsDedicatedNode n)" using buildNodePodSpec_cases[OF spec] by metis
qed

text \<open>The selector of a StatefulSet always selects its own pods, whatever labels the operator adds.\<close>

theorem selector_selects:
  assumes "GenerateStatefulSet X n p = Inr sts" and "Mapping.lookup (rs_MatchLabels sts) k = Some v"
  shows "Mapping.lookup (rs_TemplateLabels sts) k = Some v"
  using assms render_parts(1,2)[OF assms(1)] label_lookups(1)[of n]
  by (auto simp: SelectorLabels_def lookup_update' split: if_splits)

text \<open>C34. Isolation holds both ways.  If one of two rendered nodes is dedicated, then whichever of their pods is scheduled second stays
  away from the host of the first, across namespaces and whatever the other node is.\<close>

theorem dedicated_isolated:
  assumes a: "GenerateStatefulSet X n p = Inr sa" and b: "GenerateStatefulSet X' m p' = Inr sb" and d: "IsDedicatedNode n"
  shows "keeps_away (rs_Spec sa) (rs_TemplateLabels sb) \<and> keeps_away (rs_Spec sb) (rs_TemplateLabels sa)"
proof
  note pa = render_parts[OF a] and pb = render_parts[OF b]
  show "keeps_away (rs_Spec sa) (rs_TemplateLabels sb)"
    using d label_lookups(1)[of m] by (auto simp: keeps_away_def pa(4) pb(1) BuildPodAntiAffinity_def expression_holds_def)
  show "keeps_away (rs_Spec sb) (rs_TemplateLabels sa)"
    using d label_lookups(3)[OF d] by (auto simp: keeps_away_def pb(4) pa(1) BuildPodAntiAffinity_def expression_holds_def)
qed

lemma demo_dedicated: "IsDedicatedNode demo_dedicated_node" "pool_allowed demo_dedicated_node demo_config" "\<not> IsDedicatedNode demo_validator"
  by code_simp+

theorem dedicated_isolated_witness:
  "\<exists>sa sb. GenerateStatefulSet demo_render demo_dedicated_node demo_config = Inr sa \<and>
     GenerateStatefulSet demo_render demo_validator demo_config = Inr sb \<and>
     keeps_away (rs_Spec sa) (rs_TemplateLabels sb) \<and> keeps_away (rs_Spec sb) (rs_TemplateLabels sa)"
proof -
  obtain sa where sa: "GenerateStatefulSet demo_render demo_dedicated_node demo_config = Inr sa"
    using statefulset_renders[OF demo_config_valid demo_render_laws demo_dedicated(2)] by blast
  obtain sb where sb: "GenerateStatefulSet demo_render demo_validator demo_config = Inr sb"
    using statefulset_renders[OF demo_config_valid demo_render_laws demo_pool_allowed] by blast
  show ?thesis using sa sb dedicated_isolated[OF sa sb demo_dedicated(1)] by blast
qed

text \<open>Shared nodes do not repel each other, unless the operator's own pod labels carry the dedicated label: the controller sets that label
  but does not remove it.\<close>

lemma shared_share:
  assumes "GenerateStatefulSet X n p = Inr sa" and "GenerateStatefulSet X' m p' = Inr sb" and "\<not> IsDedicatedNode n" "\<not> IsDedicatedNode m"
  shows "keeps_away (rs_Spec sa) (rs_TemplateLabels sb) \<longleftrightarrow> Mapping.lookup (spec_PodLabels (node_Spec m)) DedicatedNodeKey = Some ''true''"
  using assms(3) label_lookups(4)[OF assms(4)]
  by (auto simp: keeps_away_def render_parts(4)[OF assms(1)] render_parts(1)[OF assms(2)] BuildPodAntiAffinity_def expression_holds_def
      split: option.splits)

subsection \<open>Images\<close>

definition images_of :: "PodSpec \<Rightarrow> string \<times> string" where
  "images_of spec = scan_images (map (\<lambda>c. (co_Name c, co_Image c)) (all_containers spec)) ([], [])"

text \<open>The images the drift detection reads back from a template are the ones the spec asks for.\<close>

theorem template_images_exact:
  assumes "GenerateStatefulSet X n p = Inr sts"
  shows "images_of (rs_Spec sts) = (spec_Image (node_Spec n), EffectiveSidecarImage n (PlatformConfig.truncate p))"
proof -
  obtain seid where seid: "buildSidecarMainContainer X n p = Inr seid"
    and inits: "ps_InitContainers (rs_Spec sts) = [buildSeidInitContainer n, buildSidecarContainer X n p, buildRBACProxyContainer X n p]"
    and mains: "ps_Containers (rs_Spec sts) = [seid] \<or> ps_Containers (rs_Spec sts) = [seid, buildCosmosExporterContainer X p]"
    using buildNodePodSpec_cases[OF render_parts(3)[OF assms]] by metis
  have img: "co_Image (buildSidecarContainer X n p) = EffectiveSidecarImage n (PlatformConfig.truncate p)"
    by (simp add: buildSidecarContainer_def sidecarImage_def EffectiveSidecarImage_def PlatformConfig.truncate_def split: option.splits)
  show ?thesis using mains inits main_container(1,2)[OF seid] img
    by (auto simp: images_of_def all_containers_def container_name_simps container_names)
qed

subsection \<open>The proxy and the sidecar\<close>

text \<open>The paths the proxy lets through without authentication are the ones the sidecar serves without the trusted header.\<close>

theorem bypass_agrees: "set proxyBypassPaths = set bypassPaths"
  by (simp add: proxyBypassPaths_def bypassPaths_def)

subsection \<open>Where the code and its comments differ\<close>

text \<open>A validated configuration does not protect the data claim: its sizes are not parsed at startup, and the claim's rendering
  panics on one that is not a quantity.\<close>

theorem storage_size_panics:
  "platform_Validate (rx_ParseQuantity demo_render) (demo_config\<lparr>pf_StorageSizeDefault := ''2TB''\<rparr>) = None \<and>
   (\<exists>e. GenerateDataPVC demo_render demo_node (demo_config\<lparr>pf_StorageSizeDefault := ''2TB''\<rparr>) = Inl (RenderPanic e))"
proof
  show "platform_Validate (rx_ParseQuantity demo_render) (demo_config\<lparr>pf_StorageSizeDefault := ''2TB''\<rparr>) = None" by code_simp
  have "GenerateDataPVC demo_render demo_node (demo_config\<lparr>pf_StorageSizeDefault := ''2TB''\<rparr>) =
      Inl (RenderPanic ''quantities must match the regular expression'')" by code_simp
  then show "\<exists>e. GenerateDataPVC demo_render demo_node (demo_config\<lparr>pf_StorageSizeDefault := ''2TB''\<rparr>) = Inl (RenderPanic e)" by blast
qed

text \<open>The memory limit of the Go runtime is meant for seeds; an EVM-only full node gets it as well.\<close>

theorem evm_only_gets_gomemlimit:
  "spec_Seed (node_Spec demo_evm_node) = None \<and>
   goMemLimitEnv demo_render demo_evm_node \<lparr>res_Requests = Map.empty, res_Limits = [''memory'' \<mapsto> ''256Gi'']\<rparr> =
     Some (plain_env ''GOMEMLIMIT'' ''239143779041B'')"
  by code_simp

end
