(* ===== verification/GenesisAssembly.thy ===== *)
theory GenesisAssembly
  imports RequestTypes ConfigOverlay GoJson SidecarServer
begin

text \<open>
  The assembly of a network's genesis (\<open>sidecar/tasks/assemble_genesis.go\<close>, \<open>assemble_genesis_validators.go\<close>,
  \<open>genesis_overrides.go\<close>, \<open>genesis_writeback.go\<close>, the rendering of \<open>autobahn.go\<close>, \<open>sidecar/s3/errors.go\<close>).

  The Cosmos SDK (transaction decoder, account and bank state inside \<open>app_state\<close>, \<open>collect-gentxs\<close>, genesis validation,
  addresses, coins) is the record \<open>gen_sdk\<close>.  The file system and the object store are the record \<open>asm_world\<close>, whose
  answers may depend on the number of calls made so far; a failed write may leave the file unreadable.
\<close>

subsection \<open>State and world\<close>

record GenesisDoc =
  gd_ChainID :: string
  gd_GenesisTime :: int
  gd_AppState :: table
  gd_ConsensusParams :: "json option"
  gd_Validators :: "(string \<times> string \<times> int) list"  \<comment> \<open>address, public key, power\<close>

text \<open>What is put into the object store: the bytes of a file, or a value printed by \<open>encoding/json\<close>.\<close>

datatype artifact = FileBytes string | JsonText json

datatype s3_fault = ApiFault string string | NetFault string | OtherFault string

record asm_world =
  aw_io :: "nat \<Rightarrow> (error \<times> bool) option"  \<comment> \<open>a failed file operation, and whether a write left the file unreadable\<close>
  aw_client :: "nat \<Rightarrow> error option"
  aw_get :: "nat \<Rightarrow> string \<Rightarrow> s3_fault + string result"
  aw_put :: "nat \<Rightarrow> string \<Rightarrow> artifact \<Rightarrow> s3_fault option"

text \<open>\<open>as_Genesis\<close> is the file \<open>config/genesis.json\<close>, None when it cannot be read.\<close>

record asm_state =
  as_Calls :: nat
  as_Marker :: bool
  as_Dir :: "(string \<times> string) list"
  as_Genesis :: "GenesisDoc option"
  as_Uploads :: "(string \<times> artifact) list"

record create_validator =
  mcv_Delegator :: string
  mcv_Validator :: string
  mcv_Pubkey :: "string option"
  mcv_Value :: int
  mcv_ValueText :: string

datatype tx_msg = CreateValidator create_validator | OtherMsg

datatype genesis_account = BaseAccount string | DelayedAccount string "(string \<times> int) list" int | ContinuousAccount string "(string \<times> int) list" int int

fun account_addr :: "genesis_account \<Rightarrow> string" where
  "account_addr (BaseAccount a) = a"
| "account_addr (DelayedAccount a _ _) = a"
| "account_addr (ContinuousAccount a _ _ _) = a"

type_synonym coins = "(string \<times> int) list"

record gen_sdk =
  gs_Decode :: "string \<Rightarrow> tx_msg list result"
  gs_DocCheck :: "GenesisDoc \<Rightarrow> error option"
  gs_Accounts :: "table \<Rightarrow> genesis_account list result"
  gs_Balances :: "table \<Rightarrow> (string \<times> coins) list"
  gs_PutAuth :: "table \<Rightarrow> genesis_account list \<Rightarrow> json result"
  gs_PutBank :: "table \<Rightarrow> (string \<times> coins) list \<Rightarrow> json result"
  gs_AccAddress :: "string \<Rightarrow> string result"
  gs_AddrString :: "string \<Rightarrow> string"
  gs_ParseCoins :: "string \<Rightarrow> coins result"
  gs_Sort :: "coins \<Rightarrow> coins"
  gs_AllPositive :: "coins \<Rightarrow> bool"
  gs_AllGTE :: "coins \<Rightarrow> coins \<Rightarrow> bool"
  gs_CoinsText :: "coins \<Rightarrow> string"
  gs_AccountCheck :: "genesis_account \<Rightarrow> error option"
  gs_ValidatorFiles :: "error option"
  gs_Collect :: "(string \<times> string) list \<Rightarrow> GenesisDoc \<Rightarrow> GenesisDoc result"
  gs_MaxValidators :: "table \<Rightarrow> nat"
  gs_GenTxs :: "table \<Rightarrow> string list"
  gs_UnpackKey :: "string option \<Rightarrow> string result"
  gs_TmPubKey :: "string \<Rightarrow> (string \<times> string) result"  \<comment> \<open>address and key\<close>
  gs_PowerReduction :: string
  gs_Power :: "int \<Rightarrow> int"
  gs_Encode :: "GenesisDoc \<Rightarrow> string"
  gs_HexSum256 :: "string \<Rightarrow> string"
  gs_ParseJson :: "string \<Rightarrow> json result"
  gs_FloatText :: "string \<Rightarrow> string"  \<comment> \<open>a number read as a float64 and printed\<close>
  gs_ParseDuration :: "string \<Rightarrow> int result"
  gs_DurationString :: "int \<Rightarrow> string"
  gs_SplitHostPort :: "string \<Rightarrow> (string \<times> string) result"
  gs_ParseURL :: "string \<Rightarrow> (string \<times> string \<times> bool) result"  \<comment> \<open>scheme, host, whether it names a user\<close>

record assembler =
  ga_Bucket :: string
  ga_Region :: string
  ga_ChainID :: string

subsection \<open>Steps\<close>

type_synonym 'a asm_step = "asm_state \<Rightarrow> asm_state \<times> 'a result"

definition asm_return :: "'a \<Rightarrow> 'a asm_step" where "asm_return x s = (s, Inr x)"
definition asm_fail :: "error \<Rightarrow> 'a asm_step" where "asm_fail e s = (s, Inl e)"

definition asm_bind :: "'a asm_step \<Rightarrow> ('a \<Rightarrow> 'b asm_step) \<Rightarrow> 'b asm_step" where
  "asm_bind m f s = (case m s of (s1, Inl e) \<Rightarrow> (s1, Inl e) | (s1, Inr x) \<Rightarrow> f x s1)"

definition asm_lift :: "string \<Rightarrow> 'a result \<Rightarrow> 'a asm_step" where
  "asm_lift what r = (case r of Inl e \<Rightarrow> asm_fail (what @ e) | Inr x \<Rightarrow> asm_return x)"

definition asm_check :: "string \<Rightarrow> error option \<Rightarrow> unit asm_step" where
  "asm_check what r = (case r of Some e \<Rightarrow> asm_fail (what @ e) | None \<Rightarrow> asm_return ())"

definition tick :: "asm_state \<Rightarrow> asm_state" where "tick s = s\<lparr>as_Calls := as_Calls s + 1\<rparr>"

text \<open>A file operation, with what it does to the state and what a failure leaves.\<close>

definition asm_io :: "asm_world \<Rightarrow> string \<Rightarrow> (asm_state \<Rightarrow> asm_state) \<Rightarrow> (asm_state \<Rightarrow> asm_state) \<Rightarrow> unit asm_step" where
  "asm_io W what done_st torn_st s =
     (case aw_io W (as_Calls s) of
        None \<Rightarrow> (done_st (tick s), Inr ())
      | Some (e, torn) \<Rightarrow> ((if torn then torn_st (tick s) else tick s), Inl (what @ e)))"

definition asm_client :: "asm_world \<Rightarrow> string \<Rightarrow> unit asm_step" where
  "asm_client W what s = (tick s, case aw_client W (as_Calls s) of None \<Rightarrow> Inr () | Some e \<Rightarrow> Inl (what @ e))"

record TaskError =
  te_Task :: string
  te_Operation :: string
  te_Message :: string
  te_Hint :: string
  te_Retryable :: bool
  te_Cause :: string

definition TaskError_Error :: "TaskError \<Rightarrow> error" where
  "TaskError_Error e =
     te_Task e @ '': '' @ te_Operation e @ '': '' @ te_Message e @ (if te_Hint e \<noteq> [] then '' [hint: '' @ te_Hint e @ '']'' else [])"

definition ClassifyS3Error :: "string \<Rightarrow> string \<Rightarrow> string \<Rightarrow> string \<Rightarrow> s3_fault \<Rightarrow> TaskError" where
  "ClassifyS3Error task bucket key region err =
     (let url = ''s3://'' @ bucket @ ''/'' @ key;
          te = (\<lambda>msg hint retry cause. \<lparr>te_Task = task, te_Operation = ''S3'', te_Message = msg, te_Hint = hint, te_Retryable = retry, te_Cause = cause\<rparr>)
      in case err of
           ApiFault code cause \<Rightarrow>
             if code = ''NoSuchBucket'' then
               te (''bucket '' @ quoted bucket @ '' does not exist in region '' @ region)
                 ''verify SEI_SNAPSHOT_BUCKET and SEI_SNAPSHOT_REGION environment variables'' False cause
             else if code = ''NoSuchKey'' then
               te (''object '' @ quoted key @ '' not found in s3://'' @ bucket)
                 ''the snapshot or genesis file may not have been uploaded yet'' False cause
             else if code = ''AccessDenied'' then
               te (''access denied to '' @ url @ '' in region '' @ region)
                 ''check the pod's ServiceAccount IAM role has s3:GetObject permission on this bucket'' False cause
             else if code = ''SlowDown'' \<or> code = ''ServiceUnavailable'' then
               te (''S3 throttled request to '' @ url) ''transient S3 throttling; the task will be retried'' True cause
             else te (''S3 error '' @ code @ '' on '' @ url) [] False cause
         | NetFault cause \<Rightarrow> te (''network error accessing '' @ url) ''check VPC endpoints and DNS resolution for S3'' True cause
         | OtherFault cause \<Rightarrow> te (''unexpected error accessing '' @ url @ '': '' @ cause) [] False cause)"

definition s3_text :: "assembler \<Rightarrow> string \<Rightarrow> s3_fault \<Rightarrow> error" where
  "s3_text A key f = TaskError_Error (ClassifyS3Error ''assemble-and-upload-genesis'' (ga_Bucket A) key (ga_Region A) f)"

definition get_object :: "asm_world \<Rightarrow> assembler \<Rightarrow> string \<Rightarrow> string \<Rightarrow> string asm_step" where
  "get_object W A key reading s =
     (tick s, case aw_get W (as_Calls s) key of
                Inl f \<Rightarrow> Inl (s3_text A key f)
              | Inr (Inl e) \<Rightarrow> Inl (reading @ e)
              | Inr (Inr data) \<Rightarrow> Inr data)"

definition put_object :: "asm_world \<Rightarrow> assembler \<Rightarrow> string \<Rightarrow> artifact \<Rightarrow> unit asm_step" where
  "put_object W A key data s =
     (case aw_put W (as_Calls s) key data of
        Some f \<Rightarrow> (tick s, Inl (s3_text A key f))
      | None \<Rightarrow> ((tick s)\<lparr>as_Uploads := as_Uploads s @ [(key, data)]\<rparr>, Inr ()))"

definition read_doc :: "gen_sdk \<Rightarrow> asm_world \<Rightarrow> string \<Rightarrow> GenesisDoc asm_step" where
  "read_doc K W what s =
     (case aw_io W (as_Calls s) of
        Some (e, _) \<Rightarrow> (tick s, Inl (what @ e))
      | None \<Rightarrow>
          (case as_Genesis s of
             None \<Rightarrow> (tick s, Inl (what @ ''unreadable genesis file''))
           | Some d \<Rightarrow> (case gs_DocCheck K d of Some e \<Rightarrow> (tick s, Inl (what @ e)) | None \<Rightarrow> (tick s, Inr d))))"

definition write_doc :: "asm_world \<Rightarrow> string \<Rightarrow> GenesisDoc \<Rightarrow> unit asm_step" where
  "write_doc W what d = asm_io W what (\<lambda>s. s\<lparr>as_Genesis := Some d\<rparr>) (\<lambda>s. s\<lparr>as_Genesis := None\<rparr>)"

subsection \<open>The gentxs\<close>

definition maxGentxBytes :: nat where "maxGentxBytes = 1048576"

definition gentx_file :: "string \<Rightarrow> string" where "gentx_file name = ''gentx-'' @ name @ ''.json''"

fun download_loop :: "asm_world \<Rightarrow> assembler \<Rightarrow> string list \<Rightarrow> unit asm_step" where
  "download_loop W A [] = asm_return ()"
| "download_loop W A (name # names) =
     (let key = ga_ChainID A @ ''/'' @ name @ ''/gentx.json''
      in asm_bind (get_object W A key (''assemble-genesis: reading '' @ key @ '': '')) (\<lambda>data.
           if maxGentxBytes < length data then
             asm_fail (''assemble-genesis: gentx '' @ key @ '' exceeds '' @ show_nat maxGentxBytes @ '' bytes'')
           else
             asm_bind (asm_io W (''assemble-genesis: writing '' @ gentx_file name @ '': '')
                         (\<lambda>s. s\<lparr>as_Dir := put (gentx_file name) data (as_Dir s)\<rparr>)
                         (\<lambda>s. s\<lparr>as_Dir := put (gentx_file name) [] (as_Dir s)\<rparr>)) (\<lambda>_.
             download_loop W A names)))"

definition downloadGentxFiles :: "asm_world \<Rightarrow> assembler \<Rightarrow> string list \<Rightarrow> unit asm_step" where
  "downloadGentxFiles W A names =
     asm_bind (asm_client W ''assemble-genesis: building S3 client: '') (\<lambda>_.
     asm_bind (asm_io W ''assemble-genesis: clearing assemble dir: '' (\<lambda>s. s\<lparr>as_Dir := []\<rparr>) (\<lambda>s. s)) (\<lambda>_.
     asm_bind (asm_io W ''assemble-genesis: creating assemble dir: '' (\<lambda>s. s) (\<lambda>s. s)) (\<lambda>_.
     download_loop W A names)))"

definition dedupe :: "string \<Rightarrow> string \<Rightarrow> string \<Rightarrow> (string \<times> string) list \<Rightarrow> (string \<times> string) list result" where
  "dedupe kind node key seen =
     (if key = [] then Ok seen
      else case map_of seen key of
        Some prev \<Rightarrow>
          Err (''assemble-genesis: duplicate '' @ kind @ '' '' @ quoted key @ '' (nodes '' @ prev @ '' and '' @ node @
               ''); the same validator would be created twice and abort InitChain'')
      | None \<Rightarrow> Ok ((key, node) # seen))"

definition single_validator :: "gen_sdk \<Rightarrow> string \<Rightarrow> string \<Rightarrow> create_validator result" where
  "single_validator K what data =
     (case gs_Decode K data of
        Inl e \<Rightarrow> Err (''assemble-genesis: decoding '' @ what @ '': '' @ e)
      | Inr msgs \<Rightarrow>
          if length msgs \<noteq> 1 then
            Err (''assemble-genesis: '' @ what @ '' has '' @ show_nat (length msgs) @ '' messages, want exactly 1 MsgCreateValidator'')
          else (case hd msgs of
                  CreateValidator m \<Rightarrow> Ok m
                | OtherMsg \<Rightarrow> Err (''assemble-genesis: '' @ what @ '' is not a MsgCreateValidator'')))"

type_synonym seen3 = "(string \<times> string) list \<times> (string \<times> string) list \<times> (string \<times> string) list"

definition dedupe3 :: "string \<Rightarrow> create_validator \<Rightarrow> seen3 \<Rightarrow> seen3 result" where
  "dedupe3 node m seen =
     (case seen of (ds, vs, ps) \<Rightarrow>
       (case dedupe ''delegator'' node (mcv_Delegator m) ds of
          Inl e \<Rightarrow> Inl e
        | Inr ds' \<Rightarrow>
            (case dedupe ''validator operator address'' node (mcv_Validator m) vs of
               Inl e \<Rightarrow> Inl e
             | Inr vs' \<Rightarrow>
                 (case dedupe ''consensus pubkey'' node (case mcv_Pubkey m of Some k \<Rightarrow> k | None \<Rightarrow> []) ps of
                    Inl e \<Rightarrow> Inl e
                  | Inr ps' \<Rightarrow> Inr (ds', vs', ps')))))"

definition read_gentx :: "asm_world \<Rightarrow> string \<Rightarrow> string \<Rightarrow> string asm_step" where
  "read_gentx W what name s =
     (tick s,
      case aw_io W (as_Calls s) of
        Some (e, _) \<Rightarrow> Inl (what @ e)
      | None \<Rightarrow> (case map_of (as_Dir s) name of None \<Rightarrow> Inl (what @ ''no such file or directory'') | Some data \<Rightarrow> Inr data))"

fun verify_loop :: "gen_sdk \<Rightarrow> asm_world \<Rightarrow> seen3 \<Rightarrow> string list \<Rightarrow> unit asm_step" where
  "verify_loop K W seen [] = asm_return ()"
| "verify_loop K W seen (name # names) =
     asm_bind (read_gentx W (''assemble-genesis: reading gentx for node '' @ name @ '': '') (gentx_file name)) (\<lambda>data.
     asm_bind (asm_lift [] (single_validator K (''gentx for node '' @ name) data)) (\<lambda>m.
     asm_bind (asm_lift [] (dedupe3 name m seen)) (\<lambda>seen'.
     verify_loop K W seen' names)))"

definition verifyAssembledGentxs :: "gen_sdk \<Rightarrow> asm_world \<Rightarrow> string list \<Rightarrow> unit asm_step" where
  "verifyAssembledGentxs K W names = verify_loop K W ([], [], []) names"

subsection \<open>Accounts\<close>

definition writeBackAuthAndBank ::
    "gen_sdk \<Rightarrow> asm_world \<Rightarrow> GenesisDoc \<Rightarrow> genesis_account list \<Rightarrow> (string \<times> coins) list \<Rightarrow> unit asm_step" where
  "writeBackAuthAndBank K W d accs bals =
     asm_bind (asm_lift ''assemble-genesis: '' (gs_PutAuth K (gd_AppState d) accs)) (\<lambda>auth.
     asm_bind (asm_lift ''assemble-genesis: '' (gs_PutBank K (gd_AppState d) bals)) (\<lambda>bank.
     write_doc W ''assemble-genesis: writing genesis: ''
       (d\<lparr>gd_AppState := put ''bank'' bank (put ''auth'' auth (gd_AppState d))\<rparr>)))"

definition has_account :: "genesis_account list \<Rightarrow> string \<Rightarrow> bool" where
  "has_account accs a \<longleftrightarrow> a \<in> set (map account_addr accs)"

text \<open>The delegators of the gentxs in the directory, by file name; files without a \<open>MsgCreateValidator\<close> are passed over.\<close>

fun missing_accounts ::
    "gen_sdk \<Rightarrow> asm_world \<Rightarrow> coins \<Rightarrow> string list \<Rightarrow> genesis_account list \<Rightarrow> (string \<times> coins) list \<Rightarrow>
     (genesis_account list \<times> (string \<times> coins) list) asm_step" where
  "missing_accounts K W coins [] accs bals = asm_return (accs, bals)"
| "missing_accounts K W coins (name # names) accs bals =
     asm_bind (read_gentx W (''assemble-genesis: reading '' @ name @ '': '') name) (\<lambda>data.
     asm_bind (asm_lift (''assemble-genesis: decoding '' @ name @ '': '') (gs_Decode K data)) (\<lambda>msgs.
     (case msgs of
        CreateValidator m # _ \<Rightarrow>
          asm_bind (asm_lift (''assemble-genesis: parsing delegator address from '' @ name @ '': '') (gs_AccAddress K (mcv_Delegator m))) (\<lambda>a.
          if has_account accs a then missing_accounts K W coins names accs bals
          else missing_accounts K W coins names (accs @ [BaseAccount a]) (bals @ [(gs_AddrString K a, gs_Sort K coins)]))
      | _ \<Rightarrow> missing_accounts K W coins names accs bals)))"

definition ReadDir :: "asm_world \<Rightarrow> string \<Rightarrow> string list asm_step" where
  "ReadDir W what s =
     (tick s, case aw_io W (as_Calls s) of Some (e, _) \<Rightarrow> Inl (what @ e) | None \<Rightarrow> Inr (sort (map fst (as_Dir s))))"

definition addMissingGenesisAccounts :: "gen_sdk \<Rightarrow> asm_world \<Rightarrow> string \<Rightarrow> unit asm_step" where
  "addMissingGenesisAccounts K W balance =
     asm_bind (ReadDir W ''assemble-genesis: reading assemble dir: '') (\<lambda>names.
     asm_bind (read_doc K W ''assemble-genesis: reading genesis: '') (\<lambda>d.
     asm_bind (asm_lift ''assemble-genesis: unpacking accounts: '' (gs_Accounts K (gd_AppState d))) (\<lambda>accs.
     asm_bind (asm_lift ''assemble-genesis: parsing account balance: '' (gs_ParseCoins K balance)) (\<lambda>coins.
     asm_bind (missing_accounts K W coins names accs (gs_Balances K (gd_AppState d))) (\<lambda>(accs', bals').
     if length accs' = length accs then asm_return () else writeBackAuthAndBank K W d accs' bals')))))"

definition vesting_account :: "gen_sdk \<Rightarrow> int \<Rightarrow> string \<Rightarrow> coins \<Rightarrow> GenesisAccountVesting \<Rightarrow> genesis_account result" where
  "vesting_account K genesisTime a coins v =
     (let who = ''assemble-genesis: external account '' @ gs_AddrString K a
      in case gs_ParseCoins K (gav_Amount v) of
           Inl e \<Rightarrow> Err (who @ '' vesting amount '' @ quoted (gav_Amount v) @ '': '' @ e)
         | Inr vc \<Rightarrow>
             if \<not> gs_AllPositive K vc then
               Err (who @ '' vesting amount '' @ quoted (gav_Amount v) @
                    '' must be a positive coin amount (fractional base-denom values truncate to zero)'')
             else if \<not> gs_AllGTE K coins vc then
               Err (who @ '' vesting amount '' @ gs_CoinsText K vc @ '' exceeds balance '' @ gs_CoinsText K coins)
             else if gav_EndTime v \<le> genesisTime then
               Err (who @ '' vesting end time '' @ itoa (gav_EndTime v) @ '' must be after genesis time '' @ itoa genesisTime)
             else
               (let acc = (if gav_Delayed v then DelayedAccount a (gs_Sort K vc) (gav_EndTime v)
                           else ContinuousAccount a (gs_Sort K vc) (gav_EndTime v) genesisTime)
                in case gs_AccountCheck K acc of
                     Some e \<Rightarrow> Err (who @ '' vesting schedule: '' @ e)
                   | None \<Rightarrow> Ok acc))"

fun external_accounts ::
    "gen_sdk \<Rightarrow> int \<Rightarrow> GenesisAccountEntry list \<Rightarrow> genesis_account list \<times> (string \<times> coins) list \<Rightarrow>
     (genesis_account list \<times> (string \<times> coins) list) result" where
  "external_accounts K t [] acc = Ok acc"
| "external_accounts K t (e # es) (accs, bals) =
     (case gs_AccAddress K (gae_Address e) of
        Inl err \<Rightarrow> Err (''assemble-genesis: external account '' @ quoted (gae_Address e) @ '': '' @ err)
      | Inr a \<Rightarrow>
          if has_account accs a then
            Err (''assemble-genesis: external account '' @ gs_AddrString K a @ '' collides with an existing genesis account'')
          else case gs_ParseCoins K (gae_Balance e) of
            Inl err \<Rightarrow> Err (''assemble-genesis: external account '' @ gs_AddrString K a @ '' balance '' @ quoted (gae_Balance e) @ '': '' @ err)
          | Inr coins \<Rightarrow>
              (case (case gae_Vesting e of None \<Rightarrow> Ok (BaseAccount a) | Some v \<Rightarrow> vesting_account K t a coins v) of
                 Inl err \<Rightarrow> Inl err
               | Inr acc \<Rightarrow> external_accounts K t es (accs @ [acc], bals @ [(gs_AddrString K a, gs_Sort K coins)])))"

definition addExternalGenesisAccounts :: "gen_sdk \<Rightarrow> asm_world \<Rightarrow> GenesisAccountEntry list \<Rightarrow> unit asm_step" where
  "addExternalGenesisAccounts K W es =
     (if es = [] then asm_return ()
      else
        asm_bind (read_doc K W ''assemble-genesis: reading genesis: '') (\<lambda>d.
        asm_bind (asm_lift ''assemble-genesis: unpacking accounts: '' (gs_Accounts K (gd_AppState d))) (\<lambda>accs.
        asm_bind (asm_lift [] (external_accounts K (gd_GenesisTime d) es (accs, gs_Balances K (gd_AppState d)))) (\<lambda>(accs', bals').
        writeBackAuthAndBank K W d accs' bals'))))"

definition collectGentxs :: "gen_sdk \<Rightarrow> asm_world \<Rightarrow> unit asm_step" where
  "collectGentxs K W =
     asm_bind (asm_check ''assemble-genesis: loading validator files: '' (gs_ValidatorFiles K)) (\<lambda>_.
     asm_bind (read_doc K W ''assemble-genesis: reading genesis: '') (\<lambda>d.
     asm_bind (\<lambda>s. asm_lift ''assemble-genesis: collect-gentxs: '' (gs_Collect K (as_Dir s) d) s) (\<lambda>d'.
     write_doc W ''assemble-genesis: collect-gentxs: '' d')))"

subsection \<open>Overrides and consensus parameters\<close>

fun setNestedRaw :: "table \<Rightarrow> string list \<Rightarrow> json \<Rightarrow> string \<Rightarrow> table result" where
  "setNestedRaw st [] v key = Err (''genesis-overrides: key '' @ quoted key @ '' has no field path under module'')"
| "setNestedRaw st [p] v key = Ok (put p v st)"
| "setNestedRaw st (p # q # ps) v key =
     (case (case map_of st p of None \<Rightarrow> Ok [] | Some JNull \<Rightarrow> Ok [] | Some (JObject t) \<Rightarrow> Ok t
            | Some _ \<Rightarrow> Err (''genesis-overrides: key '' @ quoted key @ '' traverses non-object at segment '' @ quoted p)) of
        Inl e \<Rightarrow> Inl e
      | Inr sub \<Rightarrow>
          (case setNestedRaw sub (q # ps) v key of Inl e \<Rightarrow> Inl e | Inr sub' \<Rightarrow> Ok (put p (JObject sub') st)))"

definition apply_override :: "table \<Rightarrow> string \<Rightarrow> json \<Rightarrow> table result" where
  "apply_override app key v =
     (let parts = split_on (CHR ''.'') key
      in if key = [] then Err ''genesis-overrides: empty key''
         else if length parts < 2 then Err (''genesis-overrides: key '' @ quoted key @ '' must be of the form module.field[.field...]'')
         else if [] \<in> set parts then
           Err (''genesis-overrides: key '' @ quoted key @ '' has empty segment at index '' @ show_nat (length (takeWhile (\<lambda>p. p \<noteq> []) parts)))
         else case map_of app (hd parts) of
           None \<Rightarrow> Err (''genesis-overrides: unknown module '' @ quoted (hd parts) @ '' (key '' @ quoted key @
                        ''); app_state has no such top-level key'')
         | Some m \<Rightarrow>
             (case (case m of JNull \<Rightarrow> Ok [] | JObject t \<Rightarrow> Ok t
                    | _ \<Rightarrow> Err (''genesis-overrides: module '' @ quoted (hd parts) @ '' is not a JSON object'')) of
                Inl e \<Rightarrow> Inl e
              | Inr st \<Rightarrow>
                  (case setNestedRaw st (tl parts) v key of Inl e \<Rightarrow> Inl e | Inr st' \<Rightarrow> Ok (put (hd parts) (JObject st') app))))"

fun applyGenesisOverrides :: "table \<Rightarrow> (string \<times> json) list \<Rightarrow> table result" where
  "applyGenesisOverrides app [] = Ok app"
| "applyGenesisOverrides app ((key, v) # os) =
     (case apply_override app key v of Inl e \<Rightarrow> Inl e | Inr app' \<Rightarrow> applyGenesisOverrides app' os)"

definition applyOverrides :: "gen_sdk \<Rightarrow> asm_world \<Rightarrow> (string \<times> json) list \<Rightarrow> unit asm_step" where
  "applyOverrides K W os =
     (if os = [] then asm_return ()
      else
        asm_bind (read_doc K W ''assemble-genesis: reading genesis for overrides: '') (\<lambda>d.
        asm_bind (asm_lift ''assemble-genesis: '' (applyGenesisOverrides (gd_AppState d) os)) (\<lambda>app.
        write_doc W ''assemble-genesis: writing genesis after overrides: '' (d\<lparr>gd_AppState := app\<rparr>))))"

fun deepMergeJSON :: "table \<Rightarrow> table \<Rightarrow> string \<Rightarrow> table result" where
  "deepMergeJSON dst [] path = Ok dst"
| "deepMergeJSON dst ((key, v) # kvs) path =
     (case v of
        JNull \<Rightarrow> Err (path @ ''.'' @ key @ '': null is not allowed'')
      | JObject pobj \<Rightarrow>
          (case map_of dst key of
             Some (JObject dobj) \<Rightarrow>
               (case deepMergeJSON dobj pobj (path @ ''.'' @ key) of
                  Inl e \<Rightarrow> Inl e
                | Inr m \<Rightarrow> deepMergeJSON (put key (JObject m) dst) kvs path)
           | _ \<Rightarrow>
               (case deepMergeJSON [] pobj (path @ ''.'' @ key) of
                  Inl e \<Rightarrow> Inl e
                | Inr _ \<Rightarrow> deepMergeJSON (put key v dst) kvs path))
      | _ \<Rightarrow> deepMergeJSON (put key v dst) kvs path)"

text \<open>A JSON object decoded into a \<open>map[string]any\<close>: its numbers are float64, its keys distinct.\<close>

definition any_table :: "gen_sdk \<Rightarrow> table \<Rightarrow> table" where
  "any_table K t = any_members (map (\<lambda>(k, v). (k, any_value (gs_FloatText K) v)) t)"

definition applyConsensusParams :: "gen_sdk \<Rightarrow> asm_world \<Rightarrow> json option \<Rightarrow> unit asm_step" where
  "applyConsensusParams K W params =
     (case params of
        None \<Rightarrow> asm_return ()
      | Some p \<Rightarrow>
          asm_bind (read_doc (K\<lparr>gs_DocCheck := (\<lambda>_. None)\<rparr>) W ''assemble-genesis: reading genesis for consensus params: '') (\<lambda>d.
          asm_bind (asm_lift ''assemble-genesis: parsing consensus_params: ''
            (case gd_ConsensusParams d of
               None \<Rightarrow> Ok [] | Some JNull \<Rightarrow> Ok [] | Some (JObject t) \<Rightarrow> Ok (any_table K t) | Some _ \<Rightarrow> Err ''not an object'')) (\<lambda>current.
          asm_bind (asm_lift ''assemble-genesis: consensusParams must be a JSON object: ''
            (case p of JObject t \<Rightarrow> Ok (any_table K t) | JNull \<Rightarrow> Ok [] | _ \<Rightarrow> Err ''not an object'')) (\<lambda>patch.
          asm_bind (asm_lift ''assemble-genesis: '' (deepMergeJSON current patch ''consensus_params'')) (\<lambda>merged.
          asm_bind (write_doc W ''assemble-genesis: writing genesis after consensus params: ''
            (d\<lparr>gd_ConsensusParams := Some (JObject merged)\<rparr>)) (\<lambda>_.
          asm_bind (read_doc K W ''assemble-genesis: consensusParams rejected by genesis validation: '') (\<lambda>_. asm_return ())))))))"

subsection \<open>The validator set\<close>

fun derive_loop ::
    "gen_sdk \<Rightarrow> nat \<Rightarrow> (string \<times> string) list \<Rightarrow> string list \<Rightarrow> (string \<times> string \<times> int) list result" where
  "derive_loop K i seen [] = Ok []"
| "derive_loop K i seen (raw # raws) =
     (case single_validator K (''gen_tx '' @ show_nat i) raw of
        Inl e \<Rightarrow> Inl e
      | Inr m \<Rightarrow>
          (case gs_UnpackKey K (mcv_Pubkey m) of
             Inl e \<Rightarrow> Err (''assemble-genesis: unpacking consensus pubkey for validator '' @ mcv_Validator m @ '': '' @ e)
           | Inr pk \<Rightarrow>
               (case gs_TmPubKey K pk of
                  Inl e \<Rightarrow> Err (''assemble-genesis: converting consensus pubkey for validator '' @ mcv_Validator m @ '': '' @ e)
                | Inr (consAddr, tmPk) \<Rightarrow>
                    (case map_of seen consAddr of
                       Some prev \<Rightarrow> Err (''assemble-genesis: validators '' @ prev @ '' and '' @ mcv_Validator m @ '' share consensus key '' @ consAddr @
                            ''; CometBFT's NewValidatorSet panics on a duplicate entry, bricking every founding validator at boot'')
                     | None \<Rightarrow>
                         if gs_Power K (mcv_Value m) = 0 then
                           Err (''assemble-genesis: validator '' @ mcv_Validator m @ '' self-bond '' @ mcv_ValueText m @
                                '' yields consensus power 0 (below power reduction '' @ gs_PowerReduction K @
                                ''); InitChain would drop it, so genDoc.validators would diverge from the app's set'')
                         else
                           (case derive_loop K (i + 1) ((consAddr, mcv_Validator m) # seen) raws of
                              Inl e \<Rightarrow> Inl e
                            | Inr vs \<Rightarrow> Ok ((consAddr, tmPk, gs_Power K (mcv_Value m)) # vs))))))"

definition deriveGenesisValidators :: "gen_sdk \<Rightarrow> string list \<Rightarrow> (string \<times> string \<times> int) list result" where
  "deriveGenesisValidators K genTxs = derive_loop K 0 [] genTxs"

definition populateGenesisValidators :: "gen_sdk \<Rightarrow> asm_world \<Rightarrow> unit asm_step" where
  "populateGenesisValidators K W =
     asm_bind (read_doc K W ''assemble-genesis: reading genesis for validators: '') (\<lambda>d.
     asm_bind (asm_lift [] (deriveGenesisValidators K (gs_GenTxs K (gd_AppState d)))) (\<lambda>vs.
     if vs = [] then asm_fail ''assemble-genesis: no gentxs to derive genesis validators from''
     else if gs_MaxValidators K (gd_AppState d) < length vs mod 2 ^ 32 then
       (let n = show_nat (gs_MaxValidators K (gd_AppState d))
        in asm_fail (''assemble-genesis: '' @ show_nat (length vs) @ '' validators exceed staking max_validators '' @ n @
             ''; InitChain would bond only the top '' @ n @ '' by power, so genDoc.validators would diverge from the app's set and '' @
             ''every validator would fail the boot-time genesis/InitChain equality check''))
     else write_doc W ''assemble-genesis: writing genesis with validators: '' (d\<lparr>gd_Validators := vs\<rparr>)))"

subsection \<open>Identities and the Autobahn configuration\<close>

record autobahnIdentity =
  ai_ValidatorPubKey :: string
  ai_NodePubKey :: string
  ai_AutobahnAddress :: string
  ai_EVMRPCURL :: string

record identityManifest =
  im_NodeKey :: "json option"
  im_Autobahn :: "autobahnIdentity option"

definition zero_autobahnIdentity :: autobahnIdentity where
  "zero_autobahnIdentity = \<lparr>ai_ValidatorPubKey = [], ai_NodePubKey = [], ai_AutobahnAddress = [], ai_EVMRPCURL = []\<rparr>"

definition autobahnIdentity_fields :: "autobahnIdentity fields" where
  "autobahnIdentity_fields =
     [(''validator_pubkey'', field dec_string ai_ValidatorPubKey (\<lambda>v r. r\<lparr>ai_ValidatorPubKey := v\<rparr>)),
      (''node_pubkey'', field dec_string ai_NodePubKey (\<lambda>v r. r\<lparr>ai_NodePubKey := v\<rparr>)),
      (''autobahn_address'', field dec_string ai_AutobahnAddress (\<lambda>v r. r\<lparr>ai_AutobahnAddress := v\<rparr>)),
      (''evmrpc_url'', field dec_string ai_EVMRPCURL (\<lambda>v r. r\<lparr>ai_EVMRPCURL := v\<rparr>))]"

text \<open>A \<open>json.RawMessage\<close> respects any value, \<open>null\<close> included; a pointer to a struct is unset by \<open>null\<close> and filled in place otherwise.\<close>

definition identityManifest_fields :: "identityManifest fields" where
  "identityManifest_fields =
     [(''node_key'', \<lambda>r j. Ok (r\<lparr>im_NodeKey := Some j\<rparr>)),
      (''autobahn'', \<lambda>r j. case j of
          JNull \<Rightarrow> Ok (r\<lparr>im_Autobahn := None\<rparr>)
        | _ \<Rightarrow> (case decode_struct ''tasks.autobahnIdentity'' autobahnIdentity_fields
                        (case im_Autobahn r of Some x \<Rightarrow> x | None \<Rightarrow> zero_autobahnIdentity) j of
                   Inl e \<Rightarrow> Inl e
                 | Inr x \<Rightarrow> Ok (r\<lparr>im_Autobahn := Some x\<rparr>)))]"

definition decode_identity :: "json \<Rightarrow> identityManifest result" where
  "decode_identity j = decode_struct ''tasks.identityManifest'' identityManifest_fields \<lparr>im_NodeKey = None, im_Autobahn = None\<rparr> j"

fun identity_loop :: "gen_sdk \<Rightarrow> asm_world \<Rightarrow> assembler \<Rightarrow> string list \<Rightarrow> (string \<times> identityManifest) list asm_step" where
  "identity_loop K W A [] = asm_return []"
| "identity_loop K W A (name # names) =
     asm_bind (get_object W A (ga_ChainID A @ ''/'' @ name @ ''/identity.json'') (''assemble-genesis: reading identity for '' @ name @ '': '')) (\<lambda>data.
     asm_bind (asm_lift (''assemble-genesis: parsing identity for '' @ name @ '': '') (gs_ParseJson K data)) (\<lambda>j.
     asm_bind (asm_lift (''assemble-genesis: parsing identity for '' @ name @ '': '') (decode_identity j)) (\<lambda>ident.
     asm_bind (identity_loop K W A names) (\<lambda>rest.
     asm_return (if map_of rest name = None then (name, ident) # rest else rest)))))"

definition downloadIdentities :: "gen_sdk \<Rightarrow> asm_world \<Rightarrow> assembler \<Rightarrow> string list \<Rightarrow> (string \<times> identityManifest) list asm_step" where
  "downloadIdentities K W A names =
     asm_bind (asm_client W ''assemble-genesis: building S3 client for identities: '') (\<lambda>_. identity_loop K W A names)"

definition is_hex :: "char \<Rightarrow> bool" where
  "is_hex c \<longleftrightarrow> (let n = (of_char c :: nat) in (48 \<le> n \<and> n \<le> 57) \<or> (97 \<le> n \<and> n \<le> 102) \<or> (65 \<le> n \<and> n \<le> 70))"

text \<open>\<open>hex.DecodeString\<close>, as the number of bytes: a bad digit is reported before an odd length.\<close>

definition hex_bytes :: "string \<Rightarrow> nat result" where
  "hex_bytes s =
     (case find (\<lambda>c. \<not> is_hex c) s of
        Some c \<Rightarrow> Err (''encoding/hex: invalid byte: '' @ [c])
      | None \<Rightarrow> if odd (length s) then Err ''encoding/hex: odd length hex string'' else Ok (length s div 2))"

definition checkPrefixedPubKey :: "string \<Rightarrow> string \<Rightarrow> error option" where
  "checkPrefixedPubKey s pre =
     (let rest = drop (length pre) s; tag = ''ed25519:public:''; hexPart = drop (length tag) rest
      in if s = [] then Some ''missing''
         else if \<not> has_prefix s pre then Some (quoted s @ '' lacks the '' @ quoted pre @ '' prefix'')
         else if \<not> has_prefix rest tag then Some (quoted s @ '' lacks the ed25519:public: prefix'')
         else case hex_bytes hexPart of
                Inl e \<Rightarrow> Some (quoted s @ '': '' @ e)
              | Inr n \<Rightarrow> if n \<noteq> 32 then Some (quoted s @ '' is '' @ show_nat n @ '' bytes, want 32'') else None)"

definition checkHostPort :: "gen_sdk \<Rightarrow> string \<Rightarrow> error option" where
  "checkHostPort K s =
     (if s = [] then Some ''missing''
      else case gs_SplitHostPort K s of
        Inl e \<Rightarrow> Some e
      | Inr (_, port) \<Rightarrow>
          (case parse_uint port of
             Some n \<Rightarrow> if n < 2 ^ 16 then None else Some (''port '' @ quoted port @ '': value out of range'')
           | None \<Rightarrow> Some (''port '' @ quoted port @ '': invalid syntax'')))"

definition checkRPCURL :: "gen_sdk \<Rightarrow> string \<Rightarrow> error option" where
  "checkRPCURL K s =
     (if s = [] then Some ''missing''
      else case gs_ParseURL K s of
        Inl e \<Rightarrow> Some e
      | Inr (scheme, host, user) \<Rightarrow>
          if scheme \<noteq> ''ws'' \<and> scheme \<noteq> ''wss'' then Some (''scheme '' @ quoted scheme @ '', want ws or wss'')
          else if host = [] then Some ''missing host''
          else if user then Some ''userinfo not allowed'' else None)"

definition validateAutobahnIdentity :: "gen_sdk \<Rightarrow> string \<Rightarrow> autobahnIdentity option \<Rightarrow> autobahnIdentity result" where
  "validateAutobahnIdentity K nodeName ident =
     (case ident of
        None \<Rightarrow> Err (''validator '' @ nodeName @
                  '': identity.json has no autobahn section; its upload-genesis-artifacts ran without engine Autobahn'')
      | Some i \<Rightarrow>
          (case checkPrefixedPubKey (ai_ValidatorPubKey i) ''validator:'' of
             Some e \<Rightarrow> Err (''validator '' @ nodeName @ '': validator_pubkey: '' @ e)
           | None \<Rightarrow>
               (case checkPrefixedPubKey (ai_NodePubKey i) ''node:'' of
                  Some e \<Rightarrow> Err (''validator '' @ nodeName @ '': node_pubkey: '' @ e)
                | None \<Rightarrow>
                    (case checkHostPort K (ai_AutobahnAddress i) of
                       Some e \<Rightarrow> Err (''validator '' @ nodeName @ '': autobahn_address: '' @ e)
                     | None \<Rightarrow>
                         (case checkRPCURL K (ai_EVMRPCURL i) of
                            Some e \<Rightarrow> Err (''validator '' @ nodeName @ '': evmrpc_url: '' @ e)
                          | None \<Rightarrow> Ok i)))))"

definition autobahnValidator_json :: "autobahnIdentity \<Rightarrow> json" where
  "autobahnValidator_json i = JObject
     [(''validator_key'', JString (ai_ValidatorPubKey i)), (''node_key'', JString (ai_NodePubKey i)),
      (''address'', JString (ai_AutobahnAddress i)), (''evmrpc'', JString (ai_EVMRPCURL i))]"

definition autobahnProtocolMaxTxsPerBlock :: int where "autobahnProtocolMaxTxsPerBlock = 2000"

definition override_interval :: "gen_sdk \<Rightarrow> AutobahnConfigParams option \<Rightarrow> string result" where
  "override_interval K ov =
     (case ov of
        None \<Rightarrow> Ok ''400ms''
      | Some p \<Rightarrow>
          if abc_BlockInterval p = [] then Ok ''400ms''
          else case gs_ParseDuration K (abc_BlockInterval p) of
            Inl e \<Rightarrow> Err (''autobahn: block_interval '' @ quoted (abc_BlockInterval p) @ '': '' @ e)
          | Inr t \<Rightarrow> if t \<le> 0 then Err (''autobahn: block_interval must be > 0, got '' @ quoted (abc_BlockInterval p))
                     else Ok (gs_DurationString K t))"

definition override_max_txs :: "AutobahnConfigParams option \<Rightarrow> int result" where
  "override_max_txs ov =
     (case ov of
        None \<Rightarrow> Ok autobahnProtocolMaxTxsPerBlock
      | Some p \<Rightarrow>
          (case abc_MaxTxsPerBlock p of
             None \<Rightarrow> Ok autobahnProtocolMaxTxsPerBlock
           | Some n \<Rightarrow>
               if n < 1 \<or> autobahnProtocolMaxTxsPerBlock < n then
                 Err (''autobahn: max_txs_per_block must be in [1, '' @ itoa autobahnProtocolMaxTxsPerBlock @ ''], got '' @ itoa n)
               else Ok n))"

definition buildAutobahnConfig :: "gen_sdk \<Rightarrow> json list \<Rightarrow> AutobahnConfigParams option \<Rightarrow> json result" where
  "buildAutobahnConfig K validators ov =
     (if validators = [] then Err ''autobahn: no validators''
      else case override_interval K ov of
        Inl e \<Rightarrow> Inl e
      | Inr interval \<Rightarrow>
          (case override_max_txs ov of
             Inl e \<Rightarrow> Inl e
           | Inr maxTxs \<Rightarrow>
               Ok (JObject
                 ([(''validators'', JArray validators),
                   (''max_txs_per_block'', JNumber (itoa maxTxs)),
                   (''max_txs_per_second'', JNull),
                   (''allow_empty_blocks'', JBool (case ov of None \<Rightarrow> False | Some p \<Rightarrow> abc_AllowEmptyBlocks p = Some True))] @
                  (case ov of None \<Rightarrow> [] | Some p \<Rightarrow> (case abc_EnableEvmProxy p of None \<Rightarrow> [] | Some b \<Rightarrow> [(''enable_evm_proxy'', JBool b)])) @
                  [(''block_interval'', JString interval),
                   (''view_timeout'', JString ''1.5s''),
                   (''persistent_state_dir'', JString ''data/autobahn''),
                   (''dial_interval'', JString ''10s''),
                   (''block_db'', JObject [(''retention'', JString ''30s''), (''gc_period'', JNull)])]))))"

definition autobahn_of :: "(string \<times> identityManifest) list \<Rightarrow> string \<Rightarrow> autobahnIdentity option" where
  "autobahn_of idents name = (case map_of idents name of None \<Rightarrow> None | Some i \<Rightarrow> im_Autobahn i)"

fun autobahn_validators :: "gen_sdk \<Rightarrow> (string \<times> identityManifest) list \<Rightarrow> string list \<Rightarrow> json list result" where
  "autobahn_validators K idents [] = Ok []"
| "autobahn_validators K idents (name # names) =
     (case validateAutobahnIdentity K name (autobahn_of idents name) of
        Inl e \<Rightarrow> Err (''assemble-genesis: autobahn: '' @ e)
      | Inr i \<Rightarrow> (case autobahn_validators K idents names of Inl e \<Rightarrow> Inl e | Inr vs \<Rightarrow> Ok (autobahnValidator_json i # vs)))"

definition uploadAutobahnConfig ::
    "gen_sdk \<Rightarrow> asm_world \<Rightarrow> assembler \<Rightarrow> string list \<Rightarrow> (string \<times> identityManifest) list \<Rightarrow> AutobahnConfigParams option \<Rightarrow> unit asm_step" where
  "uploadAutobahnConfig K W A names idents ov =
     asm_bind (asm_lift [] (autobahn_validators K idents names)) (\<lambda>vs.
     asm_bind (asm_lift ''assemble-genesis: '' (buildAutobahnConfig K vs ov)) (\<lambda>data.
     asm_bind (asm_client W ''assemble-genesis: building S3 uploader for autobahn config: '') (\<lambda>_.
     put_object W A (ga_ChainID A @ ''/autobahn.json'') (JsonText data))))"

subsection \<open>Publishing\<close>

definition read_bytes :: "gen_sdk \<Rightarrow> asm_world \<Rightarrow> string \<Rightarrow> string asm_step" where
  "read_bytes K W what s =
     (tick s,
      case aw_io W (as_Calls s) of
        Some (e, _) \<Rightarrow> Inl (what @ e)
      | None \<Rightarrow> (case as_Genesis s of None \<Rightarrow> Inl (what @ ''unreadable genesis file'') | Some d \<Rightarrow> Inr (gs_Encode K d)))"

definition uploadGenesis :: "gen_sdk \<Rightarrow> asm_world \<Rightarrow> assembler \<Rightarrow> string asm_step" where
  "uploadGenesis K W A =
     asm_bind (read_bytes K W ''assemble-genesis: reading genesis.json: '') (\<lambda>data.
     asm_bind (asm_client W ''assemble-genesis: building S3 uploader: '') (\<lambda>_.
     asm_bind (put_object W A (ga_ChainID A @ ''/genesis.json'') (FileBytes data)) (\<lambda>_.
     asm_return (gs_HexSum256 K data))))"

definition dec_node_id :: "json \<Rightarrow> string result" where
  "dec_node_id j = decode_struct ''struct'' [(''id'', field dec_string (\<lambda>s. s) (\<lambda>v _. v))] [] j"

definition p2p_address :: "string \<Rightarrow> string \<Rightarrow> string \<Rightarrow> string" where
  "p2p_address nodeID name ns = nodeID @ ''@'' @ name @ ''-0.'' @ name @ ''.'' @ ns @ ''.svc.cluster.local:26656''"

fun peer_list :: "string \<Rightarrow> (string \<times> identityManifest) list \<Rightarrow> string list \<Rightarrow> string list result" where
  "peer_list ns idents [] = Ok []"
| "peer_list ns idents (name # names) =
     (case (case map_of idents name of None \<Rightarrow> None | Some i \<Rightarrow> im_NodeKey i) of
        None \<Rightarrow> Err (''assemble-genesis: parsing node_key for '' @ name @ '': unexpected end of JSON input'')
      | Some j \<Rightarrow>
          (case dec_node_id j of
             Inl e \<Rightarrow> Err (''assemble-genesis: parsing node_key for '' @ name @ '': '' @ e)
           | Inr nodeID \<Rightarrow>
               if nodeID = [] then Err (''assemble-genesis: empty node ID for '' @ name)
               else (case peer_list ns idents names of Inl e \<Rightarrow> Inl e | Inr ps \<Rightarrow> Ok (p2p_address nodeID name ns # ps))))"

definition uploadPeers :: "asm_world \<Rightarrow> assembler \<Rightarrow> string \<Rightarrow> string list \<Rightarrow> (string \<times> identityManifest) list \<Rightarrow> unit asm_step" where
  "uploadPeers W A ns names idents =
     asm_bind (asm_lift [] (peer_list ns idents names)) (\<lambda>peers.
     asm_bind (asm_client W ''assemble-genesis: building S3 uploader for peers: '') (\<lambda>_.
     put_object W A (ga_ChainID A @ ''/peers.json'') (JsonText (JArray (map JString peers)))))"

subsection \<open>The handler\<close>

definition markerExists :: "asm_world \<Rightarrow> bool asm_step" where
  "markerExists W s = (tick s, Inr (as_Marker s \<and> aw_io W (as_Calls s) = None))"

definition writeMarker :: "asm_world \<Rightarrow> unit asm_step" where
  "writeMarker W = asm_io W ''writing marker file .sei-sidecar-assemble-done: '' (\<lambda>s. s\<lparr>as_Marker := True\<rparr>) (\<lambda>s. s\<lparr>as_Marker := True\<rparr>)"

definition apostrophed :: "string \<Rightarrow> string" where "apostrophed s = [CHR 0x27] @ s @ [CHR 0x27]"

definition check_assemble_request :: "AssembleAndUploadGenesisTask \<Rightarrow> error option" where
  "check_assemble_request cfg =
     (if agt_AccountBalance cfg = [] then Some (''assemble-genesis: missing required param '' @ apostrophed ''accountBalance'')
      else if agt_Namespace cfg = [] then Some (''assemble-genesis: missing required param '' @ apostrophed ''namespace'')
      else if agt_Nodes cfg = [] then Some ''assemble-genesis: 'nodes' list is empty''
      else if [] \<in> set (agt_Nodes cfg) then
        Some (''assemble-genesis: nodes['' @ show_nat (length (takeWhile (\<lambda>n. n \<noteq> []) (agt_Nodes cfg))) @ ''] missing required field '' @ apostrophed ''name'')
      else None)"

text \<open>The handler up to the accounts, and the rest of it; a run returns the digest, or nothing when the marker is there.\<close>

definition prepare_accounts :: "gen_sdk \<Rightarrow> asm_world \<Rightarrow> assembler \<Rightarrow> AssembleAndUploadGenesisTask \<Rightarrow> unit asm_step" where
  "prepare_accounts K W A cfg =
     asm_bind (downloadGentxFiles W A (agt_Nodes cfg)) (\<lambda>_.
     asm_bind (verifyAssembledGentxs K W (agt_Nodes cfg)) (\<lambda>_.
     asm_bind (addMissingGenesisAccounts K W (agt_AccountBalance cfg)) (\<lambda>_.
     addExternalGenesisAccounts K W (agt_Accounts cfg))))"

definition finish_doc :: "gen_sdk \<Rightarrow> asm_world \<Rightarrow> AssembleAndUploadGenesisTask \<Rightarrow> unit asm_step" where
  "finish_doc K W cfg =
     asm_bind (collectGentxs K W) (\<lambda>_.
     asm_bind (applyOverrides K W (agt_Overrides cfg)) (\<lambda>_.
     asm_bind (applyConsensusParams K W (agt_ConsensusParams cfg)) (\<lambda>_.
     populateGenesisValidators K W)))"

definition publish :: "gen_sdk \<Rightarrow> asm_world \<Rightarrow> assembler \<Rightarrow> AssembleAndUploadGenesisTask \<Rightarrow> string asm_step" where
  "publish K W A cfg =
     asm_bind (downloadIdentities K W A (agt_Nodes cfg)) (\<lambda>idents.
     asm_bind (if agt_Autobahn cfg then uploadAutobahnConfig K W A (agt_Nodes cfg) idents (agt_AutobahnConfig cfg) else asm_return ()) (\<lambda>_.
     asm_bind (uploadGenesis K W A) (\<lambda>genesisHash.
     asm_bind (uploadPeers W A (agt_Namespace cfg) (agt_Nodes cfg) idents) (\<lambda>_.
     asm_return genesisHash))))"

definition assemble_Handler ::
    "gen_sdk \<Rightarrow> asm_world \<Rightarrow> assembler \<Rightarrow> AssembleAndUploadGenesisTask \<Rightarrow> string option asm_step" where
  "assemble_Handler K W A cfg =
     asm_bind (markerExists W) (\<lambda>completed.
     if completed then asm_return None
     else
       asm_bind (asm_check [] (check_assemble_request cfg)) (\<lambda>_.
       asm_bind (prepare_accounts K W A cfg) (\<lambda>_.
       asm_bind (finish_doc K W cfg) (\<lambda>_.
       asm_bind (publish K W A cfg) (\<lambda>genesisHash.
       asm_bind (writeMarker W) (\<lambda>_.
       asm_return (Some genesisHash)))))))"

end
