(* ===== verification/GenesisProps.thy ===== *)
theory GenesisProps
  imports GenesisAssembly
begin

text \<open>
  What the genesis assembler guarantees: what a successful run published and in which order, the validator set inside the
  published genesis, and what a failed run leaves behind.

  The frame of a step is a relation between the state before and after it.  The locale \<open>asm_frame\<close> lifts a relation that
  the elementary effects respect to the composed steps; it is interpreted on the frames the properties need.
\<close>

subsection \<open>Frames\<close>

definition frames :: "(asm_state \<Rightarrow> asm_state \<Rightarrow> bool) \<Rightarrow> 'a asm_step \<Rightarrow> bool" where
  "frames R m \<longleftrightarrow> (\<forall>s. R s (fst (m s)))"

lemma asm_bind_Inr:
  "asm_bind m f s = (s', Inr y) \<longleftrightarrow> (\<exists>s1 x. m s = (s1, Inr x) \<and> f x s1 = (s', Inr y))"
  by (auto simp: asm_bind_def split: prod.splits sum.splits)

lemma asm_lift_Inr [simp]: "asm_lift w r s = (s', Inr x) \<longleftrightarrow> s' = s \<and> r = Inr x"
  by (auto simp: asm_lift_def asm_fail_def asm_return_def split: sum.splits)

lemma asm_check_Inr [simp]: "asm_check w r s = (s', Inr ()) \<longleftrightarrow> s' = s \<and> r = None"
  by (auto simp: asm_check_def asm_fail_def asm_return_def split: option.splits)

lemma asm_return_Inr [simp]: "asm_return x s = (s', Inr y) \<longleftrightarrow> s' = s \<and> y = x"
  by (auto simp: asm_return_def)

lemma asm_fail_Inr [simp]: "asm_fail e s \<noteq> (s', Inr y)"
  by (simp add: asm_fail_def)

lemma asm_bind_cases:
  obtains (fail) s1 e where "m s = (s1, Inl e)" "asm_bind m f s = (s1, Inl e)"
  | (ok) s1 x where "m s = (s1, Inr x)" "asm_bind m f s = f x s1"
  by (cases "m s"; cases "snd (m s)") (auto simp: asm_bind_def)

lemma asm_bind_run:
  "m s = (s1, Inr x) \<Longrightarrow> asm_bind m f s = f x s1" "m s = (s1, Inl e) \<Longrightarrow> asm_bind m f s = (s1, Inl e)"
  by (simp_all add: asm_bind_def)

lemma asm_check_run: "asm_check w None s = (s, Inr ())" "asm_check w (Some e) s = (s, Inl (w @ e))"
  by (simp_all add: asm_check_def asm_return_def asm_fail_def)

lemma framesD: "frames R m \<Longrightarrow> m s = (s', r) \<Longrightarrow> R s s'"
  unfolding frames_def by (metis fst_conv)

locale asm_frame =
  fixes R :: "asm_state \<Rightarrow> asm_state \<Rightarrow> bool"
  assumes R_refl: "R s s"
    and R_trans: "R s t \<Longrightarrow> R t u \<Longrightarrow> R s u"
    and R_tick: "R s (tick s)"
begin

lemma frames_bind: "frames R m \<Longrightarrow> (\<And>x. frames R (f x)) \<Longrightarrow> frames R (asm_bind m f)"
  unfolding frames_def
proof
  fix s
  assume m: "\<forall>s. R s (fst (m s))" and f: "\<And>x. \<forall>s. R s (fst (f x s))"
  show "R s (fst (asm_bind m f s))"
    by (rule asm_bind_cases[of m s f]) (use m f R_trans in \<open>metis fst_conv\<close>)+
qed

lemma frames_pure: "frames R (asm_return x)" "frames R (asm_fail e)" "frames R (asm_lift w r)" "frames R (asm_check w c)"
  by (auto simp: frames_def asm_return_def asm_fail_def asm_lift_def asm_check_def R_refl split: sum.splits option.splits)

lemma frames_reads:
  "frames R (asm_client W w)" "frames R (get_object W A k w)" "frames R (read_doc K W w)" "frames R (read_gentx W w n)"
  "frames R (ReadDir W w)" "frames R (read_bytes K W w)" "frames R (markerExists W)"
  by (auto simp: frames_def asm_client_def get_object_def read_doc_def read_gentx_def ReadDir_def read_bytes_def markerExists_def
      R_tick split: option.splits)

lemma frames_io: "(\<And>s. R s (f s)) \<Longrightarrow> (\<And>s. R s (g s)) \<Longrightarrow> frames R (asm_io W w f g)"
  by (auto simp: frames_def asm_io_def split: option.splits intro: R_tick R_trans[OF R_tick])

lemma frames_verify: "frames R (verifyAssembledGentxs K W names)"
proof -
  have "frames R (verify_loop K W seen names)" for seen
    by (induction names arbitrary: seen) (auto intro!: frames_bind frames_pure frames_reads)
  then show ?thesis by (simp add: verifyAssembledGentxs_def)
qed

lemma frames_missing: "frames R (missing_accounts K W coins names accs bals)"
  by (induction names arbitrary: accs bals)
    (auto intro!: frames_bind frames_pure frames_reads split: list.split tx_msg.split)

lemma frames_identities: "frames R (downloadIdentities K W A names)"
proof -
  have "frames R (identity_loop K W A names)"
    by (induction names) (auto intro!: frames_bind frames_pure frames_reads)
  then show ?thesis unfolding downloadIdentities_def by (intro frames_bind frames_reads)
qed

end

text \<open>Frames that do not speak of the downloaded gentxs, of \<open>genesis.json\<close>, of the uploads.\<close>

locale dir_frame = asm_frame +
  assumes R_dir: "R s (s\<lparr>as_Dir := g\<rparr>)"
begin

lemma frames_download: "frames R (download_loop W A names)"
  by (induction names) (auto simp: Let_def intro!: frames_bind frames_pure frames_reads frames_io R_dir)

lemma frames_downloadGentxFiles: "frames R (downloadGentxFiles W A names)"
  unfolding downloadGentxFiles_def by (intro frames_bind frames_reads frames_io frames_download R_dir R_refl)

end

locale doc_frame = asm_frame +
  assumes R_doc: "R s (s\<lparr>as_Genesis := g\<rparr>)"
begin

lemma frames_write: "frames R (write_doc W w d)"
  unfolding write_doc_def by (intro frames_io R_doc)

lemmas frames_all = frames_bind frames_pure frames_reads frames_write frames_missing

lemma frames_addMissing: "frames R (addMissingGenesisAccounts K W balance)"
  unfolding addMissingGenesisAccounts_def writeBackAuthAndBank_def by (auto intro!: frames_all split: prod.splits)

lemma frames_addExternal: "frames R (addExternalGenesisAccounts K W es)"
  unfolding addExternalGenesisAccounts_def writeBackAuthAndBank_def by (auto intro!: frames_all split: prod.splits)

lemma frames_collect: "frames R (collectGentxs K W)"
proof -
  have "frames R (\<lambda>s. asm_lift w (f s) s)" for w and f :: "asm_state \<Rightarrow> 'b result"
    using frames_pure(3) unfolding frames_def by blast
  then show ?thesis unfolding collectGentxs_def by (intro frames_all)
qed

lemma frames_finish: "frames R (finish_doc K W cfg)"
  unfolding finish_doc_def applyOverrides_def applyConsensusParams_def populateGenesisValidators_def
  by (auto intro!: frames_all frames_collect simp: Let_def split: option.splits)

end

locale prep_frame = dir_frame + doc_frame
begin

lemma frames_prepare: "frames R (prepare_accounts K W A cfg)"
  unfolding prepare_accounts_def by (intro frames_bind frames_downloadGentxFiles frames_verify frames_addMissing frames_addExternal)

end

locale up_frame = asm_frame +
  assumes R_up: "R s (s\<lparr>as_Uploads := u\<rparr>)"
begin

lemma frames_put: "frames R (put_object W A k x)"
  by (auto simp: frames_def put_object_def split: option.splits intro: R_tick R_trans[OF R_tick R_up])

lemma frames_publish: "frames R (publish K W A cfg)"
  unfolding publish_def uploadAutobahnConfig_def uploadGenesis_def uploadPeers_def
  by (auto intro!: frames_bind frames_pure frames_reads frames_put frames_identities)

end

definition same_outside :: "asm_state \<Rightarrow> asm_state \<Rightarrow> bool" where
  "same_outside s t \<longleftrightarrow> as_Uploads t = as_Uploads s \<and> as_Marker t = as_Marker s"

definition same_doc :: "asm_state \<Rightarrow> asm_state \<Rightarrow> bool" where
  "same_doc s t \<longleftrightarrow> as_Genesis t = as_Genesis s \<and> as_Marker t = as_Marker s"

definition same_dir :: "asm_state \<Rightarrow> asm_state \<Rightarrow> bool" where
  "same_dir s t \<longleftrightarrow> as_Dir t = as_Dir s"

interpretation outside: prep_frame same_outside
  by unfold_locales (simp_all add: same_outside_def tick_def)

interpretation samedoc: up_frame same_doc
  by unfold_locales (simp_all add: same_doc_def tick_def)

interpretation samedir: doc_frame same_dir
  by unfold_locales (simp_all add: same_dir_def tick_def)

interpretation samedir_up: up_frame same_dir
  by unfold_locales (simp add: same_dir_def)

subsection \<open>The validator set\<close>

lemma single_validator_Inr: "single_validator K w data = Inr m \<longleftrightarrow> gs_Decode K data = Inr [CreateValidator m]"
proof -
  have "length msgs \<noteq> 1 \<or> (\<exists>x. msgs = [x])" for msgs :: "tx_msg list" by (cases msgs) auto
  then show ?thesis
    by (auto simp: single_validator_def length_Suc_conv split: sum.splits tx_msg.splits if_splits)
qed

lemma derive_loop_step:
  assumes "derive_loop K i seen (raw # raws) = Inr vs"
  shows "\<exists>who a k power vs'. vs = (a, k, power) # vs' \<and> a \<notin> fst ` set seen \<and> power \<noteq> 0 \<and>
    derive_loop K (i + 1) ((a, who) # seen) raws = Inr vs'"
  using assms by (auto simp: map_of_eq_None_iff split: sum.splits option.splits if_splits) blast

lemma derive_loop_sound:
  assumes "derive_loop K i seen raws = Inr vs"
  shows "distinct (map fst vs) \<and> fst ` set vs \<inter> fst ` set seen = {} \<and> list_all (\<lambda>v. snd (snd v) \<noteq> 0) vs \<and> length vs = length raws"
  using assms
proof (induction raws arbitrary: i seen vs)
  case (Cons raw raws)
  obtain who a k power vs' where vs: "vs = (a, k, power) # vs'" "a \<notin> fst ` set seen" "power \<noteq> 0"
    and rest: "derive_loop K (i + 1) ((a, who) # seen) raws = Inr vs'"
    using derive_loop_step[OF Cons.prems] by blast
  show ?case using Cons.IH[OF rest] vs(2,3) by (auto simp: vs(1))
qed auto

text \<open>The bond set of a genesis: its validators are those of its gentxs, each with its own consensus key and some power.\<close>

definition validators_ok :: "gen_sdk \<Rightarrow> GenesisDoc \<Rightarrow> bool" where
  "validators_ok K d \<longleftrightarrow>
     deriveGenesisValidators K (gs_GenTxs K (gd_AppState d)) = Inr (gd_Validators d) \<and>
     gd_Validators d \<noteq> [] \<and> length (gd_Validators d) = length (gs_GenTxs K (gd_AppState d)) \<and>
     length (gd_Validators d) mod 2 ^ 32 \<le> gs_MaxValidators K (gd_AppState d) \<and>
     distinct (map fst (gd_Validators d)) \<and> list_all (\<lambda>v. snd (snd v) \<noteq> 0) (gd_Validators d)"

lemma write_doc_Inr: "write_doc W w d s = (s', Inr ()) \<Longrightarrow> as_Genesis s' = Some d"
  by (auto simp: write_doc_def asm_io_def split: option.splits if_splits)

lemma populate_ok:
  assumes "populateGenesisValidators K W s = (s', Inr ())"
  obtains d where "as_Genesis s' = Some d" "validators_ok K d"
proof -
  from assms obtain s1 d vs where vs: "deriveGenesisValidators K (gs_GenTxs K (gd_AppState d)) = Inr vs" "vs \<noteq> []"
      "length vs mod 2 ^ 32 \<le> gs_MaxValidators K (gd_AppState d)"
    and w: "write_doc W ''assemble-genesis: writing genesis with validators: '' (d\<lparr>gd_Validators := vs\<rparr>) s1 = (s', Inr ())"
    by (auto simp: populateGenesisValidators_def asm_bind_Inr Let_def split: if_splits)
  have "validators_ok K (d\<lparr>gd_Validators := vs\<rparr>)"
    using vs derive_loop_sound[OF vs(1)[unfolded deriveGenesisValidators_def]] by (simp add: validators_ok_def)
  then show thesis using that write_doc_Inr[OF w] by blast
qed

lemma finish_ok:
  assumes "finish_doc K W cfg s = (s', Inr ())"
  obtains d where "as_Genesis s' = Some d" "validators_ok K d"
proof -
  from assms obtain s1 where "populateGenesisValidators K W s1 = (s', Inr ())" by (auto simp: finish_doc_def asm_bind_Inr)
  then show thesis using that by (rule populate_ok)
qed

subsection \<open>What a run publishes\<close>

lemma put_object_Inr:
  "put_object W A k x s = (s', Inr ()) \<Longrightarrow> as_Uploads s' = as_Uploads s @ [(k, x)]"
  by (auto simp: put_object_def tick_def split: option.splits)

definition autobahn_key :: "assembler \<Rightarrow> string" where "autobahn_key A = ga_ChainID A @ ''/autobahn.json''"
definition genesis_key :: "assembler \<Rightarrow> string" where "genesis_key A = ga_ChainID A @ ''/genesis.json''"
definition peers_key :: "assembler \<Rightarrow> string" where "peers_key A = ga_ChainID A @ ''/peers.json''"

lemmas key_defs = autobahn_key_def genesis_key_def peers_key_def

lemma autobahn_Inr:
  assumes "uploadAutobahnConfig K W A names idents ov s = (s', Inr ())"
  obtains vs j where "autobahn_validators K idents names = Inr vs" "buildAutobahnConfig K vs ov = Inr j"
    "as_Uploads s' = as_Uploads s @ [(autobahn_key A, JsonText j)]" "same_doc s s'"
proof -
  from assms obtain vs j s1 where *: "autobahn_validators K idents names = Inr vs" "buildAutobahnConfig K vs ov = Inr j"
    "asm_client W ''assemble-genesis: building S3 uploader for autobahn config: '' s = (s1, Inr ())"
    "put_object W A (ga_ChainID A @ ''/autobahn.json'') (JsonText j) s1 = (s', Inr ())"
    by (auto simp: uploadAutobahnConfig_def asm_bind_Inr)
  have "as_Uploads s1 = as_Uploads s" using framesD[OF outside.frames_reads(1) *(3)] by (simp add: same_outside_def)
  moreover have "same_doc s s'"
    using samedoc.R_trans[OF framesD[OF samedoc.frames_reads(1) *(3)] framesD[OF samedoc.frames_put *(4)]] .
  ultimately show thesis using that[OF *(1,2)] put_object_Inr[OF *(4)] by (simp add: autobahn_key_def)
qed

lemma uploadGenesis_Inr:
  assumes "uploadGenesis K W A s = (s', Inr h)"
  obtains d where "as_Genesis s = Some d" "h = gs_HexSum256 K (gs_Encode K d)"
    "as_Uploads s' = as_Uploads s @ [(genesis_key A, FileBytes (gs_Encode K d))]" "same_doc s s'"
proof -
  from assms obtain data s1 s2 where *: "read_bytes K W ''assemble-genesis: reading genesis.json: '' s = (s1, Inr data)"
    "asm_client W ''assemble-genesis: building S3 uploader: '' s1 = (s2, Inr ())"
    "put_object W A (ga_ChainID A @ ''/genesis.json'') (FileBytes data) s2 = (s', Inr ())" "h = gs_HexSum256 K data"
    by (auto simp: uploadGenesis_def asm_bind_Inr)
  from *(1) obtain d where d: "as_Genesis s = Some d" "data = gs_Encode K d"
    by (auto simp: read_bytes_def split: option.splits)
  have "as_Uploads s2 = as_Uploads s"
    using framesD[OF outside.frames_reads(6) *(1)] framesD[OF outside.frames_reads(1) *(2)] by (simp add: same_outside_def)
  moreover have "same_doc s s'"
    using samedoc.R_trans[OF framesD[OF samedoc.frames_reads(6) *(1)]
        samedoc.R_trans[OF framesD[OF samedoc.frames_reads(1) *(2)] framesD[OF samedoc.frames_put *(3)]]] .
  ultimately show thesis using that[OF d(1)] put_object_Inr[OF *(3)] *(4) d(2) by (simp add: genesis_key_def)
qed

lemma uploadPeers_Inr:
  assumes "uploadPeers W A ns names idents s = (s', Inr ())"
  obtains ps where "peer_list ns idents names = Inr ps"
    "as_Uploads s' = as_Uploads s @ [(peers_key A, JsonText (JArray (map JString ps)))]" "same_doc s s'"
proof -
  from assms obtain ps s1 where *: "peer_list ns idents names = Inr ps"
    "asm_client W ''assemble-genesis: building S3 uploader for peers: '' s = (s1, Inr ())"
    "put_object W A (ga_ChainID A @ ''/peers.json'') (JsonText (JArray (map JString ps))) s1 = (s', Inr ())"
    by (auto simp: uploadPeers_def asm_bind_Inr)
  have "as_Uploads s1 = as_Uploads s" using framesD[OF outside.frames_reads(1) *(2)] by (simp add: same_outside_def)
  moreover have "same_doc s s'"
    using samedoc.R_trans[OF framesD[OF samedoc.frames_reads(1) *(2)] framesD[OF samedoc.frames_put *(3)]] .
  ultimately show thesis using that[OF *(1)] put_object_Inr[OF *(3)] by (simp add: peers_key_def)
qed

text \<open>What stands in the object store after a publication: the Autobahn configuration when asked for, the genesis, the peers.\<close>

definition published :: "gen_sdk \<Rightarrow> assembler \<Rightarrow> AssembleAndUploadGenesisTask \<Rightarrow> GenesisDoc \<Rightarrow> (string \<times> artifact) list \<Rightarrow> bool" where
  "published K A cfg d us \<longleftrightarrow>
     (\<exists>idents pre peers.
        peer_list (agt_Namespace cfg) idents (agt_Nodes cfg) = Inr peers \<and>
        us = pre @ [(genesis_key A, FileBytes (gs_Encode K d)), (peers_key A, JsonText (JArray (map JString peers)))] \<and>
        (if agt_Autobahn cfg
         then \<exists>vs j. autobahn_validators K idents (agt_Nodes cfg) = Inr vs \<and> buildAutobahnConfig K vs (agt_AutobahnConfig cfg) = Inr j \<and>
                      pre = [(autobahn_key A, JsonText j)]
         else pre = []))"

lemma publish_Inr:
  assumes "publish K W A cfg s = (s', Inr h)"
  obtains d us where "as_Genesis s = Some d" "h = gs_HexSum256 K (gs_Encode K d)"
    "as_Uploads s' = as_Uploads s @ us" "published K A cfg d us"
proof -
  from assms obtain idents s1 s2 s3 where 1: "downloadIdentities K W A (agt_Nodes cfg) s = (s1, Inr idents)"
    and 2: "(if agt_Autobahn cfg then uploadAutobahnConfig K W A (agt_Nodes cfg) idents (agt_AutobahnConfig cfg) else asm_return ()) s1 = (s2, Inr ())"
    and 3: "uploadGenesis K W A s2 = (s3, Inr h)"
    and 4: "uploadPeers W A (agt_Namespace cfg) (agt_Nodes cfg) idents s3 = (s', Inr ())"
    by (auto simp: publish_def asm_bind_Inr)
  have up1: "as_Uploads s1 = as_Uploads s" using framesD[OF outside.frames_identities 1] by (simp add: same_outside_def)
  have doc1: "same_doc s s1" by (rule framesD[OF samedoc.frames_identities 1])
  obtain pre where pre: "as_Uploads s2 = as_Uploads s1 @ pre" "same_doc s1 s2"
    "if agt_Autobahn cfg
     then \<exists>vs j. autobahn_validators K idents (agt_Nodes cfg) = Inr vs \<and> buildAutobahnConfig K vs (agt_AutobahnConfig cfg) = Inr j \<and>
                  pre = [(autobahn_key A, JsonText j)]
     else pre = []"
  proof (cases "agt_Autobahn cfg")
    case True
    with 2 have "uploadAutobahnConfig K W A (agt_Nodes cfg) idents (agt_AutobahnConfig cfg) s1 = (s2, Inr ())" by simp
    then show thesis by (rule autobahn_Inr) (rule that, use True in auto)
  next
    case False
    with 2 show thesis using that[of "[]"] samedoc.R_refl by simp
  qed
  obtain d where d: "as_Genesis s2 = Some d" "h = gs_HexSum256 K (gs_Encode K d)"
    "as_Uploads s3 = as_Uploads s2 @ [(genesis_key A, FileBytes (gs_Encode K d))]" "same_doc s2 s3"
    by (rule uploadGenesis_Inr[OF 3])
  obtain ps where ps: "peer_list (agt_Namespace cfg) idents (agt_Nodes cfg) = Inr ps"
    "as_Uploads s' = as_Uploads s3 @ [(peers_key A, JsonText (JArray (map JString ps)))]"
    by (rule uploadPeers_Inr[OF 4])
  let ?us = "pre @ [(genesis_key A, FileBytes (gs_Encode K d)), (peers_key A, JsonText (JArray (map JString ps)))]"
  have "as_Genesis s = Some d" using doc1 pre(2) d(1) by (simp add: same_doc_def)
  moreover have "as_Uploads s' = as_Uploads s @ ?us" using ps(2) d(3) pre(1) up1 by simp
  moreover have "published K A cfg d ?us" unfolding published_def using ps(1) pre(3) by blast
  ultimately show thesis using that d(2) by blast
qed

subsection \<open>The gentxs\<close>

abbreviation named :: "string list \<Rightarrow> string list" where "named xs \<equiv> filter (\<lambda>x. x \<noteq> []) xs"

definition key_of :: "create_validator \<Rightarrow> string" where
  "key_of m = (case mcv_Pubkey m of Some k \<Rightarrow> k | None \<Rightarrow> [])"

definition distinct_gentxs :: "create_validator list \<Rightarrow> bool" where
  "distinct_gentxs ms \<longleftrightarrow>
     distinct (named (map mcv_Delegator ms)) \<and> distinct (named (map mcv_Validator ms)) \<and> distinct (named (map key_of ms))"

text \<open>The directory holds, for every node, one gentx with one message, which creates the validator.\<close>

definition gentx_of :: "gen_sdk \<Rightarrow> (string \<times> string) list \<Rightarrow> string \<Rightarrow> create_validator \<Rightarrow> bool" where
  "gentx_of K dir name m \<longleftrightarrow> (\<exists>data. map_of dir (gentx_file name) = Some data \<and> gs_Decode K data = Inr [CreateValidator m])"

definition fresh_for :: "string list \<Rightarrow> (string \<times> string) list \<Rightarrow> bool" where
  "fresh_for ks seen \<longleftrightarrow> distinct (named ks) \<and> (\<forall>k \<in> set (named ks). k \<notin> fst ` set seen)"

lemma dedupe_Inr:
  "dedupe kind node key seen = Inr seen' \<Longrightarrow> fresh_for ks seen' \<Longrightarrow> fresh_for (key # ks) seen"
  by (auto simp: dedupe_def fresh_for_def map_of_eq_None_iff split: if_splits option.splits) force

lemma dedupe3_Inr:
  assumes "dedupe3 node m (ds, vs, ps) = Inr seen'"
  obtains ds' vs' ps' where "seen' = (ds', vs', ps')" "dedupe ''delegator'' node (mcv_Delegator m) ds = Inr ds'"
    "dedupe ''validator operator address'' node (mcv_Validator m) vs = Inr vs'" "dedupe ''consensus pubkey'' node (key_of m) ps = Inr ps'"
  using assms by (auto simp: dedupe3_def key_of_def split: sum.splits)

lemma read_gentx_Inr: "read_gentx W w n s = (s', Inr data) \<Longrightarrow> map_of (as_Dir s) n = Some data"
  by (auto simp: read_gentx_def split: option.splits)

lemma verify_loop_sound:
  assumes "verify_loop K W (ds, vs, ps) names s = (s', Inr ())"
  shows "\<exists>ms. list_all2 (gentx_of K (as_Dir s)) names ms \<and>
    fresh_for (map mcv_Delegator ms) ds \<and> fresh_for (map mcv_Validator ms) vs \<and> fresh_for (map key_of ms) ps"
  using assms
proof (induction names arbitrary: ds vs ps s)
  case Nil
  then show ?case by (auto simp: fresh_for_def)
next
  case (Cons name names)
  then obtain s1 data m seen' where 1: "read_gentx W (''assemble-genesis: reading gentx for node '' @ name @ '': '') (gentx_file name) s = (s1, Inr data)"
    and m: "single_validator K (''gentx for node '' @ name) data = Inr m" and seen: "dedupe3 name m (ds, vs, ps) = Inr seen'"
    and rest: "verify_loop K W seen' names s1 = (s', Inr ())"
    by (auto simp: asm_bind_Inr)
  obtain ds' vs' ps' where seen': "seen' = (ds', vs', ps')" "dedupe ''delegator'' name (mcv_Delegator m) ds = Inr ds'"
    "dedupe ''validator operator address'' name (mcv_Validator m) vs = Inr vs'" "dedupe ''consensus pubkey'' name (key_of m) ps = Inr ps'"
    by (rule dedupe3_Inr[OF seen])
  have dir: "as_Dir s1 = as_Dir s" using framesD[OF samedir.frames_reads(4) 1] by (simp add: same_dir_def)
  obtain ms where ms: "list_all2 (gentx_of K (as_Dir s)) names ms" "fresh_for (map mcv_Delegator ms) ds'"
    "fresh_for (map mcv_Validator ms) vs'" "fresh_for (map key_of ms) ps'"
    using Cons.IH[OF rest[unfolded seen'(1)]] dir by auto
  have "gentx_of K (as_Dir s) name m"
    using read_gentx_Inr[OF 1] m unfolding gentx_of_def single_validator_Inr by blast
  then show ?case
    using ms(1) dedupe_Inr[OF seen'(2) ms(2)] dedupe_Inr[OF seen'(3) ms(3)] dedupe_Inr[OF seen'(4) ms(4)]
    by (intro exI[of _ "m # ms"]) simp
qed

lemma verify_sound:
  assumes "verifyAssembledGentxs K W names s = (s', Inr ())"
  obtains ms where "list_all2 (gentx_of K (as_Dir s')) names ms" "distinct_gentxs ms"
proof -
  have "as_Dir s' = as_Dir s" using framesD[OF samedir.frames_verify assms] by (simp add: same_dir_def)
  then show thesis using that verify_loop_sound[OF assms[unfolded verifyAssembledGentxs_def]]
    by (auto simp: fresh_for_def distinct_gentxs_def)
qed

lemma prepare_sound:
  assumes "prepare_accounts K W A cfg s = (s', Inr ())"
  obtains ms where "list_all2 (gentx_of K (as_Dir s')) (agt_Nodes cfg) ms" "distinct_gentxs ms"
proof -
  from assms obtain s1 s2 s3 where v: "verifyAssembledGentxs K W (agt_Nodes cfg) s1 = (s2, Inr ())"
    and a: "addMissingGenesisAccounts K W (agt_AccountBalance cfg) s2 = (s3, Inr ())"
    and e: "addExternalGenesisAccounts K W (agt_Accounts cfg) s3 = (s', Inr ())"
    by (auto simp: prepare_accounts_def asm_bind_Inr)
  have "as_Dir s' = as_Dir s2"
    using framesD[OF samedir.frames_addMissing a] framesD[OF samedir.frames_addExternal e] by (simp add: same_dir_def)
  then show thesis using verify_sound[OF v] that by metis
qed

lemma Handler_Inr:
  assumes "assemble_Handler K W A cfg s = (s', Inr (Some h))"
  obtains s0 s1 s2 s3 where "markerExists W s = (s0, Inr False)" "check_assemble_request cfg = None" "prepare_accounts K W A cfg s0 = (s1, Inr ())"
    "finish_doc K W cfg s1 = (s2, Inr ())" "publish K W A cfg s2 = (s3, Inr h)" "writeMarker W s3 = (s', Inr ())"
  using assms by (auto simp: assemble_Handler_def asm_bind_Inr split: if_splits)

lemma writeMarker_Inr:
  "writeMarker W s = (s', Inr ()) \<Longrightarrow> as_Marker s' \<and> as_Genesis s' = as_Genesis s \<and> as_Dir s' = as_Dir s \<and> as_Uploads s' = as_Uploads s"
  by (auto simp: writeMarker_def asm_io_def tick_def split: option.splits)

text \<open>Steps that add uploads with the given keys, in order; a failed step has added a first part of them.\<close>

definition ups :: "'a asm_step \<Rightarrow> string list \<Rightarrow> bool" where
  "ups m ks \<longleftrightarrow>
     (\<forall>s. \<exists>us n. as_Uploads (fst (m s)) = as_Uploads s @ us \<and> map fst us = take n ks \<and> (\<forall>x. snd (m s) = Inr x \<longrightarrow> length ks \<le> n))"

lemma ups_none: "frames same_outside m \<Longrightarrow> ups m []"
  by (simp add: frames_def same_outside_def ups_def)

lemma ups_put: "ups (put_object W A k x) [k]"
  unfolding ups_def
proof
  fix s
  show "\<exists>us n. as_Uploads (fst (put_object W A k x s)) = as_Uploads s @ us \<and> map fst us = take n [k] \<and>
    (\<forall>y. snd (put_object W A k x s) = Inr y \<longrightarrow> length [k] \<le> n)"
  proof (cases "aw_put W (as_Calls s) k x")
    case None
    then show ?thesis by (intro exI[of _ "[(k, x)]"] exI[of _ 1]) (simp add: put_object_def tick_def)
  next
    case (Some f)
    then show ?thesis by (intro exI[of _ "[]"] exI[of _ 0]) (simp add: put_object_def tick_def)
  qed
qed

lemma ups_bind:
  assumes m: "ups m ks" and f: "\<And>x. ups (f x) js"
  shows "ups (asm_bind m f) (ks @ js)"
  unfolding ups_def
proof
  fix s
  obtain us n where us: "as_Uploads (fst (m s)) = as_Uploads s @ us" "map fst us = take n ks" "\<And>x. snd (m s) = Inr x \<Longrightarrow> length ks \<le> n"
    using m unfolding ups_def by blast
  show "\<exists>us n. as_Uploads (fst (asm_bind m f s)) = as_Uploads s @ us \<and> map fst us = take n (ks @ js) \<and>
      (\<forall>y. snd (asm_bind m f s) = Inr y \<longrightarrow> length (ks @ js) \<le> n)"
  proof (rule asm_bind_cases[of m s f])
    fix s1 e assume "m s = (s1, Inl e)" "asm_bind m f s = (s1, Inl e)"
    then show ?thesis using us(1,2) by (intro exI[of _ us] exI[of _ "min n (length ks)"]) (simp add: min_def)
  next
    fix s1 x assume x: "m s = (s1, Inr x)" "asm_bind m f s = f x s1"
    obtain vs k where vs: "as_Uploads (fst (f x s1)) = as_Uploads s1 @ vs" "map fst vs = take k js"
      "\<And>y. snd (f x s1) = Inr y \<Longrightarrow> length js \<le> k"
      using f unfolding ups_def by blast
    have "map fst us = ks" using us(2) us(3)[of x] x(1) by simp
    then show ?thesis using us(1) vs x by (intro exI[of _ "us @ vs"] exI[of _ "length ks + k"]) simp
  qed
qed

lemma ups_then: "frames same_outside m \<Longrightarrow> (\<And>x. ups (f x) ks) \<Longrightarrow> ups (asm_bind m f) ks"
  using ups_bind[OF ups_none] by fastforce

definition publication_keys :: "assembler \<Rightarrow> AssembleAndUploadGenesisTask \<Rightarrow> string list" where
  "publication_keys A cfg = (if agt_Autobahn cfg then [autobahn_key A] else []) @ [genesis_key A, peers_key A]"

lemma ups_autobahn:
  "ups (if agt_Autobahn cfg then uploadAutobahnConfig K W A (agt_Nodes cfg) idents (agt_AutobahnConfig cfg) else asm_return ())
     (if agt_Autobahn cfg then [autobahn_key A] else [])"
  by (auto simp: uploadAutobahnConfig_def autobahn_key_def intro!: ups_then ups_put ups_none outside.frames_pure outside.frames_reads)

lemma ups_uploadGenesis: "ups (uploadGenesis K W A) [genesis_key A]"
  unfolding uploadGenesis_def genesis_key_def
proof (rule ups_then[OF outside.frames_reads(6)], rule ups_then[OF outside.frames_reads(1)])
  show "ups (asm_bind (put_object W A (ga_ChainID A @ ''/genesis.json'') (FileBytes data)) (\<lambda>_. asm_return (gs_HexSum256 K data)))
      [ga_ChainID A @ ''/genesis.json'']" for data
    using ups_bind[OF ups_put ups_none[OF outside.frames_pure(1)]] by simp
qed

lemma ups_uploadPeers: "ups (uploadPeers W A ns names idents) [peers_key A]"
  unfolding uploadPeers_def peers_key_def by (intro ups_then ups_put outside.frames_pure outside.frames_reads)

lemma ups_publish: "ups (publish K W A cfg) (publication_keys A cfg)"
proof -
  have "ups (asm_bind (uploadPeers W A (agt_Namespace cfg) (agt_Nodes cfg) idents) (\<lambda>_. asm_return h)) [peers_key A]" for idents h
    using ups_bind[OF ups_uploadPeers ups_none[OF outside.frames_pure(1)]] by simp
  then have "ups (asm_bind (uploadGenesis K W A) (\<lambda>h. asm_bind (uploadPeers W A (agt_Namespace cfg) (agt_Nodes cfg) idents) (\<lambda>_. asm_return h)))
      [genesis_key A, peers_key A]" for idents
    by (rule ups_bind[OF ups_uploadGenesis, where js = "[peers_key A]", simplified])
  then show ?thesis unfolding publish_def publication_keys_def
    by (rule ups_then[OF outside.frames_identities ups_bind[OF ups_autobahn]])
qed

lemma writeMarker_outside: "as_Uploads (fst (writeMarker W s)) = as_Uploads s"
  by (simp add: writeMarker_def asm_io_def tick_def split: option.splits)

lemma ups_marked: "ups (asm_bind (writeMarker W) (\<lambda>_. asm_return x)) []"
proof -
  have "ups (writeMarker W) []" by (simp add: ups_def writeMarker_outside)
  then show ?thesis using ups_bind[OF _ ups_none[OF outside.frames_pure(1)]] by fastforce
qed

text \<open>
  C25. A run of assemble-and-upload-genesis that reports a digest has published, in this order, autobahn.json (only when
  asked for, built from every node's checked identity), the bytes of its genesis.json, and peers.json; the digest is that of
  the published bytes.  The genesis carries its own validator set: one validator per collected gentx, as staking derives it,
  at most the staking cap, each with its own consensus key and nonzero power.  The collected directory holds one
  single-message gentx per node, no two for the same delegator, operator or consensus key.
\<close>
theorem assembled_genesis_published:
  assumes "assemble_Handler K W A cfg s = (s', Inr (Some h))"
  shows "as_Marker s' \<and>
    (\<exists>d us. as_Genesis s' = Some d \<and> h = gs_HexSum256 K (gs_Encode K d) \<and>
            as_Uploads s' = as_Uploads s @ us \<and> published K A cfg d us \<and> validators_ok K d) \<and>
    (\<exists>ms. list_all2 (gentx_of K (as_Dir s')) (agt_Nodes cfg) ms \<and> distinct_gentxs ms)"
proof -
  obtain s0 s1 s2 s3 where 0: "markerExists W s = (s0, Inr False)" and 1: "prepare_accounts K W A cfg s0 = (s1, Inr ())"
    and 2: "finish_doc K W cfg s1 = (s2, Inr ())" and 3: "publish K W A cfg s2 = (s3, Inr h)" and 4: "writeMarker W s3 = (s', Inr ())"
    by (rule Handler_Inr[OF assms])
  have up: "as_Uploads s2 = as_Uploads s"
    using framesD[OF outside.frames_reads(7) 0] framesD[OF outside.frames_prepare 1] framesD[OF outside.frames_finish 2]
    by (simp add: same_outside_def)
  have doc: "as_Genesis s3 = as_Genesis s2" using framesD[OF samedoc.frames_publish 3] by (simp add: same_doc_def)
  have dir: "as_Dir s3 = as_Dir s1"
    using framesD[OF samedir.frames_finish 2] framesD[OF samedir_up.frames_publish 3] by (simp add: same_dir_def)
  obtain d0 where d0: "as_Genesis s2 = Some d0" "validators_ok K d0" by (rule finish_ok[OF 2])
  obtain d us where d: "as_Genesis s2 = Some d" "h = gs_HexSum256 K (gs_Encode K d)" "as_Uploads s3 = as_Uploads s2 @ us" "published K A cfg d us"
    by (rule publish_Inr[OF 3])
  obtain ms where ms: "list_all2 (gentx_of K (as_Dir s1)) (agt_Nodes cfg) ms" "distinct_gentxs ms" by (rule prepare_sound[OF 1])
  have "d0 = d" using d0(1) d(1) by simp
  then show ?thesis using writeMarker_Inr[OF 4] up doc dir d d0(2) ms by auto
qed

text \<open>
  Whatever fails, a run publishes a first part of autobahn.json (only when asked for), genesis.json, peers.json, each
  at most once and in this order: a node that finds genesis.json can rely on autobahn.json being there.
\<close>
theorem publication_order:
  "\<exists>us n. as_Uploads (fst (assemble_Handler K W A cfg s)) = as_Uploads s @ us \<and> map fst us = take n (publication_keys A cfg)"
proof (cases "assemble_Handler K W A cfg s")
  case (Pair s' r)
  have work: "ups (asm_bind (asm_check [] (check_assemble_request cfg)) (\<lambda>_. asm_bind (prepare_accounts K W A cfg) (\<lambda>_.
      asm_bind (finish_doc K W cfg) (\<lambda>_. asm_bind (publish K W A cfg) (\<lambda>h. asm_bind (writeMarker W) (\<lambda>_. asm_return (Some h)))))))
      (publication_keys A cfg)"
    by (rule ups_then[OF outside.frames_pure(4) ups_then[OF outside.frames_prepare ups_then[OF outside.frames_finish
          ups_bind[OF ups_publish ups_marked, simplified]]]])
  obtain s0 b where b: "markerExists W s = (s0, Inr b)" by (simp add: markerExists_def)
  have up: "as_Uploads s0 = as_Uploads s" using framesD[OF outside.frames_reads(7) b] by (simp add: same_outside_def)
  show ?thesis
  proof (cases b)
    case True
    then show ?thesis using b up
      by (intro exI[of _ "[]"] exI[of _ 0]) (simp add: assemble_Handler_def asm_bind_def asm_return_def)
  next
    case False
    then show ?thesis using b up work[unfolded ups_def, rule_format, of s0]
      by (auto simp: assemble_Handler_def asm_bind_def[of "markerExists W"])
  qed
qed

subsection \<open>What a failed run leaves\<close>

text \<open>The addresses of the accounts a genesis holds, and the documented behaviour of the SDK relied on below: accounts live
  under \<open>auth\<close>, writing them loses none, and \<open>collect-gentxs\<close> drops none.\<close>

definition addresses :: "gen_sdk \<Rightarrow> GenesisDoc \<Rightarrow> string set" where
  "addresses K d = (case gs_Accounts K (gd_AppState d) of Inl _ \<Rightarrow> {} | Inr accs \<Rightarrow> set (map account_addr accs))"

definition accounts_written :: "gen_sdk \<Rightarrow> bool" where
  "accounts_written K \<longleftrightarrow>
     (\<forall>app accs auth bank. gs_PutAuth K app accs = Inr auth \<longrightarrow>
        (\<exists>accs'. gs_Accounts K (put ''bank'' bank (put ''auth'' auth app)) = Inr accs' \<and>
                 set (map account_addr accs) \<subseteq> set (map account_addr accs')))"

definition accounts_under_auth :: "gen_sdk \<Rightarrow> bool" where
  "accounts_under_auth K \<longleftrightarrow> (\<forall>app app'. map_of app ''auth'' = map_of app' ''auth'' \<longrightarrow> gs_Accounts K app = gs_Accounts K app')"

definition collect_keeps_accounts :: "gen_sdk \<Rightarrow> bool" where
  "collect_keeps_accounts K \<longleftrightarrow> (\<forall>dir d d'. gs_Collect K dir d = Inr d' \<longrightarrow> gs_Accounts K (gd_AppState d') = gs_Accounts K (gd_AppState d))"

definition overrides_spare_auth :: "AssembleAndUploadGenesisTask \<Rightarrow> bool" where
  "overrides_spare_auth cfg \<longleftrightarrow> list_all (\<lambda>kv. hd (split_on (CHR ''.'') (fst kv)) \<noteq> ''auth'') (agt_Overrides cfg)"

text \<open>The accounts only grow; an unreadable file stays unreadable.\<close>

definition grows :: "gen_sdk \<Rightarrow> asm_state \<Rightarrow> asm_state \<Rightarrow> bool" where
  "grows K s t \<longleftrightarrow> (\<forall>d'. as_Genesis t = Some d' \<longrightarrow> (\<exists>d. as_Genesis s = Some d \<and> addresses K d \<subseteq> addresses K d'))"

interpretation growing: up_frame "grows K" for K
  by unfold_locales (simp_all add: grows_def tick_def, blast)

interpretation growing_dir: dir_frame "grows K" for K
  by unfold_locales (auto simp: grows_def)

text \<open>Steps taken after reading \<open>d\<close>.\<close>

definition grows_from :: "gen_sdk \<Rightarrow> GenesisDoc \<Rightarrow> 'a asm_step \<Rightarrow> bool" where
  "grows_from K d m \<longleftrightarrow> (\<forall>s. as_Genesis s = Some d \<longrightarrow> grows K s (fst (m s)))"

lemma grows_from_frames: "frames (grows K) m \<Longrightarrow> grows_from K d m"
  by (simp add: frames_def grows_from_def)

lemma grows_from_write: "addresses K d \<subseteq> addresses K d' \<Longrightarrow> grows_from K d (write_doc W w d')"
  by (auto simp: grows_from_def grows_def write_doc_def asm_io_def tick_def split: option.splits)

lemma grows_from_lift: "(\<And>x. r = Inr x \<Longrightarrow> grows_from K d (f x)) \<Longrightarrow> grows_from K d (asm_bind (asm_lift w r) f)"
  by (cases r) (auto simp: grows_from_def grows_def asm_bind_def asm_lift_def asm_fail_def asm_return_def)

lemma grows_from_bind:
  assumes m: "frames same_doc m" and f: "\<And>s s1 x. m s = (s1, Inr x) \<Longrightarrow> grows_from K d (f x)"
  shows "grows_from K d (asm_bind m f)"
  unfolding grows_from_def
proof (intro allI impI)
  fix s :: asm_state
  assume s: "as_Genesis s = Some d"
  show "grows K s (fst (asm_bind m f s))"
  proof (rule asm_bind_cases[of m s f])
    fix s1 e assume "m s = (s1, Inl e)" "asm_bind m f s = (s1, Inl e)"
    then show ?thesis using framesD[OF m] by (fastforce simp: grows_def same_doc_def)
  next
    fix s1 x assume x: "m s = (s1, Inr x)" "asm_bind m f s = f x s1"
    have g: "as_Genesis s1 = Some d" using framesD[OF m x(1)] s by (simp add: same_doc_def)
    then have "grows K s1 (fst (f x s1))" using f[OF x(1)] by (simp add: grows_from_def)
    then show ?thesis using x(2) g s by (simp add: grows_def)
  qed
qed

lemma read_doc_Inr: "read_doc K W w s = (s1, Inr d) \<Longrightarrow> as_Genesis s = Some d \<and> s1 = tick s"
  by (auto simp: read_doc_def split: option.splits)

lemma grows_read: "(\<And>d. grows_from K d (f d)) \<Longrightarrow> frames (grows K) (asm_bind (read_doc K' W w) f)"
  unfolding frames_def
proof
  fix s :: asm_state
  assume f: "\<And>d. grows_from K d (f d)"
  show "grows K s (fst (asm_bind (read_doc K' W w) f s))"
  proof (rule asm_bind_cases[of "read_doc K' W w" s f])
    fix s1 e assume "read_doc K' W w s = (s1, Inl e)" "asm_bind (read_doc K' W w) f s = (s1, Inl e)"
    then show ?thesis using framesD[OF growing.frames_reads(3)] by fastforce
  next
    fix s1 d assume d: "read_doc K' W w s = (s1, Inr d)" "asm_bind (read_doc K' W w) f s = f d s1"
    from f[of d] have "grows K (tick s) (fst (f d (tick s)))"
      using read_doc_Inr[OF d(1)] by (simp add: grows_from_def tick_def)
    then show ?thesis using read_doc_Inr[OF d(1)] d(2) by (simp add: grows_def tick_def)
  qed
qed

lemma grows_writeBack:
  assumes "accounts_written K" "addresses K d \<subseteq> set (map account_addr accs)"
  shows "grows_from K d (writeBackAuthAndBank K W d accs bals)"
  unfolding writeBackAuthAndBank_def
proof (intro grows_from_lift grows_from_write)
  fix auth bank assume "gs_PutAuth K (gd_AppState d) accs = Inr auth"
  then obtain accs' where "gs_Accounts K (put ''bank'' bank (put ''auth'' auth (gd_AppState d))) = Inr accs'"
    "set (map account_addr accs) \<subseteq> set (map account_addr accs')"
    using assms(1) unfolding accounts_written_def by blast
  then show "addresses K d \<subseteq> addresses K (d\<lparr>gd_AppState := put ''bank'' bank (put ''auth'' auth (gd_AppState d))\<rparr>)"
    using assms(2) by (auto simp: addresses_def)
qed

lemma missing_extends:
  "missing_accounts K W coins names accs bals s = (s', Inr (accs', bals')) \<Longrightarrow> set (map account_addr accs) \<subseteq> set (map account_addr accs')"
proof (induction names arbitrary: accs bals s)
  case (Cons name names)
  then obtain s1 msgs where rest: "(case msgs of
        CreateValidator m # _ \<Rightarrow>
          asm_bind (asm_lift (''assemble-genesis: parsing delegator address from '' @ name @ '': '') (gs_AccAddress K (mcv_Delegator m))) (\<lambda>a.
          if has_account accs a then missing_accounts K W coins names accs bals
          else missing_accounts K W coins names (accs @ [BaseAccount a]) (bals @ [(gs_AddrString K a, gs_Sort K coins)]))
      | _ \<Rightarrow> missing_accounts K W coins names accs bals) s1 = (s', Inr (accs', bals'))"
    by (auto simp: asm_bind_Inr)
  then show ?case
    by (auto simp: asm_bind_Inr split: list.splits tx_msg.splits if_splits dest!: Cons.IH) blast+
qed auto

lemma grows_addMissing:
  assumes "accounts_written K"
  shows "frames (grows K) (addMissingGenesisAccounts K W balance)"
  unfolding addMissingGenesisAccounts_def
proof (rule growing.frames_bind[OF growing.frames_reads(5)], rule grows_read, rule grows_from_lift, rule grows_from_lift,
    rule grows_from_bind[OF samedoc.frames_missing], clarify)
  fix names coins s s1 accs accs' bals' and d :: GenesisDoc
  assume accs: "gs_Accounts K (gd_AppState d) = Inr accs"
    and more_accs: "missing_accounts K W coins names accs (gs_Balances K (gd_AppState d)) s = (s1, Inr (accs', bals'))"
  have "addresses K d \<subseteq> set (map account_addr accs')" using accs missing_extends[OF more_accs] by (simp add: addresses_def)
  then show "grows_from K d (if length accs' = length accs then asm_return () else writeBackAuthAndBank K W d accs' bals')"
    using grows_writeBack[OF assms] by (simp add: grows_from_frames growing.frames_pure)
qed

lemma external_extends:
  "external_accounts K t es (accs, bals) = Inr (accs', bals') \<Longrightarrow> set (map account_addr accs) \<subseteq> set (map account_addr accs')"
proof (induction es arbitrary: accs bals)
  case (Cons e es)
  then obtain acc bal where "external_accounts K t es (accs @ [acc], bals @ [bal]) = Inr (accs', bals')"
    by (auto split: sum.splits if_splits)
  from Cons.IH[OF this] show ?case by auto
qed auto

lemma addExternal_grows:
  assumes "accounts_written K"
  shows "frames (grows K) (addExternalGenesisAccounts K W es)"
proof (cases "es = []")
  case True
  then show ?thesis by (simp add: addExternalGenesisAccounts_def growing.frames_pure)
next
  case False
  have "grows_from K d (writeBackAuthAndBank K W d accs' bals')"
    if "gs_Accounts K (gd_AppState d) = Inr accs" "external_accounts K (gd_GenesisTime d) es (accs, gs_Balances K (gd_AppState d)) = Inr (accs', bals')"
    for d accs accs' bals'
    using that by (intro grows_writeBack[OF assms]) (use external_extends[OF that(2)] in \<open>simp add: addresses_def\<close>)
  then show ?thesis using False unfolding addExternalGenesisAccounts_def
    by (simp, intro grows_read grows_from_lift) auto
qed

lemma vesting_addr: "vesting_account K t a coins v = Inr acc \<Longrightarrow> account_addr acc = a"
  by (auto simp: vesting_account_def Let_def split: sum.splits if_splits option.splits)

lemma external_adds_first:
  assumes "external_accounts K t (e # es) (accs, bals) = Inr (accs', bals')"
  obtains a where "gs_AccAddress K (gae_Address e) = Inr a" "a \<in> set (map account_addr accs')"
proof -
  from assms obtain a acc bal where a: "gs_AccAddress K (gae_Address e) = Inr a"
    "external_accounts K t es (accs @ [acc], bals @ [bal]) = Inr (accs', bals')" "account_addr acc = a"
    by (auto split: sum.splits if_splits option.splits dest: vesting_addr)
  then show thesis using that external_extends[OF a(2)] by auto
qed

text \<open>The first external account is in the genesis, or the genesis cannot be read; the marker is not there.\<close>

definition stuck :: "gen_sdk \<Rightarrow> AssembleAndUploadGenesisTask \<Rightarrow> asm_state \<Rightarrow> bool" where
  "stuck K cfg s \<longleftrightarrow> agt_Accounts cfg \<noteq> [] \<and> \<not> as_Marker s \<and>
     (\<forall>d. as_Genesis s = Some d \<longrightarrow> (\<exists>a. gs_AccAddress K (gae_Address (hd (agt_Accounts cfg))) = Inr a \<and> a \<in> addresses K d))"

lemma stuck_grows: "stuck K cfg s \<Longrightarrow> grows K s t \<Longrightarrow> \<not> as_Marker t \<Longrightarrow> stuck K cfg t"
  unfolding stuck_def grows_def by blast

lemma addExternal_sets:
  assumes "accounts_written K" "agt_Accounts cfg \<noteq> []" "\<not> as_Marker s"
    and "addExternalGenesisAccounts K W (agt_Accounts cfg) s = (s', Inr ())"
  shows "stuck K cfg s'"
proof -
  obtain e es where es: "agt_Accounts cfg = e # es" using assms(2) by (cases "agt_Accounts cfg") auto
  from assms(4) obtain s1 d accs accs' bals' where ext: "external_accounts K (gd_GenesisTime d) (e # es) (accs, gs_Balances K (gd_AppState d)) = Inr (accs', bals')"
    and wb: "writeBackAuthAndBank K W d accs' bals' s1 = (s', Inr ())"
    by (auto simp: addExternalGenesisAccounts_def asm_bind_Inr es)
  obtain a where a: "gs_AccAddress K (gae_Address e) = Inr a" "a \<in> set (map account_addr accs')" by (rule external_adds_first[OF ext])
  from wb obtain auth bank where auth: "gs_PutAuth K (gd_AppState d) accs' = Inr auth"
    and w: "write_doc W ''assemble-genesis: writing genesis: '' (d\<lparr>gd_AppState := put ''bank'' bank (put ''auth'' auth (gd_AppState d))\<rparr>) s1 = (s', Inr ())"
    by (auto simp: writeBackAuthAndBank_def asm_bind_Inr)
  obtain accs'' where "gs_Accounts K (put ''bank'' bank (put ''auth'' auth (gd_AppState d))) = Inr accs''"
    "set (map account_addr accs') \<subseteq> set (map account_addr accs'')"
    using assms(1) auth unfolding accounts_written_def by blast
  then have "a \<in> addresses K (d\<lparr>gd_AppState := put ''bank'' bank (put ''auth'' auth (gd_AppState d))\<rparr>)"
    using a(2) by (auto simp: addresses_def)
  moreover have "\<not> as_Marker s'"
    using framesD[OF outside.frames_addExternal assms(4)] assms(3) by (simp add: same_outside_def)
  ultimately show ?thesis using assms(2) a(1) write_doc_Inr[OF w] by (simp add: stuck_def es)
qed

lemma addExternal_refused:
  assumes "stuck K cfg s"
  shows "\<exists>e. snd (addExternalGenesisAccounts K W (agt_Accounts cfg) s) = Inl e"
proof (rule ccontr)
  assume "\<not> ?thesis"
  then obtain s' where s': "addExternalGenesisAccounts K W (agt_Accounts cfg) s = (s', Inr ())"
    by (cases "addExternalGenesisAccounts K W (agt_Accounts cfg) s"; cases "snd (addExternalGenesisAccounts K W (agt_Accounts cfg) s)") auto
  obtain e es where es: "agt_Accounts cfg = e # es" using assms by (cases "agt_Accounts cfg") (auto simp: stuck_def)
  from s' obtain s1 d accs x where d: "read_doc K W ''assemble-genesis: reading genesis: '' s = (s1, Inr d)"
    "gs_Accounts K (gd_AppState d) = Inr accs" "external_accounts K (gd_GenesisTime d) (e # es) (accs, gs_Balances K (gd_AppState d)) = Inr x"
    by (auto simp: addExternalGenesisAccounts_def asm_bind_Inr es simp del: external_accounts.simps)
  obtain a where "gs_AccAddress K (gae_Address e) = Inr a" "a \<in> addresses K d"
    using assms read_doc_Inr[OF d(1)] by (auto simp: stuck_def es)
  then show False using d(2,3) by (simp add: addresses_def has_account_def)
qed

lemma override_spares:
  assumes "apply_override app key v = Inr app'" "hd (split_on (CHR ''.'') key) \<noteq> ''auth''"
  shows "map_of app' ''auth'' = map_of app ''auth''"
  using assms by (auto simp: apply_override_def Let_def split: if_splits option.splits sum.splits)

lemma overrides_spare:
  "applyGenesisOverrides app os = Inr app' \<Longrightarrow> list_all (\<lambda>kv. hd (split_on (CHR ''.'') (fst kv)) \<noteq> ''auth'') os \<Longrightarrow>
   map_of app' ''auth'' = map_of app ''auth''"
  by (induction app os rule: applyGenesisOverrides.induct) (auto split: sum.splits dest: override_spares)

definition sdk_documented :: "gen_sdk \<Rightarrow> bool" where
  "sdk_documented K \<longleftrightarrow> accounts_written K \<and> accounts_under_auth K \<and> collect_keeps_accounts K"

lemma grows_collect:
  assumes "collect_keeps_accounts K"
  shows "frames (grows K) (collectGentxs K W)"
  unfolding collectGentxs_def
proof (rule growing.frames_bind[OF growing.frames_pure(4)], rule grows_read)
  fix d :: GenesisDoc
  have *: "grows_from K d (write_doc W w d')" if "gs_Collect K dir d = Inr d'" for dir d' w
    using assms that by (intro grows_from_write) (auto simp: collect_keeps_accounts_def addresses_def)
  show "grows_from K d (asm_bind (\<lambda>s. asm_lift ''assemble-genesis: collect-gentxs: '' (gs_Collect K (as_Dir s) d) s)
      (write_doc W ''assemble-genesis: collect-gentxs: ''))"
    by (rule grows_from_bind) (auto simp: frames_def samedoc.frames_pure[unfolded frames_def] intro: *)
qed

lemma grows_overrides:
  assumes "accounts_under_auth K" "overrides_spare_auth cfg"
  shows "frames (grows K) (applyOverrides K W (agt_Overrides cfg))"
proof -
  have "grows_from K d (asm_bind (asm_lift ''assemble-genesis: '' (applyGenesisOverrides (gd_AppState d) (agt_Overrides cfg)))
      (\<lambda>app. write_doc W ''assemble-genesis: writing genesis after overrides: '' (d\<lparr>gd_AppState := app\<rparr>)))" for d
  proof (rule grows_from_lift, rule grows_from_write)
    fix app assume "applyGenesisOverrides (gd_AppState d) (agt_Overrides cfg) = Inr app"
    from overrides_spare[OF this] have "map_of app ''auth'' = map_of (gd_AppState d) ''auth''"
      using assms(2) by (simp add: overrides_spare_auth_def)
    then have "gs_Accounts K app = gs_Accounts K (gd_AppState d)" using assms(1) unfolding accounts_under_auth_def by blast
    then show "addresses K d \<subseteq> addresses K (d\<lparr>gd_AppState := app\<rparr>)" by (simp add: addresses_def)
  qed
  then show ?thesis by (simp add: applyOverrides_def growing.frames_pure grows_read)
qed

lemma grows_consensus: "frames (grows K) (applyConsensusParams K W params)"
proof (cases params)
  case None
  then show ?thesis by (simp add: applyConsensusParams_def growing.frames_pure)
next
  case (Some p)
  have w: "grows_from K d (asm_bind (write_doc W w (d\<lparr>gd_ConsensusParams := c\<rparr>)) (\<lambda>_. asm_bind (read_doc K W w') (\<lambda>_. asm_return ())))"
    for d w w' c
    unfolding grows_from_def
  proof (intro allI impI)
    fix s :: asm_state
    let ?m = "write_doc W w (d\<lparr>gd_ConsensusParams := c\<rparr>)" and ?f = "\<lambda>_::unit. asm_bind (read_doc K W w') (\<lambda>_. asm_return ())"
    assume s: "as_Genesis s = Some d"
    have m: "grows K s (fst (?m s))"
      using grows_from_write[of K d "d\<lparr>gd_ConsensusParams := c\<rparr>" W w] s by (simp add: grows_from_def addresses_def)
    have f: "frames (grows K) (?f x)" for x by (intro growing.frames_bind growing.frames_reads growing.frames_pure)
    show "grows K s (fst (asm_bind ?m ?f s))"
      by (rule asm_bind_cases[of ?m s ?f]) (use m f[unfolded frames_def] growing.R_trans in \<open>metis fst_conv\<close>)+
  qed
  show ?thesis unfolding applyConsensusParams_def Some
    by (simp, rule grows_read, rule grows_from_lift, rule grows_from_lift, rule grows_from_lift, rule w)
qed

lemma grows_populate: "frames (grows K) (populateGenesisValidators K W)"
  unfolding populateGenesisValidators_def
  by (rule grows_read, rule grows_from_lift)
    (auto simp: Let_def addresses_def intro!: grows_from_write grows_from_frames[OF growing.frames_pure(2)])

lemma grows_finish:
  assumes "sdk_documented K" "overrides_spare_auth cfg"
  shows "frames (grows K) (finish_doc K W cfg)"
  using assms unfolding finish_doc_def sdk_documented_def
  by (intro growing.frames_bind grows_collect grows_overrides grows_consensus grows_populate) auto

fun asm_runs :: "gen_sdk \<Rightarrow> assembler \<Rightarrow> AssembleAndUploadGenesisTask \<Rightarrow> asm_state \<Rightarrow> asm_world list \<Rightarrow> string option result list" where
  "asm_runs K A cfg s [] = []"
| "asm_runs K A cfg s (W # Ws) = (case assemble_Handler K W A cfg s of (s', r) \<Rightarrow> r # asm_runs K A cfg s' Ws)"

lemma prepare_stuck:
  assumes sdk: "sdk_documented K" and s: "stuck K cfg s" and run: "prepare_accounts K W A cfg s = (s', r)"
  shows "(\<exists>e. r = Inl e) \<and> stuck K cfg s'"
proof -
  let ?pre = "\<lambda>f. asm_bind (downloadGentxFiles W A (agt_Nodes cfg)) (\<lambda>_. asm_bind (verifyAssembledGentxs K W (agt_Nodes cfg)) (\<lambda>_.
      asm_bind (addMissingGenesisAccounts K W (agt_AccountBalance cfg)) f))"
  have kept: "frames (grows K) (?pre asm_return)" "frames same_outside (?pre asm_return)"
    using sdk unfolding sdk_documented_def
    by (intro growing.frames_bind outside.frames_bind growing_dir.frames_downloadGentxFiles outside.frames_downloadGentxFiles growing.frames_verify
        outside.frames_verify grows_addMissing outside.frames_addMissing growing.frames_pure outside.frames_pure; simp)+
  have split_run: "prepare_accounts K W A cfg = asm_bind (?pre asm_return) (\<lambda>_. addExternalGenesisAccounts K W (agt_Accounts cfg))"
    by (simp add: prepare_accounts_def asm_bind_def asm_return_def fun_eq_iff split: prod.split sum.split)
  show ?thesis
  proof (rule asm_bind_cases[of "?pre asm_return" s "\<lambda>_. addExternalGenesisAccounts K W (agt_Accounts cfg)"])
    fix s1 e assume m: "?pre asm_return s = (s1, Inl e)"
      and b: "asm_bind (?pre asm_return) (\<lambda>_. addExternalGenesisAccounts K W (agt_Accounts cfg)) s = (s1, Inl e)"
    have "stuck K cfg s1"
      using stuck_grows[OF s framesD[OF kept(1) m]] framesD[OF kept(2) m] s by (simp add: same_outside_def stuck_def)
    then show ?thesis using run b unfolding split_run by auto
  next
    fix s1 x assume m: "?pre asm_return s = (s1, Inr x)"
      and b: "asm_bind (?pre asm_return) (\<lambda>_. addExternalGenesisAccounts K W (agt_Accounts cfg)) s = addExternalGenesisAccounts K W (agt_Accounts cfg) s1"
    have s1: "stuck K cfg s1"
      using stuck_grows[OF s framesD[OF kept(1) m]] framesD[OF kept(2) m] s by (simp add: same_outside_def stuck_def)
    have e: "addExternalGenesisAccounts K W (agt_Accounts cfg) s1 = (s', r)" using run b unfolding split_run by simp
    obtain err where err: "r = Inl err" using addExternal_refused[OF s1, of W] e by auto
    have "grows K s1 s'" using addExternal_grows[of K W "agt_Accounts cfg"] sdk e framesD unfolding sdk_documented_def by blast
    moreover have "\<not> as_Marker s'" using framesD[OF outside.frames_addExternal e] s1 by (simp add: same_outside_def stuck_def)
    ultimately show ?thesis using stuck_grows[OF s1] err by blast
  qed
qed

lemma Handler_stuck:
  assumes sdk: "sdk_documented K" and s: "stuck K cfg s" and run: "assemble_Handler K W A cfg s = (s', r)"
  shows "(\<exists>e. r = Inl e) \<and> stuck K cfg s'"
proof -
  have tick_s: "stuck K cfg (tick s)" using s by (simp add: stuck_def tick_def)
  have m: "markerExists W s = (tick s, Inr False)" using s by (simp add: markerExists_def stuck_def)
  show ?thesis
  proof (cases "check_assemble_request cfg")
    case (Some e)
    then show ?thesis using run m tick_s
      by (auto simp: assemble_Handler_def asm_bind_run(1)[of "markerExists W", OF m] asm_bind_run(2)[OF asm_check_run(2)])
  next
    case None
    obtain s1 r1 where p: "prepare_accounts K W A cfg (tick s) = (s1, r1)" by (cases "prepare_accounts K W A cfg (tick s)")
    from prepare_stuck[OF sdk tick_s p] obtain e where e: "r1 = Inl e" "stuck K cfg s1" by blast
    then show ?thesis using run None
      by (auto simp: assemble_Handler_def asm_bind_run(1)[of "markerExists W", OF m] asm_bind_run(1)[OF asm_check_run(1)]
          asm_bind_run(2)[of "prepare_accounts K W A cfg", OF p[unfolded e(1)]])
  qed
qed

lemma runs_stuck:
  "sdk_documented K \<Longrightarrow> stuck K cfg s \<Longrightarrow> list_all (\<lambda>r. \<exists>e. r = Inl e) (asm_runs K A cfg s Ws)"
proof (induction Ws arbitrary: s)
  case (Cons W Ws)
  obtain s' r where run: "assemble_Handler K W A cfg s = (s', r)" by (cases "assemble_Handler K W A cfg s")
  show ?case using Handler_stuck[OF Cons.prems run] Cons.IH[OF Cons.prems(1)] by (simp add: run)
qed simp

lemma Handler_after_prepare:
  assumes marker: "\<not> as_Marker s" and sdk: "sdk_documented K" "overrides_spare_auth cfg" "agt_Accounts cfg \<noteq> []"
    and params: "check_assemble_request cfg = None" and p: "prepare_accounts K W A cfg (tick s) = (s1, Inr ())" and run: "assemble_Handler K W A cfg s = (s', Inl e)" "\<not> as_Marker s'"
  shows "stuck K cfg s'"
proof -
  have s1: "\<not> as_Marker s1" using framesD[OF outside.frames_prepare p] marker by (simp add: same_outside_def tick_def)
  from p obtain s0 where ext: "addExternalGenesisAccounts K W (agt_Accounts cfg) s0 = (s1, Inr ())"
    by (auto simp: prepare_accounts_def asm_bind_Inr)
  have "\<not> as_Marker s0" using framesD[OF outside.frames_addExternal ext] s1 by (simp add: same_outside_def)
  then have st: "stuck K cfg s1" using addExternal_sets[OF _ sdk(3) _ ext] sdk(1) by (simp add: sdk_documented_def)
  let ?rest = "asm_bind (finish_doc K W cfg) (\<lambda>_. asm_bind (publish K W A cfg) (\<lambda>h. asm_bind (writeMarker W) (\<lambda>_. asm_return (Some h))))"
  have "frames (grows K) (writeMarker W)"
    unfolding writeMarker_def by (intro growing.frames_io) (auto simp: grows_def)
  then have kept: "frames (grows K) ?rest"
    by (intro growing.frames_bind grows_finish[OF sdk(1,2)] growing.frames_publish growing.frames_pure)
  have m: "markerExists W s = (tick s, Inr False)" using marker by (simp add: markerExists_def)
  have "assemble_Handler K W A cfg s = ?rest s1"
    using params
    by (simp add: assemble_Handler_def asm_bind_run(1)[of "markerExists W", OF m] asm_bind_run(1)[OF asm_check_run(1)]
        asm_bind_run(1)[of "prepare_accounts K W A cfg", OF p])
  then show ?thesis using run framesD[OF kept] stuck_grows[OF st] by metis
qed

text \<open>
  C26. External accounts make the ceremony unrepeatable: once a run whose overrides name no key of module auth has written them into
  genesis.json and then failed before leaving its marker (an upload refused, an identity not there yet), every later run with
  the same request on that volume fails, whatever the file system and the object store answer.  The accounts the first run added are
  taken for a collision.  Of the SDK it takes what is documented: accounts live under auth, and neither writing them back nor
  collecting the gentxs loses one.
\<close>
theorem external_accounts_unrepeatable:
  assumes "sdk_documented K" "overrides_spare_auth cfg" "agt_Accounts cfg \<noteq> []" "check_assemble_request cfg = None" "\<not> as_Marker s"
    and "prepare_accounts K W A cfg (tick s) = (s1, Inr ())"
    and "assemble_Handler K W A cfg s = (s', Inl e)" "\<not> as_Marker s'"
  shows "list_all (\<lambda>r. \<exists>e. r = Inl e) (asm_runs K A cfg s' Ws)"
  using runs_stuck[OF assms(1) Handler_after_prepare[OF assms(5,1-3) assms(4) assms(6-8)]] .

text \<open>Overrides arrive in a Go map: of two keys of which one extends the other, the order of the iteration decides the genesis.\<close>

lemma overlapping_overrides_depend_on_order:
  "applyGenesisOverrides [(''gov'', JObject [])] [(''gov.p'', JObject []), (''gov.p.x'', JBool True)] \<noteq>
   applyGenesisOverrides [(''gov'', JObject [])] [(''gov.p.x'', JBool True), (''gov.p'', JObject [])]"
  by code_simp

subsection \<open>Concrete runs\<close>

definition demo_accounts :: "table \<Rightarrow> genesis_account list" where
  "demo_accounts app = (case map_of app ''auth'' of
     Some (JArray js) \<Rightarrow> map (\<lambda>j. BaseAccount (case j of JString a \<Rightarrow> a | _ \<Rightarrow> [])) js | _ \<Rightarrow> [])"

definition demo_asm_sdk :: gen_sdk where
  "demo_asm_sdk = \<lparr>
     gs_Decode = (\<lambda>data. Ok [CreateValidator \<lparr>mcv_Delegator = data, mcv_Validator = data, mcv_Pubkey = Some data, mcv_Value = 5, mcv_ValueText = ''5''\<rparr>]),
     gs_DocCheck = (\<lambda>_. None), gs_Accounts = (\<lambda>app. Ok (demo_accounts app)), gs_Balances = (\<lambda>_. []),
     gs_PutAuth = (\<lambda>_ accs. Ok (JArray (map (\<lambda>x. JString (account_addr x)) accs))), gs_PutBank = (\<lambda>_ _. Ok JNull),
     gs_AccAddress = Ok, gs_AddrString = (\<lambda>a. a), gs_ParseCoins = (\<lambda>_. Ok []), gs_Sort = (\<lambda>c. c), gs_AllPositive = (\<lambda>_. True),
     gs_AllGTE = (\<lambda>_ _. True), gs_CoinsText = (\<lambda>_. []), gs_AccountCheck = (\<lambda>_. None), gs_ValidatorFiles = None,
     gs_Collect = (\<lambda>_ d. Ok d), gs_MaxValidators = (\<lambda>_. 10), gs_GenTxs = (\<lambda>_. [''v'']), gs_UnpackKey = (\<lambda>_. Ok ''k''),
     gs_TmPubKey = (\<lambda>k. Ok (k, k)), gs_PowerReduction = ''1'', gs_Power = (\<lambda>v. v), gs_Encode = (\<lambda>_. ''g''), gs_HexSum256 = (\<lambda>_. ''h''),
     gs_ParseJson = (\<lambda>_. Ok (JObject [(''node_key'', JObject [(''id'', JString ''n'')])])), gs_FloatText = (\<lambda>t. t),
     gs_ParseDuration = (\<lambda>_. Ok 1), gs_DurationString = (\<lambda>_. []), gs_SplitHostPort = (\<lambda>_. Ok ([], [])), gs_ParseURL = (\<lambda>_. Ok ([], [], False))\<rparr>"

definition demo_asm_world :: "bool \<Rightarrow> asm_world" where
  "demo_asm_world up = \<lparr>aw_io = (\<lambda>_. None), aw_client = (\<lambda>_. None), aw_get = (\<lambda>_ _. Inr (Ok ''v'')),
     aw_put = (\<lambda>_ _ _. if up then None else Some (OtherFault ''refused''))\<rparr>"

definition demo_asm_state :: asm_state where
  "demo_asm_state = \<lparr>as_Calls = 0, as_Marker = False, as_Dir = [],
     as_Genesis = Some \<lparr>gd_ChainID = ''c'', gd_GenesisTime = 0, gd_AppState = [], gd_ConsensusParams = None, gd_Validators = []\<rparr>, as_Uploads = []\<rparr>"

definition demo_asm_cfg :: AssembleAndUploadGenesisTask where
  "demo_asm_cfg = \<lparr>agt_AccountBalance = ''1usei'', agt_Namespace = ''ns'', agt_Nodes = [''a''],
     agt_Accounts = [\<lparr>gae_Address = ''x'', gae_Balance = ''1usei'', gae_Vesting = None\<rparr>], agt_Overrides = [], agt_ConsensusParams = None,
     agt_Autobahn = False, agt_AutobahnConfig = None\<rparr>"

definition demo_assembler :: assembler where
  "demo_assembler = \<lparr>ga_Bucket = ''b'', ga_Region = ''r'', ga_ChainID = ''c''\<rparr>"

lemmas demo_asm = demo_asm_sdk_def demo_asm_world_def demo_asm_state_def demo_asm_cfg_def demo_assembler_def

lemma demo_ok: "snd (assemble_Handler demo_asm_sdk (demo_asm_world True) demo_assembler demo_asm_cfg demo_asm_state) = Inr (Some ''h'')"
  by code_simp

lemma demo_prepared: "snd (prepare_accounts demo_asm_sdk (demo_asm_world False) demo_assembler demo_asm_cfg (tick demo_asm_state)) = Inr ()"
  by code_simp

lemma demo_refused:
  "(case assemble_Handler demo_asm_sdk (demo_asm_world False) demo_assembler demo_asm_cfg demo_asm_state of
     (s', Inl e) \<Rightarrow> \<not> as_Marker s' | (s', Inr _) \<Rightarrow> False)"
  by code_simp

lemma demo_documented: "sdk_documented demo_asm_sdk"
proof -
  have "accounts_written demo_asm_sdk"
    by (simp add: accounts_written_def demo_asm_sdk_def demo_accounts_def comp_def image_image)
  then show ?thesis
    by (simp add: sdk_documented_def accounts_under_auth_def collect_keeps_accounts_def) (simp add: demo_asm_sdk_def demo_accounts_def)
qed

theorem assembled_genesis_published_witness:
  "\<exists>s'. assemble_Handler demo_asm_sdk (demo_asm_world True) demo_assembler demo_asm_cfg demo_asm_state = (s', Inr (Some ''h'')) \<and> as_Marker s' \<and>
    (\<exists>d us. as_Genesis s' = Some d \<and> as_Uploads s' = as_Uploads demo_asm_state @ us \<and>
       published demo_asm_sdk demo_assembler demo_asm_cfg d us \<and> validators_ok demo_asm_sdk d)"
proof -
  obtain s' where run: "assemble_Handler demo_asm_sdk (demo_asm_world True) demo_assembler demo_asm_cfg demo_asm_state = (s', Inr (Some ''h''))"
    using demo_ok by (cases "assemble_Handler demo_asm_sdk (demo_asm_world True) demo_assembler demo_asm_cfg demo_asm_state") auto
  show ?thesis using assembled_genesis_published[OF run] run by blast
qed

theorem external_accounts_unrepeatable_witness:
  "\<exists>s' e. assemble_Handler demo_asm_sdk (demo_asm_world False) demo_assembler demo_asm_cfg demo_asm_state = (s', Inl e) \<and>
    (\<forall>Ws. list_all (\<lambda>r. \<exists>e. r = Inl e) (asm_runs demo_asm_sdk demo_assembler demo_asm_cfg s' Ws))"
proof -
  obtain s' e where run: "assemble_Handler demo_asm_sdk (demo_asm_world False) demo_assembler demo_asm_cfg demo_asm_state = (s', Inl e)" "\<not> as_Marker s'"
    using demo_refused by (auto split: prod.splits sum.splits)
  obtain s1 where p: "prepare_accounts demo_asm_sdk (demo_asm_world False) demo_assembler demo_asm_cfg (tick demo_asm_state) = (s1, Inr ())"
    using demo_prepared
    by (cases "prepare_accounts demo_asm_sdk (demo_asm_world False) demo_assembler demo_asm_cfg (tick demo_asm_state)") auto
  have side: "overrides_spare_auth demo_asm_cfg" "agt_Accounts demo_asm_cfg \<noteq> []" "check_assemble_request demo_asm_cfg = None" "\<not> as_Marker demo_asm_state"
    by (simp_all add: overrides_spare_auth_def demo_asm_cfg_def check_assemble_request_def demo_asm_state_def)
  show ?thesis using external_accounts_unrepeatable[OF demo_documented side p run] run(1) by blast
qed

end
