(* ===== verification/Spec2Isabelle.thy ===== *)
theory Spec2Isabelle
  imports ExecutorProps StartSafety ResolveProps OverlayProps InfraProps PlanInvariant SidecarServer SignProps NodeTaskProps NetworkOutcome ResetProps ConfigPatch
    SeidProps DivergenceProps GovProps RenderProps GenesisProps
begin

text \<open>
  \<^bold>\<open>The Sei node controller and its sidecar\<close>

  The program is a Kubernetes controller.  Every reconcile of a \<open>SeiNode\<close> object resolves a plan
  from the difference between its spec and its status (\<open>src/internal/planner\<close>), and drives that
  plan's tasks (\<open>src/internal/task\<close>) until the next one has to wait.  A task either works on the
  API server directly or is submitted to a sidecar that runs next to the chain daemon \<open>seid\<close>.  Plan
  and status are persisted between reconciles, so the plan stored in the status is the controller's
  only memory.  A workflow is a second object that a node may adopt: while it does, the workflow's plan
  runs on the node and the node's own plan waits.  A \<open>SeiNetwork\<close> object owns a set of validators, whose
  \<open>SeiNode\<close> objects it creates, keeps in line with its spec and takes through the genesis ceremony with a plan
  of its own (\<open>src/internal/controller/seinetwork\<close>).  The sidecar is a task engine over a SQLite store
  behind an HTTP interface (\<open>src/sidecar\<close>): the store is its memory, from which it recovers after a
  crash.

  \<^bold>\<open>Theories\<close>

  \<^item> \<open>Prelude\<close>: the result type of fallible Go functions and its sequencing, decimal printing, list
    scans, and the order relation on task lists that the plan theorems use.
  \<^item> \<open>Conditions\<close>: the status-condition helpers of the API machinery as a locale over the laws the
    code relies on, and the reference instance.
  \<^item> \<open>Json\<close>, \<open>CanonicalNumber\<close>: decoded JSON values and the canonical form of JSON numbers
    (\<open>canonicalJSONNumber\<close>).
  \<^item> \<open>ApiTypes\<close>, \<open>ApiMethods\<close>: the custom resource (\<open>src/api/v1alpha1\<close>): spec, status, plan, task,
    and their methods.  Third-party functions (the SHA-1 UUID, SHA-256, the condition helpers and
    the constants of the chain's configuration library) are the fields of the record \<open>ext\<close>.
  \<^item> \<open>ConfigOverlay\<close>: \<open>config_overlay.go\<close> and \<open>consensus_overlay.go\<close>.
  \<^item> \<open>PlanBuilder\<close>: the plan-building half of \<open>planner.go\<close>, with drift detection.
  \<^item> \<open>ModePlanners\<close>: one planner per node mode, genesis ceremony, configuration update.
  \<^item> \<open>StartGuard\<close>: when \<open>seid\<close> may be started (\<open>start_guard.go\<close>).
  \<^item> \<open>Maintenance\<close>: \<open>maintenance.go\<close> and \<open>data_reset.go\<close>.
  \<^item> \<open>StaticPlanner\<close>: \<open>static_config.go\<close>, the planner of ConfigMap-configured nodes.
  \<^item> \<open>DriftBudget\<close>: \<open>drift_budget.go\<close>, how many nodes of a namespace may roll at once.
  \<^item> \<open>ResolvePlan\<close>: \<open>handleTerminalPlan\<close>, the gates and \<open>ResolvePlan\<close> of \<open>planner.go\<close>.
  \<^item> \<open>TaskExec\<close>, \<open>InfraTasks\<close>: the task implementations.  The API server and the sidecar are a
    record \<open>world\<close> whose answers may depend on all calls made before, so nothing is assumed of
    them; the calls themselves are collected in a trace.
  \<^item> \<open>Executor\<close>: \<open>executor.go\<close>.  Its loop is a function with a termination proof: each turn
    completes the current task or stops.
  \<^item> \<open>Platform\<close>: the platform configuration (\<open>src/internal/platform\<close>), its resolution from the application-config file
    and its validation.
  \<^item> \<open>NodeRender\<close>, \<open>NodePod\<close>: the rendering of a node's manifests (\<open>src/internal/noderesource\<close>): labels, scheduling and
    sizes, then volumes, containers, probes and the StatefulSet, Service, claim and ConfigMap.
  \<^item> \<open>WorkflowPlan\<close>: the workflow object and the planner of its recipes
    (\<open>src/internal/planner/workflow.go\<close>).
  \<^item> \<open>NodeGates\<close>, \<open>WorkflowControl\<close>, \<open>NodeReconcile\<close>: the reconciler of \<open>SeiNode\<close>
    (\<open>src/internal/controller/node\<close>): the gates that resolve peers, state-sync witnesses and endpoints,
    the adoption and execution of workflows, and \<open>Reconcile\<close> itself with its status writes.  The API
    server of a reconcile is the record \<open>cworld\<close>, whose answers may depend on the whole trace of calls;
    the clock is read once per reconcile.
  \<^item> \<open>GoTime\<close>: RFC 3339 timestamps, their calendar and their text.
  \<^item> \<open>SidecarStore\<close>: the \<open>ResultStore\<close> interface and the SQLite store (\<open>src/sidecar/engine\<close>), with a
    script of statement faults; \<open>StoreProps\<close>: the contract of a store as the locale \<open>result_store\<close>,
    interpreted on the SQLite store.
  \<^item> \<open>SidecarEngine\<close>: \<open>Submit\<close>, \<open>runTaskSync\<close>, \<open>RehydrateStaleTasks\<close>, \<open>RemoveResult\<close> and the two
    readiness handlers; \<open>EngineProps\<close>: their laws over any store that keeps the contract (locale
    \<open>engine_store\<close>); \<open>EngineMachine\<close>: the engine's threads and their interleavings.
  \<^item> \<open>SidecarServer\<close>: routes, authentication and handlers of \<open>src/sidecar/server\<close>.
  \<^item> \<open>RequestTypes\<close>, \<open>GoJson\<close>: the typed requests of transaction and genesis tasks with their validation
    (\<open>src/sidecarapi/client\<close>), and decoding JSON into Go structs.
  \<^item> \<open>SignTx\<close>: signing and broadcasting transactions (\<open>src/sidecar/tasks/sign_and_broadcast.go\<close>).  The local
    node, the Cosmos SDK, the time calls take and the cancellation of the task are the record \<open>txworld\<close>.
    Its polling loops are functions whose termination is proved by the deadline they run against.
  \<^item> \<open>GoFiles\<close>, \<open>GoStrconv\<close>: the file calls of the sidecar over a tree of entries, with a script that says of
    every call whether it proceeds, is refused or is where the process dies (locale \<open>disk_relation\<close>: what every call
    keeps, a composed function keeps); path names; \<open>tomlpatch/file.go\<close> and \<open>toml.go\<close>; numbers read from text.
  \<^item> \<open>ResetData\<close>, \<open>ConfigPatch\<close>: the reset of the data directory and the patch of the configuration files
    (\<open>src/sidecar/tasks/reset_data.go\<close>, \<open>config.go\<close>, \<open>tomlpatch/merge.go\<close>); the TOML codec is an argument.
  \<^item> \<open>GovHandlers\<close>: the vote, unjail and proposal tasks (\<open>src/sidecar/tasks/gov_*.go\<close>, \<open>unjail.go\<close>) on top of
    \<open>SignTx\<close>, with the requests the client sends them; keyring, addresses, messages and chain queries of the Cosmos SDK
    are the record \<open>gov_sdk\<close>.
  \<^item> \<open>GenesisAssembly\<close>: the genesis ceremony's assembler (\<open>src/sidecar/tasks/assemble_genesis*.go\<close>,
    \<open>genesis_overrides.go\<close>, \<open>genesis_writeback.go\<close>, the rendering of \<open>autobahn.go\<close>): gentxs, accounts, overrides, consensus
    parameters, validator set, publication.  The Cosmos SDK is the record \<open>gen_sdk\<close>, files and object store are \<open>asm_world\<close>.
  \<^item> \<open>LocalRpc\<close>, \<open>SeidProcess\<close>: the client of the node's RPC (\<open>src/sidecar/rpc\<close>) and the tasks that stop, restart
    and await \<open>seid\<close> (\<open>src/sidecar/actions\<close>, \<open>stop_seid.go\<close>, \<open>restart_seid.go\<close>, \<open>await_condition.go\<close>).  The pod is a record
    whose answers depend on all events before; a loop around a \<open>select\<close> consumes a list of wake-ups.
  \<^item> \<open>HashLogReader\<close>, \<open>HashLogCompare\<close>: the divergence monitor (\<open>src/internal/hashlogcompare\<close>): the reader that tails a
    node's hash log over HTTP, and the comparison of two of them.
  \<^item> \<open>NodeTask\<close>: the \<open>SeiNodeTask\<close> resource, the parameters of its kinds and its reconciler
    (\<open>src/internal/controller/nodetask\<close>); \<open>CondView\<close>: reading back conditions.
  \<^item> \<open>NetworkTypes\<close>, \<open>NetworkControl\<close>, \<open>NetworkReconcile\<close>: the \<open>SeiNetwork\<close> resource, the group planner
    (\<open>src/internal/planner/group.go\<close>) and the reconciler of networks.  Its API server is the record \<open>nworld\<close>, whose
    answers depend on all calls made before; a write is in the trace whether or not it was refused.
    \<open>NetworkSteps\<close>, \<open>NetworkGates\<close>, \<open>NetworkPlan\<close>: the locale of step relations, what each step may do to the
    children, and the ceremony plan in the executor.
  \<^item> \<open>Fixtures\<close>, \<open>ExecFixtures\<close>, \<open>ControlFixtures\<close>: the concrete node, platform and worlds the examples
    evaluate.
  \<^item> \<open>PlanShape\<close>, \<open>ResolveProps\<close>, \<open>ExecutorProps\<close>, \<open>StartSafety\<close>, \<open>NumberProps\<close>, \<open>OverlayProps\<close>,
    \<open>InfraProps\<close>, \<open>GateProps\<close>, \<open>WorkflowProps\<close>, \<open>ReconcileProps\<close>, \<open>PlanInvariant\<close>, \<open>SidecarProps\<close>,
    \<open>SignProps\<close>, \<open>NodeTaskProps\<close>, \<open>NetworkProps\<close>, \<open>NetworkCeremony\<close>, \<open>NetworkOutcome\<close>, \<open>ResetProps\<close>, \<open>SeidProps\<close>, \<open>GovProps\<close>,
    \<open>RenderProps\<close>, \<open>GenesisProps\<close>,
    \<open>HashLogProps\<close>, \<open>DivergenceProps\<close>: the theorems.

  \<^bold>\<open>What is shown\<close>

  \<^item> The executor: the plan invariant is kept by every reconcile, one call has exactly three
    outcomes, a failing task is retried exactly up to its bound and on a fixed schedule of waits, and a
    plan whose tasks all succeed completes in one call (\<open>ExecutorProps\<close>).
  \<^item> The start guard: no sequence of tasks submits a start of \<open>seid\<close> on a node whose data still has
    to be reset, or that is held (\<open>StartSafety\<close>, by a locale whose laws the registry of task
    implementations is shown to satisfy).
  \<^item> The planners: which tasks each plan holds and in which order, that a held node is never
    released, and that task ids are unique in a plan (\<open>PlanShape\<close>).
  \<^item> Resolution: an Active plan is never replaced, what a terminal plan leaves behind, which plans
    are installed, and the bound on simultaneous rolls (\<open>ResolveProps\<close>).
  \<^item> The overlay: its leaves are exactly what the operator and the engine set, and the hash that
    detects drift depends on values, not on order or spelling (\<open>OverlayProps\<close>, \<open>NumberProps\<close>).
  \<^item> The infrastructure tasks: which pods, claims and StatefulSets they may delete or create
    (\<open>InfraProps\<close>).

  \<^item> The manifests: the operator keyring reaches no container but its own, every pod is well formed, a
    validated configuration renders every node whose pool is offered, a dedicated node is isolated in both directions, the
    images read back are the ones asked for, memory is requested and limited alike (\<open>RenderProps\<close>).
  \<^item> The gates: a bootstrap that needs state sync waits for two distinct witnesses, and an EVM-only
    node publishes an endpoint exactly while its pod vouches for it (\<open>GateProps\<close>).
  \<^item> Workflows: what a reconcile may submit for an adopted workflow, when the pointer may go, the
    order in which an adoption is committed, the recipe a workflow compiles to, and that a recipe which stops
    compiling before its first plan holds the node for ever
    (\<open>WorkflowProps\<close>, \<open>PlanInvariant\<close>).
  \<^item> The reconcile as a whole: the status in memory is persisted or an error is reported, a paused or
    Failed node is left alone, an occupied node keeps its plan, and the plan invariant is kept
    (\<open>ReconcileProps\<close>, \<open>PlanInvariant\<close>).
  \<^item> The sidecar: rows survive the round trip through the database, submission refines the task
    lifecycle, a node hold survives crash recovery, a live run is cancelled only by a DELETE of its
    own task; and executions in which the engine does not keep what it documents
    (\<open>SidecarProps\<close>).  In trusted-header mode nothing but the probes is served without the header, and a
    download never leaves the hash-log directory (\<open>SidecarServer\<close>).

  \<^item> Transactions: a task broadcasts one signed transaction however often its process dies, only after every
    guard has passed, with a bounded number of calls (\<open>SignProps\<close>).  A task succeeds only when its transaction was seen
    committed or its effect read from the chain, an unjail is sent only for a validator the chain would release
    and a request reaches its handler as it was sent, but for the spelling of proposed parameter values (\<open>GovProps\<close>).
  \<^item> SeiNodeTask: its life cycle over any reconciles and edits, what it does outside and when, that a
    transaction is never forgotten, and two ways in which a task escapes or misses its deadlines
    (\<open>NodeTaskProps\<close>).
  \<^item> SeiNetwork: which children a reconcile may create, update and delete and when, what its plan may write to them (by the locale
    \<open>bounded_executions\<close> on the registry, \<open>NetworkGates\<close>), what each deletion policy does
    (\<open>NetworkProps\<close>); the ceremony over any sequence of reconciles and edits: plan and conditions agree, completion
    latches, a failed ceremony is rebuilt (\<open>NetworkCeremony\<close>); it is reported complete only with every founding
    validator Running, and Producing only on a fresh height (\<open>NetworkOutcome\<close>).

  \<^item> The sidecar's work on files: the double-sign guard survives every reset, also one that dies half-way, and a
    successful reset leaves nothing else (\<open>ResetProps\<close>); a configuration file is patched as a whole or not at all
    (\<open>ConfigPatch\<close>).
  \<^item> Genesis assembly: what a successful run has published and in which order, the validator set in it, one gentx per
    validator; what any run may publish; and that a failed run with external accounts can never be repeated
    (\<open>GenesisProps\<close>, by locales of frames: what the elementary effects keep, the composed steps keep).
  \<^item> Process control: a stop or restart sends one SIGTERM to a scanned \<open>seid start\<close> and never more, reports success only
    on evidence and returns at its deadline; await-condition acts only on a status it has read (\<open>SeidProps\<close>).
  \<^item> The divergence monitor: tailing a growing file yields its complete lines exactly once (\<open>HashLogProps\<close>), and the
    gauge is set exactly when two rows of one height differ (\<open>DivergenceProps\<close>).

  \<^bold>\<open>Bounds\<close>

  No definition uses fuel; the sixteen reads of one \<open>Poll\<close> are the code's own bound, and the list of wake-ups of a
  \<open>select\<close> loop is what happened so far: a loop that has used it up is still waiting, and is said to be.  Go's \<open>int\<close> and \<open>int64\<close> counters (retries, generations, indices) are
  \<open>int\<close> or \<open>nat\<close>: they are incremented at most once per reconcile from zero.  The byte count behind GOMEMLIMIT is an \<open>int\<close>
  too; the code's product could only wrap for a memory limit of many petabytes.

  \<^bold>\<open>Not modelled\<close>

  Log lines, events and metrics (but for the counter of active plans); the server-side application of the rendered
  manifests, which the tasks take from the world record; the sidecar's task handlers but for readiness, transactions, process control, genesis assembly, data reset and configuration patch, its schema migrations and its key handling; the SDK and the
  monitors.  Some corners are simplified: a submission that returns an error is not in the trace of calls; after a patch of a
  workflow the object in memory is the one sent, not the server's answer; decoding the stored parameters of a planned task
  does not fail; and the sidecar's recovery is over before the goroutines it starts make their first step.
\<close>

end
